(* ===== verification/Prelude.thy ===== *)
theory Prelude
  imports Main "HOL-Library.Word"
begin

text \<open>
  The shared vocabulary of the development: the widths of the Rust integers, single-bit
  flags and writable-field masks on machine words, little-endian byte views of words, and
  the lemma collections the component theories feed to the simplifier.

  Rust's unsigned integers are words of their width, so \<open>+\<close>, \<open>-\<close> and \<open>*\<close> wrap as
  \<open>wrapping_add\<close> and its kin do and as the plain operators do in a release build
  (\<open>Cargo.toml\<close> leaves overflow checks off there).  An \<open>i32\<close> is a 32-bit word read
  with \<^term>\<open>sint\<close>.  A \<open>usize\<close> is a natural number: every one in the modelled code is an
  index or a sum of 32-bit quantities, far below the 64-bit limit of the host.
\<close>

unbundle bit_operations_syntax

type_synonym u8 = "8 word"
type_synonym u16 = "16 word"
type_synonym u32 = "32 word"
type_synonym u64 = "64 word"

named_theorems flag_simps "reading and writing single bits and masked fields"
named_theorems byte_simps "byte views of machine words"

subsection \<open>Single bits\<close>

text \<open>\<open>1 << n\<close>, the shape of every bit constant of the source.\<close>

definition bitm :: "nat \<Rightarrow> 'a::len word" where
  "bitm n = push_bit n 1"

text \<open>\<open>(v & m) != 0\<close>, the shape of every flag test.\<close>

definition flag :: "'a::len word \<Rightarrow> 'a word \<Rightarrow> bool" where
  "flag v m \<longleftrightarrow> v AND m \<noteq> 0"

text \<open>\<open>if b { v |= m } else { v &= !m }\<close>, the shape of every flag setter.\<close>

definition set_flag :: "'a::len word \<Rightarrow> 'a word \<Rightarrow> bool \<Rightarrow> 'a word" where
  "set_flag v m b = (if b then v OR m else v AND NOT m)"

text \<open>\<open>(old & !m) | (new & m)\<close>: a write that reaches the bits of \<open>m\<close> only.\<close>

definition masked_write :: "'a::len word \<Rightarrow> 'a word \<Rightarrow> 'a word \<Rightarrow> 'a word" where
  "masked_write old m new = (old AND NOT m) OR (new AND m)"

lemma bit_bitm [bit_simps]:
  "bit (bitm n :: 'a::len word) k \<longleftrightarrow> k = n \<and> n < LENGTH('a)"
  by (auto simp: bitm_def bit_simps)

lemma flag_bitm [flag_simps]:
  fixes v :: "'a::len word"
  shows "n < LENGTH('a) \<Longrightarrow> flag v (bitm n) \<longleftrightarrow> bit v n"
  by (simp add: flag_def bitm_def bit_iff_and_push_bit_not_eq_0)

lemma bit_set_flag [bit_simps]:
  fixes v :: "'a::len word"
  shows "bit (set_flag v m b) k \<longleftrightarrow> (if bit m k then b else bit v k)"
  by (auto simp: set_flag_def bit_simps dest: bit_imp_le_length)

lemma bit_masked_write [bit_simps]:
  fixes v :: "'a::len word"
  shows "bit (masked_write v m w) k \<longleftrightarrow> (if bit m k then bit w k else bit v k)"
  by (auto simp: masked_write_def bit_simps dest: bit_imp_le_length)

lemma bit_2_3_int [bit_simps]: "bit (2 :: int) k \<longleftrightarrow> k = 1" "bit (3 :: int) k \<longleftrightarrow> k < 2"
  by (cases k; simp add: bit_numeral_rec bit_1_iff)+

lemma drop_bit_top:
  fixes w :: "'a::len word"
  shows "drop_bit (LENGTH('a) - 1) w \<noteq> 0 \<longleftrightarrow> bit w (LENGTH('a) - 1)"
proof -
  have "bit (drop_bit (LENGTH('a) - 1) w) n = bit (of_bool (bit w (LENGTH('a) - 1)) :: 'a word) n" for n
    by (cases "n = 0") (auto simp: bit_simps dest: bit_imp_le_length)
  then have "drop_bit (LENGTH('a) - 1) w = of_bool (bit w (LENGTH('a) - 1))"
    by (intro bit_word_eqI) simp
  then show ?thesis by simp
qed

lemma flag_set_flag_same [flag_simps]:
  fixes v :: "'a::len word"
  shows "n < LENGTH('a) \<Longrightarrow> flag (set_flag v (bitm n) b) (bitm n) = b"
  by (simp add: flag_bitm bit_simps)

lemma flag_set_flag_other [flag_simps]:
  fixes v :: "'a::len word"
  assumes "m \<noteq> n"
  shows "flag (set_flag v (bitm m) b) (bitm n) = flag v (bitm n)"
proof -
  have "set_flag v (bitm m) b AND bitm n = v AND bitm n"
    by (rule bit_word_eqI) (use assms in \<open>auto simp: bit_simps\<close>)
  then show ?thesis by (simp add: flag_def)
qed

lemma set_flag_id [flag_simps]:
  fixes v :: "'a::len word"
  shows "n < LENGTH('a) \<Longrightarrow> set_flag v (bitm n) (flag v (bitm n)) = v"
  by (rule bit_word_eqI) (auto simp: flag_bitm bit_simps)

lemma set_flag_set_flag [flag_simps]:
  fixes v :: "'a::len word"
  shows "set_flag (set_flag v m a) m b = set_flag v m b"
  by (auto intro!: bit_word_eqI simp: bit_simps)

lemma masked_write_idem [flag_simps]:
  fixes v :: "'a::len word"
  shows "masked_write (masked_write v m w) m w = masked_write v m w"
  by (auto intro!: bit_word_eqI simp: bit_simps)

lemma masked_write_self [flag_simps]:
  fixes v :: "'a::len word"
  shows "masked_write v m v = v"
  by (auto intro!: bit_word_eqI simp: bit_simps)

subsection \<open>Little-endian byte views\<close>

definition byte_at :: "nat \<Rightarrow> 'a::len word \<Rightarrow> u8" where
  "byte_at i w = ucast (drop_bit (8 * i) w)"

definition word_of_bytes :: "u8 \<Rightarrow> u8 \<Rightarrow> u8 \<Rightarrow> u8 \<Rightarrow> u32" where
  "word_of_bytes b0 b1 b2 b3 =
     ucast b0 OR push_bit 8 (ucast b1) OR push_bit 16 (ucast b2) OR push_bit 24 (ucast b3)"

definition half_of_bytes :: "u8 \<Rightarrow> u8 \<Rightarrow> u16" where
  "half_of_bytes b0 b1 = push_bit 8 (ucast b1) OR ucast b0"

definition le_bytes :: "u32 \<Rightarrow> u8 list" where
  "le_bytes w = [byte_at 0 w, byte_at 1 w, byte_at 2 w, byte_at 3 w]"

definition le_bytes16 :: "u16 \<Rightarrow> u8 list" where
  "le_bytes16 w = [byte_at 0 w, byte_at 1 w]"

lemma bit_byte_at [bit_simps]:
  fixes w :: "'a::len word"
  shows "bit (byte_at i w) k \<longleftrightarrow> k < 8 \<and> bit w (8 * i + k)"
  by (auto simp: byte_at_def bit_simps)

lemma bit_word_of_bytes [bit_simps]:
  "bit (word_of_bytes b0 b1 b2 b3) k \<longleftrightarrow>
     (if k < 8 then bit b0 k else if k < 16 then bit b1 (k - 8)
      else if k < 24 then bit b2 (k - 16) else bit b3 (k - 24))"
  by (auto simp: word_of_bytes_def bit_simps dest: bit_imp_le_length)

lemma word_of_bytes_byte_at [byte_simps, simp]:
  "word_of_bytes (byte_at 0 w) (byte_at (Suc 0) w) (byte_at 2 w) (byte_at 3 w) = w"
  by (rule bit_word_eqI) (auto simp: bit_simps)

lemma byte_at_word_of_bytes [byte_simps, simp]:
  "byte_at 0 (word_of_bytes b0 b1 b2 b3) = b0"
  "byte_at (Suc 0) (word_of_bytes b0 b1 b2 b3) = b1"
  "byte_at 2 (word_of_bytes b0 b1 b2 b3) = b2"
  "byte_at 3 (word_of_bytes b0 b1 b2 b3) = b3"
  by (rule bit_word_eqI; auto simp: bit_simps dest: bit_imp_le_length)+

lemma half_of_bytes_byte_at [byte_simps, simp]:
  "half_of_bytes (byte_at 0 w) (byte_at (Suc 0) w) = (w :: u16)"
  by (rule bit_word_eqI) (auto simp: half_of_bytes_def bit_simps)

lemma not_bit_small:
  fixes x :: "'a::len word"
  assumes "unat x < 2 ^ n" "n \<le> k"
  shows "\<not> bit x k"
proof
  assume "bit x k"
  then have "bit (unat x) k" by (simp add: bit_unsigned_iff)
  moreover have "unat x < 2 ^ k" using assms by (meson less_le_trans one_le_numeral power_increasing)
  ultimately show False by (simp add: bit_iff_odd)
qed

text \<open>Replacing byte \<open>i\<close> of a word.\<close>

definition put_byte :: "nat \<Rightarrow> u8 \<Rightarrow> u32 \<Rightarrow> u32" where
  "put_byte i v w = (w AND NOT (push_bit (8 * i) 0xFF)) OR push_bit (8 * i) (ucast v)"

lemma bit_put_byte [bit_simps]:
  "bit (put_byte i v w) n \<longleftrightarrow> n < 32 \<and> (if 8 * i \<le> n \<and> n < 8 * i + 8 then bit v (n - 8 * i) else bit w n)"
proof -
  have m: "(0xFF :: u32) = mask 8" by (simp add: mask_eq_exp_minus_1)
  show ?thesis unfolding put_byte_def m by (auto simp: bit_simps dest: bit_imp_le_length)
qed

lemma put_byte_low: "put_byte 0 (byte_at 0 v) w = v" if "v < 256" "w < 256" for v w :: u32
proof (rule bit_word_eqI)
  have hi: "\<not> bit x k" if "x < 256" "8 \<le> k" for x :: u32 and k
    using that by (intro not_bit_small [of x 8]) (simp_all add: word_less_nat_alt)
  fix n assume "n < LENGTH(32)"
  then show "bit (put_byte 0 (byte_at 0 v) w) n = bit v n"
    using hi that by (cases "n < 8") (auto simp: bit_simps)
qed

subsection \<open>Alignment\<close>

text \<open>Adding less than the alignment to an aligned address does not wrap.\<close>

lemma unat_add_small:
  fixes a b :: "'a::len word"
  assumes "unat a + unat b < 2 ^ LENGTH('a)"
  shows "unat (a + b) = unat a + unat b"
  using assms by (simp add: unat_word_ariths)

lemma aligned4_no_wrap:
  fixes a :: u32
  assumes "unat a mod 4 = 0"
  shows "unat a + 3 < 2 ^ 32"
proof -
  have "unat a < 2 ^ 32" using unsigned_less [of a] by simp
  moreover have "\<exists>k. unat a = 4 * k" using assms by (auto simp: mod_eq_0_iff_dvd dvd_def)
  ultimately show ?thesis by auto
qed

subsection \<open>Cascades of conditionals\<close>

text \<open>Two cascades over the same conditions are compared arm by arm.\<close>

lemma if_arm: "(c \<Longrightarrow> x = u) \<Longrightarrow> y = v \<Longrightarrow> (if c then x else y) = (if c then u else v)"
  by simp

lemma if_eq_cases:
  "(if c then s else t) = r \<Longrightarrow> (c \<Longrightarrow> s = r \<Longrightarrow> P) \<Longrightarrow> (t = r \<Longrightarrow> P) \<Longrightarrow> P"
  by (cases c) simp_all

subsection \<open>Lists used as arrays\<close>

lemma nth_list_update_cases:
  "i < length xs \<Longrightarrow> xs[i := x] ! j = (if i = j then x else xs ! j)"
  by (cases "i = j") simp_all

end
