(* ===== verification/Core_Types.thy ===== *)
theory Core_Types
  imports Prelude
begin

text \<open>
  The types of \<open>src/src/types.rs\<close> and \<open>src/src/error.rs\<close>: addresses, words and their
  byte and half-word views, register indices, privilege levels, and the error type every
  fallible operation returns.  \<open>Addr\<close>, \<open>Word\<close>, \<open>Byte\<close> and \<open>Half\<close> are newtypes over
  \<open>u32\<close>, \<open>u8\<close> and \<open>u16\<close>; the model uses the words themselves.  A \<open>RegIdx\<close> is a 5-bit
  word: its constructor asserts \<open>index < 32\<close>, and \<open>RegIdx_new\<close> below is that assertion.
\<close>

type_synonym addr = u32
type_synonym regidx = "5 word"

subsection \<open>Addresses (\<open>types.rs\<close>, \<open>Addr\<close>)\<close>

definition Addr_add :: "addr \<Rightarrow> u32 \<Rightarrow> addr" where
  "Addr_add a off = a + off"

text \<open>The \<open>i32\<close> offset, cast to \<open>u32\<close>, is the same 32-bit word.\<close>

definition Addr_add_signed :: "addr \<Rightarrow> u32 \<Rightarrow> addr" where
  "Addr_add_signed a off = a + off"

definition Addr_align_down :: "addr \<Rightarrow> u32 \<Rightarrow> addr" where
  "Addr_align_down a algn = a AND NOT (algn - 1)"

text \<open>\<open>u32::is_multiple_of\<close>: a multiple of 0 is 0 only.\<close>

definition Addr_is_aligned :: "addr \<Rightarrow> u32 \<Rightarrow> bool" where
  "Addr_is_aligned a algn = (if algn = 0 then a = 0 else a mod algn = 0)"

subsection \<open>Word views (\<open>types.rs\<close>, \<open>Word\<close>)\<close>

definition Word_from_byte :: "u8 \<Rightarrow> u32" where
  "Word_from_byte b = scast b"

definition Word_from_half :: "u16 \<Rightarrow> u32" where
  "Word_from_half h = scast h"

definition Word_from_byte_zero :: "u8 \<Rightarrow> u32" where
  "Word_from_byte_zero b = ucast b"

definition Word_from_half_zero :: "u16 \<Rightarrow> u32" where
  "Word_from_half_zero h = ucast h"

definition Word_byte :: "u32 \<Rightarrow> u8" where
  "Word_byte w = ucast w"

definition Word_half :: "u32 \<Rightarrow> u16" where
  "Word_half w = ucast w"

definition Word_as_signed :: "u32 \<Rightarrow> int" where
  "Word_as_signed w = sint w"

subsection \<open>Register indices (\<open>types.rs\<close>, \<open>RegIdx\<close>)\<close>

text \<open>\<open>None\<close> is the panic of the constructor's assertion.\<close>

definition RegIdx_new :: "u8 \<Rightarrow> regidx option" where
  "RegIdx_new i = (if i < 32 then Some (ucast i) else None)"

definition RegIdx_is_zero :: "regidx \<Rightarrow> bool" where
  "RegIdx_is_zero r \<longleftrightarrow> r = 0"

lemma RegIdx_new_raw: "RegIdx_new i = Some r \<Longrightarrow> (ucast r :: u8) = i"
proof -
  assume h: "RegIdx_new i = Some r"
  then have i: "i < 32" and r: "r = ucast i" by (auto simp: RegIdx_new_def split: if_splits)
  from i have "unat i < 32" by (simp add: word_less_nat_alt)
  then show ?thesis unfolding r
    by (simp add: word_unat_eq_iff unsigned_ucast_eq unsigned_take_bit_eq take_bit_nat_eq_self)
qed

subsection \<open>Privilege levels (\<open>types.rs\<close>, \<open>PrivilegeLevel\<close>)\<close>

datatype privilege = User | Supervisor | Machine

fun PrivilegeLevel_bits :: "privilege \<Rightarrow> u8" where
  "PrivilegeLevel_bits User = 0"
| "PrivilegeLevel_bits Supervisor = 1"
| "PrivilegeLevel_bits Machine = 3"

definition PrivilegeLevel_from_bits :: "u8 \<Rightarrow> privilege option" where
  "PrivilegeLevel_from_bits b =
     (if b = 0 then Some User else if b = 1 then Some Supervisor
      else if b = 3 then Some Machine else None)"

text \<open>The derived \<open>PartialOrd\<close>: the order of the declaration.\<close>

instantiation privilege :: linorder
begin

definition less_eq_privilege :: "privilege \<Rightarrow> privilege \<Rightarrow> bool" where
  "less_eq_privilege a b \<longleftrightarrow> PrivilegeLevel_bits a \<le> PrivilegeLevel_bits b"

definition less_privilege :: "privilege \<Rightarrow> privilege \<Rightarrow> bool" where
  "less_privilege a b \<longleftrightarrow> PrivilegeLevel_bits a < PrivilegeLevel_bits b"

instance
proof
  fix x y z :: privilege
  show "(x < y) = (x \<le> y \<and> \<not> y \<le> x)"
    by (auto simp: less_privilege_def less_eq_privilege_def)
  show "x \<le> x" by (simp add: less_eq_privilege_def)
  show "x \<le> y \<Longrightarrow> y \<le> z \<Longrightarrow> x \<le> z" by (auto simp: less_eq_privilege_def)
  show "x \<le> y \<Longrightarrow> y \<le> x \<Longrightarrow> x = y"
    by (cases x; cases y) (auto simp: less_eq_privilege_def word_le_nat_alt)
  show "x \<le> y \<or> y \<le> x" by (auto simp: less_eq_privilege_def)
qed

end

lemma privilege_less_simps [simp]:
  "\<not> (p :: privilege) < User" "User < p \<longleftrightarrow> p \<noteq> User"
  "p < Machine \<longleftrightarrow> p \<noteq> Machine" "\<not> Machine < p"
  by (cases p; simp add: less_privilege_def)+

lemma privilege_from_bits [simp]:
  "PrivilegeLevel_from_bits (PrivilegeLevel_bits p) = Some p"
  by (cases p) (simp_all add: PrivilegeLevel_from_bits_def)

subsection \<open>Errors (\<open>error.rs\<close>)\<close>

datatype access = Instruction | Load | Store

text \<open>
  One constructor per variant of \<open>SimError\<close> that the modelled code raises, with its fields.
  The message strings, which are only displayed, are left out.
\<close>

datatype sim_error =
    MemoryErr addr
  | MemoryOutOfBounds addr nat
  | MemoryAlignment addr nat nat
  | PageFault addr access
  | InvalidInstruction addr u32
  | UnsupportedInstruction addr
  | InvalidCsr u16
  | CsrAccessDenied u16 privilege
  | InvalidAddress addr
  | PeripheralErr
  | ElfParseError
  | ElfLoadErr
  | UnimplementedErr
  | BreakpointErr addr
  | EcallErr
  | EbreakErr addr
  | IoErr
  | Halted

type_synonym 'a result = "sim_error + 'a"

text \<open>
  A method on \<open>&mut self\<close> that fails keeps what it wrote before failing, so a stateful
  operation returns its result and the new state in both cases.  \<open>bind_st\<close> is the
  \<open>?\<close> operator there, \<open>bind_res\<close> the one of an operation that only reads.
\<close>

definition bind_st :: "'a result \<times> 's \<Rightarrow> ('a \<Rightarrow> 's \<Rightarrow> 'b result \<times> 's) \<Rightarrow> 'b result \<times> 's" where
  "bind_st m f = (case m of (Inl e, s) \<Rightarrow> (Inl e, s) | (Inr a, s) \<Rightarrow> f a s)"

definition bind_res :: "'a result \<Rightarrow> ('a \<Rightarrow> 'b result) \<Rightarrow> 'b result" where
  "bind_res m f = (case m of Inl e \<Rightarrow> Inl e | Inr a \<Rightarrow> f a)"

lemma bind_result_simps [simp]:
  "bind_st (Inl e, s) f = (Inl e, s)"
  "bind_st (Inr a, s) f = f a s"
  "bind_res (Inl e) g = Inl e"
  "bind_res (Inr a) g = g a"
  by (simp_all add: bind_st_def bind_res_def)

lemma bind_st_Inr:
  "bind_st m f = (Inr b, s') \<longleftrightarrow> (\<exists>a s. m = (Inr a, s) \<and> f a s = (Inr b, s'))"
  by (auto simp: bind_st_def split: prod.splits sum.splits)

lemma bind_res_Inr: "bind_res m f = Inr b \<longleftrightarrow> (\<exists>a. m = Inr a \<and> f a = Inr b)"
  by (auto simp: bind_res_def split: sum.splits)

text \<open>\<open>check_alignment\<close>: the size is 2 or 4 at every call.\<close>

definition check_alignment :: "addr \<Rightarrow> nat \<Rightarrow> unit result" where
  "check_alignment a sz =
     (if \<not> Addr_is_aligned a (of_nat sz) then Inl (MemoryAlignment a sz sz) else Inr ())"

lemma check_alignment_4: "check_alignment a 4 = (if unat a mod 4 = 0 then Inr () else Inl (MemoryAlignment a 4 4))"
  by (simp add: check_alignment_def Addr_is_aligned_def word_unat_eq_iff unat_mod_distrib)

lemma check_alignment_2: "check_alignment a 2 = (if unat a mod 2 = 0 then Inr () else Inl (MemoryAlignment a 2 2))"
  by (simp add: check_alignment_def Addr_is_aligned_def word_unat_eq_iff unat_mod_distrib)

end
