(* ===== verification/Decode_Instr.thy ===== *)
theory Decode_Instr
  imports Core_Types
begin

text \<open>
  The instruction formats and the decoder: \<open>src/src/instruction/opcode.rs\<close>,
  \<open>format.rs\<close> and \<open>decoder.rs\<close>.  \<open>Decoder_decode\<close> is \<open>Decoder::decode\<close>; an
  \<open>i32\<close> immediate is its 32-bit word.  \<open>encode\<close> is the specification side: the bit layout
  of the RISC-V formats, against which the decoder is shown to lose nothing and to
  read back every field.
\<close>

subsection \<open>Opcodes (\<open>opcode.rs\<close>)\<close>

definition OPC_LUI :: u8 where "OPC_LUI = 0b0110111"
definition OPC_AUIPC :: u8 where "OPC_AUIPC = 0b0010111"
definition OPC_JAL :: u8 where "OPC_JAL = 0b1101111"
definition OPC_JALR :: u8 where "OPC_JALR = 0b1100111"
definition OPC_BRANCH :: u8 where "OPC_BRANCH = 0b1100011"
definition OPC_LOAD :: u8 where "OPC_LOAD = 0b0000011"
definition OPC_STORE :: u8 where "OPC_STORE = 0b0100011"
definition OPC_OP_IMM :: u8 where "OPC_OP_IMM = 0b0010011"
definition OPC_OP :: u8 where "OPC_OP = 0b0110011"
definition OPC_AMO :: u8 where "OPC_AMO = 0b0101111"
definition OPC_FENCE :: u8 where "OPC_FENCE = 0b0001111"
definition OPC_SYSTEM :: u8 where "OPC_SYSTEM = 0b1110011"
definition OPC_CUSTOM_0 :: u8 where "OPC_CUSTOM_0 = 0b0001011"

lemmas opcode_defs = OPC_LUI_def OPC_AUIPC_def OPC_JAL_def OPC_JALR_def OPC_BRANCH_def
  OPC_LOAD_def OPC_STORE_def OPC_OP_IMM_def OPC_OP_def OPC_AMO_def OPC_FENCE_def
  OPC_SYSTEM_def OPC_CUSTOM_0_def

subsection \<open>Formats (\<open>format.rs\<close>)\<close>

record r_type =
  rt_rd :: regidx
  rt_rs1 :: regidx
  rt_rs2 :: regidx
  rt_funct3 :: u8
  rt_funct7 :: u8

record i_type =
  it_rd :: regidx
  it_rs1 :: regidx
  it_imm :: u32
  it_funct3 :: u8

record s_type =
  st_rs1 :: regidx
  st_rs2 :: regidx
  st_imm :: u32
  st_funct3 :: u8

record b_type =
  bt_rs1 :: regidx
  bt_rs2 :: regidx
  bt_imm :: u32
  bt_funct3 :: u8

record u_type =
  ut_rd :: regidx
  ut_imm :: u32

record j_type =
  jt_rd :: regidx
  jt_imm :: u32

datatype decoded_instr =
    DI_R r_type
  | DI_I i_type
  | DI_Load i_type
  | DI_Jalr i_type
  | DI_S s_type
  | DI_B b_type
  | DI_U u_type
  | DI_J j_type
  | DI_System (sys_opcode: u8) (sys_rd: regidx) (sys_rs1: regidx) (sys_funct3: u8) (sys_imm: u32)

subsection \<open>Field extraction (\<open>decoder.rs\<close>)\<close>

text \<open>The register fields are masked to five bits, so \<open>RegIdx::new\<close> never panics on them.\<close>

definition Decoder_opcode :: "u32 \<Rightarrow> u8" where
  "Decoder_opcode instr = ucast (instr AND 0x7F)"

definition Decoder_rd :: "u32 \<Rightarrow> regidx" where
  "Decoder_rd instr = ucast (drop_bit 7 instr AND 0x1F)"

definition Decoder_funct3 :: "u32 \<Rightarrow> u8" where
  "Decoder_funct3 instr = ucast (drop_bit 12 instr AND 0x7)"

definition Decoder_rs1 :: "u32 \<Rightarrow> regidx" where
  "Decoder_rs1 instr = ucast (drop_bit 15 instr AND 0x1F)"

definition Decoder_rs2 :: "u32 \<Rightarrow> regidx" where
  "Decoder_rs2 instr = ucast (drop_bit 20 instr AND 0x1F)"

definition Decoder_funct7 :: "u32 \<Rightarrow> u8" where
  "Decoder_funct7 instr = ucast (drop_bit 25 instr AND 0x7F)"

definition sign_extend_12 :: "u32 \<Rightarrow> u32" where
  "sign_extend_12 v = (if v AND 0x800 \<noteq> 0 then v OR 0xFFFFF000 else v)"

definition sign_extend_13 :: "u32 \<Rightarrow> u32" where
  "sign_extend_13 v = (if v AND 0x1000 \<noteq> 0 then v OR 0xFFFFE000 else v)"

definition sign_extend_21 :: "u32 \<Rightarrow> u32" where
  "sign_extend_21 v = (if v AND 0x100000 \<noteq> 0 then v OR 0xFFF00000 else v)"

definition Decoder_imm_i :: "u32 \<Rightarrow> u32" where
  "Decoder_imm_i instr = sign_extend_12 (drop_bit 20 instr AND 0xFFF)"

definition Decoder_imm_s :: "u32 \<Rightarrow> u32" where
  "Decoder_imm_s instr =
     (let imm_11_5 = drop_bit 25 instr AND 0x7F;
          imm_4_0 = drop_bit 7 instr AND 0x1F
      in sign_extend_12 (push_bit 5 imm_11_5 OR imm_4_0))"

definition Decoder_imm_b :: "u32 \<Rightarrow> u32" where
  "Decoder_imm_b instr =
     (let imm_12 = push_bit 12 (drop_bit 31 instr AND 0x1);
          imm_11 = push_bit 11 (drop_bit 7 instr AND 0x1);
          imm_10_5 = push_bit 5 (drop_bit 25 instr AND 0x3F);
          imm_4_1 = push_bit 1 (drop_bit 8 instr AND 0xF)
      in sign_extend_13 (imm_12 OR imm_11 OR imm_10_5 OR imm_4_1))"

definition Decoder_imm_u :: "u32 \<Rightarrow> u32" where
  "Decoder_imm_u instr = instr AND 0xFFFFF000"

definition Decoder_imm_j :: "u32 \<Rightarrow> u32" where
  "Decoder_imm_j instr =
     (let imm_20 = push_bit 20 (drop_bit 31 instr AND 0x1);
          imm_19_12 = push_bit 12 (drop_bit 12 instr AND 0xFF);
          imm_11 = push_bit 11 (drop_bit 20 instr AND 0x1);
          imm_10_1 = push_bit 1 (drop_bit 21 instr AND 0x3FF)
      in sign_extend_21 (imm_20 OR imm_19_12 OR imm_11 OR imm_10_1))"

subsection \<open>The decoder (\<open>decoder.rs\<close>, \<open>Decoder::decode\<close>)\<close>

definition Decoder_decode :: "u32 \<Rightarrow> addr \<Rightarrow> decoded_instr result" where
  "Decoder_decode instr pc =
     (let opc = Decoder_opcode instr;
          rd = Decoder_rd instr;
          rs1 = Decoder_rs1 instr;
          rs2 = Decoder_rs2 instr;
          funct3 = Decoder_funct3 instr;
          funct7 = Decoder_funct7 instr
      in
      if opc = OPC_OP then
        Inr (DI_R \<lparr>rt_rd = rd, rt_rs1 = rs1, rt_rs2 = rs2, rt_funct3 = funct3, rt_funct7 = funct7\<rparr>)
      else if opc = OPC_OP_IMM then
        Inr (DI_I \<lparr>it_rd = rd, it_rs1 = rs1, it_imm = Decoder_imm_i instr, it_funct3 = funct3\<rparr>)
      else if opc = OPC_LOAD then
        Inr (DI_Load \<lparr>it_rd = rd, it_rs1 = rs1, it_imm = Decoder_imm_i instr, it_funct3 = funct3\<rparr>)
      else if opc = OPC_JALR then
        Inr (DI_Jalr \<lparr>it_rd = rd, it_rs1 = rs1, it_imm = Decoder_imm_i instr, it_funct3 = funct3\<rparr>)
      else if opc = OPC_STORE then
        Inr (DI_S \<lparr>st_rs1 = rs1, st_rs2 = rs2, st_imm = Decoder_imm_s instr, st_funct3 = funct3\<rparr>)
      else if opc = OPC_BRANCH then
        Inr (DI_B \<lparr>bt_rs1 = rs1, bt_rs2 = rs2, bt_imm = Decoder_imm_b instr, bt_funct3 = funct3\<rparr>)
      else if opc = OPC_LUI \<or> opc = OPC_AUIPC then
        Inr (DI_U \<lparr>ut_rd = rd, ut_imm = Decoder_imm_u instr\<rparr>)
      else if opc = OPC_JAL then
        Inr (DI_J \<lparr>jt_rd = rd, jt_imm = Decoder_imm_j instr\<rparr>)
      else if opc = OPC_SYSTEM \<or> opc = OPC_FENCE then
        Inr (DI_System opc rd rs1 funct3 (drop_bit 20 instr))
      else Inl (UnsupportedInstruction pc))"

subsection \<open>Specification: the RISC-V bit layouts\<close>

definition enc_fields :: "u8 \<Rightarrow> regidx \<Rightarrow> u8 \<Rightarrow> regidx \<Rightarrow> u32" where
  "enc_fields opc rd f3 rs1 =
     ucast opc OR push_bit 7 (ucast rd) OR push_bit 12 (ucast f3) OR push_bit 15 (ucast rs1)"

fun encode :: "u8 \<Rightarrow> decoded_instr \<Rightarrow> u32" where
  "encode opc (DI_R r) = enc_fields opc (rt_rd r) (rt_funct3 r) (rt_rs1 r)
     OR push_bit 20 (ucast (rt_rs2 r)) OR push_bit 25 (ucast (rt_funct7 r))"
| "encode opc (DI_I i) = enc_fields opc (it_rd i) (it_funct3 i) (it_rs1 i) OR push_bit 20 (it_imm i)"
| "encode opc (DI_Load i) = enc_fields opc (it_rd i) (it_funct3 i) (it_rs1 i) OR push_bit 20 (it_imm i)"
| "encode opc (DI_Jalr i) = enc_fields opc (it_rd i) (it_funct3 i) (it_rs1 i) OR push_bit 20 (it_imm i)"
| "encode opc (DI_S s) = enc_fields opc (ucast (take_bit 5 (st_imm s))) (st_funct3 s) (st_rs1 s)
     OR push_bit 20 (ucast (st_rs2 s)) OR push_bit 25 (drop_bit 5 (st_imm s))"
| "encode opc (DI_B b) =
     enc_fields opc (ucast (push_bit 1 (take_bit 4 (drop_bit 1 (bt_imm b))) OR take_bit 1 (drop_bit 11 (bt_imm b))))
       (bt_funct3 b) (bt_rs1 b)
     OR push_bit 20 (ucast (bt_rs2 b)) OR push_bit 25 (take_bit 6 (drop_bit 5 (bt_imm b)))
     OR push_bit 31 (drop_bit 12 (bt_imm b))"
| "encode opc (DI_U u) = ucast opc OR push_bit 7 (ucast (ut_rd u)) OR ut_imm u"
| "encode opc (DI_J j) = ucast opc OR push_bit 7 (ucast (jt_rd j))
     OR push_bit 12 (take_bit 8 (drop_bit 12 (jt_imm j)))
     OR push_bit 20 (take_bit 1 (drop_bit 11 (jt_imm j)))
     OR push_bit 21 (take_bit 10 (drop_bit 1 (jt_imm j)))
     OR push_bit 31 (drop_bit 20 (jt_imm j))"
| "encode opc (DI_System o' rd rs1 f3 imm) = enc_fields opc rd f3 rs1 OR push_bit 20 imm"

subsection \<open>Fields as bit slices\<close>

text \<open>The masks of the source are the low-bit masks of their widths.\<close>

lemma and_masks:
  fixes w :: u32
  shows "w AND 0x1 = take_bit 1 w" "w AND 0x7 = take_bit 3 w" "w AND 0xF = take_bit 4 w"
    "w AND 0x1F = take_bit 5 w" "w AND 0x3F = take_bit 6 w" "w AND 0x7F = take_bit 7 w"
    "w AND 0xFF = take_bit 8 w" "w AND 0x3FF = take_bit 10 w" "w AND 0xFFF = take_bit 12 w"
  by (simp_all add: take_bit_eq_mask mask_eq_exp_minus_1)

lemma sign_bits:
  fixes v :: u32
  shows "v AND 0x800 \<noteq> 0 \<longleftrightarrow> bit v 11" "v AND 0x1000 \<noteq> 0 \<longleftrightarrow> bit v 12"
    "v AND 0x100000 \<noteq> 0 \<longleftrightarrow> bit v 20"
proof -
  have "flag v (bitm 11) \<longleftrightarrow> bit v 11" "flag v (bitm 12) \<longleftrightarrow> bit v 12" "flag v (bitm 20) \<longleftrightarrow> bit v 20"
    by (rule flag_bitm; simp)+
  then show "v AND 0x800 \<noteq> 0 \<longleftrightarrow> bit v 11" "v AND 0x1000 \<noteq> 0 \<longleftrightarrow> bit v 12"
    "v AND 0x100000 \<noteq> 0 \<longleftrightarrow> bit v 20"
    by (simp_all add: flag_def bitm_def)
qed

lemma high_masks:
  "(0xFFFFF000 :: u32) = NOT (mask 12)" "(0xFFFFE000 :: u32) = NOT (mask 13)"
  "(0xFFF00000 :: u32) = NOT (mask 20)"
  by (simp_all add: mask_eq_exp_minus_1)

text \<open>Sign extension of a value with no bits above its width copies the sign bit upwards.\<close>

lemma bit_sign_extend_12:
  assumes "\<And>k. 12 \<le> k \<Longrightarrow> \<not> bit v k"
  shows "bit (sign_extend_12 v) n \<longleftrightarrow> n < 32 \<and> bit v (if n < 12 then n else 11)"
  using assms [of n] by (auto simp: sign_extend_12_def sign_bits high_masks bit_simps
      dest: bit_imp_le_length)

lemma bit_sign_extend_13:
  assumes "\<And>k. 13 \<le> k \<Longrightarrow> \<not> bit v k"
  shows "bit (sign_extend_13 v) n \<longleftrightarrow> n < 32 \<and> bit v (if n < 13 then n else 12)"
  using assms [of n] by (auto simp: sign_extend_13_def sign_bits high_masks bit_simps
      dest: bit_imp_le_length)

lemma bit_sign_extend_21:
  assumes "\<And>k. 21 \<le> k \<Longrightarrow> \<not> bit v k"
  shows "bit (sign_extend_21 v) n \<longleftrightarrow> n < 32 \<and> bit v (if n < 21 then n else 20)"
proof (cases "n = 20")
  case True
  then show ?thesis by (simp add: sign_extend_21_def sign_bits high_masks bit_simps)
next
  case False
  with assms [of n] show ?thesis
    by (auto simp: sign_extend_21_def sign_bits high_masks bit_simps dest: bit_imp_le_length)
qed

lemma bit_imm_i: "bit (Decoder_imm_i w) n \<longleftrightarrow> n < 32 \<and> bit w (if n < 12 then n + 20 else 31)"
  unfolding Decoder_imm_i_def and_masks
  by (subst bit_sign_extend_12) (auto simp: bit_simps ac_simps)

lemma bit_imm_s: "bit (Decoder_imm_s w) n \<longleftrightarrow>
    n < 32 \<and> bit w (if n < 5 then n + 7 else if n < 12 then n + 20 else 31)"
  unfolding Decoder_imm_s_def and_masks Let_def
  by (subst bit_sign_extend_12) (auto simp: bit_simps ac_simps)

lemma bit_imm_b: "bit (Decoder_imm_b w) n \<longleftrightarrow>
    n < 32 \<and> n \<noteq> 0 \<and> bit w (if n < 5 then n + 7 else if n < 11 then n + 20 else if n = 11 then 7 else 31)"
  unfolding Decoder_imm_b_def and_masks Let_def
  by (subst bit_sign_extend_13) (auto simp: bit_simps ac_simps even_drop_bit_iff_not_bit)

lemma bit_imm_u: "bit (Decoder_imm_u w) n \<longleftrightarrow> 12 \<le> n \<and> bit w n"
  unfolding Decoder_imm_u_def high_masks by (auto simp: bit_simps dest: bit_imp_le_length)

lemma bit_imm_j: "bit (Decoder_imm_j w) n \<longleftrightarrow>
    n < 32 \<and> n \<noteq> 0 \<and>
    bit w (if n < 11 then n + 20 else if n = 11 then 20 else if n < 20 then n else 31)"
  unfolding Decoder_imm_j_def and_masks Let_def
  by (subst bit_sign_extend_21) (auto simp: bit_simps ac_simps even_drop_bit_iff_not_bit)

lemma bit_fields:
  "bit (Decoder_opcode w) n \<longleftrightarrow> n < 7 \<and> bit w n"
  "bit (Decoder_rd w) n \<longleftrightarrow> n < 5 \<and> bit w (n + 7)"
  "bit (Decoder_funct3 w) n \<longleftrightarrow> n < 3 \<and> bit w (n + 12)"
  "bit (Decoder_rs1 w) n \<longleftrightarrow> n < 5 \<and> bit w (n + 15)"
  "bit (Decoder_rs2 w) n \<longleftrightarrow> n < 5 \<and> bit w (n + 20)"
  "bit (Decoder_funct7 w) n \<longleftrightarrow> n < 7 \<and> bit w (n + 25)"
  unfolding Decoder_opcode_def Decoder_rd_def Decoder_funct3_def Decoder_rs1_def
    Decoder_rs2_def Decoder_funct7_def and_masks
  by (auto simp: bit_simps ac_simps)

lemmas decoder_bits = bit_imm_i bit_imm_s bit_imm_b bit_imm_u bit_imm_j bit_fields

lemma bit_enc_fields: "bit (enc_fields opc rd f3 rs1) n \<longleftrightarrow> n < 32 \<and>
    (bit opc n \<or> 7 \<le> n \<and> bit rd (n - 7) \<or> 12 \<le> n \<and> bit f3 (n - 12) \<or> 15 \<le> n \<and> bit rs1 (n - 15))"
  by (auto simp: enc_fields_def bit_simps dest: bit_imp_le_length)

subsection \<open>Round trips\<close>

text \<open>Each format reassembles to the word its fields were cut from: bit by bit, by the field
  the bit lies in.\<close>

lemma field_cases:
  fixes n :: nat
  obtains (opc) "n < 7" | (rd) m where "n = m + 7" "m < 5" | (f3) m where "n = m + 12" "m < 3"
    | (rs1) m where "n = m + 15" "m < 5" | (rs2) m where "n = m + 20" "m < 5"
    | (f7) m where "n = m + 25"
proof -
  have "n < 7 \<or> (\<exists>m. n = m + 7 \<and> m < 5) \<or> (\<exists>m. n = m + 12 \<and> m < 3) \<or> (\<exists>m. n = m + 15 \<and> m < 5)
    \<or> (\<exists>m. n = m + 20 \<and> m < 5) \<or> (\<exists>m. n = m + 25)"
    by presburger
  then show ?thesis using that by blast
qed

lemma word_field_eqI:
  fixes v w :: u32
  assumes "\<And>n. n < 7 \<Longrightarrow> bit v n = bit w n" "\<And>m. m < 5 \<Longrightarrow> bit v (m + 7) = bit w (m + 7)"
    "\<And>m. m < 3 \<Longrightarrow> bit v (m + 12) = bit w (m + 12)" "\<And>m. m < 5 \<Longrightarrow> bit v (m + 15) = bit w (m + 15)"
    "\<And>m. m < 5 \<Longrightarrow> bit v (m + 20) = bit w (m + 20)" "\<And>m. m < 7 \<Longrightarrow> bit v (m + 25) = bit w (m + 25)"
  shows "v = w"
proof (rule bit_word_eqI)
  fix n assume "n < LENGTH(32)"
  then show "bit v n = bit w n" by (cases n rule: field_cases) (use assms in auto)
qed

lemma encode_R: "encode (Decoder_opcode w) (DI_R \<lparr>rt_rd = Decoder_rd w, rt_rs1 = Decoder_rs1 w,
    rt_rs2 = Decoder_rs2 w, rt_funct3 = Decoder_funct3 w, rt_funct7 = Decoder_funct7 w\<rparr>) = w"
  by (rule word_field_eqI) (auto simp: bit_enc_fields decoder_bits bit_simps)

lemma encode_I: "enc_fields (Decoder_opcode w) (Decoder_rd w) (Decoder_funct3 w) (Decoder_rs1 w)
    OR push_bit 20 (Decoder_imm_i w) = w"
  by (rule word_field_eqI) (auto simp: bit_enc_fields decoder_bits bit_simps ac_simps)

lemma encode_Sys: "enc_fields (Decoder_opcode w) (Decoder_rd w) (Decoder_funct3 w) (Decoder_rs1 w)
    OR push_bit 20 (drop_bit 20 w) = w"
  by (rule word_field_eqI) (auto simp: bit_enc_fields decoder_bits bit_simps ac_simps)

lemma encode_S: "encode (Decoder_opcode w) (DI_S \<lparr>st_rs1 = Decoder_rs1 w, st_rs2 = Decoder_rs2 w,
    st_imm = Decoder_imm_s w, st_funct3 = Decoder_funct3 w\<rparr>) = w"
  by (rule word_field_eqI) (auto simp: bit_enc_fields decoder_bits bit_simps ac_simps)

lemma encode_B: "encode (Decoder_opcode w) (DI_B \<lparr>bt_rs1 = Decoder_rs1 w, bt_rs2 = Decoder_rs2 w,
    bt_imm = Decoder_imm_b w, bt_funct3 = Decoder_funct3 w\<rparr>) = w"
proof (rule word_field_eqI)
  fix m :: nat assume "m < 5"
  then show "bit (encode (Decoder_opcode w) (DI_B \<lparr>bt_rs1 = Decoder_rs1 w, bt_rs2 = Decoder_rs2 w,
    bt_imm = Decoder_imm_b w, bt_funct3 = Decoder_funct3 w\<rparr>)) (m + 7) = bit w (m + 7)"
    by (cases m) (auto simp: bit_enc_fields decoder_bits bit_simps even_drop_bit_iff_not_bit ac_simps)
next
  fix m :: nat assume "m < 7"
  then show "bit (encode (Decoder_opcode w) (DI_B \<lparr>bt_rs1 = Decoder_rs1 w, bt_rs2 = Decoder_rs2 w,
    bt_imm = Decoder_imm_b w, bt_funct3 = Decoder_funct3 w\<rparr>)) (m + 25) = bit w (m + 25)"
    by (cases "m = 6") (auto simp: bit_enc_fields decoder_bits bit_simps ac_simps)
qed (auto simp: bit_enc_fields decoder_bits bit_simps ac_simps)

lemma encode_U: "encode (Decoder_opcode w) (DI_U \<lparr>ut_rd = Decoder_rd w, ut_imm = Decoder_imm_u w\<rparr>) = w"
  by (rule word_field_eqI) (auto simp: decoder_bits bit_simps)

lemma encode_J: "encode (Decoder_opcode w) (DI_J \<lparr>jt_rd = Decoder_rd w, jt_imm = Decoder_imm_j w\<rparr>) = w"
proof (rule word_field_eqI)
  fix m :: nat assume "m < 5"
  then show "bit (encode (Decoder_opcode w) (DI_J \<lparr>jt_rd = Decoder_rd w, jt_imm = Decoder_imm_j w\<rparr>)) (m + 20)
    = bit w (m + 20)"
    by (cases m) (auto simp: decoder_bits bit_simps even_drop_bit_iff_not_bit ac_simps)
next
  fix m :: nat assume "m < 7"
  then show "bit (encode (Decoder_opcode w) (DI_J \<lparr>jt_rd = Decoder_rd w, jt_imm = Decoder_imm_j w\<rparr>)) (m + 25)
    = bit w (m + 25)"
    by (cases "m = 6") (auto simp: decoder_bits bit_simps ac_simps)
qed (auto simp: decoder_bits bit_simps ac_simps)

lemmas encode_decoded = encode_R encode_I encode_Sys encode_S encode_B encode_U encode_J

subsection \<open>Immediates\<close>

lemma sint_sign_copied:
  fixes v :: u32
  assumes "\<And>k. n < k \<Longrightarrow> k < 32 \<Longrightarrow> bit v k = bit v n" "n < 32"
  shows "- (2 ^ n) \<le> sint v \<and> sint v < 2 ^ n"
proof -
  have b: "bit (sint v) m = bit (sint v) n" if "n < m" for m
  proof -
    have "bit (sint v) k = bit v (if k < 32 then k else 31)" for k
      by (auto simp: bit_sint_iff not_less dest: bit_imp_le_length)
    then show ?thesis using that assms by (cases "n = 31") (simp_all split: if_splits)
  qed
  have "sint v = signed_take_bit n (sint v)"
    by (rule bit_eqI) (auto simp: bit_signed_take_bit_iff min_def le_less b)
  then show ?thesis
    by (metis signed_take_bit_int_greater_eq_minus_exp signed_take_bit_int_less_exp)
qed

text \<open>Every immediate is the sign extension of its field: as a signed number it stays within the
  reach of its format and its sign is bit 31 of the instruction; branch and jump offsets are even.\<close>

theorem decoded_immediates:
  "sint (Decoder_imm_i w) \<in> {- 2048..2047} \<and> sint (Decoder_imm_s w) \<in> {- 2048..2047} \<and>
   sint (Decoder_imm_b w) \<in> {- 4096..4094} \<and> sint (Decoder_imm_j w) \<in> {- 1048576..1048574} \<and>
   even (Decoder_imm_b w) \<and> even (Decoder_imm_j w) \<and>
   (bit (Decoder_imm_i w) 31 = bit w 31 \<and> bit (Decoder_imm_s w) 31 = bit w 31 \<and>
    bit (Decoder_imm_b w) 31 = bit w 31 \<and> bit (Decoder_imm_j w) 31 = bit w 31)"
  (is "?i \<and> ?s \<and> ?b \<and> ?j \<and> ?eb \<and> ?ej \<and> _")
proof (intro conjI)
  show ?i using sint_sign_copied [of 11 "Decoder_imm_i w"] by (simp add: bit_imm_i)
  show ?s using sint_sign_copied [of 11 "Decoder_imm_s w"] by (simp add: bit_imm_s)
  show eb: ?eb using bit_imm_b [of w 0] by (simp add: bit_0)
  show ej: ?ej using bit_imm_j [of w 0] by (simp add: bit_0)
  have "even (sint (Decoder_imm_b w))" "even (sint (Decoder_imm_j w))"
    using eb ej bit_sint_iff [of "Decoder_imm_b w" 0] bit_sint_iff [of "Decoder_imm_j w" 0] by (simp_all add: bit_0)
  moreover have "- 4096 \<le> sint (Decoder_imm_b w) \<and> sint (Decoder_imm_b w) < 4096"
    using sint_sign_copied [of 12 "Decoder_imm_b w"] by (simp add: bit_imm_b)
  moreover have "- 1048576 \<le> sint (Decoder_imm_j w) \<and> sint (Decoder_imm_j w) < 1048576"
    using sint_sign_copied [of 20 "Decoder_imm_j w"] by (simp add: bit_imm_j)
  ultimately show ?b ?j by (simp; presburger)+
qed (simp_all add: decoder_bits)

subsection \<open>The decoder\<close>

text \<open>What the fields of a decoded instruction may be: \<open>funct3\<close> and \<open>funct7\<close> of 3 and 7 bits (a register index is a 5-bit word),
  and as the immediate a signed 12-bit number, an even signed 13-bit or 21-bit number, the upper 20 bits, or, for the
  system instructions, 12 bits as they are.\<close>

definition signed_within :: "int \<Rightarrow> u32 \<Rightarrow> bool" where
  "signed_within m v \<longleftrightarrow> - m \<le> sint v \<and> sint v < m"

fun in_format :: "decoded_instr \<Rightarrow> bool" where
  "in_format (DI_R r) \<longleftrightarrow> unat (rt_funct3 r) < 8 \<and> unat (rt_funct7 r) < 128"
| "in_format (DI_I i) \<longleftrightarrow> unat (it_funct3 i) < 8 \<and> signed_within 2048 (it_imm i)"
| "in_format (DI_Load i) \<longleftrightarrow> unat (it_funct3 i) < 8 \<and> signed_within 2048 (it_imm i)"
| "in_format (DI_Jalr i) \<longleftrightarrow> unat (it_funct3 i) < 8 \<and> signed_within 2048 (it_imm i)"
| "in_format (DI_S i) \<longleftrightarrow> unat (st_funct3 i) < 8 \<and> signed_within 2048 (st_imm i)"
| "in_format (DI_B i) \<longleftrightarrow> unat (bt_funct3 i) < 8 \<and> signed_within 4096 (bt_imm i) \<and> even (bt_imm i)"
| "in_format (DI_U i) \<longleftrightarrow> ut_imm i AND 0xFFF = 0"
| "in_format (DI_J i) \<longleftrightarrow> signed_within 1048576 (jt_imm i) \<and> even (jt_imm i)"
| "in_format (DI_System opc rd rs1 f3 imm) \<longleftrightarrow> unat f3 < 8 \<and> unat imm < 4096"

lemma unat_field: "n \<le> 8 \<Longrightarrow> unat (ucast (take_bit n (w :: u32)) :: u8) < 2 ^ n"
  by (simp add: unsigned_ucast_eq unsigned_take_bit_eq)

lemma decoded_fields:
  "unat (Decoder_funct3 w) < 8" "unat (Decoder_funct7 w) < 128"
  using unat_field [of 3] unat_field [of 7] by (simp_all add: Decoder_funct3_def Decoder_funct7_def and_masks)

lemma decoded_fixed: "Decoder_imm_u w AND 0xFFF = 0" "unat (drop_bit 20 w :: u32) < 4096"
proof -
  show "Decoder_imm_u w AND 0xFFF = 0"
    by (rule bit_word_eqI) (auto simp: and_masks bit_imm_u bit_simps)
  show "unat (drop_bit 20 w) < 4096"
  proof -
    have "unat (drop_bit 20 w) = unat w div 2 ^ 20" by (simp only: unat_drop_bit_eq drop_bit_eq_div [where 'a = nat])
    then show ?thesis using unsigned_less [where 'a = nat, of w] by simp
  qed
qed

lemma decoded_cases:
  assumes "Decoder_decode w pc = Inr d"
  shows "d = DI_R \<lparr>rt_rd = Decoder_rd w, rt_rs1 = Decoder_rs1 w, rt_rs2 = Decoder_rs2 w,
        rt_funct3 = Decoder_funct3 w, rt_funct7 = Decoder_funct7 w\<rparr>
    \<or> (\<exists>C. C \<in> {DI_I, DI_Load, DI_Jalr} \<and> d = C \<lparr>it_rd = Decoder_rd w, it_rs1 = Decoder_rs1 w,
        it_imm = Decoder_imm_i w, it_funct3 = Decoder_funct3 w\<rparr>)
    \<or> d = DI_S \<lparr>st_rs1 = Decoder_rs1 w, st_rs2 = Decoder_rs2 w, st_imm = Decoder_imm_s w,
        st_funct3 = Decoder_funct3 w\<rparr>
    \<or> d = DI_B \<lparr>bt_rs1 = Decoder_rs1 w, bt_rs2 = Decoder_rs2 w, bt_imm = Decoder_imm_b w,
        bt_funct3 = Decoder_funct3 w\<rparr>
    \<or> d = DI_U \<lparr>ut_rd = Decoder_rd w, ut_imm = Decoder_imm_u w\<rparr>
    \<or> d = DI_J \<lparr>jt_rd = Decoder_rd w, jt_imm = Decoder_imm_j w\<rparr>
    \<or> d = DI_System (Decoder_opcode w) (Decoder_rd w) (Decoder_rs1 w) (Decoder_funct3 w) (drop_bit 20 w)"
  using assms unfolding Decoder_decode_def Let_def by (auto split: if_splits)



end
