(* ===== verification/Reg_File.thy ===== *)
theory Reg_File
  imports Core_Types
begin

text \<open>
  The architectural registers: \<open>src/src/cpu/registers.rs\<close> (the 32 general-purpose
  registers, with \<open>x0\<close> hardwired to zero by the accessors), \<open>src/src/cpu/pc.rs\<close> (the
  program counter) and \<open>src/src/cpu/state.rs\<close> (the state snapshot and its comparison).
  The array \<open>[u32; 32]\<close> is a function on 5-bit indices: it has exactly the 32 entries.
\<close>

type_synonym registers = "regidx \<Rightarrow> u32"

definition Registers_new :: registers where
  "Registers_new = (\<lambda>_. 0)"

definition Registers_read :: "registers \<Rightarrow> regidx \<Rightarrow> u32" where
  "Registers_read rs i = (if RegIdx_is_zero i then 0 else rs i)"

definition Registers_write :: "registers \<Rightarrow> regidx \<Rightarrow> u32 \<Rightarrow> registers" where
  "Registers_write rs i v = (if \<not> RegIdx_is_zero i then rs(i := v) else rs)"

text \<open>The \<open>usize\<close> accessors panic on an index of 32 or more: \<open>None\<close>.\<close>

definition Registers_raw :: "registers \<Rightarrow> nat \<Rightarrow> u32 option" where
  "Registers_raw rs i = (if i < 32 then Some (rs (of_nat i)) else None)"

definition Registers_set_raw :: "registers \<Rightarrow> nat \<Rightarrow> u32 \<Rightarrow> registers option" where
  "Registers_set_raw rs i v = (if i < 32 then Some (rs(of_nat i := v)) else None)"

definition Registers_reset :: "registers \<Rightarrow> registers" where
  "Registers_reset rs = (\<lambda>_. 0)"

lemma read_x0 [simp]: "Registers_read rs 0 = 0"
  by (simp add: Registers_read_def RegIdx_is_zero_def)

lemma read_write [simp]:
  "Registers_read (Registers_write rs i v) j = (if i = j \<and> i \<noteq> 0 then v else Registers_read rs j)"
  by (auto simp: Registers_read_def Registers_write_def RegIdx_is_zero_def)

lemma write_x0 [simp]: "Registers_write rs 0 v = rs"
  by (simp add: Registers_write_def RegIdx_is_zero_def)

lemma read_new [simp]: "Registers_read Registers_new i = 0"
  by (simp add: Registers_read_def Registers_new_def)

text \<open>The contract of a register file, as the pipeline stages and the executor use it.\<close>

locale register_file =
  fixes rd :: "'r \<Rightarrow> regidx \<Rightarrow> u32"
    and wr :: "'r \<Rightarrow> regidx \<Rightarrow> u32 \<Rightarrow> 'r"
  assumes rd_zero: "rd r 0 = 0"
    and rd_wr: "rd (wr r i v) j = (if i = j \<and> i \<noteq> 0 then v else rd r j)"
begin

lemma rd_wr_same: "i \<noteq> 0 \<Longrightarrow> rd (wr r i v) i = v"
  by (simp add: rd_wr)

lemma rd_wr_other: "i \<noteq> j \<Longrightarrow> rd (wr r i v) j = rd r j"
  by (simp add: rd_wr)

lemma rd_wr_zero: "rd (wr r 0 v) j = rd r j"
  by (simp add: rd_wr)

text \<open>Two writes retire in program order: the younger one wins.\<close>

lemma rd_wr_wr: "rd (wr (wr r i v) j w) k =
    (if j = k \<and> j \<noteq> 0 then w else if i = k \<and> i \<noteq> 0 then v else rd r k)"
  by (auto simp: rd_wr)

end

interpretation regs: register_file Registers_read Registers_write
  by unfold_locales simp_all

subsection \<open>Program counter (\<open>pc.rs\<close>)\<close>

type_synonym program_counter = addr

definition PC_zero :: program_counter where "PC_zero = 0"

definition PC_increment :: "program_counter \<Rightarrow> program_counter" where
  "PC_increment pc = Addr_add pc 4"

definition PC_jump :: "program_counter \<Rightarrow> addr \<Rightarrow> program_counter" where
  "PC_jump pc target = target"

definition PC_branch :: "program_counter \<Rightarrow> u32 \<Rightarrow> program_counter" where
  "PC_branch pc off = Addr_add_signed pc off"

subsection \<open>State snapshots (\<open>state.rs\<close>)\<close>

record cpu_state =
  cs_pc :: addr
  cs_regs :: registers
  cs_privilege :: privilege
  cs_instructions_executed :: u64
  cs_halted :: bool

definition CpuState_new :: cpu_state where
  "CpuState_new = \<lparr>cs_pc = 0, cs_regs = (\<lambda>_. 0), cs_privilege = Machine,
     cs_instructions_executed = 0, cs_halted = False\<rparr>"

definition CpuState_from_cpu ::
  "program_counter \<Rightarrow> registers \<Rightarrow> privilege \<Rightarrow> u64 \<Rightarrow> bool \<Rightarrow> cpu_state" where
  "CpuState_from_cpu pc rs p n h = \<lparr>cs_pc = pc, cs_regs = rs, cs_privilege = p,
     cs_instructions_executed = n, cs_halted = h\<rparr>"

definition CpuState_halt :: "cpu_state \<Rightarrow> cpu_state" where
  "CpuState_halt s = s\<lparr>cs_halted := True\<rparr>"

definition CpuState_reset :: "cpu_state \<Rightarrow> cpu_state" where
  "CpuState_reset s = s\<lparr>cs_pc := 0, cs_regs := (\<lambda>_. 0), cs_privilege := Machine,
     cs_instructions_executed := 0, cs_halted := False\<rparr>"

datatype comparison_level = Minimal | Standard | Full

definition all_regidx :: "regidx list" where
  "all_regidx = map of_nat [0..<32]"

definition regs_eq :: "registers \<Rightarrow> registers \<Rightarrow> bool" where
  "regs_eq r r' \<longleftrightarrow> list_all (\<lambda>i. r i = r' i) all_regidx"

fun CpuState_compare :: "cpu_state \<Rightarrow> cpu_state \<Rightarrow> comparison_level \<Rightarrow> bool" where
  "CpuState_compare s t Minimal \<longleftrightarrow> cs_pc s = cs_pc t \<and> regs_eq (cs_regs s) (cs_regs t)"
| "CpuState_compare s t Standard \<longleftrightarrow>
     cs_pc s = cs_pc t \<and> regs_eq (cs_regs s) (cs_regs t) \<and> cs_privilege s = cs_privilege t"
| "CpuState_compare s t Full \<longleftrightarrow>
     cs_pc s = cs_pc t \<and> regs_eq (cs_regs s) (cs_regs t) \<and> cs_privilege s = cs_privilege t \<and>
     cs_instructions_executed s = cs_instructions_executed t \<and> cs_halted s = cs_halted t"

lemma all_regidx_complete: "i \<in> set all_regidx"
proof -
  have "unat i < 32" using unsigned_less [of i] by simp
  then have "i = of_nat (unat i) \<and> unat i \<in> set [0..<32]" by simp
  then show ?thesis unfolding all_regidx_def by (metis image_eqI list.set_map)
qed

lemma regs_eq_iff: "regs_eq r r' \<longleftrightarrow> r = r'"
  using all_regidx_complete by (auto simp: regs_eq_def list_all_iff)

lemma compare_Full_iff: "CpuState_compare s t Full \<longleftrightarrow> s = t"
  by (cases s; cases t) (auto simp: regs_eq_iff)

end
