(* ===== verification/Csr_Regs.thy ===== *)
theory Csr_Regs
  imports Core_Types
begin

text \<open>
  The control and status registers: \<open>src/src/cpu/csr/machine.rs\<close>, \<open>supervisor.rs\<close> and
  \<open>user.rs\<close>.  Each Rust struct has the single field \<open>value: u32\<close>, so a register is its
  word and a method \<open>R::m(&mut self, x)\<close> is \<open>R_m v x\<close>, the new value.  A bit constant of the
  source is \<^term>\<open>bitm n\<close>, a flag test \<^term>\<open>flag v m\<close>, a flag setter
  \<^term>\<open>set_flag v m b\<close>.
\<close>

subsection \<open>Addresses (\<open>csr_addr\<close>, \<open>s_csr_addr\<close>, \<open>u_csr_addr\<close>)\<close>

definition CSR_MVENDORID :: u16 where "CSR_MVENDORID = 0xF11"
definition CSR_MARCHID :: u16 where "CSR_MARCHID = 0xF12"
definition CSR_MIMPID :: u16 where "CSR_MIMPID = 0xF13"
definition CSR_MHARTID :: u16 where "CSR_MHARTID = 0xF14"
definition CSR_MSTATUS :: u16 where "CSR_MSTATUS = 0x300"
definition CSR_MISA :: u16 where "CSR_MISA = 0x301"
definition CSR_MEDELEG :: u16 where "CSR_MEDELEG = 0x302"
definition CSR_MIDELEG :: u16 where "CSR_MIDELEG = 0x303"
definition CSR_MIE :: u16 where "CSR_MIE = 0x304"
definition CSR_MTVEC :: u16 where "CSR_MTVEC = 0x305"
definition CSR_MSCRATCH :: u16 where "CSR_MSCRATCH = 0x340"
definition CSR_MEPC :: u16 where "CSR_MEPC = 0x341"
definition CSR_MCAUSE :: u16 where "CSR_MCAUSE = 0x342"
definition CSR_MTVAL :: u16 where "CSR_MTVAL = 0x343"
definition CSR_MIP :: u16 where "CSR_MIP = 0x344"
definition CSR_SSTATUS :: u16 where "CSR_SSTATUS = 0x100"
definition CSR_SIE :: u16 where "CSR_SIE = 0x104"
definition CSR_STVEC :: u16 where "CSR_STVEC = 0x105"
definition CSR_SATP :: u16 where "CSR_SATP = 0x180"
definition CSR_SSCRATCH :: u16 where "CSR_SSCRATCH = 0x140"
definition CSR_SEPC :: u16 where "CSR_SEPC = 0x141"
definition CSR_SCAUSE :: u16 where "CSR_SCAUSE = 0x142"
definition CSR_STVAL :: u16 where "CSR_STVAL = 0x143"
definition CSR_SIP :: u16 where "CSR_SIP = 0x144"
definition CSR_USTATUS :: u16 where "CSR_USTATUS = 0x000"
definition CSR_UIE :: u16 where "CSR_UIE = 0x004"
definition CSR_UTVEC :: u16 where "CSR_UTVEC = 0x005"
definition CSR_USCRATCH :: u16 where "CSR_USCRATCH = 0x040"
definition CSR_UEPC :: u16 where "CSR_UEPC = 0x041"
definition CSR_UCAUSE :: u16 where "CSR_UCAUSE = 0x042"
definition CSR_UTVAL :: u16 where "CSR_UTVAL = 0x043"
definition CSR_UIP :: u16 where "CSR_UIP = 0x044"

lemmas csr_addr_defs =
  CSR_MVENDORID_def CSR_MARCHID_def CSR_MIMPID_def CSR_MHARTID_def CSR_MSTATUS_def
  CSR_MISA_def CSR_MEDELEG_def CSR_MIDELEG_def CSR_MIE_def CSR_MTVEC_def
  CSR_MSCRATCH_def CSR_MEPC_def CSR_MCAUSE_def CSR_MTVAL_def CSR_MIP_def
  CSR_SSTATUS_def CSR_SIE_def CSR_STVEC_def CSR_SATP_def CSR_SSCRATCH_def
  CSR_SEPC_def CSR_SCAUSE_def CSR_STVAL_def CSR_SIP_def CSR_USTATUS_def
  CSR_UIE_def CSR_UTVEC_def CSR_USCRATCH_def CSR_UEPC_def CSR_UCAUSE_def
  CSR_UTVAL_def CSR_UIP_def

subsection \<open>\<open>mstatus\<close>\<close>

definition MS_TSR :: u32 where "MS_TSR = bitm 22"
definition MS_TW :: u32 where "MS_TW = bitm 21"
definition MS_TVM :: u32 where "MS_TVM = bitm 20"
definition MS_MPRV :: u32 where "MS_MPRV = bitm 17"
definition MS_MXR :: u32 where "MS_MXR = bitm 19"
definition MS_MPP_MASK :: u32 where "MS_MPP_MASK = push_bit 11 0x3"
definition MS_VS_MASK :: u32 where "MS_VS_MASK = push_bit 9 0x3"
definition MS_SPP :: u32 where "MS_SPP = bitm 8"
definition MS_MPIE :: u32 where "MS_MPIE = bitm 7"
definition MS_UBE :: u32 where "MS_UBE = bitm 6"
definition MS_SPIE :: u32 where "MS_SPIE = bitm 5"
definition MS_MIE :: u32 where "MS_MIE = bitm 3"
definition MS_SIE :: u32 where "MS_SIE = bitm 1"

definition MS_WRITABLE :: "u32" where
  "MS_WRITABLE = MS_TSR OR MS_TW OR MS_TVM OR MS_MPRV OR MS_MXR OR MS_MPP_MASK OR MS_VS_MASK
     OR MS_SPP OR MS_MPIE OR MS_UBE OR MS_SPIE OR MS_MIE OR MS_SIE"

definition Mstatus_mie :: "u32 \<Rightarrow> bool" where
  "Mstatus_mie v = flag v MS_MIE"

definition Mstatus_mpie :: "u32 \<Rightarrow> bool" where
  "Mstatus_mpie v = flag v MS_MPIE"

definition Mstatus_sie :: "u32 \<Rightarrow> bool" where
  "Mstatus_sie v = flag v MS_SIE"

definition Mstatus_spie :: "u32 \<Rightarrow> bool" where
  "Mstatus_spie v = flag v MS_SPIE"

definition Mstatus_mprv :: "u32 \<Rightarrow> bool" where
  "Mstatus_mprv v = flag v MS_MPRV"

definition Mstatus_mxr :: "u32 \<Rightarrow> bool" where
  "Mstatus_mxr v = flag v MS_MXR"

definition Mstatus_set_mie :: "u32 \<Rightarrow> bool \<Rightarrow> u32" where
  "Mstatus_set_mie v b = set_flag v MS_MIE b"

definition Mstatus_set_mpie :: "u32 \<Rightarrow> bool \<Rightarrow> u32" where
  "Mstatus_set_mpie v b = set_flag v MS_MPIE b"

definition Mstatus_set_sie :: "u32 \<Rightarrow> bool \<Rightarrow> u32" where
  "Mstatus_set_sie v b = set_flag v MS_SIE b"

definition Mstatus_set_spie :: "u32 \<Rightarrow> bool \<Rightarrow> u32" where
  "Mstatus_set_spie v b = set_flag v MS_SPIE b"

definition Mstatus_mpp :: "u32 \<Rightarrow> privilege" where
  "Mstatus_mpp v =
     (let b = drop_bit 11 v AND 0x3
      in if b = 0 then User else if b = 1 then Supervisor else if b = 3 then Machine else User)"

definition Mstatus_set_mpp :: "u32 \<Rightarrow> privilege \<Rightarrow> u32" where
  "Mstatus_set_mpp v level =
     (v AND NOT MS_MPP_MASK) OR push_bit 11 (ucast (PrivilegeLevel_bits level))"

definition Mstatus_spp :: "u32 \<Rightarrow> privilege" where
  "Mstatus_spp v = (if flag v MS_SPP then Supervisor else User)"

definition Mstatus_set_spp :: "u32 \<Rightarrow> privilege \<Rightarrow> u32" where
  "Mstatus_set_spp v level = set_flag v MS_SPP (level = Supervisor)"

definition Mstatus_write :: "u32 \<Rightarrow> u32 \<Rightarrow> u32" where
  "Mstatus_write v x = masked_write v MS_WRITABLE x"

subsection \<open>\<open>mtvec\<close>, \<open>mepc\<close>, \<open>mcause\<close>, \<open>mtval\<close>\<close>

datatype trap_vector_mode = Direct | Vectored

definition Mtvec_base :: "u32 \<Rightarrow> addr" where
  "Mtvec_base v = v AND NOT 0x3"

definition Mtvec_set_base :: "u32 \<Rightarrow> u32 \<Rightarrow> u32" where
  "Mtvec_set_base v x = (v AND 0x3) OR (x AND NOT 0x3)"

definition Mtvec_mode :: "u32 \<Rightarrow> trap_vector_mode" where
  "Mtvec_mode v = (if v AND 0x3 = 0 then Direct else if v AND 0x3 = 1 then Vectored else Direct)"

definition Mtvec_set_mode :: "u32 \<Rightarrow> trap_vector_mode \<Rightarrow> u32" where
  "Mtvec_set_mode v m = (v AND NOT 0x3) OR (case m of Direct \<Rightarrow> 0 | Vectored \<Rightarrow> 1)"

definition Mtvec_trap_address :: "u32 \<Rightarrow> u32 \<Rightarrow> bool \<Rightarrow> addr" where
  "Mtvec_trap_address v cause is_interrupt =
     (case Mtvec_mode v of
        Direct \<Rightarrow> Mtvec_base v
      | Vectored \<Rightarrow> if is_interrupt then Mtvec_base v + cause * 4 else Mtvec_base v)"

definition Mtvec_write :: "u32 \<Rightarrow> u32 \<Rightarrow> u32" where
  "Mtvec_write v x = x"

definition Mepc_get :: "u32 \<Rightarrow> addr" where
  "Mepc_get v = v"

definition Mepc_set :: "u32 \<Rightarrow> addr \<Rightarrow> u32" where
  "Mepc_set v a = a"

definition Mepc_write :: "u32 \<Rightarrow> u32 \<Rightarrow> u32" where
  "Mepc_write v x = x AND NOT 0x3"

definition Mcause_is_interrupt :: "u32 \<Rightarrow> bool" where
  "Mcause_is_interrupt v = (drop_bit 31 v \<noteq> 0)"

definition Mcause_code :: "u32 \<Rightarrow> u32" where
  "Mcause_code v = v AND 0x7FFFFFFF"

definition Mcause_set :: "u32 \<Rightarrow> bool \<Rightarrow> u32 \<Rightarrow> u32" where
  "Mcause_set v is_interrupt code = (if is_interrupt then bitm 31 else 0) OR (code AND 0x7FFFFFFF)"

definition Mcause_set_exception :: "u32 \<Rightarrow> u32 \<Rightarrow> u32" where
  "Mcause_set_exception v x = Mcause_set v False x"

definition Mcause_set_interrupt :: "u32 \<Rightarrow> u32 \<Rightarrow> u32" where
  "Mcause_set_interrupt v x = Mcause_set v True x"

definition Mcause_write :: "u32 \<Rightarrow> u32 \<Rightarrow> u32" where
  "Mcause_write v x = x"

fun Mcause_ecall_code :: "privilege \<Rightarrow> u32" where
  "Mcause_ecall_code User = 8"
| "Mcause_ecall_code Supervisor = 9"
| "Mcause_ecall_code Machine = 11"

definition Mtval_write :: "u32 \<Rightarrow> u32 \<Rightarrow> u32" where
  "Mtval_write v x = x"

subsection \<open>\<open>mie\<close> and \<open>mip\<close>\<close>

text \<open>\<open>ie_bits\<close> and \<open>ip_bits\<close> give the enable and the pending bit of an interrupt the same position.\<close>

definition IE_USIE :: u32 where "IE_USIE = bitm 0"
definition IE_SSIE :: u32 where "IE_SSIE = bitm 1"
definition IE_MSIE :: u32 where "IE_MSIE = bitm 3"
definition IE_UTIE :: u32 where "IE_UTIE = bitm 4"
definition IE_STIE :: u32 where "IE_STIE = bitm 5"
definition IE_MTIE :: u32 where "IE_MTIE = bitm 7"
definition IE_UEIE :: u32 where "IE_UEIE = bitm 8"
definition IE_SEIE :: u32 where "IE_SEIE = bitm 9"
definition IE_MEIE :: u32 where "IE_MEIE = bitm 11"

definition IP_USIP :: u32 where "IP_USIP = bitm 0"
definition IP_SSIP :: u32 where "IP_SSIP = bitm 1"
definition IP_MSIP :: u32 where "IP_MSIP = bitm 3"
definition IP_UTIP :: u32 where "IP_UTIP = bitm 4"
definition IP_STIP :: u32 where "IP_STIP = bitm 5"
definition IP_MTIP :: u32 where "IP_MTIP = bitm 7"
definition IP_UEIP :: u32 where "IP_UEIP = bitm 8"
definition IP_SEIP :: u32 where "IP_SEIP = bitm 9"
definition IP_MEIP :: u32 where "IP_MEIP = bitm 11"

definition Mie_msie :: "u32 \<Rightarrow> bool" where
  "Mie_msie v = flag v IE_MSIE"

definition Mie_mtie :: "u32 \<Rightarrow> bool" where
  "Mie_mtie v = flag v IE_MTIE"

definition Mie_meie :: "u32 \<Rightarrow> bool" where
  "Mie_meie v = flag v IE_MEIE"

definition Mie_ssie :: "u32 \<Rightarrow> bool" where
  "Mie_ssie v = flag v IE_SSIE"

definition Mie_stie :: "u32 \<Rightarrow> bool" where
  "Mie_stie v = flag v IE_STIE"

definition Mie_seie :: "u32 \<Rightarrow> bool" where
  "Mie_seie v = flag v IE_SEIE"

definition Mie_write :: "u32 \<Rightarrow> u32 \<Rightarrow> u32" where
  "Mie_write v x = x AND (IE_MSIE OR IE_MTIE OR IE_MEIE OR IE_SSIE OR IE_STIE OR IE_SEIE OR IE_USIE OR IE_UTIE OR IE_UEIE)"

definition Mip_msip :: "u32 \<Rightarrow> bool" where
  "Mip_msip v = flag v IP_MSIP"

definition Mip_mtip :: "u32 \<Rightarrow> bool" where
  "Mip_mtip v = flag v IP_MTIP"

definition Mip_meip :: "u32 \<Rightarrow> bool" where
  "Mip_meip v = flag v IP_MEIP"

definition Mip_ssip :: "u32 \<Rightarrow> bool" where
  "Mip_ssip v = flag v IP_SSIP"

definition Mip_stip :: "u32 \<Rightarrow> bool" where
  "Mip_stip v = flag v IP_STIP"

definition Mip_seip :: "u32 \<Rightarrow> bool" where
  "Mip_seip v = flag v IP_SEIP"

definition Mip_set_mtip :: "u32 \<Rightarrow> bool \<Rightarrow> u32" where
  "Mip_set_mtip v b = set_flag v IP_MTIP b"

definition Mip_set_msip :: "u32 \<Rightarrow> bool \<Rightarrow> u32" where
  "Mip_set_msip v b = set_flag v IP_MSIP b"

definition Mip_set_meip :: "u32 \<Rightarrow> bool \<Rightarrow> u32" where
  "Mip_set_meip v b = set_flag v IP_MEIP b"

definition Mip_set_ssip :: "u32 \<Rightarrow> bool \<Rightarrow> u32" where
  "Mip_set_ssip v b = set_flag v IP_SSIP b"

definition Mip_set_stip :: "u32 \<Rightarrow> bool \<Rightarrow> u32" where
  "Mip_set_stip v b = set_flag v IP_STIP b"

definition Mip_set_seip :: "u32 \<Rightarrow> bool \<Rightarrow> u32" where
  "Mip_set_seip v b = set_flag v IP_SEIP b"

definition Mip_has_pending_interrupt :: "u32 \<Rightarrow> u32 \<Rightarrow> bool" where
  "Mip_has_pending_interrupt ip ie \<longleftrightarrow>
     Mip_mtip ip \<and> Mie_mtie ie \<or> Mip_msip ip \<and> Mie_msie ie \<or> Mip_meip ip \<and> Mie_meie ie"

definition Mip_highest_priority_interrupt :: "u32 \<Rightarrow> u32 \<Rightarrow> (bool \<times> u32) option" where
  "Mip_highest_priority_interrupt ip ie =
     (if Mip_meip ip \<and> Mie_meie ie then Some (True, 11)
      else if Mip_mtip ip \<and> Mie_mtie ie then Some (True, 7)
      else if Mip_msip ip \<and> Mie_msie ie then Some (True, 3)
      else None)"

definition Mip_write :: "u32 \<Rightarrow> u32 \<Rightarrow> u32" where
  "Mip_write v x = masked_write v (IP_SSIP OR IP_STIP OR IP_SEIP) x"

subsection \<open>\<open>mideleg\<close>, \<open>medeleg\<close>, \<open>mscratch\<close>, \<open>misa\<close>\<close>

definition MIDELEG_SSIP :: u32 where "MIDELEG_SSIP = bitm 2"
definition MIDELEG_STIP :: u32 where "MIDELEG_STIP = bitm 6"
definition MIDELEG_SEIP :: u32 where "MIDELEG_SEIP = bitm 10"
definition MIDELEG_ALL :: u32 where "MIDELEG_ALL = MIDELEG_SSIP OR MIDELEG_STIP OR MIDELEG_SEIP"

definition Mideleg_ssip :: "u32 \<Rightarrow> bool" where
  "Mideleg_ssip v = flag v MIDELEG_SSIP"

definition Mideleg_stip :: "u32 \<Rightarrow> bool" where
  "Mideleg_stip v = flag v MIDELEG_STIP"

definition Mideleg_seip :: "u32 \<Rightarrow> bool" where
  "Mideleg_seip v = flag v MIDELEG_SEIP"

definition Mideleg_is_delegated :: "u32 \<Rightarrow> u32 \<Rightarrow> bool" where
  "Mideleg_is_delegated v cause =
     (if cause = 1 then Mideleg_ssip v else if cause = 5 then Mideleg_stip v
      else if cause = 9 then Mideleg_seip v else False)"

definition Mideleg_read :: "u32 \<Rightarrow> u32" where
  "Mideleg_read v = v AND MIDELEG_ALL"

definition Mideleg_write :: "u32 \<Rightarrow> u32 \<Rightarrow> u32" where
  "Mideleg_write v x = x AND MIDELEG_ALL"

definition MEDELEG_ALL :: "u32" where
  "MEDELEG_ALL = bitm 0 OR bitm 1 OR bitm 2 OR bitm 3 OR bitm 4 OR bitm 5 OR bitm 6 OR bitm 7 OR bitm 8 OR bitm 9 OR bitm 12 OR bitm 13 OR bitm 15"

definition Medeleg_is_delegated :: "u32 \<Rightarrow> u32 \<Rightarrow> bool" where
  "Medeleg_is_delegated v cause = (if cause > 31 then False else flag v (bitm (unat cause)))"

definition Medeleg_read :: "u32 \<Rightarrow> u32" where
  "Medeleg_read v = v AND MEDELEG_ALL"

definition Medeleg_write :: "u32 \<Rightarrow> u32 \<Rightarrow> u32" where
  "Medeleg_write v x = x AND MEDELEG_ALL"

definition Mscratch_write :: "u32 \<Rightarrow> u32 \<Rightarrow> u32" where
  "Mscratch_write v x = x"

definition Misa_new :: "u32" where
  "Misa_new = bitm 30 OR (bitm 8 OR bitm 12 OR bitm 18 OR bitm 20)"

definition Misa_write :: "u32 \<Rightarrow> u32 \<Rightarrow> u32" where
  "Misa_write v x = v"

subsection \<open>Supervisor registers (\<open>supervisor.rs\<close>)\<close>

definition Sstatus_sie :: "u32 \<Rightarrow> bool" where
  "Sstatus_sie v = flag v (bitm 1)"

definition Sstatus_set_sie :: "u32 \<Rightarrow> bool \<Rightarrow> u32" where
  "Sstatus_set_sie v b = set_flag v (bitm 1) b"

definition Sstatus_spie :: "u32 \<Rightarrow> bool" where
  "Sstatus_spie v = flag v (bitm 5)"

definition Sstatus_set_spie :: "u32 \<Rightarrow> bool \<Rightarrow> u32" where
  "Sstatus_set_spie v b = set_flag v (bitm 5) b"

definition Sstatus_sum :: "u32 \<Rightarrow> bool" where
  "Sstatus_sum v = flag v (bitm 18)"

definition Sstatus_set_sum :: "u32 \<Rightarrow> bool \<Rightarrow> u32" where
  "Sstatus_set_sum v b = set_flag v (bitm 18) b"

definition Sstatus_mxr :: "u32 \<Rightarrow> bool" where
  "Sstatus_mxr v = flag v (bitm 19)"

definition Sstatus_set_mxr :: "u32 \<Rightarrow> bool \<Rightarrow> u32" where
  "Sstatus_set_mxr v b = set_flag v (bitm 19) b"

definition Sstatus_spp :: "u32 \<Rightarrow> bool" where
  "Sstatus_spp v = flag v (bitm 8)"

definition Sstatus_set_spp :: "u32 \<Rightarrow> privilege \<Rightarrow> u32" where
  "Sstatus_set_spp v p = set_flag v (bitm 8) (p = Supervisor)"

definition Sstatus_write :: "u32 \<Rightarrow> u32 \<Rightarrow> u32" where
  "Sstatus_write v x = x AND 0xDE133"

definition Sie_ssie :: "u32 \<Rightarrow> bool" where
  "Sie_ssie v = flag v (bitm 1)"

definition Sie_stie :: "u32 \<Rightarrow> bool" where
  "Sie_stie v = flag v (bitm 5)"

definition Sie_seie :: "u32 \<Rightarrow> bool" where
  "Sie_seie v = flag v (bitm 9)"

definition Sie_write :: "u32 \<Rightarrow> u32 \<Rightarrow> u32" where
  "Sie_write v x = x AND 0x222"

definition Sip_ssip :: "u32 \<Rightarrow> bool" where
  "Sip_ssip v = flag v (bitm 1)"

definition Sip_set_ssip :: "u32 \<Rightarrow> bool \<Rightarrow> u32" where
  "Sip_set_ssip v b = set_flag v (bitm 1) b"

definition Sip_stip :: "u32 \<Rightarrow> bool" where
  "Sip_stip v = flag v (bitm 5)"

definition Sip_set_stip :: "u32 \<Rightarrow> bool \<Rightarrow> u32" where
  "Sip_set_stip v b = set_flag v (bitm 5) b"

definition Sip_seip :: "u32 \<Rightarrow> bool" where
  "Sip_seip v = flag v (bitm 9)"

definition Sip_set_seip :: "u32 \<Rightarrow> bool \<Rightarrow> u32" where
  "Sip_set_seip v b = set_flag v (bitm 9) b"

definition Sip_write :: "u32 \<Rightarrow> u32 \<Rightarrow> u32" where
  "Sip_write v x = (if x AND bitm 1 = 0 then v AND NOT (bitm 1) else v)"

definition Stvec_base :: "u32 \<Rightarrow> addr" where
  "Stvec_base v = v AND NOT 0x3"

definition Stvec_mode :: "u32 \<Rightarrow> u8" where
  "Stvec_mode v = ucast (v AND 0x3)"

definition Stvec_write :: "u32 \<Rightarrow> u32 \<Rightarrow> u32" where
  "Stvec_write v x = x"

definition Sscratch_write :: "u32 \<Rightarrow> u32 \<Rightarrow> u32" where
  "Sscratch_write v x = x"

definition Sepc_get :: "u32 \<Rightarrow> addr" where
  "Sepc_get v = v"

definition Sepc_set :: "u32 \<Rightarrow> addr \<Rightarrow> u32" where
  "Sepc_set v a = a"

definition Sepc_write :: "u32 \<Rightarrow> u32 \<Rightarrow> u32" where
  "Sepc_write v x = x AND NOT 0x3"

definition Scause_is_interrupt :: "u32 \<Rightarrow> bool" where
  "Scause_is_interrupt v = (drop_bit 31 v \<noteq> 0)"

definition Scause_code :: "u32 \<Rightarrow> u32" where
  "Scause_code v = v AND 0x7FFFFFFF"

definition Scause_set :: "u32 \<Rightarrow> bool \<Rightarrow> u32 \<Rightarrow> u32" where
  "Scause_set v is_interrupt code = (if is_interrupt then bitm 31 else 0) OR (code AND 0x7FFFFFFF)"

definition Scause_write :: "u32 \<Rightarrow> u32 \<Rightarrow> u32" where
  "Scause_write v x = x"

definition Stval_write :: "u32 \<Rightarrow> u32 \<Rightarrow> u32" where
  "Stval_write v x = x"

definition SATP_MODE_MASK :: u32 where "SATP_MODE_MASK = bitm 31"
definition SATP_ASID_MASK :: u32 where "SATP_ASID_MASK = push_bit 22 0x1FF"
definition SATP_PPN_MASK :: u32 where "SATP_PPN_MASK = 0x003FFFFF"

definition Satp_write :: "u32 \<Rightarrow> u32 \<Rightarrow> u32" where
  "Satp_write v x = x AND (SATP_MODE_MASK OR SATP_ASID_MASK OR SATP_PPN_MASK)"

definition Satp_mode :: "u32 \<Rightarrow> u8" where
  "Satp_mode v = ucast (drop_bit 31 (v AND SATP_MODE_MASK))"

definition Satp_is_sv32 :: "u32 \<Rightarrow> bool" where
  "Satp_is_sv32 v = (Satp_mode v = 1)"

definition Satp_asid :: "u32 \<Rightarrow> u16" where
  "Satp_asid v = ucast (drop_bit 22 (v AND SATP_ASID_MASK))"

definition Satp_ppn :: "u32 \<Rightarrow> u32" where
  "Satp_ppn v = v AND SATP_PPN_MASK"

definition Satp_root_table_addr :: "u32 \<Rightarrow> addr" where
  "Satp_root_table_addr v = push_bit 12 (Satp_ppn v)"

subsection \<open>User registers (\<open>user.rs\<close>)\<close>

definition Ustatus_write :: "u32 \<Rightarrow> u32 \<Rightarrow> u32" where
  "Ustatus_write v x = x AND 0x1"

definition Ustatus_uie :: "u32 \<Rightarrow> bool" where
  "Ustatus_uie v = flag v 0x1"

definition Ustatus_set_uie :: "u32 \<Rightarrow> bool \<Rightarrow> u32" where
  "Ustatus_set_uie v b = set_flag v 0x1 b"

definition Uie_write :: "u32 \<Rightarrow> u32 \<Rightarrow> u32" where
  "Uie_write v x = x AND 0x111"

definition Utvec_base :: "u32 \<Rightarrow> addr" where
  "Utvec_base v = v AND NOT 0x3"

definition Utvec_mode :: "u32 \<Rightarrow> u8" where
  "Utvec_mode v = ucast (v AND 0x3)"

definition Utvec_write :: "u32 \<Rightarrow> u32 \<Rightarrow> u32" where
  "Utvec_write v x = x"

definition Uscratch_write :: "u32 \<Rightarrow> u32 \<Rightarrow> u32" where
  "Uscratch_write v x = x"

definition Uepc_get :: "u32 \<Rightarrow> addr" where
  "Uepc_get v = v"

definition Uepc_set :: "u32 \<Rightarrow> addr \<Rightarrow> u32" where
  "Uepc_set v a = a"

definition Uepc_write :: "u32 \<Rightarrow> u32 \<Rightarrow> u32" where
  "Uepc_write v x = x AND NOT 0x3"

definition Ucause_is_interrupt :: "u32 \<Rightarrow> bool" where
  "Ucause_is_interrupt v = (drop_bit 31 v \<noteq> 0)"

definition Ucause_code :: "u32 \<Rightarrow> u32" where
  "Ucause_code v = v AND 0x7FFFFFFF"

definition Ucause_set :: "u32 \<Rightarrow> bool \<Rightarrow> u32 \<Rightarrow> u32" where
  "Ucause_set v is_interrupt code = (if is_interrupt then bitm 31 else 0) OR (code AND 0x7FFFFFFF)"

definition Ucause_write :: "u32 \<Rightarrow> u32 \<Rightarrow> u32" where
  "Ucause_write v x = x"

definition Utval_write :: "u32 \<Rightarrow> u32 \<Rightarrow> u32" where
  "Utval_write v x = x"

end
