(* ===== verification/Perf_Counters.thy ===== *)
theory Perf_Counters
  imports Core_Types
begin

text \<open>
  The performance counters of \<open>src/src/cpu/csr/perf.rs\<close>: the 64-bit counter kept as two
  32-bit halves, the cycle and instruction counters, the 29 programmable counters with their
  event selectors, and the inhibit register.  An array of the source is a list of its length;
  \<open>perf_wf\<close> is that length.  The main lemma describes the loop of \<open>record_event\<close> counter by
  counter.
\<close>

subsection \<open>\<open>Counter64\<close>\<close>

record counter64 =
  c64_low :: u32
  c64_high :: u32

definition Counter64_new :: counter64 where
  "Counter64_new = \<lparr>c64_low = 0, c64_high = 0\<rparr>"

definition Counter64_get :: "counter64 \<Rightarrow> u64" where
  "Counter64_get c = push_bit 32 (ucast (c64_high c)) OR ucast (c64_low c)"

definition Counter64_set :: "counter64 \<Rightarrow> u64 \<Rightarrow> counter64" where
  "Counter64_set c v = c\<lparr>c64_low := ucast v, c64_high := ucast (drop_bit 32 v)\<rparr>"

definition Counter64_increment :: "counter64 \<Rightarrow> u64 \<Rightarrow> counter64" where
  "Counter64_increment c amount = Counter64_set c (Counter64_get c + amount)"

text \<open>\<open>overflowing_add(1)\<close> carries exactly when the sum is smaller than the summand.\<close>

definition Counter64_increment_one :: "counter64 \<Rightarrow> counter64" where
  "Counter64_increment_one c =
     (let new_low = c64_low c + 1;
          carry = new_low < c64_low c;
          c1 = c\<lparr>c64_low := new_low\<rparr>
      in if carry then c1\<lparr>c64_high := c64_high c1 + 1\<rparr> else c1)"

definition Counter64_read_low :: "counter64 \<Rightarrow> u32" where
  "Counter64_read_low c = c64_low c"

definition Counter64_read_high :: "counter64 \<Rightarrow> u32" where
  "Counter64_read_high c = c64_high c"

definition Counter64_write_low :: "counter64 \<Rightarrow> u32 \<Rightarrow> counter64" where
  "Counter64_write_low c v = c\<lparr>c64_low := v\<rparr>"

definition Counter64_write_high :: "counter64 \<Rightarrow> u32 \<Rightarrow> counter64" where
  "Counter64_write_high c v = c\<lparr>c64_high := v\<rparr>"

lemma Counter64_get_set [simp]: "Counter64_get (Counter64_set c v) = v"
  by (rule bit_word_eqI) (auto simp: Counter64_get_def Counter64_set_def bit_simps)

lemma Counter64_set_get [simp]: "Counter64_set c (Counter64_get c) = c"
proof -
  have "ucast (Counter64_get c) = c64_low c" "ucast (drop_bit 32 (Counter64_get c)) = c64_high c"
    by (rule bit_word_eqI; auto simp: Counter64_get_def bit_simps dest: bit_imp_le_length)+
  then show ?thesis by (simp add: Counter64_set_def)
qed

lemma Counter64_get_inject: "Counter64_get c = Counter64_get d \<longleftrightarrow> c = d"
proof
  assume "Counter64_get c = Counter64_get d"
  then have "Counter64_set c (Counter64_get c) = Counter64_set c (Counter64_get d)" by simp
  moreover have "Counter64_set c (Counter64_get d) = Counter64_set d (Counter64_get d)"
    by (cases c; cases d) (simp add: Counter64_set_def)
  ultimately show "c = d" by simp
qed simp

lemma Counter64_get_increment [simp]: "Counter64_get (Counter64_increment c n) = Counter64_get c + n"
  by (simp add: Counter64_increment_def)

lemma Counter64_unat_get: "unat (Counter64_get c) = 2 ^ 32 * unat (c64_high c) + unat (c64_low c)"
proof -
  have "push_bit 32 (ucast (c64_high c)) AND (ucast (c64_low c) :: u64) = 0"
    by (rule bit_word_eqI) (auto simp: bit_simps dest: bit_imp_le_length)
  then have "Counter64_get c = push_bit 32 (ucast (c64_high c)) + ucast (c64_low c)"
    by (simp add: Counter64_get_def disjunctive_add_eq_or)
  moreover have "unat (c64_high c) < 2 ^ 32" "unat (c64_low c) < 2 ^ 32"
    using unsigned_less [of "c64_high c"] unsigned_less [of "c64_low c"] by simp_all
  ultimately show ?thesis
    by (simp add: unat_word_ariths unsigned_push_bit_eq take_bit_nat_eq_self push_bit_eq_mult
        unsigned_ucast_eq unsigned_take_bit_eq)
qed

lemma Counter64_get_increment_one [simp]:
  "Counter64_get (Counter64_increment_one c) = Counter64_get c + 1"
proof -
  let ?l = "unat (c64_low c)" and ?h = "unat (c64_high c)"
  have b: "?l < 2 ^ 32" "?h < 2 ^ 32"
    using unsigned_less [of "c64_low c"] unsigned_less [of "c64_high c"] by simp_all
  have l: "unat (c64_low c + 1) = (?l + 1) mod 2 ^ 32" "unat (c64_high c + 1) = (?h + 1) mod 2 ^ 32"
    by (simp_all add: unat_word_ariths)
  have g: "unat (Counter64_get c + 1) = (2 ^ 32 * ?h + ?l + 1) mod 2 ^ 64"
    by (simp add: unat_word_ariths Counter64_unat_get)
  show ?thesis
  proof (cases "?l = 2 ^ 32 - 1")
    case True
    then have "unat (Counter64_get (Counter64_increment_one c)) = 2 ^ 32 * ((?h + 1) mod 2 ^ 32)"
      using l by (simp add: Counter64_increment_one_def word_less_nat_alt Counter64_unat_get)
    also have "\<dots> = (2 ^ 32 * (?h + 1)) mod (2 ^ 32 * 2 ^ 32)" by (simp only: mult_mod_right)
    also have "2 ^ 32 * (?h + 1) = 2 ^ 32 * ?h + ?l + 1" unfolding True by simp
    also have "(2 ^ 32 * ?h + ?l + 1) mod (2 ^ 32 * 2 ^ 32) = unat (Counter64_get c + 1)"
      unfolding g by simp
    finally show ?thesis by (simp add: word_unat_eq_iff)
  next
    case False
    with b have small: "?l + 1 < 2 ^ 32" by linarith
    then have "unat (c64_low c + 1) = ?l + 1" unfolding l by (rule mod_less)
    moreover from this have "\<not> c64_low c + 1 < c64_low c" by (simp add: word_less_nat_alt)
    ultimately have "unat (Counter64_get (Counter64_increment_one c)) = 2 ^ 32 * ?h + ?l + 1"
      by (simp add: Counter64_increment_one_def Counter64_unat_get)
    moreover have "2 ^ 32 * ?h + ?l + 1 < 2 ^ 64" using b small by simp
    ultimately show ?thesis using g by (simp only: word_unat_eq_iff mod_less)
  qed
qed

lemma Counter64_increment_one_eq: "Counter64_increment_one c = Counter64_increment c 1"
  by (simp add: Counter64_get_inject [symmetric])

subsection \<open>Events\<close>

datatype perf_event = PE_None | PE_Cycles | PE_InstructionsRetired | PE_LoadUseStalls
  | PE_ControlHazards | PE_BranchExecuted | PE_BranchTaken | PE_BranchNotTaken | PE_MemoryReads
  | PE_MemoryWrites | PE_AluOperations | PE_CsrAccesses | PE_PipelineFlushes
  | PE_InterruptsTaken | PE_ExceptionsTaken | PE_BranchMispredictions

definition PerfEvent_from_code :: "u8 \<Rightarrow> perf_event" where
  "PerfEvent_from_code c =
     (if c = 0 then PE_None else if c = 1 then PE_Cycles else if c = 2 then PE_InstructionsRetired
      else if c = 3 then PE_LoadUseStalls else if c = 4 then PE_ControlHazards
      else if c = 5 then PE_BranchExecuted else if c = 6 then PE_BranchTaken
      else if c = 7 then PE_BranchNotTaken else if c = 8 then PE_MemoryReads
      else if c = 9 then PE_MemoryWrites else if c = 10 then PE_AluOperations
      else if c = 11 then PE_CsrAccesses else if c = 12 then PE_PipelineFlushes
      else if c = 13 then PE_InterruptsTaken else if c = 14 then PE_ExceptionsTaken
      else if c = 15 then PE_BranchMispredictions else PE_None)"

fun PerfEvent_code :: "perf_event \<Rightarrow> u8" where
  "PerfEvent_code PE_None = 0"
| "PerfEvent_code PE_Cycles = 1"
| "PerfEvent_code PE_InstructionsRetired = 2"
| "PerfEvent_code PE_LoadUseStalls = 3"
| "PerfEvent_code PE_ControlHazards = 4"
| "PerfEvent_code PE_BranchExecuted = 5"
| "PerfEvent_code PE_BranchTaken = 6"
| "PerfEvent_code PE_BranchNotTaken = 7"
| "PerfEvent_code PE_MemoryReads = 8"
| "PerfEvent_code PE_MemoryWrites = 9"
| "PerfEvent_code PE_AluOperations = 10"
| "PerfEvent_code PE_CsrAccesses = 11"
| "PerfEvent_code PE_PipelineFlushes = 12"
| "PerfEvent_code PE_InterruptsTaken = 13"
| "PerfEvent_code PE_ExceptionsTaken = 14"
| "PerfEvent_code PE_BranchMispredictions = 15"

lemma PerfEvent_from_code_code [simp]: "PerfEvent_from_code (PerfEvent_code e) = e"
  by (cases e) (simp_all add: PerfEvent_from_code_def)

subsection \<open>Inhibit register (\<open>Mcountinhibit\<close>)\<close>

definition Mcountinhibit_cy :: "u32 \<Rightarrow> bool" where
  "Mcountinhibit_cy v = flag v (bitm 0)"

definition Mcountinhibit_ir :: "u32 \<Rightarrow> bool" where
  "Mcountinhibit_ir v = flag v (bitm 1)"

definition Mcountinhibit_hpms :: "u32 \<Rightarrow> bool" where
  "Mcountinhibit_hpms v = flag v (bitm 2)"

definition Mcountinhibit_hpm :: "u32 \<Rightarrow> nat \<Rightarrow> bool" where
  "Mcountinhibit_hpm v index = (if index < 3 \<or> index > 31 then False else flag v (bitm index))"

subsection \<open>Programmable counters and their selectors\<close>

definition HPM_COUNTER_COUNT :: nat where "HPM_COUNTER_COUNT = 29"
definition HPM_COUNTER_BASE :: nat where "HPM_COUNTER_BASE = 3"

record mhpmcounter =
  hc_counter :: counter64
  hc_index :: nat

definition Mhpmcounter_new :: "nat \<Rightarrow> mhpmcounter" where
  "Mhpmcounter_new index = \<lparr>hc_counter = Counter64_new, hc_index = max HPM_COUNTER_BASE (min index 31)\<rparr>"

definition Mhpmcounter_increment :: "mhpmcounter \<Rightarrow> mhpmcounter" where
  "Mhpmcounter_increment c = c\<lparr>hc_counter := Counter64_increment_one (hc_counter c)\<rparr>"

definition Mhpmcounter_write_low :: "mhpmcounter \<Rightarrow> u32 \<Rightarrow> mhpmcounter" where
  "Mhpmcounter_write_low c v = c\<lparr>hc_counter := Counter64_write_low (hc_counter c) v\<rparr>"

definition Mhpmcounter_write_high :: "mhpmcounter \<Rightarrow> u32 \<Rightarrow> mhpmcounter" where
  "Mhpmcounter_write_high c v = c\<lparr>hc_counter := Counter64_write_high (hc_counter c) v\<rparr>"

record mhpmevent =
  he_value :: u32
  he_index :: nat

definition Mhpmevent_new :: "nat \<Rightarrow> mhpmevent" where
  "Mhpmevent_new index = \<lparr>he_value = 0, he_index = max 3 (min index 31)\<rparr>"

definition Mhpmevent_event :: "mhpmevent \<Rightarrow> perf_event" where
  "Mhpmevent_event e = PerfEvent_from_code (ucast (he_value e))"

definition Mhpmevent_set_event :: "mhpmevent \<Rightarrow> perf_event \<Rightarrow> mhpmevent" where
  "Mhpmevent_set_event e ev = e\<lparr>he_value := ucast (PerfEvent_code ev)\<rparr>"

definition Mhpmevent_write :: "mhpmevent \<Rightarrow> u32 \<Rightarrow> mhpmevent" where
  "Mhpmevent_write e v = e\<lparr>he_value := v AND 0xFFFF\<rparr>"

subsection \<open>\<open>PerfCounters\<close>\<close>

text \<open>\<open>Mcycle\<close> and \<open>Minstret\<close> wrap one \<open>Counter64\<close>; \<open>Mcycleh\<close> and \<open>Minstreth\<close> are
  words of their own, not the high halves of those counters.\<close>

record perf_counters =
  pc_mcycle :: counter64
  pc_mcycleh :: u32
  pc_minstret :: counter64
  pc_minstreth :: u32
  pc_mcountinhibit :: u32
  pc_mhpmcounters :: "mhpmcounter list"
  pc_mhpmevents :: "mhpmevent list"

definition PerfCounters_new :: perf_counters where
  "PerfCounters_new =
     \<lparr>pc_mcycle = Counter64_new, pc_mcycleh = 0, pc_minstret = Counter64_new, pc_minstreth = 0,
      pc_mcountinhibit = 0,
      pc_mhpmcounters = map (\<lambda>i. Mhpmcounter_new (i + HPM_COUNTER_BASE)) [0..<HPM_COUNTER_COUNT],
      pc_mhpmevents = map (\<lambda>i. Mhpmevent_new (i + HPM_COUNTER_BASE)) [0..<HPM_COUNTER_COUNT]\<rparr>"

definition PerfCounters_tick :: "perf_counters \<Rightarrow> perf_counters" where
  "PerfCounters_tick p =
     (if \<not> Mcountinhibit_cy (pc_mcountinhibit p)
      then p\<lparr>pc_mcycle := Counter64_increment (pc_mcycle p) 1\<rparr> else p)"

definition PerfCounters_instruction_retired :: "perf_counters \<Rightarrow> perf_counters" where
  "PerfCounters_instruction_retired p =
     (if \<not> Mcountinhibit_ir (pc_mcountinhibit p)
      then p\<lparr>pc_minstret := Counter64_increment (pc_minstret p) 1\<rparr> else p)"

text \<open>One turn of the loop of \<open>record_event\<close>, and the loop.\<close>

definition record_event_step :: "perf_event \<Rightarrow> nat \<Rightarrow> perf_counters \<Rightarrow> perf_counters" where
  "record_event_step event i p =
     (if Mcountinhibit_hpm (pc_mcountinhibit p) (i + HPM_COUNTER_BASE) then p
      else if Mhpmevent_event (pc_mhpmevents p ! i) = event
      then p\<lparr>pc_mhpmcounters := (pc_mhpmcounters p)[i := Mhpmcounter_increment (pc_mhpmcounters p ! i)]\<rparr>
      else p)"

definition PerfCounters_record_event :: "perf_counters \<Rightarrow> perf_event \<Rightarrow> perf_counters" where
  "PerfCounters_record_event p event =
     (if Mcountinhibit_hpms (pc_mcountinhibit p) then p
      else fold (record_event_step event) [0..<HPM_COUNTER_COUNT] p)"

definition PerfCounters_cycle_count :: "perf_counters \<Rightarrow> u64" where
  "PerfCounters_cycle_count p = push_bit 32 (ucast (pc_mcycleh p)) OR ucast (Counter64_read_low (pc_mcycle p))"

definition PerfCounters_instruction_count :: "perf_counters \<Rightarrow> u64" where
  "PerfCounters_instruction_count p =
     push_bit 32 (ucast (pc_minstreth p)) OR ucast (Counter64_read_low (pc_minstret p))"

definition PerfCounters_reset :: "perf_counters \<Rightarrow> perf_counters" where
  "PerfCounters_reset p = PerfCounters_new"

subsection \<open>The counters as a whole\<close>

definition perf_wf :: "perf_counters \<Rightarrow> bool" where
  "perf_wf p \<longleftrightarrow> length (pc_mhpmcounters p) = HPM_COUNTER_COUNT \<and> length (pc_mhpmevents p) = HPM_COUNTER_COUNT"

text \<open>Specification: the counters an event reaches.\<close>

definition counts_event :: "perf_counters \<Rightarrow> perf_event \<Rightarrow> nat \<Rightarrow> bool" where
  "counts_event p e i \<longleftrightarrow> \<not> bit (pc_mcountinhibit p) 2 \<and> \<not> bit (pc_mcountinhibit p) (i + 3) \<and>
     Mhpmevent_event (pc_mhpmevents p ! i) = e"

lemma record_event_step_other [simp]:
  "pc_mhpmevents (record_event_step e i p) = pc_mhpmevents p"
  "pc_mcountinhibit (record_event_step e i p) = pc_mcountinhibit p"
  "length (pc_mhpmcounters (record_event_step e i p)) = length (pc_mhpmcounters p)"
  by (simp_all add: record_event_step_def)

lemma fold_record_event:
  assumes "n \<le> length (pc_mhpmcounters p)" "n \<le> 29"
  shows "fold (record_event_step e) [0..<n] p =
    p\<lparr>pc_mhpmcounters := map (\<lambda>i. if i < n \<and> \<not> bit (pc_mcountinhibit p) (i + 3)
        \<and> Mhpmevent_event (pc_mhpmevents p ! i) = e
      then Mhpmcounter_increment (pc_mhpmcounters p ! i) else pc_mhpmcounters p ! i)
      [0..<length (pc_mhpmcounters p)]\<rparr>"
  using assms
proof (induction n)
  case 0
  then show ?case by (simp add: map_nth)
next
  case (Suc n)
  then show ?case
    by (auto simp: record_event_step_def Mcountinhibit_hpm_def HPM_COUNTER_BASE_def flag_simps
        intro!: nth_equalityI arg_cong [where f = "\<lambda>x. p\<lparr>pc_mhpmcounters := x\<rparr>"] split: if_splits)
      (auto simp: nth_list_update_cases less_Suc_eq)
qed

lemma record_event_nth:
  assumes "perf_wf p" "i < 29"
  shows "pc_mhpmcounters (PerfCounters_record_event p e) ! i =
    (if counts_event p e i then Mhpmcounter_increment (pc_mhpmcounters p ! i) else pc_mhpmcounters p ! i)"
  using assms
  by (auto simp: PerfCounters_record_event_def Mcountinhibit_hpms_def flag_simps perf_wf_def
      fold_record_event counts_event_def HPM_COUNTER_COUNT_def)

lemma perf_wf_new: "perf_wf PerfCounters_new"
  by (simp add: perf_wf_def PerfCounters_new_def)

lemma perf_wf_ops:
  "perf_wf p \<Longrightarrow> perf_wf (PerfCounters_tick p)"
  "perf_wf p \<Longrightarrow> perf_wf (PerfCounters_instruction_retired p)"
  "perf_wf p \<Longrightarrow> perf_wf (PerfCounters_record_event p e)"
  by (auto simp: perf_wf_def PerfCounters_tick_def PerfCounters_instruction_retired_def
      PerfCounters_record_event_def fold_record_event HPM_COUNTER_COUNT_def)

subsection \<open>Properties\<close>

text \<open>Recording an event adds one, modulo two to the 64, to exactly the programmable counters
  that select the event and are inhibited neither one by one nor together; every other counter, the
  selectors and the rest of the counters keep their value.\<close>

theorem record_event_counts:
  assumes "perf_wf p" "i < 29"
  shows "Counter64_get (hc_counter (pc_mhpmcounters (PerfCounters_record_event p e) ! i)) =
      Counter64_get (hc_counter (pc_mhpmcounters p ! i)) + (if counts_event p e i then 1 else 0) \<and>
    perf_wf (PerfCounters_record_event p e) \<and>
    (\<exists>cs. PerfCounters_record_event p e = p\<lparr>pc_mhpmcounters := cs\<rparr>)"
proof (intro conjI)
  show "Counter64_get (hc_counter (pc_mhpmcounters (PerfCounters_record_event p e) ! i)) =
      Counter64_get (hc_counter (pc_mhpmcounters p ! i)) + (if counts_event p e i then 1 else 0)"
    using assms by (simp add: record_event_nth Mhpmcounter_increment_def)
  show "perf_wf (PerfCounters_record_event p e)" using assms by (simp add: perf_wf_ops)
  have "\<exists>cs. p = p\<lparr>pc_mhpmcounters := cs\<rparr>" by (rule exI [of _ "pc_mhpmcounters p"]) simp
  then show "\<exists>cs. PerfCounters_record_event p e = p\<lparr>pc_mhpmcounters := cs\<rparr>"
    using assms by (auto simp: PerfCounters_record_event_def perf_wf_def fold_record_event
        HPM_COUNTER_COUNT_def)
qed

theorem record_event_counts_witness:
  "Counter64_get (hc_counter (pc_mhpmcounters (PerfCounters_record_event
     (PerfCounters_new\<lparr>pc_mhpmevents := (pc_mhpmevents PerfCounters_new)[2 := \<lparr>he_value = 6, he_index = 5\<rparr>]\<rparr>)
     PE_BranchTaken) ! 2)) = 1"
proof -
  let ?p = "PerfCounters_new\<lparr>pc_mhpmevents := (pc_mhpmevents PerfCounters_new)[2 := \<lparr>he_value = 6, he_index = 5\<rparr>]\<rparr>"
  have "perf_wf ?p" using perf_wf_new by (simp add: perf_wf_def)
  moreover have "Counter64_get (hc_counter (pc_mhpmcounters ?p ! 2)) + (if counts_event ?p PE_BranchTaken 2 then 1 else 0) = 1"
    by code_simp
  ultimately show ?thesis using record_event_counts [of ?p 2 PE_BranchTaken] by simp
qed

text \<open>\<open>cycle_count\<close> loses the carry out of the low word: a tick at \<open>mcycle = 0xFFFFFFFF\<close>
  takes the 64-bit counter to \<open>2 ^ 32\<close> and the reported cycle count back to the value it has with a
  zero low word, because \<open>mcycleh\<close> is a register of its own that no tick writes.\<close>

theorem cycle_count_loses_carry:
  assumes "\<not> Mcountinhibit_cy (pc_mcountinhibit p)" "pc_mcycle p = \<lparr>c64_low = 0xFFFFFFFF, c64_high = h\<rparr>"
  shows "Counter64_get (pc_mcycle (PerfCounters_tick p)) = Counter64_get (pc_mcycle p) + 1 \<and>
    PerfCounters_cycle_count (PerfCounters_tick p) = PerfCounters_cycle_count p - 0xFFFFFFFF"
proof -
  let ?H = "push_bit 32 (ucast (pc_mcycleh p)) :: u64"
  have low: "c64_low (Counter64_increment (pc_mcycle p) 1) = 0"
    by (simp add: Counter64_increment_one_eq [symmetric] assms Counter64_increment_one_def Let_def)
  have m: "(0xFFFFFFFF :: u64) = mask 32" by (simp add: mask_eq_exp_minus_1)
  have "?H AND 0xFFFFFFFF = 0"
    unfolding m by (rule bit_word_eqI) (auto simp: bit_simps dest: bit_imp_le_length)
  then have "?H OR 0xFFFFFFFF = ?H + 0xFFFFFFFF" by (simp add: disjunctive_add_eq_or)
  then show ?thesis
    using assms low by (simp add: PerfCounters_tick_def PerfCounters_cycle_count_def Counter64_read_low_def)
qed

theorem cycle_count_loses_carry_witness:
  "PerfCounters_cycle_count (PerfCounters_tick
     (PerfCounters_new\<lparr>pc_mcycle := \<lparr>c64_low = 0xFFFFFFFF, c64_high = 0\<rparr>\<rparr>)) = 0"
  using cycle_count_loses_carry [of "PerfCounters_new\<lparr>pc_mcycle := \<lparr>c64_low = 0xFFFFFFFF, c64_high = 0\<rparr>\<rparr>" 0]
  by (simp add: PerfCounters_new_def Mcountinhibit_cy_def flag_def PerfCounters_cycle_count_def
      Counter64_read_low_def)

end
