(* ===== verification/Csr_File.thy ===== *)
theory Csr_File
  imports Csr_Regs Perf_Counters
begin

text \<open>
  The CSR file: \<open>src/src/cpu/csr/mod.rs\<close> and the access check of \<open>csr_trait.rs\<close>.
  \<open>CsrFile_read\<close>, \<open>CsrFile_write\<close> and \<open>CsrFile_execute\<close> follow the \<open>match\<close> arms of the source
  in their order.  \<open>csr_slot\<close> is the specification side: the register an address names.  The
  factorisations of read and write through it give the frame and read-after-write lemmas.
\<close>

subsection \<open>Addresses\<close>

definition CSR_MCOUNTEREN :: u16 where "CSR_MCOUNTEREN = 0x306"
definition CSR_PMPCFG0 :: u16 where "CSR_PMPCFG0 = 0x3A0"
definition CSR_PMPCFG15 :: u16 where "CSR_PMPCFG15 = 0x3AF"
definition CSR_PMPADDR0 :: u16 where "CSR_PMPADDR0 = 0x3B0"
definition CSR_PMPADDR63 :: u16 where "CSR_PMPADDR63 = 0x3EF"
definition CSR_CYCLE :: u16 where "CSR_CYCLE = 0xC00"
definition CSR_TIME :: u16 where "CSR_TIME = 0xC01"
definition CSR_INSTRET :: u16 where "CSR_INSTRET = 0xC02"
definition CSR_HPMCOUNTER3 :: u16 where "CSR_HPMCOUNTER3 = 0xC03"
definition CSR_HPMCOUNTER31 :: u16 where "CSR_HPMCOUNTER31 = 0xC1F"
definition CSR_CYCLEH :: u16 where "CSR_CYCLEH = 0xC80"
definition CSR_TIMEH :: u16 where "CSR_TIMEH = 0xC81"
definition CSR_INSTRETH :: u16 where "CSR_INSTRETH = 0xC82"
definition CSR_HPMCOUNTER3H :: u16 where "CSR_HPMCOUNTER3H = 0xC83"
definition CSR_HPMCOUNTER31H :: u16 where "CSR_HPMCOUNTER31H = 0xC9F"
definition CSR_MCYCLE :: u16 where "CSR_MCYCLE = 0xB00"
definition CSR_MCYCLEH :: u16 where "CSR_MCYCLEH = 0xB80"
definition CSR_MINSTRET :: u16 where "CSR_MINSTRET = 0xB02"
definition CSR_MINSTRETH :: u16 where "CSR_MINSTRETH = 0xB82"
definition CSR_MHPMCOUNTER_BASE :: u16 where "CSR_MHPMCOUNTER_BASE = 0xB03"
definition CSR_MHPMCOUNTER_END :: u16 where "CSR_MHPMCOUNTER_END = 0xB1F"
definition CSR_MHPMCOUNTERH_BASE :: u16 where "CSR_MHPMCOUNTERH_BASE = 0xB83"
definition CSR_MHPMCOUNTERH_END :: u16 where "CSR_MHPMCOUNTERH_END = 0xB9F"
definition CSR_MHPMEVENT_BASE :: u16 where "CSR_MHPMEVENT_BASE = 0x323"
definition CSR_MHPMEVENT_END :: u16 where "CSR_MHPMEVENT_END = 0x33F"
definition CSR_MCOUNTINHIBIT :: u16 where "CSR_MCOUNTINHIBIT = 0x320"

lemmas csr_range_defs = CSR_MCOUNTEREN_def CSR_PMPCFG0_def CSR_PMPCFG15_def CSR_PMPADDR0_def
  CSR_PMPADDR63_def CSR_CYCLE_def CSR_TIME_def CSR_INSTRET_def CSR_HPMCOUNTER3_def
  CSR_HPMCOUNTER31_def CSR_CYCLEH_def CSR_TIMEH_def CSR_INSTRETH_def CSR_HPMCOUNTER3H_def
  CSR_HPMCOUNTER31H_def CSR_MCYCLE_def CSR_MCYCLEH_def CSR_MINSTRET_def CSR_MINSTRETH_def
  CSR_MHPMCOUNTER_BASE_def CSR_MHPMCOUNTER_END_def CSR_MHPMCOUNTERH_BASE_def
  CSR_MHPMCOUNTERH_END_def CSR_MHPMEVENT_BASE_def CSR_MHPMEVENT_END_def CSR_MCOUNTINHIBIT_def

text \<open>\<open>(lo..=hi).contains(&addr)\<close>\<close>

definition in_range :: "u16 \<Rightarrow> u16 \<Rightarrow> u16 \<Rightarrow> bool" where
  "in_range lo hi a \<longleftrightarrow> lo \<le> a \<and> a \<le> hi"

subsection \<open>Operations and the access check\<close>

datatype csr_op = CSR_RW | CSR_RS | CSR_RC | CSR_RWI | CSR_RSI | CSR_RCI

fun CsrOp_is_imm :: "csr_op \<Rightarrow> bool" where
  "CsrOp_is_imm CSR_RWI = True"
| "CsrOp_is_imm CSR_RSI = True"
| "CsrOp_is_imm CSR_RCI = True"
| "CsrOp_is_imm _ = False"

datatype csr_access_check = CsrAllowed | CsrNotFound | CsrPrivilegeDenied | CsrReadOnly

text \<open>\<open>csr_trait.rs\<close>\<close>

definition check_csr_access :: "u16 \<Rightarrow> privilege \<Rightarrow> bool \<Rightarrow> csr_access_check" where
  "check_csr_access a privilege is_write =
     (let p = drop_bit 8 a AND 0x3;
          min_priv = (if p = 0 then User else if p = 1 then Supervisor else Machine);
          r = drop_bit 10 a AND 0x3
      in if privilege < min_priv then CsrPrivilegeDenied
         else if is_write \<and> (r = 2 \<or> r = 3) then CsrReadOnly
         else CsrAllowed)"

definition CsrFile_check_access :: "u16 \<Rightarrow> privilege \<Rightarrow> bool \<Rightarrow> unit result" where
  "CsrFile_check_access a privilege is_write =
     (if a > 0xFFF then Inl (InvalidCsr a)
      else
        let p = drop_bit 8 a AND 0x3;
            min_priv = (if p = 0 then User else if p = 1 then Supervisor else Machine);
            r = drop_bit 10 a AND 0x3;
            read_only = (r = 2 \<or> r = 3);
            writable_machine_counter =
              (a = CSR_MCYCLE \<or> a = CSR_MCYCLEH \<or> a = CSR_MINSTRET \<or> a = CSR_MINSTRETH
               \<or> in_range CSR_MHPMCOUNTER_BASE CSR_MHPMCOUNTER_END a
               \<or> in_range CSR_MHPMCOUNTERH_BASE CSR_MHPMCOUNTERH_END a)
        in if privilege < min_priv then Inl (CsrAccessDenied a privilege)
           else if is_write \<and> read_only \<and> \<not> writable_machine_counter
             then Inl (CsrAccessDenied a privilege)
           else Inr ())"

subsection \<open>The file\<close>

record csr_file =
  csr_mstatus :: u32
  csr_misa :: u32
  csr_mie :: u32
  csr_mtvec :: u32
  csr_mcounteren :: u32
  csr_mscratch :: u32
  csr_mepc :: u32
  csr_mcause :: u32
  csr_mtval :: u32
  csr_mip :: u32
  csr_pmpcfg :: "u32 list"
  csr_pmpaddr :: "u32 list"
  csr_mideleg :: u32
  csr_medeleg :: u32
  csr_sstatus :: u32
  csr_sie :: u32
  csr_stvec :: u32
  csr_satp :: u32
  csr_sscratch :: u32
  csr_sepc :: u32
  csr_scause :: u32
  csr_stval :: u32
  csr_sip :: u32
  csr_ustatus :: u32
  csr_utvec :: u32
  csr_uepc :: u32
  csr_ucause :: u32
  csr_perf :: perf_counters
  csr_machine_compat :: "u16 \<rightharpoonup> u32"

definition CsrFile_new :: csr_file where
  "CsrFile_new =
     \<lparr>csr_mstatus = 0, csr_misa = Misa_new, csr_mie = 0, csr_mtvec = 0, csr_mcounteren = 0,
      csr_mscratch = 0, csr_mepc = 0, csr_mcause = 0, csr_mtval = 0, csr_mip = 0,
      csr_pmpcfg = replicate 16 0, csr_pmpaddr = replicate 64 0, csr_mideleg = 0, csr_medeleg = 0,
      csr_sstatus = 0, csr_sie = 0, csr_stvec = 0, csr_satp = 0, csr_sscratch = 0,
      csr_sepc = 0, csr_scause = 0, csr_stval = 0, csr_sip = 0,
      csr_ustatus = 0, csr_utvec = 0, csr_uepc = 0, csr_ucause = 0,
      csr_perf = PerfCounters_new, csr_machine_compat = Map.empty\<rparr>"

definition CsrFile_reset :: "csr_file \<Rightarrow> csr_file" where
  "CsrFile_reset f = CsrFile_new"

text \<open>\<open>index <= 31\<close> always holds where the source tests it, since the address range has 29 members.\<close>

definition CsrFile_read_arm :: "csr_file \<Rightarrow> u16 \<Rightarrow> privilege \<Rightarrow> u32 result" where
  "CsrFile_read_arm f a privilege =
     (if a = CSR_MSTATUS then Inr (csr_mstatus f)
      else if a = CSR_MISA then Inr (csr_misa f)
      else if a = CSR_MIE then Inr (csr_mie f)
      else if a = CSR_MTVEC then Inr (csr_mtvec f)
      else if a = CSR_MCOUNTEREN then Inr (csr_mcounteren f)
      else if a = CSR_MSCRATCH then Inr (csr_mscratch f)
      else if a = CSR_MEPC then Inr (csr_mepc f)
      else if a = CSR_MCAUSE then Inr (csr_mcause f)
      else if a = CSR_MTVAL then Inr (csr_mtval f)
      else if a = CSR_MIP then Inr (csr_mip f)
      else if in_range CSR_PMPCFG0 CSR_PMPCFG15 a then Inr (csr_pmpcfg f ! unat (a - CSR_PMPCFG0))
      else if in_range CSR_PMPADDR0 CSR_PMPADDR63 a then Inr (csr_pmpaddr f ! unat (a - CSR_PMPADDR0))
      else if a = CSR_MIDELEG then Inr (Mideleg_read (csr_mideleg f))
      else if a = CSR_MEDELEG then Inr (Medeleg_read (csr_medeleg f))
      else if a = CSR_MVENDORID then Inr 0
      else if a = CSR_MARCHID then Inr 0
      else if a = CSR_MIMPID then Inr 0
      else if a = CSR_MHARTID then Inr 0
      else if a = CSR_SSTATUS then Inr (csr_sstatus f)
      else if a = CSR_SIE then Inr (csr_sie f)
      else if a = CSR_STVEC then Inr (csr_stvec f)
      else if a = CSR_SATP then Inr (csr_satp f)
      else if a = CSR_SSCRATCH then Inr (csr_sscratch f)
      else if a = CSR_SEPC then Inr (csr_sepc f)
      else if a = CSR_SCAUSE then Inr (csr_scause f)
      else if a = CSR_STVAL then Inr (csr_stval f)
      else if a = CSR_SIP then Inr (csr_sip f)
      else if a = CSR_USTATUS then Inr (csr_ustatus f)
      else if a = CSR_UTVEC then Inr (csr_utvec f)
      else if a = CSR_UEPC then Inr (csr_uepc f)
      else if a = CSR_UCAUSE then Inr (csr_ucause f)
      else if a = CSR_CYCLE then Inr (Counter64_read_low (pc_mcycle (csr_perf f)))
      else if a = CSR_TIME then Inr (Counter64_read_low (pc_mcycle (csr_perf f)))
      else if a = CSR_INSTRET then Inr (Counter64_read_low (pc_minstret (csr_perf f)))
      else if a = CSR_CYCLEH then Inr (pc_mcycleh (csr_perf f))
      else if a = CSR_TIMEH then Inr (pc_mcycleh (csr_perf f))
      else if a = CSR_INSTRETH then Inr (pc_minstreth (csr_perf f))
      else if in_range CSR_HPMCOUNTER3 CSR_HPMCOUNTER31 a then (let index = unat (a - CSR_HPMCOUNTER3) + 3
       in if index \<le> 31 then Inr (Counter64_read_low (hc_counter (pc_mhpmcounters (csr_perf f) ! (index - 3)))) else Inl (InvalidCsr a))
      else if in_range CSR_HPMCOUNTER3H CSR_HPMCOUNTER31H a then (let index = unat (a - CSR_HPMCOUNTER3H) + 3
       in if index \<le> 31 then Inr (Counter64_read_high (hc_counter (pc_mhpmcounters (csr_perf f) ! (index - 3)))) else Inl (InvalidCsr a))
      else if a = CSR_MCYCLE then Inr (Counter64_read_low (pc_mcycle (csr_perf f)))
      else if a = CSR_MCYCLEH then Inr (pc_mcycleh (csr_perf f))
      else if a = CSR_MINSTRET then Inr (Counter64_read_low (pc_minstret (csr_perf f)))
      else if a = CSR_MINSTRETH then Inr (pc_minstreth (csr_perf f))
      else if a = CSR_MCOUNTINHIBIT then Inr (pc_mcountinhibit (csr_perf f))
      else if in_range CSR_MHPMCOUNTER_BASE CSR_MHPMCOUNTER_END a then (let index = unat (a - CSR_MHPMCOUNTER_BASE) + 3
       in if index \<le> 31 then Inr (Counter64_read_low (hc_counter (pc_mhpmcounters (csr_perf f) ! (index - 3)))) else Inl (InvalidCsr a))
      else if in_range CSR_MHPMCOUNTERH_BASE CSR_MHPMCOUNTERH_END a then (let index = unat (a - CSR_MHPMCOUNTERH_BASE) + 3
       in if index \<le> 31 then Inr (Counter64_read_high (hc_counter (pc_mhpmcounters (csr_perf f) ! (index - 3)))) else Inl (InvalidCsr a))
      else if in_range CSR_MHPMEVENT_BASE CSR_MHPMEVENT_END a then (let index = unat (a - CSR_MHPMEVENT_BASE) + 3
       in if index \<le> 31 then Inr (he_value (pc_mhpmevents (csr_perf f) ! (index - 3))) else Inl (InvalidCsr a))
      else if privilege = Machine then Inr (case csr_machine_compat f a of Some v \<Rightarrow> v | None \<Rightarrow> 0)
      else Inl (InvalidCsr a))"

definition CsrFile_read :: "csr_file \<Rightarrow> u16 \<Rightarrow> privilege \<Rightarrow> u32 result" where
  "CsrFile_read f a privilege =
     bind_res (CsrFile_check_access a privilege False) (\<lambda>_. CsrFile_read_arm f a privilege)"

definition CsrFile_write_arm :: "csr_file \<Rightarrow> u16 \<Rightarrow> u32 \<Rightarrow> privilege \<Rightarrow> unit result \<times> csr_file" where
  "CsrFile_write_arm f a v privilege =
     (if a = CSR_MSTATUS then (Inr (), f\<lparr>csr_mstatus := Mstatus_write (csr_mstatus f) v\<rparr>)
      else if a = CSR_MISA then (Inr (), f\<lparr>csr_misa := Misa_write (csr_misa f) v\<rparr>)
      else if a = CSR_MIE then (Inr (), f\<lparr>csr_mie := Mie_write (csr_mie f) v\<rparr>)
      else if a = CSR_MTVEC then (Inr (), f\<lparr>csr_mtvec := Mtvec_write (csr_mtvec f) v\<rparr>)
      else if a = CSR_MCOUNTEREN then (Inr (), f\<lparr>csr_mcounteren := v\<rparr>)
      else if a = CSR_MSCRATCH then (Inr (), f\<lparr>csr_mscratch := Mscratch_write (csr_mscratch f) v\<rparr>)
      else if a = CSR_MEPC then (Inr (), f\<lparr>csr_mepc := Mepc_write (csr_mepc f) v\<rparr>)
      else if a = CSR_MCAUSE then (Inr (), f\<lparr>csr_mcause := Mcause_write (csr_mcause f) v\<rparr>)
      else if a = CSR_MTVAL then (Inr (), f\<lparr>csr_mtval := Mtval_write (csr_mtval f) v\<rparr>)
      else if a = CSR_MIP then (Inr (), f\<lparr>csr_mip := Mip_write (csr_mip f) v\<rparr>)
      else if in_range CSR_PMPCFG0 CSR_PMPCFG15 a then (Inr (), f\<lparr>csr_pmpcfg := (csr_pmpcfg f)[unat (a - CSR_PMPCFG0) := v]\<rparr>)
      else if in_range CSR_PMPADDR0 CSR_PMPADDR63 a then (Inr (), f\<lparr>csr_pmpaddr := (csr_pmpaddr f)[unat (a - CSR_PMPADDR0) := v]\<rparr>)
      else if a = CSR_MIDELEG then (Inr (), f\<lparr>csr_mideleg := Mideleg_write (csr_mideleg f) v\<rparr>)
      else if a = CSR_MEDELEG then (Inr (), f\<lparr>csr_medeleg := Medeleg_write (csr_medeleg f) v\<rparr>)
      else if a = CSR_SSTATUS then (Inr (), f\<lparr>csr_sstatus := Sstatus_write (csr_sstatus f) v\<rparr>)
      else if a = CSR_SIE then (Inr (), f\<lparr>csr_sie := Sie_write (csr_sie f) v\<rparr>)
      else if a = CSR_STVEC then (Inr (), f\<lparr>csr_stvec := Stvec_write (csr_stvec f) v\<rparr>)
      else if a = CSR_SATP then (Inr (), f\<lparr>csr_satp := Satp_write (csr_satp f) v\<rparr>)
      else if a = CSR_SSCRATCH then (Inr (), f\<lparr>csr_sscratch := Sscratch_write (csr_sscratch f) v\<rparr>)
      else if a = CSR_SEPC then (Inr (), f\<lparr>csr_sepc := Sepc_write (csr_sepc f) v\<rparr>)
      else if a = CSR_SCAUSE then (Inr (), f\<lparr>csr_scause := Scause_write (csr_scause f) v\<rparr>)
      else if a = CSR_STVAL then (Inr (), f\<lparr>csr_stval := Stval_write (csr_stval f) v\<rparr>)
      else if a = CSR_SIP then 
        (if privilege = Machine
         then (Inr (), f\<lparr>csr_sip := Sip_set_seip (Sip_set_stip (Sip_set_ssip (csr_sip f)
                 (flag v IP_SSIP)) (flag v IP_STIP)) (flag v IP_SEIP)\<rparr>)
         else (Inr (), f\<lparr>csr_sip := Sip_write (csr_sip f) v\<rparr>))
      else if a = CSR_USTATUS then (Inr (), f\<lparr>csr_ustatus := Ustatus_write (csr_ustatus f) v\<rparr>)
      else if a = CSR_UTVEC then (Inr (), f\<lparr>csr_utvec := Utvec_write (csr_utvec f) v\<rparr>)
      else if a = CSR_UEPC then (Inr (), f\<lparr>csr_uepc := Uepc_write (csr_uepc f) v\<rparr>)
      else if a = CSR_UCAUSE then (Inr (), f\<lparr>csr_ucause := Ucause_write (csr_ucause f) v\<rparr>)
      else if a = CSR_MCYCLE then (Inr (), f\<lparr>csr_perf := (csr_perf f)\<lparr>pc_mcycle := Counter64_write_low (pc_mcycle (csr_perf f)) v\<rparr>\<rparr>)
      else if a = CSR_MCYCLEH then (Inr (), f\<lparr>csr_perf := (csr_perf f)\<lparr>pc_mcycleh := v\<rparr>\<rparr>)
      else if a = CSR_MINSTRET then (Inr (), f\<lparr>csr_perf := (csr_perf f)\<lparr>pc_minstret := Counter64_write_low (pc_minstret (csr_perf f)) v\<rparr>\<rparr>)
      else if a = CSR_MINSTRETH then (Inr (), f\<lparr>csr_perf := (csr_perf f)\<lparr>pc_minstreth := v\<rparr>\<rparr>)
      else if a = CSR_MCOUNTINHIBIT then (Inr (), f\<lparr>csr_perf := (csr_perf f)\<lparr>pc_mcountinhibit := v\<rparr>\<rparr>)
      else if in_range CSR_MHPMCOUNTER_BASE CSR_MHPMCOUNTER_END a then (let index = unat (a - CSR_MHPMCOUNTER_BASE) + 3
       in if index \<le> 31 then (Inr (), f\<lparr>csr_perf := (csr_perf f)\<lparr>pc_mhpmcounters := (pc_mhpmcounters (csr_perf f))
              [index - 3 := Mhpmcounter_write_low (pc_mhpmcounters (csr_perf f) ! (index - 3)) v]\<rparr>\<rparr>)
          else (Inl (InvalidCsr a), f))
      else if in_range CSR_MHPMCOUNTERH_BASE CSR_MHPMCOUNTERH_END a then (let index = unat (a - CSR_MHPMCOUNTERH_BASE) + 3
       in if index \<le> 31 then (Inr (), f\<lparr>csr_perf := (csr_perf f)\<lparr>pc_mhpmcounters := (pc_mhpmcounters (csr_perf f))
              [index - 3 := Mhpmcounter_write_high (pc_mhpmcounters (csr_perf f) ! (index - 3)) v]\<rparr>\<rparr>)
          else (Inl (InvalidCsr a), f))
      else if in_range CSR_MHPMEVENT_BASE CSR_MHPMEVENT_END a then (let index = unat (a - CSR_MHPMEVENT_BASE) + 3
       in if index \<le> 31 then (Inr (), f\<lparr>csr_perf := (csr_perf f)\<lparr>pc_mhpmevents := (pc_mhpmevents (csr_perf f))
              [index - 3 := Mhpmevent_write (pc_mhpmevents (csr_perf f) ! (index - 3)) v]\<rparr>\<rparr>)
          else (Inl (InvalidCsr a), f))
      else if privilege = Machine then (Inr (), f\<lparr>csr_machine_compat := (csr_machine_compat f)(a \<mapsto> v)\<rparr>)
      else (Inl (InvalidCsr a), f))"

definition CsrFile_write :: "csr_file \<Rightarrow> u16 \<Rightarrow> u32 \<Rightarrow> privilege \<Rightarrow> unit result \<times> csr_file" where
  "CsrFile_write f a v privilege =
     bind_st (CsrFile_check_access a privilege True, f) (\<lambda>_ f. CsrFile_write_arm f a v privilege)"

definition CsrFile_execute :: "csr_file \<Rightarrow> csr_op \<Rightarrow> u16 \<Rightarrow> u32 \<Rightarrow> privilege \<Rightarrow> u32 result \<times> csr_file" where
  "CsrFile_execute f op a rs1_val privilege =
     (let write_val = (if CsrOp_is_imm op then rs1_val AND 0x1F else rs1_val);
          should_write = (case op of CSR_RW \<Rightarrow> True | CSR_RWI \<Rightarrow> True | _ \<Rightarrow> write_val \<noteq> 0)
      in bind_st (CsrFile_check_access a privilege should_write, f) (\<lambda>_ f.
         bind_st (CsrFile_read f a privilege, f) (\<lambda>old_val f.
         bind_st
           (if should_write then
              (case op of
                 CSR_RW \<Rightarrow> CsrFile_write f a write_val privilege
               | CSR_RWI \<Rightarrow> CsrFile_write f a write_val privilege
               | CSR_RS \<Rightarrow> CsrFile_write f a (old_val OR write_val) privilege
               | CSR_RSI \<Rightarrow> CsrFile_write f a (old_val OR write_val) privilege
               | CSR_RC \<Rightarrow> CsrFile_write f a (old_val AND NOT write_val) privilege
               | CSR_RCI \<Rightarrow> CsrFile_write f a (old_val AND NOT write_val) privilege)
            else (Inr (), f))
           (\<lambda>_ f. (Inr old_val, f)))))"

subsection \<open>Pending interrupts\<close>

definition CsrFile_has_pending_interrupt :: "csr_file \<Rightarrow> privilege \<Rightarrow> bool" where
  "CsrFile_has_pending_interrupt f privilege =
     (case privilege of
        Machine \<Rightarrow> Mip_has_pending_interrupt (csr_mip f) (csr_mie f)
      | Supervisor \<Rightarrow>
          Sip_ssip (csr_sip f) \<and> Sie_ssie (csr_sie f)
          \<or> Sip_stip (csr_sip f) \<and> Sie_stie (csr_sie f)
          \<or> Sip_seip (csr_sip f) \<and> Sie_seie (csr_sie f)
      | User \<Rightarrow> False)"

definition CsrFile_get_pending_interrupt :: "csr_file \<Rightarrow> privilege \<Rightarrow> (bool \<times> u32) option" where
  "CsrFile_get_pending_interrupt f privilege =
     (case privilege of
        Machine \<Rightarrow> Mip_highest_priority_interrupt (csr_mip f) (csr_mie f)
      | Supervisor \<Rightarrow>
          if Sip_seip (csr_sip f) \<and> Sie_seie (csr_sie f) then Some (True, 9)
          else if Sip_stip (csr_sip f) \<and> Sie_stie (csr_sie f) then Some (True, 5)
          else if Sip_ssip (csr_sip f) \<and> Sie_ssie (csr_sie f) then Some (True, 1)
          else None
      | User \<Rightarrow> None)"

subsection \<open>Specification: the register an address names\<close>

datatype csr_slot =
    SMstatus | SMisa | SMie | SMtvec | SMcounteren | SMscratch | SMepc | SMcause | SMtval | SMip
  | SPmpcfg nat | SPmpaddr nat | SMideleg | SMedeleg | SZero
  | SSstatus | SSie | SStvec | SSatp | SSscratch | SSepc | SScause | SStval | SSip
  | SUstatus | SUtvec | SUepc | SUcause
  | SCycle | SCycleh | SInstret | SInstreth | SInhibit | SHpmLow nat | SHpmHigh nat | SHpmEvent nat
  | SCompat u16

definition csr_slot :: "u16 \<Rightarrow> csr_slot" where
  "csr_slot a =
     (if a = CSR_MSTATUS then SMstatus
      else if a = CSR_MISA then SMisa
      else if a = CSR_MIE then SMie
      else if a = CSR_MTVEC then SMtvec
      else if a = CSR_MCOUNTEREN then SMcounteren
      else if a = CSR_MSCRATCH then SMscratch
      else if a = CSR_MEPC then SMepc
      else if a = CSR_MCAUSE then SMcause
      else if a = CSR_MTVAL then SMtval
      else if a = CSR_MIP then SMip
      else if in_range CSR_PMPCFG0 CSR_PMPCFG15 a then SPmpcfg (unat (a - CSR_PMPCFG0))
      else if in_range CSR_PMPADDR0 CSR_PMPADDR63 a then SPmpaddr (unat (a - CSR_PMPADDR0))
      else if a = CSR_MIDELEG then SMideleg
      else if a = CSR_MEDELEG then SMedeleg
      else if a = CSR_MVENDORID then SZero
      else if a = CSR_MARCHID then SZero
      else if a = CSR_MIMPID then SZero
      else if a = CSR_MHARTID then SZero
      else if a = CSR_SSTATUS then SSstatus
      else if a = CSR_SIE then SSie
      else if a = CSR_STVEC then SStvec
      else if a = CSR_SATP then SSatp
      else if a = CSR_SSCRATCH then SSscratch
      else if a = CSR_SEPC then SSepc
      else if a = CSR_SCAUSE then SScause
      else if a = CSR_STVAL then SStval
      else if a = CSR_SIP then SSip
      else if a = CSR_USTATUS then SUstatus
      else if a = CSR_UTVEC then SUtvec
      else if a = CSR_UEPC then SUepc
      else if a = CSR_UCAUSE then SUcause
      else if a = CSR_CYCLE then SCycle
      else if a = CSR_TIME then SCycle
      else if a = CSR_INSTRET then SInstret
      else if a = CSR_CYCLEH then SCycleh
      else if a = CSR_TIMEH then SCycleh
      else if a = CSR_INSTRETH then SInstreth
      else if in_range CSR_HPMCOUNTER3 CSR_HPMCOUNTER31 a then SHpmLow (unat (a - CSR_HPMCOUNTER3))
      else if in_range CSR_HPMCOUNTER3H CSR_HPMCOUNTER31H a then SHpmHigh (unat (a - CSR_HPMCOUNTER3H))
      else if a = CSR_MCYCLE then SCycle
      else if a = CSR_MCYCLEH then SCycleh
      else if a = CSR_MINSTRET then SInstret
      else if a = CSR_MINSTRETH then SInstreth
      else if a = CSR_MCOUNTINHIBIT then SInhibit
      else if in_range CSR_MHPMCOUNTER_BASE CSR_MHPMCOUNTER_END a then SHpmLow (unat (a - CSR_MHPMCOUNTER_BASE))
      else if in_range CSR_MHPMCOUNTERH_BASE CSR_MHPMCOUNTERH_END a then SHpmHigh (unat (a - CSR_MHPMCOUNTERH_BASE))
      else if in_range CSR_MHPMEVENT_BASE CSR_MHPMEVENT_END a then SHpmEvent (unat (a - CSR_MHPMEVENT_BASE))
      else SCompat a)"

fun slot_get :: "csr_file \<Rightarrow> csr_slot \<Rightarrow> u32" where
  "slot_get f SMstatus = csr_mstatus f"
| "slot_get f SMisa = csr_misa f"
| "slot_get f SMie = csr_mie f"
| "slot_get f SMtvec = csr_mtvec f"
| "slot_get f SMcounteren = csr_mcounteren f"
| "slot_get f SMscratch = csr_mscratch f"
| "slot_get f SMepc = csr_mepc f"
| "slot_get f SMcause = csr_mcause f"
| "slot_get f SMtval = csr_mtval f"
| "slot_get f SMip = csr_mip f"
| "slot_get f (SPmpcfg i) = csr_pmpcfg f ! i"
| "slot_get f (SPmpaddr i) = csr_pmpaddr f ! i"
| "slot_get f SMideleg = Mideleg_read (csr_mideleg f)"
| "slot_get f SMedeleg = Medeleg_read (csr_medeleg f)"
| "slot_get f SZero = 0"
| "slot_get f SSstatus = csr_sstatus f"
| "slot_get f SSie = csr_sie f"
| "slot_get f SStvec = csr_stvec f"
| "slot_get f SSatp = csr_satp f"
| "slot_get f SSscratch = csr_sscratch f"
| "slot_get f SSepc = csr_sepc f"
| "slot_get f SScause = csr_scause f"
| "slot_get f SStval = csr_stval f"
| "slot_get f SSip = csr_sip f"
| "slot_get f SUstatus = csr_ustatus f"
| "slot_get f SUtvec = csr_utvec f"
| "slot_get f SUepc = csr_uepc f"
| "slot_get f SUcause = csr_ucause f"
| "slot_get f SCycle = c64_low (pc_mcycle (csr_perf f))"
| "slot_get f SCycleh = pc_mcycleh (csr_perf f)"
| "slot_get f SInstret = c64_low (pc_minstret (csr_perf f))"
| "slot_get f SInstreth = pc_minstreth (csr_perf f)"
| "slot_get f SInhibit = pc_mcountinhibit (csr_perf f)"
| "slot_get f (SHpmLow i) = c64_low (hc_counter (pc_mhpmcounters (csr_perf f) ! i))"
| "slot_get f (SHpmHigh i) = c64_high (hc_counter (pc_mhpmcounters (csr_perf f) ! i))"
| "slot_get f (SHpmEvent i) = he_value (pc_mhpmevents (csr_perf f) ! i)"
| "slot_get f (SCompat a) = (case csr_machine_compat f a of Some v \<Rightarrow> v | None \<Rightarrow> 0)"

text \<open>The bits of a register that a write reaches, and the other bits it keeps (the rest read
  as zero afterwards), as the RISC-V privileged specification's field masks.\<close>

fun slot_writable :: "csr_slot \<Rightarrow> u32" where
  "slot_writable SMstatus = 0x007A1FEA"
| "slot_writable SMisa = 0"
| "slot_writable SMie = 0xBBB"
| "slot_writable SMepc = NOT 0x3"
| "slot_writable SMip = 0x222"
| "slot_writable SMideleg = 0x444"
| "slot_writable SMedeleg = 0xB3FF"
| "slot_writable SSstatus = 0xDE133"
| "slot_writable SSie = 0x222"
| "slot_writable SSip = 0x222"
| "slot_writable SSepc = NOT 0x3"
| "slot_writable SUstatus = 1"
| "slot_writable SUepc = NOT 0x3"
| "slot_writable (SHpmEvent i) = 0xFFFF"
| "slot_writable _ = 0xFFFFFFFF"

definition slot_kept :: "csr_slot \<Rightarrow> u32" where
  "slot_kept s = (if s \<in> {SMstatus, SMisa, SMip, SSip} then NOT (slot_writable s) else 0)"

definition slot_legal :: "csr_slot \<Rightarrow> u32 \<Rightarrow> u32 \<Rightarrow> u32" where
  "slot_legal s old v = (v AND slot_writable s) OR (old AND slot_kept s)"

definition csr_wf :: "csr_file \<Rightarrow> bool" where
  "csr_wf f \<longleftrightarrow> length (csr_pmpcfg f) = 16 \<and> length (csr_pmpaddr f) = 64 \<and> perf_wf (csr_perf f)"

lemma csr_wf_new: "csr_wf CsrFile_new"
  by (simp add: csr_wf_def CsrFile_new_def perf_wf_new)

subsection \<open>Factoring read and write through the slots\<close>

lemma in_range_index:
  assumes "in_range lo hi a" "lo \<le> hi"
  shows "unat (a - lo) \<le> unat hi - unat lo"
  using assms by (simp add: in_range_def word_le_nat_alt unat_sub diff_le_mono)

lemma hpm_ranges:
  "in_range CSR_HPMCOUNTER3 CSR_HPMCOUNTER31 a \<Longrightarrow> unat (a - CSR_HPMCOUNTER3) \<le> 28"
  "in_range CSR_HPMCOUNTER3H CSR_HPMCOUNTER31H a \<Longrightarrow> unat (a - CSR_HPMCOUNTER3H) \<le> 28"
  "in_range CSR_MHPMCOUNTER_BASE CSR_MHPMCOUNTER_END a \<Longrightarrow> unat (a - CSR_MHPMCOUNTER_BASE) \<le> 28"
  "in_range CSR_MHPMCOUNTERH_BASE CSR_MHPMCOUNTERH_END a \<Longrightarrow> unat (a - CSR_MHPMCOUNTERH_BASE) \<le> 28"
  "in_range CSR_MHPMEVENT_BASE CSR_MHPMEVENT_END a \<Longrightarrow> unat (a - CSR_MHPMEVENT_BASE) \<le> 28"
  "in_range CSR_PMPCFG0 CSR_PMPCFG15 a \<Longrightarrow> unat (a - CSR_PMPCFG0) \<le> 15"
  "in_range CSR_PMPADDR0 CSR_PMPADDR63 a \<Longrightarrow> unat (a - CSR_PMPADDR0) \<le> 63"
  by (drule in_range_index; simp add: csr_range_defs)+

definition slot_ok :: "csr_slot \<Rightarrow> privilege \<Rightarrow> bool" where
  "slot_ok s p \<longleftrightarrow> (\<forall>a. s = SCompat a \<longrightarrow> p = Machine)"

definition slot_read :: "csr_file \<Rightarrow> u16 \<Rightarrow> privilege \<Rightarrow> csr_slot \<Rightarrow> u32 result" where
  "slot_read f a p s = (if slot_ok s p then Inr (slot_get f s) else Inl (InvalidCsr a))"

lemma slot_read_if: "slot_read f a p (if c then s else t) = (if c then slot_read f a p s else slot_read f a p t)"
  by simp

lemma slot_ok_simps [simp]:
  "slot_ok (SCompat a) p \<longleftrightarrow> p = Machine" "(\<And>a. s \<noteq> SCompat a) \<Longrightarrow> slot_ok s p"
  by (auto simp: slot_ok_def)

lemma read_arm_slot: "CsrFile_read_arm f a p = slot_read f a p (csr_slot a)"
  unfolding CsrFile_read_arm_def csr_slot_def slot_read_if
  by (intro if_arm)
    (simp_all add: Let_def hpm_ranges Counter64_read_low_def Counter64_read_high_def slot_read_def)

fun slot_put :: "csr_file \<Rightarrow> privilege \<Rightarrow> csr_slot \<Rightarrow> u32 \<Rightarrow> csr_file" where
  "slot_put f p SMstatus v = f\<lparr>csr_mstatus := Mstatus_write (csr_mstatus f) v\<rparr>"
| "slot_put f p SMisa v = f\<lparr>csr_misa := Misa_write (csr_misa f) v\<rparr>"
| "slot_put f p SMie v = f\<lparr>csr_mie := Mie_write (csr_mie f) v\<rparr>"
| "slot_put f p SMtvec v = f\<lparr>csr_mtvec := v\<rparr>"
| "slot_put f p SMcounteren v = f\<lparr>csr_mcounteren := v\<rparr>"
| "slot_put f p SMscratch v = f\<lparr>csr_mscratch := v\<rparr>"
| "slot_put f p SMepc v = f\<lparr>csr_mepc := Mepc_write (csr_mepc f) v\<rparr>"
| "slot_put f p SMcause v = f\<lparr>csr_mcause := v\<rparr>"
| "slot_put f p SMtval v = f\<lparr>csr_mtval := v\<rparr>"
| "slot_put f p SMip v = f\<lparr>csr_mip := Mip_write (csr_mip f) v\<rparr>"
| "slot_put f p (SPmpcfg i) v = f\<lparr>csr_pmpcfg := (csr_pmpcfg f)[i := v]\<rparr>"
| "slot_put f p (SPmpaddr i) v = f\<lparr>csr_pmpaddr := (csr_pmpaddr f)[i := v]\<rparr>"
| "slot_put f p SMideleg v = f\<lparr>csr_mideleg := Mideleg_write (csr_mideleg f) v\<rparr>"
| "slot_put f p SMedeleg v = f\<lparr>csr_medeleg := Medeleg_write (csr_medeleg f) v\<rparr>"
| "slot_put f p SZero v = f"
| "slot_put f p SSstatus v = f\<lparr>csr_sstatus := Sstatus_write (csr_sstatus f) v\<rparr>"
| "slot_put f p SSie v = f\<lparr>csr_sie := Sie_write (csr_sie f) v\<rparr>"
| "slot_put f p SStvec v = f\<lparr>csr_stvec := v\<rparr>"
| "slot_put f p SSatp v = f\<lparr>csr_satp := Satp_write (csr_satp f) v\<rparr>"
| "slot_put f p SSscratch v = f\<lparr>csr_sscratch := v\<rparr>"
| "slot_put f p SSepc v = f\<lparr>csr_sepc := Sepc_write (csr_sepc f) v\<rparr>"
| "slot_put f p SScause v = f\<lparr>csr_scause := v\<rparr>"
| "slot_put f p SStval v = f\<lparr>csr_stval := v\<rparr>"
| "slot_put f p SSip v = f\<lparr>csr_sip :=
     (if p = Machine then Sip_set_seip (Sip_set_stip (Sip_set_ssip (csr_sip f)
        (flag v IP_SSIP)) (flag v IP_STIP)) (flag v IP_SEIP) else Sip_write (csr_sip f) v)\<rparr>"
| "slot_put f p SUstatus v = f\<lparr>csr_ustatus := Ustatus_write (csr_ustatus f) v\<rparr>"
| "slot_put f p SUtvec v = f\<lparr>csr_utvec := v\<rparr>"
| "slot_put f p SUepc v = f\<lparr>csr_uepc := Uepc_write (csr_uepc f) v\<rparr>"
| "slot_put f p SUcause v = f\<lparr>csr_ucause := v\<rparr>"
| "slot_put f p SCycle v = f\<lparr>csr_perf := (csr_perf f)\<lparr>pc_mcycle := (pc_mcycle (csr_perf f))\<lparr>c64_low := v\<rparr>\<rparr>\<rparr>"
| "slot_put f p SCycleh v = f\<lparr>csr_perf := (csr_perf f)\<lparr>pc_mcycleh := v\<rparr>\<rparr>"
| "slot_put f p SInstret v =
     f\<lparr>csr_perf := (csr_perf f)\<lparr>pc_minstret := (pc_minstret (csr_perf f))\<lparr>c64_low := v\<rparr>\<rparr>\<rparr>"
| "slot_put f p SInstreth v = f\<lparr>csr_perf := (csr_perf f)\<lparr>pc_minstreth := v\<rparr>\<rparr>"
| "slot_put f p SInhibit v = f\<lparr>csr_perf := (csr_perf f)\<lparr>pc_mcountinhibit := v\<rparr>\<rparr>"
| "slot_put f p (SHpmLow i) v = f\<lparr>csr_perf := (csr_perf f)\<lparr>pc_mhpmcounters :=
     (pc_mhpmcounters (csr_perf f))[i := Mhpmcounter_write_low (pc_mhpmcounters (csr_perf f) ! i) v]\<rparr>\<rparr>"
| "slot_put f p (SHpmHigh i) v = f\<lparr>csr_perf := (csr_perf f)\<lparr>pc_mhpmcounters :=
     (pc_mhpmcounters (csr_perf f))[i := Mhpmcounter_write_high (pc_mhpmcounters (csr_perf f) ! i) v]\<rparr>\<rparr>"
| "slot_put f p (SHpmEvent i) v = f\<lparr>csr_perf := (csr_perf f)\<lparr>pc_mhpmevents :=
     (pc_mhpmevents (csr_perf f))[i := Mhpmevent_write (pc_mhpmevents (csr_perf f) ! i) v]\<rparr>\<rparr>"
| "slot_put f p (SCompat a) v = f\<lparr>csr_machine_compat := (csr_machine_compat f)(a \<mapsto> v)\<rparr>"

text \<open>The read-only addresses, which the access check keeps away from the write, are the ones
  whose write arm is the compatibility store although their read arm is a register.\<close>

definition read_only_addr :: "u16 \<Rightarrow> bool" where
  "read_only_addr a \<longleftrightarrow> 0xC00 \<le> a"

definition slot_write :: "csr_file \<Rightarrow> u16 \<Rightarrow> u32 \<Rightarrow> privilege \<Rightarrow> csr_slot \<Rightarrow> unit result \<times> csr_file" where
  "slot_write f a v p s = (if slot_ok s p then (Inr (), slot_put f p s v) else (Inl (InvalidCsr a), f))"

lemma slot_write_if: "slot_write f a v p (if c then s else t) = (if c then slot_write f a v p s else slot_write f a v p t)"
  by simp

lemma if_arm_skip: "\<not> c \<Longrightarrow> y = v \<Longrightarrow> y = (if c then u else v)"
  by simp

lemma read_only_arms:
  assumes "\<not> read_only_addr a"
  shows "a \<noteq> CSR_MVENDORID" "a \<noteq> CSR_MARCHID" "a \<noteq> CSR_MIMPID" "a \<noteq> CSR_MHARTID" "a \<noteq> CSR_CYCLE"
    "a \<noteq> CSR_TIME" "a \<noteq> CSR_INSTRET" "a \<noteq> CSR_CYCLEH" "a \<noteq> CSR_TIMEH" "a \<noteq> CSR_INSTRETH"
    "\<not> in_range CSR_HPMCOUNTER3 CSR_HPMCOUNTER31 a" "\<not> in_range CSR_HPMCOUNTER3H CSR_HPMCOUNTER31H a"
  using assms
  by (auto simp: read_only_addr_def csr_range_defs csr_addr_defs in_range_def word_le_nat_alt
      word_less_nat_alt not_le)

lemmas csr_plain_writes = Mtvec_write_def Mscratch_write_def Mcause_write_def Mtval_write_def
  Stvec_write_def Sscratch_write_def Scause_write_def Stval_write_def Utvec_write_def
  Ucause_write_def Counter64_write_low_def

lemma write_arm_slot:
  assumes "\<not> read_only_addr a"
  shows "CsrFile_write_arm f a v p = slot_write f a v p (csr_slot a)"
  unfolding CsrFile_write_arm_def csr_slot_def slot_write_if
  by (intro if_arm if_arm_skip read_only_arms [OF assms])
    (simp_all add: Let_def hpm_ranges slot_write_def csr_plain_writes)

subsection \<open>Registers are independent and keep what was written\<close>

fun slot_bounded :: "csr_slot \<Rightarrow> bool" where
  "slot_bounded (SPmpcfg i) \<longleftrightarrow> i < 16"
| "slot_bounded (SPmpaddr i) \<longleftrightarrow> i < 64"
| "slot_bounded (SHpmLow i) \<longleftrightarrow> i < 29"
| "slot_bounded (SHpmHigh i) \<longleftrightarrow> i < 29"
| "slot_bounded (SHpmEvent i) \<longleftrightarrow> i < 29"
| "slot_bounded _ \<longleftrightarrow> True"

lemma slot_bounded_if: "slot_bounded (if c then s else t) \<longleftrightarrow> (c \<longrightarrow> slot_bounded s) \<and> (\<not> c \<longrightarrow> slot_bounded t)"
  by simp

lemma slot_bounded_csr_slot: "slot_bounded (csr_slot a)"
  unfolding csr_slot_def slot_bounded_if
  by (intro conjI impI) (simp_all add: hpm_ranges le_less_trans [OF hpm_ranges(1)]
      le_less_trans [OF hpm_ranges(2)] le_less_trans [OF hpm_ranges(3)] le_less_trans [OF hpm_ranges(4)]
      le_less_trans [OF hpm_ranges(5)] le_less_trans [OF hpm_ranges(6)] le_less_trans [OF hpm_ranges(7)])

lemma csr_word_masks:
  "MS_WRITABLE = 0x007A1FEA" "MIDELEG_ALL = 0x444" "MEDELEG_ALL = 0xB3FF"
  "(IP_SSIP OR IP_STIP OR IP_SEIP :: u32) = 0x222"
  "(IE_MSIE OR IE_MTIE OR IE_MEIE OR IE_SSIE OR IE_STIE OR IE_SEIE OR IE_USIE OR IE_UTIE OR IE_UEIE) = 0xBBB"
  "(SATP_MODE_MASK OR SATP_ASID_MASK OR SATP_PPN_MASK) = 0xFFFFFFFF"
  by code_simp+

lemma and_all_ones [simp]: "x AND 0xFFFFFFFF = (x :: u32)" "0xFFFFFFFF AND x = (x :: u32)"
proof -
  have "(0xFFFFFFFF :: u32) = - 1" by simp
  then show "x AND 0xFFFFFFFF = x" "0xFFFFFFFF AND x = x"
    by (simp_all only: and.left_neutral and.right_neutral)
qed

lemma Sip_machine_write: "Sip_set_seip (Sip_set_stip (Sip_set_ssip s (flag v IP_SSIP)) (flag v IP_STIP)) (flag v IP_SEIP)
    = masked_write s (IP_SSIP OR IP_STIP OR IP_SEIP) v"
proof (rule bit_word_eqI)
  fix n assume "n < LENGTH(32)"
  then show "bit (Sip_set_seip (Sip_set_stip (Sip_set_ssip s (flag v IP_SSIP)) (flag v IP_STIP)) (flag v IP_SEIP)) n
    = bit (masked_write s (IP_SSIP OR IP_STIP OR IP_SEIP) v) n"
    by (simp add: Sip_set_ssip_def Sip_set_stip_def Sip_set_seip_def IP_SSIP_def IP_STIP_def IP_SEIP_def
        flag_bitm bit_simps)
qed

lemmas csr_field_writes = Mstatus_write_def Misa_write_def Mie_write_def Mepc_write_def Mip_write_def
  Mideleg_write_def Mideleg_read_def Medeleg_write_def Medeleg_read_def Sstatus_write_def Sie_write_def
  Satp_write_def Sepc_write_def Ustatus_write_def Uepc_write_def Mhpmcounter_write_low_def
  Mhpmcounter_write_high_def Mhpmevent_write_def Counter64_write_low_def Counter64_write_high_def

lemma masked_write_or: "masked_write old m v = (v AND m) OR (old AND NOT m)"
  by (simp add: masked_write_def or.commute)

lemma slot_put_get:
  assumes "csr_wf f" "slot_bounded s" "s \<noteq> SZero" "s = SSip \<Longrightarrow> p = Machine"
  shows "slot_get (slot_put f p s v) s = slot_legal s (slot_get f s) v"
  using assms
  by (cases s)
    (simp_all add: slot_legal_def slot_kept_def csr_wf_def perf_wf_def HPM_COUNTER_COUNT_def csr_field_writes
      Sip_machine_write csr_word_masks masked_write_or and.assoc)

lemma hpm_other_half:
  "c64_low (hc_counter (cs[i := Mhpmcounter_write_high (cs ! i) v] ! j)) = c64_low (hc_counter (cs ! j))"
  "c64_high (hc_counter (cs[i := Mhpmcounter_write_low (cs ! i) v] ! j)) = c64_high (hc_counter (cs ! j))"
  by (cases "i < length cs"; auto simp: nth_list_update csr_field_writes list_update_beyond)+

lemmas slot_put_defs = Mideleg_write_def Medeleg_write_def Mideleg_read_def Medeleg_read_def

lemma slot_put_frame: "s \<noteq> t \<Longrightarrow> slot_get (slot_put f p s v) t = slot_get f t"
  by (cases s; cases t) (auto simp: slot_put_defs hpm_other_half)

lemma slot_put_wf: "csr_wf f \<Longrightarrow> csr_wf (slot_put f p s v)"
  by (cases s) (simp_all add: csr_wf_def perf_wf_def)

subsection \<open>The access check\<close>

text \<open>Specification: the privilege an address asks for is bits 9:8, hypervisor counting as machine;
  an address is writable when bit 11 is clear or it is one of the machine counters.\<close>

definition csr_min_priv :: "u16 \<Rightarrow> privilege" where
  "csr_min_priv a = (let k = unat a div 256 mod 4
     in if k = 0 then User else if k = 1 then Supervisor else Machine)"

definition machine_counter_addr :: "u16 \<Rightarrow> bool" where
  "machine_counter_addr a \<longleftrightarrow> a = 0xB00 \<or> 0xB02 \<le> a \<and> a \<le> 0xB1F \<or> a = 0xB80 \<or> 0xB82 \<le> a \<and> a \<le> 0xB9F"

lemma addr_field:
  fixes a :: u16
  shows "drop_bit n a AND 0x3 = of_nat (unat a div 2 ^ n mod 4)"
proof -
  have a: "unat a < 65536" using unsigned_less [of a] by simp
  have "drop_bit n a AND 0x3 = take_bit 2 (drop_bit n a)"
    by (simp add: take_bit_eq_mask mask_eq_exp_minus_1)
  also have "\<dots> = of_nat (unat (take_bit 2 (drop_bit n a)))" by simp
  also have "unat (take_bit 2 (drop_bit n a)) = unat a div 2 ^ n mod 4"
    using a by (simp only: unsigned_take_bit_eq unsigned_drop_bit_eq)
      (simp add: take_bit_eq_mod drop_bit_eq_div)
  finally show ?thesis .
qed

lemma small_nat_eq:
  assumes "k < (4 :: nat)"
  shows "(of_nat k :: u16) = 0 \<longleftrightarrow> k = 0" "(of_nat k :: u16) = 1 \<longleftrightarrow> k = 1"
    "(of_nat k :: u16) = 2 \<longleftrightarrow> k = 2" "(of_nat k :: u16) = 3 \<longleftrightarrow> k = 3"
  using assms by (simp_all add: word_unat_eq_iff unat_of_nat)

lemma field_min_priv:
  "(if drop_bit 8 a AND 0x3 = 0 then User else if drop_bit 8 a AND 0x3 = 1 then Supervisor else Machine)
     = csr_min_priv a"
  by (simp add: csr_min_priv_def addr_field small_nat_eq Let_def)

lemma field_read_only:
  fixes a :: u16
  assumes "a \<le> 0xFFF"
  shows "(drop_bit 10 a AND 0x3 = 2 \<or> drop_bit 10 a AND 0x3 = 3) \<longleftrightarrow> 0x800 \<le> a"
proof -
  have "unat a \<le> 0xFFF" using assms by (simp add: word_le_nat_alt)
  then have "unat a div 1024 \<le> 3" using div_le_mono [of "unat a" "0xFFF" 1024] by simp
  moreover have "2 \<le> unat a div 1024 \<longleftrightarrow> 2048 \<le> unat a"
    by (simp add: less_eq_div_iff_mult_less_eq)
  ultimately have "(unat a div 1024 mod 4 = 2 \<or> unat a div 1024 mod 4 = 3) \<longleftrightarrow> 2048 \<le> unat a"
    by auto
  then show ?thesis by (simp add: addr_field small_nat_eq word_le_nat_alt)
qed

lemma counter_addr_ranges:
  "(a = CSR_MCYCLE \<or> a = CSR_MCYCLEH \<or> a = CSR_MINSTRET \<or> a = CSR_MINSTRETH
     \<or> in_range CSR_MHPMCOUNTER_BASE CSR_MHPMCOUNTER_END a
     \<or> in_range CSR_MHPMCOUNTERH_BASE CSR_MHPMCOUNTERH_END a) \<longleftrightarrow> machine_counter_addr a"
  by (auto simp: machine_counter_addr_def csr_range_defs in_range_def word_le_nat_alt word_unat_eq_iff)

lemma check_access_eq:
  "CsrFile_check_access a p w =
     (if 0xFFF < a then Inl (InvalidCsr a)
      else if p < csr_min_priv a \<or> w \<and> 0x800 \<le> a \<and> \<not> machine_counter_addr a
        then Inl (CsrAccessDenied a p)
      else Inr ())"
  unfolding CsrFile_check_access_def Let_def field_min_priv counter_addr_ranges
  by (cases "a \<le> 0xFFF") (auto simp: field_read_only not_le)

lemma checked_write_not_read_only:
  "CsrFile_check_access a p True = Inr () \<Longrightarrow> \<not> read_only_addr a"
  by (auto simp: check_access_eq read_only_addr_def machine_counter_addr_def word_le_nat_alt
      word_unat_eq_iff split: if_splits)

lemma CsrFile_write_slot:
  "CsrFile_write f a v p = (Inr (), f') \<Longrightarrow>
     \<not> read_only_addr a \<and> slot_ok (csr_slot a) p \<and> f' = slot_put f p (csr_slot a) v"
  by (auto simp: CsrFile_write_def bind_st_Inr checked_write_not_read_only write_arm_slot slot_write_def
      split: if_splits)

lemma CsrFile_read_slot:
  "CsrFile_read f a p = Inr v \<longleftrightarrow>
     CsrFile_check_access a p False = Inr () \<and> slot_ok (csr_slot a) p \<and> v = slot_get f (csr_slot a)"
  by (auto simp: CsrFile_read_def bind_res_Inr read_arm_slot slot_read_def split: if_splits)

lemma check_access_mono: "CsrFile_check_access a p True = Inr () \<Longrightarrow> CsrFile_check_access a p w = Inr ()"
  by (auto simp: check_access_eq split: if_splits)

lemma csr_slot_read_only: "csr_slot a = SZero \<Longrightarrow> read_only_addr a"
  unfolding csr_slot_def by (elim if_eq_cases) (simp_all add: read_only_addr_def csr_addr_defs)

lemma csr_slot_sip: "csr_slot a = SSip \<Longrightarrow> a = CSR_SIP"
  unfolding csr_slot_def by (elim if_eq_cases) simp_all

lemma write_keeps_file_on_error:
  "CsrFile_write f a v p = (Inl e, f') \<Longrightarrow> f' = f"
  by (cases "CsrFile_check_access a p True")
    (auto simp: CsrFile_write_def checked_write_not_read_only write_arm_slot slot_write_def split: if_splits)

subsection \<open>Properties\<close>

text \<open>Specification: the value an operation writes, if it writes one.\<close>

fun csr_op_value :: "csr_op \<Rightarrow> u32 \<Rightarrow> u32 \<Rightarrow> u32 option" where
  "csr_op_value CSR_RW old x = Some x"
| "csr_op_value CSR_RS old x = (if x = 0 then None else Some (old OR x))"
| "csr_op_value CSR_RC old x = (if x = 0 then None else Some (old AND NOT x))"
| "csr_op_value CSR_RWI old x = Some (take_bit 5 x)"
| "csr_op_value CSR_RSI old x = (if take_bit 5 x = 0 then None else Some (old OR take_bit 5 x))"
| "csr_op_value CSR_RCI old x = (if take_bit 5 x = 0 then None else Some (old AND NOT (take_bit 5 x)))"

lemma and_31: "(x :: u32) AND 0x1F = take_bit 5 x"
  by (simp add: take_bit_eq_mask mask_eq_exp_minus_1)

lemma CsrFile_execute_unfold:
  "CsrFile_execute f op a x p =
     (case csr_op_value op 0 x of
        None \<Rightarrow> bind_st (CsrFile_check_access a p False, f) (\<lambda>_ f. (CsrFile_read f a p, f))
      | Some _ \<Rightarrow> bind_st (CsrFile_check_access a p True, f) (\<lambda>_ f. bind_st (CsrFile_read f a p, f) (\<lambda>old f.
          bind_st (CsrFile_write f a (the (csr_op_value op old x)) p) (\<lambda>_ f. (Inr old, f)))))"
  by (cases op) (auto simp: CsrFile_execute_def Let_def and_31 bind_st_def split: sum.splits prod.splits)

lemma csr_op_value_None: "csr_op_value op 0 x = None \<longleftrightarrow> csr_op_value op old x = None"
  by (cases op) auto

text \<open>C33: A CSR instruction that succeeds returns the value the register reads as; afterwards the
  register reads as the written value cut to its legal fields (for the set and clear forms only
  when the operand is not zero), and every address that names another register reads as before.
  The supervisor's own write to \<open>sip\<close>, which only clears, is the one exception.\<close>

theorem csr_execute_functional:
  assumes wf: "csr_wf f" and ok: "CsrFile_execute f op a x p = (Inr old, f')"
    and sip: "a = CSR_SIP \<longrightarrow> p = Machine"
  shows "CsrFile_read f a p = Inr old \<and> csr_wf f' \<and>
    (case csr_op_value op old x of
       None \<Rightarrow> f' = f
     | Some v \<Rightarrow> CsrFile_read f' a p = Inr (slot_legal (csr_slot a) old v)) \<and>
    (\<forall>b q. csr_slot b \<noteq> csr_slot a \<longrightarrow> CsrFile_read f' b q = CsrFile_read f b q)"
proof (cases "csr_op_value op 0 x")
  case None
  with ok wf csr_op_value_None [of op x old] show ?thesis
    by (auto simp: CsrFile_execute_unfold bind_st_Inr)
next
  case (Some u)
  then obtain v where v: "csr_op_value op old x = Some v"
    using csr_op_value_None [of op x old] by (cases "csr_op_value op old x") auto
  from ok Some v have r: "CsrFile_read f a p = Inr old" and w: "CsrFile_write f a v p = (Inr (), f')"
    by (auto simp: CsrFile_execute_unfold bind_st_Inr)
  let ?s = "csr_slot a"
  from CsrFile_write_slot [OF w] have ro: "\<not> read_only_addr a" and f': "f' = slot_put f p ?s v"
    by auto
  from ro sip csr_slot_read_only csr_slot_sip have s: "?s \<noteq> SZero" "?s = SSip \<Longrightarrow> p = Machine" by auto
  have get: "slot_get f' ?s = slot_legal ?s old v"
    using slot_put_get [OF wf slot_bounded_csr_slot s] r by (simp add: f' CsrFile_read_slot)
  have "CsrFile_read f' b q = CsrFile_read f b q" if "csr_slot b \<noteq> ?s" for b q
    using that slot_put_frame [of ?s "csr_slot b" f p v]
    by (simp add: f' CsrFile_read_def read_arm_slot slot_read_def)
  then show ?thesis using r get v slot_put_wf [OF wf] f' by (auto simp: CsrFile_read_slot)
qed

theorem csr_execute_functional_witness:
  "\<exists>f'. CsrFile_execute CsrFile_new CSR_RS 0x300 0xFFFFFFFF Machine = (Inr 0, f') \<and>
     CsrFile_read f' 0x300 Machine = Inr 0x007A1FEA \<and> CsrFile_read f' 0x305 Machine = Inr 0"
proof -
  let ?f = "slot_put CsrFile_new Machine SMstatus 0xFFFFFFFF"
  have e: "CsrFile_execute CsrFile_new CSR_RS 0x300 0xFFFFFFFF Machine = (Inr 0, ?f)"
    by (simp add: CsrFile_execute_def Let_def check_access_eq csr_min_priv_def CsrFile_read_def
        CsrFile_read_arm_def csr_addr_defs CsrFile_write_def CsrFile_write_arm_def CsrFile_new_def)
  have s: "csr_slot 0x300 = SMstatus" "csr_slot 0x305 = SMtvec"
    by (simp_all add: csr_slot_def csr_addr_defs)
  have "CsrFile_read CsrFile_new 0x305 Machine = Inr 0"
    by (simp add: CsrFile_read_slot check_access_eq csr_min_priv_def s CsrFile_new_def)
  with csr_execute_functional [OF csr_wf_new e] e show ?thesis
    by (auto simp: s slot_legal_def csr_addr_defs)
qed

text \<open>C34: The CSR file is protected: an access from below the privilege encoded in the address is
  refused, and no failing instruction changes the file.  Whatever does change it was issued at
  sufficient privilege and named a writable address.\<close>

theorem csr_execute_protected:
  assumes "CsrFile_execute f op a x p = (r, f')"
  shows "(p < csr_min_priv a \<longrightarrow> a \<le> 0xFFF \<longrightarrow> r = Inl (CsrAccessDenied a p)) \<and>
    (isl r \<longrightarrow> f' = f) \<and>
    (f' \<noteq> f \<longrightarrow> csr_min_priv a \<le> p \<and> a \<le> 0xFFF \<and> (a < 0x800 \<or> machine_counter_addr a))"
proof (cases "csr_op_value op 0 x")
  case None
  then show ?thesis using assms
    by (auto simp: CsrFile_execute_unfold check_access_eq not_le split: if_splits)
next
  case (Some v)
  have err: "f' = f" if "r = Inl e" for e
    using assms Some that
    by (auto simp: CsrFile_execute_unfold bind_st_def split: sum.splits prod.splits
        dest: write_keeps_file_on_error)
  then have "isl r \<longrightarrow> f' = f" by (cases r) auto
  then show ?thesis using assms Some
    by (auto simp: CsrFile_execute_unfold check_access_eq not_le not_less split: if_splits)
qed

theorem csr_execute_protected_witness:
  "fst (CsrFile_execute CsrFile_new CSR_RW 0x300 8 Supervisor) = Inl (CsrAccessDenied 0x300 Supervisor)"
proof -
  obtain r f' where e: "CsrFile_execute CsrFile_new CSR_RW 0x300 8 Supervisor = (r, f')"
    by (cases "CsrFile_execute CsrFile_new CSR_RW 0x300 8 Supervisor") auto
  have "Supervisor < csr_min_priv 0x300" by (simp add: csr_min_priv_def)
  then have "r = Inl (CsrAccessDenied 0x300 Supervisor)"
    using csr_execute_protected [OF e] by (simp add: word_le_nat_alt)
  with e show ?thesis by simp
qed

end
