(* ===== verification/Trap_Handling.thy ===== *)
theory Trap_Handling
  imports Csr_File
begin

text \<open>
  Traps: \<open>src/src/cpu/csr/trap.rs\<close>.  Causes and their codes, trap entry into machine and
  supervisor mode, and delegation.  \<open>Trap::take_m_trap\<close> updates four registers it borrows one
  by one; \<open>Trap_take_m_trap\<close> takes their values and returns the new ones with the handler's
  address and privilege.
\<close>

subsection \<open>Causes\<close>

datatype exception_cause =
    InstructionMisaligned | InstructionAccessFault | IllegalInstruction | Breakpoint
  | LoadMisaligned | LoadAccessFault | StoreMisaligned | StoreAccessFault
  | EcallUser | EcallSupervisor | EcallMachine
  | InstructionPageFault | LoadPageFault | StorePageFault
  | UnknownException u32

definition ExceptionCause_from_code :: "u32 \<Rightarrow> exception_cause" where
  "ExceptionCause_from_code c =
     (if c = 0 then InstructionMisaligned else if c = 1 then InstructionAccessFault
      else if c = 2 then IllegalInstruction else if c = 3 then Breakpoint
      else if c = 4 then LoadMisaligned else if c = 5 then LoadAccessFault
      else if c = 6 then StoreMisaligned else if c = 7 then StoreAccessFault
      else if c = 8 then EcallUser else if c = 9 then EcallSupervisor
      else if c = 11 then EcallMachine else if c = 12 then InstructionPageFault
      else if c = 13 then LoadPageFault else if c = 15 then StorePageFault
      else UnknownException c)"

fun ExceptionCause_code :: "exception_cause \<Rightarrow> u32" where
  "ExceptionCause_code InstructionMisaligned = 0"
| "ExceptionCause_code InstructionAccessFault = 1"
| "ExceptionCause_code IllegalInstruction = 2"
| "ExceptionCause_code Breakpoint = 3"
| "ExceptionCause_code LoadMisaligned = 4"
| "ExceptionCause_code LoadAccessFault = 5"
| "ExceptionCause_code StoreMisaligned = 6"
| "ExceptionCause_code StoreAccessFault = 7"
| "ExceptionCause_code EcallUser = 8"
| "ExceptionCause_code EcallSupervisor = 9"
| "ExceptionCause_code EcallMachine = 11"
| "ExceptionCause_code InstructionPageFault = 12"
| "ExceptionCause_code LoadPageFault = 13"
| "ExceptionCause_code StorePageFault = 15"
| "ExceptionCause_code (UnknownException c) = c"

fun ExceptionCause_ecall_from :: "privilege \<Rightarrow> exception_cause" where
  "ExceptionCause_ecall_from User = EcallUser"
| "ExceptionCause_ecall_from Supervisor = EcallSupervisor"
| "ExceptionCause_ecall_from Machine = EcallMachine"

datatype interrupt_cause =
    UserSoftware | SupervisorSoftware | MachineSoftware | UserTimer | SupervisorTimer | MachineTimer
  | UserExternal | SupervisorExternal | MachineExternal | UnknownInterrupt u32

definition InterruptCause_from_code :: "u32 \<Rightarrow> interrupt_cause" where
  "InterruptCause_from_code c =
     (if c = 0 then UserSoftware else if c = 1 then SupervisorSoftware
      else if c = 3 then MachineSoftware else if c = 4 then UserTimer
      else if c = 5 then SupervisorTimer else if c = 7 then MachineTimer
      else if c = 8 then UserExternal else if c = 9 then SupervisorExternal
      else if c = 11 then MachineExternal else UnknownInterrupt c)"

fun InterruptCause_code :: "interrupt_cause \<Rightarrow> u32" where
  "InterruptCause_code UserSoftware = 0"
| "InterruptCause_code SupervisorSoftware = 1"
| "InterruptCause_code MachineSoftware = 3"
| "InterruptCause_code UserTimer = 4"
| "InterruptCause_code SupervisorTimer = 5"
| "InterruptCause_code MachineTimer = 7"
| "InterruptCause_code UserExternal = 8"
| "InterruptCause_code SupervisorExternal = 9"
| "InterruptCause_code MachineExternal = 11"
| "InterruptCause_code (UnknownInterrupt c) = c"

lemma ExceptionCause_code_from_code [simp]: "ExceptionCause_code (ExceptionCause_from_code c) = c"
  by (simp add: ExceptionCause_from_code_def)

lemma InterruptCause_code_from_code [simp]: "InterruptCause_code (InterruptCause_from_code c) = c"
  by (simp add: InterruptCause_from_code_def)

datatype trap_cause = TC_Exception exception_cause | TC_Interrupt interrupt_cause

subsection \<open>Traps\<close>

record trap =
  tr_cause :: trap_cause
  tr_epc :: addr
  tr_tval :: u32

definition Trap_exception :: "exception_cause \<Rightarrow> addr \<Rightarrow> u32 \<Rightarrow> trap" where
  "Trap_exception c epc tval = \<lparr>tr_cause = TC_Exception c, tr_epc = epc, tr_tval = tval\<rparr>"

definition Trap_interrupt :: "interrupt_cause \<Rightarrow> addr \<Rightarrow> trap" where
  "Trap_interrupt c epc = \<lparr>tr_cause = TC_Interrupt c, tr_epc = epc, tr_tval = 0\<rparr>"

definition Trap_ecall :: "privilege \<Rightarrow> addr \<Rightarrow> trap" where
  "Trap_ecall p epc = Trap_exception (ExceptionCause_ecall_from p) epc 0"

definition Trap_ebreak :: "addr \<Rightarrow> trap" where
  "Trap_ebreak epc = Trap_exception Breakpoint epc 0"

definition Trap_is_interrupt :: "trap \<Rightarrow> bool" where
  "Trap_is_interrupt t = (case tr_cause t of TC_Interrupt _ \<Rightarrow> True | TC_Exception _ \<Rightarrow> False)"

definition Trap_cause_code :: "trap \<Rightarrow> u32" where
  "Trap_cause_code t = (case tr_cause t of
     TC_Exception e \<Rightarrow> ExceptionCause_code e | TC_Interrupt i \<Rightarrow> InterruptCause_code i)"

text \<open>\<open>take_m_trap\<close>: registers \<open>mstatus\<close>, \<open>mepc\<close>, \<open>mcause\<close>, \<open>mtval\<close> in that order.\<close>

definition Trap_take_m_trap ::
  "trap \<Rightarrow> u32 \<Rightarrow> u32 \<Rightarrow> u32 \<Rightarrow> u32 \<Rightarrow> u32 \<Rightarrow> privilege \<Rightarrow> (u32 \<times> u32 \<times> u32 \<times> u32) \<times> addr \<times> privilege" where
  "Trap_take_m_trap t mstatus mepc mcause mtval mtvec current_privilege =
     (let ms1 = Mstatus_set_mpp mstatus current_privilege;
          ms2 = Mstatus_set_mpie ms1 (Mstatus_mie ms1);
          ms3 = Mstatus_set_mie ms2 False;
          epc' = Mepc_set mepc (tr_epc t);
          cause' = Mcause_set mcause (Trap_is_interrupt t) (Trap_cause_code t);
          handler_addr =
            (if Trap_is_interrupt t then
               (case Mtvec_mode mtvec of
                  Direct \<Rightarrow> Mtvec_base mtvec
                | Vectored \<Rightarrow> Mtvec_base mtvec + Trap_cause_code t * 4)
             else Mtvec_base mtvec)
      in ((ms3, epc', cause', tr_tval t), handler_addr, Machine))"

fun mideleg_bit :: "interrupt_cause \<Rightarrow> u32 option" where
  "mideleg_bit SupervisorSoftware = Some MIDELEG_SSIP"
| "mideleg_bit SupervisorTimer = Some MIDELEG_STIP"
| "mideleg_bit SupervisorExternal = Some MIDELEG_SEIP"
| "mideleg_bit _ = None"

fun medeleg_bit :: "exception_cause \<Rightarrow> u32 option" where
  "medeleg_bit InstructionMisaligned = Some (bitm 0)"
| "medeleg_bit InstructionAccessFault = Some (bitm 1)"
| "medeleg_bit IllegalInstruction = Some (bitm 2)"
| "medeleg_bit Breakpoint = Some (bitm 3)"
| "medeleg_bit LoadMisaligned = Some (bitm 4)"
| "medeleg_bit LoadAccessFault = Some (bitm 5)"
| "medeleg_bit StoreMisaligned = Some (bitm 6)"
| "medeleg_bit StoreAccessFault = Some (bitm 7)"
| "medeleg_bit EcallUser = Some (bitm 8)"
| "medeleg_bit EcallSupervisor = Some (bitm 9)"
| "medeleg_bit InstructionPageFault = Some (bitm 12)"
| "medeleg_bit LoadPageFault = Some (bitm 13)"
| "medeleg_bit StorePageFault = Some (bitm 15)"
| "medeleg_bit EcallMachine = None"
| "medeleg_bit (UnknownException _) = None"

definition Trap_should_delegate :: "trap \<Rightarrow> u32 \<Rightarrow> u32 \<Rightarrow> bool" where
  "Trap_should_delegate t mideleg medeleg =
     (case tr_cause t of
        TC_Interrupt i \<Rightarrow>
          (case mideleg_bit i of None \<Rightarrow> False | Some b \<Rightarrow> flag (Mideleg_read mideleg) b)
      | TC_Exception e \<Rightarrow>
          (case medeleg_bit e of None \<Rightarrow> False | Some b \<Rightarrow> flag (Medeleg_read medeleg) b))"

text \<open>\<open>take_s_trap\<close>: registers \<open>sstatus\<close>, \<open>sepc\<close>, \<open>scause\<close>, \<open>stval\<close> in that order.\<close>

definition Trap_take_s_trap ::
  "trap \<Rightarrow> u32 \<Rightarrow> u32 \<Rightarrow> u32 \<Rightarrow> u32 \<Rightarrow> u32 \<Rightarrow> privilege \<Rightarrow> (u32 \<times> u32 \<times> u32 \<times> u32) \<times> addr \<times> privilege" where
  "Trap_take_s_trap t sstatus sepc scause stval stvec current_privilege =
     (let ss1 = Sstatus_set_spp sstatus current_privilege;
          ss2 = Sstatus_set_spie ss1 (Sstatus_sie ss1);
          ss3 = Sstatus_set_sie ss2 False;
          epc' = Sepc_set sepc (tr_epc t);
          cause' = Scause_set scause (Trap_is_interrupt t) (Trap_cause_code t);
          handler_addr =
            (if Trap_is_interrupt t then
               (if Stvec_mode stvec = 0 then Stvec_base stvec
                else if Stvec_mode stvec = 1 then Stvec_base stvec + Trap_cause_code t * 4
                else Stvec_base stvec)
             else Stvec_base stvec)
      in ((ss3, epc', cause', tr_tval t), handler_addr, Supervisor))"

text \<open>What \<open>PipelineCpu::take_trap\<close> (\<open>cpu/pipeline/mod.rs\<close>) makes of them: the CSRs a trap writes, the handler address
  and the new privilege.\<close>

definition take_trap_csr :: "trap \<Rightarrow> csr_file \<Rightarrow> privilege \<Rightarrow> csr_file \<times> addr \<times> privilege" where
  "take_trap_csr t f p =
     (if p \<noteq> Machine \<and> Trap_should_delegate t (csr_mideleg f) (csr_medeleg f) then
        let ((sstatus, sepc, scause, stval), h, p') =
              Trap_take_s_trap t (csr_sstatus f) (csr_sepc f) (csr_scause f) (csr_stval f) (csr_stvec f) p
        in (f\<lparr>csr_sstatus := sstatus, csr_sepc := sepc, csr_scause := scause, csr_stval := stval\<rparr>, h, p')
      else
        let ((mstatus, mepc, mcause, mtval), h, p') =
              Trap_take_m_trap t (csr_mstatus f) (csr_mepc f) (csr_mcause f) (csr_mtval f) (csr_mtvec f) p
        in (f\<lparr>csr_mstatus := mstatus, csr_mepc := mepc, csr_mcause := mcause, csr_mtval := mtval\<rparr>, h, p'))"

subsection \<open>The fields of \<open>mstatus\<close> and \<open>sstatus\<close>\<close>

lemma bit_privilege: "bit (PrivilegeLevel_bits p) k \<longleftrightarrow> (k = 0 \<and> p \<noteq> User) \<or> (k = 1 \<and> p = Machine)"
  by (cases p) (auto simp: bit_simps less_2_cases_iff)

lemma mpp_mask_bits: "bit MS_MPP_MASK n \<longleftrightarrow> n = 11 \<or> n = 12"
  unfolding MS_MPP_MASK_def by (auto simp: bit_simps simp del: push_bit_numeral)

lemma bit_set_mpp [bit_simps]: "bit (Mstatus_set_mpp v p) n \<longleftrightarrow>
    (if n = 11 then p \<noteq> User else if n = 12 then p = Machine else bit v n)"
  by (auto simp: Mstatus_set_mpp_def mpp_mask_bits bit_simps bit_privilege dest: bit_imp_le_length)

lemma mpp_of_bits: "Mstatus_mpp v =
    (if bit v 11 then if bit v 12 then Machine else Supervisor else User)"
proof -
  have "drop_bit 11 v AND 0x3 =
      (if bit v 12 then (if bit v 11 then 3 else 2) else (if bit v 11 then 1 else 0))"
    (is "?l = ?r")
  proof (rule bit_word_eqI)
    fix n
    show "bit ?l n = bit ?r n" by (cases "n = 0"; cases "n = 1") (auto simp: bit_simps)
  qed
  then show ?thesis by (simp add: Mstatus_mpp_def)
qed

lemmas mstatus_bits = MS_MIE_def MS_MPIE_def MS_SIE_def MS_SPIE_def MS_SPP_def

lemmas mstatus_fields = Mstatus_mie_def Mstatus_mpie_def Mstatus_set_mie_def Mstatus_set_mpie_def
  mstatus_bits

lemma mstatus_simps [flag_simps]:
  "Mstatus_mpp (Mstatus_set_mpp v p) = p"
  "Mstatus_mpp (Mstatus_set_mie v b) = Mstatus_mpp v"
  "Mstatus_mpp (Mstatus_set_mpie v b) = Mstatus_mpp v"
  "Mstatus_mie (Mstatus_set_mpp v p) = Mstatus_mie v"
  "Mstatus_mpie (Mstatus_set_mpp v p) = Mstatus_mpie v"
  "Mstatus_mie (Mstatus_set_mie v b) = b"
  "Mstatus_mie (Mstatus_set_mpie v b) = Mstatus_mie v"
  "Mstatus_mpie (Mstatus_set_mpie v b) = b"
  "Mstatus_mpie (Mstatus_set_mie v b) = Mstatus_mpie v"
  by (simp_all add: mpp_of_bits mstatus_fields flag_bitm bit_simps)
    (cases p; simp)

lemmas sstatus_fields = Sstatus_sie_def Sstatus_spie_def Sstatus_spp_def Sstatus_set_sie_def
  Sstatus_set_spie_def Sstatus_set_spp_def

lemma sstatus_simps [flag_simps]:
  "Sstatus_spp (Sstatus_set_spp v p) \<longleftrightarrow> p = Supervisor"
  "Sstatus_spp (Sstatus_set_sie v b) = Sstatus_spp v"
  "Sstatus_spp (Sstatus_set_spie v b) = Sstatus_spp v"
  "Sstatus_sie (Sstatus_set_spp v p) = Sstatus_sie v"
  "Sstatus_spie (Sstatus_set_spp v p) = Sstatus_spie v"
  "Sstatus_sie (Sstatus_set_sie v b) = b"
  "Sstatus_sie (Sstatus_set_spie v b) = Sstatus_sie v"
  "Sstatus_spie (Sstatus_set_spie v b) = b"
  "Sstatus_spie (Sstatus_set_sie v b) = Sstatus_spie v"
  by (simp_all add: sstatus_fields flag_bitm bit_simps)

lemma mcause_simps [flag_simps]:
  "Mcause_is_interrupt (Mcause_set v i c) = i"
  "Mcause_code (Mcause_set v i c) = c AND 0x7FFFFFFF"
  "Scause_is_interrupt (Scause_set v i c) = i"
  "Scause_code (Scause_set v i c) = c AND 0x7FFFFFFF"
proof -
  have m: "(0x7FFFFFFF :: u32) = mask 31" by (simp add: mask_eq_exp_minus_1)
  have b: "bit (Mcause_set v i c) n \<longleftrightarrow> (if n = 31 then i else n < 31 \<and> bit c n)" for n
    unfolding Mcause_set_def m by (auto simp: bit_simps)
  have i: "drop_bit 31 w \<noteq> 0 \<longleftrightarrow> bit w 31" for w :: u32
    using drop_bit_top [of w] by simp
  show "Mcause_is_interrupt (Mcause_set v i c) = i"
    by (simp add: Mcause_is_interrupt_def i b)
  then show "Scause_is_interrupt (Scause_set v i c) = i"
    by (simp add: Mcause_is_interrupt_def Scause_is_interrupt_def Mcause_set_def Scause_set_def)
  show "Mcause_code (Mcause_set v i c) = c AND 0x7FFFFFFF"
    by (rule bit_word_eqI) (simp add: Mcause_code_def b m bit_simps)
  then show "Scause_code (Scause_set v i c) = c AND 0x7FFFFFFF"
    by (simp add: Mcause_code_def Scause_code_def Mcause_set_def Scause_set_def)
qed

subsection \<open>Properties\<close>

lemma bit_set_mie_mpie [bit_simps]:
  "bit (Mstatus_set_mie v b) n \<longleftrightarrow> (if n = 3 then b else bit v n)"
  "bit (Mstatus_set_mpie v b) n \<longleftrightarrow> (if n = 7 then b else bit v n)"
  by (simp_all add: mstatus_fields bit_simps)

text \<open>C35: Trap entry into machine mode saves all it must and nothing else changes: \<open>MPP\<close> is the
  interrupted privilege, \<open>MPIE\<close> the old \<open>MIE\<close>, \<open>MIE\<close> is off and every other bit of \<open>mstatus\<close>
  keeps its value; \<open>mepc\<close>, \<open>mtval\<close> and the interrupt bit of \<open>mcause\<close> come from the trap; the
  handler is the base of \<open>mtvec\<close>, offset by four times the cause for interrupts in vectored mode
  only.\<close>

theorem take_m_trap_entry:
  "case Trap_take_m_trap t ms ep ca tv vec p of ((ms', ep', ca', tv'), h, q) \<Rightarrow>
     (\<forall>n. bit ms' n = (if n = 3 then False else if n = 7 then bit ms 3
        else if n = 11 then p \<noteq> User else if n = 12 then p = Machine else bit ms n)) \<and>
     Mstatus_mpp ms' = p \<and> ep' = tr_epc t \<and> tv' = tr_tval t \<and>
     Mcause_is_interrupt ca' = Trap_is_interrupt t \<and> Mcause_code ca' = Trap_cause_code t AND 0x7FFFFFFF \<and>
     h = (vec AND NOT 3) + (if Trap_is_interrupt t \<and> vec AND 3 = 1 then 4 * Trap_cause_code t else 0) \<and>
     q = Machine"
  by (auto simp: Trap_take_m_trap_def Let_def bit_simps flag_simps Mepc_set_def Mtvec_base_def
      Mtvec_mode_def Mstatus_mie_def MS_MIE_def flag_bitm)

text \<open>Exception delegation follows the architected bit: after machine mode writes \<open>v\<close> to
  \<open>medeleg\<close>, an exception is delegated exactly when bit \<open>code\<close> of \<open>v\<close> is set and the cause is
  neither a machine-mode call nor an unknown one.\<close>

theorem exception_delegation:
  "Trap_should_delegate (Trap_exception e epc tval) mid (Medeleg_write old v) \<longleftrightarrow>
     bit v (unat (ExceptionCause_code e)) \<and> e \<noteq> EcallMachine \<and> (\<forall>c. e \<noteq> UnknownException c)"
  by (cases e)
    (simp_all add: Trap_should_delegate_def Trap_exception_def Medeleg_read_def Medeleg_write_def
      MEDELEG_ALL_def flag_bitm bit_simps)

text \<open>Interrupt delegation does not: setting the bit of \<open>mideleg\<close> at the interrupt's cause
  number, as the architecture does, never delegates the interrupt, because the three delegation bits
  are modelled at positions 2, 6 and 10 while the causes are 1, 5 and 9.\<close>

theorem interrupt_delegation_bits_shifted:
  "\<not> Trap_should_delegate (Trap_interrupt i epc) (Mideleg_write old (bitm (unat (InterruptCause_code i)))) med \<and>
   \<not> Trap_should_delegate (Trap_interrupt i epc) (Mideleg_write old 0x222) med \<and>
   Trap_should_delegate (Trap_interrupt SupervisorTimer epc) (Mideleg_write old (bitm 6)) med"
proof -
  have std: "(0x222 :: u32) = bitm 1 OR bitm 5 OR bitm 9" by (simp add: bitm_def)
  show ?thesis unfolding std
    by (cases i) (simp_all add: Trap_should_delegate_def Trap_interrupt_def Mideleg_read_def
      Mideleg_write_def MIDELEG_ALL_def MIDELEG_SSIP_def MIDELEG_STIP_def MIDELEG_SEIP_def flag_bitm bit_simps)
qed

end
