(* ===== verification/Memory_Model.thy ===== *)
theory Memory_Model
  imports Core_Types
begin

text \<open>
  Memories: the default methods of the \<open>Memory\<close> trait (\<open>src/src/traits/memory.rs\<close>) over any
  byte reads and writes, the RAM and the ROM (\<open>src/src/memory/ram.rs\<close>, \<open>rom.rs\<close>).  A byte read
  of a memory returns the memory too: some peripherals change on a read.  The locale
  \<open>byte_store\<close> is the contract a memory keeps on the addresses it holds; its lemmas give word,
  half-word and block accesses their meaning, and the RAM interprets it.
\<close>

subsection \<open>Default methods of the \<open>Memory\<close> trait\<close>

type_synonym 'm read_op = "'m \<Rightarrow> addr \<Rightarrow> u8 result \<times> 'm"
type_synonym 'm write_op = "'m \<Rightarrow> addr \<Rightarrow> u8 \<Rightarrow> unit result \<times> 'm"

definition Memory_read_half :: "'m read_op \<Rightarrow> 'm \<Rightarrow> addr \<Rightarrow> u16 result \<times> 'm" where
  "Memory_read_half rb m a =
     bind_st (check_alignment a 2, m) (\<lambda>_ m.
     bind_st (rb m a) (\<lambda>low m.
     bind_st (rb m (Addr_add a 1)) (\<lambda>high m.
     (Inr (half_of_bytes low high), m))))"

definition Memory_write_half :: "'m write_op \<Rightarrow> 'm \<Rightarrow> addr \<Rightarrow> u16 \<Rightarrow> unit result \<times> 'm" where
  "Memory_write_half wb m a v =
     bind_st (check_alignment a 2, m) (\<lambda>_ m.
     bind_st (wb m a (byte_at 0 v)) (\<lambda>_ m.
     wb m (Addr_add a 1) (byte_at 1 v)))"

definition Memory_read_word :: "'m read_op \<Rightarrow> 'm \<Rightarrow> addr \<Rightarrow> u32 result \<times> 'm" where
  "Memory_read_word rb m a =
     bind_st (check_alignment a 4, m) (\<lambda>_ m.
     bind_st (rb m a) (\<lambda>b0 m.
     bind_st (rb m (Addr_add a 1)) (\<lambda>b1 m.
     bind_st (rb m (Addr_add a 2)) (\<lambda>b2 m.
     bind_st (rb m (Addr_add a 3)) (\<lambda>b3 m.
     (Inr (word_of_bytes b0 b1 b2 b3), m))))))"

definition Memory_write_word :: "'m write_op \<Rightarrow> 'm \<Rightarrow> addr \<Rightarrow> u32 \<Rightarrow> unit result \<times> 'm" where
  "Memory_write_word wb m a v =
     bind_st (check_alignment a 4, m) (\<lambda>_ m.
     bind_st (wb m a (byte_at 0 v)) (\<lambda>_ m.
     bind_st (wb m (Addr_add a 1) (byte_at 1 v)) (\<lambda>_ m.
     bind_st (wb m (Addr_add a 2) (byte_at 2 v)) (\<lambda>_ m.
     wb m (Addr_add a 3) (byte_at 3 v)))))"

text \<open>The loops of \<open>read_bytes\<close> and \<open>write_bytes\<close>, from element \<open>i\<close> on.\<close>

fun read_bytes_from :: "'m read_op \<Rightarrow> addr \<Rightarrow> nat \<Rightarrow> nat \<Rightarrow> 'm \<Rightarrow> u8 list result \<times> 'm" where
  "read_bytes_from rb a i 0 m = (Inr [], m)"
| "read_bytes_from rb a i (Suc n) m =
     bind_st (rb m (Addr_add a (of_nat i))) (\<lambda>b m.
     bind_st (read_bytes_from rb a (Suc i) n m) (\<lambda>bs m. (Inr (b # bs), m)))"

definition Memory_read_bytes :: "'m read_op \<Rightarrow> 'm \<Rightarrow> addr \<Rightarrow> nat \<Rightarrow> u8 list result \<times> 'm" where
  "Memory_read_bytes rb m a n = read_bytes_from rb a 0 n m"

fun write_bytes_from :: "'m write_op \<Rightarrow> addr \<Rightarrow> nat \<Rightarrow> u8 list \<Rightarrow> 'm \<Rightarrow> unit result \<times> 'm" where
  "write_bytes_from wb a i [] m = (Inr (), m)"
| "write_bytes_from wb a i (b # bs) m =
     bind_st (wb m (Addr_add a (of_nat i)) b) (\<lambda>_ m. write_bytes_from wb a (Suc i) bs m)"

definition Memory_write_bytes :: "'m write_op \<Rightarrow> 'm \<Rightarrow> addr \<Rightarrow> u8 list \<Rightarrow> nat result \<times> 'm" where
  "Memory_write_bytes wb m a bs =
     bind_st (write_bytes_from wb a 0 bs m) (\<lambda>_ m. (Inr (length bs), m))"

subsection \<open>RAM and ROM\<close>

record ram =
  ram_data :: "u8 list"
  ram_base :: addr

definition Ram_new :: "nat \<Rightarrow> ram" where
  "Ram_new sz = \<lparr>ram_data = replicate sz 0, ram_base = 0\<rparr>"

definition Ram_with_base :: "addr \<Rightarrow> nat \<Rightarrow> ram" where
  "Ram_with_base base sz = \<lparr>ram_data = replicate sz 0, ram_base = base\<rparr>"

definition Ram_from_data_with_base :: "addr \<Rightarrow> u8 list \<Rightarrow> ram" where
  "Ram_from_data_with_base base bs = \<lparr>ram_data = bs, ram_base = base\<rparr>"

definition Ram_clear :: "ram \<Rightarrow> ram" where
  "Ram_clear r = r\<lparr>ram_data := replicate (length (ram_data r)) 0\<rparr>"

definition Ram_load :: "ram \<Rightarrow> nat \<Rightarrow> u8 list \<Rightarrow> nat result \<times> ram" where
  "Ram_load r offset bs =
     (let e = offset + length bs
      in if e > length (ram_data r)
         then (Inl (MemoryOutOfBounds (Addr_add (ram_base r) (of_nat offset)) (length bs)), r)
         else (Inr (length bs),
               r\<lparr>ram_data := take offset (ram_data r) @ bs @ drop e (ram_data r)\<rparr>))"

definition Ram_read_byte :: "ram \<Rightarrow> addr \<Rightarrow> u8 result" where
  "Ram_read_byte r a =
     (if unat a < length (ram_data r) then Inr (ram_data r ! unat a) else Inl (MemoryOutOfBounds a 1))"

definition Ram_write_byte :: "ram \<Rightarrow> addr \<Rightarrow> u8 \<Rightarrow> unit result \<times> ram" where
  "Ram_write_byte r a v =
     (if unat a < length (ram_data r) then (Inr (), r\<lparr>ram_data := (ram_data r)[unat a := v]\<rparr>)
      else (Inl (MemoryOutOfBounds a 1), r))"

definition Ram_size :: "ram \<Rightarrow> nat" where
  "Ram_size r = length (ram_data r)"

definition Ram_contains :: "ram \<Rightarrow> addr \<Rightarrow> bool" where
  "Ram_contains r a \<longleftrightarrow> unat a < length (ram_data r)"

record rom =
  rom_data :: "u8 list"
  rom_base :: addr

definition Rom_read_byte :: "rom \<Rightarrow> addr \<Rightarrow> u8 result" where
  "Rom_read_byte r a =
     (if unat a < length (rom_data r) then Inr (rom_data r ! unat a) else Inl (MemoryOutOfBounds a 1))"

definition Rom_write_byte :: "rom \<Rightarrow> addr \<Rightarrow> u8 \<Rightarrow> unit result \<times> rom" where
  "Rom_write_byte r a v = (Inl (MemoryErr a), r)"

definition Rom_size :: "rom \<Rightarrow> nat" where
  "Rom_size r = length (rom_data r)"

definition Rom_contains :: "rom \<Rightarrow> addr \<Rightarrow> bool" where
  "Rom_contains r a \<longleftrightarrow> unat a < length (rom_data r)"

text \<open>A byte read that leaves the memory alone, as the RAM's does.\<close>

definition pure_read :: "('m \<Rightarrow> addr \<Rightarrow> u8 result) \<Rightarrow> 'm read_op" where
  "pure_read rb m a = (rb m a, m)"

subsection \<open>The byte-store contract\<close>

text \<open>\<open>holds m a\<close>: the memory stores a byte at \<open>a\<close>, that reads and writes find.\<close>

locale byte_store =
  fixes rb :: "'m \<Rightarrow> addr \<Rightarrow> u8 result \<times> 'm"
    and wb :: "'m \<Rightarrow> addr \<Rightarrow> u8 \<Rightarrow> unit result \<times> 'm"
    and holds :: "'m \<Rightarrow> addr \<Rightarrow> bool"
    and byte :: "'m \<Rightarrow> addr \<Rightarrow> u8"
  assumes rb_ok: "holds m a \<Longrightarrow> rb m a = (Inr (byte m a), m)"
    and wb_ok: "holds m a \<Longrightarrow> fst (wb m a v) = Inr ()"
    and wb_holds: "holds m a \<Longrightarrow> holds (snd (wb m a v)) b = holds m b"
    and wb_byte: "holds m a \<Longrightarrow> holds m b \<Longrightarrow> byte (snd (wb m a v)) b = (if b = a then v else byte m b)"
begin

definition holds_range :: "'m \<Rightarrow> addr \<Rightarrow> nat \<Rightarrow> bool" where
  "holds_range m a n \<longleftrightarrow> (\<forall>i < n. holds m (a + of_nat i))"

lemma holds_range_4: "holds_range m a 4 \<longleftrightarrow>
    holds m a \<and> holds m (a + 1) \<and> holds m (a + 2) \<and> holds m (a + 3)"
  by (auto simp: holds_range_def numeral_eq_Suc less_Suc_eq all_conj_distrib ac_simps)

lemma holds_range_2: "holds_range m a 2 \<longleftrightarrow> holds m a \<and> holds m (a + 1)"
  by (auto simp: holds_range_def numeral_eq_Suc less_Suc_eq all_conj_distrib ac_simps)

lemma wb_after:
  assumes "wb m a v = (r, m')" "holds m a"
  shows "r = Inr ()" "holds m' b = holds m b" "holds m b \<Longrightarrow> byte m' b = (if b = a then v else byte m b)"
  using assms wb_ok [of m a v] wb_holds [of m a v b] wb_byte [of m a b v] by auto

lemma read_word_ok:
  assumes "holds_range m a 4" "unat a mod 4 = 0"
  shows "Memory_read_word rb m a =
    (Inr (word_of_bytes (byte m a) (byte m (a + 1)) (byte m (a + 2)) (byte m (a + 3))), m)"
  using assms by (simp add: Memory_read_word_def check_alignment_4 Addr_add_def holds_range_4 rb_ok)

lemma write_word_ok:
  assumes "Memory_write_word wb m a v = (r, m')" "holds_range m a 4" "unat a mod 4 = 0"
  shows "r = Inr () \<and> (\<forall>b. holds m' b = holds m b) \<and> (\<forall>b. holds m b \<longrightarrow> byte m' b =
      (if b = a then byte_at 0 v else if b = a + 1 then byte_at 1 v
       else if b = a + 2 then byte_at 2 v else if b = a + 3 then byte_at 3 v else byte m b))"
proof -
  obtain r1 m1 where e1: "wb m a (byte_at 0 v) = (r1, m1)" by fastforce
  obtain r2 m2 where e2: "wb m1 (a + 1) (byte_at 1 v) = (r2, m2)" by fastforce
  obtain r3 m3 where e3: "wb m2 (a + 2) (byte_at 2 v) = (r3, m3)" by fastforce
  obtain r4 m4 where e4: "wb m3 (a + 3) (byte_at 3 v) = (r4, m4)" by fastforce
  have h: "holds m a" "holds m (a + 1)" "holds m (a + 2)" "holds m (a + 3)"
    using assms (2) by (simp_all add: holds_range_4)
  note w1 = wb_after [OF e1 h(1)]
  have "holds m1 (a + 1)" using h by (simp add: w1)
  note w2 = wb_after [OF e2 this]
  have "holds m2 (a + 2)" using h by (simp add: w1 w2)
  note w3 = wb_after [OF e3 this]
  have "holds m3 (a + 3)" using h by (simp add: w1 w2 w3)
  note w4 = wb_after [OF e4 this]
  have "Memory_write_word wb m a v = (Inr (), m4)"
    using assms (3) e1 e2 e3 e4 w1(1) w2(1) w3(1) w4(1)
    by (simp add: Memory_write_word_def check_alignment_4 Addr_add_def)
  then have "r = Inr ()" "m' = m4" using assms (1) by simp_all
  then show ?thesis by (simp add: w1(2,3) w2(2,3) w3(2,3) w4(2,3))
qed

lemma read_half_ok:
  assumes "holds_range m a 2" "unat a mod 2 = 0"
  shows "Memory_read_half rb m a = (Inr (half_of_bytes (byte m a) (byte m (a + 1))), m)"
  using assms by (simp add: Memory_read_half_def check_alignment_2 Addr_add_def holds_range_2 rb_ok)

lemma write_half_ok:
  assumes "Memory_write_half wb m a v = (r, m')" "holds_range m a 2" "unat a mod 2 = 0"
  shows "r = Inr () \<and> (\<forall>b. holds m' b = holds m b) \<and> (\<forall>b. holds m b \<longrightarrow> byte m' b =
      (if b = a then byte_at 0 v else if b = a + 1 then byte_at 1 v else byte m b))"
proof -
  obtain r1 m1 where e1: "wb m a (byte_at 0 v) = (r1, m1)" by fastforce
  obtain r2 m2 where e2: "wb m1 (a + 1) (byte_at 1 v) = (r2, m2)" by fastforce
  have h: "holds m a" "holds m (a + 1)" using assms (2) by (simp_all add: holds_range_2)
  note w1 = wb_after [OF e1 h(1)]
  have "holds m1 (a + 1)" using h by (simp add: w1)
  note w2 = wb_after [OF e2 this]
  have "Memory_write_half wb m a v = (Inr (), m2)"
    using assms (3) e1 e2 w1(1) w2(1)
    by (simp add: Memory_write_half_def check_alignment_2 Addr_add_def)
  then have "r = Inr ()" "m' = m2" using assms (1) by simp_all
  then show ?thesis by (simp add: w1(2,3) w2(2,3))
qed

text \<open>A word that was stored is read back, byte by byte and as a word; other bytes stay.\<close>

lemma word_round_trip:
  assumes "holds_range m a 4" "unat a mod 4 = 0" "Memory_write_word wb m a v = (r, m')"
  shows "r = Inr () \<and> Memory_read_word rb m' a = (Inr v, m') \<and>
    (\<forall>b. holds m b \<longrightarrow> b \<notin> {a, a + 1, a + 2, a + 3} \<longrightarrow> rb m' b = (Inr (byte m b), m'))"
proof -
  note w = write_word_ok [OF assms(3,1,2)]
  then have r: "holds_range m' a 4" using assms(1) by (simp add: holds_range_def)
  have h: "holds m a" "holds m (a + 1)" "holds m (a + 2)" "holds m (a + 3)"
    using assms (1) by (simp_all add: holds_range_4)
  show ?thesis using w h read_word_ok [OF r assms(2)] by (simp add: rb_ok)
qed

lemma half_round_trip:
  assumes "holds_range m a 2" "unat a mod 2 = 0" "Memory_write_half wb m a v = (r, m')"
  shows "r = Inr () \<and> Memory_read_half rb m' a = (Inr v, m') \<and>
    (\<forall>b. holds m b \<longrightarrow> b \<notin> {a, a + 1} \<longrightarrow> rb m' b = (Inr (byte m b), m'))"
proof -
  note w = write_half_ok [OF assms(3,1,2)]
  then have r: "holds_range m' a 2" using assms(1) by (simp add: holds_range_def)
  have h: "holds m a" "holds m (a + 1)" using assms (1) by (simp_all add: holds_range_2)
  show ?thesis using w h read_half_ok [OF r assms(2)] by (simp add: rb_ok)
qed

text \<open>A block that was stored is read back.\<close>

lemma write_bytes_frame:
  assumes "write_bytes_from wb a i bs m = (r, m')" "\<forall>k < length bs. holds m (a + of_nat (i + k))"
  shows "r = Inr () \<and> (\<forall>b. holds m' b = holds m b) \<and>
    (\<forall>b. holds m b \<longrightarrow> (\<forall>k < length bs. b \<noteq> a + of_nat (i + k)) \<longrightarrow> byte m' b = byte m b)"
  using assms
proof (induction bs arbitrary: i m)
  case (Cons x bs)
  obtain r1 m1 where e1: "wb m (a + of_nat i) x = (r1, m1)" by fastforce
  have "holds m (a + of_nat i)" using Cons.prems(2) by (force dest: spec [of _ 0])
  note w1 = wb_after [OF e1 this]
  have tl: "write_bytes_from wb a (Suc i) bs m1 = (r, m')"
    using Cons.prems(1) e1 w1(1) by (simp add: Addr_add_def)
  have hs: "\<forall>k < length bs. holds m1 (a + of_nat (Suc i + k))"
  proof (intro allI impI)
    fix k assume "k < length bs"
    then show "holds m1 (a + of_nat (Suc i + k))"
      using Cons.prems(2) [rule_format, of "Suc k"] by (simp add: w1(2) ac_simps)
  qed
  note ih = Cons.IH [OF tl hs]
  have "byte m' b = byte m b" if "holds m b" "\<forall>k < length (x # bs). b \<noteq> a + of_nat (i + k)" for b
  proof -
    have "\<forall>k < length bs. b \<noteq> a + of_nat (Suc i + k)"
    proof (intro allI impI)
      fix k assume "k < length bs"
      then show "b \<noteq> a + of_nat (Suc i + k)" using that(2) [rule_format, of "Suc k"] by (simp add: ac_simps)
    qed
    moreover have "b \<noteq> a + of_nat i" using that(2) [rule_format, of 0] by simp
    ultimately show ?thesis using ih that(1) by (simp add: w1)
  qed
  then show ?case using ih by (auto simp: w1(2))
qed simp

end

interpretation ram_store: byte_store "pure_read Ram_read_byte" Ram_write_byte Ram_contains
  "\<lambda>r a. ram_data r ! unat a"
  by unfold_locales
    (auto simp: pure_read_def Ram_read_byte_def Ram_write_byte_def Ram_contains_def nth_list_update
      word_unat_eq_iff)

end
