(* ===== verification/Clint_Timer.thy ===== *)
theory Clint_Timer
  imports Memory_Model
begin

text \<open>
  The core-local interruptor: \<open>src/src/interrupt/clint.rs\<close> with the \<open>InterruptSource\<close> trait of
  \<open>src/src/traits/interrupt.rs\<close>.  The registers \<open>msip\<close>, \<open>mtimecmp\<close> and \<open>mtime\<close> behind their
  word, half-word and byte accesses.  The two 64-bit registers form a byte store, which the locale
  of \<open>Memory_Model\<close> turns into read-after-write for whole words.
\<close>

subsection \<open>Registers\<close>

definition CLINT_BASE :: u32 where "CLINT_BASE = 0x02000000"
definition CLINT_SIZE :: nat where "CLINT_SIZE = 0x10000"
definition MSIP_OFFSET :: u32 where "MSIP_OFFSET = 0x0"
definition MTIMECMP_OFFSET :: u32 where "MTIMECMP_OFFSET = 0x4000"
definition MTIME_OFFSET :: u32 where "MTIME_OFFSET = 0xBFF8"

lemmas clint_offsets = MSIP_OFFSET_def MTIMECMP_OFFSET_def MTIME_OFFSET_def

record clint =
  cl_msip :: u32
  cl_mtimecmp :: u64
  cl_mtime :: u64
  cl_base :: addr

definition Clint_with_base :: "addr \<Rightarrow> clint" where
  "Clint_with_base base = \<lparr>cl_msip = 0, cl_mtimecmp = - 1, cl_mtime = 0, cl_base = base\<rparr>"

definition Clint_new :: clint where
  "Clint_new = Clint_with_base CLINT_BASE"

definition Clint_mtip :: "clint \<Rightarrow> bool" where
  "Clint_mtip c \<longleftrightarrow> cl_mtime c \<ge> cl_mtimecmp c"

definition Clint_msip :: "clint \<Rightarrow> bool" where
  "Clint_msip c \<longleftrightarrow> cl_msip c AND 0x1 \<noteq> 0"

definition Clint_set_mtimecmp :: "clint \<Rightarrow> u64 \<Rightarrow> clint" where
  "Clint_set_mtimecmp c v = c\<lparr>cl_mtimecmp := v\<rparr>"

definition Clint_set_msip :: "clint \<Rightarrow> u32 \<Rightarrow> clint" where
  "Clint_set_msip c v = c\<lparr>cl_msip := v AND 0x1\<rparr>"

definition Clint_tick :: "clint \<Rightarrow> u64 \<Rightarrow> clint" where
  "Clint_tick c cycles = c\<lparr>cl_mtime := cl_mtime c + cycles\<rparr>"

definition Clint_alignment_error :: "clint \<Rightarrow> u32 \<Rightarrow> nat \<Rightarrow> nat \<Rightarrow> sim_error" where
  "Clint_alignment_error c offset sz algn = MemoryAlignment (cl_base c + offset) sz algn"

definition Clint_read_register :: "clint \<Rightarrow> u32 \<Rightarrow> u32 result" where
  "Clint_read_register c ofs =
     (if MSIP_OFFSET \<le> ofs \<and> ofs < MTIMECMP_OFFSET then
        (if ofs mod 4 = 0 then Inr (cl_msip c) else Inl (Clint_alignment_error c ofs 4 4))
      else if MTIMECMP_OFFSET \<le> ofs \<and> ofs < MTIMECMP_OFFSET + 8 then
        (let d = ofs - MTIMECMP_OFFSET
         in if d = 0 then Inr (ucast (cl_mtimecmp c AND 0xFFFFFFFF))
            else if d = 4 then Inr (ucast (drop_bit 32 (cl_mtimecmp c)))
            else Inl (Clint_alignment_error c ofs 4 4))
      else if MTIME_OFFSET \<le> ofs \<and> ofs < MTIME_OFFSET + 8 then
        (let d = ofs - MTIME_OFFSET
         in if d = 0 then Inr (ucast (cl_mtime c AND 0xFFFFFFFF))
            else if d = 4 then Inr (ucast (drop_bit 32 (cl_mtime c)))
            else Inl (Clint_alignment_error c ofs 4 4))
      else Inl PeripheralErr)"

definition Clint_write_register :: "clint \<Rightarrow> u32 \<Rightarrow> u32 \<Rightarrow> unit result \<times> clint" where
  "Clint_write_register c ofs v =
     (if MSIP_OFFSET \<le> ofs \<and> ofs < MTIMECMP_OFFSET then
        (if ofs mod 4 = 0 then (Inr (), c\<lparr>cl_msip := v AND 0x1\<rparr>)
         else (Inl (Clint_alignment_error c ofs 4 4), c))
      else if MTIMECMP_OFFSET \<le> ofs \<and> ofs < MTIMECMP_OFFSET + 8 then
        (let d = ofs - MTIMECMP_OFFSET
         in if d = 0 then
              let high = drop_bit 32 (cl_mtimecmp c)
              in (Inr (), c\<lparr>cl_mtimecmp := push_bit 32 high OR ucast v\<rparr>)
            else if d = 4 then
              let low = cl_mtimecmp c AND 0xFFFFFFFF
              in (Inr (), c\<lparr>cl_mtimecmp := push_bit 32 (ucast v) OR low\<rparr>)
            else (Inl (Clint_alignment_error c ofs 4 4), c))
      else if MTIME_OFFSET \<le> ofs \<and> ofs < MTIME_OFFSET + 8 then
        (let d = ofs - MTIME_OFFSET
         in if d = 0 then
              let high = drop_bit 32 (cl_mtime c)
              in (Inr (), c\<lparr>cl_mtime := push_bit 32 high OR ucast v\<rparr>)
            else if d = 4 then
              let low = cl_mtime c AND 0xFFFFFFFF
              in (Inr (), c\<lparr>cl_mtime := push_bit 32 (ucast v) OR low\<rparr>)
            else (Inl (Clint_alignment_error c ofs 4 4), c))
      else (Inl PeripheralErr, c))"

subsection \<open>The \<open>Memory\<close> methods\<close>

definition Clint_read_byte :: "clint \<Rightarrow> addr \<Rightarrow> u8 result" where
  "Clint_read_byte c a =
     (let ofs = a - CLINT_BASE
      in bind_res (Clint_read_register c (ofs AND NOT 0x3)) (\<lambda>word.
           let byte_offset = ofs AND 0x3
           in Inr (ucast (drop_bit (unat (byte_offset * 8)) word))))"

definition Clint_read_half :: "clint \<Rightarrow> addr \<Rightarrow> u16 result" where
  "Clint_read_half c a =
     (let ofs = a - CLINT_BASE
      in bind_res (Clint_read_register c (ofs AND NOT 0x3)) (\<lambda>word.
           let half_offset = ofs AND 0x2
           in Inr (ucast (drop_bit (unat (half_offset * 8)) word))))"

definition Clint_read_word :: "clint \<Rightarrow> addr \<Rightarrow> u32 result" where
  "Clint_read_word c a = Clint_read_register c (a - CLINT_BASE)"

definition Clint_write_byte :: "clint \<Rightarrow> addr \<Rightarrow> u8 \<Rightarrow> unit result \<times> clint" where
  "Clint_write_byte c a v =
     (let ofs = a - CLINT_BASE;
          aligned_offset = ofs AND NOT 0x3;
          byte_offset = ofs AND 0x3
      in bind_st (Clint_read_register c aligned_offset, c) (\<lambda>word c.
           let msk = NOT (push_bit (unat (byte_offset * 8)) 0xFF);
               new_word = (word AND msk) OR push_bit (unat (byte_offset * 8)) (ucast v)
           in Clint_write_register c aligned_offset new_word))"

definition Clint_write_half :: "clint \<Rightarrow> addr \<Rightarrow> u16 \<Rightarrow> unit result \<times> clint" where
  "Clint_write_half c a v =
     (let ofs = a - CLINT_BASE;
          aligned_offset = ofs AND NOT 0x3;
          half_offset = ofs AND 0x2
      in bind_st (Clint_read_register c aligned_offset, c) (\<lambda>word c.
           let msk = NOT (push_bit (unat (half_offset * 8)) 0xFFFF);
               new_word = (word AND msk) OR push_bit (unat (half_offset * 8)) (ucast v)
           in Clint_write_register c aligned_offset new_word))"

definition Clint_write_word :: "clint \<Rightarrow> addr \<Rightarrow> u32 \<Rightarrow> unit result \<times> clint" where
  "Clint_write_word c a v = Clint_write_register c (a - CLINT_BASE) v"

subsection \<open>The \<open>Peripheral\<close> and \<open>InterruptSource\<close> methods\<close>

definition Clint_read :: "clint \<Rightarrow> addr \<Rightarrow> u8 result" where
  "Clint_read c ofs = Clint_read_byte c (CLINT_BASE + ofs)"

definition Clint_write :: "clint \<Rightarrow> addr \<Rightarrow> u8 \<Rightarrow> unit result \<times> clint" where
  "Clint_write c ofs v = Clint_write_byte c (CLINT_BASE + ofs) v"

definition Clint_has_interrupt :: "clint \<Rightarrow> bool" where
  "Clint_has_interrupt c \<longleftrightarrow> Clint_mtip c \<or> Clint_msip c"

definition Clint_acknowledge_interrupt :: "clint \<Rightarrow> clint" where
  "Clint_acknowledge_interrupt c = c\<lparr>cl_msip := 0\<rparr>"

definition Clint_highest_priority_interrupt :: "clint \<Rightarrow> (bool \<times> u32) option" where
  "Clint_highest_priority_interrupt c =
     (if Clint_mtip c then Some (True, 7) else if Clint_msip c then Some (True, 3) else None)"

subsection \<open>The 64-bit registers as a byte store\<close>

text \<open>The offsets of \<open>mtimecmp\<close> and \<open>mtime\<close>, and the byte each holds.\<close>

definition clint_holds :: "clint \<Rightarrow> addr \<Rightarrow> bool" where
  "clint_holds c ofs \<longleftrightarrow> unat ofs div 8 \<in> {0x800, 0x17FF}"

definition clint_byte :: "clint \<Rightarrow> addr \<Rightarrow> u8" where
  "clint_byte c ofs = byte_at (unat ofs mod 8) (if unat ofs div 8 = 0x800 then cl_mtimecmp c else cl_mtime c)"

text \<open>The sixteen offsets one by one.\<close>

lemma clint_holds_cases:
  "clint_holds c ofs \<longleftrightarrow> ofs \<in> {0x4000, 0x4001, 0x4002, 0x4003, 0x4004, 0x4005, 0x4006, 0x4007,
     0xBFF8, 0xBFF9, 0xBFFA, 0xBFFB, 0xBFFC, 0xBFFD, 0xBFFE, 0xBFFF}"
proof -
  have "unat ofs div 8 \<in> {0x800, 0x17FF} \<longleftrightarrow> unat ofs \<in> {0x4000, 0x4001, 0x4002, 0x4003, 0x4004, 0x4005,
     0x4006, 0x4007, 0xBFF8, 0xBFF9, 0xBFFA, 0xBFFB, 0xBFFC, 0xBFFD, 0xBFFE, 0xBFFF}"
    by (simp only: insert_iff empty_iff) presburger
  then show ?thesis by (simp add: clint_holds_def word_unat_eq_iff)
qed

text \<open>Replacing a byte in either half of a 64-bit word.\<close>

lemma mask32: "(0xFFFFFFFF :: u64) = mask 32"
  by (simp add: mask_eq_exp_minus_1)

lemma byte_at_put_low:
  assumes "i < 4" "k < 8"
  shows "byte_at k (push_bit 32 (drop_bit 32 w) OR ucast (put_byte i v (ucast (w AND 0xFFFFFFFF))) :: u64)
    = (if k = i then v else byte_at k w)"
proof (rule bit_word_eqI)
  fix n assume "n < LENGTH(8)"
  then show "bit (byte_at k (push_bit 32 (drop_bit 32 w) OR ucast (put_byte i v (ucast (w AND 0xFFFFFFFF))) :: u64)) n
    = bit (if k = i then v else byte_at k w) n"
    unfolding mask32 using assms by (cases "k < 4"; cases "k = i") (auto simp: bit_simps)
qed

lemma byte_at_put_high:
  assumes "i < 4" "k < 8"
  shows "byte_at k (push_bit 32 (ucast (put_byte i v (ucast (drop_bit 32 w)))) OR w AND 0xFFFFFFFF :: u64)
    = (if k = i + 4 then v else byte_at k w)"
proof (rule bit_word_eqI)
  fix n assume "n < LENGTH(8)"
  then show "bit (byte_at k (push_bit 32 (ucast (put_byte i v (ucast (drop_bit 32 w)))) OR w AND 0xFFFFFFFF :: u64)) n
    = bit (if k = i + 4 then v else byte_at k w) n"
    unfolding mask32 using assms by (cases "k < 4"; cases "k < i + 4") (auto simp: bit_simps)
qed

lemma byte_of_halves:
  fixes w :: u64
  shows "i < 4 \<Longrightarrow> byte_at i (ucast (w AND 0xFFFFFFFF) :: u32) = byte_at i w"
    "i < 4 \<Longrightarrow> byte_at i (ucast (drop_bit 32 w) :: u32) = byte_at (i + 4) w"
  unfolding mask32 by (rule bit_word_eqI; auto simp: bit_simps algebra_simps)+

text \<open>A byte access at byte \<open>i\<close> of an aligned register offset.\<close>

lemma clint_split:
  assumes "clint_holds c ofs"
  obtains (cmp_low) i where "i < 4" "ofs = 0x4000 + of_nat i"
    | (cmp_high) i where "i < 4" "ofs = 0x4004 + of_nat i"
    | (time_low) i where "i < 4" "ofs = 0xBFF8 + of_nat i"
    | (time_high) i where "i < 4" "ofs = 0xBFFC + of_nat i"
proof -
  have "\<exists>i < 4. ofs = 0x4000 + of_nat i \<or> ofs = 0x4004 + of_nat i \<or> ofs = 0xBFF8 + of_nat i
      \<or> ofs = 0xBFFC + of_nat i"
    using assms unfolding clint_holds_cases
    by (auto simp: numeral_eq_Suc less_Suc_eq ex_disj_distrib conj_disj_distribR)
  then show ?thesis using that by blast
qed

lemma small_cases: "i < (4 :: nat) \<longleftrightarrow> i = 0 \<or> i = 1 \<or> i = 2 \<or> i = 3"
  by auto

lemma Clint_read_byte_aligned:
  assumes "i < 4" "base \<in> {0x4000, 0x4004, 0xBFF8, 0xBFFC}"
  shows "Clint_read c (base + of_nat i) = bind_res (Clint_read_register c base) (\<lambda>w. Inr (byte_at i w))"
  using assms unfolding small_cases
  by (elim disjE insertE) (simp_all add: Clint_read_def Clint_read_byte_def Let_def byte_at_def)

lemma Clint_write_byte_aligned:
  assumes "i < 4" "base \<in> {0x4000, 0x4004, 0xBFF8, 0xBFFC}"
  shows "Clint_write c (base + of_nat i) v = bind_st (Clint_read_register c base, c)
    (\<lambda>w c. Clint_write_register c base (put_byte i v w))"
  using assms unfolding small_cases
  by (elim disjE insertE)
    (simp_all add: Clint_write_def Clint_write_byte_def Let_def put_byte_def)

lemma Clint_registers:
  "Clint_read_register c 0x4000 = Inr (ucast (cl_mtimecmp c AND 0xFFFFFFFF))"
  "Clint_read_register c 0x4004 = Inr (ucast (drop_bit 32 (cl_mtimecmp c)))"
  "Clint_read_register c 0xBFF8 = Inr (ucast (cl_mtime c AND 0xFFFFFFFF))"
  "Clint_read_register c 0xBFFC = Inr (ucast (drop_bit 32 (cl_mtime c)))"
  "Clint_write_register c 0x4000 v = (Inr (), c\<lparr>cl_mtimecmp := push_bit 32 (drop_bit 32 (cl_mtimecmp c)) OR ucast v\<rparr>)"
  "Clint_write_register c 0x4004 v = (Inr (), c\<lparr>cl_mtimecmp := push_bit 32 (ucast v) OR cl_mtimecmp c AND 0xFFFFFFFF\<rparr>)"
  "Clint_write_register c 0xBFF8 v = (Inr (), c\<lparr>cl_mtime := push_bit 32 (drop_bit 32 (cl_mtime c)) OR ucast v\<rparr>)"
  "Clint_write_register c 0xBFFC v = (Inr (), c\<lparr>cl_mtime := push_bit 32 (ucast v) OR cl_mtime c AND 0xFFFFFFFF\<rparr>)"
  by (simp_all add: Clint_read_register_def Clint_write_register_def clint_offsets Let_def
      word_le_nat_alt word_less_nat_alt)

lemma clint_position:
  fixes i :: nat
  assumes "i < 4"
  shows "unat (0x4000 + of_nat i :: u32) = 0x4000 + i" "unat (0x4004 + of_nat i :: u32) = 0x4004 + i"
    "unat (0xBFF8 + of_nat i :: u32) = 0xBFF8 + i" "unat (0xBFFC + of_nat i :: u32) = 0xBFFC + i"
  using assms unfolding small_cases by (elim disjE; simp)+

lemma clint_position_div:
  fixes i :: nat
  assumes "i < 4"
  shows "(0x4000 + i) div 8 = 0x800" "(0x4000 + i) mod 8 = i" "(0x4004 + i) div 8 = 0x800"
    "(0x4004 + i) mod 8 = i + 4" "(0xBFF8 + i) div 8 = 0x17FF" "(0xBFF8 + i) mod 8 = i"
    "(0xBFFC + i) div 8 = 0x17FF" "(0xBFFC + i) mod 8 = i + 4"
  using assms unfolding small_cases by (elim disjE; simp)+

lemma clint_eq_position:
  fixes a b :: u32
  shows "b = a \<longleftrightarrow> unat b div 8 = unat a div 8 \<and> unat b mod 8 = unat a mod 8"
  by (metis div_mult_mod_eq word_unat_eq_iff)

lemma Clint_read_holds: "clint_holds c ofs \<Longrightarrow> Clint_read c ofs = Inr (clint_byte c ofs)"
  by (erule clint_split)
    (simp_all add: Clint_read_byte_aligned Clint_registers clint_byte_def clint_position clint_position_div
      byte_of_halves)

lemma Clint_write_holds:
  assumes "clint_holds c ofs" "Clint_write c ofs v = (r, c')"
  shows "r = Inr () \<and> (clint_holds c b \<longrightarrow> clint_byte c' b = (if b = ofs then v else clint_byte c b))"
  using assms(1)
proof (cases rule: clint_split)
  case (cmp_low i)
  with assms(2) show ?thesis
    by (auto simp: Clint_write_byte_aligned Clint_registers clint_byte_def clint_eq_position [of b]
        clint_position clint_position_div byte_at_put_low clint_holds_def)
next
  case (cmp_high i)
  with assms(2) show ?thesis
    by (auto simp: Clint_write_byte_aligned Clint_registers clint_byte_def clint_eq_position [of b]
        clint_position clint_position_div byte_at_put_high clint_holds_def)
next
  case (time_low i)
  with assms(2) show ?thesis
    by (auto simp: Clint_write_byte_aligned Clint_registers clint_byte_def clint_eq_position [of b]
        clint_position clint_position_div byte_at_put_low clint_holds_def)
next
  case (time_high i)
  with assms(2) show ?thesis
    by (auto simp: Clint_write_byte_aligned Clint_registers clint_byte_def clint_eq_position [of b]
        clint_position clint_position_div byte_at_put_high clint_holds_def)
qed

interpretation clint_store: byte_store "pure_read Clint_read" Clint_write clint_holds clint_byte
proof
  fix c :: clint and a b :: addr and v :: u8
  assume h: "clint_holds c a"
  show "pure_read Clint_read c a = (Inr (clint_byte c a), c)"
    using h by (simp add: pure_read_def Clint_read_holds)
  obtain r c' where w: "Clint_write c a v = (r, c')" by fastforce
  note W = Clint_write_holds [OF h w]
  show "fst (Clint_write c a v) = Inr ()" using w W by simp
  show "clint_holds (snd (Clint_write c a v)) b = clint_holds c b" by (simp add: clint_holds_def)
  show "clint_holds c b \<Longrightarrow> clint_byte (snd (Clint_write c a v)) b = (if b = a then v else clint_byte c b)"
    using w W by simp
qed

subsection \<open>Properties\<close>

lemma u64_bytes_eqI:
  assumes "\<And>k. k < 8 \<Longrightarrow> byte_at k v = byte_at k (w :: u64)"
  shows "v = w"
proof (rule bit_word_eqI)
  fix n assume n: "n < LENGTH(64)"
  have "bit v (8 * (n div 8) + n mod 8) = bit w (8 * (n div 8) + n mod 8)"
    using arg_cong [OF assms [of "n div 8"], of "\<lambda>b. bit b (n mod 8)"] n by (simp add: bit_byte_at)
  then show "bit v n = bit w n" by simp
qed

text \<open>A word store to the low or high half of \<open>mtimecmp\<close>, by the bus's four byte stores.\<close>

lemma clint_store_cmp:
  assumes "hi = 0 \<or> hi = 4" "Memory_write_word Clint_write c (0x4000 + hi) v = (r, c')"
  shows "r = Inr () \<and> cl_mtime c' = cl_mtime c \<and>
    (\<forall>k < 8. byte_at k (cl_mtimecmp c') =
       (if unat hi \<le> k \<and> k < unat hi + 4 then byte_at (k - unat hi) v else byte_at k (cl_mtimecmp c)))"
proof -
  have al: "unat (0x4000 + hi) mod 4 = 0" and range: "clint_store.holds_range c (0x4000 + hi) 4"
    using assms(1) by (auto simp: clint_store.holds_range_4 clint_holds_cases)
  note w = clint_store.write_word_ok [OF assms(2) range al]
  have at: "clint_byte c' b = (if b = 0x4000 + hi then byte_at 0 v else if b = 0x4000 + hi + 1 then byte_at 1 v
      else if b = 0x4000 + hi + 2 then byte_at 2 v else if b = 0x4000 + hi + 3 then byte_at 3 v else clint_byte c b)"
    if "clint_holds c b" for b
    using w that by blast
  have "byte_at k (cl_mtimecmp c') =
      (if unat hi \<le> k \<and> k < unat hi + 4 then byte_at (k - unat hi) v else byte_at k (cl_mtimecmp c))" if "k < 8" for k
  proof -
    have u: "unat (0x4000 + of_nat k :: u32) = 0x4000 + k"
      using that by (simp add: unat_word_ariths unat_of_nat)
    have d: "(0x4000 + k) div 8 = 0x800" "(0x4000 + k) mod 8 = k" using that by presburger+
    note u = u d
    from u have "clint_holds c (0x4000 + of_nat k)" by (simp add: clint_holds_def)
    note at [OF this]
    moreover have "k = 0 \<or> k = 1 \<or> k = 2 \<or> k = 3 \<or> k = 4 \<or> k = 5 \<or> k = 6 \<or> k = 7" using that by auto
    ultimately show ?thesis using assms(1) by (elim disjE; simp add: clint_byte_def)
  qed
  moreover have "byte_at k (cl_mtime c') = byte_at k (cl_mtime c)" if "k < 8" for k
  proof -
    have u: "unat (0xBFF8 + of_nat k :: u32) = 0xBFF8 + k"
      using that by (simp add: unat_word_ariths unat_of_nat)
    have d: "(0xBFF8 + k) div 8 = 0x17FF" "(0xBFF8 + k) mod 8 = k" using that by presburger+
    note u = u d
    from u have "clint_holds c (0xBFF8 + of_nat k)" by (simp add: clint_holds_def)
    note at [OF this]
    moreover have "k = 0 \<or> k = 1 \<or> k = 2 \<or> k = 3 \<or> k = 4 \<or> k = 5 \<or> k = 6 \<or> k = 7" using that by auto
    ultimately show ?thesis using assms(1) by (elim disjE; simp add: clint_byte_def)
  qed
  then have "cl_mtime c' = cl_mtime c" by (rule u64_bytes_eqI)
  ultimately show ?thesis using w by simp
qed

text \<open>Programming the timer: two word stores to \<open>mtimecmp\<close>, each performed by the bus as four
  byte stores that read and rewrite the register, leave exactly the 64-bit value in \<open>mtimecmp\<close> and do
  not disturb \<open>mtime\<close>; after \<open>n\<close> further ticks the timer interrupt is pending exactly when \<open>mtime\<close>
  has reached it.\<close>

theorem clint_program_timer:
  "let (r1, c1) = Memory_write_word Clint_write c 0x4000 lo;
       (r2, c2) = Memory_write_word Clint_write c1 0x4004 hi;
       cmp = push_bit 32 (ucast hi) OR ucast lo
   in r1 = Inr () \<and> r2 = Inr () \<and> cl_mtimecmp c2 = cmp \<and> cl_mtime c2 = cl_mtime c \<and>
      (Clint_mtip (Clint_tick c2 n) \<longleftrightarrow> cmp \<le> cl_mtime c + n)"
proof -
  obtain r1 c1 where e1: "Memory_write_word Clint_write c 0x4000 lo = (r1, c1)" by fastforce
  obtain r2 c2 where e2: "Memory_write_word Clint_write c1 0x4004 hi = (r2, c2)" by fastforce
  let ?cmp = "push_bit 32 (ucast hi) OR ucast lo :: u64"
  note s1 = clint_store_cmp [of 0 c lo r1 c1, simplified, OF e1]
  note s2 = clint_store_cmp [of 4 c1 hi r2 c2, simplified, OF e2]
  have cmp: "byte_at k ?cmp = (if 4 \<le> k then byte_at (k - 4) hi else byte_at k lo)" if "k < 8" for k
  proof (rule bit_word_eqI)
    fix n assume "n < LENGTH(8)"
    then show "bit (byte_at k ?cmp) n = bit (if 4 \<le> k then byte_at (k - 4) hi else byte_at k lo) n"
      using that by (cases "4 \<le> k") (auto simp: bit_simps diff_mult_distrib2 dest: bit_imp_le_length)
  qed
  have "byte_at k (cl_mtimecmp c2) = byte_at k ?cmp" if "k < 8" for k
    using s1 s2 that by (simp add: cmp)
  then have "cl_mtimecmp c2 = ?cmp" by (rule u64_bytes_eqI)
  then show ?thesis
    using s1 s2 by (simp add: e1 e2 Clint_mtip_def Clint_tick_def)
qed

end
