(* ===== verification/Plic_Model.thy ===== *)
theory Plic_Model
  imports Memory_Model
begin

text \<open>
  The platform-level interrupt controller: \<open>src/src/interrupt/plic.rs\<close>.  The fixed arrays are
  lists of their lengths (\<open>plic_wf\<close>), indexed only below them.  \<open>best_pending_source\<close> keeps the
  source's two nested loops: over the 32 pending words, and over the set bits of a word, lowest
  first, where each turn clears the lowest set bit.  The lemmas show that the search returns an
  enabled pending source of highest priority above the threshold, the lowest-numbered one among
  equals.
\<close>

subsection \<open>State\<close>

definition PLIC_BASE :: u32 where "PLIC_BASE = 0x0C000000"
definition PLIC_SIZE :: nat where "PLIC_SIZE = 0x400000"
definition MAX_SOURCES :: nat where "MAX_SOURCES = 1024"
definition MAX_HARTS :: nat where "MAX_HARTS = 1"
definition PRIORITY_BASE :: u32 where "PRIORITY_BASE = 0x0"
definition PENDING_BASE :: u32 where "PENDING_BASE = 0x1000"
definition ENABLE_BASE :: u32 where "ENABLE_BASE = 0x2000"
definition CONTEXT_BASE :: u32 where "CONTEXT_BASE = 0x200000"
definition THRESHOLD_OFFSET :: u32 where "THRESHOLD_OFFSET = 0x0"
definition CLAIM_OFFSET :: u32 where "CLAIM_OFFSET = 0x4"

lemmas plic_offsets = PRIORITY_BASE_def PENDING_BASE_def ENABLE_BASE_def CONTEXT_BASE_def
  THRESHOLD_OFFSET_def CLAIM_OFFSET_def

lemmas plic_sizes = MAX_SOURCES_def MAX_HARTS_def

record plic =
  pl_priority :: "u32 list"
  pl_pending :: "u32 list"
  pl_enable_m :: "u32 list list"
  pl_enable_s :: "u32 list list"
  pl_threshold_m :: "u32 list"
  pl_threshold_s :: "u32 list"
  pl_claimed_m :: "u32 list"
  pl_claimed_s :: "u32 list"
  pl_base :: addr

definition Plic_new :: plic where
  "Plic_new = \<lparr>pl_priority = replicate MAX_SOURCES 0, pl_pending = replicate 32 0,
     pl_enable_m = replicate MAX_HARTS (replicate 32 0), pl_enable_s = replicate MAX_HARTS (replicate 32 0),
     pl_threshold_m = replicate MAX_HARTS 0, pl_threshold_s = replicate MAX_HARTS 0,
     pl_claimed_m = replicate MAX_HARTS 0, pl_claimed_s = replicate MAX_HARTS 0, pl_base = PLIC_BASE\<rparr>"

definition Plic_with_base :: "addr \<Rightarrow> plic" where
  "Plic_with_base base = Plic_new\<lparr>pl_base := base\<rparr>"

subsection \<open>Sources: pending, priority, enable, threshold\<close>

definition Plic_set_pending :: "plic \<Rightarrow> nat \<Rightarrow> plic" where
  "Plic_set_pending p source =
     (if source > 0 \<and> source < MAX_SOURCES then
        let word = source div 32; b = source mod 32
        in p\<lparr>pl_pending := (pl_pending p)[word := pl_pending p ! word OR bitm b]\<rparr>
      else p)"

definition Plic_clear_pending :: "plic \<Rightarrow> nat \<Rightarrow> plic" where
  "Plic_clear_pending p source =
     (if source > 0 \<and> source < MAX_SOURCES then
        let word = source div 32; b = source mod 32
        in p\<lparr>pl_pending := (pl_pending p)[word := pl_pending p ! word AND NOT (bitm b)]\<rparr>
      else p)"

definition Plic_is_pending :: "plic \<Rightarrow> nat \<Rightarrow> bool" where
  "Plic_is_pending p source =
     (if source > 0 \<and> source < MAX_SOURCES then
        let word = source div 32; b = source mod 32 in flag (pl_pending p ! word) (bitm b)
      else False)"

definition Plic_set_priority :: "plic \<Rightarrow> nat \<Rightarrow> u32 \<Rightarrow> plic" where
  "Plic_set_priority p source priority =
     (if source < MAX_SOURCES then p\<lparr>pl_priority := (pl_priority p)[source := priority AND 0x7]\<rparr> else p)"

definition Plic_get_priority :: "plic \<Rightarrow> nat \<Rightarrow> u32" where
  "Plic_get_priority p source = (if source < MAX_SOURCES then pl_priority p ! source else 0)"

definition Plic_set_enable_machine :: "plic \<Rightarrow> nat \<Rightarrow> nat \<Rightarrow> bool \<Rightarrow> plic" where
  "Plic_set_enable_machine p hart source enabled =
     (if hart < MAX_HARTS \<and> source > 0 \<and> source < MAX_SOURCES then
        let word = source div 32; b = source mod 32; row = pl_enable_m p ! hart
        in p\<lparr>pl_enable_m := (pl_enable_m p)[hart := row[word := set_flag (row ! word) (bitm b) enabled]]\<rparr>
      else p)"

definition Plic_set_enable_supervisor :: "plic \<Rightarrow> nat \<Rightarrow> nat \<Rightarrow> bool \<Rightarrow> plic" where
  "Plic_set_enable_supervisor p hart source enabled =
     (if hart < MAX_HARTS \<and> source > 0 \<and> source < MAX_SOURCES then
        let word = source div 32; b = source mod 32; row = pl_enable_s p ! hart
        in p\<lparr>pl_enable_s := (pl_enable_s p)[hart := row[word := set_flag (row ! word) (bitm b) enabled]]\<rparr>
      else p)"

definition Plic_is_enabled_machine :: "plic \<Rightarrow> nat \<Rightarrow> nat \<Rightarrow> bool" where
  "Plic_is_enabled_machine p hart source =
     (if hart < MAX_HARTS \<and> source > 0 \<and> source < MAX_SOURCES then
        let word = source div 32; b = source mod 32 in flag (pl_enable_m p ! hart ! word) (bitm b)
      else False)"

definition Plic_is_enabled_supervisor :: "plic \<Rightarrow> nat \<Rightarrow> nat \<Rightarrow> bool" where
  "Plic_is_enabled_supervisor p hart source =
     (if hart < MAX_HARTS \<and> source > 0 \<and> source < MAX_SOURCES then
        let word = source div 32; b = source mod 32 in flag (pl_enable_s p ! hart ! word) (bitm b)
      else False)"

definition Plic_set_threshold_machine :: "plic \<Rightarrow> nat \<Rightarrow> u32 \<Rightarrow> plic" where
  "Plic_set_threshold_machine p hart threshold =
     (if hart < MAX_HARTS then p\<lparr>pl_threshold_m := (pl_threshold_m p)[hart := threshold AND 0x7]\<rparr> else p)"

definition Plic_set_threshold_supervisor :: "plic \<Rightarrow> nat \<Rightarrow> u32 \<Rightarrow> plic" where
  "Plic_set_threshold_supervisor p hart threshold =
     (if hart < MAX_HARTS then p\<lparr>pl_threshold_s := (pl_threshold_s p)[hart := threshold AND 0x7]\<rparr> else p)"

definition Plic_get_threshold_machine :: "plic \<Rightarrow> nat \<Rightarrow> u32" where
  "Plic_get_threshold_machine p hart = (if hart < MAX_HARTS then pl_threshold_m p ! hart else 0)"

definition Plic_get_threshold_supervisor :: "plic \<Rightarrow> nat \<Rightarrow> u32" where
  "Plic_get_threshold_supervisor p hart = (if hart < MAX_HARTS then pl_threshold_s p ! hart else 0)"

subsection \<open>The search for the best source\<close>

text \<open>\<open>u32::trailing_zeros\<close>: the index of the lowest set bit, 32 for zero.\<close>

definition trailing_zeros :: "u32 \<Rightarrow> nat" where
  "trailing_zeros w = length (takeWhile (\<lambda>i. \<not> bit w i) [0..<32])"

text \<open>The body of the inner loop, from the accumulator \<open>(best_source, best_priority)\<close>.\<close>

definition best_step :: "plic \<Rightarrow> nat \<Rightarrow> bool \<Rightarrow> u32 \<Rightarrow> nat \<Rightarrow> nat \<times> u32 \<Rightarrow> nat \<times> u32" where
  "best_step p hart supervisor threshold source acc =
     (let (best_source, best_priority) = acc
      in if source = 0 \<or> source \<ge> MAX_SOURCES then acc
         else
           let enabled = (if supervisor then Plic_is_enabled_supervisor p hart source
                          else Plic_is_enabled_machine p hart source)
           in if \<not> enabled then acc
              else
                let priority = Plic_get_priority p source
                in if priority > threshold \<and> (priority > best_priority \<or> best_source = 0)
                   then (source, priority) else acc)"

text \<open>The inner loop clears the lowest set bit on every turn, so at most 32 turns run.\<close>

lemma clear_lowest_less:
  fixes w :: u32
  assumes "w \<noteq> 0"
  shows "unat (w AND (w - 1)) < unat w"
proof -
  have "w AND (w - 1) \<le> w - 1" by (simp add: word_and_le1)
  also have "w - 1 < w" using assms by (simp add: word_less_nat_alt unat_sub_if' Suc_le_eq unat_gt_0)
  finally show ?thesis by (simp add: word_less_nat_alt)
qed

function scan_bits :: "plic \<Rightarrow> nat \<Rightarrow> bool \<Rightarrow> u32 \<Rightarrow> nat \<Rightarrow> u32 \<Rightarrow> nat \<times> u32 \<Rightarrow> nat \<times> u32" where
  "scan_bits p hart supervisor threshold word_idx bits acc =
     (if bits \<noteq> 0 then
        let b = trailing_zeros bits
        in scan_bits p hart supervisor threshold word_idx (bits AND (bits - 1))
             (best_step p hart supervisor threshold (word_idx * 32 + b) acc)
      else acc)"
  by pat_completeness auto
termination
  by (relation "measure (\<lambda>(_, _, _, _, _, bits, _). unat bits)") (auto simp: clear_lowest_less)

declare scan_bits.simps [simp del]

fun scan_words :: "plic \<Rightarrow> nat \<Rightarrow> bool \<Rightarrow> u32 \<Rightarrow> nat \<Rightarrow> u32 list \<Rightarrow> nat \<times> u32 \<Rightarrow> nat \<times> u32" where
  "scan_words p hart supervisor threshold word_idx [] acc = acc"
| "scan_words p hart supervisor threshold word_idx (pending_word # ws) acc =
     scan_words p hart supervisor threshold (word_idx + 1) ws
       (if pending_word = 0 then acc else scan_bits p hart supervisor threshold word_idx pending_word acc)"

definition Plic_best_pending_source :: "plic \<Rightarrow> nat \<Rightarrow> bool \<Rightarrow> nat" where
  "Plic_best_pending_source p hart supervisor =
     (if hart \<ge> MAX_HARTS then 0
      else
        let threshold = (if supervisor then pl_threshold_s p ! hart else pl_threshold_m p ! hart)
        in fst (scan_words p hart supervisor threshold 0 (pl_pending p) (0, 0)))"

definition Plic_has_pending_interrupt_machine :: "plic \<Rightarrow> nat \<Rightarrow> bool" where
  "Plic_has_pending_interrupt_machine p hart \<longleftrightarrow> Plic_best_pending_source p hart False \<noteq> 0"

definition Plic_has_pending_interrupt_supervisor :: "plic \<Rightarrow> nat \<Rightarrow> bool" where
  "Plic_has_pending_interrupt_supervisor p hart \<longleftrightarrow> Plic_best_pending_source p hart True \<noteq> 0"

subsection \<open>Claim and complete\<close>

definition Plic_claim :: "plic \<Rightarrow> nat \<Rightarrow> u32 \<times> plic" where
  "Plic_claim p hart =
     (let best_source = Plic_best_pending_source p hart False
      in (of_nat best_source,
          if best_source > 0 \<and> hart < MAX_HARTS then
            let p1 = Plic_clear_pending p best_source
            in p1\<lparr>pl_claimed_m := (pl_claimed_m p1)[hart := of_nat best_source]\<rparr>
          else p))"

definition Plic_claim_supervisor :: "plic \<Rightarrow> nat \<Rightarrow> u32 \<times> plic" where
  "Plic_claim_supervisor p hart =
     (let best_source = Plic_best_pending_source p hart True
      in (of_nat best_source,
          if best_source > 0 \<and> hart < MAX_HARTS then
            let p1 = Plic_clear_pending p best_source
            in p1\<lparr>pl_claimed_s := (pl_claimed_s p1)[hart := of_nat best_source]\<rparr>
          else p))"

definition Plic_complete :: "plic \<Rightarrow> nat \<Rightarrow> u32 \<Rightarrow> plic" where
  "Plic_complete p hart source =
     (if hart < MAX_HARTS \<and> source > 0 \<and> unat source < MAX_SOURCES then
        let p1 = (if pl_claimed_m p ! hart = source
                  then p\<lparr>pl_claimed_m := (pl_claimed_m p)[hart := 0]\<rparr> else p)
        in Plic_clear_pending p1 (unat source)
      else p)"

definition Plic_complete_supervisor :: "plic \<Rightarrow> nat \<Rightarrow> u32 \<Rightarrow> plic" where
  "Plic_complete_supervisor p hart source =
     (if hart < MAX_HARTS \<and> source > 0 \<and> unat source < MAX_SOURCES then
        let p1 = (if pl_claimed_s p ! hart = source
                  then p\<lparr>pl_claimed_s := (pl_claimed_s p)[hart := 0]\<rparr> else p)
        in Plic_clear_pending p1 (unat source)
      else p)"

subsection \<open>Memory-mapped registers\<close>

text \<open>The \<open>for hart in 0..MAX_HARTS\<close> loops return from inside: the first hart that answers wins.\<close>

fun first_some :: "('a \<Rightarrow> 'b option) \<Rightarrow> 'a list \<Rightarrow> 'b option" where
  "first_some g [] = None"
| "first_some g (x # xs) = (case g x of Some y \<Rightarrow> Some y | None \<Rightarrow> first_some g xs)"

definition plic_read_enable :: "plic \<Rightarrow> u32 \<Rightarrow> nat \<Rightarrow> u32 option" where
  "plic_read_enable p ofs hart =
     (let m_enable_base = ENABLE_BASE + of_nat hart * 0x100;
          s_enable_base = m_enable_base + 0x80;
          mw = unat ((ofs - m_enable_base) div 4);
          sw = unat ((ofs - s_enable_base) div 4)
      in if m_enable_base \<le> ofs \<and> ofs < m_enable_base + 0x80 \<and> mw < 32
           then Some (pl_enable_m p ! hart ! mw)
         else if s_enable_base \<le> ofs \<and> ofs < s_enable_base + 0x80 \<and> sw < 32
           then Some (pl_enable_s p ! hart ! sw)
         else None)"

definition plic_read_context :: "plic \<Rightarrow> u32 \<Rightarrow> nat \<Rightarrow> u32 option" where
  "plic_read_context p ofs hart =
     (let m_context_base = CONTEXT_BASE + of_nat hart * 0x2000;
          s_context_base = m_context_base + 0x1000;
          in_m = (m_context_base \<le> ofs \<and> ofs < m_context_base + 0x1000);
          in_s = (s_context_base \<le> ofs \<and> ofs < s_context_base + 0x1000)
      in if in_m \<and> ofs - m_context_base = THRESHOLD_OFFSET then Some (pl_threshold_m p ! hart)
         else if in_m \<and> ofs - m_context_base = CLAIM_OFFSET
           then Some (of_nat (Plic_best_pending_source p hart False))
         else if in_s \<and> ofs - s_context_base = THRESHOLD_OFFSET then Some (pl_threshold_s p ! hart)
         else if in_s \<and> ofs - s_context_base = CLAIM_OFFSET
           then Some (of_nat (Plic_best_pending_source p hart True))
         else None)"

text \<open>The argument is the offset, \<open>addr.raw() - PLIC_BASE\<close> in the source.\<close>

definition Plic_read_register :: "plic \<Rightarrow> u32 \<Rightarrow> u32" where
  "Plic_read_register p ofs =
     (let source = unat ((ofs - PRIORITY_BASE) div 4);
          word = unat ((ofs - PENDING_BASE) div 4)
      in if PRIORITY_BASE \<le> ofs \<and> ofs < PENDING_BASE \<and> source < MAX_SOURCES then pl_priority p ! source
         else if PENDING_BASE \<le> ofs \<and> ofs < ENABLE_BASE \<and> word < 32 then pl_pending p ! word
         else case first_some (plic_read_enable p ofs) [0..<MAX_HARTS] of
             Some v \<Rightarrow> v
           | None \<Rightarrow> (case first_some (plic_read_context p ofs) [0..<MAX_HARTS] of
                 Some v \<Rightarrow> v
               | None \<Rightarrow> 0))"

definition plic_write_enable :: "plic \<Rightarrow> u32 \<Rightarrow> u32 \<Rightarrow> nat \<Rightarrow> plic option" where
  "plic_write_enable p ofs v hart =
     (let m_enable_base = ENABLE_BASE + of_nat hart * 0x100;
          s_enable_base = m_enable_base + 0x80;
          mw = unat ((ofs - m_enable_base) div 4);
          sw = unat ((ofs - s_enable_base) div 4)
      in if m_enable_base \<le> ofs \<and> ofs < m_enable_base + 0x80 \<and> mw < 32
           then Some (p\<lparr>pl_enable_m := (pl_enable_m p)[hart := (pl_enable_m p ! hart)[mw := v]]\<rparr>)
         else if s_enable_base \<le> ofs \<and> ofs < s_enable_base + 0x80 \<and> sw < 32
           then Some (p\<lparr>pl_enable_s := (pl_enable_s p)[hart := (pl_enable_s p ! hart)[sw := v]]\<rparr>)
         else None)"

definition plic_write_context :: "plic \<Rightarrow> u32 \<Rightarrow> u32 \<Rightarrow> nat \<Rightarrow> plic option" where
  "plic_write_context p ofs v hart =
     (let m_context_base = CONTEXT_BASE + of_nat hart * 0x2000;
          s_context_base = m_context_base + 0x1000;
          in_m = (m_context_base \<le> ofs \<and> ofs < m_context_base + 0x1000);
          in_s = (s_context_base \<le> ofs \<and> ofs < s_context_base + 0x1000)
      in if in_m \<and> ofs - m_context_base = THRESHOLD_OFFSET
           then Some (p\<lparr>pl_threshold_m := (pl_threshold_m p)[hart := v AND 0x7]\<rparr>)
         else if in_m \<and> ofs - m_context_base = CLAIM_OFFSET then Some (Plic_complete p hart v)
         else if in_s \<and> ofs - s_context_base = THRESHOLD_OFFSET
           then Some (p\<lparr>pl_threshold_s := (pl_threshold_s p)[hart := v AND 0x7]\<rparr>)
         else if in_s \<and> ofs - s_context_base = CLAIM_OFFSET then Some (Plic_complete_supervisor p hart v)
         else None)"

definition Plic_write_register :: "plic \<Rightarrow> u32 \<Rightarrow> u32 \<Rightarrow> plic" where
  "Plic_write_register p ofs v =
     (let source = unat ((ofs - PRIORITY_BASE) div 4)
      in if PRIORITY_BASE \<le> ofs \<and> ofs < PENDING_BASE \<and> source < MAX_SOURCES
           then p\<lparr>pl_priority := (pl_priority p)[source := v AND 0x7]\<rparr>
         else case first_some (plic_write_enable p ofs v) [0..<MAX_HARTS] of
             Some p' \<Rightarrow> p'
           | None \<Rightarrow> (case first_some (plic_write_context p ofs v) [0..<MAX_HARTS] of
                 Some p' \<Rightarrow> p'
               | None \<Rightarrow> p))"

text \<open>The byte accesses of the \<open>Peripheral\<close> trait, by which the bus reaches the registers: a read
  cuts a byte from the register, a write reads the register, replaces the byte and writes it back.
  Every register access succeeds.\<close>

definition Plic_read :: "plic \<Rightarrow> addr \<Rightarrow> u8 result" where
  "Plic_read p ofs =
     (let word = Plic_read_register p (ofs AND NOT 0x3);
          byte_offset = ofs AND 0x3
      in Inr (ucast (drop_bit (unat (byte_offset * 8)) word)))"

definition Plic_write :: "plic \<Rightarrow> addr \<Rightarrow> u8 \<Rightarrow> unit result \<times> plic" where
  "Plic_write p ofs v =
     (let aligned_offset = ofs AND NOT 0x3;
          byte_offset = ofs AND 0x3;
          word = Plic_read_register p aligned_offset;
          msk = NOT (push_bit (unat (byte_offset * 8)) 0xFF);
          new_word = (word AND msk) OR push_bit (unat (byte_offset * 8)) (ucast v)
      in (Inr (), Plic_write_register p aligned_offset new_word))"

definition Plic_has_interrupt :: "plic \<Rightarrow> bool" where
  "Plic_has_interrupt p \<longleftrightarrow>
     Plic_has_pending_interrupt_machine p 0 \<or> Plic_has_pending_interrupt_supervisor p 0"

subsection \<open>Well-formedness\<close>

definition plic_wf :: "plic \<Rightarrow> bool" where
  "plic_wf p \<longleftrightarrow> length (pl_priority p) = 1024 \<and> length (pl_pending p) = 32 \<and>
     length (pl_enable_m p) = 1 \<and> length (pl_enable_s p) = 1 \<and>
     length (pl_enable_m p ! 0) = 32 \<and> length (pl_enable_s p ! 0) = 32 \<and>
     length (pl_threshold_m p) = 1 \<and> length (pl_threshold_s p) = 1 \<and>
     length (pl_claimed_m p) = 1 \<and> length (pl_claimed_s p) = 1 \<and>
     (\<forall>v \<in> set (pl_priority p). v \<le> 7) \<and> pl_threshold_m p ! 0 \<le> 7 \<and> pl_threshold_s p ! 0 \<le> 7"

subsection \<open>Scanning the set bits\<close>

lemma trailing_zeros_lowest:
  assumes "w \<noteq> 0"
  shows "trailing_zeros w < 32" "bit w (trailing_zeros w)" "i < trailing_zeros w \<Longrightarrow> \<not> bit w i"
proof -
  let ?P = "\<lambda>i. \<not> bit w i" and ?xs = "[0..<32] :: nat list"
  have "\<exists>n < 32. bit w n" 
  proof (rule ccontr)
    assume "\<not> (\<exists>n < 32. bit w n)"
    then have "w = 0" by (intro bit_word_eqI) auto
    with assms show False by simp
  qed
  then have ex: "\<exists>n \<in> set ?xs. \<not> ?P n" by auto
  have le: "length (takeWhile ?P ?xs) \<le> 32" using length_takeWhile_le [of ?P ?xs] by simp
  have "takeWhile ?P ?xs \<noteq> ?xs" using ex by (metis takeWhile_eq_all_conv)
  then have lt: "length (takeWhile ?P ?xs) < 32"
    using le by (metis le_neq_implies_less length_upt minus_nat.diff_0 takeWhile_eq_take take_all_iff order_refl)
  then show "trailing_zeros w < 32" by (simp add: trailing_zeros_def)
  show "bit w (trailing_zeros w)"
    using nth_length_takeWhile [of ?P ?xs] lt by (simp add: trailing_zeros_def)
  show "\<not> bit w i" if "i < trailing_zeros w"
  proof -
    have "?xs ! i \<in> set (takeWhile ?P ?xs)"
      using that takeWhile_nth [of i ?P ?xs] by (metis nth_mem trailing_zeros_def)
    then show ?thesis using that lt by (auto simp: trailing_zeros_def dest: set_takeWhileD)
  qed
qed

lemma bit_clear_lowest:
  fixes w :: u32
  assumes "w \<noteq> 0"
  shows "bit (w AND (w - 1)) i \<longleftrightarrow> bit w i \<and> i \<noteq> trailing_zeros w"
proof -
  let ?t = "trailing_zeros w" and ?u = "w AND NOT (bitm (trailing_zeros w))"
  note low = trailing_zeros_lowest [OF assms]
  have "w = ?u OR bitm ?t" by (rule bit_word_eqI) (use low in \<open>auto simp: bit_simps\<close>)
  moreover have "?u AND bitm ?t = 0" by (rule bit_word_eqI) (auto simp: bit_simps)
  ultimately have "w = ?u + bitm ?t" by (metis disjunctive_add_eq_or)
  then have "w - 1 = ?u + mask ?t" by (simp add: bitm_def mask_eq_exp_minus_1 push_bit_eq_mult)
  moreover have "?u AND mask ?t = 0" by (rule bit_word_eqI) (use low in \<open>auto simp: bit_simps\<close>)
  ultimately have "w - 1 = ?u OR mask ?t" by (simp add: disjunctive_add_eq_or)
  then show ?thesis using low by (auto simp: bit_simps dest: bit_imp_le_length)
qed

lemma set_bits_unfold:
  fixes w :: u32
  assumes "w \<noteq> 0"
  shows "filter (bit w) [0..<32] = trailing_zeros w # filter (bit (w AND (w - 1))) [0..<32]"
proof -
  let ?t = "trailing_zeros w"
  note low = trailing_zeros_lowest [OF assms]
  have split: "[0..<32] = [0..<?t] @ ?t # [Suc ?t..<32]"
    using low(1) upt_add_eq_append [of 0 ?t "32 - ?t"] by (simp add: upt_conv_Cons)
  have "filter (bit w) [0..<32] = ?t # filter (bit w) [Suc ?t..<32]"
    unfolding split using low by simp
  moreover have "filter (bit w) [Suc ?t..<32] = filter (bit (w AND (w - 1))) [Suc ?t..<32]"
    by (rule filter_cong) (auto simp: bit_clear_lowest [OF assms])
  moreover have "filter (bit (w AND (w - 1))) [0..<32] = filter (bit (w AND (w - 1))) [Suc ?t..<32]"
    unfolding split using low by (simp add: bit_clear_lowest [OF assms])
  ultimately show ?thesis by simp
qed

lemma scan_bits_fold:
  "scan_bits p hart sv th i w acc =
     fold (\<lambda>b. best_step p hart sv th (i * 32 + b)) (filter (bit w) [0..<32]) acc"
proof (induction p hart sv th i w acc rule: scan_bits.induct)
  case (1 p hart sv th i w acc)
  show ?case
  proof (cases "w = 0")
    case False
    then show ?thesis
      using 1 [OF False refl] by (subst scan_bits.simps) (simp add: Let_def set_bits_unfold [OF False])
  qed (simp add: scan_bits.simps)
qed

lemma block_upt:
  "filter (\<lambda>s. bit w (s mod 32)) [32 * i..<32 * i + 32] = map (\<lambda>b. i * 32 + b) (filter (bit w) [0..<32])"
proof -
  have "[32 * i..<32 * i + 32] = map (\<lambda>b. i * 32 + b) [0..<32]"
    by (rule nth_equalityI) simp_all
  moreover have "filter (\<lambda>s. bit w (s mod 32)) (map (\<lambda>b. i * 32 + b) [0..<32]) =
      map (\<lambda>b. i * 32 + b) (filter (bit w) [0..<32])"
    unfolding filter_map by (rule arg_cong [where f = "map _"], rule filter_cong) simp_all
  ultimately show ?thesis by simp
qed

lemma scan_words_fold:
  "scan_words p hart sv th i ws acc = fold (best_step p hart sv th)
     (filter (\<lambda>s. bit (ws ! (s div 32 - i)) (s mod 32)) [32 * i..<32 * (i + length ws)]) acc"
proof (induction ws arbitrary: i acc)
  case (Cons w ws)
  let ?P = "\<lambda>s. bit ((w # ws) ! (s div 32 - i)) (s mod 32)"
  have split: "[32 * i..<32 * (i + length (w # ws))] =
      [32 * i..<32 * i + 32] @ [32 * Suc i..<32 * (Suc i + length ws)]"
    using upt_add_eq_append [of "32 * i" "32 * i + 32" "32 * length ws"] by (simp add: algebra_simps)
  have head: "filter ?P [32 * i..<32 * i + 32] = map (\<lambda>b. i * 32 + b) (filter (bit w) [0..<32])"
  proof -
    have "filter ?P [32 * i..<32 * i + 32] = filter (\<lambda>s. bit w (s mod 32)) [32 * i..<32 * i + 32]"
    proof (rule filter_cong [OF refl])
      fix s assume "s \<in> set [32 * i..<32 * i + 32]"
      then have "s div 32 = i" by auto
      then show "?P s = bit w (s mod 32)" by simp
    qed
    then show ?thesis by (simp only: block_upt)
  qed
  have tail: "filter ?P [32 * Suc i..<32 * (Suc i + length ws)] =
      filter (\<lambda>s. bit (ws ! (s div 32 - Suc i)) (s mod 32)) [32 * Suc i..<32 * (Suc i + length ws)]"
  proof (rule filter_cong [OF refl])
    fix s assume "s \<in> set [32 * Suc i..<32 * (Suc i + length ws)]"
    then have "Suc i \<le> s div 32" by auto
    then show "?P s = bit (ws ! (s div 32 - Suc i)) (s mod 32)" by (simp add: nth_Cons')
  qed
  have "(if w = 0 then acc else scan_bits p hart sv th i w acc)
      = fold (best_step p hart sv th) (map (\<lambda>b. i * 32 + b) (filter (bit w) [0..<32])) acc"
    by (simp add: scan_bits_fold fold_map comp_def)
  then show ?case
    unfolding split filter_append fold_append comp_def head tail using Cons.IH [of "Suc i"]
    by (simp only: scan_words.simps Suc_eq_plus1)
qed simp

subsection \<open>Specification of the search\<close>

definition src_pending :: "plic \<Rightarrow> nat \<Rightarrow> bool" where
  "src_pending p s \<longleftrightarrow> bit (pl_pending p ! (s div 32)) (s mod 32)"

definition src_enabled :: "plic \<Rightarrow> bool \<Rightarrow> nat \<Rightarrow> bool" where
  "src_enabled p sv s \<longleftrightarrow> bit ((if sv then pl_enable_s p else pl_enable_m p) ! 0 ! (s div 32)) (s mod 32)"

definition ctx_threshold :: "plic \<Rightarrow> bool \<Rightarrow> u32" where
  "ctx_threshold p sv = (if sv then pl_threshold_s p else pl_threshold_m p) ! 0"

text \<open>A source the context may take.\<close>

definition eligible :: "plic \<Rightarrow> bool \<Rightarrow> nat \<Rightarrow> bool" where
  "eligible p sv s \<longleftrightarrow> 0 < s \<and> s < 1024 \<and> src_pending p s \<and> src_enabled p sv s \<and>
     ctx_threshold p sv < pl_priority p ! s"

text \<open>The best of a set of sources: 0 when there is none, otherwise an eligible one of highest
  priority, of lowest number among those.\<close>

definition best_of :: "plic \<Rightarrow> bool \<Rightarrow> nat set \<Rightarrow> nat \<Rightarrow> bool" where
  "best_of p sv S b \<longleftrightarrow>
     (if \<forall>s \<in> S. \<not> eligible p sv s then b = 0
      else b \<in> S \<and> eligible p sv b \<and>
        (\<forall>s \<in> S. eligible p sv s \<longrightarrow>
           pl_priority p ! s < pl_priority p ! b \<or> pl_priority p ! s = pl_priority p ! b \<and> b \<le> s))"

lemma best_step_eligible:
  assumes "src_pending p s"
  shows "best_step p 0 sv (ctx_threshold p sv) s (b, q) =
    (if eligible p sv s \<and> (q < pl_priority p ! s \<or> b = 0) then (s, pl_priority p ! s) else (b, q))"
  using assms
  by (auto simp: best_step_def eligible_def src_enabled_def Plic_is_enabled_machine_def
      Plic_is_enabled_supervisor_def Plic_get_priority_def plic_sizes flag_bitm Let_def)

lemma fold_best:
  assumes "sorted xs" "\<forall>s \<in> set xs. src_pending p s"
    "fold (best_step p 0 sv (ctx_threshold p sv)) xs (0, 0) = (b, q)"
  shows "best_of p sv (set xs) b \<and> (b \<noteq> 0 \<longrightarrow> q = pl_priority p ! b)"
  using assms
proof (induction xs arbitrary: b q rule: rev_induct)
  case Nil
  then show ?case by (simp add: best_of_def)
next
  case (snoc x xs)
  obtain b0 q0 where f: "fold (best_step p 0 sv (ctx_threshold p sv)) xs (0, 0) = (b0, q0)"
    by fastforce
  have le: "\<forall>s \<in> set xs. s \<le> x" using snoc.prems(1) by (simp add: sorted_append)
  have ih: "best_of p sv (set xs) b0" "b0 \<noteq> 0 \<longrightarrow> q0 = pl_priority p ! b0"
    using snoc.IH [OF _ _ f] snoc.prems by (auto simp: sorted_append)
  have st: "(b, q) = (if eligible p sv x \<and> (q0 < pl_priority p ! x \<or> b0 = 0)
      then (x, pl_priority p ! x) else (b0, q0))"
    using snoc.prems(2,3) f by (simp add: best_step_eligible)
  have pos: "eligible p sv s \<Longrightarrow> s \<noteq> 0" for s by (simp add: eligible_def)
  show ?case
  proof (cases "eligible p sv x \<and> (q0 < pl_priority p ! x \<or> b0 = 0)")
    case True
    then have "b = x" "q = pl_priority p ! x" using st by auto
    then show ?thesis using True ih le pos
      by (auto simp: best_of_def split: if_splits intro: order.strict_trans)
  next
    case False
    then have "b = b0" "q = q0" using st by auto
    then show ?thesis using False ih le pos
      by (auto simp: best_of_def not_less split: if_splits dest: order.antisym)
  qed
qed

lemma best_of_cong:
  assumes "\<And>s. eligible p sv s \<Longrightarrow> s \<in> S \<longleftrightarrow> s \<in> T"
  shows "best_of p sv S b \<longleftrightarrow> best_of p sv T b"
proof -
  have "(\<forall>s \<in> S. \<not> eligible p sv s) = (\<forall>s \<in> T. \<not> eligible p sv s)" using assms by blast
  moreover have "(b \<in> S \<and> eligible p sv b) = (b \<in> T \<and> eligible p sv b)" using assms by blast
  moreover have "(\<forall>s \<in> S. eligible p sv s \<longrightarrow> Q s) = (\<forall>s \<in> T. eligible p sv s \<longrightarrow> Q s)" for Q
    using assms by blast
  ultimately show ?thesis unfolding best_of_def by (simp; blast)
qed

lemma best_pending_source_spec:
  assumes "plic_wf p"
  shows "best_of p sv UNIV (Plic_best_pending_source p 0 sv)"
proof -
  let ?xs = "filter (\<lambda>s. bit (pl_pending p ! (s div 32)) (s mod 32)) [0..<1024]"
  obtain b q where f: "fold (best_step p 0 sv (ctx_threshold p sv)) ?xs (0, 0) = (b, q)" by fastforce
  have len: "length (pl_pending p) = 32" using assms by (simp add: plic_wf_def)
  have b: "Plic_best_pending_source p 0 sv = b"
    using f by (cases sv) (simp_all add: Plic_best_pending_source_def scan_words_fold len ctx_threshold_def plic_sizes)
  have "best_of p sv (set ?xs) b"
    using fold_best [OF _ _ f] by (simp add: sorted_wrt_filter src_pending_def)
  moreover have "best_of p sv (set ?xs) b \<longleftrightarrow> best_of p sv UNIV b"
    by (rule best_of_cong) (simp add: eligible_def src_pending_def)
  ultimately show ?thesis unfolding b by simp
qed

lemma best_of_unique: "best_of p sv S b \<Longrightarrow> best_of p sv S c \<Longrightarrow> b = c"
  by (fastforce simp: best_of_def split: if_splits)

lemma best_source_bound: "plic_wf p \<Longrightarrow> Plic_best_pending_source p 0 sv < 1024"
  using best_pending_source_spec [of p sv] by (auto simp: best_of_def eligible_def split: if_splits)

subsection \<open>Operations keep the state well formed\<close>

lemma and_7_le: "v AND 7 \<le> (7 :: u32)"
  by (simp add: word_and_le1)

lemma plic_wf_new: "plic_wf Plic_new"
  by (simp add: plic_wf_def Plic_new_def plic_sizes)

lemma plic_wf_clear_pending: "plic_wf p \<Longrightarrow> plic_wf (Plic_clear_pending p s)"
  by (simp add: plic_wf_def Plic_clear_pending_def Let_def)

lemma plic_wf_complete:
  "plic_wf p \<Longrightarrow> plic_wf (Plic_complete p h s)" "plic_wf p \<Longrightarrow> plic_wf (Plic_complete_supervisor p h s)"
  by (simp_all add: Plic_complete_def Plic_complete_supervisor_def Let_def plic_wf_clear_pending)
    (simp_all add: plic_wf_def Plic_clear_pending_def Let_def)

lemma plic_wf_set_pending: "plic_wf p \<Longrightarrow> plic_wf (Plic_set_pending p s)"
  by (simp add: plic_wf_def Plic_set_pending_def Let_def)

lemma plic_wf_claim:
  "plic_wf p \<Longrightarrow> plic_wf (snd (Plic_claim p h))" "plic_wf p \<Longrightarrow> plic_wf (snd (Plic_claim_supervisor p h))"
  by (simp_all add: plic_wf_def Plic_claim_def Plic_claim_supervisor_def Plic_clear_pending_def Let_def)

lemma set_update_le: "\<forall>v \<in> set xs. v \<le> b \<Longrightarrow> (x :: u32) \<le> b \<Longrightarrow> \<forall>v \<in> set (xs[i := x]). v \<le> b"
  using set_update_subset_insert [of xs i x] by blast

lemma length_one_update: "length xs = 1 \<Longrightarrow> xs[i := x] ! 0 = (if i = 0 then x else xs ! 0)"
  by (cases xs; cases i) auto

lemma plic_wf_write_register:
  assumes "plic_wf p"
  shows "plic_wf (Plic_write_register p ofs v)"
proof -
  have u: "[0..<MAX_HARTS] = [0]" by (simp add: MAX_HARTS_def)
  have pr: "\<forall>v' \<in> set ((pl_priority p)[s := v AND 7]). v' \<le> 7" for s
    by (rule set_update_le) (use assms in \<open>simp_all add: plic_wf_def and_7_le\<close>)
  have en: "plic_wf p'" if "plic_write_enable p ofs v 0 = Some p'" for p'
    using that assms by (auto simp: plic_write_enable_def plic_wf_def Let_def length_one_update split: if_splits)
  have cx: "plic_wf p'" if "plic_write_context p ofs v 0 = Some p'" for p'
    using that assms plic_wf_complete [OF assms]
    by (auto simp: plic_write_context_def Let_def split: if_splits)
      (simp_all add: plic_wf_def length_one_update and_7_le)
  have pw: "plic_wf (p\<lparr>pl_priority := (pl_priority p)[s := v AND 7]\<rparr>)" for s
    using assms pr by (simp add: plic_wf_def)
  show ?thesis
    using assms by (auto simp: Plic_write_register_def u Let_def split: option.splits intro: en cx pw)
qed

lemma plic_wf_write: "plic_wf p \<Longrightarrow> plic_wf (snd (Plic_write p ofs v))"
  by (simp add: Plic_write_def Let_def plic_wf_write_register)

text \<open>What happens to the PLIC in the simulator: a device raises a source, the bus writes a byte of a
  register, the hart claims or completes.\<close>

inductive plic_reachable :: "plic \<Rightarrow> bool" where
  new: "plic_reachable Plic_new"
| raise: "plic_reachable p \<Longrightarrow> plic_reachable (Plic_set_pending p s)"
| mmio: "plic_reachable p \<Longrightarrow> plic_reachable (snd (Plic_write p ofs v))"
| claim: "plic_reachable p \<Longrightarrow> plic_reachable (snd (Plic_claim p 0))"
| claim_s: "plic_reachable p \<Longrightarrow> plic_reachable (snd (Plic_claim_supervisor p 0))"
| complete: "plic_reachable p \<Longrightarrow> plic_reachable (Plic_complete p 0 src)"
| complete_s: "plic_reachable p \<Longrightarrow> plic_reachable (Plic_complete_supervisor p 0 src)"

lemma plic_reachable_wf: "plic_reachable p \<Longrightarrow> plic_wf p"
  by (induction rule: plic_reachable.induct)
    (simp_all add: plic_wf_new plic_wf_set_pending plic_wf_write plic_wf_claim plic_wf_complete)

subsection \<open>Claiming\<close>

lemma src_pending_clear:
  assumes "plic_wf p" "k < 1024"
  shows "src_pending (Plic_clear_pending p s) k \<longleftrightarrow> src_pending p k \<and> (s \<noteq> k \<or> s = 0)"
proof (cases "0 < s \<and> s < 1024")
  case True
  then have "s div 32 < 32" by auto
  moreover have "s = k \<longleftrightarrow> s div 32 = k div 32 \<and> s mod 32 = k mod 32" by (metis div_mult_mod_eq)
  ultimately show ?thesis using assms True
    by (auto simp: src_pending_def Plic_clear_pending_def Let_def plic_wf_def MAX_SOURCES_def
        nth_list_update bit_simps)
next
  case False
  then show ?thesis using assms by (auto simp: Plic_clear_pending_def MAX_SOURCES_def)
qed

lemma clear_pending_other [simp]:
  "pl_enable_m (Plic_clear_pending p s) = pl_enable_m p" "pl_enable_s (Plic_clear_pending p s) = pl_enable_s p"
  "pl_priority (Plic_clear_pending p s) = pl_priority p"
  "pl_threshold_m (Plic_clear_pending p s) = pl_threshold_m p"
  "pl_threshold_s (Plic_clear_pending p s) = pl_threshold_s p"
  "pl_claimed_m (Plic_clear_pending p s) = pl_claimed_m p"
  "pl_claimed_s (Plic_clear_pending p s) = pl_claimed_s p"
  by (simp_all add: Plic_clear_pending_def Let_def)

text \<open>C36: In every reachable state, a machine-mode claim returns the best source of the context: 0
  exactly when no enabled pending source exceeds the threshold, otherwise an eligible source of the
  highest priority, the lowest-numbered one among equals.  It clears the pending bit of that source
  and of no other, and records it as claimed.\<close>

theorem plic_claim_best:
  assumes "plic_reachable p"
  shows "let (src, p') = Plic_claim p 0 in
    best_of p False UNIV (unat src) \<and> plic_wf p' \<and>
    (\<forall>k < 1024. src_pending p' k \<longleftrightarrow> src_pending p k \<and> (unat src \<noteq> k \<or> src = 0)) \<and>
    pl_claimed_m p' ! 0 = (if src = 0 then pl_claimed_m p ! 0 else src)"
proof -
  have wf: "plic_wf p" using assms by (rule plic_reachable_wf)
  let ?b = "Plic_best_pending_source p 0 False"
  have b: "?b < 1024" "unat (of_nat ?b :: u32) = ?b"
    using best_source_bound [OF wf, of False] by (simp_all add: unat_of_nat)
  then have z: "(of_nat ?b :: u32) = 0 \<longleftrightarrow> ?b = 0" by (simp add: word_unat_eq_iff)
  have pend: "src_pending (Plic_clear_pending p ?b\<lparr>pl_claimed_m := m\<rparr>) k = src_pending (Plic_clear_pending p ?b) k" for m k
    by (simp add: src_pending_def)
  show ?thesis
    using best_pending_source_spec [OF wf, of False] plic_wf_claim(1) [OF wf, of 0] wf b(2) z
    by (auto simp: Plic_claim_def Let_def pend src_pending_clear plic_sizes length_one_update plic_wf_def)
qed

text \<open>Two sources, the higher-numbered one of higher priority.\<close>

definition plic_two_sources :: plic where
  "plic_two_sources = Plic_set_pending (Plic_set_pending (snd (Plic_write (snd (Plic_write
     (snd (Plic_write Plic_new 0xC 1)) 0x14 2)) 0x2000 0x28)) 3) 5"

lemma plic_two_sources_reachable: "plic_reachable plic_two_sources"
  unfolding plic_two_sources_def by (intro plic_reachable.intros)

lemma two_source_bounds: "3 < MAX_SOURCES" "5 < MAX_SOURCES" "[0..<MAX_HARTS] = [0]" "0 < MAX_HARTS"
    "replicate MAX_HARTS x = [x]"
  by (simp_all add: plic_sizes)

lemma plic_two_sources_fields:
  "pl_priority plic_two_sources = (replicate MAX_SOURCES 0)[3 := 1, 5 := 2]"
  "pl_pending plic_two_sources = (replicate 32 0)[0 := 0x28]"
  "pl_enable_m plic_two_sources = [(replicate 32 0)[0 := 0x28]]"
  "pl_threshold_m plic_two_sources = [0]"
  by (simp_all add: plic_two_sources_def Plic_new_def Plic_write_def Plic_write_register_def
      Plic_read_register_def plic_write_enable_def plic_read_enable_def plic_offsets Let_def
      two_source_bounds Plic_set_pending_def bitm_def word_le_nat_alt word_less_nat_alt)

lemma bits_0x28: "bit (0x28 :: int) k \<longleftrightarrow> k = 3 \<or> k = 5"
  by (auto simp: bit_numeral_rec bit_1_iff numeral_eq_Suc split: nat.splits)

lemma nth_first_word: "i < 32 \<Longrightarrow> (replicate 32 0)[0 := w] ! i = (if i = 0 then w else (0 :: u32))"
  by (simp add: nth_list_update)

lemma plic_two_sources_eligible: "eligible plic_two_sources False s \<longleftrightarrow> s = 3 \<or> s = 5"
proof -
  have "s div 32 = 0 \<and> (s mod 32 = 3 \<or> s mod 32 = 5) \<longleftrightarrow> s = 3 \<or> s = 5" by auto
  then have "s < 1024 \<Longrightarrow> src_pending plic_two_sources s \<longleftrightarrow> s = 3 \<or> s = 5"
    by (auto simp: src_pending_def plic_two_sources_fields nth_first_word bits_0x28)
  moreover have "src_enabled plic_two_sources False 3" "src_enabled plic_two_sources False 5"
    by (simp_all add: src_enabled_def plic_two_sources_fields bits_0x28)
  moreover have "0 < pl_priority plic_two_sources ! 3" "0 < pl_priority plic_two_sources ! 5"
    by (simp_all add: plic_two_sources_fields two_source_bounds)
  ultimately show ?thesis
    by (auto simp: eligible_def ctx_threshold_def plic_two_sources_fields(4))
qed

lemma plic_two_sources_best: "Plic_best_pending_source plic_two_sources 0 False = 5"
proof -
  have "best_of plic_two_sources False UNIV 5"
    by (simp add: best_of_def plic_two_sources_eligible)
      (auto simp: plic_two_sources_fields two_source_bounds word_less_nat_alt)
  then show ?thesis
    using best_pending_source_spec [OF plic_reachable_wf [OF plic_two_sources_reachable], of False]
      best_of_unique by blast
qed

theorem plic_claim_best_witness: "best_of plic_two_sources False UNIV 5"
proof -
  obtain src p' where c: "Plic_claim plic_two_sources 0 = (src, p')" by fastforce
  with plic_two_sources_best have "src = 5" by (auto simp: Plic_claim_def Let_def)
  with plic_claim_best [OF plic_two_sources_reachable] c show ?thesis by simp
qed

subsection \<open>Completing through the bus\<close>

lemma claim_window:
  "Plic_read_register p 0x200004 = of_nat (Plic_best_pending_source p 0 False)"
  "Plic_write_register p 0x200004 v = Plic_complete p 0 v"
  by (simp_all add: Plic_read_register_def Plic_write_register_def plic_sizes plic_offsets Let_def
      plic_read_enable_def plic_write_enable_def plic_read_context_def plic_write_context_def
      word_le_nat_alt word_less_nat_alt)

lemma claim_byte_write:
  "Plic_write p 0x200004 v = (Inr (), Plic_complete p 0 (put_byte 0 v (of_nat (Plic_best_pending_source p 0 False))))"
  "Plic_write p 0x200005 v = (Inr (), Plic_complete p 0 (put_byte 1 v (of_nat (Plic_best_pending_source p 0 False))))"
  "Plic_write p 0x200006 v = (Inr (), Plic_complete p 0 (put_byte 2 v (of_nat (Plic_best_pending_source p 0 False))))"
  "Plic_write p 0x200007 v = (Inr (), Plic_complete p 0 (put_byte 3 v (of_nat (Plic_best_pending_source p 0 False))))"
  by (simp_all add: Plic_write_def Let_def claim_window put_byte_def)

lemma src_pending_complete:
  assumes "plic_wf p" "k < 1024"
  shows "src_pending (Plic_complete p 0 s) k \<longleftrightarrow> src_pending p k \<and> (unat s \<noteq> k \<or> s = 0)"
proof -
  let ?p1 = "if pl_claimed_m p ! 0 = s then p\<lparr>pl_claimed_m := (pl_claimed_m p)[0 := 0]\<rparr> else p"
  have wf: "plic_wf ?p1" using assms by (simp add: plic_wf_def)
  have same: "src_pending ?p1 k = src_pending p k" by (simp add: src_pending_def)
  show ?thesis
  proof (cases "0 < s \<and> unat s < 1024")
    case True
    then have "Plic_complete p 0 s = Plic_clear_pending ?p1 (unat s)" "s \<noteq> 0" "unat s \<noteq> 0"
      by (auto simp: Plic_complete_def plic_sizes Let_def unat_eq_0)
    then show ?thesis using src_pending_clear [OF wf assms(2), of "unat s"] same by simp
  next
    case False
    then have "Plic_complete p 0 s = p" by (auto simp: Plic_complete_def plic_sizes)
    then show ?thesis using False assms(2) by (auto simp: word_gt_0)
  qed
qed

lemma complete_context [simp]:
  "pl_enable_m (Plic_complete p h s) = pl_enable_m p" "pl_priority (Plic_complete p h s) = pl_priority p"
  "pl_threshold_m (Plic_complete p h s) = pl_threshold_m p"
  by (simp_all add: Plic_complete_def Let_def)

text \<open>Completing an interrupt through the bus loses another one: a word store of \<open>src\<close> to the
  claim register is four byte stores, each of which reads the register, whose value is the best
  pending source, and completes the result.  With both identifiers below 256 the second byte store
  completes the best pending source itself, whose pending bit is cleared although it was never
  claimed.\<close>

theorem bus_complete_drops_pending:
  assumes wf: "plic_wf p" and src: "0 < src" "src < 256"
    and b: "Plic_best_pending_source p 0 False = b" "0 < b" "b < 256" "unat src \<noteq> b"
    and w: "Memory_write_word Plic_write p 0x200004 src = (r, p')"
  shows "src_pending p b \<and> \<not> src_pending p' b"
proof -
  let ?best = "\<lambda>p. of_nat (Plic_best_pending_source p 0 False) :: u32"
  have el: "best_of p False UNIV b" using best_pending_source_spec [OF wf, of False] b(1) by simp
  then have pend: "src_pending p b" using b(2) by (auto simp: best_of_def eligible_def split: if_splits)
  have bw: "(of_nat b :: u32) < 256" "unat (of_nat b :: u32) = b"
    using b(3) by (simp_all add: unat_of_nat word_less_nat_alt)
  define p1 where "p1 = Plic_complete p 0 (put_byte 0 (byte_at 0 src) (?best p))"
  define p2 where "p2 = Plic_complete p1 0 (put_byte 1 (byte_at 1 src) (?best p1))"
  define p3 where "p3 = Plic_complete p2 0 (put_byte 2 (byte_at 2 src) (?best p2))"
  have p': "p' = Plic_complete p3 0 (put_byte 3 (byte_at 3 src) (?best p3))"
    using w by (simp add: Memory_write_word_def check_alignment_4 Addr_add_def claim_byte_write
        p1_def p2_def p3_def)
  have p1: "p1 = Plic_complete p 0 src"
    unfolding p1_def b(1) using put_byte_low [OF src(2) bw(1)] by simp
  have wf1: "plic_wf p1" unfolding p1 by (rule plic_wf_complete(1) [OF wf])
  have pend1: "src_pending p1 k \<longleftrightarrow> src_pending p k \<and> unat src \<noteq> k" if "k < 1024" for k
    unfolding p1 using src_pending_complete [OF wf that, of src] src(1) by auto
  have "eligible p1 False k \<longleftrightarrow> eligible p False k \<and> unat src \<noteq> k" for k
    by (auto simp: eligible_def pend1) (simp_all add: p1 src_enabled_def ctx_threshold_def)
  then have "best_of p1 False UNIV b"
    using el b(2,4) by (auto simp: best_of_def p1 split: if_splits)
  then have b1: "Plic_best_pending_source p1 0 False = b"
    using best_pending_source_spec [OF wf1, of False] best_of_unique by blast
  have "put_byte 1 (byte_at 1 src) (of_nat b) = (of_nat b :: u32)"
  proof (rule bit_word_eqI)
    have hi: "\<not> bit x k" if "x < 256" "8 \<le> k" for x :: u32 and k
      using that by (intro not_bit_small [of x 8]) (simp_all add: word_less_nat_alt)
    fix n assume "n < LENGTH(32)"
    then show "bit (put_byte 1 (byte_at 1 src) (of_nat b)) n = bit (of_nat b :: u32) n"
      using hi [OF src(2)] hi [OF bw(1)] by (simp only: bit_put_byte bit_byte_at) auto
  qed
  then have p2: "p2 = Plic_complete p1 0 (of_nat b)" by (simp add: p2_def b1)
  have wf2: "plic_wf p2" unfolding p2 by (rule plic_wf_complete(1) [OF wf1])
  have "\<not> src_pending p2 b"
    unfolding p2 using src_pending_complete [OF wf1, of b "of_nat b"] bw b(2,3) by (auto simp: unat_eq_0)
  then have "\<not> src_pending p3 b"
    unfolding p3_def using src_pending_complete [OF wf2, of b] b(3) by simp
  moreover have "plic_wf p3" unfolding p3_def by (rule plic_wf_complete(1) [OF wf2])
  ultimately have "\<not> src_pending p' b"
    unfolding p' using src_pending_complete [of p3 b] b(3) by simp
  with pend show ?thesis by simp
qed

theorem bus_complete_drops_pending_witness:
  "\<exists>r p'. Memory_write_word Plic_write plic_two_sources 0x200004 3 = (r, p') \<and>
     src_pending plic_two_sources 5 \<and> \<not> src_pending p' 5"
proof -
  obtain r p' where w: "Memory_write_word Plic_write plic_two_sources 0x200004 3 = (r, p')" by fastforce
  note plic_two_sources_best
  with bus_complete_drops_pending [OF plic_reachable_wf [OF plic_two_sources_reachable] _ _ _ _ _ _ w, of 5] w
  show ?thesis by (simp add: word_less_nat_alt)
qed

end
