(* ===== verification/Uart_Model.thy ===== *)
theory Uart_Model
  imports Memory_Model
begin

text \<open>
  The serial port: \<open>src/src/peripheral/uart.rs\<close>.  Reads change the state (they pop the receive
  FIFO and clear error bits), so every read returns the device.  The output callback is modelled
  by its observable effect: \<open>ua_output\<close> is the list of bytes handed to it, \<open>None\<close> when no
  callback is set.  \<open>uart_inv\<close> is the invariant of the reachable states; the receive side
  refines a bounded queue.
\<close>

subsection \<open>State\<close>

definition UART_BASE :: u32 where "UART_BASE = 0x10000000"
definition UART_SIZE :: nat where "UART_SIZE = 0x100"
definition FIFO_SIZE :: nat where "FIFO_SIZE = 16"

definition LSR_DATA_READY :: u8 where "LSR_DATA_READY = bitm 0"
definition LSR_OVERRUN_ERROR :: u8 where "LSR_OVERRUN_ERROR = bitm 1"
definition LSR_ERRORS :: u8 where "LSR_ERRORS = bitm 1 OR bitm 2 OR bitm 3 OR bitm 4 OR bitm 7"
definition LSR_TX_EMPTY :: u8 where "LSR_TX_EMPTY = bitm 5"
definition LSR_TX_IDLE :: u8 where "LSR_TX_IDLE = bitm 6"
definition LCR_DLAB :: u8 where "LCR_DLAB = bitm 7"
definition IER_RX_ENABLE :: u8 where "IER_RX_ENABLE = bitm 0"
definition IER_TX_ENABLE :: u8 where "IER_TX_ENABLE = bitm 1"
definition IIR_NO_INTERRUPT :: u8 where "IIR_NO_INTERRUPT = bitm 0"
definition IIR_RX_READY :: u8 where "IIR_RX_READY = bitm 2"
definition IIR_TX_EMPTY :: u8 where "IIR_TX_EMPTY = bitm 1"
definition IIR_FIFO_ENABLE :: u8 where "IIR_FIFO_ENABLE = bitm 6 OR bitm 7"
definition FCR_FIFO_ENABLE :: u8 where "FCR_FIFO_ENABLE = bitm 0"
definition FCR_RX_FIFO_RESET :: u8 where "FCR_RX_FIFO_RESET = bitm 1"
definition FCR_TX_FIFO_RESET :: u8 where "FCR_TX_FIFO_RESET = bitm 2"
definition MSR_DELTAS :: u8 where "MSR_DELTAS = bitm 0 OR bitm 1 OR bitm 2 OR bitm 3"

lemmas uart_bits = LSR_DATA_READY_def LSR_OVERRUN_ERROR_def LSR_ERRORS_def LSR_TX_EMPTY_def
  LSR_TX_IDLE_def LCR_DLAB_def IER_RX_ENABLE_def IER_TX_ENABLE_def IIR_NO_INTERRUPT_def
  IIR_RX_READY_def IIR_TX_EMPTY_def IIR_FIFO_ENABLE_def FCR_FIFO_ENABLE_def FCR_RX_FIFO_RESET_def
  FCR_TX_FIFO_RESET_def MSR_DELTAS_def

record uart =
  ua_base :: addr
  ua_dll :: u8
  ua_dlm :: u8
  ua_ier :: u8
  ua_iir :: u8
  ua_fcr :: u8
  ua_lcr :: u8
  ua_mcr :: u8
  ua_lsr :: u8
  ua_msr :: u8
  ua_scr :: u8
  ua_rx_fifo :: "u8 list"
  ua_tx_fifo :: "u8 list"
  ua_output :: "u8 list option"

definition Uart_with_base :: "addr \<Rightarrow> uart" where
  "Uart_with_base base = \<lparr>ua_base = base, ua_dll = 0, ua_dlm = 0, ua_ier = 0, ua_iir = IIR_NO_INTERRUPT,
     ua_fcr = 0, ua_lcr = 0, ua_mcr = 0, ua_lsr = LSR_TX_EMPTY OR LSR_TX_IDLE,
     ua_msr = bitm 4 OR bitm 5 OR bitm 7, ua_scr = 0, ua_rx_fifo = [], ua_tx_fifo = [], ua_output = None\<rparr>"

definition Uart_new :: uart where
  "Uart_new = Uart_with_base UART_BASE"

definition Uart_set_output_callback :: "uart \<Rightarrow> uart" where
  "Uart_set_output_callback u = u\<lparr>ua_output := Some []\<rparr>"

subsection \<open>Operations\<close>

definition Uart_dlab :: "uart \<Rightarrow> bool" where
  "Uart_dlab u \<longleftrightarrow> flag (ua_lcr u) LCR_DLAB"

definition Uart_update_iir :: "uart \<Rightarrow> uart" where
  "Uart_update_iir u =
     (let rx_pending = (ua_rx_fifo u \<noteq> [] \<and> flag (ua_ier u) IER_RX_ENABLE);
          tx_pending = (length (ua_tx_fifo u) < FIFO_SIZE \<and> flag (ua_ier u) IER_TX_ENABLE);
          iir = (if rx_pending then IIR_RX_READY else if tx_pending then IIR_TX_EMPTY else IIR_NO_INTERRUPT)
      in u\<lparr>ua_iir := (if flag (ua_fcr u) FCR_FIFO_ENABLE then iir OR IIR_FIFO_ENABLE else iir)\<rparr>)"

definition Uart_receive_byte :: "uart \<Rightarrow> u8 \<Rightarrow> uart" where
  "Uart_receive_byte u b =
     (if length (ua_rx_fifo u) < FIFO_SIZE then
        let u1 = u\<lparr>ua_rx_fifo := ua_rx_fifo u @ [b]\<rparr>
        in Uart_update_iir (u1\<lparr>ua_lsr := ua_lsr u1 OR LSR_DATA_READY\<rparr>)
      else u\<lparr>ua_lsr := ua_lsr u OR LSR_OVERRUN_ERROR\<rparr>)"

definition Uart_has_interrupt :: "uart \<Rightarrow> bool" where
  "Uart_has_interrupt u \<longleftrightarrow> ua_iir u AND IIR_NO_INTERRUPT = 0"

definition Uart_read_register :: "uart \<Rightarrow> u32 \<Rightarrow> u8 \<times> uart" where
  "Uart_read_register u ofs =
     (if ofs = 0 \<and> Uart_dlab u then (ua_dll u, u)
      else if ofs = 1 \<and> Uart_dlab u then (ua_dlm u, u)
      else if ofs = 0 then
        (case ua_rx_fifo u of
           [] \<Rightarrow> (0, u)
         | b # rest \<Rightarrow>
             let u1 = u\<lparr>ua_rx_fifo := rest\<rparr>;
                 u2 = (if rest = [] then u1\<lparr>ua_lsr := ua_lsr u1 AND NOT LSR_DATA_READY\<rparr> else u1)
             in (b, Uart_update_iir u2))
      else if ofs = 1 then (ua_ier u, u)
      else if ofs = 2 then (ua_iir u, u)
      else if ofs = 3 then (ua_lcr u, u)
      else if ofs = 4 then (ua_mcr u, u)
      else if ofs = 5 then (ua_lsr u, u\<lparr>ua_lsr := ua_lsr u AND NOT LSR_ERRORS\<rparr>)
      else if ofs = 6 then (ua_msr u, u\<lparr>ua_msr := ua_msr u AND NOT MSR_DELTAS\<rparr>)
      else if ofs = 7 then (ua_scr u, u)
      else (0, u))"

definition Uart_write_register :: "uart \<Rightarrow> u32 \<Rightarrow> u8 \<Rightarrow> uart" where
  "Uart_write_register u ofs v =
     (if ofs = 0 \<and> Uart_dlab u then u\<lparr>ua_dll := v\<rparr>
      else if ofs = 1 \<and> Uart_dlab u then u\<lparr>ua_dlm := v\<rparr>
      else if ofs = 0 then
        let u1 = (if length (ua_tx_fifo u) < FIFO_SIZE then u\<lparr>ua_tx_fifo := ua_tx_fifo u @ [v]\<rparr> else u);
            u2 = u1\<lparr>ua_output := map_option (\<lambda>out. out @ [v]) (ua_output u1)\<rparr>
        in Uart_update_iir (u2\<lparr>ua_lsr := ua_lsr u2 OR LSR_TX_EMPTY OR LSR_TX_IDLE\<rparr>)
      else if ofs = 1 then Uart_update_iir (u\<lparr>ua_ier := v AND 0x0F\<rparr>)
      else if ofs = 2 then
        let u1 = u\<lparr>ua_fcr := v\<rparr>;
            u2 = (if flag v FCR_RX_FIFO_RESET
                  then u1\<lparr>ua_rx_fifo := [], ua_lsr := ua_lsr u1 AND NOT LSR_DATA_READY\<rparr> else u1)
        in (if flag v FCR_TX_FIFO_RESET then u2\<lparr>ua_tx_fifo := []\<rparr> else u2)
      else if ofs = 3 then u\<lparr>ua_lcr := v\<rparr>
      else if ofs = 4 then u\<lparr>ua_mcr := v AND 0x1F\<rparr>
      else if ofs = 7 then u\<lparr>ua_scr := v\<rparr>
      else u)"

text \<open>\<open>saturating_sub\<close> against the base; the peripheral methods add the base first.\<close>

definition Uart_read_byte :: "uart \<Rightarrow> addr \<Rightarrow> u8 result \<times> uart" where
  "Uart_read_byte u a =
     (let ofs = (if ua_base u \<le> a then a - ua_base u else 0)
      in if unat ofs \<ge> UART_SIZE then (Inl (InvalidAddress a), u)
         else let (v, u') = Uart_read_register u ofs in (Inr v, u'))"

definition Uart_write_byte :: "uart \<Rightarrow> addr \<Rightarrow> u8 \<Rightarrow> unit result \<times> uart" where
  "Uart_write_byte u a v =
     (let ofs = (if ua_base u \<le> a then a - ua_base u else 0)
      in if unat ofs \<ge> UART_SIZE then (Inl (InvalidAddress a), u)
         else (Inr (), Uart_write_register u ofs v))"

definition Uart_read :: "uart \<Rightarrow> addr \<Rightarrow> u8 result \<times> uart" where
  "Uart_read u ofs = Uart_read_byte u (ua_base u + ofs)"

definition Uart_write :: "uart \<Rightarrow> addr \<Rightarrow> u8 \<Rightarrow> unit result \<times> uart" where
  "Uart_write u ofs v = Uart_write_byte u (ua_base u + ofs) v"

subsection \<open>Invariant\<close>

definition uart_inv :: "uart \<Rightarrow> bool" where
  "uart_inv u \<longleftrightarrow> length (ua_rx_fifo u) \<le> FIFO_SIZE \<and> length (ua_tx_fifo u) \<le> FIFO_SIZE \<and>
     (bit (ua_lsr u) 0 \<longleftrightarrow> ua_rx_fifo u \<noteq> []) \<and> bit (ua_lsr u) 5 \<and> bit (ua_lsr u) 6"

inductive uart_reachable :: "uart \<Rightarrow> bool" where
  new: "uart_reachable Uart_new"
| callback: "uart_reachable u \<Longrightarrow> uart_reachable (Uart_set_output_callback u)"
| receive: "uart_reachable u \<Longrightarrow> uart_reachable (Uart_receive_byte u b)"
| mmio_read: "uart_reachable u \<Longrightarrow> uart_reachable (snd (Uart_read u ofs))"
| mmio_write: "uart_reachable u \<Longrightarrow> uart_reachable (snd (Uart_write u ofs v))"

lemma update_iir_other [simp]:
  "ua_rx_fifo (Uart_update_iir u) = ua_rx_fifo u" "ua_tx_fifo (Uart_update_iir u) = ua_tx_fifo u"
  "ua_lsr (Uart_update_iir u) = ua_lsr u" "ua_base (Uart_update_iir u) = ua_base u"
  "ua_ier (Uart_update_iir u) = ua_ier u" "ua_fcr (Uart_update_iir u) = ua_fcr u"
  "ua_lcr (Uart_update_iir u) = ua_lcr u" "ua_output (Uart_update_iir u) = ua_output u"
  by (simp_all add: Uart_update_iir_def Let_def)

lemma uart_inv_new: "uart_inv Uart_new"
  by (simp add: uart_inv_def Uart_new_def Uart_with_base_def uart_bits bit_simps)

lemma uart_inv_receive: "uart_inv u \<Longrightarrow> uart_inv (Uart_receive_byte u b)"
  by (auto simp: uart_inv_def Uart_receive_byte_def Let_def uart_bits FIFO_SIZE_def bit_simps)

lemma uart_inv_read_register: "uart_inv u \<Longrightarrow> uart_inv (snd (Uart_read_register u ofs))"
  by (auto simp: uart_inv_def Uart_read_register_def Let_def uart_bits FIFO_SIZE_def bit_simps
      split: list.splits)

lemma uart_inv_write_register: "uart_inv u \<Longrightarrow> uart_inv (Uart_write_register u ofs v)"
  by (auto simp: uart_inv_def Uart_write_register_def Let_def uart_bits FIFO_SIZE_def bit_simps)

lemma uart_inv_access:
  "uart_inv u \<Longrightarrow> uart_inv (snd (Uart_read u ofs))" "uart_inv u \<Longrightarrow> uart_inv (snd (Uart_write u ofs v))"
  using uart_inv_read_register [of u]
  by (auto simp: Uart_read_def Uart_read_byte_def Uart_write_def Uart_write_byte_def Let_def
      uart_inv_write_register split: prod.splits) (metis snd_conv)+

lemma uart_reachable_inv: "uart_reachable u \<Longrightarrow> uart_inv u"
proof (induction rule: uart_reachable.induct)
  case (callback u)
  then show ?case by (simp add: uart_inv_def Uart_set_output_callback_def)
qed (simp_all add: uart_inv_new uart_inv_receive uart_inv_access)

subsection \<open>Properties\<close>

text \<open>Specification: reading the receive register \<open>n\<close> times.\<close>

fun uart_drain :: "nat \<Rightarrow> uart \<Rightarrow> u8 result list \<times> uart" where
  "uart_drain 0 u = ([], u)"
| "uart_drain (Suc n) u =
     (let (b, u1) = Uart_read u 0; (bs, u2) = uart_drain n u1 in (b # bs, u2))"

lemma Uart_read_rbr:
  "\<not> Uart_dlab u \<Longrightarrow> ua_rx_fifo u = b # rest \<Longrightarrow>
     \<exists>u'. Uart_read u 0 = (Inr b, u') \<and> ua_rx_fifo u' = rest \<and> \<not> Uart_dlab u' \<and>
       bit (ua_lsr u') 1 = bit (ua_lsr u) 1"
  by (auto simp: Uart_read_def Uart_read_byte_def UART_SIZE_def Uart_read_register_def Let_def
      Uart_dlab_def uart_bits bit_simps)

lemma uart_drain_all:
  "\<not> Uart_dlab u \<Longrightarrow> ua_rx_fifo u = bs \<Longrightarrow>
     \<exists>u'. uart_drain (length bs) u = (map Inr bs, u') \<and> ua_rx_fifo u' = [] \<and> bit (ua_lsr u') 1 = bit (ua_lsr u) 1"
proof (induction bs arbitrary: u)
  case (Cons b bs)
  from Uart_read_rbr [OF Cons.prems] obtain u1 where u1: "Uart_read u 0 = (Inr b, u1)"
    "ua_rx_fifo u1 = bs" "\<not> Uart_dlab u1" "bit (ua_lsr u1) 1 = bit (ua_lsr u) 1" by blast
  with Cons.IH [OF u1(3,2)] show ?case by auto
qed auto

lemma fold_receive:
  assumes "length (ua_rx_fifo u) \<le> 16"
  shows "ua_rx_fifo (fold (\<lambda>b u. Uart_receive_byte u b) bs u) = take 16 (ua_rx_fifo u @ bs) \<and>
    Uart_dlab (fold (\<lambda>b u. Uart_receive_byte u b) bs u) = Uart_dlab u \<and>
    (bit (ua_lsr (fold (\<lambda>b u. Uart_receive_byte u b) bs u)) 1 \<longleftrightarrow>
       bit (ua_lsr u) 1 \<or> 16 < length (ua_rx_fifo u) + length bs)"
  using assms
proof (induction bs arbitrary: u)
  case (Cons b bs)
  show ?case
  proof (cases "length (ua_rx_fifo u) < 16")
    case True
    then have "ua_rx_fifo (Uart_receive_byte u b) = ua_rx_fifo u @ [b]"
      "Uart_dlab (Uart_receive_byte u b) = Uart_dlab u"
      "bit (ua_lsr (Uart_receive_byte u b)) 1 = bit (ua_lsr u) 1"
      by (simp_all add: Uart_receive_byte_def FIFO_SIZE_def Let_def Uart_dlab_def uart_bits bit_simps)
    then show ?thesis using True Cons.IH [of "Uart_receive_byte u b"] by simp
  next
    case False
    then have "ua_rx_fifo (Uart_receive_byte u b) = ua_rx_fifo u"
      "Uart_dlab (Uart_receive_byte u b) = Uart_dlab u" "bit (ua_lsr (Uart_receive_byte u b)) 1"
      by (simp_all add: Uart_receive_byte_def FIFO_SIZE_def Let_def Uart_dlab_def uart_bits bit_simps)
    then show ?thesis using False Cons.prems Cons.IH [of "Uart_receive_byte u b"] by simp
  qed
qed simp

text \<open>The receiver is a first-in first-out queue of sixteen bytes: in every reachable state with
  the divisor latch closed, after a burst of bytes the receive register delivers exactly the first
  sixteen of the queued and new bytes, in order; the overrun flag records whether any was dropped, the
  data-ready flag is on exactly while bytes are queued.\<close>

theorem uart_receive_fifo:
  assumes "uart_reachable u" "\<not> Uart_dlab u"
  shows "let u1 = fold (\<lambda>b u. Uart_receive_byte u b) bs u;
             queued = take 16 (ua_rx_fifo u @ bs);
             (out, u2) = uart_drain (length queued) u1
    in out = map Inr queued \<and> (bit (ua_lsr u1) 0 \<longleftrightarrow> queued \<noteq> []) \<and> \<not> bit (ua_lsr u2) 0 \<and>
       (bit (ua_lsr u2) 1 \<longleftrightarrow> bit (ua_lsr u) 1 \<or> 16 < length (ua_rx_fifo u) + length bs)"
proof -
  let ?u1 = "fold (\<lambda>b u. Uart_receive_byte u b) bs u" and ?q = "take 16 (ua_rx_fifo u @ bs)"
  have reach: "uart_reachable ?u1"
    using assms(1) by (induction bs arbitrary: u) (auto intro: uart_reachable.receive)
  have "length (ua_rx_fifo u) \<le> 16"
    using uart_reachable_inv [OF assms(1)] by (simp add: uart_inv_def FIFO_SIZE_def)
  note f = fold_receive [OF this, of bs]
  then obtain u2 where d: "uart_drain (length ?q) ?u1 = (map Inr ?q, u2)" "ua_rx_fifo u2 = []"
    "bit (ua_lsr u2) 1 = bit (ua_lsr ?u1) 1"
    using uart_drain_all [of ?u1 ?q] assms(2) by auto
  have "uart_reachable u2"
  proof -
    have "uart_reachable v \<Longrightarrow> uart_reachable (snd (uart_drain n v))" for n v
    proof (induction n arbitrary: v)
      case (Suc n)
      from uart_reachable.mmio_read [OF Suc.prems, of 0] show ?case
        using Suc.IH [of "snd (Uart_read v 0)"] by (simp add: Let_def case_prod_beta)
    qed simp
    from this [OF reach, of "length ?q"] show ?thesis unfolding d(1) by simp
  qed
  then show ?thesis
    using uart_reachable_inv [OF reach] uart_reachable_inv [of u2] f d
    by (simp add: Let_def uart_inv_def)
qed

theorem uart_receive_fifo_witness:
  "let u1 = fold (\<lambda>b u. Uart_receive_byte u b) [72, 105] Uart_new in fst (uart_drain 2 u1) = [Inr 72, Inr 105]"
proof -
  have "\<not> Uart_dlab Uart_new" by (simp add: Uart_dlab_def Uart_new_def Uart_with_base_def flag_def)
  from uart_receive_fifo [OF uart_reachable.new this, of "[72, 105]"] show ?thesis
    by (simp add: Let_def Uart_new_def Uart_with_base_def numeral_2_eq_2 split: prod.splits)
qed

text \<open>Clearing the receive FIFO leaves a stale interrupt: with the receive interrupt enabled, a
  byte received and then discarded by the FIFO-reset bit of the control register leaves the FIFO empty
  and data-ready off, while the device still reports a pending receive interrupt, because that write
  does not recompute the interrupt identification.\<close>

theorem uart_fifo_reset_stale_interrupt:
  assumes "flag (ua_ier u) IER_RX_ENABLE" "length (ua_rx_fifo u) < 16"
  shows "let u' = Uart_write_register (Uart_receive_byte u b) 2 FCR_RX_FIFO_RESET
    in ua_rx_fifo u' = [] \<and> \<not> bit (ua_lsr u') 0 \<and> Uart_has_interrupt u'"
proof -
  have "IIR_RX_READY AND IIR_NO_INTERRUPT = 0" "(IIR_RX_READY OR IIR_FIFO_ENABLE) AND IIR_NO_INTERRUPT = 0"
    by code_simp+
  then show ?thesis
    using assms by (simp add: Let_def Uart_write_register_def Uart_receive_byte_def FIFO_SIZE_def
        Uart_has_interrupt_def Uart_update_iir_def FCR_RX_FIFO_RESET_def LSR_DATA_READY_def flag_bitm bit_simps)
qed

theorem uart_fifo_reset_stale_interrupt_witness:
  "Uart_has_interrupt (Uart_write_register (Uart_receive_byte (Uart_new\<lparr>ua_ier := 1\<rparr>) 65) 2 FCR_RX_FIFO_RESET)"
proof -
  have "flag (ua_ier (Uart_new\<lparr>ua_ier := 1\<rparr>)) IER_RX_ENABLE" by code_simp
  from uart_fifo_reset_stale_interrupt [OF this, of 65] show ?thesis
    by (simp add: Let_def Uart_new_def Uart_with_base_def)
qed

end
