(* ===== verification/Bus_Model.thy ===== *)
theory Bus_Model
  imports Clint_Timer Plic_Model Uart_Model
begin

text \<open>
  The system bus (\<open>src/src/memory/bus.rs\<close>), the input device (\<open>src/src/peripheral/input.rs\<close>),
  the device-side memory access of \<open>src/src/peripheral/dma.rs\<close> and the trait objects the bus
  holds.  A \<open>Box<dyn Memory>\<close> is a \<open>memdev\<close>; a \<open>Box<dyn Peripheral>\<close> is a \<open>device\<close>, whose last
  constructor carries the accelerators and the block device, reached through the methods of the
  trait (\<open>other_ops\<close>).  An access looks first at the accelerator control window, then at the
  peripherals, then at the memories, each in order of attachment.  The memory map kept for
  printing is left out.
\<close>

subsection \<open>Input device (\<open>input.rs\<close>)\<close>

record input_device =
  in_base :: addr
  in_key_state :: u32
  in_last_event :: u32
  in_event_count :: u32
  in_control :: u32
  in_status :: u32

definition INPUT_SIZE :: nat where "INPUT_SIZE = 0x100"

definition InputDevice_with_base :: "addr \<Rightarrow> input_device" where
  "InputDevice_with_base base = \<lparr>in_base = base, in_key_state = 0, in_last_event = 0, in_event_count = 0,
     in_control = 0, in_status = 0\<rparr>"

definition InputDevice_set_key :: "input_device \<Rightarrow> u8 \<Rightarrow> bool \<Rightarrow> input_device" where
  "InputDevice_set_key d key_code pressed =
     (let b = bitm (unat (key_code AND 31));
          d1 = d\<lparr>in_key_state := (if pressed then in_key_state d OR b else in_key_state d AND NOT b)\<rparr>;
          d2 = d1\<lparr>in_last_event := push_bit 8 (if pressed then 1 else 0) OR ucast key_code,
                  in_event_count := in_event_count d1 + 1\<rparr>
      in if flag (in_control d2) (bitm 0) then d2\<lparr>in_status := in_status d2 OR bitm 0\<rparr> else d2)"

definition InputDevice_clear_keys :: "input_device \<Rightarrow> input_device" where
  "InputDevice_clear_keys d =
     (let d1 = d\<lparr>in_key_state := 0\<rparr>
      in if flag (in_control d1) (bitm 0) then d1\<lparr>in_status := in_status d1 OR bitm 0\<rparr> else d1)"

definition InputDevice_snapshot :: "input_device \<Rightarrow> u32 \<times> u32 \<times> u32 \<times> bool" where
  "InputDevice_snapshot d = (in_key_state d, in_last_event d, in_event_count d, flag (in_status d) (bitm 0))"

definition InputDevice_read_reg :: "input_device \<Rightarrow> u32 \<Rightarrow> u32" where
  "InputDevice_read_reg d reg =
     (if reg = 0x0 then in_key_state d else if reg = 0x4 then in_last_event d
      else if reg = 0x8 then in_event_count d else if reg = 0xC then in_control d
      else if reg = 0x10 then in_status d else 0)"

definition InputDevice_write_reg :: "input_device \<Rightarrow> u32 \<Rightarrow> u32 \<Rightarrow> input_device" where
  "InputDevice_write_reg d reg v =
     (if reg = 0x0 then d\<lparr>in_key_state := v\<rparr>
      else if reg = 0x4 then d\<lparr>in_last_event := v\<rparr>
      else if reg = 0x8 then d\<lparr>in_event_count := v\<rparr>
      else if reg = 0xC then d\<lparr>in_control := v AND bitm 0\<rparr>
      else if reg = 0x10 then
        (if flag v (bitm 0) then d\<lparr>in_status := in_status d AND NOT (bitm 0)\<rparr> else d)
      else d)"

definition InputDevice_read_u8 :: "input_device \<Rightarrow> u32 \<Rightarrow> u8" where
  "InputDevice_read_u8 d ofs =
     (let reg = ofs AND NOT 0x3; shift = unat ((ofs AND 0x3) * 8)
      in ucast (drop_bit shift (InputDevice_read_reg d reg) AND 0xFF))"

definition InputDevice_write_u8 :: "input_device \<Rightarrow> u32 \<Rightarrow> u8 \<Rightarrow> input_device" where
  "InputDevice_write_u8 d ofs v =
     (let reg = ofs AND NOT 0x3; shift = unat ((ofs AND 0x3) * 8);
          current = (InputDevice_read_reg d reg AND NOT (push_bit shift 0xFF)) OR push_bit shift (ucast v)
      in InputDevice_write_reg d reg current)"

definition InputDevice_read :: "input_device \<Rightarrow> addr \<Rightarrow> u8 result" where
  "InputDevice_read d ofs =
     (if unat ofs \<ge> INPUT_SIZE then Inl (InvalidAddress ofs) else Inr (InputDevice_read_u8 d ofs))"

definition InputDevice_write :: "input_device \<Rightarrow> addr \<Rightarrow> u8 \<Rightarrow> unit result \<times> input_device" where
  "InputDevice_write d ofs v =
     (if unat ofs \<ge> INPUT_SIZE then (Inl (InvalidAddress ofs), d) else (Inr (), InputDevice_write_u8 d ofs v))"

definition InputDevice_has_interrupt :: "input_device \<Rightarrow> bool" where
  "InputDevice_has_interrupt d \<longleftrightarrow> flag (in_status d) (bitm 0)"

definition InputDevice_acknowledge_interrupt :: "input_device \<Rightarrow> input_device" where
  "InputDevice_acknowledge_interrupt d = d\<lparr>in_status := in_status d AND NOT (bitm 0)\<rparr>"

subsection \<open>Trait objects\<close>

datatype memdev = MD_Ram ram | MD_Rom rom

fun memdev_read_byte :: "memdev \<Rightarrow> addr \<Rightarrow> u8 result" where
  "memdev_read_byte (MD_Ram r) a = Ram_read_byte r a"
| "memdev_read_byte (MD_Rom r) a = Rom_read_byte r a"

fun memdev_write_byte :: "memdev \<Rightarrow> addr \<Rightarrow> u8 \<Rightarrow> unit result \<times> memdev" where
  "memdev_write_byte (MD_Ram r) a v = (let (x, r') = Ram_write_byte r a v in (x, MD_Ram r'))"
| "memdev_write_byte (MD_Rom r) a v = (let (x, r') = Rom_write_byte r a v in (x, MD_Rom r'))"

fun memdev_size :: "memdev \<Rightarrow> nat" where
  "memdev_size (MD_Ram r) = Ram_size r"
| "memdev_size (MD_Rom r) = Rom_size r"

type_synonym mem_regions = "(addr \<times> nat \<times> memdev) list"

record 'd other_ops =
  oo_read :: "'d \<Rightarrow> addr \<Rightarrow> u8 result"
  oo_write :: "'d \<Rightarrow> addr \<Rightarrow> u8 \<Rightarrow> unit result \<times> 'd"
  oo_base_addr :: "'d \<Rightarrow> addr"
  oo_size :: "'d \<Rightarrow> nat"
  oo_name :: "'d \<Rightarrow> string"
  oo_has_interrupt :: "'d \<Rightarrow> bool"
  oo_acknowledge :: "'d \<Rightarrow> 'd"
  oo_try_execute :: "'d \<Rightarrow> mem_regions \<Rightarrow> bool result \<times> 'd \<times> mem_regions"

datatype 'd device =
  Dev_Clint clint | Dev_Plic plic | Dev_Uart uart | Dev_Input input_device | Dev_Other 'd

fun Peripheral_read :: "'d other_ops \<Rightarrow> 'd device \<Rightarrow> addr \<Rightarrow> u8 result \<times> 'd device" where
  "Peripheral_read ops (Dev_Clint c) ofs = (Clint_read c ofs, Dev_Clint c)"
| "Peripheral_read ops (Dev_Plic p) ofs = (Plic_read p ofs, Dev_Plic p)"
| "Peripheral_read ops (Dev_Uart u) ofs = (let (r, u') = Uart_read u ofs in (r, Dev_Uart u'))"
| "Peripheral_read ops (Dev_Input i) ofs = (InputDevice_read i ofs, Dev_Input i)"
| "Peripheral_read ops (Dev_Other d) ofs = (oo_read ops d ofs, Dev_Other d)"

fun Peripheral_write :: "'d other_ops \<Rightarrow> 'd device \<Rightarrow> addr \<Rightarrow> u8 \<Rightarrow> unit result \<times> 'd device" where
  "Peripheral_write ops (Dev_Clint c) ofs v = (let (r, c') = Clint_write c ofs v in (r, Dev_Clint c'))"
| "Peripheral_write ops (Dev_Plic p) ofs v = (let (r, p') = Plic_write p ofs v in (r, Dev_Plic p'))"
| "Peripheral_write ops (Dev_Uart u) ofs v = (let (r, u') = Uart_write u ofs v in (r, Dev_Uart u'))"
| "Peripheral_write ops (Dev_Input i) ofs v = (let (r, i') = InputDevice_write i ofs v in (r, Dev_Input i'))"
| "Peripheral_write ops (Dev_Other d) ofs v = (let (r, d') = oo_write ops d ofs v in (r, Dev_Other d'))"

fun Peripheral_name :: "'d other_ops \<Rightarrow> 'd device \<Rightarrow> string" where
  "Peripheral_name ops (Dev_Clint c) = ''CLINT''"
| "Peripheral_name ops (Dev_Plic p) = ''PLIC''"
| "Peripheral_name ops (Dev_Uart u) = ''UART''"
| "Peripheral_name ops (Dev_Input i) = ''Input''"
| "Peripheral_name ops (Dev_Other d) = oo_name ops d"

fun Peripheral_base_size :: "'d other_ops \<Rightarrow> 'd device \<Rightarrow> addr \<times> nat" where
  "Peripheral_base_size ops (Dev_Clint c) = (cl_base c, CLINT_SIZE)"
| "Peripheral_base_size ops (Dev_Plic p) = (pl_base p, PLIC_SIZE)"
| "Peripheral_base_size ops (Dev_Uart u) = (ua_base u, UART_SIZE)"
| "Peripheral_base_size ops (Dev_Input i) = (in_base i, INPUT_SIZE)"
| "Peripheral_base_size ops (Dev_Other d) = (oo_base_addr ops d, oo_size ops d)"

fun Peripheral_has_interrupt :: "'d other_ops \<Rightarrow> 'd device \<Rightarrow> bool" where
  "Peripheral_has_interrupt ops (Dev_Clint c) = Clint_has_interrupt c"
| "Peripheral_has_interrupt ops (Dev_Plic p) = Plic_has_interrupt p"
| "Peripheral_has_interrupt ops (Dev_Uart u) = Uart_has_interrupt u"
| "Peripheral_has_interrupt ops (Dev_Input i) = InputDevice_has_interrupt i"
| "Peripheral_has_interrupt ops (Dev_Other d) = oo_has_interrupt ops d"

fun Peripheral_acknowledge :: "'d other_ops \<Rightarrow> 'd device \<Rightarrow> 'd device" where
  "Peripheral_acknowledge ops (Dev_Clint c) = Dev_Clint (Clint_acknowledge_interrupt c)"
| "Peripheral_acknowledge ops (Dev_Plic p) = Dev_Plic p"
| "Peripheral_acknowledge ops (Dev_Uart u) = Dev_Uart u"
| "Peripheral_acknowledge ops (Dev_Input i) = Dev_Input (InputDevice_acknowledge_interrupt i)"
| "Peripheral_acknowledge ops (Dev_Other d) = Dev_Other (oo_acknowledge ops d)"

text \<open>The default \<open>try_execute_pending\<close> of the trait does nothing.\<close>

fun Peripheral_try_execute ::
  "'d other_ops \<Rightarrow> 'd device \<Rightarrow> mem_regions \<Rightarrow> bool result \<times> 'd device \<times> mem_regions" where
  "Peripheral_try_execute ops (Dev_Other d) ms =
     (let (r, d', ms') = oo_try_execute ops d ms in (r, Dev_Other d', ms'))"
| "Peripheral_try_execute ops d ms = (Inr False, d, ms)"

subsection \<open>State of the bus\<close>

definition ACC_CTRL_ROOT_BASE :: u32 where "ACC_CTRL_ROOT_BASE = 0x20000000"
definition ACC_DOORBELL_BASE :: u32 where "ACC_DOORBELL_BASE = 0x20001000"
definition ACC_REGION_SIZE :: u32 where "ACC_REGION_SIZE = 0x1000"
definition NPU_BASE :: u32 where "NPU_BASE = 0x20010000"
definition LPU_BASE :: u32 where "LPU_BASE = 0x20011000"
definition GPU_BASE :: u32 where "GPU_BASE = 0x20012000"
definition TPU_BASE :: u32 where "TPU_BASE = 0x20013000"

lemmas acc_bases = ACC_CTRL_ROOT_BASE_def ACC_DOORBELL_BASE_def ACC_REGION_SIZE_def NPU_BASE_def
  LPU_BASE_def GPU_BASE_def TPU_BASE_def

definition ACC_BUSY :: u32 where "ACC_BUSY = bitm 0"
definition ACC_DONE :: u32 where "ACC_DONE = bitm 1"
definition ACC_ERROR :: u32 where "ACC_ERROR = bitm 2"

record acc_root =
  ar_version :: u32
  ar_mode :: u32
  ar_submits :: u64
  ar_completes :: u64
  ar_errors :: u64

record acc_doorbell =
  ad_control :: u32
  ad_status :: u32
  ad_engine :: u32
  ad_desc_addr :: u64
  ad_desc_len :: u32
  ad_submit_count :: u64
  ad_error_count :: u64

definition AccRootState_default :: acc_root where
  "AccRootState_default = \<lparr>ar_version = 0x00020000, ar_mode = 1, ar_submits = 0, ar_completes = 0, ar_errors = 0\<rparr>"

definition AccDoorbellState_default :: acc_doorbell where
  "AccDoorbellState_default = \<lparr>ad_control = 0, ad_status = 0, ad_engine = 0, ad_desc_addr = 0, ad_desc_len = 0,
     ad_submit_count = 0, ad_error_count = 0\<rparr>"

record 'd bus =
  bus_ram_regions :: mem_regions
  bus_peripherals :: "(addr \<times> nat \<times> 'd device) list"
  bus_acc_root :: acc_root
  bus_acc_doorbell :: acc_doorbell

definition Bus_new :: "'d bus" where
  "Bus_new = \<lparr>bus_ram_regions = [], bus_peripherals = [], bus_acc_root = AccRootState_default,
     bus_acc_doorbell = AccDoorbellState_default\<rparr>"

definition Bus_attach_memory :: "'d bus \<Rightarrow> addr \<Rightarrow> memdev \<Rightarrow> 'd bus" where
  "Bus_attach_memory b base m = b\<lparr>bus_ram_regions := bus_ram_regions b @ [(base, memdev_size m, m)]\<rparr>"

definition Bus_attach_peripheral :: "'d other_ops \<Rightarrow> 'd bus \<Rightarrow> 'd device \<Rightarrow> 'd bus" where
  "Bus_attach_peripheral ops b d =
     (let (base, sz) = Peripheral_base_size ops d
      in b\<lparr>bus_peripherals := bus_peripherals b @ [(base, sz, d)]\<rparr>)"

subsection \<open>Region search\<close>

definition in_region :: "addr \<Rightarrow> nat \<Rightarrow> addr \<Rightarrow> bool" where
  "in_region base sz a \<longleftrightarrow> unat a \<ge> unat base \<and> unat a < unat base + sz"

text \<open>The peripheral loops: the first region that contains the address answers.\<close>

fun read_peripherals :: "'d other_ops \<Rightarrow> addr \<Rightarrow> (addr \<times> nat \<times> 'd device) list \<Rightarrow>
    (u8 result \<times> (addr \<times> nat \<times> 'd device) list) option" where
  "read_peripherals ops a [] = None"
| "read_peripherals ops a ((base, sz, d) # rest) =
     (if in_region base sz a
      then let (r, d') = Peripheral_read ops d (a - base) in Some (r, (base, sz, d') # rest)
      else map_option (\<lambda>(r, rest'). (r, (base, sz, d) # rest')) (read_peripherals ops a rest))"

fun write_peripherals :: "'d other_ops \<Rightarrow> addr \<Rightarrow> u8 \<Rightarrow> (addr \<times> nat \<times> 'd device) list \<Rightarrow> mem_regions \<Rightarrow>
    (unit result \<times> (addr \<times> nat \<times> 'd device) list \<times> mem_regions) option" where
  "write_peripherals ops a v [] ms = None"
| "write_peripherals ops a v ((base, sz, d) # rest) ms =
     (if in_region base sz a
      then (case Peripheral_write ops d (a - base) v of
          (Inl e, d1) \<Rightarrow> Some (Inl e, (base, sz, d1) # rest, ms)
        | (Inr _, d1) \<Rightarrow>
            (case Peripheral_try_execute ops d1 ms of
               (Inl e, d2, ms') \<Rightarrow> Some (Inl e, (base, sz, d2) # rest, ms')
             | (Inr _, d2, ms') \<Rightarrow> Some (Inr (), (base, sz, d2) # rest, ms')))
      else map_option (\<lambda>(r, rest', ms'). (r, (base, sz, d) # rest', ms')) (write_peripherals ops a v rest ms))"

fun read_regions :: "addr \<Rightarrow> mem_regions \<Rightarrow> u8 result" where
  "read_regions a [] = Inl (MemoryOutOfBounds a 1)"
| "read_regions a ((base, sz, m) # rest) =
     (if in_region base sz a then memdev_read_byte m (a - base) else read_regions a rest)"

fun write_regions :: "addr \<Rightarrow> u8 \<Rightarrow> mem_regions \<Rightarrow> unit result \<times> mem_regions" where
  "write_regions a v [] = (Inl (MemoryOutOfBounds a 1), [])"
| "write_regions a v ((base, sz, m) # rest) =
     (if in_region base sz a
      then let (r, m') = memdev_write_byte m (a - base) v in (r, (base, sz, m') # rest)
      else let (r, rest') = write_regions a v rest in (r, (base, sz, m) # rest'))"

text \<open>The part of \<open>read_byte\<close> and \<open>write_byte\<close> after the accelerator control window.\<close>

definition Bus_region_read :: "'d other_ops \<Rightarrow> 'd bus \<Rightarrow> addr \<Rightarrow> u8 result \<times> 'd bus" where
  "Bus_region_read ops b a =
     (case read_peripherals ops a (bus_peripherals b) of
        Some (r, ps) \<Rightarrow> (r, b\<lparr>bus_peripherals := ps\<rparr>)
      | None \<Rightarrow> (read_regions a (bus_ram_regions b), b))"

definition Bus_region_write :: "'d other_ops \<Rightarrow> 'd bus \<Rightarrow> addr \<Rightarrow> u8 \<Rightarrow> unit result \<times> 'd bus" where
  "Bus_region_write ops b a v =
     (case write_peripherals ops a v (bus_peripherals b) (bus_ram_regions b) of
        Some (r, ps, ms) \<Rightarrow> (r, b\<lparr>bus_peripherals := ps, bus_ram_regions := ms\<rparr>)
      | None \<Rightarrow> (let (r, ms) = write_regions a v (bus_ram_regions b) in (r, b\<lparr>bus_ram_regions := ms\<rparr>)))"

subsection \<open>Accelerator control window\<close>

definition Bus_reg_u8 :: "u32 \<Rightarrow> u32 \<Rightarrow> u8" where
  "Bus_reg_u8 value off = ucast (drop_bit (unat ((off AND 0x3) * 8)) value AND 0xFF)"

definition Bus_set_reg_u8 :: "u32 \<Rightarrow> u32 \<Rightarrow> u8 \<Rightarrow> u32" where
  "Bus_set_reg_u8 value off b =
     (let shift = unat ((off AND 0x3) * 8)
      in (value AND NOT (push_bit shift 0xFF)) OR push_bit shift (ucast b))"

definition Bus_has_peripheral_interrupt :: "'d other_ops \<Rightarrow> 'd bus \<Rightarrow> string \<Rightarrow> bool" where
  "Bus_has_peripheral_interrupt ops b name \<longleftrightarrow>
     list_ex (\<lambda>(_, _, p). Peripheral_name ops p = name \<and> Peripheral_has_interrupt ops p) (bus_peripherals b)"

definition Bus_build_acc_irq_summary :: "'d other_ops \<Rightarrow> 'd bus \<Rightarrow> u32" where
  "Bus_build_acc_irq_summary ops b =
     (if Bus_has_peripheral_interrupt ops b ''NPU'' then bitm 0 else 0)
     OR (if Bus_has_peripheral_interrupt ops b ''LPU'' then bitm 1 else 0)
     OR (if Bus_has_peripheral_interrupt ops b ''GPU'' then bitm 2 else 0)
     OR (if Bus_has_peripheral_interrupt ops b ''TPU'' then bitm 3 else 0)"

definition Bus_read_acc_root_u32 :: "'d other_ops \<Rightarrow> 'd bus \<Rightarrow> u32 \<Rightarrow> u32" where
  "Bus_read_acc_root_u32 ops b reg =
     (let r = bus_acc_root b
      in if reg = 0x100 then ar_version r
         else if reg = 0x104 then bitm 0 OR bitm 1 OR bitm 2 OR bitm 3
         else if reg = 0x108 then Bus_build_acc_irq_summary ops b
         else if reg = 0x10C then ucast (ar_submits r)
         else if reg = 0x110 then ucast (drop_bit 32 (ar_submits r))
         else if reg = 0x114 then ucast (ar_completes r)
         else if reg = 0x118 then ucast (drop_bit 32 (ar_completes r))
         else if reg = 0x11C then ar_mode r
         else if reg = 0x120 then ucast (ar_errors r)
         else if reg = 0x124 then ucast (drop_bit 32 (ar_errors r))
         else 0)"

definition Bus_write_acc_root_u32 :: "'d bus \<Rightarrow> u32 \<Rightarrow> u32 \<Rightarrow> 'd bus" where
  "Bus_write_acc_root_u32 b reg v =
     (if reg = 0x11C then b\<lparr>bus_acc_root := (bus_acc_root b)\<lparr>ar_mode := 1\<rparr>\<rparr> else b)"

definition Bus_read_acc_doorbell_u32 :: "'d bus \<Rightarrow> u32 \<Rightarrow> u32" where
  "Bus_read_acc_doorbell_u32 b reg =
     (let d = bus_acc_doorbell b
      in if reg = 0x100 then ad_control d
         else if reg = 0x104 then ad_status d
         else if reg = 0x108 then ad_engine d
         else if reg = 0x10C then ucast (ad_desc_addr d)
         else if reg = 0x110 then ucast (drop_bit 32 (ad_desc_addr d))
         else if reg = 0x114 then ad_desc_len d
         else if reg = 0x11C then ucast (ad_submit_count d)
         else if reg = 0x120 then ucast (drop_bit 32 (ad_submit_count d))
         else if reg = 0x124 then ucast (ad_error_count d)
         else if reg = 0x128 then ucast (drop_bit 32 (ad_error_count d))
         else 0)"

subsection \<open>The doorbell\<close>

text \<open>The engine registers lie outside the control window, so the accesses the doorbell makes to them
  are region accesses (\<open>engine_outside_window\<close> below).\<close>

definition engine_counters :: "u32 \<Rightarrow> (u32 \<times> u32 \<times> u32) option" where
  "engine_counters engine =
     (if engine = 0 then Some (NPU_BASE, 0x30, 0x34)
      else if engine = 1 then Some (LPU_BASE, 0x30, 0x34)
      else if engine = 2 then Some (GPU_BASE, 0x84, 0x88)
      else if engine = 3 then Some (TPU_BASE, 0x94, 0x98)
      else None)"

definition Bus_read_engine_task_counters :: "'d other_ops \<Rightarrow> 'd bus \<Rightarrow> u32 \<Rightarrow> (u32 \<times> u32) result \<times> 'd bus" where
  "Bus_read_engine_task_counters ops b engine =
     (case engine_counters engine of
        None \<Rightarrow> (Inl PeripheralErr, b)
      | Some (base, done_off, err_off) \<Rightarrow>
          bind_st (Memory_read_word (Bus_region_read ops) b (base + done_off)) (\<lambda>done b.
          bind_st (Memory_read_word (Bus_region_read ops) b (base + err_off)) (\<lambda>err b.
          (Inr (done, err), b))))"

text \<open>The descriptor registers of an engine: address low, high, length, notify.\<close>

definition engine_descriptor :: "u32 \<Rightarrow> u32 \<times> u32 \<times> u32 \<times> u32" where
  "engine_descriptor engine =
     (if engine = 0 \<or> engine = 1 then
        let base = (if engine = 0 then NPU_BASE else LPU_BASE)
        in (base + 0x20, base + 0x24, base + 0x28, base + 0x2C)
      else if engine = 2 then (GPU_BASE + 0x50, GPU_BASE + 0x54, GPU_BASE + 0x58, GPU_BASE + 0x5C)
      else (TPU_BASE + 0x80, TPU_BASE + 0x84, TPU_BASE + 0x88, TPU_BASE + 0x8C))"

definition Bus_submit_acc_doorbell :: "'d other_ops \<Rightarrow> 'd bus \<Rightarrow> unit result \<times> 'd bus" where
  "Bus_submit_acc_doorbell ops b =
     (let d = bus_acc_doorbell b;
          engine = ad_engine d; desc_addr = ad_desc_addr d; desc_len = ad_desc_len d;
          b1 = b\<lparr>bus_acc_doorbell := d\<lparr>ad_status := ACC_BUSY, ad_submit_count := ad_submit_count d + 1\<rparr>,
                bus_acc_root := (bus_acc_root b)\<lparr>ar_submits := ar_submits (bus_acc_root b) + 1\<rparr>\<rparr>
      in if engine > 3 then
           (Inl PeripheralErr,
            b1\<lparr>bus_acc_doorbell := (bus_acc_doorbell b1)
                 \<lparr>ad_status := ACC_ERROR, ad_error_count := ad_error_count (bus_acc_doorbell b1) + 1\<rparr>,
               bus_acc_root := (bus_acc_root b1)\<lparr>ar_errors := ar_errors (bus_acc_root b1) + 1\<rparr>\<rparr>)
         else
           bind_st (Bus_read_engine_task_counters ops b1 engine) (\<lambda>counts0 b.
           let (r_lo, r_hi, r_len, r_notify) = engine_descriptor engine;
               ww = Memory_write_word (Bus_region_write ops)
           in
           bind_st (ww b r_lo (ucast desc_addr)) (\<lambda>_ b.
           bind_st (ww b r_hi (ucast (drop_bit 32 desc_addr))) (\<lambda>_ b.
           bind_st (ww b r_len desc_len) (\<lambda>_ b.
           bind_st (ww b r_notify 1) (\<lambda>_ b.
           bind_st (Bus_read_engine_task_counters ops b engine) (\<lambda>counts1 b.
           let done_delta = ucast (fst counts1 - fst counts0) :: u64;
               err_delta = ucast (snd counts1 - snd counts0) :: u64;
               root = bus_acc_root b; d = bus_acc_doorbell b
           in (Inr (),
               b\<lparr>bus_acc_root := root\<lparr>ar_completes := ar_completes root + done_delta,
                                       ar_errors := ar_errors root + err_delta\<rparr>,
                 bus_acc_doorbell := d\<lparr>ad_error_count := ad_error_count d + err_delta,
                   ad_status := (if err_delta > 0 then ACC_DONE OR ACC_ERROR else ACC_DONE)\<rparr>\<rparr>))))))))"

definition Bus_write_acc_doorbell_u32 :: "'d other_ops \<Rightarrow> 'd bus \<Rightarrow> u32 \<Rightarrow> u32 \<Rightarrow> unit result \<times> 'd bus" where
  "Bus_write_acc_doorbell_u32 ops b reg v =
     (let d = bus_acc_doorbell b
      in if reg = 0x100 then (Inr (), b\<lparr>bus_acc_doorbell := d\<lparr>ad_control := v\<rparr>\<rparr>)
         else if reg = 0x104 then
           let s1 = (if flag v ACC_DONE then ad_status d AND NOT ACC_DONE else ad_status d);
               s2 = (if flag v ACC_ERROR then s1 AND NOT ACC_ERROR else s1)
           in (Inr (), b\<lparr>bus_acc_doorbell := d\<lparr>ad_status := s2\<rparr>\<rparr>)
         else if reg = 0x108 then (Inr (), b\<lparr>bus_acc_doorbell := d\<lparr>ad_engine := v\<rparr>\<rparr>)
         else if reg = 0x10C then
           (Inr (), b\<lparr>bus_acc_doorbell := d\<lparr>ad_desc_addr := (ad_desc_addr d AND 0xFFFFFFFF00000000) OR ucast v\<rparr>\<rparr>)
         else if reg = 0x110 then
           (Inr (), b\<lparr>bus_acc_doorbell :=
              d\<lparr>ad_desc_addr := (ad_desc_addr d AND 0xFFFFFFFF) OR push_bit 32 (ucast v)\<rparr>\<rparr>)
         else if reg = 0x114 then (Inr (), b\<lparr>bus_acc_doorbell := d\<lparr>ad_desc_len := v\<rparr>\<rparr>)
         else if reg = 0x118 then (if v \<noteq> 0 then Bus_submit_acc_doorbell ops b else (Inr (), b))
         else (Inr (), b))"

definition in_window :: "u32 \<Rightarrow> addr \<Rightarrow> bool" where
  "in_window base a \<longleftrightarrow> base \<le> a \<and> a < base + ACC_REGION_SIZE"

definition Bus_try_read_acc_mmio :: "'d other_ops \<Rightarrow> 'd bus \<Rightarrow> addr \<Rightarrow> u8 option" where
  "Bus_try_read_acc_mmio ops b a =
     (if in_window ACC_CTRL_ROOT_BASE a then
        let off = a - ACC_CTRL_ROOT_BASE; reg = off AND NOT 0x3
        in Some (Bus_reg_u8 (Bus_read_acc_root_u32 ops b reg) off)
      else if in_window ACC_DOORBELL_BASE a then
        let off = a - ACC_DOORBELL_BASE; reg = off AND NOT 0x3
        in Some (Bus_reg_u8 (Bus_read_acc_doorbell_u32 b reg) off)
      else None)"

definition Bus_try_write_acc_mmio :: "'d other_ops \<Rightarrow> 'd bus \<Rightarrow> addr \<Rightarrow> u8 \<Rightarrow> (unit result \<times> 'd bus) option" where
  "Bus_try_write_acc_mmio ops b a v =
     (if in_window ACC_CTRL_ROOT_BASE a then
        let off = a - ACC_CTRL_ROOT_BASE; reg = off AND NOT 0x3;
            current = Bus_set_reg_u8 (Bus_read_acc_root_u32 ops b reg) off v
        in Some (Inr (), Bus_write_acc_root_u32 b reg current)
      else if in_window ACC_DOORBELL_BASE a then
        let off = a - ACC_DOORBELL_BASE; reg = off AND NOT 0x3;
            current = Bus_set_reg_u8 (Bus_read_acc_doorbell_u32 b reg) off v
        in Some (Bus_write_acc_doorbell_u32 ops b reg current)
      else None)"

subsection \<open>Byte, half-word and word accesses\<close>

definition Bus_read_byte :: "'d other_ops \<Rightarrow> 'd bus \<Rightarrow> addr \<Rightarrow> u8 result \<times> 'd bus" where
  "Bus_read_byte ops b a =
     (case Bus_try_read_acc_mmio ops b a of Some v \<Rightarrow> (Inr v, b) | None \<Rightarrow> Bus_region_read ops b a)"

definition Bus_write_byte :: "'d other_ops \<Rightarrow> 'd bus \<Rightarrow> addr \<Rightarrow> u8 \<Rightarrow> unit result \<times> 'd bus" where
  "Bus_write_byte ops b a v =
     (case Bus_try_write_acc_mmio ops b a v of Some r \<Rightarrow> r | None \<Rightarrow> Bus_region_write ops b a v)"

definition Bus_read_half :: "'d other_ops \<Rightarrow> 'd bus \<Rightarrow> addr \<Rightarrow> u16 result \<times> 'd bus" where
  "Bus_read_half ops = Memory_read_half (Bus_read_byte ops)"

definition Bus_write_half :: "'d other_ops \<Rightarrow> 'd bus \<Rightarrow> addr \<Rightarrow> u16 \<Rightarrow> unit result \<times> 'd bus" where
  "Bus_write_half ops = Memory_write_half (Bus_write_byte ops)"

definition Bus_read_word :: "'d other_ops \<Rightarrow> 'd bus \<Rightarrow> addr \<Rightarrow> u32 result \<times> 'd bus" where
  "Bus_read_word ops = Memory_read_word (Bus_read_byte ops)"

definition Bus_write_word :: "'d other_ops \<Rightarrow> 'd bus \<Rightarrow> addr \<Rightarrow> u32 \<Rightarrow> unit result \<times> 'd bus" where
  "Bus_write_word ops = Memory_write_word (Bus_write_byte ops)"

definition Bus_read_bytes :: "'d other_ops \<Rightarrow> 'd bus \<Rightarrow> addr \<Rightarrow> nat \<Rightarrow> u8 list result \<times> 'd bus" where
  "Bus_read_bytes ops = Memory_read_bytes (Bus_read_byte ops)"

definition Bus_write_bytes :: "'d other_ops \<Rightarrow> 'd bus \<Rightarrow> addr \<Rightarrow> u8 list \<Rightarrow> nat result \<times> 'd bus" where
  "Bus_write_bytes ops = Memory_write_bytes (Bus_write_byte ops)"

subsection \<open>Device access to memory (\<open>dma.rs\<close>)\<close>

definition dma_guest_addr :: "u64 \<Rightarrow> addr result" where
  "dma_guest_addr raw = (if raw > 0xFFFFFFFF then Inl PeripheralErr else Inr (ucast raw))"

definition dma_read_u8 :: "mem_regions \<Rightarrow> u64 \<Rightarrow> u8 result" where
  "dma_read_u8 ms addr = bind_res (dma_guest_addr addr) (\<lambda>a. read_regions a ms)"

definition dma_write_u8 :: "mem_regions \<Rightarrow> u64 \<Rightarrow> u8 \<Rightarrow> unit result \<times> mem_regions" where
  "dma_write_u8 ms addr v =
     (case dma_guest_addr addr of Inl e \<Rightarrow> (Inl e, ms) | Inr a \<Rightarrow> write_regions a v ms)"

definition dma_read_u32 :: "mem_regions \<Rightarrow> u64 \<Rightarrow> u32 result" where
  "dma_read_u32 ms addr =
     bind_res (dma_read_u8 ms addr) (\<lambda>b0.
     bind_res (dma_read_u8 ms (addr + 1)) (\<lambda>b1.
     bind_res (dma_read_u8 ms (addr + 2)) (\<lambda>b2.
     bind_res (dma_read_u8 ms (addr + 3)) (\<lambda>b3. Inr (word_of_bytes b0 b1 b2 b3)))))"

definition dma_write_u32 :: "mem_regions \<Rightarrow> u64 \<Rightarrow> u32 \<Rightarrow> unit result \<times> mem_regions" where
  "dma_write_u32 ms addr v =
     bind_st (dma_write_u8 ms addr (byte_at 0 v)) (\<lambda>_ ms.
     bind_st (dma_write_u8 ms (addr + 1) (byte_at 1 v)) (\<lambda>_ ms.
     bind_st (dma_write_u8 ms (addr + 2) (byte_at 2 v)) (\<lambda>_ ms.
     dma_write_u8 ms (addr + 3) (byte_at 3 v))))"

subsection \<open>Interrupt lines and injected input\<close>

definition Bus_has_pending_interrupt :: "'d other_ops \<Rightarrow> 'd bus \<Rightarrow> bool" where
  "Bus_has_pending_interrupt ops b \<longleftrightarrow> list_ex (\<lambda>(_, _, p). Peripheral_has_interrupt ops p) (bus_peripherals b)"

text \<open>The first device of a kind, and its update in place: the source's loops with a downcast.\<close>

fun update_first :: "('d device \<Rightarrow> 'd device option) \<Rightarrow> (addr \<times> nat \<times> 'd device) list \<Rightarrow>
    (addr \<times> nat \<times> 'd device) list option" where
  "update_first g [] = None"
| "update_first g ((base, sz, d) # rest) =
     (case g d of Some d' \<Rightarrow> Some ((base, sz, d') # rest)
      | None \<Rightarrow> map_option (\<lambda>rest'. (base, sz, d) # rest') (update_first g rest))"

definition update_device :: "('d device \<Rightarrow> 'd device option) \<Rightarrow> 'd bus \<Rightarrow> 'd bus" where
  "update_device g b =
     (case update_first g (bus_peripherals b) of Some ps \<Rightarrow> b\<lparr>bus_peripherals := ps\<rparr> | None \<Rightarrow> b)"

fun first_device :: "('d device \<Rightarrow> 'b option) \<Rightarrow> (addr \<times> nat \<times> 'd device) list \<Rightarrow> 'b option" where
  "first_device g [] = None"
| "first_device g ((_, _, d) # rest) = (case g d of Some x \<Rightarrow> Some x | None \<Rightarrow> first_device g rest)"

fun as_clint :: "'d device \<Rightarrow> clint option" where
  "as_clint (Dev_Clint c) = Some c" | "as_clint _ = None"

fun as_plic :: "'d device \<Rightarrow> plic option" where
  "as_plic (Dev_Plic p) = Some p" | "as_plic _ = None"

fun as_uart :: "'d device \<Rightarrow> uart option" where
  "as_uart (Dev_Uart u) = Some u" | "as_uart _ = None"

fun as_input :: "'d device \<Rightarrow> input_device option" where
  "as_input (Dev_Input i) = Some i" | "as_input _ = None"

definition Bus_inject_uart_byte :: "'d bus \<Rightarrow> u8 \<Rightarrow> bool \<times> 'd bus" where
  "Bus_inject_uart_byte b byte =
     (first_device as_uart (bus_peripherals b) \<noteq> None,
      update_device (\<lambda>d. map_option (\<lambda>u. Dev_Uart (Uart_receive_byte u byte)) (as_uart d)) b)"

definition Bus_inject_input_key :: "'d bus \<Rightarrow> u8 \<Rightarrow> bool \<Rightarrow> bool \<times> 'd bus" where
  "Bus_inject_input_key b key_code pressed =
     (first_device as_input (bus_peripherals b) \<noteq> None,
      update_device (\<lambda>d. map_option (\<lambda>i. Dev_Input (InputDevice_set_key i key_code pressed)) (as_input d)) b)"

definition Bus_clear_input_keys :: "'d bus \<Rightarrow> bool \<times> 'd bus" where
  "Bus_clear_input_keys b =
     (first_device as_input (bus_peripherals b) \<noteq> None,
      update_device (\<lambda>d. map_option (\<lambda>i. Dev_Input (InputDevice_clear_keys i)) (as_input d)) b)"

definition Bus_get_input_snapshot :: "'d bus \<Rightarrow> (u32 \<times> u32 \<times> u32 \<times> bool) option" where
  "Bus_get_input_snapshot b = map_option InputDevice_snapshot (first_device as_input (bus_peripherals b))"

definition Bus_get_clint_interrupt_status :: "'d bus \<Rightarrow> bool \<times> bool" where
  "Bus_get_clint_interrupt_status b =
     (case first_device as_clint (bus_peripherals b) of
        Some c \<Rightarrow> (Clint_mtip c, Clint_msip c) | None \<Rightarrow> (False, False))"

definition Bus_tick_clint :: "'d bus \<Rightarrow> u64 \<Rightarrow> 'd bus" where
  "Bus_tick_clint b cycles = update_device (\<lambda>d. map_option (\<lambda>c. Dev_Clint (Clint_tick c cycles)) (as_clint d)) b"

definition Bus_get_plic_interrupt_status :: "'d bus \<Rightarrow> bool \<times> bool" where
  "Bus_get_plic_interrupt_status b =
     (case first_device as_plic (bus_peripherals b) of
        Some p \<Rightarrow> (Plic_has_pending_interrupt_machine p 0, Plic_has_pending_interrupt_supervisor p 0)
      | None \<Rightarrow> (False, False))"

definition Bus_claim_plic_interrupt :: "'d bus \<Rightarrow> u32 \<times> 'd bus" where
  "Bus_claim_plic_interrupt b =
     (case first_device as_plic (bus_peripherals b) of Some p \<Rightarrow> fst (Plic_claim p 0) | None \<Rightarrow> 0,
      update_device (\<lambda>d. map_option (\<lambda>p. Dev_Plic (snd (Plic_claim p 0))) (as_plic d)) b)"

definition Bus_complete_plic_interrupt :: "'d bus \<Rightarrow> u32 \<Rightarrow> 'd bus" where
  "Bus_complete_plic_interrupt b source =
     update_device (\<lambda>d. map_option (\<lambda>p. Dev_Plic (Plic_complete p 0 source)) (as_plic d)) b"

definition Bus_acknowledge_interrupts :: "'d other_ops \<Rightarrow> 'd bus \<Rightarrow> 'd bus" where
  "Bus_acknowledge_interrupts ops b =
     b\<lparr>bus_peripherals := map (\<lambda>(base, sz, d). (base, sz, Peripheral_acknowledge ops d)) (bus_peripherals b)\<rparr>"

text \<open>The interrupt lines wired to the PLIC, in the order the source latches them.\<close>

definition plic_wires :: "(string \<times> nat) list" where
  "plic_wires = [(''VirtIO-Block'', 1), (''UART'', 10), (''NPU'', 11), (''LPU'', 12), (''GPU'', 13), (''TPU'', 14)]"

text \<open>The latching loop stops at the first device named PLIC, whether or not the downcast succeeds.\<close>

definition Bus_sync_plic_pending_from_peripherals :: "'d other_ops \<Rightarrow> 'd bus \<Rightarrow> 'd bus" where
  "Bus_sync_plic_pending_from_peripherals ops b =
     (let raised = filter (\<lambda>(name, _). Bus_has_peripheral_interrupt ops b name) plic_wires
      in if raised = [] then b
         else
           let latch = (\<lambda>d. if Peripheral_name ops d = ''PLIC''
                 then Some (case d of
                     Dev_Plic p \<Rightarrow> Dev_Plic (fold (\<lambda>(_, src) p. Plic_set_pending p src) raised p)
                   | _ \<Rightarrow> d)
                 else None);
               b1 = update_device latch b
           in if Bus_has_peripheral_interrupt ops b ''VirtIO-Block''
              then update_device (\<lambda>d. if Peripheral_name ops d = ''VirtIO-Block''
                     then Some (Peripheral_acknowledge ops d) else None) b1
              else b1)"

subsection \<open>Memory on the bus is a byte store\<close>

lemma engine_outside_window:
  assumes "base \<in> {NPU_BASE, LPU_BASE, GPU_BASE, TPU_BASE}" "unat off < 0x1000"
  shows "\<not> in_window ACC_CTRL_ROOT_BASE (base + off)" "\<not> in_window ACC_DOORBELL_BASE (base + off)"
proof -
  have "unat (base + off) = unat base + unat off"
    using assms by (intro unat_add_small) (auto simp: acc_bases)
  then have "0x20002000 \<le> unat (base + off)" using assms by (auto simp: acc_bases)
  then show "\<not> in_window ACC_CTRL_ROOT_BASE (base + off)" "\<not> in_window ACC_DOORBELL_BASE (base + off)"
    by (simp_all add: in_window_def acc_bases word_less_nat_alt)
qed

text \<open>The first region that contains an address is a RAM that holds the relative address.\<close>

fun ram_at :: "addr \<Rightarrow> mem_regions \<Rightarrow> u8 option" where
  "ram_at a [] = None"
| "ram_at a ((base, sz, m) # rest) =
     (if in_region base sz a then
        (case m of MD_Ram r \<Rightarrow> if Ram_contains r (a - base) then Some (ram_data r ! unat (a - base)) else None
         | MD_Rom r \<Rightarrow> None)
      else ram_at a rest)"

definition peripheral_at :: "addr \<Rightarrow> (addr \<times> nat \<times> 'd device) list \<Rightarrow> bool" where
  "peripheral_at a ps \<longleftrightarrow> list_ex (\<lambda>(base, sz, _). in_region base sz a) ps"

definition bus_holds :: "'d bus \<Rightarrow> addr \<Rightarrow> bool" where
  "bus_holds b a \<longleftrightarrow> \<not> in_window ACC_CTRL_ROOT_BASE a \<and> \<not> in_window ACC_DOORBELL_BASE a \<and>
     \<not> peripheral_at a (bus_peripherals b) \<and> ram_at a (bus_ram_regions b) \<noteq> None"

definition bus_byte :: "'d bus \<Rightarrow> addr \<Rightarrow> u8" where
  "bus_byte b a = the (ram_at a (bus_ram_regions b))"

lemma read_peripherals_None: "read_peripherals ops a ps = None \<longleftrightarrow> \<not> peripheral_at a ps"
  by (induction ps) (auto simp: peripheral_at_def split: prod.splits)

lemma write_peripherals_None: "write_peripherals ops a v ps ms = None \<longleftrightarrow> \<not> peripheral_at a ps"
  by (induction ps) (auto simp: peripheral_at_def split: prod.splits sum.splits)

lemma read_regions_ram: "ram_at a ms = Some x \<Longrightarrow> read_regions a ms = Inr x"
  by (induction ms) (auto simp: Ram_read_byte_def Ram_contains_def split: if_splits memdev.splits)

lemma write_regions_ram:
  assumes "ram_at a ms \<noteq> None" "write_regions a v ms = (r, ms')"
  shows "r = Inr () \<and> ram_at c ms' = (if c = a then Some v else ram_at c ms)"
  using assms
proof (induction ms arbitrary: r ms')
  case (Cons x ms)
  obtain base sz m where x: "x = (base, sz, m)" by (cases x) auto
  have eq: "c - base = a - base \<longleftrightarrow> c = a" by simp
  have "unat (c - base) = unat (a - base) \<longleftrightarrow> c = a" by (metis eq word_unat_eq_iff)
  then show ?case using Cons x
    by (auto simp: Ram_write_byte_def Ram_contains_def nth_list_update Let_def
        split: if_splits memdev.splits prod.splits)
qed simp

lemma bus_acc_none:
  "bus_holds b a \<Longrightarrow> Bus_try_read_acc_mmio ops b a = None" "bus_holds b a \<Longrightarrow> Bus_try_write_acc_mmio ops b a v = None"
  by (simp_all add: bus_holds_def Bus_try_read_acc_mmio_def Bus_try_write_acc_mmio_def)

lemma Bus_read_holds: "bus_holds b a \<Longrightarrow> Bus_read_byte ops b a = (Inr (bus_byte b a), b)"
  by (auto simp: Bus_read_byte_def bus_acc_none Bus_region_read_def read_peripherals_None bus_holds_def
      bus_byte_def read_regions_ram split: option.splits)
    (metis option.distinct(1) read_peripherals_None)+

lemma Bus_write_holds:
  assumes "bus_holds b a" "Bus_write_byte ops b a v = (r, b')"
  shows "r = Inr () \<and> bus_peripherals b' = bus_peripherals b \<and>
    ram_at c (bus_ram_regions b') = (if c = a then Some v else ram_at c (bus_ram_regions b))"
proof -
  obtain r1 ms where w: "write_regions a v (bus_ram_regions b) = (r1, ms)" by fastforce
  have np: "write_peripherals ops a v (bus_peripherals b) (bus_ram_regions b) = None"
    using assms(1) by (simp add: write_peripherals_None bus_holds_def)
  have "ram_at a (bus_ram_regions b) \<noteq> None" using assms(1) by (simp add: bus_holds_def)
  note wr = write_regions_ram [OF this w, of c]
  have "r = r1" "b' = b\<lparr>bus_ram_regions := ms\<rparr>"
    using assms by (auto simp: Bus_write_byte_def bus_acc_none Bus_region_write_def np w)
  with wr show ?thesis by simp
qed

interpretation bus_store: byte_store "Bus_read_byte ops" "Bus_write_byte ops" bus_holds bus_byte
  for ops :: "'d other_ops"
proof
  fix b :: "'d bus" and a c :: addr and v :: u8
  assume h: "bus_holds b a"
  show "Bus_read_byte ops b a = (Inr (bus_byte b a), b)" using h by (rule Bus_read_holds)
  obtain r b' where w: "Bus_write_byte ops b a v = (r, b')" by fastforce
  note W = Bus_write_holds [OF h w]
  show "fst (Bus_write_byte ops b a v) = Inr ()" using w W by simp
  show "bus_holds (snd (Bus_write_byte ops b a v)) c = bus_holds b c"
    using h w W [of c] by (auto simp: bus_holds_def)
  show "bus_holds b c \<Longrightarrow> bus_byte (snd (Bus_write_byte ops b a v)) c = (if c = a then v else bus_byte b c)"
    using w W [of c] by (simp add: bus_byte_def)
qed

subsection \<open>Properties\<close>

text \<open>C32: Memory behind the bus holds words: where no device window covers the four bytes, an aligned
  word store succeeds, reads back as the stored word through the bus, and changes no other byte of
  memory; a misaligned one is refused and changes nothing.\<close>

theorem bus_word_read_after_write:
  assumes "\<forall>i < 4. bus_holds b (a + of_nat i)" "Bus_write_word ops b a v = (r, b')"
  shows "if unat a mod 4 = 0
    then r = Inr () \<and> Bus_read_word ops b' a = (Inr v, b') \<and>
      (\<forall>c. bus_holds b c \<longrightarrow> c \<notin> {a, a + 1, a + 2, a + 3} \<longrightarrow> Bus_read_byte ops b' c = (Inr (bus_byte b c), b'))
    else r = Inl (MemoryAlignment a 4 4) \<and> b' = b"
proof (cases "unat a mod 4 = 0")
  case True
  with assms show ?thesis
    using bus_store.word_round_trip [of b a ops v r b']
    by (simp add: bus_store.holds_range_def Bus_write_word_def Bus_read_word_def)
next
  case False
  with assms(2) show ?thesis
    by (auto simp: Bus_write_word_def Memory_write_word_def check_alignment_4)
qed

definition small_bus :: "unit bus" where
  "small_bus = Bus_attach_memory Bus_new 0x80000000 (MD_Ram (Ram_new 8))"

definition no_ops :: "unit other_ops" where
  "no_ops = \<lparr>oo_read = \<lambda>_ _. Inl PeripheralErr, oo_write = \<lambda>d _ _. (Inl PeripheralErr, d), oo_base_addr = \<lambda>_. 0,
     oo_size = \<lambda>_. 0, oo_name = \<lambda>_. [], oo_has_interrupt = \<lambda>_. False, oo_acknowledge = \<lambda>d. d,
     oo_try_execute = \<lambda>d ms. (Inr False, d, ms)\<rparr>"

lemma small_bus_holds: "\<forall>i < 4. bus_holds small_bus (0x80000004 + of_nat i)"
proof (intro allI impI)
  fix i :: nat assume "i < 4"
  then have "i = 0 \<or> i = 1 \<or> i = 2 \<or> i = 3" by auto
  then show "bus_holds small_bus (0x80000004 + of_nat i)"
    by (elim disjE) (simp_all add: bus_holds_def small_bus_def Bus_attach_memory_def Bus_new_def in_window_def
        acc_bases peripheral_at_def in_region_def Ram_contains_def Ram_new_def Ram_size_def
        word_le_nat_alt word_less_nat_alt)
qed

theorem bus_word_read_after_write_witness:
  "\<exists>b'. Bus_write_word no_ops small_bus 0x80000004 0xDEADBEEF = (Inr (), b') \<and>
     Bus_read_word no_ops b' 0x80000004 = (Inr 0xDEADBEEF, b')"
proof -
  obtain r b' where w: "Bus_write_word no_ops small_bus 0x80000004 0xDEADBEEF = (r, b')" by fastforce
  with bus_word_read_after_write [OF small_bus_holds w] show ?thesis by simp
qed

lemma dma_of_cpu_addr: "dma_guest_addr (ucast (a :: addr)) = Inr a"
proof -
  have lt: "unat a < 2 ^ 32" using unsigned_less [of a] by simp
  moreover have "unat (ucast a :: u64) = unat a"
    using lt by (simp add: unsigned_ucast_eq unsigned_take_bit_eq take_bit_nat_eq_self)
  ultimately have "\<not> (0xFFFFFFFF :: u64) < ucast a" by (simp add: word_less_nat_alt)
  moreover have "(ucast (ucast a :: u64) :: u32) = a"
    by (rule bit_word_eqI) (simp add: bit_simps)
  ultimately show ?thesis by (simp add: dma_guest_addr_def)
qed

lemma dma_write_step:
  assumes "bus_holds b a" "dma_write_u8 (bus_ram_regions b) (ucast a) v = (r, ms)"
  shows "r = Inr ()" "Bus_write_byte ops b a v = (Inr (), b\<lparr>bus_ram_regions := ms\<rparr>)"
    "bus_holds (b\<lparr>bus_ram_regions := ms\<rparr>) c = bus_holds b c"
proof -
  have w: "write_regions a v (bus_ram_regions b) = (r, ms)"
    using assms(2) by (simp add: dma_write_u8_def dma_of_cpu_addr)
  have np: "write_peripherals ops a v (bus_peripherals b) (bus_ram_regions b) = None"
    using assms(1) by (simp add: write_peripherals_None bus_holds_def)
  from w show r: "r = Inr ()" using assms(1) write_regions_ram [OF _ w] by (auto simp: bus_holds_def)
  show wb: "Bus_write_byte ops b a v = (Inr (), b\<lparr>bus_ram_regions := ms\<rparr>)"
    using w r assms(1) by (simp add: Bus_write_byte_def bus_acc_none Bus_region_write_def np)
  show "bus_holds (b\<lparr>bus_ram_regions := ms\<rparr>) c = bus_holds b c"
    by (rule bus_store.wb_after(2) [OF wb assms(1)])
qed

lemma ucast_add_small:
  assumes "unat (a :: addr) + k < 2 ^ 32"
  shows "(ucast a :: u64) + of_nat k = ucast (a + of_nat k)"
proof -
  have "k < 2 ^ 32" using assms by simp
  then have "unat (of_nat k :: u32) = k" "unat (of_nat k :: u64) = k" by (simp_all add: unat_of_nat)
  then show ?thesis using assms
    by (simp add: word_unat_eq_iff unat_add_small unsigned_ucast_eq unsigned_take_bit_eq take_bit_nat_eq_self)
qed

text \<open>Devices and the processor see one memory: a 32-bit store by a device's DMA to an aligned
  address behind the bus has the effect of the processor's own word store there, and the processor
  reads the stored word back.\<close>

theorem dma_store_seen_by_cpu:
  assumes "\<forall>i < 4. bus_holds b (a + of_nat i)" "unat a mod 4 = 0"
    "dma_write_u32 (bus_ram_regions b) (ucast a) v = (r, ms)"
  shows "r = Inr () \<and> Bus_write_word ops b a v = (Inr (), b\<lparr>bus_ram_regions := ms\<rparr>) \<and>
    Bus_read_word ops (b\<lparr>bus_ram_regions := ms\<rparr>) a = (Inr v, b\<lparr>bus_ram_regions := ms\<rparr>)"
proof -
  have nw: "unat a + 3 < 2 ^ 32" using aligned4_no_wrap [OF assms(2)] .
  have ads: "(ucast a :: u64) + 1 = ucast (a + 1)" "(ucast a :: u64) + 2 = ucast (a + 2)"
    "(ucast a :: u64) + 3 = ucast (a + 3)"
    using ucast_add_small [of a 1] ucast_add_small [of a 2] ucast_add_small [of a 3] nw by simp_all
  have h: "bus_holds b a" "bus_holds b (a + 1)" "bus_holds b (a + 2)" "bus_holds b (a + 3)"
    using assms(1) bus_store.holds_range_4 [of b a] by (simp_all add: bus_store.holds_range_def)
  obtain r1 m1 where e1: "dma_write_u8 (bus_ram_regions b) (ucast a) (byte_at 0 v) = (r1, m1)" by fastforce
  note s1 = dma_write_step [OF h(1) e1]
  obtain r2 m2 where e2: "dma_write_u8 (bus_ram_regions (b\<lparr>bus_ram_regions := m1\<rparr>)) (ucast (a + 1)) (byte_at 1 v)
      = (r2, m2)" by fastforce
  have "bus_holds (b\<lparr>bus_ram_regions := m1\<rparr>) (a + 1)" using h by (simp add: s1(3))
  note s2 = dma_write_step [OF this e2]
  obtain r3 m3 where e3: "dma_write_u8 (bus_ram_regions (b\<lparr>bus_ram_regions := m2\<rparr>)) (ucast (a + 2)) (byte_at 2 v)
      = (r3, m3)" by fastforce
  have "bus_holds (b\<lparr>bus_ram_regions := m2\<rparr>) (a + 2)" using h s1(3) s2(3) by simp
  note s3 = dma_write_step [OF this e3]
  obtain r4 m4 where e4: "dma_write_u8 (bus_ram_regions (b\<lparr>bus_ram_regions := m3\<rparr>)) (ucast (a + 3)) (byte_at 3 v)
      = (r4, m4)" by fastforce
  have "bus_holds (b\<lparr>bus_ram_regions := m3\<rparr>) (a + 3)" using h s1(3) s2(3) s3(3) by simp
  note s4 = dma_write_step [OF this e4]
  have ms: "r = Inr ()" "ms = m4"
    using assms(3) e1 e2 e3 e4 s1(1) s2(1) s3(1) s4(1) by (simp_all add: dma_write_u32_def ads)
  have ww: "Bus_write_word ops b a v = (Inr (), b\<lparr>bus_ram_regions := m4\<rparr>)"
    using s1(2) [of ops] s2(2) [of ops] s3(2) [of ops] s4(2) [of ops] assms(2)
    by (simp add: Bus_write_word_def Memory_write_word_def check_alignment_4 Addr_add_def)
  then have "Bus_read_word ops (b\<lparr>bus_ram_regions := m4\<rparr>) a = (Inr v, b\<lparr>bus_ram_regions := m4\<rparr>)"
    using bus_store.word_round_trip [of b a ops v] assms(1,2)
    by (simp add: Bus_write_word_def Bus_read_word_def bus_store.holds_range_def)
  with ms ww show ?thesis by simp
qed

theorem dma_store_seen_by_cpu_witness:
  "\<exists>r ms. dma_write_u32 (bus_ram_regions small_bus) (ucast (0x80000004 :: addr)) 7 = (r, ms) \<and>
     Bus_read_word no_ops (small_bus\<lparr>bus_ram_regions := ms\<rparr>) 0x80000004
       = (Inr 7, small_bus\<lparr>bus_ram_regions := ms\<rparr>)"
proof -
  obtain r ms where d: "dma_write_u32 (bus_ram_regions small_bus) (ucast (0x80000004 :: addr)) 7 = (r, ms)"
    by fastforce
  with dma_store_seen_by_cpu [OF small_bus_holds _ d, of no_ops] show ?thesis by simp
qed

text \<open>The doorbell's write-one-to-clear status is cleared by any byte store to it: storing zero to
  one of its upper bytes, which names neither the done nor the error bit, clears both, because the
  byte store first reads the register back, set bits included, and then writes the whole word.\<close>

theorem doorbell_status_cleared_by_other_byte:
  assumes "off \<in> {0x105, 0x106, 0x107}"
  shows "Bus_write_byte ops b (ACC_DOORBELL_BASE + off) 0 =
    (Inr (), b\<lparr>bus_acc_doorbell := (bus_acc_doorbell b)\<lparr>ad_status :=
       (ad_status (bus_acc_doorbell b) AND NOT ACC_DONE) AND NOT ACC_ERROR\<rparr>\<rparr>)"
proof -
  let ?s = "ad_status (bus_acc_doorbell b)"
  let ?c = "Bus_set_reg_u8 ?s off 0"
  have m: "(0xFF :: u32) = mask 8" by (simp add: mask_eq_exp_minus_1)
  have c: "bit ?c n = bit ?s n" if "n < 8" for n
    using assms that unfolding Bus_set_reg_u8_def Let_def m by (auto simp: bit_simps dest: bit_imp_le_length)
  have clear: "(if flag ?c (bitm n) then x AND NOT (bitm n) else x) = x AND NOT (bitm n)"
    if "bit x n = bit ?s n" "n < 8" for x n
    by (rule bit_word_eqI) (use that c [OF that(2)] in \<open>auto simp: flag_bitm bit_simps\<close>)
  have s1: "(if flag ?c ACC_DONE then ?s AND NOT ACC_DONE else ?s) = ?s AND NOT ACC_DONE"
    unfolding ACC_DONE_def by (rule clear) simp_all
  have s2: "(if flag ?c ACC_ERROR then (?s AND NOT ACC_DONE) AND NOT ACC_ERROR else ?s AND NOT ACC_DONE)
      = (?s AND NOT ACC_DONE) AND NOT ACC_ERROR"
    unfolding ACC_DONE_def ACC_ERROR_def by (rule clear) (simp_all add: bit_simps)
  have "Bus_try_write_acc_mmio ops b (ACC_DOORBELL_BASE + off) 0 =
      Some (Bus_write_acc_doorbell_u32 ops b 0x104 ?c)"
    using assms by (auto simp: Bus_try_write_acc_mmio_def in_window_def acc_bases Let_def word_le_nat_alt
        word_less_nat_alt Bus_read_acc_doorbell_u32_def Bus_set_reg_u8_def)
  then show ?thesis
    by (simp only: Bus_write_byte_def Bus_write_acc_doorbell_u32_def Let_def s1 s2 option.case) simp
qed

theorem doorbell_status_cleared_by_other_byte_witness:
  "Bus_write_byte no_ops (small_bus\<lparr>bus_acc_doorbell := AccDoorbellState_default\<lparr>ad_status := ACC_DONE\<rparr>\<rparr>)
     (ACC_DOORBELL_BASE + 0x105) 0 =
   (Inr (), small_bus\<lparr>bus_acc_doorbell := AccDoorbellState_default\<lparr>ad_status := (ACC_DONE AND NOT ACC_DONE) AND NOT ACC_ERROR\<rparr>\<rparr>)"
  by (subst doorbell_status_cleared_by_other_byte) simp_all

text \<open>Ringing the doorbell for an engine that does not exist is refused: one submission and one
  error are counted in both register blocks, the status shows the error only, and no memory or device
  is touched.\<close>

theorem doorbell_invalid_engine:
  assumes "3 < ad_engine (bus_acc_doorbell b)" "v \<noteq> 0"
  shows "\<exists>b'. Bus_write_acc_doorbell_u32 ops b 0x118 v = (Inl PeripheralErr, b') \<and>
    bus_ram_regions b' = bus_ram_regions b \<and> bus_peripherals b' = bus_peripherals b \<and>
    ad_status (bus_acc_doorbell b') = ACC_ERROR \<and>
    ad_submit_count (bus_acc_doorbell b') = ad_submit_count (bus_acc_doorbell b) + 1 \<and>
    ad_error_count (bus_acc_doorbell b') = ad_error_count (bus_acc_doorbell b) + 1 \<and>
    ar_submits (bus_acc_root b') = ar_submits (bus_acc_root b) + 1 \<and>
    ar_errors (bus_acc_root b') = ar_errors (bus_acc_root b) + 1 \<and>
    ar_completes (bus_acc_root b') = ar_completes (bus_acc_root b)"
  using assms by (simp add: Bus_write_acc_doorbell_u32_def Let_def Bus_submit_acc_doorbell_def)

theorem doorbell_invalid_engine_witness:
  "\<exists>b'. Bus_write_acc_doorbell_u32 no_ops (small_bus\<lparr>bus_acc_doorbell := AccDoorbellState_default\<lparr>ad_engine := 9\<rparr>\<rparr>)
     0x118 1 = (Inl PeripheralErr, b') \<and> ad_status (bus_acc_doorbell b') = ACC_ERROR"
  using doorbell_invalid_engine [of "small_bus\<lparr>bus_acc_doorbell := AccDoorbellState_default\<lparr>ad_engine := 9\<rparr>\<rparr>" 1 no_ops]
  by (auto simp: word_less_nat_alt)

end
