(* ===== verification/Tlb_Model.thy ===== *)
theory Tlb_Model
  imports Core_Types
begin

text \<open>
  The translation lookaside buffer of \<open>src/src/cpu/tlb.rs\<close>: 32 entries replaced round robin,
  tagged with an address-space identifier.  \<open>tlb_view\<close> is the partial map from address space and
  virtual page to the entry a lookup finds; the lemmas describe every operation as an update of that
  map.  The \<open>rwxu\<close> byte packs the permission bits, R in bit 0 to U in bit 3.
\<close>

definition TLB_SIZE :: nat where "TLB_SIZE = 32"

record tlb_lookup_result =
  lr_paddr :: addr
  lr_rwxu :: u8

record tlb_entry =
  te_valid :: bool
  te_asid :: u16
  te_vpn :: u32
  te_ppn :: u32
  te_rwxu :: u8

definition TlbEntry_default :: tlb_entry where
  "TlbEntry_default = \<lparr>te_valid = False, te_asid = 0, te_vpn = 0, te_ppn = 0, te_rwxu = 0\<rparr>"

record tlb_stats =
  ts_lookups :: u64
  ts_hits :: u64
  ts_misses :: u64
  ts_flushes :: u64

definition TlbStats_default :: tlb_stats where
  "TlbStats_default = \<lparr>ts_lookups = 0, ts_hits = 0, ts_misses = 0, ts_flushes = 0\<rparr>"

definition vpn :: "addr \<Rightarrow> u32" where
  "vpn a = drop_bit 12 a"

definition page_offset :: "addr \<Rightarrow> u32" where
  "page_offset a = a AND 0xFFF"

fun check_permission :: "u8 \<Rightarrow> access \<Rightarrow> bool" where
  "check_permission rwxu Instruction = flag rwxu 0x04"
| "check_permission rwxu Load = (flag rwxu 0x01 \<or> flag rwxu 0x04)"
| "check_permission rwxu Store = flag rwxu 0x02"

record tlb =
  tlb_entries :: "tlb_entry list"
  tlb_next :: nat
  tlb_stats :: tlb_stats

definition Tlb_new :: tlb where
  "Tlb_new = \<lparr>tlb_entries = replicate TLB_SIZE TlbEntry_default, tlb_next = 0, tlb_stats = TlbStats_default\<rparr>"

definition te_matches :: "u16 \<Rightarrow> u32 \<Rightarrow> tlb_entry \<Rightarrow> bool" where
  "te_matches asid p e \<longleftrightarrow> te_valid e \<and> te_asid e = asid \<and> te_vpn e = p"

text \<open>The statistics a lookup leaves, by whether it hit.\<close>

definition count_lookup :: "bool \<Rightarrow> tlb_stats \<Rightarrow> tlb_stats" where
  "count_lookup hit s =
     (let s = s\<lparr>ts_lookups := ts_lookups s + 1\<rparr>
      in if hit then s\<lparr>ts_hits := ts_hits s + 1\<rparr> else s\<lparr>ts_misses := ts_misses s + 1\<rparr>)"

text \<open>The loop stops at the first entry that matches, even when its permissions refuse the access.\<close>

definition Tlb_lookup :: "tlb \<Rightarrow> addr \<Rightarrow> u16 \<Rightarrow> access \<Rightarrow> tlb_lookup_result option \<times> tlb" where
  "Tlb_lookup t a asid acc =
     (case find (te_matches asid (vpn a)) (tlb_entries t) of
        None \<Rightarrow> (None, t\<lparr>tlb_stats := count_lookup False (tlb_stats t)\<rparr>)
      | Some e \<Rightarrow>
          if \<not> check_permission (te_rwxu e) acc
          then (None, t\<lparr>tlb_stats := count_lookup False (tlb_stats t)\<rparr>)
          else (Some \<lparr>lr_paddr = push_bit 12 (te_ppn e) OR page_offset a, lr_rwxu = te_rwxu e\<rparr>,
                t\<lparr>tlb_stats := count_lookup True (tlb_stats t)\<rparr>))"

definition Tlb_insert :: "tlb \<Rightarrow> addr \<Rightarrow> addr \<Rightarrow> u16 \<Rightarrow> u8 \<Rightarrow> tlb" where
  "Tlb_insert t a pa asid rwxu =
     t\<lparr>tlb_next := (tlb_next t + 1) mod TLB_SIZE,
       tlb_entries := (tlb_entries t)[tlb_next t :=
         \<lparr>te_valid = True, te_asid = asid, te_vpn = vpn a, te_ppn = drop_bit 12 pa, te_rwxu = rwxu\<rparr>]\<rparr>"

text \<open>The body the three flushes share: the selected entries fall back to the default.\<close>

definition tlb_flush_where :: "(tlb_entry \<Rightarrow> bool) \<Rightarrow> tlb \<Rightarrow> tlb" where
  "tlb_flush_where sel t =
     t\<lparr>tlb_entries := map (\<lambda>e. if sel e then TlbEntry_default else e) (tlb_entries t),
       tlb_stats := (tlb_stats t)\<lparr>ts_flushes := ts_flushes (tlb_stats t) + 1\<rparr>\<rparr>"

definition Tlb_flush_all :: "tlb \<Rightarrow> tlb" where
  "Tlb_flush_all t = tlb_flush_where (\<lambda>e. True) t"

definition Tlb_flush_asid :: "tlb \<Rightarrow> u16 \<Rightarrow> tlb" where
  "Tlb_flush_asid t asid = tlb_flush_where (\<lambda>e. te_valid e \<and> te_asid e = asid) t"

definition Tlb_flush_vaddr :: "tlb \<Rightarrow> addr \<Rightarrow> u16 \<Rightarrow> tlb" where
  "Tlb_flush_vaddr t a asid = tlb_flush_where (te_matches asid (vpn a)) t"

definition Tlb_reset :: "tlb \<Rightarrow> tlb" where
  "Tlb_reset t = t\<lparr>tlb_entries := map (\<lambda>_. TlbEntry_default) (tlb_entries t), tlb_next := 0,
     tlb_stats := TlbStats_default\<rparr>"

definition Tlb_snapshot :: "tlb \<Rightarrow> nat \<Rightarrow> tlb_entry list" where
  "Tlb_snapshot t limit = take limit (filter te_valid (tlb_entries t))"

subsection \<open>The map a TLB implements\<close>

definition tlb_view :: "tlb \<Rightarrow> u16 \<times> u32 \<Rightarrow> tlb_entry option" where
  "tlb_view t = (\<lambda>(asid, p). find (te_matches asid p) (tlb_entries t))"

definition tlb_wf :: "tlb \<Rightarrow> bool" where
  "tlb_wf t \<longleftrightarrow> length (tlb_entries t) = TLB_SIZE \<and> tlb_next t < TLB_SIZE"

text \<open>What a translation through an entry is worth to an access.\<close>

definition entry_answer :: "addr \<Rightarrow> access \<Rightarrow> tlb_entry \<Rightarrow> tlb_lookup_result option" where
  "entry_answer a acc e =
     (if check_permission (te_rwxu e) acc
      then Some \<lparr>lr_paddr = push_bit 12 (te_ppn e) OR page_offset a, lr_rwxu = te_rwxu e\<rparr> else None)"

lemma lookup_view: "fst (Tlb_lookup t a asid acc) = Option.bind (tlb_view t (asid, vpn a)) (entry_answer a acc)"
  by (simp add: Tlb_lookup_def tlb_view_def entry_answer_def split: option.splits)

lemma lookup_keeps [simp]:
  "tlb_entries (snd (Tlb_lookup t a asid acc)) = tlb_entries t"
  "tlb_next (snd (Tlb_lookup t a asid acc)) = tlb_next t"
  "tlb_view (snd (Tlb_lookup t a asid acc)) = tlb_view t"
  by (simp_all add: Tlb_lookup_def tlb_view_def split: option.splits)

lemma default_matches [simp]: "\<not> te_matches asid p TlbEntry_default"
  by (simp add: te_matches_def TlbEntry_default_def)

lemma find_SomeD: "find P xs = Some x \<Longrightarrow> P x \<and> x \<in> set xs"
  by (induction xs) (auto split: if_splits)

lemma find_flush:
  assumes d: "\<not> P TlbEntry_default" and sel: "\<And>e e'. P e \<Longrightarrow> P e' \<Longrightarrow> sel e = sel e'"
  shows "find P (map (\<lambda>e. if sel e then TlbEntry_default else e) es) =
    (case find P es of Some e \<Rightarrow> if sel e then None else Some e | None \<Rightarrow> None)"
proof (induction es)
  case (Cons e es)
  have rest: "find P (map (\<lambda>e. if sel e then TlbEntry_default else e) es) = None" if "P e" "sel e"
    unfolding Cons using sel [OF that(1)] that(2) by (cases "find P es") (auto dest: find_SomeD)
  show ?case
  proof (cases "P e")
    case True
    then show ?thesis using rest d by simp
  next
    case False
    then show ?thesis using Cons d by simp
  qed
qed simp

lemma view_flush:
  assumes "\<And>e e'. te_matches asid p e \<Longrightarrow> te_matches asid p e' \<Longrightarrow> sel e = sel e'"
  shows "tlb_view (tlb_flush_where sel t) (asid, p) =
    (case tlb_view t (asid, p) of Some e \<Rightarrow> if sel e then None else Some e | None \<Rightarrow> None)"
  unfolding tlb_view_def tlb_flush_where_def
  using find_flush [of "te_matches asid p" sel "tlb_entries t", OF default_matches assms] by simp

lemma view_SomeD: "tlb_view t (asid, p) = Some e \<Longrightarrow> te_matches asid p e \<and> e \<in> set (tlb_entries t)"
  by (auto simp: tlb_view_def dest: find_SomeD)

lemma view_flush_all: "tlb_view (Tlb_flush_all t) = Map.empty"
  by (rule ext) (auto simp: Tlb_flush_all_def view_flush split: option.splits)

lemma view_flush_asid:
  "tlb_view (Tlb_flush_asid t asid) = (\<lambda>(i, p). if i = asid then None else tlb_view t (i, p))"
proof (rule ext)
  fix k :: "u16 \<times> u32"
  obtain i p where k: "k = (i, p)" by (cases k)
  have "tlb_view (Tlb_flush_asid t asid) (i, p) = (case tlb_view t (i, p) of
      Some e \<Rightarrow> if te_valid e \<and> te_asid e = asid then None else Some e | None \<Rightarrow> None)"
    unfolding Tlb_flush_asid_def by (rule view_flush) (auto simp: te_matches_def)
  then show "tlb_view (Tlb_flush_asid t asid) k = (case k of (i, p) \<Rightarrow> if i = asid then None else tlb_view t (i, p))"
    by (cases "tlb_view t (i, p)") (auto simp: k te_matches_def dest!: view_SomeD)
qed

lemma view_flush_vaddr:
  "tlb_view (Tlb_flush_vaddr t a asid) = (tlb_view t)((asid, vpn a) := None)"
proof (rule ext)
  fix k :: "u16 \<times> u32"
  obtain i p where k: "k = (i, p)" by (cases k)
  have "tlb_view (Tlb_flush_vaddr t a asid) (i, p) = (case tlb_view t (i, p) of
      Some e \<Rightarrow> if te_matches asid (vpn a) e then None else Some e | None \<Rightarrow> None)"
    unfolding Tlb_flush_vaddr_def by (rule view_flush) (auto simp: te_matches_def)
  then show "tlb_view (Tlb_flush_vaddr t a asid) k = ((tlb_view t)((asid, vpn a) := None)) k"
    by (cases "tlb_view t (i, p)") (auto simp: k te_matches_def dest!: view_SomeD)
qed

subsection \<open>Insertion\<close>

text \<open>The slot that an insertion overwrites is the oldest one; the page is translated by the new
  entry unless an older entry for the same page comes first in the array.\<close>

lemma find_list_update_fresh:
  assumes "\<forall>e \<in> set xs. \<not> P e" "P x" "n < length xs"
  shows "find P (xs[n := x]) = Some x"
  using assms
proof (induction xs arbitrary: n)
  case (Cons y xs)
  then show ?case by (cases n) auto
qed simp

lemma find_list_update_other:
  assumes "\<not> P x" "n < length xs" "\<not> P (xs ! n)"
  shows "find P (xs[n := x]) = find P xs"
  using assms
proof (induction xs arbitrary: n)
  case (Cons y xs)
  then show ?case by (cases n) auto
qed simp

lemma insert_shape:
  "tlb_entries (Tlb_insert t a pa asid rwxu) = (tlb_entries t)[tlb_next t :=
     \<lparr>te_valid = True, te_asid = asid, te_vpn = vpn a, te_ppn = drop_bit 12 pa, te_rwxu = rwxu\<rparr>]"
  by (simp add: Tlb_insert_def)

lemma tlb_view_None: "tlb_view t (asid, p) = None \<longleftrightarrow> (\<forall>e \<in> set (tlb_entries t). \<not> te_matches asid p e)"
  by (auto simp: tlb_view_def find_None_iff)

lemma view_insert_same:
  assumes "tlb_wf t" "tlb_view t (asid, vpn a) = None"
  shows "tlb_view (Tlb_insert t a pa asid rwxu) (asid, vpn a) =
    Some \<lparr>te_valid = True, te_asid = asid, te_vpn = vpn a, te_ppn = drop_bit 12 pa, te_rwxu = rwxu\<rparr>"
  using assms unfolding tlb_view_None
  by (simp add: tlb_view_def insert_shape find_list_update_fresh te_matches_def tlb_wf_def)

lemma view_insert_other:
  assumes "tlb_wf t" "(i, p) \<noteq> (asid, vpn a)" "\<not> te_matches i p (tlb_entries t ! tlb_next t)"
  shows "tlb_view (Tlb_insert t a pa asid rwxu) (i, p) = tlb_view t (i, p)"
  using assms by (auto simp: tlb_view_def insert_shape find_list_update_other te_matches_def tlb_wf_def)

lemma tlb_wf_ops:
  "tlb_wf Tlb_new"
  "tlb_wf t \<Longrightarrow> tlb_wf (snd (Tlb_lookup t a asid acc))"
  "tlb_wf t \<Longrightarrow> tlb_wf (Tlb_insert t a pa asid rwxu)"
  "tlb_wf t \<Longrightarrow> tlb_wf (tlb_flush_where sel t)"
  "tlb_wf t \<Longrightarrow> tlb_wf (Tlb_reset t)"
  by (simp_all add: tlb_wf_def Tlb_new_def TLB_SIZE_def Tlb_insert_def tlb_flush_where_def Tlb_reset_def)

text \<open>The states a TLB can get into.\<close>

inductive tlb_reachable :: "tlb \<Rightarrow> bool" where
  new: "tlb_reachable Tlb_new"
| lookup: "tlb_reachable t \<Longrightarrow> Tlb_lookup t a asid acc = (r, t') \<Longrightarrow> tlb_reachable t'"
| insert: "tlb_reachable t \<Longrightarrow> tlb_reachable (Tlb_insert t a pa asid rwxu)"
| flush_all: "tlb_reachable t \<Longrightarrow> tlb_reachable (Tlb_flush_all t)"
| flush_asid: "tlb_reachable t \<Longrightarrow> tlb_reachable (Tlb_flush_asid t asid)"
| flush_vaddr: "tlb_reachable t \<Longrightarrow> tlb_reachable (Tlb_flush_vaddr t a asid)"
| reset: "tlb_reachable t \<Longrightarrow> tlb_reachable (Tlb_reset t)"

lemma tlb_reachable_wf: "tlb_reachable t \<Longrightarrow> tlb_wf t"
proof (induction rule: tlb_reachable.induct)
  case (lookup t a asid acc r t')
  then show ?case using tlb_wf_ops(2) [of t a asid acc] by simp
qed (auto simp: tlb_wf_ops Tlb_flush_all_def Tlb_flush_asid_def Tlb_flush_vaddr_def)

subsection \<open>Properties\<close>

text \<open>A translation just inserted for a page that had none is the one every later access to the
  page gets: the physical page of the insertion with the offset of the access, with the inserted
  permissions.  Other pages keep their translation unless they held the slot being replaced.\<close>

theorem tlb_lookup_after_insert:
  assumes "tlb_reachable t" "tlb_view t (asid, vpn a) = None"
    and "vpn a' = vpn a" "check_permission rwxu acc"
  shows "fst (Tlb_lookup (Tlb_insert t a pa asid rwxu) a' asid acc) =
      Some \<lparr>lr_paddr = (pa AND NOT 0xFFF) OR (a' AND 0xFFF), lr_rwxu = rwxu\<rparr> \<and>
    (\<forall>i b acc'. (i, vpn b) \<noteq> (asid, vpn a) \<longrightarrow> \<not> te_matches i (vpn b) (tlb_entries t ! tlb_next t) \<longrightarrow>
      fst (Tlb_lookup (Tlb_insert t a pa asid rwxu) b i acc') = fst (Tlb_lookup t b i acc'))"
proof -
  have m: "(0xFFF :: u32) = mask 12" by (simp add: mask_eq_exp_minus_1)
  have "push_bit 12 (drop_bit 12 pa) = pa AND NOT 0xFFF"
    unfolding m by (rule bit_word_eqI) (auto simp: bit_simps)
  then show ?thesis
    using assms view_insert_same [OF tlb_reachable_wf [OF assms(1)] assms(2)]
      view_insert_other [OF tlb_reachable_wf [OF assms(1)]]
    by (simp add: lookup_view entry_answer_def page_offset_def)
qed

theorem tlb_lookup_after_insert_witness:
  "fst (Tlb_lookup (Tlb_insert Tlb_new 0x400123 0x80005000 1 3) 0x400FFC 1 Store) =
     Some \<lparr>lr_paddr = 0x80005FFC, lr_rwxu = 3\<rparr>"
proof -
  have "tlb_view Tlb_new (1, vpn 0x400123) = None"
    by (simp add: tlb_view_None Tlb_new_def)
  moreover have "vpn 0x400FFC = vpn 0x400123" "check_permission 3 Store" by code_simp+
  moreover have "((0x80005000 :: u32) AND NOT 0xFFF) OR (0x400FFC AND 0xFFF) = 0x80005FFC" by code_simp
  ultimately show ?thesis
    using tlb_lookup_after_insert [OF tlb_reachable.new, of 1 "0x400123" "0x400FFC" 3 Store "0x80005000"] by simp
qed

text \<open>A flush removes exactly what it names: after flushing an address, an address space or
  everything, the accesses to the named page, address space or any page miss, and every other access
  gets the answer it got before.\<close>

theorem tlb_flush_exact:
  "fst (Tlb_lookup (Tlb_flush_vaddr t a asid) b i acc) =
     (if i = asid \<and> vpn b = vpn a then None else fst (Tlb_lookup t b i acc)) \<and>
   fst (Tlb_lookup (Tlb_flush_asid t asid) b i acc) =
     (if i = asid then None else fst (Tlb_lookup t b i acc)) \<and>
   fst (Tlb_lookup (Tlb_flush_all t) b i acc) = None"
  by (simp add: lookup_view view_flush_vaddr view_flush_asid view_flush_all)

text \<open>In every reachable state the table has its 32 entries, the next victim is one of them, and
  the statistics balance: hits and misses add up to the lookups.\<close>

theorem tlb_statistics_balance:
  assumes "tlb_reachable t"
  shows "length (tlb_entries t) = 32 \<and> tlb_next t < 32 \<and> length (Tlb_snapshot t n) \<le> 32 \<and>
    ts_hits (tlb_stats t) + ts_misses (tlb_stats t) = ts_lookups (tlb_stats t)"
proof -
  have wf: "length (tlb_entries t) = 32" "tlb_next t < 32"
    using tlb_reachable_wf [OF assms] by (simp_all add: tlb_wf_def TLB_SIZE_def)
  moreover have "length (Tlb_snapshot t n) \<le> 32"
    using wf(1) length_filter_le [of te_valid "tlb_entries t"] by (simp add: Tlb_snapshot_def min_def)
  moreover have "ts_hits (tlb_stats t) + ts_misses (tlb_stats t) = ts_lookups (tlb_stats t)"
    using assms
  proof (induction rule: tlb_reachable.induct)
    case (lookup t a asid acc r t')
    have "ts_hits (count_lookup h s) + ts_misses (count_lookup h s) = ts_lookups (count_lookup h s)"
      if "ts_hits s + ts_misses s = ts_lookups s" for h s
      using that [symmetric] by (simp add: count_lookup_def Let_def)
    with lookup show ?case by (auto simp: Tlb_lookup_def split: option.splits if_splits)
  qed (simp_all add: Tlb_new_def TlbStats_default_def Tlb_insert_def tlb_flush_where_def
      Tlb_flush_all_def Tlb_flush_asid_def Tlb_flush_vaddr_def Tlb_reset_def)
  ultimately show ?thesis by blast
qed

theorem tlb_statistics_balance_witness:
  "let t = snd (Tlb_lookup Tlb_new 0x1234 0 Load)
   in ts_hits (tlb_stats t) + ts_misses (tlb_stats t) = ts_lookups (tlb_stats t)"
proof -
  obtain r t where e: "Tlb_lookup Tlb_new 0x1234 0 Load = (r, t)" by fastforce
  show ?thesis
    using tlb_statistics_balance [OF tlb_reachable.lookup [OF tlb_reachable.new e]] by (simp add: e)
qed

end
