(* ===== verification/Perf_Collector.thy ===== *)
theory Perf_Collector
  imports Perf_Counters
begin

text \<open>
  The statistics collector of \<open>src/src/cpu/perf_collector.rs\<close>: one 64-bit counter per event.
  The floating-point ratios it derives for display (\<open>ipc\<close>, \<open>cpi\<close>, \<open>stall_rate\<close> and the like) are
  left out.
\<close>

record perf_collector =
  pf_cycles :: u64
  pf_instructions_retired :: u64
  pf_load_use_stalls :: u64
  pf_control_hazards :: u64
  pf_branches_executed :: u64
  pf_branches_taken :: u64
  pf_branches_not_taken :: u64
  pf_memory_reads :: u64
  pf_memory_writes :: u64
  pf_alu_operations :: u64
  pf_csr_accesses :: u64
  pf_pipeline_flushes :: u64
  pf_interrupts_taken :: u64
  pf_exceptions_taken :: u64
  pf_branch_mispredictions :: u64
  pf_cache_hits :: u64
  pf_cache_misses :: u64
  pf_cache_writebacks :: u64
  pf_tlb_hits :: u64
  pf_tlb_misses :: u64

definition PerfCollector_new :: perf_collector where
  "PerfCollector_new = \<lparr>pf_cycles = 0, pf_instructions_retired = 0, pf_load_use_stalls = 0, pf_control_hazards = 0, pf_branches_executed = 0, pf_branches_taken = 0, pf_branches_not_taken = 0, pf_memory_reads = 0, pf_memory_writes = 0, pf_alu_operations = 0, pf_csr_accesses = 0, pf_pipeline_flushes = 0, pf_interrupts_taken = 0, pf_exceptions_taken = 0, pf_branch_mispredictions = 0, pf_cache_hits = 0, pf_cache_misses = 0, pf_cache_writebacks = 0, pf_tlb_hits = 0, pf_tlb_misses = 0\<rparr>"

fun PerfCollector_record :: "perf_collector \<Rightarrow> perf_event \<Rightarrow> perf_collector" where
  "PerfCollector_record p PE_Cycles = p\<lparr>pf_cycles := pf_cycles p + 1\<rparr>"
|  "PerfCollector_record p PE_InstructionsRetired = p\<lparr>pf_instructions_retired := pf_instructions_retired p + 1\<rparr>"
|  "PerfCollector_record p PE_LoadUseStalls = p\<lparr>pf_load_use_stalls := pf_load_use_stalls p + 1\<rparr>"
|  "PerfCollector_record p PE_ControlHazards = p\<lparr>pf_control_hazards := pf_control_hazards p + 1\<rparr>"
|  "PerfCollector_record p PE_BranchExecuted = p\<lparr>pf_branches_executed := pf_branches_executed p + 1\<rparr>"
|  "PerfCollector_record p PE_BranchTaken = p\<lparr>pf_branches_taken := pf_branches_taken p + 1\<rparr>"
|  "PerfCollector_record p PE_BranchNotTaken = p\<lparr>pf_branches_not_taken := pf_branches_not_taken p + 1\<rparr>"
|  "PerfCollector_record p PE_MemoryReads = p\<lparr>pf_memory_reads := pf_memory_reads p + 1\<rparr>"
|  "PerfCollector_record p PE_MemoryWrites = p\<lparr>pf_memory_writes := pf_memory_writes p + 1\<rparr>"
|  "PerfCollector_record p PE_AluOperations = p\<lparr>pf_alu_operations := pf_alu_operations p + 1\<rparr>"
|  "PerfCollector_record p PE_CsrAccesses = p\<lparr>pf_csr_accesses := pf_csr_accesses p + 1\<rparr>"
|  "PerfCollector_record p PE_PipelineFlushes = p\<lparr>pf_pipeline_flushes := pf_pipeline_flushes p + 1\<rparr>"
|  "PerfCollector_record p PE_InterruptsTaken = p\<lparr>pf_interrupts_taken := pf_interrupts_taken p + 1\<rparr>"
|  "PerfCollector_record p PE_ExceptionsTaken = p\<lparr>pf_exceptions_taken := pf_exceptions_taken p + 1\<rparr>"
|  "PerfCollector_record p PE_BranchMispredictions = p\<lparr>pf_branch_mispredictions := pf_branch_mispredictions p + 1\<rparr>"
|  "PerfCollector_record p PE_None = p"

definition PerfCollector_record_cache_hit :: "perf_collector \<Rightarrow> perf_collector" where
  "PerfCollector_record_cache_hit p = p\<lparr>pf_cache_hits := pf_cache_hits p + 1\<rparr>"

definition PerfCollector_record_cache_miss :: "perf_collector \<Rightarrow> perf_collector" where
  "PerfCollector_record_cache_miss p = p\<lparr>pf_cache_misses := pf_cache_misses p + 1\<rparr>"

definition PerfCollector_record_cache_writeback :: "perf_collector \<Rightarrow> perf_collector" where
  "PerfCollector_record_cache_writeback p = p\<lparr>pf_cache_writebacks := pf_cache_writebacks p + 1\<rparr>"

definition PerfCollector_record_tlb_hit :: "perf_collector \<Rightarrow> perf_collector" where
  "PerfCollector_record_tlb_hit p = p\<lparr>pf_tlb_hits := pf_tlb_hits p + 1\<rparr>"

definition PerfCollector_record_tlb_miss :: "perf_collector \<Rightarrow> perf_collector" where
  "PerfCollector_record_tlb_miss p = p\<lparr>pf_tlb_misses := pf_tlb_misses p + 1\<rparr>"

definition PerfCollector_reset :: "perf_collector \<Rightarrow> perf_collector" where
  "PerfCollector_reset p = PerfCollector_new"

definition PerfCollector_total_stalls :: "perf_collector \<Rightarrow> u64" where
  "PerfCollector_total_stalls p = pf_load_use_stalls p + pf_control_hazards p"

definition PerfCollector_merge :: "perf_collector \<Rightarrow> perf_collector \<Rightarrow> perf_collector" where
  "PerfCollector_merge p q = p\<lparr>pf_cycles := pf_cycles p + pf_cycles q,
     pf_instructions_retired := pf_instructions_retired p + pf_instructions_retired q,
     pf_load_use_stalls := pf_load_use_stalls p + pf_load_use_stalls q,
     pf_control_hazards := pf_control_hazards p + pf_control_hazards q,
     pf_branches_executed := pf_branches_executed p + pf_branches_executed q,
     pf_branches_taken := pf_branches_taken p + pf_branches_taken q,
     pf_branches_not_taken := pf_branches_not_taken p + pf_branches_not_taken q,
     pf_memory_reads := pf_memory_reads p + pf_memory_reads q,
     pf_memory_writes := pf_memory_writes p + pf_memory_writes q,
     pf_alu_operations := pf_alu_operations p + pf_alu_operations q,
     pf_csr_accesses := pf_csr_accesses p + pf_csr_accesses q,
     pf_pipeline_flushes := pf_pipeline_flushes p + pf_pipeline_flushes q,
     pf_interrupts_taken := pf_interrupts_taken p + pf_interrupts_taken q,
     pf_exceptions_taken := pf_exceptions_taken p + pf_exceptions_taken q,
     pf_branch_mispredictions := pf_branch_mispredictions p + pf_branch_mispredictions q,
     pf_cache_hits := pf_cache_hits p + pf_cache_hits q,
     pf_cache_misses := pf_cache_misses p + pf_cache_misses q,
     pf_cache_writebacks := pf_cache_writebacks p + pf_cache_writebacks q,
     pf_tlb_hits := pf_tlb_hits p + pf_tlb_hits q,
     pf_tlb_misses := pf_tlb_misses p + pf_tlb_misses q\<rparr>"

text \<open>Merging adds up: events recorded on either side before or after a merge give the same sums,
  so the collectors of separate runs can be merged in any order.\<close>

lemma merge_record: "PerfCollector_merge (PerfCollector_record p e) q = PerfCollector_record (PerfCollector_merge p q) e"
  by (cases e) (simp_all add: PerfCollector_merge_def)

lemma merge_commute: "PerfCollector_merge p q = PerfCollector_merge q p"
  by (simp add: PerfCollector_merge_def add.commute)

lemma merge_assoc: "PerfCollector_merge (PerfCollector_merge p q) r = PerfCollector_merge p (PerfCollector_merge q r)"
  by (simp add: PerfCollector_merge_def add.assoc)

lemma merge_new: "PerfCollector_merge p PerfCollector_new = p"
  by (simp add: PerfCollector_merge_def PerfCollector_new_def)

end
