(* ===== verification/Mmu_Walk.thy ===== *)
theory Mmu_Walk
  imports Csr_Regs Tlb_Model Perf_Collector Bus_Model
begin

text \<open>
  Address translation: the two-level Sv32 page-table walk of \<open>src/src/cpu/mmu.rs\<close> and the
  translation through the TLB of \<open>src/src/cpu/pipeline/mod.rs\<close> (\<open>translate_with_tlb_components\<close>).
  The walk reads and updates page-table entries through the bus.  \<open>sv32_leaf\<close> is the reference:
  the leaf entry the architecture finds, as a function of the words in memory.
\<close>

definition PTE_V :: u32 where "PTE_V = bitm 0"
definition PTE_R :: u32 where "PTE_R = bitm 1"
definition PTE_W :: u32 where "PTE_W = bitm 2"
definition PTE_X :: u32 where "PTE_X = bitm 3"
definition PTE_U :: u32 where "PTE_U = bitm 4"
definition PTE_A :: u32 where "PTE_A = bitm 6"
definition PTE_D :: u32 where "PTE_D = bitm 7"

lemmas pte_bits = PTE_V_def PTE_R_def PTE_W_def PTE_X_def PTE_U_def PTE_A_def PTE_D_def

record tlb_result =
  xr_paddr :: addr
  xr_rwxu :: u8
  xr_accessed :: bool
  xr_dirty :: bool

definition is_leaf :: "u32 \<Rightarrow> bool" where
  "is_leaf pte \<longleftrightarrow> flag pte (PTE_R OR PTE_X)"

definition is_pte_valid :: "u32 \<Rightarrow> bool" where
  "is_pte_valid pte \<longleftrightarrow> flag pte PTE_V \<and> \<not> (flag pte PTE_W \<and> \<not> flag pte PTE_R)"

definition check_leaf_permission :: "u32 \<Rightarrow> privilege \<Rightarrow> access \<Rightarrow> bool \<Rightarrow> bool \<Rightarrow> bool" where
  "check_leaf_permission pte p acc su mx =
     (let r = flag pte PTE_R; w = flag pte PTE_W; x = flag pte PTE_X; u = flag pte PTE_U
      in if p = User \<and> \<not> u then False
         else if p = Supervisor \<and> u \<and> \<not> su \<and> acc \<noteq> Instruction then False
         else if p = Supervisor \<and> u \<and> acc = Instruction then False
         else (case acc of Instruction \<Rightarrow> x | Load \<Rightarrow> r \<or> (mx \<and> x) | Store \<Rightarrow> w))"

text \<open>The entry of \<open>vpn\<close>, the array of the two page-number fields, at a level.\<close>

definition va_vpn :: "addr \<Rightarrow> nat \<Rightarrow> u32" where
  "va_vpn va level = (if level = 0 then drop_bit 12 va AND 0x3FF else drop_bit 22 va AND 0x3FF)"

definition leaf_paddr :: "nat \<Rightarrow> u32 \<Rightarrow> addr \<Rightarrow> addr" where
  "leaf_paddr level pte va =
     (let ppn = drop_bit 10 pte AND 0x003FFFFF; ppn0 = ppn AND 0x3FF; ppn1 = drop_bit 10 ppn AND 0x3FF
      in if level = 1 then push_bit 22 ppn1 OR push_bit 12 (va_vpn va 0) OR (va AND 0xFFF)
         else push_bit 22 ppn1 OR push_bit 12 ppn0 OR (va AND 0xFFF))"

text \<open>The accessed and dirty bits: the updated entry and whether it is written back.\<close>

definition update_ad :: "u32 \<Rightarrow> access \<Rightarrow> u32 \<times> bool" where
  "update_ad pte acc =
     (let (p1, wb1) = (if \<not> flag pte PTE_A then (pte OR PTE_A, True) else (pte, False))
      in if acc = Store \<and> \<not> flag pte PTE_D then (p1 OR PTE_D, True) else (p1, wb1))"

definition pte_rwxu :: "u32 \<Rightarrow> u8" where
  "pte_rwxu pte = (if flag pte PTE_R then 1 else 0) OR (if flag pte PTE_W then 2 else 0) OR
     (if flag pte PTE_X then 4 else 0) OR (if flag pte PTE_U then 8 else 0)"

text \<open>The iterations of the loop, from \<open>level\<close> down.  The write-back's own errors are ignored.\<close>

fun sv32_level :: "'d other_ops \<Rightarrow> privilege \<Rightarrow> addr \<Rightarrow> access \<Rightarrow> bool \<Rightarrow> bool \<Rightarrow> nat \<Rightarrow> addr \<Rightarrow> 'd bus \<Rightarrow>
    tlb_result result \<times> 'd bus" where
  "sv32_level ops p va acc su mx level table b =
     (let pte_addr = table + va_vpn va level * 4 in
      case Bus_read_word ops b pte_addr of
        (Inl _, b) \<Rightarrow> (Inl (PageFault va acc), b)
      | (Inr pte, b) \<Rightarrow>
          if \<not> is_pte_valid pte then (Inl (PageFault va acc), b)
          else if is_leaf pte then
            if \<not> check_leaf_permission pte p acc su mx then (Inl (PageFault va acc), b)
            else if level = 1 \<and> drop_bit 10 pte AND 0x003FFFFF AND 0x3FF \<noteq> 0
              then (Inl (PageFault va acc), b)
            else
              let (updated, need_writeback) = update_ad pte acc;
                  b = (if need_writeback then snd (Bus_write_word ops b pte_addr updated) else b)
              in (Inr \<lparr>xr_paddr = leaf_paddr level pte va, xr_rwxu = pte_rwxu pte,
                       xr_accessed = (need_writeback \<and> \<not> flag pte PTE_A),
                       xr_dirty = (acc = Store \<and> \<not> flag pte PTE_D)\<rparr>, b)
          else if level = 0 then (Inl (PageFault va acc), b)
          else sv32_level ops p va acc su mx (level - 1)
                 (push_bit 12 (drop_bit 10 pte AND 0x003FFFFF)) b)"

declare sv32_level.simps [simp del]

definition translate_sv32 :: "'d other_ops \<Rightarrow> 'd bus \<Rightarrow> u32 \<Rightarrow> privilege \<Rightarrow> addr \<Rightarrow> access \<Rightarrow> bool \<Rightarrow> bool \<Rightarrow>
    tlb_result result \<times> 'd bus" where
  "translate_sv32 ops b satp p va acc su mx =
     sv32_level ops p va acc su mx 1 (Satp_root_table_addr satp) b"

definition translate_addr_full :: "'d other_ops \<Rightarrow> 'd bus \<Rightarrow> u32 \<Rightarrow> privilege \<Rightarrow> addr \<Rightarrow> access \<Rightarrow> bool \<Rightarrow> bool \<Rightarrow>
    tlb_result result \<times> 'd bus" where
  "translate_addr_full ops b satp p va acc su mx =
     (if p = Machine \<or> \<not> Satp_is_sv32 satp
      then (Inr \<lparr>xr_paddr = va, xr_rwxu = 0xF, xr_accessed = False, xr_dirty = False\<rparr>, b)
      else translate_sv32 ops b satp p va acc su mx)"

definition translate_addr :: "'d other_ops \<Rightarrow> 'd bus \<Rightarrow> u32 \<Rightarrow> privilege \<Rightarrow> addr \<Rightarrow> access \<Rightarrow> bool \<Rightarrow> bool \<Rightarrow>
    addr result \<times> 'd bus" where
  "translate_addr ops b satp p va acc su mx =
     (if p = Machine \<or> \<not> Satp_is_sv32 satp then (Inr va, b)
      else bind_st (translate_sv32 ops b satp p va acc su mx) (\<lambda>r b. (Inr (xr_paddr r), b)))"

subsection \<open>Translation through the TLB (\<open>pipeline/mod.rs\<close>)\<close>

definition check_user_access :: "u8 \<Rightarrow> addr \<Rightarrow> access \<Rightarrow> unit result" where
  "check_user_access rwxu va acc = (if \<not> flag rwxu 0x08 then Inl (PageFault va acc) else Inr ())"

definition check_supervisor_access :: "u8 \<Rightarrow> bool \<Rightarrow> bool \<Rightarrow> addr \<Rightarrow> access \<Rightarrow> unit result" where
  "check_supervisor_access rwxu su mx va acc =
     (let u = flag rwxu 0x08
      in if u \<and> acc = Instruction then Inl (PageFault va acc)
         else if u \<and> \<not> su \<and> acc \<noteq> Instruction then Inl (PageFault va acc)
         else if acc = Load \<and> \<not> flag rwxu 0x01 \<and> \<not> (mx \<and> flag rwxu 0x04) then Inl (PageFault va acc)
         else Inr ())"

fun check_tlb_hit_access :: "privilege \<Rightarrow> u8 \<Rightarrow> bool \<Rightarrow> bool \<Rightarrow> addr \<Rightarrow> access \<Rightarrow> unit result" where
  "check_tlb_hit_access User rwxu su mx va acc = check_user_access rwxu va acc"
| "check_tlb_hit_access Supervisor rwxu su mx va acc = check_supervisor_access rwxu su mx va acc"
| "check_tlb_hit_access Machine rwxu su mx va acc = Inr ()"

definition translate_with_tlb_components :: "'d other_ops \<Rightarrow> tlb \<Rightarrow> perf_collector \<Rightarrow> 'd bus \<Rightarrow> u32 \<Rightarrow> privilege \<Rightarrow>
    bool \<Rightarrow> bool \<Rightarrow> addr \<Rightarrow> access \<Rightarrow> addr result \<times> tlb \<times> perf_collector \<times> 'd bus" where
  "translate_with_tlb_components ops t pf b satp p su mx va acc =
     (if p = Machine \<or> \<not> Satp_is_sv32 satp then (Inr va, t, pf, b)
      else
        let asid = Satp_asid satp in
        case Tlb_lookup t va asid acc of
          (Some r, t) \<Rightarrow>
            let pf = PerfCollector_record_tlb_hit pf
            in (case check_tlb_hit_access p (lr_rwxu r) su mx va acc of
                  Inl e \<Rightarrow> (Inl e, t, pf, b)
                | Inr _ \<Rightarrow> (Inr (lr_paddr r), t, pf, b))
        | (None, t) \<Rightarrow>
            let pf = PerfCollector_record_tlb_miss pf
            in (case translate_addr_full ops b satp p va acc su mx of
                  (Inl e, b) \<Rightarrow> (Inl e, t, pf, b)
                | (Inr r, b) \<Rightarrow> (Inr (xr_paddr r), Tlb_insert t va (xr_paddr r) asid (xr_rwxu r), pf, b)))"

subsection \<open>The reference walk\<close>

text \<open>The word in memory at \<open>a\<close>, and the memory holding all four of its bytes.\<close>

definition pte_word :: "'d bus \<Rightarrow> addr \<Rightarrow> u32" where
  "pte_word b a = word_of_bytes (bus_byte b a) (bus_byte b (a + 1)) (bus_byte b (a + 2)) (bus_byte b (a + 3))"

definition pte_mapped :: "'d bus \<Rightarrow> addr \<Rightarrow> bool" where
  "pte_mapped b a \<longleftrightarrow> (\<forall>i < 4. bus_holds b (a + of_nat i))"

definition entry1 :: "addr \<Rightarrow> addr \<Rightarrow> addr" where
  "entry1 root va = root + 4 * drop_bit 22 va"

definition entry0 :: "u32 \<Rightarrow> addr \<Rightarrow> addr" where
  "entry0 pte va = push_bit 12 (drop_bit 10 pte) + 4 * take_bit 10 (drop_bit 12 va)"

definition arch_valid :: "u32 \<Rightarrow> bool" where
  "arch_valid pte \<longleftrightarrow> bit pte 0 \<and> (bit pte 2 \<longrightarrow> bit pte 1)"

definition arch_leaf :: "u32 \<Rightarrow> bool" where
  "arch_leaf pte \<longleftrightarrow> bit pte 1 \<or> bit pte 3"

text \<open>The leaf entry of a virtual address: its level, its address and its value.  A superpage leaf
  must be aligned.\<close>

definition sv32_leaf :: "(addr \<Rightarrow> u32) \<Rightarrow> addr \<Rightarrow> addr \<Rightarrow> (nat \<times> addr \<times> u32) option" where
  "sv32_leaf m root va =
     (let a1 = entry1 root va; p1 = m a1; a0 = entry0 p1 va; p0 = m a0
      in if \<not> arch_valid p1 then None
         else if arch_leaf p1 then (if take_bit 10 (drop_bit 10 p1) = 0 then Some (1, a1, p1) else None)
         else if arch_valid p0 \<and> arch_leaf p0 then Some (0, a0, p0) else None)"

definition walk_mapped :: "'d bus \<Rightarrow> addr \<Rightarrow> addr \<Rightarrow> bool" where
  "walk_mapped b root va \<longleftrightarrow> pte_mapped b (entry1 root va) \<and>
     (let p1 = pte_word b (entry1 root va)
      in arch_valid p1 \<and> \<not> arch_leaf p1 \<longrightarrow> pte_mapped b (entry0 p1 va))"

definition leaf_permits :: "u32 \<Rightarrow> privilege \<Rightarrow> access \<Rightarrow> bool \<Rightarrow> bool \<Rightarrow> bool" where
  "leaf_permits pte p acc su mx \<longleftrightarrow>
     (p = User \<longrightarrow> bit pte 4) \<and> (p = Supervisor \<and> bit pte 4 \<longrightarrow> su \<and> acc \<noteq> Instruction) \<and>
     (acc = Instruction \<longrightarrow> bit pte 3) \<and> (acc = Load \<longrightarrow> bit pte 1 \<or> mx \<and> bit pte 3) \<and>
     (acc = Store \<longrightarrow> bit pte 2)"

subsection \<open>Lemmas on entries\<close>

lemma pte_flags [flag_simps]:
  "flag pte PTE_V = bit pte 0" "flag pte PTE_R = bit pte 1" "flag pte PTE_W = bit pte 2"
  "flag pte PTE_X = bit pte 3" "flag pte PTE_U = bit pte 4" "flag pte PTE_A = bit pte 6"
  "flag pte PTE_D = bit pte 7"
  by (simp_all add: pte_bits flag_bitm)

lemma is_pte_valid_arch: "is_pte_valid pte = arch_valid pte"
  by (auto simp: is_pte_valid_def arch_valid_def flag_simps)

lemma is_leaf_arch: "is_leaf pte = arch_leaf pte"
proof -
  have "flag pte (PTE_R OR PTE_X) \<longleftrightarrow> flag pte PTE_R \<or> flag pte PTE_X"
    by (simp add: flag_def bit.conj_disj_distrib or_eq_0_iff)
  then show ?thesis by (simp add: is_leaf_def arch_leaf_def flag_simps)
qed

lemma check_leaf_permission_permits: "check_leaf_permission pte p acc su mx = leaf_permits pte p acc su mx"
  by (cases acc; cases p) (auto simp: check_leaf_permission_def leaf_permits_def flag_simps Let_def)

lemma rwxu_flags:
  "flag (pte_rwxu pte) 0x01 = bit pte 1" "flag (pte_rwxu pte) 0x02 = bit pte 2"
  "flag (pte_rwxu pte) 0x04 = bit pte 3" "flag (pte_rwxu pte) 0x08 = bit pte 4"
proof -
  define r where "r = bit pte 1" define w where "w = bit pte 2"
  define x where "x = bit pte 3" define u where "u = bit pte 4"
  have e: "pte_rwxu pte = (if r then 1 else 0) OR (if w then 2 else 0) OR (if x then 4 else 0) OR (if u then 8 else 0)"
    by (simp add: pte_rwxu_def pte_flags r_def w_def x_def u_def)
  show "flag (pte_rwxu pte) 0x01 = bit pte 1" "flag (pte_rwxu pte) 0x02 = bit pte 2"
    "flag (pte_rwxu pte) 0x04 = bit pte 3" "flag (pte_rwxu pte) 0x08 = bit pte 4"
    unfolding e r_def [symmetric] w_def [symmetric] x_def [symmetric] u_def [symmetric] flag_def
    by (cases r; cases w; cases x; cases u; simp)+
qed

lemma ppn_field: "drop_bit 10 (pte :: u32) AND 0x003FFFFF = drop_bit 10 pte"
proof -
  have m: "(0x003FFFFF :: u32) = mask 22" by (simp add: mask_eq_exp_minus_1)
  show ?thesis unfolding m by (rule bit_word_eqI) (auto simp: bit_simps dest: bit_imp_le_length)
qed

lemma ten_bits: "(w :: u32) AND 0x3FF = take_bit 10 w"
proof -
  have m: "(0x3FF :: u32) = mask 10" by (simp add: mask_eq_exp_minus_1)
  show ?thesis unfolding m by (simp add: take_bit_eq_mask)
qed

lemma bit_leaf_paddr:
  assumes "n < 32" "level \<le> 1"
  shows "bit (leaf_paddr level pte va) n \<longleftrightarrow> (if n < 12 + 10 * level then bit va n else bit pte (n - 2))"
proof -
  have m: "(0xFFF :: u32) = mask 12" by (simp add: mask_eq_exp_minus_1)
  show ?thesis using assms unfolding leaf_paddr_def Let_def ppn_field ten_bits va_vpn_def m
    by (cases "level = 0") (auto simp: bit_simps less_diff_conv2)
qed

lemma table_entry:
  "push_bit 12 (drop_bit 10 pte AND 0x003FFFFF) + va_vpn va 0 * 4 = entry0 pte va"
  "root + va_vpn va 1 * 4 = entry1 root va"
proof -
  have "take_bit 10 (drop_bit 22 va) = drop_bit 22 va"
    by (rule bit_word_eqI) (auto simp: bit_simps dest: bit_imp_le_length)
  then show "push_bit 12 (drop_bit 10 pte AND 0x003FFFFF) + va_vpn va 0 * 4 = entry0 pte va"
    "root + va_vpn va 1 * 4 = entry1 root va"
    unfolding ppn_field by (simp_all add: va_vpn_def ten_bits entry0_def entry1_def)
qed

lemma times4_aligned: "unat (4 * w :: u32) mod 4 = 0"
proof -
  have "4 dvd (2 :: nat) ^ 32" by simp
  then have "(4 * unat w) mod 2 ^ 32 mod 4 = 0" by (simp add: mod_mod_cancel)
  then show ?thesis by (simp add: unat_word_ariths)
qed

lemma push_bit_12: "push_bit 12 w = 4 * (push_bit 10 w :: u32)"
  by (simp add: push_bit_eq_mult)

lemma entries_aligned: "unat (entry0 pte va) mod 4 = 0" "unat (entry1 (Satp_root_table_addr satp) va) mod 4 = 0"
  using times4_aligned [of "push_bit 10 (drop_bit 10 pte) + take_bit 10 (drop_bit 12 va)"]
    times4_aligned [of "push_bit 10 (Satp_ppn satp) + drop_bit 22 va"]
  by (simp_all add: entry0_def entry1_def Satp_root_table_addr_def push_bit_12 algebra_simps)

lemma pte_read:
  assumes "pte_mapped b a" "unat a mod 4 = 0"
  shows "Bus_read_word ops b a = (Inr (pte_word b a), b)"
  using bus_store.read_word_ok [of b a ops] assms
  by (simp add: Bus_read_word_def pte_word_def pte_mapped_def bus_store.holds_range_def)

subsection \<open>The leaf's accessed and dirty bits\<close>

definition ad_pte :: "u32 \<Rightarrow> access \<Rightarrow> u32" where
  "ad_pte pte acc = (pte OR PTE_A) OR (if acc = Store then PTE_D else 0)"

lemma or_flag_id: "flag v (bitm n) \<Longrightarrow> n < 32 \<Longrightarrow> v OR bitm n = (v :: u32)"
  by (rule bit_word_eqI) (auto simp: bit_simps flag_bitm)

lemma update_ad_spec:
  assumes "update_ad pte acc = (pte', wb)"
  shows "pte' = ad_pte pte acc \<and> (\<not> wb \<longrightarrow> ad_pte pte acc = pte)"
proof -
  have a: "flag pte PTE_A \<Longrightarrow> pte OR PTE_A = pte" and d: "flag pte PTE_D \<Longrightarrow> pte OR PTE_D = pte"
    by (simp_all add: pte_bits or_flag_id)
  have "flag pte PTE_D \<Longrightarrow> (pte OR PTE_A) OR PTE_D = pte OR PTE_A"
    using d by (simp only: or.assoc or.commute [of PTE_A PTE_D]) (simp only: or.assoc [symmetric])
  with a d assms show ?thesis by (auto simp: update_ad_def ad_pte_def split: if_splits)
qed

text \<open>Memory after the leaf's update: the entry has its bits, every other byte stays.\<close>

definition only_changes :: "addr \<Rightarrow> u32 \<Rightarrow> 'd bus \<Rightarrow> 'd bus \<Rightarrow> bool" where
  "only_changes a w b b' \<longleftrightarrow> pte_word b' a = w \<and> (\<forall>c. bus_holds b' c = bus_holds b c \<and>
     (bus_holds b c \<longrightarrow> c \<notin> {a, a + 1, a + 2, a + 3} \<longrightarrow> bus_byte b' c = bus_byte b c))"

lemma leaf_writeback:
  assumes "pte_mapped b a" "unat a mod 4 = 0" "update_ad (pte_word b a) acc = (pte', wb)"
  shows "only_changes a (ad_pte (pte_word b a) acc) b (if wb then snd (Bus_write_word ops b a pte') else b)"
proof (cases wb)
  case True
  obtain r b' where w: "Bus_write_word ops b a pte' = (r, b')" by fastforce
  note W = bus_store.write_word_ok [OF w [unfolded Bus_write_word_def] _ assms(2)]
  show ?thesis
    using W assms True w update_ad_spec [OF assms(3)] bus_store.holds_range_4 [of b a]
    by (simp add: only_changes_def pte_word_def pte_mapped_def bus_store.holds_range_def byte_simps)
next
  case False
  then show ?thesis using update_ad_spec [OF assms(3)] by (simp add: only_changes_def)
qed

text \<open>What a translation must do, given the leaf found: fault, or answer with the leaf's page and
  permissions and set its bits.\<close>

definition walk_outcome :: "(nat \<times> addr \<times> u32) option \<Rightarrow> privilege \<Rightarrow> addr \<Rightarrow> access \<Rightarrow> bool \<Rightarrow> bool \<Rightarrow>
    'd bus \<Rightarrow> tlb_result result \<times> 'd bus \<Rightarrow> bool" where
  "walk_outcome leaf p va acc su mx b res =
     (case leaf of
        None \<Rightarrow> res = (Inl (PageFault va acc), b)
      | Some (level, a, pte) \<Rightarrow>
          if \<not> leaf_permits pte p acc su mx then res = (Inl (PageFault va acc), b)
          else (\<exists>r b'. res = (Inr r, b') \<and>
            (\<forall>n < 32. bit (xr_paddr r) n \<longleftrightarrow> (if n < 12 + 10 * level then bit va n else bit pte (n - 2))) \<and>
            xr_rwxu r = pte_rwxu pte \<and> only_changes a (ad_pte pte acc) b b'))"

lemma sv32_leaf_step:
  assumes "pte_mapped b a" "unat a mod 4 = 0" "table + va_vpn va level * 4 = a" "level \<le> 1"
    "pte_word b a = pte" "arch_valid pte" "arch_leaf pte"
  shows "walk_outcome (if level = 1 \<and> take_bit 10 (drop_bit 10 pte) \<noteq> 0 then None else Some (level, a, pte))
    p va acc su mx b (sv32_level ops p va acc su mx level table b)"
proof -
  obtain pte' wb where u: "update_ad pte acc = (pte', wb)" by fastforce
  note wr = leaf_writeback [of b a acc pte' wb ops, OF assms(1,2)]
  have ro: "drop_bit 10 pte AND 0x003FFFFF AND 0x3FF = take_bit 10 (drop_bit 10 pte)"
    by (simp add: ten_bits [symmetric])
  show ?thesis
    unfolding walk_outcome_def sv32_level.simps [of ops p va acc su mx level table b] Let_def assms(3) ro
    using assms u wr bit_leaf_paddr [OF _ assms(4), of _ pte va]
    by (auto simp: pte_read is_pte_valid_arch is_leaf_arch check_leaf_permission_permits ten_bits)
qed

lemma walk_refines:
  assumes "walk_mapped b (Satp_root_table_addr satp) va"
  shows "walk_outcome (sv32_leaf (pte_word b) (Satp_root_table_addr satp) va) p va acc su mx b
    (translate_sv32 ops b satp p va acc su mx)"
proof -
  let ?root = "Satp_root_table_addr satp"
  let ?a1 = "entry1 ?root va" let ?p1 = "pte_word b ?a1"
  let ?a0 = "entry0 ?p1 va" let ?p0 = "pte_word b ?a0"
  have m1: "pte_mapped b ?a1" and al1: "unat ?a1 mod 4 = 0"
    using assms by (simp_all add: walk_mapped_def Let_def entries_aligned)
  note step1 = sv32_level.simps [of ops p va acc su mx 1 ?root b, unfolded Let_def table_entry pte_read [OF m1 al1]]
  consider (invalid) "\<not> arch_valid ?p1" | (leaf) "arch_valid ?p1" "arch_leaf ?p1"
    | (next_level) "arch_valid ?p1" "\<not> arch_leaf ?p1" by blast
  then show ?thesis
  proof cases
    case invalid
    then show ?thesis using step1
      by (simp add: translate_sv32_def walk_outcome_def sv32_leaf_def Let_def is_pte_valid_arch)
  next
    case leaf
    then show ?thesis
      using sv32_leaf_step [OF m1 al1 table_entry(2) _ refl leaf, of p acc su mx ops]
      by (auto simp: translate_sv32_def sv32_leaf_def Let_def)
  next
    case next_level
    then have m0: "pte_mapped b ?a0" using assms by (simp add: walk_mapped_def Let_def)
    have al0: "unat ?a0 mod 4 = 0" by (rule entries_aligned)
    have lv0: "translate_sv32 ops b satp p va acc su mx =
        sv32_level ops p va acc su mx 0 (push_bit 12 (drop_bit 10 ?p1 AND 0x003FFFFF)) b"
      using next_level step1 by (simp add: translate_sv32_def is_pte_valid_arch is_leaf_arch)
    show ?thesis
    proof (cases "arch_valid ?p0 \<and> arch_leaf ?p0")
      case True
      then show ?thesis
        using sv32_leaf_step [OF m0 al0 table_entry(1) _ refl, of p acc su mx ops] next_level
        by (simp add: lv0 sv32_leaf_def Let_def)
    next
      case False
      note step0 = sv32_level.simps [of ops p va acc su mx 0 "push_bit 12 (drop_bit 10 ?p1 AND 0x003FFFFF)" b,
          unfolded Let_def table_entry pte_read [OF m0 al0]]
      show ?thesis unfolding lv0 step0 using False next_level
        by (auto simp: Let_def sv32_leaf_def walk_outcome_def is_pte_valid_arch is_leaf_arch)
    qed
  qed
qed

subsection \<open>Properties\<close>

text \<open>C27: The page-table walk implements Sv32: where memory holds the entries it visits, it faults and
  changes nothing exactly when there is no valid leaf, the superpage is misaligned or the leaf's
  permissions refuse the access; otherwise the physical address joins the leaf's page number with the
  offset of the page or superpage, the permissions returned are the leaf's, and the only bytes that
  change are the leaf's, where the accessed bit and, for a store, the dirty bit are set.\<close>

theorem sv32_walk_refines:
  assumes "walk_mapped b (Satp_root_table_addr satp) va"
  shows "walk_outcome (sv32_leaf (pte_word b) (Satp_root_table_addr satp) va) p va acc su mx b
    (translate_sv32 ops b satp p va acc su mx)"
  using assms by (rule walk_refines)

definition mmu_bus :: "unit bus" where
  "mmu_bus = Bus_attach_memory Bus_new 0x80000000 (MD_Ram (Ram_from_data_with_base 0 [0x0F, 0, 0, 0x20]))"

lemma mmu_ram_at:
  "ram_at (0x80000000 + of_nat i) (bus_ram_regions mmu_bus) = (if i < 4 then Some ([0x0F, 0, 0, 0x20] ! i) else None)"
  if "i < 8"
proof -
  have "i = 0 \<or> i = 1 \<or> i = 2 \<or> i = 3 \<or> i = 4 \<or> i = 5 \<or> i = 6 \<or> i = 7" using that by auto
  then show ?thesis
    by (elim disjE) (simp_all add: mmu_bus_def Bus_attach_memory_def Bus_new_def in_region_def
        Ram_contains_def Ram_from_data_with_base_def Ram_size_def Ram_read_byte_def)
qed

lemma mmu_bus_word:
  "entry1 (Satp_root_table_addr 0x80080000) 0x1234 = 0x80000000" "pte_mapped mmu_bus 0x80000000"
  "pte_word mmu_bus 0x80000000 = 0x2000000F" "arch_valid 0x2000000F" "arch_leaf 0x2000000F"
  "take_bit 10 (drop_bit 10 (0x2000000F :: u32)) = 0"
proof -
  have "bus_peripherals mmu_bus = []" by (simp add: mmu_bus_def Bus_attach_memory_def Bus_new_def)
  moreover have "\<not> in_window ACC_CTRL_ROOT_BASE (0x80000000 + of_nat i) \<and> \<not> in_window ACC_DOORBELL_BASE (0x80000000 + of_nat i)"
    if "i < 4" for i
  proof -
    have "i = 0 \<or> i = 1 \<or> i = 2 \<or> i = 3" using that by auto
    then show ?thesis by (elim disjE) (simp_all add: in_window_def acc_bases word_le_nat_alt word_less_nat_alt)
  qed
  ultimately show "pte_mapped mmu_bus 0x80000000"
    using mmu_ram_at by (simp add: pte_mapped_def bus_holds_def peripheral_at_def)
  have "bus_byte mmu_bus (0x80000000 + of_nat i) = [0x0F, 0, 0, 0x20] ! i" if "i < 4" for i
    using that mmu_ram_at [of i] by (simp add: bus_byte_def)
  from this [of 0] this [of 1] this [of 2] this [of 3]
  show "pte_word mmu_bus 0x80000000 = 0x2000000F" by (simp add: pte_word_def word_of_bytes_def)
qed code_simp+

lemma mmu_bus_facts:
  "walk_mapped mmu_bus (Satp_root_table_addr 0x80080000) 0x1234"
  "sv32_leaf (pte_word mmu_bus) (Satp_root_table_addr 0x80080000) 0x1234 = Some (1, 0x80000000, 0x2000000F)"
  by (simp_all add: walk_mapped_def sv32_leaf_def mmu_bus_word)

theorem sv32_walk_refines_witness:
  "\<exists>r b'. translate_sv32 no_ops mmu_bus 0x80080000 Supervisor 0x1234 Store False False = (Inr r, b') \<and>
     xr_rwxu r = 7 \<and> pte_word b' 0x80000000 = 0x200000CF"
proof -
  have "leaf_permits 0x2000000F Supervisor Store False False" "pte_rwxu 0x2000000F = 7"
    "ad_pte 0x2000000F Store = 0x200000CF" by code_simp+
  then show ?thesis
    using sv32_walk_refines [OF mmu_bus_facts(1), of Supervisor Store False False no_ops]
    by (auto simp: mmu_bus_facts(2) walk_outcome_def only_changes_def)
qed

text \<open>Whatever memory holds, a walk that answers does so from an entry that permits the access.\<close>

lemma sv32_level_sound:
  "sv32_level ops p va acc su mx level table b = (Inr r, b') \<Longrightarrow>
    \<exists>pte. xr_rwxu r = pte_rwxu pte \<and> leaf_permits pte p acc su mx"
proof (induction level arbitrary: table b)
  case 0
  then show ?case
    by (auto simp: sv32_level.simps [of _ _ _ _ _ _ 0] Let_def check_leaf_permission_permits
        split: prod.splits sum.splits if_splits)
next
  case (Suc level)
  show ?case using Suc.prems
    by (auto simp: sv32_level.simps [of _ _ _ _ _ _ "Suc level"] Let_def check_leaf_permission_permits
        split: prod.splits sum.splits if_splits intro: Suc.IH)
qed

lemma hit_check:
  "check_permission (pte_rwxu pte) acc \<and> check_tlb_hit_access Supervisor (pte_rwxu pte) su mx va acc = Inr ()
     \<longleftrightarrow> leaf_permits pte Supervisor acc su mx"
  "check_permission (pte_rwxu pte) acc \<and> check_tlb_hit_access User (pte_rwxu pte) su mx va acc = Inr ()
     \<longleftrightarrow> leaf_permits pte User acc su mx \<or> acc = Load \<and> bit pte 4 \<and> bit pte 3 \<and> \<not> bit pte 1 \<and> \<not> mx"
  by (cases acc;
      auto simp: rwxu_flags leaf_permits_def check_user_access_def check_supervisor_access_def Let_def)+

lemma leaf_permits_hit:
  assumes "leaf_permits pte p acc su mx" "p \<noteq> Machine"
  shows "check_permission (pte_rwxu pte) acc" "check_tlb_hit_access p (pte_rwxu pte) su mx va acc = Inr ()"
  using assms hit_check [of pte acc su mx va] by (cases p; simp)+

text \<open>The permission check of a TLB hit against the walker's: for supervisor accesses a hit is
  granted exactly when the walk of the same leaf would be.  For user accesses it also grants loads
  from execute-only pages with MXR off, which the walk refuses.\<close>

theorem tlb_hit_permission_check:
  "(check_permission (pte_rwxu pte) acc \<and> check_tlb_hit_access Supervisor (pte_rwxu pte) su mx va acc = Inr ()
     \<longleftrightarrow> leaf_permits pte Supervisor acc su mx) \<and>
   (check_permission (pte_rwxu pte) acc \<and> check_tlb_hit_access User (pte_rwxu pte) su mx va acc = Inr ()
     \<longleftrightarrow> leaf_permits pte User acc su mx \<or>
        acc = Load \<and> bit pte 4 \<and> bit pte 3 \<and> \<not> bit pte 1 \<and> \<not> mx)"
  by (simp only: hit_check)

lemma translate_miss_then_hit:
  assumes "Satp_is_sv32 satp" "p \<noteq> Machine" "tlb_wf t" "tlb_view t (Satp_asid satp, vpn va) = None"
    and first: "translate_with_tlb_components ops t pf b satp p su mx va acc = (Inr pa, t', pf', b')"
  obtains pte where "leaf_permits pte p acc su mx"
    "tlb_view t' (Satp_asid satp, vpn va) = Some \<lparr>te_valid = True, te_asid = Satp_asid satp,
       te_vpn = vpn va, te_ppn = drop_bit 12 pa, te_rwxu = pte_rwxu pte\<rparr>"
    "\<exists>r. translate_sv32 ops b satp p va acc su mx = (Inr r, b') \<and> xr_paddr r = pa \<and> xr_rwxu r = pte_rwxu pte"
proof -
  obtain t1 where l: "Tlb_lookup t va (Satp_asid satp) acc = (None, t1)"
    using assms(4) lookup_view [of t va "Satp_asid satp" acc]
    by (cases "Tlb_lookup t va (Satp_asid satp) acc") auto
  have t1: "tlb_view t1 = tlb_view t" "tlb_wf t1"
    using lookup_keeps(3) [of t va "Satp_asid satp" acc] tlb_wf_ops(2) [OF assms(3), of va "Satp_asid satp" acc] l
    by simp_all
  obtain r where r: "translate_sv32 ops b satp p va acc su mx = (Inr r, b')" "xr_paddr r = pa"
    "t' = Tlb_insert t1 va pa (Satp_asid satp) (xr_rwxu r)"
    using first assms(1,2) l
    by (auto simp: translate_with_tlb_components_def translate_addr_full_def Let_def
        split: prod.splits sum.splits)
  obtain pte where pte: "xr_rwxu r = pte_rwxu pte" "leaf_permits pte p acc su mx"
    using sv32_level_sound [OF r(1) [unfolded translate_sv32_def]] by blast
  show thesis
    using view_insert_same [OF t1(2), of "Satp_asid satp" va pa "xr_rwxu r"] assms(4) pte r
    by (intro that [of pte]) (simp_all add: t1)
qed

lemma translate_hit:
  assumes "Satp_is_sv32 satp" "p \<noteq> Machine" "vpn va2 = vpn va"
    and "tlb_view t (Satp_asid satp, vpn va) = Some e" "te_ppn e = drop_bit 12 pa" "te_rwxu e = pte_rwxu pte"
    and "leaf_permits pte p acc su mx"
  shows "\<exists>t'. translate_with_tlb_components ops t pf b satp p su mx va2 acc =
    (Inr ((pa AND NOT 0xFFF) OR (va2 AND 0xFFF)), t', PerfCollector_record_tlb_hit pf, b)"
proof -
  have m: "(0xFFF :: u32) = mask 12" by (simp add: mask_eq_exp_minus_1)
  have pg: "push_bit 12 (drop_bit 12 pa) = pa AND NOT 0xFFF"
    unfolding m by (rule bit_word_eqI) (auto simp: bit_simps)
  obtain t' where l: "Tlb_lookup t va2 (Satp_asid satp) acc =
      (Some \<lparr>lr_paddr = (pa AND NOT 0xFFF) OR (va2 AND 0xFFF), lr_rwxu = pte_rwxu pte\<rparr>, t')"
    using assms lookup_view [of t va2 "Satp_asid satp" acc] leaf_permits_hit [OF assms(7,2)]
    by (cases "Tlb_lookup t va2 (Satp_asid satp) acc") (simp add: entry_answer_def pg page_offset_def)
  then show ?thesis
    using assms leaf_permits_hit(2) [OF assms(7,2)]
    by (simp add: translate_with_tlb_components_def Let_def)
qed

text \<open>A translation is cached: once a walk has answered for a page, the next access of the same
  kind to any address of the page, by the same hart state, is answered by the TLB with the same
  physical page, without touching memory.\<close>

theorem translation_cached:
  assumes "Satp_is_sv32 satp" "p \<noteq> Machine" "tlb_reachable t" "tlb_view t (Satp_asid satp, vpn va) = None"
    and "translate_with_tlb_components ops t pf b satp p su mx va acc = (Inr pa, t', pf', b')"
    and "vpn va2 = vpn va"
  shows "\<exists>t''. translate_with_tlb_components ops t' pf' b' satp p su mx va2 acc =
    (Inr ((pa AND NOT 0xFFF) OR (va2 AND 0xFFF)), t'', PerfCollector_record_tlb_hit pf', b')"
proof -
  obtain pte where pte: "leaf_permits pte p acc su mx"
    and q: "tlb_view t' (Satp_asid satp, vpn va) = Some \<lparr>te_valid = True, te_asid = Satp_asid satp,
       te_vpn = vpn va, te_ppn = drop_bit 12 pa, te_rwxu = pte_rwxu pte\<rparr>"
    using translate_miss_then_hit [OF assms(1,2) tlb_reachable_wf [OF assms(3)] assms(4,5)] by metis
  show ?thesis by (rule translate_hit [OF assms(1,2,6) q _ _ pte]) simp_all
qed

text \<open>A store through an entry that a load brought in leaves the page clean: when the leaf allows
  both and its dirty bit is off, the store's translation succeeds in the TLB, changes nothing in
  memory, and the dirty bit stays off.\<close>

theorem store_after_load_leaves_clean:
  assumes "Satp_is_sv32 satp" "p \<noteq> Machine" "tlb_reachable t" "tlb_view t (Satp_asid satp, vpn va) = None"
    and "walk_mapped b (Satp_root_table_addr satp) va"
    and "sv32_leaf (pte_word b) (Satp_root_table_addr satp) va = Some (level, a, pte)"
    and "leaf_permits pte p Load su mx" "leaf_permits pte p Store su mx" "\<not> bit pte 7"
    and "translate_with_tlb_components ops t pf b satp p su mx va Load = (Inr pa, t', pf', b')"
  shows "(\<exists>t''. translate_with_tlb_components ops t' pf' b' satp p su mx va Store =
      (Inr ((pa AND NOT 0xFFF) OR (va AND 0xFFF)), t'', PerfCollector_record_tlb_hit pf', b')) \<and>
    \<not> bit (pte_word b' a) 7"
proof -
  obtain q r where q: "tlb_view t' (Satp_asid satp, vpn va) = Some \<lparr>te_valid = True, te_asid = Satp_asid satp,
       te_vpn = vpn va, te_ppn = drop_bit 12 pa, te_rwxu = pte_rwxu q\<rparr>"
    and r: "translate_sv32 ops b satp p va Load su mx = (Inr r, b')" "xr_rwxu r = pte_rwxu q"
    using translate_miss_then_hit [OF assms(1,2) tlb_reachable_wf [OF assms(3)] assms(4,10)] by metis
  have out: "pte_rwxu q = pte_rwxu pte" "only_changes a (ad_pte pte Load) b b'"
    using walk_refines [OF assms(5), of p Load su mx ops] r assms(6,7) by (auto simp: walk_outcome_def)
  have "\<not> bit (ad_pte pte Load) 7" using assms(9) by (simp add: ad_pte_def pte_bits bit_simps)
  moreover have "\<exists>t''. translate_with_tlb_components ops t' pf' b' satp p su mx va Store =
      (Inr ((pa AND NOT 0xFFF) OR (va AND 0xFFF)), t'', PerfCollector_record_tlb_hit pf', b')"
    using out(1) by (intro translate_hit [OF assms(1,2) refl q _ _ assms(8)]) simp_all
  ultimately show ?thesis using out(2) by (simp add: only_changes_def)
qed

lemma tlb_new_empty: "tlb_view Tlb_new k = None"
  by (cases k) (simp add: tlb_view_None Tlb_new_def)

lemma mmu_bus_translates:
  obtains pa t' pf' b' where "translate_with_tlb_components no_ops Tlb_new PerfCollector_new mmu_bus 0x80080000
    Supervisor False False 0x1234 Load = (Inr pa, t', pf', b')"
proof -
  have "leaf_permits 0x2000000F Supervisor Load False False" by code_simp
  then obtain r b' where "translate_sv32 no_ops mmu_bus 0x80080000 Supervisor 0x1234 Load False False = (Inr r, b')"
    using walk_refines [OF mmu_bus_facts(1), of Supervisor Load False False no_ops]
    by (auto simp: mmu_bus_facts(2) walk_outcome_def)
  moreover have "fst (Tlb_lookup Tlb_new 0x1234 (Satp_asid 0x80080000) Load) = None"
    by (simp add: lookup_view tlb_new_empty)
  moreover have "Satp_is_sv32 0x80080000" by code_simp
  ultimately show thesis
    by (cases "Tlb_lookup Tlb_new 0x1234 (Satp_asid 0x80080000) Load")
      (auto intro!: that simp: translate_with_tlb_components_def translate_addr_full_def Let_def)
qed

theorem translation_cached_witness:
  "\<exists>pa t' pf' b' t''. translate_with_tlb_components no_ops t' pf' b' 0x80080000 Supervisor False False 0x1FFC Load =
     (Inr ((pa AND NOT 0xFFF) OR (0x1FFC AND 0xFFF)), t'', PerfCollector_record_tlb_hit pf', b')"
proof -
  obtain pa t' pf' b' where t: "translate_with_tlb_components no_ops Tlb_new PerfCollector_new mmu_bus 0x80080000
    Supervisor False False 0x1234 Load = (Inr pa, t', pf', b')" by (rule mmu_bus_translates)
  have c: "Satp_is_sv32 0x80080000" "vpn 0x1FFC = vpn 0x1234" by code_simp+
  show ?thesis
    using translation_cached [OF c(1) _ tlb_reachable.new tlb_new_empty t c(2)] by blast
qed

theorem store_after_load_leaves_clean_witness:
  "\<exists>pa t' pf' b' t''. translate_with_tlb_components no_ops t' pf' b' 0x80080000 Supervisor False False 0x1234 Store =
     (Inr ((pa AND NOT 0xFFF) OR (0x1234 AND 0xFFF)), t'', PerfCollector_record_tlb_hit pf', b') \<and>
     \<not> bit (pte_word b' 0x80000000) 7"
proof -
  obtain pa t' pf' b' where t: "translate_with_tlb_components no_ops Tlb_new PerfCollector_new mmu_bus 0x80080000
    Supervisor False False 0x1234 Load = (Inr pa, t', pf', b')" by (rule mmu_bus_translates)
  have c: "Satp_is_sv32 0x80080000" "leaf_permits 0x2000000F Supervisor Load False False"
    "leaf_permits 0x2000000F Supervisor Store False False" "\<not> bit (0x2000000F :: u32) 7" by code_simp+
  show ?thesis
    using store_after_load_leaves_clean [OF c(1) _ tlb_reachable.new tlb_new_empty mmu_bus_facts c(2-4) t] by blast
qed

end
