(* ===== verification/Cache_Model.thy ===== *)
theory Cache_Model
  imports Bus_Model
begin

text \<open>
  The set-associative caches of \<open>src/src/cpu/cache.rs\<close>.  The operations take the byte read and write
  of the memory behind the cache as arguments, like the operations of the \<open>Memory\<close> trait; the code
  passes the bus.  \<open>cached\<close> is the byte a cache answers for an address and \<open>cache_view\<close> the flat memory
  that cache and backing memory show together.  Inside the contract \<open>byte_store\<close> every operation is
  shown to act on that flat memory; the interpretation of the contract on the bus gives the properties.
\<close>

definition CACHE_LINE_SIZE :: nat where "CACHE_LINE_SIZE = 16"
definition ICACHE_SIZE :: nat where "ICACHE_SIZE = 4096"
definition DCACHE_SIZE :: nat where "DCACHE_SIZE = 4096"
definition ICACHE_ASSOCIATIVITY :: nat where "ICACHE_ASSOCIATIVITY = 4"
definition DCACHE_ASSOCIATIVITY :: nat where "DCACHE_ASSOCIATIVITY = 4"

datatype write_policy = WriteThrough | WriteBack
datatype write_allocate_policy = WriteAllocate | NoWriteAllocate
datatype replacement_policy = RoundRobin
datatype cache_type = CT_Instruction | CT_Data

record cache_config =
  cc_associativity :: nat
  cc_replacement :: replacement_policy
  cc_write_policy :: write_policy
  cc_write_allocate :: write_allocate_policy

record cache_stats =
  cst_hits :: u64
  cst_misses :: u64
  cst_read_hits :: u64
  cst_read_misses :: u64
  cst_write_hits :: u64
  cst_write_misses :: u64
  cst_evictions :: u64
  cst_writebacks :: u64

definition CacheStats_default :: cache_stats where
  "CacheStats_default = \<lparr>cst_hits = 0, cst_misses = 0, cst_read_hits = 0, cst_read_misses = 0,
     cst_write_hits = 0, cst_write_misses = 0, cst_evictions = 0, cst_writebacks = 0\<rparr>"

record cache_line =
  cln_valid :: bool
  cln_dirty :: bool
  cln_tag :: u32
  cln_data :: "u8 list"

definition CacheLine_default :: cache_line where
  "CacheLine_default = \<lparr>cln_valid = False, cln_dirty = False, cln_tag = 0, cln_data = replicate CACHE_LINE_SIZE 0\<rparr>"

record cache =
  ca_type :: cache_type
  ca_config :: cache_config
  ca_set_count :: nat
  ca_ways :: nat
  ca_line_mask :: nat
  ca_set_bits :: nat
  ca_sets :: "cache_line list list"
  ca_next_victim :: "nat list"
  ca_stats :: cache_stats

definition is_power_of_two :: "nat \<Rightarrow> bool" where
  "is_power_of_two n \<longleftrightarrow> list_ex (\<lambda>k. n = 2 ^ k) [0..<64]"

definition nat_trailing_zeros :: "nat \<Rightarrow> nat" where
  "nat_trailing_zeros n = length (takeWhile (\<lambda>i. \<not> bit n i) [0..<64])"

text \<open>\<open>None\<close> is a failed assertion of the constructor.\<close>

definition Cache_new_with_config :: "cache_type \<Rightarrow> nat \<Rightarrow> cache_config \<Rightarrow> cache option" where
  "Cache_new_with_config ct sz config =
     (let total_lines = sz div CACHE_LINE_SIZE; set_count = total_lines div cc_associativity config in
      if \<not> sz \<ge> CACHE_LINE_SIZE then None
      else if \<not> is_power_of_two sz then None
      else if \<not> (cc_associativity config > 0 \<and> is_power_of_two (cc_associativity config)) then None
      else if \<not> total_lines \<ge> cc_associativity config then None
      else if total_lines mod cc_associativity config \<noteq> 0 then None
      else if \<not> is_power_of_two set_count then None
      else Some \<lparr>ca_type = ct, ca_config = config, ca_set_count = set_count, ca_ways = cc_associativity config,
        ca_line_mask = CACHE_LINE_SIZE - 1, ca_set_bits = nat_trailing_zeros set_count,
        ca_sets = replicate set_count (replicate (cc_associativity config) CacheLine_default),
        ca_next_victim = replicate set_count 0, ca_stats = CacheStats_default\<rparr>)"

fun Cache_default_config :: "cache_type \<Rightarrow> cache_config" where
  "Cache_default_config CT_Instruction = \<lparr>cc_associativity = ICACHE_ASSOCIATIVITY,
     cc_replacement = RoundRobin, cc_write_policy = WriteThrough, cc_write_allocate = NoWriteAllocate\<rparr>"
| "Cache_default_config CT_Data = \<lparr>cc_associativity = DCACHE_ASSOCIATIVITY,
     cc_replacement = RoundRobin, cc_write_policy = WriteBack, cc_write_allocate = WriteAllocate\<rparr>"

definition Cache_new :: "cache_type \<Rightarrow> nat \<Rightarrow> cache option" where
  "Cache_new ct sz = Cache_new_with_config ct sz (Cache_default_config ct)"

subsection \<open>Address fields\<close>

definition Cache_set_index :: "cache \<Rightarrow> addr \<Rightarrow> nat" where
  "Cache_set_index c a = drop_bit 4 (unat a) AND (ca_set_count c - 1)"

definition Cache_tag :: "cache \<Rightarrow> addr \<Rightarrow> u32" where
  "Cache_tag c a = drop_bit (4 + ca_set_bits c) a"

definition Cache_line_offset :: "cache \<Rightarrow> addr \<Rightarrow> nat" where
  "Cache_line_offset c a = unat a AND ca_line_mask c"

definition Cache_line_base :: "cache \<Rightarrow> addr \<Rightarrow> addr" where
  "Cache_line_base c a = a AND NOT (of_nat (ca_line_mask c))"

definition Cache_line_base_from_set_tag :: "cache \<Rightarrow> nat \<Rightarrow> u32 \<Rightarrow> addr" where
  "Cache_line_base_from_set_tag c s t = push_bit (4 + ca_set_bits c) t OR push_bit 4 (of_nat s)"

subsection \<open>Lines\<close>

fun position :: "('a \<Rightarrow> bool) \<Rightarrow> 'a list \<Rightarrow> nat option" where
  "position P [] = None"
| "position P (x # xs) = (if P x then Some 0 else map_option Suc (position P xs))"

abbreviation line_at :: "cache \<Rightarrow> nat \<Rightarrow> nat \<Rightarrow> cache_line" where
  "line_at c s w \<equiv> ca_sets c ! s ! w"

definition put_line :: "cache \<Rightarrow> nat \<Rightarrow> nat \<Rightarrow> cache_line \<Rightarrow> cache" where
  "put_line c s w l = c\<lparr>ca_sets := (ca_sets c)[s := (ca_sets c ! s)[w := l]]\<rparr>"

definition Cache_find_way :: "cache \<Rightarrow> nat \<Rightarrow> u32 \<Rightarrow> nat option" where
  "Cache_find_way c s t = position (\<lambda>l. cln_valid l \<and> cln_tag l = t) (ca_sets c ! s)"

definition Cache_choose_victim_way :: "cache \<Rightarrow> nat \<Rightarrow> nat \<times> cache" where
  "Cache_choose_victim_way c s =
     (case position (\<lambda>l. \<not> cln_valid l) (ca_sets c ! s) of
        Some w \<Rightarrow> (w, c)
      | None \<Rightarrow>
          (case cc_replacement (ca_config c) of RoundRobin \<Rightarrow>
             let victim = ca_next_victim c ! s
             in (victim, c\<lparr>ca_next_victim := (ca_next_victim c)[s := (victim + 1) mod ca_ways c]\<rparr>)))"

text \<open>The cache and the memory behind it, threaded through every operation that reaches memory.\<close>

definition Cache_writeback_line :: "'m write_op \<Rightarrow> nat \<Rightarrow> nat \<Rightarrow> cache \<times> 'm \<Rightarrow> unit result \<times> (cache \<times> 'm)" where
  "Cache_writeback_line wb s w = (\<lambda>(c, m).
     let l = line_at c s w;
         need_writeback = (cln_valid l \<and> cln_dirty l \<and> ca_type c = CT_Data \<and>
           cc_write_policy (ca_config c) = WriteBack)
     in if \<not> need_writeback then (Inr (), (c, m))
        else
          let base = Cache_line_base_from_set_tag c s (cln_tag l) in
          case write_bytes_from wb base 0 (cln_data l) m of
            (Inl e, m) \<Rightarrow> (Inl e, (c, m))
          | (Inr _, m) \<Rightarrow>
              let c = put_line c s w (l\<lparr>cln_dirty := False\<rparr>)
              in (Inr (), (c\<lparr>ca_stats := (ca_stats c)\<lparr>cst_writebacks := cst_writebacks (ca_stats c) + 1\<rparr>\<rparr>, m)))"

definition Cache_fill_line :: "'m read_op \<Rightarrow> 'm write_op \<Rightarrow> addr \<Rightarrow> cache \<times> 'm \<Rightarrow> nat result \<times> (cache \<times> 'm)" where
  "Cache_fill_line rb wb a = (\<lambda>(c, m).
     let s = Cache_set_index c a; t = Cache_tag c a; base = Cache_line_base c a;
         (w, c) = Cache_choose_victim_way c s
     in bind_st
          (if cln_valid (line_at c s w)
           then Cache_writeback_line wb s w
             (c\<lparr>ca_stats := (ca_stats c)\<lparr>cst_evictions := cst_evictions (ca_stats c) + 1\<rparr>\<rparr>, m)
           else (Inr (), (c, m)))
          (\<lambda>_ (c, m).
             case read_bytes_from rb base 0 CACHE_LINE_SIZE m of
               (Inl e, m) \<Rightarrow> (Inl e, (c, m))
             | (Inr data, m) \<Rightarrow>
                 (Inr w, (put_line c s w \<lparr>cln_valid = True, cln_dirty = False, cln_tag = t, cln_data = data\<rparr>, m))))"

definition Cache_record_read_hit :: "cache \<Rightarrow> cache" where
  "Cache_record_read_hit c = c\<lparr>ca_stats := (ca_stats c)\<lparr>cst_hits := cst_hits (ca_stats c) + 1,
     cst_read_hits := cst_read_hits (ca_stats c) + 1\<rparr>\<rparr>"

definition Cache_record_read_miss :: "cache \<Rightarrow> cache" where
  "Cache_record_read_miss c = c\<lparr>ca_stats := (ca_stats c)\<lparr>cst_misses := cst_misses (ca_stats c) + 1,
     cst_read_misses := cst_read_misses (ca_stats c) + 1\<rparr>\<rparr>"

definition Cache_record_write_hit :: "cache \<Rightarrow> cache" where
  "Cache_record_write_hit c = c\<lparr>ca_stats := (ca_stats c)\<lparr>cst_hits := cst_hits (ca_stats c) + 1,
     cst_write_hits := cst_write_hits (ca_stats c) + 1\<rparr>\<rparr>"

definition Cache_record_write_miss :: "cache \<Rightarrow> cache" where
  "Cache_record_write_miss c = c\<lparr>ca_stats := (ca_stats c)\<lparr>cst_misses := cst_misses (ca_stats c) + 1,
     cst_write_misses := cst_write_misses (ca_stats c) + 1\<rparr>\<rparr>"

subsection \<open>Reads and writes\<close>

text \<open>The part of the reads within one line: \<open>n\<close> bytes from the line's offset, filled on a miss.\<close>

definition Cache_read_line :: "'m read_op \<Rightarrow> 'm write_op \<Rightarrow> addr \<Rightarrow> nat \<Rightarrow> cache \<times> 'm \<Rightarrow> u8 list result \<times> (cache \<times> 'm)" where
  "Cache_read_line rb wb a n = (\<lambda>(c, m).
     let s = Cache_set_index c a; t = Cache_tag c a; ofs = Cache_line_offset c a
     in case Cache_find_way c s t of
          Some w \<Rightarrow> (Inr (take n (drop ofs (cln_data (line_at c s w)))), (Cache_record_read_hit c, m))
        | None \<Rightarrow>
            bind_st (Cache_fill_line rb wb a (Cache_record_read_miss c, m)) (\<lambda>w (c, m).
              (Inr (take n (drop ofs (cln_data (line_at c s w)))), (c, m))))"

text \<open>The reads that may cross a line: then the bytes come from memory directly.\<close>

definition Cache_read_across :: "'m read_op \<Rightarrow> 'm write_op \<Rightarrow> addr \<Rightarrow> nat \<Rightarrow> cache \<times> 'm \<Rightarrow> u8 list result \<times> (cache \<times> 'm)" where
  "Cache_read_across rb wb a n = (\<lambda>(c, m).
     if Cache_line_offset c a + n > CACHE_LINE_SIZE
     then (case read_bytes_from rb a 0 n m of (r, m) \<Rightarrow> (r, (Cache_record_read_miss c, m)))
     else Cache_read_line rb wb a n (c, m))"

definition Cache_read_word :: "'m read_op \<Rightarrow> 'm write_op \<Rightarrow> addr \<Rightarrow> cache \<times> 'm \<Rightarrow> u32 result \<times> (cache \<times> 'm)" where
  "Cache_read_word rb wb a cm = bind_st (Cache_read_across rb wb a 4 cm)
     (\<lambda>bs cm. (Inr (word_of_bytes (bs ! 0) (bs ! 1) (bs ! 2) (bs ! 3)), cm))"

definition Cache_read_half :: "'m read_op \<Rightarrow> 'm write_op \<Rightarrow> addr \<Rightarrow> cache \<times> 'm \<Rightarrow> u16 result \<times> (cache \<times> 'm)" where
  "Cache_read_half rb wb a cm = bind_st (Cache_read_across rb wb a 2 cm)
     (\<lambda>bs cm. (Inr (half_of_bytes (bs ! 0) (bs ! 1)), cm))"

definition Cache_read_byte :: "'m read_op \<Rightarrow> 'm write_op \<Rightarrow> addr \<Rightarrow> cache \<times> 'm \<Rightarrow> u8 result \<times> (cache \<times> 'm)" where
  "Cache_read_byte rb wb a cm = bind_st (Cache_read_line rb wb a 1 cm) (\<lambda>bs cm. (Inr (bs ! 0), cm))"

text \<open>The loop \<open>line.data[offset + i] = bytes[i]\<close>.\<close>

fun set_bytes :: "nat \<Rightarrow> u8 list \<Rightarrow> u8 list \<Rightarrow> u8 list" where
  "set_bytes ofs [] d = d"
| "set_bytes ofs (b # bs) d = set_bytes (Suc ofs) bs (d[ofs := b])"

definition Cache_write_bytes_to_bus :: "'m write_op \<Rightarrow> addr \<Rightarrow> u8 list \<Rightarrow> cache \<times> 'm \<Rightarrow> unit result \<times> (cache \<times> 'm)" where
  "Cache_write_bytes_to_bus wb a bs = (\<lambda>(c, m). case write_bytes_from wb a 0 bs m of (r, m) \<Rightarrow> (r, (c, m)))"

text \<open>The update of a present line, with the write-through part.\<close>

definition Cache_store_line :: "'m write_op \<Rightarrow> addr \<Rightarrow> u8 list \<Rightarrow> nat \<Rightarrow> cache \<times> 'm \<Rightarrow> unit result \<times> (cache \<times> 'm)" where
  "Cache_store_line wb a bs w = (\<lambda>(c, m).
     let s = Cache_set_index c a; l = line_at c s w;
         l = l\<lparr>cln_data := set_bytes (Cache_line_offset c a) bs (cln_data l)\<rparr>;
         l = (if ca_type c = CT_Data \<and> cc_write_policy (ca_config c) = WriteBack then l\<lparr>cln_dirty := True\<rparr> else l);
         c = put_line c s w l
     in if cc_write_policy (ca_config c) = WriteThrough then Cache_write_bytes_to_bus wb a bs (c, m)
        else (Inr (), (c, m)))"

definition Cache_write_bytes :: "'m read_op \<Rightarrow> 'm write_op \<Rightarrow> addr \<Rightarrow> u8 list \<Rightarrow> cache \<times> 'm \<Rightarrow> unit result \<times> (cache \<times> 'm)" where
  "Cache_write_bytes rb wb a bs = (\<lambda>(c, m).
     if Cache_line_offset c a + length bs > CACHE_LINE_SIZE
     then Cache_write_bytes_to_bus wb a bs (Cache_record_write_miss c, m)
     else
       case Cache_find_way c (Cache_set_index c a) (Cache_tag c a) of
         Some w \<Rightarrow> Cache_store_line wb a bs w (Cache_record_write_hit c, m)
       | None \<Rightarrow>
           if cc_write_allocate (ca_config c) = WriteAllocate
           then bind_st (Cache_fill_line rb wb a (Cache_record_write_miss c, m))
                  (\<lambda>w cm. Cache_store_line wb a bs w cm)
           else Cache_write_bytes_to_bus wb a bs (Cache_record_write_miss c, m))"

definition Cache_write_byte :: "'m read_op \<Rightarrow> 'm write_op \<Rightarrow> addr \<Rightarrow> u8 \<Rightarrow> cache \<times> 'm \<Rightarrow> unit result \<times> (cache \<times> 'm)" where
  "Cache_write_byte rb wb a v = Cache_write_bytes rb wb a [v]"

definition Cache_write_half :: "'m read_op \<Rightarrow> 'm write_op \<Rightarrow> addr \<Rightarrow> u16 \<Rightarrow> cache \<times> 'm \<Rightarrow> unit result \<times> (cache \<times> 'm)" where
  "Cache_write_half rb wb a v = Cache_write_bytes rb wb a (le_bytes16 v)"

definition Cache_write_word :: "'m read_op \<Rightarrow> 'm write_op \<Rightarrow> addr \<Rightarrow> u32 \<Rightarrow> cache \<times> 'm \<Rightarrow> unit result \<times> (cache \<times> 'm)" where
  "Cache_write_word rb wb a v = Cache_write_bytes rb wb a (le_bytes v)"

subsection \<open>Invalidation and flushes\<close>

definition Cache_invalidate :: "addr \<Rightarrow> cache \<Rightarrow> cache" where
  "Cache_invalidate a c =
     (case Cache_find_way c (Cache_set_index c a) (Cache_tag c a) of
        Some w \<Rightarrow> put_line c (Cache_set_index c a) w CacheLine_default
      | None \<Rightarrow> c)"

text \<open>Write back and drop one line: the body of the flush loop and of \<open>invalidate_with_bus\<close>.\<close>

definition Cache_drop_line :: "'m write_op \<Rightarrow> nat \<Rightarrow> nat \<Rightarrow> cache \<times> 'm \<Rightarrow> unit result \<times> (cache \<times> 'm)" where
  "Cache_drop_line wb s w cm = bind_st (Cache_writeback_line wb s w cm)
     (\<lambda>_ (c, m). (Inr (), (put_line c s w CacheLine_default, m)))"

definition Cache_invalidate_with_bus :: "'m write_op \<Rightarrow> addr \<Rightarrow> cache \<times> 'm \<Rightarrow> unit result \<times> (cache \<times> 'm)" where
  "Cache_invalidate_with_bus wb a = (\<lambda>(c, m).
     case Cache_find_way c (Cache_set_index c a) (Cache_tag c a) of
       Some w \<Rightarrow> Cache_drop_line wb (Cache_set_index c a) w (c, m)
     | None \<Rightarrow> (Inr (), (c, m)))"

definition Cache_flush_all :: "cache \<Rightarrow> cache" where
  "Cache_flush_all c = c\<lparr>ca_sets := map (map (\<lambda>_. CacheLine_default)) (ca_sets c)\<rparr>"

fun flush_lines :: "'m write_op \<Rightarrow> (nat \<times> nat) list \<Rightarrow> cache \<times> 'm \<Rightarrow> unit result \<times> (cache \<times> 'm)" where
  "flush_lines wb [] cm = (Inr (), cm)"
| "flush_lines wb ((s, w) # sws) cm = bind_st (Cache_drop_line wb s w cm) (\<lambda>_ cm. flush_lines wb sws cm)"

definition Cache_flush_all_with_bus :: "'m write_op \<Rightarrow> cache \<times> 'm \<Rightarrow> unit result \<times> (cache \<times> 'm)" where
  "Cache_flush_all_with_bus wb = (\<lambda>(c, m).
     flush_lines wb (concat (map (\<lambda>s. map (Pair s) [0..<ca_ways c]) [0..<ca_set_count c])) (c, m))"

definition Cache_reset :: "cache \<Rightarrow> cache" where
  "Cache_reset c = (Cache_flush_all c)\<lparr>ca_stats := CacheStats_default,
     ca_next_victim := map (\<lambda>_. 0) (ca_next_victim c)\<rparr>"

definition Cache_valid_line_count :: "cache \<Rightarrow> nat" where
  "Cache_valid_line_count c = sum_list (map (\<lambda>ls. length (filter cln_valid ls)) (ca_sets c))"

subsection \<open>Geometry\<close>

definition cache_geom :: "cache \<Rightarrow> bool" where
  "cache_geom c \<longleftrightarrow> ca_line_mask c = 15 \<and> ca_set_bits c \<le> 28 \<and> ca_set_count c = 2 ^ ca_set_bits c \<and>
     0 < ca_ways c \<and> length (ca_sets c) = ca_set_count c \<and> length (ca_next_victim c) = ca_set_count c \<and>
     (\<forall>s < ca_set_count c. length (ca_sets c ! s) = ca_ways c \<and> ca_next_victim c ! s < ca_ways c) \<and>
     (cc_write_policy (ca_config c) = WriteBack \<longrightarrow> ca_type c = CT_Data)"

lemma unat_take_bit_mask: "unat (take_bit k w) = unat w AND mask k"
  by (metis unsigned_take_bit_eq take_bit_eq_mask)

lemma set_index_word:
  "cache_geom c \<Longrightarrow> Cache_set_index c a = unat (take_bit (ca_set_bits c) (drop_bit 4 a))"
  by (simp add: cache_geom_def Cache_set_index_def unat_take_bit_mask unat_drop_bit_eq mask_eq_exp_minus_1)

lemma set_index_less: "cache_geom c \<Longrightarrow> Cache_set_index c a < ca_set_count c"
  by (simp add: set_index_word unsigned_take_bit_eq) (simp add: cache_geom_def)

lemma line_offset_word: "cache_geom c \<Longrightarrow> Cache_line_offset c a = unat (take_bit 4 a)"
proof -
  have "(15 :: nat) = mask 4" by (simp add: mask_eq_exp_minus_1)
  then show "cache_geom c \<Longrightarrow> ?thesis"
    by (simp add: cache_geom_def Cache_line_offset_def unat_take_bit_mask)
qed

lemma line_offset_less: "cache_geom c \<Longrightarrow> Cache_line_offset c a < 16"
  using take_bit_nat_less_exp [of 4 "unat a"] by (simp add: line_offset_word unsigned_take_bit_eq)

lemma line_base_word: "cache_geom c \<Longrightarrow> Cache_line_base c a = a AND NOT (mask 4)"
  by (simp add: cache_geom_def Cache_line_base_def mask_eq_exp_minus_1)

lemma small_no_bit:
  assumes "(i :: nat) < 2 ^ k" "k \<le> n"
  shows "\<not> bit i n"
proof -
  have "(2 :: nat) ^ k \<le> 2 ^ n" by (rule power_increasing) (use assms(2) in auto)
  with assms(1) have "i < 2 ^ n" by (rule less_le_trans)
  then show ?thesis by (simp add: bit_iff_odd)
qed

lemma line_base_fields:
  assumes "cache_geom c"
  shows "Cache_line_base_from_set_tag c (Cache_set_index c a) (Cache_tag c a) = Cache_line_base c a"
proof (rule bit_word_eqI)
  fix n assume "n < LENGTH(32)"
  then show "bit (Cache_line_base_from_set_tag c (Cache_set_index c a) (Cache_tag c a)) n = bit (Cache_line_base c a) n"
    unfolding Cache_line_base_from_set_tag_def set_index_word [OF assms] line_base_word [OF assms]
    by (cases "4 + ca_set_bits c \<le> n") (auto simp: Cache_tag_def bit_simps dest: bit_imp_le_length)
qed

lemma fields_of_base:
  assumes "cache_geom c"
  shows "Cache_set_index c (Cache_line_base c a) = Cache_set_index c a" "Cache_tag c (Cache_line_base c a) = Cache_tag c a"
proof -
  have d: "drop_bit k (a AND NOT (mask 4)) = drop_bit k a" if "4 \<le> k" for k
    by (rule bit_word_eqI) (use that in \<open>auto simp: bit_simps dest: bit_imp_le_length\<close>)
  show "Cache_set_index c (Cache_line_base c a) = Cache_set_index c a"
    by (simp only: set_index_word [OF assms] line_base_word [OF assms] d [OF order_refl])
  show "Cache_tag c (Cache_line_base c a) = Cache_tag c a"
    by (simp only: Cache_tag_def line_base_word [OF assms] d [OF le_add1])
qed

lemma same_line:
  assumes "cache_geom c"
  shows "Cache_set_index c b = Cache_set_index c a \<and> Cache_tag c b = Cache_tag c a \<longleftrightarrow>
    Cache_line_base c b = Cache_line_base c a"
  using line_base_fields [OF assms, of a] line_base_fields [OF assms, of b] fields_of_base [OF assms, of a]
    fields_of_base [OF assms, of b] by metis

lemma split_address:
  assumes "cache_geom c"
  shows "a = Cache_line_base c a + of_nat (Cache_line_offset c a)"
proof -
  have "(a AND NOT (mask 4)) + (a AND mask 4) = a"
    by (subst disjunctive_add_eq_or) (auto intro!: bit_word_eqI simp: bit_simps)
  then show ?thesis by (simp add: line_base_word [OF assms] line_offset_word [OF assms] take_bit_eq_mask)
qed

lemma join_address:
  assumes "cache_geom c" "i < 16"
  shows "Cache_line_base c (Cache_line_base c a + of_nat i) = Cache_line_base c a"
    "Cache_line_offset c (Cache_line_base c a + of_nat i) = i"
proof -
  have i: "\<not> bit i n" if "4 \<le> n" for n
    using small_no_bit [of i 4 n] assms(2) that by simp
  have e: "(a AND NOT (mask 4)) + of_nat i = (a AND NOT (mask 4)) OR of_nat i"
    by (rule disjunctive_add_eq_or) (auto intro!: bit_word_eqI simp: bit_simps i)
  show "Cache_line_base c (Cache_line_base c a + of_nat i) = Cache_line_base c a"
    unfolding line_base_word [OF assms(1)] e
    by (rule bit_word_eqI) (auto simp: bit_simps i)
  have "take_bit 4 ((a AND NOT (mask 4)) + of_nat i) = of_nat i"
    unfolding e by (rule bit_word_eqI) (use i not_less in \<open>auto simp: bit_simps\<close>)
  then show "Cache_line_offset c (Cache_line_base c a + of_nat i) = i"
    using assms(2) by (simp add: line_offset_word [OF assms(1)] line_base_word [OF assms(1)] unat_of_nat)
qed

lemma line_exists:
  assumes "cache_geom c" "s < ca_set_count c" "drop_bit (28 - ca_set_bits c) t = 0"
  obtains a where "Cache_set_index c a = s" "Cache_tag c a = t" "Cache_line_base c a = a"
    "a = Cache_line_base_from_set_tag c s t"
proof -
  let ?sb = "ca_set_bits c" let ?a = "Cache_line_base_from_set_tag c s t"
  have sb: "?sb \<le> 28" "s < 2 ^ ?sb" using assms(1,2) by (simp_all add: cache_geom_def)
  have ws: "\<not> bit s n" if "?sb \<le> n" for n
    using small_no_bit [OF sb(2) that] .
  have ws': "n < ?sb" if "bit s n" for n
    using ws [of n] that by (cases "?sb \<le> n") simp_all
  have wt: "\<not> bit t n" if "28 - ?sb \<le> n" for n
  proof -
    have "bit (drop_bit (28 - ?sb) t) (n - (28 - ?sb)) = bit t n" using that by (simp add: bit_drop_bit_eq)
    then show ?thesis using assms(3) by simp
  qed
  have wt': "n + ?sb < 28" if "bit t n" for n
    using wt [of n] that by (cases "28 - ?sb \<le> n") auto
  have "take_bit ?sb (drop_bit 4 ?a) = of_nat s"
    by (rule bit_word_eqI)
      (use sb(1) in \<open>auto simp: Cache_line_base_from_set_tag_def bit_simps dest: bit_imp_le_length ws'\<close>)
  moreover have "unat (of_nat s :: u32) = s"
  proof -
    have "(2 :: nat) ^ ?sb \<le> 2 ^ 28" by (rule power_increasing) (use sb in auto)
    then show ?thesis using sb(2) by (simp add: unat_of_nat)
  qed
  ultimately have "Cache_set_index c ?a = s" by (simp add: set_index_word [OF assms(1)])
  moreover have "Cache_tag c ?a = t"
    by (rule bit_word_eqI)
      (use sb in \<open>auto simp: Cache_tag_def Cache_line_base_from_set_tag_def bit_simps ws dest: bit_imp_le_length wt'\<close>)
  moreover have "Cache_line_base c ?a = ?a"
    unfolding line_base_word [OF assms(1)] Cache_line_base_from_set_tag_def
    by (rule bit_word_eqI) (auto simp: bit_simps)
  ultimately show thesis by (intro that) simp_all
qed

subsection \<open>Hits and the flat memory\<close>

lemma position_SomeD: "position P xs = Some i \<Longrightarrow> i < length xs \<and> P (xs ! i)"
  by (induction xs arbitrary: i) (auto split: if_splits)

lemma position_None: "position P xs = None \<longleftrightarrow> (\<forall>i < length xs. \<not> P (xs ! i))"
  by (induction xs) (auto simp: nth_Cons split: nat.splits)

definition cache_hits :: "cache \<Rightarrow> addr \<Rightarrow> nat \<Rightarrow> bool" where
  "cache_hits c a w \<longleftrightarrow> w < ca_ways c \<and> cln_valid (line_at c (Cache_set_index c a) w) \<and>
     cln_tag (line_at c (Cache_set_index c a) w) = Cache_tag c a"

definition hit_byte :: "cache \<Rightarrow> addr \<Rightarrow> nat \<Rightarrow> u8" where
  "hit_byte c a w = cln_data (line_at c (Cache_set_index c a) w) ! Cache_line_offset c a"

definition cached :: "cache \<Rightarrow> addr \<Rightarrow> u8 option" where
  "cached c a = map_option (hit_byte c a) (Cache_find_way c (Cache_set_index c a) (Cache_tag c a))"

definition cache_view :: "('m \<Rightarrow> addr \<Rightarrow> u8) \<Rightarrow> cache \<Rightarrow> 'm \<Rightarrow> addr \<Rightarrow> u8" where
  "cache_view byte c m a = (case cached c a of Some v \<Rightarrow> v | None \<Rightarrow> byte m a)"

text \<open>The invariant: every valid line is 16 bytes of memory that exists, with a tag that names one
  line; no line is held twice; a clean line agrees with memory.\<close>

definition line_ok :: "cache \<Rightarrow> cache_line \<Rightarrow> bool" where
  "line_ok c l \<longleftrightarrow> (cln_valid l \<longrightarrow> drop_bit (28 - ca_set_bits c) (cln_tag l) = 0 \<and> length (cln_data l) = 16 \<and>
     (cln_dirty l \<longrightarrow> ca_type c = CT_Data \<and> cc_write_policy (ca_config c) = WriteBack))"

definition cache_inv :: "('m \<Rightarrow> addr \<Rightarrow> bool) \<Rightarrow> ('m \<Rightarrow> addr \<Rightarrow> u8) \<Rightarrow> cache \<Rightarrow> 'm \<Rightarrow> bool" where
  "cache_inv holds byte c m \<longleftrightarrow> cache_geom c \<and>
     (\<forall>s < ca_set_count c. \<forall>w < ca_ways c. line_ok c (line_at c s w)) \<and>
     (\<forall>a w. cache_hits c a w \<longrightarrow> holds m a \<and>
        (\<not> cln_dirty (line_at c (Cache_set_index c a) w) \<longrightarrow> byte m a = hit_byte c a w)) \<and>
     (\<forall>a w w'. cache_hits c a w \<longrightarrow> cache_hits c a w' \<longrightarrow> w = w')"

text \<open>Caches that differ in lines, victims and statistics only.\<close>

definition same_shape :: "cache \<Rightarrow> cache \<Rightarrow> bool" where
  "same_shape c c' \<longleftrightarrow> ca_type c' = ca_type c \<and> ca_config c' = ca_config c \<and> ca_set_count c' = ca_set_count c \<and>
     ca_ways c' = ca_ways c \<and> ca_line_mask c' = ca_line_mask c \<and> ca_set_bits c' = ca_set_bits c"

lemma same_shape_fields:
  assumes "same_shape c c'"
  shows "Cache_set_index c' = Cache_set_index c" "Cache_tag c' = Cache_tag c"
    "Cache_line_offset c' = Cache_line_offset c" "Cache_line_base c' = Cache_line_base c"
    "Cache_line_base_from_set_tag c' = Cache_line_base_from_set_tag c"
  using assms by (auto simp: same_shape_def fun_eq_iff Cache_set_index_def Cache_tag_def
      Cache_line_offset_def Cache_line_base_def Cache_line_base_from_set_tag_def)

lemma same_shape_trans [trans]: "same_shape c c' \<Longrightarrow> same_shape c' c'' \<Longrightarrow> same_shape c c''"
  by (simp add: same_shape_def)

lemma same_shape_intros [simp]:
  "same_shape c c" "same_shape c (put_line c s w l)" "same_shape c (c\<lparr>ca_stats := st\<rparr>)"
  "same_shape c (c\<lparr>ca_next_victim := nv\<rparr>)"
  by (simp_all add: same_shape_def put_line_def)

lemmas put_line_fields [simp] = same_shape_fields [OF same_shape_intros(2)]
lemmas stats_fields [simp] = same_shape_fields [OF same_shape_intros(3)]
lemmas victim_fields [simp] = same_shape_fields [OF same_shape_intros(4)]

text \<open>Statistics and victims do not show.\<close>

lemma hits_stats [simp]:
  "cache_hits (c\<lparr>ca_stats := st\<rparr>) = cache_hits c" "hit_byte (c\<lparr>ca_stats := st\<rparr>) = hit_byte c"
  "cache_hits (c\<lparr>ca_next_victim := nv\<rparr>) = cache_hits c" "hit_byte (c\<lparr>ca_next_victim := nv\<rparr>) = hit_byte c"
  "line_ok (c\<lparr>ca_stats := st\<rparr>) = line_ok c" "line_ok (c\<lparr>ca_next_victim := nv\<rparr>) = line_ok c"
  "Cache_find_way (c\<lparr>ca_stats := st\<rparr>) = Cache_find_way c"
  "Cache_find_way (c\<lparr>ca_next_victim := nv\<rparr>) = Cache_find_way c"
  by (auto simp: fun_eq_iff cache_hits_def hit_byte_def line_ok_def Cache_find_way_def)

lemma view_stats [simp]:
  "cached (c\<lparr>ca_stats := st\<rparr>) = cached c" "cached (c\<lparr>ca_next_victim := nv\<rparr>) = cached c"
  "cache_view byte (c\<lparr>ca_stats := st\<rparr>) m = cache_view byte c m"
  "cache_view byte (c\<lparr>ca_next_victim := nv\<rparr>) m = cache_view byte c m"
  by (auto simp: fun_eq_iff cached_def cache_view_def)

lemma inv_stats [simp]: "cache_inv holds byte (c\<lparr>ca_stats := st\<rparr>) m = cache_inv holds byte c m"
  by (simp add: cache_inv_def cache_geom_def)

lemma inv_victim:
  assumes "cache_inv holds byte c m" "\<forall>s < ca_set_count c. nv ! s < ca_ways c" "length nv = ca_set_count c"
  shows "cache_inv holds byte (c\<lparr>ca_next_victim := nv\<rparr>) m"
  using assms by (simp add: cache_inv_def cache_geom_def)

lemma line_at_put:
  assumes "cache_geom c" "s < ca_set_count c" "w < ca_ways c" "s' < ca_set_count c"
  shows "line_at (put_line c s w l) s' w' = (if s' = s \<and> w' = w then l else line_at c s' w')"
  using assms by (auto simp: put_line_def cache_geom_def nth_list_update)

lemma geom_put: "cache_geom c \<Longrightarrow> cache_geom (put_line c s w l)"
  by (cases "s < ca_set_count c") (auto simp: cache_geom_def put_line_def nth_list_update)

lemma put_line_simps [simp]:
  "ca_set_count (put_line c s w l) = ca_set_count c" "ca_ways (put_line c s w l) = ca_ways c"
  "ca_type (put_line c s w l) = ca_type c" "ca_config (put_line c s w l) = ca_config c"
  "ca_set_bits (put_line c s w l) = ca_set_bits c" "ca_next_victim (put_line c s w l) = ca_next_victim c"
  "line_ok (put_line c s w l) = line_ok c"
  by (simp_all add: put_line_def line_ok_def fun_eq_iff)

lemma find_way_hits:
  assumes "cache_geom c" "Cache_find_way c (Cache_set_index c a) (Cache_tag c a) = Some w"
  shows "cache_hits c a w"
  using assms position_SomeD [OF assms(2) [unfolded Cache_find_way_def]] set_index_less [OF assms(1), of a]
  by (simp add: cache_hits_def cache_geom_def)

lemma find_way_None:
  assumes "cache_geom c"
  shows "Cache_find_way c (Cache_set_index c a) (Cache_tag c a) = None \<longleftrightarrow> (\<forall>w. \<not> cache_hits c a w)"
  using assms set_index_less [OF assms, of a]
  by (auto simp: Cache_find_way_def position_None cache_hits_def cache_geom_def)

lemma cached_hit:
  assumes "cache_inv holds byte c m" "cache_hits c a w"
  shows "Cache_find_way c (Cache_set_index c a) (Cache_tag c a) = Some w" "cached c a = Some (hit_byte c a w)"
proof -
  have g: "cache_geom c" using assms by (simp add: cache_inv_def)
  obtain w' where w': "Cache_find_way c (Cache_set_index c a) (Cache_tag c a) = Some w'"
    using find_way_None [OF g, of a] assms(2)
    by (cases "Cache_find_way c (Cache_set_index c a) (Cache_tag c a)") auto
  then have "w' = w" using find_way_hits [OF g] assms unfolding cache_inv_def by blast
  then show "Cache_find_way c (Cache_set_index c a) (Cache_tag c a) = Some w" "cached c a = Some (hit_byte c a w)"
    using w' by (simp_all add: cached_def)
qed

lemma cached_None:
  assumes "cache_geom c"
  shows "cached c a = None \<longleftrightarrow> (\<forall>w. \<not> cache_hits c a w)"
  using find_way_None [OF assms, of a] by (simp add: cached_def)

lemma view_hit:
  assumes "cache_inv holds byte c m" "cache_hits c a w"
  shows "cache_view byte c m a = hit_byte c a w"
  using cached_hit(2) [OF assms] by (simp add: cache_view_def)

lemma view_miss:
  assumes "cache_geom c" "\<forall>w. \<not> cache_hits c a w"
  shows "cache_view byte c m a = byte m a"
  using cached_None [OF assms(1), of a] assms(2) by (simp add: cache_view_def)

text \<open>Hits after one line is replaced.\<close>

lemma hits_put:
  assumes "cache_geom c" "s < ca_set_count c" "w < ca_ways c"
  shows "cache_hits (put_line c s w l) b v \<longleftrightarrow>
    (if Cache_set_index c b = s \<and> v = w then cln_valid l \<and> cln_tag l = Cache_tag c b else cache_hits c b v)"
  using line_at_put [OF assms, of "Cache_set_index c b" l v] set_index_less [OF assms(1), of b] assms(3)
  by (auto simp: cache_hits_def)

lemma hit_byte_put:
  assumes "cache_geom c" "s < ca_set_count c" "w < ca_ways c"
  shows "hit_byte (put_line c s w l) b v =
    (if Cache_set_index c b = s \<and> v = w then cln_data l ! Cache_line_offset c b else hit_byte c b v)"
  using line_at_put [OF assms, of "Cache_set_index c b" l v] set_index_less [OF assms(1), of b]
  by (simp add: hit_byte_def)

subsection \<open>Bytes of a line, bytes of a store\<close>

lemma on_line:
  assumes "cache_geom c" "s < ca_set_count c" "drop_bit (28 - ca_set_bits c) t = 0"
  shows "Cache_set_index c b = s \<and> Cache_tag c b = t \<longleftrightarrow> unat (b - Cache_line_base_from_set_tag c s t) < 16"
    and "unat (b - Cache_line_base_from_set_tag c s t) < 16 \<Longrightarrow>
      Cache_line_offset c b = unat (b - Cache_line_base_from_set_tag c s t)"
proof -
  obtain a where a: "Cache_set_index c a = s" "Cache_tag c a = t" "Cache_line_base c a = a"
    and e: "Cache_line_base_from_set_tag c s t = a"
    using line_exists [OF assms] by metis
  have fwd: "Cache_line_base c b = a \<and> Cache_line_offset c b = unat (b - a)" if "unat (b - a) < 16"
    using join_address [OF assms(1) that, of a] a(3) by simp
  have bwd: "unat (b - a) < 16" if "Cache_line_base c b = a"
  proof -
    have "b - a = of_nat (Cache_line_offset c b)" using split_address [OF assms(1), of b] that by (metis add_diff_cancel_left')
    then show ?thesis using line_offset_less [OF assms(1), of b] by (simp add: unat_of_nat)
  qed
  show "Cache_set_index c b = s \<and> Cache_tag c b = t \<longleftrightarrow> unat (b - Cache_line_base_from_set_tag c s t) < 16"
    unfolding e using same_line [OF assms(1), of b a] a fwd bwd by auto
  show "unat (b - Cache_line_base_from_set_tag c s t) < 16 \<Longrightarrow>
      Cache_line_offset c b = unat (b - Cache_line_base_from_set_tag c s t)"
    unfolding e using fwd by simp
qed

lemma line_step:
  assumes "cache_geom c" "Cache_line_offset c a + k < 16"
  shows "Cache_line_base c (a + of_nat k) = Cache_line_base c a"
    "Cache_line_offset c (a + of_nat k) = Cache_line_offset c a + k"
    "Cache_set_index c (a + of_nat k) = Cache_set_index c a" "Cache_tag c (a + of_nat k) = Cache_tag c a"
proof -
  have e: "Cache_line_base c a + of_nat (Cache_line_offset c a + k) = a + of_nat k"
    using split_address [OF assms(1), of a] by (simp add: algebra_simps)
  show b: "Cache_line_base c (a + of_nat k) = Cache_line_base c a"
    and "Cache_line_offset c (a + of_nat k) = Cache_line_offset c a + k"
    using join_address [OF assms, of a] unfolding e by simp_all
  show "Cache_set_index c (a + of_nat k) = Cache_set_index c a" "Cache_tag c (a + of_nat k) = Cache_tag c a"
    using same_line [OF assms(1), of "a + of_nat k" a] b by simp_all
qed

lemma in_store_range:
  assumes "cache_geom c" "Cache_line_offset c a + n \<le> 16"
  shows "unat (b - a) < n \<longleftrightarrow> Cache_line_base c b = Cache_line_base c a \<and>
      Cache_line_offset c a \<le> Cache_line_offset c b \<and> Cache_line_offset c b < Cache_line_offset c a + n"
    and "unat (b - a) < n \<Longrightarrow> unat (b - a) = Cache_line_offset c b - Cache_line_offset c a"
proof -
  let ?o = "Cache_line_offset c"
  have fwd: "Cache_line_base c b = Cache_line_base c a \<and> ?o b = ?o a + unat (b - a)" if "unat (b - a) < n"
  proof -
    let ?k = "?o a + unat (b - a)"
    have k: "?k < 16" using that assms(2) by simp
    have e: "Cache_line_base c a + of_nat ?k = b"
      using split_address [OF assms(1), of a] by (simp add: algebra_simps)
    show ?thesis using join_address [OF assms(1) k, of a] unfolding e by simp
  qed
  have bwd: "unat (b - a) < n" if "Cache_line_base c b = Cache_line_base c a" "?o a \<le> ?o b" "?o b < ?o a + n"
  proof -
    have "b - a = of_nat (?o b) - of_nat (?o a)"
      using split_address [OF assms(1), of a] split_address [OF assms(1), of b] that(1)
      by (metis add_diff_cancel_left)
    moreover note le_Suc_ex [OF that(2)]
    ultimately have "\<exists>k. ?o b = ?o a + k \<and> b - a = of_nat k" by auto
    then obtain k where k: "?o b = ?o a + k" "b - a = of_nat k" by blast
    then show ?thesis using \<open>?o b < ?o a + n\<close> line_offset_less [OF assms(1), of b] by (simp add: unat_of_nat k)
  qed
  show "unat (b - a) < n \<longleftrightarrow> Cache_line_base c b = Cache_line_base c a \<and> ?o a \<le> ?o b \<and> ?o b < ?o a + n"
    using fwd bwd by auto
  show "unat (b - a) < n \<Longrightarrow> unat (b - a) = ?o b - ?o a" using fwd by simp
qed

lemma set_bytes_nth:
  assumes "ofs + length bs \<le> length d" "k < length d"
  shows "set_bytes ofs bs d ! k = (if ofs \<le> k \<and> k < ofs + length bs then bs ! (k - ofs) else d ! k)"
  using assms
proof (induction bs arbitrary: ofs d)
  case (Cons x bs)
  then show ?case by (auto simp: nth_list_update nth_Cons' Suc_diff_le)
qed auto

lemma set_bytes_length [simp]: "length (set_bytes ofs bs d) = length d"
  by (induction bs arbitrary: ofs d) auto

definition cache_keeps :: "('m \<Rightarrow> addr \<Rightarrow> bool) \<Rightarrow> ('m \<Rightarrow> addr \<Rightarrow> u8) \<Rightarrow> cache \<Rightarrow> 'm \<Rightarrow> cache \<Rightarrow> 'm \<Rightarrow> bool" where
  "cache_keeps holds byte c m c' m' \<longleftrightarrow> cache_inv holds byte c' m' \<and> same_shape c c' \<and>
     (\<forall>b. holds m' b = holds m b) \<and> (\<forall>b. holds m b \<longrightarrow> cache_view byte c' m' b = cache_view byte c m b)"

lemma cache_keeps_trans [trans]:
  "cache_keeps holds byte c m c' m' \<Longrightarrow> cache_keeps holds byte c' m' c'' m'' \<Longrightarrow> cache_keeps holds byte c m c'' m''"
  by (auto simp: cache_keeps_def intro: same_shape_trans)

text \<open>Replacing one line keeps the invariant when the new line is sound and the memory agrees with
  the other lines.\<close>

lemma inv_put:
  assumes inv: "cache_inv holds byte c m" and sw: "s < ca_set_count c" "w < ca_ways c" and l: "line_ok c l"
    and new: "\<And>b. cln_valid l \<Longrightarrow> Cache_set_index c b = s \<Longrightarrow> Cache_tag c b = cln_tag l \<Longrightarrow>
        holds m' b \<and> (\<not> cln_dirty l \<longrightarrow> byte m' b = cln_data l ! Cache_line_offset c b) \<and>
        (\<forall>v. v \<noteq> w \<longrightarrow> \<not> cache_hits c b v)"
    and old: "\<And>b v. cache_hits c b v \<Longrightarrow> \<not> (Cache_set_index c b = s \<and> v = w) \<Longrightarrow>
        holds m' b \<and> (\<not> cln_dirty (line_at c (Cache_set_index c b) v) \<longrightarrow> byte m' b = hit_byte c b v)"
  shows "cache_inv holds byte (put_line c s w l) m'"
proof -
  have g: "cache_geom c" using inv by (simp add: cache_inv_def)
  have lines: "line_ok c (line_at (put_line c s w l) s' w')" if "s' < ca_set_count c" "w' < ca_ways c" for s' w'
    using that inv l line_at_put [OF g sw that(1), of l w'] by (simp add: cache_inv_def)
  have mem: "holds m' b \<and> (\<not> cln_dirty (line_at (put_line c s w l) (Cache_set_index c b) v) \<longrightarrow>
      byte m' b = hit_byte (put_line c s w l) b v)" if "cache_hits (put_line c s w l) b v" for b v
  proof (cases "Cache_set_index c b = s \<and> v = w")
    case True
    with that new [of b] show ?thesis
      by (simp add: hits_put [OF g sw] hit_byte_put [OF g sw] line_at_put [OF g sw sw(1)])
  next
    case False
    then have "cache_hits c b v" using that by (simp add: hits_put [OF g sw] split: if_splits)
    then show ?thesis using old [OF _ False] line_at_put [OF g sw set_index_less [OF g, of b], of l v] False
      by (auto simp: hit_byte_put [OF g sw])
  qed
  have uniq: "v = v'" if h: "cache_hits (put_line c s w l) b v" "cache_hits (put_line c s w l) b v'" for b v v'
  proof (cases "Cache_set_index c b = s \<and> (v = w \<or> v' = w)")
    case True
    with h new [of b] show ?thesis by (auto simp: hits_put [OF g sw] split: if_splits)
  next
    case False
    with h inv show ?thesis unfolding cache_inv_def by (auto simp: hits_put [OF g sw] split: if_splits)
  qed
  show ?thesis unfolding cache_inv_def
    using geom_put [OF g] lines mem uniq by simp
qed

subsection \<open>The operations over a byte store\<close>

context byte_store
begin

lemma write_bytes_effect:
  assumes "write_bytes_from wb a i bs m = (r, m')" "\<forall>k < length bs. holds m (a + of_nat (i + k))"
    "length bs < 2 ^ 32"
  shows "r = Inr () \<and> (\<forall>b. holds m' b = holds m b) \<and> (\<forall>b. holds m b \<longrightarrow> byte m' b =
    (if unat (b - (a + of_nat i)) < length bs then bs ! unat (b - (a + of_nat i)) else byte m b))"
  using assms
proof (induction bs arbitrary: i m)
  case (Cons x bs)
  obtain r1 m1 where e1: "wb m (a + of_nat i) x = (r1, m1)" by fastforce
  have "holds m (a + of_nat i)" using Cons.prems(2) by (force dest: spec [of _ 0])
  note w1 = wb_after [OF e1 this]
  have tl: "write_bytes_from wb a (Suc i) bs m1 = (r, m')"
    using Cons.prems(1) e1 w1(1) by (simp add: Addr_add_def)
  have hs: "\<forall>k < length bs. holds m1 (a + of_nat (Suc i + k))"
  proof (intro allI impI)
    fix k assume "k < length bs"
    then show "holds m1 (a + of_nat (Suc i + k))"
      using Cons.prems(2) [rule_format, of "Suc k"] by (simp add: w1(2) ac_simps)
  qed
  have ih: "r = Inr () \<and> (\<forall>b. holds m' b = holds m1 b) \<and> (\<forall>b. holds m1 b \<longrightarrow> byte m' b =
    (if unat (b - (a + of_nat (Suc i))) < length bs then bs ! unat (b - (a + of_nat (Suc i))) else byte m1 b))"
    by (rule Cons.IH [OF tl hs]) (use Cons.prems(3) in simp)
  have "byte m' b = (if unat (b - (a + of_nat i)) < length (x # bs)
      then (x # bs) ! unat (b - (a + of_nat i)) else byte m b)" if "holds m b" for b
  proof -
    define d where "d = b - (a + of_nat i)"
    have d1: "b - (a + of_nat (Suc i)) = d - 1" by (simp add: d_def algebra_simps)
    have eq: "b = a + of_nat i \<longleftrightarrow> d = 0" by (auto simp: d_def)
    have v: "byte m' b = (if unat (d - 1) < length bs then bs ! unat (d - 1) else if d = 0 then x else byte m b)"
    proof -
      have "holds m1 b" using that w1(2) by simp
      with ih have "byte m' b = (if unat (b - (a + of_nat (Suc i))) < length bs
          then bs ! unat (b - (a + of_nat (Suc i))) else byte m1 b)" by blast
      then show ?thesis unfolding d1 w1(3) [OF that] eq .
    qed
    show ?thesis
    proof (cases "d = 0")
      case True
      have "\<not> unat (- 1 :: u32) < length bs" using Cons.prems(3)
        by (simp add: unsigned_minus_1_eq_mask mask_eq_exp_minus_1)
      then show ?thesis using v True by (simp add: d_def [symmetric])
    next
      case False
      then have "unat d = Suc (unat (d - 1))" by (simp add: unat_minus_one unat_gt_0)
      then show ?thesis using v False by (simp add: d_def [symmetric])
    qed
  qed
  then show ?case using ih by (simp add: w1(2))
qed simp

lemma read_bytes_effect:
  assumes "\<forall>k < n. holds m (a + of_nat (i + k))"
  shows "read_bytes_from rb a i n m = (Inr (map (\<lambda>k. byte m (a + of_nat (i + k))) [0..<n]), m)"
  using assms
proof (induction n arbitrary: i)
  case (Suc n)
  have h0: "holds m (a + of_nat i)" using Suc.prems by (force dest: spec [of _ 0])
  have hs: "\<forall>k < n. holds m (a + of_nat (Suc i + k))"
  proof (intro allI impI)
    fix k assume "k < n"
    then show "holds m (a + of_nat (Suc i + k))" using Suc.prems [rule_format, of "Suc k"] by simp
  qed
  have "map (\<lambda>k. byte m (a + of_nat (i + k))) [0..<Suc n] =
      byte m (a + of_nat i) # map (\<lambda>k. byte m (a + of_nat (Suc i + k))) [0..<n]"
    by (subst upt_conv_Cons) (simp_all add: map_Suc_upt [symmetric] comp_def ac_simps del: upt_Suc)
  then show ?case using Suc.IH [OF hs] h0 by (simp add: Addr_add_def rb_ok)
qed simp

abbreviation inv :: "cache \<Rightarrow> 'm \<Rightarrow> bool" where "inv \<equiv> cache_inv holds byte"
abbreviation keeps :: "cache \<Rightarrow> 'm \<Rightarrow> cache \<Rightarrow> 'm \<Rightarrow> bool" where "keeps \<equiv> cache_keeps holds byte"
abbreviation view :: "cache \<Rightarrow> 'm \<Rightarrow> addr \<Rightarrow> u8" where "view \<equiv> cache_view byte"

lemma inv_geom: "inv c m \<Longrightarrow> cache_geom c"
  by (simp add: cache_inv_def)

lemma inv_hit:
  assumes "inv c m" "cache_hits c b v"
  shows "holds m b \<and> (\<not> cln_dirty (line_at c (Cache_set_index c b) v) \<longrightarrow> byte m b = hit_byte c b v)"
    and "cache_hits c b v' \<Longrightarrow> v' = v"
  using assms unfolding cache_inv_def by blast+

lemma inv_line: "inv c m \<Longrightarrow> s < ca_set_count c \<Longrightarrow> w < ca_ways c \<Longrightarrow> line_ok c (line_at c s w)"
  unfolding cache_inv_def by blast

lemma keeps_refl: "inv c m \<Longrightarrow> keeps c m c m"
  by (simp add: cache_keeps_def)

text \<open>Replacing a clean line does not show, away from the new line.\<close>

lemma view_put_off:
  assumes i: "inv c m" and i': "inv (put_line c s w l) m" and sw: "s < ca_set_count c" "w < ca_ways c"
    and clean: "cln_valid (line_at c s w) \<Longrightarrow> \<not> cln_dirty (line_at c s w)"
    and off: "\<not> (cln_valid l \<and> Cache_set_index c b = s \<and> cln_tag l = Cache_tag c b)"
  shows "view (put_line c s w l) m b = view c m b"
proof -
  note g = inv_geom [OF i]
  have h: "cache_hits (put_line c s w l) b v \<longleftrightarrow> cache_hits c b v \<and> \<not> (Cache_set_index c b = s \<and> v = w)" for v
    using off by (auto simp: hits_put [OF g sw])
  show ?thesis
  proof (cases "\<exists>v. cache_hits (put_line c s w l) b v")
    case True
    then obtain v where v: "cache_hits (put_line c s w l) b v" by blast
    then show ?thesis using h view_hit [OF i' v] view_hit [OF i, of b v] by (auto simp: hit_byte_put [OF g sw])
  next
    case False
    then have new: "view (put_line c s w l) m b = byte m b" by (intro view_miss [OF geom_put [OF g]]) simp
    show ?thesis
    proof (cases "\<exists>v. cache_hits c b v")
      case True
      then obtain v where v: "cache_hits c b v" by blast
      then have "Cache_set_index c b = s \<and> v = w" using False h by blast
      then have "byte m b = hit_byte c b v"
        using i v clean unfolding cache_inv_def cache_hits_def by blast
      then show ?thesis using new view_hit [OF i v] by simp
    qed (simp add: new view_miss [OF g])
  qed
qed

lemma drop_clean:
  assumes i: "inv c m" and sw: "s < ca_set_count c" "w < ca_ways c"
    and clean: "cln_valid (line_at c s w) \<Longrightarrow> \<not> cln_dirty (line_at c s w)" and l: "\<not> cln_valid l"
  shows "keeps c m (put_line c s w l) m"
proof -
  have inv': "inv (put_line c s w l) m"
    using l i by (intro inv_put [OF i sw]) (auto simp: line_ok_def cache_inv_def)
  then show ?thesis using view_put_off [OF i inv' sw clean] l by (simp add: cache_keeps_def)
qed

text \<open>Bringing in a line that nobody holds, over a clean one.\<close>

lemma fill_clean:
  assumes i: "inv c m" and s: "s = Cache_set_index c a" and w: "w < ca_ways c"
    and clean: "cln_valid (line_at c s w) \<Longrightarrow> \<not> cln_dirty (line_at c s w)"
    and miss: "\<forall>v. \<not> cache_hits c a v" and mem: "\<forall>k < 16. holds m (Cache_line_base c a + of_nat k)"
    and l: "l = \<lparr>cln_valid = True, cln_dirty = False, cln_tag = Cache_tag c a,
      cln_data = map (\<lambda>k. byte m (Cache_line_base c a + of_nat k)) [0..<16]\<rparr>"
  shows "keeps c m (put_line c s w l) m \<and> cache_hits (put_line c s w l) a w"
proof -
  note g = inv_geom [OF i]
  have sw: "s < ca_set_count c" "w < ca_ways c" using s w set_index_less [OF g] by simp_all
  have on: "Cache_line_base c b = Cache_line_base c a" if "Cache_set_index c b = s" "Cache_tag c b = Cache_tag c a" for b
    using same_line [OF g, of b a] that s by simp
  have at: "holds m b \<and> byte m b = cln_data l ! Cache_line_offset c b"
    if "Cache_set_index c b = s" "Cache_tag c b = Cache_tag c a" for b
  proof -
    have b: "Cache_line_base c a + of_nat (Cache_line_offset c b) = b"
      using split_address [OF g, of b] on [OF that] by simp
    have "Cache_line_offset c b < 16" by (rule line_offset_less [OF g])
    moreover from this mem have "holds m (Cache_line_base c a + of_nat (Cache_line_offset c b))" by blast
    ultimately show ?thesis by (simp add: l b)
  qed
  have none: "\<not> cache_hits c b v" if "Cache_set_index c b = s" "Cache_tag c b = Cache_tag c a" for b v
    using miss that s by (auto simp: cache_hits_def)
  have tag: "drop_bit (28 - ca_set_bits c) (Cache_tag c a) = 0"
  proof -
    have "ca_set_bits c \<le> 28" using g by (simp add: cache_geom_def)
    then show ?thesis by (auto intro!: bit_word_eqI simp: Cache_tag_def bit_simps dest: bit_imp_le_length)
  qed
  have lt: "cln_tag l = Cache_tag c a" "cln_dirty l = False" by (simp_all add: l)
  have inv': "inv (put_line c s w l) m"
  proof (rule inv_put [OF i sw])
    show "line_ok c l" using tag by (simp add: line_ok_def l)
  next
    fix b assume "Cache_set_index c b = s" "Cache_tag c b = cln_tag l"
    then show "holds m b \<and> (\<not> cln_dirty l \<longrightarrow> byte m b = cln_data l ! Cache_line_offset c b) \<and>
        (\<forall>v. v \<noteq> w \<longrightarrow> \<not> cache_hits c b v)"
      using at none by (simp add: lt)
  qed (rule inv_hit(1) [OF i])
  have hit: "cache_hits (put_line c s w l) b w" if "Cache_set_index c b = s" "Cache_tag c b = Cache_tag c a" for b
    using that by (simp add: hits_put [OF g sw] l)
  have "view (put_line c s w l) m b = view c m b" for b
  proof (cases "Cache_set_index c b = s \<and> Cache_tag c b = Cache_tag c a")
    case True
    have "view c m b = byte m b" using True none by (intro view_miss [OF g]) auto
    then show ?thesis using True view_hit [OF inv' hit] at by (simp add: hit_byte_put [OF g sw])
  next
    case False
    then show ?thesis using l by (intro view_put_off [OF i inv' sw clean]) auto
  qed
  then show ?thesis using inv' s hit by (simp add: cache_keeps_def)
qed

text \<open>Writing a line back makes it clean and does not show.\<close>

lemma writeback_ok:
  assumes i: "inv c m" and sw: "s < ca_set_count c" "w < ca_ways c"
  obtains c' m' where "Cache_writeback_line wb s w (c, m) = (Inr (), (c', m'))" "keeps c m c' m'"
    "\<And>b v. cache_hits c' b v = cache_hits c b v" "\<not> (cln_valid (line_at c' s w) \<and> cln_dirty (line_at c' s w))"
proof (cases "cln_valid (line_at c s w) \<and> cln_dirty (line_at c s w)")
  case False
  then show thesis using keeps_refl [OF i] by (intro that [of c m]) (auto simp: Cache_writeback_line_def Let_def)
next
  case True
  note g = inv_geom [OF i]
  let ?l = "line_at c s w" let ?t = "cln_tag ?l" let ?base = "Cache_line_base_from_set_tag c s ?t"
  have lo: "drop_bit (28 - ca_set_bits c) ?t = 0" "length (cln_data ?l) = 16" "ca_type c = CT_Data"
    "cc_write_policy (ca_config c) = WriteBack"
    using inv_line [OF i sw] True by (simp_all add: line_ok_def)
  note on = on_line [OF g sw(1) lo(1)]
  have hits: "cache_hits c b w" if "unat (b - ?base) < 16" for b
    using that on(1) [of b] True sw by (simp add: cache_hits_def)
  have "holds m (?base + of_nat k)" if "k < 16" for k
    using hits [of "?base + of_nat k"] that inv_hit(1) [OF i] by (simp add: unat_of_nat)
  moreover obtain r m' where w: "write_bytes_from wb ?base 0 (cln_data ?l) m = (r, m')" by fastforce
  ultimately have eff: "r = Inr ()" "holds m' b = holds m b" "holds m b \<Longrightarrow> byte m' b =
      (if unat (b - ?base) < 16 then cln_data ?l ! unat (b - ?base) else byte m b)" for b
    using write_bytes_effect [OF w] lo(2) by auto
  let ?l' = "?l\<lparr>cln_dirty := False\<rparr>" let ?c = "put_line c s w ?l'"
  have hb: "cache_hits ?c b v = cache_hits c b v" "hit_byte ?c b v = hit_byte c b v" for b v
    using sw unfolding hits_put [OF g sw] hit_byte_put [OF g sw] by (auto simp: cache_hits_def hit_byte_def)
  have inv': "inv ?c m'"
  proof (rule inv_put [OF i sw])
    show "line_ok c ?l'" using inv_line [OF i sw] by (simp add: line_ok_def)
  next
    fix b assume "Cache_set_index c b = s" "Cache_tag c b = cln_tag ?l'"
    then have u: "unat (b - ?base) < 16" using on(1) [of b] by simp
    then show "holds m' b \<and> (\<not> cln_dirty ?l' \<longrightarrow> byte m' b = cln_data ?l' ! Cache_line_offset c b) \<and>
        (\<forall>v. v \<noteq> w \<longrightarrow> \<not> cache_hits c b v)"
      using eff(2,3) [of b] inv_hit [OF i hits [OF u]] on(2) by auto
  next
    fix b v assume h: "cache_hits c b v" "\<not> (Cache_set_index c b = s \<and> v = w)"
    then have "\<not> unat (b - ?base) < 16" using hits inv_hit(2) [OF i h(1)] on(1) by blast
    then show "holds m' b \<and> (\<not> cln_dirty (line_at c (Cache_set_index c b) v) \<longrightarrow> byte m' b = hit_byte c b v)"
      using inv_hit(1) [OF i h(1)] eff(2,3) [of b] by simp
  qed
  have vw: "view ?c m' b = view c m b" if "holds m b" for b
  proof (cases "\<exists>v. cache_hits c b v")
    case True
    then obtain v where v: "cache_hits c b v" by blast
    then show ?thesis using view_hit [OF i v] view_hit [OF inv', of b v] by (simp add: hb)
  next
    case no: False
    then have "\<not> unat (b - ?base) < 16" using hits by blast
    then show ?thesis
      using no view_miss [OF g, of b byte m] view_miss [OF geom_put [OF g], of s w ?l' b byte m'] eff(3) [OF that]
      by (simp add: hb)
  qed
  let ?c' = "?c\<lparr>ca_stats := (ca_stats ?c)\<lparr>cst_writebacks := cst_writebacks (ca_stats ?c) + 1\<rparr>\<rparr>"
  show thesis
  proof (rule that [of ?c' m'])
    show "Cache_writeback_line wb s w (c, m) = (Inr (), (?c', m'))"
      using w eff(1) True lo(3,4) by (simp add: Cache_writeback_line_def Let_def)
    show "keeps c m ?c' m'"
      using inv' vw eff(2) same_shape_trans [OF same_shape_intros(2) same_shape_intros(3)]
      by (simp add: cache_keeps_def)
    show "cache_hits ?c' b v = cache_hits c b v" for b v by (simp add: hb)
    show "\<not> (cln_valid (line_at ?c' s w) \<and> cln_dirty (line_at ?c' s w))"
      using line_at_put [OF g sw sw(1), of ?l' w] by simp
  qed
qed

lemma drop_ok:
  assumes i: "inv c m" and sw: "s < ca_set_count c" "w < ca_ways c"
  obtains c' m' where "Cache_drop_line wb s w (c, m) = (Inr (), (c', m'))" "keeps c m c' m'"
    "\<And>b v. cache_hits c' b v \<longleftrightarrow> cache_hits c b v \<and> \<not> (Cache_set_index c b = s \<and> v = w)"
proof -
  obtain c1 m1 where w: "Cache_writeback_line wb s w (c, m) = (Inr (), (c1, m1))" "keeps c m c1 m1"
    "\<And>b v. cache_hits c1 b v = cache_hits c b v" "\<not> (cln_valid (line_at c1 s w) \<and> cln_dirty (line_at c1 s w))"
    using writeback_ok [OF i sw] by metis
  have i1: "inv c1 m1" and sh: "same_shape c c1" using w(2) by (simp_all add: cache_keeps_def)
  have sw1: "s < ca_set_count c1" "w < ca_ways c1" using sw sh by (simp_all add: same_shape_def)
  have d: "keeps c1 m1 (put_line c1 s w CacheLine_default) m1"
    by (rule drop_clean [OF i1 sw1]) (use w(4) in \<open>auto simp: CacheLine_default_def\<close>)
  show thesis
  proof (rule that)
    show "Cache_drop_line wb s w (c, m) = (Inr (), (put_line c1 s w CacheLine_default, m1))"
      using w(1) by (simp add: Cache_drop_line_def)
    show "keeps c m (put_line c1 s w CacheLine_default) m1" using w(2) d by (rule cache_keeps_trans)
    show "cache_hits (put_line c1 s w CacheLine_default) b v \<longleftrightarrow>
        cache_hits c b v \<and> \<not> (Cache_set_index c b = s \<and> v = w)" for b v
      using same_shape_fields [OF sh] w(3)
      by (simp add: hits_put [OF inv_geom [OF i1] sw1] CacheLine_default_def)
  qed
qed

lemma keeps_stats: "inv c m \<Longrightarrow> keeps c m (c\<lparr>ca_stats := st\<rparr>) m"
  by (simp add: cache_keeps_def)

lemma keeps_inv: "keeps c m c' m' \<Longrightarrow> inv c' m'"
  by (simp add: cache_keeps_def)

lemma victim_ok:
  assumes i: "inv c m" and s: "s < ca_set_count c" and v: "Cache_choose_victim_way c s = (w, c')"
  shows "w < ca_ways c \<and> keeps c m c' m \<and> cache_hits c' = cache_hits c"
proof (cases "position (\<lambda>l. \<not> cln_valid l) (ca_sets c ! s)")
  case None
  have nv: "ca_next_victim c ! s < ca_ways c" "length (ca_next_victim c) = ca_set_count c" "0 < ca_ways c"
    using inv_geom [OF i] s by (simp_all add: cache_geom_def)
  have c': "w = ca_next_victim c ! s"
    "c' = c\<lparr>ca_next_victim := (ca_next_victim c)[s := (w + 1) mod ca_ways c]\<rparr>"
    using v None by (auto simp: Cache_choose_victim_way_def Let_def split: replacement_policy.splits)
  have "\<forall>s' < ca_set_count c. ((ca_next_victim c)[s := (w + 1) mod ca_ways c]) ! s' < ca_ways c"
    using inv_geom [OF i] s nv by (auto simp: cache_geom_def nth_list_update)
  then have "inv c' m" using i nv(2) by (simp add: c'(2) inv_victim)
  then show ?thesis using c' nv by (simp add: cache_keeps_def)
next
  case (Some k)
  then show ?thesis
    using v keeps_refl [OF i] position_SomeD [OF Some] inv_geom [OF i] s
    by (auto simp: Cache_choose_victim_way_def cache_geom_def)
qed

text \<open>A line that exists in memory and is not held can be brought in.\<close>

lemma fill_ok:
  assumes i: "inv c m" and miss: "\<forall>v. \<not> cache_hits c a v"
    and mem: "\<forall>k < 16. holds m (Cache_line_base c a + of_nat k)"
  obtains w c' m' where "Cache_fill_line rb wb a (c, m) = (Inr w, (c', m'))" "keeps c m c' m'" "cache_hits c' a w"
proof -
  let ?s = "Cache_set_index c a"
  have s: "?s < ca_set_count c" by (rule set_index_less [OF inv_geom [OF i]])
  obtain w c1 where v: "Cache_choose_victim_way c ?s = (w, c1)" by fastforce
  have w: "w < ca_ways c" and k1: "keeps c m c1 m" and h1: "cache_hits c1 = cache_hits c"
    using victim_ok [OF i s v] by simp_all
  define st where "st = (ca_stats c1)\<lparr>cst_evictions := cst_evictions (ca_stats c1) + 1\<rparr>"
  define cm where "cm = (if cln_valid (line_at c1 ?s w)
     then Cache_writeback_line wb ?s w (c1\<lparr>ca_stats := st\<rparr>, m) else (Inr (), (c1, m)))"
  have sh1: "ca_set_count c1 = ca_set_count c" "ca_ways c1 = ca_ways c"
    using k1 by (simp_all add: cache_keeps_def same_shape_def)
  obtain c2 m2 where cm: "cm = (Inr (), (c2, m2))" and k2: "keeps c m c2 m2"
    and h2: "\<And>b v. cache_hits c2 b v = cache_hits c b v"
    and clean: "\<not> (cln_valid (line_at c2 ?s w) \<and> cln_dirty (line_at c2 ?s w))"
  proof (cases "cln_valid (line_at c1 ?s w)")
    case False
    then show ?thesis using k1 h1 by (intro that [of c1 m]) (simp_all add: cm_def)
  next
    case True
    have i1: "inv (c1\<lparr>ca_stats := st\<rparr>) m" using keeps_inv [OF k1] by simp
    have sw1: "?s < ca_set_count (c1\<lparr>ca_stats := st\<rparr>)" "w < ca_ways (c1\<lparr>ca_stats := st\<rparr>)" using s w sh1 by simp_all
    obtain c2 m2 where "Cache_writeback_line wb ?s w (c1\<lparr>ca_stats := st\<rparr>, m) = (Inr (), (c2, m2))"
      "keeps (c1\<lparr>ca_stats := st\<rparr>) m c2 m2" "\<And>b v. cache_hits c2 b v = cache_hits (c1\<lparr>ca_stats := st\<rparr>) b v"
      "\<not> (cln_valid (line_at c2 ?s w) \<and> cln_dirty (line_at c2 ?s w))"
      using writeback_ok [OF i1 sw1] by metis
    then show ?thesis
      using True h1 cache_keeps_trans [OF k1 cache_keeps_trans [OF keeps_stats [OF keeps_inv [OF k1]]]]
      by (intro that [of c2 m2]) (simp_all add: cm_def)
  qed
  have sh: "same_shape c c2" and hold: "\<And>b. holds m2 b = holds m b" and i2: "inv c2 m2"
    using k2 by (simp_all add: cache_keeps_def)
  note f = same_shape_fields [OF sh]
  have mem2: "\<forall>k < 16. holds m2 (Cache_line_base c2 a + of_nat k)" using mem by (simp add: hold f)
  define l where "l = \<lparr>cln_valid = True, cln_dirty = False, cln_tag = Cache_tag c2 a,
      cln_data = map (\<lambda>k. byte m2 (Cache_line_base c2 a + of_nat k)) [0..<16]\<rparr>"
  have fc: "keeps c2 m2 (put_line c2 ?s w l) m2 \<and> cache_hits (put_line c2 ?s w l) a w"
    by (rule fill_clean [OF i2 _ _ _ _ mem2 l_def])
      (use clean miss w sh in \<open>auto simp: f h2 same_shape_def\<close>)
  have rd: "read_bytes_from rb (Cache_line_base c2 a) 0 16 m2 =
      (Inr (map (\<lambda>k. byte m2 (Cache_line_base c2 a + of_nat k)) [0..<16]), m2)"
    using read_bytes_effect [of 16 m2 "Cache_line_base c2 a" 0] mem2 by simp
  have "Cache_fill_line rb wb a (c, m) = bind_st cm (\<lambda>_ (c', m).
      case read_bytes_from rb (Cache_line_base c a) 0 16 m of
        (Inl e, m) \<Rightarrow> (Inl e, (c', m))
      | (Inr data, m) \<Rightarrow> (Inr w, (put_line c' ?s w
          \<lparr>cln_valid = True, cln_dirty = False, cln_tag = Cache_tag c a, cln_data = data\<rparr>, m)))"
    by (simp add: Cache_fill_line_def Let_def v cm_def [unfolded st_def] CACHE_LINE_SIZE_def split del: if_split)
  then have "Cache_fill_line rb wb a (c, m) = (Inr w, (put_line c2 ?s w l, m2))"
    using rd by (simp add: cm l_def f)
  then show thesis using fc k2 by (intro that [of w "put_line c2 ?s w l" m2]) (auto intro: cache_keeps_trans)
qed

lemma hit_bytes:
  assumes i: "inv c m" and h: "cache_hits c a w" and n: "Cache_line_offset c a + n \<le> 16"
  shows "take n (drop (Cache_line_offset c a) (cln_data (line_at c (Cache_set_index c a) w))) =
    map (\<lambda>k. view c m (a + of_nat k)) [0..<n]" (is "take n (drop ?o ?d) = _")
proof (rule nth_equalityI)
  note g = inv_geom [OF i]
  have len: "length ?d = 16"
    using inv_line [OF i set_index_less [OF g]] h by (auto simp: line_ok_def cache_hits_def)
  then show "length (take n (drop ?o ?d)) = length (map (\<lambda>k. view c m (a + of_nat k)) [0..<n])" using n by simp
  fix k assume "k < length (take n (drop ?o ?d))"
  then have k: "k < n" "k < 16" using len n by auto
  note b = line_step [OF g, of a k]
  have "view c m (a + of_nat k) = ?d ! (?o + k)"
    using view_hit [OF i, of "a + of_nat k" w] h b k n by (simp add: cache_hits_def hit_byte_def)
  then show "take n (drop ?o ?d) ! k = map (\<lambda>k. view c m (a + of_nat k)) [0..<n] ! k"
    using k len n by simp
qed

lemma line_held:
  assumes "cache_geom c" "\<forall>k < 16. holds m (Cache_line_base c a + of_nat k)" "Cache_line_offset c a + k < 16"
  shows "holds m (a + of_nat k)"
proof -
  have "Cache_line_base c a + of_nat (Cache_line_offset c a + k) = a + of_nat k"
    using split_address [OF assms(1), of a] by (simp add: algebra_simps)
  then show ?thesis using assms(2,3) by metis
qed

text \<open>Reads within a line answer from the flat memory and do not change it.\<close>

lemma read_line_ok:
  assumes i: "inv c m" and n: "Cache_line_offset c a + n \<le> 16"
    and mem: "\<forall>k < 16. holds m (Cache_line_base c a + of_nat k)"
  obtains c' m' where "Cache_read_line rb wb a n (c, m) = (Inr (map (\<lambda>k. view c m (a + of_nat k)) [0..<n]), (c', m'))"
    "keeps c m c' m'"
proof (cases "Cache_find_way c (Cache_set_index c a) (Cache_tag c a)")
  case (Some w)
  then show thesis
    using hit_bytes [OF i find_way_hits [OF inv_geom [OF i] Some] n] keeps_stats [OF i]
    by (intro that) (simp_all add: Cache_read_line_def Let_def Cache_record_read_hit_def)
next
  case None
  define st where "st = ca_stats (Cache_record_read_miss c)"
  have i1: "inv (c\<lparr>ca_stats := st\<rparr>) m" using i by simp
  have m1: "\<forall>v. \<not> cache_hits (c\<lparr>ca_stats := st\<rparr>) a v"
    "\<forall>k < 16. holds m (Cache_line_base (c\<lparr>ca_stats := st\<rparr>) a + of_nat k)"
    using None find_way_None [OF inv_geom [OF i], of a] mem by simp_all
  obtain w c' m' where f: "Cache_fill_line rb wb a (c\<lparr>ca_stats := st\<rparr>, m) = (Inr w, (c', m'))"
    "keeps (c\<lparr>ca_stats := st\<rparr>) m c' m'" "cache_hits c' a w"
    using fill_ok [OF i1 m1] by metis
  have k: "keeps c m c' m'" using keeps_stats [OF i] f(2) by (rule cache_keeps_trans)
  note sh = same_shape_fields [of c c'] k [unfolded cache_keeps_def]
  have "map (\<lambda>k. view c' m' (a + of_nat k)) [0..<n] = map (\<lambda>k. view c m (a + of_nat k)) [0..<n]"
  proof (rule map_cong [OF refl])
    fix k assume "k \<in> set [0..<n]"
    then have "holds m (a + of_nat k)" using line_held [OF inv_geom [OF i] mem, of k] n by simp
    then show "view c' m' (a + of_nat k) = view c m (a + of_nat k)" using sh by simp
  qed
  then have "Cache_read_line rb wb a n (c, m) = (Inr (map (\<lambda>k. view c m (a + of_nat k)) [0..<n]), (c', m'))"
    using hit_bytes [OF keeps_inv [OF k] f(3), of n] n f(1) None sh
    by (simp add: Cache_read_line_def Let_def st_def Cache_record_read_miss_def)
  then show thesis using k by (rule that)
qed

text \<open>A store of the bytes \<open>bs\<close> at \<open>a\<close>, seen in the flat memory.\<close>

definition stores :: "cache \<Rightarrow> 'm \<Rightarrow> addr \<Rightarrow> u8 list \<Rightarrow> cache \<Rightarrow> 'm \<Rightarrow> bool" where
  "stores c m a bs c' m' \<longleftrightarrow> inv c' m' \<and> same_shape c c' \<and> (\<forall>b. holds m' b = holds m b) \<and>
     (\<forall>b. holds m b \<longrightarrow> view c' m' b = (if unat (b - a) < length bs then bs ! unat (b - a) else view c m b))"

lemma keeps_stores: "keeps c m c1 m1 \<Longrightarrow> stores c1 m1 a bs c' m' \<Longrightarrow> stores c m a bs c' m'"
  by (auto simp: cache_keeps_def stores_def intro: same_shape_trans)

lemma put_stores:
  assumes i: "inv c m" and h: "cache_hits c a w" and n: "Cache_line_offset c a + length bs \<le> 16"
    and l: "l = (line_at c (Cache_set_index c a) w)
        \<lparr>cln_data := set_bytes (Cache_line_offset c a) bs (cln_data (line_at c (Cache_set_index c a) w)), cln_dirty := d\<rparr>"
    and pol: "d \<Longrightarrow> ca_type c = CT_Data \<and> cc_write_policy (ca_config c) = WriteBack"
    and m': "\<And>b. holds m' b = holds m b"
    and off: "\<And>b. holds m b \<Longrightarrow> \<not> unat (b - a) < length bs \<Longrightarrow> byte m' b = byte m b"
    and clean: "\<And>b. \<not> d \<Longrightarrow> cache_hits c b w \<Longrightarrow> Cache_set_index c b = Cache_set_index c a \<Longrightarrow>
        byte m' b = (if unat (b - a) < length bs then bs ! unat (b - a) else hit_byte c b w)"
  shows "stores c m a bs (put_line c (Cache_set_index c a) w l) m'"
proof -
  note g = inv_geom [OF i]
  let ?s = "Cache_set_index c a"
  have sw: "?s < ca_set_count c" "w < ca_ways c" using h set_index_less [OF g] by (simp_all add: cache_hits_def)
  have len: "length (cln_data (line_at c ?s w)) = 16"
    using inv_line [OF i sw] h by (simp add: line_ok_def cache_hits_def)
  have on: "Cache_line_base c b = Cache_line_base c a" "cache_hits c b w"
    if "Cache_set_index c b = ?s" "Cache_tag c b = Cache_tag c a" for b
    using that h same_line [OF g, of b a] by (simp_all add: cache_hits_def)
  have data: "cln_data l ! Cache_line_offset c b =
      (if unat (b - a) < length bs then bs ! unat (b - a) else hit_byte c b w)"
    if "Cache_set_index c b = ?s" "Cache_tag c b = Cache_tag c a" for b
    using in_store_range [OF g n, of b] on(1) [OF that] len n line_offset_less [OF g, of b] that(1)
    by (auto simp: l set_bytes_nth hit_byte_def)
  have in_line: "Cache_set_index c b = ?s \<and> Cache_tag c b = Cache_tag c a" if "unat (b - a) < length bs" for b
    using in_store_range(1) [OF g n, of b] that same_line [OF g, of b a] by blast
  have lt: "cln_tag l = Cache_tag c a" "cln_valid l" "cln_dirty l = d"
    using h by (simp_all add: l cache_hits_def)
  have inv': "inv (put_line c ?s w l) m'"
  proof (rule inv_put [OF i sw])
    show "line_ok c l" using inv_line [OF i sw] pol by (auto simp: line_ok_def l)
  next
    fix b assume b: "Cache_set_index c b = ?s" "Cache_tag c b = cln_tag l"
    have hb: "cache_hits c b w" using on(2) b lt by simp
    show "holds m' b \<and> (\<not> cln_dirty l \<longrightarrow> byte m' b = cln_data l ! Cache_line_offset c b) \<and>
        (\<forall>v. v \<noteq> w \<longrightarrow> \<not> cache_hits c b v)"
      using inv_hit [OF i hb] clean [OF _ hb] data [of b] b by (auto simp: m' lt)
  next
    fix b v assume hv: "cache_hits c b v" "\<not> (Cache_set_index c b = ?s \<and> v = w)"
    have "\<not> unat (b - a) < length bs" using in_line [of b] on(2) [of b] inv_hit(2) [OF i hv(1)] hv(2) by blast
    then show "holds m' b \<and> (\<not> cln_dirty (line_at c (Cache_set_index c b) v) \<longrightarrow> byte m' b = hit_byte c b v)"
      using inv_hit(1) [OF i hv(1)] off [of b] by (simp add: m')
  qed
  have "view (put_line c ?s w l) m' b = (if unat (b - a) < length bs then bs ! unat (b - a) else view c m b)"
    if "holds m b" for b
  proof (cases "Cache_set_index c b = ?s \<and> Cache_tag c b = Cache_tag c a")
    case True
    then have "cache_hits (put_line c ?s w l) b w" by (simp add: hits_put [OF g sw] lt)
    from view_hit [OF inv' this] show ?thesis
      using True data [of b] view_hit [OF i on(2), of b] by (simp add: hit_byte_put [OF g sw])
  next
    case False
    then have nr: "\<not> unat (b - a) < length bs" using in_line by blast
    have hp: "cache_hits (put_line c ?s w l) b v \<longleftrightarrow> cache_hits c b v" for v
      using False h unfolding hits_put [OF g sw] lt by (auto simp: cache_hits_def)
    show ?thesis
    proof (cases "\<exists>v. cache_hits c b v")
      case True
      then obtain v where v: "cache_hits c b v" by blast
      then have "\<not> (Cache_set_index c b = ?s \<and> v = w)" using False h by (auto simp: cache_hits_def)
      then show ?thesis using nr view_hit [OF i v] view_hit [OF inv' hp [THEN iffD2, OF v]]
        by (auto simp: hit_byte_put [OF g sw])
    next
      case no: False
      have "view (put_line c ?s w l) m' b = byte m' b" by (rule view_miss [OF geom_put [OF g]]) (use no hp in blast)
      moreover have "view c m b = byte m b" by (rule view_miss [OF g]) (use no in blast)
      ultimately show ?thesis using nr off [OF that] by simp
    qed
  qed
  then show ?thesis using inv' m' by (simp add: stores_def)
qed

lemma bus_bytes:
  assumes "\<forall>k < length bs. holds m (a + of_nat k)" "length bs \<le> 16"
  obtains m' where "write_bytes_from wb a 0 bs m = (Inr (), m')" "\<And>b. holds m' b = holds m b"
    "\<And>b. holds m b \<Longrightarrow> byte m' b = (if unat (b - a) < length bs then bs ! unat (b - a) else byte m b)"
proof -
  obtain r m' where w: "write_bytes_from wb a 0 bs m = (r, m')" by fastforce
  then show thesis using write_bytes_effect [OF w] assms by (intro that [of m']) auto
qed

lemma clean_data: "\<not> cln_dirty (l :: cache_line) \<Longrightarrow> l\<lparr>cln_data := x, cln_dirty := False\<rparr> = l\<lparr>cln_data := x\<rparr>"
  by (cases l) simp

lemma store_line_ok:
  assumes i: "inv c m" and h: "cache_hits c a w" and n: "Cache_line_offset c a + length bs \<le> 16"
  obtains c' m' where "Cache_store_line wb a bs w (c, m) = (Inr (), (c', m'))" "stores c m a bs c' m'"
proof (cases "cc_write_policy (ca_config c) = WriteBack")
  case True
  then have d: "ca_type c = CT_Data" using inv_geom [OF i] by (simp add: cache_geom_def)
  show thesis
  proof (rule that [OF _ put_stores [OF i h n refl, of True m]])
    show "Cache_store_line wb a bs w (c, m) = (Inr (), (put_line c (Cache_set_index c a) w
        ((line_at c (Cache_set_index c a) w)\<lparr>cln_data := set_bytes (Cache_line_offset c a) bs
          (cln_data (line_at c (Cache_set_index c a) w)), cln_dirty := True\<rparr>), m))"
      using True d by (simp add: Cache_store_line_def Let_def)
  qed (use True d in simp_all)
next
  case False
  then have wt: "cc_write_policy (ca_config c) = WriteThrough" by (cases "cc_write_policy (ca_config c)") simp_all
  note g = inv_geom [OF i]
  let ?l = "line_at c (Cache_set_index c a) w"
  have "line_ok c ?l" using h by (intro inv_line [OF i set_index_less [OF g]]) (simp add: cache_hits_def)
  then have nd: "\<not> cln_dirty ?l" using h wt by (simp add: line_ok_def cache_hits_def)
  have "holds m (a + of_nat k)" if "k < length bs" for k
  proof -
    have "cache_hits c (a + of_nat k) w" using line_step [OF g, of a k] that n h by (simp add: cache_hits_def)
    then show ?thesis using inv_hit(1) [OF i] by blast
  qed
  then obtain m' where w: "write_bytes_from wb a 0 bs m = (Inr (), m')" "\<And>b. holds m' b = holds m b"
    "\<And>b. holds m b \<Longrightarrow> byte m' b = (if unat (b - a) < length bs then bs ! unat (b - a) else byte m b)"
    using bus_bytes [of bs m a] n by auto
  show thesis
  proof (rule that [OF _ put_stores [OF i h n refl, of False m']])
    show "Cache_store_line wb a bs w (c, m) = (Inr (), (put_line c (Cache_set_index c a) w
        (?l\<lparr>cln_data := set_bytes (Cache_line_offset c a) bs (cln_data ?l), cln_dirty := False\<rparr>), m'))"
      using wt w(1) by (simp add: Cache_store_line_def Let_def Cache_write_bytes_to_bus_def clean_data [OF nd])
  next
    fix b assume b: "cache_hits c b w" "Cache_set_index c b = Cache_set_index c a"
    then show "byte m' b = (if unat (b - a) < length bs then bs ! unat (b - a) else hit_byte c b w)"
      using w(3) [of b] inv_hit(1) [OF i b(1)] nd by simp
  qed (use w in simp_all)
qed

lemma write_bytes_ok:
  assumes i: "inv c m" and n: "Cache_line_offset c a + length bs \<le> 16"
    and mem: "\<forall>k < 16. holds m (Cache_line_base c a + of_nat k)"
  obtains c' m' where "Cache_write_bytes rb wb a bs (c, m) = (Inr (), (c', m'))" "stores c m a bs c' m'"
proof (cases "Cache_find_way c (Cache_set_index c a) (Cache_tag c a)")
  case (Some w)
  define c1 where "c1 = Cache_record_write_hit c"
  have c1: "inv c1 m" "cache_hits c1 a w" "Cache_line_offset c1 a + length bs \<le> 16" "keeps c m c1 m"
    using i n find_way_hits [OF inv_geom [OF i] Some] keeps_stats [OF i]
    by (simp_all add: c1_def Cache_record_write_hit_def)
  obtain c' m' where s: "Cache_store_line wb a bs w (c1, m) = (Inr (), (c', m'))" "stores c1 m a bs c' m'"
    using store_line_ok [OF c1(1-3)] by metis
  have "Cache_write_bytes rb wb a bs (c, m) = (Inr (), (c', m'))"
    using s(1) Some n by (simp add: Cache_write_bytes_def c1_def CACHE_LINE_SIZE_def)
  then show thesis using keeps_stores [OF c1(4) s(2)] by (rule that)
next
  case None
  define c1 where "c1 = Cache_record_write_miss c"
  have c1: "inv c1 m" "keeps c m c1 m" "\<forall>v. \<not> cache_hits c1 a v"
    "\<forall>k < 16. holds m (Cache_line_base c1 a + of_nat k)" "ca_config c1 = ca_config c"
    using i mem None find_way_None [OF inv_geom [OF i], of a] keeps_stats [OF i]
    by (simp_all add: c1_def Cache_record_write_miss_def)
  show thesis
  proof (cases "cc_write_allocate (ca_config c) = WriteAllocate")
    case True
    obtain w c2 m2 where f: "Cache_fill_line rb wb a (c1, m) = (Inr w, (c2, m2))" "keeps c1 m c2 m2" "cache_hits c2 a w"
      using fill_ok [OF c1(1,3,4)] by metis
    have "Cache_line_offset c2 a + length bs \<le> 16"
      using n same_shape_fields [of c1 c2] f(2) same_shape_fields [of c c1] c1(2) by (simp add: cache_keeps_def)
    then obtain c' m' where s: "Cache_store_line wb a bs w (c2, m2) = (Inr (), (c', m'))" "stores c2 m2 a bs c' m'"
      using store_line_ok [OF keeps_inv [OF f(2)] f(3)] by metis
    have "Cache_write_bytes rb wb a bs (c, m) = (Inr (), (c', m'))"
      using s(1) f(1) None True n by (simp add: Cache_write_bytes_def c1_def [symmetric] CACHE_LINE_SIZE_def)
    then show thesis using keeps_stores [OF cache_keeps_trans [OF c1(2) f(2)] s(2)] by (rule that)
  next
    case False
    note g = inv_geom [OF i]
    have "\<forall>k < length bs. holds m (a + of_nat k)" using line_held [OF g mem] n by simp
    then obtain m' where w: "write_bytes_from wb a 0 bs m = (Inr (), m')" "\<And>b. holds m' b = holds m b"
      "\<And>b. holds m b \<Longrightarrow> byte m' b = (if unat (b - a) < length bs then bs ! unat (b - a) else byte m b)"
      using bus_bytes [of bs m a] n by auto
    have nohit: "\<not> cache_hits c b v" if "unat (b - a) < length bs" for b v
      using that in_store_range(1) [OF g n, of b] same_line [OF g, of b a] find_way_None [OF g, of a] None
      by (auto simp: cache_hits_def)
    have "inv c m'"
    proof -
      have "holds m' b \<and> (\<not> cln_dirty (line_at c (Cache_set_index c b) v) \<longrightarrow> byte m' b = hit_byte c b v)"
        if "cache_hits c b v" for b v
        using inv_hit(1) [OF i that] w(2,3) [of b] nohit [of b] that by auto
      then show ?thesis using i unfolding cache_inv_def by blast
    qed
    moreover have "view c m' b = (if unat (b - a) < length bs then bs ! unat (b - a) else view c m b)" if "holds m b" for b
      using w(3) [OF that] nohit [of b] cached_None [OF g, of b] by (auto simp: cache_view_def split: option.splits)
    ultimately have st: "stores c1 m a bs c1 m'"
      using w(2) c1(1) by (simp add: stores_def c1_def Cache_record_write_miss_def)
    have "Cache_write_bytes rb wb a bs (c, m) = (Inr (), (c1, m'))"
      using w(1) None False n
      by (simp add: Cache_write_bytes_def c1_def CACHE_LINE_SIZE_def Cache_write_bytes_to_bus_def)
    then show thesis using keeps_stores [OF c1(2) st] by (rule that)
  qed
qed

lemma flush_lines_ok:
  assumes "inv c m" "\<forall>(s, w) \<in> set sws. s < ca_set_count c \<and> w < ca_ways c"
  shows "\<exists>c' m'. flush_lines wb sws (c, m) = (Inr (), (c', m')) \<and> keeps c m c' m' \<and>
    (\<forall>b v. cache_hits c' b v \<longleftrightarrow> cache_hits c b v \<and> (Cache_set_index c b, v) \<notin> set sws)"
  using assms
proof (induction sws arbitrary: c m)
  case Nil
  then show ?case using keeps_refl by auto
next
  case (Cons x sws)
  obtain s w where x: "x = (s, w)" by (cases x)
  have sw: "s < ca_set_count c" "w < ca_ways c" using Cons.prems(2) x by auto
  obtain c1 m1 where d: "Cache_drop_line wb s w (c, m) = (Inr (), (c1, m1))" "keeps c m c1 m1"
    "\<And>b v. cache_hits c1 b v \<longleftrightarrow> cache_hits c b v \<and> \<not> (Cache_set_index c b = s \<and> v = w)"
    using drop_ok [OF Cons.prems(1) sw] by metis
  have sh: "same_shape c c1" using d(2) by (simp add: cache_keeps_def)
  have "\<forall>(s, w) \<in> set sws. s < ca_set_count c1 \<and> w < ca_ways c1"
    using Cons.prems(2) sh by (auto simp: same_shape_def)
  then obtain c' m' where ih: "flush_lines wb sws (c1, m1) = (Inr (), (c', m'))" "keeps c1 m1 c' m'"
    "\<forall>b v. cache_hits c' b v \<longleftrightarrow> cache_hits c1 b v \<and> (Cache_set_index c1 b, v) \<notin> set sws"
    using Cons.IH [OF keeps_inv [OF d(2)]] by blast
  have "flush_lines wb (x # sws) (c, m) = (Inr (), (c', m'))" using d(1) ih(1) by (simp add: x)
  moreover have "keeps c m c' m'" using d(2) ih(2) by (rule cache_keeps_trans)
  moreover have "\<forall>b v. cache_hits c' b v \<longleftrightarrow> cache_hits c b v \<and> (Cache_set_index c b, v) \<notin> set (x # sws)"
    using ih(3) d(3) same_shape_fields(1) [OF sh] by (auto simp: x)
  ultimately show ?case by blast
qed

lemma flush_all_ok:
  assumes "inv c m"
  obtains c' m' where "Cache_flush_all_with_bus wb (c, m) = (Inr (), (c', m'))" "keeps c m c' m'"
    "\<And>b v. \<not> cache_hits c' b v" "\<And>b. holds m b \<Longrightarrow> byte m' b = view c m b"
proof -
  let ?l = "concat (map (\<lambda>s. map (Pair s) [0..<ca_ways c]) [0..<ca_set_count c])"
  have set: "set ?l = {0..<ca_set_count c} \<times> {0..<ca_ways c}" by auto
  obtain c' m' where f: "flush_lines wb ?l (c, m) = (Inr (), (c', m'))" "keeps c m c' m'"
    "\<forall>b v. cache_hits c' b v \<longleftrightarrow> cache_hits c b v \<and> (Cache_set_index c b, v) \<notin> set ?l"
    using flush_lines_ok [OF assms, of ?l] set by auto
  have none: "\<not> cache_hits c' b v" for b v
    using f(3) set_index_less [OF inv_geom [OF assms], of b] unfolding set by (auto simp: cache_hits_def)
  have "byte m' b = view c m b" if "holds m b" for b
    using f(2) that view_miss [OF inv_geom [OF keeps_inv [OF f(2)]], of b byte m'] none by (simp add: cache_keeps_def)
  then show thesis using f none by (intro that [of c' m']) (simp_all add: Cache_flush_all_with_bus_def)
qed

lemma invalidate_ok:
  assumes i: "inv c m"
  obtains c' m' where "Cache_invalidate_with_bus wb a (c, m) = (Inr (), (c', m'))" "keeps c m c' m'"
    "\<And>v. \<not> cache_hits c' a v"
proof (cases "Cache_find_way c (Cache_set_index c a) (Cache_tag c a)")
  case None
  then show thesis using keeps_refl [OF i] find_way_None [OF inv_geom [OF i], of a]
    by (intro that [of c m]) (simp_all add: Cache_invalidate_with_bus_def)
next
  case (Some w)
  have h: "cache_hits c a w" using find_way_hits [OF inv_geom [OF i] Some] .
  have sw: "Cache_set_index c a < ca_set_count c" "w < ca_ways c"
    using set_index_less [OF inv_geom [OF i]] h by (simp_all add: cache_hits_def)
  obtain c' m' where d: "Cache_drop_line wb (Cache_set_index c a) w (c, m) = (Inr (), (c', m'))" "keeps c m c' m'"
    "\<And>b v. cache_hits c' b v \<longleftrightarrow> cache_hits c b v \<and> \<not> (Cache_set_index c b = Cache_set_index c a \<and> v = w)"
    using drop_ok [OF i sw] by metis
  have "\<not> cache_hits c' a v" for v using d(3) inv_hit(2) [OF i h, of v] by blast
  then show thesis using d(1,2) Some by (intro that [of c' m']) (simp_all add: Cache_invalidate_with_bus_def)
qed

end

text \<open>A new cache holds nothing.\<close>

lemma nat_trailing_zeros_power: "k < 64 \<Longrightarrow> nat_trailing_zeros (2 ^ k) = k"
proof -
  assume k: "k < 64"
  then have "[0..<64] = [0..<k] @ k # [Suc k..<64]"
    using upt_add_eq_append [of 0 k "64 - k"] upt_conv_Cons [OF k] by simp
  moreover have "bit ((2 :: nat) ^ k) i \<longleftrightarrow> i = k" for i
    by (auto simp: bit_exp_iff)
  moreover have tw: "takeWhile (\<lambda>i. i \<noteq> k) [0..<k] = [0..<k]" by simp
  ultimately show ?thesis by (simp add: nat_trailing_zeros_def takeWhile_tail tw)
qed

lemma Cache_new_geom:
  assumes "Cache_new ct sz = Some c" "sz \<le> 2 ^ 32"
  shows "cache_geom c \<and> (\<forall>s < ca_set_count c. ca_sets c ! s = replicate (ca_ways c) CacheLine_default)"
proof -
  have c: "cc_associativity (Cache_default_config ct) = 4"
    "cc_write_policy (Cache_default_config ct) = WriteBack \<longrightarrow> ct = CT_Data"
    by (cases ct; simp add: ICACHE_ASSOCIATIVITY_def DCACHE_ASSOCIATIVITY_def)+
  let ?n = "sz div 16 div 4"
  have "is_power_of_two ?n" and c': "c = \<lparr>ca_type = ct, ca_config = Cache_default_config ct, ca_set_count = ?n, ca_ways = 4,
        ca_line_mask = 15, ca_set_bits = nat_trailing_zeros ?n,
        ca_sets = replicate ?n (replicate 4 CacheLine_default),
        ca_next_victim = replicate ?n 0, ca_stats = CacheStats_default\<rparr>"
    using assms(1) by (auto simp: Cache_new_def Cache_new_with_config_def Let_def c CACHE_LINE_SIZE_def split: if_splits)
  then obtain k where k: "?n = 2 ^ k" "k < 64" by (auto simp: is_power_of_two_def list_ex_iff)
  have "?n \<le> 2 ^ 26" using assms(2) by (simp add: div_le_mono [of sz "2 ^ 32"] less_eq_div_iff_mult_less_eq)
  then have "k \<le> 28" unfolding k(1) using power_increasing_iff [of "2 :: nat" k 26] by simp
  then show ?thesis using k c(2) by (simp add: c' cache_geom_def nat_trailing_zeros_power)
qed

lemma Cache_new_inv:
  assumes "Cache_new ct sz = Some c" "sz \<le> 2 ^ 32"
  shows "cache_inv holds byte c m" "cache_view byte c m = byte m"
proof -
  note g = Cache_new_geom [OF assms]
  have l: "line_at c s w = CacheLine_default" if "s < ca_set_count c" "w < ca_ways c" for s w
    using g that by simp
  then have nv: "\<not> cache_hits c a w" for a w
    using set_index_less [of c a] g by (auto simp: cache_hits_def CacheLine_default_def)
  show "cache_inv holds byte c m"
    using g l nv by (simp add: cache_inv_def line_ok_def CacheLine_default_def)
  show "cache_view byte c m = byte m" using nv g by (auto simp: fun_eq_iff intro!: view_miss)
qed

subsection \<open>Properties of the caches on the bus\<close>

abbreviation bus_cache_inv :: "cache \<Rightarrow> 'd bus \<Rightarrow> bool" where
  "bus_cache_inv \<equiv> cache_inv bus_holds bus_byte"

abbreviation bus_view :: "cache \<Rightarrow> 'd bus \<Rightarrow> addr \<Rightarrow> u8" where
  "bus_view \<equiv> cache_view bus_byte"

text \<open>C25: A cached word load answers from the flat memory the cache and the bus show together: within
  one line of memory it succeeds, returns the word stored there, whether the line was present, clean,
  dirty or had to replace another one, and what every address shows stays the same.\<close>

theorem cache_read_word_flat:
  assumes "bus_cache_inv c b" "Cache_line_offset c a \<le> 12"
    and "\<forall>k < 16. bus_holds b (Cache_line_base c a + of_nat k)"
    and "Cache_read_word (Bus_read_byte ops) (Bus_write_byte ops) a (c, b) = (r, (c', b'))"
  shows "r = Inr (word_of_bytes (bus_view c b a) (bus_view c b (a + 1)) (bus_view c b (a + 2)) (bus_view c b (a + 3))) \<and>
    bus_cache_inv c' b' \<and> (\<forall>x. bus_holds b x \<longrightarrow> bus_holds b' x \<and> bus_view c' b' x = bus_view c b x)"
proof -
  obtain c2 b2 where "Cache_read_line (Bus_read_byte ops) (Bus_write_byte ops) a 4 (c, b) =
      (Inr (map (\<lambda>k. bus_view c b (a + of_nat k)) [0..<4]), (c2, b2))" and k: "cache_keeps bus_holds bus_byte c b c2 b2"
    using bus_store.read_line_ok [OF assms(1), of a 4 ops] assms(2,3) by auto
  then show ?thesis
    using assms(2,4) by (auto simp: Cache_read_word_def Cache_read_across_def CACHE_LINE_SIZE_def
        numeral_eq_Suc cache_keeps_def)
qed

text \<open>C26: A cached store changes the flat memory at its own bytes only: within one line of memory it
  succeeds, afterwards its four addresses show the stored word and every other address of memory shows
  what it showed, under write-through as under write-back.\<close>

theorem cache_write_word_flat:
  assumes "bus_cache_inv c b" "Cache_line_offset c a \<le> 12"
    and "\<forall>k < 16. bus_holds b (Cache_line_base c a + of_nat k)"
    and "Cache_write_word (Bus_read_byte ops) (Bus_write_byte ops) a v (c, b) = (r, (c', b'))"
  shows "r = Inr () \<and> bus_cache_inv c' b' \<and> (\<forall>x. bus_holds b x \<longrightarrow> bus_holds b' x \<and> bus_view c' b' x =
    (if unat (x - a) < 4 then byte_at (unat (x - a)) v else bus_view c b x))"
proof -
  have len: "length (le_bytes v) = 4" and nth: "\<And>k. k < 4 \<Longrightarrow> le_bytes v ! k = byte_at k v"
    by (auto simp: le_bytes_def numeral_eq_Suc less_Suc_eq)
  obtain c2 b2 where "Cache_write_bytes (Bus_read_byte ops) (Bus_write_byte ops) a (le_bytes v) (c, b) = (Inr (), (c2, b2))"
    and k: "bus_store.stores c b a (le_bytes v) c2 b2"
    using bus_store.write_bytes_ok [OF assms(1), of a "le_bytes v" ops] assms(2,3) len by auto
  then show ?thesis using assms(4) nth by (simp add: Cache_write_word_def bus_store.stores_def len)
qed

text \<open>C28: Flushing through the bus writes everything back: it succeeds, afterwards no address hits the
  cache and every address of memory holds in memory itself what it showed through the cache.\<close>

theorem cache_flush_writes_back:
  assumes "bus_cache_inv c b" "Cache_flush_all_with_bus (Bus_write_byte ops) (c, b) = (r, (c', b'))"
  shows "r = Inr () \<and> (\<forall>x. cached c' x = None) \<and> (\<forall>x. bus_holds b x \<longrightarrow> bus_holds b' x \<and> bus_byte b' x = bus_view c b x)"
proof -
  obtain c2 b2 where f: "Cache_flush_all_with_bus (Bus_write_byte ops) (c, b) = (Inr (), (c2, b2))"
    "cache_keeps bus_holds bus_byte c b c2 b2" "\<And>x v. \<not> cache_hits c2 x v"
    "\<And>x. bus_holds b x \<Longrightarrow> bus_byte b2 x = bus_view c b x"
    using bus_store.flush_all_ok [OF assms(1), of ops] by metis
  have "cached c2 x = None" for x
    using cached_None [of c2 x] f(2,3) by (simp add: cache_keeps_def cache_inv_def)
  then show ?thesis using f assms(2) by (simp add: cache_keeps_def)
qed

text \<open>A load that crosses a line goes to memory, past the cache: it changes nothing but the
  statistics and returns the bytes of memory, so where a dirty line holds a newer first byte it returns
  the old one.\<close>

theorem crossing_load_bypasses_cache:
  assumes "12 < Cache_line_offset c a" "\<forall>k < 4. bus_holds b (a + of_nat k)"
  shows "Cache_read_word (Bus_read_byte ops) (Bus_write_byte ops) a (c, b) =
      (Inr (word_of_bytes (bus_byte b a) (bus_byte b (a + 1)) (bus_byte b (a + 2)) (bus_byte b (a + 3))),
       (Cache_record_read_miss c, b)) \<and>
    (bus_view c b a \<noteq> bus_byte b a \<longrightarrow> (\<forall>w. fst (Cache_read_word (Bus_read_byte ops) (Bus_write_byte ops) a (c, b)) = Inr w \<longrightarrow>
       byte_at 0 w \<noteq> bus_view c b a))"
proof -
  have "read_bytes_from (Bus_read_byte ops) a 0 4 b = (Inr (map (\<lambda>k. bus_byte b (a + of_nat k)) [0..<4]), b)"
    using bus_store.read_bytes_effect [of 4 b a 0 ops] assms(2) by simp
  then have "Cache_read_word (Bus_read_byte ops) (Bus_write_byte ops) a (c, b) =
      (Inr (word_of_bytes (bus_byte b a) (bus_byte b (a + 1)) (bus_byte b (a + 2)) (bus_byte b (a + 3))),
       (Cache_record_read_miss c, b))"
    using assms(1) by (simp add: Cache_read_word_def Cache_read_across_def CACHE_LINE_SIZE_def numeral_eq_Suc)
  then show ?thesis by auto
qed

text \<open>Witnesses: a data cache of 64 bytes in front of 32 bytes of memory.\<close>

definition small_cache :: cache where
  "small_cache = the (Cache_new CT_Data 64)"

definition line_bus :: "unit bus" where
  "line_bus = Bus_attach_memory Bus_new 0x80000000 (MD_Ram (Ram_new 32))"

lemma small_cache_new: "Cache_new CT_Data 64 = Some small_cache"
proof -
  have "Cache_new CT_Data 64 \<noteq> None" by code_simp
  then show ?thesis by (auto simp: small_cache_def)
qed

lemma small_cache_inv: "bus_cache_inv small_cache line_bus" "bus_view small_cache line_bus = bus_byte line_bus"
  by (rule Cache_new_inv [OF small_cache_new]; simp)+

lemma small_cache_fields:
  "ca_line_mask small_cache = 15" "ca_set_bits small_cache = 0" "ca_set_count small_cache = 1" "ca_ways small_cache = 4"
  "ca_sets small_cache = [[CacheLine_default, CacheLine_default, CacheLine_default, CacheLine_default]]"
  unfolding small_cache_def by code_simp+

lemma line_bus_holds: "k < 32 \<Longrightarrow> bus_holds line_bus (0x80000000 + of_nat k) \<and> bus_byte line_bus (0x80000000 + of_nat k) = 0"
proof -
  assume k: "k < 32"
  have u: "unat (0x80000000 + of_nat k :: u32) = 0x80000000 + k"
    using k by (simp add: unat_word_ariths unat_of_nat)
  show ?thesis using k
    by (auto simp: bus_holds_def bus_byte_def line_bus_def Bus_attach_memory_def Bus_new_def in_window_def acc_bases
        peripheral_at_def in_region_def u Ram_contains_def Ram_new_def Ram_size_def Ram_read_byte_def
        word_le_nat_alt word_less_nat_alt unat_of_nat)
qed

lemma line_bus_line: "k < 16 \<Longrightarrow> bus_holds line_bus (Cache_line_base small_cache 0x80000004 + of_nat k)"
  using line_bus_holds [of k] by (simp add: Cache_line_base_def small_cache_fields)

lemma small_cache_offset: "Cache_line_offset small_cache 0x80000004 \<le> 12"
  by (simp add: Cache_line_offset_def small_cache_fields)

theorem cache_read_word_flat_witness:
  "fst (Cache_read_word (Bus_read_byte no_ops) (Bus_write_byte no_ops) 0x80000004 (small_cache, line_bus)) = Inr 0"
proof -
  obtain r c' b' where e: "Cache_read_word (Bus_read_byte no_ops) (Bus_write_byte no_ops) 0x80000004
      (small_cache, line_bus) = (r, (c', b'))" by (metis prod_cases3)
  show ?thesis
    using cache_read_word_flat [OF small_cache_inv(1) small_cache_offset _ e] line_bus_line e small_cache_inv(2)
      line_bus_holds [of 4] line_bus_holds [of 5] line_bus_holds [of 6] line_bus_holds [of 7]
    by (simp add: word_of_bytes_def)
qed

theorem cache_write_word_flat_witness:
  "\<exists>c' b'. Cache_write_word (Bus_read_byte no_ops) (Bus_write_byte no_ops) 0x80000004 0x11223344 (small_cache, line_bus) =
     (Inr (), (c', b')) \<and> bus_view c' b' 0x80000004 = 0x44 \<and> bus_view c' b' 0x80000008 = 0"
proof -
  obtain r c' b' where e: "Cache_write_word (Bus_read_byte no_ops) (Bus_write_byte no_ops) 0x80000004 0x11223344
      (small_cache, line_bus) = (r, (c', b'))" by (metis prod_cases3)
  have "byte_at 0 (0x11223344 :: u32) = 0x44" by code_simp
  then show ?thesis
    using cache_write_word_flat [OF small_cache_inv(1) small_cache_offset _ e] line_bus_line e small_cache_inv(2)
      line_bus_holds [of 4] line_bus_holds [of 8] by simp
qed

theorem cache_flush_writes_back_witness:
  "\<exists>c' b'. Cache_flush_all_with_bus (Bus_write_byte no_ops) (small_cache, line_bus) = (Inr (), (c', b')) \<and>
     bus_byte b' 0x80000004 = 0"
proof -
  obtain r c' b' where e: "Cache_flush_all_with_bus (Bus_write_byte no_ops) (small_cache, line_bus) = (r, (c', b'))"
    by (metis prod_cases3)
  show ?thesis
    using cache_flush_writes_back [OF small_cache_inv(1) e] e small_cache_inv(2) line_bus_holds [of 4] by simp
qed

theorem crossing_load_bypasses_cache_witness:
  "let c = put_line small_cache 0 0 \<lparr>cln_valid = True, cln_dirty = True, cln_tag = 0x8000000, cln_data = replicate 15 0 @ [7]\<rparr>
   in bus_view c line_bus 0x8000000F = 7 \<and>
     fst (Cache_read_word (Bus_read_byte no_ops) (Bus_write_byte no_ops) 0x8000000F (c, line_bus)) = Inr 0"
proof -
  let ?c = "put_line small_cache 0 0 \<lparr>cln_valid = True, cln_dirty = True, cln_tag = 0x8000000, cln_data = replicate 15 0 @ [7]\<rparr>"
  have o: "Cache_line_offset ?c 0x8000000F = 15" by (simp add: Cache_line_offset_def small_cache_fields)
  have v: "bus_view ?c line_bus 0x8000000F = 7"
    by (simp add: cache_view_def cached_def Cache_find_way_def Cache_set_index_def Cache_tag_def put_line_def
        small_cache_fields hit_byte_def nth_append o [unfolded put_line_def small_cache_fields, simplified])
  have "\<forall>k < 4. bus_holds line_bus (0x8000000F + of_nat k)"
  proof (intro allI impI)
    fix k :: nat assume "k < 4"
    then show "bus_holds line_bus (0x8000000F + of_nat k)" using line_bus_holds [of "15 + k"] by simp
  qed
  then show ?thesis
    using crossing_load_bypasses_cache [of ?c "0x8000000F" line_bus no_ops] o v
      line_bus_holds [of 15] line_bus_holds [of 16] line_bus_holds [of 17] line_bus_holds [of 18]
    by (simp add: word_of_bytes_def)
qed

end
