(* ===== verification/Branch_Predictor.thy ===== *)
theory Branch_Predictor
  imports Core_Types
begin

text \<open>
  The branch predictors of \<open>src/src/cpu/pipeline/predictor/\<close>: the direction predictors, the branch
  target buffer and the manager that combines them.  The trait object of the manager is the sum
  \<open>predictor\<close>.  The locale \<open>direction_predictor\<close> states what the four predictors that keep state
  have in common: they keep an invariant, count their predictions, and settle on an outcome that
  repeats; its interpretations give each one's warm-up.
\<close>

definition PREDICTOR_TABLE_SIZE :: nat where "PREDICTOR_TABLE_SIZE = 1024"
definition BTB_SIZE :: nat where "BTB_SIZE = 256"
definition HISTORY_BITS :: nat where "HISTORY_BITS = 10"

definition hash_index :: "addr \<Rightarrow> nat" where
  "hash_index pc = unat (drop_bit 2 pc) AND (PREDICTOR_TABLE_SIZE - 1)"

record prediction_result =
  pr_taken :: bool
  pr_target :: "addr option"
  pr_pc :: addr

record misprediction_info =
  mi_mispredicted :: bool
  mi_predicted_taken :: bool
  mi_actual_taken :: bool
  mi_redirect_target :: addr

definition MispredictionInfo_none :: misprediction_info where
  "MispredictionInfo_none = \<lparr>mi_mispredicted = False, mi_predicted_taken = False, mi_actual_taken = False,
     mi_redirect_target = 0\<rparr>"

record predictor_stats =
  ps_predictions :: u64
  ps_correct :: u64
  ps_mispredictions :: u64

definition PredictorStats_default :: predictor_stats where
  "PredictorStats_default = \<lparr>ps_predictions = 0, ps_correct = 0, ps_mispredictions = 0\<rparr>"

datatype predictor_type = PT_None | PT_OneBit | PT_TwoBit | PT_Local | PT_Global

text \<open>The accounting every predictor's update starts with.\<close>

definition count_prediction :: "bool \<Rightarrow> predictor_stats \<Rightarrow> predictor_stats" where
  "count_prediction hit s =
     (let s = s\<lparr>ps_predictions := ps_predictions s + 1\<rparr>
      in if hit then s\<lparr>ps_correct := ps_correct s + 1\<rparr> else s\<lparr>ps_mispredictions := ps_mispredictions s + 1\<rparr>)"

text \<open>\<open>saturating_add(1).min(3)\<close> and \<open>saturating_sub(1)\<close>.\<close>

definition sat_inc :: "u8 \<Rightarrow> u8" where
  "sat_inc v = min (if v = 255 then 255 else v + 1) 3"

definition sat_dec :: "u8 \<Rightarrow> u8" where
  "sat_dec v = (if v = 0 then 0 else v - 1)"

definition train :: "bool \<Rightarrow> u8 \<Rightarrow> u8" where
  "train taken v = (if taken then sat_inc v else sat_dec v)"

subsection \<open>One bit per branch\<close>

record one_bit =
  ob_bht :: "u8 list"
  ob_stats :: predictor_stats

definition OneBitPredictor_new :: "nat \<Rightarrow> one_bit" where
  "OneBitPredictor_new sz = \<lparr>ob_bht = replicate sz 0, ob_stats = PredictorStats_default\<rparr>"

definition OneBitPredictor_predict :: "one_bit \<Rightarrow> addr \<Rightarrow> bool" where
  "OneBitPredictor_predict p pc \<longleftrightarrow> ob_bht p ! hash_index pc = 1"

definition OneBitPredictor_update :: "one_bit \<Rightarrow> addr \<Rightarrow> bool \<Rightarrow> one_bit" where
  "OneBitPredictor_update p pc taken =
     (let idx = hash_index pc; predicted = (ob_bht p ! idx = 1)
      in p\<lparr>ob_stats := count_prediction (predicted = taken) (ob_stats p),
           ob_bht := (ob_bht p)[idx := if taken then 1 else 0]\<rparr>)"

definition OneBitPredictor_reset :: "one_bit \<Rightarrow> one_bit" where
  "OneBitPredictor_reset p = p\<lparr>ob_bht := map (\<lambda>_. 0) (ob_bht p), ob_stats := PredictorStats_default\<rparr>"

subsection \<open>Two-bit saturating counters\<close>

record two_bit =
  tb_bht :: "u8 list"
  tb_stats :: predictor_stats

definition TwoBitPredictor_new :: "nat \<Rightarrow> two_bit" where
  "TwoBitPredictor_new sz = \<lparr>tb_bht = replicate sz 1, tb_stats = PredictorStats_default\<rparr>"

definition TwoBitPredictor_predict :: "two_bit \<Rightarrow> addr \<Rightarrow> bool" where
  "TwoBitPredictor_predict p pc \<longleftrightarrow> tb_bht p ! hash_index pc \<ge> 2"

definition TwoBitPredictor_update :: "two_bit \<Rightarrow> addr \<Rightarrow> bool \<Rightarrow> two_bit" where
  "TwoBitPredictor_update p pc taken =
     (let idx = hash_index pc; predicted = (tb_bht p ! idx \<ge> 2)
      in p\<lparr>tb_stats := count_prediction (predicted = taken) (tb_stats p),
           tb_bht := (tb_bht p)[idx := train taken (tb_bht p ! idx)]\<rparr>)"

definition TwoBitPredictor_reset :: "two_bit \<Rightarrow> two_bit" where
  "TwoBitPredictor_reset p = p\<lparr>tb_bht := map (\<lambda>_. 1) (tb_bht p), tb_stats := PredictorStats_default\<rparr>"

subsection \<open>Two levels with a history per branch\<close>

record local_predictor =
  lo_bhr :: "u16 list"
  lo_pht :: "u8 list"
  lo_history_bits :: nat
  lo_stats :: predictor_stats

definition LocalPredictor_new :: "nat \<Rightarrow> nat \<Rightarrow> local_predictor" where
  "LocalPredictor_new table_size history_bits =
     \<lparr>lo_bhr = replicate table_size 0, lo_pht = replicate (2 ^ history_bits) 1,
      lo_history_bits = history_bits, lo_stats = PredictorStats_default\<rparr>"

definition local_pattern :: "local_predictor \<Rightarrow> addr \<Rightarrow> nat" where
  "local_pattern p pc = unat (lo_bhr p ! hash_index pc) AND (2 ^ lo_history_bits p - 1)"

definition LocalPredictor_predict :: "local_predictor \<Rightarrow> addr \<Rightarrow> bool" where
  "LocalPredictor_predict p pc \<longleftrightarrow> lo_pht p ! local_pattern p pc \<ge> 2"

definition shift_history :: "nat \<Rightarrow> bool \<Rightarrow> u16 \<Rightarrow> u16" where
  "shift_history bits taken h = (push_bit 1 h OR of_bool taken) AND (push_bit bits 1 - 1)"

definition LocalPredictor_update :: "local_predictor \<Rightarrow> addr \<Rightarrow> bool \<Rightarrow> local_predictor" where
  "LocalPredictor_update p pc taken =
     (let idx = hash_index pc; pattern = local_pattern p pc; predicted = (lo_pht p ! pattern \<ge> 2)
      in p\<lparr>lo_stats := count_prediction (predicted = taken) (lo_stats p),
           lo_pht := (lo_pht p)[pattern := train taken (lo_pht p ! pattern)],
           lo_bhr := (lo_bhr p)[idx := shift_history (lo_history_bits p) taken (lo_bhr p ! idx)]\<rparr>)"

definition LocalPredictor_reset :: "local_predictor \<Rightarrow> local_predictor" where
  "LocalPredictor_reset p = p\<lparr>lo_bhr := map (\<lambda>_. 0) (lo_bhr p), lo_pht := map (\<lambda>_. 1) (lo_pht p),
     lo_stats := PredictorStats_default\<rparr>"

subsection \<open>Two levels with one global history\<close>

record global_predictor =
  gl_ghr :: u16
  gl_history_bits :: nat
  gl_pht :: "u8 list"
  gl_stats :: predictor_stats

definition GlobalPredictor_new :: "nat \<Rightarrow> nat \<Rightarrow> global_predictor" where
  "GlobalPredictor_new table_size history_bits =
     \<lparr>gl_ghr = 0, gl_history_bits = history_bits, gl_pht = replicate table_size 1, gl_stats = PredictorStats_default\<rparr>"

definition GlobalPredictor_pht_index :: "global_predictor \<Rightarrow> addr \<Rightarrow> nat" where
  "GlobalPredictor_pht_index p pc =
     (let pc_idx = of_nat (hash_index pc) :: u16
      in unat ((gl_ghr p XOR pc_idx) AND (push_bit (gl_history_bits p) 1 - 1)))"

definition GlobalPredictor_predict :: "global_predictor \<Rightarrow> addr \<Rightarrow> bool" where
  "GlobalPredictor_predict p pc \<longleftrightarrow> gl_pht p ! GlobalPredictor_pht_index p pc \<ge> 2"

definition GlobalPredictor_update :: "global_predictor \<Rightarrow> addr \<Rightarrow> bool \<Rightarrow> global_predictor" where
  "GlobalPredictor_update p pc taken =
     (let idx = GlobalPredictor_pht_index p pc; predicted = (gl_pht p ! idx \<ge> 2)
      in p\<lparr>gl_stats := count_prediction (predicted = taken) (gl_stats p),
           gl_pht := (gl_pht p)[idx := train taken (gl_pht p ! idx)],
           gl_ghr := shift_history (gl_history_bits p) taken (gl_ghr p)\<rparr>)"

definition GlobalPredictor_reset :: "global_predictor \<Rightarrow> global_predictor" where
  "GlobalPredictor_reset p = p\<lparr>gl_ghr := 0, gl_pht := map (\<lambda>_. 1) (gl_pht p), gl_stats := PredictorStats_default\<rparr>"

subsection \<open>The branch target buffer\<close>

record btb_stats =
  bs_lookups :: u64
  bs_hits :: u64
  bs_misses :: u64

record btb_entry =
  be_tag :: u32
  be_target :: u32
  be_valid :: bool
  be_is_branch :: bool

definition BtbEntry_default :: btb_entry where
  "BtbEntry_default = \<lparr>be_tag = 0, be_target = 0, be_valid = False, be_is_branch = False\<rparr>"

definition BtbStats_default :: btb_stats where
  "BtbStats_default = \<lparr>bs_lookups = 0, bs_hits = 0, bs_misses = 0\<rparr>"

definition btb_index :: "addr \<Rightarrow> nat" where
  "btb_index pc = unat (drop_bit 2 pc) AND (BTB_SIZE - 1)"

definition btb_tag :: "addr \<Rightarrow> u32" where
  "btb_tag pc = drop_bit 10 pc"

record btb =
  btb_entries :: "btb_entry list"
  btb_stats :: btb_stats

definition BranchTargetBuffer_new :: btb where
  "BranchTargetBuffer_new = \<lparr>btb_entries = replicate BTB_SIZE BtbEntry_default, btb_stats = BtbStats_default\<rparr>"

definition BranchTargetBuffer_lookup :: "btb \<Rightarrow> addr \<Rightarrow> addr option \<times> btb" where
  "BranchTargetBuffer_lookup t pc =
     (let entry = btb_entries t ! btb_index pc; s = (btb_stats t)\<lparr>bs_lookups := bs_lookups (btb_stats t) + 1\<rparr>
      in if be_valid entry \<and> be_tag entry = btb_tag pc
         then (Some (be_target entry), t\<lparr>btb_stats := s\<lparr>bs_hits := bs_hits s + 1\<rparr>\<rparr>)
         else (None, t\<lparr>btb_stats := s\<lparr>bs_misses := bs_misses s + 1\<rparr>\<rparr>))"

definition BranchTargetBuffer_update :: "btb \<Rightarrow> addr \<Rightarrow> addr \<Rightarrow> bool \<Rightarrow> btb" where
  "BranchTargetBuffer_update t pc target is_branch = t\<lparr>btb_entries := (btb_entries t)[btb_index pc :=
     \<lparr>be_tag = btb_tag pc, be_target = target, be_valid = True, be_is_branch = is_branch\<rparr>]\<rparr>"

definition BranchTargetBuffer_invalidate :: "btb \<Rightarrow> addr \<Rightarrow> btb" where
  "BranchTargetBuffer_invalidate t pc = t\<lparr>btb_entries := (btb_entries t)[btb_index pc :=
     (btb_entries t ! btb_index pc)\<lparr>be_valid := False\<rparr>]\<rparr>"

definition BranchTargetBuffer_reset :: "btb \<Rightarrow> btb" where
  "BranchTargetBuffer_reset t = t\<lparr>btb_entries := map (\<lambda>_. BtbEntry_default) (btb_entries t),
     btb_stats := BtbStats_default\<rparr>"

definition BranchTargetBuffer_snapshot :: "btb \<Rightarrow> nat \<Rightarrow> btb_entry list" where
  "BranchTargetBuffer_snapshot t limit = take limit (filter be_valid (btb_entries t))"

subsection \<open>The manager\<close>

text \<open>\<open>Box<dyn BranchPredictor>\<close>; \<open>AlwaysNotTaken\<close> has statistics that nothing but a reset writes.\<close>

datatype predictor = P_None predictor_stats | P_OneBit one_bit | P_TwoBit two_bit
  | P_Local local_predictor | P_Global global_predictor

fun create_predictor :: "predictor_type \<Rightarrow> predictor" where
  "create_predictor PT_None = P_None PredictorStats_default"
| "create_predictor PT_OneBit = P_OneBit (OneBitPredictor_new PREDICTOR_TABLE_SIZE)"
| "create_predictor PT_TwoBit = P_TwoBit (TwoBitPredictor_new PREDICTOR_TABLE_SIZE)"
| "create_predictor PT_Local = P_Local (LocalPredictor_new PREDICTOR_TABLE_SIZE HISTORY_BITS)"
| "create_predictor PT_Global = P_Global (GlobalPredictor_new PREDICTOR_TABLE_SIZE HISTORY_BITS)"

fun BranchPredictor_predict :: "predictor \<Rightarrow> addr \<Rightarrow> bool" where
  "BranchPredictor_predict (P_None s) pc = False"
| "BranchPredictor_predict (P_OneBit p) pc = OneBitPredictor_predict p pc"
| "BranchPredictor_predict (P_TwoBit p) pc = TwoBitPredictor_predict p pc"
| "BranchPredictor_predict (P_Local p) pc = LocalPredictor_predict p pc"
| "BranchPredictor_predict (P_Global p) pc = GlobalPredictor_predict p pc"

fun BranchPredictor_update :: "predictor \<Rightarrow> addr \<Rightarrow> bool \<Rightarrow> predictor" where
  "BranchPredictor_update (P_None s) pc taken = P_None s"
| "BranchPredictor_update (P_OneBit p) pc taken = P_OneBit (OneBitPredictor_update p pc taken)"
| "BranchPredictor_update (P_TwoBit p) pc taken = P_TwoBit (TwoBitPredictor_update p pc taken)"
| "BranchPredictor_update (P_Local p) pc taken = P_Local (LocalPredictor_update p pc taken)"
| "BranchPredictor_update (P_Global p) pc taken = P_Global (GlobalPredictor_update p pc taken)"

fun BranchPredictor_reset :: "predictor \<Rightarrow> predictor" where
  "BranchPredictor_reset (P_None s) = P_None PredictorStats_default"
| "BranchPredictor_reset (P_OneBit p) = P_OneBit (OneBitPredictor_reset p)"
| "BranchPredictor_reset (P_TwoBit p) = P_TwoBit (TwoBitPredictor_reset p)"
| "BranchPredictor_reset (P_Local p) = P_Local (LocalPredictor_reset p)"
| "BranchPredictor_reset (P_Global p) = P_Global (GlobalPredictor_reset p)"

fun BranchPredictor_stats :: "predictor \<Rightarrow> predictor_stats" where
  "BranchPredictor_stats (P_None s) = s"
| "BranchPredictor_stats (P_OneBit p) = ob_stats p"
| "BranchPredictor_stats (P_TwoBit p) = tb_stats p"
| "BranchPredictor_stats (P_Local p) = lo_stats p"
| "BranchPredictor_stats (P_Global p) = gl_stats p"

record predictor_manager =
  pm_predictor :: predictor
  pm_btb :: btb
  pm_type :: predictor_type

definition PredictorManager_new :: "predictor_type \<Rightarrow> predictor_manager" where
  "PredictorManager_new pt = \<lparr>pm_predictor = create_predictor pt, pm_btb = BranchTargetBuffer_new, pm_type = pt\<rparr>"

definition PredictorManager_predict :: "predictor_manager \<Rightarrow> addr \<Rightarrow> prediction_result \<times> predictor_manager" where
  "PredictorManager_predict m pc =
     (let taken = BranchPredictor_predict (pm_predictor m) pc;
          (target, t) = (if taken then BranchTargetBuffer_lookup (pm_btb m) pc else (None, pm_btb m))
      in (\<lparr>pr_taken = taken, pr_target = target, pr_pc = pc\<rparr>, m\<lparr>pm_btb := t\<rparr>))"

definition PredictorManager_update :: "predictor_manager \<Rightarrow> addr \<Rightarrow> bool \<Rightarrow> addr \<Rightarrow> bool \<Rightarrow> predictor_manager" where
  "PredictorManager_update m pc actual_taken actual_target is_branch =
     (let m = m\<lparr>pm_predictor := BranchPredictor_update (pm_predictor m) pc actual_taken\<rparr>
      in if actual_taken then m\<lparr>pm_btb := BranchTargetBuffer_update (pm_btb m) pc actual_target is_branch\<rparr> else m)"

definition PredictorManager_check_misprediction :: "prediction_result option \<Rightarrow> bool \<Rightarrow> addr \<Rightarrow> misprediction_info" where
  "PredictorManager_check_misprediction prediction actual_taken actual_target =
     (case prediction of
        Some pred \<Rightarrow>
          let direction_wrong = (pr_taken pred \<noteq> actual_taken);
              target_wrong = (actual_taken \<and> pr_taken pred \<and>
                (case pr_target pred of None \<Rightarrow> True | Some t \<Rightarrow> t \<noteq> actual_target))
          in \<lparr>mi_mispredicted = (direction_wrong \<or> target_wrong), mi_predicted_taken = pr_taken pred,
              mi_actual_taken = actual_taken,
              mi_redirect_target = (if actual_taken then actual_target else 0)\<rparr>
      | None \<Rightarrow> MispredictionInfo_none)"

definition PredictorManager_switch :: "predictor_manager \<Rightarrow> predictor_type \<Rightarrow> predictor_manager" where
  "PredictorManager_switch m pt =
     (if pt \<noteq> pm_type m then m\<lparr>pm_predictor := create_predictor pt, pm_type := pt\<rparr> else m)"

definition PredictorManager_reset :: "predictor_manager \<Rightarrow> predictor_manager" where
  "PredictorManager_reset m = m\<lparr>pm_predictor := BranchPredictor_reset (pm_predictor m),
     pm_btb := BranchTargetBuffer_reset (pm_btb m)\<rparr>"

subsection \<open>What the direction predictors have in common\<close>

text \<open>The number of wrong predictions among \<open>n\<close> executions of the branch at \<open>pc\<close> that all go \<open>t\<close>.\<close>

definition wrong_steps :: "('s \<Rightarrow> addr \<Rightarrow> bool) \<Rightarrow> ('s \<Rightarrow> addr \<Rightarrow> bool \<Rightarrow> 's) \<Rightarrow> 's \<Rightarrow> addr \<Rightarrow> bool \<Rightarrow> nat \<Rightarrow> nat" where
  "wrong_steps predict update s pc t n =
     length (filter (\<lambda>k. predict (((\<lambda>s. update s pc t) ^^ k) s) pc \<noteq> t) [0..<n])"

locale direction_predictor =
  fixes predict :: "'s \<Rightarrow> addr \<Rightarrow> bool"
    and update :: "'s \<Rightarrow> addr \<Rightarrow> bool \<Rightarrow> 's"
    and stats :: "'s \<Rightarrow> predictor_stats"
    and inv :: "'s \<Rightarrow> bool"
    and warm :: nat
  assumes inv_update: "inv s \<Longrightarrow> inv (update s pc t)"
    and stats_update: "inv s \<Longrightarrow> stats (update s pc t) = count_prediction (predict s pc = t) (stats s)"
    and settles: "inv s \<Longrightarrow> predict (((\<lambda>s. update s pc t) ^^ warm) s) pc = t"
begin

lemma inv_run: "inv s \<Longrightarrow> inv (((\<lambda>s. update s pc t) ^^ k) s)"
  by (induction k) (simp_all add: inv_update)

text \<open>Once settled, a repeating outcome is predicted: at most \<open>warm\<close> predictions are wrong.\<close>

lemma settled:
  assumes "inv s" "warm \<le> k"
  shows "predict (((\<lambda>s. update s pc t) ^^ k) s) pc = t"
proof -
  have "(\<lambda>s. update s pc t) ^^ k = (\<lambda>s. update s pc t) ^^ (warm + (k - warm))" using assms(2) by simp
  then have "((\<lambda>s. update s pc t) ^^ k) s = ((\<lambda>s. update s pc t) ^^ warm) (((\<lambda>s. update s pc t) ^^ (k - warm)) s)"
    by (simp add: funpow_add)
  then show ?thesis using settles [OF inv_run [OF assms(1)]] by simp
qed

lemma wrong_bound:
  assumes "inv s"
  shows "wrong_steps predict update s pc t n \<le> warm"
proof -
  have "{k. k < n \<and> predict (((\<lambda>s. update s pc t) ^^ k) s) pc \<noteq> t} \<subseteq> {0..<warm}"
  proof
    fix k assume "k \<in> {k. k < n \<and> predict (((\<lambda>s. update s pc t) ^^ k) s) pc \<noteq> t}"
    then show "k \<in> {0..<warm}" using settled [OF assms, of k pc t] by (cases "warm \<le> k") auto
  qed
  then have "card {k. k < n \<and> predict (((\<lambda>s. update s pc t) ^^ k) s) pc \<noteq> t} \<le> card {0..<warm}"
    by (rule card_mono [OF finite_atLeastLessThan])
  moreover have "wrong_steps predict update s pc t n = card {k. k < n \<and> predict (((\<lambda>s. update s pc t) ^^ k) s) pc \<noteq> t}"
    by (auto simp: wrong_steps_def length_filter_conv_card intro!: arg_cong [where f = card])
  ultimately show ?thesis by simp
qed

lemma stats_run:
  assumes "inv s"
  shows "ps_predictions (stats (((\<lambda>s. update s pc t) ^^ n) s)) = ps_predictions (stats s) + of_nat n"
    "ps_mispredictions (stats (((\<lambda>s. update s pc t) ^^ n) s)) =
      ps_mispredictions (stats s) + of_nat (wrong_steps predict update s pc t n)"
  using stats_update [OF inv_run [OF assms]]
  by (induction n) (simp_all add: wrong_steps_def count_prediction_def Let_def)

end

subsection \<open>The four predictors\<close>

lemma hash_index_less: "hash_index pc < 1024"
proof -
  have "(1023 :: nat) = mask 10" by (simp add: mask_eq_exp_minus_1)
  then have "hash_index pc = take_bit 10 (unat (drop_bit 2 pc))"
    by (simp add: hash_index_def PREDICTOR_TABLE_SIZE_def take_bit_eq_mask)
  then show ?thesis using take_bit_nat_less_exp [of 10 "unat (drop_bit 2 pc)"] by simp
qed

lemma u8_le_3: "(v :: u8) \<le> 3 \<longleftrightarrow> v = 0 \<or> v = 1 \<or> v = 2 \<or> v = 3"
proof
  assume "v \<le> 3"
  then have "unat v \<le> 3" by (simp add: word_le_nat_alt)
  then have "unat v = 0 \<or> unat v = 1 \<or> unat v = 2 \<or> unat v = 3" by auto
  then show "v = 0 \<or> v = 1 \<or> v = 2 \<or> v = 3" by (auto simp: word_unat_eq_iff)
qed auto

lemma train_bound: "v \<le> 3 \<Longrightarrow> train t v \<le> 3"
  unfolding u8_le_3 by (elim disjE) (simp_all add: train_def sat_inc_def sat_dec_def)

lemma train_twice: "v \<le> 3 \<Longrightarrow> 2 \<le> train t (train t v) \<longleftrightarrow> t"
  unfolding u8_le_3 by (elim disjE; cases t) (simp_all add: train_def sat_inc_def sat_dec_def word_le_nat_alt)

definition counters_ok :: "u8 list \<Rightarrow> bool" where
  "counters_ok xs \<longleftrightarrow> length xs = 1024 \<and> (\<forall>i < 1024. xs ! i \<le> 3)"

lemma counters_ok_train: "counters_ok xs \<Longrightarrow> i < 1024 \<Longrightarrow> counters_ok (xs[i := train t (xs ! i)])"
  by (simp add: counters_ok_def nth_list_update train_bound)

definition one_bit_inv :: "one_bit \<Rightarrow> bool" where
  "one_bit_inv p \<longleftrightarrow> length (ob_bht p) = 1024"

definition two_bit_inv :: "two_bit \<Rightarrow> bool" where
  "two_bit_inv p \<longleftrightarrow> counters_ok (tb_bht p)"

definition local_inv :: "local_predictor \<Rightarrow> bool" where
  "local_inv p \<longleftrightarrow> length (lo_bhr p) = 1024 \<and> lo_history_bits p = 10 \<and> counters_ok (lo_pht p)"

definition global_inv :: "global_predictor \<Rightarrow> bool" where
  "global_inv p \<longleftrightarrow> gl_history_bits p = 10 \<and> counters_ok (gl_pht p)"

interpretation one_bit: direction_predictor OneBitPredictor_predict OneBitPredictor_update ob_stats one_bit_inv 1
  by unfold_locales
    (auto simp: OneBitPredictor_predict_def OneBitPredictor_update_def one_bit_inv_def Let_def hash_index_less)

interpretation two_bit: direction_predictor TwoBitPredictor_predict TwoBitPredictor_update tb_stats two_bit_inv 2
proof
  fix p pc t assume i: "two_bit_inv p"
  then have "hash_index pc < length (tb_bht p)" "tb_bht p ! hash_index pc \<le> 3"
    using hash_index_less [of pc] by (simp_all add: two_bit_inv_def counters_ok_def)
  then show "TwoBitPredictor_predict (((\<lambda>s. TwoBitPredictor_update s pc t) ^^ 2) p) pc = t"
    by (simp add: numeral_2_eq_2 TwoBitPredictor_predict_def TwoBitPredictor_update_def Let_def train_twice)
qed (simp_all add: two_bit_inv_def TwoBitPredictor_predict_def TwoBitPredictor_update_def Let_def
    counters_ok_train hash_index_less)

text \<open>Ten equal outcomes fill a history.\<close>

lemma bit_shift_history: "bit (shift_history 10 t h) n \<longleftrightarrow> n < 10 \<and> (if n = 0 then t else bit h (n - 1))"
proof -
  have m: "push_bit 10 1 - 1 = (mask 10 :: u16)" by (simp add: mask_eq_exp_minus_1)
  show ?thesis
    by (simp only: shift_history_def m bit_and_iff bit_or_iff bit_push_bit_iff) (auto simp: bit_simps)
qed

lemma bit_shift_run: "bit ((shift_history 10 t ^^ Suc k) h) n \<longleftrightarrow> n < 10 \<and> (if n < Suc k then t else bit h (n - Suc k))"
proof (induction k arbitrary: n)
  case (Suc k)
  have "bit ((shift_history 10 t ^^ Suc (Suc k)) h) n \<longleftrightarrow>
      n < 10 \<and> (if n = 0 then t else bit ((shift_history 10 t ^^ Suc k) h) (n - 1))"
    by (simp only: funpow.simps(2) [of "Suc k"] comp_apply bit_shift_history)
  then show ?case unfolding Suc.IH by auto
qed (simp add: bit_shift_history)

lemma history_full:
  assumes "10 \<le> k"
  shows "(shift_history 10 t ^^ k) h = (if t then mask 10 else 0)"
proof (rule bit_word_eqI)
  obtain j where k: "k = Suc j" "9 \<le> j" using assms by (cases k) auto
  fix n
  show "bit ((shift_history 10 t ^^ k) h) n = bit (if t then mask 10 else 0 :: u16) n"
    unfolding k(1) bit_shift_run using k(2) by (auto simp: bit_simps)
qed

lemma local_pattern_less: "local_inv p \<Longrightarrow> local_pattern p pc < 1024"
proof -
  assume i: "local_inv p"
  have "(1023 :: nat) = mask 10" by (simp add: mask_eq_exp_minus_1)
  then have "local_pattern p pc = take_bit 10 (unat (lo_bhr p ! hash_index pc))"
    using i by (simp add: local_pattern_def local_inv_def take_bit_eq_mask)
  then show ?thesis using take_bit_nat_less_exp [of 10 "unat (lo_bhr p ! hash_index pc)"] by simp
qed

lemma local_update_inv: "local_inv p \<Longrightarrow> local_inv (LocalPredictor_update p pc t)"
  using local_pattern_less [of p pc] by (simp add: local_inv_def LocalPredictor_update_def Let_def counters_ok_train)

lemma local_history:
  "local_inv p \<Longrightarrow> lo_bhr (((\<lambda>s. LocalPredictor_update s pc t) ^^ k) p) ! hash_index pc =
    (shift_history 10 t ^^ k) (lo_bhr p ! hash_index pc) \<and> local_inv (((\<lambda>s. LocalPredictor_update s pc t) ^^ k) p)"
proof (induction k)
  case (Suc k)
  let ?q = "((\<lambda>s. LocalPredictor_update s pc t) ^^ k) p"
  have q: "local_inv ?q" using Suc by blast
  have "lo_bhr (LocalPredictor_update ?q pc t) ! hash_index pc = shift_history 10 t (lo_bhr ?q ! hash_index pc)"
    using q hash_index_less [of pc] by (simp add: LocalPredictor_update_def Let_def local_inv_def)
  then show ?case using Suc local_update_inv [OF q] by simp
qed simp

interpretation local: direction_predictor LocalPredictor_predict LocalPredictor_update lo_stats local_inv 12
proof
  fix p pc t assume i: "local_inv p"
  let ?U = "\<lambda>s. LocalPredictor_update s pc t" let ?q = "(?U ^^ 10) p"
  have q: "local_inv ?q" "local_inv (?U ?q)" "local_inv (?U (?U ?q))" using local_history [OF i, where pc = pc and t = t and k = 10] local_update_inv by simp_all
  have two: "(?U ^^ 11) p = ?U ?q" "(?U ^^ 12) p = ?U (?U ?q)" by (simp_all add: numeral_eq_Suc)
  have hist: "lo_bhr ((?U ^^ k) p) ! hash_index pc = lo_bhr ?q ! hash_index pc" if "10 \<le> k" for k
    using local_history [OF i, where pc = pc and t = t and k = k] local_history [OF i, where pc = pc and t = t and k = 10] history_full [OF that, of t]
      history_full [OF order_refl, of t] by simp
  have pat: "local_pattern (?U ?q) pc = local_pattern ?q pc" "local_pattern (?U (?U ?q)) pc = local_pattern ?q pc"
    using hist [of 11, unfolded two] hist [of 12, unfolded two] q by (simp_all add: local_pattern_def local_inv_def)
  let ?v = "lo_pht ?q ! local_pattern ?q pc"
  have v: "?v \<le> 3" "local_pattern ?q pc < length (lo_pht ?q)"
    using q(1) local_pattern_less [OF q(1), of pc] by (simp_all add: local_inv_def counters_ok_def)
  have pht: "lo_pht (?U s) = (lo_pht s)[local_pattern s pc := train t (lo_pht s ! local_pattern s pc)]" for s
    by (simp add: LocalPredictor_update_def Let_def)
  have "lo_pht (?U (?U ?q)) ! local_pattern (?U (?U ?q)) pc = train t (train t ?v)"
    using v(2) by (simp add: pat pht)
  then show "LocalPredictor_predict ((?U ^^ 12) p) pc = t"
    unfolding two using train_twice [OF v(1), of t] by (simp add: LocalPredictor_predict_def)
qed (rule local_update_inv, assumption, simp add: LocalPredictor_predict_def LocalPredictor_update_def Let_def)

lemma global_index_less: "global_inv p \<Longrightarrow> GlobalPredictor_pht_index p pc < 1024"
proof -
  assume i: "global_inv p"
  have m: "push_bit 10 1 - 1 = (mask 10 :: u16)" by (simp add: mask_eq_exp_minus_1)
  have "GlobalPredictor_pht_index p pc = unat ((gl_ghr p XOR of_nat (hash_index pc)) AND (push_bit 10 1 - 1))"
    using i by (simp add: GlobalPredictor_pht_index_def global_inv_def Let_def)
  also have "\<dots> = take_bit 10 (unat (gl_ghr p XOR of_nat (hash_index pc)))"
    unfolding m by (simp only: take_bit_eq_mask [symmetric] unsigned_take_bit_eq)
  finally show ?thesis using take_bit_nat_less_exp [of 10 "unat (gl_ghr p XOR of_nat (hash_index pc) :: u16)"] by simp
qed

lemma global_update_inv: "global_inv p \<Longrightarrow> global_inv (GlobalPredictor_update p pc t)"
  using global_index_less [of p pc] by (simp add: global_inv_def GlobalPredictor_update_def Let_def counters_ok_train)

lemma global_history:
  "global_inv p \<Longrightarrow> gl_ghr (((\<lambda>s. GlobalPredictor_update s pc t) ^^ k) p) = (shift_history 10 t ^^ k) (gl_ghr p) \<and>
    global_inv (((\<lambda>s. GlobalPredictor_update s pc t) ^^ k) p)"
proof (induction k)
  case (Suc k)
  let ?q = "((\<lambda>s. GlobalPredictor_update s pc t) ^^ k) p"
  have q: "global_inv ?q" using Suc by blast
  have "gl_ghr (GlobalPredictor_update ?q pc t) = shift_history 10 t (gl_ghr ?q)"
    using q by (simp add: GlobalPredictor_update_def Let_def global_inv_def)
  then show ?case using Suc global_update_inv [OF q] by simp
qed simp

interpretation global: direction_predictor GlobalPredictor_predict GlobalPredictor_update gl_stats global_inv 12
proof
  fix p pc t assume i: "global_inv p"
  let ?U = "\<lambda>s. GlobalPredictor_update s pc t" let ?q = "(?U ^^ 10) p"
  have q: "global_inv ?q" "global_inv (?U ?q)" "global_inv (?U (?U ?q))"
    using global_history [OF i, where pc = pc and t = t and k = 10] global_update_inv by simp_all
  have hist: "gl_ghr ((?U ^^ k) p) = gl_ghr ?q" if "10 \<le> k" for k
    using global_history [OF i, where pc = pc and t = t and k = k] global_history [OF i, where pc = pc and t = t and k = 10] history_full [OF that, of t]
      history_full [OF order_refl, of t] by simp
  have two: "(?U ^^ 11) p = ?U ?q" "(?U ^^ 12) p = ?U (?U ?q)" by (simp_all add: numeral_eq_Suc)
  have idx: "GlobalPredictor_pht_index (?U ?q) pc = GlobalPredictor_pht_index ?q pc"
    "GlobalPredictor_pht_index (?U (?U ?q)) pc = GlobalPredictor_pht_index ?q pc"
    using hist [of 11, unfolded two] hist [of 12, unfolded two] q
    by (simp_all add: GlobalPredictor_pht_index_def global_inv_def)
  let ?v = "gl_pht ?q ! GlobalPredictor_pht_index ?q pc"
  have v: "?v \<le> 3" "GlobalPredictor_pht_index ?q pc < length (gl_pht ?q)"
    using q(1) global_index_less [OF q(1), of pc] by (simp_all add: global_inv_def counters_ok_def)
  have pht: "gl_pht (?U s) = (gl_pht s)[GlobalPredictor_pht_index s pc := train t (gl_pht s ! GlobalPredictor_pht_index s pc)]" for s
    by (simp add: GlobalPredictor_update_def Let_def)
  have "gl_pht (?U (?U ?q)) ! GlobalPredictor_pht_index (?U (?U ?q)) pc = train t (train t ?v)"
    using v(2) by (simp add: idx pht)
  then show "GlobalPredictor_predict ((?U ^^ 12) p) pc = t"
    unfolding two using train_twice [OF v(1), of t] by (simp add: GlobalPredictor_predict_def)
qed (rule global_update_inv, assumption, simp add: GlobalPredictor_predict_def GlobalPredictor_update_def Let_def)

subsection \<open>Properties\<close>

fun predictor_inv :: "predictor \<Rightarrow> bool" where
  "predictor_inv (P_None s) = True"
| "predictor_inv (P_OneBit p) = one_bit_inv p"
| "predictor_inv (P_TwoBit p) = two_bit_inv p"
| "predictor_inv (P_Local p) = local_inv p"
| "predictor_inv (P_Global p) = global_inv p"

fun warm_up :: "predictor \<Rightarrow> nat" where
  "warm_up (P_None s) = 0"
| "warm_up (P_OneBit p) = 1"
| "warm_up (P_TwoBit p) = 2"
| "warm_up (P_Local p) = 12"
| "warm_up (P_Global p) = 12"

lemma counters_ok_replicate: "counters_ok (replicate 1024 1)"
  by (simp add: counters_ok_def word_le_nat_alt)

lemma predictor_inv_create: "predictor_inv (create_predictor pt)"
  by (cases pt) (simp_all add: one_bit_inv_def two_bit_inv_def local_inv_def global_inv_def counters_ok_replicate
    OneBitPredictor_new_def TwoBitPredictor_new_def LocalPredictor_new_def GlobalPredictor_new_def
    PREDICTOR_TABLE_SIZE_def HISTORY_BITS_def)

lemma predictor_inv_update: "predictor_inv p \<Longrightarrow> predictor_inv (BranchPredictor_update p pc t)"
  by (cases p) (simp_all add: one_bit.inv_update two_bit.inv_update local.inv_update global.inv_update)

lemma predictor_inv_reset: "predictor_inv p \<Longrightarrow> predictor_inv (BranchPredictor_reset p)"
  by (cases p) (simp_all add: one_bit_inv_def two_bit_inv_def local_inv_def global_inv_def counters_ok_def
    OneBitPredictor_reset_def TwoBitPredictor_reset_def LocalPredictor_reset_def GlobalPredictor_reset_def
    word_le_nat_alt)

text \<open>The trait object runs its variant.\<close>

lemma update_run_eqs:
  "((\<lambda>s. BranchPredictor_update s pc t) ^^ k) (P_OneBit a) = P_OneBit (((\<lambda>s. OneBitPredictor_update s pc t) ^^ k) a)"
  "((\<lambda>s. BranchPredictor_update s pc t) ^^ k) (P_TwoBit b) = P_TwoBit (((\<lambda>s. TwoBitPredictor_update s pc t) ^^ k) b)"
  "((\<lambda>s. BranchPredictor_update s pc t) ^^ k) (P_Local c) = P_Local (((\<lambda>s. LocalPredictor_update s pc t) ^^ k) c)"
  "((\<lambda>s. BranchPredictor_update s pc t) ^^ k) (P_Global d) = P_Global (((\<lambda>s. GlobalPredictor_update s pc t) ^^ k) d)"
  by (induction k) simp_all

lemma wrong_steps_eqs:
  "wrong_steps BranchPredictor_predict BranchPredictor_update (P_OneBit a) pc t n =
     wrong_steps OneBitPredictor_predict OneBitPredictor_update a pc t n"
  "wrong_steps BranchPredictor_predict BranchPredictor_update (P_TwoBit b) pc t n =
     wrong_steps TwoBitPredictor_predict TwoBitPredictor_update b pc t n"
  "wrong_steps BranchPredictor_predict BranchPredictor_update (P_Local c) pc t n =
     wrong_steps LocalPredictor_predict LocalPredictor_update c pc t n"
  "wrong_steps BranchPredictor_predict BranchPredictor_update (P_Global d) pc t n =
     wrong_steps GlobalPredictor_predict GlobalPredictor_update d pc t n"
  by (simp_all add: wrong_steps_def update_run_eqs)

lemmas wrong_bounds = one_bit.wrong_bound two_bit.wrong_bound local.wrong_bound global.wrong_bound
lemmas stats_runs = one_bit.stats_run two_bit.stats_run local.stats_run global.stats_run

text \<open>A predictor that keeps state learns a branch that always goes the same way: from any state
  that satisfies its invariant it mispredicts the branch at most once (one bit), twice (two-bit
  counters) or twelve times (two-level, ten bits of history), however often the branch runs, and
  its statistics count exactly those predictions and mispredictions.\<close>

theorem predictor_learns:
  assumes "predictor_inv p" "0 < warm_up p"
  shows "wrong_steps BranchPredictor_predict BranchPredictor_update p pc t n \<le> warm_up p \<and>
    ps_predictions (BranchPredictor_stats (((\<lambda>s. BranchPredictor_update s pc t) ^^ n) p)) =
      ps_predictions (BranchPredictor_stats p) + of_nat n \<and>
    ps_mispredictions (BranchPredictor_stats (((\<lambda>s. BranchPredictor_update s pc t) ^^ n) p)) =
      ps_mispredictions (BranchPredictor_stats p) +
      of_nat (wrong_steps BranchPredictor_predict BranchPredictor_update p pc t n)"
  using assms by (cases p) (simp_all add: wrong_steps_eqs update_run_eqs wrong_bounds wrong_bounds(1) [simplified] stats_runs)

theorem predictor_learns_witness:
  "wrong_steps BranchPredictor_predict BranchPredictor_update (create_predictor PT_TwoBit) 0x80000010 True 100 \<le> 2"
  using predictor_learns [OF predictor_inv_create [of PT_TwoBit], where pc = "0x80000010" and t = True and n = 100] by simp

subsection \<open>The branch target buffer as a map\<close>

definition btb_inv :: "btb \<Rightarrow> bool" where
  "btb_inv t \<longleftrightarrow> length (btb_entries t) = 256"

lemma btb_index_less: "btb_index pc < 256"
proof -
  have "(255 :: nat) = mask 8" by (simp add: mask_eq_exp_minus_1)
  then have "btb_index pc = take_bit 8 (unat (drop_bit 2 pc))"
    by (simp add: btb_index_def BTB_SIZE_def take_bit_eq_mask)
  then show ?thesis using take_bit_nat_less_exp [of 8 "unat (drop_bit 2 pc)"] by simp
qed

lemma btb_index_bits: "btb_index pc = unat (take_bit 8 (drop_bit 2 pc))"
proof -
  have "(255 :: nat) = mask 8" by (simp add: mask_eq_exp_minus_1)
  then have "btb_index pc = take_bit 8 (unat (drop_bit 2 pc))"
    by (simp add: btb_index_def BTB_SIZE_def take_bit_eq_mask)
  then show ?thesis by (simp only: unsigned_take_bit_eq)
qed

text \<open>Index and tag together are the word address: no two branches share an entry.\<close>

lemma btb_slot_inj: "btb_index a = btb_index b \<and> btb_tag a = btb_tag b \<longleftrightarrow> drop_bit 2 a = drop_bit 2 b"
proof
  assume "btb_index a = btb_index b \<and> btb_tag a = btb_tag b"
  then have "unat (take_bit 8 (drop_bit 2 a)) = unat (take_bit 8 (drop_bit 2 b))" and high: "drop_bit 10 a = drop_bit 10 b"
    unfolding btb_index_bits btb_tag_def by blast+
  then have low: "take_bit 8 (drop_bit 2 a) = take_bit 8 (drop_bit 2 b)" by (simp only: word_unat_eq_iff)
  show "drop_bit 2 a = drop_bit 2 b"
  proof (rule bit_word_eqI)
    fix n
    show "bit (drop_bit 2 a) n = bit (drop_bit 2 b) n"
    proof (cases "n < 8")
      case True
      then show ?thesis using arg_cong [OF low, of "\<lambda>w. bit w n"] by (simp add: bit_take_bit_iff)
    next
      case False
      then show ?thesis using arg_cong [OF high, of "\<lambda>w. bit w (n - 8)"] by (simp add: bit_drop_bit_eq)
    qed
  qed
next
  assume e: "drop_bit 2 a = drop_bit 2 b"
  have "drop_bit 10 w = drop_bit 8 (drop_bit 2 w)" for w :: addr by simp
  then have "btb_tag a = btb_tag b" using e by (simp only: btb_tag_def)
  then show "btb_index a = btb_index b \<and> btb_tag a = btb_tag b" using e by (simp only: btb_index_def simp_thms)
qed

definition btb_target :: "btb \<Rightarrow> addr \<Rightarrow> addr option" where
  "btb_target t pc = fst (BranchTargetBuffer_lookup t pc)"

lemma btb_target_eq:
  "btb_target t pc = (let e = btb_entries t ! btb_index pc in
     if be_valid e \<and> be_tag e = btb_tag pc then Some (be_target e) else None)"
  by (simp add: btb_target_def BranchTargetBuffer_lookup_def Let_def)

lemma btb_inv_ops:
  "btb_inv BranchTargetBuffer_new"
  "btb_inv t \<Longrightarrow> btb_inv (BranchTargetBuffer_update t pc target b)"
  "btb_inv t \<Longrightarrow> btb_inv (BranchTargetBuffer_invalidate t pc)"
  "btb_inv t \<Longrightarrow> btb_inv (snd (BranchTargetBuffer_lookup t pc))"
  by (simp_all add: btb_inv_def BranchTargetBuffer_new_def BTB_SIZE_def BranchTargetBuffer_update_def
    BranchTargetBuffer_invalidate_def BranchTargetBuffer_lookup_def Let_def)

text \<open>The target buffer is a direct-mapped partial map from word addresses: after an update the
  branch finds its own target; an address in another set is unaffected; an address of the same set
  with another tag finds nothing, because its entry was evicted.  Looking up changes the counters only.\<close>

theorem btb_lookup_after_update:
  assumes "btb_inv t"
  shows "btb_target (BranchTargetBuffer_update t pc target b) pc' =
      (if drop_bit 2 pc' = drop_bit 2 pc then Some target
       else if btb_index pc' = btb_index pc then None else btb_target t pc') \<and>
    btb_target (BranchTargetBuffer_invalidate t pc) pc' =
      (if btb_index pc' = btb_index pc then None else btb_target t pc') \<and>
    btb_target (snd (BranchTargetBuffer_lookup t pc)) pc' = btb_target t pc'"
proof -
  have l: "btb_index pc < length (btb_entries t)" using assms btb_index_less [of pc] by (simp add: btb_inv_def)
  show ?thesis
    using l btb_slot_inj [of pc' pc]
    by (auto simp: btb_target_eq Let_def BranchTargetBuffer_update_def BranchTargetBuffer_invalidate_def
      BranchTargetBuffer_lookup_def)
qed

theorem btb_lookup_after_update_witness:
  "btb_target (BranchTargetBuffer_update BranchTargetBuffer_new 0x80000010 0x80000040 True) 0x80000010 = Some 0x80000040"
  using btb_lookup_after_update [OF btb_inv_ops(1), where pc = "0x80000010" and target = "0x80000040" and b = True and pc' = "0x80000010"] by simp

text \<open>Where the front end goes after a branch at \<open>pc\<close>: the predicted target when a taken prediction has
  one, the next word otherwise; and where the program goes.\<close>

definition predicted_path :: "addr \<Rightarrow> prediction_result \<Rightarrow> addr" where
  "predicted_path pc r = (if pr_taken r then (case pr_target r of Some t \<Rightarrow> t | None \<Rightarrow> pc + 4) else pc + 4)"

definition actual_path :: "addr \<Rightarrow> bool \<Rightarrow> addr \<Rightarrow> addr" where
  "actual_path pc taken target = (if taken then target else pc + 4)"

text \<open>The misprediction check is sound: with a prediction, a fetch that followed the wrong path is
  always reported, a reported taken branch carries the right redirect target, and a prediction that
  is not reported agrees with the outcome in direction and, when taken, in target.  Without a
  prediction nothing is ever reported.\<close>

theorem misprediction_check_sound:
  "(predicted_path pc r \<noteq> actual_path pc taken target \<longrightarrow>
     mi_mispredicted (PredictorManager_check_misprediction (Some r) taken target)) \<and>
   (taken \<longrightarrow> mi_redirect_target (PredictorManager_check_misprediction (Some r) taken target) = target) \<and>
   (\<not> mi_mispredicted (PredictorManager_check_misprediction (Some r) taken target) \<longrightarrow>
     pr_taken r = taken \<and> (taken \<longrightarrow> pr_target r = Some target)) \<and>
   \<not> mi_mispredicted (PredictorManager_check_misprediction None taken target)"
  by (auto simp: PredictorManager_check_misprediction_def predicted_path_def actual_path_def Let_def
    MispredictionInfo_none_def split: option.splits)

theorem misprediction_check_sound_witness:
  "mi_mispredicted (PredictorManager_check_misprediction
     (Some \<lparr>pr_taken = True, pr_target = Some 0x80000044, pr_pc = 0x80000010\<rparr>) True 0x80000040)"
  using misprediction_check_sound [where pc = "0x80000010" and taken = True and target = "0x80000040"
      and r = "\<lparr>pr_taken = True, pr_target = Some 0x80000044, pr_pc = 0x80000010\<rparr>"]
  by (simp add: predicted_path_def actual_path_def)

end
