(* ===== verification/Pipe_Regs.thy ===== *)
theory Pipe_Regs
  imports Csr_File Branch_Predictor
begin

text \<open>
  The control signals of \<open>src/src/cpu/pipeline/control.rs\<close> and the latches and pipeline registers of
  \<open>src/src/cpu/pipeline/registers.rs\<close>, with the constructors the decode stage uses and the
  \<open>flush\<close> operations.
\<close>

subsection \<open>Control signals\<close>

definition mem_width_BYTE :: u32 where "mem_width_BYTE = 1"
definition mem_width_HALF :: u32 where "mem_width_HALF = 2"
definition mem_width_WORD :: u32 where "mem_width_WORD = 4"

datatype alu_op = AluNop | AluAdd | AluSub | AluAnd | AluOr | AluXor | AluSll | AluSrl | AluSra
  | AluSlt | AluSltu | AluLui | AluPass | AluCsr

definition AluOp_is_comparison :: "alu_op \<Rightarrow> bool" where
  "AluOp_is_comparison op \<longleftrightarrow> op = AluSlt \<or> op = AluSltu"

datatype alu_src = SrcRegister | SrcImmediate

datatype branch_type = BrNone | Beq | Bne | Blt | Bge | Bltu | Bgeu

definition BranchType_is_branch :: "branch_type \<Rightarrow> bool" where
  "BranchType_is_branch b \<longleftrightarrow> b \<noteq> BrNone"

record ex_ctrl =
  ec_alu_op :: alu_op
  ec_alu_src :: alu_src
  ec_branch :: bool
  ec_jump :: bool
  ec_branch_type :: branch_type
  ec_reg_write :: bool
  ec_csr_op :: bool
  ec_csr_op_type :: csr_op
  ec_csr_addr :: u16
  ec_trap_return :: bool

definition ExControlSignals_default :: ex_ctrl where
  "ExControlSignals_default = \<lparr>ec_alu_op = AluNop, ec_alu_src = SrcRegister, ec_branch = False, ec_jump = False,
     ec_branch_type = BrNone, ec_reg_write = False, ec_csr_op = False, ec_csr_op_type = CSR_RW, ec_csr_addr = 0,
     ec_trap_return = False\<rparr>"

definition ExControlSignals_r_type :: "alu_op \<Rightarrow> ex_ctrl" where
  "ExControlSignals_r_type op = \<lparr>ec_alu_op = op, ec_alu_src = SrcRegister, ec_branch = False, ec_jump = False,
     ec_branch_type = BrNone, ec_reg_write = True, ec_csr_op = False, ec_csr_op_type = CSR_RW, ec_csr_addr = 0,
     ec_trap_return = False\<rparr>"

definition ExControlSignals_i_type :: "alu_op \<Rightarrow> ex_ctrl" where
  "ExControlSignals_i_type op = \<lparr>ec_alu_op = op, ec_alu_src = SrcImmediate, ec_branch = False, ec_jump = False,
     ec_branch_type = BrNone, ec_reg_write = True, ec_csr_op = False, ec_csr_op_type = CSR_RW, ec_csr_addr = 0,
     ec_trap_return = False\<rparr>"

definition ExControlSignals_load :: ex_ctrl where
  "ExControlSignals_load = \<lparr>ec_alu_op = AluAdd, ec_alu_src = SrcImmediate, ec_branch = False, ec_jump = False,
     ec_branch_type = BrNone, ec_reg_write = True, ec_csr_op = False, ec_csr_op_type = CSR_RW, ec_csr_addr = 0,
     ec_trap_return = False\<rparr>"

definition ExControlSignals_store :: ex_ctrl where
  "ExControlSignals_store = \<lparr>ec_alu_op = AluAdd, ec_alu_src = SrcImmediate, ec_branch = False, ec_jump = False,
     ec_branch_type = BrNone, ec_reg_write = False, ec_csr_op = False, ec_csr_op_type = CSR_RW, ec_csr_addr = 0,
     ec_trap_return = False\<rparr>"

definition ExControlSignals_branch :: "branch_type \<Rightarrow> ex_ctrl" where
  "ExControlSignals_branch b = \<lparr>ec_alu_op = AluSub, ec_alu_src = SrcRegister, ec_branch = True, ec_jump = False,
     ec_branch_type = b, ec_reg_write = False, ec_csr_op = False, ec_csr_op_type = CSR_RW, ec_csr_addr = 0,
     ec_trap_return = False\<rparr>"

definition ExControlSignals_jal :: ex_ctrl where
  "ExControlSignals_jal = \<lparr>ec_alu_op = AluPass, ec_alu_src = SrcImmediate, ec_branch = False, ec_jump = True,
     ec_branch_type = BrNone, ec_reg_write = True, ec_csr_op = False, ec_csr_op_type = CSR_RW, ec_csr_addr = 0,
     ec_trap_return = False\<rparr>"

definition ExControlSignals_jalr :: ex_ctrl where
  "ExControlSignals_jalr = \<lparr>ec_alu_op = AluAdd, ec_alu_src = SrcImmediate, ec_branch = False, ec_jump = True,
     ec_branch_type = BrNone, ec_reg_write = True, ec_csr_op = False, ec_csr_op_type = CSR_RW, ec_csr_addr = 0,
     ec_trap_return = False\<rparr>"

definition ExControlSignals_lui :: ex_ctrl where
  "ExControlSignals_lui = \<lparr>ec_alu_op = AluLui, ec_alu_src = SrcImmediate, ec_branch = False, ec_jump = False,
     ec_branch_type = BrNone, ec_reg_write = True, ec_csr_op = False, ec_csr_op_type = CSR_RW, ec_csr_addr = 0,
     ec_trap_return = False\<rparr>"

definition ExControlSignals_auipc :: ex_ctrl where
  "ExControlSignals_auipc = \<lparr>ec_alu_op = AluAdd, ec_alu_src = SrcImmediate, ec_branch = False, ec_jump = False,
     ec_branch_type = BrNone, ec_reg_write = True, ec_csr_op = False, ec_csr_op_type = CSR_RW, ec_csr_addr = 0,
     ec_trap_return = False\<rparr>"

definition ExControlSignals_csr :: "csr_op \<Rightarrow> u16 \<Rightarrow> ex_ctrl" where
  "ExControlSignals_csr op a = \<lparr>ec_alu_op = AluCsr, ec_alu_src = SrcRegister, ec_branch = False, ec_jump = False,
     ec_branch_type = BrNone, ec_reg_write = True, ec_csr_op = True, ec_csr_op_type = op, ec_csr_addr = a,
     ec_trap_return = False\<rparr>"

definition ExControlSignals_trap_return :: ex_ctrl where
  "ExControlSignals_trap_return = \<lparr>ec_alu_op = AluNop, ec_alu_src = SrcRegister, ec_branch = False, ec_jump = True,
     ec_branch_type = BrNone, ec_reg_write = False, ec_csr_op = False, ec_csr_op_type = CSR_RW, ec_csr_addr = 0,
     ec_trap_return = True\<rparr>"

record mem_ctrl =
  mc_mem_read :: bool
  mc_mem_write :: bool
  mc_mem_width :: u32
  mc_mem_sign_extend :: bool
  mc_reg_write :: bool

definition MemControlSignals_default :: mem_ctrl where
  "MemControlSignals_default = \<lparr>mc_mem_read = False, mc_mem_write = False, mc_mem_width = 0,
     mc_mem_sign_extend = False, mc_reg_write = False\<rparr>"

definition MemControlSignals_none :: mem_ctrl where
  "MemControlSignals_none = MemControlSignals_default"

definition MemControlSignals_alu :: mem_ctrl where
  "MemControlSignals_alu = \<lparr>mc_mem_read = False, mc_mem_write = False, mc_mem_width = 4,
     mc_mem_sign_extend = False, mc_reg_write = True\<rparr>"

definition MemControlSignals_lb :: mem_ctrl where
  "MemControlSignals_lb = \<lparr>mc_mem_read = True, mc_mem_write = False, mc_mem_width = 1,
     mc_mem_sign_extend = True, mc_reg_write = True\<rparr>"

definition MemControlSignals_lh :: mem_ctrl where
  "MemControlSignals_lh = \<lparr>mc_mem_read = True, mc_mem_write = False, mc_mem_width = 2,
     mc_mem_sign_extend = True, mc_reg_write = True\<rparr>"

definition MemControlSignals_lw :: mem_ctrl where
  "MemControlSignals_lw = \<lparr>mc_mem_read = True, mc_mem_write = False, mc_mem_width = 4,
     mc_mem_sign_extend = False, mc_reg_write = True\<rparr>"

definition MemControlSignals_lbu :: mem_ctrl where
  "MemControlSignals_lbu = \<lparr>mc_mem_read = True, mc_mem_write = False, mc_mem_width = 1,
     mc_mem_sign_extend = False, mc_reg_write = True\<rparr>"

definition MemControlSignals_lhu :: mem_ctrl where
  "MemControlSignals_lhu = \<lparr>mc_mem_read = True, mc_mem_write = False, mc_mem_width = 2,
     mc_mem_sign_extend = False, mc_reg_write = True\<rparr>"

definition MemControlSignals_sb :: mem_ctrl where
  "MemControlSignals_sb = \<lparr>mc_mem_read = False, mc_mem_write = True, mc_mem_width = 1,
     mc_mem_sign_extend = False, mc_reg_write = False\<rparr>"

definition MemControlSignals_sh :: mem_ctrl where
  "MemControlSignals_sh = \<lparr>mc_mem_read = False, mc_mem_write = True, mc_mem_width = 2,
     mc_mem_sign_extend = False, mc_reg_write = False\<rparr>"

definition MemControlSignals_sw :: mem_ctrl where
  "MemControlSignals_sw = \<lparr>mc_mem_read = False, mc_mem_write = True, mc_mem_width = 4,
     mc_mem_sign_extend = False, mc_reg_write = False\<rparr>"

record wb_ctrl =
  wc_reg_write :: bool
  wc_mem_to_reg :: bool

definition WbControlSignals_alu_result :: wb_ctrl where
  "WbControlSignals_alu_result = \<lparr>wc_reg_write = True, wc_mem_to_reg = False\<rparr>"

definition WbControlSignals_mem_data :: wb_ctrl where
  "WbControlSignals_mem_data = \<lparr>wc_reg_write = True, wc_mem_to_reg = True\<rparr>"

definition WbControlSignals_none :: wb_ctrl where
  "WbControlSignals_none = \<lparr>wc_reg_write = False, wc_mem_to_reg = False\<rparr>"

subsection \<open>Latches and pipeline registers\<close>

record instr_latch =
  il_pc :: addr
  il_instruction :: u32
  il_valid :: bool

definition InstrFetchLatch_default :: instr_latch where
  "InstrFetchLatch_default = \<lparr>il_pc = 0, il_instruction = 0, il_valid = False\<rparr>"

record data_latch =
  dl_paddr :: addr
  dl_raw_data :: u32
  dl_width :: u32
  dl_sign_extend :: bool
  dl_valid :: bool

definition DataReadLatch_default :: data_latch where
  "DataReadLatch_default = \<lparr>dl_paddr = 0, dl_raw_data = 0, dl_width = 0, dl_sign_extend = False, dl_valid = False\<rparr>"

record if_id_reg =
  ii_pc :: addr
  ii_instruction :: u32
  ii_valid :: bool
  ii_prediction :: "prediction_result option"

definition IfIdRegister_default :: if_id_reg where
  "IfIdRegister_default = \<lparr>ii_pc = 0, ii_instruction = 0, ii_valid = False, ii_prediction = None\<rparr>"

definition IfIdRegister_flush :: "if_id_reg \<Rightarrow> if_id_reg" where
  "IfIdRegister_flush r = r\<lparr>ii_valid := False, ii_instruction := 0\<rparr>"

datatype forward_source = FwdNone | FwdExMem | FwdMemWb

record id_ex_reg =
  ie_pc :: addr
  ie_pc_plus_4 :: addr
  ie_rs1_val :: u32
  ie_rs2_val :: u32
  ie_rs1 :: regidx
  ie_rs2 :: regidx
  ie_rd :: regidx
  ie_imm :: u32
  ie_ctrl :: ex_ctrl
  ie_mem_ctrl :: mem_ctrl
  ie_branch_taken :: bool
  ie_branch_target :: addr
  ie_prediction :: "prediction_result option"
  ie_id_forward_rs1 :: forward_source
  ie_id_forward_rs2 :: forward_source
  ie_valid :: bool

definition IdExRegister_default :: id_ex_reg where
  "IdExRegister_default = \<lparr>ie_pc = 0, ie_pc_plus_4 = 4, ie_rs1_val = 0, ie_rs2_val = 0, ie_rs1 = 0, ie_rs2 = 0,
     ie_rd = 0, ie_imm = 0, ie_ctrl = ExControlSignals_default, ie_mem_ctrl = MemControlSignals_default,
     ie_branch_taken = False, ie_branch_target = 0, ie_prediction = None, ie_id_forward_rs1 = FwdNone,
     ie_id_forward_rs2 = FwdNone, ie_valid = False\<rparr>"

definition IdExRegister_flush :: "id_ex_reg \<Rightarrow> id_ex_reg" where
  "IdExRegister_flush r = r\<lparr>ie_valid := False, ie_ctrl := (ie_ctrl r)\<lparr>ec_reg_write := False\<rparr>,
     ie_mem_ctrl := (ie_mem_ctrl r)\<lparr>mc_mem_read := False, mc_mem_write := False\<rparr>, ie_branch_taken := False\<rparr>"

record ex_mem_reg =
  em_pc :: addr
  em_pc_plus_4 :: addr
  em_alu_result :: u32
  em_store_data :: u32
  em_rd :: regidx
  em_ctrl :: mem_ctrl
  em_branch_taken :: bool
  em_branch_target :: addr
  em_forward_rs1 :: forward_source
  em_forward_rs2 :: forward_source
  em_valid :: bool

definition ExMemRegister_default :: ex_mem_reg where
  "ExMemRegister_default = \<lparr>em_pc = 0, em_pc_plus_4 = 4, em_alu_result = 0, em_store_data = 0, em_rd = 0,
     em_ctrl = MemControlSignals_default, em_branch_taken = False, em_branch_target = 0, em_forward_rs1 = FwdNone,
     em_forward_rs2 = FwdNone, em_valid = False\<rparr>"

definition ExMemRegister_flush :: "ex_mem_reg \<Rightarrow> ex_mem_reg" where
  "ExMemRegister_flush r = r\<lparr>em_valid := False,
     em_ctrl := (em_ctrl r)\<lparr>mc_reg_write := False, mc_mem_read := False, mc_mem_write := False\<rparr>\<rparr>"

record mem_wb_reg =
  mw_pc :: addr
  mw_alu_result :: u32
  mw_write_data :: u32
  mw_rd :: regidx
  mw_mem_read :: bool
  mw_mem_write :: bool
  mw_ctrl :: wb_ctrl
  mw_valid :: bool

text \<open>\<open>WbControlSignals::default()\<close> has both flags off, like \<open>none()\<close>.\<close>

definition MemWbRegister_default :: mem_wb_reg where
  "MemWbRegister_default = \<lparr>mw_pc = 0, mw_alu_result = 0, mw_write_data = 0, mw_rd = 0, mw_mem_read = False,
     mw_mem_write = False, mw_ctrl = \<lparr>wc_reg_write = False, wc_mem_to_reg = False\<rparr>, mw_valid = False\<rparr>"

definition MemWbRegister_bubble_from_ex_mem :: "ex_mem_reg \<Rightarrow> mem_wb_reg" where
  "MemWbRegister_bubble_from_ex_mem em = \<lparr>mw_pc = em_pc em, mw_alu_result = 0, mw_write_data = 0, mw_rd = em_rd em,
     mw_mem_read = False, mw_mem_write = False, mw_ctrl = WbControlSignals_none, mw_valid = False\<rparr>"

end
