(* ===== verification/Pipe_Units.thy ===== *)
theory Pipe_Units
  imports Pipe_Regs Decode_Instr Reg_File
begin

text \<open>
  The hazard unit (\<open>src/src/cpu/pipeline/hazard.rs\<close>) and the forwarding unit
  (\<open>src/src/cpu/pipeline/forward.rs\<close>).
\<close>

subsection \<open>Hazards\<close>

record hazard_unit =
  hz_stall :: bool
  hz_flush_if_id :: bool
  hz_flush_id_ex :: bool
  hz_stall_pc :: bool

definition HazardUnit_default :: hazard_unit where
  "HazardUnit_default = \<lparr>hz_stall = False, hz_flush_if_id = False, hz_flush_id_ex = False, hz_stall_pc = False\<rparr>"

definition HazardUnit_is_branch_or_jump :: "u32 \<Rightarrow> bool" where
  "HazardUnit_is_branch_or_jump instr =
     (let opc = ucast (instr AND 0x7F) :: u8 in opc = OPC_BRANCH \<or> opc = OPC_JAL \<or> opc = OPC_JALR)"

definition HazardUnit_detect_load_use :: "id_ex_reg \<Rightarrow> regidx \<Rightarrow> regidx \<Rightarrow> bool" where
  "HazardUnit_detect_load_use ie rs1 rs2 \<longleftrightarrow>
     mc_mem_read (ie_mem_ctrl ie) \<and> \<not> RegIdx_is_zero (ie_rd ie) \<and> (ie_rd ie = rs1 \<or> ie_rd ie = rs2)"

definition HazardUnit_detect_id_ex_branch_hazard :: "id_ex_reg \<Rightarrow> regidx \<Rightarrow> regidx \<Rightarrow> bool \<Rightarrow> bool" where
  "HazardUnit_detect_id_ex_branch_hazard ie rs1 rs2 br \<longleftrightarrow>
     br \<and> ec_reg_write (ie_ctrl ie) \<and> \<not> RegIdx_is_zero (ie_rd ie) \<and> (ie_rd ie = rs1 \<or> ie_rd ie = rs2)"

definition HazardUnit_detect_ex_mem_load_branch_hazard :: "ex_mem_reg \<Rightarrow> regidx \<Rightarrow> regidx \<Rightarrow> bool \<Rightarrow> bool" where
  "HazardUnit_detect_ex_mem_load_branch_hazard em rs1 rs2 br \<longleftrightarrow>
     br \<and> mc_mem_read (em_ctrl em) \<and> mc_reg_write (em_ctrl em) \<and> \<not> RegIdx_is_zero (em_rd em) \<and>
     (em_rd em = rs1 \<or> em_rd em = rs2)"

definition HazardUnit_update :: "hazard_unit \<Rightarrow> id_ex_reg \<Rightarrow> if_id_reg \<Rightarrow> ex_mem_reg \<Rightarrow> hazard_unit" where
  "HazardUnit_update h ie ii em =
     (let rs1 = Decoder_rs1 (ii_instruction ii); rs2 = Decoder_rs2 (ii_instruction ii);
          br = HazardUnit_is_branch_or_jump (ii_instruction ii);
          load_use = HazardUnit_detect_load_use ie rs1 rs2;
          id_ex_branch = HazardUnit_detect_id_ex_branch_hazard ie rs1 rs2 br;
          ex_mem_load_branch = HazardUnit_detect_ex_mem_load_branch_hazard em rs1 rs2 br;
          data_stall = (load_use \<or> id_ex_branch \<or> ex_mem_load_branch)
      in h\<lparr>hz_stall := data_stall, hz_stall_pc := data_stall, hz_flush_if_id := False, hz_flush_id_ex := load_use\<rparr>)"

subsection \<open>Forwarding\<close>

record forward_unit =
  fu_forward_rs1 :: forward_source
  fu_forward_rs2 :: forward_source

definition ForwardUnit_default :: forward_unit where
  "ForwardUnit_default = \<lparr>fu_forward_rs1 = FwdNone, fu_forward_rs2 = FwdNone\<rparr>"

definition ForwardUnit_forward_rs1_source :: "id_ex_reg \<Rightarrow> ex_mem_reg \<Rightarrow> mem_wb_reg \<Rightarrow> forward_source" where
  "ForwardUnit_forward_rs1_source ie em mw =
     (if mc_reg_write (em_ctrl em) \<and> \<not> RegIdx_is_zero (em_rd em) \<and> em_rd em = ie_rs1 ie then FwdExMem
      else if wc_reg_write (mw_ctrl mw) \<and> \<not> RegIdx_is_zero (mw_rd mw) \<and> mw_rd mw = ie_rs1 ie then FwdMemWb
      else FwdNone)"

definition ForwardUnit_forward_rs2_source :: "id_ex_reg \<Rightarrow> ex_mem_reg \<Rightarrow> mem_wb_reg \<Rightarrow> forward_source" where
  "ForwardUnit_forward_rs2_source ie em mw =
     (if mc_reg_write (em_ctrl em) \<and> \<not> RegIdx_is_zero (em_rd em) \<and> em_rd em = ie_rs2 ie then FwdExMem
      else if wc_reg_write (mw_ctrl mw) \<and> \<not> RegIdx_is_zero (mw_rd mw) \<and> mw_rd mw = ie_rs2 ie then FwdMemWb
      else FwdNone)"

definition ForwardUnit_update :: "forward_unit \<Rightarrow> id_ex_reg \<Rightarrow> ex_mem_reg \<Rightarrow> mem_wb_reg \<Rightarrow> forward_unit" where
  "ForwardUnit_update f ie em mw = f\<lparr>fu_forward_rs1 := ForwardUnit_forward_rs1_source ie em mw,
     fu_forward_rs2 := ForwardUnit_forward_rs2_source ie em mw\<rparr>"

definition ForwardUnit_apply_forwarding :: "id_ex_reg \<Rightarrow> ex_mem_reg \<Rightarrow> mem_wb_reg \<Rightarrow> u32 \<times> u32" where
  "ForwardUnit_apply_forwarding ie em mw =
     (let rs1_val = (case ForwardUnit_forward_rs1_source ie em mw of
                       FwdExMem \<Rightarrow> em_alu_result em | FwdMemWb \<Rightarrow> mw_write_data mw | FwdNone \<Rightarrow> ie_rs1_val ie);
          rs2_val = (case ForwardUnit_forward_rs2_source ie em mw of
                       FwdExMem \<Rightarrow> em_alu_result em | FwdMemWb \<Rightarrow> mw_write_data mw | FwdNone \<Rightarrow> ie_rs2_val ie)
      in (rs1_val, rs2_val))"

definition ForwardUnit_forward_operand_for_decode :: "regidx \<Rightarrow> u32 \<Rightarrow> ex_mem_reg \<Rightarrow> mem_wb_reg \<Rightarrow> u32" where
  "ForwardUnit_forward_operand_for_decode reg reg_val em mw =
     (if RegIdx_is_zero reg then 0
      else if mc_reg_write (em_ctrl em) \<and> \<not> RegIdx_is_zero (em_rd em) \<and> em_rd em = reg \<and> \<not> mc_mem_read (em_ctrl em)
      then em_alu_result em
      else if wc_reg_write (mw_ctrl mw) \<and> \<not> RegIdx_is_zero (mw_rd mw) \<and> mw_rd mw = reg then mw_write_data mw
      else reg_val)"

definition ForwardUnit_apply_forwarding_for_decode :: "regidx \<Rightarrow> regidx \<Rightarrow> u32 \<Rightarrow> u32 \<Rightarrow> ex_mem_reg \<Rightarrow> mem_wb_reg \<Rightarrow> u32 \<times> u32" where
  "ForwardUnit_apply_forwarding_for_decode rs1 rs2 v1 v2 em mw =
     (ForwardUnit_forward_operand_for_decode rs1 v1 em mw, ForwardUnit_forward_operand_for_decode rs2 v2 em mw)"

definition ForwardUnit_forward_source_for_decode :: "regidx \<Rightarrow> ex_mem_reg \<Rightarrow> mem_wb_reg \<Rightarrow> forward_source" where
  "ForwardUnit_forward_source_for_decode reg em mw =
     (if RegIdx_is_zero reg then FwdNone
      else if mc_reg_write (em_ctrl em) \<and> \<not> RegIdx_is_zero (em_rd em) \<and> em_rd em = reg \<and> \<not> mc_mem_read (em_ctrl em)
      then FwdExMem
      else if wc_reg_write (mw_ctrl mw) \<and> \<not> RegIdx_is_zero (mw_rd mw) \<and> mw_rd mw = reg then FwdMemWb
      else FwdNone)"

end
