(* ===== verification/Pipe_Stages.thy ===== *)
theory Pipe_Stages
  imports Pipe_Units Bus_Model
begin

text \<open>
  The five stages of \<open>src/src/cpu/pipeline/stages/\<close>.  A stage object is a record of what it remembers
  (the decode stage remembers nothing), and a closure the stage is given is a function that threads
  the state it captures.
\<close>

subsection \<open>Fetch (\<open>fetch.rs\<close>)\<close>

record fetch_stage =
  fs_pc :: addr
  fs_pc_plus_4 :: addr

definition FetchStage_default :: fetch_stage where
  "FetchStage_default = \<lparr>fs_pc = 0, fs_pc_plus_4 = 0\<rparr>"

definition FetchStage_pre_fetch ::
  "fetch_stage \<Rightarrow> bool \<Rightarrow> addr \<Rightarrow> bool \<Rightarrow> (addr \<Rightarrow> 's \<Rightarrow> u32 result \<times> 's) \<Rightarrow> 's \<Rightarrow>
     instr_latch result \<times> (fetch_stage \<times> 's)" where
  "FetchStage_pre_fetch fs stall branch_target branch_taken fetch_instruction s =
     (if stall then (Inr \<lparr>il_pc = fs_pc fs, il_instruction = 0, il_valid = False\<rparr>, (fs, s))
      else
        let next_pc = (if branch_taken then branch_target else fs_pc fs + 4)
        in case fetch_instruction next_pc s of
             (Inl e, s) \<Rightarrow> (Inl e, (fs, s))
           | (Inr instruction, s) \<Rightarrow>
               (Inr \<lparr>il_pc = next_pc, il_instruction = instruction, il_valid = True\<rparr>,
                (fs\<lparr>fs_pc := next_pc, fs_pc_plus_4 := next_pc + 4\<rparr>, s)))"

definition FetchStage_fetch :: "instr_latch \<Rightarrow> if_id_reg" where
  "FetchStage_fetch l =
     \<lparr>ii_pc = il_pc l, ii_instruction = il_instruction l, ii_valid = il_valid l, ii_prediction = None\<rparr>"

text \<open>The single-phase fetch kept for the older interface; the translation reads the bus.\<close>

definition FetchStage_execute_with_translate ::
  "'d other_ops \<Rightarrow> fetch_stage \<Rightarrow> bool \<Rightarrow> addr \<Rightarrow> bool \<Rightarrow> ('d bus \<Rightarrow> addr \<Rightarrow> addr result) \<Rightarrow> 'd bus \<Rightarrow>
     if_id_reg result \<times> (fetch_stage \<times> 'd bus)" where
  "FetchStage_execute_with_translate ops fs stall branch_target branch_taken translate b =
     (if stall then
        (Inr \<lparr>ii_pc = fs_pc fs, ii_instruction = 0, ii_valid = False, ii_prediction = None\<rparr>, (fs, b))
      else
        let fs = (if branch_taken then fs\<lparr>fs_pc := branch_target\<rparr> else fs)
        in case translate b (fs_pc fs) of
             Inl e \<Rightarrow> (Inl e, (fs, b))
           | Inr phys_pc \<Rightarrow>
               (case Bus_read_word ops b phys_pc of
                  (Inl e, b) \<Rightarrow> (Inl e, (fs, b))
                | (Inr instruction, b) \<Rightarrow>
                    let fs = fs\<lparr>fs_pc_plus_4 := fs_pc fs + 4\<rparr>;
                        if_id = \<lparr>ii_pc = fs_pc fs, ii_instruction = instruction, ii_valid = True, ii_prediction = None\<rparr>
                    in (Inr if_id, (fs\<lparr>fs_pc := fs_pc_plus_4 fs\<rparr>, b))))"

definition FetchStage_execute ::
  "'d other_ops \<Rightarrow> fetch_stage \<Rightarrow> bool \<Rightarrow> addr \<Rightarrow> bool \<Rightarrow> 'd bus \<Rightarrow> if_id_reg result \<times> (fetch_stage \<times> 'd bus)" where
  "FetchStage_execute ops fs stall branch_target branch_taken b =
     FetchStage_execute_with_translate ops fs stall branch_target branch_taken (\<lambda>_ a. Inr a) b"

definition FetchStage_set_pc :: "fetch_stage \<Rightarrow> addr \<Rightarrow> fetch_stage" where
  "FetchStage_set_pc fs pc = fs\<lparr>fs_pc := pc, fs_pc_plus_4 := pc + 4\<rparr>"

subsection \<open>Decode (\<open>decode.rs\<close>)\<close>

fun DecodeStage_evaluate_branch :: "branch_type \<Rightarrow> u32 \<Rightarrow> u32 \<Rightarrow> bool" where
  "DecodeStage_evaluate_branch Beq a b = (a = b)"
| "DecodeStage_evaluate_branch Bne a b = (a \<noteq> b)"
| "DecodeStage_evaluate_branch Blt a b = (Word_as_signed a < Word_as_signed b)"
| "DecodeStage_evaluate_branch Bge a b = (Word_as_signed a \<ge> Word_as_signed b)"
| "DecodeStage_evaluate_branch Bltu a b = (a < b)"
| "DecodeStage_evaluate_branch Bgeu a b = (a \<ge> b)"
| "DecodeStage_evaluate_branch BrNone a b = False"

fun DecodeStage_extract_immediate :: "decoded_instr \<Rightarrow> u32" where
  "DecodeStage_extract_immediate (DI_I i) = it_imm i"
| "DecodeStage_extract_immediate (DI_S s) = st_imm s"
| "DecodeStage_extract_immediate (DI_B b) = bt_imm b"
| "DecodeStage_extract_immediate (DI_U u) = ut_imm u"
| "DecodeStage_extract_immediate (DI_J j) = jt_imm j"
| "DecodeStage_extract_immediate (DI_Load i) = it_imm i"
| "DecodeStage_extract_immediate (DI_Jalr i) = it_imm i"
| "DecodeStage_extract_immediate _ = 0"

definition DecodeStage_get_r_type_alu_op :: "u8 \<Rightarrow> u8 \<Rightarrow> alu_op" where
  "DecodeStage_get_r_type_alu_op f3 f7 =
     (if f3 = 0 \<and> f7 = 0 then AluAdd else if f3 = 0 \<and> f7 = 0x20 then AluSub
      else if f3 = 1 then AluSll else if f3 = 2 then AluSlt else if f3 = 3 then AluSltu
      else if f3 = 4 then AluXor else if f3 = 5 \<and> f7 = 0 then AluSrl else if f3 = 5 \<and> f7 = 0x20 then AluSra
      else if f3 = 6 then AluOr else if f3 = 7 then AluAnd else AluNop)"

definition DecodeStage_get_i_type_alu_op :: "u8 \<Rightarrow> alu_op" where
  "DecodeStage_get_i_type_alu_op f3 =
     (if f3 = 0 then AluAdd else if f3 = 1 then AluSll else if f3 = 2 then AluSlt else if f3 = 3 then AluSltu
      else if f3 = 4 then AluXor else if f3 = 5 then AluSrl else if f3 = 6 then AluOr
      else if f3 = 7 then AluAnd else AluNop)"

fun DecodeStage_generate_control_signals :: "decoded_instr \<Rightarrow> u32 \<Rightarrow> ex_ctrl \<times> mem_ctrl" where
  "DecodeStage_generate_control_signals (DI_R r) instr =
     (ExControlSignals_r_type (DecodeStage_get_r_type_alu_op (rt_funct3 r) (rt_funct7 r)), MemControlSignals_alu)"
| "DecodeStage_generate_control_signals (DI_I i) instr =
     (ExControlSignals_i_type (DecodeStage_get_i_type_alu_op (it_funct3 i)), MemControlSignals_alu)"
| "DecodeStage_generate_control_signals (DI_Load i) instr =
     (ExControlSignals_load,
      let f3 = it_funct3 i
      in if f3 = 0 then MemControlSignals_lb else if f3 = 1 then MemControlSignals_lh
         else if f3 = 2 then MemControlSignals_lw else if f3 = 4 then MemControlSignals_lbu
         else if f3 = 5 then MemControlSignals_lhu else MemControlSignals_none)"
| "DecodeStage_generate_control_signals (DI_S s) instr =
     (ExControlSignals_store,
      let f3 = st_funct3 s
      in if f3 = 0 then MemControlSignals_sb else if f3 = 1 then MemControlSignals_sh
         else if f3 = 2 then MemControlSignals_sw else MemControlSignals_none)"
| "DecodeStage_generate_control_signals (DI_B b) instr =
     (ExControlSignals_branch
       (let f3 = bt_funct3 b
        in if f3 = 0 then Beq else if f3 = 1 then Bne else if f3 = 4 then Blt else if f3 = 5 then Bge
           else if f3 = 6 then Bltu else if f3 = 7 then Bgeu else BrNone),
      MemControlSignals_none)"
| "DecodeStage_generate_control_signals (DI_U u) instr =
     (let opcode_val = ucast (instr AND 0x7F) :: u8
      in if opcode_val = OPC_LUI then (ExControlSignals_lui, MemControlSignals_alu)
         else (ExControlSignals_auipc, MemControlSignals_alu))"
| "DecodeStage_generate_control_signals (DI_J j) instr = (ExControlSignals_jal, MemControlSignals_alu)"
| "DecodeStage_generate_control_signals (DI_Jalr i) instr = (ExControlSignals_jalr, MemControlSignals_alu)"
| "DecodeStage_generate_control_signals (DI_System opc rd rs1 f3 imm) instr =
     (if f3 = 0 then
        (if imm = 0x302 \<or> imm = 0x102 \<or> imm = 0x002
         then (ExControlSignals_trap_return, MemControlSignals_none)
         else (ExControlSignals_default, MemControlSignals_none))
      else if f3 = 1 \<or> f3 = 2 \<or> f3 = 3 \<or> f3 = 5 \<or> f3 = 6 \<or> f3 = 7 then
        let csr_addr = ucast imm :: u16;
            csr_op = (if f3 = 1 then CSR_RW else if f3 = 2 then CSR_RS else if f3 = 3 then CSR_RC
                      else if f3 = 5 then CSR_RWI else if f3 = 6 then CSR_RSI else CSR_RCI)
        in (ExControlSignals_csr csr_op csr_addr, MemControlSignals_alu)
      else (ExControlSignals_default, MemControlSignals_none))"

text \<open>The branch or jump decision, made in this stage with forwarded operands.\<close>

definition resolve_branch ::
  "decoded_instr \<Rightarrow> ex_ctrl \<Rightarrow> addr \<Rightarrow> u32 \<Rightarrow> regidx \<Rightarrow> regidx \<Rightarrow> u32 \<Rightarrow> u32 \<Rightarrow> ex_mem_reg \<Rightarrow> mem_wb_reg \<Rightarrow> bool \<times> addr" where
  "resolve_branch decoded ctrl pc imm rs1 rs2 v1 v2 em mw =
     (if ec_trap_return ctrl then (False, 0)
      else if ec_branch ctrl then
        let (a, b) = ForwardUnit_apply_forwarding_for_decode rs1 rs2 v1 v2 em mw
        in (DecodeStage_evaluate_branch (ec_branch_type ctrl) a b, pc + imm)
      else if ec_jump ctrl then
        (case decoded of
           DI_Jalr i \<Rightarrow>
             let (a, _) = ForwardUnit_apply_forwarding_for_decode rs1 0 v1 v2 em mw
             in (True, (a + imm) AND NOT 1)
         | _ \<Rightarrow> (True, pc + imm))
      else (False, 0))"

definition DecodeStage_execute ::
  "if_id_reg \<Rightarrow> registers \<Rightarrow> ex_mem_reg \<Rightarrow> mem_wb_reg \<Rightarrow> bool \<Rightarrow> id_ex_reg result" where
  "DecodeStage_execute ii regs em mw flush =
     (if flush \<or> \<not> ii_valid ii then
        Inr (IdExRegister_default\<lparr>ie_pc := ii_pc ii, ie_pc_plus_4 := ii_pc ii + 4\<rparr>)
      else
        bind_res (Decoder_decode (ii_instruction ii) (ii_pc ii)) (\<lambda>decoded.
        let rs1 = Decoder_rs1 (ii_instruction ii); rs2 = Decoder_rs2 (ii_instruction ii);
            rd = Decoder_rd (ii_instruction ii);
            v1 = Registers_read regs rs1; v2 = Registers_read regs rs2;
            (ctrl, mem_ctrl) = DecodeStage_generate_control_signals decoded (ii_instruction ii);
            imm = DecodeStage_extract_immediate decoded;
            (taken, target) = resolve_branch decoded ctrl (ii_pc ii) imm rs1 rs2 v1 v2 em mw
        in Inr \<lparr>ie_pc = ii_pc ii, ie_pc_plus_4 = ii_pc ii + 4, ie_rs1_val = v1, ie_rs2_val = v2, ie_rs1 = rs1,
                ie_rs2 = rs2, ie_rd = rd, ie_imm = imm, ie_ctrl = ctrl, ie_mem_ctrl = mem_ctrl,
                ie_branch_taken = taken, ie_branch_target = target, ie_prediction = None,
                ie_id_forward_rs1 = ForwardUnit_forward_source_for_decode rs1 em mw,
                ie_id_forward_rs2 = ForwardUnit_forward_source_for_decode rs2 em mw, ie_valid = True\<rparr>))"

subsection \<open>Execute (\<open>execute.rs\<close>)\<close>

record execute_stage =
  xs_alu_result :: u32
  xs_branch_taken :: bool
  xs_branch_target :: addr

definition ExecuteStage_default :: execute_stage where
  "ExecuteStage_default = \<lparr>xs_alu_result = 0, xs_branch_taken = False, xs_branch_target = 0\<rparr>"

fun ExecuteStage_execute_alu :: "alu_op \<Rightarrow> u32 \<Rightarrow> u32 \<Rightarrow> u32" where
  "ExecuteStage_execute_alu AluAdd a b = a + b"
| "ExecuteStage_execute_alu AluSub a b = a - b"
| "ExecuteStage_execute_alu AluAnd a b = (a AND b)"
| "ExecuteStage_execute_alu AluOr a b = (a OR b)"
| "ExecuteStage_execute_alu AluXor a b = (a XOR b)"
| "ExecuteStage_execute_alu AluSll a b = push_bit (unat (b AND 0x1F)) a"
| "ExecuteStage_execute_alu AluSrl a b = drop_bit (unat (b AND 0x1F)) a"
| "ExecuteStage_execute_alu AluSra a b = word_of_int (drop_bit (unat (b AND 0x1F)) (Word_as_signed a))"
| "ExecuteStage_execute_alu AluSlt a b = (if Word_as_signed a < Word_as_signed b then 1 else 0)"
| "ExecuteStage_execute_alu AluSltu a b = (if a < b then 1 else 0)"
| "ExecuteStage_execute_alu AluLui a b = b"
| "ExecuteStage_execute_alu AluPass a b = a"
| "ExecuteStage_execute_alu AluNop a b = 0"
| "ExecuteStage_execute_alu AluCsr a b = a"

definition ExecuteStage_execute ::
  "execute_stage \<Rightarrow> id_ex_reg \<Rightarrow> ex_mem_reg \<Rightarrow> mem_wb_reg \<Rightarrow> bool \<Rightarrow> ex_mem_reg \<times> execute_stage" where
  "ExecuteStage_execute xs ie em mw flush =
     (if flush \<or> \<not> ie_valid ie then
        (ExMemRegister_default\<lparr>em_pc := ie_pc ie, em_pc_plus_4 := ie_pc_plus_4 ie\<rparr>, xs)
      else
        let (rs1_val, rs2_val) = ForwardUnit_apply_forwarding ie em mw;
            operand2 = (if ec_alu_src (ie_ctrl ie) = SrcImmediate then ie_imm ie else rs2_val);
            alu_result = ExecuteStage_execute_alu (ec_alu_op (ie_ctrl ie)) rs1_val operand2
        in (\<lparr>em_pc = ie_pc ie, em_pc_plus_4 = ie_pc_plus_4 ie, em_alu_result = alu_result, em_store_data = rs2_val,
             em_rd = ie_rd ie, em_ctrl = ie_mem_ctrl ie, em_branch_taken = ie_branch_taken ie,
             em_branch_target = ie_branch_target ie, em_forward_rs1 = ForwardUnit_forward_rs1_source ie em mw,
             em_forward_rs2 = ForwardUnit_forward_rs2_source ie em mw, em_valid = True\<rparr>,
            xs\<lparr>xs_alu_result := alu_result, xs_branch_taken := ie_branch_taken ie,
               xs_branch_target := ie_branch_target ie\<rparr>))"

subsection \<open>Memory (\<open>memory.rs\<close>)\<close>

record memory_stage =
  ms_mem_data :: u32

definition MemoryStage_default :: memory_stage where
  "MemoryStage_default = \<lparr>ms_mem_data = 0\<rparr>"

definition MemoryStage_extract_latch_data :: "data_latch \<Rightarrow> u32" where
  "MemoryStage_extract_latch_data l =
     (if dl_width l = mem_width_BYTE then
        (let v = ucast (dl_raw_data l) :: u8 in if dl_sign_extend l then Word_from_byte v else Word_from_byte_zero v)
      else if dl_width l = mem_width_HALF then
        (let v = ucast (dl_raw_data l) :: u16 in if dl_sign_extend l then Word_from_half v else Word_from_half_zero v)
      else if dl_width l = mem_width_WORD then dl_raw_data l
      else 0)"

text \<open>A translation closure and the state it captures beside the bus.\<close>

type_synonym ('d, 'x) translate_op = "addr \<Rightarrow> access \<Rightarrow> 'x \<times> 'd bus \<Rightarrow> addr result \<times> ('x \<times> 'd bus)"

text \<open>An operation of the bus beside the state a closure captures.\<close>

definition on_bus :: "('d bus \<Rightarrow> 'a result \<times> 'd bus) \<Rightarrow> 'x \<times> 'd bus \<Rightarrow> 'a result \<times> ('x \<times> 'd bus)" where
  "on_bus f xb = (case f (snd xb) of (r, b) \<Rightarrow> (r, (fst xb, b)))"

definition MemoryStage_read_memory ::
  "'d other_ops \<Rightarrow> addr \<Rightarrow> mem_ctrl \<Rightarrow> ('d, 'x) translate_op \<Rightarrow> 'x \<times> 'd bus \<Rightarrow> u32 result \<times> ('x \<times> 'd bus)" where
  "MemoryStage_read_memory ops a ctrl translate xb =
     bind_st (translate a Load xb) (\<lambda>paddr xb.
     if mc_mem_width ctrl = mem_width_BYTE then
       bind_st (on_bus (\<lambda>b. Bus_read_byte ops b paddr) xb) (\<lambda>v xb.
         (Inr (if mc_mem_sign_extend ctrl then Word_from_byte v else Word_from_byte_zero v), xb))
     else if mc_mem_width ctrl = mem_width_HALF then
       bind_st (on_bus (\<lambda>b. Bus_read_half ops b paddr) xb) (\<lambda>v xb.
         (Inr (if mc_mem_sign_extend ctrl then Word_from_half v else Word_from_half_zero v), xb))
     else if mc_mem_width ctrl = mem_width_WORD then on_bus (\<lambda>b. Bus_read_word ops b paddr) xb
     else (Inr 0, xb))"

definition MemoryStage_write_memory ::
  "'d other_ops \<Rightarrow> addr \<Rightarrow> u32 \<Rightarrow> mem_ctrl \<Rightarrow> ('d, 'x) translate_op \<Rightarrow> 'x \<times> 'd bus \<Rightarrow> unit result \<times> ('x \<times> 'd bus)" where
  "MemoryStage_write_memory ops a v ctrl translate xb =
     bind_st (translate a Store xb) (\<lambda>paddr xb.
     if mc_mem_width ctrl = mem_width_BYTE then on_bus (\<lambda>b. Bus_write_byte ops b paddr (Word_byte v)) xb
     else if mc_mem_width ctrl = mem_width_HALF then on_bus (\<lambda>b. Bus_write_half ops b paddr (Word_half v)) xb
     else if mc_mem_width ctrl = mem_width_WORD then on_bus (\<lambda>b. Bus_write_word ops b paddr v) xb
     else (Inr (), xb))"

text \<open>The MEM/WB register both forms of the stage end with.\<close>

definition mem_wb_of :: "ex_mem_reg \<Rightarrow> u32 \<Rightarrow> mem_wb_reg" where
  "mem_wb_of em mem_data =
     \<lparr>mw_pc = em_pc em, mw_alu_result = em_alu_result em,
      mw_write_data = (if mc_mem_read (em_ctrl em) then mem_data else em_alu_result em), mw_rd = em_rd em,
      mw_mem_read = mc_mem_read (em_ctrl em), mw_mem_write = mc_mem_write (em_ctrl em),
      mw_ctrl = \<lparr>wc_reg_write = mc_reg_write (em_ctrl em), wc_mem_to_reg = mc_mem_read (em_ctrl em)\<rparr>,
      mw_valid = True\<rparr>"

definition MemoryStage_execute_with_latch ::
  "'d other_ops \<Rightarrow> memory_stage \<Rightarrow> ex_mem_reg \<Rightarrow> data_latch \<Rightarrow> ('d, 'x) translate_op \<Rightarrow> 'x \<times> 'd bus \<Rightarrow>
     mem_wb_reg result \<times> (memory_stage \<times> ('x \<times> 'd bus))" where
  "MemoryStage_execute_with_latch ops ms em l translate xb =
     (if \<not> em_valid em then (Inr (MemWbRegister_bubble_from_ex_mem em), (ms, xb))
      else
        let use = (mc_mem_read (em_ctrl em) \<and> dl_valid l);
            mem_data = (if use then MemoryStage_extract_latch_data l else 0);
            ms = (if use then ms\<lparr>ms_mem_data := mem_data\<rparr> else ms)
        in case (if mc_mem_write (em_ctrl em)
                 then MemoryStage_write_memory ops (em_alu_result em) (em_store_data em) (em_ctrl em) translate xb
                 else (Inr (), xb)) of
             (Inl e, xb) \<Rightarrow> (Inl e, (ms, xb))
           | (Inr _, xb) \<Rightarrow> (Inr (mem_wb_of em mem_data), (ms, xb)))"

definition MemoryStage_execute_with_translate ::
  "'d other_ops \<Rightarrow> memory_stage \<Rightarrow> ex_mem_reg \<Rightarrow> ('d, 'x) translate_op \<Rightarrow> 'x \<times> 'd bus \<Rightarrow>
     mem_wb_reg result \<times> (memory_stage \<times> ('x \<times> 'd bus))" where
  "MemoryStage_execute_with_translate ops ms em translate xb =
     (if \<not> em_valid em then (Inr (MemWbRegister_bubble_from_ex_mem em), (ms, xb))
      else
        case (if mc_mem_read (em_ctrl em)
              then MemoryStage_read_memory ops (em_alu_result em) (em_ctrl em) translate xb
              else (Inr 0, xb)) of
          (Inl e, xb) \<Rightarrow> (Inl e, (ms, xb))
        | (Inr mem_data, xb) \<Rightarrow>
            let ms = (if mc_mem_read (em_ctrl em) then ms\<lparr>ms_mem_data := mem_data\<rparr> else ms)
            in case (if mc_mem_write (em_ctrl em)
                     then MemoryStage_write_memory ops (em_alu_result em) (em_store_data em) (em_ctrl em) translate xb
                     else (Inr (), xb)) of
                 (Inl e, xb) \<Rightarrow> (Inl e, (ms, xb))
               | (Inr _, xb) \<Rightarrow> (Inr (mem_wb_of em mem_data), (ms, xb)))"

definition MemoryStage_execute ::
  "'d other_ops \<Rightarrow> memory_stage \<Rightarrow> ex_mem_reg \<Rightarrow> 'd bus \<Rightarrow> mem_wb_reg result \<times> (memory_stage \<times> (unit \<times> 'd bus))" where
  "MemoryStage_execute ops ms em b =
     MemoryStage_execute_with_translate ops ms em (\<lambda>a _ xb. (Inr a, xb)) ((), b)"

subsection \<open>Write-back (\<open>writeback.rs\<close>)\<close>

record writeback_stage =
  ws_write_value :: u32
  ws_write_rd :: regidx
  ws_did_write :: bool

definition WritebackStage_default :: writeback_stage where
  "WritebackStage_default = \<lparr>ws_write_value = 0, ws_write_rd = 0, ws_did_write = False\<rparr>"

text \<open>The flag is the \<open>Ok(bool)\<close> of the code: whether an instruction retired.\<close>

definition WritebackStage_execute :: "writeback_stage \<Rightarrow> mem_wb_reg \<Rightarrow> registers \<Rightarrow> bool \<times> (writeback_stage \<times> registers)" where
  "WritebackStage_execute ws mw regs =
     (let ws = ws\<lparr>ws_write_value := mw_write_data mw, ws_write_rd := mw_rd mw, ws_did_write := False\<rparr>
      in if \<not> mw_valid mw \<or> \<not> wc_reg_write (mw_ctrl mw) then (False, (ws, regs))
         else if RegIdx_is_zero (mw_rd mw) then (True, (ws, regs))
         else (True, (ws\<lparr>ws_did_write := True\<rparr>, Registers_write regs (mw_rd mw) (mw_write_data mw))))"

end
