(* ===== verification/Pipeline_Cpu.thy ===== *)
theory Pipeline_Cpu
  imports Pipe_Stages Mmu_Walk Cache_Model Trap_Handling
begin

text \<open>
  The five-stage processor of \<open>src/src/cpu/pipeline/mod.rs\<close>: the state \<open>PipelineCpu\<close>, interrupt and
  trap entry, trap return, and \<open>clock\<close>, one cycle.  The cycle is cut into the steps its comments
  number; a step may end the cycle early, with \<open>Ok(())\<close> after a trap or with an error, and \<open>bind_flow\<close>
  is what follows a step that does not.  The snapshot for the web interface is left out.
\<close>

record 'd pipeline_cpu =
  pl_regs :: registers
  pl_bus :: "'d bus"
  pl_csr :: csr_file
  pl_privilege :: privilege
  pl_pc :: program_counter
  pl_instr_latch :: instr_latch
  pl_data_latch :: data_latch
  pl_if_id :: if_id_reg
  pl_id_ex :: id_ex_reg
  pl_ex_mem :: ex_mem_reg
  pl_mem_wb :: mem_wb_reg
  pl_fetch_stage :: fetch_stage
  pl_execute_stage :: execute_stage
  pl_memory_stage :: memory_stage
  pl_writeback_stage :: writeback_stage
  pl_hazard_unit :: hazard_unit
  pl_predictor :: predictor_manager
  pl_tlb :: tlb
  pl_i_cache :: cache
  pl_d_cache :: cache
  pl_wb_input :: mem_wb_reg
  pl_perf :: perf_collector
  pl_instructions_executed :: u64
  pl_cycles :: u64
  pl_halted :: bool
  pl_control_hazard :: bool

text \<open>\<open>None\<close> is a failed assertion of a cache constructor.\<close>

definition PipelineCpu_new :: "'d bus \<Rightarrow> 'd pipeline_cpu option" where
  "PipelineCpu_new b =
     (case (Cache_new CT_Instruction ICACHE_SIZE, Cache_new CT_Data DCACHE_SIZE) of
        (Some ic, Some dc) \<Rightarrow> Some
          \<lparr>pl_regs = Registers_new, pl_bus = b, pl_csr = CsrFile_new, pl_privilege = Machine, pl_pc = PC_zero,
           pl_instr_latch = InstrFetchLatch_default, pl_data_latch = DataReadLatch_default,
           pl_if_id = IfIdRegister_default, pl_id_ex = IdExRegister_default, pl_ex_mem = ExMemRegister_default,
           pl_mem_wb = MemWbRegister_default, pl_fetch_stage = FetchStage_default,
           pl_execute_stage = ExecuteStage_default, pl_memory_stage = MemoryStage_default,
           pl_writeback_stage = WritebackStage_default, pl_hazard_unit = HazardUnit_default,
           pl_predictor = PredictorManager_new PT_None, pl_tlb = Tlb_new, pl_i_cache = ic, pl_d_cache = dc,
           pl_wb_input = MemWbRegister_default, pl_perf = PerfCollector_new, pl_instructions_executed = 0,
           pl_cycles = 0, pl_halted = False, pl_control_hazard = False\<rparr>
      | _ \<Rightarrow> None)"

abbreviation pl_record :: "perf_event \<Rightarrow> 'd pipeline_cpu \<Rightarrow> 'd pipeline_cpu" where
  "pl_record ev c \<equiv> c\<lparr>pl_perf := PerfCollector_record (pl_perf c) ev\<rparr>"

subsection \<open>Interrupts and traps\<close>

definition PipelineCpu_sync_interrupts :: "'d other_ops \<Rightarrow> 'd pipeline_cpu \<Rightarrow> 'd pipeline_cpu" where
  "PipelineCpu_sync_interrupts ops c =
     (let (mtip, msip) = Bus_get_clint_interrupt_status (pl_bus c);
          csr = (pl_csr c)\<lparr>csr_mip := Mip_set_msip (Mip_set_mtip (csr_mip (pl_csr c)) mtip) msip\<rparr>;
          b = Bus_sync_plic_pending_from_peripherals ops (pl_bus c);
          (meip, seip) = Bus_get_plic_interrupt_status b;
          csr = csr\<lparr>csr_mip := Mip_set_meip (csr_mip csr) meip, csr_sip := Sip_set_seip (csr_sip csr) seip\<rparr>
      in c\<lparr>pl_csr := csr, pl_bus := b\<rparr>)"

definition PipelineCpu_flush_pipeline :: "'d pipeline_cpu \<Rightarrow> 'd pipeline_cpu" where
  "PipelineCpu_flush_pipeline c =
     c\<lparr>pl_instr_latch := (pl_instr_latch c)\<lparr>il_valid := False\<rparr>, pl_if_id := (pl_if_id c)\<lparr>ii_valid := False\<rparr>,
       pl_id_ex := (pl_id_ex c)\<lparr>ie_valid := False\<rparr>, pl_ex_mem := (pl_ex_mem c)\<lparr>em_valid := False\<rparr>,
       pl_mem_wb := (pl_mem_wb c)\<lparr>mw_valid := False\<rparr>\<rparr>"

definition PipelineCpu_prefetch_instr_latch :: "'d other_ops \<Rightarrow> addr \<Rightarrow> 'd pipeline_cpu \<Rightarrow> 'd pipeline_cpu" where
  "PipelineCpu_prefetch_instr_latch ops a c =
     (case Bus_read_word ops (pl_bus c) a of
        (Inr w, b) \<Rightarrow> c\<lparr>pl_bus := b, pl_instr_latch := \<lparr>il_pc = a, il_instruction = w, il_valid = True\<rparr>\<rparr>
      | (Inl e, b) \<Rightarrow> c\<lparr>pl_bus := b, pl_instr_latch := InstrFetchLatch_default\<rparr>)"

definition PipelineCpu_set_pc :: "'d other_ops \<Rightarrow> addr \<Rightarrow> 'd pipeline_cpu \<Rightarrow> 'd pipeline_cpu" where
  "PipelineCpu_set_pc ops a c =
     PipelineCpu_prefetch_instr_latch ops a (c\<lparr>pl_pc := a, pl_fetch_stage := FetchStage_set_pc (pl_fetch_stage c) a\<rparr>)"

text \<open>Its last three lines are those of \<open>set_pc\<close>.\<close>

definition PipelineCpu_take_trap :: "'d other_ops \<Rightarrow> trap \<Rightarrow> 'd pipeline_cpu \<Rightarrow> 'd pipeline_cpu" where
  "PipelineCpu_take_trap ops t c =
     (let (csr, handler_addr, p) = take_trap_csr t (pl_csr c) (pl_privilege c)
      in PipelineCpu_set_pc ops handler_addr (PipelineCpu_flush_pipeline (c\<lparr>pl_csr := csr, pl_privilege := p\<rparr>)))"

definition pending_trap :: "(bool \<times> u32) \<Rightarrow> addr \<Rightarrow> trap" where
  "pending_trap ic pc =
     (let (is_interrupt, cause) = ic
      in if is_interrupt then Trap_interrupt (InterruptCause_from_code cause) pc
         else Trap_exception (ExceptionCause_from_code cause) pc 0)"

definition PipelineCpu_check_and_handle_interrupt :: "'d other_ops \<Rightarrow> 'd pipeline_cpu \<Rightarrow> bool \<times> 'd pipeline_cpu" where
  "PipelineCpu_check_and_handle_interrupt ops c =
     (let machine_interrupts_enabled = (pl_privilege c \<noteq> Machine \<or> Mstatus_mie (csr_mstatus (pl_csr c)));
          m = (if machine_interrupts_enabled
               then Mip_highest_priority_interrupt (csr_mip (pl_csr c)) (csr_mie (pl_csr c)) else None)
      in case m of
           Some ic \<Rightarrow> (True, PipelineCpu_take_trap ops (pending_trap ic (pl_pc c)) c)
         | None \<Rightarrow>
             (case (if pl_privilege c = Supervisor \<and> Sstatus_sie (csr_sstatus (pl_csr c))
                    then CsrFile_get_pending_interrupt (pl_csr c) Supervisor else None) of
                Some ic \<Rightarrow> (True, PipelineCpu_take_trap ops (pending_trap ic (pl_pc c)) c)
              | None \<Rightarrow> (False, c)))"

definition PipelineCpu_execute_trap_return :: "'d other_ops \<Rightarrow> 'd pipeline_cpu \<Rightarrow> 'd pipeline_cpu" where
  "PipelineCpu_execute_trap_return ops c =
     (let f = pl_csr c; return_pc = Mepc_get (csr_mepc f); new_priv = Mstatus_mpp (csr_mstatus f);
          mpie = Mstatus_mpie (csr_mstatus f);
          ms = Mstatus_set_mpp (Mstatus_set_mpie (Mstatus_set_mie (csr_mstatus f) mpie) True) User
      in PipelineCpu_set_pc ops return_pc
           (PipelineCpu_flush_pipeline (c\<lparr>pl_csr := f\<lparr>csr_mstatus := ms\<rparr>, pl_privilege := new_priv\<rparr>)))"

fun PipelineCpu_page_fault_cause :: "access \<Rightarrow> exception_cause" where
  "PipelineCpu_page_fault_cause Instruction = InstructionPageFault"
| "PipelineCpu_page_fault_cause Load = LoadPageFault"
| "PipelineCpu_page_fault_cause Store = StorePageFault"

subsection \<open>Translation and the caches\<close>

definition PipelineCpu_translate_with_tlb :: "'d other_ops \<Rightarrow> addr \<Rightarrow> access \<Rightarrow> 'd pipeline_cpu \<Rightarrow> addr result \<times> 'd pipeline_cpu" where
  "PipelineCpu_translate_with_tlb ops va acc c =
     (let f = pl_csr c;
          (r, t, pf, b) = translate_with_tlb_components ops (pl_tlb c) (pl_perf c) (pl_bus c) (csr_satp f)
            (pl_privilege c) (Sstatus_sum (csr_sstatus f)) (Sstatus_mxr (csr_sstatus f)) va acc
      in (r, c\<lparr>pl_tlb := t, pl_perf := pf, pl_bus := b\<rparr>))"

definition PipelineCpu_record_cache_delta :: "cache_stats \<Rightarrow> cache_stats \<Rightarrow> perf_collector \<Rightarrow> perf_collector" where
  "PipelineCpu_record_cache_delta st0 st1 pf =
     (let pf = (if cst_hits st1 > cst_hits st0 then PerfCollector_record_cache_hit pf else pf);
          pf = (if cst_misses st1 > cst_misses st0 then PerfCollector_record_cache_miss pf else pf)
      in if cst_writebacks st1 > cst_writebacks st0 then PerfCollector_record_cache_writeback pf else pf)"

text \<open>A cache operation of the processor: on failure (\<open>?\<close>) the statistics are not recorded.\<close>

definition on_d_cache :: "(cache \<times> 'd bus \<Rightarrow> 'a result \<times> (cache \<times> 'd bus)) \<Rightarrow> 'd pipeline_cpu \<Rightarrow> 'a result \<times> 'd pipeline_cpu" where
  "on_d_cache f c =
     (case f (pl_d_cache c, pl_bus c) of
        (Inl e, (dc, b)) \<Rightarrow> (Inl e, c\<lparr>pl_d_cache := dc, pl_bus := b\<rparr>)
      | (Inr v, (dc, b)) \<Rightarrow> (Inr v, c\<lparr>pl_d_cache := dc, pl_bus := b,
          pl_perf := PipelineCpu_record_cache_delta (ca_stats (pl_d_cache c)) (ca_stats dc) (pl_perf c)\<rparr>))"

definition PipelineCpu_read_cache_word_and_record :: "'d other_ops \<Rightarrow> addr \<Rightarrow> 'd pipeline_cpu \<Rightarrow> u32 result \<times> 'd pipeline_cpu" where
  "PipelineCpu_read_cache_word_and_record ops a c =
     (case Cache_read_word (Bus_read_byte ops) (Bus_write_byte ops) a (pl_i_cache c, pl_bus c) of
        (Inl e, (ic, b)) \<Rightarrow> (Inl e, c\<lparr>pl_i_cache := ic, pl_bus := b\<rparr>)
      | (Inr v, (ic, b)) \<Rightarrow> (Inr v, c\<lparr>pl_i_cache := ic, pl_bus := b,
          pl_perf := PipelineCpu_record_cache_delta (ca_stats (pl_i_cache c)) (ca_stats ic) (pl_perf c)\<rparr>))"

definition PipelineCpu_is_sfence_vma :: "u32 \<Rightarrow> bool" where
  "PipelineCpu_is_sfence_vma instr \<longleftrightarrow>
     instr AND 0x7F = 0x73 \<and> drop_bit 12 instr AND 0x7 = 0 \<and> drop_bit 25 instr AND 0x7F = 0x09"

subsection \<open>One cycle\<close>

text \<open>The outcome of a step: go on with a value, or return from \<open>clock\<close>.\<close>

datatype 'a flow = Next 'a | Return "unit result"

definition bind_flow :: "'a flow \<times> 's \<Rightarrow> ('a \<Rightarrow> 's \<Rightarrow> 'b flow \<times> 's) \<Rightarrow> 'b flow \<times> 's" where
  "bind_flow m f = (case m of (Return r, s) \<Rightarrow> (Return r, s) | (Next a, s) \<Rightarrow> f a s)"

definition end_cycle :: "'d pipeline_cpu \<Rightarrow> 'd pipeline_cpu" where
  "end_cycle c =
     (let c = pl_record PE_Cycles (c\<lparr>pl_cycles := pl_cycles c + 1\<rparr>)
      in c\<lparr>pl_csr := (pl_csr c)\<lparr>csr_perf := PerfCounters_tick (csr_perf (pl_csr c))\<rparr>\<rparr>)"

text \<open>A page fault ends the cycle with a trap, any other error leaves \<open>clock\<close>.\<close>

definition fault_exit :: "'d other_ops \<Rightarrow> ('d pipeline_cpu \<Rightarrow> addr) \<Rightarrow> sim_error \<Rightarrow> 'd pipeline_cpu \<Rightarrow> 'a flow \<times> 'd pipeline_cpu" where
  "fault_exit ops epc e c =
     (case e of
        PageFault a acc \<Rightarrow>
          (Return (Inr ()), pl_record PE_PipelineFlushes (end_cycle
             (PipelineCpu_take_trap ops (Trap_exception (PipelineCpu_page_fault_cause acc) (epc c) a) c)))
      | e \<Rightarrow> (Return (Inl e), c))"

definition clock_interrupts :: "'d other_ops \<Rightarrow> 'd pipeline_cpu \<Rightarrow> unit flow \<times> 'd pipeline_cpu" where
  "clock_interrupts ops c =
     (let c = PipelineCpu_sync_interrupts ops (c\<lparr>pl_bus := Bus_tick_clint (pl_bus c) 1\<rparr>)
      in case PipelineCpu_check_and_handle_interrupt ops c of
           (True, c) \<Rightarrow> (Return (Inr ()),
             pl_record PE_PipelineFlushes (pl_record PE_InterruptsTaken (end_cycle c)))
         | (False, c) \<Rightarrow> (Next (), c))"

definition clock_hazard :: "'d pipeline_cpu \<Rightarrow> 'd pipeline_cpu" where
  "clock_hazard c =
     (let c = c\<lparr>pl_hazard_unit := HazardUnit_update (pl_hazard_unit c) (pl_id_ex c) (pl_if_id c) (pl_ex_mem c)\<rparr>
      in if hz_stall (pl_hazard_unit c) then pl_record PE_LoadUseStalls c else c)"

definition clock_writeback :: "'d pipeline_cpu \<Rightarrow> bool \<times> 'd pipeline_cpu" where
  "clock_writeback c =
     (let (completed, (ws, regs)) = WritebackStage_execute (pl_writeback_stage c) (pl_mem_wb c) (pl_regs c);
          c = c\<lparr>pl_writeback_stage := ws, pl_regs := regs\<rparr>
      in (completed,
          if completed then
            (let c = pl_record PE_InstructionsRetired (c\<lparr>pl_instructions_executed := pl_instructions_executed c + 1\<rparr>)
             in c\<lparr>pl_csr := (pl_csr c)\<lparr>csr_perf := PerfCounters_instruction_retired (csr_perf (pl_csr c))\<rparr>\<rparr>)
          else c))"

definition store_op :: "'d other_ops \<Rightarrow> addr \<Rightarrow> ex_mem_reg \<Rightarrow> cache \<times> 'd bus \<Rightarrow> unit result \<times> (cache \<times> 'd bus)" where
  "store_op ops paddr em =
     (if mc_mem_width (em_ctrl em) = mem_width_BYTE
      then Cache_write_byte (Bus_read_byte ops) (Bus_write_byte ops) paddr (Word_byte (em_store_data em))
      else if mc_mem_width (em_ctrl em) = mem_width_HALF
      then Cache_write_half (Bus_read_byte ops) (Bus_write_byte ops) paddr (Word_half (em_store_data em))
      else Cache_write_word (Bus_read_byte ops) (Bus_write_byte ops) paddr (em_store_data em))"

definition clock_memory :: "'d other_ops \<Rightarrow> 'd pipeline_cpu \<Rightarrow> mem_wb_reg flow \<times> 'd pipeline_cpu" where
  "clock_memory ops c =
     (let f = pl_csr c; em = pl_ex_mem c; em' = em\<lparr>em_ctrl := (em_ctrl em)\<lparr>mc_mem_write := False\<rparr>\<rparr>;
          tr = (\<lambda>va acc ((t, pf), b).
                  case translate_with_tlb_components ops t pf b (csr_satp f) (pl_privilege c)
                         (Sstatus_sum (csr_sstatus f)) (Sstatus_mxr (csr_sstatus f)) va acc of
                    (r, t, pf, b) \<Rightarrow> (r, ((t, pf), b)));
          (r, (ms, ((t, pf), b))) = MemoryStage_execute_with_latch ops (pl_memory_stage c) em' (pl_data_latch c) tr
            ((pl_tlb c, pl_perf c), pl_bus c);
          c = c\<lparr>pl_memory_stage := ms, pl_tlb := t, pl_perf := pf, pl_bus := b\<rparr>
      in case r of
           Inl e \<Rightarrow> fault_exit ops (\<lambda>c. em_pc (pl_ex_mem c)) e c
         | Inr mem_wb \<Rightarrow>
             let c = (if mc_mem_read (em_ctrl em) then pl_record PE_MemoryReads c else c)
             in if mc_mem_write (em_ctrl em) then
                  (case PipelineCpu_translate_with_tlb ops (em_alu_result em) Store (pl_record PE_MemoryWrites c) of
                     (Inl e, c) \<Rightarrow> fault_exit ops (\<lambda>c. em_pc (pl_ex_mem c)) e c
                   | (Inr paddr, c) \<Rightarrow>
                       (case on_d_cache (store_op ops paddr em) c of
                          (Inl e, c) \<Rightarrow> (Return (Inl e), c)
                        | (Inr _, c) \<Rightarrow> (Next (mem_wb\<lparr>mw_mem_write := True\<rparr>), c)))
                else (Next mem_wb, c))"

definition clock_execute :: "'d other_ops \<Rightarrow> 'd pipeline_cpu \<Rightarrow> ex_mem_reg flow \<times> 'd pipeline_cpu" where
  "clock_execute ops c =
     (let ie = pl_id_ex c;
          (em, xs) = ExecuteStage_execute (pl_execute_stage c) ie (pl_ex_mem c) (pl_mem_wb c)
                       (hz_flush_id_ex (pl_hazard_unit c));
          c = c\<lparr>pl_execute_stage := xs\<rparr>;
          c = (if ie_valid ie \<and> ec_alu_op (ie_ctrl ie) \<noteq> AluNop then pl_record PE_AluOperations c else c)
      in if ec_csr_op (ie_ctrl ie) then
           (case CsrFile_execute (pl_csr c) (ec_csr_op_type (ie_ctrl ie)) (ec_csr_addr (ie_ctrl ie)) (ie_rs1_val ie)
                   (pl_privilege c) of
              (Inl e, f) \<Rightarrow> (Return (Inl e), c\<lparr>pl_csr := f\<rparr>)
            | (Inr v, f) \<Rightarrow> (Next (em\<lparr>em_alu_result := v\<rparr>), pl_record PE_CsrAccesses (c\<lparr>pl_csr := f\<rparr>)))
         else if ec_trap_return (ie_ctrl ie) then
           (Next (em\<lparr>em_valid := False\<rparr>), pl_record PE_PipelineFlushes (PipelineCpu_execute_trap_return ops c))
         else (Next em, c))"

definition load_op :: "'d other_ops \<Rightarrow> addr \<Rightarrow> ex_mem_reg \<Rightarrow> cache \<times> 'd bus \<Rightarrow> u32 result \<times> (cache \<times> 'd bus)" where
  "load_op ops paddr em cb =
     (if mc_mem_width (em_ctrl em) = mem_width_BYTE
      then bind_st (Cache_read_byte (Bus_read_byte ops) (Bus_write_byte ops) paddr cb) (\<lambda>v cb. (Inr (Word_from_byte_zero v), cb))
      else if mc_mem_width (em_ctrl em) = mem_width_HALF
      then bind_st (Cache_read_half (Bus_read_byte ops) (Bus_write_byte ops) paddr cb) (\<lambda>v cb. (Inr (Word_from_half_zero v), cb))
      else Cache_read_word (Bus_read_byte ops) (Bus_write_byte ops) paddr cb)"

definition clock_data_read :: "'d other_ops \<Rightarrow> ex_mem_reg \<Rightarrow> 'd pipeline_cpu \<Rightarrow> data_latch flow \<times> 'd pipeline_cpu" where
  "clock_data_read ops em c =
     (if em_valid em \<and> mc_mem_read (em_ctrl em) then
        (case PipelineCpu_translate_with_tlb ops (em_alu_result em) Load c of
           (Inl e, c) \<Rightarrow> fault_exit ops (\<lambda>_. em_pc em) e c
         | (Inr paddr, c) \<Rightarrow>
             (case on_d_cache (load_op ops paddr em) c of
                (Inl e, c) \<Rightarrow> (Return (Inl e), c)
              | (Inr raw_data, c) \<Rightarrow>
                  (Next \<lparr>dl_paddr = paddr, dl_raw_data = raw_data, dl_width = mc_mem_width (em_ctrl em),
                     dl_sign_extend = mc_mem_sign_extend (em_ctrl em), dl_valid = True\<rparr>, c)))
      else (Next DataReadLatch_default, c))"

text \<open>The resolution of a branch or jump in ID: whether the front end is redirected, and where to.\<close>

definition clock_branch :: "id_ex_reg \<Rightarrow> 'd pipeline_cpu \<Rightarrow> (bool \<times> addr) \<times> 'd pipeline_cpu" where
  "clock_branch ie c =
     (if ie_valid ie \<and> (ec_branch (ie_ctrl ie) \<or> ec_jump (ie_ctrl ie)) then
        let mi = PredictorManager_check_misprediction (ie_prediction ie) (ie_branch_taken ie) (ie_branch_target ie);
            mispredict = mi_mispredicted mi;
            redirect = (if mispredict then (if ie_branch_taken ie then ie_branch_target ie else ie_pc_plus_4 ie) else 0);
            c = (if mispredict then pl_record PE_ControlHazards c else c)
        in ((mispredict, redirect),
            if ec_branch (ie_ctrl ie) then
              (let c = pl_record PE_BranchExecuted c;
                   c = (if mispredict then pl_record PE_BranchMispredictions c else c);
                   c = c\<lparr>pl_predictor := PredictorManager_update (pl_predictor c) (ie_pc ie) (ie_branch_taken ie)
                          (ie_branch_target ie) True\<rparr>
               in if ie_branch_taken ie then pl_record PE_BranchTaken c else pl_record PE_BranchNotTaken c)
            else c\<lparr>pl_predictor := PredictorManager_update (pl_predictor c) (ie_pc ie) True (ie_branch_target ie) False\<rparr>)
      else ((False, 0), c))"

definition clock_decode :: "'d pipeline_cpu \<Rightarrow> (id_ex_reg \<times> bool \<times> addr) flow \<times> 'd pipeline_cpu" where
  "clock_decode c =
     (case DecodeStage_execute (pl_if_id c) (pl_regs c) (pl_ex_mem c) (pl_mem_wb c) (hz_flush_id_ex (pl_hazard_unit c)) of
        Inl e \<Rightarrow> (Return (Inl e), c)
      | Inr ie \<Rightarrow>
          let ie = (if \<not> hz_stall (pl_hazard_unit c) then ie\<lparr>ie_prediction := ii_prediction (pl_if_id c)\<rparr> else ie);
              c = (if ii_valid (pl_if_id c) \<and> PipelineCpu_is_sfence_vma (ii_instruction (pl_if_id c))
                   then c\<lparr>pl_tlb := Tlb_flush_all (pl_tlb c)\<rparr> else c);
              ((mispredict, redirect), c) = clock_branch ie c
          in (Next (ie, mispredict, redirect), c))"

text \<open>The fetch closure, and the choice of the next address.\<close>

definition fetch_word :: "'d other_ops \<Rightarrow> addr \<Rightarrow> 'd pipeline_cpu \<Rightarrow> u32 result \<times> 'd pipeline_cpu" where
  "fetch_word ops va c =
     bind_st (PipelineCpu_translate_with_tlb ops va Instruction c) (PipelineCpu_read_cache_word_and_record ops)"

definition next_fetch :: "bool \<Rightarrow> addr \<Rightarrow> prediction_result option \<Rightarrow> addr \<Rightarrow> bool \<times> addr" where
  "next_fetch mispredict redirect prediction pc =
     (if mispredict then (True, redirect)
      else case prediction of
             Some p \<Rightarrow> if pr_taken p then (True, (case pr_target p of Some t \<Rightarrow> t | None \<Rightarrow> pc + 4)) else (False, 0)
           | None \<Rightarrow> (False, 0))"

definition clock_fetch :: "'d other_ops \<Rightarrow> bool \<Rightarrow> addr \<Rightarrow> 'd pipeline_cpu \<Rightarrow>
    (if_id_reg \<times> prediction_result option \<times> instr_latch) flow \<times> 'd pipeline_cpu" where
  "clock_fetch ops mispredict redirect c =
     (let ii = FetchStage_fetch (pl_instr_latch c);
          (prediction, pm) = (if ii_valid ii
             then (let (p, pm) = PredictorManager_predict (pl_predictor c) (ii_pc ii) in (Some p, pm))
             else (None, pl_predictor c));
          c = c\<lparr>pl_predictor := pm\<rparr>;
          (taken, target) = next_fetch mispredict redirect prediction (ii_pc ii);
          (r, (fs, c)) = FetchStage_pre_fetch (pl_fetch_stage c) (hz_stall (pl_hazard_unit c)) target taken (fetch_word ops) c;
          c = c\<lparr>pl_fetch_stage := fs\<rparr>
      in case r of
           Inl e \<Rightarrow> fault_exit ops (\<lambda>c. fs_pc (pl_fetch_stage c)) e c
         | Inr latch \<Rightarrow> (Next (ii, prediction, latch), c))"

definition clock_update :: "mem_wb_reg \<Rightarrow> ex_mem_reg \<Rightarrow> data_latch \<Rightarrow> id_ex_reg \<Rightarrow> bool \<Rightarrow> if_id_reg \<Rightarrow>
    prediction_result option \<Rightarrow> instr_latch \<Rightarrow> 'd pipeline_cpu \<Rightarrow> 'd pipeline_cpu" where
  "clock_update mem_wb ex_mem dl id_ex mispredict if_id prediction latch c =
     (let stall = hz_stall (pl_hazard_unit c);
          c = c\<lparr>pl_wb_input := pl_mem_wb c, pl_mem_wb := mem_wb, pl_ex_mem := ex_mem,
                pl_control_hazard := (mispredict \<and> \<not> stall), pl_id_ex := id_ex\<rparr>;
          c = (if \<not> stall then
                 (let c = c\<lparr>pl_if_id := if_id\<lparr>ii_prediction := prediction\<rparr>, pl_instr_latch := latch\<rparr>
                  in if mispredict then c\<lparr>pl_if_id := (pl_if_id c)\<lparr>ii_valid := False, ii_prediction := None\<rparr>\<rparr> else c)
               else c);
          c = (if dl_valid dl then c\<lparr>pl_data_latch := dl\<rparr> else c)
      in if mispredict \<or> \<not> hz_stall_pc (pl_hazard_unit c) then c\<lparr>pl_pc := fs_pc (pl_fetch_stage c)\<rparr> else c)"

text \<open>The loop over the hardware counters at the end of the cycle.\<close>

definition hpm_step :: "bool \<Rightarrow> bool \<Rightarrow> bool \<Rightarrow> nat \<Rightarrow> perf_counters \<Rightarrow> perf_counters" where
  "hpm_step wb_completed stall branch_taken i p =
     (if Mcountinhibit_hpm (pc_mcountinhibit p) (i + HPM_COUNTER_BASE) then p
      else
        let ev = Mhpmevent_event (pc_mhpmevents p ! i);
            inc = p\<lparr>pc_mhpmcounters := (pc_mhpmcounters p)[i := Mhpmcounter_increment (pc_mhpmcounters p ! i)]\<rparr>
        in if ev = PE_None then p
           else if ev = PE_Cycles then inc
           else if ev = PE_InstructionsRetired \<and> wb_completed then inc
           else if ev = PE_LoadUseStalls \<and> stall then inc
           else if ev = PE_ControlHazards \<and> branch_taken then inc
           else p)"

definition clock_hpm :: "bool \<Rightarrow> 'd pipeline_cpu \<Rightarrow> 'd pipeline_cpu" where
  "clock_hpm wb_completed c =
     (if \<not> Mcountinhibit_hpms (pc_mcountinhibit (csr_perf (pl_csr c))) then
        c\<lparr>pl_csr := (pl_csr c)\<lparr>csr_perf := fold (hpm_step wb_completed (hz_stall (pl_hazard_unit c))
            (em_branch_taken (pl_ex_mem c))) [0..<HPM_COUNTER_COUNT] (csr_perf (pl_csr c))\<rparr>\<rparr>
      else c)"

definition clock_stages :: "'d other_ops \<Rightarrow> 'd pipeline_cpu \<Rightarrow> unit flow \<times> 'd pipeline_cpu" where
  "clock_stages ops c =
     (let (wb_completed, c) = clock_writeback (clock_hazard c)
      in bind_flow (clock_memory ops c) (\<lambda>mem_wb c.
         bind_flow (clock_execute ops c) (\<lambda>ex_mem c.
         bind_flow (clock_data_read ops ex_mem c) (\<lambda>dl c.
         bind_flow (clock_decode c) (\<lambda>(id_ex, mispredict, redirect) c.
         bind_flow (clock_fetch ops mispredict redirect c) (\<lambda>(if_id, prediction, latch) c.
         (Next (), clock_hpm wb_completed
            (end_cycle (clock_update mem_wb ex_mem dl id_ex mispredict if_id prediction latch c)))))))))"

definition PipelineCpu_clock :: "'d other_ops \<Rightarrow> 'd pipeline_cpu \<Rightarrow> unit result \<times> 'd pipeline_cpu" where
  "PipelineCpu_clock ops c =
     (if pl_halted c then (Inl Halted, c)
      else
        case bind_flow (clock_interrupts ops c) (\<lambda>_. clock_stages ops) of
          (Next _, c) \<Rightarrow> (Inr (), c)
        | (Return r, c) \<Rightarrow> (r, c))"

subsection \<open>The \<open>ExecutionModel\<close> interface\<close>

definition PipelineCpu_state :: "'d pipeline_cpu \<Rightarrow> cpu_state" where
  "PipelineCpu_state c = CpuState_from_cpu (pl_pc c) (pl_regs c) (pl_privilege c) (pl_instructions_executed c) (pl_halted c)"

definition PipelineCpu_step :: "'d other_ops \<Rightarrow> 'd pipeline_cpu \<Rightarrow> cpu_state result \<times> 'd pipeline_cpu" where
  "PipelineCpu_step ops c = bind_st (PipelineCpu_clock ops c) (\<lambda>_ c. (Inr (PipelineCpu_state c), c))"

definition PipelineCpu_halt :: "'d pipeline_cpu \<Rightarrow> 'd pipeline_cpu" where
  "PipelineCpu_halt c = c\<lparr>pl_halted := True\<rparr>"

text \<open>The result of the cache flush is discarded (\<open>let _ =\<close>).\<close>

definition PipelineCpu_reset :: "'d other_ops \<Rightarrow> 'd pipeline_cpu \<Rightarrow> 'd pipeline_cpu" where
  "PipelineCpu_reset ops c =
     (let (dc, b) = snd (Cache_flush_all_with_bus (Bus_write_byte ops) (pl_d_cache c, pl_bus c))
      in c\<lparr>pl_regs := Registers_reset (pl_regs c), pl_csr := CsrFile_reset (pl_csr c), pl_pc := PC_zero,
           pl_privilege := Machine, pl_instr_latch := InstrFetchLatch_default, pl_data_latch := DataReadLatch_default,
           pl_if_id := IfIdRegister_default, pl_id_ex := IdExRegister_default, pl_ex_mem := ExMemRegister_default,
           pl_mem_wb := MemWbRegister_default, pl_fetch_stage := FetchStage_default,
           pl_execute_stage := ExecuteStage_default, pl_memory_stage := MemoryStage_default,
           pl_writeback_stage := WritebackStage_default, pl_hazard_unit := HazardUnit_default,
           pl_predictor := PredictorManager_reset (pl_predictor c), pl_tlb := Tlb_reset (pl_tlb c),
           pl_bus := b, pl_i_cache := Cache_reset (pl_i_cache c), pl_d_cache := Cache_reset dc,
           pl_wb_input := MemWbRegister_default, pl_perf := PerfCollector_reset (pl_perf c),
           pl_instructions_executed := 0, pl_cycles := 0, pl_halted := False\<rparr>)"

definition PipelineCpu_reset_with_pc :: "'d other_ops \<Rightarrow> addr \<Rightarrow> 'd pipeline_cpu \<Rightarrow> 'd pipeline_cpu" where
  "PipelineCpu_reset_with_pc ops start_pc c = PipelineCpu_set_pc ops start_pc (PipelineCpu_reset ops c)"

definition PipelineCpu_with_pc :: "'d other_ops \<Rightarrow> 'd bus \<Rightarrow> addr \<Rightarrow> 'd pipeline_cpu option" where
  "PipelineCpu_with_pc ops b start_pc = map_option (PipelineCpu_set_pc ops start_pc) (PipelineCpu_new b)"

definition PipelineCpu_switch_predictor :: "predictor_type \<Rightarrow> 'd pipeline_cpu \<Rightarrow> 'd pipeline_cpu" where
  "PipelineCpu_switch_predictor pt c = c\<lparr>pl_predictor := PredictorManager_switch (pl_predictor c) pt\<rparr>"

end
