(* ===== verification/Pipe_Correct.thy ===== *)
theory Pipe_Correct
  imports Pipeline_Cpu
begin

text \<open>
  The pipeline against the instruction set.  A reference interpreter gives each instruction its
  meaning on a program counter and a register file; the processor state is mapped to that pair by
  completing the instructions in flight; and a cycle of the processor is, on that pair, one step of the
  interpreter or none.
\<close>

subsection \<open>The reference interpreter\<close>

definition rv_alu :: "u8 \<Rightarrow> bool \<Rightarrow> u32 \<Rightarrow> u32 \<Rightarrow> u32" where
  "rv_alu f3 alt a b =
     (let sh = unat b mod 32 in
      if f3 = 0 then (if alt then a - b else a + b)
      else if f3 = 1 then a * 2 ^ sh
      else if f3 = 2 then of_bool (sint a < sint b)
      else if f3 = 3 then of_bool (unat a < unat b)
      else if f3 = 4 then a XOR b
      else if f3 = 5 then (if alt then word_of_int (sint a div 2 ^ sh) else of_nat (unat a div 2 ^ sh))
      else if f3 = 6 then a OR b
      else if f3 = 7 then a AND b
      else 0)"

definition rv_branch :: "u8 \<Rightarrow> u32 \<Rightarrow> u32 \<Rightarrow> bool" where
  "rv_branch f3 a b =
     (if f3 = 0 then a = b else if f3 = 1 then a \<noteq> b else if f3 = 4 then sint a < sint b
      else if f3 = 5 then sint a \<ge> sint b else if f3 = 6 then unat a < unat b
      else if f3 = 7 then unat a \<ge> unat b else False)"

definition rv_result :: "u32 \<Rightarrow> u32 \<Rightarrow> u32 \<Rightarrow> u32 option" where
  "rv_result i a b =
     (let opc = Decoder_opcode i in
      if opc = OPC_OP then Some (rv_alu (Decoder_funct3 i) (Decoder_funct7 i = 0x20) a b)
      else if opc = OPC_OP_IMM then Some (rv_alu (Decoder_funct3 i) False a (Decoder_imm_i i))
      else if opc = OPC_LUI then Some (Decoder_imm_u i)
      else None)"

definition rv_next_pc :: "u32 \<Rightarrow> addr \<Rightarrow> u32 \<Rightarrow> u32 \<Rightarrow> addr" where
  "rv_next_pc i pc a b =
     (let opc = Decoder_opcode i in
      if opc = OPC_BRANCH then (if rv_branch (Decoder_funct3 i) a b then pc + Decoder_imm_b i else pc + 4)
      else if opc = OPC_JAL then pc + Decoder_imm_j i
      else if opc = OPC_JALR then (a + Decoder_imm_i i) AND NOT 1
      else pc + 4)"

definition rv_step :: "u32 \<Rightarrow> addr \<times> registers \<Rightarrow> addr \<times> registers" where
  "rv_step i s =
     (let a = Registers_read (snd s) (Decoder_rs1 i); b = Registers_read (snd s) (Decoder_rs2 i)
      in (rv_next_pc i (fst s) a b,
          case rv_result i a b of Some v \<Rightarrow> Registers_write (snd s) (Decoder_rd i) v | None \<Rightarrow> snd s))"

text \<open>
  The instructions the statements below cover: the register and immediate operations other than
  SRAI, LUI, the conditional branches, and jumps that do not link.
\<close>

definition control_instr :: "u32 \<Rightarrow> bool" where
  "control_instr i \<longleftrightarrow> Decoder_opcode i \<in> {OPC_BRANCH, OPC_JAL, OPC_JALR}"

definition covered :: "u32 \<Rightarrow> bool" where
  "covered i \<longleftrightarrow>
     (let opc = Decoder_opcode i; f3 = Decoder_funct3 i; f7 = Decoder_funct7 i in
      opc = OPC_OP \<and> (f7 = 0 \<or> f7 = 0x20 \<and> (f3 = 0 \<or> f3 = 5))
      \<or> opc = OPC_OP_IMM \<and> (f3 = 1 \<or> f3 = 5 \<longrightarrow> f7 = 0)
      \<or> opc = OPC_LUI
      \<or> opc = OPC_BRANCH \<and> f3 \<noteq> 2 \<and> f3 \<noteq> 3
      \<or> (opc = OPC_JAL \<or> opc = OPC_JALR) \<and> Decoder_rd i = 0)"

subsection \<open>The arithmetic unit\<close>

lemma shift_amount: "unat (b AND 0x1F) = unat (b :: u32) mod 32"
proof -
  have "(0x1F :: u32) = mask 5" by (simp add: mask_eq_exp_minus_1)
  then have "unat (b AND 0x1F) = take_bit 5 (unat b)" by (simp only: take_bit_eq_mask [symmetric] unsigned_take_bit_eq)
  then show ?thesis by (simp add: take_bit_eq_mod)
qed

lemma drop_bit_of_nat: "drop_bit n (a :: u32) = of_nat (unat a div 2 ^ n)"
proof -
  have "drop_bit n a = of_nat (unat (drop_bit n a))" by simp
  then show ?thesis by (simp only: unat_drop_bit_eq drop_bit_eq_div [where 'a = nat])
qed

lemma rv_alu_ops:
  "ExecuteStage_execute_alu AluAdd a b = rv_alu 0 False a b" "ExecuteStage_execute_alu AluSub a b = rv_alu 0 True a b"
  "ExecuteStage_execute_alu AluSll a b = rv_alu 1 alt a b" "ExecuteStage_execute_alu AluSlt a b = rv_alu 2 alt a b"
  "ExecuteStage_execute_alu AluSltu a b = rv_alu 3 alt a b" "ExecuteStage_execute_alu AluXor a b = rv_alu 4 alt a b"
  "ExecuteStage_execute_alu AluSrl a b = rv_alu 5 False a b" "ExecuteStage_execute_alu AluSra a b = rv_alu 5 True a b"
  "ExecuteStage_execute_alu AluOr a b = rv_alu 6 alt a b" "ExecuteStage_execute_alu AluAnd a b = rv_alu 7 alt a b"
  by (simp_all add: rv_alu_def Let_def shift_amount Word_as_signed_def push_bit_eq_mult drop_bit_eq_div [where 'a = int]
      drop_bit_of_nat word_less_nat_alt)

lemma rv_branch_ops:
  "DecodeStage_evaluate_branch Beq a b = rv_branch 0 a b" "DecodeStage_evaluate_branch Bne a b = rv_branch 1 a b"
  "DecodeStage_evaluate_branch Blt a b = rv_branch 4 a b" "DecodeStage_evaluate_branch Bge a b = rv_branch 5 a b"
  "DecodeStage_evaluate_branch Bltu a b = rv_branch 6 a b" "DecodeStage_evaluate_branch Bgeu a b = rv_branch 7 a b"
  by (simp_all add: rv_branch_def Word_as_signed_def word_less_nat_alt word_le_nat_alt)

lemma rv_alu_other: "\<lbrakk>f3 \<noteq> 0; f3 \<noteq> 1; f3 \<noteq> 2; f3 \<noteq> 3; f3 \<noteq> 4; f3 \<noteq> 5; f3 \<noteq> 6; f3 \<noteq> 7\<rbrakk> \<Longrightarrow>
    ExecuteStage_execute_alu AluNop a b = rv_alu f3 alt a b"
  by (simp add: rv_alu_def)

lemma r_type_alu:
  "f7 = 0 \<or> f7 = 0x20 \<and> (f3 = 0 \<or> f3 = 5) \<Longrightarrow>
    ExecuteStage_execute_alu (DecodeStage_get_r_type_alu_op f3 f7) a b = rv_alu f3 (f7 = 0x20) a b"
  by (auto simp: DecodeStage_get_r_type_alu_op_def rv_alu_ops rv_alu_other simp del: ExecuteStage_execute_alu.simps)

lemma i_type_alu: "ExecuteStage_execute_alu (DecodeStage_get_i_type_alu_op f3) a b = rv_alu f3 False a b"
  by (auto simp: DecodeStage_get_i_type_alu_op_def rv_alu_ops rv_alu_other simp del: ExecuteStage_execute_alu.simps)

subsection \<open>The state a pipeline stands for\<close>

text \<open>What each instruction in flight does to the registers when it completes.\<close>

definition commit_wb :: "mem_wb_reg \<Rightarrow> registers \<Rightarrow> registers" where
  "commit_wb mw r = (if mw_valid mw \<and> wc_reg_write (mw_ctrl mw) then Registers_write r (mw_rd mw) (mw_write_data mw) else r)"

definition commit_mem :: "ex_mem_reg \<Rightarrow> registers \<Rightarrow> registers" where
  "commit_mem em r = (if em_valid em \<and> mc_reg_write (em_ctrl em) then Registers_write r (em_rd em) (em_alu_result em) else r)"

definition commit_ex :: "id_ex_reg \<Rightarrow> registers \<Rightarrow> registers" where
  "commit_ex ie r =
     (if ie_valid ie \<and> mc_reg_write (ie_mem_ctrl ie) then
        Registers_write r (ie_rd ie) (ExecuteStage_execute_alu (ec_alu_op (ie_ctrl ie)) (Registers_read r (ie_rs1 ie))
          (if ec_alu_src (ie_ctrl ie) = SrcImmediate then ie_imm ie else Registers_read r (ie_rs2 ie)))
      else r)"

definition arch_regs :: "'d pipeline_cpu \<Rightarrow> registers" where
  "arch_regs c = commit_ex (pl_id_ex c) (commit_mem (pl_ex_mem c) (commit_wb (pl_mem_wb c) (pl_regs c)))"

text \<open>The next instruction: the one in IF/ID, or the latched one, or the one about to be fetched.\<close>

definition arch_pc :: "'d pipeline_cpu \<Rightarrow> addr" where
  "arch_pc c = (if ii_valid (pl_if_id c) then ii_pc (pl_if_id c)
     else if il_valid (pl_instr_latch c) then il_pc (pl_instr_latch c) else fs_pc (pl_fetch_stage c) + 4)"

definition arch :: "'d pipeline_cpu \<Rightarrow> addr \<times> registers" where
  "arch c = (arch_pc c, arch_regs c)"

text \<open>
  The invariant.  Bubbles write nothing; the instructions in flight are of the covered kinds; the operands
  in ID/EX are those of the register file; and the front end has followed the recorded prediction.
\<close>

definition id_ex_ok :: "registers \<Rightarrow> id_ex_reg \<Rightarrow> bool" where
  "id_ex_ok r ie \<longleftrightarrow>
     \<not> ec_csr_op (ie_ctrl ie) \<and> \<not> ec_trap_return (ie_ctrl ie) \<and> \<not> mc_mem_read (ie_mem_ctrl ie) \<and>
     \<not> mc_mem_write (ie_mem_ctrl ie) \<and>
     (ie_valid ie \<longrightarrow> ie_rs1_val ie = Registers_read r (ie_rs1 ie) \<and> ie_rs2_val ie = Registers_read r (ie_rs2 ie) \<and>
        (mc_reg_write (ie_mem_ctrl ie) \<longrightarrow> ec_reg_write (ie_ctrl ie)))"

definition ex_mem_ok :: "ex_mem_reg \<Rightarrow> bool" where
  "ex_mem_ok em \<longleftrightarrow> \<not> mc_mem_read (em_ctrl em) \<and> \<not> mc_mem_write (em_ctrl em) \<and>
     (mc_reg_write (em_ctrl em) \<longrightarrow> em_valid em)"

definition mem_wb_ok :: "mem_wb_reg \<Rightarrow> bool" where
  "mem_wb_ok mw \<longleftrightarrow> (wc_reg_write (mw_ctrl mw) \<longrightarrow> mw_valid mw)"

definition front_ok :: "if_id_reg \<Rightarrow> instr_latch \<Rightarrow> fetch_stage \<Rightarrow> bool" where
  "front_ok ii il fs \<longleftrightarrow> (il_valid il \<longrightarrow> fs_pc fs = il_pc il) \<and>
     (ii_valid ii \<longrightarrow> il_valid il \<and>
        (\<exists>p. ii_prediction ii = Some p \<and> il_pc il = predicted_path (ii_pc ii) p))"

definition pipe_inv :: "'d pipeline_cpu \<Rightarrow> bool" where
  "pipe_inv c \<longleftrightarrow> id_ex_ok (pl_regs c) (pl_id_ex c) \<and> ex_mem_ok (pl_ex_mem c) \<and> mem_wb_ok (pl_mem_wb c) \<and>
     front_ok (pl_if_id c) (pl_instr_latch c) (pl_fetch_stage c)"

subsection \<open>Forwarding delivers the committed registers\<close>

lemma forward_ex:
  assumes "id_ex_ok r ie" "ex_mem_ok em" "mem_wb_ok mw" "ie_valid ie"
  shows "ForwardUnit_apply_forwarding ie em mw =
    (Registers_read (commit_mem em (commit_wb mw r)) (ie_rs1 ie), Registers_read (commit_mem em (commit_wb mw r)) (ie_rs2 ie))"
  using assms
  by (auto simp: ForwardUnit_apply_forwarding_def ForwardUnit_forward_rs1_source_def ForwardUnit_forward_rs2_source_def
    commit_mem_def commit_wb_def id_ex_ok_def ex_mem_ok_def mem_wb_ok_def RegIdx_is_zero_def Let_def)

lemma forward_id:
  assumes "ex_mem_ok em" "mem_wb_ok mw"
  shows "ForwardUnit_forward_operand_for_decode i (Registers_read (commit_wb mw r) i) em mw =
    Registers_read (commit_mem em (commit_wb mw r)) i"
  using assms
  by (auto simp: ForwardUnit_forward_operand_for_decode_def commit_mem_def commit_wb_def ex_mem_ok_def mem_wb_ok_def
    RegIdx_is_zero_def)

text \<open>The execute stage turns an instruction in ID/EX into its completion.\<close>

lemma execute_commits:
  assumes "id_ex_ok r ie" "ex_mem_ok em" "mem_wb_ok mw" "ExecuteStage_execute xs ie em mw False = (em', xs')"
  shows "commit_mem em' (commit_mem em (commit_wb mw r)) = commit_ex ie (commit_mem em (commit_wb mw r)) \<and> ex_mem_ok em'"
proof (cases "ie_valid ie")
  case True
  note fw = forward_ex [OF assms(1-3) True]
  have "em_valid em'" "em_ctrl em' = ie_mem_ctrl ie" "em_rd em' = ie_rd ie"
    "em_alu_result em' = ExecuteStage_execute_alu (ec_alu_op (ie_ctrl ie))
       (Registers_read (commit_mem em (commit_wb mw r)) (ie_rs1 ie))
       (if ec_alu_src (ie_ctrl ie) = SrcImmediate then ie_imm ie
        else Registers_read (commit_mem em (commit_wb mw r)) (ie_rs2 ie))"
    using assms(4) True arg_cong [OF fw, of fst] arg_cong [OF fw, of snd]
    by (auto simp: ExecuteStage_execute_def Let_def split_beta)
  then show ?thesis
    using assms(1) True by (simp only: commit_mem_def [of em'] commit_ex_def ex_mem_ok_def id_ex_ok_def simp_thms)
next
  case False
  then have "\<not> em_valid em'" "em_ctrl em' = MemControlSignals_default"
    using assms(4) by (auto simp: ExecuteStage_execute_def ExMemRegister_default_def)
  then show ?thesis
    using False by (simp add: commit_mem_def [of em'] commit_ex_def ex_mem_ok_def MemControlSignals_default_def)
qed

lemma wb_of_mem:
  assumes "ex_mem_ok em"
  shows "commit_wb (if em_valid em then mem_wb_of em d else MemWbRegister_bubble_from_ex_mem em) r = commit_mem em r"
    "mem_wb_ok (if em_valid em then mem_wb_of em d else MemWbRegister_bubble_from_ex_mem em)"
  using assms
  by (auto simp: commit_wb_def commit_mem_def mem_wb_of_def MemWbRegister_bubble_from_ex_mem_def ex_mem_ok_def
    mem_wb_ok_def WbControlSignals_none_def)

subsection \<open>The decode stage on the covered instructions\<close>

lemmas opcode_defs = OPC_LUI_def OPC_AUIPC_def OPC_JAL_def OPC_JALR_def OPC_BRANCH_def OPC_LOAD_def OPC_STORE_def
  OPC_OP_IMM_def OPC_OP_def OPC_AMO_def OPC_FENCE_def OPC_SYSTEM_def OPC_CUSTOM_0_def

lemmas control_defs = ExControlSignals_default_def ExControlSignals_r_type_def ExControlSignals_i_type_def
  ExControlSignals_branch_def ExControlSignals_jal_def ExControlSignals_jalr_def ExControlSignals_lui_def
  MemControlSignals_alu_def MemControlSignals_none_def MemControlSignals_default_def

text \<open>The six kinds of covered instruction, with what the decoder makes of them.\<close>

lemma covered_cases:
  assumes "covered i"
  obtains
    (op) "Decoder_opcode i = OPC_OP" "Decoder_funct7 i = 0 \<or> Decoder_funct7 i = 0x20 \<and> (Decoder_funct3 i = 0 \<or> Decoder_funct3 i = 5)"
      "Decoder_decode i pc = Inr (DI_R \<lparr>rt_rd = Decoder_rd i, rt_rs1 = Decoder_rs1 i, rt_rs2 = Decoder_rs2 i,
         rt_funct3 = Decoder_funct3 i, rt_funct7 = Decoder_funct7 i\<rparr>)"
  | (imm) "Decoder_opcode i = OPC_OP_IMM"
      "Decoder_decode i pc = Inr (DI_I \<lparr>it_rd = Decoder_rd i, it_rs1 = Decoder_rs1 i, it_imm = Decoder_imm_i i,
         it_funct3 = Decoder_funct3 i\<rparr>)"
  | (lui) "Decoder_opcode i = OPC_LUI"
      "Decoder_decode i pc = Inr (DI_U \<lparr>ut_rd = Decoder_rd i, ut_imm = Decoder_imm_u i\<rparr>)"
  | (branch) "Decoder_opcode i = OPC_BRANCH"
      "Decoder_decode i pc = Inr (DI_B \<lparr>bt_rs1 = Decoder_rs1 i, bt_rs2 = Decoder_rs2 i, bt_imm = Decoder_imm_b i,
         bt_funct3 = Decoder_funct3 i\<rparr>)"
  | (jal) "Decoder_opcode i = OPC_JAL" "Decoder_rd i = 0"
      "Decoder_decode i pc = Inr (DI_J \<lparr>jt_rd = Decoder_rd i, jt_imm = Decoder_imm_j i\<rparr>)"
  | (jalr) "Decoder_opcode i = OPC_JALR" "Decoder_rd i = 0"
      "Decoder_decode i pc = Inr (DI_Jalr \<lparr>it_rd = Decoder_rd i, it_rs1 = Decoder_rs1 i, it_imm = Decoder_imm_i i,
         it_funct3 = Decoder_funct3 i\<rparr>)"
proof -
  consider "Decoder_opcode i = OPC_OP" | "Decoder_opcode i = OPC_OP_IMM" | "Decoder_opcode i = OPC_LUI"
    | "Decoder_opcode i = OPC_BRANCH" | "Decoder_opcode i = OPC_JAL" | "Decoder_opcode i = OPC_JALR"
    using assms unfolding covered_def Let_def by blast
  then show ?thesis
  proof cases
    case 1
    have "Decoder_funct7 i = 0 \<or> Decoder_funct7 i = 0x20 \<and> (Decoder_funct3 i = 0 \<or> Decoder_funct3 i = 5)"
      using assms 1 by (simp add: covered_def Let_def opcode_defs)
    then show ?thesis using 1 by (intro op) (simp_all add: Decoder_decode_def Let_def)
  next
    case 2
    then show ?thesis by (intro imm) (simp_all add: Decoder_decode_def opcode_defs)
  next
    case 3
    then show ?thesis by (intro lui) (simp_all add: Decoder_decode_def opcode_defs)
  next
    case 4
    then show ?thesis by (intro branch) (simp_all add: Decoder_decode_def opcode_defs)
  next
    case 5
    then show ?thesis using assms by (intro jal) (simp_all add: covered_def Decoder_decode_def opcode_defs)
  next
    case 6
    then show ?thesis using assms by (intro jalr) (simp_all add: covered_def Decoder_decode_def opcode_defs)
  qed
qed

text \<open>Decoding a covered instruction: a well-formed ID/EX register whose completion is the interpreter's
  register update, and a branch decision that is the interpreter's.\<close>

definition writes_rd :: "id_ex_reg \<Rightarrow> bool" where
  "writes_rd ie \<longleftrightarrow> ec_reg_write (ie_ctrl ie) \<and> ie_rd ie \<noteq> 0"

definition decoded_ok :: "if_id_reg \<Rightarrow> registers \<Rightarrow> ex_mem_reg \<Rightarrow> mem_wb_reg \<Rightarrow> id_ex_reg \<Rightarrow> bool" where
  "decoded_ok ii r em mw ie \<longleftrightarrow>
     (let i = ii_instruction ii;
          a = ForwardUnit_forward_operand_for_decode (Decoder_rs1 i) (Registers_read r (Decoder_rs1 i)) em mw;
          b = ForwardUnit_forward_operand_for_decode (Decoder_rs2 i) (Registers_read r (Decoder_rs2 i)) em mw
      in id_ex_ok r ie \<and> ie_valid ie \<and> ie_prediction ie = None \<and> ie_pc ie = ii_pc ii \<and> ie_pc_plus_4 ie = ii_pc ii + 4 \<and>
         (\<forall>R. commit_ex ie R = snd (rv_step i (ii_pc ii, R))) \<and>
         (ec_branch (ie_ctrl ie) \<or> ec_jump (ie_ctrl ie) \<longleftrightarrow> control_instr i) \<and>
         (control_instr i \<longrightarrow> (\<forall>R. commit_ex ie R = R) \<and> \<not> writes_rd ie \<and>
            rv_next_pc i (ii_pc ii) a b = (if ie_branch_taken ie then ie_branch_target ie else ii_pc ii + 4)))"

lemma decode_covered:
  assumes "covered (ii_instruction ii)" "ii_valid ii"
  shows "\<exists>ie. DecodeStage_execute ii r em mw False = Inr ie \<and> decoded_ok ii r em mw ie"
  using assms(1)
proof (cases rule: covered_cases [where pc = "ii_pc ii"])
  case op
  then show ?thesis using assms(2)
    by (simp add: DecodeStage_execute_def decoded_ok_def Let_def control_defs id_ex_ok_def commit_ex_def writes_rd_def rv_step_def
      rv_result_def control_instr_def r_type_alu resolve_branch_def opcode_defs)
next
  case imm
  then show ?thesis using assms(2)
    by (simp add: DecodeStage_execute_def decoded_ok_def Let_def control_defs id_ex_ok_def commit_ex_def writes_rd_def rv_step_def
      rv_result_def control_instr_def i_type_alu resolve_branch_def opcode_defs)
next
  case lui
  have "ucast (ii_instruction ii AND 0x7F) = OPC_LUI" using lui(1) by (simp add: Decoder_opcode_def)
  then show ?thesis using assms(2) lui
    by (simp add: DecodeStage_execute_def decoded_ok_def Let_def control_defs id_ex_ok_def commit_ex_def writes_rd_def rv_step_def
      rv_result_def control_instr_def resolve_branch_def opcode_defs)
next
  case jal
  then show ?thesis using assms(2)
    by (simp add: DecodeStage_execute_def decoded_ok_def Let_def control_defs id_ex_ok_def commit_ex_def writes_rd_def rv_step_def
      rv_result_def rv_next_pc_def control_instr_def resolve_branch_def opcode_defs)
next
  case jalr
  then show ?thesis using assms(2)
    by (simp add: DecodeStage_execute_def decoded_ok_def Let_def control_defs id_ex_ok_def commit_ex_def writes_rd_def rv_step_def
      rv_result_def rv_next_pc_def control_instr_def resolve_branch_def opcode_defs
      ForwardUnit_apply_forwarding_for_decode_def)
next
  case branch
  have br: "Decoder_funct3 (ii_instruction ii) \<noteq> 2" "Decoder_funct3 (ii_instruction ii) \<noteq> 3"
    using assms(1) branch(1) by (simp_all add: covered_def Let_def opcode_defs)
  show ?thesis using assms(2) branch
    by (simp del: DecodeStage_evaluate_branch.simps add: DecodeStage_execute_def decoded_ok_def Let_def control_defs
      id_ex_ok_def commit_ex_def writes_rd_def rv_step_def rv_result_def rv_next_pc_def control_instr_def resolve_branch_def
      opcode_defs ForwardUnit_apply_forwarding_for_decode_def rv_branch_ops rv_branch_def br
      DecodeStage_evaluate_branch.simps(7))
qed

subsection \<open>The steps of a cycle\<close>

text \<open>The part of the state the argument is about; the steps leave most of it alone.\<close>

definition core where
  "core c = (pl_regs c, pl_privilege c, pl_if_id c, pl_id_ex c, pl_ex_mem c, pl_mem_wb c, pl_instr_latch c,
     pl_fetch_stage c)"

lemma core_eqD:
  assumes "core c = core c'"
  shows "pl_regs c = pl_regs c'" "pl_privilege c = pl_privilege c'" "pl_if_id c = pl_if_id c'"
    "pl_id_ex c = pl_id_ex c'" "pl_ex_mem c = pl_ex_mem c'" "pl_mem_wb c = pl_mem_wb c'"
    "pl_instr_latch c = pl_instr_latch c'" "pl_fetch_stage c = pl_fetch_stage c'"
  using assms by (simp_all add: core_def)

lemma interrupt_check_False: "PipelineCpu_check_and_handle_interrupt ops c = (False, c') \<Longrightarrow> c' = c"
  by (auto simp: PipelineCpu_check_and_handle_interrupt_def Let_def split: option.splits)

lemma interrupts_core:
  assumes "clock_interrupts ops c = (Next u, c')"
  shows "core c' = core c"
proof -
  have "core (PipelineCpu_sync_interrupts ops (c\<lparr>pl_bus := b\<rparr>)) = core c" for b
    by (simp add: PipelineCpu_sync_interrupts_def core_def Let_def split_beta)
  then show ?thesis
    using assms by (auto simp: clock_interrupts_def Let_def dest!: interrupt_check_False split: prod.splits bool.splits)
qed

lemma hazard_core:
  "core (clock_hazard c) = core c"
  "pl_hazard_unit (clock_hazard c) = HazardUnit_update (pl_hazard_unit c) (pl_id_ex c) (pl_if_id c) (pl_ex_mem c)"
  by (simp_all add: clock_hazard_def core_def Let_def)

lemma writeback_core:
  "core (snd (clock_writeback c)) = core (c\<lparr>pl_regs := commit_wb (pl_mem_wb c) (pl_regs c)\<rparr>)"
  "pl_hazard_unit (snd (clock_writeback c)) = pl_hazard_unit c"
  by (auto simp: clock_writeback_def WritebackStage_execute_def core_def commit_wb_def Let_def RegIdx_is_zero_def)

lemma memory_core:
  assumes "ex_mem_ok (pl_ex_mem c)"
  shows "\<exists>d c'. clock_memory ops c =
      (Next (if em_valid (pl_ex_mem c) then mem_wb_of (pl_ex_mem c) d else MemWbRegister_bubble_from_ex_mem (pl_ex_mem c)), c')
    \<and> core c' = core c \<and> pl_hazard_unit c' = pl_hazard_unit c"
proof -
  have e: "(pl_ex_mem c)\<lparr>em_ctrl := (em_ctrl (pl_ex_mem c))\<lparr>mc_mem_write := False\<rparr>\<rparr> = pl_ex_mem c"
    using assms by (cases "pl_ex_mem c"; cases "em_ctrl (pl_ex_mem c)") (simp add: ex_mem_ok_def)
  show ?thesis
    unfolding clock_memory_def Let_def e
    using assms by (auto simp: MemoryStage_execute_with_latch_def ex_mem_ok_def Let_def core_def)
qed

lemma execute_core:
  assumes "id_ex_ok r (pl_id_ex c)" "\<not> hz_flush_id_ex (pl_hazard_unit c)"
  shows "\<exists>em xs c'. ExecuteStage_execute (pl_execute_stage c) (pl_id_ex c) (pl_ex_mem c) (pl_mem_wb c) False = (em, xs)
    \<and> clock_execute ops c = (Next em, c') \<and> core c' = core c \<and> pl_hazard_unit c' = pl_hazard_unit c"
  using assms by (simp add: clock_execute_def id_ex_ok_def Let_def core_def split: prod.splits)

lemma branch_core: "core (snd (clock_branch ie c)) = core c \<and> pl_hazard_unit (snd (clock_branch ie c)) = pl_hazard_unit c"
  by (simp add: clock_branch_def core_def Let_def)

text \<open>Machine mode does not translate.\<close>

lemma machine_translate:
  assumes "pl_privilege c = Machine"
  shows "PipelineCpu_translate_with_tlb ops va acc c = (Inr va, c)"
  using assms by (simp add: PipelineCpu_translate_with_tlb_def translate_with_tlb_components_def)

lemma machine_fetch_word:
  assumes "pl_privilege c = Machine" "fetch_word ops va c = (r, c')"
  shows "core c' = core c \<and> pl_hazard_unit c' = pl_hazard_unit c"
  using assms
  by (auto simp: fetch_word_def machine_translate PipelineCpu_read_cache_word_and_record_def core_def
    split: prod.splits sum.splits)

lemma fetch_core:
  assumes "pl_privilege c = Machine" "clock_fetch ops mp redirect c = (Next (ii, pred, latch), c')"
  shows "ii = FetchStage_fetch (pl_instr_latch c)" "ii_valid ii \<Longrightarrow> \<exists>p. pred = Some p" "\<not> ii_valid ii \<Longrightarrow> pred = None"
    "core c' = core (c\<lparr>pl_fetch_stage := pl_fetch_stage c'\<rparr>)" "pl_hazard_unit c' = pl_hazard_unit c"
    "hz_stall (pl_hazard_unit c) \<Longrightarrow> pl_fetch_stage c' = pl_fetch_stage c"
    "\<not> hz_stall (pl_hazard_unit c) \<Longrightarrow> il_valid latch \<and> fs_pc (pl_fetch_stage c') = il_pc latch \<and>
       il_pc latch = (let (taken, target) = next_fetch mp redirect pred (il_pc (pl_instr_latch c))
                      in if taken then target else fs_pc (pl_fetch_stage c) + 4)"
proof -
  define ii' where "ii' = FetchStage_fetch (pl_instr_latch c)"
  define pp where "pp = (if ii_valid ii'
    then (let (p, pm) = PredictorManager_predict (pl_predictor c) (ii_pc ii') in (Some p, pm)) else (None, pl_predictor c))"
  define c1 where "c1 = c\<lparr>pl_predictor := snd pp\<rparr>"
  define tt where "tt = next_fetch mp redirect (fst pp) (ii_pc ii')"
  obtain r fs c2 where pf: "FetchStage_pre_fetch (pl_fetch_stage c1) (hz_stall (pl_hazard_unit c1)) (snd tt) (fst tt) (fetch_word ops) c1
      = (r, (fs, c2))" by (metis prod_cases3)
  have u: "clock_fetch ops mp redirect c = (case r of
       Inl e \<Rightarrow> fault_exit ops (\<lambda>c. fs_pc (pl_fetch_stage c)) e (c2\<lparr>pl_fetch_stage := fs\<rparr>)
     | Inr latch \<Rightarrow> (Next (ii', fst pp, latch), c2\<lparr>pl_fetch_stage := fs\<rparr>))"
    unfolding clock_fetch_def Let_def ii'_def [symmetric] pp_def [symmetric, unfolded Let_def]
    using arg_cong [OF pf, of fst] arg_cong [OF pf, of "\<lambda>x. fst (snd x)"] arg_cong [OF pf, of "\<lambda>x. snd (snd x)"]
    by (cases r) (simp_all add: split_beta c1_def tt_def)
  have r: "r = Inr latch" "ii = ii'" "pred = fst pp" "c' = c2\<lparr>pl_fetch_stage := fs\<rparr>"
    using assms(2) unfolding u by (auto simp: fault_exit_def split: sum.splits sim_error.splits)
  have c2: "core c2 = core c1 \<and> pl_hazard_unit c2 = pl_hazard_unit c1"
    using pf r(1) machine_fetch_word [of c1 ops] assms(1)
    by (auto simp: FetchStage_pre_fetch_def Let_def c1_def split: if_splits prod.splits sum.splits)
  then show "core c' = core (c\<lparr>pl_fetch_stage := pl_fetch_stage c'\<rparr>)" "pl_hazard_unit c' = pl_hazard_unit c"
    unfolding r(4) by (simp_all add: c1_def core_def)
  show "ii = FetchStage_fetch (pl_instr_latch c)" using r(2) by (simp add: ii'_def)
  show "ii_valid ii \<Longrightarrow> \<exists>p. pred = Some p" "\<not> ii_valid ii \<Longrightarrow> pred = None"
    unfolding r by (simp_all add: pp_def split_beta)
  show "hz_stall (pl_hazard_unit c) \<Longrightarrow> pl_fetch_stage c' = pl_fetch_stage c"
    using pf r(1) unfolding r(4) by (simp add: FetchStage_pre_fetch_def c1_def)
  show "\<not> hz_stall (pl_hazard_unit c) \<Longrightarrow> il_valid latch \<and> fs_pc (pl_fetch_stage c') = il_pc latch \<and>
       il_pc latch = (let (taken, target) = next_fetch mp redirect pred (il_pc (pl_instr_latch c))
                      in if taken then target else fs_pc (pl_fetch_stage c) + 4)"
    using pf r(1) unfolding r(3,4)
    by (auto simp: FetchStage_pre_fetch_def Let_def c1_def tt_def ii'_def FetchStage_fetch_def split_beta split: prod.splits sum.splits)
qed

lemma update_core:
  "core (clock_update mw em dl ie mp ii pred latch c) =
    (pl_regs c, pl_privilege c,
     if hz_stall (pl_hazard_unit c) then pl_if_id c
     else if mp then ii\<lparr>ii_prediction := None, ii_valid := False\<rparr> else ii\<lparr>ii_prediction := pred\<rparr>,
     ie, em, mw, if hz_stall (pl_hazard_unit c) then pl_instr_latch c else latch, pl_fetch_stage c)"
  by (simp add: clock_update_def core_def Let_def)

lemma counters_core: "core (clock_hpm b (end_cycle c)) = core c"
  by (simp add: clock_hpm_def end_cycle_def core_def Let_def)

text \<open>No covered instruction loads, so nothing is flushed and only control instructions stall.\<close>

lemma hazard_covered:
  assumes "id_ex_ok r ie" "ex_mem_ok em"
  shows "\<not> hz_flush_id_ex (HazardUnit_update h ie ii em)"
    "hz_stall (HazardUnit_update h ie ii em) \<longleftrightarrow> control_instr (ii_instruction ii) \<and> ec_reg_write (ie_ctrl ie) \<and> ie_rd ie \<noteq> 0 \<and>
       (ie_rd ie = Decoder_rs1 (ii_instruction ii) \<or> ie_rd ie = Decoder_rs2 (ii_instruction ii))"
  using assms
  by (auto simp: HazardUnit_update_def HazardUnit_detect_load_use_def HazardUnit_detect_id_ex_branch_hazard_def
    HazardUnit_detect_ex_mem_load_branch_hazard_def HazardUnit_is_branch_or_jump_def id_ex_ok_def ex_mem_ok_def Let_def
    control_instr_def Decoder_opcode_def RegIdx_is_zero_def)

text \<open>The branch step: the redirect, or the path already followed, is the branch's outcome.\<close>

lemma branch_path:
  assumes "ie_valid ie" "ec_branch (ie_ctrl ie) \<or> ec_jump (ie_ctrl ie)" "ie_prediction ie = Some p"
    "ie_pc_plus_4 ie = ie_pc ie + 4" "fst (clock_branch ie c) = (mp, redirect)"
  shows "(if mp then redirect else predicted_path (ie_pc ie) p) = (if ie_branch_taken ie then ie_branch_target ie else ie_pc ie + 4)"
  using assms
  by (auto simp: clock_branch_def PredictorManager_check_misprediction_def predicted_path_def Let_def split: option.splits if_splits)

lemma branch_quiet:
  "\<not> (ie_valid ie \<and> (ec_branch (ie_ctrl ie) \<or> ec_jump (ie_ctrl ie))) \<or> ie_prediction ie = None \<Longrightarrow>
    fst (fst (clock_branch ie c)) = False"
  by (auto simp: clock_branch_def PredictorManager_check_misprediction_def MispredictionInfo_none_def Let_def)

lemma decode_step:
  assumes ok: "\<not> hz_flush_id_ex (pl_hazard_unit c)" "ii_valid (pl_if_id c) \<Longrightarrow> covered (ii_instruction (pl_if_id c))"
    and st: "hz_stall (pl_hazard_unit c) \<Longrightarrow> control_instr (ii_instruction (pl_if_id c))"
  shows "\<exists>ie mp redirect c'. clock_decode c = (Next (ie, mp, redirect), c') \<and> core c' = core c \<and> pl_hazard_unit c' = pl_hazard_unit c \<and>
    id_ex_ok (pl_regs c) ie \<and>
    (\<forall>R. commit_ex ie R = (if ii_valid (pl_if_id c) \<and> \<not> hz_stall (pl_hazard_unit c)
       then snd (rv_step (ii_instruction (pl_if_id c)) (ii_pc (pl_if_id c), R)) else R)) \<and>
    (mp \<longrightarrow> ii_valid (pl_if_id c) \<and> \<not> hz_stall (pl_hazard_unit c) \<and> control_instr (ii_instruction (pl_if_id c))) \<and>
    (ii_valid (pl_if_id c) \<and> \<not> control_instr (ii_instruction (pl_if_id c)) \<or> \<not> writes_rd ie) \<and>
    (\<forall>p. ii_valid (pl_if_id c) \<and> \<not> hz_stall (pl_hazard_unit c) \<and> control_instr (ii_instruction (pl_if_id c)) \<and>
       ii_prediction (pl_if_id c) = Some p \<longrightarrow>
       (if mp then redirect else predicted_path (ii_pc (pl_if_id c)) p) =
         rv_next_pc (ii_instruction (pl_if_id c)) (ii_pc (pl_if_id c))
          (ForwardUnit_forward_operand_for_decode (Decoder_rs1 (ii_instruction (pl_if_id c)))
             (Registers_read (pl_regs c) (Decoder_rs1 (ii_instruction (pl_if_id c)))) (pl_ex_mem c) (pl_mem_wb c))
          (ForwardUnit_forward_operand_for_decode (Decoder_rs2 (ii_instruction (pl_if_id c)))
             (Registers_read (pl_regs c) (Decoder_rs2 (ii_instruction (pl_if_id c)))) (pl_ex_mem c) (pl_mem_wb c)))"
proof -
  let ?ii = "pl_if_id c" and ?st = "hz_stall (pl_hazard_unit c)"
  have "\<exists>ie. DecodeStage_execute ?ii (pl_regs c) (pl_ex_mem c) (pl_mem_wb c) False = Inr ie \<and>
    (ii_valid ?ii \<longrightarrow> decoded_ok ?ii (pl_regs c) (pl_ex_mem c) (pl_mem_wb c) ie) \<and> (\<not> ii_valid ?ii \<longrightarrow> \<not> ie_valid ie \<and> \<not> writes_rd ie \<and> id_ex_ok (pl_regs c) ie)"
  proof (cases "ii_valid ?ii")
    case True
    then show ?thesis using decode_covered [OF ok(2) [OF True] True] by simp
  next
    case False
    then show ?thesis
      by (simp add: DecodeStage_execute_def IdExRegister_default_def id_ex_ok_def writes_rd_def
        ExControlSignals_default_def MemControlSignals_default_def)
  qed
  then obtain ie0 where d: "DecodeStage_execute ?ii (pl_regs c) (pl_ex_mem c) (pl_mem_wb c) False = Inr ie0"
    and v: "ii_valid ?ii \<Longrightarrow> decoded_ok ?ii (pl_regs c) (pl_ex_mem c) (pl_mem_wb c) ie0"
    and nv: "\<not> ii_valid ?ii \<Longrightarrow> \<not> ie_valid ie0 \<and> \<not> writes_rd ie0 \<and> id_ex_ok (pl_regs c) ie0" by blast
  define ie where "ie = (if \<not> ?st then ie0\<lparr>ie_prediction := ii_prediction ?ii\<rparr> else ie0)"
  define c1 where "c1 = (if ii_valid ?ii \<and> PipelineCpu_is_sfence_vma (ii_instruction ?ii) then c\<lparr>pl_tlb := Tlb_flush_all (pl_tlb c)\<rparr> else c)"
  obtain mp redirect where br: "fst (clock_branch ie c1) = (mp, redirect)" by (metis surj_pair)
  have run: "clock_decode c = (Next (ie, mp, redirect), snd (clock_branch ie c1))"
    using ok(1) d br by (simp add: clock_decode_def Let_def ie_def c1_def split_beta)
  have ok_ie: "id_ex_ok (pl_regs c) ie"
    by (cases "ii_valid ?ii") (use v nv in \<open>auto simp: ie_def id_ex_ok_def decoded_ok_def Let_def\<close>)
  have com: "commit_ex ie R = commit_ex ie0 R" for R by (auto simp: ie_def commit_ex_def)
  have commits: "commit_ex ie R = (if ii_valid ?ii \<and> \<not> ?st then snd (rv_step (ii_instruction ?ii) (ii_pc ?ii, R)) else R)" for R
  proof (cases "ii_valid ?ii")
    case True
    then show ?thesis using v [OF True] st unfolding com by (auto simp: decoded_ok_def Let_def)
  next
    case False
    then show ?thesis using nv unfolding com by (simp add: commit_ex_def)
  qed
  have quiet: "mp \<longrightarrow> ii_valid ?ii \<and> \<not> ?st \<and> control_instr (ii_instruction ?ii)"
  proof (rule ccontr)
    assume n: "\<not> ?thesis"
    then have "\<not> (ie_valid ie \<and> (ec_branch (ie_ctrl ie) \<or> ec_jump (ie_ctrl ie))) \<or> ie_prediction ie = None"
      by (cases "ii_valid ?ii") (use v nv in \<open>auto simp: ie_def decoded_ok_def Let_def\<close>)
    then show False using branch_quiet [of ie c1] br n by simp
  qed
  have path: "(if mp then redirect else predicted_path (ii_pc ?ii) p) = (if ie_branch_taken ie0 then ie_branch_target ie0 else ii_pc ?ii + 4)"
    if "ii_valid ?ii" "\<not> ?st" "control_instr (ii_instruction ?ii)" "ii_prediction ?ii = Some p" for p
  proof -
    have q: "ie_valid ie" "ec_branch (ie_ctrl ie) \<or> ec_jump (ie_ctrl ie)" "ie_prediction ie = Some p"
      "ie_pc_plus_4 ie = ie_pc ie + 4" "ie_pc ie = ii_pc ?ii" "ie_branch_taken ie = ie_branch_taken ie0"
      "ie_branch_target ie = ie_branch_target ie0"
      using v [OF that(1)] that by (simp_all add: ie_def decoded_ok_def Let_def)
    show ?thesis using branch_path [OF q(1-4) br] unfolding q(5-7) .
  qed
  have wr: "ii_valid ?ii \<and> \<not> control_instr (ii_instruction ?ii) \<or> \<not> writes_rd ie"
    by (cases "ii_valid ?ii") (use v nv in \<open>auto simp: ie_def writes_rd_def decoded_ok_def Let_def\<close>)
  show ?thesis
    using run branch_core [of ie c1] ok_ie commits quiet path v wr
    by (intro exI [of _ ie] exI [of _ mp] exI [of _ redirect] exI [of _ "snd (clock_branch ie c1)"])
      (simp add: c1_def core_def decoded_ok_def Let_def)
qed

subsection \<open>A cycle is a step of the interpreter, or none\<close>

text \<open>The instruction in IF/ID leaves it this cycle.\<close>

definition advances :: "'d pipeline_cpu \<Rightarrow> bool" where
  "advances c \<longleftrightarrow> ii_valid (pl_if_id c) \<and>
     \<not> hz_stall (HazardUnit_update (pl_hazard_unit c) (pl_id_ex c) (pl_if_id c) (pl_ex_mem c))"

text \<open>
  What is asked of the instruction in IF/ID: it is covered, and if it is not a branch or jump, whose
  prediction the processor checks, then its prediction was to go on.
\<close>

definition next_covered :: "'d pipeline_cpu \<Rightarrow> bool" where
  "next_covered c \<longleftrightarrow> (ii_valid (pl_if_id c) \<longrightarrow> covered (ii_instruction (pl_if_id c)) \<and>
     (\<not> control_instr (ii_instruction (pl_if_id c)) \<longrightarrow>
       (\<forall>p. ii_prediction (pl_if_id c) = Some p \<longrightarrow> predicted_path (ii_pc (pl_if_id c)) p = ii_pc (pl_if_id c) + 4)))"

text \<open>How long the front end makes the next instruction wait: a stall, and an empty IF/ID or fetch latch.\<close>

definition delay :: "'d pipeline_cpu \<Rightarrow> nat" where
  "delay c = of_bool (hz_stall (HazardUnit_update (pl_hazard_unit c) (pl_id_ex c) (pl_if_id c) (pl_ex_mem c))) +
     (if ii_valid (pl_if_id c) then 0 else if il_valid (pl_instr_latch c) then 1 else 2)"

lemma rv_step_straight: "\<not> control_instr i \<Longrightarrow> fst (rv_step i s) = fst s + 4"
  by (simp add: rv_step_def rv_next_pc_def control_instr_def Let_def)

lemma arch_pc_valid: "ii_valid (pl_if_id c) \<Longrightarrow> fst (arch c) = ii_pc (pl_if_id c)"
  by (simp add: arch_def arch_pc_def)

text \<open>A cycle with a covered instruction in IF/ID, whatever its prediction: only a branch or jump corrects the
  path that was predicted for it.\<close>

lemma stages_path:
  assumes inv: "pipe_inv c" and m: "pl_privilege c = Machine"
    and cov: "ii_valid (pl_if_id c) \<Longrightarrow> covered (ii_instruction (pl_if_id c))"
    and run: "clock_stages ops c = (Next u, c')"
  shows "pipe_inv c'" "pl_privilege c' = Machine"
    "arch_regs c' = (if advances c then snd (rv_step (ii_instruction (pl_if_id c)) (arch c)) else arch_regs c)"
    "\<not> advances c \<Longrightarrow> arch_pc c' = arch_pc c"
    "advances c \<Longrightarrow> \<exists>p. ii_prediction (pl_if_id c) = Some p \<and> arch_pc c' =
       (if control_instr (ii_instruction (pl_if_id c)) then fst (rv_step (ii_instruction (pl_if_id c)) (arch c))
        else predicted_path (ii_pc (pl_if_id c)) p)"
    "if advances c then delay c' \<le> 1 else delay c' < delay c"
proof -
  let ?ii = "pl_if_id c" and ?ie = "pl_id_ex c" and ?em = "pl_ex_mem c" and ?mw = "pl_mem_wb c"
  let ?il = "pl_instr_latch c" and ?fs = "pl_fetch_stage c"
  let ?h = "HazardUnit_update (pl_hazard_unit c) ?ie ?ii ?em" and ?r1 = "commit_wb ?mw (pl_regs c)"
  have iv: "id_ex_ok (pl_regs c) ?ie" "ex_mem_ok ?em" "mem_wb_ok ?mw" "front_ok ?ii ?il ?fs"
    using inv by (simp_all add: pipe_inv_def)
  define c1 where "c1 = snd (clock_writeback (clock_hazard c))"
  have c1: "core c1 = core (c\<lparr>pl_regs := ?r1\<rparr>)" "pl_hazard_unit c1 = ?h"
    using writeback_core [of "clock_hazard c"] hazard_core [of c] by (simp_all add: c1_def core_def)
  note f1 = core_eqD [OF c1(1), simplified]
  obtain d c2 where mem: "clock_memory ops c1 = (Next (if em_valid ?em then mem_wb_of ?em d else MemWbRegister_bubble_from_ex_mem ?em), c2)"
    and c2: "core c2 = core c1" "pl_hazard_unit c2 = ?h"
    using memory_core [of c1 ops, unfolded f1(5) c1(2), OF iv(2)] by blast
  note f2 = core_eqD [OF trans [OF c2(1) c1(1)], simplified]
  have h: "\<not> hz_flush_id_ex ?h" "hz_stall ?h \<Longrightarrow> control_instr (ii_instruction ?ii)"
    using hazard_covered [OF iv(1,2)] by simp_all
  have "id_ex_ok (pl_regs c) (pl_id_ex c2)" "\<not> hz_flush_id_ex (pl_hazard_unit c2)" using iv(1) f2 c2(2) h(1) by simp_all
  from execute_core [OF this, of ops] obtain em xs c3 where
    ex: "ExecuteStage_execute (pl_execute_stage c2) ?ie ?em ?mw False = (em, xs)" "clock_execute ops c2 = (Next em, c3)"
    and c3: "core c3 = core c2" "pl_hazard_unit c3 = ?h" using f2 c2(2) by auto
  note f3 = core_eqD [OF trans [OF c3(1) trans [OF c2(1) c1(1)]], simplified]
  have em: "commit_mem em (commit_mem ?em ?r1) = commit_ex ?ie (commit_mem ?em ?r1)" "ex_mem_ok em"
    using execute_commits [OF iv(1-3) ex(1)] by simp_all
  have dr: "clock_data_read ops em c3 = (Next DataReadLatch_default, c3)"
    using em(2) by (simp add: clock_data_read_def ex_mem_ok_def)
  have "\<not> hz_flush_id_ex (pl_hazard_unit c3)" "ii_valid (pl_if_id c3) \<Longrightarrow> covered (ii_instruction (pl_if_id c3))"
    "hz_stall (pl_hazard_unit c3) \<Longrightarrow> control_instr (ii_instruction (pl_if_id c3))"
    using h cov c3(2) f3 by simp_all
  from decode_step [OF this, unfolded f3 c3(2)] obtain ie mp redirect c4 where
    id: "clock_decode c3 = (Next (ie, mp, redirect), c4)" and c4: "core c4 = core c3" "pl_hazard_unit c4 = ?h"
    and ie: "id_ex_ok ?r1 ie"
    and com: "\<And>R. commit_ex ie R = (if ii_valid ?ii \<and> \<not> hz_stall ?h then snd (rv_step (ii_instruction ?ii) (ii_pc ?ii, R)) else R)"
    and mp: "mp \<Longrightarrow> ii_valid ?ii \<and> \<not> hz_stall ?h \<and> control_instr (ii_instruction ?ii)"
    and wr: "ii_valid ?ii \<and> \<not> control_instr (ii_instruction ?ii) \<or> \<not> writes_rd ie"
    and path: "\<And>p. ii_valid ?ii \<Longrightarrow> \<not> hz_stall ?h \<Longrightarrow> control_instr (ii_instruction ?ii) \<Longrightarrow> ii_prediction ?ii = Some p \<Longrightarrow>
       (if mp then redirect else predicted_path (ii_pc ?ii) p) =
         rv_next_pc (ii_instruction ?ii) (ii_pc ?ii)
          (ForwardUnit_forward_operand_for_decode (Decoder_rs1 (ii_instruction ?ii)) (Registers_read ?r1 (Decoder_rs1 (ii_instruction ?ii))) ?em ?mw)
          (ForwardUnit_forward_operand_for_decode (Decoder_rs2 (ii_instruction ?ii)) (Registers_read ?r1 (Decoder_rs2 (ii_instruction ?ii))) ?em ?mw)"
    by blast
  let ?mw1 = "if em_valid ?em then mem_wb_of ?em d else MemWbRegister_bubble_from_ex_mem ?em"
  obtain wb where wb: "clock_writeback (clock_hazard c) = (wb, c1)" by (metis c1_def prod.collapse)
  have "bind_flow (clock_fetch ops mp redirect c4) (\<lambda>(if_id, prediction, latch) c.
      (Next (), clock_hpm wb (end_cycle (clock_update ?mw1 em DataReadLatch_default ie mp if_id prediction latch c)))) = (Next u, c')"
    using run by (simp add: clock_stages_def wb mem ex(2) dr id bind_flow_def [of "(Next x, y)" for x y])
  then obtain ii' pred latch c5 where ft: "clock_fetch ops mp redirect c4 = (Next (ii', pred, latch), c5)"
    and c': "c' = clock_hpm wb (end_cycle (clock_update ?mw1 em DataReadLatch_default ie mp ii' pred latch c5))"
    by (auto simp: bind_flow_def split: flow.splits prod.splits)
  have "pl_privilege c4 = Machine" using core_eqD(2) [OF c4(1)] f3 m by simp
  note ft5 = fetch_core [OF this ft]
  note f4 = core_eqD [OF trans [OF c4(1) trans [OF c3(1) trans [OF c2(1) c1(1)]]], simplified]
  have f5: "pl_regs c5 = ?r1" "pl_privilege c5 = Machine" "pl_if_id c5 = ?ii" "pl_instr_latch c5 = ?il" "pl_hazard_unit c5 = ?h"
    using core_eqD [OF ft5(4)] f4 m ft5(5) c4(2) by simp_all
  have f': "pl_regs c' = ?r1" "pl_privilege c' = Machine"
    "pl_if_id c' = (if hz_stall ?h then ?ii else if mp then ii'\<lparr>ii_prediction := None, ii_valid := False\<rparr> else ii'\<lparr>ii_prediction := pred\<rparr>)"
    "pl_id_ex c' = ie" "pl_ex_mem c' = em" "pl_mem_wb c' = (if em_valid ?em then mem_wb_of ?em d else MemWbRegister_bubble_from_ex_mem ?em)"
    "pl_instr_latch c' = (if hz_stall ?h then ?il else latch)" "pl_fetch_stage c' = pl_fetch_stage c5"
    using trans [OF arg_cong [OF c', of core] trans [OF counters_core update_core]]
    unfolding core_def prod.inject f5 by blast+
  show "pl_privilege c' = Machine" by (rule f')
  have il: "ii_valid ii' = il_valid ?il" "ii_pc ii' = il_pc ?il"
    using ft5(1) f4 by (simp_all add: FetchStage_fetch_def)
  have st: "pl_fetch_stage c5 = ?fs" if "hz_stall ?h" using ft5(6) that c4(2) f4 by simp
  have nf: "il_valid latch" "fs_pc (pl_fetch_stage c5) = il_pc latch"
    "il_pc latch = (let (taken, target) = next_fetch mp redirect pred (il_pc ?il) in if taken then target else fs_pc ?fs + 4)"
    if "\<not> hz_stall ?h" using ft5(7) [unfolded c4(2) f4] that by blast+
  have front: "front_ok (pl_if_id c') (pl_instr_latch c') (pl_fetch_stage c')"
    using iv(4) st nf il ft5(2) unfolding f' front_ok_def
    by (auto simp: next_fetch_def predicted_path_def split: option.splits)
  show "pipe_inv c'"
    unfolding pipe_inv_def f'(1,4,5,6) using ie em(2) wb_of_mem(2) [OF iv(2)] front by simp
  have regs: "arch_regs c' = commit_ex ie (arch_regs c)"
    unfolding arch_regs_def f'(1,4,5,6) wb_of_mem(1) [OF iv(2)] em(1) ..
  show "arch_regs c' = (if advances c then snd (rv_step (ii_instruction ?ii) (arch c)) else arch_regs c)"
    unfolding regs com by (auto simp: advances_def arch_def rv_step_def Let_def split: option.split)
  show "\<exists>p. ii_prediction ?ii = Some p \<and> arch_pc c' =
      (if control_instr (ii_instruction ?ii) then fst (rv_step (ii_instruction ?ii) (arch c)) else predicted_path (ii_pc ?ii) p)"
    if "advances c"
  proof -
    from that have v: "ii_valid ?ii" and ns: "\<not> hz_stall ?h" by (simp_all add: advances_def)
    from iv(4) v obtain p where p: "ii_prediction ?ii = Some p" "il_valid ?il" "il_pc ?il = predicted_path (ii_pc ?ii) p"
      by (auto simp: front_ok_def)
    have next': "arch_pc c' = (if mp then redirect else predicted_path (ii_pc ?ii) p)"
      using ns nf p(2,3) il unfolding arch_pc_def f' by (simp add: next_fetch_def)
    show ?thesis
    proof (cases "control_instr (ii_instruction ?ii)")
      case True
      have rs: "ForwardUnit_forward_operand_for_decode i (Registers_read ?r1 i) ?em ?mw = Registers_read (arch_regs c) i"
        if "i = Decoder_rs1 (ii_instruction ?ii) \<or> i = Decoder_rs2 (ii_instruction ?ii)" for i
        using forward_id [OF iv(2,3)] hazard_covered(2) [OF iv(1,2)] ns True that iv(1)
        by (auto simp: arch_regs_def commit_ex_def id_ex_ok_def)
      show ?thesis
        using path [OF v ns True p(1)] rs True p(1) v next' by (simp add: rv_step_def arch_def arch_pc_def Let_def)
    next
      case False
      then show ?thesis using mp next' p(1) by auto
    qed
  qed
  show "arch_pc c' = arch_pc c" if "\<not> advances c"
    using that st nf il ft5(3) mp unfolding arch_pc_def f' by (auto simp: advances_def next_fetch_def)
  have quiet: "\<not> hz_stall (HazardUnit_update (pl_hazard_unit c') (pl_id_ex c') (pl_if_id c') (pl_ex_mem c'))"
    if "\<not> (ii_valid ?ii \<and> \<not> control_instr (ii_instruction ?ii))"
    using wr that hazard_covered(2) [OF ie em(2)] unfolding f'(4,5) by (auto simp: writes_rd_def)
  show "if advances c then delay c' \<le> 1 else delay c' < delay c"
  proof (cases "hz_stall ?h")
    case True
    then show ?thesis using quiet h(2) by (simp add: delay_def advances_def f'(3,7))
  next
    case False
    then show ?thesis using quiet mp il nf(1) iv(4)
      by (cases "ii_valid ?ii"; cases mp; cases "il_valid ?il") (auto simp: delay_def advances_def front_ok_def f'(3,7))
  qed
qed

lemma stages_step:
  assumes inv: "pipe_inv c" and m: "pl_privilege c = Machine" and cov: "next_covered c"
    and run: "clock_stages ops c = (Next u, c')"
  shows "pipe_inv c'" "pl_privilege c' = Machine"
    "arch c' = (if advances c then rv_step (ii_instruction (pl_if_id c)) (arch c) else arch c)"
    "if advances c then delay c' \<le> 1 else delay c' < delay c"
proof -
  have i: "covered (ii_instruction (pl_if_id c))" if "ii_valid (pl_if_id c)" using cov that by (simp add: next_covered_def)
  note s = stages_path [OF inv m i run]
  show "pipe_inv c'" "pl_privilege c' = Machine" "if advances c then delay c' \<le> 1 else delay c' < delay c"
    using s(1,2,6) by blast+
  have "arch_pc c' = fst (rv_step (ii_instruction (pl_if_id c)) (arch c))" if "advances c"
    using s(5) [OF _ that] that cov rv_step_straight [of "ii_instruction (pl_if_id c)" "arch c"] arch_pc_valid [of c]
    by (auto simp: next_covered_def advances_def split: if_splits)
  then show "arch c' = (if advances c then rv_step (ii_instruction (pl_if_id c)) (arch c) else arch c)"
    using s(3,4) by (auto simp: arch_def prod_eq_iff)
qed

subsection \<open>Runs\<close>

text \<open>The cycle takes no trap and does not fail.\<close>

definition untrapped :: "'d other_ops \<Rightarrow> 'd pipeline_cpu \<Rightarrow> bool" where
  "untrapped ops c \<longleftrightarrow> \<not> pl_halted c \<and>
     (case fst (bind_flow (clock_interrupts ops c) (\<lambda>_. clock_stages ops)) of Next _ \<Rightarrow> True | Return _ \<Rightarrow> False)"

lemma clock_step:
  assumes "pipe_inv c" "pl_privilege c = Machine" "next_covered c" "untrapped ops c" "PipelineCpu_clock ops c = (r, c')"
  shows "r = Inr ()" "pipe_inv c'" "pl_privilege c' = Machine"
    "arch c' = (if advances c then rv_step (ii_instruction (pl_if_id c)) (arch c) else arch c)"
    "if advances c then delay c' \<le> 1 else delay c' < delay c"
proof -
  obtain u c1 where c1: "clock_interrupts ops c = (Next u, c1)"
    using assms(4) by (cases "clock_interrupts ops c"; cases "fst (clock_interrupts ops c)") (auto simp: untrapped_def bind_flow_def)
  note e = core_eqD [OF interrupts_core [OF c1]]
  have run: "clock_stages ops c1 = (Next (), c')" "r = Inr ()"
    using assms(4,5) c1 by (auto simp: untrapped_def PipelineCpu_clock_def bind_flow_def split: flow.splits prod.splits)
  have hz: "hz_stall (HazardUnit_update (pl_hazard_unit c1) ie ii em) = hz_stall (HazardUnit_update (pl_hazard_unit c) ie ii em)" for ie ii em
    by (simp add: HazardUnit_update_def Let_def)
  have same: "arch c1 = arch c" "advances c1 = advances c" "delay c1 = delay c" "pipe_inv c1" "next_covered c1" "pl_privilege c1 = Machine"
    using assms(1-3) by (simp_all add: arch_def arch_pc_def arch_regs_def advances_def delay_def pipe_inv_def next_covered_def e hz)
  show "r = Inr ()" by (rule run)
  show "pipe_inv c'" "pl_privilege c' = Machine" using stages_step(1,2) [OF same(4,6,5) run(1)] .
  show "arch c' = (if advances c then rv_step (ii_instruction (pl_if_id c)) (arch c) else arch c)"
    "if advances c then delay c' \<le> 1 else delay c' < delay c"
    using stages_step(3,4) [OF same(4,6,5) run(1)] unfolding same(1,2,3) e by blast+
qed

text \<open>\<open>pipe_run ops n tr c c'\<close>: \<open>n\<close> cycles from \<open>c\<close> to \<open>c'\<close>, in which the instructions of \<open>tr\<close> left IF/ID, each with
  the address it was fetched from.\<close>

inductive pipe_run :: "'d other_ops \<Rightarrow> nat \<Rightarrow> (addr \<times> u32) list \<Rightarrow> 'd pipeline_cpu \<Rightarrow> 'd pipeline_cpu \<Rightarrow> bool"
  for ops :: "'d other_ops" where
  run_done: "pipe_run ops 0 [] c c"
| run_cycle: "\<lbrakk>next_covered c; untrapped ops c; pipe_run ops n tr (snd (PipelineCpu_clock ops c)) c'\<rbrakk> \<Longrightarrow>
    pipe_run ops (Suc n) ((if advances c then [(ii_pc (pl_if_id c), ii_instruction (pl_if_id c))] else []) @ tr) c c'"

text \<open>The interpreter on a trace; \<open>None\<close> when an instruction is not the one at its program counter.\<close>

fun rv_run :: "(addr \<times> u32) list \<Rightarrow> addr \<times> registers \<Rightarrow> (addr \<times> registers) option" where
  "rv_run [] s = Some s"
| "rv_run ((pc, i) # tr) s = (if fst s = pc then rv_run tr (rv_step i s) else None)"

lemma pipe_run_step:
  assumes "pipe_run ops n tr c c'" "pipe_inv c" "pl_privilege c = Machine"
  shows "rv_run tr (arch c) = Some (arch c') \<and> pipe_inv c' \<and> pl_privilege c' = Machine \<and> n \<le> 2 * length tr + delay c"
  using assms
proof (induction rule: pipe_run.induct)
  case (run_cycle c n tr c')
  obtain r c1 where c1: "PipelineCpu_clock ops c = (r, c1)" by (metis surj_pair)
  note s = clock_step [OF run_cycle.prems run_cycle.hyps(1,2) c1]
  have ih: "rv_run tr (arch c1) = Some (arch c') \<and> pipe_inv c' \<and> pl_privilege c' = Machine \<and> n \<le> 2 * length tr + delay c1"
    using run_cycle.IH s(2,3) c1 by simp
  have pc: "advances c \<Longrightarrow> fst (arch c) = ii_pc (pl_if_id c)" by (simp add: arch_def arch_pc_def advances_def)
  show ?case using ih s(4,5) pc by (cases "advances c") auto
qed simp

lemma delay_bound: "delay c \<le> 3"
  by (simp add: delay_def)

text \<open>A processor in the middle of \<open>addi x1,x0,5; addi x2,x1,7; add x3,x1,x2; beq x3,x3,-8\<close>: the first in
  ID/EX, the second in IF/ID, the third latched, and their line in the instruction cache.\<close>

definition demo_cache :: cache where
  "demo_cache = \<lparr>ca_type = CT_Instruction, ca_config = Cache_default_config CT_Instruction, ca_set_count = 1, ca_ways = 1,
     ca_line_mask = 15, ca_set_bits = 0,
     ca_sets = [[\<lparr>cln_valid = True, cln_dirty = False, cln_tag = 0,
       cln_data = [0x93, 0x00, 0x50, 0x00, 0x13, 0x81, 0x70, 0x00, 0xb3, 0x81, 0x20, 0x00, 0xe3, 0x8c, 0x31, 0xfe]\<rparr>]],
     ca_next_victim = [0], ca_stats = CacheStats_default\<rparr>"

definition demo :: "unit pipeline_cpu" where
  "demo = \<lparr>pl_regs = Registers_new, pl_bus = Bus_new, pl_csr = CsrFile_new, pl_privilege = Machine, pl_pc = 8,
     pl_instr_latch = \<lparr>il_pc = 8, il_instruction = 0x002081b3, il_valid = True\<rparr>,
     pl_data_latch = DataReadLatch_default,
     pl_if_id = \<lparr>ii_pc = 4, ii_instruction = 0x00708113, ii_valid = True,
       ii_prediction = Some \<lparr>pr_taken = False, pr_target = None, pr_pc = 4\<rparr>\<rparr>,
     pl_id_ex = IdExRegister_default\<lparr>ie_valid := True, ie_rd := 1, ie_imm := 5, ie_ctrl := ExControlSignals_i_type AluAdd,
       ie_mem_ctrl := MemControlSignals_alu\<rparr>,
     pl_ex_mem = ExMemRegister_default, pl_mem_wb = MemWbRegister_default,
     pl_fetch_stage = \<lparr>fs_pc = 8, fs_pc_plus_4 = 12\<rparr>, pl_execute_stage = ExecuteStage_default,
     pl_memory_stage = MemoryStage_default, pl_writeback_stage = WritebackStage_default,
     pl_hazard_unit = HazardUnit_default,
     pl_predictor = \<lparr>pm_predictor = P_None PredictorStats_default, pm_btb = BranchTargetBuffer_new, pm_type = PT_None\<rparr>,
     pl_tlb = Tlb_new, pl_i_cache = demo_cache, pl_d_cache = demo_cache, pl_wb_input = MemWbRegister_default,
     pl_perf = PerfCollector_new, pl_instructions_executed = 0, pl_cycles = 0, pl_halted = False,
     pl_control_hazard = False\<rparr>"

lemma quiet_bus:
  assumes "bus_peripherals b = []"
  shows "Bus_tick_clint b n = b" "Bus_sync_plic_pending_from_peripherals ops b = b"
    "Bus_get_clint_interrupt_status b = (False, False)" "Bus_get_plic_interrupt_status b = (False, False)"
  using assms by (simp_all add: Bus_tick_clint_def update_device_def Bus_sync_plic_pending_from_peripherals_def
    Bus_has_peripheral_interrupt_def Bus_get_clint_interrupt_status_def Bus_get_plic_interrupt_status_def)

text \<open>Machine mode with \<open>mstatus.MIE\<close> off takes no interrupt.\<close>

lemma quiet_interrupts:
  assumes "bus_peripherals (pl_bus c) = []" "pl_privilege c = Machine" "\<not> Mstatus_mie (csr_mstatus (pl_csr c))"
  shows "\<exists>f. clock_interrupts ops c = (Next (), c\<lparr>pl_csr := f\<rparr>)"
  using assms by (simp add: clock_interrupts_def PipelineCpu_sync_interrupts_def PipelineCpu_check_and_handle_interrupt_def
    quiet_bus Let_def) blast

lemma demo_line:
  "Cache_line_offset demo_cache 12 = 12" "Cache_set_index demo_cache 12 = 0" "Cache_find_way demo_cache 0 (Cache_tag demo_cache 12) = Some 0"
  "take 4 (drop 12 (cln_data (line_at demo_cache 0 0))) = [0xe3, 0x8c, 0x31, 0xfe]"
  "word_of_bytes 0xe3 0x8c 0x31 0xfe = 0xfe318ce3"
  by code_simp+

lemma demo_hit:
  "Cache_read_word rb wb 12 (demo_cache, m) = (Inr 0xfe318ce3, (Cache_record_read_hit demo_cache, m))"
  by (simp add: Cache_read_word_def Cache_read_across_def Cache_read_line_def demo_line CACHE_LINE_SIZE_def Let_def)

lemma demo_untrapped: "untrapped no_ops demo"
proof -
  have "bus_peripherals (pl_bus demo) = []" "pl_privilege demo = Machine" "\<not> Mstatus_mie (csr_mstatus (pl_csr demo))"
    by (simp_all add: demo_def Bus_new_def CsrFile_new_def Mstatus_mie_def flag_def)
  from quiet_interrupts [OF this, of no_ops] obtain f where f: "clock_interrupts no_ops demo = (Next (), demo\<lparr>pl_csr := f\<rparr>)" by blast
  have "\<exists>c. clock_stages no_ops (demo\<lparr>pl_csr := f\<rparr>) = (Next (), c)"
    by (simp add: demo_def clock_stages_def clock_hazard_def HazardUnit_update_def clock_writeback_def WritebackStage_execute_def
     MemWbRegister_default_def WbControlSignals_none_def HazardUnit_detect_load_use_def HazardUnit_is_branch_or_jump_def
     HazardUnit_detect_id_ex_branch_hazard_def HazardUnit_detect_ex_mem_load_branch_hazard_def MemControlSignals_alu_def opcode_defs
     bind_flow_def clock_memory_def MemoryStage_execute_with_latch_def ExMemRegister_default_def MemControlSignals_default_def
     clock_execute_def ExControlSignals_i_type_def ExecuteStage_execute_def ForwardUnit_apply_forwarding_def
     ForwardUnit_forward_rs1_source_def ForwardUnit_forward_rs2_source_def IdExRegister_default_def clock_data_read_def
     clock_decode_def DecodeStage_execute_def Decoder_decode_def Decoder_opcode_def clock_branch_def control_defs resolve_branch_def
     Let_def PipelineCpu_is_sfence_vma_def
     clock_fetch_def FetchStage_fetch_def PredictorManager_predict_def next_fetch_def FetchStage_pre_fetch_def fetch_word_def machine_translate
     PipelineCpu_read_cache_word_and_record_def demo_hit)
  moreover have "\<not> pl_halted demo" by (simp add: demo_def)
  ultimately show ?thesis by (auto simp: untrapped_def f bind_flow_def)
qed

lemma demo_next: "covered 0x00708113" "\<not> control_instr 0x00708113" "Decoder_rs1 0x00708113 = 1" "Decoder_rs2 0x00708113 = 7"
  "Decoder_rd 0x00708113 = 2" "Decoder_funct3 0x00708113 = 0" "Decoder_imm_i 0x00708113 = 7" "Decoder_opcode 0x00708113 = OPC_OP_IMM"
  by code_simp+

lemma demo_facts: "pl_privilege demo = Machine" "pipe_inv demo" "next_covered demo" "advances demo"
proof -
  show "next_covered demo" by (simp add: next_covered_def demo_def demo_next predicted_path_def)
  have a: "id_ex_ok (pl_regs demo) (pl_id_ex demo)" "ex_mem_ok (pl_ex_mem demo)"
    by (simp_all add: demo_def id_ex_ok_def ex_mem_ok_def IdExRegister_default_def ExMemRegister_default_def control_defs Registers_new_def)
  then show "pipe_inv demo"
    by (simp add: pipe_inv_def front_ok_def mem_wb_ok_def demo_def MemWbRegister_default_def predicted_path_def)
  show "advances demo" using hazard_covered(2) [OF a] by (simp add: advances_def demo_def demo_next)
qed (simp add: demo_def)

lemma demo_run: "pipe_run no_ops 1 [(4, 0x00708113)] demo (snd (PipelineCpu_clock no_ops demo))"
  using run_cycle [OF demo_facts(3) demo_untrapped run_done] demo_facts(4) by (simp add: demo_def)

lemma demo_arch: "rv_run [(4, 0x00708113)] (arch demo) = Some (8, Registers_write (snd (arch demo)) 2 12)" "Registers_read (snd (arch demo)) 1 = 5"
  by (simp_all add: arch_def arch_pc_def arch_regs_def demo_def rv_step_def demo_next rv_result_def rv_next_pc_def rv_alu_def
    commit_ex_def commit_mem_def commit_wb_def IdExRegister_default_def ExMemRegister_default_def MemWbRegister_default_def
    MemControlSignals_default_def MemControlSignals_alu_def ExControlSignals_i_type_def opcode_defs)

text \<open>C2: The pipeline keeps going: on the covered instructions every one costs at most two cycles, after at
  most three for an empty front end.\<close>

theorem pipeline_progress:
  assumes "pipe_inv c" "pl_privilege c = Machine" "pipe_run ops n tr c c'"
  shows "n \<le> 2 * length tr + 3"
  using pipe_run_step [OF assms(3,1,2)] delay_bound [of c] by linarith

theorem pipeline_progress_witness:
  "(1 :: nat) \<le> 2 * length [(4 :: addr, 0x00708113 :: u32)] + 3"
  using pipeline_progress [OF demo_facts(2,1) demo_run] .

end
