(* ===== verification/Pipe_Front.thy ===== *)
theory Pipe_Front
  imports Pipe_Correct
begin

text \<open>
  The front end of the pipeline over any program: what the steps of \<open>clock\<close> (\<open>cpu/pipeline/mod.rs\<close>) leave of
  the fetch pointer, the fetch latch, IF/ID and the predictor, with traps, faults, stalls and trap returns.  The
  invariant \<open>front_tracks\<close> holds in every state that is reached from the start by cycles that succeed.
\<close>

definition front where
  "front c = (pl_pc c, pl_if_id c, pl_instr_latch c, pl_fetch_stage c, pl_hazard_unit c, pl_predictor c)"

lemma front_eqD:
  assumes "front c = front c'"
  shows "pl_pc c = pl_pc c'" "pl_if_id c = pl_if_id c'" "pl_instr_latch c = pl_instr_latch c'"
    "pl_fetch_stage c = pl_fetch_stage c'" "pl_hazard_unit c = pl_hazard_unit c'" "pl_predictor c = pl_predictor c'"
  using assms by (simp_all add: front_def)

text \<open>\<open>pc\<close> is the fetch pointer, and the front end has followed the prediction recorded in IF/ID.\<close>

definition front_tracks :: "'d pipeline_cpu \<Rightarrow> bool" where
  "front_tracks c \<longleftrightarrow> pl_pc c = fs_pc (pl_fetch_stage c) \<and> front_ok (pl_if_id c) (pl_instr_latch c) (pl_fetch_stage c)"

lemma front_tracks_eq: "front c = front c' \<Longrightarrow> front_tracks c = front_tracks c'"
  using front_eqD [of c c'] by (simp add: front_tracks_def)

text \<open>The front end after \<open>set_pc\<close> on an emptied pipeline.\<close>

definition restarted :: "addr \<Rightarrow> 'd pipeline_cpu \<Rightarrow> bool" where
  "restarted a c \<longleftrightarrow> pl_pc c = a \<and> fs_pc (pl_fetch_stage c) = a \<and> \<not> ii_valid (pl_if_id c) \<and>
     (il_valid (pl_instr_latch c) \<longrightarrow> il_pc (pl_instr_latch c) = a)"

lemma restarted_tracks: "restarted a c \<Longrightarrow> front_tracks c"
  by (simp add: restarted_def front_tracks_def front_ok_def)

lemma restarted_eq: "front c = front c' \<Longrightarrow> restarted a c = restarted a c'"
  using front_eqD [of c c'] by (simp add: restarted_def)

lemma set_pc_restarted: "\<not> ii_valid (pl_if_id c) \<Longrightarrow> restarted a (PipelineCpu_set_pc ops a c)"
  by (auto simp: restarted_def PipelineCpu_set_pc_def PipelineCpu_prefetch_instr_latch_def FetchStage_set_pc_def
      InstrFetchLatch_default_def split: prod.split sum.split)

lemma set_pc_keeps:
  "pl_hazard_unit (PipelineCpu_set_pc ops a c) = pl_hazard_unit c" "pl_predictor (PipelineCpu_set_pc ops a c) = pl_predictor c"
  by (simp_all add: PipelineCpu_set_pc_def PipelineCpu_prefetch_instr_latch_def split: prod.split sum.split)

lemma take_trap_restarted: "\<exists>a. restarted a (PipelineCpu_take_trap ops t c)"
proof -
  have "\<not> ii_valid (pl_if_id (PipelineCpu_flush_pipeline d))" for d :: "'a pipeline_cpu"
    by (simp add: PipelineCpu_flush_pipeline_def)
  then show ?thesis unfolding PipelineCpu_take_trap_def Let_def split_beta using set_pc_restarted by blast
qed

lemma trap_return_restarted:
  "\<exists>a. restarted a (PipelineCpu_execute_trap_return ops c)"
  "pl_hazard_unit (PipelineCpu_execute_trap_return ops c) = pl_hazard_unit c"
  "pl_predictor (PipelineCpu_execute_trap_return ops c) = pl_predictor c"
proof -
  have "\<not> ii_valid (pl_if_id (PipelineCpu_flush_pipeline d))" for d :: "'a pipeline_cpu"
    by (simp add: PipelineCpu_flush_pipeline_def)
  then show "\<exists>a. restarted a (PipelineCpu_execute_trap_return ops c)"
    unfolding PipelineCpu_execute_trap_return_def Let_def using set_pc_restarted by blast
qed (simp_all add: PipelineCpu_execute_trap_return_def Let_def set_pc_keeps PipelineCpu_flush_pipeline_def)

lemma front_updates [simp]:
  "front (c\<lparr>pl_perf := pf\<rparr>) = front c" "front (c\<lparr>pl_csr := f\<rparr>) = front c" "front (c\<lparr>pl_regs := r\<rparr>) = front c"
  "front (c\<lparr>pl_bus := b\<rparr>) = front c" "front (c\<lparr>pl_tlb := t\<rparr>) = front c" "front (c\<lparr>pl_cycles := n\<rparr>) = front c"
  "front (c\<lparr>pl_d_cache := dc\<rparr>) = front c" "front (c\<lparr>pl_i_cache := ic\<rparr>) = front c"
  "front (c\<lparr>pl_memory_stage := ms\<rparr>) = front c" "front (c\<lparr>pl_execute_stage := xs\<rparr>) = front c"
  "front (c\<lparr>pl_writeback_stage := ws\<rparr>) = front c" "front (c\<lparr>pl_instructions_executed := n\<rparr>) = front c"
  by (simp_all add: front_def)

lemma counters_front: "front (end_cycle c) = front c" "front (clock_hpm b c) = front c"
  by (simp_all add: end_cycle_def clock_hpm_def Let_def)

subsection \<open>The steps\<close>

lemma bind_flow_Next:
  "bind_flow m f = (Next x, s) \<longleftrightarrow> (\<exists>a s1. m = (Next a, s1) \<and> f a s1 = (Next x, s))"
  by (auto simp: bind_flow_def split: prod.splits flow.splits)

lemma bind_flow_Return:
  "bind_flow m f = (Return r, s) \<longleftrightarrow> m = (Return r, s) \<or> (\<exists>a s1. m = (Next a, s1) \<and> f a s1 = (Return r, s))"
  by (cases m; cases "fst m") (auto simp: bind_flow_def)

lemma fault_exit_Next: "fault_exit ops epc e c \<noteq> (Next x, s)"
  by (cases e) (simp_all add: fault_exit_def)

lemma fault_exit_restarted:
  assumes "fault_exit ops epc e c = (Return (Inr ()), c')"
  shows "\<exists>a. restarted a c'"
proof -
  obtain t where "c' = pl_record PE_PipelineFlushes (end_cycle (PipelineCpu_take_trap ops t c))"
    using assms by (cases e) (auto simp: fault_exit_def)
  then have "front c' = front (PipelineCpu_take_trap ops t c)" by (simp add: counters_front)
  then show ?thesis using take_trap_restarted [of ops t c] restarted_eq by blast
qed

lemma translate_front: "PipelineCpu_translate_with_tlb ops va acc c = (r, c') \<Longrightarrow> front c' = front c"
  by (auto simp: PipelineCpu_translate_with_tlb_def Let_def split: prod.splits)

lemma d_cache_front: "on_d_cache f c = (r, c') \<Longrightarrow> front c' = front c"
  by (auto simp: on_d_cache_def split: prod.splits sum.splits)

lemma fetch_word_front: "fetch_word ops va c = (r, c') \<Longrightarrow> front c' = front c"
proof -
  have "PipelineCpu_read_cache_word_and_record ops a c = (r, c') \<Longrightarrow> front c' = front c" for a c r c'
    by (auto simp: PipelineCpu_read_cache_word_and_record_def split: prod.splits sum.splits)
  then show "fetch_word ops va c = (r, c') \<Longrightarrow> front c' = front c"
    by (fastforce simp: fetch_word_def bind_st_def dest!: translate_front split: prod.splits sum.splits)
qed

lemma sync_front: "front (PipelineCpu_sync_interrupts ops (c\<lparr>pl_bus := b\<rparr>)) = front c"
  by (simp add: PipelineCpu_sync_interrupts_def front_def Let_def split_beta)

lemma interrupts_front: "clock_interrupts ops c = (Next u, c') \<Longrightarrow> front c' = front c"
  using sync_front
  by (auto simp: clock_interrupts_def Let_def dest!: interrupt_check_False split: prod.splits bool.splits)

lemma interrupts_restarted:
  assumes "clock_interrupts ops c = (Return r, c')"
  shows "\<exists>a. restarted a c'"
proof -
  obtain t s where "c' = pl_record PE_PipelineFlushes (pl_record PE_InterruptsTaken (end_cycle (PipelineCpu_take_trap ops t s)))"
    using assms by (auto simp: clock_interrupts_def PipelineCpu_check_and_handle_interrupt_def Let_def split: if_splits option.splits)
  then have "front c' = front (PipelineCpu_take_trap ops t s)" by (simp add: counters_front)
  then show ?thesis using take_trap_restarted [of ops t s] restarted_eq by blast
qed

lemma writeback_front:
  assumes "clock_writeback (clock_hazard c) = (b, c')"
  shows "front c' = front (c\<lparr>pl_hazard_unit := HazardUnit_update (pl_hazard_unit c) (pl_id_ex c) (pl_if_id c) (pl_ex_mem c)\<rparr>)"
  using assms by (auto simp: clock_writeback_def clock_hazard_def Let_def split: prod.splits if_splits)

lemma memory_front: "clock_memory ops c = (Next mw, c') \<Longrightarrow> front c' = front c"
  by (auto simp: clock_memory_def Let_def fault_exit_Next split: prod.splits sum.splits if_splits
      dest!: translate_front d_cache_front)

lemma memory_id_ex: "clock_memory ops c = (Next mw, c') \<Longrightarrow> pl_id_ex c' = pl_id_ex c"
  by (auto simp: clock_memory_def Let_def fault_exit_Next PipelineCpu_translate_with_tlb_def on_d_cache_def
      split: prod.splits sum.splits if_splits)

lemma memory_restarted: "clock_memory ops c = (Return (Inr ()), c') \<Longrightarrow> \<exists>a. restarted a c'"
  by (auto simp: clock_memory_def Let_def split: prod.splits sum.splits if_splits dest!: fault_exit_restarted)

lemma execute_front:
  assumes "clock_execute ops c = (Next em, c')"
  shows "pl_hazard_unit c' = pl_hazard_unit c \<and> pl_predictor c' = pl_predictor c \<and>
    (front c' = front c \<or> ec_trap_return (ie_ctrl (pl_id_ex c)) \<and> (\<exists>a. restarted a c'))"
proof -
  obtain em0 xs where xs: "ExecuteStage_execute (pl_execute_stage c) (pl_id_ex c) (pl_ex_mem c) (pl_mem_wb c)
      (hz_flush_id_ex (pl_hazard_unit c)) = (em0, xs)" by (metis surj_pair)
  define d where "d = (if ie_valid (pl_id_ex c) \<and> ec_alu_op (ie_ctrl (pl_id_ex c)) \<noteq> AluNop
    then pl_record PE_AluOperations (c\<lparr>pl_execute_stage := xs\<rparr>) else c\<lparr>pl_execute_stage := xs\<rparr>)"
  have d: "front d = front c" by (simp add: d_def)
  have "clock_execute ops c =
    (if ec_csr_op (ie_ctrl (pl_id_ex c)) then
       (case CsrFile_execute (pl_csr d) (ec_csr_op_type (ie_ctrl (pl_id_ex c))) (ec_csr_addr (ie_ctrl (pl_id_ex c))) (ie_rs1_val (pl_id_ex c)) (pl_privilege d) of
          (Inl e, f) \<Rightarrow> (Return (Inl e), d\<lparr>pl_csr := f\<rparr>)
        | (Inr v, f) \<Rightarrow> (Next (em0\<lparr>em_alu_result := v\<rparr>), pl_record PE_CsrAccesses (d\<lparr>pl_csr := f\<rparr>)))
     else if ec_trap_return (ie_ctrl (pl_id_ex c)) then
       (Next (em0\<lparr>em_valid := False\<rparr>), pl_record PE_PipelineFlushes (PipelineCpu_execute_trap_return ops d))
     else (Next em0, d))"
    by (simp add: clock_execute_def xs d_def Let_def split: prod.split sum.split)
  then have c': "front c' = front d \<or> ec_trap_return (ie_ctrl (pl_id_ex c)) \<and> front c' = front (PipelineCpu_execute_trap_return ops d)"
    using assms by (auto split: if_splits prod.splits sum.splits)
  have "pl_hazard_unit d = pl_hazard_unit c" "pl_predictor d = pl_predictor c" using d by (simp_all add: front_def)
  then show ?thesis
    using c' d front_eqD(5,6) trap_return_restarted [of ops d] restarted_eq by metis
qed

lemma execute_return: "clock_execute ops c \<noteq> (Return (Inr ()), c')"
  by (auto simp: clock_execute_def Let_def split: prod.splits sum.splits)

lemma data_read_front: "clock_data_read ops em c = (Next d, c') \<Longrightarrow> front c' = front c"
  by (auto simp: clock_data_read_def fault_exit_Next split: prod.splits sum.splits if_splits
      dest!: translate_front d_cache_front)

lemma data_read_restarted: "clock_data_read ops em c = (Return (Inr ()), c') \<Longrightarrow> \<exists>a. restarted a c'"
  by (auto simp: clock_data_read_def split: prod.splits sum.splits if_splits dest!: fault_exit_restarted)

lemma branch_front: "front (snd (clock_branch ie c)) = front (c\<lparr>pl_predictor := pl_predictor (snd (clock_branch ie c))\<rparr>)"
  by (simp add: clock_branch_def front_def Let_def)

lemma decode_front:
  assumes "clock_decode c = (Next r, c')"
  shows "front c' = front (c\<lparr>pl_predictor := pl_predictor c'\<rparr>)"
proof -
  obtain ie where "c' = snd (clock_branch ie c) \<or> c' = snd (clock_branch ie (c\<lparr>pl_tlb := Tlb_flush_all (pl_tlb c)\<rparr>))"
    using assms by (auto simp: clock_decode_def Let_def split_beta split: sum.splits if_splits)
  then obtain d where "front d = front c" "c' = snd (clock_branch ie d)" by (metis front_updates(5))
  then show ?thesis using branch_front [of ie d] by (simp add: front_def)
qed

lemma decode_return: "clock_decode c \<noteq> (Return (Inr ()), c')"
  by (auto simp: clock_decode_def Let_def split: prod.splits sum.splits)

text \<open>The fetch step looks one prediction up, for a valid latch, and follows it or the redirect.\<close>

definition looked_up :: "if_id_reg \<Rightarrow> prediction_result option \<Rightarrow> predictor_manager \<Rightarrow> predictor_manager \<Rightarrow> bool" where
  "looked_up ii pred m m' \<longleftrightarrow>
     (if ii_valid ii then \<exists>p. pred = Some p \<and> PredictorManager_predict m (ii_pc ii) = (p, m') else pred = None \<and> m' = m)"

lemma fetch_front:
  assumes "clock_fetch ops mp redirect c = (Next (ii, pred, latch), c')"
  shows "ii = FetchStage_fetch (pl_instr_latch c)" "looked_up ii pred (pl_predictor c) (pl_predictor c')"
    "front c' = front (c\<lparr>pl_predictor := pl_predictor c', pl_fetch_stage := pl_fetch_stage c'\<rparr>)"
    "hz_stall (pl_hazard_unit c) \<Longrightarrow> pl_fetch_stage c' = pl_fetch_stage c"
    "\<not> hz_stall (pl_hazard_unit c) \<Longrightarrow> il_valid latch \<and> fs_pc (pl_fetch_stage c') = il_pc latch \<and>
       il_pc latch = (let (taken, target) = next_fetch mp redirect pred (il_pc (pl_instr_latch c))
                      in if taken then target else fs_pc (pl_fetch_stage c) + 4)"
proof -
  define ii' where "ii' = FetchStage_fetch (pl_instr_latch c)"
  define pp where "pp = (if ii_valid ii'
    then (let (p, pm) = PredictorManager_predict (pl_predictor c) (ii_pc ii') in (Some p, pm)) else (None, pl_predictor c))"
  define c1 where "c1 = c\<lparr>pl_predictor := snd pp\<rparr>"
  define tt where "tt = next_fetch mp redirect (fst pp) (ii_pc ii')"
  obtain r fs c2 where pf: "FetchStage_pre_fetch (pl_fetch_stage c1) (hz_stall (pl_hazard_unit c1)) (snd tt) (fst tt) (fetch_word ops) c1
      = (r, (fs, c2))" by (metis prod_cases3)
  have u: "clock_fetch ops mp redirect c = (case r of
       Inl e \<Rightarrow> fault_exit ops (\<lambda>c. fs_pc (pl_fetch_stage c)) e (c2\<lparr>pl_fetch_stage := fs\<rparr>)
     | Inr latch \<Rightarrow> (Next (ii', fst pp, latch), c2\<lparr>pl_fetch_stage := fs\<rparr>))"
    unfolding clock_fetch_def Let_def ii'_def [symmetric] pp_def [symmetric, unfolded Let_def]
    using arg_cong [OF pf, of fst] arg_cong [OF pf, of "\<lambda>x. fst (snd x)"] arg_cong [OF pf, of "\<lambda>x. snd (snd x)"]
    by (cases r) (simp_all add: split_beta c1_def tt_def)
  have r: "r = Inr latch" "ii = ii'" "pred = fst pp" "c' = c2\<lparr>pl_fetch_stage := fs\<rparr>"
    using assms unfolding u by (auto simp: fault_exit_Next split: sum.splits)
  have "front c2 = front c1"
    using pf by (auto simp: FetchStage_pre_fetch_def Let_def dest!: fetch_word_front split: if_splits prod.splits sum.splits)
  note c2 = front_eqD [OF this, unfolded c1_def, simplified]
  show "ii = FetchStage_fetch (pl_instr_latch c)" using r(2) by (simp add: ii'_def)
  show "looked_up ii pred (pl_predictor c) (pl_predictor c')"
    unfolding r looked_up_def by (simp add: c2 pp_def split_beta)
  show "front c' = front (c\<lparr>pl_predictor := pl_predictor c', pl_fetch_stage := pl_fetch_stage c'\<rparr>)"
    unfolding r(4) by (simp add: front_def c2)
  show "hz_stall (pl_hazard_unit c) \<Longrightarrow> pl_fetch_stage c' = pl_fetch_stage c"
    using pf r(1) unfolding r(4) by (simp add: FetchStage_pre_fetch_def c1_def)
  show "\<not> hz_stall (pl_hazard_unit c) \<Longrightarrow> il_valid latch \<and> fs_pc (pl_fetch_stage c') = il_pc latch \<and>
       il_pc latch = (let (taken, target) = next_fetch mp redirect pred (il_pc (pl_instr_latch c))
                      in if taken then target else fs_pc (pl_fetch_stage c) + 4)"
    using pf r(1) unfolding r(3,4)
    by (auto simp: FetchStage_pre_fetch_def Let_def c1_def tt_def ii'_def FetchStage_fetch_def split_beta split: prod.splits sum.splits)
qed

lemma fetch_restarted: "clock_fetch ops mp redirect c = (Return (Inr ()), c') \<Longrightarrow> \<exists>a. restarted a c'"
  by (auto simp: clock_fetch_def Let_def split: prod.splits sum.splits if_splits dest!: fault_exit_restarted)

lemma update_front:
  "front (clock_hpm b (end_cycle (clock_update mw em dl ie mp ii pred latch c))) =
    (if mp \<or> \<not> hz_stall_pc (pl_hazard_unit c) then fs_pc (pl_fetch_stage c) else pl_pc c,
     if hz_stall (pl_hazard_unit c) then pl_if_id c
     else if mp then ii\<lparr>ii_prediction := None, ii_valid := False\<rparr> else ii\<lparr>ii_prediction := pred\<rparr>,
     if hz_stall (pl_hazard_unit c) then pl_instr_latch c else latch, pl_fetch_stage c, pl_hazard_unit c, pl_predictor c)"
  unfolding counters_front by (simp add: clock_update_def front_def Let_def)

subsection \<open>The cycle\<close>

text \<open>The steps of a cycle that runs through.\<close>

lemma stages_chain:
  assumes "clock_stages ops c = (Next u, c')"
  obtains wb c1 mw c2 em c3 dl c4 ie mp redirect c5 ii pred latch c6 where
    "clock_writeback (clock_hazard c) = (wb, c1)" "clock_memory ops c1 = (Next mw, c2)" "clock_execute ops c2 = (Next em, c3)"
    "clock_data_read ops em c3 = (Next dl, c4)" "clock_decode c4 = (Next (ie, mp, redirect), c5)"
    "clock_fetch ops mp redirect c5 = (Next (ii, pred, latch), c6)"
    "c' = clock_hpm wb (end_cycle (clock_update mw em dl ie mp ii pred latch c6))"
proof -
  obtain wb c1 where "clock_writeback (clock_hazard c) = (wb, c1)" by (metis surj_pair)
  then show ?thesis using assms that unfolding clock_stages_def by (auto simp: bind_flow_Next)
qed

lemma stages_restarted:
  assumes "clock_stages ops c = (Return (Inr ()), c')"
  shows "\<exists>a. restarted a c'"
proof -
  obtain wb c1 where "clock_writeback (clock_hazard c) = (wb, c1)" by (metis surj_pair)
  then show ?thesis
    using assms unfolding clock_stages_def
    by (auto simp: bind_flow_Return execute_return decode_return dest: memory_restarted data_read_restarted fetch_restarted)
qed

lemma stages_tracks:
  assumes "front_tracks c" "clock_stages ops c = (Next u, c')"
  shows "front_tracks c'"
  using assms(2)
proof (cases rule: stages_chain)
  case (1 wb c1 mw c2 em c3 dl c4 ie mp redirect c5 ii pred latch c6)
  let ?h = "HazardUnit_update (pl_hazard_unit c) (pl_id_ex c) (pl_if_id c) (pl_ex_mem c)"
  have h: "hz_stall_pc ?h = hz_stall ?h" by (simp add: HazardUnit_update_def Let_def)
  have "front c2 = front (c\<lparr>pl_hazard_unit := ?h\<rparr>)" using memory_front [OF 1(2)] writeback_front [OF 1(1)] by simp
  note c2 = front_eqD [OF this, simplified]
  have "front_tracks c3" "pl_hazard_unit c3 = ?h"
    using execute_front [OF 1(3)] restarted_tracks c2 assms(1) front_tracks_eq [of c3 c2] by (auto simp: front_tracks_def)
  moreover note c5 = front_eqD [OF trans [OF decode_front [OF 1(5)]]]
  ultimately have t: "front_tracks c5" "pl_hazard_unit c5 = ?h"
    using front_eqD [OF data_read_front [OF 1(4)]] front_eqD [OF decode_front [OF 1(5)]] by (auto simp: front_tracks_def)
  note ft = fetch_front [OF 1(6)]
  note c6 = front_eqD [OF ft(3), simplified]
  note c' = update_front [of wb mw em dl ie mp ii pred latch c6, folded 1(7), unfolded front_def prod.inject c6 t(2) h]
  show ?thesis
    using t(1) ft(1,2,4,5) c' unfolding front_tracks_def front_ok_def t(2) looked_up_def
    by (auto simp: FetchStage_fetch_def next_fetch_def predicted_path_def split: if_splits option.splits)
qed

lemma clock_tracks:
  assumes "front_tracks c" "PipelineCpu_clock ops c = (Inr (), c')"
  shows "front_tracks c'"
proof -
  consider (trap) "clock_interrupts ops c = (Return (Inr ()), c')"
    | (return) c1 where "clock_stages ops c1 = (Return (Inr ()), c')"
    | (run) u c1 where "clock_interrupts ops c = (Next (), c1)" "clock_stages ops c1 = (Next u, c')"
    using assms(2)
    by (auto simp: PipelineCpu_clock_def bind_flow_Next bind_flow_Return split: if_splits prod.splits flow.splits)
  then show ?thesis
  proof cases
    case trap
    then show ?thesis using interrupts_restarted restarted_tracks by blast
  next
    case return
    then show ?thesis using stages_restarted restarted_tracks by blast
  next
    case run
    then show ?thesis using stages_tracks front_tracks_eq [OF interrupts_front [OF run(1)]] assms(1) by blast
  qed
qed

subsection \<open>Reachable states\<close>

text \<open>
  A processor made by \<open>with_pc\<close>, after cycles that succeed, resets, changes of predictor, and whatever is done to
  the bus from outside (loading a program, devices that act between cycles).
\<close>

inductive cpu_reachable :: "'d other_ops \<Rightarrow> 'd pipeline_cpu \<Rightarrow> bool"
  for ops :: "'d other_ops" where
  reach_new: "PipelineCpu_with_pc ops b a = Some c \<Longrightarrow> cpu_reachable ops c"
| reach_reset: "cpu_reachable ops c \<Longrightarrow> cpu_reachable ops (PipelineCpu_reset_with_pc ops a c)"
| reach_predictor: "cpu_reachable ops c \<Longrightarrow> cpu_reachable ops (PipelineCpu_switch_predictor pt c)"
| reach_bus: "cpu_reachable ops c \<Longrightarrow> cpu_reachable ops (c\<lparr>pl_bus := b\<rparr>)"
| reach_clock: "cpu_reachable ops c \<Longrightarrow> PipelineCpu_clock ops c = (Inr (), c') \<Longrightarrow> cpu_reachable ops c'"

lemma reachable_tracks: "cpu_reachable ops c \<Longrightarrow> front_tracks c"
proof (induction rule: cpu_reachable.induct)
  case (reach_new b a c)
  then obtain d where "c = PipelineCpu_set_pc ops a d" "\<not> ii_valid (pl_if_id d)"
    by (auto simp: PipelineCpu_with_pc_def PipelineCpu_new_def IfIdRegister_default_def split: option.splits)
  then show ?case using set_pc_restarted restarted_tracks by blast
next
  case (reach_reset c a)
  have "\<not> ii_valid (pl_if_id (PipelineCpu_reset ops c))"
    by (simp add: PipelineCpu_reset_def IfIdRegister_default_def Let_def split_beta)
  then show ?case unfolding PipelineCpu_reset_with_pc_def using set_pc_restarted restarted_tracks by blast
next
  case (reach_predictor c pt)
  then show ?case by (simp add: PipelineCpu_switch_predictor_def front_tracks_def)
next
  case (reach_bus c b)
  then show ?case by (simp add: front_tracks_def)
next
  case (reach_clock c c')
  then show ?case using clock_tracks by blast
qed

end
