(* ===== verification/Pipe_Program.thy ===== *)
theory Pipe_Program
  imports Pipe_Front
begin

text \<open>
  The pipeline on a program: the refinement of \<open>Pipe_Correct\<close> with its hypothesis on predictions proved.  The
  processor checks the prediction of a branch or jump only, so the front end must never be sent elsewhere by
  any other instruction.  That holds as long as the words of the program do not change: a target comes out of
  the branch target buffer (\<open>branch_predictor.rs\<close>) for the word address it was entered under, and only
  branches and jumps are entered (\<open>clock\<close>, step 2e, \<open>cpu/pipeline/mod.rs\<close>).
\<close>

subsection \<open>What the predictor knows\<close>

text \<open>
  A program is a word for every word address.  The targets in the buffer are those of its branches and
  jumps, and so is a prediction in IF/ID that leads elsewhere than to the next word.
\<close>

definition targets_known :: "(u32 \<Rightarrow> u32) \<Rightarrow> btb \<Rightarrow> bool" where
  "targets_known code t \<longleftrightarrow> btb_inv t \<and> (\<forall>pc. btb_target t pc \<noteq> None \<longrightarrow> control_instr (code (drop_bit 2 pc)))"

definition foretold :: "(u32 \<Rightarrow> u32) \<Rightarrow> 'd pipeline_cpu \<Rightarrow> bool" where
  "foretold code c \<longleftrightarrow> targets_known code (pm_btb (pl_predictor c)) \<and>
     (\<forall>p. ii_valid (pl_if_id c) \<longrightarrow> ii_prediction (pl_if_id c) = Some p \<longrightarrow>
        predicted_path (ii_pc (pl_if_id c)) p \<noteq> ii_pc (pl_if_id c) + 4 \<longrightarrow>
        control_instr (code (drop_bit 2 (ii_pc (pl_if_id c)))))"

text \<open>The instruction in IF/ID is covered and is the program's.\<close>

definition runs_code :: "(u32 \<Rightarrow> u32) \<Rightarrow> 'd pipeline_cpu \<Rightarrow> bool" where
  "runs_code code c \<longleftrightarrow> (ii_valid (pl_if_id c) \<longrightarrow> covered (ii_instruction (pl_if_id c)) \<and>
     ii_instruction (pl_if_id c) = code (drop_bit 2 (ii_pc (pl_if_id c))))"

lemma foretold_next_covered: "foretold code c \<Longrightarrow> runs_code code c \<Longrightarrow> next_covered c"
  by (auto simp: foretold_def runs_code_def next_covered_def)

lemma targets_known_predict:
  assumes "targets_known code (pm_btb m)" "PredictorManager_predict m pc = (p, m')"
  shows "targets_known code (pm_btb m')"
    "predicted_path pc p \<noteq> pc + 4 \<Longrightarrow> control_instr (code (drop_bit 2 pc))"
proof -
  have t: "btb_target (snd (BranchTargetBuffer_lookup (pm_btb m) pc)) pc' = btb_target (pm_btb m) pc'" for pc'
    using btb_lookup_after_update assms(1) by (simp add: targets_known_def)
  have k: "targets_known code (snd (BranchTargetBuffer_lookup (pm_btb m) pc))"
    using assms(1) btb_inv_ops(4) unfolding targets_known_def t by blast
  show "targets_known code (pm_btb m')"
    using assms k by (auto simp: PredictorManager_predict_def Let_def split_beta split: if_splits)
  show "control_instr (code (drop_bit 2 pc))" if "predicted_path pc p \<noteq> pc + 4"
  proof -
    have "btb_target (pm_btb m) pc \<noteq> None"
      using that assms(2)
      by (auto simp: PredictorManager_predict_def predicted_path_def btb_target_def Let_def split_beta
          split: if_splits option.splits)
    then show ?thesis using assms(1) by (simp add: targets_known_def)
  qed
qed

lemma targets_known_update:
  assumes "targets_known code (pm_btb m)" "control_instr (code (drop_bit 2 pc))"
  shows "targets_known code (pm_btb (PredictorManager_update m pc t target b))"
proof -
  have i: "btb_inv (pm_btb m)" using assms(1) by (simp add: targets_known_def)
  note u = btb_lookup_after_update [OF i, of pc target b, THEN conjunct1]
  have "targets_known code (BranchTargetBuffer_update (pm_btb m) pc target b)"
    using assms btb_inv_ops(2) [OF i] by (auto simp: targets_known_def u split: if_splits)
  then show ?thesis using assms(1) by (simp add: PredictorManager_update_def Let_def)
qed

subsection \<open>A cycle keeps what the predictor knows\<close>

lemma branch_predictor_step:
  "pl_predictor (snd (clock_branch ie c)) = pl_predictor c \<or> ie_valid ie \<and> (ec_branch (ie_ctrl ie) \<or> ec_jump (ie_ctrl ie)) \<and>
    (\<exists>t target b. pl_predictor (snd (clock_branch ie c)) = PredictorManager_update (pl_predictor c) (ie_pc ie) t target b)"
  by (simp add: clock_branch_def Let_def) blast

text \<open>The decode step enters a target for the instruction in IF/ID, if that is a branch or jump.\<close>

lemma decode_predictor:
  assumes run: "clock_decode c = (Next (ie, mp, redirect), c')" and nf: "\<not> hz_flush_id_ex (pl_hazard_unit c)"
    and cov: "ii_valid (pl_if_id c) \<Longrightarrow> covered (ii_instruction (pl_if_id c))"
  shows "pl_predictor c' = pl_predictor c \<or> ii_valid (pl_if_id c) \<and> control_instr (ii_instruction (pl_if_id c)) \<and>
    (\<exists>t target b. pl_predictor c' = PredictorManager_update (pl_predictor c) (ii_pc (pl_if_id c)) t target b)"
proof -
  obtain ie0 where ie0: "DecodeStage_execute (pl_if_id c) (pl_regs c) (pl_ex_mem c) (pl_mem_wb c) False = Inr ie0"
    using run nf by (auto simp: clock_decode_def split: sum.splits)
  have v: "ii_valid (pl_if_id c) \<and> control_instr (ii_instruction (pl_if_id c)) \<and> ie_pc ie0 = ii_pc (pl_if_id c)"
    if "ie_valid ie0" "ec_branch (ie_ctrl ie0) \<or> ec_jump (ie_ctrl ie0)"
  proof (cases "ii_valid (pl_if_id c)")
    case True
    then show ?thesis using decode_covered [OF cov [OF True] True, of "pl_regs c" "pl_ex_mem c" "pl_mem_wb c"] ie0 that
      by (auto simp: decoded_ok_def Let_def)
  next
    case False
    then show ?thesis using ie0 that by (auto simp: DecodeStage_execute_def IdExRegister_default_def)
  qed
  define ie1 where "ie1 = (if \<not> hz_stall (pl_hazard_unit c) then ie0\<lparr>ie_prediction := ii_prediction (pl_if_id c)\<rparr> else ie0)"
  define c1 where "c1 = (if ii_valid (pl_if_id c) \<and> PipelineCpu_is_sfence_vma (ii_instruction (pl_if_id c))
    then c\<lparr>pl_tlb := Tlb_flush_all (pl_tlb c)\<rparr> else c)"
  have c': "c' = snd (clock_branch ie1 c1)" using run nf ie0 by (auto simp: clock_decode_def Let_def ie1_def c1_def split_beta)
  have "pl_predictor c1 = pl_predictor c" "ie_pc ie1 = ie_pc ie0" "ie_valid ie1 = ie_valid ie0" "ie_ctrl ie1 = ie_ctrl ie0"
    by (simp_all add: c1_def ie1_def)
  then show ?thesis using branch_predictor_step [of ie1 c1] v unfolding c' by fastforce
qed

lemma stages_foretold:
  assumes inv: "pipe_inv c" and code: "runs_code code c" and know: "foretold code c" and run: "clock_stages ops c = (Next u, c')"
  shows "foretold code c'"
  using run
proof (cases rule: stages_chain)
  case (1 wb c1 mw c2 em c3 dl c4 ie mp redirect c5 ii pred latch c6)
  let ?ii = "pl_if_id c" and ?h = "HazardUnit_update (pl_hazard_unit c) (pl_id_ex c) (pl_if_id c) (pl_ex_mem c)"
  have iv: "id_ex_ok (pl_regs c) (pl_id_ex c)" "ex_mem_ok (pl_ex_mem c)" using inv by (simp_all add: pipe_inv_def)
  have "pl_id_ex c2 = pl_id_ex c"
    using memory_id_ex [OF 1(2)] writeback_core(1) [of "clock_hazard c"] hazard_core(1) [of c] 1(1) by (simp add: core_def)
  then have "front c3 = front c2" using execute_front [OF 1(3)] iv(1) by (auto simp: id_ex_ok_def)
  then have "front c4 = front (c\<lparr>pl_hazard_unit := ?h\<rparr>)"
    using data_read_front [OF 1(4)] memory_front [OF 1(2)] writeback_front [OF 1(1)] by simp
  note c4 = front_eqD [OF this, simplified]
  have cov: "\<not> hz_flush_id_ex (pl_hazard_unit c4)" "ii_valid (pl_if_id c4) \<Longrightarrow> covered (ii_instruction (pl_if_id c4))"
    using hazard_covered(1) [OF iv] code unfolding c4 runs_code_def by blast+
  note c5 = front_eqD [OF decode_front [OF 1(5)], simplified c4, simplified]
  have k5: "targets_known code (pm_btb (pl_predictor c5))"
    using decode_predictor [OF 1(5) cov] know code unfolding c4 foretold_def runs_code_def
    by (auto intro: targets_known_update)
  note ft = fetch_front [OF 1(6)]
  note c6 = front_eqD [OF ft(3), simplified c5, simplified]
  have k6: "targets_known code (pm_btb (pl_predictor c6))"
    and p: "ii_valid ii \<Longrightarrow> pred = Some p \<Longrightarrow> predicted_path (ii_pc ii) p \<noteq> ii_pc ii + 4 \<Longrightarrow> control_instr (code (drop_bit 2 (ii_pc ii)))" for p
    using ft(2) k5 targets_known_predict by (auto simp: looked_up_def split: if_splits)
  have "pl_predictor c' = pl_predictor c6 \<and> (pl_if_id c' = ?ii \<or> \<not> ii_valid (pl_if_id c') \<or> pl_if_id c' = ii\<lparr>ii_prediction := pred\<rparr>)"
    using update_front [of wb mw em dl ie mp ii pred latch c6, folded 1(7)] c6 front_eqD(2) [OF decode_front [OF 1(5)]] c4(2)
    by (simp add: front_def)
  then show ?thesis using k6 p know unfolding foretold_def by auto
qed

lemma clock_foretold:
  assumes "pipe_inv c" "runs_code code c" "foretold code c" "untrapped ops c" "PipelineCpu_clock ops c = (r, c')"
  shows "foretold code c'"
proof -
  obtain u c1 where c1: "clock_interrupts ops c = (Next u, c1)"
    using assms(4) by (cases "clock_interrupts ops c"; cases "fst (clock_interrupts ops c)") (auto simp: untrapped_def bind_flow_def)
  have run: "clock_stages ops c1 = (Next (), c')"
    using assms(4,5) c1 by (auto simp: untrapped_def PipelineCpu_clock_def bind_flow_def split: flow.splits prod.splits)
  note e = core_eqD [OF interrupts_core [OF c1]] front_eqD [OF interrupts_front [OF c1]]
  have "runs_code code c1" using assms(2) by (simp only: runs_code_def e)
  moreover have "pipe_inv c1" "foretold code c1" using assms(1,3) by (simp_all add: pipe_inv_def foretold_def e)
  ultimately show ?thesis using stages_foretold run by blast
qed

text \<open>A processor whose branch target buffer is fresh and whose IF/ID is empty foretells every program.\<close>

lemma btb_new_targets: "targets_known code BranchTargetBuffer_new"
proof -
  have "btb_target BranchTargetBuffer_new pc = None" for pc
    using btb_index_less [of pc] by (simp add: btb_target_eq BranchTargetBuffer_new_def BTB_SIZE_def BtbEntry_default_def Let_def)
  then show ?thesis by (simp add: targets_known_def btb_inv_ops(1))
qed

lemma foretold_start:
  "pm_btb (pl_predictor c) = BranchTargetBuffer_new \<Longrightarrow> \<not> ii_valid (pl_if_id c) \<Longrightarrow> foretold code c"
  by (simp add: foretold_def btb_new_targets)

subsection \<open>Runs of a program\<close>

text \<open>
  \<open>program_run ops code n tr c c'\<close>: \<open>n\<close> cycles from \<open>c\<close> to \<open>c'\<close> without a trap, in which what reaches IF/ID is
  covered and of the program \<open>code\<close>, and the instructions of \<open>tr\<close> leave it.  Nothing is said of predictions.
\<close>

inductive program_run :: "'d other_ops \<Rightarrow> (u32 \<Rightarrow> u32) \<Rightarrow> nat \<Rightarrow> (addr \<times> u32) list \<Rightarrow> 'd pipeline_cpu \<Rightarrow> 'd pipeline_cpu \<Rightarrow> bool"
  for ops :: "'d other_ops" and code :: "u32 \<Rightarrow> u32" where
  program_done: "program_run ops code 0 [] c c"
| program_cycle: "\<lbrakk>runs_code code c; untrapped ops c; program_run ops code n tr (snd (PipelineCpu_clock ops c)) c'\<rbrakk> \<Longrightarrow>
    program_run ops code (Suc n) ((if advances c then [(ii_pc (pl_if_id c), ii_instruction (pl_if_id c))] else []) @ tr) c c'"

text \<open>The interpreter on the program: the word at the program counter, executed.\<close>

definition rv_next :: "(u32 \<Rightarrow> u32) \<Rightarrow> addr \<times> registers \<Rightarrow> addr \<times> registers" where
  "rv_next code s = rv_step (code (drop_bit 2 (fst s))) s"

lemma program_run_pipe_run:
  assumes "program_run ops code n tr c c'" "pipe_inv c" "pl_privilege c = Machine" "foretold code c"
  shows "pipe_run ops n tr c c' \<and> foretold code c'"
  using assms
proof (induction rule: program_run.induct)
  case (program_cycle c n tr c')
  obtain r c1 where c1: "PipelineCpu_clock ops c = (r, c1)" by (metis surj_pair)
  have nc: "next_covered c" using foretold_next_covered program_cycle by blast
  note s = clock_step [OF program_cycle.prems(1,2) nc program_cycle.hyps(2) c1]
  have "foretold code c1" using clock_foretold program_cycle c1 by blast
  then have "pipe_run ops n tr c1 c' \<and> foretold code c'" using program_cycle.IH s(2,3) c1 by simp
  then show ?case using pipe_run.run_cycle [OF nc program_cycle.hyps(2)] c1 by simp
qed (simp add: pipe_run.run_done)

lemma program_run_words: "program_run ops code n tr c c' \<Longrightarrow> x \<in> set tr \<Longrightarrow> snd x = code (drop_bit 2 (fst x))"
  by (induction rule: program_run.induct) (auto simp: runs_code_def advances_def split: if_splits)

lemma rv_run_program:
  "rv_run tr s = Some s' \<Longrightarrow> \<forall>x \<in> set tr. snd x = code (drop_bit 2 (fst x)) \<Longrightarrow> s' = (rv_next code ^^ length tr) s"
  by (induction tr s rule: rv_run.induct)
    (simp_all add: funpow_Suc_right rv_next_def del: funpow.simps(2) split: if_splits)

lemma program_run_step:
  assumes "pipe_inv c" "pl_privilege c = Machine" "foretold code c" "program_run ops code n tr c c'"
  shows "rv_run tr (arch c) = Some (arch c')" "arch c' = (rv_next code ^^ length tr) (arch c)" "pipe_inv c'" "foretold code c'"
proof -
  have p: "pipe_run ops n tr c c'" "foretold code c'" using program_run_pipe_run [OF assms(4,1-3)] by simp_all
  show "rv_run tr (arch c) = Some (arch c')" "pipe_inv c'" using pipe_run_step [OF p(1) assms(1,2)] by simp_all
  then show "arch c' = (rv_next code ^^ length tr) (arch c)" using rv_run_program program_run_words [OF assms(4)] by blast
qed (rule program_run_pipe_run [OF assms(4,1-3), THEN conjunct2])

subsection \<open>The demonstration program\<close>

definition demo_code :: "u32 \<Rightarrow> u32" where
  "demo_code w = (if w = 0 then 0x00500093 else if w = 1 then 0x00708113 else if w = 2 then 0x002081b3 else 0xfe318ce3)"

lemma demo_program:
  "foretold demo_code demo" "program_run no_ops demo_code 1 [(4, 0x00708113)] demo (snd (PipelineCpu_clock no_ops demo))"
proof -
  have w: "drop_bit 2 (4 :: u32) = 1" by simp
  show "foretold demo_code demo"
    by (simp add: foretold_def demo_def btb_new_targets predicted_path_def)
  have "runs_code demo_code demo" by (simp add: runs_code_def demo_def demo_next w demo_code_def)
  from program_cycle [OF this demo_untrapped program_done]
  show "program_run no_ops demo_code 1 [(4, 0x00708113)] demo (snd (PipelineCpu_clock no_ops demo))"
    using demo_facts(4) by (simp add: demo_def)
qed

subsection \<open>Properties\<close>

text \<open>C1: The pipeline runs programs as the instruction set says.  Take a program, that is a word for every word
  address, and a state that satisfies the pipeline invariant and whose branch target buffer has targets of the
  program's branches and jumps only, as a fresh one has.  Let the processor run for any number of cycles, in machine
  mode and without a trap, in which what reaches IF/ID are words of the program and covered (register and immediate
  arithmetic, LUI, conditional branches, jumps that do not link).  Then the architectural state, which is what
  the registers become when the instructions in flight complete, and the next program counter, is the one the
  interpreter reaches from the one before by executing as many instructions as have left IF/ID, each the word of the
  program at its program counter: forwarding, stalls, speculation and redirects included, whatever the predictor
  says.  The invariants still hold.\<close>

theorem pipeline_run_refines:
  assumes "pipe_inv c" "pl_privilege c = Machine" "foretold code c" "program_run ops code n tr c c'"
  shows "arch c' = (rv_next code ^^ length tr) (arch c) \<and> rv_run tr (arch c) = Some (arch c') \<and> pipe_inv c' \<and> foretold code c'"
  using program_run_step [OF assms] by blast

theorem pipeline_run_refines_witness:
  "arch (snd (PipelineCpu_clock no_ops demo)) = (8, Registers_write (snd (arch demo)) 2 12)"
  using pipeline_run_refines [OF demo_facts(2,1) demo_program] demo_arch(1) by simp

text \<open>Without a fixed program the statement is false, because only the prediction of a branch or jump is checked:
  a covered instruction of another kind goes where its prediction says.  A target left in the buffer by a
  branch that the word replaces, or that had the same virtual address in another address space, is followed for good.\<close>

theorem stale_prediction_followed:
  assumes "pipe_inv c" "pl_privilege c = Machine" "untrapped ops c" "advances c"
    and "covered (ii_instruction (pl_if_id c))" "\<not> control_instr (ii_instruction (pl_if_id c))"
    and "ii_prediction (pl_if_id c) = Some p"
  shows "fst (arch (snd (PipelineCpu_clock ops c))) = predicted_path (ii_pc (pl_if_id c)) p"
proof -
  obtain u c1 where c1: "clock_interrupts ops c = (Next u, c1)"
    using assms(3) by (cases "clock_interrupts ops c"; cases "fst (clock_interrupts ops c)") (auto simp: untrapped_def bind_flow_def)
  note e = core_eqD [OF interrupts_core [OF c1]] front_eqD(5) [OF interrupts_front [OF c1]]
  have run: "clock_stages ops c1 = (Next (), snd (PipelineCpu_clock ops c))"
    using assms(3) c1 by (auto simp: untrapped_def PipelineCpu_clock_def bind_flow_def split: flow.splits prod.splits)
  have "pipe_inv c1" "pl_privilege c1 = Machine" "advances c1" "covered (ii_instruction (pl_if_id c1))"
    using assms(1,2,4,5) by (simp_all add: pipe_inv_def advances_def e)
  from stages_path(5) [OF this(1,2) _ run this(3)] this(4) show ?thesis
    using assms(6,7) by (simp add: e arch_def)
qed

end
