(* ===== verification/Pipe_Faults.thy ===== *)
theory Pipe_Faults
  imports Pipe_Front
begin

text \<open>
  Traps, interrupts and returns in the pipeline, and the places where the pipeline departs from the
  instruction set: what is lost on an interrupt or a load-use stall, what a flushed instruction still
  does, and the instructions whose result is wrong.
\<close>

subsection \<open>Traps and returns\<close>

lemma set_pc_fields:
  "pl_pc (PipelineCpu_set_pc ops a c) = a" "pl_regs (PipelineCpu_set_pc ops a c) = pl_regs c"
  "pl_csr (PipelineCpu_set_pc ops a c) = pl_csr c" "pl_privilege (PipelineCpu_set_pc ops a c) = pl_privilege c"
  "pl_if_id (PipelineCpu_set_pc ops a c) = pl_if_id c" "pl_id_ex (PipelineCpu_set_pc ops a c) = pl_id_ex c"
  "pl_ex_mem (PipelineCpu_set_pc ops a c) = pl_ex_mem c" "pl_mem_wb (PipelineCpu_set_pc ops a c) = pl_mem_wb c"
  "fs_pc (pl_fetch_stage (PipelineCpu_set_pc ops a c)) = a"
  by (simp_all add: PipelineCpu_set_pc_def PipelineCpu_prefetch_instr_latch_def FetchStage_set_pc_def split: prod.splits sum.splits)

lemma flush_fields:
  "pl_regs (PipelineCpu_flush_pipeline c) = pl_regs c" "pl_csr (PipelineCpu_flush_pipeline c) = pl_csr c"
  "pl_privilege (PipelineCpu_flush_pipeline c) = pl_privilege c"
  "pl_if_id (PipelineCpu_flush_pipeline c) = (pl_if_id c)\<lparr>ii_valid := False\<rparr>"
  "pl_id_ex (PipelineCpu_flush_pipeline c) = (pl_id_ex c)\<lparr>ie_valid := False\<rparr>"
  "pl_ex_mem (PipelineCpu_flush_pipeline c) = (pl_ex_mem c)\<lparr>em_valid := False\<rparr>"
  "pl_mem_wb (PipelineCpu_flush_pipeline c) = (pl_mem_wb c)\<lparr>mw_valid := False\<rparr>"
  by (simp_all add: PipelineCpu_flush_pipeline_def)

lemma take_trap_fields:
  "pl_csr (PipelineCpu_take_trap ops t c) = fst (take_trap_csr t (pl_csr c) (pl_privilege c))"
  "pl_pc (PipelineCpu_take_trap ops t c) = fst (snd (take_trap_csr t (pl_csr c) (pl_privilege c)))"
  "pl_privilege (PipelineCpu_take_trap ops t c) = snd (snd (take_trap_csr t (pl_csr c) (pl_privilege c)))"
  "pl_regs (PipelineCpu_take_trap ops t c) = pl_regs c"
  "pl_if_id (PipelineCpu_take_trap ops t c) = (pl_if_id c)\<lparr>ii_valid := False\<rparr>"
  "pl_id_ex (PipelineCpu_take_trap ops t c) = (pl_id_ex c)\<lparr>ie_valid := False\<rparr>"
  "pl_ex_mem (PipelineCpu_take_trap ops t c) = (pl_ex_mem c)\<lparr>em_valid := False\<rparr>"
  "pl_mem_wb (PipelineCpu_take_trap ops t c) = (pl_mem_wb c)\<lparr>mw_valid := False\<rparr>"
  by (simp_all add: PipelineCpu_take_trap_def set_pc_fields flush_fields split_beta Let_def)

text \<open>The traps that go to machine mode: all from machine mode, and those not delegated.\<close>

definition to_machine :: "trap \<Rightarrow> 'd pipeline_cpu \<Rightarrow> bool" where
  "to_machine t c \<longleftrightarrow> pl_privilege c = Machine \<or>
     \<not> Trap_should_delegate t (csr_mideleg (pl_csr c)) (csr_medeleg (pl_csr c))"

lemma take_trap_machine:
  assumes "to_machine t c"
  shows "\<exists>ms ca h. take_trap_csr t (pl_csr c) (pl_privilege c) =
    ((pl_csr c)\<lparr>csr_mstatus := ms, csr_mepc := tr_epc t, csr_mcause := ca, csr_mtval := tr_tval t\<rparr>, h, Machine) \<and>
    Mstatus_mpp ms = pl_privilege c \<and> Mstatus_mpie ms = Mstatus_mie (csr_mstatus (pl_csr c)) \<and> \<not> Mstatus_mie ms"
  using assms by (auto simp: to_machine_def take_trap_csr_def Trap_take_m_trap_def Let_def Mepc_set_def flag_simps)

text \<open>C29: A trap into machine mode and the return from it are inverse: after the handler's \<open>mret\<close> the
  program counter is the trap's \<open>epc\<close>, the privilege and the interrupt enable are those before the
  trap, the registers are untouched, and \<open>MPIE\<close> is set.\<close>

theorem trap_return_round_trip:
  assumes "to_machine t c"
  shows "let c1 = PipelineCpu_take_trap ops t c; c2 = PipelineCpu_execute_trap_return ops c1
    in \<not> Mstatus_mie (csr_mstatus (pl_csr c1)) \<and> pl_privilege c1 = Machine \<and>
       pl_pc c2 = Mepc_get (tr_epc t) \<and> fs_pc (pl_fetch_stage c2) = Mepc_get (tr_epc t) \<and>
       pl_privilege c2 = pl_privilege c \<and> pl_regs c2 = pl_regs c \<and>
       Mstatus_mie (csr_mstatus (pl_csr c2)) = Mstatus_mie (csr_mstatus (pl_csr c)) \<and>
       Mstatus_mpie (csr_mstatus (pl_csr c2)) \<and> Mstatus_mpp (csr_mstatus (pl_csr c2)) = User"
  using take_trap_machine [OF assms]
  by (auto simp: PipelineCpu_execute_trap_return_def Let_def take_trap_fields set_pc_fields flush_fields flag_simps)

theorem trap_return_round_trip_witness:
  "let c1 = PipelineCpu_take_trap no_ops (Trap_ecall Machine 8) demo; c2 = PipelineCpu_execute_trap_return no_ops c1
   in pl_pc c2 = 8 \<and> pl_privilege c2 = Machine"
  using trap_return_round_trip [of "Trap_ecall Machine 8" demo no_ops]
  by (simp add: to_machine_def demo_facts(1) Let_def Trap_ecall_def Trap_exception_def Mepc_get_def)

text \<open>What an interrupt writes.\<close>

lemma interrupt_saves_pc:
  assumes "clock_interrupts ops c = (Return (Inr ()), c')"
  shows "arch_regs c' = pl_regs c \<and> \<not> ii_valid (pl_if_id c') \<and> \<not> ie_valid (pl_id_ex c') \<and> \<not> em_valid (pl_ex_mem c') \<and>
    \<not> mw_valid (pl_mem_wb c') \<and>
    (pl_privilege c' = Machine \<and> csr_mepc (pl_csr c') = pl_pc c \<or> pl_privilege c' = Supervisor \<and> csr_sepc (pl_csr c') = pl_pc c)"
proof -
  let ?s = "PipelineCpu_sync_interrupts ops (c\<lparr>pl_bus := Bus_tick_clint (pl_bus c) 1\<rparr>)"
  have s: "pl_regs ?s = pl_regs c" "pl_pc ?s = pl_pc c" "csr_sepc (pl_csr ?s) = csr_sepc (pl_csr c)"
    by (simp_all add: PipelineCpu_sync_interrupts_def Let_def split_beta)
  obtain ic where ic: "PipelineCpu_check_and_handle_interrupt ops ?s = (True, PipelineCpu_take_trap ops (pending_trap ic (pl_pc c)) ?s)"
    and c': "c' = pl_record PE_PipelineFlushes (pl_record PE_InterruptsTaken (end_cycle (PipelineCpu_take_trap ops (pending_trap ic (pl_pc c)) ?s)))"
    using assms
    by (auto simp: clock_interrupts_def PipelineCpu_check_and_handle_interrupt_def Let_def s split: if_splits option.splits)
  have epc: "tr_epc (pending_trap ic (pl_pc c)) = pl_pc c"
    by (simp add: pending_trap_def Trap_interrupt_def Trap_exception_def split_beta)
  show ?thesis
    unfolding c'
    by (auto simp: arch_regs_def commit_ex_def commit_mem_def commit_wb_def end_cycle_def Let_def take_trap_fields s epc
      take_trap_csr_def Trap_take_s_trap_def Trap_take_m_trap_def Mepc_set_def Sepc_set_def)
qed

text \<open>C30: An interrupt loses the instructions in flight.  Take a state in which the program counter is the fetch pointer and
  the front end has followed the prediction in IF/ID: every state that is reached from the start by cycles that succeed is one
  (\<open>reachable_tracks\<close>), and a cycle that succeeds leads to another.  When a cycle takes an interrupt there,
  every pipeline register is emptied, so the architectural registers fall back to those already written; and the program counter
  it saves is not that of the next instruction to complete but the fetch pointer: the address in the fetch latch, or, with
  an instruction in IF/ID, the one predicted to follow it.  So neither that instruction nor the older ones, whose results are
  lost, are executed again after the return.\<close>

theorem interrupt_drops_in_flight:
  assumes "front_tracks c" "clock_interrupts ops c = (Return (Inr ()), c')"
  shows "arch_regs c' = pl_regs c \<and> \<not> ii_valid (pl_if_id c') \<and> \<not> ie_valid (pl_id_ex c') \<and> \<not> em_valid (pl_ex_mem c') \<and>
    \<not> mw_valid (pl_mem_wb c') \<and>
    (\<exists>epc. (pl_privilege c' = Machine \<and> csr_mepc (pl_csr c') = epc \<or> pl_privilege c' = Supervisor \<and> csr_sepc (pl_csr c') = epc) \<and>
       epc = fs_pc (pl_fetch_stage c) \<and>
       (il_valid (pl_instr_latch c) \<longrightarrow> epc = il_pc (pl_instr_latch c)) \<and>
       (ii_valid (pl_if_id c) \<longrightarrow> (\<exists>p. ii_prediction (pl_if_id c) = Some p \<and> epc = predicted_path (ii_pc (pl_if_id c)) p))) \<and>
    (PipelineCpu_clock ops c = (Inr (), c'') \<longrightarrow> front_tracks c'')"
proof -
  have "arch_regs c' = pl_regs c \<and> \<not> ii_valid (pl_if_id c') \<and> \<not> ie_valid (pl_id_ex c') \<and> \<not> em_valid (pl_ex_mem c') \<and>
    \<not> mw_valid (pl_mem_wb c') \<and>
    (pl_privilege c' = Machine \<and> csr_mepc (pl_csr c') = pl_pc c \<or> pl_privilege c' = Supervisor \<and> csr_sepc (pl_csr c') = pl_pc c)"
    using interrupt_saves_pc [OF assms(2)] .
  moreover have "pl_pc c = fs_pc (pl_fetch_stage c)"
    "il_valid (pl_instr_latch c) \<longrightarrow> pl_pc c = il_pc (pl_instr_latch c)"
    "ii_valid (pl_if_id c) \<longrightarrow> (\<exists>p. ii_prediction (pl_if_id c) = Some p \<and> pl_pc c = predicted_path (ii_pc (pl_if_id c)) p)"
    using assms(1) by (auto simp: front_tracks_def front_ok_def)
  ultimately show ?thesis using clock_tracks [OF assms(1), of ops c''] by blast
qed

text \<open>The demonstration processor in supervisor mode, with its software interrupt pending.\<close>

definition demo_irq :: "unit pipeline_cpu" where
  "demo_irq = demo\<lparr>pl_privilege := Supervisor,
     pl_csr := CsrFile_new\<lparr>csr_sstatus := Sstatus_set_sie 0 True, csr_sie := 2, csr_sip := 2\<rparr>\<rparr>"

lemma demo_irq_pending: "Sie_ssie 2" "Sip_ssip 2" "Sip_ssip (Sip_set_seip 2 False)" "\<not> Sip_seip (Sip_set_seip 2 False)"
  "\<not> Sip_stip (Sip_set_seip 2 False)" "Sstatus_sie (Sstatus_set_sie 0 True)" "\<not> Sie_seie 2" "\<not> Sie_stie 2"
  "\<not> Mie_meie 0" "\<not> Mie_mtie 0" "\<not> Mie_msie 0"
  by code_simp+

lemma demo_irq_taken: "fst (clock_interrupts no_ops demo_irq) = Return (Inr ())"
  by (simp add: clock_interrupts_def PipelineCpu_sync_interrupts_def PipelineCpu_check_and_handle_interrupt_def Let_def
    demo_irq_def demo_def quiet_bus Bus_new_def CsrFile_new_def Mip_highest_priority_interrupt_def
    CsrFile_get_pending_interrupt_def demo_irq_pending)

theorem interrupt_drops_in_flight_witness:
  "arch_regs (snd (clock_interrupts no_ops demo_irq)) = Registers_new \<and> Registers_read (arch_regs demo_irq) 1 = 5 \<and>
   fst (arch demo_irq) = 4 \<and> (csr_mepc (pl_csr (snd (clock_interrupts no_ops demo_irq))) = 8 \<or>
     csr_sepc (pl_csr (snd (clock_interrupts no_ops demo_irq))) = 8)"
proof (intro conjI)
  have "clock_interrupts no_ops demo_irq = (Return (Inr ()), snd (clock_interrupts no_ops demo_irq))"
    using demo_irq_taken by (metis prod.collapse)
  moreover have "front_tracks demo_irq"
    by (simp add: front_tracks_def front_ok_def demo_irq_def demo_def predicted_path_def)
  ultimately have *: "arch_regs (snd (clock_interrupts no_ops demo_irq)) = pl_regs demo_irq \<and>
      (csr_mepc (pl_csr (snd (clock_interrupts no_ops demo_irq))) = fs_pc (pl_fetch_stage demo_irq) \<or>
       csr_sepc (pl_csr (snd (clock_interrupts no_ops demo_irq))) = fs_pc (pl_fetch_stage demo_irq))"
    using interrupt_drops_in_flight [of demo_irq no_ops "snd (clock_interrupts no_ops demo_irq)"] by blast
  then show "arch_regs (snd (clock_interrupts no_ops demo_irq)) = Registers_new"
    "csr_mepc (pl_csr (snd (clock_interrupts no_ops demo_irq))) = 8 \<or>
     csr_sepc (pl_csr (snd (clock_interrupts no_ops demo_irq))) = 8"
    by (simp_all add: demo_irq_def demo_def)
  show "Registers_read (arch_regs demo_irq) 1 = 5" "fst (arch demo_irq) = 4"
    using demo_arch(2) by (simp_all add: arch_def arch_pc_def arch_regs_def demo_irq_def demo_def)
qed

subsection \<open>Flushed instructions\<close>

text \<open>A flushed CSR instruction still executes: after a trap the instruction in ID/EX is marked invalid, but the
  execute step of the next cycle carries out its CSR access all the same, with the privilege of the handler.\<close>

theorem flushed_csr_executes:
  assumes "ec_csr_op (ie_ctrl (pl_id_ex c))"
  shows "let c1 = PipelineCpu_take_trap ops t c; ie = pl_id_ex c
    in \<not> ie_valid (pl_id_ex c1) \<and>
       pl_csr (snd (clock_execute ops c1)) =
         snd (CsrFile_execute (pl_csr c1) (ec_csr_op_type (ie_ctrl ie)) (ec_csr_addr (ie_ctrl ie)) (ie_rs1_val ie) (pl_privilege c1))"
  using assms
  by (auto simp: Let_def take_trap_fields clock_execute_def ExecuteStage_execute_def split: prod.splits sum.splits)

lemma memory_next_core:
  assumes "clock_memory ops c = (Next mw, c')"
  shows "pl_regs c' = pl_regs c \<and> pl_if_id c' = pl_if_id c \<and> pl_id_ex c' = pl_id_ex c \<and> pl_hazard_unit c' = pl_hazard_unit c"
  using assms
  by (auto simp: clock_memory_def Let_def fault_exit_def PipelineCpu_translate_with_tlb_def on_d_cache_def
    split: prod.splits sum.splits if_splits sim_error.splits)

theorem flushed_csr_executes_witness:
  "\<exists>f. pl_csr (snd (clock_execute no_ops (PipelineCpu_take_trap no_ops (Trap_ecall Machine 8)
       (demo\<lparr>pl_id_ex := (pl_id_ex demo)\<lparr>ie_ctrl := ExControlSignals_csr CSR_RW 0x340, ie_rs1_val := 9\<rparr>\<rparr>)))) =
     snd (CsrFile_execute f CSR_RW 0x340 9 Machine)"
  using flushed_csr_executes [of "demo\<lparr>pl_id_ex := (pl_id_ex demo)\<lparr>ie_ctrl := ExControlSignals_csr CSR_RW 0x340, ie_rs1_val := 9\<rparr>\<rparr>"
      no_ops "Trap_ecall Machine 8"]
    take_trap_machine [of "Trap_ecall Machine 8" "demo\<lparr>pl_id_ex := (pl_id_ex demo)\<lparr>ie_ctrl := ExControlSignals_csr CSR_RW 0x340, ie_rs1_val := 9\<rparr>\<rparr>"]
  by (auto simp: Let_def ExControlSignals_csr_def take_trap_fields to_machine_def demo_facts(1))

text \<open>A cycle in which a load-use hazard is detected.\<close>

lemma load_use_stages:
  assumes run: "clock_stages ops c = (Next u, c')" and ld: "ie_ctrl (pl_id_ex c) = ExControlSignals_load"
    and hz: "HazardUnit_detect_load_use (pl_id_ex c) (Decoder_rs1 (ii_instruction (pl_if_id c))) (Decoder_rs2 (ii_instruction (pl_if_id c)))"
  shows "\<not> em_valid (pl_ex_mem c') \<and> \<not> mc_reg_write (em_ctrl (pl_ex_mem c')) \<and> \<not> ie_valid (pl_id_ex c') \<and>
    pl_if_id c' = pl_if_id c \<and> pl_regs c' = commit_wb (pl_mem_wb c) (pl_regs c)"
proof -
  obtain wb c1 where wb: "clock_writeback (clock_hazard c) = (wb, c1)" by (metis surj_pair)
  have c1: "pl_regs c1 = commit_wb (pl_mem_wb c) (pl_regs c)" "pl_if_id c1 = pl_if_id c" "pl_id_ex c1 = pl_id_ex c"
    "hz_stall (pl_hazard_unit c1)" "hz_flush_id_ex (pl_hazard_unit c1)"
    using writeback_core [of "clock_hazard c"] hazard_core [of c] hz unfolding wb
    by (simp_all add: core_def HazardUnit_update_def Let_def)
  obtain mw c2 where mem: "clock_memory ops c1 = (Next mw, c2)"
    using run by (cases "clock_memory ops c1"; cases "fst (clock_memory ops c1)") (auto simp: clock_stages_def wb bind_flow_def)
  note c2 = memory_next_core [OF mem]
  obtain em c3 where ex: "clock_execute ops c2 = (Next em, c3)" "\<not> em_valid em" "\<not> mc_reg_write (em_ctrl em)"
    "pl_regs c3 = pl_regs c2" "pl_if_id c3 = pl_if_id c2" "pl_hazard_unit c3 = pl_hazard_unit c2"
    using ld c1 c2 by (auto simp: clock_execute_def ExecuteStage_execute_def ExControlSignals_load_def ExMemRegister_default_def
      MemControlSignals_default_def Let_def)
  have dr: "clock_data_read ops em c3 = (Next DataReadLatch_default, c3)"
    using ex(2) by (simp add: clock_data_read_def)
  have "DecodeStage_execute (pl_if_id c3) (pl_regs c3) (pl_ex_mem c3) (pl_mem_wb c3) True =
      Inr (IdExRegister_default\<lparr>ie_pc := ii_pc (pl_if_id c), ie_pc_plus_4 := ii_pc (pl_if_id c) + 4\<rparr>)"
    using ex c1 c2 by (simp add: DecodeStage_execute_def)
  then obtain ie mp redirect c4 where id: "clock_decode c3 = (Next (ie, mp, redirect), c4)" "\<not> ie_valid ie"
    "pl_regs c4 = pl_regs c3" "pl_if_id c4 = pl_if_id c3" "pl_hazard_unit c4 = pl_hazard_unit c3"
    using ex c1 c2 by (simp add: clock_decode_def clock_branch_def IdExRegister_default_def)
  obtain ii pred latch c5 where ft: "clock_fetch ops mp redirect c4 = (Next (ii, pred, latch), c5)"
    "pl_regs c5 = pl_regs c4" "pl_if_id c5 = pl_if_id c4" "pl_hazard_unit c5 = pl_hazard_unit c4"
    using id ex c1 c2 by (simp add: clock_fetch_def FetchStage_pre_fetch_def Let_def split_beta)
  have "c' = clock_hpm wb (end_cycle (clock_update mw em DataReadLatch_default ie mp ii pred latch c5))"
    using run by (simp add: clock_stages_def wb mem ex(1) dr id(1) ft(1) bind_flow_def)
  then have "core c' = core (clock_update mw em DataReadLatch_default ie mp ii pred latch c5)" by (simp only: counters_core)
  from trans [OF this update_core] show ?thesis using ft id ex c1 c2 unfolding core_def prod.inject by simp
qed

text \<open>C31: A load-use stall loses the load: when the instruction in IF/ID reads the destination of the load in
  ID/EX, the flush signal that is meant for the decode stage also reaches the execute stage, so after the cycle
  neither EX/MEM nor ID/EX holds a valid instruction, while the dependent instruction stays in IF/ID: the load
  never completes and the dependent instruction reads the old register.\<close>

theorem load_use_drops_load:
  assumes "untrapped ops c" "ie_ctrl (pl_id_ex c) = ExControlSignals_load"
    "HazardUnit_detect_load_use (pl_id_ex c) (Decoder_rs1 (ii_instruction (pl_if_id c))) (Decoder_rs2 (ii_instruction (pl_if_id c)))"
  shows "let c' = snd (PipelineCpu_clock ops c)
    in \<not> em_valid (pl_ex_mem c') \<and> \<not> mc_reg_write (em_ctrl (pl_ex_mem c')) \<and> \<not> ie_valid (pl_id_ex c') \<and>
       pl_if_id c' = pl_if_id c \<and> pl_regs c' = commit_wb (pl_mem_wb c) (pl_regs c)"
proof -
  obtain u c1 where c1: "clock_interrupts ops c = (Next u, c1)"
    using assms(1) by (cases "clock_interrupts ops c"; cases "fst (clock_interrupts ops c)") (auto simp: untrapped_def bind_flow_def)
  note e = core_eqD [OF interrupts_core [OF c1]]
  have "clock_stages ops c1 = (Next (), snd (PipelineCpu_clock ops c))"
    using assms(1) c1 by (auto simp: untrapped_def PipelineCpu_clock_def bind_flow_def split: flow.splits prod.splits)
  from load_use_stages [OF this] show ?thesis using assms(2,3) unfolding e by (simp add: Let_def)
qed

definition demo_load :: "unit pipeline_cpu" where
  "demo_load = demo\<lparr>pl_id_ex := IdExRegister_default\<lparr>ie_valid := True, ie_rd := 1, ie_imm := 12,
     ie_ctrl := ExControlSignals_load, ie_mem_ctrl := MemControlSignals_lw\<rparr>\<rparr>"

lemma demo_load_stages: "\<exists>c. clock_stages no_ops (demo_load\<lparr>pl_csr := f\<rparr>) = (Next (), c)"
  by (simp add: demo_load_def demo_def clock_stages_def clock_hazard_def HazardUnit_update_def clock_writeback_def WritebackStage_execute_def
    MemWbRegister_default_def WbControlSignals_none_def HazardUnit_detect_load_use_def HazardUnit_is_branch_or_jump_def
    HazardUnit_detect_id_ex_branch_hazard_def HazardUnit_detect_ex_mem_load_branch_hazard_def MemControlSignals_lw_def opcode_defs
    bind_flow_def clock_memory_def MemoryStage_execute_with_latch_def ExMemRegister_default_def MemControlSignals_default_def
    clock_execute_def ExControlSignals_load_def ExecuteStage_execute_def IdExRegister_default_def clock_data_read_def
    clock_decode_def DecodeStage_execute_def clock_branch_def control_defs Let_def PipelineCpu_is_sfence_vma_def demo_next
    RegIdx_is_zero_def clock_fetch_def FetchStage_fetch_def PredictorManager_predict_def next_fetch_def FetchStage_pre_fetch_def)

lemma demo_load_untrapped: "untrapped no_ops demo_load"
proof -
  have "bus_peripherals (pl_bus demo_load) = []" "pl_privilege demo_load = Machine" "\<not> Mstatus_mie (csr_mstatus (pl_csr demo_load))"
    by (simp_all add: demo_load_def demo_def Bus_new_def CsrFile_new_def Mstatus_mie_def flag_def)
  from quiet_interrupts [OF this, of no_ops] obtain f where f: "clock_interrupts no_ops demo_load = (Next (), demo_load\<lparr>pl_csr := f\<rparr>)" by blast
  have "\<not> pl_halted demo_load" by (simp add: demo_load_def demo_def)
  then show ?thesis using demo_load_stages [of f] by (auto simp: untrapped_def f bind_flow_def)
qed

theorem load_use_drops_load_witness:
  "\<not> em_valid (pl_ex_mem (snd (PipelineCpu_clock no_ops demo_load))) \<and> ie_valid (pl_id_ex demo_load)"
  using load_use_drops_load [OF demo_load_untrapped]
  by (simp add: demo_load_def demo_def demo_next HazardUnit_detect_load_use_def MemControlSignals_lw_def RegIdx_is_zero_def Let_def)

subsection \<open>Wrong results\<close>

text \<open>The instructions the pipeline gets wrong, as what their completion writes from the decoded ID/EX register:
  JAL and JALR do not write the return address but the register of the bits 19 to 15, for JALR plus the offset;
  AUIPC adds that register instead of its own address; SRAI shifts in zeros; MUL writes zero; and SRET
  is a trap return like MRET, which returns through \<open>mepc\<close> to the privilege in \<open>MPP\<close> whatever the current one.\<close>

definition decoded_commit :: "u32 \<Rightarrow> addr \<Rightarrow> registers \<Rightarrow> registers" where
  "decoded_commit i pc R =
     (case DecodeStage_execute \<lparr>ii_pc = pc, ii_instruction = i, ii_valid = True, ii_prediction = None\<rparr> R ExMemRegister_default
         MemWbRegister_default False of
        Inr ie \<Rightarrow> commit_ex ie R
      | Inl _ \<Rightarrow> R)"

theorem pipeline_wrong_results:
  "(Decoder_opcode i = OPC_JAL \<longrightarrow>
      decoded_commit i pc R = Registers_write R (Decoder_rd i) (Registers_read R (Decoder_rs1 i))) \<and>
   (Decoder_opcode i = OPC_JALR \<longrightarrow>
      decoded_commit i pc R = Registers_write R (Decoder_rd i) (Registers_read R (Decoder_rs1 i) + Decoder_imm_i i)) \<and>
   (Decoder_opcode i = OPC_AUIPC \<longrightarrow>
      decoded_commit i pc R = Registers_write R (Decoder_rd i) (Registers_read R (Decoder_rs1 i) + Decoder_imm_u i)) \<and>
   (Decoder_opcode i = OPC_OP_IMM \<and> Decoder_funct3 i = 5 \<longrightarrow>
      decoded_commit i pc R = Registers_write R (Decoder_rd i)
        (drop_bit (unat (Decoder_imm_i i AND 0x1F)) (Registers_read R (Decoder_rs1 i)))) \<and>
   (Decoder_opcode i = OPC_OP \<and> Decoder_funct3 i = 0 \<and> Decoder_funct7 i = 1 \<longrightarrow>
      decoded_commit i pc R = Registers_write R (Decoder_rd i) 0) \<and>
   (Decoder_decode i pc = Inr (DI_System opc rd rs1 0 0x102) \<longrightarrow>
      fst (DecodeStage_generate_control_signals (DI_System opc rd rs1 0 0x102) i) = ExControlSignals_trap_return \<and>
      pl_pc (PipelineCpu_execute_trap_return ops c) = csr_mepc (pl_csr c) \<and>
      pl_privilege (PipelineCpu_execute_trap_return ops c) = Mstatus_mpp (csr_mstatus (pl_csr c)))"
  by (auto simp: decoded_commit_def DecodeStage_execute_def Decoder_decode_def Let_def opcode_defs control_defs
    ExControlSignals_auipc_def Decoder_opcode_def DecodeStage_get_i_type_alu_op_def DecodeStage_get_r_type_alu_op_def commit_ex_def
    split_beta PipelineCpu_execute_trap_return_def set_pc_fields flush_fields Mepc_get_def)

lemma srai_fields: "Decoder_opcode 0x40115193 = OPC_OP_IMM" "Decoder_funct3 0x40115193 = 5" "Decoder_rd 0x40115193 = 3"
  "Decoder_rs1 0x40115193 = 2" "unat (Decoder_imm_i 0x40115193 AND 0x1F) = 1"
  by code_simp+

theorem pipeline_wrong_results_witness:
  "decoded_commit 0x40115193 0x80000000 (\<lambda>_. 0xFFFFFFF8) = Registers_write (\<lambda>_. 0xFFFFFFF8) 3 0x7FFFFFFC"
proof -
  have "drop_bit 1 (0xFFFFFFF8 :: u32) = 0x7FFFFFFC" by code_simp
  then show ?thesis
    using pipeline_wrong_results [where i = "0x40115193" and pc = "0x80000000" and R = "\<lambda>_. 0xFFFFFFF8",
        THEN conjunct2, THEN conjunct2, THEN conjunct2, THEN conjunct1]
    unfolding srai_fields by (simp add: Registers_read_def RegIdx_is_zero_def)
qed

end
