(* ===== verification/Executor.thy ===== *)
theory Executor
  imports Decode_Instr Reg_File Csr_File Trap_Handling Bus_Model "HOL-Library.Signed_Division"
begin

text \<open>
  The single-cycle executor: \<open>src/src/instruction/execute.rs\<close>, every \<open>execute_*\<close> method of
  \<open>impl Cpu\<close>.  The struct \<open>Cpu\<close> itself (\<open>cpu/core.rs\<close>) is not in the repository, since
  \<open>.gitignore\<close> excludes \<open>core.*\<close>; the methods the executor calls on it are the parameter
  \<open>cpu_ops\<close>, and the locale \<open>cpu_core\<close> states what is relied on: the accessors read back
  what was set and leave the other fields alone, and \<open>increment_pc\<close> adds 4.  A mutable borrow
  (\<open>registers_mut()\<close>, \<open>csr_mut()\<close>) is a read, a change and a write back.

  An operation returns its result with the state it leaves, on errors too; \<^const>\<open>None\<close>
  is the \<open>unreachable!()\<close> panic of \<open>execute_load\<close>.
\<close>

subsection \<open>The interface of the core\<close>

record 'c cpu_ops =
  co_registers :: "'c \<Rightarrow> registers"
  co_set_registers :: "registers \<Rightarrow> 'c \<Rightarrow> 'c"
  co_pc :: "'c \<Rightarrow> addr"
  co_set_pc :: "addr \<Rightarrow> 'c \<Rightarrow> 'c"
  co_increment_pc :: "'c \<Rightarrow> 'c"
  co_csr :: "'c \<Rightarrow> csr_file"
  co_set_csr :: "csr_file \<Rightarrow> 'c \<Rightarrow> 'c"
  co_privilege :: "'c \<Rightarrow> privilege"
  co_set_privilege :: "privilege \<Rightarrow> 'c \<Rightarrow> 'c"
  co_read_byte :: "addr \<Rightarrow> 'c \<Rightarrow> u8 result \<times> 'c"
  co_read_half :: "addr \<Rightarrow> 'c \<Rightarrow> u16 result \<times> 'c"
  co_read_word :: "addr \<Rightarrow> 'c \<Rightarrow> u32 result \<times> 'c"
  co_write_byte :: "addr \<Rightarrow> u8 \<Rightarrow> 'c \<Rightarrow> unit result \<times> 'c"
  co_write_half :: "addr \<Rightarrow> u16 \<Rightarrow> 'c \<Rightarrow> unit result \<times> 'c"
  co_write_word :: "addr \<Rightarrow> u32 \<Rightarrow> 'c \<Rightarrow> unit result \<times> 'c"
  co_set_atomic_reservation :: "addr \<Rightarrow> 'c \<Rightarrow> 'c"
  co_has_atomic_reservation :: "addr \<Rightarrow> 'c \<Rightarrow> bool"
  co_clear_atomic_reservation :: "'c \<Rightarrow> 'c"
  co_accept_ecall_exit :: "'c \<Rightarrow> bool"
  co_halt :: "'c \<Rightarrow> 'c"
  co_raise_exception :: "exception_cause \<Rightarrow> u32 \<Rightarrow> 'c \<Rightarrow> 'c"

text \<open>\<open>self.registers().read(r)\<close> and \<open>self.registers_mut().write(rd, v)\<close>.\<close>

definition get_reg :: "'c cpu_ops \<Rightarrow> regidx \<Rightarrow> 'c \<Rightarrow> u32" where
  "get_reg ops r c = Registers_read (co_registers ops c) r"

definition put_reg :: "'c cpu_ops \<Rightarrow> regidx \<Rightarrow> u32 \<Rightarrow> 'c \<Rightarrow> 'c" where
  "put_reg ops rd v c = co_set_registers ops (Registers_write (co_registers ops c) rd v) c"

definition unsupported :: "'c cpu_ops \<Rightarrow> 'c \<Rightarrow> unit result \<times> 'c" where
  "unsupported ops c = (Inl (UnsupportedInstruction (co_pc ops c)), c)"

subsection \<open>Register operations\<close>

text \<open>
  The \<open>match\<close> of \<open>execute_r_type\<close>, \<^const>\<open>None\<close> for its last arm.  The products of
  the \<open>i128\<close> and \<open>u128\<close> arms need 64 bits, so they are integers; Rust's \<open>/\<close> and
  \<open>%\<close> on \<open>i32\<close> round towards zero, as \<open>sdiv\<close> and \<open>smod\<close> do.
\<close>

definition i32_MIN :: int where "i32_MIN = - (2 ^ 31)"

definition r_type_result :: "u8 \<Rightarrow> u8 \<Rightarrow> u32 \<Rightarrow> u32 \<Rightarrow> u32 option" where
  "r_type_result f3 f7 a b =
     (if f3 = 0b000 \<and> f7 = 0b0000000 then Some (a + b)
      else if f3 = 0b000 \<and> f7 = 0b0100000 then Some (a - b)
      else if f3 = 0b000 \<and> f7 = 0b0000001 then Some (a * b)
      else if f3 = 0b111 \<and> f7 = 0b0000000 then Some (a AND b)
      else if f3 = 0b111 \<and> f7 = 0b0000001 then Some (if b = 0 then a else a mod b)
      else if f3 = 0b110 \<and> f7 = 0b0000000 then Some (a OR b)
      else if f3 = 0b110 \<and> f7 = 0b0000001 then
        (let dividend = Word_as_signed a; divisor = Word_as_signed b in
         Some (if divisor = 0 then word_of_int dividend
               else if dividend = i32_MIN \<and> divisor = -1 then 0
               else word_of_int (dividend smod divisor)))
      else if f3 = 0b100 \<and> f7 = 0b0000000 then Some (a XOR b)
      else if f3 = 0b100 \<and> f7 = 0b0000001 then
        (let dividend = Word_as_signed a; divisor = Word_as_signed b in
         Some (if divisor = 0 then 0xFFFFFFFF
               else if dividend = i32_MIN \<and> divisor = -1 then word_of_int i32_MIN
               else word_of_int (dividend sdiv divisor)))
      else if f3 = 0b001 \<and> f7 = 0b0000000 then Some (push_bit (unat (b AND 0x1F)) a)
      else if f3 = 0b001 \<and> f7 = 0b0000001 then
        Some (word_of_int (drop_bit 32 (Word_as_signed a * Word_as_signed b)))
      else if f3 = 0b101 \<and> f7 = 0b0000000 then Some (drop_bit (unat (b AND 0x1F)) a)
      else if f3 = 0b101 \<and> f7 = 0b0100000 then
        Some (word_of_int (drop_bit (unat (b AND 0x1F)) (Word_as_signed a)))
      else if f3 = 0b101 \<and> f7 = 0b0000001 then Some (if b = 0 then 0xFFFFFFFF else a div b)
      else if f3 = 0b010 \<and> f7 = 0b0000000 then
        Some (if Word_as_signed a < Word_as_signed b then 1 else 0)
      else if f3 = 0b010 \<and> f7 = 0b0000001 then
        Some (word_of_int (drop_bit 32 (Word_as_signed a * uint b)))
      else if f3 = 0b011 \<and> f7 = 0b0000000 then Some (if a < b then 1 else 0)
      else if f3 = 0b011 \<and> f7 = 0b0000001 then
        Some (word_of_int (drop_bit 32 (uint a * uint b)))
      else None)"

definition execute_r_type :: "'c cpu_ops \<Rightarrow> r_type \<Rightarrow> 'c \<Rightarrow> unit result \<times> 'c" where
  "execute_r_type ops i c =
     (let rs1_val = get_reg ops (rt_rs1 i) c; rs2_val = get_reg ops (rt_rs2 i) c in
      case r_type_result (rt_funct3 i) (rt_funct7 i) rs1_val rs2_val of
        None \<Rightarrow> unsupported ops c
      | Some result \<Rightarrow> (Inr (), co_increment_pc ops (put_reg ops (rt_rd i) result c)))"

text \<open>The \<open>match\<close> of \<open>execute_i_type\<close>; an \<open>i32\<close> immediate is its word.\<close>

definition i_type_result :: "u8 \<Rightarrow> u32 \<Rightarrow> u32 \<Rightarrow> u32 option" where
  "i_type_result f3 a imm =
     (if f3 = 0b000 then Some (a + imm)
      else if f3 = 0b010 then Some (if Word_as_signed a < sint imm then 1 else 0)
      else if f3 = 0b011 then Some (if a < imm then 1 else 0)
      else if f3 = 0b111 then Some (a AND imm)
      else if f3 = 0b110 then Some (a OR imm)
      else if f3 = 0b100 then Some (a XOR imm)
      else if f3 = 0b001 then Some (push_bit (unat (imm AND 0x1F)) a)
      else if f3 = 0b101 then
        (let shamt = unat (imm AND 0x1F); is_arithmetic = (imm AND 0x400 \<noteq> 0) in
         Some (if is_arithmetic then word_of_int (drop_bit shamt (Word_as_signed a)) else drop_bit shamt a))
      else None)"

definition execute_i_type :: "'c cpu_ops \<Rightarrow> i_type \<Rightarrow> 'c \<Rightarrow> unit result \<times> 'c" where
  "execute_i_type ops i c =
     (case i_type_result (it_funct3 i) (get_reg ops (it_rs1 i) c) (it_imm i) of
        None \<Rightarrow> unsupported ops c
      | Some result \<Rightarrow> (Inr (), co_increment_pc ops (put_reg ops (it_rd i) result c)))"

subsection \<open>Loads and stores\<close>

definition finish_load :: "'c cpu_ops \<Rightarrow> regidx \<Rightarrow> u32 \<Rightarrow> 'c \<Rightarrow> unit result \<times> 'c" where
  "finish_load ops rd result c = (Inr (), co_increment_pc ops (put_reg ops rd result c))"

definition execute_load :: "'c cpu_ops \<Rightarrow> i_type \<Rightarrow> u32 \<Rightarrow> 'c \<Rightarrow> (unit result \<times> 'c) option" where
  "execute_load ops i rs1_val c =
     (let addr = rs1_val + it_imm i; f3 = it_funct3 i; rd = it_rd i in
      if f3 = 0b000 then
        Some (bind_st (co_read_byte ops addr c) (\<lambda>b. finish_load ops rd (Word_from_byte b)))
      else if f3 = 0b001 then
        Some (bind_st (co_read_half ops addr c) (\<lambda>h. finish_load ops rd (Word_from_half h)))
      else if f3 = 0b010 then
        Some (bind_st (co_read_word ops addr c) (\<lambda>w. finish_load ops rd w))
      else if f3 = 0b100 then
        Some (bind_st (co_read_byte ops addr c) (\<lambda>b. finish_load ops rd (Word_from_byte_zero b)))
      else if f3 = 0b101 then
        Some (bind_st (co_read_half ops addr c) (\<lambda>h. finish_load ops rd (Word_from_half_zero h)))
      else None)"

definition execute_s_type :: "'c cpu_ops \<Rightarrow> s_type \<Rightarrow> 'c \<Rightarrow> unit result \<times> 'c" where
  "execute_s_type ops i c =
     (let rs1_val = get_reg ops (st_rs1 i) c; rs2_val = get_reg ops (st_rs2 i) c;
          addr = rs1_val + st_imm i; f3 = st_funct3 i; next = (\<lambda>_ c. (Inr (), co_increment_pc ops c)) in
      if f3 = 0b000 then bind_st (co_write_byte ops addr (ucast rs2_val) c) next
      else if f3 = 0b001 then bind_st (co_write_half ops addr (ucast rs2_val) c) next
      else if f3 = 0b010 then bind_st (co_write_word ops addr rs2_val c) next
      else unsupported ops c)"

subsection \<open>Branches and jumps\<close>

definition b_type_taken :: "u8 \<Rightarrow> u32 \<Rightarrow> u32 \<Rightarrow> bool option" where
  "b_type_taken f3 a b =
     (if f3 = 0b000 then Some (a = b)
      else if f3 = 0b001 then Some (a \<noteq> b)
      else if f3 = 0b100 then Some (Word_as_signed a < Word_as_signed b)
      else if f3 = 0b101 then Some (Word_as_signed a \<ge> Word_as_signed b)
      else if f3 = 0b110 then Some (a < b)
      else if f3 = 0b111 then Some (a \<ge> b)
      else None)"

definition execute_b_type :: "'c cpu_ops \<Rightarrow> b_type \<Rightarrow> 'c \<Rightarrow> unit result \<times> 'c" where
  "execute_b_type ops i c =
     (case b_type_taken (bt_funct3 i) (get_reg ops (bt_rs1 i) c) (get_reg ops (bt_rs2 i) c) of
        None \<Rightarrow> unsupported ops c
      | Some take_branch \<Rightarrow>
          (if take_branch then (Inr (), co_set_pc ops (co_pc ops c + bt_imm i) c)
           else (Inr (), co_increment_pc ops c)))"

definition execute_u_type :: "'c cpu_ops \<Rightarrow> u_type \<Rightarrow> 'c \<Rightarrow> unit result \<times> 'c" where
  "execute_u_type ops i c = (Inr (), co_increment_pc ops (put_reg ops (ut_rd i) (ut_imm i) c))"

definition execute_lui :: "'c cpu_ops \<Rightarrow> regidx \<Rightarrow> u32 \<Rightarrow> 'c \<Rightarrow> unit result \<times> 'c" where
  "execute_lui ops rd imm c = (Inr (), co_increment_pc ops (put_reg ops rd imm c))"

definition execute_auipc :: "'c cpu_ops \<Rightarrow> regidx \<Rightarrow> u32 \<Rightarrow> 'c \<Rightarrow> unit result \<times> 'c" where
  "execute_auipc ops rd imm c =
     (Inr (), co_increment_pc ops (put_reg ops rd (co_pc ops c + imm) c))"

definition execute_j_type :: "'c cpu_ops \<Rightarrow> j_type \<Rightarrow> 'c \<Rightarrow> unit result \<times> 'c" where
  "execute_j_type ops i c =
     (let c = put_reg ops (jt_rd i) (co_pc ops c + 4) c
      in (Inr (), co_set_pc ops (co_pc ops c + jt_imm i) c))"

definition execute_jalr :: "'c cpu_ops \<Rightarrow> i_type \<Rightarrow> 'c \<Rightarrow> unit result \<times> 'c" where
  "execute_jalr ops i c =
     (let rs1_val = get_reg ops (it_rs1 i) c; c = put_reg ops (it_rd i) (co_pc ops c + 4) c
      in (Inr (), co_set_pc ops ((rs1_val + it_imm i) AND NOT 1) c))"

subsection \<open>Atomics\<close>

text \<open>The shape every \<open>AMO*\<close> arm repeats: \<open>f old src\<close> is what it writes.\<close>

definition amo_arm :: "'c cpu_ops \<Rightarrow> (u32 \<Rightarrow> u32 \<Rightarrow> u32) \<Rightarrow> regidx \<Rightarrow> regidx \<Rightarrow> regidx \<Rightarrow> 'c \<Rightarrow> unit result \<times> 'c" where
  "amo_arm ops f rd rs1 rs2 c =
     (let addr = get_reg ops rs1 c; src = get_reg ops rs2 c in
      bind_st (co_read_word ops addr c) (\<lambda>old c.
      bind_st (co_write_word ops addr (f old src) c) (\<lambda>_ c.
        (Inr (), co_increment_pc ops (put_reg ops rd old c)))))"

definition amo_result :: "u8 \<Rightarrow> (u32 \<Rightarrow> u32 \<Rightarrow> u32) option" where
  "amo_result f5 =
     (if f5 = 0b00000 then Some (\<lambda>old src. old + src)
      else if f5 = 0b00001 then Some (\<lambda>old src. src)
      else if f5 = 0b00100 then Some (\<lambda>old src. old XOR src)
      else if f5 = 0b01100 then Some (\<lambda>old src. old AND src)
      else if f5 = 0b01000 then Some (\<lambda>old src. old OR src)
      else if f5 = 0b10000 then Some (\<lambda>old src. if Word_as_signed old < sint src then old else src)
      else if f5 = 0b10100 then Some (\<lambda>old src. if Word_as_signed old > sint src then old else src)
      else if f5 = 0b11000 then Some (\<lambda>old src. if old < src then old else src)
      else if f5 = 0b11100 then Some (\<lambda>old src. if old > src then old else src)
      else None)"

definition execute_amo :: "'c cpu_ops \<Rightarrow> u32 \<Rightarrow> 'c \<Rightarrow> unit result \<times> 'c" where
  "execute_amo ops instruction c =
     (let f3 = Decoder_funct3 instruction; rd = Decoder_rd instruction; rs1 = Decoder_rs1 instruction;
          rs2 = Decoder_rs2 instruction; f5 = (ucast (drop_bit 27 instruction AND 0x1F) :: u8) in
      if f3 \<noteq> 0b010 then unsupported ops c
      else if f5 = 0b00010 then
        (let addr = get_reg ops rs1 c in
         bind_st (co_read_word ops addr c) (\<lambda>old c.
           (Inr (), co_increment_pc ops (put_reg ops rd old (co_set_atomic_reservation ops addr c)))))
      else if f5 = 0b00011 then
        (let addr = get_reg ops rs1 c; src = get_reg ops rs2 c; success = co_has_atomic_reservation ops addr c in
         bind_st
           (if success then
              bind_st (co_write_word ops addr src c) (\<lambda>_ c. (Inr (), put_reg ops rd 0 c))
            else (Inr (), put_reg ops rd 1 c))
           (\<lambda>_ c. (Inr (), co_increment_pc ops (co_clear_atomic_reservation ops c))))
      else (case amo_result f5 of
              Some f \<Rightarrow> amo_arm ops f rd rs1 rs2 c
            | None \<Rightarrow> unsupported ops c))"

subsection \<open>System instructions\<close>

definition execute_mret :: "'c cpu_ops \<Rightarrow> 'c \<Rightarrow> unit result \<times> 'c" where
  "execute_mret ops c =
     (if co_privilege ops c \<noteq> Machine then (Inl (InvalidInstruction (co_pc ops c) 0x30200073), c)
      else
        (let f = co_csr ops c; return_pc = Mepc_get (csr_mepc f);
             new_priv = Mstatus_mpp (csr_mstatus f); mpie = Mstatus_mpie (csr_mstatus f);
             ms = Mstatus_set_mpp (Mstatus_set_mpie (Mstatus_set_mie (csr_mstatus f) mpie) True) User;
             c = co_set_csr ops (f\<lparr>csr_mstatus := ms\<rparr>) c
         in (Inr (), co_set_pc ops return_pc (co_set_privilege ops new_priv c))))"

definition execute_sret :: "'c cpu_ops \<Rightarrow> 'c \<Rightarrow> unit result \<times> 'c" where
  "execute_sret ops c =
     (if co_privilege ops c \<noteq> Supervisor then (Inl (InvalidInstruction (co_pc ops c) 0x10200073), c)
      else
        (let f = co_csr ops c; return_pc = Sepc_get (csr_sepc f);
             new_priv = (if Sstatus_spp (csr_sstatus f) then Supervisor else User);
             spie = Sstatus_spie (csr_sstatus f);
             ss = Sstatus_set_spp (Sstatus_set_spie (Sstatus_set_sie (csr_sstatus f) spie) True) User;
             c = co_set_csr ops (f\<lparr>csr_sstatus := ss\<rparr>) c
         in (Inr (), co_set_pc ops return_pc (co_set_privilege ops new_priv c))))"

definition LINUX_EXIT_SYSCALL :: u32 where "LINUX_EXIT_SYSCALL = 93"

text \<open>The \<open>funct3\<close> of the CSR instructions; the inner \<open>unreachable!()\<close> is not reached.\<close>

definition csr_op_of_funct3 :: "u8 \<Rightarrow> csr_op option" where
  "csr_op_of_funct3 f3 =
     (if f3 = 0b001 then Some CSR_RW else if f3 = 0b010 then Some CSR_RS else if f3 = 0b011 then Some CSR_RC
      else if f3 = 0b101 then Some CSR_RWI else if f3 = 0b110 then Some CSR_RSI
      else if f3 = 0b111 then Some CSR_RCI else None)"

definition execute_csr :: "'c cpu_ops \<Rightarrow> csr_op \<Rightarrow> regidx \<Rightarrow> regidx \<Rightarrow> u32 \<Rightarrow> 'c \<Rightarrow> unit result \<times> 'c" where
  "execute_csr ops op rd rs1 imm c =
     (let csr_addr = (ucast (imm AND 0xFFF) :: u16);
          rs1_val = (if CsrOp_is_imm op then ucast rs1 else get_reg ops rs1 c);
          privilege = co_privilege ops c;
          (r, f) = CsrFile_execute (co_csr ops c) op csr_addr rs1_val privilege
      in bind_st (r, co_set_csr ops f c) (\<lambda>old c.
           (Inr (), co_increment_pc ops (if \<not> RegIdx_is_zero rd then put_reg ops rd old c else c))))"

definition execute_priv :: "'c cpu_ops \<Rightarrow> u32 \<Rightarrow> 'c \<Rightarrow> unit result \<times> 'c" where
  "execute_priv ops f12 c =
     (if f12 = 0 then
        (if co_accept_ecall_exit ops c \<and> get_reg ops 17 c = LINUX_EXIT_SYSCALL then (Inr (), co_halt ops c)
         else (Inr (), co_raise_exception ops (ExceptionCause_ecall_from (co_privilege ops c)) 0 c))
      else if f12 = 1 then (Inr (), co_raise_exception ops Breakpoint 0 c)
      else if f12 = 0x002 then (Inr (), co_increment_pc ops c)
      else if f12 = 0x102 then execute_sret ops c
      else if f12 = 0x105 then (Inr (), co_increment_pc ops c)
      else if f12 = 0x120 then (Inr (), co_increment_pc ops c)
      else if f12 = 0x302 then execute_mret ops c
      else unsupported ops c)"

definition execute_system ::
  "'c cpu_ops \<Rightarrow> u8 \<Rightarrow> regidx \<Rightarrow> regidx \<Rightarrow> u8 \<Rightarrow> u32 \<Rightarrow> 'c \<Rightarrow> unit result \<times> 'c" where
  "execute_system ops op rd rs1 f3 imm c =
     (if op = OPC_FENCE then (Inr (), co_increment_pc ops c)
      else if f3 = 0 then execute_priv ops (imm AND 0xFFF) c
      else (case csr_op_of_funct3 f3 of
              Some csr_op \<Rightarrow> execute_csr ops csr_op rd rs1 imm c
            | None \<Rightarrow> unsupported ops c))"

subsection \<open>Dispatch\<close>

fun execute_decoded :: "'c cpu_ops \<Rightarrow> decoded_instr \<Rightarrow> 'c \<Rightarrow> (unit result \<times> 'c) option" where
  "execute_decoded ops (DI_R r) c = Some (execute_r_type ops r c)"
| "execute_decoded ops (DI_I i) c = Some (execute_i_type ops i c)"
| "execute_decoded ops (DI_Load i) c = execute_load ops i (get_reg ops (it_rs1 i) c) c"
| "execute_decoded ops (DI_Jalr i) c = Some (execute_jalr ops i c)"
| "execute_decoded ops (DI_S s) c = Some (execute_s_type ops s c)"
| "execute_decoded ops (DI_B b) c = Some (execute_b_type ops b c)"
| "execute_decoded ops (DI_U u) c = Some (execute_u_type ops u c)"
| "execute_decoded ops (DI_J j) c = Some (execute_j_type ops j c)"
| "execute_decoded ops (DI_System op rd rs1 f3 imm) c = Some (execute_system ops op rd rs1 f3 imm c)"

subsection \<open>Coprocessor instructions\<close>

definition LPU_OPCODES :: "u32 list" where
  "LPU_OPCODES = [0x10, 0x11, 0x12, 0x13, 0x14]"

definition custom0_base :: "u32 \<Rightarrow> addr option" where
  "custom0_base instruction =
     (let f3 = Decoder_funct3 instruction; cop_op = (ucast (Decoder_funct7 instruction AND 0x1F) :: u32) in
      if f3 = 0 then (if cop_op > 3 then None else Some NPU_BASE)
      else if f3 = 1 then (if cop_op \<notin> set LPU_OPCODES then None else Some LPU_BASE)
      else None)"

definition execute_custom0 :: "'c cpu_ops \<Rightarrow> u32 \<Rightarrow> 'c \<Rightarrow> unit result \<times> 'c" where
  "execute_custom0 ops instruction c =
     (let rd = Decoder_rd instruction; op_a = get_reg ops (Decoder_rs1 instruction) c;
          op_b = get_reg ops (Decoder_rs2 instruction) c;
          cop_op = ucast (Decoder_funct7 instruction AND 0x1F) in
      case custom0_base instruction of
        None \<Rightarrow> unsupported ops c
      | Some base \<Rightarrow>
          bind_st (co_write_word ops (base + 0x08) op_a c) (\<lambda>_ c.
          bind_st (co_write_word ops (base + 0x0C) op_b c) (\<lambda>_ c.
          bind_st (co_write_word ops (base + 0x14) cop_op c) (\<lambda>_ c.
          bind_st (co_write_word ops (base + 0x00) 1 c) (\<lambda>_ c.
          bind_st (co_read_word ops (base + 0x10) c) (\<lambda>result c.
            (Inr (), co_increment_pc ops (put_reg ops rd result c))))))))"

end
