(* ===== verification/Exec_Core.thy ===== *)
theory Exec_Core
  imports Executor
begin

text \<open>
  The contract of the processor core the executor runs on, what the executor guarantees over any
  core that keeps it, and a core assembled from the modelled components that keeps it.
\<close>

subsection \<open>The contract\<close>

text \<open>The encodings of \<open>LR.W\<close> and \<open>SC.W\<close>.\<close>

definition amo_funct5 :: "u32 \<Rightarrow> u8" where
  "amo_funct5 i = ucast (drop_bit 27 i AND 0x1F)"

definition is_lr :: "u32 \<Rightarrow> bool" where
  "is_lr i \<longleftrightarrow> Decoder_funct3 i = 2 \<and> amo_funct5 i = 2"

definition is_sc :: "u32 \<Rightarrow> bool" where
  "is_sc i \<longleftrightarrow> Decoder_funct3 i = 2 \<and> amo_funct5 i = 3"

text \<open>
  \<open>get\<close>/\<open>set\<close> accessors of distinct fields; \<open>increment_pc\<close> is \<open>ProgramCounter::increment\<close>; a data access
  changes neither the registers nor the program counter nor the privilege; the reservation is one
  address, set and cleared by its own operations.
\<close>

locale cpu_core =
  fixes ops :: "'c cpu_ops"
  assumes registers_laws:
      "co_registers ops (co_set_registers ops r c) = r"
      "co_registers ops (co_set_pc ops p c) = co_registers ops c"
      "co_registers ops (co_increment_pc ops c) = co_registers ops c"
      "co_registers ops (co_set_csr ops f c) = co_registers ops c"
      "co_registers ops (co_set_privilege ops m c) = co_registers ops c"
      "co_registers ops (co_set_atomic_reservation ops a c) = co_registers ops c"
      "co_registers ops (co_clear_atomic_reservation ops c) = co_registers ops c"
    and pc_laws:
      "co_pc ops (co_set_registers ops r c) = co_pc ops c"
      "co_pc ops (co_set_pc ops p c) = p"
      "co_pc ops (co_increment_pc ops c) = co_pc ops c + 4"
      "co_pc ops (co_set_csr ops f c) = co_pc ops c"
      "co_pc ops (co_set_privilege ops m c) = co_pc ops c"
      "co_pc ops (co_set_atomic_reservation ops a c) = co_pc ops c"
      "co_pc ops (co_clear_atomic_reservation ops c) = co_pc ops c"
    and csr_laws:
      "co_csr ops (co_set_registers ops r c) = co_csr ops c"
      "co_csr ops (co_set_pc ops p c) = co_csr ops c"
      "co_csr ops (co_increment_pc ops c) = co_csr ops c"
      "co_csr ops (co_set_csr ops f c) = f"
      "co_csr ops (co_set_privilege ops m c) = co_csr ops c"
    and privilege_laws:
      "co_privilege ops (co_set_registers ops r c) = co_privilege ops c"
      "co_privilege ops (co_set_pc ops p c) = co_privilege ops c"
      "co_privilege ops (co_increment_pc ops c) = co_privilege ops c"
      "co_privilege ops (co_set_csr ops f c) = co_privilege ops c"
      "co_privilege ops (co_set_privilege ops m c) = m"
      "co_privilege ops (co_set_atomic_reservation ops a c) = co_privilege ops c"
      "co_privilege ops (co_clear_atomic_reservation ops c) = co_privilege ops c"
      "co_privilege ops (co_halt ops c) = co_privilege ops c"
    and reservation_laws:
      "co_has_atomic_reservation ops b (co_set_registers ops r c) = co_has_atomic_reservation ops b c"
      "co_has_atomic_reservation ops b (co_increment_pc ops c) = co_has_atomic_reservation ops b c"
      "co_has_atomic_reservation ops b (co_set_atomic_reservation ops a c) \<longleftrightarrow> b = a"
      "\<not> co_has_atomic_reservation ops b (co_clear_atomic_reservation ops c)"
    and access_registers:
      "co_registers ops (snd (co_read_byte ops a c)) = co_registers ops c"
      "co_registers ops (snd (co_read_half ops a c)) = co_registers ops c"
      "co_registers ops (snd (co_read_word ops a c)) = co_registers ops c"
      "co_registers ops (snd (co_write_byte ops a x8 c)) = co_registers ops c"
      "co_registers ops (snd (co_write_half ops a x16 c)) = co_registers ops c"
      "co_registers ops (snd (co_write_word ops a x32 c)) = co_registers ops c"
    and access_pc:
      "co_pc ops (snd (co_read_byte ops a c)) = co_pc ops c"
      "co_pc ops (snd (co_read_half ops a c)) = co_pc ops c"
      "co_pc ops (snd (co_read_word ops a c)) = co_pc ops c"
      "co_pc ops (snd (co_write_byte ops a x8 c)) = co_pc ops c"
      "co_pc ops (snd (co_write_half ops a x16 c)) = co_pc ops c"
      "co_pc ops (snd (co_write_word ops a x32 c)) = co_pc ops c"
    and access_privilege:
      "co_privilege ops (snd (co_read_byte ops a c)) = co_privilege ops c"
      "co_privilege ops (snd (co_read_half ops a c)) = co_privilege ops c"
      "co_privilege ops (snd (co_read_word ops a c)) = co_privilege ops c"
      "co_privilege ops (snd (co_write_byte ops a x8 c)) = co_privilege ops c"
      "co_privilege ops (snd (co_write_half ops a x16 c)) = co_privilege ops c"
      "co_privilege ops (snd (co_write_word ops a x32 c)) = co_privilege ops c"
begin

lemmas core_laws = registers_laws pc_laws csr_laws privilege_laws reservation_laws

lemma put_reg_laws:
  "co_registers ops (put_reg ops rd v c) = Registers_write (co_registers ops c) rd v"
  "co_pc ops (put_reg ops rd v c) = co_pc ops c"
  "co_csr ops (put_reg ops rd v c) = co_csr ops c"
  "co_privilege ops (put_reg ops rd v c) = co_privilege ops c"
  "co_has_atomic_reservation ops b (put_reg ops rd v c) = co_has_atomic_reservation ops b c"
  by (simp_all add: put_reg_def core_laws)

text \<open>What every operation keeps: the privilege, unless it is a trap or a trap return.\<close>

lemma keep_bind:
  assumes "co_privilege ops (snd m) = p" "\<And>a s. co_privilege ops s = p \<Longrightarrow> co_privilege ops (snd (f a s)) = p"
  shows "co_privilege ops (snd (bind_st m f)) = p"
  using assms by (cases m; cases "fst m") (auto simp: bind_st_def)

lemma keep_unsupported: "snd (unsupported ops c) = c"
  by (simp add: unsupported_def)

lemma keep_register_ops:
  "co_privilege ops (snd (execute_r_type ops r c)) = co_privilege ops c"
  "co_privilege ops (snd (execute_i_type ops i c)) = co_privilege ops c"
  "co_privilege ops (snd (execute_b_type ops b c)) = co_privilege ops c"
  "co_privilege ops (snd (execute_u_type ops u c)) = co_privilege ops c"
  "co_privilege ops (snd (execute_j_type ops j c)) = co_privilege ops c"
  "co_privilege ops (snd (execute_jalr ops i c)) = co_privilege ops c"
  by (simp_all add: execute_r_type_def execute_i_type_def execute_b_type_def execute_u_type_def execute_j_type_def
      execute_jalr_def Let_def keep_unsupported put_reg_laws privilege_laws split: option.split)

lemma keep_load: "execute_load ops i v c = Some (res, c') \<Longrightarrow> co_privilege ops c' = co_privilege ops c"
proof -
  assume "execute_load ops i v c = Some (res, c')"
  moreover have fin: "co_privilege ops s = p \<Longrightarrow> co_privilege ops (snd (finish_load ops rd w s)) = p" for s p rd w
    by (simp add: finish_load_def put_reg_laws privilege_laws)
  note keep = keep_bind [OF access_privilege(1) fin] keep_bind [OF access_privilege(2) fin] keep_bind [OF access_privilege(3) fin]
  ultimately show ?thesis
    unfolding execute_load_def Let_def by (auto split: if_splits dest!: arg_cong [where f = snd] simp: keep)
qed

lemma keep_store: "co_privilege ops (snd (execute_s_type ops i c)) = co_privilege ops c"
  unfolding execute_s_type_def Let_def
  by (auto simp: keep_unsupported access_privilege privilege_laws intro!: keep_bind)

lemma keep_csr: "co_privilege ops (snd (execute_csr ops op rd rs1 imm c)) = co_privilege ops c"
  unfolding execute_csr_def Let_def
  by (auto simp: privilege_laws put_reg_laws split: prod.split intro!: keep_bind)

lemma mret_privilege: "co_privilege ops (snd (execute_mret ops c)) \<le> co_privilege ops c"
  by (cases "Mstatus_mpp (csr_mstatus (co_csr ops c))")
    (auto simp: execute_mret_def Let_def privilege_laws less_eq_privilege_def)

lemma sret_privilege: "co_privilege ops (snd (execute_sret ops c)) \<le> co_privilege ops c"
  by (auto simp: execute_sret_def Let_def privilege_laws less_eq_privilege_def)

lemma decoded_privilege:
  assumes "execute_decoded ops d c = Some (res, c')"
    and "\<And>op rd rs1 imm. d = DI_System op rd rs1 0 imm \<Longrightarrow> imm AND 0xFFF \<noteq> 0 \<and> imm AND 0xFFF \<noteq> 1"
  shows "co_privilege ops c' \<le> co_privilege ops c"
proof (cases d)
  case (DI_System op rd rs1 f3 imm)
  have "co_privilege ops (snd (execute_system ops op rd rs1 f3 imm c)) \<le> co_privilege ops c"
    using assms(2) [of op rd rs1 imm] DI_System unfolding execute_system_def execute_priv_def
    by (auto simp: privilege_laws keep_unsupported keep_csr mret_privilege sret_privilege split: option.split)
  then show ?thesis using assms(1) DI_System by simp
qed (use assms(1) keep_load in \<open>auto simp: keep_register_ops keep_store dest!: arg_cong [where f = snd]\<close>)

subsection \<open>Load-reserved and store-conditional\<close>

lemma lr_reserves:
  assumes "is_lr i" "execute_amo ops i c = (Inr (), c')"
  shows "co_has_atomic_reservation ops b c' \<longleftrightarrow> b = get_reg ops (Decoder_rs1 i) c"
proof -
  obtain old c1 where "co_read_word ops (get_reg ops (Decoder_rs1 i) c) c = (Inr old, c1)"
    "c' = co_increment_pc ops (put_reg ops (Decoder_rd i) old
       (co_set_atomic_reservation ops (get_reg ops (Decoder_rs1 i) c) c1))"
    using assms by (auto simp: execute_amo_def is_lr_def amo_funct5_def Let_def bind_st_Inr)
  then show ?thesis by (simp add: reservation_laws put_reg_laws)
qed

lemma sc_stores:
  assumes "is_sc i" "co_has_atomic_reservation ops (get_reg ops (Decoder_rs1 i) c) c"
  shows "execute_amo ops i c =
    (case co_write_word ops (get_reg ops (Decoder_rs1 i) c) (get_reg ops (Decoder_rs2 i) c) c of
       (Inl e, c') \<Rightarrow> (Inl e, c')
     | (Inr _, c') \<Rightarrow> (Inr (), co_increment_pc ops (co_clear_atomic_reservation ops (put_reg ops (Decoder_rd i) 0 c'))))"
  using assms by (simp add: execute_amo_def is_sc_def amo_funct5_def Let_def bind_st_def split: prod.split sum.split)

lemma sc_unreserved:
  assumes "is_sc i" "\<not> co_has_atomic_reservation ops (get_reg ops (Decoder_rs1 i) c) c"
  shows "execute_amo ops i c = (Inr (), co_increment_pc ops (co_clear_atomic_reservation ops (put_reg ops (Decoder_rd i) 1 c)))"
  using assms by (simp add: execute_amo_def is_sc_def amo_funct5_def Let_def)

lemma sc_clears:
  assumes "is_sc i" "execute_amo ops i c = (Inr (), c')"
  shows "\<not> co_has_atomic_reservation ops b c'"
  using assms by (auto simp: execute_amo_def is_sc_def amo_funct5_def Let_def bind_st_Inr reservation_laws split: if_splits)

end

subsection \<open>A core of the modelled components\<close>

text \<open>
  Registers, CSR file, bus and a reservation, with the trap entry and delegation of the pipeline.  It stands in
  for the missing \<open>Cpu\<close> where a statement over any core is applied to a concrete one, and in the two statements
  about an accelerator instruction, of which it is only the registers, the program counter and the bus.
\<close>

record 'd plain_core =
  pk_regs :: registers
  pk_pc :: program_counter
  pk_csr :: csr_file
  pk_privilege :: privilege
  pk_bus :: "'d bus"
  pk_reservation :: "addr option"
  pk_exit :: bool
  pk_halted :: bool

definition on_pk_bus :: "('d bus \<Rightarrow> 'a \<times> 'd bus) \<Rightarrow> 'd plain_core \<Rightarrow> 'a \<times> 'd plain_core" where
  "on_pk_bus f c = (let (r, b) = f (pk_bus c) in (r, c\<lparr>pk_bus := b\<rparr>))"

definition pk_raise :: "exception_cause \<Rightarrow> u32 \<Rightarrow> 'd plain_core \<Rightarrow> 'd plain_core" where
  "pk_raise cause tval c =
     (let (f, handler, m) = take_trap_csr (Trap_exception cause (pk_pc c) tval) (pk_csr c) (pk_privilege c)
      in c\<lparr>pk_csr := f, pk_pc := handler, pk_privilege := m\<rparr>)"

definition plain_ops :: "'d other_ops \<Rightarrow> 'd plain_core cpu_ops" where
  "plain_ops oo =
     \<lparr>co_registers = pk_regs, co_set_registers = (\<lambda>r c. c\<lparr>pk_regs := r\<rparr>),
      co_pc = pk_pc, co_set_pc = (\<lambda>p c. c\<lparr>pk_pc := p\<rparr>), co_increment_pc = (\<lambda>c. c\<lparr>pk_pc := PC_increment (pk_pc c)\<rparr>),
      co_csr = pk_csr, co_set_csr = (\<lambda>f c. c\<lparr>pk_csr := f\<rparr>),
      co_privilege = pk_privilege, co_set_privilege = (\<lambda>m c. c\<lparr>pk_privilege := m\<rparr>),
      co_read_byte = (\<lambda>a. on_pk_bus (\<lambda>b. Bus_read_byte oo b a)),
      co_read_half = (\<lambda>a. on_pk_bus (\<lambda>b. Bus_read_half oo b a)),
      co_read_word = (\<lambda>a. on_pk_bus (\<lambda>b. Bus_read_word oo b a)),
      co_write_byte = (\<lambda>a v. on_pk_bus (\<lambda>b. Bus_write_byte oo b a v)),
      co_write_half = (\<lambda>a v. on_pk_bus (\<lambda>b. Bus_write_half oo b a v)),
      co_write_word = (\<lambda>a v. on_pk_bus (\<lambda>b. Bus_write_word oo b a v)),
      co_set_atomic_reservation = (\<lambda>a c. c\<lparr>pk_reservation := Some a\<rparr>),
      co_has_atomic_reservation = (\<lambda>a c. pk_reservation c = Some a),
      co_clear_atomic_reservation = (\<lambda>c. c\<lparr>pk_reservation := None\<rparr>),
      co_accept_ecall_exit = pk_exit, co_halt = (\<lambda>c. c\<lparr>pk_halted := True\<rparr>),
      co_raise_exception = pk_raise\<rparr>"

lemma on_pk_bus_other [simp]:
  "pk_regs (snd (on_pk_bus f c)) = pk_regs c" "pk_pc (snd (on_pk_bus f c)) = pk_pc c"
  "pk_privilege (snd (on_pk_bus f c)) = pk_privilege c"
  by (simp_all add: on_pk_bus_def split: prod.split)

interpretation plain: cpu_core "plain_ops oo" for oo :: "'d other_ops"
  by unfold_locales (auto simp: plain_ops_def PC_increment_def Addr_add_def)

lemma plain_core_ok: "cpu_core (plain_ops oo)"
  by unfold_locales

text \<open>A core with 8 bytes of RAM at \<open>0x80000000\<close>, in machine mode at address 0.\<close>

definition small_core :: "unit plain_core" where
  "small_core = \<lparr>pk_regs = Registers_write (Registers_write Registers_new 1 0x80000004) 2 7, pk_pc = 0, pk_csr = CsrFile_new,
     pk_privilege = Machine, pk_bus = small_bus, pk_reservation = None, pk_exit = False, pk_halted = False\<rparr>"

end
