(* ===== verification/Exec_Correct.thy ===== *)
theory Exec_Correct
  imports Exec_Core Pipe_Program
begin

text \<open>
  The executor against the instruction set.  The reference interpreter of \<open>Pipe_Correct\<close> is
  extended by SRAI, the linking jumps and the M extension, stated over the integers; over any
  core that keeps the contract, \<open>execute_decoded\<close> is that interpreter.  With the statement about the
  pipeline this makes the two execution engines agree.
\<close>

subsection \<open>The reference interpreter with the M extension\<close>

definition rv_m :: "u8 \<Rightarrow> u32 \<Rightarrow> u32 \<Rightarrow> u32" where
  "rv_m f3 a b =
     (if f3 = 0 then a * b
      else if f3 = 1 then word_of_int ((sint a * sint b) div 2 ^ 32)
      else if f3 = 2 then word_of_int ((sint a * uint b) div 2 ^ 32)
      else if f3 = 3 then word_of_int ((uint a * uint b) div 2 ^ 32)
      else if f3 = 4 then (if b = 0 then -1 else word_of_int (sint a sdiv sint b))
      else if f3 = 5 then (if b = 0 then -1 else word_of_int (uint a div uint b))
      else if f3 = 6 then (if b = 0 then a else word_of_int (sint a smod sint b))
      else (if b = 0 then a else word_of_int (uint a mod uint b)))"

definition isa_result :: "u32 \<Rightarrow> addr \<Rightarrow> u32 \<Rightarrow> u32 \<Rightarrow> u32 option" where
  "isa_result i pc a b =
     (let opc = Decoder_opcode i; f3 = Decoder_funct3 i; f7 = Decoder_funct7 i in
      if opc = OPC_OP then Some (if f7 = 1 then rv_m f3 a b else rv_alu f3 (f7 = 0x20) a b)
      else if opc = OPC_OP_IMM then Some (rv_alu f3 (f3 = 5 \<and> f7 = 0x20) a (Decoder_imm_i i))
      else if opc = OPC_LUI then Some (Decoder_imm_u i)
      else if opc = OPC_JAL \<or> opc = OPC_JALR then Some (pc + 4)
      else None)"

definition isa_step :: "u32 \<Rightarrow> addr \<times> registers \<Rightarrow> addr \<times> registers" where
  "isa_step i s =
     (let a = Registers_read (snd s) (Decoder_rs1 i); b = Registers_read (snd s) (Decoder_rs2 i)
      in (rv_next_pc i (fst s) a b,
          case isa_result i (fst s) a b of Some v \<Rightarrow> Registers_write (snd s) (Decoder_rd i) v | None \<Rightarrow> snd s))"

text \<open>The valid encodings of RV32IM other than the loads, stores, AUIPC, FENCE and SYSTEM.\<close>

definition integer_instr :: "u32 \<Rightarrow> bool" where
  "integer_instr i \<longleftrightarrow>
     (let opc = Decoder_opcode i; f3 = Decoder_funct3 i; f7 = Decoder_funct7 i in
      opc = OPC_OP \<and> (f7 = 0 \<or> f7 = 1 \<or> f7 = 0x20 \<and> (f3 = 0 \<or> f3 = 5))
      \<or> opc = OPC_OP_IMM \<and> (f3 = 1 \<longrightarrow> f7 = 0) \<and> (f3 = 5 \<longrightarrow> f7 = 0 \<or> f7 = 0x20)
      \<or> opc = OPC_LUI
      \<or> opc = OPC_BRANCH \<and> f3 \<noteq> 2 \<and> f3 \<noteq> 3
      \<or> opc = OPC_JAL \<or> opc = OPC_JALR)"

text \<open>On the instructions of the pipeline statement the two interpreters are the same.\<close>

lemma isa_step_covered:
  assumes "covered i"
  shows "isa_step i s = rv_step i s"
proof -
  have alt: "Decoder_opcode i = OPC_OP_IMM \<Longrightarrow> (Decoder_funct3 i = 5 \<and> Decoder_funct7 i = 0x20) = False"
    using assms by (auto simp: covered_def Let_def opcode_defs)
  have m: "Decoder_opcode i = OPC_OP \<Longrightarrow> Decoder_funct7 i \<noteq> 1"
    using assms by (auto simp: covered_def Let_def opcode_defs)
  show ?thesis
    using assms
    by (rule covered_cases [where pc = 0])
      (simp_all add: isa_step_def rv_step_def isa_result_def rv_result_def,
       simp_all add: opcode_defs Let_def alt [unfolded opcode_defs] m [unfolded opcode_defs])
qed

lemma integer_instr_covered: "covered i \<Longrightarrow> integer_instr i"
  unfolding integer_instr_def covered_def Let_def by blast

subsection \<open>The arithmetic of the executor\<close>

lemma funct3_cases: "Decoder_funct3 w \<in> {0, 1, 2, 3, 4, 5, 6, 7}"
proof -
  define n where "n = take_bit 3 (unat (drop_bit 12 w))"
  have f: "Decoder_funct3 w = of_nat n"
    unfolding n_def Decoder_funct3_def and_masks
    by (simp add: word_unat_eq_iff unsigned_ucast_eq unsigned_take_bit_eq unsigned_of_nat)
  have "n < 8" using take_bit_nat_less_exp [of 3] by (simp add: n_def)
  then have "n \<in> {0, 1, 2, 3, 4, 5, 6, 7}" by auto
  then show ?thesis unfolding f by auto
qed

lemma shift_right_int: "drop_bit n (k :: int) = k div 2 ^ n"
  by (rule drop_bit_eq_div)

lemma r_type_isa:
  assumes "f3 \<in> {0, 1, 2, 3, 4, 5, 6, 7}" "f7 = 0 \<or> f7 = 1 \<or> f7 = 0x20 \<and> (f3 = 0 \<or> f3 = 5)"
  shows "r_type_result f3 f7 a b = Some (if f7 = 1 then rv_m f3 a b else rv_alu f3 (f7 = 0x20) a b)"
proof (cases "f7 = 1")
  case True
  have nz: "sint b = 0 \<longleftrightarrow> b = 0" by (rule signed_eq_0_iff)
  have ov: "sint a = i32_MIN \<Longrightarrow> sint b = -1 \<Longrightarrow> (word_of_int i32_MIN :: u32) = word_of_int (sint a sdiv sint b) \<and> sint a smod sint b = 0"
    by (simp add: i32_MIN_def signed_modulo_int_def word_of_int_eq_iff take_bit_eq_mod)
  show ?thesis
    using assms(1) True nz ov
    by (auto simp: r_type_result_def rv_m_def Word_as_signed_def Let_def shift_right_int word_div_def word_mod_def)
next
  case False
  then show ?thesis
    using assms by (auto simp: r_type_result_def rv_alu_def Word_as_signed_def Let_def shift_amount push_bit_eq_mult
        shift_right_int drop_bit_of_nat word_less_nat_alt)
qed

text \<open>Signed values and products of 32-bit words.\<close>

lemma sint_range: "- (2 ^ 31) \<le> sint (a :: u32)" "sint (a :: u32) < 2 ^ 31"
  using sint_ge [of a] sint_lt [of a] by simp_all

lemma uint_range: "0 \<le> uint (a :: u32)" "uint (a :: u32) < 2 ^ 32"
  using uint_lt2p [of a] by simp_all

lemma sint_of_int: "- (2 ^ 31) \<le> k \<Longrightarrow> k < 2 ^ 31 \<Longrightarrow> sint (word_of_int k :: u32) = k"
  by (simp add: sint_sbintrunc' signed_take_bit_int_eq_self)

lemma uint_of_int: "0 \<le> k \<Longrightarrow> k < 2 ^ 32 \<Longrightarrow> uint (word_of_int k :: u32) = k"
  by (simp add: uint_word_of_int)

lemma low_word:
  fixes a b :: u32
  assumes "word_of_int x = a" "word_of_int y = b"
  shows "uint (a * b) = x * y mod 2 ^ 32"
  unfolding assms [symmetric] wi_hom_mult uint_word_of_int by simp

lemma high_low: "h = x div 2 ^ 32 \<Longrightarrow> l = x mod 2 ^ 32 \<Longrightarrow> h * 2 ^ 32 + l = (x :: int)"
  by simp

lemma product_bounds:
  fixes x y :: int
  assumes "\<bar>x\<bar> \<le> 2 ^ 31" "\<bar>y\<bar> < 2 ^ 32"
  shows "- (2 ^ 31) \<le> x * y div 2 ^ 32" "x * y div 2 ^ 32 < 2 ^ 31"
proof -
  have "\<bar>x * y\<bar> \<le> 2 ^ 31 * (2 ^ 32 - 1)" unfolding abs_mult by (rule mult_mono) (use assms in auto)
  then have "- (2 ^ 31 * 2 ^ 32) \<le> x * y" "x * y < 2 ^ 31 * 2 ^ 32" by simp_all
  then show "- (2 ^ 31) \<le> x * y div 2 ^ 32" "x * y div 2 ^ 32 < 2 ^ 31" by simp_all
qed

lemma signed_product:
  fixes a b :: u32
  shows "sint (word_of_int (sint a * sint b div 2 ^ 32) :: u32) * 2 ^ 32 + uint (a * b) = sint a * sint b"
proof (rule high_low)
  show "sint (word_of_int (sint a * sint b div 2 ^ 32) :: u32) = sint a * sint b div 2 ^ 32"
    using product_bounds [of "sint a" "sint b"] sint_range [of a] sint_range [of b] by (intro sint_of_int) auto
  show "uint (a * b) = sint a * sint b mod 2 ^ 32" by (rule low_word) simp_all
qed

lemma mixed_product:
  fixes a b :: u32
  shows "sint (word_of_int (sint a * uint b div 2 ^ 32) :: u32) * 2 ^ 32 + uint (a * b) = sint a * uint b"
proof (rule high_low)
  show "sint (word_of_int (sint a * uint b div 2 ^ 32) :: u32) = sint a * uint b div 2 ^ 32"
    using product_bounds [of "sint a" "uint b"] sint_range [of a] uint_range [of b] by (intro sint_of_int) auto
  show "uint (a * b) = sint a * uint b mod 2 ^ 32" by (rule low_word) simp_all
qed

lemma unsigned_product:
  fixes a b :: u32
  shows "uint (word_of_int (uint a * uint b div 2 ^ 32) :: u32) * 2 ^ 32 + uint (a * b) = uint a * uint b"
proof (rule high_low)
  have "uint a * uint b \<le> (2 ^ 32 - 1) * (2 ^ 32 - 1)"
    by (rule mult_mono) (use uint_range [of a] uint_range [of b] in auto)
  then show "uint (word_of_int (uint a * uint b div 2 ^ 32) :: u32) = uint a * uint b div 2 ^ 32"
    by (intro uint_of_int) (auto simp: pos_imp_zdiv_nonneg_iff)
  show "uint (a * b) = uint a * uint b mod 2 ^ 32" by (rule low_word) simp_all
qed

text \<open>Truncating division on 32-bit operands stays in range, the one overflow aside.\<close>

lemma sdiv_range:
  fixes x y :: int
  assumes "- (2 ^ 31) \<le> x" "x < 2 ^ 31" "\<not> (x = - (2 ^ 31) \<and> y = -1)" "y \<noteq> 0"
  shows "- (2 ^ 31) \<le> x sdiv y" "x sdiv y < 2 ^ 31"
proof -
  have r: "\<bar>x sdiv y\<bar> \<le> \<bar>x\<bar>" using sdiv_int_range [of x y] by auto
  then show "- (2 ^ 31) \<le> x sdiv y" using assms by linarith
  have "x sdiv y \<noteq> 2 ^ 31"
  proof
    assume q: "x sdiv y = 2 ^ 31"
    then have x: "x = - (2 ^ 31)" using r assms by linarith
    then have "x sdiv y = - x" using q by simp
    then show False using int_sdiv_negated_is_minus1 [of x y] x assms(3) by simp
  qed
  then show "x sdiv y < 2 ^ 31" using r assms by linarith
qed

lemma smod_range:
  fixes x y :: int
  assumes "y \<noteq> 0"
  shows "\<bar>x smod y\<bar> < \<bar>y\<bar>" "\<bar>x smod y\<bar> \<le> \<bar>x\<bar>" "0 \<le> (x smod y) * x"
  using assms pos_mod_bound [of "\<bar>y\<bar>" "\<bar>x\<bar>"] pos_mod_sign [of "\<bar>y\<bar>" "\<bar>x\<bar>"] zmod_le_nonneg_dividend [of "\<bar>x\<bar>" "\<bar>y\<bar>"]
  by (auto simp: signed_modulo_int_def sgn_if abs_mult mult_nonneg_nonpos)

subsection \<open>Execution is the interpreter\<close>

lemma b_type_isa: "f3 \<in> {0, 1, 4, 5, 6, 7} \<Longrightarrow> b_type_taken f3 a b = Some (rv_branch f3 a b)"
  by (auto simp: b_type_taken_def rv_branch_def Word_as_signed_def word_less_nat_alt word_le_nat_alt)

lemma bit_mask_10: "w AND 0x400 \<noteq> 0 \<longleftrightarrow> bit (w :: u32) 10"
  using flag_bitm [of 10 w] by (simp add: flag_def bitm_def)

text \<open>Bit 10 of the immediate is bit 30 of the word, the \<open>funct7\<close> bit that marks SRAI.\<close>

lemma srai_bit:
  assumes "Decoder_funct7 i = 0 \<or> Decoder_funct7 i = 0x20"
  shows "Decoder_imm_i i AND 0x400 \<noteq> 0 \<longleftrightarrow> Decoder_funct7 i = 0x20"
proof -
  have "bit (Decoder_funct7 i) 5 \<longleftrightarrow> bit i 30" by (simp add: bit_fields)
  moreover have "bit (0x20 :: u8) 5" by simp
  ultimately show ?thesis using assms by (auto simp: bit_mask_10 bit_imm_i)
qed

lemma i_type_isa:
  assumes "f3 \<in> {0, 1, 2, 3, 4, 5, 6, 7}" "f3 = 5 \<Longrightarrow> imm AND 0x400 \<noteq> 0 \<longleftrightarrow> sra"
  shows "i_type_result f3 a imm = Some (rv_alu f3 (f3 = 5 \<and> sra) a imm)"
  using assms by (auto simp: i_type_result_def rv_alu_def Word_as_signed_def Let_def shift_amount push_bit_eq_mult
      shift_right_int drop_bit_of_nat word_less_nat_alt)

text \<open>The kinds of integer instruction, with what the decoder makes of them.\<close>

lemma integer_cases:
  assumes "integer_instr i"
  obtains
    (op) "Decoder_opcode i = OPC_OP" "Decoder_funct7 i = 0 \<or> Decoder_funct7 i = 1 \<or> Decoder_funct7 i = 0x20 \<and> (Decoder_funct3 i = 0 \<or> Decoder_funct3 i = 5)"
      "Decoder_decode i pc = Inr (DI_R \<lparr>rt_rd = Decoder_rd i, rt_rs1 = Decoder_rs1 i, rt_rs2 = Decoder_rs2 i,
         rt_funct3 = Decoder_funct3 i, rt_funct7 = Decoder_funct7 i\<rparr>)"
  | (imm) "Decoder_opcode i = OPC_OP_IMM" "Decoder_funct3 i = 5 \<Longrightarrow> Decoder_funct7 i = 0 \<or> Decoder_funct7 i = 0x20"
      "Decoder_decode i pc = Inr (DI_I \<lparr>it_rd = Decoder_rd i, it_rs1 = Decoder_rs1 i, it_imm = Decoder_imm_i i,
         it_funct3 = Decoder_funct3 i\<rparr>)"
  | (lui) "Decoder_opcode i = OPC_LUI"
      "Decoder_decode i pc = Inr (DI_U \<lparr>ut_rd = Decoder_rd i, ut_imm = Decoder_imm_u i\<rparr>)"
  | (branch) "Decoder_opcode i = OPC_BRANCH" "Decoder_funct3 i \<in> {0, 1, 4, 5, 6, 7}"
      "Decoder_decode i pc = Inr (DI_B \<lparr>bt_rs1 = Decoder_rs1 i, bt_rs2 = Decoder_rs2 i, bt_imm = Decoder_imm_b i,
         bt_funct3 = Decoder_funct3 i\<rparr>)"
  | (jal) "Decoder_opcode i = OPC_JAL"
      "Decoder_decode i pc = Inr (DI_J \<lparr>jt_rd = Decoder_rd i, jt_imm = Decoder_imm_j i\<rparr>)"
  | (jalr) "Decoder_opcode i = OPC_JALR"
      "Decoder_decode i pc = Inr (DI_Jalr \<lparr>it_rd = Decoder_rd i, it_rs1 = Decoder_rs1 i, it_imm = Decoder_imm_i i,
         it_funct3 = Decoder_funct3 i\<rparr>)"
proof -
  consider "Decoder_opcode i = OPC_OP" | "Decoder_opcode i = OPC_OP_IMM" | "Decoder_opcode i = OPC_LUI"
    | "Decoder_opcode i = OPC_BRANCH" | "Decoder_opcode i = OPC_JAL" | "Decoder_opcode i = OPC_JALR"
    using assms unfolding integer_instr_def Let_def by blast
  then show ?thesis
  proof cases
    case 1
    have "Decoder_funct7 i = 0 \<or> Decoder_funct7 i = 1 \<or> Decoder_funct7 i = 0x20 \<and> (Decoder_funct3 i = 0 \<or> Decoder_funct3 i = 5)"
      using assms 1 by (simp add: integer_instr_def Let_def opcode_defs)
    then show ?thesis using 1 by (intro op) (simp_all add: Decoder_decode_def Let_def)
  next
    case 2
    then show ?thesis
      using assms by (intro imm) (simp_all add: integer_instr_def Let_def Decoder_decode_def opcode_defs)
  next
    case 3
    then show ?thesis by (intro lui) (simp_all add: Decoder_decode_def opcode_defs)
  next
    case 4
    then show ?thesis using assms funct3_cases [of i]
      by (intro branch) (auto simp: integer_instr_def Let_def Decoder_decode_def opcode_defs)
  next
    case 5
    then show ?thesis by (intro jal) (simp_all add: Decoder_decode_def opcode_defs)
  next
    case 6
    then show ?thesis by (intro jalr) (simp_all add: Decoder_decode_def opcode_defs)
  qed
qed

text \<open>Fetched word to next state, as the core's step composes the decoder and the executor.\<close>

definition exec_word :: "'c cpu_ops \<Rightarrow> u32 \<Rightarrow> 'c \<Rightarrow> (unit result \<times> 'c) option" where
  "exec_word ops i c =
     (case Decoder_decode i (co_pc ops c) of Inl e \<Rightarrow> Some (Inl e, c) | Inr d \<Rightarrow> execute_decoded ops d c)"

definition core_arch :: "'c cpu_ops \<Rightarrow> 'c \<Rightarrow> addr \<times> registers" where
  "core_arch ops c = (co_pc ops c, co_registers ops c)"

context cpu_core
begin

lemma exec_word_isa:
  assumes "integer_instr i"
  shows "\<exists>c'. exec_word ops i c = Some (Inr (), c') \<and> core_arch ops c' = isa_step i (core_arch ops c)
    \<and> co_csr ops c' = co_csr ops c \<and> co_privilege ops c' = co_privilege ops c"
  using assms
proof (cases rule: integer_cases [where pc = "co_pc ops c"])
  case op
  show ?thesis
    using op by (simp add: exec_word_def execute_r_type_def r_type_isa [OF funct3_cases] core_arch_def isa_step_def
        rv_next_pc_def isa_result_def get_reg_def core_laws put_reg_laws Let_def opcode_defs)
next
  case imm
  note alu = i_type_isa [OF funct3_cases, of i "Decoder_imm_i i" "Decoder_funct7 i = 0x20"]
  show ?thesis
    using imm srai_bit [of i] by (simp add: exec_word_def execute_i_type_def alu core_arch_def isa_step_def
        rv_next_pc_def isa_result_def get_reg_def core_laws put_reg_laws Let_def opcode_defs)
next
  case lui
  then show ?thesis
    by (simp add: exec_word_def execute_u_type_def core_arch_def isa_step_def rv_next_pc_def isa_result_def
        core_laws put_reg_laws Let_def opcode_defs)
next
  case branch
  then show ?thesis
    by (simp add: exec_word_def execute_b_type_def b_type_isa core_arch_def isa_step_def rv_next_pc_def isa_result_def
        get_reg_def core_laws Let_def opcode_defs)
next
  case jal
  then show ?thesis
    by (simp add: exec_word_def execute_j_type_def core_arch_def isa_step_def rv_next_pc_def isa_result_def
        core_laws put_reg_laws Let_def opcode_defs)
next
  case jalr
  then show ?thesis
    by (simp add: exec_word_def execute_jalr_def core_arch_def isa_step_def rv_next_pc_def isa_result_def
        get_reg_def core_laws put_reg_laws Let_def opcode_defs)
qed

end

subsection \<open>Runs\<close>

text \<open>The executor on a trace; \<^const>\<open>None\<close> when an instruction is not the one at the program counter,
  fails or panics.\<close>

fun exec_run :: "'c cpu_ops \<Rightarrow> (addr \<times> u32) list \<Rightarrow> 'c \<Rightarrow> 'c option" where
  "exec_run ops [] c = Some c"
| "exec_run ops ((pc, i) # tr) c =
     (if co_pc ops c \<noteq> pc then None
      else case exec_word ops i c of
             Some (Inr _, c') \<Rightarrow> exec_run ops tr c'
           | _ \<Rightarrow> None)"

lemma run_covered: "pipe_run ops n tr c c' \<Longrightarrow> (pc, i) \<in> set tr \<Longrightarrow> covered i"
  by (induction rule: pipe_run.induct) (auto simp: next_covered_def advances_def split: if_splits)

lemma exec_run_rv_run:
  assumes core: "cpu_core ops" and "rv_run tr (core_arch ops c) = Some s" and "\<And>pc i. (pc, i) \<in> set tr \<Longrightarrow> covered i"
  shows "\<exists>c'. exec_run ops tr c = Some c' \<and> core_arch ops c' = s"
  using assms(2,3)
proof (induction tr arbitrary: c)
  case (Cons e tr)
  obtain pc i where e: "e = (pc, i)" by (cases e)
  have cov: "covered i" using Cons.prems(2) [of pc i] e by simp
  from cpu_core.exec_word_isa [OF core integer_instr_covered [OF cov], of c]
  obtain c1 where c1: "exec_word ops i c = Some (Inr (), c1)" "core_arch ops c1 = rv_step i (core_arch ops c)"
    unfolding isa_step_covered [OF cov] by blast
  have "co_pc ops c = pc" "rv_run tr (core_arch ops c1) = Some s"
    using Cons.prems(1) e c1(2) by (auto simp: core_arch_def split: if_splits)
  then show ?case using Cons.IH [of c1] Cons.prems(2) e c1(1) by auto
qed simp

subsection \<open>Properties\<close>

text \<open>C3: The executor is the instruction set.  Over any core that keeps the contract, decoding and executing
  a word that encodes an RV32IM register or immediate operation (SRAI and the M extension included), LUI, a
  branch or a jump never fails: it moves the program counter and the registers as the reference interpreter
  does, which states the arithmetic over the integers, and changes neither the CSRs nor the privilege.\<close>

theorem executor_implements_isa:
  assumes "cpu_core ops" "integer_instr i"
  shows "\<exists>c'. exec_word ops i c = Some (Inr (), c') \<and> core_arch ops c' = isa_step i (core_arch ops c)
    \<and> co_csr ops c' = co_csr ops c \<and> co_privilege ops c' = co_privilege ops c"
  using cpu_core.exec_word_isa [OF assms] .

lemma mul_word: "integer_instr 0x022081B3" "Decoder_opcode 0x022081B3 = OPC_OP" "Decoder_rd 0x022081B3 = 3" "Decoder_rs1 0x022081B3 = 1"
  "Decoder_rs2 0x022081B3 = 2" "Decoder_funct3 0x022081B3 = 0" "Decoder_funct7 0x022081B3 = 1"
  by code_simp+

theorem executor_implements_isa_witness:
  "\<exists>c'. exec_word (plain_ops no_ops) 0x022081B3 small_core = Some (Inr (), c') \<and> pk_pc c' = 4 \<and>
     pk_regs c' = Registers_write (pk_regs small_core) 3 0x8000001C"
proof -
  have product: "rv_m 0 0x80000004 7 = 0x8000001C" by (simp add: rv_m_def)
  have "core_arch (plain_ops no_ops) small_core = (0, pk_regs small_core)" by (simp add: core_arch_def plain_ops_def small_core_def)
  moreover have "Registers_read (pk_regs small_core) 1 = 0x80000004" "Registers_read (pk_regs small_core) 2 = 7"
    by (simp_all add: small_core_def)
  ultimately have "isa_step 0x022081B3 (core_arch (plain_ops no_ops) small_core) = (4, Registers_write (pk_regs small_core) 3 0x8000001C)"
    by (simp add: isa_step_def isa_result_def rv_next_pc_def mul_word opcode_defs product)
  then show ?thesis
    using executor_implements_isa [OF plain_core_ok [of no_ops] mul_word(1), of small_core] by (auto simp: core_arch_def plain_ops_def)
qed

lemma program_run_executor:
  assumes "pipe_inv c" "pl_privilege c = Machine" "foretold code c" "program_run ops code n tr c c'"
    and "cpu_core cops" "core_arch cops e = arch c"
  shows "\<exists>e'. exec_run cops tr e = Some e' \<and> core_arch cops e' = arch c'"
proof -
  have "rv_run tr (core_arch cops e) = Some (arch c')" using program_run_step(1) [OF assms(1-4)] assms(6) by simp
  moreover have "pipe_run ops n tr c c'" using program_run_pipe_run [OF assms(4,1-3)] by blast
  ultimately show ?thesis using exec_run_rv_run [OF assms(5)] run_covered by blast
qed

text \<open>C4: The two execution engines agree.  Take a run of the pipelined processor on a program of covered instructions as in
  the pipeline statement, and a core in the same architectural state.  Then the executor, given the
  instructions that left the IF/ID register, runs them all from there, each at its own program counter, and ends
  in the architectural state of the pipeline.  Whatever the predictor did, provided its targets at the start were of the program's
  branches and jumps.\<close>

theorem engines_agree:
  assumes "pipe_inv c" "pl_privilege c = Machine" "foretold code c" "program_run ops code n tr c c'"
    and "cpu_core cops" "core_arch cops e = arch c"
  shows "\<exists>e'. exec_run cops tr e = Some e' \<and> core_arch cops e' = arch c'"
  using program_run_executor [OF assms] .

theorem engines_agree_witness:
  "\<exists>e'. exec_run (plain_ops no_ops) [(4, 0x00708113)] (small_core\<lparr>pk_pc := 4, pk_regs := snd (arch demo)\<rparr>) = Some e' \<and>
     core_arch (plain_ops no_ops) e' = (8, Registers_write (snd (arch demo)) 2 12)"
proof -
  let ?e = "small_core\<lparr>pk_pc := 4, pk_regs := snd (arch demo)\<rparr>"
  have "fst (arch demo) = 4" by (simp add: arch_def arch_pc_def demo_def)
  then have "core_arch (plain_ops no_ops) ?e = arch demo" by (simp add: core_arch_def plain_ops_def prod_eq_iff)
  from engines_agree [OF demo_facts(2,1) demo_program plain_core_ok [of no_ops] this]
  have "\<exists>e'. exec_run (plain_ops no_ops) [(4, 0x00708113)] ?e = Some e' \<and>
      core_arch (plain_ops no_ops) e' = arch (snd (PipelineCpu_clock no_ops demo))" .
  moreover have "arch (snd (PipelineCpu_clock no_ops demo)) = (8, Registers_write (snd (arch demo)) 2 12)"
    using program_run_step(1) [OF demo_facts(2,1) demo_program] demo_arch(1) by simp
  ultimately show ?thesis by (simp only:)
qed

text \<open>Division is the RISC-V one.  For all operands, \<open>DIV\<close> and \<open>REM\<close> return a quotient and a remainder
  whose signed values satisfy the division identity, the remainder smaller in magnitude than the divisor
  and with the sign of the dividend; division by zero gives all ones and the dividend, and the one
  overflow, the least integer by minus one, gives the dividend and zero.\<close>

theorem division_identity:
  "\<exists>q r. r_type_result 4 1 a b = Some q \<and> r_type_result 6 1 a b = Some r \<and>
     (if b = 0 then q = -1 \<and> r = a
      else if sint a = - (2 ^ 31) \<and> sint b = -1 then q = a \<and> r = 0
      else sint q * sint b + sint r = sint a \<and> \<bar>sint r\<bar> < \<bar>sint b\<bar> \<and> 0 \<le> sint r * sint a)"
proof -
  let ?q = "rv_m 4 a b" and ?r = "rv_m 6 a b"
  have res: "r_type_result 4 1 a b = Some ?q" "r_type_result 6 1 a b = Some ?r" by (simp_all add: r_type_isa)
  consider "b = 0" | "b \<noteq> 0" "sint a = - (2 ^ 31)" "sint b = -1" | "b \<noteq> 0" "\<not> (sint a = - (2 ^ 31) \<and> sint b = -1)"
    by blast
  then show ?thesis
  proof cases
    case 1
    then show ?thesis using res by (simp add: rv_m_def)
  next
    case 2
    have "a = word_of_int (sint a)" by simp
    then have "a = 0x80000000" using 2(2) by simp
    then show ?thesis using res 2 by (simp add: rv_m_def signed_modulo_int_def)
  next
    case 3
    then have b: "sint b \<noteq> 0" by (simp add: signed_eq_0_iff)
    have q: "sint ?q = sint a sdiv sint b"
      using 3 sdiv_range [OF sint_range(1) sint_range(2) 3(2) b] by (simp add: rv_m_def sint_of_int)
    have "- (2 ^ 31) \<le> sint a smod sint b" "sint a smod sint b < 2 ^ 31"
      using smod_range(1,2) [OF b, of "sint a"] sint_range [of a] sint_range [of b] by linarith+
    then have r: "sint ?r = sint a smod sint b" using 3 by (simp add: rv_m_def sint_of_int)
    show ?thesis
      using res 3 smod_range [OF b, of "sint a"] by (auto simp: q r sdiv_mult_smod_eq)
  qed
qed

text \<open>The four multiplications are the two halves of the product.  With \<open>MUL\<close> as the low word, \<open>MULH\<close>,
  \<open>MULHSU\<close> and \<open>MULHU\<close> are the high words of the signed, signed by unsigned and unsigned 64-bit products, for
  all operands.\<close>

theorem multiplication_halves:
  "\<exists>lo h hsu hu. r_type_result 0 1 a b = Some lo \<and> r_type_result 1 1 a b = Some h \<and>
     r_type_result 2 1 a b = Some hsu \<and> r_type_result 3 1 a b = Some hu \<and>
     sint h * 2 ^ 32 + uint lo = sint a * sint b \<and>
     sint hsu * 2 ^ 32 + uint lo = sint a * uint b \<and>
     uint hu * 2 ^ 32 + uint lo = uint a * uint b"
  using signed_product [of a b] mixed_product [of a b] unsigned_product [of a b]
  by (simp add: r_type_isa rv_m_def)

text \<open>C6: No instruction raises the privilege.  Over any core that keeps the contract, and for every decoded
  instruction other than ECALL and EBREAK, which enter a trap handler, the privilege after it is at most the
  privilege before: the trap returns only go down and the CSR instructions leave it.\<close>

theorem privilege_never_rises:
  assumes "cpu_core ops" "execute_decoded ops d c = Some (res, c')"
    and "\<And>op rd rs1 imm. d = DI_System op rd rs1 0 imm \<Longrightarrow> imm AND 0xFFF \<noteq> 0 \<and> imm AND 0xFFF \<noteq> 1"
  shows "co_privilege ops c' \<le> co_privilege ops c"
  by (rule cpu_core.decoded_privilege [OF assms])

theorem privilege_never_rises_witness:
  "\<exists>res c'. execute_decoded (plain_ops no_ops) (DI_System OPC_SYSTEM 0 0 0 0x302) small_core = Some (res, c') \<and> pk_privilege c' \<le> Machine"
proof -
  let ?m = "execute_decoded (plain_ops no_ops) (DI_System OPC_SYSTEM 0 0 0 0x302) small_core"
  obtain res c' where m: "?m = Some (res, c')" by (metis execute_decoded.simps(9) surj_pair)
  have "co_privilege (plain_ops no_ops) c' \<le> co_privilege (plain_ops no_ops) small_core"
    by (rule privilege_never_rises [OF plain_core_ok [of no_ops] m]) simp
  then show ?thesis using m by (simp add: plain_ops_def small_core_def)
qed

lemma decode_load:
  "Decoder_decode i pc = Inr (DI_Load l) \<longleftrightarrow> Decoder_opcode i = OPC_LOAD \<and>
     l = \<lparr>it_rd = Decoder_rd i, it_rs1 = Decoder_rs1 i, it_imm = Decoder_imm_i i, it_funct3 = Decoder_funct3 i\<rparr>"
  by (auto simp: Decoder_decode_def Let_def opcode_defs)

text \<open>A guest program can crash the simulator.  The decoder accepts the three load encodings RV32 leaves
  reserved, and \<open>execute_load\<close> answers them with \<open>unreachable!()\<close>: executing a word panics exactly when it is a
  load whose \<open>funct3\<close> is 3, 6 or 7, on every core.\<close>

theorem executor_panics_iff:
  "exec_word ops i c = None \<longleftrightarrow> Decoder_opcode i = OPC_LOAD \<and> Decoder_funct3 i \<in> {3, 6, 7}"
proof -
  have d: "execute_decoded ops d c = None \<longleftrightarrow> (\<exists>l. d = DI_Load l \<and> it_funct3 l \<notin> {0, 1, 2, 4, 5})" for d
    by (cases d) (auto simp: execute_load_def Let_def)
  have "exec_word ops i c = None \<longleftrightarrow>
      (\<exists>l. Decoder_decode i (co_pc ops c) = Inr (DI_Load l) \<and> it_funct3 l \<notin> {0, 1, 2, 4, 5})"
    unfolding exec_word_def using d by (cases "Decoder_decode i (co_pc ops c)") (auto simp del: execute_decoded.simps)
  then show ?thesis using funct3_cases [of i] by (auto simp: decode_load)
qed

text \<open>C24: Store-conditional follows load-reserved once.  After an LR.W that returned, an SC.W to the same address does the
  store: when that succeeds it reports 0 and clears the reservation, and when it fails it returns the error, in the
  state the store left and with the reservation kept.  After an LR.W that returned, an SC.W to any other address, and after any SC.W that
  returned, a further SC.W to whatever address, stores nothing and reports 1.\<close>

theorem store_conditional_once:
  assumes "cpu_core ops" "is_lr i" "is_sc j" "is_sc k"
  shows "(execute_amo ops i c = (Inr (), c1) \<and> get_reg ops (Decoder_rs1 j) c1 = get_reg ops (Decoder_rs1 i) c \<longrightarrow>
      execute_amo ops j c1 =
        (case co_write_word ops (get_reg ops (Decoder_rs1 j) c1) (get_reg ops (Decoder_rs2 j) c1) c1 of
           (Inl e, c2) \<Rightarrow> (Inl e, c2)
         | (Inr _, c2) \<Rightarrow> (Inr (), co_increment_pc ops (co_clear_atomic_reservation ops (put_reg ops (Decoder_rd j) 0 c2))))) \<and>
    (execute_amo ops i c = (Inr (), c1) \<and> get_reg ops (Decoder_rs1 j) c1 \<noteq> get_reg ops (Decoder_rs1 i) c \<longrightarrow>
      execute_amo ops j c1 = (Inr (), co_increment_pc ops (co_clear_atomic_reservation ops (put_reg ops (Decoder_rd j) 1 c1)))) \<and>
    (execute_amo ops j d = (Inr (), d1) \<longrightarrow>
      execute_amo ops k d1 = (Inr (), co_increment_pc ops (co_clear_atomic_reservation ops (put_reg ops (Decoder_rd k) 1 d1))))"
proof -
  note core = assms(1)
  have lr: "co_has_atomic_reservation ops b c1 \<longleftrightarrow> b = get_reg ops (Decoder_rs1 i) c" if "execute_amo ops i c = (Inr (), c1)" for b
    using cpu_core.lr_reserves [OF core assms(2) that] .
  have "execute_amo ops j c1 =
      (case co_write_word ops (get_reg ops (Decoder_rs1 j) c1) (get_reg ops (Decoder_rs2 j) c1) c1 of
         (Inl e, c2) \<Rightarrow> (Inl e, c2)
       | (Inr _, c2) \<Rightarrow> (Inr (), co_increment_pc ops (co_clear_atomic_reservation ops (put_reg ops (Decoder_rd j) 0 c2))))"
    if "co_has_atomic_reservation ops (get_reg ops (Decoder_rs1 j) c1) c1"
    using cpu_core.sc_stores [OF core assms(3) that] .
  then show ?thesis
    using lr cpu_core.sc_unreserved [OF core assms(3)] cpu_core.sc_unreserved [OF core assms(4)] cpu_core.sc_clears [OF core assms(3)]
    by blast
qed

text \<open>\<open>lr.w x3,(x1)\<close> and \<open>sc.w x4,x2,(x1)\<close> on the small core.\<close>

definition after_lr :: "unit plain_core" where
  "after_lr = snd (execute_amo (plain_ops no_ops) 0x1000A1AF small_core)"

lemma lr_sc_words: "is_lr 0x1000A1AF" "is_sc 0x1820A22F" "Decoder_rd 0x1820A22F = 4"
  "Decoder_rs1 0x1000A1AF = 1" "Decoder_rs1 0x1820A22F = 1" "Decoder_rs2 0x1820A22F = 2"
  by code_simp+

lemma small_bus_read: "\<exists>w. Bus_read_word no_ops small_bus 0x80000004 = (Inr w, small_bus)"
  using bus_store.read_word_ok [of small_bus "0x80000004" no_ops] small_bus_holds
  by (simp add: bus_store.holds_range_def Bus_read_word_def)

lemma small_bus_write: "\<exists>b. Bus_write_word no_ops small_bus 0x80000004 v = (Inr (), b)"
  using bus_store.write_word_ok [of no_ops small_bus "0x80000004" v] small_bus_holds
  by (cases "Bus_write_word no_ops small_bus 0x80000004 v") (simp add: bus_store.holds_range_def Bus_write_word_def)

lemma small_core_x1: "get_reg (plain_ops no_ops) 1 small_core = 0x80000004"
  by (simp add: get_reg_def plain_ops_def small_core_def)

lemma after_lr_runs:
  "execute_amo (plain_ops no_ops) 0x1000A1AF small_core = (Inr (), after_lr)" "pk_bus after_lr = small_bus"
  "get_reg (plain_ops no_ops) 1 after_lr = 0x80000004"
proof -
  obtain w where w: "Bus_read_word no_ops small_bus 0x80000004 = (Inr w, small_bus)" using small_bus_read by blast
  have rd: "Decoder_rd 0x1000A1AF = 3" by code_simp
  have bus: "pk_bus small_core = small_bus" by (simp add: small_core_def)
  have r: "co_read_word (plain_ops no_ops) 0x80000004 small_core = (Inr w, small_core)"
    by (simp add: plain_ops_def on_pk_bus_def bus w)
  have f: "Decoder_funct3 0x1000A1AF = 2" "ucast (drop_bit 27 (0x1000A1AF :: u32) AND 0x1F) = (2 :: u8)" by code_simp+
  have e: "execute_amo (plain_ops no_ops) 0x1000A1AF small_core =
      (Inr (), co_increment_pc (plain_ops no_ops) (put_reg (plain_ops no_ops) 3 w (co_set_atomic_reservation (plain_ops no_ops) 0x80000004 small_core)))"
    by (simp add: execute_amo_def Let_def f lr_sc_words small_core_x1 r rd)
  then show "execute_amo (plain_ops no_ops) 0x1000A1AF small_core = (Inr (), after_lr)" by (simp add: after_lr_def)
  show "pk_bus after_lr = small_bus" "get_reg (plain_ops no_ops) 1 after_lr = 0x80000004"
    unfolding after_lr_def e by (simp_all add: put_reg_def get_reg_def plain_ops_def small_core_def)
qed

lemma after_lr_write: "\<exists>c. co_write_word (plain_ops no_ops) 0x80000004 v after_lr = (Inr (), c)"
  using small_bus_write [of v] by (auto simp: plain_ops_def on_pk_bus_def after_lr_runs)

theorem store_conditional_once_witness:
  "\<exists>c3. execute_amo (plain_ops no_ops) 0x1820A22F after_lr = (Inr (), c3) \<and> Registers_read (pk_regs c3) 4 = 0 \<and>
     (\<exists>c4. execute_amo (plain_ops no_ops) 0x1820A22F c3 = (Inr (), c4) \<and> Registers_read (pk_regs c4) 4 = 1 \<and> pk_bus c4 = pk_bus c3)"
proof -
  obtain c2 where w: "co_write_word (plain_ops no_ops) (get_reg (plain_ops no_ops) (Decoder_rs1 0x1820A22F) after_lr)
      (get_reg (plain_ops no_ops) (Decoder_rs2 0x1820A22F) after_lr) after_lr = (Inr (), c2)"
    using after_lr_write by (auto simp: lr_sc_words after_lr_runs)
  have addr: "get_reg (plain_ops no_ops) (Decoder_rs1 0x1820A22F) after_lr = get_reg (plain_ops no_ops) (Decoder_rs1 0x1000A1AF) small_core"
    by (simp add: lr_sc_words after_lr_runs small_core_x1)
  note once = store_conditional_once [OF plain_core_ok [of no_ops] lr_sc_words(1,2,2)]
  obtain c3 where c3: "execute_amo (plain_ops no_ops) 0x1820A22F after_lr = (Inr (), c3)" "Registers_read (pk_regs c3) 4 = 0"
    using once [of small_core after_lr, THEN conjunct1] after_lr_runs(1) addr w by (auto simp: lr_sc_words plain_ops_def put_reg_def)
  then show ?thesis
    using once [of _ _ after_lr c3, THEN conjunct2, THEN conjunct2]
    by (auto simp: lr_sc_words plain_ops_def put_reg_def)
qed

end
