(* ===== verification/Exec_Types.thy ===== *)
theory Exec_Types
  imports Exec_Core
begin

text \<open>
  The typing invariant of the processor under the executor (\<open>instruction/execute.rs\<close>): what every instruction,
  trap and trap return keeps of the registers, the program counter and the CSR file, over any core whose
  traps are entered as \<open>Trap\<close> (\<open>cpu/csr/trap.rs\<close>) says, delegation to supervisor mode included.
\<close>

definition csr_typed :: "csr_file \<Rightarrow> bool" where
  "csr_typed f \<longleftrightarrow> csr_wf f \<and> even (csr_mepc f) \<and> even (csr_sepc f) \<and> csr_mstatus f AND NOT MS_WRITABLE = 0"

definition core_typed :: "'c cpu_ops \<Rightarrow> 'c \<Rightarrow> bool" where
  "core_typed ops c \<longleftrightarrow> csr_typed (co_csr ops c) \<and> even (co_pc ops c) \<and> co_registers ops c 0 = 0"

subsection \<open>Cores that trap\<close>

text \<open>
  The contract of \<open>cpu_core\<close> with what it leaves open: data accesses, the reservation and \<open>halt\<close> leave the CSR
  file alone, and \<open>raise_exception\<close> is a trap entry at the current program counter, to machine mode or, where
  \<open>medeleg\<close> delegates the cause, to supervisor mode (the tests \<open>test_ecall_*\<close> of \<open>execute.rs\<close> show both).
\<close>

locale trapping_core = cpu_core +
  assumes csr_kept:
      "co_csr ops (co_set_atomic_reservation ops a c) = co_csr ops c"
      "co_csr ops (co_clear_atomic_reservation ops c) = co_csr ops c"
      "co_csr ops (co_halt ops c) = co_csr ops c"
    and halt_kept:
      "co_registers ops (co_halt ops c) = co_registers ops c"
      "co_pc ops (co_halt ops c) = co_pc ops c"
    and access_csr:
      "co_csr ops (snd (co_read_byte ops a c)) = co_csr ops c"
      "co_csr ops (snd (co_read_half ops a c)) = co_csr ops c"
      "co_csr ops (snd (co_read_word ops a c)) = co_csr ops c"
      "co_csr ops (snd (co_write_byte ops a x8 c)) = co_csr ops c"
      "co_csr ops (snd (co_write_half ops a x16 c)) = co_csr ops c"
      "co_csr ops (snd (co_write_word ops a x32 c)) = co_csr ops c"
    and raise_registers: "co_registers ops (co_raise_exception ops cause tval c) = co_registers ops c"
    and raise_entry:
      "(co_csr ops (co_raise_exception ops cause tval c), co_pc ops (co_raise_exception ops cause tval c),
          co_privilege ops (co_raise_exception ops cause tval c)) =
        take_trap_csr (Trap_exception cause (co_pc ops c) tval) (co_csr ops c) (co_privilege ops c)"

subsection \<open>The CSR file\<close>

lemma masked_zero: "(x AND NOT m) = 0 \<longleftrightarrow> (\<forall>k. bit x k \<longrightarrow> bit m k)" for x m :: "'a::len word"
  by (simp add: bit_eq_iff bit_simps) (metis bit_imp_le_length)

lemma mstatus_typed:
  "Mstatus_write s v AND NOT MS_WRITABLE = s AND NOT MS_WRITABLE"
  "s AND NOT MS_WRITABLE = 0 \<Longrightarrow> Mstatus_set_mie s b AND NOT MS_WRITABLE = 0"
  "s AND NOT MS_WRITABLE = 0 \<Longrightarrow> Mstatus_set_mpie s b AND NOT MS_WRITABLE = 0"
  "s AND NOT MS_WRITABLE = 0 \<Longrightarrow> Mstatus_set_mpp s p AND NOT MS_WRITABLE = 0"
proof -
  show "Mstatus_write s v AND NOT MS_WRITABLE = s AND NOT MS_WRITABLE"
    by (rule bit_word_eqI) (auto simp: Mstatus_write_def bit_simps)
  assume s: "s AND NOT MS_WRITABLE = 0"
  have "bit MS_WRITABLE k" if "bit MS_MIE k \<or> bit MS_MPIE k \<or> bit MS_MPP_MASK k" for k
    using that by (auto simp: MS_WRITABLE_def bit_simps)
  then show "Mstatus_set_mie s b AND NOT MS_WRITABLE = 0" "Mstatus_set_mpie s b AND NOT MS_WRITABLE = 0"
    using s by (auto simp: masked_zero Mstatus_set_mie_def Mstatus_set_mpie_def bit_simps split: if_splits)
  have "push_bit 11 (ucast (PrivilegeLevel_bits p)) AND NOT MS_WRITABLE = 0"
    by (cases p) (simp_all add: csr_word_masks(1))
  moreover have "(s AND NOT MS_MPP_MASK) AND NOT MS_WRITABLE = 0"
    using s by (metis and.assoc and.commute and_zero_eq)
  ultimately show "Mstatus_set_mpp s p AND NOT MS_WRITABLE = 0"
    by (simp add: Mstatus_set_mpp_def bit.conj_disj_distrib2)
qed

lemma even_masked: "even (x AND - 4)" "even (x AND NOT 3)" "even (x AND - 2)" for x :: u32
proof -
  have "NOT 3 = (- 4 :: u32)" by simp
  then show "even (x AND - 4)" "even (x AND NOT 3)" "even (x AND - 2)" by (simp_all only: even_and_iff) simp_all
qed

lemma slot_put_typed: "csr_typed f \<Longrightarrow> csr_typed (slot_put f p s v)"
  using slot_put_wf [of f p s v]
  by (cases s) (auto simp: csr_typed_def mstatus_typed Mepc_write_def Sepc_write_def even_masked)

lemma CsrFile_execute_typed:
  assumes "csr_typed f"
  shows "csr_typed (snd (CsrFile_execute f op a x p))"
proof (cases "CsrFile_execute f op a x p")
  case (Pair r f')
  have w: "csr_typed f1" if "CsrFile_write f a v p = (Inr (), f1)" for v f1
    using CsrFile_write_slot [OF that] slot_put_typed [OF assms] by simp
  show ?thesis using Pair assms w
    by (auto simp: CsrFile_execute_unfold bind_st_def dest: write_keeps_file_on_error
        split: option.splits sum.splits prod.splits)
qed

lemma take_trap_csr_typed:
  assumes "csr_typed f" "even (tr_epc t)" "\<not> Trap_is_interrupt t"
  shows "csr_typed (fst (take_trap_csr t f p)) \<and> even (fst (snd (take_trap_csr t f p)))"
  using assms
  by (auto simp: take_trap_csr_def Trap_take_m_trap_def Trap_take_s_trap_def Let_def csr_typed_def mstatus_typed csr_wf_def
      Mtvec_base_def Stvec_base_def Mepc_set_def Sepc_set_def even_masked)

subsection \<open>Instructions\<close>

context trapping_core
begin

lemma typed_bind:
  assumes "core_typed ops (snd m)" "\<And>a s. core_typed ops s \<Longrightarrow> core_typed ops (snd (f a s))"
  shows "core_typed ops (snd (bind_st m f))"
  using assms by (cases m; cases "fst m") (auto simp: bind_st_def)

lemma typed_accesses:
  assumes "core_typed ops c"
  shows "core_typed ops (snd (co_read_byte ops a c))" "core_typed ops (snd (co_read_half ops a c))"
    "core_typed ops (snd (co_read_word ops a c))" "core_typed ops (snd (co_write_byte ops a x8 c))"
    "core_typed ops (snd (co_write_half ops a x16 c))" "core_typed ops (snd (co_write_word ops a x32 c))"
  using assms by (simp_all add: core_typed_def access_csr access_pc access_registers)

lemma typed_updates:
  assumes "core_typed ops c"
  shows "core_typed ops (put_reg ops rd v c)" "core_typed ops (co_increment_pc ops c)"
    "core_typed ops (co_set_atomic_reservation ops a c)" "core_typed ops (co_clear_atomic_reservation ops c)"
    "core_typed ops (co_set_privilege ops m c)" "core_typed ops (co_halt ops c)"
    "even p \<Longrightarrow> core_typed ops (co_set_pc ops p c)" "csr_typed f \<Longrightarrow> core_typed ops (co_set_csr ops f c)"
  using assms by (auto simp: core_typed_def put_reg_laws core_laws csr_kept halt_kept Registers_write_def RegIdx_is_zero_def)

lemma typed_raise: "core_typed ops c \<Longrightarrow> core_typed ops (co_raise_exception ops cause tval c)"
  using take_trap_csr_typed [of "co_csr ops c" "Trap_exception cause (co_pc ops c) tval" "co_privilege ops c"]
  unfolding raise_entry [symmetric]
  by (auto simp: core_typed_def raise_registers Trap_exception_def Trap_is_interrupt_def)

lemma typed_parts:
  assumes "core_typed ops c"
  shows "even (co_pc ops c)" "csr_typed (co_csr ops c)"
  using assms by (simp_all add: core_typed_def)

lemma typed_unsupported: "core_typed ops c \<Longrightarrow> core_typed ops (snd (unsupported ops c))"
  by (simp add: unsupported_def)

lemmas typed_intros = typed_bind typed_accesses typed_updates typed_unsupported typed_raise

lemma typed_returns:
  assumes "core_typed ops c"
  shows "core_typed ops (snd (execute_mret ops c))" "core_typed ops (snd (execute_sret ops c))"
  using typed_parts [OF assms] assms
  by (auto simp: execute_mret_def execute_sret_def Let_def Mepc_get_def Sepc_get_def csr_typed_def mstatus_typed csr_wf_def
      intro!: typed_updates)

lemma typed_csr_result:
  "core_typed ops c \<Longrightarrow> CsrFile_execute (co_csr ops c) op a x p = (r, f) \<Longrightarrow> csr_typed f"
  using CsrFile_execute_typed [OF typed_parts(2), of c op a x p] by simp

lemma typed_csr: "core_typed ops c \<Longrightarrow> core_typed ops (snd (execute_csr ops op rd rs1 imm c))"
  unfolding execute_csr_def Let_def
  by (auto split: prod.split intro!: typed_intros dest: typed_csr_result)

lemma typed_system: "core_typed ops c \<Longrightarrow> core_typed ops (snd (execute_system ops op rd rs1 f3 imm c))"
  unfolding execute_system_def execute_priv_def
  by (auto split: option.split intro: typed_intros typed_csr typed_returns)

lemma typed_register_ops:
  assumes "core_typed ops c"
  shows "core_typed ops (snd (execute_r_type ops r c))" "core_typed ops (snd (execute_i_type ops i c))"
    "core_typed ops (snd (execute_u_type ops u c))" "core_typed ops (snd (execute_jalr ops i c))"
    "even (bt_imm b) \<Longrightarrow> core_typed ops (snd (execute_b_type ops b c))"
    "even (jt_imm j) \<Longrightarrow> core_typed ops (snd (execute_j_type ops j c))"
  using assms typed_parts(1) [OF assms] typed_parts(1) [OF typed_updates(1) [OF assms]]
  by (auto simp: execute_r_type_def execute_i_type_def execute_u_type_def execute_jalr_def execute_b_type_def
      execute_j_type_def Let_def even_masked split: option.split intro: typed_intros)

lemma typed_store: "core_typed ops c \<Longrightarrow> core_typed ops (snd (execute_s_type ops i c))"
  unfolding execute_s_type_def Let_def by (auto intro!: typed_intros)

lemma typed_load: "core_typed ops c \<Longrightarrow> execute_load ops i v c = Some (r, c') \<Longrightarrow> core_typed ops c'"
proof -
  assume "core_typed ops c" "execute_load ops i v c = Some (r, c')"
  moreover have "core_typed ops s \<Longrightarrow> core_typed ops (snd (finish_load ops rd w s))" for s rd w
    by (simp add: finish_load_def typed_intros)
  ultimately show ?thesis
    unfolding execute_load_def Let_def
    by (auto split: if_splits dest!: arg_cong [where f = snd] intro!: typed_intros)
qed

lemma typed_amo: "core_typed ops c \<Longrightarrow> core_typed ops (snd (execute_amo ops i c))"
  unfolding execute_amo_def Let_def amo_arm_def by (auto split: option.split intro!: typed_intros)

lemma typed_custom0: "core_typed ops c \<Longrightarrow> core_typed ops (snd (execute_custom0 ops i c))"
  unfolding execute_custom0_def Let_def by (auto split: option.split intro!: typed_intros)

lemma typed_decoded:
  assumes "Decoder_decode i pc = Inr d" "core_typed ops c" "execute_decoded ops d c = Some (r, c')"
  shows "core_typed ops c'"
proof (cases d)
  case (DI_B b)
  have "even (Decoder_imm_b i)" using bit_imm_b [of i 0] by (simp add: bit_0)
  then have "even (bt_imm b)" using assms(1) DI_B by (auto simp: Decoder_decode_def Let_def split: if_splits)
  then show ?thesis using assms(3) DI_B typed_register_ops(5) [OF assms(2), of b] by simp
next
  case (DI_J j)
  have "even (Decoder_imm_j i)" using bit_imm_j [of i 0] by (simp add: bit_0)
  then have "even (jt_imm j)" using assms(1) DI_J by (auto simp: Decoder_decode_def Let_def split: if_splits)
  then show ?thesis using assms(3) DI_J typed_register_ops(6) [OF assms(2), of j] by simp
next
  case (DI_Load l)
  then show ?thesis using assms(3) typed_load [OF assms(2)] by simp
qed (use assms(3) typed_register_ops(1-4) [OF assms(2)] typed_store [OF assms(2)] typed_system [OF assms(2)] in
    \<open>metis execute_decoded.simps option.inject snd_conv\<close>)+

end

subsection \<open>Property\<close>

text \<open>The core of \<open>Exec_Core\<close> keeps the wider contract.\<close>

interpretation plain_trap: trapping_core "plain_ops oo" for oo :: "'d other_ops"
  by unfold_locales (auto simp: plain_ops_def pk_raise_def on_pk_bus_def split: prod.split)

lemma plain_core_traps: "trapping_core (plain_ops oo)"
  by unfold_locales

text \<open>C23: Execution is well typed.  Over any core that keeps the contract and enters a trap as the trap module says, to
  machine mode or delegated to supervisor mode: any instruction the decoder accepts, any atomic and any coprocessor instruction,
  whether it succeeds or fails, traps or returns from a trap, keeps the typing of the processor: \<open>x0\<close> holds zero, the
  program counter, \<open>mepc\<close> and \<open>sepc\<close> are even, \<open>mstatus\<close> has no bit outside its writable mask, and the arrays of the CSR
  file have their lengths.\<close>

theorem executor_keeps_types:
  assumes "trapping_core ops" "core_typed ops c"
  shows "(\<forall>pc d r c'. Decoder_decode i pc = Inr d \<longrightarrow> execute_decoded ops d c = Some (r, c') \<longrightarrow> core_typed ops c') \<and>
    core_typed ops (snd (execute_amo ops i c)) \<and> core_typed ops (snd (execute_custom0 ops i c))"
  using trapping_core.typed_decoded [OF assms(1) _ assms(2)] trapping_core.typed_amo [OF assms] trapping_core.typed_custom0 [OF assms]
  by blast

text \<open>\<open>jalr x0, 1(x1)\<close> from the small core: the target \<open>0x80000005\<close> loses its low bit.\<close>

theorem executor_keeps_types_witness:
  "\<exists>d c'. Decoder_decode 0x00108067 0 = Inr d \<and> execute_decoded (plain_ops no_ops) d small_core = Some (Inr (), c') \<and>
     pk_pc c' = 0x80000004 \<and> core_typed (plain_ops no_ops) c'"
proof -
  let ?d = "DI_Jalr \<lparr>it_rd = 0, it_rs1 = 1, it_imm = 1, it_funct3 = 0\<rparr>"
  have d: "Decoder_decode 0x00108067 0 = Inr ?d" by code_simp
  have r: "Registers_read (pk_regs small_core) 1 = 0x80000004" by (simp add: small_core_def)
  have t: "core_typed (plain_ops no_ops) small_core"
    using csr_wf_new by (simp add: core_typed_def csr_typed_def plain_ops_def small_core_def CsrFile_new_def Registers_write_def RegIdx_is_zero_def
        Registers_new_def)
  obtain c' where c': "execute_decoded (plain_ops no_ops) ?d small_core = Some (Inr (), c')" "pk_pc c' = 0x80000004"
    using r by (simp add: execute_jalr_def Let_def get_reg_def put_reg_def plain_ops_def small_core_def)
  then show ?thesis using executor_keeps_types [OF plain_core_traps t] d by blast
qed

end
