(* ===== verification/Pipe_Run.thy ===== *)
theory Pipe_Run
  imports Pipe_Correct
begin

text \<open>
  The run loop: \<open>ExecutionModel::run\<close> (\<open>src/src/cpu/execution_model.rs\<close>), a default method of
  the trait, on the processor that implements the trait.  A limit of 0 means none, so the loop need not end
  and is a partial function; \<^const>\<open>None\<close> is not returning.
\<close>

subsection \<open>The loop\<close>

text \<open>\<open>halted\<close> and \<open>step\<close> are the methods \<open>is_halted\<close> and \<open>step\<close> of the implementation.\<close>

partial_function (option) run_from ::
  "('s \<Rightarrow> bool) \<Rightarrow> ('s \<Rightarrow> 'a result \<times> 's) \<Rightarrow> u64 \<Rightarrow> u64 \<Rightarrow> 's \<Rightarrow> (u64 result \<times> 's) option" where
  "run_from halted step max_instructions count c =
     (if halted c then Some (Inr count, c)
      else if max_instructions > 0 \<and> count \<ge> max_instructions then Some (Inr count, c)
      else case step c of
             (Inl e, c') \<Rightarrow> Some (Inl e, c')
           | (Inr _, c') \<Rightarrow> run_from halted step max_instructions (count + 1) c')"

definition ExecutionModel_run ::
  "('s \<Rightarrow> bool) \<Rightarrow> ('s \<Rightarrow> 'a result \<times> 's) \<Rightarrow> u64 \<Rightarrow> 's \<Rightarrow> (u64 result \<times> 's) option" where
  "ExecutionModel_run halted step max_instructions c = run_from halted step max_instructions 0 c"

definition PipelineCpu_run :: "'d other_ops \<Rightarrow> u64 \<Rightarrow> 'd pipeline_cpu \<Rightarrow> (u64 result \<times> 'd pipeline_cpu) option" where
  "PipelineCpu_run ops = ExecutionModel_run pl_halted (PipelineCpu_step ops)"

text \<open>\<open>k\<close> steps that all succeed.\<close>

fun steps :: "('s \<Rightarrow> 'a result \<times> 's) \<Rightarrow> nat \<Rightarrow> 's \<Rightarrow> 's option" where
  "steps step 0 c = Some c"
| "steps step (Suc k) c = (case step c of (Inl _, _) \<Rightarrow> None | (Inr _, c') \<Rightarrow> steps step k c')"

text \<open>With a limit the loop ends, after at most that many steps.\<close>

lemma run_from_bounded:
  assumes "0 < limit" "count \<le> limit" "unat limit - unat count = m"
  shows "\<exists>r c' k ck. run_from halted step limit count c = Some (r, c') \<and> k \<le> m \<and> steps step k c = Some ck \<and>
    (case r of Inr n \<Rightarrow> c' = ck \<and> n = count + of_nat k \<and> (halted ck \<or> limit \<le> n)
     | Inl e \<Rightarrow> \<not> halted ck \<and> step ck = (Inl e, c') \<and> k < m)"
  using assms
proof (induction m arbitrary: count c)
  case 0
  then have "limit \<le> count" by (simp add: word_le_nat_alt)
  then show ?case using 0 by (intro exI [of _ "Inr count"] exI [of _ c] exI [of _ 0]) (simp add: run_from.simps)
next
  case (Suc m)
  show ?case
  proof (cases "halted c")
    case True
    then show ?thesis by (intro exI [of _ "Inr count"] exI [of _ c] exI [of _ 0]) (simp add: run_from.simps)
  next
    case False
    have lt: "count < limit" using Suc.prems(3) by (simp add: word_less_nat_alt)
    then have nge: "\<not> limit \<le> count" by simp
    obtain r1 c1 where s: "step c = (r1, c1)" by fastforce
    show ?thesis
    proof (cases r1)
      case (Inl e)
      then show ?thesis using False nge s
        by (intro exI [of _ "Inl e"] exI [of _ c1] exI [of _ 0] exI [of _ c]) (simp add: run_from.simps)
    next
      case (Inr a)
      have u: "unat (count + 1) = unat count + 1" "count + 1 \<le> limit"
        using lt unsigned_less [where w = limit and 'a = nat] inc_le [OF lt] by (simp_all add: word_less_nat_alt unat_word_ariths)
      have eq: "run_from halted step limit count c = run_from halted step limit (count + 1) c1"
        using False nge s Inr by (simp add: run_from.simps [of halted step limit count c])
      have "\<exists>r c' k ck. run_from halted step limit (count + 1) c1 = Some (r, c') \<and> k \<le> m \<and> steps step k c1 = Some ck \<and>
        (case r of Inr n \<Rightarrow> c' = ck \<and> n = count + 1 + of_nat k \<and> (halted ck \<or> limit \<le> n)
         | Inl e \<Rightarrow> \<not> halted ck \<and> step ck = (Inl e, c') \<and> k < m)"
        by (rule Suc.IH) (use Suc.prems u in simp_all)
      then obtain r c' k ck where ih:
        "run_from halted step limit (count + 1) c1 = Some (r, c')" "k \<le> m" "steps step k c1 = Some ck"
        "case r of Inr n \<Rightarrow> c' = ck \<and> n = count + 1 + of_nat k \<and> (halted ck \<or> limit \<le> n)
          | Inl e \<Rightarrow> \<not> halted ck \<and> step ck = (Inl e, c') \<and> k < m" by blast
      then show ?thesis unfolding eq using s Inr
        by (intro exI [of _ r] exI [of _ c'] exI [of _ "Suc k"] exI [of _ ck]) (auto split: sum.splits)
    qed
  qed
qed

text \<open>A property the steps keep holds after any run that returns; a normal return is a halt or the limit.\<close>

lemma run_from_keeps:
  assumes ret: "run_from halted step limit count c = Some (r, c')" and "P c"
    and step: "\<And>c. P c \<Longrightarrow> P (snd (step c))"
  shows "P c' \<and> (\<forall>n. r = Inr n \<longrightarrow> halted c' \<or> 0 < limit)"
proof -
  have "P c \<longrightarrow> P (snd res) \<and> (\<forall>n. fst res = Inr n \<longrightarrow> halted (snd res) \<or> 0 < limit)"
    if "run_from halted step limit count c = Some res" for res
  proof (rule run_from.raw_induct [where P = "\<lambda>halted step limit count c res. (\<forall>c. P c \<longrightarrow> P (snd (step c))) \<longrightarrow>
      P c \<longrightarrow> P (snd res) \<and> (\<forall>n. fst res = Inr n \<longrightarrow> halted (snd res) \<or> 0 < limit)", OF _ that, THEN mp])
    fix run and halted :: "'a \<Rightarrow> bool" and step :: "'a \<Rightarrow> 'b result \<times> 'a" and limit count c res
    assume ih: "\<And>halted step limit count c res. run halted step limit count c = Some res \<Longrightarrow> (\<forall>c. P c \<longrightarrow> P (snd (step c))) \<longrightarrow>
        P c \<longrightarrow> P (snd res) \<and> (\<forall>n. fst res = Inr n \<longrightarrow> halted (snd res) \<or> 0 < limit)"
      and eq: "(if halted c then Some (Inr count, c) else if 0 < limit \<and> limit \<le> count then Some (Inr count, c)
        else case step c of (Inl e, c') \<Rightarrow> Some (Inl e, c') | (Inr _, c') \<Rightarrow> run halted step limit (count + 1) c') = Some res"
    show "(\<forall>c. P c \<longrightarrow> P (snd (step c))) \<longrightarrow> P c \<longrightarrow> P (snd res) \<and> (\<forall>n. fst res = Inr n \<longrightarrow> halted (snd res) \<or> 0 < limit)"
    proof (intro impI)
      assume st: "\<forall>c. P c \<longrightarrow> P (snd (step c))" and p: "P c"
      then have "P (snd (step c))" by simp
      with eq p ih [of halted step limit "count + 1" "snd (step c)" res] st
      show "P (snd res) \<and> (\<forall>n. fst res = Inr n \<longrightarrow> halted (snd res) \<or> 0 < limit)"
        by (auto split: if_splits prod.splits sum.splits)
    qed
  qed (use step in blast)
  from this [OF ret] assms(2) show ?thesis by simp
qed

subsection \<open>What a cycle does to the halt flag and the instruction count\<close>

definition meter :: "'d pipeline_cpu \<Rightarrow> bool \<times> u64" where
  "meter c = (pl_halted c, pl_instructions_executed c)"

named_theorems meters "steps that leave the halt flag and the instruction count"

lemma meter_bind:
  assumes "meter (snd m) = x" "\<And>a s. meter s = x \<Longrightarrow> meter (snd (f a s)) = x"
  shows "meter (snd (bind_flow m f)) = x"
  using assms by (cases m; cases "fst m") (auto simp: bind_flow_def)

lemma meter_update [meters]:
  "meter (c\<lparr>pl_perf := x1\<rparr>) = meter c" "meter (c\<lparr>pl_csr := x2\<rparr>) = meter c" "meter (c\<lparr>pl_bus := x3\<rparr>) = meter c"
  "meter (c\<lparr>pl_execute_stage := x4\<rparr>) = meter c" "meter (c\<lparr>pl_fetch_stage := x5\<rparr>) = meter c"
  "meter (c\<lparr>pl_predictor := x6\<rparr>) = meter c" "meter (c\<lparr>pl_tlb := x7\<rparr>) = meter c"
  "meter (c\<lparr>pl_privilege := x8\<rparr>) = meter c" "meter (c\<lparr>pl_memory_stage := x9\<rparr>) = meter c"
  "meter (c\<lparr>pl_regs := x10\<rparr>) = meter c" "meter (c\<lparr>pl_writeback_stage := x11\<rparr>) = meter c"
  "meter (c\<lparr>pl_cycles := x12\<rparr>) = meter c" "meter (c\<lparr>pl_i_cache := x13\<rparr>) = meter c"
  by (simp_all add: meter_def)

lemma meter_small [meters]:
  "meter (end_cycle c) = meter c" "meter (clock_hpm b c) = meter c"
  "meter (clock_hazard c) = meter c" "meter (snd (clock_branch ie c)) = meter c"
  "meter (PipelineCpu_flush_pipeline c) = meter c" "meter (clock_update mw em dl ie mp ii pred latch c) = meter c"
  by (simp_all add: meter_def end_cycle_def clock_hpm_def clock_hazard_def clock_branch_def
      PipelineCpu_flush_pipeline_def clock_update_def Let_def)

lemma meter_set_pc [meters]: "meter (PipelineCpu_set_pc ops a c) = meter c"
  by (auto simp: meter_def PipelineCpu_set_pc_def PipelineCpu_prefetch_instr_latch_def split: prod.split sum.split)

lemma meter_trap [meters]: "meter (PipelineCpu_take_trap ops t c) = meter c"
  by (simp add: PipelineCpu_take_trap_def meters split_beta)

lemma meter_trap_return [meters]: "meter (PipelineCpu_execute_trap_return ops c) = meter c"
  by (simp add: PipelineCpu_execute_trap_return_def meters Let_def)

lemma meter_fault [meters]: "meter (snd (fault_exit ops epc e c)) = meter c"
  by (cases e) (simp_all add: fault_exit_def meters)

lemma meter_translate [meters]: "meter (snd (PipelineCpu_translate_with_tlb ops va acc c)) = meter c"
  by (simp add: PipelineCpu_translate_with_tlb_def split_beta Let_def meters)

lemma meter_d_cache [meters]: "meter (snd (on_d_cache f c)) = meter c"
  by (simp add: on_d_cache_def meter_def split: prod.split sum.split)

lemma meter_results:
  "PipelineCpu_translate_with_tlb ops va acc c = (r, c') \<Longrightarrow> meter c' = meter c"
  "on_d_cache f c = (s, c') \<Longrightarrow> meter c' = meter c"
  using meter_translate [of ops va acc c] meter_d_cache [of f c] by simp_all

lemma meter_icache [meters]: "meter (snd (PipelineCpu_read_cache_word_and_record ops a c)) = meter c"
  by (simp add: PipelineCpu_read_cache_word_and_record_def meters split: prod.split sum.split)

lemma meter_fetch_word: "meter (snd (fetch_word ops va c)) = meter c"
  using meter_translate [of ops va Instruction c] meter_icache [of ops]
  by (auto simp: fetch_word_def bind_st_def split: prod.split sum.split)

lemma meter_interrupts [meters]: "meter (snd (clock_interrupts ops c)) = meter c"
proof -
  have sync: "meter (PipelineCpu_sync_interrupts ops c) = meter c" for c
    by (simp add: PipelineCpu_sync_interrupts_def Let_def split_beta meters)
  have chk: "meter (snd (PipelineCpu_check_and_handle_interrupt ops c)) = meter c" for c
    by (simp add: PipelineCpu_check_and_handle_interrupt_def Let_def meters split: option.split)
  show ?thesis
    using chk [of "PipelineCpu_sync_interrupts ops (c\<lparr>pl_bus := Bus_tick_clint (pl_bus c) 1\<rparr>)"]
    by (auto simp: clock_interrupts_def Let_def meters sync split: prod.split bool.split)
qed

lemma meter_memory [meters]: "meter (snd (clock_memory ops c)) = meter c"
  unfolding clock_memory_def Let_def
  by (auto simp: meters split: prod.split sum.split dest!: meter_results)

lemma meter_execute [meters]: "meter (snd (clock_execute ops c)) = meter c"
  by (simp add: clock_execute_def Let_def meters split: prod.split sum.split)

lemma meter_data_read [meters]: "meter (snd (clock_data_read ops em c)) = meter c"
  by (auto simp: clock_data_read_def meters split: prod.split sum.split dest!: meter_results)

lemma meter_decode [meters]: "meter (snd (clock_decode c)) = meter c"
  using meter_small(4) unfolding clock_decode_def Let_def
  by (auto simp: split_beta meters split: sum.split)

lemma meter_fetch [meters]: "meter (snd (clock_fetch ops mp redirect c)) = meter c"
proof -
  have pre: "meter (snd (snd (FetchStage_pre_fetch fs stall t k (fetch_word ops) s))) = meter s" for fs stall t k s
    using meter_fetch_word [of ops _ s]
    by (auto simp: FetchStage_pre_fetch_def Let_def split: prod.split sum.split) (metis snd_conv)+
  show ?thesis
    unfolding clock_fetch_def Let_def split_beta by (auto simp: meters pre split: sum.split)
qed

text \<open>Write-back counts the instruction; nothing else touches the two.\<close>

lemma meter_writeback:
  "meter (snd (clock_writeback c)) = (pl_halted c, pl_instructions_executed c + of_bool (fst (clock_writeback c)))"
  by (simp add: clock_writeback_def Let_def split_beta) (simp add: meter_def)

lemma meter_clock:
  "pl_halted (snd (PipelineCpu_clock ops c)) = pl_halted c"
  "pl_instructions_executed (snd (PipelineCpu_clock ops c)) \<in>
     {pl_instructions_executed c, pl_instructions_executed c + 1}"
proof -
  have stages: "\<exists>b. meter (snd (clock_stages ops c)) = (pl_halted c, pl_instructions_executed c + of_bool b)" for c :: "'a pipeline_cpu"
  proof -
    let ?w = "clock_writeback (clock_hazard c)"
    have w: "meter (snd ?w) = (pl_halted c, pl_instructions_executed c + of_bool (fst ?w))"
      using meter_writeback [of "clock_hazard c"] meter_small(3) [of c] by (simp add: meter_def)
    show ?thesis
      unfolding clock_stages_def split_beta Let_def w [symmetric]
      by (intro exI [of _ "fst ?w"], unfold w [symmetric])
        (intro meter_bind; simp add: meters split_beta)
  qed
  obtain b where b: "meter (snd (bind_flow (clock_interrupts ops c) (\<lambda>_. clock_stages ops))) =
      (pl_halted c, pl_instructions_executed c + of_bool b)"
  proof (cases "clock_interrupts ops c")
    case (Pair fl c1)
    have m: "meter c1 = meter c" using meter_interrupts [of ops c] Pair by simp
    show ?thesis
    proof (cases fl)
      case (Next u)
      then show ?thesis using stages [of c1] m Pair that by (auto simp: bind_flow_def meter_def)
    next
      case (Return r)
      then show ?thesis using m Pair that [of False] by (simp add: bind_flow_def meter_def)
    qed
  qed
  then show "pl_halted (snd (PipelineCpu_clock ops c)) = pl_halted c"
    "pl_instructions_executed (snd (PipelineCpu_clock ops c)) \<in>
      {pl_instructions_executed c, pl_instructions_executed c + 1}"
    by (cases b; auto simp: PipelineCpu_clock_def meter_def split: prod.split flow.split)+
qed

lemma step_clock: "snd (PipelineCpu_step ops c) = snd (PipelineCpu_clock ops c)"
  by (cases "PipelineCpu_clock ops c"; cases "fst (PipelineCpu_clock ops c)") (auto simp: PipelineCpu_step_def)

lemma steps_meter:
  "steps (PipelineCpu_step ops) k c = Some ck \<Longrightarrow>
    pl_halted ck = pl_halted c \<and> (\<exists>j \<le> k. pl_instructions_executed ck = pl_instructions_executed c + of_nat j)"
proof (induction k arbitrary: c)
  case (Suc k)
  obtain a c1 where s: "PipelineCpu_step ops c = (Inr a, c1)" "steps (PipelineCpu_step ops) k c1 = Some ck"
    using Suc.prems by (auto split: prod.splits sum.splits)
  have c1: "c1 = snd (PipelineCpu_clock ops c)" using step_clock [of ops c] s(1) by simp
  from Suc.IH [OF s(2)] obtain j where j: "pl_halted ck = pl_halted c1" "j \<le> k"
    "pl_instructions_executed ck = pl_instructions_executed c1 + of_nat j" by blast
  from meter_clock(2) [of ops c] consider "pl_instructions_executed c1 = pl_instructions_executed c"
    | "pl_instructions_executed c1 = pl_instructions_executed c + 1" unfolding c1 by blast
  then show ?case
  proof cases
    case 1
    then show ?thesis using j meter_clock(1) [of ops c] c1 by (intro conjI exI [of _ j]) auto
  next
    case 2
    then show ?thesis using j meter_clock(1) [of ops c] c1 by (intro conjI exI [of _ "Suc j"]) (auto simp: ac_simps)
  qed
qed simp

subsection \<open>Properties\<close>

text \<open>C5: A run with a limit ends.  On a processor that is not halted, \<open>run(limit)\<close> for a nonzero limit returns:
  either after exactly \<open>limit\<close> successful clock cycles, with \<open>limit\<close>, or with the error of the first cycle
  that fails, before the limit.  What it counts and returns are clock cycles; the instructions completed
  are at most as many.\<close>

theorem run_ends:
  assumes "limit \<noteq> 0" "\<not> pl_halted c"
  shows "\<exists>k ck. steps (PipelineCpu_step ops) k c = Some ck \<and>
    (\<exists>j \<le> k. pl_instructions_executed ck = pl_instructions_executed c + of_nat j) \<and>
    (k = unat limit \<and> PipelineCpu_run ops limit c = Some (Inr limit, ck) \<or>
     k < unat limit \<and> (\<exists>e c'. PipelineCpu_step ops ck = (Inl e, c') \<and> PipelineCpu_run ops limit c = Some (Inl e, c')))"
proof -
  have "0 < limit" using assms(1) by (simp add: word_gt_0)
  note bounded = run_from_bounded [OF this, of 0 "unat limit" pl_halted "PipelineCpu_step ops" c]
  have "unat limit - unat (0 :: u64) = unat limit" "(0 :: u64) \<le> limit" by simp_all
  from bounded [OF this(2,1), folded ExecutionModel_run_def, folded PipelineCpu_run_def] obtain r c' k ck where
    b: "PipelineCpu_run ops limit c = Some (r, c')" "k \<le> unat limit" "steps (PipelineCpu_step ops) k c = Some ck"
      "case r of Inr n \<Rightarrow> c' = ck \<and> n = 0 + of_nat k \<and> (pl_halted ck \<or> limit \<le> n)
       | Inl e \<Rightarrow> \<not> pl_halted ck \<and> PipelineCpu_step ops ck = (Inl e, c') \<and> k < unat limit"
    by blast
  note m = steps_meter [OF b(3)]
  show ?thesis
  proof (cases r)
    case (Inl e)
    then show ?thesis using b m by auto
  next
    case (Inr n)
    then have n: "n = of_nat k" "limit \<le> n" "c' = ck" using b(4) m assms(2) by auto
    have lt: "unat limit < 2 ^ 64" using unsigned_less [where w = limit and 'a = nat] by simp
    then have "k = unat limit" using n b(2) by (simp add: word_le_nat_alt unat_of_nat)
    then show ?thesis using b Inr n m by auto
  qed
qed

theorem run_ends_witness: "\<exists>c'. PipelineCpu_run no_ops 1 demo = Some (Inr 1, c')"
proof -
  have ok: "PipelineCpu_step no_ops demo \<noteq> (Inl e, c')" for e c'
    using demo_untrapped by (auto simp: untrapped_def PipelineCpu_step_def PipelineCpu_clock_def bind_flow_def bind_st_def split: prod.splits flow.splits)
  have "\<not> pl_halted demo" by (simp add: demo_def)
  from run_ends [OF _ this, of 1 no_ops] ok show ?thesis by fastforce
qed

text \<open>A run without a limit never succeeds.  Nothing in a clock cycle sets the halt flag, so on a processor
  that is not halted \<open>run(0)\<close> either goes on for ever or returns an error, whatever the program does.\<close>

theorem unlimited_run_never_succeeds:
  assumes "\<not> pl_halted c"
  shows "PipelineCpu_run ops 0 c \<noteq> Some (Inr n, c')"
  using run_from_keeps [of pl_halted "PipelineCpu_step ops" 0 0 c "Inr n" c' "\<lambda>c. \<not> pl_halted c"] assms
  by (auto simp: PipelineCpu_run_def ExecutionModel_run_def step_clock meter_clock)

theorem unlimited_run_never_succeeds_witness: "\<nexists>n c'. PipelineCpu_run no_ops 0 demo = Some (Inr n, c')"
proof -
  have "\<not> pl_halted demo" by (simp add: demo_def)
  then show ?thesis using unlimited_run_never_succeeds by blast
qed

end
