(* ===== verification/Elf_Loader.thy ===== *)
theory Elf_Loader
  imports Bus_Model
begin

text \<open>
  The program loader: \<open>src/src/loader/mod.rs\<close>.  Parsing is the crate \<open>goblin\<close>, a parameter: its
  \<open>Elf::parse\<close>, which gives the header fields and program headers the loader reads or nothing where it
  fails, and its two constants.  Nothing is assumed of them.  Reading the file is left out.  A slice of the file
  beyond its end is a panic, \<^const>\<open>None\<close>; the loader is shown not to reach one.
\<close>

subsection \<open>The view of the parsed file\<close>

record program_header =
  p_type :: u32
  p_offset :: u64
  p_vaddr :: u64
  p_memsz :: u64
  p_filesz :: u64
  p_flags :: u32

record elf_view =
  e_machine :: u16
  elf_is_64 :: bool
  e_entry :: u64
  e_phoff :: u64
  e_phnum :: u16
  e_shoff :: u64
  e_shnum :: u16
  elf_program_headers :: "program_header list"

record goblin =
  gb_parse :: "u8 list \<Rightarrow> elf_view option"
  gb_EM_RISCV :: u16
  gb_PT_LOAD :: u32

subsection \<open>The loader's data\<close>

record segment_info =
  si_vaddr :: u64
  si_memsz :: u64
  si_filesz :: u64
  si_flags :: u32

record loadable_segment =
  ls_offset :: nat
  ls_info :: segment_info

record elf_header_info =
  eh_entry :: u64
  eh_phoff :: u64
  eh_phnum :: nat
  eh_shoff :: u64
  eh_shnum :: nat

record elf_loader =
  el_bytes :: "u8 list"
  el_entry :: u64
  el_header :: elf_header_info
  el_segments :: "loadable_segment list"

subsection \<open>Parsing\<close>

text \<open>The loop over the program headers; \<open>usize\<close> has 64 bits on the host.\<close>

fun load_segments :: "u32 \<Rightarrow> nat \<Rightarrow> program_header list \<Rightarrow> loadable_segment list result" where
  "load_segments pt_load file_len [] = Inr []"
| "load_segments pt_load file_len (ph # phs) =
     (if p_type ph \<noteq> pt_load then load_segments pt_load file_len phs
      else
        let offset = unat (p_offset ph); filesz = unat (p_filesz ph) in
        if offset + filesz \<ge> 2 ^ 64 then Inl ElfParseError
        else if offset + filesz > file_len then Inl ElfParseError
        else bind_res (load_segments pt_load file_len phs) (\<lambda>segs.
          Inr (\<lparr>ls_offset = offset, ls_info = \<lparr>si_vaddr = p_vaddr ph, si_memsz = p_memsz ph, si_filesz = p_filesz ph,
                 si_flags = p_flags ph\<rparr>\<rparr> # segs)))"

definition ElfLoader_from_bytes :: "goblin \<Rightarrow> u8 list \<Rightarrow> elf_loader result" where
  "ElfLoader_from_bytes gb bytes =
     (case gb_parse gb bytes of
        None \<Rightarrow> Inl ElfParseError
      | Some elf \<Rightarrow>
          if e_machine elf \<noteq> gb_EM_RISCV gb then Inl ElfParseError
          else if elf_is_64 elf then Inl ElfParseError
          else
            let header = \<lparr>eh_entry = e_entry elf, eh_phoff = e_phoff elf, eh_phnum = unat (e_phnum elf),
                  eh_shoff = e_shoff elf, eh_shnum = unat (e_shnum elf)\<rparr>
            in bind_res (load_segments (gb_PT_LOAD gb) (length bytes) (elf_program_headers elf)) (\<lambda>segs.
                 Inr \<lparr>el_bytes = bytes, el_entry = eh_entry header, el_header = header, el_segments = segs\<rparr>))"

definition ElfLoader_entry_point :: "elf_loader \<Rightarrow> addr" where
  "ElfLoader_entry_point l = ucast (el_entry l)"

definition ElfLoader_segment_count :: "elf_loader \<Rightarrow> nat" where
  "ElfLoader_segment_count l = length (el_segments l)"

definition ElfLoader_header_info :: "elf_loader \<Rightarrow> elf_header_info" where
  "ElfLoader_header_info l = el_header l"

definition ElfLoader_segments :: "elf_loader \<Rightarrow> segment_info list" where
  "ElfLoader_segments l = map ls_info (el_segments l)"

subsection \<open>Loading\<close>

text \<open>\<open>&bytes[offset..offset + filesz]\<close>.\<close>

definition slice :: "u8 list \<Rightarrow> nat \<Rightarrow> nat \<Rightarrow> u8 list option" where
  "slice bytes offset len = (if offset + len \<le> length bytes then Some (take len (drop offset bytes)) else None)"

text \<open>The body of the loop: the address is the low half of the segment's; the sum wraps as in a release build.\<close>

definition load_segment :: "'d other_ops \<Rightarrow> u8 list \<Rightarrow> loadable_segment \<Rightarrow> 'd bus \<Rightarrow> (unit result \<times> 'd bus) option" where
  "load_segment ops bytes seg b =
     (let vaddr = (ucast (si_vaddr (ls_info seg)) :: u32); filesz = unat (si_filesz (ls_info seg));
          memsz = unat (si_memsz (ls_info seg)); offset = ls_offset seg in
      map_option
        (\<lambda>(r, b). bind_st (r, b) (\<lambda>_ b.
           if memsz > filesz then
             bind_st (Bus_write_bytes ops b (vaddr + of_nat filesz) (replicate (memsz - filesz) 0)) (\<lambda>_ b. (Inr (), b))
           else (Inr (), b)))
        (if filesz > 0 then
           map_option (\<lambda>segment_data. bind_st (Bus_write_bytes ops b vaddr segment_data) (\<lambda>_ b. (Inr (), b)))
             (slice bytes offset filesz)
         else Some (Inr (), b)))"

fun load_all :: "'d other_ops \<Rightarrow> u8 list \<Rightarrow> loadable_segment list \<Rightarrow> 'd bus \<Rightarrow> (unit result \<times> 'd bus) option" where
  "load_all ops bytes [] b = Some (Inr (), b)"
| "load_all ops bytes (seg # segs) b =
     (case load_segment ops bytes seg b of
        None \<Rightarrow> None
      | Some (Inl e, b) \<Rightarrow> Some (Inl e, b)
      | Some (Inr _, b) \<Rightarrow> load_all ops bytes segs b)"

definition ElfLoader_load_into :: "'d other_ops \<Rightarrow> elf_loader \<Rightarrow> 'd bus \<Rightarrow> (unit result \<times> 'd bus) option" where
  "ElfLoader_load_into ops l b = load_all ops (el_bytes l) (el_segments l) b"

subsection \<open>The memory image\<close>

text \<open>A block of bytes laid over a memory at an address, and the image of a program: each segment its bytes of the
  file and zeros up to its size in memory, a later one over an earlier.\<close>

definition poke :: "addr \<Rightarrow> u8 list \<Rightarrow> (addr \<Rightarrow> u8) \<Rightarrow> addr \<Rightarrow> u8" where
  "poke a bs f = (\<lambda>x. if unat (x - a) < length bs then bs ! unat (x - a) else f x)"

definition segment_bytes :: "u8 list \<Rightarrow> loadable_segment \<Rightarrow> u8 list" where
  "segment_bytes bytes seg =
     (let filesz = unat (si_filesz (ls_info seg)) in
      take filesz (drop (ls_offset seg) bytes) @ replicate (unat (si_memsz (ls_info seg)) - filesz) 0)"

definition segment_base :: "loadable_segment \<Rightarrow> addr" where
  "segment_base seg = ucast (si_vaddr (ls_info seg))"

definition program_image :: "u8 list \<Rightarrow> loadable_segment list \<Rightarrow> (addr \<Rightarrow> u8) \<Rightarrow> addr \<Rightarrow> u8" where
  "program_image bytes segs f = fold (\<lambda>seg. poke (segment_base seg) (segment_bytes bytes seg)) segs f"

text \<open>What is asked of the bus: every byte of every segment is in memory, and no segment is larger than the
  address space.\<close>

definition segments_fit :: "'d bus \<Rightarrow> u8 list \<Rightarrow> loadable_segment list \<Rightarrow> bool" where
  "segments_fit b bytes segs \<longleftrightarrow>
     (\<forall>seg \<in> set segs. length (segment_bytes bytes seg) \<le> 2 ^ 32 \<and>
        (\<forall>k < length (segment_bytes bytes seg). bus_holds b (segment_base seg + of_nat k)))"

subsection \<open>Bounds\<close>

lemma load_segments_bounds:
  "load_segments pt n phs = Inr segs \<Longrightarrow> seg \<in> set segs \<Longrightarrow>
    ls_offset seg + unat (si_filesz (ls_info seg)) \<le> n"
  by (induction phs arbitrary: segs) (auto simp: Let_def bind_res_Inr split: if_splits)

lemma from_bytes_segments:
  assumes "ElfLoader_from_bytes gb bytes = Inr l"
  shows "el_bytes l = bytes" "\<exists>pt phs. load_segments pt (length bytes) phs = Inr (el_segments l)"
proof -
  obtain elf where elf: "gb_parse gb bytes = Some elf"
    using assms by (auto simp: ElfLoader_from_bytes_def split: option.splits)
  then have "load_segments (gb_PT_LOAD gb) (length bytes) (elf_program_headers elf) = Inr (el_segments l) \<and> el_bytes l = bytes"
    using assms by (auto simp: ElfLoader_from_bytes_def Let_def bind_res_Inr split: if_splits)
  then show "el_bytes l = bytes" "\<exists>pt phs. load_segments pt (length bytes) phs = Inr (el_segments l)" by blast+
qed

lemma from_bytes_bounds:
  assumes "ElfLoader_from_bytes gb bytes = Inr l" "seg \<in> set (el_segments l)"
  shows "ls_offset seg + unat (si_filesz (ls_info seg)) \<le> length (el_bytes l)"
  using from_bytes_segments [OF assms(1)] load_segments_bounds assms(2) by auto

lemma load_segment_total:
  "ls_offset seg + unat (si_filesz (ls_info seg)) \<le> length bytes \<Longrightarrow> load_segment ops bytes seg b \<noteq> None"
  by (simp add: load_segment_def slice_def Let_def)

lemma load_all_total:
  "(\<And>seg. seg \<in> set segs \<Longrightarrow> ls_offset seg + unat (si_filesz (ls_info seg)) \<le> length bytes) \<Longrightarrow>
    load_all ops bytes segs b \<noteq> None"
proof (induction segs arbitrary: b)
  case (Cons seg segs)
  then show ?case using load_segment_total [of seg bytes ops b]
    by (auto split: option.split sum.split)
qed simp

subsection \<open>Writing blocks\<close>

lemma poke_Nil [simp]: "poke a [] f = f"
  by (simp add: poke_def)

lemma poke_Cons:
  assumes "length (x # xs) \<le> 2 ^ 32"
  shows "poke a (x # xs) f = poke (a + 1) xs (f(a := x))"
proof
  fix y
  show "poke a (x # xs) f y = poke (a + 1) xs (f(a := x)) y"
  proof (cases "y = a")
    case True
    have "unat (- 1 :: u32) = 2 ^ 32 - 1" by (simp add: unsigned_minus_1_eq_mask mask_eq_exp_minus_1)
    then show ?thesis using True assms by (simp add: poke_def)
  next
    case False
    then have "y - a \<noteq> 0" by simp
    then have "unat (y - a) = Suc (unat (y - a - 1))" by (simp add: unat_minus_one unat_gt_0)
    then show ?thesis using False by (simp add: poke_def diff_diff_eq)
  qed
qed

lemma poke_append:
  assumes "length (xs @ ys) \<le> 2 ^ 32"
  shows "poke a (xs @ ys) f = poke (a + of_nat (length xs)) ys (poke a xs f)"
  using assms
proof (induction xs arbitrary: a f)
  case (Cons x xs)
  then show ?case by (simp add: poke_Cons ac_simps)
qed simp

context byte_store
begin

text \<open>A block written byte by byte is laid over the memory.\<close>

lemma write_bytes_poke:
  assumes "write_bytes_from wb a i bs m = (r, m')" "\<forall>k < length bs. holds m (a + of_nat (i + k))" "length bs \<le> 2 ^ 32"
  shows "holds m c \<Longrightarrow> byte m' c = poke (a + of_nat i) bs (byte m) c"
  using assms
proof (induction bs arbitrary: i m)
  case (Cons x bs)
  obtain r1 m1 where e1: "wb m (a + of_nat i) x = (r1, m1)" by fastforce
  have "holds m (a + of_nat i)" using Cons.prems(3) by (force dest: spec [of _ 0])
  note w1 = wb_after [OF e1 this]
  have tl: "write_bytes_from wb a (Suc i) bs m1 = (r, m')"
    using Cons.prems(2) e1 w1(1) by (simp add: Addr_add_def)
  have "\<forall>k < length bs. holds m1 (a + of_nat (Suc i + k))"
  proof (intro allI impI)
    fix k assume "k < length bs"
    then show "holds m1 (a + of_nat (Suc i + k))"
      using Cons.prems(3) [rule_format, of "Suc k"] by (simp add: w1(2) ac_simps)
  qed
  from Cons.IH [OF _ tl this] Cons.prems(1,4)
  have "byte m' c = poke (a + of_nat i + 1) bs (byte m1) c" by (simp add: w1(2) ac_simps)
  also have "\<dots> = poke (a + of_nat i + 1) bs ((byte m)(a + of_nat i := x)) c"
    using w1(3) [OF Cons.prems(1)] by (simp add: poke_def)
  finally show ?case using Cons.prems(4) by (simp add: poke_Cons)
qed simp

end

lemma bus_write_bytes:
  assumes "Bus_write_bytes ops b a bs = (r, b')" "\<forall>k < length bs. bus_holds b (a + of_nat k)" "length bs \<le> 2 ^ 32"
  shows "r = Inr (length bs)" "bus_holds b' c = bus_holds b c" "bus_holds b c \<Longrightarrow> bus_byte b' c = poke a bs (bus_byte b) c"
proof -
  obtain r1 b1 where w: "write_bytes_from (Bus_write_byte ops) a 0 bs b = (r1, b1)" by fastforce
  have h: "\<forall>k < length bs. bus_holds b (a + of_nat (0 + k))" using assms(2) by simp
  note fr = bus_store.write_bytes_frame [OF w h]
  note pk = bus_store.write_bytes_poke [OF w h assms(3), of c]
  have "r = Inr (length bs)" "b' = b1"
    using assms(1) w fr by (auto simp: Bus_write_bytes_def Memory_write_bytes_def)
  then show "r = Inr (length bs)" "bus_holds b' c = bus_holds b c"
    "bus_holds b c \<Longrightarrow> bus_byte b' c = poke a bs (bus_byte b) c"
    using fr pk by simp_all
qed

lemma load_segment_image:
  assumes in_file: "ls_offset seg + unat (si_filesz (ls_info seg)) \<le> length bytes"
    and len: "length (segment_bytes bytes seg) \<le> 2 ^ 32"
    and fit: "\<forall>k < length (segment_bytes bytes seg). bus_holds b (segment_base seg + of_nat k)"
  shows "\<exists>b'. load_segment ops bytes seg b = Some (Inr (), b') \<and> (\<forall>c. bus_holds b' c = bus_holds b c) \<and>
    (\<forall>c. bus_holds b c \<longrightarrow> bus_byte b' c = poke (segment_base seg) (segment_bytes bytes seg) (bus_byte b) c)"
proof -
  define fz where "fz = unat (si_filesz (ls_info seg))"
  define data where "data = take fz (drop (ls_offset seg) bytes)"
  define zeros where "zeros = (replicate (unat (si_memsz (ls_info seg)) - fz) 0 :: u8 list)"
  have sb: "segment_bytes bytes seg = data @ zeros"
    by (simp add: segment_bytes_def data_def zeros_def fz_def Let_def)
  have ld: "length data = fz" using in_file by (simp add: data_def fz_def)
  obtain r1 b1 where w1: "Bus_write_bytes ops b (segment_base seg) data = (r1, b1)" by fastforce
  note W1 = bus_write_bytes [OF w1]
  have f1: "\<forall>k < length data. bus_holds b (segment_base seg + of_nat k)" "length data \<le> 2 ^ 32"
    using fit len by (auto simp: sb)
  obtain r2 b2 where w2: "Bus_write_bytes ops b1 (segment_base seg + of_nat fz) zeros = (r2, b2)" by fastforce
  have f2: "\<forall>k < length zeros. bus_holds b1 (segment_base seg + of_nat fz + of_nat k)" "length zeros \<le> 2 ^ 32"
    using fit [rule_format, of "fz + _"] len by (auto simp: sb ld W1(2) [OF f1] ac_simps)
  note W2 = bus_write_bytes [OF w2 f2]
  have first: "fz = 0 \<Longrightarrow> b1 = b" using w1 ld by (auto simp: Bus_write_bytes_def Memory_write_bytes_def)
  have second: "zeros = [] \<Longrightarrow> b2 = b1" using w2 by (auto simp: Bus_write_bytes_def Memory_write_bytes_def)
  have run: "load_segment ops bytes seg b = Some (Inr (), b2)"
    using w1 w2 W1(1) [OF f1] W2(1) first second in_file
    by (auto simp: load_segment_def Let_def slice_def segment_base_def data_def zeros_def fz_def unsigned_eq_0_iff)
  have "bus_byte b2 c = poke (segment_base seg) (data @ zeros) (bus_byte b) c" if "bus_holds b c" for c
  proof -
    have "bus_byte b2 c = poke (segment_base seg + of_nat fz) zeros (bus_byte b1) c"
      using W2(3) [of c] W1(2) [OF f1] that by simp
    also have "\<dots> = poke (segment_base seg + of_nat fz) zeros (poke (segment_base seg) data (bus_byte b)) c"
      using W1(3) [OF f1 that] by (simp add: poke_def)
    finally show ?thesis using len by (simp add: poke_append sb ld)
  qed
  then show ?thesis using run W1(2) [OF f1] W2(2) by (auto simp: sb)
qed

lemma fold_poke_cong:
  "(\<forall>x. h x \<longrightarrow> f x = g x) \<Longrightarrow> h c \<Longrightarrow> program_image bytes segs f c = program_image bytes segs g c"
proof (induction segs arbitrary: f g)
  case (Cons seg segs)
  have "\<forall>x. h x \<longrightarrow> poke (segment_base seg) (segment_bytes bytes seg) f x = poke (segment_base seg) (segment_bytes bytes seg) g x"
    using Cons.prems(1) by (simp add: poke_def)
  from Cons.IH [OF this Cons.prems(2)] show ?case by (simp add: program_image_def)
qed (simp add: program_image_def)

lemma load_all_image:
  assumes "\<And>seg. seg \<in> set segs \<Longrightarrow> ls_offset seg + unat (si_filesz (ls_info seg)) \<le> length bytes"
    and "segments_fit b bytes segs"
  shows "\<exists>b'. load_all ops bytes segs b = Some (Inr (), b') \<and> (\<forall>c. bus_holds b' c = bus_holds b c) \<and>
    (\<forall>c. bus_holds b c \<longrightarrow> bus_byte b' c = program_image bytes segs (bus_byte b) c)"
  using assms
proof (induction segs arbitrary: b)
  case (Cons seg segs)
  have in_file: "ls_offset seg + unat (si_filesz (ls_info seg)) \<le> length bytes" by (rule Cons.prems(1)) simp
  from load_segment_image [OF in_file, of b ops] Cons.prems(2) obtain b1 where b1:
    "load_segment ops bytes seg b = Some (Inr (), b1)" "\<forall>c. bus_holds b1 c = bus_holds b c"
    "\<forall>c. bus_holds b c \<longrightarrow> bus_byte b1 c = poke (segment_base seg) (segment_bytes bytes seg) (bus_byte b) c"
    by (auto simp: segments_fit_def)
  have "segments_fit b1 bytes segs" using Cons.prems(2) b1(2) by (simp add: segments_fit_def)
  from Cons.IH [OF Cons.prems(1) this] obtain b2 where b2:
    "load_all ops bytes segs b1 = Some (Inr (), b2)" "\<forall>c. bus_holds b2 c = bus_holds b1 c"
    "\<forall>c. bus_holds b1 c \<longrightarrow> bus_byte b2 c = program_image bytes segs (bus_byte b1) c" by auto
  have "bus_byte b2 c = program_image bytes (seg # segs) (bus_byte b) c" if "bus_holds b c" for c
    using b2(3) that b1(2) fold_poke_cong [OF b1(3) that, of bytes segs] by (simp add: program_image_def)
  then show ?case using b1 b2 by auto
qed (simp add: program_image_def)

subsection \<open>Properties\<close>

text \<open>Loading never reads past the file.  Whatever the parser reports, a loader that \<open>from_bytes\<close> accepted has
  every segment inside the file, so \<open>load_into\<close> takes no slice out of bounds and does not panic, on any
  bus; it returns, possibly with the error of a write.\<close>

theorem elf_load_safe:
  assumes "ElfLoader_from_bytes gb bytes = Inr l"
  shows "\<exists>r b'. ElfLoader_load_into ops l b = Some (r, b')"
  using load_all_total [of "el_segments l" "el_bytes l" ops b] from_bytes_bounds [OF assms]
  by (auto simp: ElfLoader_load_into_def)

text \<open>C7: Loading builds the program's image.  For a loader that \<open>from_bytes\<close> accepted, on a bus where every byte of
  every segment is memory, \<open>load_into\<close> succeeds, and the memory behind the bus is then what it was with each
  segment laid over it in order: its bytes of the file at its address, and zeros from there up to its
  size in memory.\<close>

theorem elf_load_image:
  assumes "ElfLoader_from_bytes gb bytes = Inr l" "segments_fit b bytes (el_segments l)"
  shows "\<exists>b'. ElfLoader_load_into ops l b = Some (Inr (), b') \<and>
    (\<forall>c. bus_holds b' c = bus_holds b c) \<and>
    (\<forall>c. bus_holds b c \<longrightarrow> bus_byte b' c = program_image bytes (el_segments l) (bus_byte b) c)"
  using load_all_image [of "el_segments l" bytes b ops] from_bytes_bounds [OF assms(1)] from_bytes_segments(1) [OF assms(1)] assms(2)
  by (simp add: ElfLoader_load_into_def)

text \<open>A file of two bytes with one segment of four.\<close>

definition demo_view :: elf_view where
  "demo_view = \<lparr>e_machine = 243, elf_is_64 = False, e_entry = 0x80000004, e_phoff = 52, e_phnum = 1, e_shoff = 0, e_shnum = 0,
     elf_program_headers = [\<lparr>p_type = 1, p_offset = 0, p_vaddr = 0x80000004, p_memsz = 4, p_filesz = 2, p_flags = 5\<rparr>]\<rparr>"

definition demo_goblin :: goblin where
  "demo_goblin = \<lparr>gb_parse = \<lambda>_. Some demo_view, gb_EM_RISCV = 243, gb_PT_LOAD = 1\<rparr>"

definition demo_segment :: loadable_segment where
  "demo_segment = \<lparr>ls_offset = 0, ls_info = \<lparr>si_vaddr = 0x80000004, si_memsz = 4, si_filesz = 2, si_flags = 5\<rparr>\<rparr>"

lemma demo_loader: "\<exists>l. ElfLoader_from_bytes demo_goblin [0xAA, 0xBB] = Inr l \<and> el_segments l = [demo_segment]"
  by (simp add: ElfLoader_from_bytes_def demo_view_def demo_segment_def demo_goblin_def Let_def)

lemma demo_segment_bytes: "segment_bytes [0xAA, 0xBB] demo_segment = [0xAA, 0xBB, 0, 0]" "segment_base demo_segment = 0x80000004"
  by code_simp+

theorem elf_load_safe_witness:
  "\<exists>l. ElfLoader_from_bytes demo_goblin [0xAA, 0xBB] = Inr l \<and> ElfLoader_load_into no_ops l small_bus \<noteq> None"
proof -
  obtain l where l: "ElfLoader_from_bytes demo_goblin [0xAA, 0xBB] = Inr l" using demo_loader by blast
  then show ?thesis using elf_load_safe [OF l, of no_ops small_bus] by auto
qed

theorem elf_load_image_witness:
  "\<exists>l b'. ElfLoader_from_bytes demo_goblin [0xAA, 0xBB] = Inr l \<and>
     ElfLoader_load_into no_ops l small_bus = Some (Inr (), b') \<and>
     map (bus_byte b') [0x80000004, 0x80000005, 0x80000006, 0x80000007] = [0xAA, 0xBB, 0, 0]"
proof -
  obtain l where l: "ElfLoader_from_bytes demo_goblin [0xAA, 0xBB] = Inr l" "el_segments l = [demo_segment]"
    using demo_loader by blast
  have fit: "segments_fit small_bus [0xAA, 0xBB] (el_segments l)"
    using small_bus_holds by (simp add: segments_fit_def l(2) demo_segment_bytes)
  have holds: "bus_holds small_bus 0x80000004" "bus_holds small_bus 0x80000005" "bus_holds small_bus 0x80000006"
    "bus_holds small_bus 0x80000007"
    using small_bus_holds [rule_format, of 0] small_bus_holds [rule_format, of 1] small_bus_holds [rule_format, of 2]
      small_bus_holds [rule_format, of 3] by simp_all
  obtain b' where b': "ElfLoader_load_into no_ops l small_bus = Some (Inr (), b')"
    "\<forall>c. bus_holds small_bus c \<longrightarrow> bus_byte b' c = program_image [0xAA, 0xBB] (el_segments l) (bus_byte small_bus) c"
    using elf_load_image [OF l(1) fit, of no_ops] by blast
  show ?thesis
    using l(1) b' holds by (intro exI [of _ l] exI [of _ b'])
      (simp add: program_image_def l(2) demo_segment_bytes poke_def)
qed

end
