(* ===== verification/Npu_Model.thy ===== *)
theory Npu_Model
  imports Bus_Model
begin

text \<open>
  The neural processing unit: \<open>src/src/peripheral/npu.rs\<close>.  Its MMIO registers, the immediate
  operation behind the start bit, the descriptors it reads from memory (scalar, or one vector of
  \<open>desc_len\<close> elements), and the work queue that \<open>tick\<close> drains a bounded number of elements at a time.
  A \<open>VecDeque\<close> is a list with its front first; the field borrowed as \<open>front_mut\<close> is its head.
\<close>

subsection \<open>Registers and state\<close>

definition NPU_SIZE :: nat where "NPU_SIZE = 0x100"

definition NREG_CONTROL :: u32 where "NREG_CONTROL = 0x00"
definition NREG_STATUS :: u32 where "NREG_STATUS = 0x04"
definition NREG_OP_A :: u32 where "NREG_OP_A = 0x08"
definition NREG_OP_B :: u32 where "NREG_OP_B = 0x0C"
definition NREG_RESULT :: u32 where "NREG_RESULT = 0x10"
definition NREG_OPCODE :: u32 where "NREG_OPCODE = 0x14"
definition NREG_CYCLES :: u32 where "NREG_CYCLES = 0x18"
definition NREG_DESC_ADDR_LOW :: u32 where "NREG_DESC_ADDR_LOW = 0x20"
definition NREG_DESC_ADDR_HIGH :: u32 where "NREG_DESC_ADDR_HIGH = 0x24"
definition NREG_DESC_LEN :: u32 where "NREG_DESC_LEN = 0x28"
definition NREG_DESC_NOTIFY :: u32 where "NREG_DESC_NOTIFY = 0x2C"
definition NREG_TASKS_DONE :: u32 where "NREG_TASKS_DONE = 0x30"
definition NREG_TASKS_ERROR :: u32 where "NREG_TASKS_ERROR = 0x34"
definition NREG_DESC_NOTIFY_COUNT :: u32 where "NREG_DESC_NOTIFY_COUNT = 0x38"

lemmas npu_reg_defs = NREG_CONTROL_def NREG_STATUS_def NREG_OP_A_def NREG_OP_B_def NREG_RESULT_def NREG_OPCODE_def
  NREG_CYCLES_def NREG_DESC_ADDR_LOW_def NREG_DESC_ADDR_HIGH_def NREG_DESC_LEN_def NREG_DESC_NOTIFY_def
  NREG_TASKS_DONE_def NREG_TASKS_ERROR_def NREG_DESC_NOTIFY_COUNT_def

definition NPU_DESC_STRIDE :: u64 where "NPU_DESC_STRIDE = 16"
definition VECTOR_FLAG :: u32 where "VECTOR_FLAG = 0x1000"

definition NPU_START :: u32 where "NPU_START = bitm 0"
definition NPU_IRQ_EN :: u32 where "NPU_IRQ_EN = bitm 1"
definition NPU_BUSY :: u32 where "NPU_BUSY = bitm 0"
definition NPU_DONE :: u32 where "NPU_DONE = bitm 1"
definition NPU_IRQ_PENDING :: u32 where "NPU_IRQ_PENDING = bitm 2"

lemmas npu_bit_defs = NPU_START_def NPU_IRQ_EN_def NPU_BUSY_def NPU_DONE_def NPU_IRQ_PENDING_def

datatype npu_op = NpuAdd | NpuMul | NpuMax | NpuRelu

definition NpuOp_from_u32 :: "u32 \<Rightarrow> npu_op" where
  "NpuOp_from_u32 v = (if v = 0 then NpuAdd else if v = 1 then NpuMul else if v = 2 then NpuMax
     else if v = 3 then NpuRelu else NpuAdd)"

text \<open>The four arms, which the source writes out three times.\<close>

fun npu_compute :: "npu_op \<Rightarrow> u32 \<Rightarrow> u32 \<Rightarrow> u32" where
  "npu_compute NpuAdd a b = a + b"
| "npu_compute NpuMul a b = a * b"
| "npu_compute NpuMax a b = max a b"
| "npu_compute NpuRelu a b = (if sint a < 0 then 0 else a)"

record npu_work =
  nw_base_opcode :: u32
  nw_op_a_addr :: u64
  nw_op_b_addr :: u64
  nw_result_addr :: u64
  nw_elems :: nat
  nw_progress :: nat

record npu =
  np_base :: addr
  np_control :: u32
  np_status :: u32
  np_op_a :: u32
  np_op_b :: u32
  np_result :: u32
  np_opcode :: u32
  np_cycles :: u32
  np_desc_addr :: u64
  np_desc_len :: u32
  np_tasks_done :: u32
  np_tasks_error :: u32
  np_desc_notify_count :: u64
  np_pending_desc_notify :: bool
  np_work_queue :: "npu_work list"
  np_soft_async_budget :: "nat option"

definition Npu_with_base :: "addr \<Rightarrow> npu" where
  "Npu_with_base base = \<lparr>np_base = base, np_control = 0, np_status = 0, np_op_a = 0, np_op_b = 0, np_result = 0,
     np_opcode = 0, np_cycles = 0, np_desc_addr = 0, np_desc_len = 0, np_tasks_done = 0, np_tasks_error = 0,
     np_desc_notify_count = 0, np_pending_desc_notify = False, np_work_queue = [], np_soft_async_budget = None\<rparr>"

definition Npu_new :: npu where "Npu_new = Npu_with_base NPU_BASE"

record npu_snapshot =
  ns_control :: u32
  ns_status :: u32
  ns_opcode :: u32
  ns_cycles :: u32
  ns_desc_addr :: u64
  ns_desc_len :: u32
  ns_tasks_done :: u32
  ns_tasks_error :: u32
  ns_desc_notify_count :: u64
  ns_pending_desc_notify :: bool
  ns_work_queue_len :: nat

definition Npu_snapshot :: "npu \<Rightarrow> npu_snapshot" where
  "Npu_snapshot n = \<lparr>ns_control = np_control n, ns_status = np_status n, ns_opcode = np_opcode n, ns_cycles = np_cycles n,
     ns_desc_addr = np_desc_addr n, ns_desc_len = np_desc_len n, ns_tasks_done = np_tasks_done n,
     ns_tasks_error = np_tasks_error n, ns_desc_notify_count = np_desc_notify_count n,
     ns_pending_desc_notify = np_pending_desc_notify n, ns_work_queue_len = length (np_work_queue n)\<rparr>"

subsection \<open>The immediate operation\<close>

definition Npu_compute_result :: "npu \<Rightarrow> npu_op \<Rightarrow> u32" where
  "Npu_compute_result n op = npu_compute op (np_op_a n) (np_op_b n)"

text \<open>The end of an operation: \<open>BUSY\<close> off, \<open>DONE\<close> on, and an interrupt if enabled.\<close>

definition npu_signal_done :: "npu \<Rightarrow> npu" where
  "npu_signal_done n =
     (let s = (np_status n AND NOT NPU_BUSY) OR NPU_DONE
      in n\<lparr>np_status := if np_control n AND NPU_IRQ_EN \<noteq> 0 then s OR NPU_IRQ_PENDING else s\<rparr>)"

definition Npu_execute_once :: "npu \<Rightarrow> npu" where
  "Npu_execute_once n =
     (let n = n\<lparr>np_status := (np_status n OR NPU_BUSY) AND NOT NPU_DONE\<rparr>;
          n = n\<lparr>np_result := Npu_compute_result n (NpuOp_from_u32 (np_opcode n)), np_cycles := np_cycles n + 1\<rparr>
      in npu_signal_done n)"

subsection \<open>MMIO\<close>

definition Npu_read_reg :: "npu \<Rightarrow> u32 \<Rightarrow> u32" where
  "Npu_read_reg n reg =
     (if reg = NREG_CONTROL then np_control n
      else if reg = NREG_STATUS then np_status n
      else if reg = NREG_OP_A then np_op_a n
      else if reg = NREG_OP_B then np_op_b n
      else if reg = NREG_RESULT then np_result n
      else if reg = NREG_OPCODE then np_opcode n
      else if reg = NREG_CYCLES then np_cycles n
      else if reg = NREG_DESC_ADDR_LOW then ucast (np_desc_addr n)
      else if reg = NREG_DESC_ADDR_HIGH then ucast (drop_bit 32 (np_desc_addr n))
      else if reg = NREG_DESC_LEN then np_desc_len n
      else if reg = NREG_TASKS_DONE then np_tasks_done n
      else if reg = NREG_TASKS_ERROR then np_tasks_error n
      else if reg = NREG_DESC_NOTIFY_COUNT then ucast (np_desc_notify_count n)
      else 0)"

definition Npu_write_reg :: "npu \<Rightarrow> u32 \<Rightarrow> u32 \<Rightarrow> npu" where
  "Npu_write_reg n reg value =
     (if reg = NREG_CONTROL then
        (let n = n\<lparr>np_control := value\<rparr>
         in if np_control n AND NPU_START \<noteq> 0
            then (let n = Npu_execute_once n in n\<lparr>np_control := np_control n AND NOT NPU_START\<rparr>)
            else n)
      else if reg = NREG_STATUS then
        (let n = (if value AND NPU_DONE \<noteq> 0 then n\<lparr>np_status := np_status n AND NOT NPU_DONE\<rparr> else n)
         in if value AND NPU_IRQ_PENDING \<noteq> 0 then n\<lparr>np_status := np_status n AND NOT NPU_IRQ_PENDING\<rparr> else n)
      else if reg = NREG_OP_A then n\<lparr>np_op_a := value\<rparr>
      else if reg = NREG_OP_B then n\<lparr>np_op_b := value\<rparr>
      else if reg = NREG_RESULT then n\<lparr>np_result := value\<rparr>
      else if reg = NREG_OPCODE then n\<lparr>np_opcode := value\<rparr>
      else if reg = NREG_CYCLES then n\<lparr>np_cycles := value\<rparr>
      else if reg = NREG_DESC_ADDR_LOW then
        n\<lparr>np_desc_addr := (np_desc_addr n AND 0xFFFFFFFF00000000) OR ucast value\<rparr>
      else if reg = NREG_DESC_ADDR_HIGH then
        n\<lparr>np_desc_addr := (np_desc_addr n AND 0x00000000FFFFFFFF) OR push_bit 32 (ucast value)\<rparr>
      else if reg = NREG_DESC_LEN then n\<lparr>np_desc_len := value\<rparr>
      else if reg = NREG_DESC_NOTIFY then
        (if value \<noteq> 0 then n\<lparr>np_pending_desc_notify := True, np_desc_notify_count := np_desc_notify_count n + 1\<rparr> else n)
      else if reg = NREG_TASKS_DONE then n\<lparr>np_tasks_done := value\<rparr>
      else if reg = NREG_TASKS_ERROR then n\<lparr>np_tasks_error := value\<rparr>
      else n)"

definition Npu_read_u8 :: "npu \<Rightarrow> u32 \<Rightarrow> u8" where
  "Npu_read_u8 n offset =
     (let reg = offset AND NOT 0x3; shift = unat (offset AND 0x3) * 8
      in ucast (drop_bit shift (Npu_read_reg n reg) AND 0xFF))"

definition Npu_write_u8 :: "npu \<Rightarrow> u32 \<Rightarrow> u8 \<Rightarrow> npu" where
  "Npu_write_u8 n offset value =
     (let reg = offset AND NOT 0x3; shift = unat (offset AND 0x3) * 8 in
      if reg = NREG_DESC_NOTIFY then (if shift = 0 then Npu_write_reg n reg (ucast value) else n)
      else
        let current = (Npu_read_reg n reg AND NOT (push_bit shift 0xFF)) OR push_bit shift (ucast value)
        in Npu_write_reg n reg current)"

definition Npu_read :: "npu \<Rightarrow> addr \<Rightarrow> u8 result" where
  "Npu_read n off = (if off \<ge> of_nat NPU_SIZE then Inl (InvalidAddress off) else Inr (Npu_read_u8 n off))"

definition Npu_write :: "npu \<Rightarrow> addr \<Rightarrow> u8 \<Rightarrow> unit result \<times> npu" where
  "Npu_write n off value =
     (if off \<ge> of_nat NPU_SIZE then (Inl (InvalidAddress off), n) else (Inr (), Npu_write_u8 n off value))"

definition Npu_has_interrupt :: "npu \<Rightarrow> bool" where
  "Npu_has_interrupt n \<longleftrightarrow> np_status n AND NPU_IRQ_PENDING \<noteq> 0"

definition Npu_acknowledge_interrupt :: "npu \<Rightarrow> npu" where
  "Npu_acknowledge_interrupt n = n\<lparr>np_status := np_status n AND NOT NPU_IRQ_PENDING\<rparr>"

subsection \<open>Descriptors\<close>

text \<open>One element of a vector: the addresses, the alignment check, and the operation on memory.\<close>

definition elem_addr :: "u64 \<Rightarrow> nat \<Rightarrow> u64" where
  "elem_addr base i = base + of_nat i * 4"

definition npu_misaligned :: "u64 \<Rightarrow> u64 \<Rightarrow> u64 \<Rightarrow> nat \<Rightarrow> u64 option" where
  "npu_misaligned a b r i =
     (if elem_addr a i AND 0x3 \<noteq> 0 then Some (elem_addr a i)
      else if elem_addr b i AND 0x3 \<noteq> 0 then Some (elem_addr b i)
      else if elem_addr r i AND 0x3 \<noteq> 0 then Some (elem_addr r i)
      else None)"

definition npu_element :: "u32 \<Rightarrow> u64 \<Rightarrow> u64 \<Rightarrow> u64 \<Rightarrow> nat \<Rightarrow> mem_regions \<Rightarrow> unit result \<times> mem_regions" where
  "npu_element opc a b r i ms =
     bind_st (dma_read_u32 ms (elem_addr a i), ms) (\<lambda>x ms.
     bind_st (dma_read_u32 ms (elem_addr b i), ms) (\<lambda>y ms.
     dma_write_u32 ms (elem_addr r i) (npu_compute (NpuOp_from_u32 opc) x y)))"

text \<open>The loop \<open>for i in start_idx..end_idx\<close>.\<close>

fun npu_vector_for :: "nat list \<Rightarrow> u32 \<Rightarrow> u64 \<Rightarrow> u64 \<Rightarrow> u64 \<Rightarrow> npu \<times> mem_regions \<Rightarrow> unit result \<times> (npu \<times> mem_regions)" where
  "npu_vector_for [] opc a b r (n, ms) = (Inr (), (n, ms))"
| "npu_vector_for (i # is) opc a b r (n, ms) =
     (case npu_misaligned a b r i of
        Some x \<Rightarrow> (Inl (MemoryAlignment (ucast x) 4 4), (n, ms))
      | None \<Rightarrow>
          (case npu_element opc a b r i ms of
             (Inl e, ms) \<Rightarrow> (Inl e, (n, ms))
           | (Inr _, ms) \<Rightarrow> npu_vector_for is opc a b r (n\<lparr>np_cycles := np_cycles n + 1\<rparr>, ms)))"

definition Npu_execute_descriptor_entry_range ::
  "npu \<Rightarrow> u32 \<Rightarrow> nat \<Rightarrow> nat \<Rightarrow> mem_regions \<Rightarrow> nat result \<times> (npu \<times> mem_regions)" where
  "Npu_execute_descriptor_entry_range n index start count ms =
     (let desc_base = np_desc_addr n + ucast index * NPU_DESC_STRIDE in
      bind_st (dma_read_u32 ms desc_base, (n, ms)) (\<lambda>raw_opcode (n, ms).
      let is_vector = (raw_opcode AND VECTOR_FLAG \<noteq> 0); base_opcode = raw_opcode AND NOT VECTOR_FLAG in
      bind_st (dma_read_u32 ms (desc_base + 4), (n, ms)) (\<lambda>a32 (n, ms).
      bind_st (dma_read_u32 ms (desc_base + 8), (n, ms)) (\<lambda>b32 (n, ms).
      bind_st (dma_read_u32 ms (desc_base + 12), (n, ms)) (\<lambda>r32 (n, ms).
      let op_a_addr = ucast a32; op_b_addr = ucast b32; result_addr = ucast r32 in
      if is_vector then
        (let elem_count = unat (np_desc_len n) in
         if elem_count = 0 then (Inr 0, (n, ms))
         else
           let start_idx = (if start > elem_count then elem_count else start);
               end_idx = min elem_count (start_idx + count)
           in if start_idx \<ge> end_idx then (Inr 0, (n, ms))
              else bind_st (npu_vector_for [start_idx..<end_idx] base_opcode op_a_addr op_b_addr result_addr (n, ms))
                (\<lambda>_ (n, ms).
                  let n = (if end_idx = elem_count then n\<lparr>np_tasks_done := np_tasks_done n + 1\<rparr> else n)
                  in (Inr (end_idx - start_idx), (n, ms))))
      else if start > 0 then (Inr 0, (n, ms))
      else
        let n = n\<lparr>np_opcode := raw_opcode\<rparr> in
        bind_st (dma_read_u32 ms op_a_addr, (n, ms)) (\<lambda>x (n, ms).
        let n = n\<lparr>np_op_a := x\<rparr> in
        bind_st (dma_read_u32 ms op_b_addr, (n, ms)) (\<lambda>y (n, ms).
        let n = n\<lparr>np_op_b := y\<rparr>;
            n = n\<lparr>np_result := Npu_compute_result n (NpuOp_from_u32 (np_opcode n)), np_cycles := np_cycles n + 1,
                  np_tasks_done := np_tasks_done n + 1\<rparr>
        in case dma_write_u32 ms result_addr (np_result n) of
             (Inl e, ms) \<Rightarrow> (Inl e, (n, ms))
           | (Inr _, ms) \<Rightarrow> (Inr 1, (n, ms)))))))))"

text \<open>\<open>usize::MAX\<close>; the sum with it saturates in the source, and the minimum with the length is the same.\<close>

definition usize_MAX :: nat where "usize_MAX = 2 ^ 64 - 1"

definition Npu_execute_descriptor_entry :: "npu \<Rightarrow> u32 \<Rightarrow> mem_regions \<Rightarrow> unit result \<times> (npu \<times> mem_regions)" where
  "Npu_execute_descriptor_entry n index ms =
     bind_st (Npu_execute_descriptor_entry_range n index 0 usize_MAX ms) (\<lambda>_ s. (Inr (), s))"

definition npu_count_error :: "unit result \<times> (npu \<times> mem_regions) \<Rightarrow> npu \<times> mem_regions" where
  "npu_count_error m =
     (case m of (Inl _, (n, ms)) \<Rightarrow> (n\<lparr>np_tasks_error := np_tasks_error n + 1\<rparr>, ms) | (Inr _, s) \<Rightarrow> s)"

fun npu_scalar_for :: "nat list \<Rightarrow> npu \<times> mem_regions \<Rightarrow> npu \<times> mem_regions" where
  "npu_scalar_for [] s = s"
| "npu_scalar_for (i # is) (n, ms) = npu_scalar_for is (npu_count_error (Npu_execute_descriptor_entry n (of_nat i) ms))"

definition Npu_process_pending_descriptor_notify :: "npu \<Rightarrow> mem_regions \<Rightarrow> unit result \<times> (npu \<times> mem_regions)" where
  "Npu_process_pending_descriptor_notify n ms =
     (if \<not> np_pending_desc_notify n then (Inr (), (n, ms))
      else
        let n = n\<lparr>np_pending_desc_notify := False, np_status := (np_status n OR NPU_BUSY) AND NOT NPU_DONE\<rparr> in
        bind_st
          (if np_desc_len n = 0 then (Inr (), (n, ms))
           else case dma_read_u32 ms (np_desc_addr n) of
             Inr first_opcode \<Rightarrow>
               if first_opcode AND VECTOR_FLAG \<noteq> 0 then
                 (case np_soft_async_budget n of
                    Some _ \<Rightarrow>
                      bind_st (dma_read_u32 ms (np_desc_addr n + 4), (n, ms)) (\<lambda>a (n, ms).
                      bind_st (dma_read_u32 ms (np_desc_addr n + 8), (n, ms)) (\<lambda>b (n, ms).
                      bind_st (dma_read_u32 ms (np_desc_addr n + 12), (n, ms)) (\<lambda>r (n, ms).
                      let work = \<lparr>nw_base_opcode = first_opcode AND NOT VECTOR_FLAG, nw_op_a_addr = ucast a,
                            nw_op_b_addr = ucast b, nw_result_addr = ucast r, nw_elems = unat (np_desc_len n), nw_progress = 0\<rparr>
                      in (Inr (), (n\<lparr>np_work_queue := np_work_queue n @ [work]\<rparr>, ms)))))
                  | None \<Rightarrow> (Inr (), npu_count_error (Npu_execute_descriptor_entry n 0 ms)))
               else (Inr (), npu_scalar_for [0..<unat (np_desc_len n)] (n, ms))
           | Inl _ \<Rightarrow> (Inr (), (n\<lparr>np_tasks_error := np_tasks_error n + 1\<rparr>, ms)))
          (\<lambda>_ (n, ms). (Inr (), (if np_work_queue n = [] then npu_signal_done n else n, ms))))"

definition Npu_try_execute_pending :: "npu \<Rightarrow> mem_regions \<Rightarrow> bool result \<times> npu \<times> mem_regions" where
  "Npu_try_execute_pending n ms =
     (if \<not> np_pending_desc_notify n then (Inr False, n, ms)
      else case Npu_process_pending_descriptor_notify n ms of
             (Inl e, (n, ms)) \<Rightarrow> (Inl e, n, ms)
           | (Inr _, (n, ms)) \<Rightarrow> (Inr True, n, ms))"

definition Npu_has_pending_descriptor_notify :: "npu \<Rightarrow> bool" where
  "Npu_has_pending_descriptor_notify n = np_pending_desc_notify n"

definition Npu_set_soft_async_budget :: "npu \<Rightarrow> nat option \<Rightarrow> npu" where
  "Npu_set_soft_async_budget n budget = n\<lparr>np_soft_async_budget := budget\<rparr>"

subsection \<open>The work queue\<close>

text \<open>The loop over the elements of the work \<open>w\<close> at the front; a misaligned element drops the work and leaves the loop.\<close>

fun npu_tick_for :: "nat list \<Rightarrow> npu_work \<Rightarrow> npu \<Rightarrow> nat \<Rightarrow> mem_regions \<Rightarrow> unit result \<times> (npu \<times> nat \<times> mem_regions)" where
  "npu_tick_for [] w n budget ms = (Inr (), (n, budget, ms))"
| "npu_tick_for (i # is) w n budget ms =
     (case npu_misaligned (nw_op_a_addr w) (nw_op_b_addr w) (nw_result_addr w) i of
        Some _ \<Rightarrow>
          (Inr (), (n\<lparr>np_tasks_error := np_tasks_error n + 1, np_work_queue := tl (np_work_queue n)\<rparr>, budget, ms))
      | None \<Rightarrow>
          (case npu_element (nw_base_opcode w) (nw_op_a_addr w) (nw_op_b_addr w) (nw_result_addr w) i ms of
             (Inl e, ms) \<Rightarrow> (Inl e, (n, budget, ms))
           | (Inr _, ms) \<Rightarrow>
               npu_tick_for is w
                 (n\<lparr>np_cycles := np_cycles n + 1,
                    np_work_queue := (case np_work_queue n of
                        f # fs \<Rightarrow> f\<lparr>nw_progress := nw_progress f + 1\<rparr> # fs | [] \<Rightarrow> [])\<rparr>) (budget - 1) ms))"

definition npu_retire_front :: "npu \<Rightarrow> npu" where
  "npu_retire_front n =
     (case np_work_queue n of
        [] \<Rightarrow> n
      | f # fs \<Rightarrow> if nw_progress f \<ge> nw_elems f then n\<lparr>np_work_queue := fs, np_tasks_done := np_tasks_done n + 1\<rparr> else n)"

text \<open>The budget the loop leaves and the work it has not dropped get smaller in every round.\<close>

lemma npu_tick_for_measure:
  "npu_tick_for is w n budget ms = (r, (n', budget', ms')) \<Longrightarrow> length is \<le> budget \<Longrightarrow> np_work_queue n \<noteq> [] \<Longrightarrow>
    length (np_work_queue n') + budget' \<le> length (np_work_queue n) + budget \<and>
    (r = Inr () \<longrightarrow> is \<noteq> [] \<longrightarrow> length (np_work_queue n') + budget' < length (np_work_queue n) + budget)"
proof (induction "is" arbitrary: n budget ms)
  case (Cons i "is")
  let ?q = "case np_work_queue n of f # fs \<Rightarrow> f\<lparr>nw_progress := nw_progress f + 1\<rparr> # fs | [] \<Rightarrow> []"
  let ?n = "n\<lparr>np_cycles := np_cycles n + 1, np_work_queue := ?q\<rparr>"
  have q: "length ?q = length (np_work_queue n)" "?q \<noteq> []"
    using Cons.prems(3) by (cases "np_work_queue n"; simp)+
  show ?case
  proof (cases "npu_misaligned (nw_op_a_addr w) (nw_op_b_addr w) (nw_result_addr w) i")
    case None
    show ?thesis
    proof (cases "npu_element (nw_base_opcode w) (nw_op_a_addr w) (nw_op_b_addr w) (nw_result_addr w) i ms")
      case (Pair r1 ms1)
      show ?thesis
      proof (cases r1)
        case (Inr u)
        have "npu_tick_for is w ?n (budget - 1) ms1 = (r, (n', budget', ms'))"
          using Cons.prems(1) None Pair Inr by simp
        moreover obtain k where k: "budget = Suc k" using Cons.prems(2) by (cases budget) auto
        ultimately show ?thesis using Cons.IH [of ?n "budget - 1" ms1] Cons.prems(2) q by (simp add: k)
      qed (use Cons.prems None Pair in auto)
    qed
  next
    case (Some x)
    then show ?thesis using Cons.prems by (cases "np_work_queue n") auto
  qed
qed simp

lemma npu_retire_front_length: "length (np_work_queue (npu_retire_front n)) \<le> length (np_work_queue n)"
  by (simp add: npu_retire_front_def split: list.split)

lemma npu_round_measure:
  assumes "npu_tick_for [nw_progress w..<min (nw_elems w) (nw_progress w + budget)] w n budget ms = (Inr (), (n', budget', ms'))"
    and "0 < budget" "\<not> nw_elems w \<le> nw_progress w" "np_work_queue n = w # ws"
  shows "length (np_work_queue (npu_retire_front n')) + budget' < Suc (length ws + budget)"
proof -
  have "min (nw_elems w) (nw_progress w + budget) - nw_progress w \<le> budget"
    "[nw_progress w..<min (nw_elems w) (nw_progress w + budget)] \<noteq> []" using assms(2,3) by auto
  then show ?thesis
    using npu_tick_for_measure [OF assms(1)] npu_retire_front_length [of n'] assms(4) by simp
qed

function npu_tick_loop :: "npu \<Rightarrow> nat \<Rightarrow> mem_regions \<Rightarrow> unit result \<times> (npu \<times> mem_regions)" where
  "npu_tick_loop n budget ms =
     (if budget = 0 then (Inr (), (n, ms))
      else case np_work_queue n of
        [] \<Rightarrow> (Inr (), (n, ms))
      | w # ws \<Rightarrow>
          if nw_progress w \<ge> nw_elems w then npu_tick_loop (n\<lparr>np_work_queue := ws\<rparr>) budget ms
          else
            let to = min (nw_elems w) (nw_progress w + budget) in
            case npu_tick_for [nw_progress w..<to] w n budget ms of
              (Inl e, (n1, budget1, ms1)) \<Rightarrow> (Inl e, (n1, ms1))
            | (Inr _, (n1, budget1, ms1)) \<Rightarrow> npu_tick_loop (npu_retire_front n1) budget1 ms1)"
  by pat_completeness auto

termination
  by (relation "measure (\<lambda>(n, budget, ms). length (np_work_queue n) + budget)")
    (auto simp: npu_round_measure [OF sym])

definition Npu_tick :: "npu \<Rightarrow> nat \<Rightarrow> mem_regions \<Rightarrow> unit result \<times> (npu \<times> mem_regions)" where
  "Npu_tick n budget_elems ms =
     (if np_work_queue n = [] \<or> budget_elems = 0 then (Inr (), (n, ms))
      else bind_st (npu_tick_loop n budget_elems ms) (\<lambda>_ (n, ms).
        (Inr (), (if np_work_queue n = [] then npu_signal_done n else n, ms))))"

text \<open>The device as the bus sees it.\<close>

definition npu_device_ops :: "npu other_ops" where
  "npu_device_ops =
     \<lparr>oo_read = Npu_read, oo_write = Npu_write, oo_base_addr = np_base, oo_size = (\<lambda>_. NPU_SIZE), oo_name = (\<lambda>_. ''NPU''),
      oo_has_interrupt = Npu_has_interrupt, oo_acknowledge = Npu_acknowledge_interrupt,
      oo_try_execute = Npu_try_execute_pending\<rparr>"

end
