(* ===== verification/Dma_Memory.thy ===== *)
theory Dma_Memory
  imports Bus_Model
begin

text \<open>
  Memory as a device's DMA (\<open>src/src/peripheral/dma.rs\<close>) sees it: the words and the arrays of words that
  lie in RAM, and what reads and writes of whole words do to them.  Shared by the accelerators.
\<close>

definition ram_word :: "mem_regions \<Rightarrow> addr \<Rightarrow> u32 option" where
  "ram_word ms x =
     (case (ram_at x ms, ram_at (x + 1) ms, ram_at (x + 2) ms, ram_at (x + 3) ms) of
        (Some b0, Some b1, Some b2, Some b3) \<Rightarrow> Some (word_of_bytes b0 b1 b2 b3)
      | _ \<Rightarrow> None)"

lemma ram_word_Some: "ram_word ms x = Some w \<longleftrightarrow>
    (\<exists>b0 b1 b2 b3. ram_at x ms = Some b0 \<and> ram_at (x + 1) ms = Some b1 \<and> ram_at (x + 2) ms = Some b2 \<and>
      ram_at (x + 3) ms = Some b3 \<and> w = word_of_bytes b0 b1 b2 b3)"
  by (auto simp: ram_word_def split: option.splits)

lemma ucast_next:
  assumes "unat (a :: addr) mod 4 = 0"
  shows "(ucast a :: u64) + 1 = ucast (a + 1)" "(ucast a :: u64) + 2 = ucast (a + 2)" "(ucast a :: u64) + 3 = ucast (a + 3)"
  using ucast_add_small [of a 1] ucast_add_small [of a 2] ucast_add_small [of a 3] aligned4_no_wrap [OF assms] by simp_all

lemma dma_read_word:
  assumes "ram_word ms a = Some w" "unat a mod 4 = 0"
  shows "dma_read_u32 ms (ucast a) = Inr w"
  using assms by (auto simp: ram_word_Some dma_read_u32_def dma_read_u8_def dma_of_cpu_addr ucast_next read_regions_ram)

lemma dma_write_byte:
  assumes "ram_at a ms \<noteq> None"
  shows "\<exists>ms'. dma_write_u8 ms (ucast a) v = (Inr (), ms') \<and> (\<forall>c. ram_at c ms' = (if c = a then Some v else ram_at c ms))"
proof -
  obtain r ms' where w: "write_regions a v ms = (r, ms')" by fastforce
  show ?thesis using write_regions_ram [OF assms w] w by (auto simp: dma_write_u8_def dma_of_cpu_addr)
qed

lemma dma_write_word:
  assumes "ram_word ms a \<noteq> None" "unat a mod 4 = 0"
  shows "\<exists>ms'. dma_write_u32 ms (ucast a) v = (Inr (), ms') \<and>
    (\<forall>c. ram_at c ms' = (if c = a then Some (byte_at 0 v) else if c = a + 1 then Some (byte_at 1 v)
       else if c = a + 2 then Some (byte_at 2 v) else if c = a + 3 then Some (byte_at 3 v) else ram_at c ms))"
proof -
  have r: "ram_at a ms \<noteq> None" "ram_at (a + 1) ms \<noteq> None" "ram_at (a + 2) ms \<noteq> None" "ram_at (a + 3) ms \<noteq> None"
    using assms(1) by (auto simp: ram_word_Some)
  obtain m1 where m1: "dma_write_u8 ms (ucast a) (byte_at 0 v) = (Inr (), m1)"
    "\<forall>c. ram_at c m1 = (if c = a then Some (byte_at 0 v) else ram_at c ms)" using dma_write_byte [OF r(1)] by blast
  have "ram_at (a + 1) m1 \<noteq> None" using r(2) m1(2) by simp
  then obtain m2 where m2: "dma_write_u8 m1 (ucast (a + 1)) (byte_at 1 v) = (Inr (), m2)"
    "\<forall>c. ram_at c m2 = (if c = a + 1 then Some (byte_at 1 v) else ram_at c m1)" using dma_write_byte by blast
  have "ram_at (a + 2) m2 \<noteq> None" using r(3) m1(2) m2(2) by simp
  then obtain m3 where m3: "dma_write_u8 m2 (ucast (a + 2)) (byte_at 2 v) = (Inr (), m3)"
    "\<forall>c. ram_at c m3 = (if c = a + 2 then Some (byte_at 2 v) else ram_at c m2)" using dma_write_byte by blast
  have "ram_at (a + 3) m3 \<noteq> None" using r(4) m1(2) m2(2) m3(2) by simp
  then obtain m4 where m4: "dma_write_u8 m3 (ucast (a + 3)) (byte_at 3 v) = (Inr (), m4)"
    "\<forall>c. ram_at c m4 = (if c = a + 3 then Some (byte_at 3 v) else ram_at c m3)" using dma_write_byte by blast
  have "dma_write_u32 ms (ucast a) v = (Inr (), m4)"
    by (simp add: dma_write_u32_def ucast_next [OF assms(2)] m1(1) m2(1) [simplified] m3(1) m4(1))
  then show ?thesis using m1(2) m2(2) m3(2) m4(2) by auto
qed

lemma ram_word_written:
  assumes "\<forall>c. ram_at c ms' = (if c = a then Some (byte_at 0 v) else if c = a + 1 then Some (byte_at 1 v)
       else if c = a + 2 then Some (byte_at 2 v) else if c = a + 3 then Some (byte_at 3 v) else ram_at c ms)"
  shows "ram_word ms' a = Some v"
  using assms by (simp add: ram_word_Some)

subsection \<open>Arrays of words\<close>

text \<open>\<open>len\<close> words from \<open>x\<close>, aligned and within the address space, with the values \<open>X\<close>.\<close>

definition ram_array :: "mem_regions \<Rightarrow> addr \<Rightarrow> nat \<Rightarrow> (nat \<Rightarrow> u32) \<Rightarrow> bool" where
  "ram_array ms x len X \<longleftrightarrow> unat x mod 4 = 0 \<and> unat x + 4 * len \<le> 2 ^ 32 \<and>
     (\<forall>i < len. ram_word ms (x + 4 * of_nat i) = Some (X i))"

definition array_bytes :: "addr \<Rightarrow> nat \<Rightarrow> addr \<Rightarrow> bool" where
  "array_bytes x len c \<longleftrightarrow> unat x \<le> unat c \<and> unat c < unat x + 4 * len"

lemma array_addr:
  assumes "unat x + 4 * len \<le> 2 ^ 32" "i < len"
  shows "unat (x + 4 * of_nat i :: addr) = unat x + 4 * i"
proof -
  have i: "4 * i < 2 ^ 32" using assms by simp
  have "4 * of_nat i = (of_nat (4 * i) :: addr)" by simp
  then have "unat (4 * of_nat i :: addr) = 4 * i" using i by (simp only: unat_of_nat) simp
  then show ?thesis using assms i by (simp add: unat_add_small)
qed

lemma array_elem:
  assumes "ram_array ms x len X" "i < len"
  shows "ram_word ms (x + 4 * of_nat i) = Some (X i)" "unat (x + 4 * of_nat i) = unat x + 4 * i"
    "unat (x + 4 * of_nat i) mod 4 = 0"
  using assms array_addr [of x len i] by (auto simp: ram_array_def)

lemma elem_u64:
  assumes "unat x + 4 * len \<le> 2 ^ 32" "i < len"
  shows "(ucast (x :: addr) :: u64) + of_nat i * 4 = ucast (x + 4 * of_nat i)"
  using ucast_add_small [of x "4 * i"] assms by (simp add: mult.commute)

text \<open>The bytes of the word at an aligned address.\<close>

lemma word_bytes:
  assumes "unat (a :: addr) mod 4 = 0"
  shows "unat (a + 1) = unat a + 1" "unat (a + 2) = unat a + 2" "unat (a + 3) = unat a + 3"
  using aligned4_no_wrap [OF assms] by (simp_all add: unat_add_small)

lemma ram_word_cong:
  assumes "unat a mod 4 = 0" "\<And>c. unat a \<le> unat c \<Longrightarrow> unat c < unat a + 4 \<Longrightarrow> ram_at c ms' = ram_at c ms"
  shows "ram_word ms' a = ram_word ms a"
  using assms(2) [of a] assms(2) [of "a + 1"] assms(2) [of "a + 2"] assms(2) [of "a + 3"] word_bytes [OF assms(1)]
  by (simp add: ram_word_def)

text \<open>A word stored at the end of an array that is being filled.\<close>

lemma dma_write_array:
  assumes "unat x mod 4 = 0" "unat x + 4 * len \<le> 2 ^ 32" "i < len" "ram_word ms (x + 4 * of_nat i) \<noteq> None"
  shows "\<exists>ms'. dma_write_u32 ms (ucast (x + 4 * of_nat i)) v = (Inr (), ms') \<and> ram_word ms' (x + 4 * of_nat i) = Some v \<and>
    (\<forall>c. \<not> (unat x + 4 * i \<le> unat c \<and> unat c < unat x + 4 * i + 4) \<longrightarrow> ram_at c ms' = ram_at c ms)"
proof -
  let ?a = "x + 4 * of_nat i :: addr"
  have u: "unat ?a = unat x + 4 * i" using array_addr [OF assms(2,3)] .
  then have al: "unat ?a mod 4 = 0" using assms(1) by simp
  from dma_write_word [OF assms(4) al, of v] obtain ms' where w: "dma_write_u32 ms (ucast ?a) v = (Inr (), ms')"
    "\<forall>c. ram_at c ms' = (if c = ?a then Some (byte_at 0 v) else if c = ?a + 1 then Some (byte_at 1 v)
       else if c = ?a + 2 then Some (byte_at 2 v) else if c = ?a + 3 then Some (byte_at 3 v) else ram_at c ms)" by blast
  have "ram_at c ms' = ram_at c ms" if "\<not> (unat x + 4 * i \<le> unat c \<and> unat c < unat x + 4 * i + 4)" for c
  proof -
    have "c \<noteq> ?a" "c \<noteq> ?a + 1" "c \<noteq> ?a + 2" "c \<noteq> ?a + 3" using that u word_bytes [OF al] by auto
    then show ?thesis using w(2) by simp
  qed
  then show ?thesis using w ram_word_written [OF w(2)] by blast
qed

subsection \<open>A memory given by its bytes\<close>

definition mem_of :: "u8 list \<Rightarrow> mem_regions" where
  "mem_of bytes = [(0x80000000, length bytes, MD_Ram \<lparr>ram_data = bytes, ram_base = 0\<rparr>)]"

lemma mem_of_byte:
  assumes "k < length bytes" "length bytes < 2 ^ 31"
  shows "ram_at (0x80000000 + of_nat k) (mem_of bytes) = Some (bytes ! k)"
proof -
  have k: "unat (of_nat k :: addr) = k" using assms by (simp add: unat_of_nat)
  then have "unat (0x80000000 + of_nat k :: addr) = 0x80000000 + k" using assms by (subst unat_add_small) simp_all
  then show ?thesis using assms k by (simp add: mem_of_def in_region_def Ram_contains_def Ram_size_def)
qed

lemma mem_of_word:
  assumes "k + 3 < length bytes" "length bytes < 2 ^ 31"
  shows "ram_word (mem_of bytes) (0x80000000 + of_nat k) =
    Some (word_of_bytes (bytes ! k) (bytes ! (k + 1)) (bytes ! (k + 2)) (bytes ! (k + 3)))"
  using mem_of_byte [of k bytes] mem_of_byte [of "k + 1" bytes] mem_of_byte [of "k + 2" bytes] mem_of_byte [of "k + 3" bytes] assms
  by (simp add: ram_word_def add.assoc)

lemma small_word: "word_of_bytes b 0 0 0 = ucast b"
  by (simp add: word_of_bytes_def)

lemma all_below:
  "(\<forall>i < (4 :: nat). P i) \<longleftrightarrow> P 0 \<and> P 1 \<and> P 2 \<and> P 3" "(\<forall>i < (3 :: nat). P i) \<longleftrightarrow> P 0 \<and> P 1 \<and> P 2"
  "(\<forall>i < (2 :: nat). P i) \<longleftrightarrow> P 0 \<and> P 1"
  by (auto simp: less_Suc_eq eval_nat_numeral)

end
