(* ===== verification/Npu_Correct.thy ===== *)
theory Npu_Correct
  imports Npu_Model Dma_Memory
begin

text \<open>
  What the NPU computes: a vector descriptor is the operation applied element by element to memory; draining
  it from the work queue in ticks of any size is the same as executing it at once; and the register and
  counter behaviours that lose information.
\<close>

subsection \<open>Vector loops\<close>

lemma vector_for_append:
  "npu_vector_for (xs @ ys) opc a b r s = bind_st (npu_vector_for xs opc a b r s) (\<lambda>_. npu_vector_for ys opc a b r)"
  by (induction xs opc a b r s rule: npu_vector_for.induct) (auto split: option.split prod.split sum.split)

text \<open>A vector loop counts its elements and changes nothing else of the device.\<close>

lemma vector_for_state:
  "npu_vector_for is opc a b r (n, ms) = (Inr (), (n', ms')) \<Longrightarrow> n' = n\<lparr>np_cycles := np_cycles n + of_nat (length is)\<rparr>"
  by (induction "is" opc a b r "(n, ms)" arbitrary: n ms rule: npu_vector_for.induct)
    (auto split: option.splits prod.splits sum.splits simp: add.assoc)

lemma vector_for_state_irrelevant:
  "npu_vector_for is opc a b r (n, ms) = (Inr (), (n', ms')) \<Longrightarrow>
    npu_vector_for is opc a b r (m, ms) = (Inr (), (m\<lparr>np_cycles := np_cycles m + of_nat (length is)\<rparr>, ms'))"
proof (induction "is" arbitrary: n ms m)
  case (Cons i "is")
  from Cons.prems obtain ms1 where e: "npu_misaligned a b r i = None" "npu_element opc a b r i ms = (Inr (), ms1)"
    "npu_vector_for is opc a b r (n\<lparr>np_cycles := np_cycles n + 1\<rparr>, ms1) = (Inr (), (n', ms'))"
    by (auto split: option.splits prod.splits sum.splits)
  from Cons.IH [OF e(3), of "m\<lparr>np_cycles := np_cycles m + 1\<rparr>"] show ?case
    using e by (simp add: add.assoc)
qed simp

text \<open>The loop of \<open>tick\<close> over elements that succeed.\<close>

lemma tick_for_vector:
  assumes "npu_vector_for is (nw_base_opcode w) (nw_op_a_addr w) (nw_op_b_addr w) (nw_result_addr w) (n, ms) = (Inr (), (n', ms'))"
    and "np_work_queue n = f # fs" "length is \<le> budget"
  shows "npu_tick_for is w n budget ms =
    (Inr (), (n\<lparr>np_cycles := np_cycles n + of_nat (length is),
       np_work_queue := f\<lparr>nw_progress := nw_progress f + length is\<rparr> # fs\<rparr>, budget - length is, ms'))"
  using assms
proof (induction "is" arbitrary: n f ms budget n')
  case (Cons i "is")
  from Cons.prems(1) obtain ms1 where e: "npu_misaligned (nw_op_a_addr w) (nw_op_b_addr w) (nw_result_addr w) i = None"
    "npu_element (nw_base_opcode w) (nw_op_a_addr w) (nw_op_b_addr w) (nw_result_addr w) i ms = (Inr (), ms1)"
    "npu_vector_for is (nw_base_opcode w) (nw_op_a_addr w) (nw_op_b_addr w) (nw_result_addr w)
       (n\<lparr>np_cycles := np_cycles n + 1\<rparr>, ms1) = (Inr (), (n', ms'))"
    by (auto split: option.splits prod.splits sum.splits)
  let ?n = "n\<lparr>np_cycles := np_cycles n + 1, np_work_queue := f\<lparr>nw_progress := nw_progress f + 1\<rparr> # fs\<rparr>"
  note v = vector_for_state_irrelevant [OF e(3), of ?n]
  obtain k where k: "budget = Suc k" "length is \<le> k" using Cons.prems(3) by (cases budget) auto
  from Cons.IH [OF v, of "f\<lparr>nw_progress := nw_progress f + 1\<rparr>" k] k(2)
  show ?case using e k Cons.prems(2) by (simp add: add.assoc)
qed simp

subsection \<open>One piece of work, tick by tick\<close>

lemma tick_part:
  assumes "np_work_queue n = [w]" "nw_progress w + k < nw_elems w"
    and "npu_vector_for [nw_progress w..<nw_progress w + k] (nw_base_opcode w) (nw_op_a_addr w) (nw_op_b_addr w) (nw_result_addr w) (n, ms)
      = (Inr (), (n', ms'))"
  shows "Npu_tick n k ms = (Inr (), (n\<lparr>np_cycles := np_cycles n + of_nat k, np_work_queue := [w\<lparr>nw_progress := nw_progress w + k\<rparr>]\<rparr>, ms'))"
proof (cases "k = 0")
  case True
  then show ?thesis using assms by (simp add: Npu_tick_def)
next
  case False
  have to: "min (nw_elems w) (nw_progress w + k) = nw_progress w + k" using assms(2) by simp
  have f: "npu_tick_for [nw_progress w..<nw_progress w + k] w n k ms = (Inr (), (n\<lparr>np_cycles := np_cycles n + of_nat k,
      np_work_queue := [w\<lparr>nw_progress := nw_progress w + k\<rparr>]\<rparr>, 0, ms'))"
    using tick_for_vector [OF assms(3,1), of k] by simp
  have "npu_tick_loop n k ms = (Inr (), (n\<lparr>np_cycles := np_cycles n + of_nat k,
      np_work_queue := [w\<lparr>nw_progress := nw_progress w + k\<rparr>]\<rparr>, ms'))"
    using False assms(1,2) by (simp add: npu_tick_loop.simps [of n k ms] to f npu_retire_front_def npu_tick_loop.simps [of _ 0])
  then show ?thesis using False assms(1) by (simp add: Npu_tick_def)
qed

lemma tick_rest:
  assumes "np_work_queue n = [w]" "nw_progress w < nw_elems w" "nw_elems w \<le> nw_progress w + k"
    and "npu_vector_for [nw_progress w..<nw_elems w] (nw_base_opcode w) (nw_op_a_addr w) (nw_op_b_addr w) (nw_result_addr w) (n, ms)
      = (Inr (), (n', ms'))"
  shows "Npu_tick n k ms = (Inr (), (npu_signal_done (n\<lparr>np_cycles := np_cycles n + of_nat (nw_elems w - nw_progress w),
      np_work_queue := [], np_tasks_done := np_tasks_done n + 1\<rparr>), ms'))"
proof -
  let ?m = "nw_elems w - nw_progress w"
  have k: "k \<noteq> 0" "?m \<le> k" using assms(2,3) by auto
  have to: "min (nw_elems w) (nw_progress w + k) = nw_elems w" using assms(3) by simp
  have f: "npu_tick_for [nw_progress w..<nw_elems w] w n k ms = (Inr (), (n\<lparr>np_cycles := np_cycles n + of_nat ?m,
      np_work_queue := [w\<lparr>nw_progress := nw_elems w\<rparr>]\<rparr>, k - ?m, ms'))"
    using tick_for_vector [OF assms(4,1), of k] assms(2) k(2) by simp
  have "npu_tick_loop n k ms = (Inr (), (n\<lparr>np_cycles := np_cycles n + of_nat ?m, np_work_queue := [],
      np_tasks_done := np_tasks_done n + 1\<rparr>, ms'))"
    using k assms(1,2) by (simp add: npu_tick_loop.simps [of n k ms] to f npu_retire_front_def npu_tick_loop.simps [of _ "k - ?m"])
  then show ?thesis using k assms(1) by (simp add: Npu_tick_def)
qed

text \<open>A sequence of ticks.\<close>

fun npu_ticks :: "nat list \<Rightarrow> npu \<Rightarrow> mem_regions \<Rightarrow> unit result \<times> (npu \<times> mem_regions)" where
  "npu_ticks [] n ms = (Inr (), (n, ms))"
| "npu_ticks (k # ks) n ms = bind_st (Npu_tick n k ms) (\<lambda>_ (n, ms). npu_ticks ks n ms)"

lemma ticks_idle: "np_work_queue n = [] \<Longrightarrow> npu_ticks ks n ms = (Inr (), (n, ms))"
  by (induction ks) (simp_all add: Npu_tick_def)

lemma ticks_complete:
  assumes "np_work_queue n = [w]" "nw_progress w < nw_elems w" "nw_elems w \<le> nw_progress w + sum_list ks"
    and "npu_vector_for [nw_progress w..<nw_elems w] (nw_base_opcode w) (nw_op_a_addr w) (nw_op_b_addr w) (nw_result_addr w) (n, ms)
      = (Inr (), (n', ms'))"
  shows "npu_ticks ks n ms = (Inr (), (npu_signal_done (n\<lparr>np_cycles := np_cycles n + of_nat (nw_elems w - nw_progress w),
      np_work_queue := [], np_tasks_done := np_tasks_done n + 1\<rparr>), ms'))"
  using assms
proof (induction ks arbitrary: n w ms n')
  case (Cons k ks)
  show ?case
  proof (cases "nw_elems w \<le> nw_progress w + k")
    case True
    from tick_rest [OF Cons.prems(1,2) True Cons.prems(4)]
    show ?thesis by (simp add: ticks_idle npu_signal_done_def Let_def)
  next
    case False
    have split: "[nw_progress w..<nw_elems w] = [nw_progress w..<nw_progress w + k] @ [nw_progress w + k..<nw_elems w]"
      using False upt_add_eq_append [of "nw_progress w" "nw_progress w + k" "nw_elems w - (nw_progress w + k)"] by simp
    obtain n1 ms1 where p: "npu_vector_for [nw_progress w..<nw_progress w + k] (nw_base_opcode w) (nw_op_a_addr w) (nw_op_b_addr w)
        (nw_result_addr w) (n, ms) = (Inr (), (n1, ms1))"
      "npu_vector_for [nw_progress w + k..<nw_elems w] (nw_base_opcode w) (nw_op_a_addr w) (nw_op_b_addr w)
        (nw_result_addr w) (n1, ms1) = (Inr (), (n', ms'))"
      using Cons.prems(4) unfolding split vector_for_append by (auto simp: bind_st_Inr)
    let ?w = "w\<lparr>nw_progress := nw_progress w + k\<rparr>"
    let ?n = "n\<lparr>np_cycles := np_cycles n + of_nat k, np_work_queue := [?w]\<rparr>"
    note tk = tick_part [OF Cons.prems(1) _ p(1)]
    have "k + (nw_elems w - (nw_progress w + k)) = nw_elems w - nw_progress w" using False by simp
    then have e: "of_nat k + of_nat (nw_elems w - (nw_progress w + k)) = (of_nat (nw_elems w - nw_progress w) :: u32)"
      by (metis of_nat_add)
    have "npu_ticks ks ?n ms1 = (Inr (), (npu_signal_done (?n\<lparr>np_cycles := np_cycles ?n + of_nat (nw_elems ?w - nw_progress ?w),
        np_work_queue := [], np_tasks_done := np_tasks_done ?n + 1\<rparr>), ms'))"
      by (rule Cons.IH) (use False Cons.prems(3) vector_for_state_irrelevant [OF p(2), of ?n] in auto)
    then show ?thesis using tk False by (simp add: add.assoc e)
  qed
qed simp

subsection \<open>Both modes of a vector descriptor\<close>

text \<open>The device holds a vector descriptor, and the elements can all be computed.\<close>

definition vector_ready :: "npu \<Rightarrow> mem_regions \<Rightarrow> u32 \<Rightarrow> u32 \<Rightarrow> u32 \<Rightarrow> u32 \<Rightarrow> mem_regions \<Rightarrow> bool" where
  "vector_ready n ms opc a b r ms' \<longleftrightarrow>
     np_pending_desc_notify n \<and> np_work_queue n = [] \<and> np_desc_len n \<noteq> 0 \<and>
     dma_read_u32 ms (np_desc_addr n) = Inr (opc OR VECTOR_FLAG) \<and> opc AND VECTOR_FLAG = 0 \<and>
     dma_read_u32 ms (np_desc_addr n + 4) = Inr a \<and> dma_read_u32 ms (np_desc_addr n + 8) = Inr b \<and>
     dma_read_u32 ms (np_desc_addr n + 12) = Inr r \<and>
     fst (npu_vector_for [0..<unat (np_desc_len n)] opc (ucast a) (ucast b) (ucast r) (n, ms)) = Inr () \<and>
     snd (snd (npu_vector_for [0..<unat (np_desc_len n)] opc (ucast a) (ucast b) (ucast r) (n, ms))) = ms'"

lemma vector_flag_bits:
  fixes opc :: u32
  assumes "opc AND VECTOR_FLAG = 0"
  shows "(opc OR VECTOR_FLAG) AND VECTOR_FLAG \<noteq> 0" "(opc OR VECTOR_FLAG) AND NOT VECTOR_FLAG = opc"
proof -
  have "bit ((opc OR VECTOR_FLAG) AND VECTOR_FLAG) 12" by (simp add: VECTOR_FLAG_def bit_simps)
  then show "(opc OR VECTOR_FLAG) AND VECTOR_FLAG \<noteq> 0" by (metis bit_0_eq bot_apply bot_bool_def)
  have "\<not> (bit opc k \<and> bit VECTOR_FLAG k)" for k using assms by (metis bit_and_iff bit_0_eq bot_apply bot_bool_def)
  then show "(opc OR VECTOR_FLAG) AND NOT VECTOR_FLAG = opc" by (intro bit_word_eqI) (auto simp: bit_simps)
qed

text \<open>The device after a vector of \<open>k\<close> elements.\<close>

definition after_vector :: "nat \<Rightarrow> npu \<Rightarrow> npu" where
  "after_vector k n = npu_signal_done (n\<lparr>np_pending_desc_notify := False,
     np_status := (np_status n OR NPU_BUSY) AND NOT NPU_DONE, np_cycles := np_cycles n + of_nat k,
     np_tasks_done := np_tasks_done n + 1\<rparr>)"

lemma queue_empty: "np_work_queue n = [] \<Longrightarrow>
    n\<lparr>np_pending_desc_notify := p, np_status := s, np_cycles := c, np_work_queue := [], np_tasks_done := t\<rparr> =
    n\<lparr>np_pending_desc_notify := p, np_status := s, np_cycles := c, np_tasks_done := t\<rparr>"
  by (cases n) simp

lemma vector_ready_for:
  assumes "vector_ready n ms opc a b r ms'"
  shows "npu_vector_for [0..<unat (np_desc_len n)] opc (ucast a) (ucast b) (ucast r) (m, ms)
    = (Inr (), (m\<lparr>np_cycles := np_cycles m + of_nat (unat (np_desc_len n))\<rparr>, ms'))"
proof -
  obtain n' where "npu_vector_for [0..<unat (np_desc_len n)] opc (ucast a) (ucast b) (ucast r) (n, ms) = (Inr (), (n', ms'))"
    using assms by (auto simp: vector_ready_def prod_eq_iff)
  from vector_for_state_irrelevant [OF this, of m] show ?thesis by simp
qed

lemma sync_vector:
  assumes v: "vector_ready n ms opc a b r ms'" and s: "np_soft_async_budget n = None"
  shows "Npu_process_pending_descriptor_notify n ms = (Inr (), (after_vector (unat (np_desc_len n)) n, ms'))"
proof -
  have len: "unat (np_desc_len n) < 2 ^ 32" using unsigned_less [of "np_desc_len n"] by simp
  have m: "min (unat (np_desc_len n)) usize_MAX = unat (np_desc_len n)"
    using len by (simp add: usize_MAX_def)
  show ?thesis
    using v s vector_flag_bits [of opc]
    by (simp add: Npu_process_pending_descriptor_notify_def vector_ready_def Let_def Npu_execute_descriptor_entry_def
        Npu_execute_descriptor_entry_range_def m vector_ready_for [OF v] npu_count_error_def after_vector_def unat_gt_0
        unat_eq_zero)
qed

lemma async_vector:
  assumes v: "vector_ready n ms opc a b r ms'" and s: "np_soft_async_budget n = Some k"
    and ks: "unat (np_desc_len n) \<le> sum_list ks"
  shows "\<exists>n1. Npu_process_pending_descriptor_notify n ms = (Inr (), (n1, ms)) \<and> np_status n1 AND NPU_DONE = 0 \<and>
    npu_ticks ks n1 ms = (Inr (), (after_vector (unat (np_desc_len n)) n, ms'))"
proof -
  define w where "w = \<lparr>nw_base_opcode = opc, nw_op_a_addr = ucast a, nw_op_b_addr = ucast b, nw_result_addr = ucast r,
    nw_elems = unat (np_desc_len n), nw_progress = 0\<rparr>"
  define n1 where "n1 = n\<lparr>np_pending_desc_notify := False, np_status := (np_status n OR NPU_BUSY) AND NOT NPU_DONE,
    np_work_queue := [w]\<rparr>"
  have p: "Npu_process_pending_descriptor_notify n ms = (Inr (), (n1, ms))"
    using v s vector_flag_bits [of opc]
    by (simp add: Npu_process_pending_descriptor_notify_def vector_ready_def Let_def n1_def w_def)
  have "npu_ticks ks n1 ms = (Inr (), (npu_signal_done (n1\<lparr>np_cycles := np_cycles n1 + of_nat (nw_elems w - nw_progress w),
      np_work_queue := [], np_tasks_done := np_tasks_done n1 + 1\<rparr>), ms'))"
    by (rule ticks_complete) (use v ks vector_ready_for [OF v, of n1] in
      \<open>auto simp: n1_def w_def vector_ready_def unat_gt_0\<close>)
  moreover have "np_status n1 AND NPU_DONE = 0" by (simp add: n1_def and.assoc)
  ultimately show ?thesis using p v by (simp add: after_vector_def n1_def w_def vector_ready_def queue_empty)
qed

subsection \<open>Element by element\<close>

lemma and_3: "(ucast (x :: addr) :: u64) AND 3 = 0 \<longleftrightarrow> unat x mod 4 = 0"
proof -
  have "(3 :: u64) = mask 2" by (simp add: mask_eq_exp_minus_1)
  then have "(ucast x :: u64) AND 3 = take_bit 2 (ucast x)" by (simp add: take_bit_eq_mask)
  moreover have "unat (take_bit 2 (ucast x :: u64)) = unat x mod 4"
  proof -
    have "unat x < 2 ^ 32" using unsigned_less [of x] by simp
    then have "unat (ucast x :: u64) = unat x" by (simp add: unsigned_ucast_eq unsigned_take_bit_eq take_bit_nat_eq_self)
    then show ?thesis by (simp only: unsigned_take_bit_eq) (simp add: take_bit_eq_mod)
  qed
  ultimately show ?thesis by (metis unat_eq_zero)
qed

text \<open>The output is the first input, or disjoint from it; likewise the second.\<close>

definition array_apart :: "addr \<Rightarrow> addr \<Rightarrow> nat \<Rightarrow> bool" where
  "array_apart r a len \<longleftrightarrow> r = a \<or> unat r + 4 * len \<le> unat a \<or> unat a + 4 * len \<le> unat r"

lemma unchanged_later:
  assumes "ram_array ms a len X" "array_apart r a len" "k < len"
    and "\<forall>c. \<not> array_bytes r k c \<longrightarrow> ram_at c ms' = ram_at c ms"
  shows "ram_word ms' (a + 4 * of_nat k) = Some (X k)"
proof -
  note e = array_elem [OF assms(1,3)]
  have "ram_word ms' (a + 4 * of_nat k) = ram_word ms (a + 4 * of_nat k)"
  proof (rule ram_word_cong [OF e(3)])
    fix c :: addr
    assume c: "unat (a + 4 * of_nat k) \<le> unat c" "unat c < unat (a + 4 * of_nat k) + 4"
    have "\<not> array_bytes r k c" using assms(2,3) c unfolding e(2) array_bytes_def array_apart_def by auto
    then show "ram_at c ms' = ram_at c ms" using assms(4) by simp
  qed
  then show ?thesis using e(1) by simp
qed

lemma vector_prefix:
  assumes a: "ram_array ms a len A" "array_apart r a len" and b: "ram_array ms b len B" "array_apart r b len"
    and r: "ram_array ms r len R"
  shows "k \<le> len \<Longrightarrow> \<exists>ms'. npu_vector_for [0..<k] opc (ucast a) (ucast b) (ucast r) (n, ms)
      = (Inr (), (n\<lparr>np_cycles := np_cycles n + of_nat k\<rparr>, ms')) \<and>
    (\<forall>i < k. ram_word ms' (r + 4 * of_nat i) = Some (npu_compute (NpuOp_from_u32 opc) (A i) (B i))) \<and>
    (\<forall>c. \<not> array_bytes r k c \<longrightarrow> ram_at c ms' = ram_at c ms)"
proof (induction k)
  case (Suc k)
  then have k: "k < len" "k \<le> len" by simp_all
  from Suc.IH [OF k(2)] obtain m where m: "npu_vector_for [0..<k] opc (ucast a) (ucast b) (ucast r) (n, ms)
      = (Inr (), (n\<lparr>np_cycles := np_cycles n + of_nat k\<rparr>, m))"
    "\<forall>i < k. ram_word m (r + 4 * of_nat i) = Some (npu_compute (NpuOp_from_u32 opc) (A i) (B i))"
    "\<forall>c. \<not> array_bytes r k c \<longrightarrow> ram_at c m = ram_at c ms" by blast
  note ea = array_elem [OF a(1) k(1)] and eb = array_elem [OF b(1) k(1)] and er = array_elem [OF r k(1)]
  have ad: "elem_addr (ucast a) k = ucast (a + 4 * of_nat k)" "elem_addr (ucast b) k = ucast (b + 4 * of_nat k)"
    "elem_addr (ucast r) k = ucast (r + 4 * of_nat k)"
    using elem_u64 [of a len k] elem_u64 [of b len k] elem_u64 [of r len k] a(1) b(1) r k(1)
    by (simp_all add: elem_addr_def ram_array_def)
  have al: "npu_misaligned (ucast a) (ucast b) (ucast r) k = None"
    by (simp add: npu_misaligned_def ad and_3 ea(3) eb(3) er(3))
  have wa: "ram_word m (a + 4 * of_nat k) = Some (A k)" by (rule unchanged_later [OF a k(1) m(3)])
  have wb: "ram_word m (b + 4 * of_nat k) = Some (B k)" by (rule unchanged_later [OF b k(1) m(3)])
  have "array_apart r r len" by (simp add: array_apart_def)
  from unchanged_later [OF r this k(1) m(3)] have wr: "ram_word m (r + 4 * of_nat k) \<noteq> None" by simp
  let ?v = "npu_compute (NpuOp_from_u32 opc) (A k) (B k)"
  have rb: "unat r mod 4 = 0" "unat r + 4 * len \<le> 2 ^ 32" using r by (simp_all only: ram_array_def)
  from dma_write_array [OF rb k(1) wr, of ?v] obtain m' where m': "dma_write_u32 m (ucast (r + 4 * of_nat k)) ?v = (Inr (), m')"
    "ram_word m' (r + 4 * of_nat k) = Some ?v"
    "\<forall>c. \<not> (unat r + 4 * k \<le> unat c \<and> unat c < unat r + 4 * k + 4) \<longrightarrow> ram_at c m' = ram_at c m"
    by (elim exE conjE)
  have el: "npu_element opc (ucast a) (ucast b) (ucast r) k m = (Inr (), m')"
    by (simp add: npu_element_def ad dma_read_word [OF wa ea(3)] dma_read_word [OF wb eb(3)] m'(1))
  have old: "ram_word m' (r + 4 * of_nat i) = ram_word m (r + 4 * of_nat i)" if "i < k" for i
    using array_elem [OF r, of i] that k m'(3) by (intro ram_word_cong) auto
  have frame: "ram_at c m' = ram_at c ms" if "\<not> array_bytes r (Suc k) c" for c
    using that m'(3) m(3) by (auto simp: array_bytes_def)
  have run: "npu_vector_for [0..<Suc k] opc (ucast a) (ucast b) (ucast r) (n, ms)
      = (Inr (), (n\<lparr>np_cycles := np_cycles n + of_nat (Suc k)\<rparr>, m'))"
  proof -
    have "[0..<Suc k] = [0..<k] @ [k]" by simp
    then show ?thesis using m(1) by (simp only: vector_for_append bind_result_simps npu_vector_for.simps al el option.case prod.case sum.case)
      (simp add: add.assoc)
  qed
  have vals: "\<forall>i < Suc k. ram_word m' (r + 4 * of_nat i) = Some (npu_compute (NpuOp_from_u32 opc) (A i) (B i))"
    using old m(2) m'(2) by (auto simp: less_Suc_eq)
  show ?case using run vals frame by blast
qed simp

subsection \<open>Properties\<close>

text \<open>A vector descriptor at \<open>d\<close>: operation, two inputs and the output.\<close>

definition vector_descriptor :: "mem_regions \<Rightarrow> addr \<Rightarrow> u32 \<Rightarrow> addr \<Rightarrow> addr \<Rightarrow> addr \<Rightarrow> bool" where
  "vector_descriptor ms d opc a b r \<longleftrightarrow>
     ram_array ms d 4 (\<lambda>i. if i = 0 then opc OR VECTOR_FLAG else if i = 1 then a else if i = 2 then b else r) \<and>
     opc AND VECTOR_FLAG = 0"

lemma descriptor_reads:
  assumes "vector_descriptor ms d opc a b r"
  shows "dma_read_u32 ms (ucast d) = Inr (opc OR VECTOR_FLAG)" "dma_read_u32 ms (ucast d + 4) = Inr a"
    "dma_read_u32 ms (ucast d + 8) = Inr b" "dma_read_u32 ms (ucast d + 12) = Inr r"
proof -
  let ?X = "\<lambda>i :: nat. if i = 0 then opc OR VECTOR_FLAG else if i = 1 then a else if i = 2 then b else r"
  have arr: "ram_array ms d 4 ?X" using assms by (simp add: vector_descriptor_def)
  have "dma_read_u32 ms (ucast d + of_nat i * 4) = Inr (?X i)" if "i < 4" for i
    using array_elem(1,3) [OF arr that] elem_u64 [of d 4 i] arr that by (simp only: dma_read_word ram_array_def)
  from this [of 0] this [of 1] this [of 2] this [of 3]
  show "dma_read_u32 ms (ucast d) = Inr (opc OR VECTOR_FLAG)" "dma_read_u32 ms (ucast d + 4) = Inr a"
    "dma_read_u32 ms (ucast d + 8) = Inr b" "dma_read_u32 ms (ucast d + 12) = Inr r" by simp_all
qed

lemma vector_becomes_ready:
  assumes "np_pending_desc_notify n" "np_work_queue n = []" "np_desc_len n \<noteq> 0" "np_desc_addr n = ucast d"
    and "vector_descriptor ms d opc a b r"
    and "ram_array ms a (unat (np_desc_len n)) A" "array_apart r a (unat (np_desc_len n))"
    and "ram_array ms b (unat (np_desc_len n)) B" "array_apart r b (unat (np_desc_len n))"
    and "ram_array ms r (unat (np_desc_len n)) R"
  shows "\<exists>ms'. vector_ready n ms opc a b r ms' \<and>
    ram_array ms' r (unat (np_desc_len n)) (\<lambda>i. npu_compute (NpuOp_from_u32 opc) (A i) (B i)) \<and>
    (\<forall>c. \<not> array_bytes r (unat (np_desc_len n)) c \<longrightarrow> ram_at c ms' = ram_at c ms)"
proof -
  from vector_prefix [OF assms(6,7,8,9,10) order_refl, of opc n] obtain ms' where
    v: "npu_vector_for [0..<unat (np_desc_len n)] opc (ucast a) (ucast b) (ucast r) (n, ms)
      = (Inr (), (n\<lparr>np_cycles := np_cycles n + of_nat (unat (np_desc_len n))\<rparr>, ms'))"
    "\<forall>i < unat (np_desc_len n). ram_word ms' (r + 4 * of_nat i) = Some (npu_compute (NpuOp_from_u32 opc) (A i) (B i))"
    "\<forall>c. \<not> array_bytes r (unat (np_desc_len n)) c \<longrightarrow> ram_at c ms' = ram_at c ms" by blast
  have "vector_ready n ms opc a b r ms'"
    using assms(1-5) descriptor_reads [OF assms(5)] v(1) by (simp add: vector_ready_def vector_descriptor_def)
  then show ?thesis using v(2,3) assms(10) by (auto simp: ram_array_def)
qed

text \<open>C9: A vector descriptor is the operation applied element by element.  When the NPU, not in soft-asynchronous
  mode and with an empty queue, processes a pending notification whose descriptor asks for \<open>len\<close> elements, and
  the inputs and the output are arrays in RAM with the output equal to or disjoint from each input, then
  afterwards output element \<open>i\<close> is the operation on the input elements \<open>i\<close>, no other byte of memory has
  changed, and the device has counted one task and \<open>len\<close> cycles and signals completion.\<close>

theorem npu_vector_elementwise:
  assumes "np_pending_desc_notify n" "np_work_queue n = []" "np_soft_async_budget n = None" "np_desc_len n \<noteq> 0"
    and "np_desc_addr n = ucast d" "vector_descriptor ms d opc a b r" "len = unat (np_desc_len n)"
    and "ram_array ms a len A" "array_apart r a len" "ram_array ms b len B" "array_apart r b len" "ram_array ms r len R"
  shows "\<exists>ms'. Npu_process_pending_descriptor_notify n ms = (Inr (), (after_vector len n, ms')) \<and>
    ram_array ms' r len (\<lambda>i. npu_compute (NpuOp_from_u32 opc) (A i) (B i)) \<and>
    (\<forall>c. \<not> array_bytes r len c \<longrightarrow> ram_at c ms' = ram_at c ms)"
  using vector_becomes_ready [OF assms(1,2,4,5,6), of A B R] assms(7-12) sync_vector [OF _ assms(3)] by blast

text \<open>C10: Soft-asynchronous processing is synchronous processing.  For a vector descriptor whose elements can all be
  computed, the synchronous mode and the queue drained by ticks, with any budgets that add up to the number of
  elements or more, end in the same memory and the same device state (the mode aside); before the first tick
  memory is untouched and completion is not signalled.\<close>

theorem npu_async_equals_sync:
  assumes "vector_ready n ms opc a b r ms'" "unat (np_desc_len n) \<le> sum_list ks"
  shows "\<exists>n1 n'. Npu_process_pending_descriptor_notify (n\<lparr>np_soft_async_budget := None\<rparr>) ms
        = (Inr (), (n'\<lparr>np_soft_async_budget := None\<rparr>, ms')) \<and>
    Npu_process_pending_descriptor_notify (n\<lparr>np_soft_async_budget := Some k\<rparr>) ms = (Inr (), (n1, ms)) \<and>
    np_status n1 AND NPU_DONE = 0 \<and>
    npu_ticks ks n1 ms = (Inr (), (n'\<lparr>np_soft_async_budget := Some k\<rparr>, ms'))"
proof -
  have v: "vector_ready (n\<lparr>np_soft_async_budget := x\<rparr>) ms opc a b r ms'" for x
    using assms(1) vector_ready_for [OF assms(1), of "n\<lparr>np_soft_async_budget := x\<rparr>"] by (simp add: vector_ready_def)
  have av: "after_vector m (n\<lparr>np_soft_async_budget := x\<rparr>) = (after_vector m n)\<lparr>np_soft_async_budget := x\<rparr>" for m x
    by (simp add: after_vector_def npu_signal_done_def Let_def)
  show ?thesis
    using sync_vector [OF v [of None]] async_vector [OF v [of "Some k"], of k ks] assms(2) by (auto simp: av)
qed

text \<open>A memory of 32 bytes: the descriptor of \<open>[3, 5] * [7, 9]\<close>, to be stored over the first input.\<close>

definition demo_data :: "u8 list" where
  "demo_data = [0x01, 0x10, 0, 0, 0x10, 0, 0, 0x80, 0x18, 0, 0, 0x80, 0x10, 0, 0, 0x80, 3, 0, 0, 0, 5, 0, 0, 0, 7, 0, 0, 0, 9, 0, 0, 0]"

definition demo_mem :: mem_regions where
  "demo_mem = mem_of demo_data"

definition demo_npu :: npu where
  "demo_npu = Npu_new\<lparr>np_desc_addr := 0x80000000, np_desc_len := 2, np_pending_desc_notify := True\<rparr>"

lemma demo_word:
  assumes "k + 3 < 32"
  shows "ram_word demo_mem (0x80000000 + of_nat k) =
    Some (word_of_bytes (demo_data ! k) (demo_data ! (k + 1)) (demo_data ! (k + 2)) (demo_data ! (k + 3)))"
proof -
  have "length demo_data = 32" by (simp add: demo_data_def)
  then show ?thesis using mem_of_word [of k demo_data] assms by (simp add: demo_mem_def)
qed

lemma demo_values:
  "word_of_bytes 1 16 0 0 = 0x1001" "word_of_bytes 16 0 0 128 = 0x80000010" "word_of_bytes 24 0 0 128 = 0x80000018"
  "word_of_bytes 3 0 0 0 = 3" "word_of_bytes 5 0 0 0 = 5" "word_of_bytes 7 0 0 0 = 7" "word_of_bytes 9 0 0 0 = 9"
  by code_simp+

lemma demo_words:
  "ram_word demo_mem 0x80000000 = Some 0x1001" "ram_word demo_mem 0x80000004 = Some 0x80000010"
  "ram_word demo_mem 0x80000008 = Some 0x80000018" "ram_word demo_mem 0x8000000C = Some 0x80000010"
  "ram_word demo_mem 0x80000010 = Some 3" "ram_word demo_mem 0x80000014 = Some 5"
  "ram_word demo_mem 0x80000018 = Some 7" "ram_word demo_mem 0x8000001C = Some 9"
  using demo_word [of 0] demo_word [of 4] demo_word [of 8] demo_word [of 12] demo_word [of 16] demo_word [of 20]
    demo_word [of 24] demo_word [of 28] by (simp_all add: demo_data_def demo_values)

lemma demo_npu_fields: "np_pending_desc_notify demo_npu" "np_work_queue demo_npu = []" "np_soft_async_budget demo_npu = None"
  "np_desc_len demo_npu = 2" "np_desc_addr demo_npu = ucast (0x80000000 :: addr)"
  by (simp_all add: demo_npu_def Npu_new_def Npu_with_base_def)

lemma demo_arrays:
  "vector_descriptor demo_mem 0x80000000 1 0x80000010 0x80000018 0x80000010"
  "ram_array demo_mem 0x80000010 2 (\<lambda>i. if i = 0 then 3 else 5)" "ram_array demo_mem 0x80000018 2 (\<lambda>i. if i = 0 then 7 else 9)"
  by (simp_all add: vector_descriptor_def ram_array_def VECTOR_FLAG_def all_below demo_words)

theorem npu_vector_elementwise_witness:
  "\<exists>ms'. Npu_process_pending_descriptor_notify demo_npu demo_mem = (Inr (), (after_vector 2 demo_npu, ms')) \<and>
     ram_word ms' 0x80000010 = Some 21 \<and> ram_word ms' 0x80000014 = Some 45"
proof -
  have "array_apart 0x80000010 0x80000010 2" "array_apart 0x80000010 0x80000018 2" by (simp_all add: array_apart_def)
  moreover have "np_desc_len demo_npu \<noteq> 0" "2 = unat (np_desc_len demo_npu)" by (simp_all add: demo_npu_fields)
  ultimately obtain ms' where ms': "Npu_process_pending_descriptor_notify demo_npu demo_mem = (Inr (), (after_vector 2 demo_npu, ms'))"
    "ram_array ms' 0x80000010 2 (\<lambda>i. npu_compute (NpuOp_from_u32 1) (if i = 0 then 3 else 5) (if i = 0 then 7 else 9))"
    using npu_vector_elementwise [OF demo_npu_fields(1-3) _ demo_npu_fields(5) demo_arrays(1) _ demo_arrays(2) _
        demo_arrays(3) _ demo_arrays(2)] by blast
  then show ?thesis
    using array_elem(1) [OF ms'(2), of 0] array_elem(1) [OF ms'(2), of 1] by (simp add: NpuOp_from_u32_def)
qed

theorem npu_async_equals_sync_witness:
  "\<exists>n1 ms'. Npu_process_pending_descriptor_notify (demo_npu\<lparr>np_soft_async_budget := Some 1\<rparr>) demo_mem = (Inr (), (n1, demo_mem)) \<and>
     npu_ticks [1, 1] n1 demo_mem = (Inr (), ((after_vector 2 demo_npu)\<lparr>np_soft_async_budget := Some 1\<rparr>, ms'))"
proof -
  have ap: "array_apart 0x80000010 0x80000010 2" "array_apart 0x80000010 0x80000018 2" by (simp_all add: array_apart_def)
  have len: "unat (np_desc_len demo_npu) = 2" "np_desc_len demo_npu \<noteq> 0" by (simp_all add: demo_npu_fields)
  obtain ms' where v: "vector_ready demo_npu demo_mem 1 0x80000010 0x80000018 0x80000010 ms'"
    using vector_becomes_ready [OF demo_npu_fields(1,2) len(2) demo_npu_fields(5) demo_arrays(1), unfolded len,
        OF demo_arrays(2) ap(1) demo_arrays(3) ap(2) demo_arrays(2)] by blast
  have s: "Npu_process_pending_descriptor_notify (demo_npu\<lparr>np_soft_async_budget := None\<rparr>) demo_mem
      = (Inr (), (after_vector 2 demo_npu, ms'))"
  proof -
    have "demo_npu\<lparr>np_soft_async_budget := None\<rparr> = demo_npu" by (simp add: demo_npu_def Npu_new_def Npu_with_base_def)
    then show ?thesis using sync_vector [OF v demo_npu_fields(3)] len by simp
  qed
  obtain n1 n' where e: "Npu_process_pending_descriptor_notify (demo_npu\<lparr>np_soft_async_budget := None\<rparr>) demo_mem
        = (Inr (), (n'\<lparr>np_soft_async_budget := None\<rparr>, ms'))"
    "Npu_process_pending_descriptor_notify (demo_npu\<lparr>np_soft_async_budget := Some 1\<rparr>) demo_mem = (Inr (), (n1, demo_mem))"
    "npu_ticks [1, 1] n1 demo_mem = (Inr (), (n'\<lparr>np_soft_async_budget := Some 1\<rparr>, ms'))"
    using npu_async_equals_sync [OF v, of "[1, 1]" 1] len by auto
  have n: "n'\<lparr>np_soft_async_budget := None\<rparr> = after_vector 2 demo_npu" using e(1) s by simp
  have "n'\<lparr>np_soft_async_budget := Some 1\<rparr> = (n'\<lparr>np_soft_async_budget := None\<rparr>)\<lparr>np_soft_async_budget := Some 1\<rparr>" by simp
  then have "n'\<lparr>np_soft_async_budget := Some 1\<rparr> = (after_vector 2 demo_npu)\<lparr>np_soft_async_budget := Some 1\<rparr>" by (simp only: n)
  then show ?thesis using e(2,3) by metis
qed

text \<open>Acknowledging completion loses the interrupt.  A word store of the value 2 to the status register, which names
  only the done bit, leaves no interrupt pending: the bus stores byte by byte, each byte store reads the register
  back and writes the whole word, and the pending bit read back counts as a one to clear.\<close>

theorem npu_status_store_drops_interrupt:
  "\<not> Npu_has_interrupt (foldl (\<lambda>n (off, v). snd (Npu_write n off v)) n [(4, 2), (5, 0), (6, 0), (7, 0)])"
proof -
  have irq: "\<not> Npu_has_interrupt (snd (Npu_write m off 0))" if "off = 7" for m :: npu and off
  proof -
    have "\<not> bit (np_status (Npu_write_u8 m 7 0)) 2"
      by (auto simp: Npu_write_u8_def Let_def npu_reg_defs Npu_read_reg_def Npu_write_reg_def npu_bit_defs
          flag_bitm [unfolded flag_def] bit_simps)
    then show ?thesis using that
      by (simp add: Npu_write_def NPU_SIZE_def Npu_has_interrupt_def NPU_IRQ_PENDING_def flag_bitm [unfolded flag_def])
  qed
  then show ?thesis by simp
qed

text \<open>A failed descriptor counts as done and as failed.  When the result of a scalar descriptor cannot be stored, the
  device has already counted the task as done, and then counts it as an error too.\<close>

theorem npu_failed_store_counts_twice:
  assumes "np_pending_desc_notify n" "np_desc_len n = 1" "np_work_queue n = []"
    and "dma_read_u32 ms (np_desc_addr n) = Inr opc" "opc AND VECTOR_FLAG = 0"
    and "dma_read_u32 ms (np_desc_addr n + 4) = Inr a" "dma_read_u32 ms (np_desc_addr n + 8) = Inr b"
    and "dma_read_u32 ms (np_desc_addr n + 12) = Inr r"
    and "dma_read_u32 ms (ucast a) = Inr x" "dma_read_u32 ms (ucast b) = Inr y"
    and "dma_write_u32 ms (ucast r) (npu_compute (NpuOp_from_u32 opc) x y) = (Inl e, ms')"
  shows "\<exists>n'. Npu_process_pending_descriptor_notify n ms = (Inr (), (n', ms')) \<and>
    np_tasks_done n' = np_tasks_done n + 1 \<and> np_tasks_error n' = np_tasks_error n + 1"
  using assms
  by (simp add: Npu_process_pending_descriptor_notify_def Let_def Npu_execute_descriptor_entry_def
      Npu_execute_descriptor_entry_range_def npu_count_error_def Npu_compute_result_def npu_signal_done_def)

text \<open>A fault stops the queue for good.  If the work at the front reaches an element that cannot be read or written, \<open>tick\<close>
  returns the error and leaves the device as it was, so every later tick on that memory does the same, whatever its
  budget: the work is neither finished nor dropped nor counted as an error.\<close>

theorem npu_tick_fault_wedges:
  assumes "np_work_queue n = w # ws" "nw_progress w < nw_elems w"
    and "npu_misaligned (nw_op_a_addr w) (nw_op_b_addr w) (nw_result_addr w) (nw_progress w) = None"
    and "npu_element (nw_base_opcode w) (nw_op_a_addr w) (nw_op_b_addr w) (nw_result_addr w) (nw_progress w) ms = (Inl e, ms)"
    and "0 < k"
  shows "Npu_tick n k ms = (Inl e, (n, ms))"
proof -
  have "[nw_progress w..<min (nw_elems w) (nw_progress w + k)] = nw_progress w # [Suc (nw_progress w)..<min (nw_elems w) (nw_progress w + k)]"
    using assms(2,5) by (intro upt_conv_Cons) auto
  then show ?thesis using assms by (simp add: Npu_tick_def npu_tick_loop.simps [of n k ms] Let_def)
qed

end
