(* ===== verification/Coprocessor.thy ===== *)
theory Coprocessor
  imports Exec_Core
begin

text \<open>
  The contract between the coprocessor instructions (\<open>execute_custom0\<close> in \<open>instruction/execute.rs\<close>) and an
  accelerator on the bus: operand, opcode and control registers at the offsets the instruction uses, written byte
  by byte, and a result register.  Over any device that keeps it, the instruction is the device's operation.
\<close>

definition dev_in_front :: "u32 \<Rightarrow> 'd \<Rightarrow> (addr \<times> nat \<times> 'd device) list \<Rightarrow> 'd bus \<Rightarrow> 'd bus" where
  "dev_in_front base d rest b = b\<lparr>bus_peripherals := (base, 0x100, Dev_Other d) # rest\<rparr>"

text \<open>A word stored byte by byte at an offset.\<close>

definition store4 :: "('d \<Rightarrow> u32 \<Rightarrow> u8 \<Rightarrow> 'd) \<Rightarrow> 'd \<Rightarrow> u32 \<Rightarrow> u32 \<Rightarrow> 'd" where
  "store4 w8 d off v =
     w8 (w8 (w8 (w8 d off (byte_at 0 v)) (off + 1) (byte_at 1 v)) (off + 2) (byte_at 2 v)) (off + 3) (byte_at 3 v)"

locale coprocessor =
  fixes oo :: "'d other_ops" and base :: u32
    and w8 :: "'d \<Rightarrow> u32 \<Rightarrow> u8 \<Rightarrow> 'd" and r8 :: "'d \<Rightarrow> u32 \<Rightarrow> u8" and pending :: "'d \<Rightarrow> bool"
    and set_a :: "u32 \<Rightarrow> 'd \<Rightarrow> 'd" and set_b :: "u32 \<Rightarrow> 'd \<Rightarrow> 'd" and set_op :: "u32 \<Rightarrow> 'd \<Rightarrow> 'd"
    and start :: "'d \<Rightarrow> 'd" and result :: "'d \<Rightarrow> u32"
  assumes engine: "base \<in> {NPU_BASE, LPU_BASE}"
    and dev_write: "unat off < 0x100 \<Longrightarrow> oo_write oo d off x = (Inr (), w8 d off x)"
    and dev_read: "unat off < 0x100 \<Longrightarrow> oo_read oo d off = Inr (r8 d off)"
    and idle: "\<not> pending d \<Longrightarrow> oo_try_execute oo d ms = (Inr False, d, ms)"
    and quiet: "\<not> pending d \<Longrightarrow> unat off < 0x18 \<Longrightarrow> \<not> pending (w8 d off x)"
    and store_a: "store4 w8 d 0x08 v = set_a v d"
    and store_b: "store4 w8 d 0x0C v = set_b v d"
    and store_op: "store4 w8 d 0x14 v = set_op v d"
    and store_start: "store4 w8 d 0x00 1 = start d"
    and load_result: "word_of_bytes (r8 d 0x10) (r8 d 0x11) (r8 d 0x12) (r8 d 0x13) = result d"
begin

lemma address:
  assumes "unat off < 0x100"
  shows "in_region base 0x100 (base + off)" "\<not> in_window ACC_CTRL_ROOT_BASE (base + off)"
    "\<not> in_window ACC_DOORBELL_BASE (base + off)"
proof -
  have "unat (base + off) = unat base + unat off"
    using assms engine by (intro unat_add_small) (auto simp: acc_bases)
  then show "in_region base 0x100 (base + off)" using assms by (simp add: in_region_def)
  show "\<not> in_window ACC_CTRL_ROOT_BASE (base + off)" "\<not> in_window ACC_DOORBELL_BASE (base + off)"
    using engine_outside_window [of base off] assms engine by auto
qed

lemma bus_write:
  assumes "unat off < 0x18" "\<not> pending d"
  shows "Bus_write_byte oo (dev_in_front base d rest b) (base + off) v = (Inr (), dev_in_front base (w8 d off v) rest b)"
proof -
  have off: "unat off < 0x100" using assms(1) by simp
  show ?thesis
    using idle [OF quiet [OF assms(2,1)]]
    by (simp add: Bus_write_byte_def Bus_try_write_acc_mmio_def Bus_region_write_def dev_in_front_def address [OF off] dev_write [OF off])
qed

lemma bus_read:
  assumes "unat off < 0x100"
  shows "Bus_read_byte oo (dev_in_front base d rest b) (base + off) = (Inr (r8 d off), dev_in_front base d rest b)"
  by (simp add: Bus_read_byte_def Bus_try_read_acc_mmio_def Bus_region_read_def dev_in_front_def address [OF assms] dev_read [OF assms])

text \<open>A word store by the processor to one of the registers.\<close>

lemma bus_store:
  assumes "unat off < 0x15" "unat off mod 4 = 0" "\<not> pending d"
  shows "Bus_write_word oo (dev_in_front base d rest b) (base + off) v = (Inr (), dev_in_front base (store4 w8 d off v) rest b)"
    and "\<not> pending (store4 w8 d off v)"
proof -
  have u: "unat (off + 1) < 0x18" "unat (off + 2) < 0x18" "unat (off + 3) < 0x18" "unat off < 0x18"
    using assms(1) unat_add_small [of off 1] unat_add_small [of off 2] unat_add_small [of off 3] by simp_all
  note q = quiet [OF _ u(4)] quiet [OF _ u(1)] quiet [OF _ u(2)] quiet [OF _ u(3)]
  have al: "check_alignment (base + off) 4 = Inr ()"
  proof -
    have "unat (base + off) = unat base + unat off"
      using assms(1) engine by (intro unat_add_small) (auto simp: acc_bases)
    then have "unat (base + off) mod 4 = 0" using assms(2) engine by (auto simp: acc_bases mod_add_right_eq [symmetric])
    then show ?thesis by (simp add: check_alignment_4)
  qed
  show "\<not> pending (store4 w8 d off v)" using assms(3) by (simp add: store4_def q)
  have e: "base + off + k = base + (off + k)" for k by (simp add: add.assoc)
  show "Bus_write_word oo (dev_in_front base d rest b) (base + off) v = (Inr (), dev_in_front base (store4 w8 d off v) rest b)"
    using assms(3) by (simp add: Bus_write_word_def Memory_write_word_def al Addr_add_def e bus_write u q store4_def)
qed

lemma bus_result:
  "Bus_read_word oo (dev_in_front base d rest b) (base + 0x10) = (Inr (result d), dev_in_front base d rest b)"
proof -
  have e: "base + 0x10 + k = base + (0x10 + k)" for k by (simp add: add.assoc)
  have al: "check_alignment (base + 0x10) 4 = Inr ()" using engine by (auto simp: acc_bases check_alignment_4)
  show ?thesis
    by (simp add: Bus_read_word_def Memory_read_word_def al Addr_add_def e bus_read load_result del: add.assoc)
qed

lemma instruction:
  assumes "custom0_base i = Some base" "bus_peripherals (pk_bus c) = (base, 0x100, Dev_Other d) # rest" "\<not> pending d"
    and "op = ucast (Decoder_funct7 i AND 0x1F)"
    and "x = Registers_read (pk_regs c) (Decoder_rs1 i)" "y = Registers_read (pk_regs c) (Decoder_rs2 i)"
  shows "execute_custom0 (plain_ops oo) i c =
    (Inr (), c\<lparr>pk_bus := dev_in_front base (start (set_op op (set_b y (set_a x d)))) rest (pk_bus c),
       pk_regs := Registers_write (pk_regs c) (Decoder_rd i) (result (start (set_op op (set_b y (set_a x d))))), pk_pc := pk_pc c + 4\<rparr>)"
proof -
  have f: "pk_bus c = dev_in_front base d rest (pk_bus c)" using assms(2) by (cases "pk_bus c") (simp add: dev_in_front_def)
  note a = bus_store [of 8, unfolded store_a] and b = bus_store [of 12, unfolded store_b]
    and o = bus_store [of 20, unfolded store_op] and s = bus_store [where off = 0 and v = 1, unfolded store_start]
  have "execute_custom0 (plain_ops oo) i (c\<lparr>pk_bus := dev_in_front base d rest (pk_bus c)\<rparr>) =
    (Inr (), c\<lparr>pk_bus := dev_in_front base (start (set_op op (set_b y (set_a x d)))) rest (pk_bus c),
       pk_regs := Registers_write (pk_regs c) (Decoder_rd i) (result (start (set_op op (set_b y (set_a x d))))), pk_pc := pk_pc c + 4\<rparr>)"
    using assms(3) assms(4-6) [symmetric]
    by (simp add: execute_custom0_def assms(1) Let_def plain_ops_def on_pk_bus_def get_reg_def put_reg_def a b o
        s [simplified] bus_result PC_increment_def Addr_add_def)
  moreover have "c\<lparr>pk_bus := dev_in_front base d rest (pk_bus c)\<rparr> = c" using f by simp
  ultimately show ?thesis by simp
qed

end

subsection \<open>Registers stored byte by byte\<close>

text \<open>A store of a byte to a plain register replaces that byte; four of them replace the word.\<close>

lemma put_bytes: "put_byte 3 (byte_at 3 v) (put_byte 2 (byte_at 2 v) (put_byte (Suc 0) (byte_at (Suc 0) v) (put_byte 0 (byte_at 0 v) w))) = v"
proof (rule bit_word_eqI)
  fix k assume "k < LENGTH(32)"
  then consider "k < 8" | "8 \<le> k" "k < 16" | "16 \<le> k" "k < 24" | "24 \<le> k" "k < 32" by fastforce
  then show "bit (put_byte 3 (byte_at 3 v) (put_byte 2 (byte_at 2 v) (put_byte (Suc 0) (byte_at (Suc 0) v) (put_byte 0 (byte_at 0 v) w)))) k = bit v k"
    by cases (auto simp: bit_simps)
qed

lemmas put_byte_shift = put_byte_def [of 0, simplified, symmetric] put_byte_def [of "Suc 0", simplified, symmetric]
  put_byte_def [of 2, simplified, symmetric] put_byte_def [of 3, simplified, symmetric]

lemma byte_of_one: "byte_at 0 (1 :: u32) = 1" "byte_at (Suc 0) (1 :: u32) = 0" "byte_at 2 (1 :: u32) = 0" "byte_at 3 (1 :: u32) = 0"
  by (simp_all add: byte_at_def)

lemma low_byte: "ucast (drop_bit (8 * i) w AND 0xFF) = byte_at i (w :: u32)"
proof -
  have m: "(0xFF :: u32) = mask 8" by (simp add: mask_eq_exp_minus_1)
  show ?thesis unfolding m by (rule bit_word_eqI) (auto simp: bit_simps)
qed

text \<open>The control word around the start bit, which is bit 0 in every accelerator, as the interrupt enable is bit 1.\<close>

lemma control_start: "put_byte 0 1 c AND bitm 0 \<noteq> 0" "put_byte 0 1 c AND bitm (Suc 0) = 0"
  using flag_bitm [of 0 "put_byte 0 1 c"] flag_bitm [of 1 "put_byte 0 1 c"]
  by (simp_all add: flag_def bit_simps)

lemma control_bytes:
  assumes "\<not> bit c 0"
  shows "put_byte (Suc 0) 0 c AND bitm 0 = 0" "put_byte 2 0 c AND bitm 0 = 0" "put_byte 3 0 c AND bitm 0 = 0"
  using assms flag_bitm [of 0 "put_byte (Suc 0) 0 c"] flag_bitm [of 0 "put_byte 2 0 c"] flag_bitm [of 0 "put_byte 3 0 c"]
  by (simp_all add: flag_def bit_simps)

lemma control_rest:
  "\<not> bit (put_byte 0 1 c AND NOT (bitm 0)) 0" "\<not> bit c 0 \<Longrightarrow> \<not> bit (put_byte (Suc 0) 0 c) 0" "\<not> bit c 0 \<Longrightarrow> \<not> bit (put_byte 2 0 c) 0"
  "put_byte 3 0 (put_byte 2 0 (put_byte (Suc 0) 0 (put_byte 0 1 c AND NOT (bitm 0)))) = 0"
proof -
  show "put_byte 3 0 (put_byte 2 0 (put_byte (Suc 0) 0 (put_byte 0 1 c AND NOT (bitm 0)))) = 0"
    by (rule bit_word_eqI) (auto simp: bit_simps)
qed (simp_all add: bit_simps)

lemma zero_bytes:
  "w AND - 65281 = put_byte (Suc 0) 0 w" "w AND - 16711681 = put_byte 2 0 w" "w AND - 4278190081 = put_byte 3 0 w"
  "(w AND - 256) OR 1 = put_byte 0 1 w"
  by (simp_all add: put_byte_def)

end
