(* ===== verification/Npu_Instruction.thy ===== *)
theory Npu_Instruction
  imports Coprocessor Npu_Model
begin

text \<open>
  The NPU (\<open>peripheral/npu.rs\<close>) keeps the contract of the coprocessor instructions.
\<close>

subsection \<open>The registers\<close>

lemma npu_operand_bytes:
  "Npu_write_u8 n 0x08 v = n\<lparr>np_op_a := put_byte 0 v (np_op_a n)\<rparr>"
  "Npu_write_u8 n 0x09 v = n\<lparr>np_op_a := put_byte (Suc 0) v (np_op_a n)\<rparr>"
  "Npu_write_u8 n 0x0A v = n\<lparr>np_op_a := put_byte 2 v (np_op_a n)\<rparr>"
  "Npu_write_u8 n 0x0B v = n\<lparr>np_op_a := put_byte 3 v (np_op_a n)\<rparr>"
  "Npu_write_u8 n 0x0C v = n\<lparr>np_op_b := put_byte 0 v (np_op_b n)\<rparr>"
  "Npu_write_u8 n 0x0D v = n\<lparr>np_op_b := put_byte (Suc 0) v (np_op_b n)\<rparr>"
  "Npu_write_u8 n 0x0E v = n\<lparr>np_op_b := put_byte 2 v (np_op_b n)\<rparr>"
  "Npu_write_u8 n 0x0F v = n\<lparr>np_op_b := put_byte 3 v (np_op_b n)\<rparr>"
  "Npu_write_u8 n 0x14 v = n\<lparr>np_opcode := put_byte 0 v (np_opcode n)\<rparr>"
  "Npu_write_u8 n 0x15 v = n\<lparr>np_opcode := put_byte (Suc 0) v (np_opcode n)\<rparr>"
  "Npu_write_u8 n 0x16 v = n\<lparr>np_opcode := put_byte 2 v (np_opcode n)\<rparr>"
  "Npu_write_u8 n 0x17 v = n\<lparr>np_opcode := put_byte 3 v (np_opcode n)\<rparr>"
  by (simp_all add: Npu_write_u8_def Let_def npu_reg_defs Npu_read_reg_def Npu_write_reg_def put_byte_shift)

lemma npu_control_bytes:
  assumes "\<not> bit (np_control n) 0"
  shows "Npu_write_u8 n 1 0 = n\<lparr>np_control := put_byte (Suc 0) 0 (np_control n)\<rparr>"
    "Npu_write_u8 n 2 0 = n\<lparr>np_control := put_byte 2 0 (np_control n)\<rparr>"
    "Npu_write_u8 n 3 0 = n\<lparr>np_control := put_byte 3 0 (np_control n)\<rparr>"
  using control_bytes [OF assms]
  by (simp_all add: Npu_write_u8_def Let_def npu_reg_defs Npu_read_reg_def Npu_write_reg_def zero_bytes NPU_START_def)

lemma npu_result_bytes:
  "word_of_bytes (Npu_read_u8 n 0x10) (Npu_read_u8 n 0x11) (Npu_read_u8 n 0x12) (Npu_read_u8 n 0x13) = np_result n"
proof -
  have "Npu_read_u8 n 0x10 = byte_at 0 (np_result n)" "Npu_read_u8 n 0x11 = byte_at (Suc 0) (np_result n)"
    "Npu_read_u8 n 0x12 = byte_at 2 (np_result n)" "Npu_read_u8 n 0x13 = byte_at 3 (np_result n)"
    using low_byte [of 0] low_byte [of "Suc 0"] low_byte [of 2] low_byte [of 3]
    by (simp_all add: Npu_read_u8_def Let_def npu_reg_defs Npu_read_reg_def)
  then show ?thesis by simp
qed

text \<open>The start bit executes the operation; the other three bytes of the word see it cleared.\<close>

definition npu_started :: "npu \<Rightarrow> npu" where
  "npu_started n = n\<lparr>np_control := 0, np_status := (np_status n AND NOT NPU_BUSY) OR NPU_DONE,
     np_result := npu_compute (NpuOp_from_u32 (np_opcode n)) (np_op_a n) (np_op_b n), np_cycles := np_cycles n + 1\<rparr>"

lemma npu_start_byte:
  "Npu_write_u8 n 0 1 = (npu_started n)\<lparr>np_control := put_byte 0 1 (np_control n) AND NOT (bitm 0)\<rparr>"
proof -
  have st: "((s OR NPU_BUSY) AND NOT NPU_DONE) AND NOT NPU_BUSY OR NPU_DONE = s AND NOT NPU_BUSY OR NPU_DONE" for s
    by (rule bit_word_eqI) (auto simp: npu_bit_defs bit_simps)
  have "Npu_write_u8 n 0 1 = Npu_write_reg n 0 (put_byte 0 1 (np_control n))"
    by (simp add: Npu_write_u8_def Let_def Npu_read_reg_def npu_reg_defs zero_bytes)
  then show ?thesis
    by (simp add: Npu_write_reg_def NREG_CONTROL_def Let_def control_start Npu_execute_once_def npu_signal_done_def
        Npu_compute_result_def npu_started_def st NPU_START_def NPU_IRQ_EN_def)
qed

lemma npu_pending_write:
  assumes "unat off < 0x18"
  shows "np_pending_desc_notify (Npu_write_u8 n off v) = np_pending_desc_notify n"
proof -
  have "off AND NOT 3 \<le> off" by (rule word_and_le2)
  then have "off AND NOT 0x3 \<noteq> NREG_DESC_NOTIFY" using assms by (auto simp: NREG_DESC_NOTIFY_def word_le_nat_alt)
  then show ?thesis
    by (auto simp: Npu_write_u8_def Let_def Npu_write_reg_def Npu_execute_once_def npu_signal_done_def)
qed

interpretation npu_cop: coprocessor npu_device_ops NPU_BASE Npu_write_u8 Npu_read_u8 np_pending_desc_notify
  "\<lambda>v. np_op_a_update (\<lambda>_. v)" "\<lambda>v. np_op_b_update (\<lambda>_. v)" "\<lambda>v. np_opcode_update (\<lambda>_. v)" npu_started np_result
proof unfold_locales
  show "NPU_BASE \<in> {NPU_BASE, LPU_BASE}" by simp
  fix n :: npu and off :: u32 and x :: u8 and ms :: mem_regions and v :: u32
  show "unat off < 0x100 \<Longrightarrow> oo_write npu_device_ops n off x = (Inr (), Npu_write_u8 n off x)"
    "unat off < 0x100 \<Longrightarrow> oo_read npu_device_ops n off = Inr (Npu_read_u8 n off)"
    by (simp_all add: npu_device_ops_def Npu_write_def Npu_read_def NPU_SIZE_def word_le_nat_alt)
  show "\<not> np_pending_desc_notify n \<Longrightarrow> oo_try_execute npu_device_ops n ms = (Inr False, n, ms)"
    by (simp add: npu_device_ops_def Npu_try_execute_pending_def)
  show "\<not> np_pending_desc_notify n \<Longrightarrow> unat off < 0x18 \<Longrightarrow> \<not> np_pending_desc_notify (Npu_write_u8 n off x)"
    by (simp add: npu_pending_write)
  show "store4 Npu_write_u8 n 0x08 v = np_op_a_update (\<lambda>_. v) n" "store4 Npu_write_u8 n 0x0C v = np_op_b_update (\<lambda>_. v) n"
    "store4 Npu_write_u8 n 0x14 v = np_opcode_update (\<lambda>_. v) n"
    by (simp_all add: store4_def npu_operand_bytes put_bytes)
  have "(npu_started n)\<lparr>np_control := 0\<rparr> = npu_started n" by (simp add: npu_started_def)
  then show "store4 Npu_write_u8 n 0x00 1 = npu_started n"
    by (simp add: store4_def byte_of_one npu_start_byte npu_control_bytes control_rest)
qed (simp add: npu_result_bytes)

subsection \<open>The instruction\<close>

text \<open>The device after an NPU instruction with opcode \<open>op\<close> on \<open>x\<close> and \<open>y\<close>.\<close>

definition npu_after_instruction :: "u32 \<Rightarrow> u32 \<Rightarrow> u32 \<Rightarrow> npu \<Rightarrow> npu" where
  "npu_after_instruction op x y n = npu_started (n\<lparr>np_op_a := x, np_op_b := y, np_opcode := op\<rparr>)"

text \<open>C8: An NPU instruction computes its operation.  With the NPU first on the bus and no notification pending, a
  coprocessor instruction with \<open>funct3\<close> 0 and an operation from 0 to 3 (add, multiply, unsigned maximum, ReLU)
  succeeds, puts the operation on the two source registers into the destination register and moves to the next
  instruction; the device has counted a cycle, signals completion and has its control register, the interrupt
  enable included, cleared; memory, the other devices and the rest of the processor are as before.\<close>

theorem npu_instruction:
  assumes "bus_peripherals (pk_bus c) = (NPU_BASE, 0x100, Dev_Other n) # rest" "\<not> np_pending_desc_notify n"
    and "Decoder_funct3 i = 0" "op = ucast (Decoder_funct7 i AND 0x1F)" "op \<le> 3"
    and "x = Registers_read (pk_regs c) (Decoder_rs1 i)" "y = Registers_read (pk_regs c) (Decoder_rs2 i)"
  shows "execute_custom0 (plain_ops npu_device_ops) i c =
    (Inr (), c\<lparr>pk_bus := dev_in_front NPU_BASE (npu_after_instruction op x y n) rest (pk_bus c),
       pk_regs := Registers_write (pk_regs c) (Decoder_rd i) (npu_compute (NpuOp_from_u32 op) x y), pk_pc := pk_pc c + 4\<rparr>)"
proof -
  have b: "custom0_base i = Some NPU_BASE" using assms(3-5) by (simp add: custom0_base_def not_less)
  show ?thesis
    using npu_cop.instruction [OF b assms(1,2,4,6,7)] by (simp add: npu_after_instruction_def npu_started_def)
qed

text \<open>\<open>npu.mul x3, x1, x2\<close> with 6 and 7.\<close>

definition npu_core :: "npu plain_core" where
  "npu_core = \<lparr>pk_regs = Registers_write (Registers_write Registers_new 1 6) 2 7, pk_pc = 0, pk_csr = CsrFile_new,
     pk_privilege = Machine, pk_bus = Bus_attach_peripheral npu_device_ops Bus_new (Dev_Other Npu_new),
     pk_reservation = None, pk_exit = False, pk_halted = False\<rparr>"

theorem npu_instruction_witness:
  "execute_custom0 (plain_ops npu_device_ops) 0x0220818B npu_core =
    (Inr (), npu_core\<lparr>pk_bus := dev_in_front NPU_BASE (npu_after_instruction 1 6 7 Npu_new) [] (pk_bus npu_core),
       pk_regs := Registers_write (pk_regs npu_core) 3 42, pk_pc := 4\<rparr>)"
proof -
  have i: "Decoder_funct3 0x0220818B = 0" "(1 :: u32) = ucast (Decoder_funct7 0x0220818B AND 0x1F)" "Decoder_rd 0x0220818B = 3"
    "Decoder_rs1 0x0220818B = 1" "Decoder_rs2 0x0220818B = 2" by code_simp+
  have p: "bus_peripherals (pk_bus npu_core) = (NPU_BASE, 0x100, Dev_Other Npu_new) # []"
    by (simp add: npu_core_def Bus_attach_peripheral_def Bus_new_def npu_device_ops_def NPU_SIZE_def Npu_new_def Npu_with_base_def)
  have r: "6 = Registers_read (pk_regs npu_core) (Decoder_rs1 0x0220818B)" "7 = Registers_read (pk_regs npu_core) (Decoder_rs2 0x0220818B)"
    unfolding i by code_simp+
  have "\<not> np_pending_desc_notify Npu_new" by (simp add: Npu_new_def Npu_with_base_def)
  from npu_instruction [OF p this i(1,2) _ r] show ?thesis by (simp add: i(3) npu_core_def NpuOp_from_u32_def)
qed

end
