(* ===== verification/Saturating.thy ===== *)
theory Saturating
  imports Prelude
begin

text \<open>
  Rust's saturating arithmetic: \<open>saturating_add\<close> and \<open>saturating_mul\<close> on \<open>u64\<close>, \<open>saturating_sub\<close> on \<open>u32\<close>.
\<close>

definition sat_add64 :: "u64 \<Rightarrow> u64 \<Rightarrow> u64" where
  "sat_add64 a b = (if unat a + unat b \<ge> 2 ^ 64 then - 1 else a + b)"

definition sat_mul64 :: "u64 \<Rightarrow> u64 \<Rightarrow> u64" where
  "sat_mul64 a b = (if unat a * unat b \<ge> 2 ^ 64 then - 1 else a * b)"

definition sat_sub32 :: "u32 \<Rightarrow> u32 \<Rightarrow> u32" where
  "sat_sub32 a b = (if a < b then 0 else a - b)"

lemma unat_sat_add64: "unat (sat_add64 a b) = min (2 ^ 64 - 1) (unat a + unat b)"
proof (cases "unat a + unat b \<ge> 2 ^ 64")
  case True
  then show ?thesis by (simp add: sat_add64_def unsigned_minus_1_eq_mask mask_eq_exp_minus_1)
next
  case False
  then have "unat (a + b) = unat a + unat b" by (simp add: unat_word_ariths)
  then show ?thesis using False by (simp add: sat_add64_def)
qed

end
