(* ===== verification/Lpu_Model.thy ===== *)
theory Lpu_Model
  imports Bus_Model Saturating "HOL-Library.Product_Lexorder"
begin

text \<open>
  The language processing unit: \<open>src/src/peripheral/lpu.rs\<close>.  Its MMIO registers, the immediate operation
  behind the start bit, and the descriptors it reads from memory: byte tokenisation, embedding bags, and the
  choice of a token from scores in memory, greedily or by sampling with a linear congruential generator.
  Rust's \<open>saturating_add\<close> on \<open>u64\<close> is \<open>sat_add64\<close>.
\<close>

subsection \<open>Registers and state\<close>

definition LPU_SIZE :: nat where "LPU_SIZE = 0x100"

definition LREG_CONTROL :: u32 where "LREG_CONTROL = 0x00"
definition LREG_STATUS :: u32 where "LREG_STATUS = 0x04"
definition LREG_OP_A :: u32 where "LREG_OP_A = 0x08"
definition LREG_OP_B :: u32 where "LREG_OP_B = 0x0C"
definition LREG_RESULT :: u32 where "LREG_RESULT = 0x10"
definition LREG_OPCODE :: u32 where "LREG_OPCODE = 0x14"
definition LREG_CYCLES :: u32 where "LREG_CYCLES = 0x18"
definition LREG_DESC_ADDR_LOW :: u32 where "LREG_DESC_ADDR_LOW = 0x20"
definition LREG_DESC_ADDR_HIGH :: u32 where "LREG_DESC_ADDR_HIGH = 0x24"
definition LREG_DESC_LEN :: u32 where "LREG_DESC_LEN = 0x28"
definition LREG_DESC_NOTIFY :: u32 where "LREG_DESC_NOTIFY = 0x2C"
definition LREG_TASKS_DONE :: u32 where "LREG_TASKS_DONE = 0x30"
definition LREG_TASKS_ERROR :: u32 where "LREG_TASKS_ERROR = 0x34"
definition LREG_DESC_NOTIFY_COUNT :: u32 where "LREG_DESC_NOTIFY_COUNT = 0x38"
definition LREG_DECODE_TOP_K :: u32 where "LREG_DECODE_TOP_K = 0x3C"
definition LREG_DECODE_TEMPERATURE :: u32 where "LREG_DECODE_TEMPERATURE = 0x40"
definition LREG_DECODE_SEED :: u32 where "LREG_DECODE_SEED = 0x44"
definition LREG_SAMPLED_DECODES :: u32 where "LREG_SAMPLED_DECODES = 0x48"
definition LREG_DECODE_TOP_P :: u32 where "LREG_DECODE_TOP_P = 0x4C"
definition LREG_NUCLEUS_DECODES :: u32 where "LREG_NUCLEUS_DECODES = 0x50"

lemmas lpu_reg_defs = LREG_CONTROL_def LREG_STATUS_def LREG_OP_A_def LREG_OP_B_def LREG_RESULT_def LREG_OPCODE_def
  LREG_CYCLES_def LREG_DESC_ADDR_LOW_def LREG_DESC_ADDR_HIGH_def LREG_DESC_LEN_def LREG_DESC_NOTIFY_def
  LREG_TASKS_DONE_def LREG_TASKS_ERROR_def LREG_DESC_NOTIFY_COUNT_def LREG_DECODE_TOP_K_def
  LREG_DECODE_TEMPERATURE_def LREG_DECODE_SEED_def LREG_SAMPLED_DECODES_def LREG_DECODE_TOP_P_def LREG_NUCLEUS_DECODES_def

definition LPU_DESC_STRIDE :: u64 where "LPU_DESC_STRIDE = 16"

definition LPU_OPCODE_BYTE_TOKENIZE :: u32 where "LPU_OPCODE_BYTE_TOKENIZE = 0x10"
definition LPU_OPCODE_EMBEDDING_BAG :: u32 where "LPU_OPCODE_EMBEDDING_BAG = 0x11"
definition LPU_OPCODE_GREEDY_DECODE :: u32 where "LPU_OPCODE_GREEDY_DECODE = 0x12"
definition LPU_OPCODE_TOPK_SAMPLE_DECODE :: u32 where "LPU_OPCODE_TOPK_SAMPLE_DECODE = 0x13"
definition LPU_OPCODE_TOPP_SAMPLE_DECODE :: u32 where "LPU_OPCODE_TOPP_SAMPLE_DECODE = 0x14"

lemmas lpu_opcode_defs = LPU_OPCODE_BYTE_TOKENIZE_def LPU_OPCODE_EMBEDDING_BAG_def LPU_OPCODE_GREEDY_DECODE_def
  LPU_OPCODE_TOPK_SAMPLE_DECODE_def LPU_OPCODE_TOPP_SAMPLE_DECODE_def

definition LPU_START :: u32 where "LPU_START = bitm 0"
definition LPU_IRQ_EN :: u32 where "LPU_IRQ_EN = bitm 1"
definition LPU_BUSY :: u32 where "LPU_BUSY = bitm 0"
definition LPU_DONE :: u32 where "LPU_DONE = bitm 1"
definition LPU_IRQ_PENDING :: u32 where "LPU_IRQ_PENDING = bitm 2"

lemmas lpu_bit_defs = LPU_START_def LPU_IRQ_EN_def LPU_BUSY_def LPU_DONE_def LPU_IRQ_PENDING_def

datatype lpu_op = ByteTokenize | EmbeddingBag | GreedyDecode | TopKSampleDecode | TopPSampleDecode

definition LpuOp_from_u32 :: "u32 \<Rightarrow> lpu_op option" where
  "LpuOp_from_u32 v =
     (if v = LPU_OPCODE_BYTE_TOKENIZE then Some ByteTokenize
      else if v = LPU_OPCODE_EMBEDDING_BAG then Some EmbeddingBag
      else if v = LPU_OPCODE_GREEDY_DECODE then Some GreedyDecode
      else if v = LPU_OPCODE_TOPK_SAMPLE_DECODE then Some TopKSampleDecode
      else if v = LPU_OPCODE_TOPP_SAMPLE_DECODE then Some TopPSampleDecode
      else None)"

record lpu =
  lp_base :: addr
  lp_control :: u32
  lp_status :: u32
  lp_op_a :: u32
  lp_op_b :: u32
  lp_result :: u32
  lp_opcode :: u32
  lp_cycles :: u32
  lp_desc_addr :: u64
  lp_desc_len :: u32
  lp_tasks_done :: u32
  lp_tasks_error :: u32
  lp_desc_notify_count :: u64
  lp_pending_desc_notify :: bool
  lp_bytes_processed :: u64
  lp_tokens_generated :: u64
  lp_embedding_lookups :: u64
  lp_embedding_bags :: u64
  lp_decode_candidates_evaluated :: u64
  lp_decoded_tokens :: u64
  lp_decode_top_k :: u32
  lp_decode_temperature_milli :: u32
  lp_decode_seed :: u32
  lp_sampled_decodes :: u64
  lp_decode_top_p_milli :: u32
  lp_nucleus_decodes :: u64

definition Lpu_with_base :: "addr \<Rightarrow> lpu" where
  "Lpu_with_base base = \<lparr>lp_base = base, lp_control = 0, lp_status = 0, lp_op_a = 0, lp_op_b = 0, lp_result = 0,
     lp_opcode = 0, lp_cycles = 0, lp_desc_addr = 0, lp_desc_len = 0, lp_tasks_done = 0, lp_tasks_error = 0,
     lp_desc_notify_count = 0, lp_pending_desc_notify = False, lp_bytes_processed = 0, lp_tokens_generated = 0,
     lp_embedding_lookups = 0, lp_embedding_bags = 0, lp_decode_candidates_evaluated = 0, lp_decoded_tokens = 0,
     lp_decode_top_k = 1, lp_decode_temperature_milli = 1000, lp_decode_seed = 1, lp_sampled_decodes = 0,
     lp_decode_top_p_milli = 900, lp_nucleus_decodes = 0\<rparr>"

definition Lpu_new :: lpu where "Lpu_new = Lpu_with_base LPU_BASE"

record lpu_snapshot =
  ls_control :: u32
  ls_status :: u32
  ls_opcode :: u32
  ls_cycles :: u32
  ls_desc_addr :: u64
  ls_desc_len :: u32
  ls_tasks_done :: u32
  ls_tasks_error :: u32
  ls_desc_notify_count :: u64
  ls_pending_desc_notify :: bool
  ls_bytes_processed :: u64
  ls_tokens_generated :: u64
  ls_embedding_lookups :: u64
  ls_embedding_bags :: u64
  ls_decode_candidates_evaluated :: u64
  ls_decoded_tokens :: u64
  ls_decode_top_k :: u32
  ls_decode_temperature_milli :: u32
  ls_decode_seed :: u32
  ls_sampled_decodes :: u64
  ls_decode_top_p_milli :: u32
  ls_nucleus_decodes :: u64

definition Lpu_snapshot :: "lpu \<Rightarrow> lpu_snapshot" where
  "Lpu_snapshot l = \<lparr>ls_control = lp_control l, ls_status = lp_status l, ls_opcode = lp_opcode l, ls_cycles = lp_cycles l,
     ls_desc_addr = lp_desc_addr l, ls_desc_len = lp_desc_len l, ls_tasks_done = lp_tasks_done l,
     ls_tasks_error = lp_tasks_error l, ls_desc_notify_count = lp_desc_notify_count l,
     ls_pending_desc_notify = lp_pending_desc_notify l, ls_bytes_processed = lp_bytes_processed l,
     ls_tokens_generated = lp_tokens_generated l, ls_embedding_lookups = lp_embedding_lookups l,
     ls_embedding_bags = lp_embedding_bags l, ls_decode_candidates_evaluated = lp_decode_candidates_evaluated l,
     ls_decoded_tokens = lp_decoded_tokens l, ls_decode_top_k = lp_decode_top_k l,
     ls_decode_temperature_milli = lp_decode_temperature_milli l, ls_decode_seed = lp_decode_seed l,
     ls_sampled_decodes = lp_sampled_decodes l, ls_decode_top_p_milli = lp_decode_top_p_milli l,
     ls_nucleus_decodes = lp_nucleus_decodes l\<rparr>"

subsection \<open>Tokens and embeddings\<close>

definition Lpu_classify_byte :: "u8 \<Rightarrow> u32" where
  "Lpu_classify_byte b =
     (if b = 0x20 \<or> b = 0x0A \<or> b = 0x0D \<or> b = 0x09 then 0
      else if 0x61 \<le> b \<and> b \<le> 0x7A \<or> 0x41 \<le> b \<and> b \<le> 0x5A then 1
      else if 0x30 \<le> b \<and> b \<le> 0x39 then 2
      else if 0x21 \<le> b \<and> b \<le> 0x2F \<or> 0x3A \<le> b \<and> b \<le> 0x40 \<or> 0x5B \<le> b \<and> b \<le> 0x60 \<or> 0x7B \<le> b \<and> b \<le> 0x7E then 3
      else 4)"

definition EMBEDDING_TABLE :: "u32 list" where
  "EMBEDDING_TABLE = [1, 4, 6, 3, 2]"

definition Lpu_lookup_embedding :: "u32 \<Rightarrow> u32" where
  "Lpu_lookup_embedding token_id =
     (if unat token_id < length EMBEDDING_TABLE then EMBEDDING_TABLE ! unat token_id else 0)"

definition Lpu_greedy_decode_binary :: "u32 \<Rightarrow> u32 \<Rightarrow> u32" where
  "Lpu_greedy_decode_binary score0 score1 = (if score0 \<ge> score1 then 0 else 1)"

subsection \<open>Sampling\<close>

definition Lpu_next_decode_random :: "lpu \<Rightarrow> u32 \<times> lpu" where
  "Lpu_next_decode_random l =
     (let l = l\<lparr>lp_decode_seed := lp_decode_seed l * 1664525 + 1013904223\<rparr> in (lp_decode_seed l, l))"

text \<open>
  The order of \<open>sort_unstable_by\<close>: higher scores first, equal scores by index.  Candidates it calls equal
  are equal, so an unstable sort has one outcome.
\<close>

definition rank_key :: "u32 \<times> u32 \<Rightarrow> u32 \<times> u32" where
  "rank_key c = (NOT (snd c), fst c)"

definition lpu_ranked :: "(u32 \<times> u32) list \<Rightarrow> (u32 \<times> u32) list" where
  "lpu_ranked candidates = sort_key rank_key candidates"

definition lpu_weight :: "u32 \<Rightarrow> u32 \<Rightarrow> u32 \<Rightarrow> u64" where
  "lpu_weight min_score temp score = 1 + (ucast (sat_sub32 score min_score) * 1000) div ucast (max temp 1)"

text \<open>The loop that walks the weights until the ticket is passed, \<open>None\<close> when it runs out.\<close>

fun lpu_draw :: "u64 \<Rightarrow> u64 \<Rightarrow> (u32 \<times> u64) list \<Rightarrow> u32 option" where
  "lpu_draw ticket acc [] = None"
| "lpu_draw ticket acc ((token_id, weight) # ws) =
     (let acc = sat_add64 acc weight in if ticket < acc then Some token_id else lpu_draw ticket acc ws)"

definition lpu_total :: "(u32 \<times> u64) list \<Rightarrow> u64" where
  "lpu_total ws = foldl (\<lambda>acc (_, weight). sat_add64 acc weight) 0 ws"

definition lpu_weighted :: "lpu \<Rightarrow> (u32 \<times> u32) list \<Rightarrow> (u32 \<times> u64) list" where
  "lpu_weighted l ranked =
     map (\<lambda>(token_id, score). (token_id, lpu_weight (snd (last ranked)) (lp_decode_temperature_milli l) score)) ranked"

definition Lpu_sample_from_candidates :: "lpu \<Rightarrow> (u32 \<times> u32) list \<Rightarrow> u32 \<times> lpu" where
  "Lpu_sample_from_candidates l candidates =
     (if candidates = [] then (0, l)
      else
        let ranked = lpu_ranked candidates;
            top_k = unat (max (lp_decode_top_k l) 1);
            ranked = take (min top_k (length ranked)) ranked
        in if length ranked = 1 \<or> lp_decode_temperature_milli l \<le> 1 then (fst (hd ranked), l)
           else
             let ws = lpu_weighted l ranked; total_weight = lpu_total ws
             in if total_weight = 0 then (fst (hd ranked), l)
                else
                  let (r, l) = Lpu_next_decode_random l; ticket = ucast r mod total_weight
                  in (case lpu_draw ticket 0 ws of Some token_id \<Rightarrow> (token_id, l) | None \<Rightarrow> (fst (hd ranked), l)))"

definition Lpu_sample_decode_binary :: "lpu \<Rightarrow> u32 \<Rightarrow> u32 \<Rightarrow> u32 \<times> lpu" where
  "Lpu_sample_decode_binary l score0 score1 = Lpu_sample_from_candidates l [(0, score0), (1, score1)]"

text \<open>The loop that collects the nucleus, with its weight.\<close>

fun lpu_nucleus :: "u64 \<Rightarrow> u64 \<Rightarrow> (u32 \<times> u64) list \<Rightarrow> (u32 \<times> u64) list \<times> u64" where
  "lpu_nucleus threshold w [] = ([], w)"
| "lpu_nucleus threshold w ((token_id, weight) # ws) =
     (let w = sat_add64 w weight in
      if w \<ge> threshold then ([(token_id, weight)], w)
      else let (nucleus, w') = lpu_nucleus threshold w ws in ((token_id, weight) # nucleus, w'))"

definition Lpu_sample_from_nucleus_candidates :: "lpu \<Rightarrow> (u32 \<times> u32) list \<Rightarrow> u32 \<times> lpu" where
  "Lpu_sample_from_nucleus_candidates l candidates =
     (if candidates = [] then (0, l)
      else
        let ranked = lpu_ranked candidates
        in if length ranked = 1 \<or> lp_decode_temperature_milli l \<le> 1 then (fst (hd ranked), l)
           else
             let ws = lpu_weighted l ranked; total_weight = lpu_total ws
             in if total_weight = 0 then (fst (hd ranked), l)
                else
                  let top_p_milli = ucast (min (max (lp_decode_top_p_milli l) 1) 1000);
                      threshold_weight = sat_add64 (sat_mul64 total_weight top_p_milli) 999 div 1000;
                      (nucleus, nucleus_weight) = lpu_nucleus threshold_weight 0 ws
                  in if nucleus = [] then (fst (hd ranked), l)
                     else if length nucleus = 1 then (fst (hd nucleus), l)
                     else
                       let (r, l) = Lpu_next_decode_random l; ticket = ucast r mod nucleus_weight
                       in (case lpu_draw ticket 0 nucleus of Some token_id \<Rightarrow> (token_id, l)
                           | None \<Rightarrow> (fst (hd nucleus), l)))"

definition Lpu_sample_decode_binary_topp :: "lpu \<Rightarrow> u32 \<Rightarrow> u32 \<Rightarrow> u32 \<times> lpu" where
  "Lpu_sample_decode_binary_topp l score0 score1 = Lpu_sample_from_nucleus_candidates l [(0, score0), (1, score1)]"

subsection \<open>The immediate operation\<close>

text \<open>\<open>compute_result\<close>; the sampling operations advance the seed.\<close>

fun Lpu_compute_result :: "lpu \<Rightarrow> lpu_op \<Rightarrow> u32 \<times> lpu" where
  "Lpu_compute_result l ByteTokenize = (Lpu_classify_byte (ucast (lp_op_a l)), l)"
| "Lpu_compute_result l EmbeddingBag = (Lpu_lookup_embedding (lp_op_a l), l)"
| "Lpu_compute_result l GreedyDecode = (Lpu_greedy_decode_binary (lp_op_a l) (lp_op_b l), l)"
| "Lpu_compute_result l TopKSampleDecode = Lpu_sample_decode_binary l (lp_op_a l) (lp_op_b l)"
| "Lpu_compute_result l TopPSampleDecode = Lpu_sample_decode_binary_topp l (lp_op_a l) (lp_op_b l)"

definition lpu_signal_done :: "lpu \<Rightarrow> lpu" where
  "lpu_signal_done l =
     (let s = (lp_status l AND NOT LPU_BUSY) OR LPU_DONE
      in l\<lparr>lp_status := if lp_control l AND LPU_IRQ_EN \<noteq> 0 then s OR LPU_IRQ_PENDING else s\<rparr>)"

fun lpu_count_op :: "lpu_op \<Rightarrow> lpu \<Rightarrow> lpu" where
  "lpu_count_op ByteTokenize l =
     l\<lparr>lp_bytes_processed := lp_bytes_processed l + 1, lp_tokens_generated := lp_tokens_generated l + 1\<rparr>"
| "lpu_count_op EmbeddingBag l =
     l\<lparr>lp_embedding_lookups := lp_embedding_lookups l + 1, lp_embedding_bags := lp_embedding_bags l + 1\<rparr>"
| "lpu_count_op GreedyDecode l =
     l\<lparr>lp_decode_candidates_evaluated := lp_decode_candidates_evaluated l + 2, lp_decoded_tokens := lp_decoded_tokens l + 1\<rparr>"
| "lpu_count_op TopKSampleDecode l =
     l\<lparr>lp_decode_candidates_evaluated := lp_decode_candidates_evaluated l + 2, lp_decoded_tokens := lp_decoded_tokens l + 1,
       lp_sampled_decodes := lp_sampled_decodes l + 1\<rparr>"
| "lpu_count_op TopPSampleDecode l =
     l\<lparr>lp_decode_candidates_evaluated := lp_decode_candidates_evaluated l + 2, lp_decoded_tokens := lp_decoded_tokens l + 1,
       lp_sampled_decodes := lp_sampled_decodes l + 1, lp_nucleus_decodes := lp_nucleus_decodes l + 1\<rparr>"

definition Lpu_execute_once :: "lpu \<Rightarrow> lpu" where
  "Lpu_execute_once l =
     (let l = l\<lparr>lp_status := (lp_status l OR LPU_BUSY) AND NOT LPU_DONE\<rparr> in
      case LpuOp_from_u32 (lp_opcode l) of
        None \<Rightarrow> lpu_signal_done (l\<lparr>lp_result := 0, lp_tasks_error := lp_tasks_error l + 1, lp_cycles := lp_cycles l + 1\<rparr>)
      | Some op \<Rightarrow>
          let (r, l) = Lpu_compute_result l op; l = lpu_count_op op (l\<lparr>lp_result := r\<rparr>)
          in lpu_signal_done (l\<lparr>lp_cycles := lp_cycles l + 1\<rparr>))"

subsection \<open>MMIO\<close>

definition Lpu_read_reg :: "lpu \<Rightarrow> u32 \<Rightarrow> u32" where
  "Lpu_read_reg l reg =
     (if reg = LREG_CONTROL then lp_control l
      else if reg = LREG_STATUS then lp_status l
      else if reg = LREG_OP_A then lp_op_a l
      else if reg = LREG_OP_B then lp_op_b l
      else if reg = LREG_RESULT then lp_result l
      else if reg = LREG_OPCODE then lp_opcode l
      else if reg = LREG_CYCLES then lp_cycles l
      else if reg = LREG_DESC_ADDR_LOW then ucast (lp_desc_addr l)
      else if reg = LREG_DESC_ADDR_HIGH then ucast (drop_bit 32 (lp_desc_addr l))
      else if reg = LREG_DESC_LEN then lp_desc_len l
      else if reg = LREG_TASKS_DONE then lp_tasks_done l
      else if reg = LREG_TASKS_ERROR then lp_tasks_error l
      else if reg = LREG_DESC_NOTIFY_COUNT then ucast (lp_desc_notify_count l)
      else if reg = LREG_DECODE_TOP_K then lp_decode_top_k l
      else if reg = LREG_DECODE_TEMPERATURE then lp_decode_temperature_milli l
      else if reg = LREG_DECODE_SEED then lp_decode_seed l
      else if reg = LREG_SAMPLED_DECODES then ucast (lp_sampled_decodes l)
      else if reg = LREG_DECODE_TOP_P then lp_decode_top_p_milli l
      else if reg = LREG_NUCLEUS_DECODES then ucast (lp_nucleus_decodes l)
      else 0)"

definition Lpu_write_reg :: "lpu \<Rightarrow> u32 \<Rightarrow> u32 \<Rightarrow> lpu" where
  "Lpu_write_reg l reg value =
     (if reg = LREG_CONTROL then
        (let l = l\<lparr>lp_control := value\<rparr>
         in if lp_control l AND LPU_START \<noteq> 0
            then (let l = Lpu_execute_once l in l\<lparr>lp_control := lp_control l AND NOT LPU_START\<rparr>)
            else l)
      else if reg = LREG_STATUS then
        (let l = (if value AND LPU_DONE \<noteq> 0 then l\<lparr>lp_status := lp_status l AND NOT LPU_DONE\<rparr> else l)
         in if value AND LPU_IRQ_PENDING \<noteq> 0 then l\<lparr>lp_status := lp_status l AND NOT LPU_IRQ_PENDING\<rparr> else l)
      else if reg = LREG_OP_A then l\<lparr>lp_op_a := value\<rparr>
      else if reg = LREG_OP_B then l\<lparr>lp_op_b := value\<rparr>
      else if reg = LREG_RESULT then l\<lparr>lp_result := value\<rparr>
      else if reg = LREG_OPCODE then l\<lparr>lp_opcode := value\<rparr>
      else if reg = LREG_CYCLES then l\<lparr>lp_cycles := value\<rparr>
      else if reg = LREG_DESC_ADDR_LOW then
        l\<lparr>lp_desc_addr := (lp_desc_addr l AND 0xFFFFFFFF00000000) OR ucast value\<rparr>
      else if reg = LREG_DESC_ADDR_HIGH then
        l\<lparr>lp_desc_addr := (lp_desc_addr l AND 0x00000000FFFFFFFF) OR push_bit 32 (ucast value)\<rparr>
      else if reg = LREG_DESC_LEN then l\<lparr>lp_desc_len := value\<rparr>
      else if reg = LREG_DESC_NOTIFY then
        (if value \<noteq> 0 then l\<lparr>lp_pending_desc_notify := True, lp_desc_notify_count := lp_desc_notify_count l + 1\<rparr> else l)
      else if reg = LREG_TASKS_DONE then l\<lparr>lp_tasks_done := value\<rparr>
      else if reg = LREG_TASKS_ERROR then l\<lparr>lp_tasks_error := value\<rparr>
      else if reg = LREG_DECODE_TOP_K then l\<lparr>lp_decode_top_k := max value 1\<rparr>
      else if reg = LREG_DECODE_TEMPERATURE then l\<lparr>lp_decode_temperature_milli := max value 1\<rparr>
      else if reg = LREG_DECODE_SEED then l\<lparr>lp_decode_seed := value\<rparr>
      else if reg = LREG_SAMPLED_DECODES then l\<lparr>lp_sampled_decodes := ucast value\<rparr>
      else if reg = LREG_DECODE_TOP_P then l\<lparr>lp_decode_top_p_milli := min (max value 1) 1000\<rparr>
      else if reg = LREG_NUCLEUS_DECODES then l\<lparr>lp_nucleus_decodes := ucast value\<rparr>
      else l)"

definition Lpu_read_u8 :: "lpu \<Rightarrow> u32 \<Rightarrow> u8" where
  "Lpu_read_u8 l offset =
     (let reg = offset AND NOT 0x3; shift = unat (offset AND 0x3) * 8
      in ucast (drop_bit shift (Lpu_read_reg l reg) AND 0xFF))"

definition Lpu_write_u8 :: "lpu \<Rightarrow> u32 \<Rightarrow> u8 \<Rightarrow> lpu" where
  "Lpu_write_u8 l offset value =
     (let reg = offset AND NOT 0x3; shift = unat (offset AND 0x3) * 8 in
      if reg = LREG_DESC_NOTIFY then (if shift = 0 then Lpu_write_reg l reg (ucast value) else l)
      else
        let current = (Lpu_read_reg l reg AND NOT (push_bit shift 0xFF)) OR push_bit shift (ucast value)
        in Lpu_write_reg l reg current)"

definition Lpu_read :: "lpu \<Rightarrow> addr \<Rightarrow> u8 result" where
  "Lpu_read l off = (if off \<ge> of_nat LPU_SIZE then Inl (InvalidAddress off) else Inr (Lpu_read_u8 l off))"

definition Lpu_write :: "lpu \<Rightarrow> addr \<Rightarrow> u8 \<Rightarrow> unit result \<times> lpu" where
  "Lpu_write l off value =
     (if off \<ge> of_nat LPU_SIZE then (Inl (InvalidAddress off), l) else (Inr (), Lpu_write_u8 l off value))"

definition Lpu_has_interrupt :: "lpu \<Rightarrow> bool" where
  "Lpu_has_interrupt l \<longleftrightarrow> lp_status l AND LPU_IRQ_PENDING \<noteq> 0"

definition Lpu_acknowledge_interrupt :: "lpu \<Rightarrow> lpu" where
  "Lpu_acknowledge_interrupt l = l\<lparr>lp_status := lp_status l AND NOT LPU_IRQ_PENDING\<rparr>"

subsection \<open>Descriptors\<close>

text \<open>The loops over memory; \<open>lpu_read_scores\<close> is the one the two sampling descriptors repeat.\<close>

fun lpu_tokenize_for :: "nat list \<Rightarrow> u64 \<Rightarrow> u64 \<Rightarrow> mem_regions \<Rightarrow> unit result \<times> mem_regions" where
  "lpu_tokenize_for [] src dst ms = (Inr (), ms)"
| "lpu_tokenize_for (i # is) src dst ms =
     bind_st (dma_read_u8 ms (src + of_nat i), ms) (\<lambda>byte ms.
     bind_st (dma_write_u32 ms (dst + of_nat i * 4) (Lpu_classify_byte byte)) (\<lambda>_ ms.
       lpu_tokenize_for is src dst ms))"

fun lpu_pool_for :: "nat list \<Rightarrow> u64 \<Rightarrow> mem_regions \<Rightarrow> u32 \<Rightarrow> u32 result" where
  "lpu_pool_for [] src ms pooled = Inr pooled"
| "lpu_pool_for (i # is) src ms pooled =
     bind_res (dma_read_u32 ms (src + of_nat i * 4)) (\<lambda>token_id.
       lpu_pool_for is src ms (pooled + Lpu_lookup_embedding token_id))"

fun lpu_greedy_for :: "nat list \<Rightarrow> u64 \<Rightarrow> mem_regions \<Rightarrow> u32 \<Rightarrow> u32 \<Rightarrow> u32 result" where
  "lpu_greedy_for [] src ms best_id best_score = Inr best_id"
| "lpu_greedy_for (i # is) src ms best_id best_score =
     bind_res (dma_read_u32 ms (src + of_nat i * 4)) (\<lambda>score.
       if i = 0 \<or> score > best_score then lpu_greedy_for is src ms (of_nat i) score
       else lpu_greedy_for is src ms best_id best_score)"

fun lpu_read_scores :: "nat list \<Rightarrow> u64 \<Rightarrow> mem_regions \<Rightarrow> (u32 \<times> u32) list result" where
  "lpu_read_scores [] src ms = Inr []"
| "lpu_read_scores (i # is) src ms =
     bind_res (dma_read_u32 ms (src + of_nat i * 4)) (\<lambda>score.
     bind_res (lpu_read_scores is src ms) (\<lambda>cs. Inr ((of_nat i, score) # cs)))"

definition Lpu_execute_descriptor_byte_tokenize ::
  "lpu \<Rightarrow> mem_regions \<Rightarrow> u64 \<Rightarrow> nat \<Rightarrow> u64 \<Rightarrow> unit result \<times> (lpu \<times> mem_regions)" where
  "Lpu_execute_descriptor_byte_tokenize l ms input_addr input_len output_addr =
     (case lpu_tokenize_for [0..<input_len] input_addr output_addr ms of
        (Inl e, ms) \<Rightarrow> (Inl e, (l, ms))
      | (Inr _, ms) \<Rightarrow>
          (Inr (), (l\<lparr>lp_result := of_nat input_len, lp_bytes_processed := lp_bytes_processed l + of_nat input_len,
                      lp_tokens_generated := lp_tokens_generated l + of_nat input_len\<rparr>, ms)))"

definition Lpu_execute_descriptor_embedding_bag ::
  "lpu \<Rightarrow> mem_regions \<Rightarrow> u64 \<Rightarrow> nat \<Rightarrow> u64 \<Rightarrow> unit result \<times> (lpu \<times> mem_regions)" where
  "Lpu_execute_descriptor_embedding_bag l ms input_addr bag_len output_addr =
     bind_st (lpu_pool_for [0..<bag_len] input_addr ms 0, (l, ms)) (\<lambda>pooled (l, ms).
     case dma_write_u32 ms output_addr pooled of
       (Inl e, ms) \<Rightarrow> (Inl e, (l, ms))
     | (Inr _, ms) \<Rightarrow>
         (Inr (), (l\<lparr>lp_result := pooled, lp_embedding_lookups := lp_embedding_lookups l + of_nat bag_len,
                     lp_embedding_bags := lp_embedding_bags l + 1\<rparr>, ms)))"

definition Lpu_execute_descriptor_greedy_decode ::
  "lpu \<Rightarrow> mem_regions \<Rightarrow> u64 \<Rightarrow> nat \<Rightarrow> u64 \<Rightarrow> unit result \<times> (lpu \<times> mem_regions)" where
  "Lpu_execute_descriptor_greedy_decode l ms input_addr vocab_size output_addr =
     bind_st (lpu_greedy_for [0..<vocab_size] input_addr ms 0 0, (l, ms)) (\<lambda>best_id (l, ms).
     case dma_write_u32 ms output_addr best_id of
       (Inl e, ms) \<Rightarrow> (Inl e, (l, ms))
     | (Inr _, ms) \<Rightarrow>
         (Inr (), (l\<lparr>lp_result := best_id,
                     lp_decode_candidates_evaluated := lp_decode_candidates_evaluated l + of_nat vocab_size,
                     lp_decoded_tokens := lp_decoded_tokens l + 1\<rparr>, ms)))"

definition Lpu_execute_descriptor_topk_sample_decode ::
  "lpu \<Rightarrow> mem_regions \<Rightarrow> u64 \<Rightarrow> nat \<Rightarrow> u64 \<Rightarrow> unit result \<times> (lpu \<times> mem_regions)" where
  "Lpu_execute_descriptor_topk_sample_decode l ms input_addr vocab_size output_addr =
     (if vocab_size = 0 then (Inl PeripheralErr, (l, ms))
      else
        bind_st (lpu_read_scores [0..<vocab_size] input_addr ms, (l, ms)) (\<lambda>candidates (l, ms).
        let (token_id, l) = Lpu_sample_from_candidates l candidates in
        case dma_write_u32 ms output_addr token_id of
          (Inl e, ms) \<Rightarrow> (Inl e, (l, ms))
        | (Inr _, ms) \<Rightarrow>
            (Inr (), (l\<lparr>lp_result := token_id,
                        lp_decode_candidates_evaluated := lp_decode_candidates_evaluated l + of_nat vocab_size,
                        lp_decoded_tokens := lp_decoded_tokens l + 1,
                        lp_sampled_decodes := lp_sampled_decodes l + 1\<rparr>, ms))))"

definition Lpu_execute_descriptor_topp_sample_decode ::
  "lpu \<Rightarrow> mem_regions \<Rightarrow> u64 \<Rightarrow> nat \<Rightarrow> u64 \<Rightarrow> unit result \<times> (lpu \<times> mem_regions)" where
  "Lpu_execute_descriptor_topp_sample_decode l ms input_addr vocab_size output_addr =
     (if vocab_size = 0 then (Inl PeripheralErr, (l, ms))
      else
        bind_st (lpu_read_scores [0..<vocab_size] input_addr ms, (l, ms)) (\<lambda>candidates (l, ms).
        let (token_id, l) = Lpu_sample_from_nucleus_candidates l candidates in
        case dma_write_u32 ms output_addr token_id of
          (Inl e, ms) \<Rightarrow> (Inl e, (l, ms))
        | (Inr _, ms) \<Rightarrow>
            (Inr (), (l\<lparr>lp_result := token_id,
                        lp_decode_candidates_evaluated := lp_decode_candidates_evaluated l + of_nat vocab_size,
                        lp_decoded_tokens := lp_decoded_tokens l + 1,
                        lp_sampled_decodes := lp_sampled_decodes l + 1,
                        lp_nucleus_decodes := lp_nucleus_decodes l + 1\<rparr>, ms))))"

text \<open>The body of the descriptor for an opcode, and what the five branches of \<open>execute_descriptor_entry\<close> do after it.\<close>

definition lpu_descriptor_body ::
  "u32 \<Rightarrow> (lpu \<Rightarrow> mem_regions \<Rightarrow> u64 \<Rightarrow> nat \<Rightarrow> u64 \<Rightarrow> unit result \<times> (lpu \<times> mem_regions)) option" where
  "lpu_descriptor_body opc =
     (if opc = LPU_OPCODE_BYTE_TOKENIZE then Some Lpu_execute_descriptor_byte_tokenize
      else if opc = LPU_OPCODE_EMBEDDING_BAG then Some Lpu_execute_descriptor_embedding_bag
      else if opc = LPU_OPCODE_GREEDY_DECODE then Some Lpu_execute_descriptor_greedy_decode
      else if opc = LPU_OPCODE_TOPK_SAMPLE_DECODE then Some Lpu_execute_descriptor_topk_sample_decode
      else if opc = LPU_OPCODE_TOPP_SAMPLE_DECODE then Some Lpu_execute_descriptor_topp_sample_decode
      else None)"

definition Lpu_execute_descriptor_entry :: "lpu \<Rightarrow> u32 \<Rightarrow> mem_regions \<Rightarrow> unit result \<times> (lpu \<times> mem_regions)" where
  "Lpu_execute_descriptor_entry l index ms =
     (let desc_base = lp_desc_addr l + ucast index * LPU_DESC_STRIDE in
      bind_st (dma_read_u32 ms desc_base, (l, ms)) (\<lambda>opc (l, ms).
      let l = l\<lparr>lp_opcode := opc\<rparr> in
      bind_st (dma_read_u32 ms (desc_base + 4), (l, ms)) (\<lambda>op_a_or_addr (l, ms).
      bind_st (dma_read_u32 ms (desc_base + 8), (l, ms)) (\<lambda>op_b_or_len (l, ms).
      bind_st (dma_read_u32 ms (desc_base + 12), (l, ms)) (\<lambda>result_addr (l, ms).
      case lpu_descriptor_body (lp_opcode l) of
        None \<Rightarrow> (Inl PeripheralErr, (l, ms))
      | Some body \<Rightarrow>
          bind_st (body l ms (ucast op_a_or_addr) (unat op_b_or_len) (ucast result_addr)) (\<lambda>_ (l, ms).
            (Inr (), (l\<lparr>lp_cycles := lp_cycles l + max op_b_or_len 1, lp_tasks_done := lp_tasks_done l + 1\<rparr>, ms))))))))"

fun lpu_descriptors_for :: "nat list \<Rightarrow> lpu \<times> mem_regions \<Rightarrow> lpu \<times> mem_regions" where
  "lpu_descriptors_for [] s = s"
| "lpu_descriptors_for (i # is) (l, ms) =
     (case Lpu_execute_descriptor_entry l (of_nat i) ms of
        (Inl _, (l, ms)) \<Rightarrow> lpu_descriptors_for is (l\<lparr>lp_tasks_error := lp_tasks_error l + 1\<rparr>, ms)
      | (Inr _, (l, ms)) \<Rightarrow> lpu_descriptors_for is (l, ms))"

definition Lpu_process_pending_descriptor_notify :: "lpu \<Rightarrow> mem_regions \<Rightarrow> unit result \<times> (lpu \<times> mem_regions)" where
  "Lpu_process_pending_descriptor_notify l ms =
     (if \<not> lp_pending_desc_notify l then (Inr (), (l, ms))
      else
        let l = l\<lparr>lp_pending_desc_notify := False, lp_status := (lp_status l OR LPU_BUSY) AND NOT LPU_DONE\<rparr>;
            (l, ms) = lpu_descriptors_for [0..<unat (lp_desc_len l)] (l, ms)
        in (Inr (), (lpu_signal_done l, ms)))"

definition Lpu_has_pending_descriptor_notify :: "lpu \<Rightarrow> bool" where
  "Lpu_has_pending_descriptor_notify l = lp_pending_desc_notify l"

definition Lpu_try_execute_pending :: "lpu \<Rightarrow> mem_regions \<Rightarrow> bool result \<times> lpu \<times> mem_regions" where
  "Lpu_try_execute_pending l ms =
     (if \<not> lp_pending_desc_notify l then (Inr False, l, ms)
      else case Lpu_process_pending_descriptor_notify l ms of
             (Inl e, (l, ms)) \<Rightarrow> (Inl e, l, ms)
           | (Inr _, (l, ms)) \<Rightarrow> (Inr True, l, ms))"

text \<open>The device as the bus sees it.\<close>

definition lpu_device_ops :: "lpu other_ops" where
  "lpu_device_ops =
     \<lparr>oo_read = Lpu_read, oo_write = Lpu_write, oo_base_addr = lp_base, oo_size = (\<lambda>_. LPU_SIZE), oo_name = (\<lambda>_. ''LPU''),
      oo_has_interrupt = Lpu_has_interrupt, oo_acknowledge = Lpu_acknowledge_interrupt,
      oo_try_execute = Lpu_try_execute_pending\<rparr>"

end
