(* ===== verification/Lpu_Correct.thy ===== *)
theory Lpu_Correct
  imports Lpu_Model Dma_Memory
begin

text \<open>
  What the LPU computes: greedy decoding is the arg-max of the scores in memory, and the sampling decoders
  choose a token in proportion to its weight among the best ones; and where the draw falls short.
\<close>

subsection \<open>Saturating sums\<close>

definition weight_sum :: "(u32 \<times> u64) list \<Rightarrow> nat" where
  "weight_sum ws = (\<Sum>(_, w) \<leftarrow> ws. unat w)"

lemma weight_sum_simps [simp]:
  "weight_sum [] = 0" "weight_sum ((i, w) # ws) = unat w + weight_sum ws" "weight_sum (xs @ ys) = weight_sum xs + weight_sum ys"
  by (simp_all add: weight_sum_def)

lemma unat_lpu_total: "unat (lpu_total ws) = min (2 ^ 64 - 1) (weight_sum ws)"
proof -
  have "unat (foldl (\<lambda>acc (_, weight). sat_add64 acc weight) acc ws) = min (2 ^ 64 - 1) (unat acc + weight_sum ws)" for acc
  proof (induction ws arbitrary: acc)
    case Nil
    have "unat acc < 2 ^ 64" using unsigned_less [of acc] by simp
    then show ?case by simp
  next
    case (Cons x ws)
    then show ?case by (cases x) (simp add: unat_sat_add64 Cons.IH)
  qed
  from this [of 0] show ?thesis by (simp add: lpu_total_def)
qed

subsection \<open>Drawing\<close>

text \<open>A ticket in the interval of entry \<open>j\<close> of the running sums draws it.\<close>

lemma draw_at:
  assumes "unat acc = min (2 ^ 64 - 1) N" "unat ticket < 2 ^ 64 - 1" "j < length ws"
    and "N + weight_sum (take j ws) \<le> unat ticket" "unat ticket < N + weight_sum (take (Suc j) ws)"
  shows "lpu_draw ticket acc ws = Some (fst (ws ! j))"
  using assms
proof (induction ws arbitrary: acc N j)
  case (Cons x ws)
  obtain i w where x: "x = (i, w)" by (cases x)
  let ?acc = "sat_add64 acc w"
  have acc: "unat ?acc = min (2 ^ 64 - 1) (N + unat w)" using Cons.prems(1) by (simp add: unat_sat_add64)
  have lt: "ticket < ?acc \<longleftrightarrow> unat ticket < N + unat w" using Cons.prems(2) acc by (simp add: word_less_nat_alt)
  show ?case
  proof (cases j)
    case 0
    then show ?thesis using Cons.prems lt by (simp add: x)
  next
    case (Suc k)
    have "lpu_draw ticket ?acc ws = Some (fst (ws ! k))"
      by (rule Cons.IH [OF acc]) (use Cons.prems Suc x in auto)
    moreover have "\<not> ticket < ?acc" using Cons.prems Suc x lt by simp
    ultimately show ?thesis using Suc x by simp
  qed
qed simp

lemma interval_exists:
  assumes "N \<le> t" "t < N + weight_sum ws"
  shows "\<exists>j < length ws. N + weight_sum (take j ws) \<le> t \<and> t < N + weight_sum (take (Suc j) ws)"
  using assms
proof (induction ws arbitrary: N)
  case (Cons x ws)
  obtain i w where x: "x = (i, w)" by (cases x)
  show ?case
  proof (cases "t < N + unat w")
    case True
    then show ?thesis using Cons.prems by (intro exI [of _ 0]) (simp add: x)
  next
    case False
    obtain j where "j < length ws" "N + unat w + weight_sum (take j ws) \<le> t" "t < N + unat w + weight_sum (take (Suc j) ws)"
      using Cons.IH [of "N + unat w"] Cons.prems False by (auto simp: x add.assoc)
    then show ?thesis by (intro exI [of _ "Suc j"]) (simp add: x)
  qed
qed simp

lemma ucast_u32_u64: "unat (ucast (x :: u32) :: u64) = unat x" "unat (ucast (x :: u32) :: u64) < 2 ^ 32"
proof -
  have "unat x < 2 ^ 32" using unsigned_less [of x] by simp
  then show "unat (ucast x :: u64) = unat x" by (simp add: unsigned_ucast_eq take_bit_nat_eq_self)
  with \<open>unat x < 2 ^ 32\<close> show "unat (ucast x :: u64) < 2 ^ 32" by simp
qed

text \<open>The ticket of a draw: the next random number modulo the total, which saturates.\<close>

definition ticket_of :: "u32 \<Rightarrow> nat \<Rightarrow> nat" where
  "ticket_of r W = unat r mod min (2 ^ 64 - 1) W"

lemma ticket_bounds: "0 < W \<Longrightarrow> ticket_of r W < W" "ticket_of r W < 2 ^ 32"
proof -
  assume t: "0 < W"
  have "unat r mod min (2 ^ 64 - 1) W < min (2 ^ 64 - 1) W" using t by (intro mod_less_divisor) simp
  then show "ticket_of r W < W" unfolding ticket_of_def by linarith
next
  have "unat r < 2 ^ 32" using unsigned_less [of r] by simp
  then show "ticket_of r W < 2 ^ 32" unfolding ticket_of_def by (meson le_less_trans mod_less_eq_dividend)
qed

lemma draw_ticket:
  assumes "0 < weight_sum ws" "unat m = min (2 ^ 64 - 1) (weight_sum ws)"
  shows "\<exists>j < length ws. lpu_draw (ucast r mod m) 0 ws = Some (fst (ws ! j)) \<and>
    weight_sum (take j ws) \<le> ticket_of r (weight_sum ws) \<and> ticket_of r (weight_sum ws) < weight_sum (take (Suc j) ws)"
proof -
  let ?t = "ticket_of r (weight_sum ws)"
  have u: "unat (ucast r mod m) = ?t" using assms(2) by (simp add: ticket_of_def unat_mod ucast_u32_u64)
  obtain j where j: "j < length ws" "weight_sum (take j ws) \<le> ?t" "?t < weight_sum (take (Suc j) ws)"
    using interval_exists [of 0 ?t ws] ticket_bounds(1) [OF assms(1)] by auto
  have "lpu_draw (ucast r mod m) 0 ws = Some (fst (ws ! j))"
    by (rule draw_at [where N = 0]) (use j u ticket_bounds(2) [of r "weight_sum ws"] in simp_all)
  then show ?thesis using j by blast
qed

subsection \<open>Ranking\<close>

text \<open>Entry \<open>j\<close> of a list sorted by a key that tells its elements apart has exactly \<open>j\<close> elements before it.\<close>

lemma sorted_rank:
  fixes key :: "'a \<Rightarrow> 'b::linorder"
  assumes "distinct xs" "inj_on key (set xs)" "j < length xs" "ys = sort_key key xs"
  shows "{c \<in> set xs. key c < key (ys ! j)} = set (take j ys)" "card {c \<in> set xs. key c < key (ys ! j)} = j"
proof -
  have ys: "distinct ys" "set ys = set xs" "length ys = length xs" "sorted (map key ys)"
    using assms(1,4) by simp_all
  have m: "distinct (map key ys)" using ys assms(2) by (simp add: distinct_map)
  have lt: "key (ys ! i) < key (ys ! j) \<longleftrightarrow> i < j" if "i < length ys" for i
  proof -
    have j: "j < length ys" using assms(3) ys(3) by simp
    have "i < k \<Longrightarrow> k < length ys \<Longrightarrow> key (ys ! i) < key (ys ! k)" for i k
      using sorted_nth_mono [OF ys(4), of i k] nth_eq_iff_index_eq [OF m, of i k] by (simp add: less_le)
    from this [of i j] this [of j i] show ?thesis using that j by (metis less_asym' not_less_iff_gr_or_eq)
  qed
  show eq: "{c \<in> set xs. key c < key (ys ! j)} = set (take j ys)"
  proof (intro equalityI subsetI)
    fix c assume c: "c \<in> {c \<in> set xs. key c < key (ys ! j)}"
    then have "c \<in> set ys" using ys(2) by simp
    then obtain i where i: "i < length ys" "c = ys ! i" by (auto simp: in_set_conv_nth)
    then show "c \<in> set (take j ys)" using c lt [OF i(1)] by (auto simp: in_set_conv_nth)
  next
    fix c assume "c \<in> set (take j ys)"
    then obtain i where i: "i < j" "i < length ys" "c = ys ! i" by (auto simp: in_set_conv_nth)
    then show "c \<in> {c \<in> set xs. key c < key (ys ! j)}" using lt [OF i(2)] ys(2) nth_mem [OF i(2)] by simp
  qed
  show "card {c \<in> set xs. key c < key (ys ! j)} = j"
    unfolding eq using ys(1,3) assms(3) by (simp add: distinct_card)
qed

lemma rank_key_less:
  "rank_key (i, s) < rank_key (k, t) \<longleftrightarrow> t < s \<or> s = t \<and> i < k"
proof -
  have n: "unat (NOT x) = 2 ^ 32 - 1 - unat x" for x :: u32
  proof -
    have "NOT x = - 1 - x" by (simp add: not_eq_complement)
    moreover have "unat (- 1 - x) = unat (- 1 :: u32) - unat x" by (rule unat_sub) simp
    ultimately show ?thesis by (simp add: unsigned_minus_1_eq_mask mask_eq_exp_minus_1)
  qed
  have lt: "NOT s < NOT t \<longleftrightarrow> t < s" for s t :: u32
    using unsigned_less [where w = s and 'a = nat] unsigned_less [where w = t and 'a = nat] by (simp add: word_less_nat_alt n) linarith
  show ?thesis by (auto simp: rank_key_def less_prod_def' lt)
qed

subsection \<open>Scores in memory\<close>

definition scored :: "nat \<Rightarrow> (nat \<Rightarrow> u32) \<Rightarrow> (u32 \<times> u32) list" where
  "scored len S = map (\<lambda>i. (of_nat i, S i)) [0..<len]"

text \<open>Token \<open>i\<close> ranks before token \<open>t\<close>: a higher score, or the same score and a smaller index.\<close>

definition better :: "(nat \<Rightarrow> u32) \<Rightarrow> nat \<Rightarrow> nat \<Rightarrow> bool" where
  "better S i t \<longleftrightarrow> S t < S i \<or> S i = S t \<and> i < t"

lemma index_u32: "i < 2 ^ 32 \<Longrightarrow> unat (of_nat i :: u32) = i"
  by (simp add: unat_of_nat)

lemma index_u32_eq: "i < 2 ^ 32 \<Longrightarrow> k < 2 ^ 32 \<Longrightarrow> (of_nat i :: u32) = of_nat k \<longleftrightarrow> i = k"
  using index_u32 [of i] index_u32 [of k] by metis

lemma index_u32_less: "i < 2 ^ 32 \<Longrightarrow> k < 2 ^ 32 \<Longrightarrow> (of_nat i :: u32) < of_nat k \<longleftrightarrow> i < k"
  by (simp only: word_less_nat_alt index_u32)

lemma scored_distinct: "len \<le> 2 ^ 32 \<Longrightarrow> distinct (scored len S)"
  by (auto simp: scored_def distinct_map inj_on_def index_u32_eq)

lemma ranked_nth:
  assumes "len \<le> 2 ^ 32" "j < len"
  shows "\<exists>t < len. lpu_ranked (scored len S) ! j = (of_nat t, S t) \<and> card {i. i < len \<and> better S i t} = j \<and>
    set (take j (lpu_ranked (scored len S))) = (\<lambda>i. (of_nat i, S i)) ` {i. i < len \<and> better S i t}"
proof -
  let ?xs = "scored len S" and ?ys = "lpu_ranked (scored len S)"
  have inj: "inj_on rank_key (set ?xs)"
    by (auto simp: inj_on_def rank_key_def)
  have len: "length ?xs = len" by (simp add: scored_def)
  have jl: "j < length ?xs" using assms(2) len by simp
  have "?ys ! j \<in> set ?xs" using assms(2) nth_mem [of j ?ys] by (simp add: lpu_ranked_def len)
  then obtain t where t: "t < len" "?ys ! j = (of_nat t, S t)" by (auto simp: scored_def)
  note r = sorted_rank [OF scored_distinct [OF assms(1)] inj jl lpu_ranked_def]
  have e: "{c \<in> set ?xs. rank_key c < rank_key (?ys ! j)} = (\<lambda>i. (of_nat i, S i)) ` {i. i < len \<and> better S i t}"
    using t assms(1) by (auto simp: scored_def rank_key_less better_def index_u32_less)
  have "inj_on (\<lambda>i. (of_nat i :: u32, S i)) {i. i < len \<and> better S i t}"
    using assms(1) by (auto simp: inj_on_def index_u32_eq)
  then have "card {i. i < len \<and> better S i t} = j" using r(2) unfolding e by (simp add: card_image)
  then show ?thesis using t r(1) unfolding e by auto
qed

lemma array_score:
  assumes "ram_array ms a len S" "i < len"
  shows "dma_read_u32 ms (ucast a + of_nat i * 4) = Inr (S i)"
  using array_elem(1,3) [OF assms] elem_u64 [of a len i] assms by (simp only: dma_read_word ram_array_def)

lemma array_small: "ram_array ms a len S \<Longrightarrow> len \<le> 2 ^ 30"
  by (simp add: ram_array_def)

lemma read_scores:
  assumes "ram_array ms a len S"
  shows "lpu_read_scores [0..<len] (ucast a) ms = Inr (scored len S)"
proof -
  have "set is \<subseteq> {0..<len} \<Longrightarrow> lpu_read_scores is (ucast a) ms = Inr (map (\<lambda>i. (of_nat i, S i)) is)" for "is"
    by (induction "is") (auto simp: array_score [OF assms])
  then show ?thesis by (simp add: scored_def)
qed

text \<open>The greedy loop keeps the first of the best tokens it has seen.\<close>

lemma greedy_loop:
  assumes "ram_array ms a len S" "k \<le> len" "0 < k"
  shows "\<exists>t < k. (\<forall>i < k. \<not> better S i t) \<and>
    lpu_greedy_for [0..<len] (ucast a) ms 0 0 = lpu_greedy_for [k..<len] (ucast a) ms (of_nat t) (S t)"
  using assms(2,3)
proof (induction k)
  case (Suc k)
  have up: "[k..<len] = k # [Suc k..<len]" using Suc.prems(1) by (simp add: upt_conv_Cons)
  show ?case
  proof (cases "k = 0")
    case True
    then show ?thesis using up array_score [OF assms(1), of 0] Suc.prems
      by (intro exI [of _ 0]) (auto simp: better_def)
  next
    case False
    with Suc obtain t where t: "t < k" "\<forall>i < k. \<not> better S i t"
      "lpu_greedy_for [0..<len] (ucast a) ms 0 0 = lpu_greedy_for [k..<len] (ucast a) ms (of_nat t) (S t)" by auto
    have read: "dma_read_u32 ms (ucast a + of_nat k * 4) = Inr (S k)"
      using Suc.prems(1) by (intro array_score [OF assms(1)]) simp
    show ?thesis
    proof (cases "S t < S k")
      case True
      then show ?thesis using t up read False
        by (intro exI [of _ k]) (auto simp: better_def less_Suc_eq not_less)
    next
      case le: False
      then show ?thesis using t up read False
        by (intro exI [of _ t]) (auto simp: better_def less_Suc_eq)
    qed
  qed
qed simp

subsection \<open>Weights\<close>

lemma weight_positive: "0 < unat (lpu_weight m t s)"
proof -
  have "unat (ucast (sat_sub32 s m) * 1000 :: u64) < 2 ^ 42"
  proof -
    have "unat (ucast (sat_sub32 s m) :: u64) * 1000 < 2 ^ 42" using ucast_u32_u64(2) [of "sat_sub32 s m"] by simp
    then show ?thesis by (simp add: unat_word_ariths)
  qed
  then have "unat (ucast (sat_sub32 s m) * 1000 div ucast (max t 1) :: u64) < 2 ^ 42"
    unfolding unat_div by (rule le_less_trans [OF div_le_dividend])
  then have "unat (lpu_weight m t s) = 1 + unat (ucast (sat_sub32 s m) * 1000 div ucast (max t 1) :: u64)"
    unfolding lpu_weight_def by (subst unat_add_small) simp_all
  then show ?thesis by simp
qed

lemma weighted_nth:
  "length (lpu_weighted l ranked) = length ranked"
  "j < length ranked \<Longrightarrow> fst (lpu_weighted l ranked ! j) = fst (ranked ! j)"
  by (simp_all add: lpu_weighted_def split: prod.split)

lemma weighted_positive: "ranked \<noteq> [] \<Longrightarrow> 0 < weight_sum (lpu_weighted l ranked)"
proof -
  have "xs \<noteq> [] \<Longrightarrow> 0 < weight_sum (map (\<lambda>(token_id, score). (token_id, lpu_weight m t score)) xs)" for m t and xs :: "(u32 \<times> u32) list"
    by (cases xs) (auto simp: weight_positive split: prod.split)
  then show "ranked \<noteq> [] \<Longrightarrow> 0 < weight_sum (lpu_weighted l ranked)" by (simp add: lpu_weighted_def)
qed

definition next_random :: "lpu \<Rightarrow> u32" where
  "next_random l = lp_decode_seed l * 1664525 + 1013904223"

text \<open>The candidates the top-\<open>k\<close> decoder draws from.\<close>

definition top_k :: "lpu \<Rightarrow> (u32 \<times> u32) list \<Rightarrow> (u32 \<times> u32) list" where
  "top_k l cs = take (unat (max (lp_decode_top_k l) 1)) (lpu_ranked cs)"

lemma take_top_k:
  "take (min (unat (max (lp_decode_top_k l) 1)) (length (lpu_ranked cs))) (lpu_ranked cs) = top_k l cs"
  by (simp add: top_k_def min_def)

lemma top_k_ne: "cs \<noteq> [] \<Longrightarrow> top_k l cs \<noteq> []"
proof -
  have "0 < unat (max (lp_decode_top_k l) 1)" by (auto simp: unat_gt_0 max_def)
  then show "cs \<noteq> [] \<Longrightarrow> top_k l cs \<noteq> []" by (metis length_0_conv length_sort lpu_ranked_def neq0_conv take_eq_Nil top_k_def)
qed

lemma sample_unfold:
  assumes "cs \<noteq> []"
  shows "Lpu_sample_from_candidates l cs =
    (if length (top_k l cs) = 1 \<or> lp_decode_temperature_milli l \<le> 1 then (fst (hd (top_k l cs)), l)
     else if lpu_total (lpu_weighted l (top_k l cs)) = 0 then (fst (hd (top_k l cs)), l)
     else case lpu_draw (ucast (next_random l) mod lpu_total (lpu_weighted l (top_k l cs))) 0 (lpu_weighted l (top_k l cs)) of
            Some token_id \<Rightarrow> (token_id, l\<lparr>lp_decode_seed := next_random l\<rparr>)
          | None \<Rightarrow> (fst (hd (top_k l cs)), l\<lparr>lp_decode_seed := next_random l\<rparr>))"
  unfolding Lpu_sample_from_candidates_def Let_def take_top_k Lpu_next_decode_random_def next_random_def [symmetric]
  using assms by simp

lemma sample_drawn:
  assumes "1 < length (top_k l cs)" "1 < lp_decode_temperature_milli l"
  shows "\<exists>j < length (top_k l cs). Lpu_sample_from_candidates l cs = (fst (top_k l cs ! j), l\<lparr>lp_decode_seed := next_random l\<rparr>) \<and>
    weight_sum (take j (lpu_weighted l (top_k l cs))) \<le> ticket_of (next_random l) (weight_sum (lpu_weighted l (top_k l cs))) \<and>
    ticket_of (next_random l) (weight_sum (lpu_weighted l (top_k l cs))) < weight_sum (take (Suc j) (lpu_weighted l (top_k l cs)))"
proof -
  let ?r = "top_k l cs" and ?ws = "lpu_weighted l (top_k l cs)"
  have ne: "?r \<noteq> []" using assms(1) by (cases ?r) simp_all
  then have cs: "cs \<noteq> []" by (auto simp: top_k_def lpu_ranked_def)
  have pos: "0 < weight_sum ?ws" by (rule weighted_positive [OF ne])
  have tot: "lpu_total ?ws \<noteq> 0" using pos unat_lpu_total [of ?ws] by (auto simp: unat_eq_zero [symmetric])
  obtain j where j: "j < length ?ws" "lpu_draw (ucast (next_random l) mod lpu_total ?ws) 0 ?ws = Some (fst (?ws ! j))"
    "weight_sum (take j ?ws) \<le> ticket_of (next_random l) (weight_sum ?ws)"
    "ticket_of (next_random l) (weight_sum ?ws) < weight_sum (take (Suc j) ?ws)"
    using draw_ticket [OF pos unat_lpu_total, of "next_random l"] by blast
  have "Lpu_sample_from_candidates l cs = (fst (?ws ! j), l\<lparr>lp_decode_seed := next_random l\<rparr>)"
    unfolding sample_unfold [OF cs] using assms tot j(2) by (auto simp: not_le)
  then show ?thesis using j by (auto simp: weighted_nth)
qed

lemma sample_best:
  assumes "cs \<noteq> []" "length (top_k l cs) = 1 \<or> lp_decode_temperature_milli l \<le> 1"
  shows "Lpu_sample_from_candidates l cs = (fst (top_k l cs ! 0), l)"
  unfolding sample_unfold [OF assms(1)] using assms(2) top_k_ne [OF assms(1), of l] by (simp add: hd_conv_nth)

text \<open>Either way, the token is one of the best.\<close>

lemma sample_position:
  assumes "cs \<noteq> []"
  shows "\<exists>j < length (top_k l cs). \<exists>sd. Lpu_sample_from_candidates l cs = (fst (top_k l cs ! j), l\<lparr>lp_decode_seed := sd\<rparr>) \<and>
    (lp_decode_temperature_milli l \<le> 1 \<longrightarrow> j = 0)"
proof (cases "length (top_k l cs) = 1 \<or> lp_decode_temperature_milli l \<le> 1")
  case True
  have "l\<lparr>lp_decode_seed := lp_decode_seed l\<rparr> = l" by simp
  then show ?thesis using sample_best [OF assms True] top_k_ne [OF assms, of l]
    by (intro exI [of _ "0 :: nat"] conjI exI [of _ "lp_decode_seed l"]) simp_all
next
  case False
  then have "1 < length (top_k l cs)" using top_k_ne [OF assms, of l] by (cases "top_k l cs") auto
  moreover have t: "1 < lp_decode_temperature_milli l" using False by (simp add: not_le)
  ultimately obtain j where "j < length (top_k l cs)"
    "Lpu_sample_from_candidates l cs = (fst (top_k l cs ! j), l\<lparr>lp_decode_seed := next_random l\<rparr>)"
    using sample_drawn by metis
  then show ?thesis using t by (intro exI [of _ j] conjI exI [of _ "next_random l"]) (auto simp: not_le)
qed

subsection \<open>The nucleus\<close>

text \<open>The nucleus is the shortest nonempty prefix that reaches the threshold.\<close>

lemma nucleus_prefix:
  assumes "unat w + weight_sum ws < 2 ^ 64 - 1" "ws \<noteq> []"
  shows "\<exists>n. 0 < n \<and> n \<le> length ws \<and> fst (lpu_nucleus th w ws) = take n ws \<and>
    unat (snd (lpu_nucleus th w ws)) = unat w + weight_sum (take n ws) \<and>
    (\<forall>j < n. 0 < j \<longrightarrow> unat w + weight_sum (take j ws) < unat th)"
  using assms
proof (induction ws arbitrary: w)
  case (Cons x ws)
  obtain i v where x: "x = (i, v)" by (cases x)
  let ?w = "sat_add64 w v"
  have w: "unat ?w = unat w + unat v" using Cons.prems(1) by (simp add: unat_sat_add64 x)
  show ?case
  proof (cases "th \<le> ?w \<or> ws = []")
    case True
    then have "lpu_nucleus th w (x # ws) = ([x], ?w)" by (auto simp: x Let_def)
    then show ?thesis using w by (intro exI [of _ 1]) (simp add: x)
  next
    case False
    obtain n where n: "0 < n" "n \<le> length ws" "fst (lpu_nucleus th ?w ws) = take n ws"
      "unat (snd (lpu_nucleus th ?w ws)) = unat ?w + weight_sum (take n ws)"
      "\<forall>j < n. 0 < j \<longrightarrow> unat ?w + weight_sum (take j ws) < unat th"
      using Cons.IH [of ?w] Cons.prems(1) False by (auto simp: w x)
    have e: "lpu_nucleus th w (x # ws) = (x # fst (lpu_nucleus th ?w ws), snd (lpu_nucleus th ?w ws))"
      using False by (simp add: x Let_def split: prod.split)
    have "unat w + weight_sum (take j (x # ws)) < unat th" if "j < Suc n" "0 < j" for j
    proof (cases j)
      case (Suc k)
      show ?thesis
      proof (cases "k = 0")
        case True
        then show ?thesis using False w Suc by (simp add: x word_le_nat_alt)
      next
        case False
        then show ?thesis using n(5) that Suc w by (simp add: x add.assoc)
      qed
    qed (use that in simp)
    then show ?thesis using n w unfolding e by (intro exI [of _ "Suc n"]) (simp add: x)
  qed
qed simp

lemma sample_nucleus_drawn:
  assumes "1 < length (lpu_ranked cs)" "1 < lp_decode_temperature_milli l"
    and "ws = lpu_weighted l (lpu_ranked cs)" "weight_sum ws < 2 ^ 53"
    and "p = unat (min (max (lp_decode_top_p_milli l) 1) 1000)"
  shows "\<exists>j < length cs. \<exists>sd. Lpu_sample_from_nucleus_candidates l cs = (fst (lpu_ranked cs ! j), l\<lparr>lp_decode_seed := sd\<rparr>) \<and>
    1000 * weight_sum (take j ws) < weight_sum ws * p"
proof -
  let ?r = "lpu_ranked cs" and ?W = "lpu_total ws"
  define th where "th = sat_add64 (sat_mul64 ?W (ucast (min (max (lp_decode_top_p_milli l) 1) 1000))) 999 div 1000"
  have lr: "length ?r = length cs" by (simp add: lpu_ranked_def)
  have cs: "cs \<noteq> []" "?r \<noteq> []" "length ?r = length cs" using assms(1) lr by fastforce+
  have ne: "ws \<noteq> []" using assms(3) cs by (auto simp: lpu_weighted_def)
  have pos: "0 < weight_sum ws" using weighted_positive [OF cs(2)] assms(3) by simp
  have W: "unat ?W = weight_sum ws" using assms(4) by (simp add: unat_lpu_total)
  have p: "1 \<le> p" "p \<le> 1000"
    using assms(5) by (auto simp: min_def max_def word_le_nat_alt unat_gt_0 not_le)
  have prod: "weight_sum ws * p < 2 ^ 53 * 1000 + 1" using assms(4) p mult_le_mono [of "weight_sum ws" "2 ^ 53" p 1000] by simp
  have th: "unat th = (weight_sum ws * p + 999) div 1000"
  proof -
    have "unat (sat_mul64 ?W (ucast (min (max (lp_decode_top_p_milli l) 1) 1000))) = weight_sum ws * p"
      using prod W assms(5) by (simp add: sat_mul64_def ucast_u32_u64 unat_word_ariths)
    then show ?thesis using prod by (simp add: th_def unat_div unat_sat_add64)
  qed
  obtain n where n: "0 < n" "n \<le> length ws" "fst (lpu_nucleus th 0 ws) = take n ws"
    "unat (snd (lpu_nucleus th 0 ws)) = weight_sum (take n ws)" "\<forall>j < n. 0 < j \<longrightarrow> weight_sum (take j ws) < unat th"
    using nucleus_prefix [of 0 ws th] assms(4) ne by auto
  have before: "1000 * weight_sum (take j ws) < weight_sum ws * p" if "j < n" for j
  proof (cases "j = 0")
    case True
    then show ?thesis using pos p by simp
  next
    case False
    then have "weight_sum (take j ws) < (weight_sum ws * p + 999) div 1000" using n(5) that th by simp
    then show ?thesis by linarith
  qed
  have len: "length ws = length cs" using assms(3) cs(3) by (simp add: weighted_nth)
  have tot: "?W \<noteq> 0" using pos W by (auto simp: unat_eq_zero [symmetric])
  obtain nu w where nu: "lpu_nucleus th 0 ws = (nu, w)" by fastforce
  have unfold: "Lpu_sample_from_nucleus_candidates l cs =
    (if length nu = 1 then (fst (hd nu), l)
     else case lpu_draw (ucast (next_random l) mod w) 0 nu of
            Some token_id \<Rightarrow> (token_id, l\<lparr>lp_decode_seed := next_random l\<rparr>)
          | None \<Rightarrow> (fst (hd nu), l\<lparr>lp_decode_seed := next_random l\<rparr>))"
    using cs assms(1,2) tot n(1,2,3) ne nu unfolding Lpu_sample_from_nucleus_candidates_def Let_def assms(3) [symmetric] th_def [symmetric]
      Lpu_next_decode_random_def next_random_def [symmetric]
    by (auto simp: not_le)
  have nth: "fst (nu ! j) = fst (?r ! j)" if "j < n" for j
    using that n nu cs(3) len assms(3) by (simp add: weighted_nth)
  show ?thesis
  proof (cases "length nu = 1")
    case True
    have "l\<lparr>lp_decode_seed := lp_decode_seed l\<rparr> = l" by simp
    moreover have "nu \<noteq> []" using True by auto
    ultimately have "Lpu_sample_from_nucleus_candidates l cs = (fst (?r ! 0), l\<lparr>lp_decode_seed := lp_decode_seed l\<rparr>)"
      unfolding unfold using True nth [OF n(1)] by (simp add: hd_conv_nth)
    then show ?thesis using before [OF n(1)] len ne cs(1)
      by (intro exI [of _ "0 :: nat"] conjI exI [of _ "lp_decode_seed l"]) simp_all
  next
    case False
    have "0 < weight_sum nu" using before [OF n(1)] n nu ne assms(3) weight_positive
      by (cases ws; cases n) (auto simp: lpu_weighted_def split: prod.splits)
    moreover have "unat w = min (2 ^ 64 - 1) (weight_sum nu)"
    proof -
      have "weight_sum (take n ws) \<le> weight_sum ws" using weight_sum_simps(3) [of "take n ws" "drop n ws"] by simp
      then show ?thesis using n(3,4) nu assms(4) by simp
    qed
    ultimately obtain j where j: "j < length nu" "lpu_draw (ucast (next_random l) mod w) 0 nu = Some (fst (nu ! j))"
      using draw_ticket [of nu w "next_random l"] by blast
    then have jn: "j < n" using n(2,3) nu by simp
    have "Lpu_sample_from_nucleus_candidates l cs = (fst (?r ! j), l\<lparr>lp_decode_seed := next_random l\<rparr>)"
      unfolding unfold using False j nth [OF jn] by simp
    then show ?thesis using before [OF jn] jn n(2) len
      by (intro exI [of _ j] conjI exI [of _ "next_random l"]) simp_all
  qed
qed

text \<open>The least score is the score of the last candidate, and sums over a prefix of the ranking are sums over tokens.\<close>

lemma ranked_last:
  assumes "0 < len" "len \<le> 2 ^ 32"
  shows "snd (last (lpu_ranked (scored len S))) = Min (S ` {..<len})"
proof -
  let ?ys = "lpu_ranked (scored len S)"
  have ys: "length ?ys = len" "set ?ys = set (scored len S)" "sorted (map rank_key ?ys)"
    by (simp_all add: lpu_ranked_def scored_def)
  then have ne: "?ys \<noteq> []" using assms(1) by auto
  have in_ys: "last ?ys \<in> set (scored len S)" using last_in_set [OF ne] ys(2) by simp
  have "snd (last ?ys) \<le> S i" if "i < len" for i
  proof -
    have "(of_nat i, S i) \<in> set ?ys" using that ys(2) by (auto simp: scored_def)
    then obtain k where k: "k < length ?ys" "?ys ! k = (of_nat i, S i)" by (auto simp: in_set_conv_nth)
    have "rank_key (?ys ! k) \<le> rank_key (last ?ys)"
      using sorted_nth_mono [OF ys(3), of k "length ?ys - 1"] k(1) ne by (simp add: last_conv_nth)
    then have "\<not> rank_key (last ?ys) < rank_key (of_nat i, S i)" using k(2) by (simp add: not_less)
    then show ?thesis by (cases "last ?ys") (auto simp: rank_key_less not_less)
  qed
  moreover have "snd (last ?ys) \<in> S ` {..<len}" using in_ys by (auto simp: scored_def)
  ultimately show ?thesis by (intro Min_eqI [symmetric]) auto
qed

lemma weight_sum_tokens:
  assumes "distinct ys" "finite T" "set ys = (\<lambda>i. (of_nat i, S i)) ` T" "\<forall>i \<in> T. i < 2 ^ 32"
  shows "weight_sum (map (\<lambda>(token_id, score). (token_id, lpu_weight m t score)) ys) = (\<Sum>i \<in> T. unat (lpu_weight m t (S i)))"
proof -
  have "weight_sum (map (\<lambda>(token_id, score). (token_id, lpu_weight m t score)) ys) = (\<Sum>c \<leftarrow> ys. unat (lpu_weight m t (snd c)))"
    unfolding weight_sum_def by (simp add: comp_def case_prod_beta)
  also have "\<dots> = (\<Sum>c \<in> set ys. unat (lpu_weight m t (snd c)))" using assms(1) by (rule sum_list_distinct_conv_sum_set)
  also have "\<dots> = (\<Sum>i \<in> T. unat (lpu_weight m t (S i)))"
    unfolding assms(3) using assms(4) by (subst sum.reindex) (auto simp: inj_on_def index_u32_eq)
  finally show ?thesis .
qed

subsection \<open>Properties\<close>

text \<open>A store of a word in RAM, as the descriptors end.\<close>

lemma store_result:
  assumes "ram_word ms r \<noteq> None" "unat r mod 4 = 0"
  shows "\<exists>ms'. dma_write_u32 ms (ucast r) v = (Inr (), ms') \<and> ram_word ms' r = Some v \<and>
    (\<forall>c. c \<notin> {r, r + 1, r + 2, r + 3} \<longrightarrow> ram_at c ms' = ram_at c ms)"
  using dma_write_word [OF assms, of v] ram_word_written by fastforce

text \<open>C19: Greedy decoding is the arg-max.  For scores that lie in RAM, the descriptor stores the index of the best
  score, the first one if several are best, into the result word and register, counts the candidates and the
  decoded token, and changes no other byte of memory.\<close>

theorem lpu_greedy_argmax:
  assumes "ram_array ms a len S" "0 < len" "ram_word ms r \<noteq> None" "unat r mod 4 = 0"
  shows "\<exists>t < len. \<exists>ms'. (\<forall>i < len. \<not> better S i t) \<and>
    Lpu_execute_descriptor_greedy_decode l ms (ucast a) len (ucast r) =
      (Inr (), (l\<lparr>lp_result := of_nat t, lp_decode_candidates_evaluated := lp_decode_candidates_evaluated l + of_nat len,
         lp_decoded_tokens := lp_decoded_tokens l + 1\<rparr>, ms')) \<and>
    ram_word ms' r = Some (of_nat t) \<and> (\<forall>c. c \<notin> {r, r + 1, r + 2, r + 3} \<longrightarrow> ram_at c ms' = ram_at c ms)"
proof -
  obtain t where t: "t < len" "\<forall>i < len. \<not> better S i t" "lpu_greedy_for [0..<len] (ucast a) ms 0 0 = Inr (of_nat t)"
    using greedy_loop [OF assms(1) order_refl assms(2)] by auto
  obtain ms' where "dma_write_u32 ms (ucast r) (of_nat t) = (Inr (), ms')" "ram_word ms' r = Some (of_nat t)"
    "\<forall>c. c \<notin> {r, r + 1, r + 2, r + 3} \<longrightarrow> ram_at c ms' = ram_at c ms"
    using store_result [OF assms(3,4), of "of_nat t"] by blast
  then show ?thesis using t
    by (intro exI [of _ t] conjI exI [of _ ms']) (simp_all add: Lpu_execute_descriptor_greedy_decode_def)
qed

text \<open>C20: Top-\<open>k\<close> decoding chooses among the best.  For scores that lie in RAM, the descriptor succeeds and stores a token
  that fewer than \<open>k\<close> tokens rank before, by score and then by index, where \<open>k\<close> is the top-\<open>k\<close> register or
  one if that is zero; at a temperature of one thousandth or less, and for \<open>k = 1\<close>, it is the greedy token.\<close>

theorem lpu_topk_sampling:
  assumes "ram_array ms a len S" "0 < len" "ram_word ms r \<noteq> None" "unat r mod 4 = 0" "k = max 1 (unat (lp_decode_top_k l))"
  shows "\<exists>t < len. \<exists>sd ms'. card {i. i < len \<and> better S i t} < k \<and>
    (lp_decode_temperature_milli l \<le> 1 \<longrightarrow> (\<forall>i < len. \<not> better S i t)) \<and>
    Lpu_execute_descriptor_topk_sample_decode l ms (ucast a) len (ucast r) =
      (Inr (), (l\<lparr>lp_decode_seed := sd, lp_result := of_nat t,
         lp_decode_candidates_evaluated := lp_decode_candidates_evaluated l + of_nat len,
         lp_decoded_tokens := lp_decoded_tokens l + 1, lp_sampled_decodes := lp_sampled_decodes l + 1\<rparr>, ms')) \<and>
    ram_word ms' r = Some (of_nat t)"
proof -
  let ?cs = "scored len S"
  have len: "len \<le> 2 ^ 32" using array_small [OF assms(1)] by simp
  have ne: "?cs \<noteq> []" using assms(2) by (simp add: scored_def)
  have lr: "length (lpu_ranked ?cs) = len" by (simp add: lpu_ranked_def scored_def)
  obtain j sd where j: "j < length (top_k l ?cs)"
    "Lpu_sample_from_candidates l ?cs = (fst (top_k l ?cs ! j), l\<lparr>lp_decode_seed := sd\<rparr>)"
    "lp_decode_temperature_milli l \<le> 1 \<longrightarrow> j = 0" using sample_position [OF ne, of l] by blast
  have jk: "j < k" "j < len" using j(1) lr assms(5) by (auto simp: top_k_def max_def word_le_nat_alt split: if_splits)
  obtain t where t: "t < len" "lpu_ranked ?cs ! j = (of_nat t, S t)" "card {i. i < len \<and> better S i t} = j"
    using ranked_nth [OF len jk(2), of S] by blast
  have tok: "fst (top_k l ?cs ! j) = of_nat t" using j(1) t(2) by (simp add: top_k_def)
  have best: "\<forall>i < len. \<not> better S i t" if "lp_decode_temperature_milli l \<le> 1"
    using j(3) that t(3) by (auto simp: card_eq_0_iff)
  obtain ms' where "dma_write_u32 ms (ucast r) (of_nat t) = (Inr (), ms')" "ram_word ms' r = Some (of_nat t)"
    using store_result [OF assms(3,4), of "of_nat t"] by blast
  then have "Lpu_execute_descriptor_topk_sample_decode l ms (ucast a) len (ucast r) =
      (Inr (), (l\<lparr>lp_decode_seed := sd, lp_result := of_nat t,
         lp_decode_candidates_evaluated := lp_decode_candidates_evaluated l + of_nat len,
         lp_decoded_tokens := lp_decoded_tokens l + 1, lp_sampled_decodes := lp_sampled_decodes l + 1\<rparr>, ms')) \<and>
    ram_word ms' r = Some (of_nat t)"
    using assms(2) by (simp add: Lpu_execute_descriptor_topk_sample_decode_def read_scores [OF assms(1)] j(2) tok)
  then show ?thesis using t jk(1) best by blast
qed

text \<open>C21: Nucleus decoding keeps to the nucleus.  For two or more scores in RAM whose weights add up to less than \<open>2 ^ 53\<close>, at a
  temperature above one thousandth, the descriptor succeeds and stores a token such that the tokens ranking before it carry less
  than \<open>p\<close> thousandths of the weight, \<open>p\<close> being the top-\<open>p\<close> register clamped to 1 to 1000; the weight of a token
  is the one the temperature gives to the distance of its score from the least.\<close>

theorem lpu_topp_sampling:
  assumes "ram_array ms a len S" "1 < len" "ram_word ms r \<noteq> None" "unat r mod 4 = 0" "1 < lp_decode_temperature_milli l"
    and "W = (\<lambda>i. unat (lpu_weight (Min (S ` {..<len})) (lp_decode_temperature_milli l) (S i)))" "(\<Sum>i < len. W i) < 2 ^ 53"
    and "p = unat (min (max (lp_decode_top_p_milli l) 1) 1000)"
  shows "\<exists>t < len. \<exists>sd ms'. 1000 * (\<Sum>i | i < len \<and> better S i t. W i) < p * (\<Sum>i < len. W i) \<and>
    Lpu_execute_descriptor_topp_sample_decode l ms (ucast a) len (ucast r) =
      (Inr (), (l\<lparr>lp_decode_seed := sd, lp_result := of_nat t,
         lp_decode_candidates_evaluated := lp_decode_candidates_evaluated l + of_nat len,
         lp_decoded_tokens := lp_decoded_tokens l + 1, lp_sampled_decodes := lp_sampled_decodes l + 1,
         lp_nucleus_decodes := lp_nucleus_decodes l + 1\<rparr>, ms')) \<and>
    ram_word ms' r = Some (of_nat t)"
proof -
  let ?cs = "scored len S" and ?ys = "lpu_ranked (scored len S)"
  let ?f = "\<lambda>(token_id, score). (token_id, lpu_weight (Min (S ` {..<len})) (lp_decode_temperature_milli l) score)"
  have len: "len \<le> 2 ^ 32" using array_small [OF assms(1)] by simp
  have lr: "length ?ys = len" "length ?cs = len" by (simp_all add: lpu_ranked_def scored_def)
  have dist: "distinct ?ys" using scored_distinct [OF len] by (simp add: lpu_ranked_def)
  have ws: "lpu_weighted l ?ys = map ?f ?ys" using ranked_last [OF _ len, of S] assms(2) by (simp add: lpu_weighted_def)
  have "weight_sum (map ?f ?ys) = (\<Sum>i \<in> {..<len}. W i)"
    unfolding assms(6) by (rule weight_sum_tokens [OF dist]) (use len in \<open>auto simp: lpu_ranked_def scored_def\<close>)
  then have sum: "weight_sum (lpu_weighted l ?ys) = (\<Sum>i < len. W i)" by (simp add: ws)
  have bnd: "weight_sum (lpu_weighted l ?ys) < 2 ^ 53" using assms(7) sum by simp
  have gt: "1 < length ?ys" using assms(2) lr by simp
  obtain j sd where j: "j < len" "Lpu_sample_from_nucleus_candidates l ?cs = (fst (?ys ! j), l\<lparr>lp_decode_seed := sd\<rparr>)"
    "1000 * weight_sum (take j (lpu_weighted l ?ys)) < weight_sum (lpu_weighted l ?ys) * p"
    using sample_nucleus_drawn [OF gt assms(5) refl bnd assms(8)] lr by auto
  obtain t where t: "t < len" "?ys ! j = (of_nat t, S t)"
    "set (take j ?ys) = (\<lambda>i. (of_nat i, S i)) ` {i. i < len \<and> better S i t}"
    using ranked_nth [OF len j(1), of S] by blast
  have "weight_sum (map ?f (take j ?ys)) = (\<Sum>i | i < len \<and> better S i t. W i)"
    unfolding assms(6) by (rule weight_sum_tokens [OF distinct_take [OF dist] _ t(3)]) (use len in auto)
  then have before: "1000 * (\<Sum>i | i < len \<and> better S i t. W i) < p * (\<Sum>i < len. W i)"
    using j(3) sum by (simp add: ws take_map mult.commute)
  obtain ms' where "dma_write_u32 ms (ucast r) (of_nat t) = (Inr (), ms')" "ram_word ms' r = Some (of_nat t)"
    using store_result [OF assms(3,4), of "of_nat t"] by blast
  then have "Lpu_execute_descriptor_topp_sample_decode l ms (ucast a) len (ucast r) =
      (Inr (), (l\<lparr>lp_decode_seed := sd, lp_result := of_nat t,
         lp_decode_candidates_evaluated := lp_decode_candidates_evaluated l + of_nat len,
         lp_decoded_tokens := lp_decoded_tokens l + 1, lp_sampled_decodes := lp_sampled_decodes l + 1,
         lp_nucleus_decodes := lp_nucleus_decodes l + 1\<rparr>, ms')) \<and>
    ram_word ms' r = Some (of_nat t)"
    using assms(2) t(2) by (simp add: Lpu_execute_descriptor_topp_sample_decode_def read_scores [OF assms(1)] j(2))
  then show ?thesis using t(1) before by blast
qed

text \<open>Top-\<open>k\<close> decoding draws in proportion to the weights.  Among the \<open>k\<close> best candidates, of which there are two or more, at a
  temperature above one thousandth, the candidate drawn is the one whose interval in the running sums of the
  weights contains the ticket, the next number of the generator modulo the total weight; so of the tickets below
  the total each candidate has as many as its weight.\<close>

theorem lpu_sampling_proportional:
  assumes "1 < length (top_k l cs)" "1 < lp_decode_temperature_milli l" "ws = lpu_weighted l (top_k l cs)"
    and "ticket = ticket_of (next_random l) (weight_sum ws)"
  shows "\<exists>j < length (top_k l cs). Lpu_sample_from_candidates l cs = (fst (top_k l cs ! j), l\<lparr>lp_decode_seed := next_random l\<rparr>) \<and>
    weight_sum (take j ws) \<le> ticket \<and> ticket < weight_sum (take j ws) + unat (snd (ws ! j))"
proof -
  have "weight_sum (take (Suc j) ws) = weight_sum (take j ws) + unat (snd (ws ! j))" if "j < length ws" for j
    using that by (cases "ws ! j") (simp add: take_Suc_conv_app_nth)
  then show ?thesis using sample_drawn [OF assms(1,2)] assms(3,4) by (auto simp: weighted_nth)
qed

text \<open>The draw cannot reach past \<open>2\<^sup>3\<^sup>2\<close>.  The ticket comes from a 32-bit number, so when the weight of the best
  candidate alone is \<open>2\<^sup>3\<^sup>2\<close> or more, as large scores at a low temperature make it, every seed draws that
  candidate, whatever the others weigh.\<close>

theorem lpu_sampling_misses_tail:
  assumes "1 < length (top_k l cs)" "1 < lp_decode_temperature_milli l"
    and "2 ^ 32 \<le> unat (lpu_weight (snd (last (top_k l cs))) (lp_decode_temperature_milli l) (snd (hd (top_k l cs))))"
  shows "fst (Lpu_sample_from_candidates (l\<lparr>lp_decode_seed := sd\<rparr>) cs) = fst (hd (top_k l cs))"
proof -
  let ?l = "l\<lparr>lp_decode_seed := sd\<rparr>"
  have same: "top_k ?l cs = top_k l cs" "lpu_weighted ?l (top_k l cs) = lpu_weighted l (top_k l cs)"
    by (simp_all add: top_k_def lpu_weighted_def)
  obtain c rest where c: "top_k l cs = c # rest" using assms(1) by (cases "top_k l cs") auto
  obtain j where j: "j < length (top_k l cs)" "fst (Lpu_sample_from_candidates ?l cs) = fst (top_k l cs ! j)"
    "weight_sum (take j (lpu_weighted l (top_k l cs))) \<le> ticket_of (next_random ?l) (weight_sum (lpu_weighted l (top_k l cs)))"
    using sample_drawn [of ?l cs] assms(1,2) by (auto simp: same)
  have "j = 0"
  proof (rule ccontr)
    assume "j \<noteq> 0"
    then obtain k where k: "j = Suc k" by (cases j) auto
    have "2 ^ 32 \<le> weight_sum (take j (lpu_weighted l (top_k l cs)))"
      using assms(3) by (cases c) (simp add: k lpu_weighted_def c)
    then show False using j(3) ticket_bounds(2) [of "next_random ?l" "weight_sum (lpu_weighted l (top_k l cs))"] by simp
  qed
  then show ?thesis using j(2) c by simp
qed

subsection \<open>Witnesses\<close>

text \<open>The scores 10, 30 and 20, and a word for the result.\<close>

definition score_bytes :: "u8 list" where
  "score_bytes = [10, 0, 0, 0, 30, 0, 0, 0, 20, 0, 0, 0, 0, 0, 0, 0]"

definition demo_scores :: "nat \<Rightarrow> u32" where
  "demo_scores i = (if i = 0 then 10 else if i = 1 then 30 else 20)"

lemma score_words:
  "ram_word (mem_of score_bytes) 0x80000000 = Some 10" "ram_word (mem_of score_bytes) 0x80000004 = Some 30"
  "ram_word (mem_of score_bytes) 0x80000008 = Some 20" "ram_word (mem_of score_bytes) 0x8000000C = Some 0"
  using mem_of_word [of 0 score_bytes] mem_of_word [of 4 score_bytes] mem_of_word [of 8 score_bytes] mem_of_word [of 12 score_bytes]
  by (simp_all add: score_bytes_def small_word)

lemma score_array: "ram_array (mem_of score_bytes) 0x80000000 3 demo_scores"
  by (simp add: ram_array_def all_below demo_scores_def score_words)

lemma score_result: "ram_word (mem_of score_bytes) 0x8000000C \<noteq> None" "unat (0x8000000C :: addr) mod 4 = 0"
  by (simp_all add: score_words)

lemma three: "0 < (3 :: nat)" "1 < (3 :: nat)"
  by simp_all

lemma below_3: "t < 3 \<longleftrightarrow> t = 0 \<or> t = 1 \<or> t = (2 :: nat)"
  by auto

lemma score_better: "better demo_scores i t \<longleftrightarrow> demo_scores t < demo_scores i \<or> demo_scores i = demo_scores t \<and> i < t"
  by (simp add: better_def)

theorem lpu_greedy_argmax_witness:
  "\<exists>l ms. Lpu_execute_descriptor_greedy_decode Lpu_new (mem_of score_bytes) (ucast (0x80000000 :: addr)) 3 (ucast (0x8000000C :: addr))
     = (Inr (), (l, ms)) \<and> lp_result l = 1 \<and> ram_word ms 0x8000000C = Some 1"
proof -
  obtain t l ms where t: "t < 3" "\<forall>i < 3. \<not> better demo_scores i t"
    "Lpu_execute_descriptor_greedy_decode Lpu_new (mem_of score_bytes) (ucast (0x80000000 :: addr)) 3 (ucast (0x8000000C :: addr))
      = (Inr (), (l, ms))" "lp_result l = of_nat t" "ram_word ms 0x8000000C = Some (of_nat t)"
    using lpu_greedy_argmax [OF score_array three(1) score_result, of Lpu_new] by (elim exE conjE) (rule that, assumption+, simp, assumption)
  have "\<not> better demo_scores 1 t" using t(2) by simp
  then have "t = 1" using t(1) by (auto simp: below_3 better_def demo_scores_def)
  then show ?thesis using t by auto
qed

theorem lpu_topk_sampling_witness:
  "\<exists>l ms. Lpu_execute_descriptor_topk_sample_decode (Lpu_new\<lparr>lp_decode_top_k := 2\<rparr>) (mem_of score_bytes) (ucast (0x80000000 :: addr)) 3
       (ucast (0x8000000C :: addr)) = (Inr (), (l, ms)) \<and> lp_result l \<in> {1, 2}"
proof -
  let ?l = "Lpu_new\<lparr>lp_decode_top_k := 2\<rparr>"
  have k: "2 = max 1 (unat (lp_decode_top_k ?l))" by simp
  obtain t l ms where t: "t < 3" "card {i. i < 3 \<and> better demo_scores i t} < 2"
    "Lpu_execute_descriptor_topk_sample_decode ?l (mem_of score_bytes) (ucast (0x80000000 :: addr)) 3 (ucast (0x8000000C :: addr))
      = (Inr (), (l, ms))" "lp_result l = of_nat t"
    using lpu_topk_sampling [OF score_array three(1) score_result k] by (elim exE conjE) (rule that, assumption+, simp)
  have "{i. i < 3 \<and> better demo_scores i 0} = {1, 2}" by (auto simp: below_3 better_def demo_scores_def)
  then have c: "card {i. i < 3 \<and> better demo_scores i 0} = 2" by simp
  have "t \<noteq> 0"
  proof
    assume t0: "t = 0"
    show False using t(2) c unfolding t0 by simp
  qed
  then have "lp_result l \<in> {1, 2}" using t(1,4) by (auto simp: below_3)
  then show ?thesis using t(3) by blast
qed

theorem lpu_topp_sampling_witness:
  "\<exists>l ms. Lpu_execute_descriptor_topp_sample_decode (Lpu_new\<lparr>lp_decode_top_p_milli := 500\<rparr>) (mem_of score_bytes) (ucast (0x80000000 :: addr)) 3
       (ucast (0x8000000C :: addr)) = (Inr (), (l, ms)) \<and> lp_result l = 1"
proof -
  let ?l = "Lpu_new\<lparr>lp_decode_top_p_milli := 500\<rparr>" and ?W = "\<lambda>i. unat (lpu_weight (Min (demo_scores ` {..<3})) 1000 (demo_scores i))"
  have s3: "{..<3 :: nat} = {0, 1, 2}" by auto
  have m: "Min (demo_scores ` {..<3}) = 10" by (simp add: s3 demo_scores_def)
  have w: "lpu_weight 10 1000 10 = 1" "lpu_weight 10 1000 30 = 21" "lpu_weight 10 1000 20 = 11"
    by (simp_all add: lpu_weight_def sat_sub32_def)
  have W: "?W 0 = 1" "?W 1 = 21" "?W 2 = 11" unfolding m by (simp_all add: demo_scores_def w)
  have "(\<Sum>i < 3. ?W i) = ?W 0 + ?W 1 + ?W 2" unfolding s3 by (simp add: add.assoc)
  then have sum: "(\<Sum>i < 3. ?W i) = 33" by (simp only: W)
  have t1000: "lp_decode_temperature_milli ?l = 1000" "1 < lp_decode_temperature_milli ?l" by (simp_all add: Lpu_new_def Lpu_with_base_def)
  have bnd: "(\<Sum>i < 3. unat (lpu_weight (Min (demo_scores ` {..<3})) (lp_decode_temperature_milli ?l) (demo_scores i))) < 2 ^ 53"
    by (simp add: t1000(1) sum)
  have p: "500 = unat (min (max (lp_decode_top_p_milli ?l) 1) 1000)" by simp
  obtain t l ms where t: "t < 3" "1000 * (\<Sum>i | i < 3 \<and> better demo_scores i t. ?W i) < 500 * 33"
    "Lpu_execute_descriptor_topp_sample_decode ?l (mem_of score_bytes) (ucast (0x80000000 :: addr)) 3 (ucast (0x8000000C :: addr))
      = (Inr (), (l, ms))" "lp_result l = of_nat t"
    using lpu_topp_sampling [OF score_array three(2) score_result t1000(2) refl bnd p, unfolded t1000(1) sum] by (elim exE conjE) (rule that, assumption+, simp)
  have b: "{i. i < 3 \<and> better demo_scores i 0} = {1, 2}" "{i. i < 3 \<and> better demo_scores i 2} = {1}"
    by (auto simp: below_3 better_def demo_scores_def)
  have s0: "(\<Sum>i | i < 3 \<and> better demo_scores i 0. ?W i) = 32" unfolding b using W by simp
  have s2: "(\<Sum>i | i < 3 \<and> better demo_scores i 2. ?W i) = 21" unfolding b using W by simp
  have "t \<noteq> 0"
  proof
    assume t0: "t = 0"
    show False using t(2) unfolding t0 s0 by simp
  qed
  moreover have "t \<noteq> 2"
  proof
    assume t2: "t = 2"
    show False using t(2) unfolding t2 s2 by simp
  qed
  ultimately have "lp_result l = 1" using t(1,4) by (auto simp: below_3)
  then show ?thesis using t(3) by blast
qed

definition demo_lpu :: lpu where "demo_lpu = Lpu_new\<lparr>lp_decode_top_k := 2\<rparr>"

theorem lpu_sampling_proportional_witness:
  "fst (Lpu_sample_from_candidates demo_lpu [(0, 10), (1, 30), (2, 20)]) = 1"
proof -
  have k: "top_k demo_lpu [(0, 10), (1, 30), (2, 20)] = [(1, 30), (2, 20)]" by code_simp
  have w: "lpu_weighted demo_lpu [(1, 30), (2, 20)] = [(1, 11), (2, 1)]" by code_simp
  have n: "next_random demo_lpu = 1015568748" by code_simp
  have two: "1 < length (top_k demo_lpu [(0, 10), (1, 30), (2, 20)])" by (simp add: k)
  have temp: "1 < lp_decode_temperature_milli demo_lpu" by code_simp
  obtain j where "j < length [(1 :: u32, 30 :: u32), (2, 20)]"
    "Lpu_sample_from_candidates demo_lpu [(0, 10), (1, 30), (2, 20)] =
      (fst ([(1 :: u32, 30 :: u32), (2, 20)] ! j), demo_lpu\<lparr>lp_decode_seed := 1015568748\<rparr>)"
    "weight_sum (take j [(1, 11), (2, 1)]) \<le> ticket_of 1015568748 (weight_sum [(1, 11), (2, 1)])"
    using lpu_sampling_proportional [OF two temp refl refl, unfolded k w n] by (elim exE conjE) (rule that)
  moreover have "ticket_of 1015568748 (weight_sum [(1, 11), (2, 1)]) = 0" by (simp add: ticket_of_def)
  ultimately show ?thesis by (cases j) auto
qed

definition hot_lpu :: lpu where "hot_lpu = Lpu_new\<lparr>lp_decode_top_k := 3, lp_decode_temperature_milli := 500\<rparr>"

theorem lpu_sampling_misses_tail_witness:
  "\<forall>sd. fst (Lpu_sample_from_candidates (hot_lpu\<lparr>lp_decode_seed := sd\<rparr>) [(0, 0xFFFFFFFF), (1, 0x80000000), (2, 0)]) = 0"
proof -
  let ?cs = "[(0, 0xFFFFFFFF), (1, 0x80000000), (2, 0)] :: (u32 \<times> u32) list"
  have k: "top_k hot_lpu ?cs = ?cs" by code_simp
  have t: "lp_decode_temperature_milli hot_lpu = 500" by code_simp
  have w: "lpu_weight 0 500 0xFFFFFFFF = 0x1FFFFFFFF" by code_simp
  have big: "2 ^ 32 \<le> unat (lpu_weight (snd (last (top_k hot_lpu ?cs))) (lp_decode_temperature_milli hot_lpu) (snd (hd (top_k hot_lpu ?cs))))"
    unfolding k t by (simp add: w)
  have two: "1 < length (top_k hot_lpu ?cs)" "1 < lp_decode_temperature_milli hot_lpu" unfolding k t by simp_all
  have "fst (Lpu_sample_from_candidates (hot_lpu\<lparr>lp_decode_seed := sd\<rparr>) ?cs) = 0" for sd
    unfolding lpu_sampling_misses_tail [OF two big] unfolding k by simp
  then show ?thesis by blast
qed

end
