(* ===== verification/Lpu_Instruction.thy ===== *)
theory Lpu_Instruction
  imports Coprocessor Lpu_Model
begin

text \<open>
  The LPU (\<open>peripheral/lpu.rs\<close>) keeps the contract of the coprocessor instructions.
\<close>

subsection \<open>The registers\<close>

lemma lpu_operand_bytes:
  "Lpu_write_u8 n 0x08 v = n\<lparr>lp_op_a := put_byte 0 v (lp_op_a n)\<rparr>"
  "Lpu_write_u8 n 0x09 v = n\<lparr>lp_op_a := put_byte (Suc 0) v (lp_op_a n)\<rparr>"
  "Lpu_write_u8 n 0x0A v = n\<lparr>lp_op_a := put_byte 2 v (lp_op_a n)\<rparr>"
  "Lpu_write_u8 n 0x0B v = n\<lparr>lp_op_a := put_byte 3 v (lp_op_a n)\<rparr>"
  "Lpu_write_u8 n 0x0C v = n\<lparr>lp_op_b := put_byte 0 v (lp_op_b n)\<rparr>"
  "Lpu_write_u8 n 0x0D v = n\<lparr>lp_op_b := put_byte (Suc 0) v (lp_op_b n)\<rparr>"
  "Lpu_write_u8 n 0x0E v = n\<lparr>lp_op_b := put_byte 2 v (lp_op_b n)\<rparr>"
  "Lpu_write_u8 n 0x0F v = n\<lparr>lp_op_b := put_byte 3 v (lp_op_b n)\<rparr>"
  "Lpu_write_u8 n 0x14 v = n\<lparr>lp_opcode := put_byte 0 v (lp_opcode n)\<rparr>"
  "Lpu_write_u8 n 0x15 v = n\<lparr>lp_opcode := put_byte (Suc 0) v (lp_opcode n)\<rparr>"
  "Lpu_write_u8 n 0x16 v = n\<lparr>lp_opcode := put_byte 2 v (lp_opcode n)\<rparr>"
  "Lpu_write_u8 n 0x17 v = n\<lparr>lp_opcode := put_byte 3 v (lp_opcode n)\<rparr>"
  by (simp_all add: Lpu_write_u8_def Let_def lpu_reg_defs Lpu_read_reg_def Lpu_write_reg_def put_byte_shift)

lemma lpu_control_bytes:
  assumes "\<not> bit (lp_control n) 0"
  shows "Lpu_write_u8 n 1 0 = n\<lparr>lp_control := put_byte (Suc 0) 0 (lp_control n)\<rparr>"
    "Lpu_write_u8 n 2 0 = n\<lparr>lp_control := put_byte 2 0 (lp_control n)\<rparr>"
    "Lpu_write_u8 n 3 0 = n\<lparr>lp_control := put_byte 3 0 (lp_control n)\<rparr>"
  using control_bytes [OF assms]
  by (simp_all add: Lpu_write_u8_def Let_def lpu_reg_defs Lpu_read_reg_def Lpu_write_reg_def zero_bytes LPU_START_def)

lemma lpu_result_bytes:
  "word_of_bytes (Lpu_read_u8 n 0x10) (Lpu_read_u8 n 0x11) (Lpu_read_u8 n 0x12) (Lpu_read_u8 n 0x13) = lp_result n"
proof -
  have "Lpu_read_u8 n 0x10 = byte_at 0 (lp_result n)" "Lpu_read_u8 n 0x11 = byte_at (Suc 0) (lp_result n)"
    "Lpu_read_u8 n 0x12 = byte_at 2 (lp_result n)" "Lpu_read_u8 n 0x13 = byte_at 3 (lp_result n)"
    using low_byte [of 0] low_byte [of "Suc 0"] low_byte [of 2] low_byte [of 3]
    by (simp_all add: Lpu_read_u8_def Let_def lpu_reg_defs Lpu_read_reg_def)
  then show ?thesis by simp
qed

text \<open>An operation reads neither the control register nor the notification, and writes neither.\<close>

lemma lpu_draw_control:
  "Lpu_sample_from_candidates (l\<lparr>lp_control := c\<rparr>) cs = apsnd (lp_control_update (\<lambda>_. c)) (Lpu_sample_from_candidates l cs)"
  "Lpu_sample_from_nucleus_candidates (l\<lparr>lp_control := c\<rparr>) cs = apsnd (lp_control_update (\<lambda>_. c)) (Lpu_sample_from_nucleus_candidates l cs)"
  by (auto simp: Lpu_sample_from_candidates_def Lpu_sample_from_nucleus_candidates_def Lpu_next_decode_random_def Let_def
      lpu_weighted_def split: option.split prod.split)

lemma lpu_draw_keeps:
  "\<exists>sd. snd (Lpu_sample_from_candidates l cs) = l\<lparr>lp_decode_seed := sd\<rparr>"
  "\<exists>sd. snd (Lpu_sample_from_nucleus_candidates l cs) = l\<lparr>lp_decode_seed := sd\<rparr>"
proof -
  have same: "\<exists>sd. l = l\<lparr>lp_decode_seed := sd\<rparr>" by (rule exI [of _ "lp_decode_seed l"]) simp
  show "\<exists>sd. snd (Lpu_sample_from_candidates l cs) = l\<lparr>lp_decode_seed := sd\<rparr>"
    "\<exists>sd. snd (Lpu_sample_from_nucleus_candidates l cs) = l\<lparr>lp_decode_seed := sd\<rparr>"
    using same by (auto simp: Lpu_sample_from_candidates_def Lpu_sample_from_nucleus_candidates_def
        Lpu_next_decode_random_def Let_def split: option.split prod.split)
qed

lemma lpu_compute_control:
  "Lpu_compute_result (l\<lparr>lp_control := c\<rparr>) op = apsnd (lp_control_update (\<lambda>_. c)) (Lpu_compute_result l op)"
  by (cases op) (simp_all add: Lpu_sample_decode_binary_def Lpu_sample_decode_binary_topp_def lpu_draw_control)

lemma lpu_compute_keeps: "\<exists>sd. snd (Lpu_compute_result l op) = l\<lparr>lp_decode_seed := sd\<rparr>"
proof -
  have same: "\<exists>sd. l = l\<lparr>lp_decode_seed := sd\<rparr>" by (rule exI [of _ "lp_decode_seed l"]) simp
  show ?thesis using same
    by (cases op) (auto simp: Lpu_sample_decode_binary_def Lpu_sample_decode_binary_topp_def lpu_draw_keeps)
qed

lemma lpu_count_control:
  "lpu_count_op op (l\<lparr>lp_result := r, lp_control := c\<rparr>) = (lpu_count_op op (l\<lparr>lp_result := r\<rparr>))\<lparr>lp_control := c\<rparr>"
  "lp_control (lpu_count_op op l) = lp_control l" "lp_pending_desc_notify (lpu_count_op op l) = lp_pending_desc_notify l"
  by (cases op; simp)+

lemma lpu_execute_control:
  assumes "c AND LPU_IRQ_EN = 0"
  shows "Lpu_execute_once (l\<lparr>lp_control := c\<rparr>) = (Lpu_execute_once (l\<lparr>lp_control := 0\<rparr>))\<lparr>lp_control := c\<rparr>"
proof (cases "LpuOp_from_u32 (lp_opcode l)")
  case None
  then show ?thesis using assms by (simp add: Lpu_execute_once_def Let_def lpu_signal_done_def)
next
  case (Some op)
  let ?s = "(lp_status l OR LPU_BUSY) AND NOT LPU_DONE"
  obtain r l1 where r: "Lpu_compute_result (l\<lparr>lp_status := ?s\<rparr>) op = (r, l1)" by fastforce
  have swap: "l\<lparr>lp_control := k, lp_status := ?s\<rparr> = l\<lparr>lp_status := ?s, lp_control := k\<rparr>" for k by (cases l) simp
  have e: "Lpu_compute_result (l\<lparr>lp_control := k, lp_status := ?s\<rparr>) op = (r, l1\<lparr>lp_control := k\<rparr>)" for k
    unfolding swap lpu_compute_control r by simp
  show ?thesis using assms Some
    by (simp add: Lpu_execute_once_def Let_def lpu_signal_done_def e) (cases op; simp)
qed

lemma lpu_execute_pending: "lp_pending_desc_notify (Lpu_execute_once l) = lp_pending_desc_notify l"
proof (cases "LpuOp_from_u32 (lp_opcode l)")
  case (Some op)
  let ?l = "l\<lparr>lp_status := (lp_status l OR LPU_BUSY) AND NOT LPU_DONE\<rparr>"
  obtain r sd where "Lpu_compute_result ?l op = (r, ?l\<lparr>lp_decode_seed := sd\<rparr>)"
    using lpu_compute_keeps [of ?l op] by (metis prod.collapse)
  then show ?thesis using Some by (simp add: Lpu_execute_once_def Let_def lpu_signal_done_def lpu_count_control)
qed (simp add: Lpu_execute_once_def Let_def lpu_signal_done_def)

text \<open>The start bit executes the operation, with the interrupt disabled; the other three bytes of the word see it cleared.\<close>

definition lpu_started :: "lpu \<Rightarrow> lpu" where
  "lpu_started l = (Lpu_execute_once (l\<lparr>lp_control := 0\<rparr>))\<lparr>lp_control := 0\<rparr>"

lemma lpu_start_byte:
  "Lpu_write_u8 l 0 1 = (lpu_started l)\<lparr>lp_control := put_byte 0 1 (lp_control l) AND NOT (bitm 0)\<rparr>"
proof -
  have "Lpu_write_u8 l 0 1 = Lpu_write_reg l 0 (put_byte 0 1 (lp_control l))"
    by (simp add: Lpu_write_u8_def Let_def Lpu_read_reg_def lpu_reg_defs zero_bytes)
  moreover have irq: "put_byte 0 1 (lp_control l) AND LPU_IRQ_EN = 0" by (simp add: LPU_IRQ_EN_def control_start)
  ultimately show ?thesis
    by (simp add: Lpu_write_reg_def LREG_CONTROL_def Let_def control_start LPU_START_def lpu_execute_control [OF irq] lpu_started_def)
qed

lemma lpu_pending_write:
  assumes "unat off < 0x18"
  shows "lp_pending_desc_notify (Lpu_write_u8 n off v) = lp_pending_desc_notify n"
proof -
  have "off AND NOT 3 \<le> off" by (rule word_and_le2)
  then have "off AND NOT 0x3 \<noteq> LREG_DESC_NOTIFY" using assms by (auto simp: LREG_DESC_NOTIFY_def word_le_nat_alt)
  then show ?thesis
    by (auto simp: Lpu_write_u8_def Let_def Lpu_write_reg_def lpu_execute_pending)
qed

interpretation lpu_cop: coprocessor lpu_device_ops LPU_BASE Lpu_write_u8 Lpu_read_u8 lp_pending_desc_notify
  "\<lambda>v. lp_op_a_update (\<lambda>_. v)" "\<lambda>v. lp_op_b_update (\<lambda>_. v)" "\<lambda>v. lp_opcode_update (\<lambda>_. v)" lpu_started lp_result
proof unfold_locales
  show "LPU_BASE \<in> {NPU_BASE, LPU_BASE}" by simp
  fix n :: lpu and off :: u32 and x :: u8 and ms :: mem_regions and v :: u32
  show "unat off < 0x100 \<Longrightarrow> oo_write lpu_device_ops n off x = (Inr (), Lpu_write_u8 n off x)"
    "unat off < 0x100 \<Longrightarrow> oo_read lpu_device_ops n off = Inr (Lpu_read_u8 n off)"
    by (simp_all add: lpu_device_ops_def Lpu_write_def Lpu_read_def LPU_SIZE_def word_le_nat_alt)
  show "\<not> lp_pending_desc_notify n \<Longrightarrow> oo_try_execute lpu_device_ops n ms = (Inr False, n, ms)"
    by (simp add: lpu_device_ops_def Lpu_try_execute_pending_def)
  show "\<not> lp_pending_desc_notify n \<Longrightarrow> unat off < 0x18 \<Longrightarrow> \<not> lp_pending_desc_notify (Lpu_write_u8 n off x)"
    by (simp add: lpu_pending_write)
  show "store4 Lpu_write_u8 n 0x08 v = lp_op_a_update (\<lambda>_. v) n" "store4 Lpu_write_u8 n 0x0C v = lp_op_b_update (\<lambda>_. v) n"
    "store4 Lpu_write_u8 n 0x14 v = lp_opcode_update (\<lambda>_. v) n"
    by (simp_all add: store4_def lpu_operand_bytes put_bytes)
  have "(lpu_started n)\<lparr>lp_control := 0\<rparr> = lpu_started n" by (simp add: lpu_started_def)
  then show "store4 Lpu_write_u8 n 0x00 1 = lpu_started n"
    by (simp add: store4_def byte_of_one lpu_start_byte lpu_control_bytes control_rest)
qed (simp add: lpu_result_bytes)

subsection \<open>The instruction\<close>

lemma lpu_draw_status:
  "fst (Lpu_sample_from_candidates (l\<lparr>lp_control := c, lp_status := s\<rparr>) cs) = fst (Lpu_sample_from_candidates l cs)"
  "fst (Lpu_sample_from_nucleus_candidates (l\<lparr>lp_control := c, lp_status := s\<rparr>) cs) = fst (Lpu_sample_from_nucleus_candidates l cs)"
  by (auto simp: Lpu_sample_from_candidates_def Lpu_sample_from_nucleus_candidates_def Lpu_next_decode_random_def Let_def
      lpu_weighted_def split: option.split prod.split)

lemma lpu_started_result:
  assumes "LpuOp_from_u32 (lp_opcode l) = Some k"
  shows "lp_result (lpu_started l) = fst (Lpu_compute_result l k)"
proof -
  let ?l = "l\<lparr>lp_control := 0, lp_status := (lp_status l OR LPU_BUSY) AND NOT LPU_DONE\<rparr>"
  have "fst (Lpu_compute_result ?l k) = fst (Lpu_compute_result l k)"
    by (cases k) (simp_all add: Lpu_sample_decode_binary_def Lpu_sample_decode_binary_topp_def lpu_draw_status)
  moreover have "lp_result (lpu_count_op k m) = lp_result m" for m by (cases k) simp_all
  ultimately show ?thesis
    using assms by (simp add: lpu_started_def Lpu_execute_once_def Let_def lpu_signal_done_def case_prod_beta)
qed

definition lpu_after_instruction :: "u32 \<Rightarrow> u32 \<Rightarrow> u32 \<Rightarrow> lpu \<Rightarrow> lpu" where
  "lpu_after_instruction op x y l = lpu_started (l\<lparr>lp_op_a := x, lp_op_b := y, lp_opcode := op\<rparr>)"

text \<open>C22: An LPU instruction computes its operation.  With the LPU first on the bus and no notification pending, a
  coprocessor instruction with \<open>funct3\<close> 1 and one of the five opcodes succeeds, puts what the operation computes
  from the two source registers (and, for the sampling decoders, from the device's registers) into the
  destination register and moves to the next instruction; memory, the other devices and the rest of the processor
  are as before.\<close>

theorem lpu_instruction:
  assumes "bus_peripherals (pk_bus c) = (LPU_BASE, 0x100, Dev_Other l) # rest" "\<not> lp_pending_desc_notify l"
    and "Decoder_funct3 i = 1" "op = ucast (Decoder_funct7 i AND 0x1F)" "LpuOp_from_u32 op = Some k"
    and "x = Registers_read (pk_regs c) (Decoder_rs1 i)" "y = Registers_read (pk_regs c) (Decoder_rs2 i)"
  shows "execute_custom0 (plain_ops lpu_device_ops) i c =
    (Inr (), c\<lparr>pk_bus := dev_in_front LPU_BASE (lpu_after_instruction op x y l) rest (pk_bus c),
       pk_regs := Registers_write (pk_regs c) (Decoder_rd i) (fst (Lpu_compute_result (l\<lparr>lp_op_a := x, lp_op_b := y, lp_opcode := op\<rparr>) k)),
       pk_pc := pk_pc c + 4\<rparr>)"
proof -
  have "op \<in> set LPU_OPCODES"
    using assms(5) by (auto simp: LpuOp_from_u32_def LPU_OPCODES_def lpu_opcode_defs split: if_splits)
  then have b: "custom0_base i = Some LPU_BASE" using assms(3,4) by (simp add: custom0_base_def)
  have r: "lp_result (lpu_started (l\<lparr>lp_op_a := x, lp_op_b := y, lp_opcode := op\<rparr>))
      = fst (Lpu_compute_result (l\<lparr>lp_op_a := x, lp_op_b := y, lp_opcode := op\<rparr>) k)"
    using assms(5) by (intro lpu_started_result) simp
  show ?thesis
    using lpu_cop.instruction [OF b assms(1,2,4,6,7)] r by (simp add: lpu_after_instruction_def)
qed

text \<open>Greedy decoding of the scores 6 and 7: \<open>x3\<close> gets token 1.\<close>

definition lpu_core :: "lpu plain_core" where
  "lpu_core = \<lparr>pk_regs = Registers_write (Registers_write Registers_new 1 6) 2 7, pk_pc = 0, pk_csr = CsrFile_new,
     pk_privilege = Machine, pk_bus = Bus_attach_peripheral lpu_device_ops Bus_new (Dev_Other Lpu_new),
     pk_reservation = None, pk_exit = False, pk_halted = False\<rparr>"

theorem lpu_instruction_witness:
  "execute_custom0 (plain_ops lpu_device_ops) 0x2420918B lpu_core =
    (Inr (), lpu_core\<lparr>pk_bus := dev_in_front LPU_BASE (lpu_after_instruction 0x12 6 7 Lpu_new) [] (pk_bus lpu_core),
       pk_regs := Registers_write (pk_regs lpu_core) 3 1, pk_pc := 4\<rparr>)"
proof -
  have i: "Decoder_funct3 0x2420918B = 1" "(0x12 :: u32) = ucast (Decoder_funct7 0x2420918B AND 0x1F)" "Decoder_rd 0x2420918B = 3"
    "Decoder_rs1 0x2420918B = 1" "Decoder_rs2 0x2420918B = 2" by code_simp+
  have p: "bus_peripherals (pk_bus lpu_core) = (LPU_BASE, 0x100, Dev_Other Lpu_new) # []"
    by (simp add: lpu_core_def Bus_attach_peripheral_def Bus_new_def lpu_device_ops_def LPU_SIZE_def Lpu_new_def Lpu_with_base_def)
  have r: "6 = Registers_read (pk_regs lpu_core) (Decoder_rs1 0x2420918B)" "7 = Registers_read (pk_regs lpu_core) (Decoder_rs2 0x2420918B)"
    unfolding i by code_simp+
  have n: "\<not> lp_pending_desc_notify Lpu_new" by (simp add: Lpu_new_def Lpu_with_base_def)
  have k: "LpuOp_from_u32 0x12 = Some GreedyDecode" by (simp add: LpuOp_from_u32_def lpu_opcode_defs)
  show ?thesis
    using lpu_instruction [OF p n i(1,2) k r] by (simp add: i(3) Lpu_greedy_decode_binary_def) (simp add: lpu_core_def)
qed

end
