(* ===== verification/Virtio_Model.thy ===== *)
theory Virtio_Model
  imports Bus_Model Saturating
begin

text \<open>
  The VirtIO block device: \<open>src/src/peripheral/virtio_block.rs\<close>.  A disk of 512-byte sectors that a driver reads and
  writes in three ways: by a command register and a window onto one sector, by a simplified queue held in
  registers, and by descriptor chains in guest memory, found through an available ring and answered in a used
  ring.  A notification in the third way only records the queue; the bus lets the device work on it at the end
  of the store.  Error texts are dropped, a Rust slice copy is \<open>poke_list\<close>.
\<close>

subsection \<open>Registers and state\<close>

definition VIRTIO_BLK_BASE :: addr where "VIRTIO_BLK_BASE = 0x10001000"
definition VIRTIO_BLK_SIZE :: nat where "VIRTIO_BLK_SIZE = 0x1000"
definition SECTOR_SIZE :: nat where "SECTOR_SIZE = 512"
definition QUEUE_RING_MAX :: nat where "QUEUE_RING_MAX = 8"

definition VREG_MAGIC :: u32 where "VREG_MAGIC = 0x000"
definition VREG_VERSION :: u32 where "VREG_VERSION = 0x004"
definition VREG_DEVICE_ID :: u32 where "VREG_DEVICE_ID = 0x008"
definition VREG_VENDOR_ID :: u32 where "VREG_VENDOR_ID = 0x00C"
definition VREG_DEVICE_FEATURES :: u32 where "VREG_DEVICE_FEATURES = 0x010"
definition VREG_DRIVER_FEATURES :: u32 where "VREG_DRIVER_FEATURES = 0x020"
definition VREG_GUEST_PAGE_SIZE :: u32 where "VREG_GUEST_PAGE_SIZE = 0x028"
definition VREG_QUEUE_SEL :: u32 where "VREG_QUEUE_SEL = 0x030"
definition VREG_QUEUE_NUM_MAX_LEGACY :: u32 where "VREG_QUEUE_NUM_MAX_LEGACY = 0x034"
definition VREG_QUEUE_NUM_LEGACY :: u32 where "VREG_QUEUE_NUM_LEGACY = 0x038"
definition VREG_QUEUE_ALIGN :: u32 where "VREG_QUEUE_ALIGN = 0x03C"
definition VREG_QUEUE_PFN :: u32 where "VREG_QUEUE_PFN = 0x040"
definition VREG_QUEUE_READY_LEGACY :: u32 where "VREG_QUEUE_READY_LEGACY = 0x044"
definition VREG_QUEUE_NOTIFY_LEGACY :: u32 where "VREG_QUEUE_NOTIFY_LEGACY = 0x050"
definition VREG_INTERRUPT_STATUS :: u32 where "VREG_INTERRUPT_STATUS = 0x060"
definition VREG_INTERRUPT_ACK :: u32 where "VREG_INTERRUPT_ACK = 0x064"
definition VREG_STATUS :: u32 where "VREG_STATUS = 0x070"
definition VREG_QUEUE_DESC_LOW :: u32 where "VREG_QUEUE_DESC_LOW = 0x080"
definition VREG_QUEUE_DESC_HIGH :: u32 where "VREG_QUEUE_DESC_HIGH = 0x084"
definition VREG_QUEUE_AVAIL_LOW :: u32 where "VREG_QUEUE_AVAIL_LOW = 0x090"
definition VREG_QUEUE_AVAIL_HIGH :: u32 where "VREG_QUEUE_AVAIL_HIGH = 0x094"
definition VREG_QUEUE_USED_LOW :: u32 where "VREG_QUEUE_USED_LOW = 0x0A0"
definition VREG_QUEUE_USED_HIGH :: u32 where "VREG_QUEUE_USED_HIGH = 0x0A4"
definition VREG_QUEUE_NUM_MAX :: u32 where "VREG_QUEUE_NUM_MAX = 0x0F0"
definition VREG_QUEUE_NUM :: u32 where "VREG_QUEUE_NUM = 0x0F4"
definition VREG_QUEUE_READY :: u32 where "VREG_QUEUE_READY = 0x0F8"
definition VREG_QUEUE_NOTIFY :: u32 where "VREG_QUEUE_NOTIFY = 0x0FC"
definition VREG_SECTOR_LOW :: u32 where "VREG_SECTOR_LOW = 0x100"
definition VREG_SECTOR_HIGH :: u32 where "VREG_SECTOR_HIGH = 0x104"
definition VREG_COMMAND :: u32 where "VREG_COMMAND = 0x108"
definition VREG_RESULT :: u32 where "VREG_RESULT = 0x10C"
definition VREG_CONTROL :: u32 where "VREG_CONTROL = 0x110"
definition VREG_REQ_TYPE :: u32 where "VREG_REQ_TYPE = 0x114"
definition VREG_REQ_STATUS :: u32 where "VREG_REQ_STATUS = 0x118"
definition VREG_QUEUE_HEAD :: u32 where "VREG_QUEUE_HEAD = 0x11C"
definition VREG_QUEUE_AVAIL_IDX :: u32 where "VREG_QUEUE_AVAIL_IDX = 0x120"
definition VREG_QUEUE_USED_IDX :: u32 where "VREG_QUEUE_USED_IDX = 0x124"
definition VREG_LAST_USED_HEAD :: u32 where "VREG_LAST_USED_HEAD = 0x128"
definition VREG_QUEUE_USED_ELEM_BASE :: u32 where "VREG_QUEUE_USED_ELEM_BASE = 0x180"
definition VREG_QUEUE_USED_ELEM_END :: u32 where
  "VREG_QUEUE_USED_ELEM_END = VREG_QUEUE_USED_ELEM_BASE + of_nat QUEUE_RING_MAX * 4"

lemmas virtio_reg_defs = VREG_MAGIC_def VREG_VERSION_def VREG_DEVICE_ID_def VREG_VENDOR_ID_def
  VREG_DEVICE_FEATURES_def VREG_DRIVER_FEATURES_def VREG_GUEST_PAGE_SIZE_def VREG_QUEUE_SEL_def
  VREG_QUEUE_NUM_MAX_LEGACY_def VREG_QUEUE_NUM_LEGACY_def VREG_QUEUE_ALIGN_def VREG_QUEUE_PFN_def
  VREG_QUEUE_READY_LEGACY_def VREG_QUEUE_NOTIFY_LEGACY_def VREG_INTERRUPT_STATUS_def VREG_INTERRUPT_ACK_def
  VREG_STATUS_def VREG_QUEUE_DESC_LOW_def VREG_QUEUE_DESC_HIGH_def VREG_QUEUE_AVAIL_LOW_def
  VREG_QUEUE_AVAIL_HIGH_def VREG_QUEUE_USED_LOW_def VREG_QUEUE_USED_HIGH_def VREG_QUEUE_NUM_MAX_def
  VREG_QUEUE_NUM_def VREG_QUEUE_READY_def VREG_QUEUE_NOTIFY_def VREG_SECTOR_LOW_def VREG_SECTOR_HIGH_def
  VREG_COMMAND_def VREG_RESULT_def VREG_CONTROL_def VREG_REQ_TYPE_def VREG_REQ_STATUS_def VREG_QUEUE_HEAD_def
  VREG_QUEUE_AVAIL_IDX_def VREG_QUEUE_USED_IDX_def VREG_LAST_USED_HEAD_def VREG_QUEUE_USED_ELEM_BASE_def
  VREG_QUEUE_USED_ELEM_END_def

definition DATA_WINDOW_START :: u32 where "DATA_WINDOW_START = 0x200"
definition DATA_WINDOW_END :: u32 where "DATA_WINDOW_END = DATA_WINDOW_START + of_nat SECTOR_SIZE"

definition RESULT_OK :: u32 where "RESULT_OK = 0"
definition RESULT_IO_ERR :: u32 where "RESULT_IO_ERR = 1"
definition RESULT_BAD_CMD :: u32 where "RESULT_BAD_CMD = 2"
definition REQUEST_HEADER_LEN :: u32 where "REQUEST_HEADER_LEN = 16"
definition VIRTQ_DESC_F_NEXT :: u16 where "VIRTQ_DESC_F_NEXT = 1"
definition VIRTIO_BLK_S_OK :: u8 where "VIRTIO_BLK_S_OK = 0"
definition VIRTIO_BLK_S_IOERR :: u8 where "VIRTIO_BLK_S_IOERR = 1"
definition READ_SECTOR :: u32 where "READ_SECTOR = 1"
definition WRITE_SECTOR :: u32 where "WRITE_SECTOR = 2"
definition REQ_IN :: u32 where "REQ_IN = 0"
definition REQ_OUT :: u32 where "REQ_OUT = 1"

lemmas virtio_const_defs = SECTOR_SIZE_def QUEUE_RING_MAX_def RESULT_OK_def RESULT_IO_ERR_def RESULT_BAD_CMD_def
  REQUEST_HEADER_LEN_def VIRTQ_DESC_F_NEXT_def VIRTIO_BLK_S_OK_def VIRTIO_BLK_S_IOERR_def READ_SECTOR_def
  WRITE_SECTOR_def REQ_IN_def REQ_OUT_def DATA_WINDOW_START_def DATA_WINDOW_END_def

record virtq_desc =
  vd_addr :: u64
  vd_len :: u32
  vd_flags :: u16
  vd_next :: u16

record virtio_block =
  vb_base :: addr
  vb_status :: u32
  vb_device_features :: u32
  vb_driver_features :: u32
  vb_guest_page_size :: u32
  vb_queue_sel :: u32
  vb_queue_align :: u32
  vb_queue_pfn :: u32
  vb_sector :: u64
  vb_command :: u32
  vb_result :: u32
  vb_control :: u32
  vb_queue_desc_addr :: u64
  vb_queue_avail_addr :: u64
  vb_queue_used_addr :: u64
  vb_queue_num :: u16
  vb_queue_ready :: bool
  vb_queue_avail_idx :: u16
  vb_queue_used_idx :: u16
  vb_queue_head :: u16
  vb_last_used_head :: u16
  vb_queue_used_ring :: "u16 list"
  vb_pending_queue_notify :: "u32 option"
  vb_req_type :: u32
  vb_req_status :: u8
  vb_command_exec_count :: u64
  vb_queue_notify_count :: u64
  vb_descriptor_notify_count :: u64
  vb_irq_raised_count :: u64
  vb_irq_ack_count :: u64
  vb_descriptor_not_ready_count :: u64
  vb_descriptor_no_avail_count :: u64
  vb_descriptor_success_count :: u64
  vb_descriptor_error_count :: u64
  vb_irq_pending :: bool
  vb_data_window :: "u8 list"
  vb_disk :: "u8 list"

definition VirtioBlock_with_disk_sectors :: "nat \<Rightarrow> virtio_block" where
  "VirtioBlock_with_disk_sectors sectors =
     \<lparr>vb_base = VIRTIO_BLK_BASE, vb_status = 0, vb_device_features = 0, vb_driver_features = 0,
      vb_guest_page_size = 4096, vb_queue_sel = 0, vb_queue_align = 4096, vb_queue_pfn = 0, vb_sector = 0,
      vb_command = 0, vb_result = RESULT_OK, vb_control = 0, vb_queue_desc_addr = 0, vb_queue_avail_addr = 0,
      vb_queue_used_addr = 0, vb_queue_num = of_nat QUEUE_RING_MAX, vb_queue_ready = False, vb_queue_avail_idx = 0,
      vb_queue_used_idx = 0, vb_queue_head = 0, vb_last_used_head = 0, vb_queue_used_ring = replicate QUEUE_RING_MAX 0,
      vb_pending_queue_notify = None, vb_req_type = REQ_IN, vb_req_status = 0, vb_command_exec_count = 0,
      vb_queue_notify_count = 0, vb_descriptor_notify_count = 0, vb_irq_raised_count = 0, vb_irq_ack_count = 0,
      vb_descriptor_not_ready_count = 0, vb_descriptor_no_avail_count = 0, vb_descriptor_success_count = 0,
      vb_descriptor_error_count = 0, vb_irq_pending = False, vb_data_window = replicate SECTOR_SIZE 0,
      vb_disk = replicate (min (sectors * SECTOR_SIZE) (2 ^ 64 - 1)) 0\<rparr>"

definition VirtioBlock_new :: virtio_block where
  "VirtioBlock_new = VirtioBlock_with_disk_sectors 1024"

definition VirtioBlock_disk_size_bytes :: "virtio_block \<Rightarrow> nat" where
  "VirtioBlock_disk_size_bytes v = length (vb_disk v)"

subsection \<open>The disk\<close>

text \<open>\<open>xs[from..from + ys.len()].copy_from_slice(ys)\<close>, in bounds.\<close>

definition poke_list :: "nat \<Rightarrow> 'a list \<Rightarrow> 'a list \<Rightarrow> 'a list" where
  "poke_list k ys xs = take k xs @ ys @ drop (k + length ys) xs"

definition VirtioBlock_load_disk_image :: "virtio_block \<Rightarrow> u8 list \<Rightarrow> unit result \<times> virtio_block" where
  "VirtioBlock_load_disk_image v img =
     (if length img > length (vb_disk v) then (Inl PeripheralErr, v)
      else (Inr (), v\<lparr>vb_disk := poke_list 0 img (replicate (length (vb_disk v)) 0)\<rparr>))"

definition VirtioBlock_sector_offset :: "virtio_block \<Rightarrow> u64 \<Rightarrow> nat option" where
  "VirtioBlock_sector_offset v sector =
     (let off = unat sector * SECTOR_SIZE in
      if off \<ge> 2 ^ 64 then None
      else if off + SECTOR_SIZE \<ge> 2 ^ 64 then None
      else if off + SECTOR_SIZE \<le> length (vb_disk v) then Some off
      else None)"

definition VirtioBlock_preload_sector :: "virtio_block \<Rightarrow> u64 \<Rightarrow> u8 list \<Rightarrow> unit result \<times> virtio_block" where
  "VirtioBlock_preload_sector v sector data =
     (if length data > SECTOR_SIZE then (Inl PeripheralErr, v)
      else case VirtioBlock_sector_offset v sector of
             None \<Rightarrow> (Inl PeripheralErr, v)
           | Some off \<Rightarrow>
               (Inr (), v\<lparr>vb_disk := poke_list off data (poke_list off (replicate SECTOR_SIZE 0) (vb_disk v))\<rparr>))"

definition VirtioBlock_read_sector_to_window :: "virtio_block \<Rightarrow> unit result \<times> virtio_block" where
  "VirtioBlock_read_sector_to_window v =
     (case VirtioBlock_sector_offset v (vb_sector v) of
        None \<Rightarrow> (Inl PeripheralErr, v)
      | Some off \<Rightarrow> (Inr (), v\<lparr>vb_data_window := take SECTOR_SIZE (drop off (vb_disk v))\<rparr>))"

definition VirtioBlock_write_window_to_sector :: "virtio_block \<Rightarrow> unit result \<times> virtio_block" where
  "VirtioBlock_write_window_to_sector v =
     (case VirtioBlock_sector_offset v (vb_sector v) of
        None \<Rightarrow> (Inl PeripheralErr, v)
      | Some off \<Rightarrow> (Inr (), v\<lparr>vb_disk := poke_list off (vb_data_window v) (vb_disk v)\<rparr>))"

subsection \<open>Commands and notifications\<close>

text \<open>The three assignments that record how a request ended, repeated in the source.\<close>

definition virtio_outcome :: "u32 \<Rightarrow> u32 \<Rightarrow> u8 \<Rightarrow> virtio_block \<Rightarrow> virtio_block" where
  "virtio_outcome res st rs v = v\<lparr>vb_result := res, vb_status := st, vb_req_status := rs\<rparr>"

definition virtio_raise_irq :: "virtio_block \<Rightarrow> virtio_block" where
  "virtio_raise_irq v = v\<lparr>vb_irq_pending := True, vb_irq_raised_count := sat_add64 (vb_irq_raised_count v) 1\<rparr>"

definition VirtioBlock_execute_command :: "virtio_block \<Rightarrow> u32 \<Rightarrow> virtio_block" where
  "VirtioBlock_execute_command v cmd =
     (let v = v\<lparr>vb_command_exec_count := sat_add64 (vb_command_exec_count v) 1, vb_command := cmd\<rparr>;
          v = (if cmd = READ_SECTOR then
                 case VirtioBlock_read_sector_to_window v of
                   (Inr _, v) \<Rightarrow> virtio_outcome RESULT_OK 1 0 v | (Inl _, v) \<Rightarrow> virtio_outcome RESULT_IO_ERR 0 1 v
               else if cmd = WRITE_SECTOR then
                 case VirtioBlock_write_window_to_sector v of
                   (Inr _, v) \<Rightarrow> virtio_outcome RESULT_OK 1 0 v | (Inl _, v) \<Rightarrow> virtio_outcome RESULT_IO_ERR 0 1 v
               else virtio_outcome RESULT_BAD_CMD 0 1 v)
      in virtio_raise_irq v)"

definition VirtioBlock_descriptor_mode_enabled :: "virtio_block \<Rightarrow> bool" where
  "VirtioBlock_descriptor_mode_enabled v \<longleftrightarrow>
     vb_queue_desc_addr v \<noteq> 0 \<and> vb_queue_avail_addr v \<noteq> 0 \<and> vb_queue_used_addr v \<noteq> 0"

definition VirtioBlock_queue_is_ready :: "virtio_block \<Rightarrow> bool" where
  "VirtioBlock_queue_is_ready v \<longleftrightarrow> vb_queue_ready v \<or> vb_queue_pfn v \<noteq> 0"

definition VirtioBlock_execute_queue_notify :: "virtio_block \<Rightarrow> u32 \<Rightarrow> virtio_block" where
  "VirtioBlock_execute_queue_notify v queue_selector =
     (let v = v\<lparr>vb_queue_notify_count := sat_add64 (vb_queue_notify_count v) 1\<rparr> in
      if VirtioBlock_descriptor_mode_enabled v then v\<lparr>vb_pending_queue_notify := Some queue_selector\<rparr>
      else if \<not> VirtioBlock_queue_is_ready v \<or> vb_queue_num v = 0 then virtio_outcome RESULT_IO_ERR 0 1 v
      else if vb_queue_avail_idx v = vb_queue_used_idx v then virtio_outcome RESULT_IO_ERR 0 1 v
      else
        let op_result = (if vb_req_type v = REQ_IN then VirtioBlock_read_sector_to_window v
                         else if vb_req_type v = REQ_OUT then VirtioBlock_write_window_to_sector v
                         else (Inl PeripheralErr, v));
            v = (case op_result of
                   (Inr _, v) \<Rightarrow>
                     (let v = virtio_outcome RESULT_OK 1 0 v;
                          used_slot = unat (vb_queue_used_idx v) mod unat (vb_queue_num v)
                      in v\<lparr>vb_queue_used_ring := (vb_queue_used_ring v)[used_slot := vb_queue_head v],
                           vb_last_used_head := vb_queue_head v,
                           vb_queue_used_idx := vb_queue_used_idx v + 1\<rparr>)
                 | (Inl _, v) \<Rightarrow> virtio_outcome RESULT_IO_ERR 0 1 v)
        in virtio_raise_irq v)"

subsection \<open>Registers\<close>

definition set_low :: "u64 \<Rightarrow> u32 \<Rightarrow> u64" where
  "set_low x value = (x AND 0xFFFFFFFF00000000) OR ucast value"

definition set_high :: "u64 \<Rightarrow> u32 \<Rightarrow> u64" where
  "set_high x value = (x AND 0x00000000FFFFFFFF) OR push_bit 32 (ucast value)"

definition high_half :: "u64 \<Rightarrow> u32" where
  "high_half x = ucast (drop_bit 32 x)"

definition VirtioBlock_read_reg_u32 :: "virtio_block \<Rightarrow> u32 \<Rightarrow> u32" where
  "VirtioBlock_read_reg_u32 v reg =
     (if reg = VREG_MAGIC then 0x74726976
      else if reg = VREG_VERSION then 1
      else if reg = VREG_DEVICE_ID then 2
      else if reg = VREG_VENDOR_ID then 0x554D4551
      else if reg = VREG_DEVICE_FEATURES then vb_device_features v
      else if reg = VREG_DRIVER_FEATURES then vb_driver_features v
      else if reg = VREG_GUEST_PAGE_SIZE then vb_guest_page_size v
      else if reg = VREG_QUEUE_SEL then vb_queue_sel v
      else if reg = VREG_QUEUE_NUM_MAX_LEGACY then (if vb_queue_sel v = 0 then of_nat QUEUE_RING_MAX else 0)
      else if reg = VREG_QUEUE_NUM_LEGACY then ucast (vb_queue_num v)
      else if reg = VREG_QUEUE_ALIGN then vb_queue_align v
      else if reg = VREG_QUEUE_PFN then vb_queue_pfn v
      else if reg = VREG_QUEUE_READY_LEGACY then of_bool (vb_queue_ready v)
      else if reg = VREG_QUEUE_NOTIFY_LEGACY then 0
      else if reg = VREG_INTERRUPT_STATUS then (if vb_irq_pending v then 1 else 0)
      else if reg = VREG_INTERRUPT_ACK then 0
      else if reg = VREG_STATUS then vb_status v
      else if reg = VREG_QUEUE_DESC_LOW then ucast (vb_queue_desc_addr v)
      else if reg = VREG_QUEUE_DESC_HIGH then high_half (vb_queue_desc_addr v)
      else if reg = VREG_QUEUE_AVAIL_LOW then ucast (vb_queue_avail_addr v)
      else if reg = VREG_QUEUE_AVAIL_HIGH then high_half (vb_queue_avail_addr v)
      else if reg = VREG_QUEUE_USED_LOW then ucast (vb_queue_used_addr v)
      else if reg = VREG_QUEUE_USED_HIGH then high_half (vb_queue_used_addr v)
      else if reg = VREG_QUEUE_NUM_MAX then of_nat QUEUE_RING_MAX
      else if reg = VREG_QUEUE_NUM then ucast (vb_queue_num v)
      else if reg = VREG_QUEUE_READY then of_bool (vb_queue_ready v)
      else if reg = VREG_SECTOR_LOW then ucast (vb_sector v)
      else if reg = VREG_SECTOR_HIGH then high_half (vb_sector v)
      else if reg = VREG_COMMAND then vb_command v
      else if reg = VREG_RESULT then vb_result v
      else if reg = VREG_CONTROL then vb_control v
      else if reg = VREG_REQ_TYPE then vb_req_type v
      else if reg = VREG_REQ_STATUS then ucast (vb_req_status v)
      else if reg = VREG_QUEUE_HEAD then ucast (vb_queue_head v)
      else if reg = VREG_QUEUE_AVAIL_IDX then ucast (vb_queue_avail_idx v)
      else if reg = VREG_QUEUE_USED_IDX then ucast (vb_queue_used_idx v)
      else if reg = VREG_LAST_USED_HEAD then ucast (vb_last_used_head v)
      else if VREG_QUEUE_USED_ELEM_BASE \<le> reg \<and> reg < VREG_QUEUE_USED_ELEM_END
      then ucast (vb_queue_used_ring v ! unat ((reg - VREG_QUEUE_USED_ELEM_BASE) div 4))
      else 0)"

text \<open>A page frame number for queue 0 places its three rings.\<close>

definition virtio_set_pfn :: "virtio_block \<Rightarrow> u32 \<Rightarrow> virtio_block" where
  "virtio_set_pfn v value =
     (let v = v\<lparr>vb_queue_pfn := value\<rparr> in
      if vb_queue_sel v = 0 \<and> vb_queue_pfn v \<noteq> 0 then
        let base = ucast (vb_queue_pfn v) * ucast (vb_guest_page_size v) :: u64
        in v\<lparr>vb_queue_desc_addr := base, vb_queue_avail_addr := base + ucast (vb_queue_num v) * 16,
             vb_queue_used_addr := base + ucast (vb_queue_align v)\<rparr>
      else v)"

definition VirtioBlock_acknowledge_interrupt :: "virtio_block \<Rightarrow> virtio_block" where
  "VirtioBlock_acknowledge_interrupt v =
     (let v = (if vb_irq_pending v then v\<lparr>vb_irq_ack_count := sat_add64 (vb_irq_ack_count v) 1\<rparr> else v)
      in v\<lparr>vb_irq_pending := False\<rparr>)"

definition virtio_queue_num :: "u32 \<Rightarrow> u16" where
  "virtio_queue_num value = of_nat (min (unat value) QUEUE_RING_MAX)"

definition VirtioBlock_write_reg_u32 :: "virtio_block \<Rightarrow> u32 \<Rightarrow> u32 \<Rightarrow> virtio_block" where
  "VirtioBlock_write_reg_u32 v reg value =
     (if reg = VREG_STATUS then v\<lparr>vb_status := value\<rparr>
      else if reg = VREG_DRIVER_FEATURES then v\<lparr>vb_driver_features := value\<rparr>
      else if reg = VREG_GUEST_PAGE_SIZE then (if value \<noteq> 0 then v\<lparr>vb_guest_page_size := value\<rparr> else v)
      else if reg = VREG_QUEUE_SEL then v\<lparr>vb_queue_sel := value\<rparr>
      else if reg = VREG_QUEUE_NUM_LEGACY then v\<lparr>vb_queue_num := virtio_queue_num value\<rparr>
      else if reg = VREG_QUEUE_ALIGN then (if value \<noteq> 0 then v\<lparr>vb_queue_align := value\<rparr> else v)
      else if reg = VREG_QUEUE_PFN then virtio_set_pfn v value
      else if reg = VREG_QUEUE_READY_LEGACY then v\<lparr>vb_queue_ready := (value AND 0x1 \<noteq> 0)\<rparr>
      else if reg = VREG_QUEUE_NOTIFY_LEGACY then VirtioBlock_execute_queue_notify v value
      else if reg = VREG_INTERRUPT_ACK then
        (if value AND 0x1 \<noteq> 0 then VirtioBlock_acknowledge_interrupt v else v)
      else if reg = VREG_QUEUE_DESC_LOW then v\<lparr>vb_queue_desc_addr := set_low (vb_queue_desc_addr v) value\<rparr>
      else if reg = VREG_QUEUE_DESC_HIGH then v\<lparr>vb_queue_desc_addr := set_high (vb_queue_desc_addr v) value\<rparr>
      else if reg = VREG_QUEUE_AVAIL_LOW then v\<lparr>vb_queue_avail_addr := set_low (vb_queue_avail_addr v) value\<rparr>
      else if reg = VREG_QUEUE_AVAIL_HIGH then v\<lparr>vb_queue_avail_addr := set_high (vb_queue_avail_addr v) value\<rparr>
      else if reg = VREG_QUEUE_USED_LOW then v\<lparr>vb_queue_used_addr := set_low (vb_queue_used_addr v) value\<rparr>
      else if reg = VREG_QUEUE_USED_HIGH then v\<lparr>vb_queue_used_addr := set_high (vb_queue_used_addr v) value\<rparr>
      else if reg = VREG_QUEUE_NUM then v\<lparr>vb_queue_num := virtio_queue_num value\<rparr>
      else if reg = VREG_QUEUE_READY then v\<lparr>vb_queue_ready := (value AND 0x1 \<noteq> 0)\<rparr>
      else if reg = VREG_QUEUE_NOTIFY then VirtioBlock_execute_queue_notify v value
      else if reg = VREG_SECTOR_LOW then v\<lparr>vb_sector := set_low (vb_sector v) value\<rparr>
      else if reg = VREG_SECTOR_HIGH then v\<lparr>vb_sector := set_high (vb_sector v) value\<rparr>
      else if reg = VREG_COMMAND then VirtioBlock_execute_command v value
      else if reg = VREG_RESULT then v\<lparr>vb_result := value\<rparr>
      else if reg = VREG_CONTROL then v\<lparr>vb_control := value\<rparr>
      else if reg = VREG_REQ_TYPE then v\<lparr>vb_req_type := value\<rparr>
      else if reg = VREG_REQ_STATUS then v\<lparr>vb_req_status := ucast value\<rparr>
      else if reg = VREG_QUEUE_HEAD then v\<lparr>vb_queue_head := ucast value\<rparr>
      else if reg = VREG_QUEUE_AVAIL_IDX then v\<lparr>vb_queue_avail_idx := ucast value\<rparr>
      else if reg = VREG_QUEUE_USED_IDX then v\<lparr>vb_queue_used_idx := ucast value\<rparr>
      else if reg = VREG_LAST_USED_HEAD then v\<lparr>vb_last_used_head := ucast value\<rparr>
      else v)"

definition in_data_window :: "u32 \<Rightarrow> bool" where
  "in_data_window off \<longleftrightarrow> DATA_WINDOW_START \<le> off \<and> off < DATA_WINDOW_END"

definition VirtioBlock_read_u8 :: "virtio_block \<Rightarrow> u32 \<Rightarrow> u8" where
  "VirtioBlock_read_u8 v off =
     (if in_data_window off then vb_data_window v ! unat (off - DATA_WINDOW_START)
      else
        let reg = off AND NOT 0x3; shift = unat (off AND 0x3) * 8
        in ucast (drop_bit shift (VirtioBlock_read_reg_u32 v reg) AND 0xFF))"

definition VirtioBlock_write_u8 :: "virtio_block \<Rightarrow> u32 \<Rightarrow> u8 \<Rightarrow> virtio_block" where
  "VirtioBlock_write_u8 v off value =
     (if in_data_window off
      then v\<lparr>vb_data_window := (vb_data_window v)[unat (off - DATA_WINDOW_START) := value]\<rparr>
      else
        let reg = off AND NOT 0x3; shift = unat (off AND 0x3) * 8 in
        if reg = VREG_COMMAND \<or> reg = VREG_QUEUE_NOTIFY
        then (if shift = 0 then VirtioBlock_write_reg_u32 v reg (ucast value) else v)
        else if reg = VREG_QUEUE_NOTIFY_LEGACY \<or> reg = VREG_INTERRUPT_ACK
        then (if shift = 0 then VirtioBlock_write_reg_u32 v reg (ucast value) else v)
        else
          let current = (VirtioBlock_read_reg_u32 v reg AND NOT (push_bit shift 0xFF)) OR push_bit shift (ucast value)
          in VirtioBlock_write_reg_u32 v reg current)"

definition VirtioBlock_read :: "virtio_block \<Rightarrow> addr \<Rightarrow> u8 result" where
  "VirtioBlock_read v off =
     (if off \<ge> of_nat VIRTIO_BLK_SIZE then Inl (InvalidAddress off) else Inr (VirtioBlock_read_u8 v off))"

definition VirtioBlock_write :: "virtio_block \<Rightarrow> addr \<Rightarrow> u8 \<Rightarrow> unit result \<times> virtio_block" where
  "VirtioBlock_write v off value =
     (if off \<ge> of_nat VIRTIO_BLK_SIZE then (Inl (InvalidAddress off), v) else (Inr (), VirtioBlock_write_u8 v off value))"

definition VirtioBlock_has_interrupt :: "virtio_block \<Rightarrow> bool" where
  "VirtioBlock_has_interrupt v = vb_irq_pending v"

subsection \<open>Guest memory\<close>

text \<open>The two methods of \<open>VirtioGuestMemory\<close> on the memories of the bus are the searches \<open>read_regions\<close> and
  \<open>write_regions\<close> of the bus.\<close>

definition VirtioBlock_guest_addr :: "u64 \<Rightarrow> addr result" where
  "VirtioBlock_guest_addr raw = (if raw > 0xFFFFFFFF then Inl PeripheralErr else Inr (ucast raw))"

definition VirtioBlock_read_guest_u8 :: "mem_regions \<Rightarrow> u64 \<Rightarrow> u8 result" where
  "VirtioBlock_read_guest_u8 ms a = bind_res (VirtioBlock_guest_addr a) (\<lambda>a. read_regions a ms)"

definition VirtioBlock_write_guest_u8 :: "mem_regions \<Rightarrow> u64 \<Rightarrow> u8 \<Rightarrow> unit result \<times> mem_regions" where
  "VirtioBlock_write_guest_u8 ms a value =
     (case VirtioBlock_guest_addr a of Inl e \<Rightarrow> (Inl e, ms) | Inr a \<Rightarrow> write_regions a value ms)"

definition VirtioBlock_read_guest_u16 :: "mem_regions \<Rightarrow> u64 \<Rightarrow> u16 result" where
  "VirtioBlock_read_guest_u16 ms a =
     bind_res (VirtioBlock_read_guest_u8 ms a) (\<lambda>b0.
     bind_res (VirtioBlock_read_guest_u8 ms (a + 1)) (\<lambda>b1. Inr (ucast b0 OR push_bit 8 (ucast b1))))"

definition VirtioBlock_write_guest_u16 :: "mem_regions \<Rightarrow> u64 \<Rightarrow> u16 \<Rightarrow> unit result \<times> mem_regions" where
  "VirtioBlock_write_guest_u16 ms a value =
     bind_st (VirtioBlock_write_guest_u8 ms a (ucast (value AND 0xFF))) (\<lambda>_ ms.
     VirtioBlock_write_guest_u8 ms (a + 1) (ucast (drop_bit 8 value)))"

text \<open>The loop of the two wider reads, over the offsets of the bytes.\<close>

fun guest_read_for :: "nat list \<Rightarrow> mem_regions \<Rightarrow> u64 \<Rightarrow> 'w::len word \<Rightarrow> 'w word result" where
  "guest_read_for [] ms a value = Inr value"
| "guest_read_for (i # is) ms a value =
     bind_res (VirtioBlock_read_guest_u8 ms (a + of_nat i)) (\<lambda>b.
       guest_read_for is ms a (value OR push_bit (i * 8) (ucast b)))"

definition VirtioBlock_read_guest_u32 :: "mem_regions \<Rightarrow> u64 \<Rightarrow> u32 result" where
  "VirtioBlock_read_guest_u32 ms a = guest_read_for [0..<4] ms a 0"

definition VirtioBlock_read_guest_u64 :: "mem_regions \<Rightarrow> u64 \<Rightarrow> u64 result" where
  "VirtioBlock_read_guest_u64 ms a = guest_read_for [0..<8] ms a 0"

fun guest_write_for :: "nat list \<Rightarrow> mem_regions \<Rightarrow> u64 \<Rightarrow> u32 \<Rightarrow> unit result \<times> mem_regions" where
  "guest_write_for [] ms a value = (Inr (), ms)"
| "guest_write_for (i # is) ms a value =
     bind_st (VirtioBlock_write_guest_u8 ms (a + of_nat i) (ucast (drop_bit (i * 8) value AND 0xFF))) (\<lambda>_ ms.
       guest_write_for is ms a value)"

definition VirtioBlock_write_guest_u32 :: "mem_regions \<Rightarrow> u64 \<Rightarrow> u32 \<Rightarrow> unit result \<times> mem_regions" where
  "VirtioBlock_write_guest_u32 ms a value = guest_write_for [0..<4] ms a value"

subsection \<open>Descriptor chains\<close>

definition VirtioBlock_descriptor_offset :: "u16 \<Rightarrow> u64" where
  "VirtioBlock_descriptor_offset index = ucast index * 16"

definition VirtioBlock_validate_descriptor_index :: "virtio_block \<Rightarrow> u16 \<Rightarrow> unit result" where
  "VirtioBlock_validate_descriptor_index v index =
     (if unat index \<ge> unat (vb_queue_num v) then Inl PeripheralErr else Inr ())"

definition VirtioBlock_read_descriptor :: "virtio_block \<Rightarrow> mem_regions \<Rightarrow> u16 \<Rightarrow> virtq_desc result" where
  "VirtioBlock_read_descriptor v ms index =
     (let desc_addr = vb_queue_desc_addr v + VirtioBlock_descriptor_offset index in
      bind_res (VirtioBlock_read_guest_u64 ms desc_addr) (\<lambda>a.
      bind_res (VirtioBlock_read_guest_u32 ms (desc_addr + 8)) (\<lambda>len.
      bind_res (VirtioBlock_read_guest_u16 ms (desc_addr + 12)) (\<lambda>flags.
      bind_res (VirtioBlock_read_guest_u16 ms (desc_addr + 14)) (\<lambda>next_index.
        Inr \<lparr>vd_addr = a, vd_len = len, vd_flags = flags, vd_next = next_index\<rparr>)))))"

text \<open>The two transfer loops; an error leaves what was moved before it.\<close>

fun virtio_in_for :: "nat list \<Rightarrow> nat \<Rightarrow> u64 \<Rightarrow> virtio_block \<times> mem_regions \<Rightarrow> unit result \<times> virtio_block \<times> mem_regions" where
  "virtio_in_for [] off a (v, ms) = (Inr (), v, ms)"
| "virtio_in_for (i # is) off a (v, ms) =
     (let byte = vb_disk v ! (off + i);
          v = (if i < SECTOR_SIZE then v\<lparr>vb_data_window := (vb_data_window v)[i := byte]\<rparr> else v)
      in case VirtioBlock_write_guest_u8 ms (a + of_nat i) byte of
           (Inl e, ms) \<Rightarrow> (Inl e, v, ms)
         | (Inr _, ms) \<Rightarrow> virtio_in_for is off a (v, ms))"

fun virtio_out_for :: "nat list \<Rightarrow> nat \<Rightarrow> u64 \<Rightarrow> virtio_block \<times> mem_regions \<Rightarrow> unit result \<times> virtio_block \<times> mem_regions" where
  "virtio_out_for [] off a (v, ms) = (Inr (), v, ms)"
| "virtio_out_for (i # is) off a (v, ms) =
     (case VirtioBlock_read_guest_u8 ms (a + of_nat i) of
        Inl e \<Rightarrow> (Inl e, v, ms)
      | Inr byte \<Rightarrow>
          let v = (if i < SECTOR_SIZE then v\<lparr>vb_data_window := (vb_data_window v)[i := byte]\<rparr> else v)
          in virtio_out_for is off a (v\<lparr>vb_disk := (vb_disk v)[off + i := byte]\<rparr>, ms))"

text \<open>The part of \<open>process_descriptor_chain\<close> after the chain has been read.\<close>

definition virtio_transfer ::
  "virtio_block \<Rightarrow> mem_regions \<Rightarrow> virtq_desc \<Rightarrow> u32 \<Rightarrow> u64 \<Rightarrow> u32 result \<times> virtio_block \<times> mem_regions" where
  "virtio_transfer v ms data_desc req_type sector =
     (let v = v\<lparr>vb_req_type := req_type, vb_sector := sector\<rparr>;
          transfer_len = unat (vd_len data_desc)
      in case VirtioBlock_sector_offset v sector of
           None \<Rightarrow> (Inl PeripheralErr, v, ms)
         | Some off \<Rightarrow>
             if off + transfer_len \<ge> 2 ^ 64 then (Inl PeripheralErr, v, ms)
             else if off + transfer_len > length (vb_disk v) then (Inl PeripheralErr, v, ms)
             else if req_type = REQ_IN then
               bind_st (virtio_in_for [0..<transfer_len] off (vd_addr data_desc) (v, ms)) (\<lambda>_ s. (Inr (of_nat transfer_len), s))
             else if req_type = REQ_OUT then
               bind_st (virtio_out_for [0..<transfer_len] off (vd_addr data_desc) (v, ms)) (\<lambda>_ s. (Inr (of_nat transfer_len), s))
             else (Inl PeripheralErr, v, ms))"

text \<open>What it reads first: the two descriptors and the request header.\<close>

definition virtio_read_request :: "virtio_block \<Rightarrow> u16 \<Rightarrow> mem_regions \<Rightarrow> (virtq_desc \<times> u32 \<times> u64) result" where
  "virtio_read_request v head ms =
     bind_res (VirtioBlock_validate_descriptor_index v head) (\<lambda>_.
     bind_res (VirtioBlock_read_descriptor v ms head) (\<lambda>request_desc.
       if vd_len request_desc < REQUEST_HEADER_LEN then Inl PeripheralErr
       else if vd_flags request_desc AND VIRTQ_DESC_F_NEXT = 0 then Inl PeripheralErr
       else
         bind_res (VirtioBlock_validate_descriptor_index v (vd_next request_desc)) (\<lambda>_.
         bind_res (VirtioBlock_read_descriptor v ms (vd_next request_desc)) (\<lambda>data_desc.
           if vd_len data_desc = 0 then Inl PeripheralErr
           else
             bind_res (VirtioBlock_read_guest_u32 ms (vd_addr request_desc)) (\<lambda>req_type.
             bind_res (VirtioBlock_read_guest_u64 ms (vd_addr request_desc + 8)) (\<lambda>sector.
               Inr (data_desc, req_type, sector)))))))"

definition VirtioBlock_process_descriptor_chain ::
  "virtio_block \<Rightarrow> u16 \<Rightarrow> mem_regions \<Rightarrow> u32 result \<times> virtio_block \<times> mem_regions" where
  "VirtioBlock_process_descriptor_chain v head ms =
     (case virtio_read_request v head ms of
        Inl e \<Rightarrow> (Inl e, v, ms)
      | Inr (data_desc, req_type, sector) \<Rightarrow> virtio_transfer v ms data_desc req_type sector)"

definition VirtioBlock_resolve_status_desc :: "virtio_block \<Rightarrow> u16 \<Rightarrow> mem_regions \<Rightarrow> virtq_desc result" where
  "VirtioBlock_resolve_status_desc v head ms =
     bind_res (VirtioBlock_validate_descriptor_index v head) (\<lambda>_.
     bind_res (VirtioBlock_read_descriptor v ms head) (\<lambda>request_desc.
       if vd_flags request_desc AND VIRTQ_DESC_F_NEXT = 0 then Inl PeripheralErr
       else
         bind_res (VirtioBlock_validate_descriptor_index v (vd_next request_desc)) (\<lambda>_.
         bind_res (VirtioBlock_read_descriptor v ms (vd_next request_desc)) (\<lambda>data_desc.
           if vd_flags data_desc AND VIRTQ_DESC_F_NEXT = 0 then Inl PeripheralErr
           else
             bind_res (VirtioBlock_validate_descriptor_index v (vd_next data_desc)) (\<lambda>_.
             bind_res (VirtioBlock_read_descriptor v ms (vd_next data_desc)) (\<lambda>status_desc.
               if vd_len status_desc < 1 then Inl PeripheralErr else Inr status_desc))))))"

definition VirtioBlock_write_used_elem :: "virtio_block \<Rightarrow> mem_regions \<Rightarrow> nat \<Rightarrow> u32 \<Rightarrow> u32 \<Rightarrow> unit result \<times> mem_regions" where
  "VirtioBlock_write_used_elem v ms slot id_value len =
     (let elem_addr = vb_queue_used_addr v + 4 + of_nat slot * 8 in
      bind_st (VirtioBlock_write_guest_u32 ms elem_addr id_value) (\<lambda>_ ms.
        VirtioBlock_write_guest_u32 ms (elem_addr + 4) len))"

text \<open>The end of a request: the status byte, the used element and the used index; their errors are ignored.\<close>

definition virtio_complete ::
  "u16 \<Rightarrow> nat \<Rightarrow> u8 \<Rightarrow> u32 \<Rightarrow> virtio_block \<times> mem_regions \<Rightarrow> virtio_block \<times> mem_regions" where
  "virtio_complete head ring_slot status_byte used_len = (\<lambda>(v, ms).
     let ms = (case VirtioBlock_resolve_status_desc v head ms of
                 Inr status_desc \<Rightarrow>
                   (if vd_len status_desc \<ge> 1 then snd (VirtioBlock_write_guest_u8 ms (vd_addr status_desc) status_byte) else ms)
               | Inl _ \<Rightarrow> ms);
         ms = snd (VirtioBlock_write_used_elem v ms ring_slot (ucast head) used_len);
         v = v\<lparr>vb_queue_used_ring := (vb_queue_used_ring v)[ring_slot := head], vb_last_used_head := head,
               vb_queue_used_idx := vb_queue_used_idx v + 1\<rparr>;
         ms = snd (VirtioBlock_write_guest_u16 ms (vb_queue_used_addr v + 2) (vb_queue_used_idx v))
     in (virtio_raise_irq v, ms))"

definition virtio_serve :: "virtio_block \<Rightarrow> u16 \<Rightarrow> nat \<Rightarrow> mem_regions \<Rightarrow> virtio_block \<times> mem_regions" where
  "virtio_serve v head ring_slot ms =
     (case VirtioBlock_process_descriptor_chain v head ms of
        (Inr len, v, ms) \<Rightarrow>
          let v = virtio_outcome RESULT_OK 1 VIRTIO_BLK_S_OK
                    (v\<lparr>vb_descriptor_success_count := sat_add64 (vb_descriptor_success_count v) 1\<rparr>)
          in virtio_complete head ring_slot VIRTIO_BLK_S_OK len (v, ms)
      | (Inl _, v, ms) \<Rightarrow>
          let v = virtio_outcome RESULT_IO_ERR 0 VIRTIO_BLK_S_IOERR
                    (v\<lparr>vb_descriptor_error_count := sat_add64 (vb_descriptor_error_count v) 1\<rparr>)
          in virtio_complete head ring_slot VIRTIO_BLK_S_IOERR 0 (v, ms))"

definition VirtioBlock_execute_descriptor_queue :: "virtio_block \<Rightarrow> mem_regions \<Rightarrow> unit result \<times> virtio_block \<times> mem_regions" where
  "VirtioBlock_execute_descriptor_queue v ms =
     (if \<not> VirtioBlock_queue_is_ready v \<or> vb_queue_num v = 0 then
        (Inr (), virtio_outcome RESULT_IO_ERR 0 VIRTIO_BLK_S_IOERR
           (v\<lparr>vb_descriptor_not_ready_count := sat_add64 (vb_descriptor_not_ready_count v) 1\<rparr>), ms)
      else case VirtioBlock_read_guest_u16 ms (vb_queue_avail_addr v + 2) of
        Inl _ \<Rightarrow> (Inr (), virtio_outcome RESULT_IO_ERR 0 VIRTIO_BLK_S_IOERR v, ms)
      | Inr avail_idx \<Rightarrow>
          let v = v\<lparr>vb_queue_avail_idx := avail_idx\<rparr> in
          if avail_idx = vb_queue_used_idx v then
            (Inr (), virtio_outcome RESULT_IO_ERR 0 VIRTIO_BLK_S_IOERR
               (v\<lparr>vb_descriptor_no_avail_count := sat_add64 (vb_descriptor_no_avail_count v) 1\<rparr>), ms)
          else
            let ring_slot = unat (vb_queue_used_idx v) mod unat (vb_queue_num v) in
            case VirtioBlock_read_guest_u16 ms (vb_queue_avail_addr v + 4 + of_nat ring_slot * 2) of
              Inl _ \<Rightarrow> (Inr (), virtio_outcome RESULT_IO_ERR 0 VIRTIO_BLK_S_IOERR v, ms)
            | Inr head \<Rightarrow> (Inr (), virtio_serve (v\<lparr>vb_queue_head := head\<rparr>) head ring_slot ms))"

definition VirtioBlock_has_pending_descriptor_notify :: "virtio_block \<Rightarrow> bool" where
  "VirtioBlock_has_pending_descriptor_notify v \<longleftrightarrow> vb_pending_queue_notify v \<noteq> None"

definition VirtioBlock_process_pending_descriptor_notify ::
  "virtio_block \<Rightarrow> mem_regions \<Rightarrow> unit result \<times> virtio_block \<times> mem_regions" where
  "VirtioBlock_process_pending_descriptor_notify v ms =
     (case vb_pending_queue_notify v of
        None \<Rightarrow> (Inr (), v, ms)
      | Some queue_selector \<Rightarrow>
          VirtioBlock_execute_descriptor_queue
            (v\<lparr>vb_pending_queue_notify := None, vb_descriptor_notify_count := sat_add64 (vb_descriptor_notify_count v) 1\<rparr>) ms)"

definition VirtioBlock_try_execute_pending :: "virtio_block \<Rightarrow> mem_regions \<Rightarrow> bool result \<times> virtio_block \<times> mem_regions" where
  "VirtioBlock_try_execute_pending v ms =
     (if \<not> VirtioBlock_has_pending_descriptor_notify v then (Inr False, v, ms)
      else bind_st (VirtioBlock_process_pending_descriptor_notify v ms) (\<lambda>_ s. (Inr True, s)))"

text \<open>The device as the bus sees it.\<close>

definition virtio_device_ops :: "virtio_block other_ops" where
  "virtio_device_ops =
     \<lparr>oo_read = VirtioBlock_read, oo_write = VirtioBlock_write, oo_base_addr = vb_base, oo_size = (\<lambda>_. VIRTIO_BLK_SIZE),
      oo_name = (\<lambda>_. ''VirtIO-Block''), oo_has_interrupt = VirtioBlock_has_interrupt,
      oo_acknowledge = VirtioBlock_acknowledge_interrupt, oo_try_execute = VirtioBlock_try_execute_pending\<rparr>"

end
