(* ===== verification/Guest_Bytes.thy ===== *)
theory Guest_Bytes
  imports Dma_Memory Virtio_Model
begin

text \<open>
  Runs of bytes of guest memory, as the block device reads and writes them: what lies in RAM from an address on, the
  little-endian bytes of a value, and what the device's reads and writes of values of one to eight bytes do to them.
\<close>

definition ram_bytes :: "mem_regions \<Rightarrow> addr \<Rightarrow> u8 list \<Rightarrow> bool" where
  "ram_bytes ms a bs \<longleftrightarrow> unat a + length bs \<le> 2 ^ 32 \<and> (\<forall>i < length bs. ram_at (a + of_nat i) ms = Some (bs ! i))"

definition le_list :: "nat \<Rightarrow> 'a::len word \<Rightarrow> u8 list" where
  "le_list n w = map (\<lambda>i. byte_at i w) [0..<n]"

definition span :: "addr \<Rightarrow> nat \<Rightarrow> addr set" where
  "span a n = {c. unat a \<le> unat c \<and> unat c < unat a + n}"

text \<open>Two memories that agree outside a set of addresses.\<close>

definition same_outside :: "addr set \<Rightarrow> mem_regions \<Rightarrow> mem_regions \<Rightarrow> bool" where
  "same_outside S ms ms' \<longleftrightarrow> (\<forall>c. c \<notin> S \<longrightarrow> ram_at c ms' = ram_at c ms)"

lemma length_le_list [simp]: "length (le_list n w) = n"
  by (simp add: le_list_def)

lemma le_list_0: "le_list 0 w = []"
  by (simp add: le_list_def)

lemma nth_le_list [simp]: "i < n \<Longrightarrow> le_list n w ! i = byte_at i w"
  by (simp add: le_list_def)

lemma same_outside_refl [simp]: "same_outside S ms ms"
  by (simp add: same_outside_def)

lemma same_outside_trans: "same_outside S ms ms1 \<Longrightarrow> same_outside T ms1 ms2 \<Longrightarrow> same_outside (S \<union> T) ms ms2"
  by (simp add: same_outside_def)

lemma same_outside_mono: "same_outside S ms ms' \<Longrightarrow> S \<subseteq> T \<Longrightarrow> same_outside T ms ms'"
  by (auto simp: same_outside_def)

subsection \<open>Addresses\<close>

lemma addr_plus:
  assumes "unat (a :: addr) + n < 2 ^ 32"
  shows "unat (a + of_nat n) = unat a + n" "(ucast a :: u64) + of_nat n = ucast (a + of_nat n)"
proof -
  have n: "unat (of_nat n :: addr) = n" using assms by (simp add: unat_of_nat)
  then show "unat (a + of_nat n) = unat a + n" using assms by (subst unat_add_small) simp_all
  show "(ucast a :: u64) + of_nat n = ucast (a + of_nat n)" using ucast_add_small [of a n] assms by simp
qed

lemma span_elem: "unat a + n \<le> 2 ^ 32 \<Longrightarrow> c \<in> span a n \<longleftrightarrow> (\<exists>i < n. c = a + of_nat i)"
proof
  assume n: "unat a + n \<le> 2 ^ 32" and c: "c \<in> span a n"
  let ?i = "unat c - unat a"
  have "unat (a + of_nat ?i) = unat c" using n c by (subst addr_plus(1)) (auto simp: span_def)
  then have "c = a + of_nat ?i" by (simp only: word_unat_eq_iff)
  then show "\<exists>i < n. c = a + of_nat i" using c by (intro exI [of _ ?i]) (auto simp: span_def)
next
  assume "unat a + n \<le> 2 ^ 32" "\<exists>i < n. c = a + of_nat i"
  then show "c \<in> span a n" using addr_plus(1) [of a] by (auto simp: span_def)
qed

lemma span_zero [simp]: "span a 0 = {}"
  by (auto simp: span_def)

lemma span_mono: "unat a \<le> unat b \<Longrightarrow> unat b + m \<le> unat a + n \<Longrightarrow> span b m \<subseteq> span a n"
  by (auto simp: span_def)

lemma span_one: "span a 1 = {a}"
  by (auto simp: span_def word_unat_eq_iff)

lemma next_eq: "a + of_nat i = a + of_nat j \<longleftrightarrow> i = j" if "unat (a :: addr) + max i j < 2 ^ 32"
proof
  assume "a + of_nat i = a + of_nat j"
  then have "unat (a + of_nat i) = unat (a + of_nat j)" by simp
  then show "i = j" using addr_plus(1) [of a i] addr_plus(1) [of a j] that by simp
qed simp

subsection \<open>Bytes in memory\<close>

lemma ram_bytes_cong:
  assumes "ram_bytes ms a bs" "same_outside S ms ms'" "S \<inter> span a (length bs) = {}"
  shows "ram_bytes ms' a bs"
proof -
  have "ram_at (a + of_nat i) ms' = ram_at (a + of_nat i) ms" if "i < length bs" for i
  proof -
    have "a + of_nat i \<in> span a (length bs)" using that assms(1) span_elem [of a "length bs"] unfolding ram_bytes_def by blast
    then show ?thesis using assms(2,3) by (auto simp: same_outside_def)
  qed
  then show ?thesis using assms(1) by (simp add: ram_bytes_def)
qed

lemma ram_bytes_append:
  "ram_bytes ms a (xs @ ys) \<Longrightarrow> ram_bytes ms a xs"
  "ram_bytes ms a (xs @ ys) \<Longrightarrow> ys \<noteq> [] \<Longrightarrow> ram_bytes ms (a + of_nat (length xs)) ys"
proof -
  assume r: "ram_bytes ms a (xs @ ys)"
  then have at: "ram_at (a + of_nat i) ms = Some ((xs @ ys) ! i)" if "i < length xs + length ys" for i
    using that by (simp add: ram_bytes_def)
  show "ram_bytes ms a xs" using r at by (auto simp: ram_bytes_def nth_append)
  assume ne: "ys \<noteq> []"
  have u: "unat (a + of_nat (length xs)) = unat a + length xs"
    using r ne by (intro addr_plus(1)) (cases ys; simp add: ram_bytes_def)
  have "ram_at (a + of_nat (length xs) + of_nat i) ms = Some (ys ! i)" if "i < length ys" for i
    using at [of "length xs + i"] that by (simp add: add.assoc)
  then show "ram_bytes ms (a + of_nat (length xs)) ys" using r u by (simp add: ram_bytes_def)
qed

lemma ram_bytes_nth: "ram_bytes ms a bs \<Longrightarrow> i < length bs \<Longrightarrow> ram_at (a + of_nat i) ms = Some (bs ! i)"
  by (simp add: ram_bytes_def)

subsection \<open>Reading values\<close>

lemma guest_addr_dma: "VirtioBlock_guest_addr = dma_guest_addr"
  by (rule ext) (simp add: VirtioBlock_guest_addr_def dma_guest_addr_def)

lemma guest_read_byte:
  assumes "ram_bytes ms a bs" "i < length bs"
  shows "VirtioBlock_read_guest_u8 ms (ucast a + of_nat i) = Inr (bs ! i)"
proof -
  have "(ucast a :: u64) + of_nat i = ucast (a + of_nat i)"
    using assms by (intro addr_plus(2)) (simp add: ram_bytes_def)
  then show ?thesis
    using read_regions_ram [OF ram_bytes_nth [OF assms]]
    by (simp add: VirtioBlock_read_guest_u8_def guest_addr_dma dma_of_cpu_addr)
qed

lemma byte_or: "take_bit (8 * k) w OR push_bit (k * 8) (ucast (byte_at k w)) = take_bit (8 * Suc k) (w :: 'w::len word)"
  by (rule bit_word_eqI) (auto simp: bit_simps mult.commute dest: bit_imp_le_length)

lemma guest_read_loop:
  assumes "ram_bytes ms a (le_list n w)" "k \<le> n"
  shows "guest_read_for [k..<n] ms (ucast a) (take_bit (8 * k) w) = Inr (take_bit (8 * n) (w :: 'w::len word))"
  using assms(2)
proof (induction "n - k" arbitrary: k)
  case (Suc d)
  then have k: "k < n" by simp
  have "guest_read_for [Suc k..<n] ms (ucast a) (take_bit (8 * Suc k) w) = Inr (take_bit (8 * n) w)"
    using Suc by (intro Suc.hyps(1)) simp_all
  then show ?case
    using guest_read_byte [OF assms(1), of k] k by (simp add: upt_conv_Cons byte_or del: mult_Suc_right)
qed simp

lemma guest_read_word:
  "ram_bytes ms a (le_list 4 w) \<Longrightarrow> VirtioBlock_read_guest_u32 ms (ucast a) = Inr w"
  "ram_bytes ms a (le_list 8 x) \<Longrightarrow> VirtioBlock_read_guest_u64 ms (ucast a) = Inr x"
  using guest_read_loop [of ms a 4 w 0] guest_read_loop [of ms a 8 x 0]
  by (simp_all add: VirtioBlock_read_guest_u32_def VirtioBlock_read_guest_u64_def take_bit_word_eq_self)

lemma guest_read_half:
  assumes "ram_bytes ms a (le_list 2 w)"
  shows "VirtioBlock_read_guest_u16 ms (ucast a) = Inr w"
proof -
  have "VirtioBlock_read_guest_u8 ms (ucast a) = Inr (byte_at 0 w)" "VirtioBlock_read_guest_u8 ms (ucast a + 1) = Inr (byte_at 1 w)"
    using guest_read_byte [OF assms, of 0] guest_read_byte [OF assms, of 1] by simp_all
  moreover have "ucast (byte_at 0 w) OR push_bit 8 (ucast (byte_at 1 w)) = w"
    by (rule bit_word_eqI) (auto simp: bit_simps)
  ultimately show ?thesis by (simp add: VirtioBlock_read_guest_u16_def)
qed

subsection \<open>Writing values\<close>

text \<open>Bytes of RAM that are free to be written.\<close>

definition in_ram :: "mem_regions \<Rightarrow> addr \<Rightarrow> nat \<Rightarrow> bool" where
  "in_ram ms a n \<longleftrightarrow> unat a + n \<le> 2 ^ 32 \<and> (\<forall>i < n. ram_at (a + of_nat i) ms \<noteq> None)"

lemma in_ram_cong:
  assumes "in_ram ms a n" "same_outside S ms ms'" "\<forall>c \<in> S. ram_at c ms' \<noteq> None"
  shows "in_ram ms' a n"
  using assms by (metis in_ram_def same_outside_def)

lemma guest_write_byte:
  assumes "in_ram ms a n" "i < n"
  shows "\<exists>ms'. VirtioBlock_write_guest_u8 ms (ucast a + of_nat i) b = (Inr (), ms') \<and>
    (\<forall>c. ram_at c ms' = (if c = a + of_nat i then Some b else ram_at c ms))"
proof -
  have "(ucast a :: u64) + of_nat i = ucast (a + of_nat i)" using assms by (intro addr_plus(2)) (simp add: in_ram_def)
  then show ?thesis
    using dma_write_byte [of "a + of_nat i" ms b] assms
    by (simp add: VirtioBlock_write_guest_u8_def dma_write_u8_def guest_addr_dma in_ram_def)
qed

text \<open>What a loop that stores the bytes \<open>bs\<close> from \<open>a\<close> leaves behind.\<close>

definition stored :: "mem_regions \<Rightarrow> addr \<Rightarrow> u8 list \<Rightarrow> mem_regions \<Rightarrow> bool" where
  "stored ms a bs ms' \<longleftrightarrow> ram_bytes ms' a bs \<and> same_outside (span a (length bs)) ms ms'"

lemma stored_in_ram: "stored ms a bs ms' \<Longrightarrow> in_ram ms b n \<Longrightarrow> in_ram ms' b n"
proof -
  assume s: "stored ms a bs ms'" and "in_ram ms b n"
  have "ram_at c ms' \<noteq> None" if "c \<in> span a (length bs)" for c
    using that s span_elem [of a "length bs" c] by (auto simp: stored_def ram_bytes_def)
  then show ?thesis using s in_ram_cong [of ms b n] \<open>in_ram ms b n\<close> by (auto simp: stored_def)
qed

lemma stored_empty: "unat a \<le> 2 ^ 32 \<Longrightarrow> stored ms a [] ms"
  by (simp add: stored_def ram_bytes_def)

lemma stored_snoc:
  assumes "stored ms a xs ms1" "unat a + length xs < 2 ^ 32"
    and "\<forall>c. ram_at c ms2 = (if c = a + of_nat (length xs) then Some b else ram_at c ms1)"
  shows "stored ms a (xs @ [b]) ms2"
proof -
  have "ram_at (a + of_nat i) ms2 = Some ((xs @ [b]) ! i)" if "i < Suc (length xs)" for i
  proof (cases "i = length xs")
    case False
    then have "a + of_nat i \<noteq> a + of_nat (length xs)" using next_eq [of a i "length xs"] that assms(2) by simp
    then show ?thesis using assms(1,3) False that by (simp add: stored_def ram_bytes_def nth_append)
  qed (use assms(3) in simp)
  moreover have "same_outside (span a (Suc (length xs))) ms ms2"
  proof -
    have "a + of_nat (length xs) \<in> span a (Suc (length xs))" "span a (length xs) \<subseteq> span a (Suc (length xs))"
      using assms(2) addr_plus(1) [of a "length xs"] by (auto simp: span_def)
    then show ?thesis using assms(1,3) by (auto simp: stored_def same_outside_def)
  qed
  ultimately show ?thesis using assms(2) by (simp add: stored_def ram_bytes_def)
qed

text \<open>One more byte of a run.\<close>

lemma store_next:
  assumes "stored ms a xs ms1" "in_ram ms a n" "length xs < n"
  shows "\<exists>ms2. VirtioBlock_write_guest_u8 ms1 (ucast a + of_nat (length xs)) b = (Inr (), ms2) \<and> stored ms a (xs @ [b]) ms2"
proof -
  obtain ms2 where "VirtioBlock_write_guest_u8 ms1 (ucast a + of_nat (length xs)) b = (Inr (), ms2)"
    "\<forall>c. ram_at c ms2 = (if c = a + of_nat (length xs) then Some b else ram_at c ms1)"
    using guest_write_byte [OF stored_in_ram [OF assms(1,2)] assms(3), of b] by blast
  then show ?thesis using stored_snoc [OF assms(1)] assms(2,3) by (auto simp: in_ram_def)
qed

lemma le_list_Suc: "le_list (Suc n) w = le_list n w @ [byte_at n w]"
  by (simp add: le_list_def)

lemma masked_byte: "ucast (drop_bit (k * 8) w AND 0xFF) = byte_at k (w :: u32)"
proof -
  have m: "(0xFF :: u32) = mask 8" by (simp add: mask_eq_exp_minus_1)
  show ?thesis unfolding m by (rule bit_word_eqI) (auto simp: bit_simps mult.commute)
qed

lemma masked_low: "ucast (w AND 0xFF) = byte_at 0 (w :: u16)" "ucast (drop_bit 8 w) = byte_at 1 (w :: u16)"
proof -
  have m: "(0xFF :: u16) = mask 8" by (simp add: mask_eq_exp_minus_1)
  show "ucast (w AND 0xFF) = byte_at 0 w" unfolding m by (rule bit_word_eqI) (auto simp: bit_simps)
  show "ucast (drop_bit 8 w) = byte_at 1 w" by (simp add: byte_at_def)
qed

lemma guest_write_loop:
  assumes "stored ms a (le_list k w) ms1" "in_ram ms a n" "k \<le> n"
  shows "\<exists>ms'. guest_write_for [k..<n] ms1 (ucast a) w = (Inr (), ms') \<and> stored ms a (le_list n w) ms'"
  using assms(1,3)
proof (induction "n - k" arbitrary: k ms1)
  case (Suc d)
  then have k: "k < n" by simp
  obtain ms2 where w: "VirtioBlock_write_guest_u8 ms1 (ucast a + of_nat k) (byte_at k w) = (Inr (), ms2)"
    and s: "stored ms a (le_list (Suc k) w) ms2"
    using store_next [OF Suc.prems(1) assms(2), of "byte_at k w"] k by (auto simp: le_list_Suc)
  show ?case
    using Suc.hyps(1) [OF _ s] Suc.hyps(2) k by (simp add: upt_conv_Cons w masked_byte)
qed (auto intro: exI [of _ ms1])

lemma guest_write_word:
  assumes "in_ram ms a 4"
  shows "\<exists>ms'. VirtioBlock_write_guest_u32 ms (ucast a) w = (Inr (), ms') \<and> stored ms a (le_list 4 w) ms'"
proof -
  have "stored ms a (le_list 0 w) ms" using assms by (simp add: le_list_0 stored_empty in_ram_def)
  then show ?thesis using guest_write_loop [OF _ assms] by (simp add: VirtioBlock_write_guest_u32_def)
qed

lemma guest_write_half:
  assumes "in_ram ms a 2"
  shows "\<exists>ms'. VirtioBlock_write_guest_u16 ms (ucast a) w = (Inr (), ms') \<and> stored ms a (le_list 2 w) ms'"
proof -
  have e: "stored ms a [] ms" using assms by (intro stored_empty) (simp add: in_ram_def)
  obtain m1 where m1: "VirtioBlock_write_guest_u8 ms (ucast a) (byte_at 0 w) = (Inr (), m1)" "stored ms a [byte_at 0 w] m1"
    using store_next [OF e assms, of "byte_at 0 w"] by auto
  obtain m2 where m2: "VirtioBlock_write_guest_u8 m1 (ucast a + 1) (byte_at 1 w) = (Inr (), m2)"
    "stored ms a ([byte_at 0 w] @ [byte_at 1 w]) m2"
    using store_next [OF m1(2) assms, of "byte_at 1 w"] by auto
  have "le_list 2 w = [byte_at 0 w] @ [byte_at 1 w]" by (simp add: le_list_def upt_conv_Cons numeral_2_eq_2)
  then show ?thesis using m1(1) m2 by (simp add: VirtioBlock_write_guest_u16_def masked_low)
qed

text \<open>Parts of a run that is free, and two runs stored one after the other.\<close>

lemma in_ram_sub:
  assumes "in_ram ms a n" "k + m \<le> n" "0 < m"
  shows "in_ram ms (a + of_nat k) m" "(ucast a :: u64) + of_nat k = ucast (a + of_nat k)"
    "unat (a + of_nat k) = unat a + k" "span (a + of_nat k) m \<subseteq> span a n"
proof -
  have "unat a + k < 2 ^ 32" using assms by (simp add: in_ram_def)
  note p = addr_plus [OF this]
  show "(ucast a :: u64) + of_nat k = ucast (a + of_nat k)" "unat (a + of_nat k) = unat a + k" by (fact p(2), fact p(1))
  show "span (a + of_nat k) m \<subseteq> span a n" using assms(2) p(1) by (intro span_mono) simp_all
  have "ram_at (a + of_nat k + of_nat i) ms \<noteq> None" if "i < m" for i
    using assms(1,2) that by (simp add: in_ram_def add.assoc flip: of_nat_add)
  then show "in_ram ms (a + of_nat k) m" using assms(1,2) p(1) by (simp add: in_ram_def)
qed

lemma stored_append:
  assumes "stored ms a xs ms1" "stored ms1 (a + of_nat (length xs)) ys ms2" "unat a + length xs + length ys \<le> 2 ^ 32" "ys \<noteq> []"
  shows "stored ms a (xs @ ys) ms2"
proof -
  have u: "unat (a + of_nat (length xs)) = unat a + length xs" using assms(3,4) by (intro addr_plus(1)) (cases ys; simp)
  have "span (a + of_nat (length xs)) (length ys) \<inter> span a (length xs) = {}" by (auto simp: span_def u)
  then have x: "ram_bytes ms2 a xs" using assms(1,2) ram_bytes_cong unfolding stored_def by blast
  have y: "ram_at (a + of_nat (length xs) + of_nat j) ms2 = Some (ys ! j)" if "j < length ys" for j
    using assms(2) that by (simp add: stored_def ram_bytes_def)
  have "ram_at (a + of_nat i) ms2 = Some ((xs @ ys) ! i)" if "i < length xs + length ys" for i
  proof (cases "i < length xs")
    case False
    then show ?thesis using y [of "i - length xs"] that by (simp add: nth_append add.assoc of_nat_diff)
  qed (use x in \<open>simp add: ram_bytes_def nth_append\<close>)
  moreover have "span a (length xs) \<union> span (a + of_nat (length xs)) (length ys) \<subseteq> span a (length (xs @ ys))"
    by (auto simp: span_def u)
  then have "same_outside (span a (length (xs @ ys))) ms ms2"
    using same_outside_mono [OF same_outside_trans] assms(1,2) unfolding stored_def by metis
  ultimately show ?thesis using assms(3) by (simp add: stored_def ram_bytes_def)
qed

text \<open>Runs of a concrete memory.\<close>

lemma mem_of_bytes:
  assumes "a = 0x80000000 + of_nat k" "take (length bs) (drop k bytes) = bs" "k + length bs \<le> length bytes" "length bytes < 2 ^ 31"
  shows "ram_bytes (mem_of bytes) a bs"
proof -
  have "unat (of_nat k :: addr) = k" using assms(3,4) by (simp add: unat_of_nat)
  then have u: "unat a = 0x80000000 + k" using assms by (simp add: unat_add_small)
  have "ram_at (a + of_nat i) (mem_of bytes) = Some (bs ! i)" if "i < length bs" for i
  proof -
    have "bytes ! (k + i) = take (length bs) (drop k bytes) ! i" using that assms(3) by simp
    then show ?thesis using mem_of_byte [of "k + i" bytes] that assms by (simp add: add.assoc)
  qed
  then show ?thesis using assms(3,4) u by (simp add: ram_bytes_def)
qed

lemma ram_bytes_in_ram: "ram_bytes ms a bs \<Longrightarrow> in_ram ms a (length bs)"
  by (simp add: ram_bytes_def in_ram_def)

end
