(* ===== verification/Virtio_Correct.thy ===== *)
theory Virtio_Correct
  imports Guest_Bytes
begin

text \<open>
  What the block device promises its driver: a chain that lies in guest memory and is offered in the available ring
  is served by one notification.  The data moves between the disk and the buffer, the status byte, the used element
  and the used index tell the driver, and nothing else of memory or disk changes.
\<close>

subsection \<open>Lists\<close>

lemma length_poke_list [simp]: "k + length ys \<le> length xs \<Longrightarrow> length (poke_list k ys xs) = length xs"
  by (simp add: poke_list_def)

lemma poke_empty [simp]: "poke_list k [] xs = xs"
  by (simp add: poke_list_def)

lemma poke_snoc:
  assumes "k + length ys < length xs"
  shows "(poke_list k ys xs)[k + length ys := y] = poke_list k (ys @ [y]) xs"
proof -
  have "drop (k + length ys) xs = xs ! (k + length ys) # drop (Suc (k + length ys)) xs"
    using assms by (simp add: Cons_nth_drop_Suc)
  then show ?thesis using assms by (simp add: poke_list_def list_update_append)
qed

lemma take_drop_poke [simp]: "k + length ys \<le> length xs \<Longrightarrow> take (length ys) (drop k (poke_list k ys xs)) = ys"
  by (simp add: poke_list_def)

text \<open>The window after the first bytes of a transfer have passed through it.\<close>

definition window_after :: "u8 list \<Rightarrow> u8 list \<Rightarrow> u8 list" where
  "window_after win bs = take (length win) bs @ drop (length bs) win"

lemma window_snoc:
  "window_after win (bs @ [b]) = (if length bs < length win then (window_after win bs)[length bs := b] else window_after win bs)"
proof (cases "length bs < length win")
  case True
  then have "drop (length bs) win = win ! length bs # drop (Suc (length bs)) win" by (simp add: Cons_nth_drop_Suc)
  then show ?thesis using True by (simp add: window_after_def list_update_append)
qed (simp add: window_after_def)

lemma window_empty [simp]: "window_after win [] = win"
  by (simp add: window_after_def)

lemma length_window [simp]: "length (window_after win bs) = length win"
  by (simp add: window_after_def)

subsection \<open>The transfer loops\<close>

lemma virtio_in_loop:
  assumes "stored ms B (take k data) ms1" "in_ram ms B (length data)" "k \<le> length data" "length W = SECTOR_SIZE"
    and "\<And>i. i < length data \<Longrightarrow> vb_disk v ! (off + i) = data ! i"
  shows "\<exists>ms'. virtio_in_for [k..<length data] off (ucast B) (v\<lparr>vb_data_window := window_after W (take k data)\<rparr>, ms1) =
      (Inr (), v\<lparr>vb_data_window := window_after W data\<rparr>, ms') \<and> stored ms B data ms'"
  using assms(1,3)
proof (induction "length data - k" arbitrary: k ms1)
  case (Suc d)
  then have k: "k < length data" by simp
  have t: "take (Suc k) data = take k data @ [data ! k]" using k by (simp add: take_Suc_conv_app_nth)
  obtain ms2 where w: "VirtioBlock_write_guest_u8 ms1 (ucast B + of_nat k) (data ! k) = (Inr (), ms2)"
    and s: "stored ms B (take (Suc k) data) ms2"
    using store_next [OF Suc.prems(1) assms(2), of "data ! k"] k by (auto simp: t)
  have n: "window_after W (take (Suc k) data) =
    (if k < SECTOR_SIZE then (window_after W (take k data))[k := data ! k] else window_after W (take k data))"
    using k assms(4) by (simp add: t window_snoc)
  have "d = length data - Suc k" using Suc.hyps(2) by simp
  from Suc.hyps(1) [OF this s] k show ?case
    by (cases "k < SECTOR_SIZE") (simp_all add: upt_conv_Cons w n assms(5))
qed (auto intro: exI [of _ ms1])

lemma virtio_out_loop:
  assumes "ram_bytes ms B data" "k \<le> length data" "length W = SECTOR_SIZE" "off + length data \<le> length d"
  shows "virtio_out_for [k..<length data] off (ucast B)
      (v\<lparr>vb_data_window := window_after W (take k data), vb_disk := poke_list off (take k data) d\<rparr>, ms) =
    (Inr (), v\<lparr>vb_data_window := window_after W data, vb_disk := poke_list off data d\<rparr>, ms)"
  using assms(2)
proof (induction "length data - k" arbitrary: k)
  case (Suc n)
  then have k: "k < length data" by simp
  have t: "take (Suc k) data = take k data @ [data ! k]" using k by (simp add: take_Suc_conv_app_nth)
  have r: "VirtioBlock_read_guest_u8 ms (ucast B + of_nat k) = Inr (data ! k)" using guest_read_byte [OF assms(1) k] .
  have w: "window_after W (take (Suc k) data) =
    (if k < SECTOR_SIZE then (window_after W (take k data))[k := data ! k] else window_after W (take k data))"
    using k assms(3) by (simp add: t window_snoc)
  have p: "poke_list off (take (Suc k) data) d = (poke_list off (take k data) d)[off + k := data ! k]"
    using k assms(4) poke_snoc [of off "take k data" d "data ! k"] by (simp add: t)
  have "virtio_out_for [Suc k..<length data] off (ucast B)
      (v\<lparr>vb_data_window := window_after W (take (Suc k) data), vb_disk := poke_list off (take (Suc k) data) d\<rparr>, ms) =
    (Inr (), v\<lparr>vb_data_window := window_after W data, vb_disk := poke_list off data d\<rparr>, ms)"
    using Suc k by (intro Suc.hyps(1)) simp_all
  then show ?case by (cases "k < SECTOR_SIZE") (simp_all add: upt_conv_Cons k r w p)
qed simp

subsection \<open>Descriptors in memory\<close>

definition desc_bytes :: "virtq_desc \<Rightarrow> u8 list" where
  "desc_bytes d = le_list 8 (vd_addr d) @ le_list 4 (vd_len d) @ le_list 2 (vd_flags d) @ le_list 2 (vd_next d)"

lemma length_desc_bytes [simp]: "length (desc_bytes d) = 16"
  by (simp add: desc_bytes_def)

text \<open>Entry \<open>i\<close> of the descriptor table at \<open>D\<close>.\<close>

definition desc_at :: "virtio_block \<Rightarrow> addr \<Rightarrow> mem_regions \<Rightarrow> u16 \<Rightarrow> virtq_desc \<Rightarrow> bool" where
  "desc_at v D ms i d \<longleftrightarrow> vb_queue_desc_addr v = ucast D \<and> unat i < unat (vb_queue_num v) \<and>
     unat D + 16 * unat (vb_queue_num v) \<le> 2 ^ 32 \<and> ram_bytes ms (D + of_nat (16 * unat i)) (desc_bytes d)"

lemma fields_read:
  assumes "ram_bytes ms a (desc_bytes d)"
  shows "VirtioBlock_read_guest_u64 ms (ucast a) = Inr (vd_addr d)" "VirtioBlock_read_guest_u32 ms (ucast a + 8) = Inr (vd_len d)"
    "VirtioBlock_read_guest_u16 ms (ucast a + 12) = Inr (vd_flags d)" "VirtioBlock_read_guest_u16 ms (ucast a + 14) = Inr (vd_next d)"
proof -
  have u: "unat a + 16 \<le> 2 ^ 32" using assms by (simp add: ram_bytes_def)
  have e: "(ucast a :: u64) + 8 = ucast (a + 8)" "(ucast a :: u64) + 12 = ucast (a + 12)" "(ucast a :: u64) + 14 = ucast (a + 14)"
    using u addr_plus(2) [of a 8] addr_plus(2) [of a 12] addr_plus(2) [of a 14] by simp_all
  note parts = assms [unfolded desc_bytes_def]
  have "ram_bytes ms a (le_list 8 (vd_addr d))" using ram_bytes_append(1) [OF parts] .
  then show "VirtioBlock_read_guest_u64 ms (ucast a) = Inr (vd_addr d)" by (rule guest_read_word(2))
  have p8: "ram_bytes ms (a + 8) (le_list 4 (vd_len d) @ le_list 2 (vd_flags d) @ le_list 2 (vd_next d))"
    using ram_bytes_append(2) [OF parts] by (simp add: le_list_def)
  then show "VirtioBlock_read_guest_u32 ms (ucast a + 8) = Inr (vd_len d)"
    using ram_bytes_append(1) [OF p8] guest_read_word(1) by (simp add: e)
  have p12: "ram_bytes ms (a + 12) (le_list 2 (vd_flags d) @ le_list 2 (vd_next d))"
    using ram_bytes_append(2) [OF p8] by (simp add: le_list_def add.assoc)
  then show "VirtioBlock_read_guest_u16 ms (ucast a + 12) = Inr (vd_flags d)"
    using ram_bytes_append(1) [OF p12] guest_read_half by (simp add: e)
  have "ram_bytes ms (a + 14) (le_list 2 (vd_next d))"
    using ram_bytes_append(2) [OF p12] by (simp add: le_list_def add.assoc)
  then show "VirtioBlock_read_guest_u16 ms (ucast a + 14) = Inr (vd_next d)"
    using guest_read_half by (simp add: e)
qed

lemma descriptor_read:
  assumes "desc_at v D ms i d"
  shows "VirtioBlock_validate_descriptor_index v i = Inr ()" "VirtioBlock_read_descriptor v ms i = Inr d"
proof -
  show "VirtioBlock_validate_descriptor_index v i = Inr ()"
    using assms by (simp add: desc_at_def VirtioBlock_validate_descriptor_index_def)
  have "vb_queue_desc_addr v + VirtioBlock_descriptor_offset i = ucast (D + of_nat (16 * unat i))"
  proof -
    have "unat D + 16 * unat i < 2 ^ 32" using assms by (simp add: desc_at_def)
    then have "(ucast D :: u64) + of_nat (16 * unat i) = ucast (D + of_nat (16 * unat i))" by (rule addr_plus(2))
    then show ?thesis using assms by (simp add: desc_at_def VirtioBlock_descriptor_offset_def mult.commute)
  qed
  then show "VirtioBlock_read_descriptor v ms i = Inr d"
    using fields_read [of ms "D + of_nat (16 * unat i)" d] assms
    by (simp only: VirtioBlock_read_descriptor_def Let_def desc_at_def) (simp del: of_nat_mult)
qed

subsection \<open>A request in guest memory\<close>

text \<open>A chain of three descriptors: header, data, status.\<close>

definition chain_at :: "virtio_block \<Rightarrow> addr \<Rightarrow> mem_regions \<Rightarrow> u16 \<Rightarrow> virtq_desc \<Rightarrow> virtq_desc \<Rightarrow> virtq_desc \<Rightarrow> bool" where
  "chain_at v D ms head d0 d1 d2 \<longleftrightarrow>
     desc_at v D ms head d0 \<and> desc_at v D ms (vd_next d0) d1 \<and> desc_at v D ms (vd_next d1) d2 \<and>
     REQUEST_HEADER_LEN \<le> vd_len d0 \<and> vd_flags d0 AND VIRTQ_DESC_F_NEXT \<noteq> 0 \<and>
     vd_len d1 \<noteq> 0 \<and> vd_flags d1 AND VIRTQ_DESC_F_NEXT \<noteq> 0 \<and> 1 \<le> vd_len d2"

text \<open>The header at \<open>H\<close>: the kind of request, a reserved word and the sector.\<close>

definition header_at :: "mem_regions \<Rightarrow> addr \<Rightarrow> u32 \<Rightarrow> u64 \<Rightarrow> bool" where
  "header_at ms H kind sector \<longleftrightarrow> (\<exists>gap. length gap = 4 \<and> ram_bytes ms H (le_list 4 kind @ gap @ le_list 8 sector))"

lemma header_read:
  assumes "header_at ms H kind sector"
  shows "VirtioBlock_read_guest_u32 ms (ucast H) = Inr kind" "VirtioBlock_read_guest_u64 ms (ucast H + 8) = Inr sector"
proof -
  obtain gap where g: "length gap = 4" "ram_bytes ms H (le_list 4 kind @ gap @ le_list 8 sector)"
    using assms by (auto simp: header_at_def)
  show "VirtioBlock_read_guest_u32 ms (ucast H) = Inr kind"
    by (rule guest_read_word(1) [OF ram_bytes_append(1) [OF g(2)]])
  have "ram_bytes ms H ((le_list 4 kind @ gap) @ le_list 8 sector)" using g(2) by simp
  from ram_bytes_append(2) [OF this] have r: "ram_bytes ms (H + 8) (le_list 8 sector)" by (simp add: g(1) le_list_def)
  have "unat H + 8 < 2 ^ 32" using g by (simp add: ram_bytes_def)
  then have "(ucast H :: u64) + 8 = ucast (H + 8)" using addr_plus(2) [of H 8] by simp
  then show "VirtioBlock_read_guest_u64 ms (ucast H + 8) = Inr sector" using guest_read_word(2) [OF r] by simp
qed

lemma chain_read:
  assumes "chain_at v D ms head d0 d1 d2"
  shows "VirtioBlock_validate_descriptor_index v head = Inr ()" "VirtioBlock_read_descriptor v ms head = Inr d0"
    "VirtioBlock_validate_descriptor_index v (vd_next d0) = Inr ()" "VirtioBlock_read_descriptor v ms (vd_next d0) = Inr d1"
    "VirtioBlock_validate_descriptor_index v (vd_next d1) = Inr ()" "VirtioBlock_read_descriptor v ms (vd_next d1) = Inr d2"
    "\<not> vd_len d0 < REQUEST_HEADER_LEN" "vd_flags d0 AND VIRTQ_DESC_F_NEXT \<noteq> 0" "vd_len d1 \<noteq> 0"
    "vd_flags d1 AND VIRTQ_DESC_F_NEXT \<noteq> 0" "vd_len d2 \<noteq> 0"
  using assms by (auto simp: chain_at_def intro: descriptor_read)

lemma request_read:
  assumes "chain_at v D ms head d0 d1 d2" "vd_addr d0 = ucast H" "header_at ms H kind sector"
  shows "virtio_read_request v head ms = Inr (d1, kind, sector)"
  by (simp add: virtio_read_request_def chain_read [OF assms(1)] header_read [OF assms(3)] assms(2))

lemma status_read:
  assumes "chain_at v D ms head d0 d1 d2"
  shows "VirtioBlock_resolve_status_desc v head ms = Inr d2"
  by (simp add: VirtioBlock_resolve_status_desc_def chain_read [OF assms])

text \<open>The table, and so the chain, survives a change elsewhere in memory and in the device.\<close>

lemma desc_at_kept:
  assumes "desc_at v D ms i d" "same_outside S ms ms'" "S \<inter> span D (16 * unat (vb_queue_num v)) = {}"
    and "vb_queue_desc_addr v' = vb_queue_desc_addr v" "vb_queue_num v' = vb_queue_num v"
  shows "desc_at v' D ms' i d"
proof -
  let ?a = "D + of_nat (16 * unat i) :: addr"
  have i: "unat i < unat (vb_queue_num v)" "unat D + 16 * unat (vb_queue_num v) \<le> 2 ^ 32" using assms(1) by (simp_all add: desc_at_def)
  have "unat ?a = unat D + 16 * unat i" using i by (intro addr_plus(1)) simp
  then have "span ?a 16 \<subseteq> span D (16 * unat (vb_queue_num v))" using i by (intro span_mono) simp_all
  then have "S \<inter> span ?a (length (desc_bytes d)) = {}" using assms(3) unfolding length_desc_bytes by blast
  then show ?thesis using assms(1,2,4,5) ram_bytes_cong unfolding desc_at_def by metis
qed

lemma chain_at_kept:
  assumes "chain_at v D ms head d0 d1 d2" "same_outside S ms ms'" "S \<inter> span D (16 * unat (vb_queue_num v)) = {}"
    and "vb_queue_desc_addr v' = vb_queue_desc_addr v" "vb_queue_num v' = vb_queue_num v"
  shows "chain_at v' D ms' head d0 d1 d2"
  using assms(1) desc_at_kept [OF _ assms(2-5)] by (simp add: chain_at_def)

subsection \<open>Completion\<close>

text \<open>The used ring at \<open>U\<close>, free to be written, and what completion leaves in it.\<close>

definition used_ring_at :: "virtio_block \<Rightarrow> addr \<Rightarrow> mem_regions \<Rightarrow> bool" where
  "used_ring_at v U ms \<longleftrightarrow> vb_queue_used_addr v = ucast U \<and> in_ram ms U (4 + 8 * unat (vb_queue_num v))"

definition completed :: "virtio_block \<Rightarrow> addr \<Rightarrow> addr \<Rightarrow> u16 \<Rightarrow> u8 \<Rightarrow> u32 \<Rightarrow> mem_regions \<Rightarrow> bool" where
  "completed v U S head status_byte used_len ms \<longleftrightarrow>
     ram_at S ms = Some status_byte \<and>
     ram_bytes ms (U + of_nat (4 + 8 * (unat (vb_queue_used_idx v) mod unat (vb_queue_num v)))) (le_list 4 (ucast head :: u32) @ le_list 4 used_len) \<and>
     ram_bytes ms (U + 2) (le_list 2 (vb_queue_used_idx v + 1))"

lemma used_elem_written:
  assumes "used_ring_at v U ms" "slot < unat (vb_queue_num v)"
  shows "\<exists>ms'. VirtioBlock_write_used_elem v ms slot i len = (Inr (), ms') \<and>
    stored ms (U + of_nat (4 + 8 * slot)) (le_list 4 i @ le_list 4 len) ms'"
proof -
  let ?a = "U + of_nat (4 + 8 * slot) :: addr"
  have r: "in_ram ms U (4 + 8 * unat (vb_queue_num v))" "vb_queue_used_addr v = ucast U" using assms(1) by (simp_all add: used_ring_at_def)
  have "4 + 8 * slot + 8 \<le> 4 + 8 * unat (vb_queue_num v)" using assms(2) by simp
  note a = in_ram_sub [OF r(1) this]
  note a4 = in_ram_sub [of ms ?a 8 0 4] in_ram_sub [of ms ?a 8 4 4]
  have a8: "in_ram ms ?a 8" using a(1) by simp
  have lo: "in_ram ms ?a 4" using in_ram_sub(1) [OF a8, of 0 4] by simp
  have hi: "in_ram ms (?a + of_nat 4) 4" "(ucast ?a :: u64) + of_nat 4 = ucast (?a + of_nat 4)"
    using in_ram_sub(1,2) [OF a8, of 4 4] by simp_all
  have e: "vb_queue_used_addr v + 4 + of_nat slot * 8 = ucast ?a"
    using a(2) by (simp add: r(2) mult.commute add.assoc)
  obtain m1 where m1: "VirtioBlock_write_guest_u32 ms (ucast ?a) i = (Inr (), m1)" "stored ms ?a (le_list 4 i) m1"
    using guest_write_word [OF lo] by blast
  obtain m2 where m2: "VirtioBlock_write_guest_u32 m1 (ucast (?a + of_nat 4)) len = (Inr (), m2)"
    "stored m1 (?a + of_nat 4) (le_list 4 len) m2"
    using guest_write_word [OF stored_in_ram [OF m1(2) hi(1)]] by blast
  have "unat ?a + 4 + 4 \<le> 2 ^ 32" using a8 by (simp add: in_ram_def)
  then have s: "stored ms ?a (le_list 4 i @ le_list 4 len) m2"
    using stored_append [OF m1(2)] m2(2) by (simp add: le_list_def)
  have four: "ucast ?a + (4 :: u64) = ucast (?a + of_nat 4)" using hi(2) by simp
  show ?thesis
    unfolding VirtioBlock_write_used_elem_def Let_def e four m1(1) bind_result_simps m2(1) using s by blast
qed

lemma completion:
  assumes "chain_at v D ms head d0 d1 d2" "vd_addr d2 = ucast S" "used_ring_at v U ms" "vb_queue_num v \<noteq> 0"
    and "slot = unat (vb_queue_used_idx v) mod unat (vb_queue_num v)"
    and "ram_at S ms \<noteq> None" "S \<notin> span U (4 + 8 * unat (vb_queue_num v))"
  shows "\<exists>ms'. virtio_complete head slot status_byte used_len (v, ms) =
      (virtio_raise_irq (v\<lparr>vb_queue_used_ring := (vb_queue_used_ring v)[slot := head], vb_last_used_head := head,
          vb_queue_used_idx := vb_queue_used_idx v + 1\<rparr>), ms') \<and>
    completed v U S head status_byte used_len ms' \<and> same_outside (insert S (span U (4 + 8 * unat (vb_queue_num v)))) ms ms'"
proof -
  let ?n = "4 + 8 * unat (vb_queue_num v)" and ?e = "U + of_nat (4 + 8 * slot) :: addr"
  let ?elem = "le_list 4 (ucast head :: u32) @ le_list 4 used_len"
  have slot: "slot < unat (vb_queue_num v)" using assms(4,5) by (simp add: unat_gt_0)
  have s1: "in_ram ms S 1" using assms(6) unsigned_less [where w = S and 'a = nat] by (simp add: in_ram_def)
  obtain m1 where m1: "VirtioBlock_write_guest_u8 ms (ucast S) status_byte = (Inr (), m1)" "stored ms S [status_byte] m1"
    using store_next [OF stored_empty s1, of status_byte] s1 by (auto simp: in_ram_def)
  have u1: "used_ring_at v U m1" using assms(3) stored_in_ram [OF m1(2)] by (simp add: used_ring_at_def)
  obtain m2 where m2: "VirtioBlock_write_used_elem v m1 slot (ucast head) used_len = (Inr (), m2)" "stored m1 ?e ?elem m2"
    using used_elem_written [OF u1 slot] by blast
  have r2: "in_ram m2 U ?n" using u1 stored_in_ram [OF m2(2)] by (simp add: used_ring_at_def)
  have two: "2 + 2 \<le> ?n" by simp
  note i2 = in_ram_sub [OF r2 two zero_less_numeral]
  obtain m3 where m3: "VirtioBlock_write_guest_u16 m2 (ucast (U + of_nat 2)) (vb_queue_used_idx v + 1) = (Inr (), m3)"
    "stored m2 (U + of_nat 2) (le_list 2 (vb_queue_used_idx v + 1)) m3"
    using guest_write_half [OF i2(1)] by blast
  have "4 + 8 * slot + 8 \<le> ?n" using slot by simp
  note ie = in_ram_sub [OF u1 [unfolded used_ring_at_def, THEN conjunct2] this zero_less_numeral]
  have addr: "vb_queue_used_addr v + 2 = ucast (U + of_nat 2)" using assms(3) i2(2) by (simp add: used_ring_at_def)
  have o1: "same_outside {S} ms m1" using m1(2) by (simp add: stored_def span_one [unfolded One_nat_def])
  have o2: "same_outside (span ?e 8) m1 m2" using m2(2) by (simp add: stored_def)
  have o3: "same_outside (span (U + of_nat 2) 2) m2 m3" using m3(2) unfolding stored_def length_le_list by blast
  have "ram_at S m1 = Some status_byte" using m1(2) by (simp add: stored_def ram_bytes_def)
  moreover have "S \<notin> span ?e 8" "S \<notin> span (U + of_nat 2) 2" using ie(4) i2(4) assms(7) by blast+
  ultimately have st: "ram_at S m3 = Some status_byte" using o2 o3 unfolding same_outside_def by simp
  have dj: "span (U + of_nat 2) 2 \<inter> span ?e (length ?elem) = {}"
    unfolding span_def using i2(3) ie(3) by auto
  have el: "ram_bytes m3 ?e ?elem" using m2(2) o3 ram_bytes_cong [OF _ o3 dj] by (simp add: stored_def)
  have ix: "ram_bytes m3 (U + 2) (le_list 2 (vb_queue_used_idx v + 1))" using m3(2) by (simp add: stored_def)
  have "{S} \<union> (span ?e 8 \<union> span (U + of_nat 2) 2) \<subseteq> insert S (span U ?n)" using ie(4) i2(4) by blast
  then have "same_outside (insert S (span U ?n)) ms m3"
    using same_outside_mono same_outside_trans [OF o1 same_outside_trans [OF o2 o3]] by blast
  moreover have "completed v U S head status_byte used_len m3" using st el ix assms(5) by (simp add: completed_def)
  moreover have "virtio_complete head slot status_byte used_len (v, ms) =
      (virtio_raise_irq (v\<lparr>vb_queue_used_ring := (vb_queue_used_ring v)[slot := head], vb_last_used_head := head,
          vb_queue_used_idx := vb_queue_used_idx v + 1\<rparr>), m3)"
  proof -
    have "1 \<le> vd_len d2" using assms(1) by (simp add: chain_at_def)
    moreover have "vb_queue_used_addr (v\<lparr>vb_queue_used_ring := r, vb_last_used_head := head, vb_queue_used_idx := x\<rparr>) = vb_queue_used_addr v"
      "vb_queue_used_idx (v\<lparr>vb_queue_used_ring := r, vb_last_used_head := head, vb_queue_used_idx := x\<rparr>) = x" for r x
      by simp_all
    ultimately show ?thesis
      by (simp only: virtio_complete_def prod.case status_read [OF assms(1)] sum.case if_True assms(2) m1(1) m2(1) snd_conv Let_def
        addr m3(1))
  qed
  ultimately show ?thesis by blast
qed

subsection \<open>A notification\<close>

text \<open>A request waits: its chain is the next entry of the available ring at \<open>A\<close>, and the driver has notified the device.\<close>

definition offered :: "virtio_block \<Rightarrow> addr \<Rightarrow> mem_regions \<Rightarrow> u16 \<Rightarrow> bool" where
  "offered v A ms head \<longleftrightarrow>
     VirtioBlock_has_pending_descriptor_notify v \<and> VirtioBlock_queue_is_ready v \<and> vb_queue_num v \<noteq> 0 \<and>
     vb_queue_avail_addr v = ucast A \<and> unat A + 4 + 2 * unat (vb_queue_num v) \<le> 2 ^ 32 \<and>
     (\<exists>idx. idx \<noteq> vb_queue_used_idx v \<and> ram_bytes ms (A + 2) (le_list 2 idx)) \<and>
     ram_bytes ms (A + of_nat (4 + 2 * (unat (vb_queue_used_idx v) mod unat (vb_queue_num v)))) (le_list 2 head)"

text \<open>All of it: kind and sector from the header, the buffer of \<open>n\<close> bytes at \<open>B\<close>, the status byte at \<open>S\<close>.\<close>

definition request_at ::
  "virtio_block \<Rightarrow> addr \<Rightarrow> addr \<Rightarrow> addr \<Rightarrow> mem_regions \<Rightarrow> u16 \<Rightarrow> u32 \<Rightarrow> u64 \<Rightarrow> addr \<Rightarrow> nat \<Rightarrow> addr \<Rightarrow> bool" where
  "request_at v D A U ms head kind sector B n S \<longleftrightarrow>
     offered v A ms head \<and> used_ring_at v U ms \<and> in_ram ms S 1 \<and> S \<notin> span U (4 + 8 * unat (vb_queue_num v)) \<and>
     (\<exists>d0 d1 d2 H. chain_at v D ms head d0 d1 d2 \<and> vd_addr d0 = ucast H \<and> header_at ms H kind sector \<and>
        vd_addr d1 = ucast B \<and> unat (vd_len d1) = n \<and> vd_addr d2 = ucast S)"

definition noticed :: "virtio_block \<Rightarrow> u16 \<Rightarrow> u16 \<Rightarrow> virtio_block" where
  "noticed v idx head = v\<lparr>vb_pending_queue_notify := None, vb_descriptor_notify_count := sat_add64 (vb_descriptor_notify_count v) 1,
     vb_queue_avail_idx := idx, vb_queue_head := head\<rparr>"

lemma notification_served:
  assumes "offered v A ms head"
  shows "\<exists>idx. VirtioBlock_try_execute_pending v ms =
    (Inr True, virtio_serve (noticed v idx head) head (unat (vb_queue_used_idx v) mod unat (vb_queue_num v)) ms)"
proof -
  let ?slot = "unat (vb_queue_used_idx v) mod unat (vb_queue_num v)"
  obtain idx where idx: "idx \<noteq> vb_queue_used_idx v" "ram_bytes ms (A + 2) (le_list 2 idx)" using assms by (auto simp: offered_def)
  obtain q where q: "vb_pending_queue_notify v = Some q"
    using assms by (auto simp: offered_def VirtioBlock_has_pending_descriptor_notify_def)
  have a: "vb_queue_avail_addr v = ucast A" "unat A + 4 + 2 * unat (vb_queue_num v) \<le> 2 ^ 32" "vb_queue_num v \<noteq> 0"
    "VirtioBlock_queue_is_ready v" using assms by (simp_all add: offered_def)
  have slot: "?slot < unat (vb_queue_num v)" using a(3) by (simp add: unat_gt_0)
  have e2: "(ucast A :: u64) + 2 = ucast (A + 2)" using a(2) addr_plus(2) [of A 2] by simp
  have es: "(ucast A :: u64) + 4 + of_nat ?slot * 2 = ucast (A + of_nat (4 + 2 * ?slot))"
    using a(2) slot addr_plus(2) [of A "4 + 2 * ?slot"] by (simp add: mult.commute add.assoc)
  have "VirtioBlock_read_guest_u16 ms (ucast (A + of_nat (4 + 2 * ?slot))) = Inr head"
    using assms by (intro guest_read_half) (simp add: offered_def)
  note r = guest_read_half [OF idx(2), folded e2] this [folded es]
  have "VirtioBlock_execute_descriptor_queue
      (v\<lparr>vb_pending_queue_notify := None, vb_descriptor_notify_count := sat_add64 (vb_descriptor_notify_count v) 1\<rparr>) ms =
    (Inr (), virtio_serve (noticed v idx head) head ?slot ms)"
    using a(3,4) idx(1) r
    by (simp add: VirtioBlock_execute_descriptor_queue_def VirtioBlock_queue_is_ready_def a(1) noticed_def)
  then show ?thesis
    by (intro exI [of _ idx]) (simp add: VirtioBlock_try_execute_pending_def VirtioBlock_has_pending_descriptor_notify_def
      VirtioBlock_process_pending_descriptor_notify_def q)
qed

text \<open>What every served request leaves in the device.\<close>

definition finished :: "virtio_block \<Rightarrow> u32 \<Rightarrow> virtio_block \<Rightarrow> bool" where
  "finished v res v' \<longleftrightarrow> vb_queue_used_idx v' = vb_queue_used_idx v + 1 \<and> vb_pending_queue_notify v' = None \<and>
     vb_irq_pending v' \<and> vb_result v' = res"

text \<open>The device between the transfer and its completion, with the disk \<open>d\<close>.\<close>

definition handed :: "virtio_block \<Rightarrow> u32 \<Rightarrow> u8 list \<Rightarrow> virtio_block \<Rightarrow> bool" where
  "handed v res d v1 \<longleftrightarrow> vb_queue_desc_addr v1 = vb_queue_desc_addr v \<and> vb_queue_num v1 = vb_queue_num v \<and>
     vb_queue_used_addr v1 = vb_queue_used_addr v \<and> vb_queue_used_idx v1 = vb_queue_used_idx v \<and>
     vb_pending_queue_notify v1 = None \<and> vb_result v1 = res \<and> vb_disk v1 = d"

definition device_area :: "virtio_block \<Rightarrow> addr \<Rightarrow> addr \<Rightarrow> addr set" where
  "device_area v U S = insert S (span U (4 + 8 * unat (vb_queue_num v)))"

abbreviation next_slot :: "virtio_block \<Rightarrow> nat" where
  "next_slot v \<equiv> unat (vb_queue_used_idx v) mod unat (vb_queue_num v)"

text \<open>From the end of the transfer on, the two outcomes are alike: \<open>v1\<close> and \<open>ms1\<close> are what the transfer left.\<close>

lemma request_finished:
  assumes "request_at v D A U ms head kind sector B n S" "same_outside T ms ms1" "\<forall>c \<in> T. ram_at c ms1 \<noteq> None"
    and "T \<inter> span D (16 * unat (vb_queue_num v)) = {}" "handed v res d v1"
  shows "\<exists>v' ms'. virtio_complete head (next_slot v) status_byte used_len (v1, ms1) = (v', ms') \<and>
    finished v res v' \<and> vb_disk v' = d \<and> completed v U S head status_byte used_len ms' \<and>
    same_outside (device_area v U S) ms1 ms'"
proof -
  obtain d0 d1 d2 H where c: "chain_at v D ms head d0 d1 d2" "vd_addr d2 = ucast S" using assms(1) by (auto simp: request_at_def)
  note h = assms(5) [unfolded handed_def]
  have c1: "chain_at v1 D ms1 head d0 d1 d2" using chain_at_kept [OF c(1) assms(2,4)] h by blast
  have r: "in_ram ms S 1" "used_ring_at v U ms" "vb_queue_num v \<noteq> 0" "S \<notin> span U (4 + 8 * unat (vb_queue_num v))"
    using assms(1) by (simp_all add: request_at_def offered_def)
  have u1: "used_ring_at v1 U ms1" using r(2) in_ram_cong [OF _ assms(2,3)] h by (simp add: used_ring_at_def)
  have s1: "ram_at S ms1 \<noteq> None" using in_ram_cong [OF r(1) assms(2,3)] by (simp add: in_ram_def)
  obtain ms' where "virtio_complete head (unat (vb_queue_used_idx v) mod unat (vb_queue_num v)) status_byte used_len (v1, ms1) =
      (virtio_raise_irq (v1\<lparr>vb_queue_used_ring := (vb_queue_used_ring v1)[unat (vb_queue_used_idx v) mod unat (vb_queue_num v) := head],
         vb_last_used_head := head, vb_queue_used_idx := vb_queue_used_idx v1 + 1\<rparr>), ms')"
    "completed v1 U S head status_byte used_len ms'" "same_outside (insert S (span U (4 + 8 * unat (vb_queue_num v)))) ms1 ms'"
    using completion [OF c1 c(2) u1, of "next_slot v" status_byte used_len] r(3,4) s1 h by auto
  then show ?thesis
    using h by (simp add: finished_def virtio_raise_irq_def completed_def device_area_def)
qed

subsection \<open>Requests\<close>

text \<open>The transfer fits the disk: its first sector does, and all of its bytes.\<close>

definition on_disk :: "virtio_block \<Rightarrow> u64 \<Rightarrow> nat \<Rightarrow> bool" where
  "on_disk v sector n \<longleftrightarrow> unat sector * SECTOR_SIZE + max n SECTOR_SIZE \<le> length (vb_disk v)"

definition disk_slice :: "virtio_block \<Rightarrow> u64 \<Rightarrow> nat \<Rightarrow> u8 list" where
  "disk_slice v sector n = take n (drop (unat sector * SECTOR_SIZE) (vb_disk v))"

lemma on_disk_offset:
  assumes "on_disk v sector n" "length (vb_disk v) < 2 ^ 64" "vb_disk v' = vb_disk v"
  shows "VirtioBlock_sector_offset v' sector = Some (unat sector * SECTOR_SIZE)"
  using assms by (simp add: VirtioBlock_sector_offset_def on_disk_def Let_def)

lemma request_processed:
  assumes "request_at v D A U ms head kind sector B n S"
  obtains d0 d1 d2 H idx where "chain_at v D ms head d0 d1 d2" "vd_addr d1 = ucast B" "unat (vd_len d1) = n"
    "VirtioBlock_try_execute_pending v ms = (Inr True, virtio_serve (noticed v idx head) head (next_slot v) ms)"
    "VirtioBlock_process_descriptor_chain (noticed v idx head) head ms = virtio_transfer (noticed v idx head) ms d1 kind sector"
proof -
  obtain d0 d1 d2 H where c: "chain_at v D ms head d0 d1 d2" "vd_addr d0 = ucast H" "header_at ms H kind sector"
    "vd_addr d1 = ucast B" "unat (vd_len d1) = n" using assms by (auto simp: request_at_def)
  obtain idx where idx: "VirtioBlock_try_execute_pending v ms =
    (Inr True, virtio_serve (noticed v idx head) head (next_slot v) ms)"
    using notification_served [of v A ms head] assms by (auto simp: request_at_def)
  have "chain_at (noticed v idx head) D ms head d0 d1 d2"
    by (rule chain_at_kept [OF c(1), of "{}"]) (simp_all add: noticed_def)
  from request_read [OF this c(2,3)] show ?thesis
    using that [OF c(1,4,5) idx] by (simp add: VirtioBlock_process_descriptor_chain_def)
qed

text \<open>The transfer of a read request: the buffer is filled, the rest of memory and the disk are as before.\<close>

lemma read_transferred:
  assumes "request_at v D A U ms head REQ_IN sector B n S" "on_disk v sector n" "length (vb_disk v) < 2 ^ 63"
    and "in_ram ms B n" "length (vb_data_window v) = SECTOR_SIZE"
  shows "\<exists>v1 ms1. VirtioBlock_try_execute_pending v ms =
      (Inr True, virtio_complete head (next_slot v) VIRTIO_BLK_S_OK (of_nat n) (v1, ms1)) \<and>
    handed v RESULT_OK (vb_disk v) v1 \<and> stored ms B (disk_slice v sector n) ms1"
proof -
  let ?data = "disk_slice v sector n" and ?off = "unat sector * SECTOR_SIZE"
  obtain d0 d1 d2 H idx where c: "chain_at v D ms head d0 d1 d2" "vd_addr d1 = ucast B" "unat (vd_len d1) = n"
    and t: "VirtioBlock_try_execute_pending v ms = (Inr True, virtio_serve (noticed v idx head) head (next_slot v) ms)"
    and p: "VirtioBlock_process_descriptor_chain (noticed v idx head) head ms = virtio_transfer (noticed v idx head) ms d1 REQ_IN sector"
    using request_processed [OF assms(1)] .
  let ?v = "(noticed v idx head)\<lparr>vb_req_type := REQ_IN, vb_sector := sector\<rparr>"
  have len: "length ?data = n" "?off + n \<le> length (vb_disk v)" using assms(2) by (auto simp: on_disk_def disk_slice_def)
  have nth: "vb_disk ?v ! (?off + i) = ?data ! i" if "i < length ?data" for i
    using that len by (simp add: noticed_def disk_slice_def)
  have s0: "stored ms B (take 0 ?data) ms" using assms(4) by (simp add: stored_empty in_ram_def)
  have wl: "length (vb_data_window ?v) = SECTOR_SIZE" using assms(5) by (simp add: noticed_def)
  obtain ms1 where l: "virtio_in_for [0..<n] ?off (ucast B) (?v, ms) =
      (Inr (), ?v\<lparr>vb_data_window := window_after (vb_data_window ?v) ?data\<rparr>, ms1)" and s: "stored ms B ?data ms1"
    using virtio_in_loop [where v = ?v, OF s0 _ le0 wl nth] assms(4) len(1) by auto
  have off: "VirtioBlock_sector_offset ?v sector = Some ?off"
    using assms(3) by (intro on_disk_offset [OF assms(2)]) (simp_all add: noticed_def)
  let ?v1 = "virtio_outcome RESULT_OK 1 VIRTIO_BLK_S_OK
    (?v\<lparr>vb_data_window := window_after (vb_data_window ?v) ?data, vb_descriptor_success_count := sat_add64 (vb_descriptor_success_count (noticed v idx head)) 1\<rparr>)"
  have "virtio_transfer (noticed v idx head) ms d1 REQ_IN sector =
    (Inr (of_nat n), ?v\<lparr>vb_data_window := window_after (vb_data_window ?v) ?data\<rparr>, ms1)"
    using off len(2) assms(3) l by (simp add: virtio_transfer_def Let_def c(2,3)) (simp add: noticed_def)
  then have "virtio_serve (noticed v idx head) head (next_slot v) ms =
    virtio_complete head (next_slot v) VIRTIO_BLK_S_OK (of_nat n) (?v1, ms1)"
    by (simp add: virtio_serve_def p)
  moreover have "handed v RESULT_OK (vb_disk v) ?v1" by (simp add: handed_def virtio_outcome_def noticed_def)
  ultimately have "VirtioBlock_try_execute_pending v ms =
      (Inr True, virtio_complete head (next_slot v) VIRTIO_BLK_S_OK (of_nat n) (?v1, ms1)) \<and>
    handed v RESULT_OK (vb_disk v) ?v1 \<and> stored ms B ?data ms1"
    using t s by (simp only: simp_thms)
  then show ?thesis by (intro exI)
qed

lemma virtio_read_done:
  assumes "request_at v D A U ms head REQ_IN sector B n S" "on_disk v sector n" "length (vb_disk v) < 2 ^ 63"
    and "in_ram ms B n" "span B n \<inter> (span D (16 * unat (vb_queue_num v)) \<union> device_area v U S) = {}"
    and "length (vb_data_window v) = SECTOR_SIZE"
  shows "\<exists>v' ms'. VirtioBlock_try_execute_pending v ms = (Inr True, v', ms') \<and>
    ram_bytes ms' B (disk_slice v sector n) \<and> completed v U S head VIRTIO_BLK_S_OK (of_nat n) ms' \<and>
    finished v RESULT_OK v' \<and> vb_disk v' = vb_disk v \<and> same_outside (span B n \<union> device_area v U S) ms ms'"
proof -
  obtain v1 ms1 where t: "VirtioBlock_try_execute_pending v ms =
      (Inr True, virtio_complete head (next_slot v) VIRTIO_BLK_S_OK (of_nat n) (v1, ms1))"
    "handed v RESULT_OK (vb_disk v) v1" "stored ms B (disk_slice v sector n) ms1"
    using read_transferred [OF assms(1-4,6)] by blast
  have len: "length (disk_slice v sector n) = n" using assms(2) by (simp add: on_disk_def disk_slice_def)
  have so: "same_outside (span B n) ms ms1" using t(3) len by (simp add: stored_def)
  have ne: "\<forall>c \<in> span B n. ram_at c ms1 \<noteq> None"
    using stored_in_ram [OF t(3) assms(4)] span_elem [of B n] by (auto simp: in_ram_def)
  have dj: "span B n \<inter> span D (16 * unat (vb_queue_num v)) = {}" using assms(5) by blast
  obtain v' ms' where f: "virtio_complete head (next_slot v) VIRTIO_BLK_S_OK (of_nat n) (v1, ms1) = (v', ms')"
    "finished v RESULT_OK v'" "vb_disk v' = vb_disk v" "completed v U S head VIRTIO_BLK_S_OK (of_nat n) ms'"
    "same_outside (device_area v U S) ms1 ms'"
    using request_finished [OF assms(1) so ne dj t(2), of VIRTIO_BLK_S_OK "of_nat n"] by blast
  have "device_area v U S \<inter> span B (length (disk_slice v sector n)) = {}" unfolding len using assms(5) by blast
  then have "ram_bytes ms' B (disk_slice v sector n)" using ram_bytes_cong [OF _ f(5)] t(3) by (simp add: stored_def)
  then show ?thesis using f t(1) same_outside_trans [OF so f(5)] by simp
qed

text \<open>A read request delivers the disk.  When a read request for a range on the disk waits in guest memory, its buffer apart
  from the descriptor table, the status byte and the used ring, the device answers the notification: the buffer
  holds the bytes of the disk, the status byte is zero, the used ring names the chain and its length, the used index
  has moved by one, an interrupt is pending, and the disk and all other memory are as before.\<close>

theorem virtio_read_served:
  assumes "request_at v D A U ms head REQ_IN sector B n S" "on_disk v sector n" "length (vb_disk v) < 2 ^ 63"
    and "in_ram ms B n" "span B n \<inter> (span D (16 * unat (vb_queue_num v)) \<union> device_area v U S) = {}"
    and "length (vb_data_window v) = SECTOR_SIZE"
  shows "\<exists>v' ms'. VirtioBlock_try_execute_pending v ms = (Inr True, v', ms') \<and>
    ram_bytes ms' B (disk_slice v sector n) \<and> completed v U S head VIRTIO_BLK_S_OK (of_nat n) ms' \<and>
    finished v RESULT_OK v' \<and> vb_disk v' = vb_disk v \<and> same_outside (span B n \<union> device_area v U S) ms ms'"
  by (rule virtio_read_done [OF assms])

text \<open>The transfer of a write request.\<close>

lemma write_transferred:
  assumes "request_at v D A U ms head REQ_OUT sector B n S" "on_disk v sector n" "length (vb_disk v) < 2 ^ 63"
    and "ram_bytes ms B data" "length data = n" "length (vb_data_window v) = SECTOR_SIZE"
  shows "\<exists>v1. VirtioBlock_try_execute_pending v ms =
      (Inr True, virtio_complete head (next_slot v) VIRTIO_BLK_S_OK (of_nat n) (v1, ms)) \<and>
    handed v RESULT_OK (poke_list (unat sector * SECTOR_SIZE) data (vb_disk v)) v1"
proof -
  let ?off = "unat sector * SECTOR_SIZE"
  obtain d0 d1 d2 H idx where c: "chain_at v D ms head d0 d1 d2" "vd_addr d1 = ucast B" "unat (vd_len d1) = n"
    and t: "VirtioBlock_try_execute_pending v ms = (Inr True, virtio_serve (noticed v idx head) head (next_slot v) ms)"
    and p: "VirtioBlock_process_descriptor_chain (noticed v idx head) head ms = virtio_transfer (noticed v idx head) ms d1 REQ_OUT sector"
    using request_processed [OF assms(1)] .
  let ?v = "(noticed v idx head)\<lparr>vb_req_type := REQ_OUT, vb_sector := sector\<rparr>"
  have len: "?off + n \<le> length (vb_disk v)" using assms(2) by (auto simp: on_disk_def)
  have d: "vb_disk ?v = vb_disk v" by (simp add: noticed_def)
  have w: "length (vb_data_window ?v) = SECTOR_SIZE" using assms(6) by (simp add: noticed_def)
  let ?v2 = "?v\<lparr>vb_data_window := window_after (vb_data_window ?v) data, vb_disk := poke_list ?off data (vb_disk v)\<rparr>"
  have "virtio_out_for [0..<n] ?off (ucast B) (?v, ms) =
      (Inr (), ?v\<lparr>vb_data_window := window_after (vb_data_window ?v) data, vb_disk := poke_list ?off data (vb_disk ?v)\<rparr>, ms)"
    using virtio_out_loop [OF assms(4) le0 w, of ?off "vb_disk ?v" ?v] len [folded d] assms(5) by simp
  then have l: "virtio_out_for [0..<n] ?off (ucast B) (?v, ms) = (Inr (), ?v2, ms)" by (simp only: d)
  have off: "VirtioBlock_sector_offset ?v sector = Some ?off"
    using assms(3) by (intro on_disk_offset [OF assms(2)]) (simp_all add: noticed_def)
  let ?v1 = "virtio_outcome RESULT_OK 1 VIRTIO_BLK_S_OK
    (?v2\<lparr>vb_descriptor_success_count := sat_add64 (vb_descriptor_success_count (noticed v idx head)) 1\<rparr>)"
  have "virtio_transfer (noticed v idx head) ms d1 REQ_OUT sector = (Inr (of_nat n), ?v2, ms)"
    using off len assms(3) l by (simp add: virtio_transfer_def Let_def c(2,3) REQ_IN_def REQ_OUT_def) (simp add: noticed_def)
  then have "virtio_serve (noticed v idx head) head (next_slot v) ms =
    virtio_complete head (next_slot v) VIRTIO_BLK_S_OK (of_nat n) (?v1, ms)"
    by (simp add: virtio_serve_def p)
  moreover have "handed v RESULT_OK (poke_list ?off data (vb_disk v)) ?v1"
    by (simp add: handed_def virtio_outcome_def noticed_def)
  ultimately have "VirtioBlock_try_execute_pending v ms =
      (Inr True, virtio_complete head (next_slot v) VIRTIO_BLK_S_OK (of_nat n) (?v1, ms)) \<and>
    handed v RESULT_OK (poke_list ?off data (vb_disk v)) ?v1"
    using t by (simp only: simp_thms)
  then show ?thesis by (rule exI)
qed

text \<open>C12: A write request changes the disk.  When a write request for a range on the disk waits in guest memory, the device
  answers the notification: the bytes of the buffer replace the range, the rest of the disk is as before, the status
  byte is zero, the used ring names the chain and its length, the used index has moved by one, an interrupt is
  pending, and no other memory has changed.\<close>

theorem virtio_write_served:
  assumes "request_at v D A U ms head REQ_OUT sector B n S" "on_disk v sector n" "length (vb_disk v) < 2 ^ 63"
    and "ram_bytes ms B data" "length data = n" "length (vb_data_window v) = SECTOR_SIZE"
  shows "\<exists>v' ms'. VirtioBlock_try_execute_pending v ms = (Inr True, v', ms') \<and>
    (\<forall>i < length (vb_disk v). vb_disk v' ! i =
       (if unat sector * SECTOR_SIZE \<le> i \<and> i < unat sector * SECTOR_SIZE + n then data ! (i - unat sector * SECTOR_SIZE) else vb_disk v ! i)) \<and>
    length (vb_disk v') = length (vb_disk v) \<and> completed v U S head VIRTIO_BLK_S_OK (of_nat n) ms' \<and>
    finished v RESULT_OK v' \<and> same_outside (device_area v U S) ms ms'"
proof -
  let ?off = "unat sector * SECTOR_SIZE"
  have len: "?off + length data \<le> length (vb_disk v)" using assms(2,5) by (auto simp: on_disk_def)
  obtain v1 where t: "VirtioBlock_try_execute_pending v ms =
      (Inr True, virtio_complete head (next_slot v) VIRTIO_BLK_S_OK (of_nat n) (v1, ms))"
    "handed v RESULT_OK (poke_list ?off data (vb_disk v)) v1"
    using write_transferred [OF assms] by blast
  obtain v' ms' where f: "virtio_complete head (next_slot v) VIRTIO_BLK_S_OK (of_nat n) (v1, ms) = (v', ms')"
    "finished v RESULT_OK v'" "vb_disk v' = poke_list ?off data (vb_disk v)" "completed v U S head VIRTIO_BLK_S_OK (of_nat n) ms'"
    "same_outside (device_area v U S) ms ms'"
    using request_finished [OF assms(1) same_outside_refl [of "{}"] _ _ t(2), of VIRTIO_BLK_S_OK "of_nat n"] by auto
  have "poke_list ?off data (vb_disk v) ! i = (if ?off \<le> i \<and> i < ?off + n then data ! (i - ?off) else vb_disk v ! i)"
    if "i < length (vb_disk v)" for i
    using that len assms(5) by (auto simp: poke_list_def nth_append)
  moreover have "length (poke_list ?off data (vb_disk v)) = length (vb_disk v)" using len by simp
  ultimately show ?thesis using f t(1) by (intro exI [of _ v'] exI [of _ ms']) simp
qed

text \<open>A request that cannot be met is refused.  When the waiting request asks for bytes beyond the disk, or is neither a read
  nor a write, the driver finds status one and length zero, and the disk and all memory but the status byte and the
  used ring are as before.\<close>

theorem virtio_refused:
  assumes "request_at v D A U ms head kind sector B n S" "length (vb_disk v) < 2 ^ 63"
    and "\<not> on_disk v sector n \<or> kind \<notin> {REQ_IN, REQ_OUT}"
  shows "\<exists>v' ms'. VirtioBlock_try_execute_pending v ms = (Inr True, v', ms') \<and> vb_disk v' = vb_disk v \<and>
    completed v U S head VIRTIO_BLK_S_IOERR 0 ms' \<and> finished v RESULT_IO_ERR v' \<and> same_outside (device_area v U S) ms ms'"
proof -
  obtain d0 d1 d2 H idx where c: "chain_at v D ms head d0 d1 d2" "vd_addr d1 = ucast B" "unat (vd_len d1) = n"
    and t: "VirtioBlock_try_execute_pending v ms = (Inr True, virtio_serve (noticed v idx head) head (next_slot v) ms)"
    and p: "VirtioBlock_process_descriptor_chain (noticed v idx head) head ms = virtio_transfer (noticed v idx head) ms d1 kind sector"
    using request_processed [OF assms(1)] .
  let ?v = "(noticed v idx head)\<lparr>vb_req_type := kind, vb_sector := sector\<rparr>"
  let ?v1 = "virtio_outcome RESULT_IO_ERR 0 VIRTIO_BLK_S_IOERR
    (?v\<lparr>vb_descriptor_error_count := sat_add64 (vb_descriptor_error_count (noticed v idx head)) 1\<rparr>)"
  have d: "vb_disk ?v = vb_disk v" by (simp add: noticed_def)
  have "virtio_transfer (noticed v idx head) ms d1 kind sector = (Inl PeripheralErr, ?v, ms)"
    using assms(2,3) c(3) d
    by (auto simp: virtio_transfer_def Let_def VirtioBlock_sector_offset_def on_disk_def not_le split: option.splits if_splits)
  then have "virtio_serve (noticed v idx head) head (next_slot v) ms = virtio_complete head (next_slot v) VIRTIO_BLK_S_IOERR 0 (?v1, ms)"
    by (simp add: virtio_serve_def p)
  moreover have h: "handed v RESULT_IO_ERR (vb_disk v) ?v1" by (simp add: handed_def virtio_outcome_def noticed_def)
  moreover obtain v' ms' where f: "virtio_complete head (next_slot v) VIRTIO_BLK_S_IOERR 0 (?v1, ms) = (v', ms')"
    "finished v RESULT_IO_ERR v'" "vb_disk v' = vb_disk v" "completed v U S head VIRTIO_BLK_S_IOERR 0 ms'"
    "same_outside (device_area v U S) ms ms'"
    using request_finished [OF assms(1) same_outside_refl [of "{}"] _ _ h, of VIRTIO_BLK_S_IOERR 0] by auto
  ultimately show ?thesis using t by (intro exI [of _ v'] exI [of _ ms']) simp
qed

subsection \<open>An example\<close>

text \<open>A queue of four entries at the start of RAM, with one request of four bytes waiting, and a disk of two sectors.\<close>

definition demo_chain :: "nat \<Rightarrow> virtq_desc" where
  "demo_chain i = [\<lparr>vd_addr = 0x80000080, vd_len = 16, vd_flags = 1, vd_next = 1\<rparr>,
     \<lparr>vd_addr = 0x800000A0, vd_len = 4, vd_flags = 1, vd_next = 2\<rparr>,
     \<lparr>vd_addr = 0x80000090, vd_len = 1, vd_flags = 2, vd_next = 0\<rparr>] ! i"

definition demo_ring :: "u32 \<Rightarrow> u64 \<Rightarrow> u8 list \<Rightarrow> mem_regions" where
  "demo_ring kind sector data = mem_of
     (desc_bytes (demo_chain 0) @ desc_bytes (demo_chain 1) @ desc_bytes (demo_chain 2) @ replicate 16 0 @
      le_list 2 (0 :: u16) @ le_list 2 (1 :: u16) @ le_list 2 (0 :: u16) @ replicate 10 0 @ replicate 48 0 @
      le_list 4 kind @ replicate 4 0 @ le_list 8 sector @ replicate 16 0 @ data)"

definition demo_virtio :: virtio_block where
  "demo_virtio = (VirtioBlock_with_disk_sectors 2)\<lparr>vb_queue_desc_addr := 0x80000000, vb_queue_avail_addr := 0x80000040,
     vb_queue_used_addr := 0x80000050, vb_queue_num := 4, vb_queue_ready := True, vb_pending_queue_notify := Some 0,
     vb_disk := replicate 512 0 @ replicate 512 7\<rparr>"

lemma demo_request_for:
  assumes "length data = 4"
    and v: "vb_queue_num v = 4" "vb_queue_used_idx v = 0" "vb_queue_desc_addr v = 0x80000000" "vb_queue_avail_addr v = 0x80000040"
    "vb_queue_used_addr v = 0x80000050" "vb_queue_ready v" "vb_pending_queue_notify v = Some 0"
  shows "request_at v 0x80000000 0x80000040 0x80000050 (demo_ring kind sector data) 0 kind sector 0x800000A0 4 0x80000090"
    and "ram_bytes (demo_ring kind sector data) 0x800000A0 data"
proof -
  let ?ms = "demo_ring kind sector data"
  note mb = mem_of_bytes [where bytes = "desc_bytes (demo_chain 0) @ desc_bytes (demo_chain 1) @ desc_bytes (demo_chain 2) @ replicate 16 0 @
      le_list 2 (0 :: u16) @ le_list 2 (1 :: u16) @ le_list 2 (0 :: u16) @ replicate 10 0 @ replicate 48 0 @
      le_list 4 kind @ replicate 4 0 @ le_list 8 sector @ replicate 16 0 @ data", folded demo_ring_def]
  have desc: "ram_bytes ?ms 0x80000000 (desc_bytes (demo_chain 0))" "ram_bytes ?ms 0x80000010 (desc_bytes (demo_chain 1))"
    "ram_bytes ?ms 0x80000020 (desc_bytes (demo_chain 2))"
    by (rule mb [where k = 0] mb [where k = 16] mb [where k = 32]; simp add: assms(1))+
  have avail: "ram_bytes ?ms 0x80000042 (le_list 2 (1 :: u16))" "ram_bytes ?ms 0x80000044 (le_list 2 (0 :: u16))"
    by (rule mb [where k = 66] mb [where k = 68]; simp add: assms(1))+
  have used: "ram_bytes ?ms 0x80000050 (replicate 36 0)" "ram_bytes ?ms 0x80000090 [0]"
    by (rule mb [where k = 80] mb [where k = 144]; simp add: assms(1))+
  have hdr: "ram_bytes ?ms 0x80000080 (le_list 4 kind @ replicate 4 0 @ le_list 8 sector)"
    by (rule mb [where k = 128]; simp add: assms(1))
  show "ram_bytes ?ms 0x800000A0 data"
    by (rule mb [where k = 160]; simp add: assms(1))
  have "chain_at v 0x80000000 ?ms 0 (demo_chain 0) (demo_chain 1) (demo_chain 2)"
    using desc by (simp add: chain_at_def desc_at_def v demo_chain_def virtio_const_defs)
  moreover have "header_at ?ms 0x80000080 kind sector" using hdr unfolding header_at_def by (intro exI [of _ "replicate 4 0"]) simp
  moreover have "offered v 0x80000040 ?ms 0"
    using avail by (auto simp: offered_def v VirtioBlock_has_pending_descriptor_notify_def VirtioBlock_queue_is_ready_def intro!: exI [of _ 1])
  moreover have "used_ring_at v 0x80000050 ?ms" using ram_bytes_in_ram [OF used(1)] by (simp add: used_ring_at_def v)
  moreover have "in_ram ?ms 0x80000090 1" using ram_bytes_in_ram [OF used(2)] by simp
  ultimately show "request_at v 0x80000000 0x80000040 0x80000050 ?ms 0 kind sector 0x800000A0 4 0x80000090"
    unfolding request_at_def
    by (intro conjI exI [of _ "demo_chain 0"] exI [of _ "demo_chain 1"] exI [of _ "demo_chain 2"] exI [of _ "0x80000080 :: addr"])
      (simp_all add: span_def v demo_chain_def)
qed

lemma demo_request:
  assumes "length data = 4"
  shows "request_at demo_virtio 0x80000000 0x80000040 0x80000050 (demo_ring kind sector data) 0 kind sector 0x800000A0 4 0x80000090"
    and "ram_bytes (demo_ring kind sector data) 0x800000A0 data"
  using assms
  by (intro demo_request_for [where v = demo_virtio]; simp add: demo_virtio_def VirtioBlock_with_disk_sectors_def)+

lemma demo_device:
  "length (vb_disk demo_virtio) = 1024" "length (vb_data_window demo_virtio) = SECTOR_SIZE" "vb_queue_num demo_virtio = 4"
  by (simp_all add: demo_virtio_def VirtioBlock_with_disk_sectors_def)

theorem virtio_read_served_witness:
  "\<exists>v' ms'. VirtioBlock_try_execute_pending demo_virtio (demo_ring REQ_IN 1 [1, 2, 3, 4]) = (Inr True, v', ms') \<and>
     ram_bytes ms' 0x800000A0 [7, 7, 7, 7] \<and> ram_at 0x80000090 ms' = Some 0"
proof -
  have len: "length [1, 2, 3, 4 :: u8] = 4" by simp
  have sl: "disk_slice demo_virtio 1 4 = [7, 7, 7, 7]"
    by (simp add: disk_slice_def demo_virtio_def SECTOR_SIZE_def numeral_eq_Suc)
  have d: "on_disk demo_virtio 1 4" by (simp add: on_disk_def demo_device SECTOR_SIZE_def)
  have b: "in_ram (demo_ring REQ_IN 1 [1, 2, 3, 4]) 0x800000A0 4"
    using ram_bytes_in_ram [OF demo_request(2) [OF len]] by (simp only: len)
  have dj: "span 0x800000A0 4 \<inter> (span 0x80000000 (16 * unat (vb_queue_num demo_virtio)) \<union> device_area demo_virtio 0x80000050 0x80000090) = {}"
    by (auto simp: device_area_def span_def demo_device)
  have "length (vb_disk demo_virtio) < 2 ^ 63" by (simp add: demo_device)
  from virtio_read_served [OF demo_request(1) [OF len] d this b dj demo_device(2)] show ?thesis
    unfolding sl completed_def VIRTIO_BLK_S_OK_def by blast
qed

theorem virtio_write_served_witness:
  "\<exists>v' ms'. VirtioBlock_try_execute_pending demo_virtio (demo_ring REQ_OUT 1 [1, 2, 3, 4]) = (Inr True, v', ms') \<and>
     vb_disk v' ! 513 = 2 \<and> vb_disk v' ! 511 = 0"
proof -
  have len: "length [1, 2, 3, 4 :: u8] = 4" by simp
  have d: "on_disk demo_virtio 1 4" by (simp add: on_disk_def demo_device SECTOR_SIZE_def)
  have "length (vb_disk demo_virtio) < 2 ^ 63" by (simp add: demo_device)
  then obtain v' ms' where r: "VirtioBlock_try_execute_pending demo_virtio (demo_ring REQ_OUT 1 [1, 2, 3, 4]) = (Inr True, v', ms')"
    and w: "\<forall>i < length (vb_disk demo_virtio). vb_disk v' ! i =
       (if unat (1 :: u64) * SECTOR_SIZE \<le> i \<and> i < unat (1 :: u64) * SECTOR_SIZE + 4 then [1, 2, 3, 4] ! (i - unat (1 :: u64) * SECTOR_SIZE)
        else vb_disk demo_virtio ! i)"
    using virtio_write_served [OF demo_request(1) [OF len] d _ demo_request(2) [OF len] len demo_device(2)] by blast
  have "vb_disk demo_virtio ! 511 = 0" by (simp add: demo_virtio_def nth_append)
  then show ?thesis
    using r w [rule_format, of 513] w [rule_format, of 511] by (simp add: demo_device SECTOR_SIZE_def)
qed

theorem virtio_refused_witness:
  "\<exists>v' ms'. VirtioBlock_try_execute_pending demo_virtio (demo_ring REQ_IN 2 [1, 2, 3, 4]) = (Inr True, v', ms') \<and>
     vb_disk v' = vb_disk demo_virtio \<and> ram_at 0x80000090 ms' = Some 1"
proof -
  have len: "length [1, 2, 3, 4 :: u8] = 4" by simp
  have d: "\<not> on_disk demo_virtio 2 4 \<or> REQ_IN \<notin> {REQ_IN, REQ_OUT}" by (simp add: on_disk_def demo_device SECTOR_SIZE_def)
  have "length (vb_disk demo_virtio) < 2 ^ 63" by (simp add: demo_device)
  from virtio_refused [OF demo_request(1) [OF len] this d] show ?thesis
    unfolding completed_def VIRTIO_BLK_S_IOERR_def by blast
qed

end
