(* ===== verification/Virtio_State.thy ===== *)
theory Virtio_State
  imports Virtio_Correct
begin

text \<open>
  The block device's own state: what every byte stored to it, every turn it takes and every acknowledgement keep, and
  what a byte-wise store does to registers that refuse the value zero.
\<close>

subsection \<open>The device's own state\<close>

text \<open>Everything that can happen to a device with a disk of \<open>n\<close> sectors: a byte stored to it, its turn after a store, an
  acknowledged interrupt, a disk image or a sector loaded.\<close>

inductive virtio_reachable :: "nat \<Rightarrow> virtio_block \<Rightarrow> bool" for n where
  start: "virtio_reachable n (VirtioBlock_with_disk_sectors n)"
| store: "virtio_reachable n v \<Longrightarrow> VirtioBlock_write v off x = (r, v') \<Longrightarrow> virtio_reachable n v'"
| turn: "virtio_reachable n v \<Longrightarrow> VirtioBlock_try_execute_pending v ms = (b, v', ms') \<Longrightarrow> virtio_reachable n v'"
| ack: "virtio_reachable n v \<Longrightarrow> virtio_reachable n (VirtioBlock_acknowledge_interrupt v)"
| load: "virtio_reachable n v \<Longrightarrow> VirtioBlock_load_disk_image v img = (r, v') \<Longrightarrow> virtio_reachable n v'"
| preload: "virtio_reachable n v \<Longrightarrow> VirtioBlock_preload_sector v sector data = (r, v') \<Longrightarrow> virtio_reachable n v'"

text \<open>The sizes of its arrays and of the queue; with them every index of the source is in range.\<close>

definition virtio_inv :: "nat \<Rightarrow> virtio_block \<Rightarrow> bool" where
  "virtio_inv len v \<longleftrightarrow> unat (vb_queue_num v) \<le> QUEUE_RING_MAX \<and> length (vb_queue_used_ring v) = QUEUE_RING_MAX \<and>
     length (vb_data_window v) = SECTOR_SIZE \<and> length (vb_disk v) = len"

lemma queue_num_small: "unat (virtio_queue_num value) \<le> QUEUE_RING_MAX"
proof -
  have "min (unat value) 8 < 2 ^ 16" by simp
  then show ?thesis by (simp add: virtio_queue_num_def QUEUE_RING_MAX_def unat_of_nat)
qed

lemma inv_other_fields [simp]:
  "virtio_inv len (v\<lparr>vb_status := x0\<rparr>) = virtio_inv len v" "virtio_inv len (v\<lparr>vb_device_features := x1\<rparr>) = virtio_inv len v"
    "virtio_inv len (v\<lparr>vb_driver_features := x2\<rparr>) = virtio_inv len v" "virtio_inv len (v\<lparr>vb_guest_page_size := x3\<rparr>) = virtio_inv len v"
    "virtio_inv len (v\<lparr>vb_queue_sel := x4\<rparr>) = virtio_inv len v" "virtio_inv len (v\<lparr>vb_queue_align := x5\<rparr>) = virtio_inv len v"
    "virtio_inv len (v\<lparr>vb_queue_pfn := x6\<rparr>) = virtio_inv len v" "virtio_inv len (v\<lparr>vb_sector := x7\<rparr>) = virtio_inv len v"
    "virtio_inv len (v\<lparr>vb_command := x8\<rparr>) = virtio_inv len v" "virtio_inv len (v\<lparr>vb_result := x9\<rparr>) = virtio_inv len v"
    "virtio_inv len (v\<lparr>vb_control := x10\<rparr>) = virtio_inv len v" "virtio_inv len (v\<lparr>vb_queue_desc_addr := x11\<rparr>) = virtio_inv len v"
    "virtio_inv len (v\<lparr>vb_queue_avail_addr := x12\<rparr>) = virtio_inv len v" "virtio_inv len (v\<lparr>vb_queue_used_addr := x13\<rparr>) = virtio_inv len v"
    "virtio_inv len (v\<lparr>vb_queue_ready := x14\<rparr>) = virtio_inv len v" "virtio_inv len (v\<lparr>vb_queue_avail_idx := x15\<rparr>) = virtio_inv len v"
    "virtio_inv len (v\<lparr>vb_queue_used_idx := x16\<rparr>) = virtio_inv len v" "virtio_inv len (v\<lparr>vb_queue_head := x17\<rparr>) = virtio_inv len v"
    "virtio_inv len (v\<lparr>vb_last_used_head := x18\<rparr>) = virtio_inv len v" "virtio_inv len (v\<lparr>vb_pending_queue_notify := x19\<rparr>) = virtio_inv len v"
    "virtio_inv len (v\<lparr>vb_req_type := x20\<rparr>) = virtio_inv len v" "virtio_inv len (v\<lparr>vb_req_status := x21\<rparr>) = virtio_inv len v"
    "virtio_inv len (v\<lparr>vb_command_exec_count := x22\<rparr>) = virtio_inv len v"
    "virtio_inv len (v\<lparr>vb_queue_notify_count := x23\<rparr>) = virtio_inv len v"
    "virtio_inv len (v\<lparr>vb_descriptor_notify_count := x24\<rparr>) = virtio_inv len v"
    "virtio_inv len (v\<lparr>vb_irq_raised_count := x25\<rparr>) = virtio_inv len v" "virtio_inv len (v\<lparr>vb_irq_ack_count := x26\<rparr>) = virtio_inv len v"
    "virtio_inv len (v\<lparr>vb_descriptor_not_ready_count := x27\<rparr>) = virtio_inv len v"
    "virtio_inv len (v\<lparr>vb_descriptor_no_avail_count := x28\<rparr>) = virtio_inv len v"
    "virtio_inv len (v\<lparr>vb_descriptor_success_count := x29\<rparr>) = virtio_inv len v"
    "virtio_inv len (v\<lparr>vb_descriptor_error_count := x30\<rparr>) = virtio_inv len v" "virtio_inv len (v\<lparr>vb_irq_pending := x31\<rparr>) = virtio_inv len v"
  by (simp_all add: virtio_inv_def)

lemma offset_fits: "VirtioBlock_sector_offset v sector = Some off \<Longrightarrow> off + SECTOR_SIZE \<le> length (vb_disk v)"
  by (auto simp: VirtioBlock_sector_offset_def Let_def split: if_splits)

lemma inv_fields [simp]:
  "virtio_inv len v \<Longrightarrow> unat q \<le> QUEUE_RING_MAX \<Longrightarrow> virtio_inv len (v\<lparr>vb_queue_num := q\<rparr>)"
  "virtio_inv len v \<Longrightarrow> length r = QUEUE_RING_MAX \<Longrightarrow> virtio_inv len (v\<lparr>vb_queue_used_ring := r\<rparr>)"
  "virtio_inv len v \<Longrightarrow> length w = SECTOR_SIZE \<Longrightarrow> virtio_inv len (v\<lparr>vb_data_window := w\<rparr>)"
  "virtio_inv len v \<Longrightarrow> length d = len \<Longrightarrow> virtio_inv len (v\<lparr>vb_disk := d\<rparr>)"
  by (simp_all add: virtio_inv_def)

lemma invD:
  assumes "virtio_inv len v"
  shows "unat (vb_queue_num v) \<le> QUEUE_RING_MAX" "length (vb_queue_used_ring v) = QUEUE_RING_MAX"
    "length (vb_data_window v) = SECTOR_SIZE" "length (vb_disk v) = len"
  using assms by (simp_all add: virtio_inv_def)

lemma inv_outcome [simp]:
  "virtio_inv len (virtio_outcome res st rs v) = virtio_inv len v" "virtio_inv len (virtio_raise_irq v) = virtio_inv len v"
  "virtio_inv len (VirtioBlock_acknowledge_interrupt v) = virtio_inv len v" "virtio_inv len (virtio_set_pfn v value) = virtio_inv len v"
  by (simp_all add: virtio_outcome_def virtio_raise_irq_def VirtioBlock_acknowledge_interrupt_def virtio_set_pfn_def Let_def)

lemma window_moves_inv:
  assumes "virtio_inv len v"
  shows "virtio_inv len (snd (VirtioBlock_read_sector_to_window v))" "virtio_inv len (snd (VirtioBlock_write_window_to_sector v))"
  using assms offset_fits [of v "vb_sector v"] invD [OF assms]
  by (auto simp: VirtioBlock_read_sector_to_window_def VirtioBlock_write_window_to_sector_def split: option.splits)

text \<open>The two ways a request ends, whatever it did to the device.\<close>

lemma outcome_inv:
  assumes "virtio_inv len (snd m)" "\<And>v. virtio_inv len v \<Longrightarrow> virtio_inv len (f v)" "\<And>v. virtio_inv len v \<Longrightarrow> virtio_inv len (g v)"
  shows "virtio_inv len (case m of (Inr _, v) \<Rightarrow> f v | (Inl _, v) \<Rightarrow> g v)"
  using assms by (auto split: prod.splits sum.splits)

lemma command_inv:
  assumes "virtio_inv len v"
  shows "virtio_inv len (VirtioBlock_execute_command v cmd)"
proof -
  let ?v = "v\<lparr>vb_command_exec_count := sat_add64 (vb_command_exec_count v) 1, vb_command := cmd\<rparr>"
  have "virtio_inv len ?v" using assms by simp
  note w = window_moves_inv [OF this]
  note o = outcome_inv [OF w(1), of "virtio_outcome RESULT_OK 1 0" "virtio_outcome RESULT_IO_ERR 0 1"]
    outcome_inv [OF w(2), of "virtio_outcome RESULT_OK 1 0" "virtio_outcome RESULT_IO_ERR 0 1"]
  then show ?thesis
    unfolding VirtioBlock_execute_command_def Let_def inv_outcome using assms
    by (cases "cmd = READ_SECTOR"; cases "cmd = WRITE_SECTOR") simp_all
qed

lemma notify_inv:
  assumes "virtio_inv len v"
  shows "virtio_inv len (VirtioBlock_execute_queue_notify v q)"
proof -
  let ?v = "v\<lparr>vb_queue_notify_count := sat_add64 (vb_queue_notify_count v) 1\<rparr>"
  have i: "virtio_inv len ?v" using assms by simp
  have "virtio_inv len (snd (if vb_req_type ?v = REQ_IN then VirtioBlock_read_sector_to_window ?v
     else if vb_req_type ?v = REQ_OUT then VirtioBlock_write_window_to_sector ?v else (Inl PeripheralErr, ?v)))"
    using window_moves_inv [OF i] i by simp
  then have o: "virtio_inv len (case (if vb_req_type ?v = REQ_IN then VirtioBlock_read_sector_to_window ?v
     else if vb_req_type ?v = REQ_OUT then VirtioBlock_write_window_to_sector ?v else (Inl PeripheralErr, ?v)) of
       (Inr _, v) \<Rightarrow> (virtio_outcome RESULT_OK 1 0 v)\<lparr>
         vb_queue_used_ring := (vb_queue_used_ring (virtio_outcome RESULT_OK 1 0 v))
           [unat (vb_queue_used_idx (virtio_outcome RESULT_OK 1 0 v)) mod unat (vb_queue_num (virtio_outcome RESULT_OK 1 0 v)) :=
            vb_queue_head (virtio_outcome RESULT_OK 1 0 v)],
         vb_last_used_head := vb_queue_head (virtio_outcome RESULT_OK 1 0 v),
         vb_queue_used_idx := vb_queue_used_idx (virtio_outcome RESULT_OK 1 0 v) + 1\<rparr>
     | (Inl _, v) \<Rightarrow> virtio_outcome RESULT_IO_ERR 0 1 v)"
    by (rule outcome_inv) (simp_all add: invD)
  have e: "virtio_inv len (?v\<lparr>vb_pending_queue_notify := x\<rparr>)" "virtio_inv len (virtio_outcome res st rs ?v)" for x res st rs
    using assms by simp_all
  show ?thesis
    unfolding VirtioBlock_execute_queue_notify_def Let_def using o e by (simp only: inv_outcome split: if_split) simp
qed

lemma reg_write_inv: "virtio_inv len v \<Longrightarrow> virtio_inv len (VirtioBlock_write_reg_u32 v reg value)"
  by (simp add: VirtioBlock_write_reg_u32_def command_inv notify_inv queue_num_small)

lemma byte_write_inv: "virtio_inv len v \<Longrightarrow> virtio_inv len (VirtioBlock_write_u8 v off x)"
  using invD [of len v] by (simp add: VirtioBlock_write_u8_def Let_def reg_write_inv)

lemma in_for_inv: "virtio_inv len v \<Longrightarrow> virtio_inv len (fst (snd (virtio_in_for is off a (v, ms))))"
  by (induction "is" off a "(v, ms)" arbitrary: v ms rule: virtio_in_for.induct)
    (auto simp: Let_def invD split: prod.splits sum.splits)

lemma out_for_inv: "virtio_inv len v \<Longrightarrow> virtio_inv len (fst (snd (virtio_out_for is off a (v, ms))))"
  by (induction "is" off a "(v, ms)" arbitrary: v ms rule: virtio_out_for.induct)
    (auto simp: Let_def invD split: prod.splits sum.splits)

lemma bind_inv:
  assumes "virtio_inv len (fst (snd m))" "\<And>a s. virtio_inv len (fst s) \<Longrightarrow> virtio_inv len (fst (snd (f a s)))"
  shows "virtio_inv len (fst (snd (bind_st m f)))"
  using assms by (auto simp: bind_st_def split: prod.splits sum.splits)

lemma transfer_inv:
  assumes "virtio_inv len v"
  shows "virtio_inv len (fst (snd (virtio_transfer v ms d kind sector)))"
proof -
  have v: "virtio_inv len (v\<lparr>vb_req_type := kind, vb_sector := sector\<rparr>)" using assms by simp
  show ?thesis
    unfolding virtio_transfer_def Let_def
    by (cases "VirtioBlock_sector_offset (v\<lparr>vb_req_type := kind, vb_sector := sector\<rparr>) sector")
      (auto intro!: bind_inv in_for_inv out_for_inv simp: assms)
qed

lemma chain_inv: "virtio_inv len v \<Longrightarrow> virtio_inv len (fst (snd (VirtioBlock_process_descriptor_chain v head ms)))"
  by (auto simp: VirtioBlock_process_descriptor_chain_def transfer_inv split: sum.splits)

lemma complete_inv: "virtio_inv len v \<Longrightarrow> virtio_inv len (fst (virtio_complete head slot st n (v, ms)))"
  by (simp add: virtio_complete_def Let_def invD)

lemma serve_inv: "virtio_inv len v \<Longrightarrow> virtio_inv len (fst (virtio_serve v head slot ms))"
  using chain_inv [of len v head ms]
  by (auto simp: virtio_serve_def Let_def intro!: complete_inv split: prod.splits sum.splits)

lemma queue_inv: "virtio_inv len v \<Longrightarrow> virtio_inv len (fst (snd (VirtioBlock_execute_descriptor_queue v ms)))"
  by (auto simp: VirtioBlock_execute_descriptor_queue_def Let_def serve_inv split: sum.splits)

lemma turn_inv:
  assumes "virtio_inv len v"
  shows "virtio_inv len (fst (snd (VirtioBlock_try_execute_pending v ms)))"
proof -
  have "virtio_inv len (fst (snd (VirtioBlock_process_pending_descriptor_notify v ms)))"
    using assms by (auto simp: VirtioBlock_process_pending_descriptor_notify_def queue_inv split: option.split)
  then show ?thesis using assms by (auto simp: VirtioBlock_try_execute_pending_def intro!: bind_inv)
qed

lemma load_inv: "virtio_inv len v \<Longrightarrow> virtio_inv len (snd (VirtioBlock_load_disk_image v img))"
  by (simp add: VirtioBlock_load_disk_image_def invD)

lemma preload_inv: "virtio_inv len v \<Longrightarrow> virtio_inv len (snd (VirtioBlock_preload_sector v sector data))"
  using offset_fits [of v sector] invD(4) [of len v]
  by (auto simp: VirtioBlock_preload_sector_def split: option.splits)

text \<open>C13: The block device keeps its shape.  Whatever is stored to it byte by byte, whatever lies in guest memory when it takes its
  turn, its queue has at most eight entries, its used ring eight, its window one sector, and its disk the size it was
  made with; so the slot of the next request lies
  in the used ring.\<close>

theorem virtio_keeps_shape:
  assumes "virtio_reachable n v"
  shows "virtio_inv (min (n * SECTOR_SIZE) (2 ^ 64 - 1)) v \<and> (vb_queue_num v \<noteq> 0 \<longrightarrow> next_slot v < length (vb_queue_used_ring v))"
proof -
  have i: "virtio_inv (min (n * SECTOR_SIZE) (2 ^ 64 - 1)) v"
    using assms
  proof induction
    case start
    then show ?case by (simp add: virtio_inv_def VirtioBlock_with_disk_sectors_def QUEUE_RING_MAX_def)
  next
    case (store v off x r v')
    then show ?case by (auto simp: VirtioBlock_write_def byte_write_inv split: if_splits)
  next
    case (turn v ms b v' ms')
    from turn_inv [OF turn.IH, of ms] turn.hyps(2) show ?case by simp
  next
    case (load v img r v')
    from load_inv [OF load.IH, of img] load.hyps(2) show ?case by simp
  next
    case (preload v sector data r v')
    from preload_inv [OF preload.IH, of sector data] preload.hyps(2) show ?case by simp
  qed simp
  have "next_slot v < length (vb_queue_used_ring v)" if "vb_queue_num v \<noteq> 0"
  proof -
    have "next_slot v < unat (vb_queue_num v)" using that by (simp add: unat_gt_0)
    then show ?thesis using invD(1,2) [OF i] by simp
  qed
  then show ?thesis using i by simp
qed

theorem virtio_keeps_shape_witness:
  "virtio_inv 1024 (snd (VirtioBlock_write (VirtioBlock_with_disk_sectors 2) 0x38 200))"
proof -
  obtain r v' where w: "VirtioBlock_write (VirtioBlock_with_disk_sectors 2) 0x38 200 = (r, v')" by fastforce
  have "virtio_reachable 2 v'" by (rule virtio_reachable.store [OF virtio_reachable.start w])
  from virtio_keeps_shape [OF this] w show ?thesis by (simp add: SECTOR_SIZE_def)
qed

end
