(* ===== verification/Virtio_Bus.thy ===== *)
theory Virtio_Bus
  imports Virtio_State
begin

text \<open>
  The block device on the system bus: the processor's word store to the notify register reaches the device byte by
  byte, the device takes its turn at the end of the first of them, and the processor finds the data in its memory.
\<close>

definition with_disk :: "virtio_block \<Rightarrow> mem_regions \<Rightarrow> (addr \<times> nat \<times> virtio_block device) list \<Rightarrow> virtio_block bus \<Rightarrow> virtio_block bus" where
  "with_disk v ms rest b =
     b\<lparr>bus_peripherals := (VIRTIO_BLK_BASE, VIRTIO_BLK_SIZE, Dev_Other v) # rest, bus_ram_regions := ms\<rparr>"

lemma disk_address:
  assumes "unat off < VIRTIO_BLK_SIZE"
  shows "in_region VIRTIO_BLK_BASE VIRTIO_BLK_SIZE (VIRTIO_BLK_BASE + off)" "\<not> in_window ACC_CTRL_ROOT_BASE (VIRTIO_BLK_BASE + off)"
    "\<not> in_window ACC_DOORBELL_BASE (VIRTIO_BLK_BASE + off)"
proof -
  have "unat (VIRTIO_BLK_BASE + off) = unat VIRTIO_BLK_BASE + unat off"
    using assms by (intro unat_add_small) (simp add: VIRTIO_BLK_BASE_def VIRTIO_BLK_SIZE_def)
  then show "in_region VIRTIO_BLK_BASE VIRTIO_BLK_SIZE (VIRTIO_BLK_BASE + off)" "\<not> in_window ACC_CTRL_ROOT_BASE (VIRTIO_BLK_BASE + off)"
    "\<not> in_window ACC_DOORBELL_BASE (VIRTIO_BLK_BASE + off)"
    using assms by (auto simp: in_region_def in_window_def acc_bases VIRTIO_BLK_BASE_def VIRTIO_BLK_SIZE_def word_le_nat_alt)
qed

lemma turn_succeeds: "\<exists>t v' ms'. VirtioBlock_try_execute_pending v ms = (Inr t, v', ms')"
  by (auto simp: VirtioBlock_try_execute_pending_def VirtioBlock_process_pending_descriptor_notify_def
      VirtioBlock_execute_descriptor_queue_def Let_def virtio_serve_def split: option.split sum.split prod.split)

text \<open>A byte stored to the device, and the turn it takes.\<close>

lemma disk_write_byte:
  assumes "unat off < VIRTIO_BLK_SIZE" "VirtioBlock_try_execute_pending (VirtioBlock_write_u8 v off x) ms = (t, v', ms')"
  shows "Bus_write_byte virtio_device_ops (with_disk v ms rest b) (VIRTIO_BLK_BASE + off) x = (Inr (), with_disk v' ms' rest b)"
proof -
  obtain u where "t = Inr u" using assms(2) turn_succeeds [of "VirtioBlock_write_u8 v off x" ms] by auto
  moreover have "\<not> off \<ge> of_nat VIRTIO_BLK_SIZE" using assms(1) by (simp add: VIRTIO_BLK_SIZE_def word_le_nat_alt)
  ultimately show ?thesis
    using assms(2)
    by (simp add: Bus_write_byte_def Bus_try_write_acc_mmio_def Bus_region_write_def with_disk_def disk_address [OF assms(1)]
        virtio_device_ops_def VirtioBlock_write_def)
qed

lemma idle_turn: "vb_pending_queue_notify v = None \<Longrightarrow> VirtioBlock_try_execute_pending v ms = (Inr False, v, ms)"
  by (simp add: VirtioBlock_try_execute_pending_def VirtioBlock_has_pending_descriptor_notify_def)

text \<open>Of the bytes of the notify register only the lowest counts.\<close>

lemma notify_bytes:
  "VirtioBlock_write_u8 v 0x50 x = VirtioBlock_execute_queue_notify v (ucast x)"
  "VirtioBlock_write_u8 v 0x51 x = v" "VirtioBlock_write_u8 v 0x52 x = v" "VirtioBlock_write_u8 v 0x53 x = v"
  by (simp_all add: VirtioBlock_write_u8_def in_data_window_def Let_def virtio_const_defs virtio_reg_defs VirtioBlock_write_reg_u32_def)

text \<open>A word stored at an aligned offset.\<close>

lemma disk_write_word:
  assumes "unat off mod 4 = 0" "unat off + 3 < VIRTIO_BLK_SIZE"
    and "VirtioBlock_try_execute_pending (VirtioBlock_write_u8 v off (byte_at 0 w)) ms = (t1, v1, m1)"
    and "VirtioBlock_try_execute_pending (VirtioBlock_write_u8 v1 (off + 1) (byte_at 1 w)) m1 = (t2, v2, m2)"
    and "VirtioBlock_try_execute_pending (VirtioBlock_write_u8 v2 (off + 2) (byte_at 2 w)) m2 = (t3, v3, m3)"
    and "VirtioBlock_try_execute_pending (VirtioBlock_write_u8 v3 (off + 3) (byte_at 3 w)) m3 = (t4, v4, m4)"
  shows "Bus_write_word virtio_device_ops (with_disk v ms rest b) (VIRTIO_BLK_BASE + off) w = (Inr (), with_disk v4 m4 rest b)"
proof -
  have u: "unat (off + 1) = unat off + 1" "unat (off + 2) = unat off + 2" "unat (off + 3) = unat off + 3"
    using assms(2) by (auto simp: VIRTIO_BLK_SIZE_def intro!: unat_add_small [THEN trans])
  have lt: "unat off < VIRTIO_BLK_SIZE" "unat (off + 1) < VIRTIO_BLK_SIZE" "unat (off + 2) < VIRTIO_BLK_SIZE" "unat (off + 3) < VIRTIO_BLK_SIZE"
    using assms(2) u by simp_all
  have al: "check_alignment (VIRTIO_BLK_BASE + off) 4 = Inr ()"
  proof -
    have "unat (VIRTIO_BLK_BASE + off) = unat VIRTIO_BLK_BASE + unat off"
      using assms(2) by (intro unat_add_small) (simp add: VIRTIO_BLK_BASE_def VIRTIO_BLK_SIZE_def)
    moreover have "(unat VIRTIO_BLK_BASE + unat off) mod 4 = 0"
      using assms(1) by (simp add: VIRTIO_BLK_BASE_def mod_add_right_eq [symmetric])
    ultimately show ?thesis by (simp add: check_alignment_4)
  qed
  note s = disk_write_byte [OF lt(1) assms(3)] disk_write_byte [OF lt(2) assms(4)] disk_write_byte [OF lt(3) assms(5)] disk_write_byte [OF lt(4) assms(6)]
  have e: "VIRTIO_BLK_BASE + off + k = VIRTIO_BLK_BASE + (off + k)" for k by (simp add: add.assoc)
  show ?thesis
    by (simp add: Bus_write_word_def Memory_write_word_def al Addr_add_def e s del: One_nat_def)
qed

text \<open>C11: A load from disk, seen from the processor.  With the device first on the bus, its rings set up and a read request waiting,
  the word the driver stores to the notify register succeeds, and after it every byte of the buffer that the processor
  can load is the byte of the disk; the status byte is zero, the used ring names the chain, and an interrupt is pending.\<close>

theorem virtio_load_through_bus:
  assumes "VirtioBlock_descriptor_mode_enabled v" "v1 = VirtioBlock_execute_queue_notify v (ucast (byte_at 0 w))"
    and "request_at v1 D A U ms head REQ_IN sector B n S" "on_disk v sector n" "length (vb_disk v) < 2 ^ 63"
    and "in_ram ms B n" "span B n \<inter> (span D (16 * unat (vb_queue_num v)) \<union> device_area v U S) = {}"
    and "length (vb_data_window v) = SECTOR_SIZE"
  shows "\<exists>v' ms'. Bus_write_word virtio_device_ops (with_disk v ms rest b) (VIRTIO_BLK_BASE + VREG_QUEUE_NOTIFY_LEGACY) w = (Inr (), with_disk v' ms' rest b) \<and>
    (\<forall>i < n. bus_holds (with_disk v ms rest b) (B + of_nat i) \<longrightarrow>
       fst (Bus_read_byte virtio_device_ops (with_disk v' ms' rest b) (B + of_nat i)) = Inr (disk_slice v sector n ! i)) \<and>
    completed v U S head VIRTIO_BLK_S_OK (of_nat n) ms' \<and> finished v RESULT_OK v'"
proof -
  have v1: "v1 = v\<lparr>vb_queue_notify_count := sat_add64 (vb_queue_notify_count v) 1, vb_pending_queue_notify := Some (ucast (byte_at 0 w))\<rparr>"
    using assms(1) by (simp add: assms(2) VirtioBlock_execute_queue_notify_def VirtioBlock_descriptor_mode_enabled_def Let_def)
  have s: "on_disk v1 sector n" "length (vb_disk v1) < 2 ^ 63" "length (vb_data_window v1) = SECTOR_SIZE"
    "span B n \<inter> (span D (16 * unat (vb_queue_num v1)) \<union> device_area v1 U S) = {}"
    using assms(4-8) by (simp_all add: v1 on_disk_def device_area_def)
  obtain v' ms' where r: "VirtioBlock_try_execute_pending v1 ms = (Inr True, v', ms')"
    and o: "ram_bytes ms' B (disk_slice v1 sector n)" "completed v1 U S head VIRTIO_BLK_S_OK (of_nat n) ms'" "finished v1 RESULT_OK v'"
    using virtio_read_done [OF assms(3) s(1,2) assms(6) s(4,3)] by blast
  have i: "VirtioBlock_try_execute_pending v' ms' = (Inr False, v', ms')" using o(3) by (simp add: idle_turn finished_def)
  have "Bus_write_word virtio_device_ops (with_disk v ms rest b) (VIRTIO_BLK_BASE + 0x50) w = (Inr (), with_disk v' ms' rest b)"
    by (rule disk_write_word [where ?t1.0 = "Inr True" and ?v1.0 = v' and ?v2.0 = v' and ?v3.0 = v' and ?m1.0 = ms' and ?m2.0 = ms' and ?m3.0 = ms'
          and ?t2.0 = "Inr False" and ?t3.0 = "Inr False" and ?t4.0 = "Inr False"])
      (simp_all add: VIRTIO_BLK_SIZE_def notify_bytes r i flip: assms(2))
  moreover have "fst (Bus_read_byte virtio_device_ops (with_disk v' ms' rest b) (B + of_nat i)) = Inr (disk_slice v sector n ! i)"
    if "i < n" "bus_holds (with_disk v ms rest b) (B + of_nat i)" for i
  proof -
    have "length (disk_slice v sector n) = n" using assms(4) by (simp add: disk_slice_def on_disk_def)
    then have "ram_at (B + of_nat i) ms' = Some (disk_slice v sector n ! i)"
      using o(1) that(1) by (simp add: ram_bytes_def v1 disk_slice_def)
    moreover from this have "bus_holds (with_disk v' ms' rest b) (B + of_nat i)"
      using that(2) by (simp add: bus_holds_def with_disk_def peripheral_at_def)
    ultimately show ?thesis by (simp add: Bus_read_holds bus_byte_def with_disk_def)
  qed
  moreover have "completed v U S head VIRTIO_BLK_S_OK (of_nat n) ms'" "finished v RESULT_OK v'"
    using o(2,3) by (simp_all add: v1 completed_def finished_def)
  ultimately show ?thesis unfolding VREG_QUEUE_NOTIFY_LEGACY_def by blast
qed

theorem virtio_load_through_bus_witness:
  "\<exists>v' ms'. Bus_write_word virtio_device_ops
       (with_disk (demo_virtio\<lparr>vb_pending_queue_notify := None\<rparr>) (demo_ring REQ_IN 1 [1, 2, 3, 4]) [] (Bus_new :: virtio_block bus))
       (VIRTIO_BLK_BASE + VREG_QUEUE_NOTIFY_LEGACY) 0 = (Inr (), with_disk v' ms' [] Bus_new) \<and>
     fst (Bus_read_byte virtio_device_ops (with_disk v' ms' [] (Bus_new :: virtio_block bus)) 0x800000A0) = Inr 7"
proof -
  let ?v = "demo_virtio\<lparr>vb_pending_queue_notify := None\<rparr>" and ?ms = "demo_ring REQ_IN 1 [1, 2, 3, 4]"
  let ?v1 = "VirtioBlock_execute_queue_notify ?v (ucast (byte_at 0 (0 :: u32)))"
  have len: "length [1, 2, 3, 4 :: u8] = 4" by simp
  have m: "VirtioBlock_descriptor_mode_enabled ?v"
    by (simp add: VirtioBlock_descriptor_mode_enabled_def demo_virtio_def)
  then have v1: "?v1 = demo_virtio\<lparr>vb_queue_notify_count := sat_add64 (vb_queue_notify_count demo_virtio) 1, vb_pending_queue_notify := Some 0\<rparr>"
    by (simp add: VirtioBlock_execute_queue_notify_def VirtioBlock_descriptor_mode_enabled_def Let_def byte_at_def)
  have r: "request_at ?v1 0x80000000 0x80000040 0x80000050 ?ms 0 REQ_IN 1 0x800000A0 4 0x80000090"
    unfolding v1 by (rule demo_request_for(1) [OF len]) (simp_all add: demo_virtio_def VirtioBlock_with_disk_sectors_def)
  have d: "on_disk ?v 1 4" "length (vb_disk ?v) < 2 ^ 63" "length (vb_data_window ?v) = SECTOR_SIZE"
    using demo_device by (simp_all add: on_disk_def SECTOR_SIZE_def)
  have b: "ram_bytes ?ms 0x800000A0 [1, 2, 3, 4]" by (rule demo_request(2) [OF len])
  then have i: "in_ram ?ms 0x800000A0 4" using ram_bytes_in_ram [OF b] by (simp only: len)
  have dj: "span 0x800000A0 4 \<inter> (span 0x80000000 (16 * unat (vb_queue_num ?v)) \<union> device_area ?v 0x80000050 0x80000090) = {}"
    by (auto simp: device_area_def span_def demo_device)
  have sl: "disk_slice ?v 1 4 ! 0 = 7" by (simp add: disk_slice_def demo_virtio_def SECTOR_SIZE_def)
  have h: "bus_holds (with_disk ?v ?ms [] (Bus_new :: virtio_block bus)) (0x800000A0 + of_nat 0)"
    using ram_bytes_nth [OF b, of 0]
    by (simp add: bus_holds_def with_disk_def peripheral_at_def in_region_def in_window_def acc_bases VIRTIO_BLK_BASE_def VIRTIO_BLK_SIZE_def)
  obtain v' ms' where "Bus_write_word virtio_device_ops (with_disk ?v ?ms [] (Bus_new :: virtio_block bus)) (VIRTIO_BLK_BASE + VREG_QUEUE_NOTIFY_LEGACY) 0
      = (Inr (), with_disk v' ms' [] Bus_new)"
    "\<forall>i < 4. bus_holds (with_disk ?v ?ms [] (Bus_new :: virtio_block bus)) (0x800000A0 + of_nat i) \<longrightarrow>
       fst (Bus_read_byte virtio_device_ops (with_disk v' ms' [] (Bus_new :: virtio_block bus)) (0x800000A0 + of_nat i)) = Inr (disk_slice ?v 1 4 ! i)"
    using virtio_load_through_bus [OF m refl r d(1,2) i dj d(3), of "[]" "Bus_new :: virtio_block bus"] by blast
  then show ?thesis using h sl by (intro exI [of _ v'] exI [of _ ms']) (auto dest: spec [of _ 0])
qed

text \<open>A page size can come out wrong.  The registers for the page size and the ring alignment ignore a zero, but a word store
  arrives as four stores of a byte, each completed with the register's other bytes: storing 64 KiB over 4 KiB first
  offers the device zero in the byte that is set, so the old bit stays and the register holds \<open>0x11000\<close>.\<close>

theorem virtio_page_size_store:
  assumes "vb_guest_page_size v = 4096" "vb_pending_queue_notify v = None"
  shows "Bus_write_word virtio_device_ops (with_disk v ms rest b) (VIRTIO_BLK_BASE + VREG_GUEST_PAGE_SIZE) 0x10000 =
    (Inr (), with_disk (v\<lparr>vb_guest_page_size := 0x11000\<rparr>) ms rest b)"
proof -
  have w: "VirtioBlock_write_u8 v 0x28 0 = v" "VirtioBlock_write_u8 v 0x29 0 = v"
    "VirtioBlock_write_u8 v 0x2A 1 = v\<lparr>vb_guest_page_size := 0x11000\<rparr>"
    "VirtioBlock_write_u8 (v\<lparr>vb_guest_page_size := 0x11000\<rparr>) 0x2B 0 = v\<lparr>vb_guest_page_size := 0x11000\<rparr>"
    by (simp_all add: VirtioBlock_write_u8_def in_data_window_def Let_def virtio_const_defs virtio_reg_defs VirtioBlock_write_reg_u32_def
        VirtioBlock_read_reg_u32_def assms)
  have b: "byte_at 0 (0x10000 :: u32) = 0" "byte_at 1 (0x10000 :: u32) = 0" "byte_at 2 (0x10000 :: u32) = 1" "byte_at 3 (0x10000 :: u32) = 0"
    by (simp_all add: byte_at_def)
  show ?thesis
    unfolding VREG_GUEST_PAGE_SIZE_def
    by (rule disk_write_word [where ?v1.0 = v and ?v2.0 = v and ?v3.0 = "v\<lparr>vb_guest_page_size := 0x11000\<rparr>" and ?m1.0 = ms and ?m2.0 = ms and ?m3.0 = ms
          and ?t1.0 = "Inr False" and ?t2.0 = "Inr False" and ?t3.0 = "Inr False" and ?t4.0 = "Inr False"])
      (simp_all add: VIRTIO_BLK_SIZE_def b b [unfolded One_nat_def] w idle_turn assms)
qed

theorem virtio_page_size_store_witness:
  "Bus_write_word virtio_device_ops (with_disk VirtioBlock_new [] [] (Bus_new :: virtio_block bus)) (VIRTIO_BLK_BASE + VREG_GUEST_PAGE_SIZE) 0x10000 =
    (Inr (), with_disk (VirtioBlock_new\<lparr>vb_guest_page_size := 0x11000\<rparr>) [] [] Bus_new)"
  by (rule virtio_page_size_store) (simp_all add: VirtioBlock_new_def VirtioBlock_with_disk_sectors_def)

end
