(* ===== verification/Float32.thy ===== *)
theory Float32
  imports Complex_Main Prelude
begin

text \<open>
  Rust's \<open>f32\<close> as far as the accelerators use it: IEEE 754 binary32 numbers as their bit patterns, with the
  operations that round to nearest, ties to even, computed exactly on natural numbers.  A result that is not a
  number is the canonical quiet NaN: Rust leaves its payload open.  The elementary functions, the sign of the
  larger of two zeros and the start of an iterator's sum, which Rust leaves to the platform or the version, are
  fields of \<open>f32_lib\<close>.
\<close>

type_synonym f32 = u32

datatype f32_class = F_NaN | F_Inf bool | F_Fin bool nat int

subsection \<open>Encoding\<close>

text \<open>\<open>F_Fin s m e\<close> is the number \<open>m * 2 ^ e\<close>, negative if \<open>s\<close>.\<close>

definition f32_decode :: "f32 \<Rightarrow> f32_class" where
  "f32_decode x =
     (let u = unat x; s = u \<ge> 2 ^ 31; ex = u div 2 ^ 23 mod 2 ^ 8; fr = u mod 2 ^ 23 in
      if ex = 255 then (if fr = 0 then F_Inf s else F_NaN)
      else if ex = 0 then F_Fin s fr (- 149)
      else F_Fin s (fr + 2 ^ 23) (int ex - 150))"

definition f32_NAN :: f32 where "f32_NAN = 0x7FC00000"
definition f32_INFINITY :: f32 where "f32_INFINITY = 0x7F800000"
definition f32_NEG_INFINITY :: f32 where "f32_NEG_INFINITY = 0xFF800000"
definition f32_0 :: f32 where "f32_0 = 0"
definition f32_1 :: f32 where "f32_1 = 0x3F800000"

definition f32_signed :: "bool \<Rightarrow> nat \<Rightarrow> f32" where
  "f32_signed s bits = of_nat (bits + (if s then 2 ^ 31 else 0))"

fun bit_len :: "nat \<Rightarrow> nat" where
  "bit_len n = (if n = 0 then 0 else Suc (bit_len (n div 2)))"

declare bit_len.simps [simp del]

text \<open>\<open>n\<close> divided by \<open>2 ^ k\<close>, to nearest, ties to even.\<close>

definition round_shift :: "nat \<Rightarrow> nat \<Rightarrow> nat" where
  "round_shift k n =
     (if k = 0 then n
      else let m = n div 2 ^ k; r = n mod 2 ^ k in
        if r > 2 ^ (k - 1) \<or> r = 2 ^ (k - 1) \<and> odd m then Suc m else m)"

text \<open>The exponent of the last place of \<open>n * 2 ^ e\<close>, and the number rounded to it; what reaches the exponent 255 is
  infinite.\<close>

definition last_place :: "nat \<Rightarrow> int \<Rightarrow> int" where
  "last_place n e = max (- 149) (e + int (bit_len n) - 24)"

definition f32_round :: "bool \<Rightarrow> nat \<Rightarrow> int \<Rightarrow> f32" where
  "f32_round s n e =
     (if n = 0 then f32_signed s 0
      else
        let t = last_place n e;
            m = (if t \<le> e then n * 2 ^ nat (e - t) else round_shift (nat (t - e)) n);
            bits = nat (t + 149) * 2 ^ 23 + m
        in f32_signed s (if bits \<ge> 255 * 2 ^ 23 then 255 * 2 ^ 23 else bits))"

subsection \<open>Arithmetic\<close>

definition signed_mant :: "bool \<Rightarrow> nat \<Rightarrow> int" where
  "signed_mant s m = (if s then - int m else int m)"

definition f32_add :: "f32 \<Rightarrow> f32 \<Rightarrow> f32" where
  "f32_add x y =
     (case (f32_decode x, f32_decode y) of
        (F_Inf s, F_Inf t) \<Rightarrow> if s = t then x else f32_NAN
      | (F_Inf s, F_Fin _ _ _) \<Rightarrow> x
      | (F_Fin _ _ _, F_Inf t) \<Rightarrow> y
      | (F_Fin s m e, F_Fin t n f) \<Rightarrow>
          let g = min e f; c = signed_mant s m * 2 ^ nat (e - g) + signed_mant t n * 2 ^ nat (f - g)
          in if c = 0 then f32_signed (s \<and> t) 0 else f32_round (c < 0) (nat \<bar>c\<bar>) g
      | _ \<Rightarrow> f32_NAN)"

definition f32_neg :: "f32 \<Rightarrow> f32" where
  "f32_neg x = x XOR 0x80000000"

definition f32_sub :: "f32 \<Rightarrow> f32 \<Rightarrow> f32" where
  "f32_sub x y = f32_add x (f32_neg y)"

definition f32_mul :: "f32 \<Rightarrow> f32 \<Rightarrow> f32" where
  "f32_mul x y =
     (case (f32_decode x, f32_decode y) of
        (F_Inf s, F_Inf t) \<Rightarrow> f32_signed (s \<noteq> t) (255 * 2 ^ 23)
      | (F_Inf s, F_Fin t n f) \<Rightarrow> if n = 0 then f32_NAN else f32_signed (s \<noteq> t) (255 * 2 ^ 23)
      | (F_Fin s m e, F_Inf t) \<Rightarrow> if m = 0 then f32_NAN else f32_signed (s \<noteq> t) (255 * 2 ^ 23)
      | (F_Fin s m e, F_Fin t n f) \<Rightarrow> f32_round (s \<noteq> t) (m * n) (e + f)
      | _ \<Rightarrow> f32_NAN)"

text \<open>A quotient is computed to 26 bits or more, with the remainder as one more bit.\<close>

definition f32_div :: "f32 \<Rightarrow> f32 \<Rightarrow> f32" where
  "f32_div x y =
     (case (f32_decode x, f32_decode y) of
        (F_Inf s, F_Fin t n f) \<Rightarrow> f32_signed (s \<noteq> t) (255 * 2 ^ 23)
      | (F_Fin s m e, F_Inf t) \<Rightarrow> f32_signed (s \<noteq> t) 0
      | (F_Fin s m e, F_Fin t n f) \<Rightarrow>
          if n = 0 then (if m = 0 then f32_NAN else f32_signed (s \<noteq> t) (255 * 2 ^ 23))
          else
            let a = m * 2 ^ 50
            in f32_round (s \<noteq> t) (2 * (a div n) + (if a mod n = 0 then 0 else 1)) (e - f - 51)
      | _ \<Rightarrow> f32_NAN)"

definition f32_lt :: "f32 \<Rightarrow> f32 \<Rightarrow> bool" where
  "f32_lt x y =
     (case (f32_decode x, f32_decode y) of
        (F_Inf s, F_Inf t) \<Rightarrow> s \<and> \<not> t
      | (F_Inf s, F_Fin _ _ _) \<Rightarrow> s
      | (F_Fin _ _ _, F_Inf t) \<Rightarrow> \<not> t
      | (F_Fin s m e, F_Fin t n f) \<Rightarrow>
          let g = min e f in signed_mant s m * 2 ^ nat (e - g) < signed_mant t n * 2 ^ nat (f - g)
      | _ \<Rightarrow> False)"

definition f32_is_nan :: "f32 \<Rightarrow> bool" where
  "f32_is_nan x \<longleftrightarrow> f32_decode x = F_NaN"

definition f32_eq :: "f32 \<Rightarrow> f32 \<Rightarrow> bool" where
  "f32_eq x y \<longleftrightarrow> \<not> f32_is_nan x \<and> \<not> f32_is_nan y \<and> \<not> f32_lt x y \<and> \<not> f32_lt y x"

definition f32_ge :: "f32 \<Rightarrow> f32 \<Rightarrow> bool" where
  "f32_ge x y \<longleftrightarrow> f32_lt y x \<or> f32_eq x y"

text \<open>What Rust leaves open.\<close>

record f32_lib =
  fl_exp :: "f32 \<Rightarrow> f32"
  fl_tanh :: "f32 \<Rightarrow> f32"
  fl_first_zero :: bool
  fl_sum_start :: f32

definition f32_max :: "f32_lib \<Rightarrow> f32 \<Rightarrow> f32 \<Rightarrow> f32" where
  "f32_max fl x y =
     (if f32_is_nan x then y else if f32_is_nan y then x
      else if f32_lt x y then y else if f32_lt y x then x
      else if fl_first_zero fl then x else y)"

definition f32_min :: "f32_lib \<Rightarrow> f32 \<Rightarrow> f32 \<Rightarrow> f32" where
  "f32_min fl x y =
     (if f32_is_nan x then y else if f32_is_nan y then x
      else if f32_lt x y then x else if f32_lt y x then y
      else if fl_first_zero fl then x else y)"

definition f32_clamp :: "f32 \<Rightarrow> f32 \<Rightarrow> f32 \<Rightarrow> f32" where
  "f32_clamp x lo hi = (if f32_lt x lo then lo else if f32_lt hi x then hi else x)"

text \<open>\<open>round\<close>: to the nearest integer, halves away from zero.\<close>

definition f32_round_int :: "f32 \<Rightarrow> f32" where
  "f32_round_int x =
     (case f32_decode x of
        F_Fin s m e \<Rightarrow> if e \<ge> 0 then x else f32_round s ((m + 2 ^ nat (- e - 1)) div 2 ^ nat (- e)) 0
      | F_Inf _ \<Rightarrow> x
      | F_NaN \<Rightarrow> f32_NAN)"

text \<open>\<open>as f32\<close> from an \<open>i32\<close>, and the saturating \<open>as i32\<close> and \<open>as i8\<close>.\<close>

definition f32_of_int :: "int \<Rightarrow> f32" where
  "f32_of_int i = f32_round (i < 0) (nat \<bar>i\<bar>) 0"

definition f32_of_i32 :: "u32 \<Rightarrow> f32" where
  "f32_of_i32 w = f32_of_int (sint w)"

definition f32_of_i8 :: "u8 \<Rightarrow> f32" where
  "f32_of_i8 w = f32_of_int (sint w)"

definition f32_trunc :: "int \<Rightarrow> int \<Rightarrow> f32 \<Rightarrow> int" where
  "f32_trunc lo hi x =
     (case f32_decode x of
        F_NaN \<Rightarrow> 0
      | F_Inf s \<Rightarrow> if s then lo else hi
      | F_Fin s m e \<Rightarrow>
          let q = signed_mant s (if e \<ge> 0 then m * 2 ^ nat e else m div 2 ^ nat (- e)) in max lo (min hi q))"

definition f32_to_i32 :: "f32 \<Rightarrow> u32" where
  "f32_to_i32 x = of_int (f32_trunc (- (2 ^ 31)) (2 ^ 31 - 1) x)"

definition f32_to_i8 :: "f32 \<Rightarrow> u8" where
  "f32_to_i8 x = of_int (f32_trunc (- 128) 127 x)"

subsection \<open>Values\<close>

definition pow2 :: "int \<Rightarrow> rat" where
  "pow2 e = 2 powi e"

definition fval :: "f32 \<Rightarrow> rat option" where
  "fval x = (case f32_decode x of F_Fin s m e \<Rightarrow> Some (of_int (signed_mant s m) * pow2 e) | _ \<Rightarrow> None)"

lemma pow2_add: "pow2 (a + b) = pow2 a * pow2 b"
  by (simp add: pow2_def power_int_add)

lemma pow2_nat: "pow2 (int n) = 2 ^ n"
  by (simp add: pow2_def)

lemma pow2_pos [simp]: "0 < pow2 e"
  by (simp add: pow2_def)

lemma pow2_nonzero [simp]: "pow2 e \<noteq> 0"
  by (simp add: pow2_def)

lemma pow2_split: "g \<le> e \<Longrightarrow> pow2 e = 2 ^ nat (e - g) * pow2 g"
  using pow2_add [of "e - g" g] pow2_nat [of "nat (e - g)"] by simp

lemma bit_len_bounds: "0 < n \<Longrightarrow> 2 ^ (bit_len n - 1) \<le> n \<and> n < 2 ^ bit_len n"
proof (induction n rule: bit_len.induct)
  case (1 n)
  show ?case
  proof (cases "n = 1")
    case True
    then show ?thesis by (simp add: bit_len.simps)
  next
    case False
    then have h: "0 < n div 2" using 1(2) by auto
    let ?l = "bit_len (n div 2)"
    have i: "2 ^ (?l - 1) \<le> n div 2" "n div 2 < 2 ^ ?l" using 1 h by auto
    have "0 < ?l" using h by (subst bit_len.simps) simp
    then have p: "(2 :: nat) ^ ?l = 2 * 2 ^ (?l - 1)" by (cases ?l) simp_all
    have "bit_len n = Suc ?l" using 1(2) by (subst bit_len.simps) simp
    moreover have "2 * 2 ^ (?l - 1) \<le> n" using i(1) by linarith
    moreover have "n < 2 * 2 ^ ?l" using i(2) by linarith
    ultimately show ?thesis using p by simp
  qed
qed

lemma bit_len_shift: "0 < m \<Longrightarrow> bit_len (m * 2 ^ k) = bit_len m + k"
proof (induction k)
  case (Suc k)
  then have "bit_len (m * 2 ^ Suc k) = Suc (bit_len (m * 2 ^ Suc k div 2))" by (subst bit_len.simps) simp
  then show ?case using Suc by simp
qed simp

lemma unat_signed: "b < 255 * 2 ^ 23 \<Longrightarrow> unat (f32_signed s b) = b + (if s then 2 ^ 31 else 0)"
  by (cases s) (simp_all add: f32_signed_def unat_of_nat take_bit_nat_eq_self del: of_nat_add)

lemma sign_bit_fraction: "(b + 2 ^ 31) mod 2 ^ 23 = b mod (2 ^ 23 :: nat)"
  using mod_mult_self2 [of b "2 ^ 23" "2 ^ 8"] by simp

lemma sign_bit_away: "(b + 2 ^ 31) div 2 ^ 23 mod 2 ^ 8 = b div 2 ^ 23 mod (2 ^ 8 :: nat)"
proof -
  have "(b + 2 ^ 31) div 2 ^ 23 = b div 2 ^ 23 + (2 ^ 8 :: nat)" using div_mult_self2 [of "2 ^ 23" b "2 ^ 8"] by simp
  then show ?thesis by simp
qed

lemma decode_signed:
  assumes "m < 2 ^ 24" "T = 0 \<or> 2 ^ 23 \<le> m" "T * 2 ^ 23 + m < 255 * 2 ^ 23"
  shows "f32_decode (f32_signed s (T * 2 ^ 23 + m)) = F_Fin s m (int T - 149)"
proof -
  let ?b = "T * 2 ^ 23 + m"
  have u: "unat (f32_signed s ?b) = ?b + (if s then 2 ^ 31 else 0)"
    using assms(3) by (rule unat_signed)
  have sg: "2 ^ 31 \<le> unat (f32_signed s ?b) \<longleftrightarrow> s" unfolding u using assms(3) by simp
  have e: "unat (f32_signed s ?b) div 2 ^ 23 mod 2 ^ 8 = ?b div 2 ^ 23"
  proof -
    have "?b div 2 ^ 23 < 2 ^ 8" using assms(3) by (simp add: less_mult_imp_div_less)
    then show ?thesis unfolding u using sign_bit_away [of ?b] by (cases s) (simp_all del: div_mult_self3)
  qed
  have f: "unat (f32_signed s ?b) mod 2 ^ 23 = ?b mod 2 ^ 23" unfolding u using sign_bit_fraction [of ?b] by (cases s) simp_all
  show ?thesis
  proof (cases "m < 2 ^ 23")
    case True
    then have "?b div 2 ^ 23 = 0" "?b mod 2 ^ 23 = m" "T = 0" using assms(2) by simp_all
    then show ?thesis unfolding f32_decode_def Let_def sg e f by simp
  next
    case False
    then have b: "?b = (T + 1) * 2 ^ 23 + (m - 2 ^ 23)" "m - 2 ^ 23 < 2 ^ 23" using assms(1) by simp_all
    have "?b div 2 ^ 23 = T + 1" unfolding b(1) using b(2) by simp
    moreover have "?b mod 2 ^ 23 = m - 2 ^ 23" unfolding b(1) using b(2) by (simp only: mod_mult_self3 mod_less)
    moreover have "T + 1 \<noteq> 255" using assms(3) False by simp
    ultimately show ?thesis unfolding f32_decode_def Let_def sg e f using False by simp
  qed
qed

lemma decode_zero: "f32_decode (f32_signed s 0) = F_Fin s 0 (- 149)"
  using decode_signed [of 0 0 s] by simp

lemma round_shift_exact: "2 ^ k dvd n \<Longrightarrow> round_shift k n = n div 2 ^ k"
  by (auto simp: round_shift_def Let_def mod_eq_0_iff_dvd)

text \<open>A number that fits is not changed by rounding.\<close>

lemma round_exact:
  assumes "0 < n" "t = last_place n e" "t \<le> e \<or> 2 ^ nat (t - e) dvd n" "t \<le> 104"
  shows "fval (f32_round s n e) = Some (of_int (signed_mant s n) * pow2 e)"
proof -
  let ?L = "bit_len n" and ?m = "if t \<le> e then n * 2 ^ nat (e - t) else n div 2 ^ nat (t - e)"
  have L: "2 ^ (?L - 1) \<le> n" "n < 2 ^ ?L" "0 < ?L"
    using bit_len_bounds [OF assms(1)] assms(1) by (auto simp: bit_len.simps [of n])
  have t: "t \<ge> -149" "e + int ?L - 24 \<le> t" "t > -149 \<Longrightarrow> t = e + int ?L - 24"
    using assms(2) by (auto simp: last_place_def)
  have m: "?m < 2 ^ 24 \<and> (t > -149 \<longrightarrow> 2 ^ 23 \<le> ?m) \<and> of_nat ?m * pow2 t = of_nat n * pow2 e"
  proof (cases "t \<le> e")
    case True
    let ?j = "nat (e - t)"
    have "n * 2 ^ ?j < 2 ^ ?L * 2 ^ ?j" using L(2) by simp
    also have "\<dots> = 2 ^ (?L + ?j)" by (simp add: power_add)
    also have "\<dots> \<le> 2 ^ 24" using t(2) True by (intro power_increasing) auto
    finally have up: "n * 2 ^ ?j < 2 ^ 24" .
    have "2 ^ 23 \<le> n * 2 ^ ?j" if "t > -149"
    proof -
      have "?L - 1 + ?j = 23" using t(3) [OF that] True L(3) by auto
      then have "(2 :: nat) ^ 23 = 2 ^ (?L - 1) * 2 ^ ?j" by (simp flip: power_add)
      also have "\<dots> \<le> n * 2 ^ ?j" using L(1) by (rule mult_le_mono1)
      finally show ?thesis .
    qed
    then show ?thesis using True up pow2_split [OF True] by simp
  next
    case False
    let ?k = "nat (t - e)"
    obtain q where q: "n = q * 2 ^ ?k" using assms(3) False by (auto simp: dvd_def mult.commute)
    have d: "n div 2 ^ ?k = q" unfolding q by simp
    have "q * 2 ^ ?k < 2 ^ 24 * 2 ^ ?k"
    proof -
      have "q * 2 ^ ?k < 2 ^ ?L" using L(2) by (simp only: q [symmetric])
      also have "\<dots> \<le> 2 ^ (24 + ?k)" using t(2) False by (intro power_increasing) auto
      finally show ?thesis by (simp add: power_add)
    qed
    then have up: "q < 2 ^ 24" by simp
    have lo: "2 ^ 23 \<le> q" if "t > -149"
    proof -
      have "?L - 1 = 23 + ?k" using t(3) [OF that] False by auto
      then have "2 ^ 23 * 2 ^ ?k \<le> q * 2 ^ ?k" using L(1) by (simp only: q [symmetric] flip: power_add)
      then show ?thesis by simp
    qed
    have "of_nat n = (of_nat q * 2 ^ ?k :: rat)" by (subst q) simp
    then show ?thesis using False up lo pow2_split [of e t] by (simp add: d)
  qed
  let ?T = "nat (t + 149)"
  have T: "?T = 0 \<or> 2 ^ 23 \<le> ?m" using m t(1) by (cases "t > -149") auto
  have "?T * 2 ^ 23 + ?m < 255 * 2 ^ 23"
  proof -
    have "?T \<le> 253" using assms(4) by simp
    then have "?T * 2 ^ 23 \<le> 253 * 2 ^ 23" by (rule mult_le_mono1)
    then show ?thesis using m by simp
  qed
  note dec = decode_signed [OF _ T this, of s]
  have r: "(if t \<le> e then n * 2 ^ nat (e - t) else round_shift (nat (t - e)) n) = ?m"
    using assms(3) round_shift_exact by auto
  have "f32_round s n e = f32_signed s (?T * 2 ^ 23 + ?m)"
    using assms(1) \<open>?T * 2 ^ 23 + ?m < 255 * 2 ^ 23\<close> unfolding f32_round_def Let_def assms(2) [symmetric] r by simp
  then have "f32_decode (f32_round s n e) = F_Fin s ?m t" using dec m t(1) by simp
  then have "fval (f32_round s n e) = Some (of_int (signed_mant s ?m) * pow2 t)" by (simp add: fval_def)
  moreover have "of_int (signed_mant s ?m) * pow2 t = of_int (signed_mant s n) * pow2 e"
    using m by (cases s) (simp_all add: signed_mant_def)
  ultimately show ?thesis by simp
qed

subsection \<open>Small integers are exact\<close>

lemma bit_len_pos: "0 < n \<Longrightarrow> 0 < bit_len n"
  by (simp add: bit_len.simps)

lemma round_int:
  assumes "0 < n" "of_nat n * pow2 e = of_nat i" "i \<le> 2 ^ 24"
  shows "fval (f32_round s n e) = Some (of_int (signed_mant s i))"
proof -
  let ?L = "bit_len n" and ?t = "last_place n e"
  have L: "2 ^ (?L - 1) \<le> n" "0 < ?L" using bit_len_bounds [OF assms(1)] bit_len_pos [OF assms(1)] by simp_all
  have "e + int ?L \<le> 25 \<and> (?t \<le> e \<or> 2 ^ nat (?t - e) dvd n)"
  proof (cases "0 \<le> e")
    case True
    have "of_nat (n * 2 ^ nat e) = (of_nat i :: rat)" using assms(2) pow2_nat [of "nat e"] True by simp
    then have i: "n * 2 ^ nat e = i" by (simp only: of_nat_eq_iff)
    have "2 ^ (?L - 1) * 2 ^ nat e \<le> n * 2 ^ nat e" using L(1) by (rule mult_le_mono1)
    then have "(2 :: nat) ^ (?L - 1 + nat e) \<le> 2 ^ 24" using i assms(3) by (simp add: power_add)
    then have le: "?L - 1 + nat e \<le> 24" by (rule power_le_imp_le_exp [rotated]) simp
    have "2 ^ nat (?t - e) dvd n" if "\<not> ?t \<le> e"
    proof -
      have k: "?t = 1" "e = 0" "?L = 25" using that le True L(2) by (auto simp: last_place_def)
      then have "n = 2 ^ 24" using L(1) i assms(3) by simp
      then show ?thesis unfolding k(1) by (simp add: k(2))
    qed
    then show ?thesis using le True L(2) by auto
  next
    case False
    let ?k = "nat (- e)"
    have "pow2 e * 2 ^ ?k = 1" using pow2_add [of e "int ?k"] pow2_nat [of ?k] False by (simp add: pow2_def)
    then have "of_nat n = of_nat i * (2 ^ ?k :: rat)" using assms(2) by (metis mult.assoc mult.right_neutral)
    then have "of_nat n = (of_nat (i * 2 ^ ?k) :: rat)" by simp
    then have n: "n = i * 2 ^ ?k" by (simp only: of_nat_eq_iff)
    have "i * 2 ^ ?k \<le> 2 ^ 24 * 2 ^ ?k" using assms(3) by (rule mult_le_mono1)
    then have "(2 :: nat) ^ (?L - 1) \<le> 2 ^ (24 + ?k)" using L(1) unfolding n [symmetric] by (simp add: power_add)
    then have le: "?L - 1 \<le> 24 + ?k" by (rule power_le_imp_le_exp [rotated]) simp
    have "2 ^ nat (?t - e) dvd n" if "\<not> ?t \<le> e"
    proof (cases "?t \<le> 0")
      case True
      then have "nat (?t - e) \<le> ?k" by simp
      then have "2 ^ nat (?t - e) dvd (2 :: nat) ^ ?k" by (rule le_imp_power_dvd)
      then show ?thesis unfolding n by simp
    next
      case pos: False
      then have k: "?t = 1" "?L - 1 = 24 + ?k" using le False L(2) by (auto simp: last_place_def)
      have "2 ^ 24 * 2 ^ ?k \<le> i * 2 ^ ?k" using L(1) unfolding k(2) n [symmetric] by (simp add: power_add)
      then have i: "i = 2 ^ 24" using assms(3) by simp
      have "nat (1 - e) \<le> 24 + ?k" by simp
      then have "2 ^ nat (1 - e) dvd (2 :: nat) ^ (24 + ?k)" by (rule le_imp_power_dvd)
      then have "2 ^ nat (1 - e) dvd n" by (simp only: n i power_add)
      then show ?thesis unfolding k(1) .
    qed
    then show ?thesis using le False L(2) by auto
  qed
  then have "?t \<le> 104" "?t \<le> e \<or> 2 ^ nat (?t - e) dvd n" by (auto simp: last_place_def)
  from round_exact [OF assms(1) refl this(2,1)] show ?thesis
    using assms(2) by (cases s) (simp_all add: signed_mant_def)
qed

lemma fval_zero [simp]: "fval (f32_signed s 0) = Some 0"
  by (simp add: fval_def decode_zero signed_mant_def)

lemma round_zero [simp]: "f32_round s 0 e = f32_signed s 0"
  by (simp add: f32_round_def)

lemma round_int_signed:
  assumes "of_int c * pow2 e = of_int i" "\<bar>i\<bar> \<le> 2 ^ 24" "c \<noteq> 0"
  shows "fval (f32_round (c < 0) (nat \<bar>c\<bar>) e) = Some (of_int i)"
proof -
  have sg: "c < 0 \<longleftrightarrow> i < 0"
  proof -
    have "of_int c * pow2 e < 0 \<longleftrightarrow> of_int c < (0 :: rat)" by (simp add: mult_less_0_iff less_not_sym [OF pow2_pos])
    then show ?thesis using assms(1) by simp
  qed
  have "of_nat (nat \<bar>c\<bar>) * pow2 e = \<bar>of_int c * pow2 e\<bar>" by (simp add: abs_mult abs_of_pos)
  also have "\<dots> = of_nat (nat \<bar>i\<bar>)" by (simp add: assms(1))
  finally have "of_nat (nat \<bar>c\<bar>) * pow2 e = of_nat (nat \<bar>i\<bar>)" .
  moreover have "0 < nat \<bar>c\<bar>" "nat \<bar>i\<bar> \<le> 2 ^ 24" using assms(2,3) by simp_all
  ultimately have "fval (f32_round (c < 0) (nat \<bar>c\<bar>) e) = Some (of_int (signed_mant (c < 0) (nat \<bar>i\<bar>)))"
    by (intro round_int)
  moreover have "signed_mant (c < 0) (nat \<bar>i\<bar>) = i" unfolding sg by (simp add: signed_mant_def)
  ultimately show ?thesis by simp
qed

lemma fvalE:
  assumes "fval x = Some q"
  obtains s m e where "f32_decode x = F_Fin s m e" "of_int (signed_mant s m) * pow2 e = q"
  using assms by (auto simp: fval_def split: f32_class.splits)

lemma f32_of_int_exact: "\<bar>i\<bar> \<le> 2 ^ 24 \<Longrightarrow> fval (f32_of_int i) = Some (of_int i)"
  using round_int_signed [of i 0 i] by (cases "i = 0") (simp_all add: f32_of_int_def pow2_def)

lemma f32_add_exact:
  assumes "fval x = Some (of_int a)" "fval y = Some (of_int b)" "\<bar>a + b\<bar> \<le> 2 ^ 24"
  shows "fval (f32_add x y) = Some (of_int (a + b))"
proof -
  obtain s m e where x: "f32_decode x = F_Fin s m e" "of_int (signed_mant s m) * pow2 e = of_int a" using fvalE [OF assms(1)] .
  obtain t n f where y: "f32_decode y = F_Fin t n f" "of_int (signed_mant t n) * pow2 f = of_int b" using fvalE [OF assms(2)] .
  let ?g = "min e f"
  let ?c = "signed_mant s m * 2 ^ nat (e - ?g) + signed_mant t n * 2 ^ nat (f - ?g)"
  have "of_int ?c * pow2 ?g = of_int (signed_mant s m) * pow2 e + of_int (signed_mant t n) * pow2 f"
    using pow2_split [of ?g e] pow2_split [of ?g f] by (simp add: algebra_simps)
  then have c: "of_int ?c * pow2 ?g = of_int (a + b)" by (simp only: x(2) y(2) of_int_add)
  show ?thesis
  proof (cases "?c = 0")
    case True
    then have "a + b = 0" using c by simp
    then show ?thesis using True by (simp add: f32_add_def x(1) y(1))
  next
    case False
    then have "f32_add x y = f32_round (?c < 0) (nat \<bar>?c\<bar>) ?g" by (simp add: f32_add_def x(1) y(1) Let_def)
    then show ?thesis using round_int_signed [OF c assms(3) False] by simp
  qed
qed

lemma f32_mul_exact:
  assumes "fval x = Some (of_int a)" "fval y = Some (of_int b)" "\<bar>a * b\<bar> \<le> 2 ^ 24"
  shows "fval (f32_mul x y) = Some (of_int (a * b))"
proof -
  obtain s m e where x: "f32_decode x = F_Fin s m e" "of_int (signed_mant s m) * pow2 e = of_int a" using fvalE [OF assms(1)] .
  obtain t n f where y: "f32_decode y = F_Fin t n f" "of_int (signed_mant t n) * pow2 f = of_int b" using fvalE [OF assms(2)] .
  have r: "f32_mul x y = f32_round (s \<noteq> t) (m * n) (e + f)" by (simp add: f32_mul_def x(1) y(1))
  let ?c = "signed_mant s m * signed_mant t n"
  have c: "of_int ?c * pow2 (e + f) = of_int (a * b)"
    using x(2) y(2) by (simp add: pow2_add) (metis mult.assoc mult.left_commute)
  show ?thesis
  proof (cases "m * n = 0")
    case True
    then have "?c = 0" by (auto simp: signed_mant_def)
    then have "(of_int (a * b) :: rat) = 0" using c by (metis mult_zero_left of_int_0)
    moreover have "fval (f32_mul x y) = Some 0" unfolding r True by simp
    ultimately show ?thesis by simp
  next
    case False
    then have z: "?c \<noteq> 0" by (auto simp: signed_mant_def)
    have "?c < 0 \<longleftrightarrow> s \<noteq> t" using False by (auto simp: signed_mant_def mult_less_0_iff zero_less_mult_iff)
    moreover have "nat \<bar>?c\<bar> = m * n" by (simp add: signed_mant_def abs_mult nat_mult_distrib)
    ultimately show ?thesis using round_int_signed [OF c assms(3) z] r by simp
  qed
qed

lemma fval_constants: "fval f32_1 = Some 1" "fval f32_0 = Some 0" "f32_div f32_1 f32_1 = f32_1"
proof -
  have d: "f32_decode f32_1 = F_Fin False (2 ^ 23) (- 23)" "f32_decode f32_0 = F_Fin False 0 (- 149)"
    by (simp_all add: f32_decode_def f32_1_def f32_0_def Let_def)
  show "fval f32_1 = Some 1" "fval f32_0 = Some 0" by (simp_all add: fval_def d signed_mant_def pow2_def power_int_minus)
  have "bit_len (2 ^ 51) = 52"
  proof -
    have "bit_len (2 ^ n) = Suc n" for n by (induction n) (simp_all add: bit_len.simps)
    from this [of 51] show ?thesis by simp
  qed
  then show "f32_div f32_1 f32_1 = f32_1"
    unfolding f32_div_def d by (simp add: f32_round_def last_place_def round_shift_def Let_def f32_signed_def f32_1_def)
qed

text \<open>The magnitude of an integral number, from its parts.\<close>

lemma integral_parts:
  assumes "of_int (signed_mant s m) * pow2 e = of_int a"
  shows "0 \<le> e \<Longrightarrow> signed_mant s (m * 2 ^ nat e) = a" "e < 0 \<Longrightarrow> m = nat \<bar>a\<bar> * 2 ^ nat (- e)" "m \<noteq> 0 \<Longrightarrow> s = (a < 0)"
proof -
  have ab: "of_nat m * pow2 e = of_nat (nat \<bar>a\<bar>)"
  proof -
    have "of_nat m * pow2 e = \<bar>of_int (signed_mant s m) * pow2 e\<bar>" by (simp add: abs_mult abs_of_pos signed_mant_def)
    then show ?thesis by (simp add: assms)
  qed
  show "signed_mant s (m * 2 ^ nat e) = a" if "0 \<le> e"
  proof -
    have "of_int (signed_mant s (m * 2 ^ nat e)) = of_int (signed_mant s m) * pow2 e"
      using pow2_nat [of "nat e"] that by (simp add: signed_mant_def)
    then show ?thesis unfolding assms by (simp only: of_int_eq_iff)
  qed
  show "m = nat \<bar>a\<bar> * 2 ^ nat (- e)" if "e < 0"
  proof -
    have "pow2 e * 2 ^ nat (- e) = 1" using pow2_add [of e "- e"] pow2_nat [of "nat (- e)"] that by (simp add: pow2_def)
    then have "of_nat m = of_nat (nat \<bar>a\<bar>) * (2 ^ nat (- e) :: rat)" using ab by (metis mult.assoc mult.right_neutral)
    then have "of_nat m = (of_nat (nat \<bar>a\<bar> * 2 ^ nat (- e)) :: rat)" by simp
    then show ?thesis by (simp only: of_nat_eq_iff)
  qed
  show "s = (a < 0)" if "m \<noteq> 0"
  proof -
    have "(of_int a < (0 :: rat)) = (of_int (signed_mant s m) * pow2 e < 0)" by (simp only: assms)
    also have "\<dots> = s" using that by (auto simp: signed_mant_def mult_less_0_iff less_not_sym [OF pow2_pos])
    finally show ?thesis by simp
  qed
qed

lemma f32_round_int_exact:
  assumes "fval x = Some (of_int a)" "\<bar>a\<bar> \<le> 2 ^ 24"
  shows "fval (f32_round_int x) = Some (of_int a)"
proof -
  obtain s m e where x: "f32_decode x = F_Fin s m e" "of_int (signed_mant s m) * pow2 e = of_int a" using fvalE [OF assms(1)] .
  note p = integral_parts [OF x(2)]
  show ?thesis
  proof (cases "0 \<le> e")
    case True
    then show ?thesis using assms(1) by (simp add: f32_round_int_def x(1))
  next
    case False
    let ?k = "nat (- e)" and ?i = "nat \<bar>a\<bar>"
    have m: "m = ?i * 2 ^ ?k" using p(2) False by simp
    have "2 ^ nat (- e - 1) < (2 :: nat) ^ ?k" using False by (intro power_strict_increasing) auto
    then have q: "(m + 2 ^ nat (- e - 1)) div 2 ^ ?k = ?i" unfolding m by simp
    have r: "f32_round_int x = f32_round s ?i 0" using False q by (simp add: f32_round_int_def x(1))
    show ?thesis
    proof (cases "a = 0")
      case False
      then have "s = (a < 0)" using p(3) m by simp
      then show ?thesis unfolding r using round_int_signed [of a 0 a] assms(2) False by (simp add: pow2_def)
    qed (simp add: r)
  qed
qed

lemma f32_trunc_exact:
  assumes "fval x = Some (of_int a)"
  shows "f32_trunc lo hi x = max lo (min hi a)"
proof -
  obtain s m e where x: "f32_decode x = F_Fin s m e" "of_int (signed_mant s m) * pow2 e = of_int a" using fvalE [OF assms] .
  note p = integral_parts [OF x(2)]
  have "signed_mant s (if 0 \<le> e then m * 2 ^ nat e else m div 2 ^ nat (- e)) = a"
  proof (cases "0 \<le> e")
    case False
    then have "m div 2 ^ nat (- e) = nat \<bar>a\<bar>" using p(2) by simp
    moreover have "signed_mant s (nat \<bar>a\<bar>) = a"
    proof (cases "a = 0")
      case nz: False
      then have "m \<noteq> 0" using p(2) False by simp
      then show ?thesis using p(3) by (simp add: signed_mant_def)
    qed (simp add: signed_mant_def)
    ultimately show ?thesis using False by simp
  qed (use p(1) in simp)
  then show ?thesis by (simp add: f32_trunc_def x(1) Let_def)
qed

lemma f32_to_i32_exact:
  assumes "fval x = Some (of_int a)" "\<bar>a\<bar> \<le> 2 ^ 24"
  shows "f32_to_i32 x = of_int a"
proof -
  have "max (- (2 ^ 31)) (min (2 ^ 31 - 1) a) = a" using assms(2) by simp
  then show ?thesis by (simp only: f32_to_i32_def f32_trunc_exact [OF assms(1)])
qed

lemma f32_lt_exact:
  assumes "fval x = Some p" "fval y = Some q"
  shows "f32_lt x y \<longleftrightarrow> p < q"
proof -
  obtain s m e where x: "f32_decode x = F_Fin s m e" "of_int (signed_mant s m) * pow2 e = p" using fvalE [OF assms(1)] .
  obtain t n f where y: "f32_decode y = F_Fin t n f" "of_int (signed_mant t n) * pow2 f = q" using fvalE [OF assms(2)] .
  let ?g = "min e f" and ?a = "signed_mant s m" and ?b = "signed_mant t n"
  have "p = of_int (?a * 2 ^ nat (e - ?g)) * pow2 ?g" "q = of_int (?b * 2 ^ nat (f - ?g)) * pow2 ?g"
    using x(2) y(2) pow2_split [of ?g e] pow2_split [of ?g f] by simp_all
  then have "p < q \<longleftrightarrow> (of_int (?a * 2 ^ nat (e - ?g)) :: rat) < of_int (?b * 2 ^ nat (f - ?g))"
    by (simp only: mult_less_cancel_right_pos [OF pow2_pos])
  also have "\<dots> \<longleftrightarrow> f32_lt x y" by (simp only: of_int_less_iff) (simp add: f32_lt_def x(1) y(1) Let_def)
  finally show ?thesis by simp
qed

lemma f32_nan_exact: "fval x = Some p \<Longrightarrow> \<not> f32_is_nan x"
  by (auto simp: fval_def f32_is_nan_def)

lemma f32_eq_exact: "fval x = Some p \<Longrightarrow> fval y = Some q \<Longrightarrow> f32_eq x y \<longleftrightarrow> p = q"
  by (auto simp: f32_eq_def f32_nan_exact f32_lt_exact)

lemma f32_clamp_exact:
  assumes "fval x = Some p" "fval lo = Some l" "fval hi = Some h" "l \<le> h"
  shows "fval (f32_clamp x lo hi) = Some (max l (min h p))"
  using assms by (auto simp: f32_clamp_def f32_lt_exact max_def min_def)

subsection \<open>Differences, and quotients by one\<close>

lemma f32_neg_parts: "unat (f32_neg x) = (if unat x \<ge> 2 ^ 31 then unat x - 2 ^ 31 else unat x + 2 ^ 31)"
proof -
  have b: "(x XOR y) + (x AND y) + (x AND y) = x + y" for x y :: u32
  proof -
    have "(x XOR y) + (x AND y) = (x OR y)"
      by (subst disjunctive_add_eq_or; (rule bit_word_eqI)?; auto simp: bit_simps)
    then show ?thesis using word_plus_and_or [of x y] by (simp add: add.commute)
  qed
  have "(x AND 0x80000000) + (x AND 0x80000000) = 0"
  proof -
    have e: "(0x80000000 :: u32) = bitm 31" by (simp add: bitm_def)
    have "x AND bitm 31 = (if bit x 31 then bitm 31 else 0)" by (rule bit_word_eqI) (auto simp: bit_simps)
    moreover have "bitm 31 + bitm 31 = (0 :: u32)" by (simp add: bitm_def)
    ultimately show ?thesis unfolding e by simp
  qed
  then have "f32_neg x = x + 0x80000000" using b [of x "0x80000000"] by (simp add: f32_neg_def add.assoc)
  then have "unat (f32_neg x) = (unat x + 2 ^ 31) mod 2 ^ 32" by (simp add: unat_word_ariths)
  moreover have "unat x < 2 ^ 32" using unsigned_less [of x] by simp
  ultimately show ?thesis by (auto simp: mod_if)
qed

lemma decode_neg: "f32_decode (f32_neg x) = (case f32_decode x of F_NaN \<Rightarrow> F_NaN | F_Inf s \<Rightarrow> F_Inf (\<not> s) | F_Fin s m e \<Rightarrow> F_Fin (\<not> s) m e)"
proof -
  let ?u = "unat x" and ?v = "unat (f32_neg x)"
  have lt: "?u < 2 ^ 32" using unsigned_less [of x] by simp
  have s: "2 ^ 31 \<le> ?v \<longleftrightarrow> \<not> 2 ^ 31 \<le> ?u" using lt by (auto simp: f32_neg_parts)
  have "?v div 2 ^ 23 mod 2 ^ 8 = ?u div 2 ^ 23 mod 2 ^ 8 \<and> ?v mod 2 ^ 23 = ?u mod 2 ^ 23"
  proof (cases "2 ^ 31 \<le> ?u")
    case True
    then have "?u = ?v + 2 ^ 31" by (simp add: f32_neg_parts)
    then show ?thesis using sign_bit_away [of ?v] sign_bit_fraction [of ?v] by simp
  next
    case False
    then have "?v = ?u + 2 ^ 31" by (simp add: f32_neg_parts)
    then show ?thesis using sign_bit_away [of ?u] sign_bit_fraction [of ?u] by simp
  qed
  then show ?thesis unfolding f32_decode_def Let_def s by (auto split: if_splits)
qed

lemma f32_neg_exact: "fval x = Some q \<Longrightarrow> fval (f32_neg x) = Some (- q)"
  by (auto simp: fval_def decode_neg signed_mant_def split: f32_class.splits)

lemma f32_sub_exact:
  assumes "fval x = Some (of_int a)" "fval y = Some (of_int b)" "\<bar>a - b\<bar> \<le> 2 ^ 24"
  shows "fval (f32_sub x y) = Some (of_int (a - b))"
  using f32_add_exact [of x a "f32_neg y" "- b"] f32_neg_exact [OF assms(2)] assms by (simp add: f32_sub_def)

lemma f32_div_one_exact:
  assumes "fval x = Some (of_int a)" "\<bar>a\<bar> \<le> 2 ^ 24"
  shows "fval (f32_div x f32_1) = Some (of_int a)"
proof -
  obtain s m e where x: "f32_decode x = F_Fin s m e" "of_int (signed_mant s m) * pow2 e = of_int a" using fvalE [OF assms(1)] .
  have d: "f32_decode f32_1 = F_Fin False (2 ^ 23) (- 23)" by (simp add: f32_decode_def f32_1_def Let_def)
  have h: "m * 2 ^ 50 = m * 2 ^ 27 * (2 ^ 23 :: nat)" by simp
  have q: "m * 2 ^ 50 div 2 ^ 23 = m * 2 ^ 27" "m * 2 ^ 50 mod (2 ^ 23 :: nat) = 0" unfolding h by simp_all
  have two: "2 * (m * 2 ^ 27) = m * (2 ^ 28 :: nat)" by simp
  have r: "f32_div x f32_1 = f32_round s (m * 2 ^ 28) (e - 28)" by (simp add: f32_div_def x(1) d Let_def q two del: power_numeral)
  have "pow2 (e - 28) * 2 ^ 28 = pow2 e" using pow2_add [of "e - 28" 28] pow2_nat [of 28] by simp
  then have c: "of_int (signed_mant s (m * 2 ^ 28)) * pow2 (e - 28) = of_int a"
    unfolding x(2) [symmetric] by (simp add: signed_mant_def mult.assoc mult.commute)
  show ?thesis
  proof (cases "m = 0")
    case False
    then have z: "signed_mant s (m * 2 ^ 28) \<noteq> 0" "signed_mant s (m * 2 ^ 28) < 0 \<longleftrightarrow> s" "nat \<bar>signed_mant s (m * 2 ^ 28)\<bar> = m * 2 ^ 28"
      by (auto simp: signed_mant_def nat_mult_distrib)
    from round_int_signed [OF c assms(2) z(1)] show ?thesis unfolding z(2,3) r .
  next
    case True
    then have "(of_int a :: rat) = 0" using x(2) by (cases s) (simp_all add: signed_mant_def)
    then show ?thesis unfolding r True by simp
  qed
qed

lemma f32_to_i8_exact:
  assumes "fval x = Some (of_int a)" "- 128 \<le> a" "a \<le> 127"
  shows "f32_to_i8 x = of_int a"
  using assms by (simp add: f32_to_i8_def f32_trunc_exact [OF assms(1)])

text \<open>Clamping keeps what lies between the limits.\<close>

lemma f32_clamp_within:
  assumes "fval x = Some (of_int a)" "fval lo = Some (of_int l)" "fval hi = Some (of_int h)" "l \<le> a" "a \<le> h"
  shows "fval (f32_clamp x lo hi) = Some (of_int a)"
proof -
  have "max (of_int l) (min (of_int h) (of_int a)) = (of_int a :: rat)" using assms(4,5) by simp
  moreover have "(of_int l :: rat) \<le> of_int h" using assms(4,5) by simp
  ultimately show ?thesis using f32_clamp_exact [OF assms(1-3)] by simp
qed

end
