(* ===== verification/Accel_Common.thy ===== *)
theory Accel_Common
  imports Bus_Model Float32
begin

text \<open>
  What the two matrix accelerators share: the types of \<open>src/src/traits/accelerator.rs\<close> and the slices and tensor
  descriptors of \<open>src/src/peripheral/dma.rs\<close>.  A \<open>Vec\<close> whose size in bytes passes \<open>isize::MAX\<close> is a panic, the
  value \<open>None\<close>; allocation itself does not fail.  A signed byte or word is its bit pattern.
\<close>

subsection \<open>Types\<close>

datatype accelerator_type = Acc_Gpu | Acc_Tpu

datatype precision = Fp16 | Fp32 | Int8 | Int32 | Bf16

fun Precision_code :: "precision \<Rightarrow> u32" where
  "Precision_code Fp16 = 0"
| "Precision_code Fp32 = 1"
| "Precision_code Int8 = 2"
| "Precision_code Int32 = 3"
| "Precision_code Bf16 = 4"

fun Precision_byte_size :: "precision \<Rightarrow> nat" where
  "Precision_byte_size Fp16 = 2"
| "Precision_byte_size Bf16 = 2"
| "Precision_byte_size Fp32 = 4"
| "Precision_byte_size Int32 = 4"
| "Precision_byte_size Int8 = 1"

definition Precision_from_u32 :: "u32 \<Rightarrow> precision" where
  "Precision_from_u32 v = (if v = 0 then Fp16 else if v = 1 then Fp32 else if v = 2 then Int8
     else if v = 3 then Int32 else if v = 4 then Bf16 else Fp32)"

datatype kernel_type = K_MatMul | K_MatAdd | K_MatSub | K_MatTranspose
  | K_Conv2d | K_Conv2dBackward | K_Pool2dMax | K_Pool2dAvg
  | K_VectorAdd | K_VectorMul | K_VectorDot | K_VectorScale
  | K_Relu | K_Relu6 | K_Sigmoid | K_Tanh | K_Softmax | K_LeakyRelu
  | K_ReduceSum | K_ReduceMax | K_ReduceMean
  | K_Quantize | K_Dequantize | K_Requantize | K_Custom

fun KernelType_code :: "kernel_type \<Rightarrow> u32" where
  "KernelType_code K_MatMul = 0"
| "KernelType_code K_MatAdd = 1"
| "KernelType_code K_MatSub = 2"
| "KernelType_code K_MatTranspose = 3"
| "KernelType_code K_Conv2d = 10"
| "KernelType_code K_Conv2dBackward = 11"
| "KernelType_code K_Pool2dMax = 12"
| "KernelType_code K_Pool2dAvg = 13"
| "KernelType_code K_VectorAdd = 20"
| "KernelType_code K_VectorMul = 21"
| "KernelType_code K_VectorDot = 22"
| "KernelType_code K_VectorScale = 23"
| "KernelType_code K_Relu = 30"
| "KernelType_code K_Relu6 = 31"
| "KernelType_code K_Sigmoid = 32"
| "KernelType_code K_Tanh = 33"
| "KernelType_code K_Softmax = 34"
| "KernelType_code K_LeakyRelu = 35"
| "KernelType_code K_ReduceSum = 40"
| "KernelType_code K_ReduceMax = 41"
| "KernelType_code K_ReduceMean = 42"
| "KernelType_code K_Quantize = 50"
| "KernelType_code K_Dequantize = 51"
| "KernelType_code K_Requantize = 52"
| "KernelType_code K_Custom = 255"

definition KernelType_from_u32 :: "u32 \<Rightarrow> kernel_type" where
  "KernelType_from_u32 v =
     (if v = 0 then K_MatMul else if v = 1 then K_MatAdd else if v = 2 then K_MatSub else if v = 3 then K_MatTranspose
      else if v = 10 then K_Conv2d else if v = 11 then K_Conv2dBackward else if v = 12 then K_Pool2dMax
      else if v = 13 then K_Pool2dAvg else if v = 20 then K_VectorAdd else if v = 21 then K_VectorMul
      else if v = 22 then K_VectorDot else if v = 23 then K_VectorScale else if v = 30 then K_Relu
      else if v = 31 then K_Relu6 else if v = 32 then K_Sigmoid else if v = 33 then K_Tanh else if v = 34 then K_Softmax
      else if v = 35 then K_LeakyRelu else if v = 40 then K_ReduceSum else if v = 41 then K_ReduceMax
      else if v = 42 then K_ReduceMean else if v = 50 then K_Quantize else if v = 51 then K_Dequantize
      else if v = 52 then K_Requantize else K_Custom)"

definition KernelType_is_matrix_op :: "kernel_type \<Rightarrow> bool" where
  "KernelType_is_matrix_op k \<longleftrightarrow> k \<in> {K_MatMul, K_MatAdd, K_MatSub, K_MatTranspose}"

definition KernelType_is_conv_op :: "kernel_type \<Rightarrow> bool" where
  "KernelType_is_conv_op k \<longleftrightarrow> k \<in> {K_Conv2d, K_Conv2dBackward, K_Pool2dMax, K_Pool2dAvg}"

definition KernelType_is_activation :: "kernel_type \<Rightarrow> bool" where
  "KernelType_is_activation k \<longleftrightarrow> k \<in> {K_Relu, K_Relu6, K_Sigmoid, K_Tanh, K_Softmax, K_LeakyRelu}"

lemma KernelType_from_code: "KernelType_from_u32 (KernelType_code k) = k"
  by (cases k) (simp_all add: KernelType_from_u32_def)

lemma Precision_from_code: "Precision_from_u32 (Precision_code p) = p"
  by (cases p) (simp_all add: Precision_from_u32_def)

record accelerator_perf =
  ap_kernels_executed :: u64
  ap_cycles_elapsed :: u64
  ap_bytes_transferred :: u64
  ap_operations_count :: u64
  ap_errors_count :: u64

subsection \<open>Tensor descriptors of the trait\<close>

record tensor_descriptor =
  td_data_addr :: u64
  td_element_count :: u32
  td_precision :: u32
  td_ndim :: u32
  td_shape :: "u32 list"
  td_strides :: "u32 list"
  td_reserved :: "u32 list"

text \<open>The loop that fills the strides, from the last dimension but one down.\<close>

fun stride_for :: "nat list \<Rightarrow> u32 list \<Rightarrow> u32 list \<Rightarrow> u32 list" where
  "stride_for [] sh st = st"
| "stride_for (i # is) sh st = stride_for is sh (st[i := st ! (i + 1) * sh ! (i + 1)])"

definition TensorDescriptor_new :: "u64 \<Rightarrow> u32 list \<Rightarrow> precision \<Rightarrow> tensor_descriptor" where
  "TensorDescriptor_new data_addr shape p =
     (let ndim = min (length shape) 8;
          shape_arr = take ndim shape @ replicate (8 - ndim) 0;
          strides_arr = (if ndim > 0
            then stride_for (rev [0..<ndim - 1]) shape_arr ((replicate 8 0)[ndim - 1 := of_nat (Precision_byte_size p)])
            else replicate 8 0)
      in \<lparr>td_data_addr = data_addr, td_element_count = (if ndim > 0 then prod_list shape else 0), td_precision = Precision_code p,
          td_ndim = of_nat ndim, td_shape = shape_arr, td_strides = strides_arr, td_reserved = replicate 4 0\<rparr>)"

definition TensorDescriptor_byte_size :: "tensor_descriptor \<Rightarrow> nat" where
  "TensorDescriptor_byte_size d = unat (td_element_count d) * Precision_byte_size (Precision_from_u32 (td_precision d))"

subsection \<open>Slices\<close>

definition vec_fits :: "nat \<Rightarrow> nat \<Rightarrow> bool" where
  "vec_fits elem_size count \<longleftrightarrow> elem_size * count < 2 ^ 63"

text \<open>\<open>?\<close> on the result of a call that reads, or panics, in state \<open>s\<close>.\<close>

definition bind_vec :: "'a result option \<Rightarrow> 's \<Rightarrow> ('a \<Rightarrow> ('b result \<times> 's) option) \<Rightarrow> ('b result \<times> 's) option" where
  "bind_vec m s f = (case m of None \<Rightarrow> None | Some (Inl e) \<Rightarrow> Some (Inl e, s) | Some (Inr a) \<Rightarrow> f a)"

lemma bind_vec_simps [simp]:
  "bind_vec None s f = None"
  "bind_vec (Some (Inl e)) s f = Some (Inl e, s)"
  "bind_vec (Some (Inr a)) s f = f a"
  by (simp_all add: bind_vec_def)

text \<open>A loop that pushes one value per round, and one that stores the elements of a slice, numbered from \<open>i\<close>.\<close>

fun collect_for :: "('a \<Rightarrow> 'b result) \<Rightarrow> 'a list \<Rightarrow> 'b list result" where
  "collect_for f [] = Inr []"
| "collect_for f (x # xs) = bind_res (f x) (\<lambda>y. bind_res (collect_for f xs) (\<lambda>ys. Inr (y # ys)))"

fun store_for :: "(nat \<Rightarrow> 'a \<Rightarrow> 's \<Rightarrow> unit result \<times> 's) \<Rightarrow> nat \<Rightarrow> 'a list \<Rightarrow> 's \<Rightarrow> unit result \<times> 's" where
  "store_for f i [] s = (Inr (), s)"
| "store_for f i (x # xs) s = bind_st (f i x s) (\<lambda>_ s. store_for f (Suc i) xs s)"

definition dma_read_f32_slice :: "mem_regions \<Rightarrow> u64 \<Rightarrow> nat \<Rightarrow> f32 list result option" where
  "dma_read_f32_slice ms addr count =
     (if vec_fits 4 count then Some (collect_for (\<lambda>i. dma_read_u32 ms (addr + of_nat i * 4)) [0..<count]) else None)"

definition dma_write_f32_slice :: "mem_regions \<Rightarrow> u64 \<Rightarrow> f32 list \<Rightarrow> unit result \<times> mem_regions" where
  "dma_write_f32_slice ms addr data = store_for (\<lambda>i v ms. dma_write_u32 ms (addr + of_nat i * 4) v) 0 data ms"

definition dma_read_i8_slice :: "mem_regions \<Rightarrow> u64 \<Rightarrow> nat \<Rightarrow> u8 list result option" where
  "dma_read_i8_slice ms addr count =
     (if vec_fits 1 count then Some (collect_for (\<lambda>i. dma_read_u8 ms (addr + of_nat i)) [0..<count]) else None)"

definition dma_write_i8_slice :: "mem_regions \<Rightarrow> u64 \<Rightarrow> u8 list \<Rightarrow> unit result \<times> mem_regions" where
  "dma_write_i8_slice ms addr data = store_for (\<lambda>i v ms. dma_write_u8 ms (addr + of_nat i) v) 0 data ms"

definition dma_write_tensor_desc ::
  "mem_regions \<Rightarrow> u64 \<Rightarrow> u32 \<Rightarrow> u32 \<Rightarrow> u32 \<times> u32 \<times> u32 \<Rightarrow> unit result \<times> mem_regions" where
  "dma_write_tensor_desc ms desc_addr data_addr element_count shape =
     (case shape of (s0, s1, s2) \<Rightarrow>
        bind_st (dma_write_u32 ms desc_addr data_addr) (\<lambda>_ ms.
        bind_st (dma_write_u32 ms (desc_addr + 4) element_count) (\<lambda>_ ms.
        bind_st (dma_write_u32 ms (desc_addr + 8) s0) (\<lambda>_ ms.
        bind_st (dma_write_u32 ms (desc_addr + 12) s1) (\<lambda>_ ms.
        dma_write_u32 ms (desc_addr + 16) s2)))))"

definition dma_read_tensor_desc :: "mem_regions \<Rightarrow> u64 \<Rightarrow> (u64 \<times> nat \<times> u32 \<times> u32 \<times> u32) result" where
  "dma_read_tensor_desc ms desc_addr =
     bind_res (dma_read_u32 ms desc_addr) (\<lambda>data_addr.
     bind_res (dma_read_u32 ms (desc_addr + 4)) (\<lambda>element_count.
     bind_res (dma_read_u32 ms (desc_addr + 8)) (\<lambda>s0.
     bind_res (dma_read_u32 ms (desc_addr + 12)) (\<lambda>s1.
     bind_res (dma_read_u32 ms (desc_addr + 16)) (\<lambda>s2.
     Inr (ucast data_addr, unat element_count, s0, s1, s2))))))"

subsection \<open>Control and status\<close>

text \<open>The bits, which both accelerators declare alike.\<close>

definition XPU_START :: u32 where "XPU_START = bitm 0"
definition XPU_RESET :: u32 where "XPU_RESET = bitm 1"
definition XPU_IRQ_EN :: u32 where "XPU_IRQ_EN = bitm 2"
definition XPU_IDLE :: u32 where "XPU_IDLE = 0"
definition XPU_BUSY :: u32 where "XPU_BUSY = bitm 0"
definition XPU_DONE :: u32 where "XPU_DONE = bitm 1"
definition XPU_ERROR :: u32 where "XPU_ERROR = bitm 2"
definition XPU_IRQ_PENDING :: u32 where "XPU_IRQ_PENDING = bitm 3"

lemmas xpu_bit_defs = XPU_START_def XPU_RESET_def XPU_IRQ_EN_def XPU_IDLE_def XPU_BUSY_def XPU_DONE_def XPU_ERROR_def
  XPU_IRQ_PENDING_def

text \<open>An address register written by halves.\<close>

definition set_low_half :: "u64 \<Rightarrow> u32 \<Rightarrow> u64" where
  "set_low_half a value = (a AND 0xFFFFFFFF00000000) OR ucast value"

definition set_high_half :: "u64 \<Rightarrow> u32 \<Rightarrow> u64" where
  "set_high_half a value = (a AND 0x00000000FFFFFFFF) OR push_bit 32 (ucast value)"

subsection \<open>Tables filled by loops\<close>

text \<open>Nested loops over the cells of a table, each assigned once, in the order of the list \<open>xs\<close> of the loops' indices.\<close>

definition fill_table :: "('i \<Rightarrow> nat) \<Rightarrow> ('i \<Rightarrow> 'a) \<Rightarrow> 'i list \<Rightarrow> 'a list \<Rightarrow> 'a list" where
  "fill_table ix f xs c = fold (\<lambda>x c. c[ix x := f x]) xs c"

lemma fill_table_simps [simp]:
  "fill_table ix f [] c = c" "fill_table ix f (x # xs) c = fill_table ix f xs (c[ix x := f x])"
  by (simp_all add: fill_table_def)

lemma length_fill_table [simp]: "length (fill_table ix f xs c) = length c"
  by (induction xs arbitrary: c) simp_all

lemma fill_table_other: "\<forall>x \<in> set xs. ix x \<noteq> k \<Longrightarrow> fill_table ix f xs c ! k = c ! k"
  by (induction xs arbitrary: c) simp_all

lemma fill_table_nth:
  assumes "inj_on ix (set xs)" "distinct xs" "x \<in> set xs" "ix x < length c"
  shows "fill_table ix f xs c ! ix x = f x"
  using assms
proof (induction xs arbitrary: c)
  case (Cons y ys)
  show ?case
  proof (cases "x = y")
    case True
    have "\<forall>z \<in> set ys. ix z \<noteq> ix y" using Cons.prems(1,2) by (auto simp: inj_on_def)
    then show ?thesis using True Cons.prems(4) by (simp add: fill_table_other)
  next
    case False
    then show ?thesis using Cons by (simp add: inj_on_def)
  qed
qed simp

end
