(* ===== verification/Tpu_Model.thy ===== *)
theory Tpu_Model
  imports Accel_Common
begin

text \<open>
  The tensor processing unit: \<open>src/src/peripheral/tpu.rs\<close>.  Its MMIO registers, the quantised matrix product and the
  three conversions between \<open>f32\<close>, \<open>i32\<close> and \<open>i8\<close>, and the queue of 24-byte commands.  An operation that runs a
  kernel is \<open>None\<close> where a \<open>Vec\<close> would be too large, which is a panic of the program.
\<close>

subsection \<open>Registers and state\<close>

definition TPU_SIZE :: nat where "TPU_SIZE = 0x1000"

definition TREG_CONTROL :: u32 where "TREG_CONTROL = 0x00"
definition TREG_STATUS :: u32 where "TREG_STATUS = 0x04"
definition TREG_KERNEL_TYPE :: u32 where "TREG_KERNEL_TYPE = 0x08"
definition TREG_MATRIX_A_ADDR_LOW :: u32 where "TREG_MATRIX_A_ADDR_LOW = 0x10"
definition TREG_MATRIX_A_ADDR_HIGH :: u32 where "TREG_MATRIX_A_ADDR_HIGH = 0x14"
definition TREG_MATRIX_A_ROWS :: u32 where "TREG_MATRIX_A_ROWS = 0x18"
definition TREG_MATRIX_A_COLS :: u32 where "TREG_MATRIX_A_COLS = 0x1C"
definition TREG_MATRIX_B_ADDR_LOW :: u32 where "TREG_MATRIX_B_ADDR_LOW = 0x20"
definition TREG_MATRIX_B_ADDR_HIGH :: u32 where "TREG_MATRIX_B_ADDR_HIGH = 0x24"
definition TREG_MATRIX_B_ROWS :: u32 where "TREG_MATRIX_B_ROWS = 0x28"
definition TREG_MATRIX_B_COLS :: u32 where "TREG_MATRIX_B_COLS = 0x2C"
definition TREG_MATRIX_C_ADDR_LOW :: u32 where "TREG_MATRIX_C_ADDR_LOW = 0x30"
definition TREG_MATRIX_C_ADDR_HIGH :: u32 where "TREG_MATRIX_C_ADDR_HIGH = 0x34"
definition TREG_INPUT_SCALE :: u32 where "TREG_INPUT_SCALE = 0x40"
definition TREG_INPUT_ZERO_POINT :: u32 where "TREG_INPUT_ZERO_POINT = 0x44"
definition TREG_OUTPUT_SCALE :: u32 where "TREG_OUTPUT_SCALE = 0x48"
definition TREG_OUTPUT_ZERO_POINT :: u32 where "TREG_OUTPUT_ZERO_POINT = 0x4C"
definition TREG_BATCH_SIZE :: u32 where "TREG_BATCH_SIZE = 0x50"
definition TREG_BATCH_STRIDE_A :: u32 where "TREG_BATCH_STRIDE_A = 0x54"
definition TREG_BATCH_STRIDE_B :: u32 where "TREG_BATCH_STRIDE_B = 0x58"
definition TREG_BATCH_STRIDE_C :: u32 where "TREG_BATCH_STRIDE_C = 0x5C"
definition TREG_MATRICES_COMPUTED_LOW :: u32 where "TREG_MATRICES_COMPUTED_LOW = 0x60"
definition TREG_MATRICES_COMPUTED_HIGH :: u32 where "TREG_MATRICES_COMPUTED_HIGH = 0x64"
definition TREG_CYCLES_LOW :: u32 where "TREG_CYCLES_LOW = 0x68"
definition TREG_CYCLES_HIGH :: u32 where "TREG_CYCLES_HIGH = 0x6C"
definition TREG_OPS_COUNT_LOW :: u32 where "TREG_OPS_COUNT_LOW = 0x70"
definition TREG_OPS_COUNT_HIGH :: u32 where "TREG_OPS_COUNT_HIGH = 0x74"
definition TREG_CMD_QUEUE_BASE_LOW :: u32 where "TREG_CMD_QUEUE_BASE_LOW = 0x80"
definition TREG_CMD_QUEUE_BASE_HIGH :: u32 where "TREG_CMD_QUEUE_BASE_HIGH = 0x84"
definition TREG_CMD_QUEUE_LEN :: u32 where "TREG_CMD_QUEUE_LEN = 0x88"
definition TREG_CMD_QUEUE_NOTIFY :: u32 where "TREG_CMD_QUEUE_NOTIFY = 0x8C"
definition TREG_ERROR_CODE :: u32 where "TREG_ERROR_CODE = 0x90"
definition TREG_TASKS_DONE :: u32 where "TREG_TASKS_DONE = 0x94"
definition TREG_TASKS_ERROR :: u32 where "TREG_TASKS_ERROR = 0x98"

lemmas tpu_reg_defs = TREG_CONTROL_def TREG_STATUS_def TREG_KERNEL_TYPE_def TREG_MATRIX_A_ADDR_LOW_def TREG_MATRIX_A_ADDR_HIGH_def
TREG_MATRIX_A_ROWS_def TREG_MATRIX_A_COLS_def TREG_MATRIX_B_ADDR_LOW_def TREG_MATRIX_B_ADDR_HIGH_def TREG_MATRIX_B_ROWS_def TREG_MATRIX_B_COLS_def
TREG_MATRIX_C_ADDR_LOW_def TREG_MATRIX_C_ADDR_HIGH_def TREG_INPUT_SCALE_def TREG_INPUT_ZERO_POINT_def TREG_OUTPUT_SCALE_def
TREG_OUTPUT_ZERO_POINT_def TREG_BATCH_SIZE_def TREG_BATCH_STRIDE_A_def TREG_BATCH_STRIDE_B_def TREG_BATCH_STRIDE_C_def TREG_MATRICES_COMPUTED_LOW_def
TREG_MATRICES_COMPUTED_HIGH_def TREG_CYCLES_LOW_def TREG_CYCLES_HIGH_def TREG_OPS_COUNT_LOW_def TREG_OPS_COUNT_HIGH_def TREG_CMD_QUEUE_BASE_LOW_def
TREG_CMD_QUEUE_BASE_HIGH_def TREG_CMD_QUEUE_LEN_def TREG_CMD_QUEUE_NOTIFY_def TREG_ERROR_CODE_def TREG_TASKS_DONE_def TREG_TASKS_ERROR_def

record tpu_work =
  tw_matrix_a_addr :: u64
  tw_matrix_b_addr :: u64
  tw_matrix_c_addr :: u64
  tw_m :: nat
  tw_n :: nat
  tw_k :: nat
  tw_input_scale :: f32
  tw_input_zero_point :: u32
  tw_output_scale :: f32
  tw_output_zero_point :: u32

record tpu =
  tp_base :: addr
  tp_control :: u32
  tp_status :: u32
  tp_kernel_type :: u32
  tp_matrix_a_addr :: u64
  tp_matrix_a_rows :: u32
  tp_matrix_a_cols :: u32
  tp_matrix_b_addr :: u64
  tp_matrix_b_rows :: u32
  tp_matrix_b_cols :: u32
  tp_matrix_c_addr :: u64
  tp_input_scale :: u32
  tp_input_zero_point :: u32
  tp_output_scale :: u32
  tp_output_zero_point :: u32
  tp_batch_size :: u32
  tp_batch_stride_a :: u32
  tp_batch_stride_b :: u32
  tp_batch_stride_c :: u32
  tp_matrices_computed :: u64
  tp_cycles :: u64
  tp_ops_count :: u64
  tp_cmd_queue_addr :: u64
  tp_cmd_queue_len :: u32
  tp_pending_notify :: bool
  tp_error_code :: u32
  tp_tasks_done :: u32
  tp_tasks_error :: u32
  tp_work_queue :: "tpu_work list"
  tp_soft_async_budget :: "nat option"
  tp_pending_start :: bool

definition Tpu_with_base :: "addr \<Rightarrow> tpu" where
  "Tpu_with_base base = \<lparr>tp_base = base, tp_control = 0, tp_status = XPU_IDLE, tp_kernel_type = KernelType_code K_MatMul,
     tp_matrix_a_addr = 0, tp_matrix_a_rows = 0, tp_matrix_a_cols = 0, tp_matrix_b_addr = 0, tp_matrix_b_rows = 0,
     tp_matrix_b_cols = 0, tp_matrix_c_addr = 0, tp_input_scale = 0x3F800000, tp_input_zero_point = 0,
     tp_output_scale = 0x3F800000, tp_output_zero_point = 0, tp_batch_size = 1, tp_batch_stride_a = 0,
     tp_batch_stride_b = 0, tp_batch_stride_c = 0, tp_matrices_computed = 0, tp_cycles = 0, tp_ops_count = 0,
     tp_cmd_queue_addr = 0, tp_cmd_queue_len = 0, tp_pending_notify = False, tp_error_code = 0, tp_tasks_done = 0,
     tp_tasks_error = 0, tp_work_queue = [], tp_soft_async_budget = None, tp_pending_start = False\<rparr>"

definition Tpu_new :: tpu where "Tpu_new = Tpu_with_base TPU_BASE"

record tpu_snapshot =
  ts_control :: u32
  ts_status :: u32
  ts_kernel_type :: u32
  ts_matrix_a_addr :: u64
  ts_matrix_b_addr :: u64
  ts_matrix_c_addr :: u64
  ts_m :: u32
  ts_n :: u32
  ts_k :: u32
  ts_input_scale :: u32
  ts_input_zero_point :: u32
  ts_output_scale :: u32
  ts_output_zero_point :: u32
  ts_batch_size :: u32
  ts_matrices_computed :: u64
  ts_cycles :: u64
  ts_ops_count :: u64
  ts_error_code :: u32
  ts_tasks_done :: u32
  ts_tasks_error :: u32
  ts_work_queue_len :: nat

definition Tpu_snapshot :: "tpu \<Rightarrow> tpu_snapshot" where
  "Tpu_snapshot t = \<lparr>ts_control = tp_control t, ts_status = tp_status t, ts_kernel_type = tp_kernel_type t,
     ts_matrix_a_addr = tp_matrix_a_addr t, ts_matrix_b_addr = tp_matrix_b_addr t, ts_matrix_c_addr = tp_matrix_c_addr t,
     ts_m = tp_matrix_a_rows t, ts_n = tp_matrix_b_cols t, ts_k = tp_matrix_a_cols t, ts_input_scale = tp_input_scale t,
     ts_input_zero_point = tp_input_zero_point t, ts_output_scale = tp_output_scale t,
     ts_output_zero_point = tp_output_zero_point t, ts_batch_size = tp_batch_size t,
     ts_matrices_computed = tp_matrices_computed t, ts_cycles = tp_cycles t, ts_ops_count = tp_ops_count t,
     ts_error_code = tp_error_code t, ts_tasks_done = tp_tasks_done t, ts_tasks_error = tp_tasks_error t,
     ts_work_queue_len = length (tp_work_queue t)\<rparr>"

definition Tpu_set_soft_async_budget :: "tpu \<Rightarrow> nat option \<Rightarrow> tpu" where
  "Tpu_set_soft_async_budget t budget = t\<lparr>tp_soft_async_budget := budget\<rparr>"

definition Tpu_has_pending_descriptor_notify :: "tpu \<Rightarrow> bool" where
  "Tpu_has_pending_descriptor_notify t = tp_pending_notify t"

definition Tpu_has_pending_start :: "tpu \<Rightarrow> bool" where
  "Tpu_has_pending_start t = tp_pending_start t"

definition Tpu_reset_state :: "tpu \<Rightarrow> tpu" where
  "Tpu_reset_state t = t\<lparr>tp_status := XPU_IDLE, tp_error_code := 0, tp_work_queue := []\<rparr>"

subsection \<open>MMIO\<close>

definition Tpu_read_reg :: "tpu \<Rightarrow> u32 \<Rightarrow> u32" where
  "Tpu_read_reg t reg =
     (if reg = TREG_CONTROL then tp_control t
      else if reg = TREG_STATUS then tp_status t
      else if reg = TREG_KERNEL_TYPE then tp_kernel_type t
      else if reg = TREG_MATRIX_A_ADDR_LOW then ucast (tp_matrix_a_addr t)
      else if reg = TREG_MATRIX_A_ADDR_HIGH then ucast (drop_bit 32 (tp_matrix_a_addr t))
      else if reg = TREG_MATRIX_A_ROWS then tp_matrix_a_rows t
      else if reg = TREG_MATRIX_A_COLS then tp_matrix_a_cols t
      else if reg = TREG_MATRIX_B_ADDR_LOW then ucast (tp_matrix_b_addr t)
      else if reg = TREG_MATRIX_B_ADDR_HIGH then ucast (drop_bit 32 (tp_matrix_b_addr t))
      else if reg = TREG_MATRIX_B_ROWS then tp_matrix_b_rows t
      else if reg = TREG_MATRIX_B_COLS then tp_matrix_b_cols t
      else if reg = TREG_MATRIX_C_ADDR_LOW then ucast (tp_matrix_c_addr t)
      else if reg = TREG_MATRIX_C_ADDR_HIGH then ucast (drop_bit 32 (tp_matrix_c_addr t))
      else if reg = TREG_INPUT_SCALE then tp_input_scale t
      else if reg = TREG_INPUT_ZERO_POINT then tp_input_zero_point t
      else if reg = TREG_OUTPUT_SCALE then tp_output_scale t
      else if reg = TREG_OUTPUT_ZERO_POINT then tp_output_zero_point t
      else if reg = TREG_BATCH_SIZE then tp_batch_size t
      else if reg = TREG_BATCH_STRIDE_A then tp_batch_stride_a t
      else if reg = TREG_BATCH_STRIDE_B then tp_batch_stride_b t
      else if reg = TREG_BATCH_STRIDE_C then tp_batch_stride_c t
      else if reg = TREG_MATRICES_COMPUTED_LOW then ucast (tp_matrices_computed t)
      else if reg = TREG_MATRICES_COMPUTED_HIGH then ucast (drop_bit 32 (tp_matrices_computed t))
      else if reg = TREG_CYCLES_LOW then ucast (tp_cycles t)
      else if reg = TREG_CYCLES_HIGH then ucast (drop_bit 32 (tp_cycles t))
      else if reg = TREG_OPS_COUNT_LOW then ucast (tp_ops_count t)
      else if reg = TREG_OPS_COUNT_HIGH then ucast (drop_bit 32 (tp_ops_count t))
      else if reg = TREG_CMD_QUEUE_BASE_LOW then ucast (tp_cmd_queue_addr t)
      else if reg = TREG_CMD_QUEUE_BASE_HIGH then ucast (drop_bit 32 (tp_cmd_queue_addr t))
      else if reg = TREG_CMD_QUEUE_LEN then tp_cmd_queue_len t
      else if reg = TREG_ERROR_CODE then tp_error_code t
      else if reg = TREG_TASKS_DONE then tp_tasks_done t
      else if reg = TREG_TASKS_ERROR then tp_tasks_error t
      else 0)"

text \<open>The arm of the status register, which writes ones to clear.\<close>

definition tpu_clear_status :: "tpu \<Rightarrow> u32 \<Rightarrow> tpu" where
  "tpu_clear_status t value =
     (let t = (if value AND XPU_DONE \<noteq> 0 then t\<lparr>tp_status := tp_status t AND NOT XPU_DONE\<rparr> else t);
          t = (if value AND XPU_ERROR \<noteq> 0 then t\<lparr>tp_status := tp_status t AND NOT XPU_ERROR, tp_error_code := 0\<rparr> else t)
      in if value AND XPU_IRQ_PENDING \<noteq> 0 then t\<lparr>tp_status := tp_status t AND NOT XPU_IRQ_PENDING\<rparr> else t)"

definition tpu_write_control :: "tpu \<Rightarrow> u32 \<Rightarrow> tpu" where
  "tpu_write_control t value =
     (let t = t\<lparr>tp_control := value\<rparr>;
          t = (if tp_control t AND XPU_START \<noteq> 0
               then t\<lparr>tp_pending_start := True, tp_control := tp_control t AND NOT XPU_START\<rparr> else t)
      in if tp_control t AND XPU_RESET \<noteq> 0
         then (let t = Tpu_reset_state t in t\<lparr>tp_control := tp_control t AND NOT XPU_RESET\<rparr>) else t)"

definition Tpu_write_reg :: "tpu \<Rightarrow> u32 \<Rightarrow> u32 \<Rightarrow> tpu" where
  "Tpu_write_reg t reg value =
     (if reg = TREG_CONTROL then tpu_write_control t value
      else if reg = TREG_STATUS then tpu_clear_status t value
      else if reg = TREG_KERNEL_TYPE then t\<lparr>tp_kernel_type := value\<rparr>
      else if reg = TREG_MATRIX_A_ADDR_LOW then t\<lparr>tp_matrix_a_addr := set_low_half (tp_matrix_a_addr t) value\<rparr>
      else if reg = TREG_MATRIX_A_ADDR_HIGH then t\<lparr>tp_matrix_a_addr := set_high_half (tp_matrix_a_addr t) value\<rparr>
      else if reg = TREG_MATRIX_A_ROWS then t\<lparr>tp_matrix_a_rows := value\<rparr>
      else if reg = TREG_MATRIX_A_COLS then t\<lparr>tp_matrix_a_cols := value\<rparr>
      else if reg = TREG_MATRIX_B_ADDR_LOW then t\<lparr>tp_matrix_b_addr := set_low_half (tp_matrix_b_addr t) value\<rparr>
      else if reg = TREG_MATRIX_B_ADDR_HIGH then t\<lparr>tp_matrix_b_addr := set_high_half (tp_matrix_b_addr t) value\<rparr>
      else if reg = TREG_MATRIX_B_ROWS then t\<lparr>tp_matrix_b_rows := value\<rparr>
      else if reg = TREG_MATRIX_B_COLS then t\<lparr>tp_matrix_b_cols := value\<rparr>
      else if reg = TREG_MATRIX_C_ADDR_LOW then t\<lparr>tp_matrix_c_addr := set_low_half (tp_matrix_c_addr t) value\<rparr>
      else if reg = TREG_MATRIX_C_ADDR_HIGH then t\<lparr>tp_matrix_c_addr := set_high_half (tp_matrix_c_addr t) value\<rparr>
      else if reg = TREG_INPUT_SCALE then t\<lparr>tp_input_scale := value\<rparr>
      else if reg = TREG_INPUT_ZERO_POINT then t\<lparr>tp_input_zero_point := value\<rparr>
      else if reg = TREG_OUTPUT_SCALE then t\<lparr>tp_output_scale := value\<rparr>
      else if reg = TREG_OUTPUT_ZERO_POINT then t\<lparr>tp_output_zero_point := value\<rparr>
      else if reg = TREG_BATCH_SIZE then t\<lparr>tp_batch_size := max value 1\<rparr>
      else if reg = TREG_BATCH_STRIDE_A then t\<lparr>tp_batch_stride_a := value\<rparr>
      else if reg = TREG_BATCH_STRIDE_B then t\<lparr>tp_batch_stride_b := value\<rparr>
      else if reg = TREG_BATCH_STRIDE_C then t\<lparr>tp_batch_stride_c := value\<rparr>
      else if reg = TREG_CMD_QUEUE_BASE_LOW then t\<lparr>tp_cmd_queue_addr := set_low_half (tp_cmd_queue_addr t) value\<rparr>
      else if reg = TREG_CMD_QUEUE_BASE_HIGH then t\<lparr>tp_cmd_queue_addr := set_high_half (tp_cmd_queue_addr t) value\<rparr>
      else if reg = TREG_CMD_QUEUE_LEN then t\<lparr>tp_cmd_queue_len := value\<rparr>
      else if reg = TREG_CMD_QUEUE_NOTIFY then (if value \<noteq> 0 then t\<lparr>tp_pending_notify := True\<rparr> else t)
      else t)"

definition Tpu_read_u8 :: "tpu \<Rightarrow> u32 \<Rightarrow> u8" where
  "Tpu_read_u8 t offset =
     (let reg = offset AND NOT 0x3; shift = unat (offset AND 0x3) * 8
      in ucast (drop_bit shift (Tpu_read_reg t reg) AND 0xFF))"

definition Tpu_write_u8 :: "tpu \<Rightarrow> u32 \<Rightarrow> u8 \<Rightarrow> tpu" where
  "Tpu_write_u8 t offset value =
     (let reg = offset AND NOT 0x3; shift = unat (offset AND 0x3) * 8;
          current = (Tpu_read_reg t reg AND NOT (push_bit shift 0xFF)) OR push_bit shift (ucast value)
      in Tpu_write_reg t reg current)"

definition Tpu_read :: "tpu \<Rightarrow> addr \<Rightarrow> u8 result" where
  "Tpu_read t off = (if off \<ge> of_nat TPU_SIZE then Inl (InvalidAddress off) else Inr (Tpu_read_u8 t off))"

definition Tpu_write :: "tpu \<Rightarrow> addr \<Rightarrow> u8 \<Rightarrow> unit result \<times> tpu" where
  "Tpu_write t off value =
     (if off \<ge> of_nat TPU_SIZE then (Inl (InvalidAddress off), t) else (Inr (), Tpu_write_u8 t off value))"

definition Tpu_has_interrupt :: "tpu \<Rightarrow> bool" where
  "Tpu_has_interrupt t \<longleftrightarrow> tp_status t AND XPU_IRQ_PENDING \<noteq> 0"

definition Tpu_acknowledge_interrupt :: "tpu \<Rightarrow> tpu" where
  "Tpu_acknowledge_interrupt t = t\<lparr>tp_status := tp_status t AND NOT XPU_IRQ_PENDING\<rparr>"

subsection \<open>Kernels\<close>

text \<open>The operands have \<open>m * k\<close> and \<open>k * n\<close> elements, so that every index is in range.\<close>

definition tpu_accumulate :: "u8 list \<Rightarrow> u8 list \<Rightarrow> nat \<Rightarrow> nat \<Rightarrow> u32 \<Rightarrow> nat \<Rightarrow> nat \<Rightarrow> u32" where
  "tpu_accumulate a b n k zero_point i j =
     fold (\<lambda>p acc. let a_val = scast (a ! (i * k + p)) - zero_point; b_val = scast (b ! (p * n + j)) - zero_point
                   in acc + a_val * b_val) [0..<k] 0"

definition tpu_dequantized :: "f32 \<Rightarrow> f32 \<Rightarrow> u32 \<Rightarrow> u32 \<Rightarrow> u32" where
  "tpu_dequantized input_scale inv_out_scale output_zero_point acc =
     (let deq = f32_round_int (f32_add (f32_mul (f32_mul (f32_mul (f32_of_i32 acc) input_scale) input_scale) inv_out_scale)
                                (f32_of_i32 output_zero_point))
      in f32_to_i32 deq)"

definition Tpu_kernel_matmul_int8 ::
  "u8 list \<Rightarrow> u8 list \<Rightarrow> nat \<Rightarrow> nat \<Rightarrow> nat \<Rightarrow> f32 \<Rightarrow> u32 \<Rightarrow> f32 \<Rightarrow> u32 \<Rightarrow> u32 list option" where
  "Tpu_kernel_matmul_int8 a b m n k input_scale input_zero_point output_scale output_zero_point =
     (if \<not> vec_fits 4 (m * n) then None
      else
        let inv_out_scale = (if \<not> f32_eq output_scale f32_0 then f32_div f32_1 output_scale else f32_1)
        in Some (fill_table (\<lambda>(i, j). i * n + j)
             (\<lambda>(i, j). tpu_dequantized input_scale inv_out_scale output_zero_point (tpu_accumulate a b n k input_zero_point i j))
             (List.product [0..<m] [0..<n]) (replicate (m * n) 0)))"

definition f32_m128 :: f32 where "f32_m128 = 0xC3000000"
definition f32_127 :: f32 where "f32_127 = 0x42FE0000"

definition Tpu_kernel_requantize :: "u32 list \<Rightarrow> f32 \<Rightarrow> u32 \<Rightarrow> u8 list" where
  "Tpu_kernel_requantize data scale zero_point =
     map (\<lambda>v. let f = f32_add (f32_mul (f32_of_i32 v) scale) (f32_of_i32 zero_point)
              in f32_to_i8 (f32_clamp (f32_round_int f) f32_m128 f32_127)) data"

definition Tpu_kernel_quantize :: "f32 list \<Rightarrow> f32 \<Rightarrow> u32 \<Rightarrow> u8 list" where
  "Tpu_kernel_quantize data scale zero_point =
     map (\<lambda>v. f32_to_i8 (f32_clamp (f32_add (f32_round_int (f32_div v scale)) (f32_of_i32 zero_point)) f32_m128 f32_127)) data"

definition Tpu_kernel_dequantize :: "u8 list \<Rightarrow> f32 \<Rightarrow> u32 \<Rightarrow> f32 list" where
  "Tpu_kernel_dequantize data scale zero_point =
     map (\<lambda>v. f32_mul (f32_sub (f32_of_i8 v) (f32_of_i32 zero_point)) scale) data"

subsection \<open>Execution\<close>

definition Tpu_finish_op :: "tpu \<Rightarrow> bool \<Rightarrow> tpu" where
  "Tpu_finish_op t is_error =
     (let t = t\<lparr>tp_status := tp_status t AND NOT XPU_BUSY\<rparr>;
          t = t\<lparr>tp_status := tp_status t OR XPU_DONE\<rparr>;
          t = (if is_error then t\<lparr>tp_status := tp_status t OR XPU_ERROR\<rparr> else t)
      in if tp_control t AND XPU_IRQ_EN \<noteq> 0 then t\<lparr>tp_status := tp_status t OR XPU_IRQ_PENDING\<rparr> else t)"

text \<open>A kernel's result: \<open>None\<close> for a panic, and otherwise the operations counted, or an error.\<close>

type_synonym tpu_run = "(u64 result \<times> tpu \<times> mem_regions) option"

definition Tpu_execute_matmul_int8 :: "tpu \<Rightarrow> mem_regions \<Rightarrow> tpu_run" where
  "Tpu_execute_matmul_int8 t ms =
     (let m = unat (tp_matrix_a_rows t); k = unat (tp_matrix_a_cols t); n = unat (tp_matrix_b_cols t) in
      if m = 0 \<or> k = 0 \<or> n = 0 then Some (Inr 0, t, ms)
      else
        bind_vec (dma_read_i8_slice ms (tp_matrix_a_addr t) (m * k)) (t, ms) (\<lambda>a.
        bind_vec (dma_read_i8_slice ms (tp_matrix_b_addr t) (k * n)) (t, ms) (\<lambda>b.
        case Tpu_kernel_matmul_int8 a b m n k (tp_input_scale t) (tp_input_zero_point t) (tp_output_scale t)
               (tp_output_zero_point t) of
          None \<Rightarrow> None
        | Some c \<Rightarrow>
            (case store_for (\<lambda>i v ms. dma_write_u32 ms (tp_matrix_c_addr t + of_nat i * 4) v) 0 c ms of
               (Inl e, ms) \<Rightarrow> Some (Inl e, t, ms)
             | (Inr _, ms) \<Rightarrow>
                 let ops = of_nat (m * n * k * 2)
                 in Some (Inr ops, t\<lparr>tp_cycles := tp_cycles t + of_nat (max (m * n * k mod 2 ^ 64 div 4) 1)\<rparr>, ms)))))"

text \<open>The number of elements of the conversions, and the end they share.\<close>

definition tpu_count :: "tpu \<Rightarrow> nat" where
  "tpu_count t =
     (let m = unat (tp_matrix_a_rows t); k = unat (tp_matrix_a_cols t) in if m > 0 \<and> k > 0 then m * k else 0)"

definition tpu_converted :: "tpu \<Rightarrow> nat \<Rightarrow> unit result \<times> mem_regions \<Rightarrow> tpu_run" where
  "tpu_converted t count written =
     (case written of
        (Inl e, ms) \<Rightarrow> Some (Inl e, t, ms)
      | (Inr _, ms) \<Rightarrow> Some (Inr (of_nat count), t\<lparr>tp_cycles := tp_cycles t + of_nat count\<rparr>, ms))"

definition Tpu_execute_quantize :: "tpu \<Rightarrow> mem_regions \<Rightarrow> tpu_run" where
  "Tpu_execute_quantize t ms =
     (let count = tpu_count t in
      if count = 0 then Some (Inr 0, t, ms)
      else if \<not> vec_fits 4 count then None
      else
        bind_vec (Some (collect_for (\<lambda>i. dma_read_u32 ms (tp_matrix_a_addr t + of_nat i * 4)) [0..<count])) (t, ms) (\<lambda>data.
        let quantized = Tpu_kernel_quantize data (tp_input_scale t) (tp_input_zero_point t)
        in tpu_converted t count
             (store_for (\<lambda>i v ms. dma_write_u8 ms (tp_matrix_c_addr t + of_nat i) v) 0 quantized ms)))"

text \<open>The result of the kernel is four times as large as the bytes read, which lie in a 32-bit address space, so it fits.\<close>

definition Tpu_execute_dequantize :: "tpu \<Rightarrow> mem_regions \<Rightarrow> tpu_run" where
  "Tpu_execute_dequantize t ms =
     (let count = tpu_count t in
      if count = 0 then Some (Inr 0, t, ms)
      else
        bind_vec (dma_read_i8_slice ms (tp_matrix_a_addr t) count) (t, ms) (\<lambda>data.
        let dequantized = Tpu_kernel_dequantize data (tp_output_scale t) (tp_output_zero_point t)
        in tpu_converted t count
             (store_for (\<lambda>i v ms. dma_write_u32 ms (tp_matrix_c_addr t + of_nat i * 4) v) 0 dequantized ms)))"

definition Tpu_execute_requantize :: "tpu \<Rightarrow> mem_regions \<Rightarrow> tpu_run" where
  "Tpu_execute_requantize t ms =
     (let count = tpu_count t in
      if count = 0 then Some (Inr 0, t, ms)
      else if \<not> vec_fits 4 count then None
      else
        bind_vec (Some (collect_for (\<lambda>i. dma_read_u32 ms (tp_matrix_a_addr t + of_nat i * 4)) [0..<count])) (t, ms) (\<lambda>data.
        let req = Tpu_kernel_requantize data (tp_output_scale t) (tp_output_zero_point t)
        in tpu_converted t count (store_for (\<lambda>i v ms. dma_write_u8 ms (tp_matrix_c_addr t + of_nat i) v) 0 req ms)))"

definition tpu_completed :: "u64 result \<times> tpu \<times> mem_regions \<Rightarrow> tpu \<times> mem_regions" where
  "tpu_completed r =
     (case r of
        (Inr ops, t, ms) \<Rightarrow>
          (Tpu_finish_op (t\<lparr>tp_ops_count := tp_ops_count t + ops, tp_matrices_computed := tp_matrices_computed t + 1,
             tp_tasks_done := tp_tasks_done t + 1\<rparr>) False, ms)
      | (Inl _, t, ms) \<Rightarrow>
          (Tpu_finish_op (t\<lparr>tp_error_code := 2, tp_tasks_error := tp_tasks_error t + 1\<rparr>) True, ms))"

definition Tpu_execute_once_with_memory :: "tpu \<Rightarrow> mem_regions \<Rightarrow> (tpu \<times> mem_regions) option" where
  "Tpu_execute_once_with_memory t ms =
     (let t = t\<lparr>tp_status := (tp_status t OR XPU_BUSY) AND NOT (XPU_DONE OR XPU_ERROR)\<rparr> in
      case KernelType_from_u32 (tp_kernel_type t) of
        K_MatMul \<Rightarrow> map_option tpu_completed (Tpu_execute_matmul_int8 t ms)
      | K_Quantize \<Rightarrow> map_option tpu_completed (Tpu_execute_quantize t ms)
      | K_Dequantize \<Rightarrow> map_option tpu_completed (Tpu_execute_dequantize t ms)
      | K_Requantize \<Rightarrow> map_option tpu_completed (Tpu_execute_requantize t ms)
      | _ \<Rightarrow> Some (Tpu_finish_op (t\<lparr>tp_error_code := 1, tp_tasks_error := tp_tasks_error t + 1\<rparr>) True, ms))"

definition Tpu_execute_with_memory :: "tpu \<Rightarrow> mem_regions \<Rightarrow> (tpu \<times> mem_regions) option" where
  "Tpu_execute_with_memory t ms = Tpu_execute_once_with_memory (t\<lparr>tp_pending_start := False\<rparr>) ms"

subsection \<open>The command queue\<close>

definition tpu_command :: "tpu \<Rightarrow> nat \<Rightarrow> mem_regions \<Rightarrow> tpu result" where
  "tpu_command t idx ms =
     (let desc_base = tp_cmd_queue_addr t + of_nat idx * 24 in
      bind_res (dma_read_u32 ms desc_base) (\<lambda>kt.
      bind_res (dma_read_u32 ms (desc_base + 4)) (\<lambda>a_addr.
      bind_res (dma_read_u32 ms (desc_base + 8)) (\<lambda>b_addr.
      bind_res (dma_read_u32 ms (desc_base + 12)) (\<lambda>c_addr.
      bind_res (dma_read_u32 ms (desc_base + 16)) (\<lambda>mk.
      bind_res (dma_read_u32 ms (desc_base + 20)) (\<lambda>n_val.
      Inr (t\<lparr>tp_kernel_type := kt, tp_matrix_a_addr := ucast a_addr, tp_matrix_b_addr := ucast b_addr,
         tp_matrix_c_addr := ucast c_addr, tp_matrix_a_rows := drop_bit 16 mk, tp_matrix_a_cols := mk AND 0xFFFF,
         tp_matrix_b_rows := mk AND 0xFFFF, tp_matrix_b_cols := n_val AND 0xFFFF\<rparr>))))))))"

fun tpu_queue_for :: "nat list \<Rightarrow> tpu \<Rightarrow> mem_regions \<Rightarrow> (unit result \<times> tpu \<times> mem_regions) option" where
  "tpu_queue_for [] t ms = Some (Inr (), t, ms)"
| "tpu_queue_for (idx # is) t ms =
     (case tpu_command t idx ms of
        Inl e \<Rightarrow> Some (Inl e, t, ms)
      | Inr t \<Rightarrow>
          (case Tpu_execute_once_with_memory t ms of
             None \<Rightarrow> None
           | Some (t, ms) \<Rightarrow> tpu_queue_for is t ms))"

definition Tpu_process_pending_descriptor_notify :: "tpu \<Rightarrow> mem_regions \<Rightarrow> (unit result \<times> tpu \<times> mem_regions) option" where
  "Tpu_process_pending_descriptor_notify t ms =
     (if \<not> tp_pending_notify t then Some (Inr (), t, ms)
      else
        let t = t\<lparr>tp_pending_notify := False, tp_status := (tp_status t OR XPU_BUSY) AND NOT XPU_DONE\<rparr> in
        case tpu_queue_for [0..<unat (tp_cmd_queue_len t)] t ms of
          None \<Rightarrow> None
        | Some (Inl e, t, ms) \<Rightarrow> Some (Inl e, t, ms)
        | Some (Inr _, t, ms) \<Rightarrow>
            let t = (if tp_cmd_queue_len t = 0 then
                       (let t = t\<lparr>tp_status := (tp_status t AND NOT XPU_BUSY) OR XPU_DONE\<rparr>
                        in if tp_control t AND XPU_IRQ_EN \<noteq> 0 then t\<lparr>tp_status := tp_status t OR XPU_IRQ_PENDING\<rparr> else t)
                     else t)
            in Some (Inr (), t, ms))"

definition Tpu_try_execute_pending :: "tpu \<Rightarrow> mem_regions \<Rightarrow> (bool result \<times> tpu \<times> mem_regions) option" where
  "Tpu_try_execute_pending t ms =
     (case (if Tpu_has_pending_start t then map_option (Pair True) (Tpu_execute_with_memory t ms) else Some (False, t, ms)) of
        None \<Rightarrow> None
      | Some (did_work, t, ms) \<Rightarrow>
          if Tpu_has_pending_descriptor_notify t then
            (case Tpu_process_pending_descriptor_notify t ms of
               None \<Rightarrow> None
             | Some (Inl e, t, ms) \<Rightarrow> Some (Inl e, t, ms)
             | Some (Inr _, t, ms) \<Rightarrow> Some (Inr True, t, ms))
          else Some (Inr did_work, t, ms))"

subsection \<open>The accelerator trait\<close>

definition Tpu_accelerator_type :: "tpu \<Rightarrow> accelerator_type" where
  "Tpu_accelerator_type t = Acc_Tpu"

definition Tpu_supported_precisions :: "tpu \<Rightarrow> precision list" where
  "Tpu_supported_precisions t = [Int8, Fp32]"

definition Tpu_supported_kernels :: "tpu \<Rightarrow> kernel_type list" where
  "Tpu_supported_kernels t = [K_MatMul, K_Quantize, K_Dequantize, K_Requantize]"

definition Tpu_performance_counters :: "tpu \<Rightarrow> accelerator_perf" where
  "Tpu_performance_counters t = \<lparr>ap_kernels_executed = tp_matrices_computed t, ap_cycles_elapsed = tp_cycles t,
     ap_bytes_transferred = 0, ap_operations_count = tp_ops_count t, ap_errors_count = ucast (tp_tasks_error t)\<rparr>"

definition Tpu_reset :: "tpu \<Rightarrow> tpu" where
  "Tpu_reset t = t\<lparr>tp_control := 0, tp_status := XPU_IDLE, tp_kernel_type := KernelType_code K_MatMul, tp_matrix_a_addr := 0,
     tp_matrix_a_rows := 0, tp_matrix_a_cols := 0, tp_matrix_b_addr := 0, tp_matrix_b_rows := 0, tp_matrix_b_cols := 0,
     tp_matrix_c_addr := 0, tp_input_scale := 0x3F800000, tp_input_zero_point := 0, tp_output_scale := 0x3F800000,
     tp_output_zero_point := 0, tp_batch_size := 1, tp_batch_stride_a := 0, tp_batch_stride_b := 0, tp_batch_stride_c := 0,
     tp_matrices_computed := 0, tp_cycles := 0, tp_ops_count := 0, tp_cmd_queue_addr := 0, tp_cmd_queue_len := 0,
     tp_pending_notify := False, tp_error_code := 0, tp_tasks_done := 0, tp_tasks_error := 0, tp_work_queue := []\<rparr>"

definition Tpu_is_busy :: "tpu \<Rightarrow> bool" where
  "Tpu_is_busy t \<longleftrightarrow> tp_status t AND XPU_BUSY \<noteq> 0"

definition Tpu_current_kernel :: "tpu \<Rightarrow> kernel_type option" where
  "Tpu_current_kernel t = (if Tpu_is_busy t then Some (KernelType_from_u32 (tp_kernel_type t)) else None)"

end
