(* ===== verification/Gpu_Model.thy ===== *)
theory Gpu_Model
  imports Accel_Common
begin

text \<open>
  The graphics processing unit: \<open>src/src/peripheral/gpu.rs\<close>.  Its MMIO registers, the kernels on \<open>f32\<close> tensors (and the
  matrix product on \<open>i8\<close>), and the queue of 16-byte commands.  An operation that runs a kernel is \<open>None\<close> where a \<open>Vec\<close>
  would be too large, which is a panic of the program.  The functions of the platform's \<open>f32\<close> library are the argument \<open>fl\<close>.
\<close>

subsection \<open>Registers and state\<close>

definition GPU_SIZE :: nat where "GPU_SIZE = 0x1000"

definition GREG_CONTROL :: u32 where "GREG_CONTROL = 0x00"
definition GREG_STATUS :: u32 where "GREG_STATUS = 0x04"
definition GREG_KERNEL_TYPE :: u32 where "GREG_KERNEL_TYPE = 0x08"
definition GREG_PRECISION :: u32 where "GREG_PRECISION = 0x0C"
definition GREG_INPUT0_DESC_LOW :: u32 where "GREG_INPUT0_DESC_LOW = 0x10"
definition GREG_INPUT0_DESC_HIGH :: u32 where "GREG_INPUT0_DESC_HIGH = 0x14"
definition GREG_INPUT1_DESC_LOW :: u32 where "GREG_INPUT1_DESC_LOW = 0x18"
definition GREG_INPUT1_DESC_HIGH :: u32 where "GREG_INPUT1_DESC_HIGH = 0x1C"
definition GREG_INPUT2_DESC_LOW :: u32 where "GREG_INPUT2_DESC_LOW = 0x20"
definition GREG_INPUT2_DESC_HIGH :: u32 where "GREG_INPUT2_DESC_HIGH = 0x24"
definition GREG_OUTPUT0_DESC_LOW :: u32 where "GREG_OUTPUT0_DESC_LOW = 0x30"
definition GREG_OUTPUT0_DESC_HIGH :: u32 where "GREG_OUTPUT0_DESC_HIGH = 0x34"
definition GREG_OUTPUT1_DESC_LOW :: u32 where "GREG_OUTPUT1_DESC_LOW = 0x38"
definition GREG_OUTPUT1_DESC_HIGH :: u32 where "GREG_OUTPUT1_DESC_HIGH = 0x3C"
definition GREG_CONV_KERNEL_SIZE :: u32 where "GREG_CONV_KERNEL_SIZE = 0x40"
definition GREG_CONV_STRIDE :: u32 where "GREG_CONV_STRIDE = 0x44"
definition GREG_CONV_PADDING :: u32 where "GREG_CONV_PADDING = 0x48"
definition GREG_CONV_INPUT_DIMS :: u32 where "GREG_CONV_INPUT_DIMS = 0x4C"
definition GREG_CONV_CHANNELS :: u32 where "GREG_CONV_CHANNELS = 0x90"
definition GREG_CMD_QUEUE_BASE_LOW :: u32 where "GREG_CMD_QUEUE_BASE_LOW = 0x50"
definition GREG_CMD_QUEUE_BASE_HIGH :: u32 where "GREG_CMD_QUEUE_BASE_HIGH = 0x54"
definition GREG_CMD_QUEUE_LEN :: u32 where "GREG_CMD_QUEUE_LEN = 0x58"
definition GREG_CMD_QUEUE_NOTIFY :: u32 where "GREG_CMD_QUEUE_NOTIFY = 0x5C"
definition GREG_KERNELS_EXECUTED_LOW :: u32 where "GREG_KERNELS_EXECUTED_LOW = 0x60"
definition GREG_KERNELS_EXECUTED_HIGH :: u32 where "GREG_KERNELS_EXECUTED_HIGH = 0x64"
definition GREG_CYCLES_LOW :: u32 where "GREG_CYCLES_LOW = 0x68"
definition GREG_CYCLES_HIGH :: u32 where "GREG_CYCLES_HIGH = 0x6C"
definition GREG_OPS_COUNT_LOW :: u32 where "GREG_OPS_COUNT_LOW = 0x70"
definition GREG_OPS_COUNT_HIGH :: u32 where "GREG_OPS_COUNT_HIGH = 0x74"
definition GREG_BYTES_TRANSFERRED_LOW :: u32 where "GREG_BYTES_TRANSFERRED_LOW = 0x78"
definition GREG_BYTES_TRANSFERRED_HIGH :: u32 where "GREG_BYTES_TRANSFERRED_HIGH = 0x7C"
definition GREG_ERROR_CODE :: u32 where "GREG_ERROR_CODE = 0x80"
definition GREG_TASKS_DONE :: u32 where "GREG_TASKS_DONE = 0x84"
definition GREG_TASKS_ERROR :: u32 where "GREG_TASKS_ERROR = 0x88"

lemmas gpu_reg_defs = GREG_CONTROL_def GREG_STATUS_def GREG_KERNEL_TYPE_def GREG_PRECISION_def GREG_INPUT0_DESC_LOW_def GREG_INPUT0_DESC_HIGH_def
GREG_INPUT1_DESC_LOW_def GREG_INPUT1_DESC_HIGH_def GREG_INPUT2_DESC_LOW_def GREG_INPUT2_DESC_HIGH_def GREG_OUTPUT0_DESC_LOW_def
GREG_OUTPUT0_DESC_HIGH_def GREG_OUTPUT1_DESC_LOW_def GREG_OUTPUT1_DESC_HIGH_def GREG_CONV_KERNEL_SIZE_def GREG_CONV_STRIDE_def GREG_CONV_PADDING_def
GREG_CONV_INPUT_DIMS_def GREG_CONV_CHANNELS_def GREG_CMD_QUEUE_BASE_LOW_def GREG_CMD_QUEUE_BASE_HIGH_def GREG_CMD_QUEUE_LEN_def
GREG_CMD_QUEUE_NOTIFY_def GREG_KERNELS_EXECUTED_LOW_def GREG_KERNELS_EXECUTED_HIGH_def GREG_CYCLES_LOW_def GREG_CYCLES_HIGH_def
GREG_OPS_COUNT_LOW_def GREG_OPS_COUNT_HIGH_def GREG_BYTES_TRANSFERRED_LOW_def GREG_BYTES_TRANSFERRED_HIGH_def GREG_ERROR_CODE_def GREG_TASKS_DONE_def
GREG_TASKS_ERROR_def

record gpu_work =
  gw_kernel_type :: kernel_type
  gw_precision :: precision
  gw_input_desc_addrs :: "u64 list"
  gw_output_desc_addrs :: "u64 list"

record gpu =
  gp_base :: addr
  gp_control :: u32
  gp_status :: u32
  gp_kernel_type :: u32
  gp_precision :: u32
  gp_input_desc_addrs :: "u64 list"
  gp_output_desc_addrs :: "u64 list"
  gp_cmd_queue_addr :: u64
  gp_cmd_queue_len :: u32
  gp_pending_notify :: bool
  gp_conv_kernel_size :: u32
  gp_conv_stride :: u32
  gp_conv_padding :: u32
  gp_conv_input_dims :: u32
  gp_conv_channels :: u32
  gp_kernels_executed :: u64
  gp_cycles :: u64
  gp_ops_count :: u64
  gp_bytes_transferred :: u64
  gp_error_code :: u32
  gp_tasks_done :: u32
  gp_tasks_error :: u32
  gp_work_queue :: "gpu_work list"
  gp_soft_async_budget :: "nat option"
  gp_pending_start :: bool

definition Gpu_with_base :: "addr \<Rightarrow> gpu" where
  "Gpu_with_base base = \<lparr>gp_base = base, gp_control = 0, gp_status = XPU_IDLE, gp_kernel_type = KernelType_code K_MatMul,
     gp_precision = Precision_code Fp32, gp_input_desc_addrs = replicate 3 0, gp_output_desc_addrs = replicate 2 0,
     gp_cmd_queue_addr = 0, gp_cmd_queue_len = 0, gp_pending_notify = False, gp_conv_kernel_size = 0x00010001,
     gp_conv_stride = 0x00010001, gp_conv_padding = 0, gp_conv_input_dims = 0, gp_conv_channels = 0x00010001,
     gp_kernels_executed = 0, gp_cycles = 0, gp_ops_count = 0, gp_bytes_transferred = 0, gp_error_code = 0,
     gp_tasks_done = 0, gp_tasks_error = 0, gp_work_queue = [], gp_soft_async_budget = None, gp_pending_start = False\<rparr>"

definition Gpu_new :: gpu where "Gpu_new = Gpu_with_base GPU_BASE"

record gpu_snapshot =
  gs_control :: u32
  gs_status :: u32
  gs_kernel_type :: u32
  gs_precision :: u32
  gs_input0_desc_addr :: u64
  gs_input1_desc_addr :: u64
  gs_input2_desc_addr :: u64
  gs_output0_desc_addr :: u64
  gs_output1_desc_addr :: u64
  gs_cmd_queue_addr :: u64
  gs_cmd_queue_len :: u32
  gs_kernels_executed :: u64
  gs_cycles :: u64
  gs_ops_count :: u64
  gs_bytes_transferred :: u64
  gs_error_code :: u32
  gs_tasks_done :: u32
  gs_tasks_error :: u32
  gs_work_queue_len :: nat
  gs_conv_kernel_size :: u32
  gs_conv_stride :: u32
  gs_conv_padding :: u32
  gs_conv_input_dims :: u32
  gs_conv_channels :: u32

definition Gpu_snapshot :: "gpu \<Rightarrow> gpu_snapshot" where
  "Gpu_snapshot g = \<lparr>gs_control = gp_control g, gs_status = gp_status g, gs_kernel_type = gp_kernel_type g,
     gs_precision = gp_precision g, gs_input0_desc_addr = gp_input_desc_addrs g ! 0,
     gs_input1_desc_addr = gp_input_desc_addrs g ! 1, gs_input2_desc_addr = gp_input_desc_addrs g ! 2,
     gs_output0_desc_addr = gp_output_desc_addrs g ! 0, gs_output1_desc_addr = gp_output_desc_addrs g ! 1,
     gs_cmd_queue_addr = gp_cmd_queue_addr g, gs_cmd_queue_len = gp_cmd_queue_len g,
     gs_kernels_executed = gp_kernels_executed g, gs_cycles = gp_cycles g, gs_ops_count = gp_ops_count g,
     gs_bytes_transferred = gp_bytes_transferred g, gs_error_code = gp_error_code g, gs_tasks_done = gp_tasks_done g,
     gs_tasks_error = gp_tasks_error g, gs_work_queue_len = length (gp_work_queue g),
     gs_conv_kernel_size = gp_conv_kernel_size g, gs_conv_stride = gp_conv_stride g,
     gs_conv_padding = gp_conv_padding g, gs_conv_input_dims = gp_conv_input_dims g,
     gs_conv_channels = gp_conv_channels g\<rparr>"

definition Gpu_set_soft_async_budget :: "gpu \<Rightarrow> nat option \<Rightarrow> gpu" where
  "Gpu_set_soft_async_budget g budget = g\<lparr>gp_soft_async_budget := budget\<rparr>"

definition Gpu_has_pending_descriptor_notify :: "gpu \<Rightarrow> bool" where
  "Gpu_has_pending_descriptor_notify g = gp_pending_notify g"

definition Gpu_has_pending_start :: "gpu \<Rightarrow> bool" where
  "Gpu_has_pending_start g = gp_pending_start g"

definition Gpu_reset_state :: "gpu \<Rightarrow> gpu" where
  "Gpu_reset_state g = g\<lparr>gp_status := XPU_IDLE, gp_error_code := 0, gp_work_queue := []\<rparr>"

subsection \<open>MMIO\<close>

definition Gpu_read_reg :: "gpu \<Rightarrow> u32 \<Rightarrow> u32" where
  "Gpu_read_reg g reg =
     (if reg = GREG_CONTROL then gp_control g
      else if reg = GREG_STATUS then gp_status g
      else if reg = GREG_KERNEL_TYPE then gp_kernel_type g
      else if reg = GREG_PRECISION then gp_precision g
      else if reg = GREG_INPUT0_DESC_LOW then ucast (gp_input_desc_addrs g ! 0)
      else if reg = GREG_INPUT0_DESC_HIGH then ucast (drop_bit 32 (gp_input_desc_addrs g ! 0))
      else if reg = GREG_INPUT1_DESC_LOW then ucast (gp_input_desc_addrs g ! 1)
      else if reg = GREG_INPUT1_DESC_HIGH then ucast (drop_bit 32 (gp_input_desc_addrs g ! 1))
      else if reg = GREG_INPUT2_DESC_LOW then ucast (gp_input_desc_addrs g ! 2)
      else if reg = GREG_INPUT2_DESC_HIGH then ucast (drop_bit 32 (gp_input_desc_addrs g ! 2))
      else if reg = GREG_OUTPUT0_DESC_LOW then ucast (gp_output_desc_addrs g ! 0)
      else if reg = GREG_OUTPUT0_DESC_HIGH then ucast (drop_bit 32 (gp_output_desc_addrs g ! 0))
      else if reg = GREG_OUTPUT1_DESC_LOW then ucast (gp_output_desc_addrs g ! 1)
      else if reg = GREG_OUTPUT1_DESC_HIGH then ucast (drop_bit 32 (gp_output_desc_addrs g ! 1))
      else if reg = GREG_CMD_QUEUE_BASE_LOW then ucast (gp_cmd_queue_addr g)
      else if reg = GREG_CMD_QUEUE_BASE_HIGH then ucast (drop_bit 32 (gp_cmd_queue_addr g))
      else if reg = GREG_CMD_QUEUE_LEN then gp_cmd_queue_len g
      else if reg = GREG_KERNELS_EXECUTED_LOW then ucast (gp_kernels_executed g)
      else if reg = GREG_KERNELS_EXECUTED_HIGH then ucast (drop_bit 32 (gp_kernels_executed g))
      else if reg = GREG_CYCLES_LOW then ucast (gp_cycles g)
      else if reg = GREG_CYCLES_HIGH then ucast (drop_bit 32 (gp_cycles g))
      else if reg = GREG_OPS_COUNT_LOW then ucast (gp_ops_count g)
      else if reg = GREG_OPS_COUNT_HIGH then ucast (drop_bit 32 (gp_ops_count g))
      else if reg = GREG_BYTES_TRANSFERRED_LOW then ucast (gp_bytes_transferred g)
      else if reg = GREG_BYTES_TRANSFERRED_HIGH then ucast (drop_bit 32 (gp_bytes_transferred g))
      else if reg = GREG_ERROR_CODE then gp_error_code g
      else if reg = GREG_TASKS_DONE then gp_tasks_done g
      else if reg = GREG_TASKS_ERROR then gp_tasks_error g
      else if reg = GREG_CONV_KERNEL_SIZE then gp_conv_kernel_size g
      else if reg = GREG_CONV_STRIDE then gp_conv_stride g
      else if reg = GREG_CONV_PADDING then gp_conv_padding g
      else if reg = GREG_CONV_INPUT_DIMS then gp_conv_input_dims g
      else if reg = GREG_CONV_CHANNELS then gp_conv_channels g
      else 0)"

text \<open>The arm of the status register, which writes ones to clear.\<close>

definition gpu_clear_status :: "gpu \<Rightarrow> u32 \<Rightarrow> gpu" where
  "gpu_clear_status g value =
     (let g = (if value AND XPU_DONE \<noteq> 0 then g\<lparr>gp_status := gp_status g AND NOT XPU_DONE\<rparr> else g);
          g = (if value AND XPU_ERROR \<noteq> 0 then g\<lparr>gp_status := gp_status g AND NOT XPU_ERROR, gp_error_code := 0\<rparr> else g)
      in if value AND XPU_IRQ_PENDING \<noteq> 0 then g\<lparr>gp_status := gp_status g AND NOT XPU_IRQ_PENDING\<rparr> else g)"

definition gpu_write_control :: "gpu \<Rightarrow> u32 \<Rightarrow> gpu" where
  "gpu_write_control g value =
     (let g = g\<lparr>gp_control := value\<rparr>;
          g = (if gp_control g AND XPU_START \<noteq> 0
               then g\<lparr>gp_pending_start := True, gp_control := gp_control g AND NOT XPU_START\<rparr> else g)
      in if gp_control g AND XPU_RESET \<noteq> 0
         then (let g = Gpu_reset_state g in g\<lparr>gp_control := gp_control g AND NOT XPU_RESET\<rparr>) else g)"

definition gpu_set_input_desc :: "gpu \<Rightarrow> nat \<Rightarrow> (u64 \<Rightarrow> u64) \<Rightarrow> gpu" where
  "gpu_set_input_desc g i f = g\<lparr>gp_input_desc_addrs := (gp_input_desc_addrs g)[i := f (gp_input_desc_addrs g ! i)]\<rparr>"

definition gpu_set_output_desc :: "gpu \<Rightarrow> nat \<Rightarrow> (u64 \<Rightarrow> u64) \<Rightarrow> gpu" where
  "gpu_set_output_desc g i f = g\<lparr>gp_output_desc_addrs := (gp_output_desc_addrs g)[i := f (gp_output_desc_addrs g ! i)]\<rparr>"

definition Gpu_write_reg :: "gpu \<Rightarrow> u32 \<Rightarrow> u32 \<Rightarrow> gpu" where
  "Gpu_write_reg g reg value =
     (if reg = GREG_CONTROL then gpu_write_control g value
      else if reg = GREG_STATUS then gpu_clear_status g value
      else if reg = GREG_KERNEL_TYPE then g\<lparr>gp_kernel_type := value\<rparr>
      else if reg = GREG_PRECISION then g\<lparr>gp_precision := value\<rparr>
      else if reg = GREG_INPUT0_DESC_LOW then gpu_set_input_desc g 0 (\<lambda>a. set_low_half a value)
      else if reg = GREG_INPUT0_DESC_HIGH then gpu_set_input_desc g 0 (\<lambda>a. set_high_half a value)
      else if reg = GREG_INPUT1_DESC_LOW then gpu_set_input_desc g 1 (\<lambda>a. set_low_half a value)
      else if reg = GREG_INPUT1_DESC_HIGH then gpu_set_input_desc g 1 (\<lambda>a. set_high_half a value)
      else if reg = GREG_INPUT2_DESC_LOW then gpu_set_input_desc g 2 (\<lambda>a. set_low_half a value)
      else if reg = GREG_INPUT2_DESC_HIGH then gpu_set_input_desc g 2 (\<lambda>a. set_high_half a value)
      else if reg = GREG_OUTPUT0_DESC_LOW then gpu_set_output_desc g 0 (\<lambda>a. set_low_half a value)
      else if reg = GREG_OUTPUT0_DESC_HIGH then gpu_set_output_desc g 0 (\<lambda>a. set_high_half a value)
      else if reg = GREG_OUTPUT1_DESC_LOW then gpu_set_output_desc g 1 (\<lambda>a. set_low_half a value)
      else if reg = GREG_OUTPUT1_DESC_HIGH then gpu_set_output_desc g 1 (\<lambda>a. set_high_half a value)
      else if reg = GREG_CMD_QUEUE_BASE_LOW then g\<lparr>gp_cmd_queue_addr := set_low_half (gp_cmd_queue_addr g) value\<rparr>
      else if reg = GREG_CMD_QUEUE_BASE_HIGH then g\<lparr>gp_cmd_queue_addr := set_high_half (gp_cmd_queue_addr g) value\<rparr>
      else if reg = GREG_CMD_QUEUE_LEN then g\<lparr>gp_cmd_queue_len := value\<rparr>
      else if reg = GREG_CMD_QUEUE_NOTIFY then (if value \<noteq> 0 then g\<lparr>gp_pending_notify := True\<rparr> else g)
      else if reg = GREG_CONV_KERNEL_SIZE then g\<lparr>gp_conv_kernel_size := value\<rparr>
      else if reg = GREG_CONV_STRIDE then g\<lparr>gp_conv_stride := value\<rparr>
      else if reg = GREG_CONV_PADDING then g\<lparr>gp_conv_padding := value\<rparr>
      else if reg = GREG_CONV_INPUT_DIMS then g\<lparr>gp_conv_input_dims := value\<rparr>
      else if reg = GREG_CONV_CHANNELS then g\<lparr>gp_conv_channels := value\<rparr>
      else g)"

definition Gpu_read_u8 :: "gpu \<Rightarrow> u32 \<Rightarrow> u8" where
  "Gpu_read_u8 g offset =
     (let reg = offset AND NOT 0x3; shift = unat (offset AND 0x3) * 8
      in ucast (drop_bit shift (Gpu_read_reg g reg) AND 0xFF))"

definition Gpu_write_u8 :: "gpu \<Rightarrow> u32 \<Rightarrow> u8 \<Rightarrow> gpu" where
  "Gpu_write_u8 g offset value =
     (let reg = offset AND NOT 0x3; shift = unat (offset AND 0x3) * 8;
          current = (Gpu_read_reg g reg AND NOT (push_bit shift 0xFF)) OR push_bit shift (ucast value)
      in Gpu_write_reg g reg current)"

definition Gpu_read :: "gpu \<Rightarrow> addr \<Rightarrow> u8 result" where
  "Gpu_read g off = (if off \<ge> of_nat GPU_SIZE then Inl (InvalidAddress off) else Inr (Gpu_read_u8 g off))"

definition Gpu_write :: "gpu \<Rightarrow> addr \<Rightarrow> u8 \<Rightarrow> unit result \<times> gpu" where
  "Gpu_write g off value =
     (if off \<ge> of_nat GPU_SIZE then (Inl (InvalidAddress off), g) else (Inr (), Gpu_write_u8 g off value))"

definition Gpu_has_interrupt :: "gpu \<Rightarrow> bool" where
  "Gpu_has_interrupt g \<longleftrightarrow> gp_status g AND XPU_IRQ_PENDING \<noteq> 0"

definition Gpu_acknowledge_interrupt :: "gpu \<Rightarrow> gpu" where
  "Gpu_acknowledge_interrupt g = g\<lparr>gp_status := gp_status g AND NOT XPU_IRQ_PENDING\<rparr>"

subsection \<open>Kernels\<close>

definition gpu_dot_f32 :: "f32 list \<Rightarrow> f32 list \<Rightarrow> nat \<Rightarrow> nat \<Rightarrow> nat \<Rightarrow> nat \<Rightarrow> f32" where
  "gpu_dot_f32 a b n k i j = fold (\<lambda>p acc. f32_add acc (f32_mul (a ! (i * k + p)) (b ! (p * n + j)))) [0..<k] f32_0"

definition Gpu_kernel_matmul_fp32 :: "f32 list \<Rightarrow> f32 list \<Rightarrow> nat \<Rightarrow> nat \<Rightarrow> nat \<Rightarrow> f32 list option" where
  "Gpu_kernel_matmul_fp32 a b m n k =
     (if \<not> vec_fits 4 (m * n) then None
      else Some (fill_table (\<lambda>(i, j). i * n + j) (\<lambda>(i, j). gpu_dot_f32 a b n k i j)
        (List.product [0..<m] [0..<n]) (replicate (m * n) f32_0)))"

definition Gpu_kernel_add_fp32 :: "f32 list \<Rightarrow> f32 list \<Rightarrow> f32 list" where
  "Gpu_kernel_add_fp32 a b = map (\<lambda>(x, y). f32_add x y) (zip a b)"

definition Gpu_kernel_mul_fp32 :: "f32 list \<Rightarrow> f32 list \<Rightarrow> f32 list" where
  "Gpu_kernel_mul_fp32 a b = map (\<lambda>(x, y). f32_mul x y) (zip a b)"

definition f32_sum :: "f32_lib \<Rightarrow> f32 list \<Rightarrow> f32" where
  "f32_sum fl xs = fold (\<lambda>x acc. f32_add acc x) xs (fl_sum_start fl)"

definition Gpu_kernel_dot_fp32 :: "f32_lib \<Rightarrow> f32 list \<Rightarrow> f32 list \<Rightarrow> f32" where
  "Gpu_kernel_dot_fp32 fl a b = f32_sum fl (map (\<lambda>(x, y). f32_mul x y) (zip a b))"

definition Gpu_kernel_relu_fp32 :: "f32_lib \<Rightarrow> f32 list \<Rightarrow> f32 list" where
  "Gpu_kernel_relu_fp32 fl data = map (\<lambda>x. f32_max fl x f32_0) data"

definition Gpu_kernel_sigmoid_fp32 :: "f32_lib \<Rightarrow> f32 list \<Rightarrow> f32 list" where
  "Gpu_kernel_sigmoid_fp32 fl data = map (\<lambda>x. f32_div f32_1 (f32_add f32_1 (fl_exp fl (f32_neg x)))) data"

definition Gpu_kernel_softmax_fp32 :: "f32_lib \<Rightarrow> f32 list \<Rightarrow> f32 list" where
  "Gpu_kernel_softmax_fp32 fl data =
     (if data = [] then []
      else
        let top = fold (\<lambda>x acc. f32_max fl acc x) data f32_NEG_INFINITY;
            exps = map (\<lambda>x. fl_exp fl (f32_sub x top)) data;
            total_exp = f32_sum fl exps
        in map (\<lambda>e. f32_div e total_exp) exps)"

definition Gpu_kernel_tanh_fp32 :: "f32_lib \<Rightarrow> f32 list \<Rightarrow> f32 list" where
  "Gpu_kernel_tanh_fp32 fl data = map (fl_tanh fl) data"

definition Gpu_kernel_leaky_relu_fp32 :: "f32 list \<Rightarrow> f32 \<Rightarrow> f32 list" where
  "Gpu_kernel_leaky_relu_fp32 data alpha = map (\<lambda>x. if f32_ge x f32_0 then x else f32_mul alpha x) data"

definition f32_6 :: f32 where "f32_6 = 0x40C00000"

definition Gpu_kernel_relu6_fp32 :: "f32_lib \<Rightarrow> f32 list \<Rightarrow> f32 list" where
  "Gpu_kernel_relu6_fp32 fl data = map (\<lambda>x. f32_min fl (f32_max fl x f32_0) f32_6) data"

definition Gpu_kernel_scale_fp32 :: "f32 list \<Rightarrow> f32 \<Rightarrow> f32 list" where
  "Gpu_kernel_scale_fp32 a scalar = map (\<lambda>x. f32_mul x scalar) a"

text \<open>
  Convolution and pooling.  The extent of the output is computed in a wrapping \<open>usize\<close>.  The three loops over the output
  assign its cells in the order of their indices: where the product of their bounds passes \<open>2 ^ 64\<close>, and the size of the
  \<open>Vec\<close> wraps, they run past its end and panic, so that the size that has to fit is the product itself.
\<close>

record conv_params =
  cv_kh :: nat
  cv_kw :: nat
  cv_stride_h :: nat
  cv_stride_w :: nat
  cv_pad_h :: nat
  cv_pad_w :: nat
  cv_in_h :: nat
  cv_in_w :: nat

text \<open>The division panics on a stride of 0, where \<open>div\<close> gives 0; the dispatchers refuse such a stride before they get here.\<close>

definition conv_extent :: "nat \<Rightarrow> nat \<Rightarrow> nat \<Rightarrow> nat \<Rightarrow> nat" where
  "conv_extent len pad k stride = ((len + 2 * pad + (2 ^ 64 - k)) mod 2 ^ 64 div stride + 1) mod 2 ^ 64"

definition cv_out_h :: "conv_params \<Rightarrow> nat" where
  "cv_out_h v = conv_extent (cv_in_h v) (cv_pad_h v) (cv_kh v) (cv_stride_h v)"

definition cv_out_w :: "conv_params \<Rightarrow> nat" where
  "cv_out_w v = conv_extent (cv_in_w v) (cv_pad_w v) (cv_kw v) (cv_stride_w v)"

text \<open>The element of channel \<open>c\<close> under place \<open>(fh, fw)\<close> of the kernel at \<open>(oh, ow)\<close>; \<open>None\<close> in the padding.\<close>

definition conv_tap :: "conv_params \<Rightarrow> f32 list \<Rightarrow> nat \<Rightarrow> nat \<Rightarrow> nat \<Rightarrow> nat \<Rightarrow> nat \<Rightarrow> f32 option" where
  "conv_tap v input c oh ow fh fw =
     (let ih = (oh * cv_stride_h v + fh) mod 2 ^ 64; iw = (ow * cv_stride_w v + fw) mod 2 ^ 64 in
      if ih \<ge> cv_pad_h v \<and> iw \<ge> cv_pad_w v \<and> ih < cv_in_h v + cv_pad_h v \<and> iw < cv_in_w v + cv_pad_w v then
        let real_ih = ih - cv_pad_h v; real_iw = iw - cv_pad_w v
        in Some (input ! (c * cv_in_h v * cv_in_w v + real_ih * cv_in_w v + real_iw))
      else None)"

definition conv_cell :: "conv_params \<Rightarrow> f32 list \<Rightarrow> f32 list \<Rightarrow> nat \<Rightarrow> nat \<Rightarrow> nat \<Rightarrow> nat \<Rightarrow> f32" where
  "conv_cell v input weights c_in co oh ow =
     fold (\<lambda>(ci, fh, fw) acc.
         case conv_tap v input ci oh ow fh fw of
           None \<Rightarrow> acc
         | Some in_val \<Rightarrow>
             let f_val = weights ! (co * c_in * cv_kh v * cv_kw v + ci * cv_kh v * cv_kw v + fh * cv_kw v + fw)
             in f32_add acc (f32_mul in_val f_val))
       (List.product [0..<c_in] (List.product [0..<cv_kh v] [0..<cv_kw v])) f32_0"

definition fill_output :: "conv_params \<Rightarrow> nat \<Rightarrow> f32 \<Rightarrow> (nat \<Rightarrow> nat \<Rightarrow> nat \<Rightarrow> f32) \<Rightarrow> f32 list option" where
  "fill_output v channels start f =
     (if \<not> vec_fits 4 (channels * cv_out_h v * cv_out_w v) then None
      else Some (fill_table (\<lambda>(c, oh, ow). c * cv_out_h v * cv_out_w v + oh * cv_out_w v + ow) (\<lambda>(c, oh, ow). f c oh ow)
        (List.product [0..<channels] (List.product [0..<cv_out_h v] [0..<cv_out_w v]))
        (replicate (channels * cv_out_h v * cv_out_w v) start)))"

definition Gpu_kernel_conv2d_fp32 :: "f32 list \<Rightarrow> f32 list \<Rightarrow> nat \<Rightarrow> nat \<Rightarrow> conv_params \<Rightarrow> f32 list option" where
  "Gpu_kernel_conv2d_fp32 input weights c_in c_out v = fill_output v c_out f32_0 (conv_cell v input weights c_in)"

definition pool_max_cell :: "conv_params \<Rightarrow> f32 list \<Rightarrow> nat \<Rightarrow> nat \<Rightarrow> nat \<Rightarrow> f32" where
  "pool_max_cell v input c oh ow =
     fold (\<lambda>(fh, fw) max_val.
         case conv_tap v input c oh ow fh fw of
           None \<Rightarrow> max_val
         | Some val \<Rightarrow> if f32_lt max_val val then val else max_val)
       (List.product [0..<cv_kh v] [0..<cv_kw v]) f32_NEG_INFINITY"

definition Gpu_kernel_pool2d_max_fp32 :: "f32 list \<Rightarrow> nat \<Rightarrow> conv_params \<Rightarrow> f32 list option" where
  "Gpu_kernel_pool2d_max_fp32 input channels v = fill_output v channels f32_NEG_INFINITY (pool_max_cell v input)"

text \<open>The count is an \<open>i32\<close>.\<close>

definition pool_avg_cell :: "conv_params \<Rightarrow> f32 list \<Rightarrow> nat \<Rightarrow> nat \<Rightarrow> nat \<Rightarrow> f32" where
  "pool_avg_cell v input c oh ow =
     (let (acc, count) =
        fold (\<lambda>(fh, fw) (acc, count).
            case conv_tap v input c oh ow fh fw of
              None \<Rightarrow> (acc, count)
            | Some val \<Rightarrow> (f32_add acc val, count + 1))
          (List.product [0..<cv_kh v] [0..<cv_kw v]) (f32_0, 0 :: u32)
      in if sint count > 0 then f32_div acc (f32_of_i32 count) else f32_0)"

definition Gpu_kernel_pool2d_avg_fp32 :: "f32 list \<Rightarrow> nat \<Rightarrow> conv_params \<Rightarrow> f32 list option" where
  "Gpu_kernel_pool2d_avg_fp32 input channels v = fill_output v channels f32_0 (pool_avg_cell v input)"

subsection \<open>Execution\<close>

definition Gpu_finish_op :: "gpu \<Rightarrow> bool \<Rightarrow> gpu" where
  "Gpu_finish_op g is_error =
     (let g = g\<lparr>gp_status := gp_status g AND NOT XPU_BUSY\<rparr>;
          g = g\<lparr>gp_status := gp_status g OR XPU_DONE\<rparr>;
          g = (if is_error then g\<lparr>gp_status := gp_status g OR XPU_ERROR\<rparr> else g)
      in if gp_control g AND XPU_IRQ_EN \<noteq> 0 then g\<lparr>gp_status := gp_status g OR XPU_IRQ_PENDING\<rparr> else g)"

text \<open>A kernel's result: \<open>None\<close> for a panic, and otherwise the operations counted, or an error.  The second definition
  is the end of every kernel: the output is stored, and on success the counters move.\<close>

type_synonym gpu_run = "(u64 result \<times> gpu \<times> mem_regions) option"

definition gpu_written :: "gpu \<Rightarrow> unit result \<times> mem_regions \<Rightarrow> u64 \<Rightarrow> u64 \<Rightarrow> u64 \<Rightarrow> gpu_run" where
  "gpu_written g written bytes cycles ops =
     (case written of
        (Inl e, ms) \<Rightarrow> Some (Inl e, g, ms)
      | (Inr _, ms) \<Rightarrow>
          Some (Inr ops, g\<lparr>gp_bytes_transferred := gp_bytes_transferred g + bytes, gp_cycles := gp_cycles g + cycles\<rparr>, ms))"

definition Gpu_execute_matmul_fp32 :: "gpu \<Rightarrow> mem_regions \<Rightarrow> gpu_run" where
  "Gpu_execute_matmul_fp32 g ms =
     bind_vec (Some (dma_read_tensor_desc ms (gp_input_desc_addrs g ! 0))) (g, ms) (\<lambda>(a_addr, _, a_shape0, a_shape1, _).
     bind_vec (Some (dma_read_tensor_desc ms (gp_input_desc_addrs g ! 1))) (g, ms) (\<lambda>(b_addr, _, _, b_shape1, _).
     bind_vec (Some (dma_read_tensor_desc ms (gp_output_desc_addrs g ! 0))) (g, ms) (\<lambda>(c_addr, _).
     let m = unat a_shape0; k = unat a_shape1; n = unat b_shape1 in
     if m = 0 \<or> k = 0 \<or> n = 0 then Some (Inr 0, g, ms)
     else
       bind_vec (dma_read_f32_slice ms a_addr (m * k)) (g, ms) (\<lambda>a.
       bind_vec (dma_read_f32_slice ms b_addr (k * n)) (g, ms) (\<lambda>b.
       case Gpu_kernel_matmul_fp32 a b m n k of
         None \<Rightarrow> None
       | Some c \<Rightarrow>
           gpu_written g (dma_write_f32_slice ms c_addr c) (of_nat (m * k + k * n + m * n) * 4) (of_nat (m * n * k))
             (of_nat (m * n * k * 2)))))))"

definition gpu_dot_i8 :: "u8 list \<Rightarrow> u8 list \<Rightarrow> nat \<Rightarrow> nat \<Rightarrow> nat \<Rightarrow> nat \<Rightarrow> u32" where
  "gpu_dot_i8 a b n k i j = fold (\<lambda>p acc. acc + scast (a ! (i * k + p)) * scast (b ! (p * n + j))) [0..<k] 0"

definition Gpu_execute_matmul_int8 :: "gpu \<Rightarrow> mem_regions \<Rightarrow> gpu_run" where
  "Gpu_execute_matmul_int8 g ms =
     bind_vec (Some (dma_read_tensor_desc ms (gp_input_desc_addrs g ! 0))) (g, ms) (\<lambda>(a_addr, _, a_shape0, a_shape1, _).
     bind_vec (Some (dma_read_tensor_desc ms (gp_input_desc_addrs g ! 1))) (g, ms) (\<lambda>(b_addr, _, _, b_shape1, _).
     bind_vec (Some (dma_read_tensor_desc ms (gp_output_desc_addrs g ! 0))) (g, ms) (\<lambda>(c_addr, _).
     let m = unat a_shape0; k = unat a_shape1; n = unat b_shape1 in
     if m = 0 \<or> k = 0 \<or> n = 0 then Some (Inr 0, g, ms)
     else
       bind_vec (dma_read_i8_slice ms a_addr (m * k)) (g, ms) (\<lambda>a.
       bind_vec (dma_read_i8_slice ms b_addr (k * n)) (g, ms) (\<lambda>b.
       if \<not> vec_fits 4 (m * n) then None
       else
         let c = fill_table (\<lambda>(i, j). i * n + j) (\<lambda>(i, j). gpu_dot_i8 a b n k i j)
               (List.product [0..<m] [0..<n]) (replicate (m * n) 0)
         in gpu_written g (store_for (\<lambda>i v ms. dma_write_u32 ms (c_addr + of_nat i * 4) v) 0 c ms)
              (of_nat (m * k + k * n) + of_nat (m * n) * 4) (of_nat (m * n * k)) (of_nat (m * n * k * 2)))))))"

definition Gpu_execute_binop_fp32 :: "gpu \<Rightarrow> mem_regions \<Rightarrow> (f32 list \<Rightarrow> f32 list \<Rightarrow> f32 list) \<Rightarrow> gpu_run" where
  "Gpu_execute_binop_fp32 g ms op =
     bind_vec (Some (dma_read_tensor_desc ms (gp_input_desc_addrs g ! 0))) (g, ms) (\<lambda>(a_addr, a_cnt, _).
     bind_vec (Some (dma_read_tensor_desc ms (gp_input_desc_addrs g ! 1))) (g, ms) (\<lambda>(b_addr, b_cnt, _).
     bind_vec (Some (dma_read_tensor_desc ms (gp_output_desc_addrs g ! 0))) (g, ms) (\<lambda>(c_addr, _).
     let n = min a_cnt b_cnt in
     if n = 0 then Some (Inr 0, g, ms)
     else
       bind_vec (dma_read_f32_slice ms a_addr n) (g, ms) (\<lambda>a.
       bind_vec (dma_read_f32_slice ms b_addr n) (g, ms) (\<lambda>b.
       gpu_written g (dma_write_f32_slice ms c_addr (op a b)) (of_nat (n * 3) * 4) (of_nat n) (of_nat n))))))"

definition Gpu_execute_dot_fp32 :: "f32_lib \<Rightarrow> gpu \<Rightarrow> mem_regions \<Rightarrow> gpu_run" where
  "Gpu_execute_dot_fp32 fl g ms =
     bind_vec (Some (dma_read_tensor_desc ms (gp_input_desc_addrs g ! 0))) (g, ms) (\<lambda>(a_addr, a_cnt, _).
     bind_vec (Some (dma_read_tensor_desc ms (gp_input_desc_addrs g ! 1))) (g, ms) (\<lambda>(b_addr, b_cnt, _).
     bind_vec (Some (dma_read_tensor_desc ms (gp_output_desc_addrs g ! 0))) (g, ms) (\<lambda>(c_addr, _).
     let n = min a_cnt b_cnt in
     if n = 0 then Some (Inr 0, g, ms)
     else
       bind_vec (dma_read_f32_slice ms a_addr n) (g, ms) (\<lambda>a.
       bind_vec (dma_read_f32_slice ms b_addr n) (g, ms) (\<lambda>b.
       gpu_written g (dma_write_u32 ms c_addr (Gpu_kernel_dot_fp32 fl a b)) (of_nat (n * 2 + 1) * 4) (of_nat n) (of_nat n))))))"

text \<open>The part shared by the kernels with one tensor of input, once the descriptors are read.\<close>

definition gpu_unary :: "gpu \<Rightarrow> mem_regions \<Rightarrow> u64 \<Rightarrow> nat \<Rightarrow> u64 \<Rightarrow> (f32 list \<Rightarrow> f32 list) \<Rightarrow> gpu_run" where
  "gpu_unary g ms a_addr a_cnt c_addr op =
     bind_vec (dma_read_f32_slice ms a_addr a_cnt) (g, ms) (\<lambda>a.
     gpu_written g (dma_write_f32_slice ms c_addr (op a)) (of_nat (a_cnt * 2) * 4) (of_nat a_cnt) (of_nat a_cnt))"

definition Gpu_execute_unary_fp32 :: "gpu \<Rightarrow> mem_regions \<Rightarrow> (f32 list \<Rightarrow> f32 list) \<Rightarrow> gpu_run" where
  "Gpu_execute_unary_fp32 g ms op =
     bind_vec (Some (dma_read_tensor_desc ms (gp_input_desc_addrs g ! 0))) (g, ms) (\<lambda>(a_addr, a_cnt, _).
     bind_vec (Some (dma_read_tensor_desc ms (gp_output_desc_addrs g ! 0))) (g, ms) (\<lambda>(c_addr, _).
     if a_cnt = 0 then Some (Inr 0, g, ms) else gpu_unary g ms a_addr a_cnt c_addr op))"

definition f32_0_01 :: f32 where "f32_0_01 = 0x3C23D70A"

definition gpu_leaky_alpha :: "gpu \<Rightarrow> f32" where
  "gpu_leaky_alpha g = (let alpha_bits = gp_conv_padding g AND 0xFFFF in if alpha_bits \<noteq> 0 then alpha_bits else f32_0_01)"

definition Gpu_execute_leaky_relu_fp32 :: "gpu \<Rightarrow> mem_regions \<Rightarrow> gpu_run" where
  "Gpu_execute_leaky_relu_fp32 g ms =
     (let alpha = gpu_leaky_alpha g in
     bind_vec (Some (dma_read_tensor_desc ms (gp_input_desc_addrs g ! 0))) (g, ms) (\<lambda>(a_addr, a_cnt, _).
     bind_vec (Some (dma_read_tensor_desc ms (gp_output_desc_addrs g ! 0))) (g, ms) (\<lambda>(c_addr, _).
     if a_cnt = 0 then Some (Inr 0, g, ms)
     else gpu_unary g ms a_addr a_cnt c_addr (\<lambda>a. Gpu_kernel_leaky_relu_fp32 a alpha))))"

definition Gpu_execute_scale_fp32 :: "gpu \<Rightarrow> mem_regions \<Rightarrow> gpu_run" where
  "Gpu_execute_scale_fp32 g ms =
     bind_vec (Some (dma_read_tensor_desc ms (gp_input_desc_addrs g ! 0))) (g, ms) (\<lambda>(a_addr, a_cnt, _).
     bind_vec (Some (dma_read_tensor_desc ms (gp_output_desc_addrs g ! 0))) (g, ms) (\<lambda>(c_addr, _).
     if a_cnt = 0 then Some (Inr 0, g, ms)
     else
       bind_vec
         (Some (if gp_input_desc_addrs g ! 1 \<noteq> 0
                then bind_res (dma_read_tensor_desc ms (gp_input_desc_addrs g ! 1)) (\<lambda>(s_addr, _). dma_read_u32 ms s_addr)
                else Inr (gp_conv_padding g))) (g, ms) (\<lambda>scalar.
       gpu_unary g ms a_addr a_cnt c_addr (\<lambda>a. Gpu_kernel_scale_fp32 a scalar))))"

text \<open>The parameters packed in the registers, in pairs of 16 bits.\<close>

definition hi_half :: "u32 \<Rightarrow> nat" where
  "hi_half w = unat (drop_bit 16 w AND 0xFFFF)"

definition lo_half :: "u32 \<Rightarrow> nat" where
  "lo_half w = unat (w AND 0xFFFF)"

definition gpu_conv_params :: "gpu \<Rightarrow> conv_params" where
  "gpu_conv_params g = \<lparr>cv_kh = hi_half (gp_conv_kernel_size g), cv_kw = lo_half (gp_conv_kernel_size g),
     cv_stride_h = hi_half (gp_conv_stride g), cv_stride_w = lo_half (gp_conv_stride g),
     cv_pad_h = hi_half (gp_conv_padding g), cv_pad_w = lo_half (gp_conv_padding g),
     cv_in_h = hi_half (gp_conv_input_dims g), cv_in_w = lo_half (gp_conv_input_dims g)\<rparr>"

definition conv_degenerate :: "conv_params \<Rightarrow> bool" where
  "conv_degenerate v \<longleftrightarrow> cv_kh v = 0 \<or> cv_kw v = 0 \<or> cv_stride_h v = 0 \<or> cv_stride_w v = 0 \<or> cv_in_h v = 0 \<or> cv_in_w v = 0"

definition Gpu_execute_conv2d_fp32 :: "gpu \<Rightarrow> mem_regions \<Rightarrow> gpu_run" where
  "Gpu_execute_conv2d_fp32 g ms =
     (let v = gpu_conv_params g; c_in = hi_half (gp_conv_channels g); c_out = lo_half (gp_conv_channels g) in
      if conv_degenerate v \<or> c_in = 0 \<or> c_out = 0 then Some (Inr 0, g\<lparr>gp_error_code := 3\<rparr>, ms)
      else
        bind_vec (Some (dma_read_tensor_desc ms (gp_input_desc_addrs g ! 0))) (g, ms) (\<lambda>(input_addr, _).
        bind_vec (Some (dma_read_tensor_desc ms (gp_input_desc_addrs g ! 1))) (g, ms) (\<lambda>(filter_addr, _).
        bind_vec (Some (dma_read_tensor_desc ms (gp_output_desc_addrs g ! 0))) (g, ms) (\<lambda>(output_addr, _).
        bind_vec (dma_read_f32_slice ms input_addr (c_in * cv_in_h v * cv_in_w v)) (g, ms) (\<lambda>input.
        bind_vec (dma_read_f32_slice ms filter_addr (c_out * c_in * cv_kh v * cv_kw v)) (g, ms) (\<lambda>weights.
        case Gpu_kernel_conv2d_fp32 input weights c_in c_out v of
          None \<Rightarrow> None
        | Some output \<Rightarrow>
            let ops = of_nat (c_out * cv_out_h v * cv_out_w v * c_in * cv_kh v * cv_kw v * 2);
                bytes = of_nat (c_in * cv_in_h v * cv_in_w v + c_out * c_in * cv_kh v * cv_kw v
                          + c_out * cv_out_h v * cv_out_w v) * 4
            in gpu_written g (dma_write_f32_slice ms output_addr output) bytes (ops div 2) ops))))))"

definition Gpu_execute_pool2d_fp32 :: "gpu \<Rightarrow> mem_regions \<Rightarrow> bool \<Rightarrow> gpu_run" where
  "Gpu_execute_pool2d_fp32 g ms is_max =
     (let v = gpu_conv_params g; channels = hi_half (gp_conv_channels g) in
      if conv_degenerate v \<or> channels = 0 then Some (Inr 0, g\<lparr>gp_error_code := 3\<rparr>, ms)
      else
        bind_vec (Some (dma_read_tensor_desc ms (gp_input_desc_addrs g ! 0))) (g, ms) (\<lambda>(input_addr, _).
        bind_vec (Some (dma_read_tensor_desc ms (gp_output_desc_addrs g ! 0))) (g, ms) (\<lambda>(output_addr, _).
        bind_vec (dma_read_f32_slice ms input_addr (channels * cv_in_h v * cv_in_w v)) (g, ms) (\<lambda>input.
        case (if is_max then Gpu_kernel_pool2d_max_fp32 input channels v else Gpu_kernel_pool2d_avg_fp32 input channels v) of
          None \<Rightarrow> None
        | Some output \<Rightarrow>
            let ops = of_nat (channels * cv_out_h v * cv_out_w v * cv_kh v * cv_kw v);
                bytes = of_nat (channels * cv_in_h v * cv_in_w v + channels * cv_out_h v * cv_out_w v) * 4
            in gpu_written g (dma_write_f32_slice ms output_addr output) bytes ops ops))))"

definition gpu_completed :: "u64 result \<times> gpu \<times> mem_regions \<Rightarrow> gpu \<times> mem_regions" where
  "gpu_completed r =
     (case r of
        (Inr ops, g, ms) \<Rightarrow>
          (Gpu_finish_op (g\<lparr>gp_ops_count := gp_ops_count g + ops, gp_kernels_executed := gp_kernels_executed g + 1,
             gp_tasks_done := gp_tasks_done g + 1\<rparr>) False, ms)
      | (Inl _, g, ms) \<Rightarrow>
          (Gpu_finish_op (g\<lparr>gp_error_code := 2, gp_tasks_error := gp_tasks_error g + 1\<rparr>) True, ms))"

definition gpu_kernel_run :: "f32_lib \<Rightarrow> gpu \<Rightarrow> mem_regions \<Rightarrow> gpu_run option" where
  "gpu_kernel_run fl g ms =
     (case KernelType_from_u32 (gp_kernel_type g) of
        K_MatMul \<Rightarrow>
          Some (if Precision_from_u32 (gp_precision g) = Fp32 then Gpu_execute_matmul_fp32 g ms else Gpu_execute_matmul_int8 g ms)
      | K_MatAdd \<Rightarrow> Some (Gpu_execute_binop_fp32 g ms Gpu_kernel_add_fp32)
      | K_VectorAdd \<Rightarrow> Some (Gpu_execute_binop_fp32 g ms Gpu_kernel_add_fp32)
      | K_VectorMul \<Rightarrow> Some (Gpu_execute_binop_fp32 g ms Gpu_kernel_mul_fp32)
      | K_VectorDot \<Rightarrow> Some (Gpu_execute_dot_fp32 fl g ms)
      | K_Relu \<Rightarrow> Some (Gpu_execute_unary_fp32 g ms (Gpu_kernel_relu_fp32 fl))
      | K_Sigmoid \<Rightarrow> Some (Gpu_execute_unary_fp32 g ms (Gpu_kernel_sigmoid_fp32 fl))
      | K_Softmax \<Rightarrow> Some (Gpu_execute_unary_fp32 g ms (Gpu_kernel_softmax_fp32 fl))
      | K_Tanh \<Rightarrow> Some (Gpu_execute_unary_fp32 g ms (Gpu_kernel_tanh_fp32 fl))
      | K_LeakyRelu \<Rightarrow> Some (Gpu_execute_leaky_relu_fp32 g ms)
      | K_Relu6 \<Rightarrow> Some (Gpu_execute_unary_fp32 g ms (Gpu_kernel_relu6_fp32 fl))
      | K_VectorScale \<Rightarrow> Some (Gpu_execute_scale_fp32 g ms)
      | K_Conv2d \<Rightarrow> Some (Gpu_execute_conv2d_fp32 g ms)
      | K_Pool2dMax \<Rightarrow> Some (Gpu_execute_pool2d_fp32 g ms True)
      | K_Pool2dAvg \<Rightarrow> Some (Gpu_execute_pool2d_fp32 g ms False)
      | _ \<Rightarrow> None)"

definition Gpu_execute_once_with_memory :: "f32_lib \<Rightarrow> gpu \<Rightarrow> mem_regions \<Rightarrow> (gpu \<times> mem_regions) option" where
  "Gpu_execute_once_with_memory fl g ms =
     (let g = g\<lparr>gp_status := (gp_status g OR XPU_BUSY) AND NOT (XPU_DONE OR XPU_ERROR)\<rparr> in
      case gpu_kernel_run fl g ms of
        Some r \<Rightarrow> map_option gpu_completed r
      | None \<Rightarrow> Some (Gpu_finish_op (g\<lparr>gp_error_code := 1, gp_tasks_error := gp_tasks_error g + 1\<rparr>) True, ms))"

definition Gpu_execute_with_memory :: "f32_lib \<Rightarrow> gpu \<Rightarrow> mem_regions \<Rightarrow> (gpu \<times> mem_regions) option" where
  "Gpu_execute_with_memory fl g ms = Gpu_execute_once_with_memory fl (g\<lparr>gp_pending_start := False\<rparr>) ms"

subsection \<open>The command queue\<close>

definition gpu_command :: "gpu \<Rightarrow> nat \<Rightarrow> mem_regions \<Rightarrow> gpu result" where
  "gpu_command g idx ms =
     (let desc_base = gp_cmd_queue_addr g + of_nat idx * 16 in
      bind_res (dma_read_u32 ms desc_base) (\<lambda>kt.
      bind_res (dma_read_u32 ms (desc_base + 4)) (\<lambda>prec.
      bind_res (dma_read_u32 ms (desc_base + 8)) (\<lambda>in0_desc.
      bind_res (dma_read_u32 ms (desc_base + 12)) (\<lambda>out0_desc.
      Inr (g\<lparr>gp_kernel_type := kt, gp_precision := prec, gp_input_desc_addrs := (gp_input_desc_addrs g)[0 := ucast in0_desc],
         gp_output_desc_addrs := (gp_output_desc_addrs g)[0 := ucast out0_desc]\<rparr>))))))"

fun gpu_queue_for :: "f32_lib \<Rightarrow> nat list \<Rightarrow> gpu \<Rightarrow> mem_regions \<Rightarrow> (unit result \<times> gpu \<times> mem_regions) option" where
  "gpu_queue_for fl [] g ms = Some (Inr (), g, ms)"
| "gpu_queue_for fl (idx # is) g ms =
     (case gpu_command g idx ms of
        Inl e \<Rightarrow> Some (Inl e, g, ms)
      | Inr g \<Rightarrow>
          (case Gpu_execute_once_with_memory fl g ms of
             None \<Rightarrow> None
           | Some (g, ms) \<Rightarrow> gpu_queue_for fl is g ms))"

definition Gpu_process_pending_descriptor_notify ::
  "f32_lib \<Rightarrow> gpu \<Rightarrow> mem_regions \<Rightarrow> (unit result \<times> gpu \<times> mem_regions) option" where
  "Gpu_process_pending_descriptor_notify fl g ms =
     (if \<not> gp_pending_notify g then Some (Inr (), g, ms)
      else
        let g = g\<lparr>gp_pending_notify := False, gp_status := (gp_status g OR XPU_BUSY) AND NOT XPU_DONE\<rparr> in
        case gpu_queue_for fl [0..<unat (gp_cmd_queue_len g)] g ms of
          None \<Rightarrow> None
        | Some (Inl e, g, ms) \<Rightarrow> Some (Inl e, g, ms)
        | Some (Inr _, g, ms) \<Rightarrow>
            let g = (if gp_cmd_queue_len g = 0 then
                       (let g = g\<lparr>gp_status := (gp_status g AND NOT XPU_BUSY) OR XPU_DONE\<rparr>
                        in if gp_control g AND XPU_IRQ_EN \<noteq> 0 then g\<lparr>gp_status := gp_status g OR XPU_IRQ_PENDING\<rparr> else g)
                     else g)
            in Some (Inr (), g, ms))"

definition Gpu_try_execute_pending :: "f32_lib \<Rightarrow> gpu \<Rightarrow> mem_regions \<Rightarrow> (bool result \<times> gpu \<times> mem_regions) option" where
  "Gpu_try_execute_pending fl g ms =
     (case (if Gpu_has_pending_start g then map_option (Pair True) (Gpu_execute_with_memory fl g ms) else Some (False, g, ms)) of
        None \<Rightarrow> None
      | Some (did_work, g, ms) \<Rightarrow>
          if Gpu_has_pending_descriptor_notify g then
            (case Gpu_process_pending_descriptor_notify fl g ms of
               None \<Rightarrow> None
             | Some (Inl e, g, ms) \<Rightarrow> Some (Inl e, g, ms)
             | Some (Inr _, g, ms) \<Rightarrow> Some (Inr True, g, ms))
          else Some (Inr did_work, g, ms))"

subsection \<open>The accelerator trait\<close>

definition Gpu_accelerator_type :: "gpu \<Rightarrow> accelerator_type" where
  "Gpu_accelerator_type g = Acc_Gpu"

definition Gpu_supported_precisions :: "gpu \<Rightarrow> precision list" where
  "Gpu_supported_precisions g = [Fp32, Int8]"

definition Gpu_supported_kernels :: "gpu \<Rightarrow> kernel_type list" where
  "Gpu_supported_kernels g = [K_MatMul, K_MatAdd, K_VectorAdd, K_VectorMul, K_VectorScale, K_VectorDot, K_Relu, K_Relu6,
     K_LeakyRelu, K_Sigmoid, K_Tanh, K_Softmax, K_Conv2d, K_Pool2dMax, K_Pool2dAvg]"

definition Gpu_performance_counters :: "gpu \<Rightarrow> accelerator_perf" where
  "Gpu_performance_counters g = \<lparr>ap_kernels_executed = gp_kernels_executed g, ap_cycles_elapsed = gp_cycles g,
     ap_bytes_transferred = gp_bytes_transferred g, ap_operations_count = gp_ops_count g,
     ap_errors_count = ucast (gp_tasks_error g)\<rparr>"

definition Gpu_reset :: "gpu \<Rightarrow> gpu" where
  "Gpu_reset g = g\<lparr>gp_control := 0, gp_status := XPU_IDLE, gp_kernel_type := KernelType_code K_MatMul,
     gp_precision := Precision_code Fp32, gp_input_desc_addrs := replicate 3 0, gp_output_desc_addrs := replicate 2 0,
     gp_cmd_queue_addr := 0, gp_cmd_queue_len := 0, gp_pending_notify := False, gp_conv_kernel_size := 0x00010001,
     gp_conv_stride := 0x00010001, gp_conv_padding := 0, gp_conv_input_dims := 0, gp_conv_channels := 0x00010001,
     gp_kernels_executed := 0, gp_cycles := 0, gp_ops_count := 0, gp_bytes_transferred := 0, gp_error_code := 0,
     gp_tasks_done := 0, gp_tasks_error := 0, gp_work_queue := []\<rparr>"

definition Gpu_is_busy :: "gpu \<Rightarrow> bool" where
  "Gpu_is_busy g \<longleftrightarrow> gp_status g AND XPU_BUSY \<noteq> 0"

definition Gpu_current_kernel :: "gpu \<Rightarrow> kernel_type option" where
  "Gpu_current_kernel g = (if Gpu_is_busy g then Some (KernelType_from_u32 (gp_kernel_type g)) else None)"

end
