(* ===== verification/Accel_Port.thy ===== *)
theory Accel_Port
  imports Tpu_Model Gpu_Model Coprocessor
begin

text \<open>
  The control and status registers that the two matrix accelerators have in common, as a contract: the registers are
  written byte by byte, each byte by reading the register back and writing the patched word.  What a word stored at one
  of them does follows for both devices.
\<close>

locale accel_port =
  fixes w8 :: "'d \<Rightarrow> u32 \<Rightarrow> u8 \<Rightarrow> 'd" and control status :: "'d \<Rightarrow> u32" and started :: "'d \<Rightarrow> bool"
    and set_control set_status :: "'d \<Rightarrow> u32 \<Rightarrow> 'd"
  assumes control_byte: "i < 4 \<Longrightarrow> w8 d (of_nat i) x = set_control d (put_byte i x (control d))"
    and status_byte: "i < 4 \<Longrightarrow> w8 d (4 + of_nat i) x = set_status d (put_byte i x (status d))"
    and control_set: "control (set_control d v) = v AND NOT 3"
    and started_set: "started (set_control d v) \<longleftrightarrow> started d \<or> bit v 0"
    and status_set: "status (set_status d v) = status d AND NOT (v AND 0xE)"
begin

lemma three_mask: "(3 :: u32) = mask 2" "(0xE :: u32) = mask 4 AND NOT (mask 1)"
  by (simp_all add: mask_eq_exp_minus_1)

lemma status_store: "status (store4 w8 d 4 v) = status d AND NOT 0xE"
proof -
  have b: "w8 d 4 x = set_status d (put_byte 0 x (status d))" "w8 d 5 x = set_status d (put_byte 1 x (status d))"
    "w8 d 6 x = set_status d (put_byte 2 x (status d))" "w8 d 7 x = set_status d (put_byte 3 x (status d))" for d x
    using status_byte [of 0 d x] status_byte [of 1 d x] status_byte [of 2 d x] status_byte [of 3 d x] by simp_all
  have e: "bit (0xE :: u32) k \<longleftrightarrow> k < 4 \<and> k \<noteq> 0" for k unfolding three_mask(2) by (auto simp: bit_simps)
  show ?thesis
    unfolding store4_def by (rule bit_word_eqI) (auto simp: b status_set bit_simps e)
qed

lemma control_store:
  "control (store4 w8 d 0 v) = v AND NOT 3"
  "started (store4 w8 d 0 v) \<longleftrightarrow> started d \<or> bit v 0"
proof -
  have b: "w8 d 0 x = set_control d (put_byte 0 x (control d))" "w8 d 1 x = set_control d (put_byte 1 x (control d))"
    "w8 d 2 x = set_control d (put_byte 2 x (control d))" "w8 d 3 x = set_control d (put_byte 3 x (control d))" for d x
    using control_byte [of 0 d x] control_byte [of 1 d x] control_byte [of 2 d x] control_byte [of 3 d x] by simp_all
  have e: "bit (3 :: u32) k \<longleftrightarrow> k < 2" for k unfolding three_mask(1) by (auto simp: bit_simps)
  show "control (store4 w8 d 0 v) = v AND NOT 3"
  proof (rule bit_word_eqI)
    fix k assume "k < LENGTH(32)"
    then consider "k < 8" | "8 \<le> k" "k < 16" | "16 \<le> k" "k < 24" | "24 \<le> k" "k < 32" by fastforce
    then show "bit (control (store4 w8 d 0 v)) k = bit (v AND NOT 3) k"
      by cases (auto simp: store4_def b control_set bit_simps e)
  qed
  show "started (store4 w8 d 0 v) \<longleftrightarrow> started d \<or> bit v 0"
    by (auto simp: store4_def b started_set control_set bit_simps e)
qed

end

subsection \<open>Both devices\<close>

lemma patch_byte:
  assumes "i < 4"
  shows "(w AND NOT (push_bit (i * 8) 0xFF)) OR push_bit (i * 8) (ucast x) = put_byte i x (w :: u32)"
proof -
  have m: "(0xFF :: u32) = mask 8" by (simp add: mask_eq_exp_minus_1)
  show ?thesis unfolding m by (rule bit_word_eqI) (use assms in \<open>auto simp: bit_simps mult.commute [of i 8] dest: bit_imp_le_length\<close>)
qed

lemma byte_offset:
  assumes "i < 4"
  shows "of_nat i AND NOT 3 = (0 :: u32)" "of_nat i AND 3 = (of_nat i :: u32)" "unat (of_nat i :: u32) = i"
    "(4 + of_nat i) AND NOT 3 = (4 :: u32)" "(4 + of_nat i) AND 3 = (of_nat i :: u32)"
proof -
  have "i \<in> {0, 1, 2, 3}" using assms by auto
  then show "of_nat i AND NOT 3 = (0 :: u32)" "of_nat i AND 3 = (of_nat i :: u32)" "unat (of_nat i :: u32) = i"
    "(4 + of_nat i) AND NOT 3 = (4 :: u32)" "(4 + of_nat i) AND 3 = (of_nat i :: u32)" by auto
qed

lemma mask_E: "(0xE :: u32) = bitm 1 OR bitm 2 OR bitm 3"
  by (simp add: bitm_def)

lemma bit_3: "bit (3 :: u32) k \<longleftrightarrow> k = 0 \<or> k = 1"
proof -
  have e: "(3 :: u32) = bitm 0 OR bitm 1" by (simp add: bitm_def)
  show ?thesis unfolding e by (auto simp: bit_simps)
qed

lemma and_bitm: "n < 32 \<Longrightarrow> v AND bitm n = 0 \<longleftrightarrow> \<not> bit v n" for v :: u32
  using flag_bitm [of n v] by (auto simp: flag_def)

lemma tpu_port: "accel_port Tpu_write_u8 tp_control tp_status tp_pending_start tpu_write_control tpu_clear_status"
proof
  fix d :: tpu and x :: u8 and v :: u32 and i :: nat
  show "Tpu_write_u8 d (of_nat i) x = tpu_write_control d (put_byte i x (tp_control d))" if i: "i < 4"
  proof -
    have "Tpu_write_u8 d (of_nat i) x = Tpu_write_reg d 0 (put_byte i x (Tpu_read_reg d 0))"
      unfolding Tpu_write_u8_def Let_def byte_offset [OF i] patch_byte [OF i] ..
    then show ?thesis by (simp add: Tpu_read_reg_def Tpu_write_reg_def TREG_CONTROL_def TREG_STATUS_def)
  qed
  show "Tpu_write_u8 d (4 + of_nat i) x = tpu_clear_status d (put_byte i x (tp_status d))" if i: "i < 4"
  proof -
    have "Tpu_write_u8 d (4 + of_nat i) x = Tpu_write_reg d 4 (put_byte i x (Tpu_read_reg d 4))"
      unfolding Tpu_write_u8_def Let_def byte_offset [OF i] patch_byte [OF i] ..
    then show ?thesis by (simp add: Tpu_read_reg_def Tpu_write_reg_def TREG_CONTROL_def TREG_STATUS_def)
  qed
  show "tp_control (tpu_write_control d v) = v AND NOT 3"
    by (rule bit_word_eqI)
      (auto simp: tpu_write_control_def Tpu_reset_state_def Let_def xpu_bit_defs and_bitm bit_simps bit_3 less_2_cases_iff intro: gr0I)
  show "tp_pending_start (tpu_write_control d v) = (tp_pending_start d \<or> bit v 0)"
    by (auto simp: tpu_write_control_def Tpu_reset_state_def Let_def xpu_bit_defs and_bitm)
  show "tp_status (tpu_clear_status d v) = tp_status d AND NOT (v AND 0xE)"
    unfolding mask_E by (rule bit_word_eqI) (auto simp: tpu_clear_status_def Let_def xpu_bit_defs and_bitm bit_simps)
qed

lemma gpu_port: "accel_port Gpu_write_u8 gp_control gp_status gp_pending_start gpu_write_control gpu_clear_status"
proof
  fix d :: gpu and x :: u8 and v :: u32 and i :: nat
  show "Gpu_write_u8 d (of_nat i) x = gpu_write_control d (put_byte i x (gp_control d))" if i: "i < 4"
  proof -
    have "Gpu_write_u8 d (of_nat i) x = Gpu_write_reg d 0 (put_byte i x (Gpu_read_reg d 0))"
      unfolding Gpu_write_u8_def Let_def byte_offset [OF i] patch_byte [OF i] ..
    then show ?thesis by (simp add: Gpu_read_reg_def Gpu_write_reg_def GREG_CONTROL_def GREG_STATUS_def)
  qed
  show "Gpu_write_u8 d (4 + of_nat i) x = gpu_clear_status d (put_byte i x (gp_status d))" if i: "i < 4"
  proof -
    have "Gpu_write_u8 d (4 + of_nat i) x = Gpu_write_reg d 4 (put_byte i x (Gpu_read_reg d 4))"
      unfolding Gpu_write_u8_def Let_def byte_offset [OF i] patch_byte [OF i] ..
    then show ?thesis by (simp add: Gpu_read_reg_def Gpu_write_reg_def GREG_CONTROL_def GREG_STATUS_def)
  qed
  show "gp_control (gpu_write_control d v) = v AND NOT 3"
    by (rule bit_word_eqI)
      (auto simp: gpu_write_control_def Gpu_reset_state_def Let_def xpu_bit_defs and_bitm bit_simps bit_3 less_2_cases_iff intro: gr0I)
  show "gp_pending_start (gpu_write_control d v) = (gp_pending_start d \<or> bit v 0)"
    by (auto simp: gpu_write_control_def Gpu_reset_state_def Let_def xpu_bit_defs and_bitm)
  show "gp_status (gpu_clear_status d v) = gp_status d AND NOT (v AND 0xE)"
    unfolding mask_E by (rule bit_word_eqI) (auto simp: gpu_clear_status_def Let_def xpu_bit_defs and_bitm bit_simps)
qed

interpretation tpu_front: accel_port Tpu_write_u8 tp_control tp_status tp_pending_start tpu_write_control tpu_clear_status
  by (rule tpu_port)

interpretation gpu_front: accel_port Gpu_write_u8 gp_control gp_status gp_pending_start gpu_write_control gpu_clear_status
  by (rule gpu_port)

text \<open>C39: Whatever word is stored to the status register of either device, byte by byte as the bus does it, clears \<open>DONE\<close>,
  \<open>ERROR\<close> and \<open>IRQ_PENDING\<close> alike, since the second byte writes back, as ones, the bits that the first left set.
\<close>
theorem accel_status_store_clears_all:
  "tp_status (store4 Tpu_write_u8 t 4 v) = tp_status t AND NOT 0xE \<and>
   gp_status (store4 Gpu_write_u8 g 4 v) = gp_status g AND NOT 0xE"
  by (simp only: tpu_front.status_store gpu_front.status_store)

text \<open>
  A reset through the control register does not take back the start of the same store, and neither does the reset of the
  accelerator trait: the kernel runs at the next access.
\<close>
theorem accel_reset_keeps_start:
  "tp_pending_start (store4 Tpu_write_u8 t 0 (XPU_START OR XPU_RESET))"
  "tp_pending_start (Tpu_reset t) = tp_pending_start t"
  "gp_pending_start (store4 Gpu_write_u8 g 0 (XPU_START OR XPU_RESET))"
  "gp_pending_start (Gpu_reset g) = gp_pending_start g"
  by (simp_all add: tpu_front.control_store gpu_front.control_store xpu_bit_defs bit_simps Tpu_reset_def Gpu_reset_def)

end
