(* ===== verification/Accel_Slices.thy ===== *)
theory Accel_Slices
  imports Accel_Common Guest_Bytes
begin

text \<open>
  The slices of bytes and words that the accelerators read and write, as runs of bytes of RAM: reading one that is there
  gives its elements, and storing one leaves its bytes and changes nothing else.  Then tensor descriptors, the tables that
  nested loops fill, and sums of integral numbers in \<open>f32\<close>.
\<close>

subsection \<open>Bytes and words\<close>

definition word_bytes :: "u32 list \<Rightarrow> u8 list" where
  "word_bytes ws = concat (map (le_list 4) ws)"

lemma length_word_bytes [simp]: "length (word_bytes ws) = 4 * length ws"
  by (induction ws) (simp_all add: word_bytes_def)

lemma word_bytes_Cons: "word_bytes (w # ws) = le_list 4 w @ word_bytes ws"
  by (simp add: word_bytes_def)

lemma word_bytes_snoc: "word_bytes (ws @ [w]) = word_bytes ws @ le_list 4 w"
  by (simp add: word_bytes_def)

lemma le_list_4: "le_list 4 w = [byte_at 0 w, byte_at 1 w, byte_at 2 w, byte_at 3 w]"
  by (simp add: le_list_def upt_conv_Cons numeral_2_eq_2 numeral_3_eq_3)

lemma dma_byte_at:
  assumes "ram_bytes ms a bs" "i < length bs"
  shows "dma_read_u8 ms (ucast a + of_nat i) = Inr (bs ! i)"
proof -
  have "(ucast a :: u64) + of_nat i = ucast (a + of_nat i)"
    using assms by (intro addr_plus(2)) (simp add: ram_bytes_def)
  then show ?thesis using read_regions_ram [OF ram_bytes_nth [OF assms]] by (simp add: dma_read_u8_def dma_of_cpu_addr)
qed

lemma dma_word_at:
  assumes "ram_bytes ms a (le_list 4 w)"
  shows "dma_read_u32 ms (ucast a) = Inr w"
  using dma_byte_at [OF assms, of 0] dma_byte_at [OF assms, of 1] dma_byte_at [OF assms, of 2] dma_byte_at [OF assms, of 3]
  by (simp add: dma_read_u32_def le_list_4)

lemma word_at:
  assumes "ram_bytes ms a (word_bytes ws)" "i < length ws"
  shows "ram_bytes ms (a + of_nat (4 * i)) (le_list 4 (ws ! i))" "(ucast a :: u64) + of_nat i * 4 = ucast (a + of_nat (4 * i))"
proof -
  have "ws = take i ws @ ws ! i # drop (Suc i) ws" using assms(2) by (rule id_take_nth_drop)
  then have "word_bytes ws = word_bytes (take i ws) @ le_list 4 (ws ! i) @ word_bytes (drop (Suc i) ws)"
    by (metis concat_append map_append word_bytes_def word_bytes_Cons)
  then have r: "ram_bytes ms a (word_bytes (take i ws) @ le_list 4 (ws ! i) @ word_bytes (drop (Suc i) ws))" using assms(1) by simp
  have ne: "le_list 4 (ws ! i) @ word_bytes (drop (Suc i) ws) \<noteq> []" by (simp add: le_list_4)
  have "length (word_bytes (take i ws)) = 4 * i" using assms(2) by simp
  then show "ram_bytes ms (a + of_nat (4 * i)) (le_list 4 (ws ! i))"
    using ram_bytes_append(1) [OF ram_bytes_append(2) [OF r ne]] by simp
  have "unat a + 4 * i < 2 ^ 32" using assms by (simp add: ram_bytes_def)
  then have "(ucast a :: u64) + of_nat (4 * i) = ucast (a + of_nat (4 * i))" by (rule addr_plus(2))
  then show "(ucast a :: u64) + of_nat i * 4 = ucast (a + of_nat (4 * i))" by (simp add: mult.commute)
qed

lemma collect_for_map: "\<forall>x \<in> set xs. f x = Inr (g x) \<Longrightarrow> collect_for f xs = Inr (map g xs)"
  by (induction xs) simp_all

lemma collect_for_nth: "\<forall>i < length ys. f i = Inr (ys ! i) \<Longrightarrow> collect_for f [0..<length ys] = Inr ys"
  using collect_for_map [of "[0..<length ys]" f "nth ys"] by (simp add: map_nth)

lemma read_i8_slice:
  assumes "ram_bytes ms a bs" "length bs = n"
  shows "dma_read_i8_slice ms (ucast a) n = Some (Inr bs)"
proof -
  have "n < 2 ^ 63" using assms by (simp add: ram_bytes_def)
  then show ?thesis
    using collect_for_nth [of bs "\<lambda>i. dma_read_u8 ms (ucast a + of_nat i)"] dma_byte_at [OF assms(1)] assms(2)
    by (simp add: dma_read_i8_slice_def vec_fits_def)
qed

lemma collect_words:
  assumes "ram_bytes ms a (word_bytes ws)" "length ws = n"
  shows "collect_for (\<lambda>i. dma_read_u32 ms (ucast a + of_nat i * 4)) [0..<n] = Inr ws"
  using collect_for_nth [of ws "\<lambda>i. dma_read_u32 ms (ucast a + of_nat i * 4)"] word_at [OF assms(1)] dma_word_at assms(2) by simp

lemma words_fit: "ram_bytes ms a (word_bytes ws) \<Longrightarrow> length ws = n \<Longrightarrow> vec_fits 4 n"
  by (simp add: ram_bytes_def vec_fits_def)

lemma read_f32_slice:
  "ram_bytes ms a (word_bytes ws) \<Longrightarrow> length ws = n \<Longrightarrow> dma_read_f32_slice ms (ucast a) n = Some (Inr ws)"
  by (simp add: dma_read_f32_slice_def words_fit collect_words)

subsection \<open>Storing\<close>

lemma dma_store_next:
  assumes "stored ms a xs ms1" "in_ram ms a n" "length xs < n"
  shows "\<exists>ms2. dma_write_u8 ms1 (ucast a + of_nat (length xs)) b = (Inr (), ms2) \<and> stored ms a (xs @ [b]) ms2"
proof -
  have "VirtioBlock_write_guest_u8 = dma_write_u8"
    by (intro ext) (simp add: VirtioBlock_write_guest_u8_def dma_write_u8_def guest_addr_dma)
  then show ?thesis using store_next [OF assms] by simp
qed

lemma dma_store_bytes:
  assumes "stored ms a (take i bs) ms1" "in_ram ms a (length bs)" "i \<le> length bs"
  shows "\<exists>ms'. store_for (\<lambda>i v ms. dma_write_u8 ms (ucast a + of_nat i) v) i (drop i bs) ms1 = (Inr (), ms') \<and> stored ms a bs ms'"
  using assms(1,3)
proof (induction "length bs - i" arbitrary: i ms1)
  case (Suc d)
  then have i: "i < length bs" by simp
  then obtain ms2 where m: "dma_write_u8 ms1 (ucast a + of_nat i) (bs ! i) = (Inr (), ms2)" "stored ms a (take i bs @ [bs ! i]) ms2"
    using dma_store_next [OF Suc.prems(1) assms(2), of "bs ! i"] by auto
  have "stored ms a (take (Suc i) bs) ms2" using m(2) i by (simp add: take_Suc_conv_app_nth)
  from Suc.hyps(1) [OF _ this] show ?case using Suc.hyps(2) i m(1) by (simp add: Cons_nth_drop_Suc [symmetric])
qed (auto intro: exI [of _ ms1])

lemma write_i8_slice:
  assumes "in_ram ms a (length bs)"
  shows "\<exists>ms'. store_for (\<lambda>i v ms. dma_write_u8 ms (ucast a + of_nat i) v) 0 bs ms = (Inr (), ms') \<and> stored ms a bs ms'"
  using dma_store_bytes [of ms a 0 bs ms] assms stored_empty [of a ms] by (simp add: in_ram_def)

lemma dma_store_word:
  assumes "stored ms a xs ms1" "in_ram ms a n" "length xs + 4 \<le> n"
  shows "\<exists>ms2. dma_write_u32 ms1 (ucast a + of_nat (length xs)) w = (Inr (), ms2) \<and> stored ms a (xs @ le_list 4 w) ms2"
proof -
  obtain m1 where m1: "dma_write_u8 ms1 (ucast a + of_nat (length xs)) (byte_at 0 w) = (Inr (), m1)" "stored ms a (xs @ [byte_at 0 w]) m1"
    using dma_store_next [OF assms(1,2)] assms(3) by fastforce
  obtain m2 where m2: "dma_write_u8 m1 (ucast a + of_nat (length xs) + 1) (byte_at 1 w) = (Inr (), m2)"
    "stored ms a ((xs @ [byte_at 0 w]) @ [byte_at 1 w]) m2"
    using dma_store_next [OF m1(2) assms(2), of "byte_at 1 w"] assms(3) by (auto simp: add.commute add.left_commute)
  obtain m3 where m3: "dma_write_u8 m2 (ucast a + of_nat (length xs) + 2) (byte_at 2 w) = (Inr (), m3)"
    "stored ms a (((xs @ [byte_at 0 w]) @ [byte_at 1 w]) @ [byte_at 2 w]) m3"
    using dma_store_next [OF m2(2) assms(2), of "byte_at 2 w"] assms(3) by (auto simp: add.commute add.left_commute)
  obtain m4 where m4: "dma_write_u8 m3 (ucast a + of_nat (length xs) + 3) (byte_at 3 w) = (Inr (), m4)"
    "stored ms a ((((xs @ [byte_at 0 w]) @ [byte_at 1 w]) @ [byte_at 2 w]) @ [byte_at 3 w]) m4"
    using dma_store_next [OF m3(2) assms(2), of "byte_at 3 w"] assms(3) by (auto simp: add.commute add.left_commute)
  show ?thesis using m1(1) m2(1) m3(1) m4 by (simp add: dma_write_u32_def le_list_4)
qed

lemma dma_store_words:
  assumes "stored ms a (word_bytes (take i ws)) ms1" "in_ram ms a (4 * length ws)" "i \<le> length ws"
  shows "\<exists>ms'. store_for (\<lambda>i v ms. dma_write_u32 ms (ucast a + of_nat i * 4) v) i (drop i ws) ms1 = (Inr (), ms') \<and>
    stored ms a (word_bytes ws) ms'"
  using assms(1,3)
proof (induction "length ws - i" arbitrary: i ms1)
  case (Suc d)
  then have i: "i < length ws" by simp
  have e: "(ucast a :: u64) + of_nat i * 4 = ucast a + of_nat (length (word_bytes (take i ws)))" using i by (simp add: mult.commute min_def)
  obtain ms2 where m: "dma_write_u32 ms1 (ucast a + of_nat i * 4) (ws ! i) = (Inr (), ms2)"
    "stored ms a (word_bytes (take i ws) @ le_list 4 (ws ! i)) ms2"
    using dma_store_word [OF Suc.prems(1) assms(2), of "ws ! i"] i unfolding e by auto
  have "stored ms a (word_bytes (take (Suc i) ws)) ms2" using m(2) i by (simp add: take_Suc_conv_app_nth word_bytes_snoc)
  from Suc.hyps(1) [OF _ this] show ?case using Suc.hyps(2) i m(1) by (simp add: Cons_nth_drop_Suc [symmetric])
qed (auto intro: exI [of _ ms1])

lemma write_words:
  assumes "in_ram ms a (4 * length ws)"
  shows "\<exists>ms'. store_for (\<lambda>i v ms. dma_write_u32 ms (ucast a + of_nat i * 4) v) 0 ws ms = (Inr (), ms') \<and> stored ms a (word_bytes ws) ms'"
  using dma_store_words [of ms a 0 ws ms] assms stored_empty [of a ms] by (simp add: in_ram_def word_bytes_def)

lemma write_f32_slice:
  "in_ram ms a (4 * length ws) \<Longrightarrow> \<exists>ms'. dma_write_f32_slice ms (ucast a) ws = (Inr (), ms') \<and> stored ms a (word_bytes ws) ms'"
  using write_words by (simp add: dma_write_f32_slice_def)

subsection \<open>Tensor descriptors\<close>

text \<open>A descriptor in RAM of a tensor at \<open>x\<close>, with its number of elements and its shape.\<close>

definition tensor_at :: "mem_regions \<Rightarrow> u64 \<Rightarrow> addr \<Rightarrow> u32 \<Rightarrow> u32 \<times> u32 \<times> u32 \<Rightarrow> bool" where
  "tensor_at ms d x cnt shape \<longleftrightarrow>
     (\<exists>a. d = ucast a \<and> ram_bytes ms a (word_bytes [x, cnt, fst shape, fst (snd shape), snd (snd shape)]))"

lemma read_tensor_desc:
  assumes "tensor_at ms d x cnt (s0, s1, s2)"
  shows "dma_read_tensor_desc ms d = Inr (ucast x, unat cnt, s0, s1, s2)"
proof -
  obtain a where a: "d = ucast a" "ram_bytes ms a (word_bytes [x, cnt, s0, s1, s2])" using assms by (auto simp: tensor_at_def)
  have r: "dma_read_u32 ms (ucast a + of_nat (4 * i)) = Inr ([x, cnt, s0, s1, s2] ! i)" if "i < 5" for i
    using word_at [OF a(2), of i] dma_word_at that by (simp add: mult.commute)
  show ?thesis
    using r [of 0] r [of 1] r [of 2] r [of 3] r [of 4] by (simp add: dma_read_tensor_desc_def a(1))
qed

subsection \<open>Tables\<close>

lemma matrix_table:
  assumes "i < m" "j < n" "length c = m * n"
  shows "fill_table (\<lambda>(i, j). i * n + j) (\<lambda>(i, j). f i j) (List.product [0..<m] [0..<n]) c ! (i * n + j) = f i j"
proof -
  let ?ix = "\<lambda>(i, j). i * n + j"
  have "inj_on ?ix (set (List.product [0..<m] [0..<n]))"
  proof (rule inj_onI, clarsimp)
    fix a b c d assume h: "a * n + b = c * n + d" "b < n" "d < n"
    then have "(a * n + b) div n = (c * n + d) div n" "(a * n + b) mod n = (c * n + d) mod n" by simp_all
    then show "a = c \<and> b = d" using h(2,3) by simp
  qed
  moreover have "distinct (List.product [0..<m] [0..<n])" by (simp add: distinct_product)
  moreover have "(i, j) \<in> set (List.product [0..<m] [0..<n])" using assms by simp
  moreover have "?ix (i, j) < length c"
  proof -
    have "i * n + j < i * n + n" using assms(2) by simp
    also have "\<dots> = Suc i * n" by simp
    also have "\<dots> \<le> m * n" using assms(1) by (intro mult_le_mono1) simp
    finally show ?thesis by (simp add: assms(3))
  qed
  ultimately show ?thesis using fill_table_nth [of ?ix "List.product [0..<m] [0..<n]" "(i, j)" c "\<lambda>(i, j). f i j"] by simp
qed

text \<open>The whole table, row by row.\<close>

definition rows :: "nat \<Rightarrow> nat \<Rightarrow> (nat \<Rightarrow> nat \<Rightarrow> 'a) \<Rightarrow> 'a list" where
  "rows m n f = map (\<lambda>x. f (x div n) (x mod n)) [0..<m * n]"

lemma length_rows [simp]: "length (rows m n f) = m * n"
  by (simp add: rows_def)

lemma fill_rows:
  assumes "length c = m * n"
  shows "fill_table (\<lambda>(i, j). i * n + j) (\<lambda>(i, j). f i j) (List.product [0..<m] [0..<n]) c = rows m n f"
proof (rule nth_equalityI)
  fix x assume "x < length (fill_table (\<lambda>(i, j). i * n + j) (\<lambda>(i, j). f i j) (List.product [0..<m] [0..<n]) c)"
  then have x: "x < m * n" using assms by simp
  then have "0 < n" by (cases n) simp_all
  then have "x div n < m" "x mod n < n" using x by (simp_all add: less_mult_imp_div_less)
  from matrix_table [OF this assms, of f]
  show "fill_table (\<lambda>(i, j). i * n + j) (\<lambda>(i, j). f i j) (List.product [0..<m] [0..<n]) c ! x = rows m n f ! x"
    using x by (simp add: rows_def)
qed (simp add: assms)

lemma rows_cong: "(\<And>i j. i < m \<Longrightarrow> j < n \<Longrightarrow> f i j = g i j) \<Longrightarrow> rows m n f = rows m n g"
  unfolding rows_def by (cases n) (auto simp: less_mult_imp_div_less)

lemma rows_nth: "i < m \<Longrightarrow> j < n \<Longrightarrow> rows m n f ! (i * n + j) = f i j"
  using matrix_table [of i m j n "replicate (m * n) (f 0 0)" f] fill_rows [of "replicate (m * n) (f 0 0)" m n f] by simp

subsection \<open>Sums of integral numbers\<close>

lemma f32_sum_exact:
  assumes "\<forall>x \<in> set xs. case g x of None \<Rightarrow> v x = 0 | Some t \<Rightarrow> fval t = Some (of_int (v x))"
    and "fval a = Some (of_int s)" "\<bar>s\<bar> + (\<Sum>x\<leftarrow>xs. \<bar>v x\<bar>) \<le> 2 ^ 24"
  shows "fval (fold (\<lambda>x acc. case g x of None \<Rightarrow> acc | Some t \<Rightarrow> f32_add acc t) xs a) = Some (of_int (s + (\<Sum>x\<leftarrow>xs. v x)))"
  using assms
proof (induction xs arbitrary: a s)
  case (Cons x xs)
  have nn: "0 \<le> (\<Sum>x\<leftarrow>xs. \<bar>v x\<bar>)" by (rule sum_list_nonneg) auto
  have b: "\<bar>s + v x\<bar> + (\<Sum>x\<leftarrow>xs. \<bar>v x\<bar>) \<le> 2 ^ 24" using Cons.prems(3) abs_triangle_ineq [of s "v x"] by simp
  have "fval (case g x of None \<Rightarrow> a | Some t \<Rightarrow> f32_add a t) = Some (of_int (s + v x))"
  proof (cases "g x")
    case (Some t)
    have "\<bar>s + v x\<bar> \<le> 2 ^ 24" using b nn by simp
    moreover have "fval t = Some (of_int (v x))" using Cons.prems(1) Some by auto
    ultimately show ?thesis using f32_add_exact [OF Cons.prems(2)] Some by simp
  qed (use Cons.prems(1,2) in auto)
  from Cons.IH [OF _ this b] Cons.prems(1) show ?case by (simp add: add.assoc)
qed simp

end
