(* ===== verification/Tpu_Correct.thy ===== *)
theory Tpu_Correct
  imports Accel_Port Accel_Slices
begin

text \<open>
  The quantised matrix product of the TPU against the product of integer matrices: with unit scales the results in memory
  are exact while the accumulators and results stay within \<open>2 ^ 24\<close>, where \<open>f32\<close> still represents every integer; past it
  they are rounded.  Then the command queue's errors.
\<close>

subsection \<open>Accumulators\<close>

text \<open>Cell \<open>(i, j)\<close> of the product of an \<open>m\<close> by \<open>k\<close> and a \<open>k\<close> by \<open>n\<close> matrix of signed bytes, less the zero point.\<close>

definition int8_product :: "u8 list \<Rightarrow> u8 list \<Rightarrow> nat \<Rightarrow> nat \<Rightarrow> int \<Rightarrow> nat \<Rightarrow> nat \<Rightarrow> int" where
  "int8_product a b n k z i j = (\<Sum>p < k. (sint (a ! (i * k + p)) - z) * (sint (b ! (p * n + j)) - z))"

lemma fold_word_sum:
  assumes "\<And>p. p < k \<Longrightarrow> f p = (of_int (g p) :: u32)"
  shows "fold (\<lambda>p acc. acc + f p) [0..<k] 0 = of_int (\<Sum>p < k. g p)"
  using assms by (induction k) simp_all

lemma scast_of_int: "scast x = (of_int (sint x) :: u32)"
  by (rule scast_eq)

lemma tpu_accumulate_product: "tpu_accumulate a b n k zp i j = of_int (int8_product a b n k (sint zp) i j)"
proof -
  have "(scast x - of_int z) * (scast y - of_int z) = (of_int ((sint x - z) * (sint y - z)) :: u32)" for x y :: u8 and z
    by (simp only: scast_of_int of_int_diff of_int_mult)
  from this [where z = "sint zp"] show ?thesis
    unfolding tpu_accumulate_def int8_product_def Let_def by (intro fold_word_sum) simp
qed

lemma sint_small: "\<bar>x\<bar> \<le> 2 ^ 24 \<Longrightarrow> sint (of_int x :: u32) = x"
  by (simp add: sint_sbintrunc' signed_take_bit_int_eq_self)

subsection \<open>Dequantisation\<close>

lemma unit_scale_exact:
  assumes "\<bar>v\<bar> \<le> 2 ^ 24" "\<bar>sint zp\<bar> \<le> 2 ^ 24" "\<bar>v + sint zp\<bar> \<le> 2 ^ 24"
  shows "tpu_dequantized f32_1 f32_1 zp (of_int v) = of_int (v + sint zp)"
proof -
  have one: "fval f32_1 = Some (of_int 1)" using fval_constants(1) by simp
  have v: "fval (f32_of_i32 (of_int v)) = Some (of_int v)"
    using f32_of_int_exact [OF assms(1)] by (simp add: f32_of_i32_def sint_small [OF assms(1)])
  have z: "fval (f32_of_i32 zp) = Some (of_int (sint zp))" using f32_of_int_exact [OF assms(2)] by (simp add: f32_of_i32_def)
  have m: "fval (f32_mul x f32_1) = Some (of_int v)" if "fval x = Some (of_int v)" for x
    using f32_mul_exact [OF that one] assms(1) by simp
  note f32_to_i32_exact [OF f32_round_int_exact [OF f32_add_exact [OF m [OF m [OF m [OF v]]] z assms(3)] assms(3)] assms(3)]
  then show ?thesis by (simp only: tpu_dequantized_def Let_def)
qed

lemma unit_inverse: "(if \<not> f32_eq f32_1 f32_0 then f32_div f32_1 f32_1 else f32_1) = f32_1"
  using f32_eq_exact [OF fval_constants(1,2)] by (simp add: fval_constants(3))

subsection \<open>The product in memory\<close>

text \<open>Operands in RAM, room for the result, and unit scales.\<close>

definition tpu_product_ready :: "tpu \<Rightarrow> mem_regions \<Rightarrow> u8 list \<Rightarrow> u8 list \<Rightarrow> addr \<Rightarrow> bool" where
  "tpu_product_ready t ms a b C \<longleftrightarrow>
     (let m = unat (tp_matrix_a_rows t); k = unat (tp_matrix_a_cols t); n = unat (tp_matrix_b_cols t) in
      KernelType_from_u32 (tp_kernel_type t) = K_MatMul \<and> 0 < m \<and> 0 < k \<and> 0 < n \<and>
      tp_input_scale t = f32_1 \<and> tp_output_scale t = f32_1 \<and>
      (\<exists>A. tp_matrix_a_addr t = ucast A \<and> ram_bytes ms A a) \<and> length a = m * k \<and>
      (\<exists>B. tp_matrix_b_addr t = ucast B \<and> ram_bytes ms B b) \<and> length b = k * n \<and>
      tp_matrix_c_addr t = ucast C \<and> in_ram ms C (4 * (m * n)))"

text \<open>The end of an operation without an error.\<close>

definition accel_done :: "u32 \<Rightarrow> u32 \<Rightarrow> u32 \<Rightarrow> bool" where
  "accel_done control st st' \<longleftrightarrow>
     st' = (st AND NOT (XPU_BUSY OR XPU_ERROR)) OR XPU_DONE OR (if bit control 2 then XPU_IRQ_PENDING else 0)"

lemma done_bits:
  "((((s OR XPU_BUSY) AND NOT (XPU_DONE OR XPU_ERROR)) AND NOT XPU_BUSY) OR XPU_DONE) = (s AND NOT (XPU_BUSY OR XPU_ERROR)) OR XPU_DONE"
  by (rule bit_word_eqI) (auto simp: xpu_bit_defs bit_simps)

text \<open>C16: With unit scales, a matrix product started on the TPU stores in memory exactly the product of the two matrices of
  signed bytes, the input zero point taken from every entry of both and the output zero point added to every result,
  as long as the integer results, the shifted ones and the output zero point stay within \<open>2 ^ 24\<close> in size, where the
  detour of the code through single-precision numbers is exact.  No other byte of memory changes; the device ends done and
  not busy, and raises its interrupt when the program enabled it.
\<close>
theorem tpu_matmul_exact:
  assumes ready: "tpu_product_ready t ms a b C"
    and small: "\<forall>i < unat (tp_matrix_a_rows t). \<forall>j < unat (tp_matrix_b_cols t).
      (let v = int8_product a b (unat (tp_matrix_b_cols t)) (unat (tp_matrix_a_cols t)) (sint (tp_input_zero_point t)) i j
       in \<bar>v\<bar> \<le> 2 ^ 24 \<and> \<bar>v + sint (tp_output_zero_point t)\<bar> \<le> 2 ^ 24)"
    and zp: "\<bar>sint (tp_output_zero_point t)\<bar> \<le> 2 ^ 24"
  shows "\<exists>t' ms'. Tpu_execute_with_memory t ms = Some (t', ms') \<and>
    stored ms C (word_bytes (rows (unat (tp_matrix_a_rows t)) (unat (tp_matrix_b_cols t)) (\<lambda>i j.
      of_int (int8_product a b (unat (tp_matrix_b_cols t)) (unat (tp_matrix_a_cols t)) (sint (tp_input_zero_point t)) i j
        + sint (tp_output_zero_point t))))) ms' \<and>
    accel_done (tp_control t) (tp_status t) (tp_status t') \<and> tp_tasks_done t' = tp_tasks_done t + 1 \<and>
    tp_matrices_computed t' = tp_matrices_computed t + 1 \<and> tp_error_code t' = tp_error_code t \<and> \<not> tp_pending_start t'"
proof -
  let ?m = "unat (tp_matrix_a_rows t)" and ?k = "unat (tp_matrix_a_cols t)" and ?n = "unat (tp_matrix_b_cols t)"
  let ?P = "int8_product a b ?n ?k (sint (tp_input_zero_point t))"
  obtain c :: "u32 list" where c: "c = rows ?m ?n (\<lambda>i j. of_int (?P i j + sint (tp_output_zero_point t)))" by simp
  let ?t = "t\<lparr>tp_pending_start := False, tp_status := (tp_status t OR XPU_BUSY) AND NOT (XPU_DONE OR XPU_ERROR)\<rparr>"
  note r = ready [unfolded tpu_product_ready_def Let_def]
  obtain A B where ab: "tp_matrix_a_addr t = ucast A" "ram_bytes ms A a" "tp_matrix_b_addr t = ucast B" "ram_bytes ms B b"
    using r by (elim exE conjE) (rule that, assumption+)
  have la: "dma_read_i8_slice ms (tp_matrix_a_addr t) (?m * ?k) = Some (Inr a)"
    and lb: "dma_read_i8_slice ms (tp_matrix_b_addr t) (?k * ?n) = Some (Inr b)"
    using ab r by (simp_all add: read_i8_slice)
  have fits: "vec_fits 4 (?m * ?n)" using r by (simp add: vec_fits_def in_ram_def)
  have cell: "tpu_dequantized f32_1 f32_1 (tp_output_zero_point t) (tpu_accumulate a b ?n ?k (tp_input_zero_point t) i j)
      = of_int (?P i j + sint (tp_output_zero_point t))" if "i < ?m" "j < ?n" for i j
    unfolding tpu_accumulate_product using small that zp by (intro unit_scale_exact) (simp_all add: Let_def)
  have kernel: "Tpu_kernel_matmul_int8 a b ?m ?n ?k f32_1 (tp_input_zero_point t) f32_1 (tp_output_zero_point t) = Some c"
    using fits cell by (simp add: Tpu_kernel_matmul_int8_def unit_inverse fill_rows c cong: rows_cong)
  have "in_ram ms C (4 * length c)" using r by (simp add: c)
  from write_words [OF this] obtain ms' where w: "store_for (\<lambda>i v ms. dma_write_u32 ms (ucast C + of_nat i * 4) v) 0 c ms = (Inr (), ms')"
    "stored ms C (word_bytes c) ms'" by (elim exE conjE) (rule that, assumption+)
  have run: "\<exists>ops cyc. Tpu_execute_matmul_int8 ?t ms = Some (Inr ops, ?t\<lparr>tp_cycles := cyc\<rparr>, ms')"
    using r by (simp add: Tpu_execute_matmul_int8_def Let_def la lb kernel w(1)) (rule exI, rule refl)
  have "KernelType_from_u32 (tp_kernel_type t) = K_MatMul" using r by (elim conjE)
  then have "Tpu_execute_with_memory t ms = map_option tpu_completed (Tpu_execute_matmul_int8 ?t ms)"
    by (simp add: Tpu_execute_with_memory_def Tpu_execute_once_with_memory_def)
  then obtain ops cyc where e: "Tpu_execute_with_memory t ms = Some (tpu_completed (Inr ops, ?t\<lparr>tp_cycles := cyc\<rparr>, ms'))"
    using run by auto
  show ?thesis
    unfolding e using w(2) [unfolded c] done_bits [of "tp_status t"]
    by (simp add: tpu_completed_def Tpu_finish_op_def Let_def accel_done_def and_bitm XPU_IRQ_EN_def or.assoc)
qed

definition demo_tpu :: tpu where
  "demo_tpu = Tpu_new\<lparr>tp_matrix_a_rows := 2, tp_matrix_a_cols := 2, tp_matrix_b_cols := 2, tp_matrix_a_addr := 0x80000000,
     tp_matrix_b_addr := 0x80000004, tp_matrix_c_addr := 0x80000008\<rparr>"

definition demo_operands :: mem_regions where
  "demo_operands = mem_of ([1, 2, 3, 0xFC] @ [5, 6, 7, 8] @ replicate 16 0)"

lemma demo_ready: "tpu_product_ready demo_tpu demo_operands [1, 2, 3, 0xFC] [5, 6, 7, 8] 0x80000008"
proof -
  note mb = mem_of_bytes [where bytes = "[1, 2, 3, 0xFC] @ [5, 6, 7, 8] @ replicate 16 0", folded demo_operands_def]
  have a: "ram_bytes demo_operands 0x80000000 [1, 2, 3, 0xFC]" by (rule mb [where k = 0]) simp_all
  have b: "ram_bytes demo_operands 0x80000004 [5, 6, 7, 8]" by (rule mb [where k = 4]) simp_all
  have c: "ram_bytes demo_operands 0x80000008 (replicate 16 0)" by (rule mb [where k = 8]) simp_all
  have "\<exists>A. 0x80000000 = (ucast A :: u64) \<and> ram_bytes demo_operands A [1, 2, 3, 0xFC]"
    using a by (intro exI [of _ "0x80000000"]) simp
  moreover have "\<exists>B. 0x80000004 = (ucast B :: u64) \<and> ram_bytes demo_operands B [5, 6, 7, 8]"
    using b by (intro exI [of _ "0x80000004"]) simp
  ultimately show ?thesis
    using ram_bytes_in_ram [OF c]
    by (simp add: tpu_product_ready_def demo_tpu_def Tpu_new_def Tpu_with_base_def KernelType_from_u32_def f32_1_def)
qed

lemma demo_product:
  "int8_product [1, 2, 3, 0xFC] [5, 6, 7, 8] 2 2 0 0 0 = 19" "int8_product [1, 2, 3, 0xFC] [5, 6, 7, 8] 2 2 0 0 1 = 22"
  "int8_product [1, 2, 3, 0xFC] [5, 6, 7, 8] 2 2 0 1 0 = - 13" "int8_product [1, 2, 3, 0xFC] [5, 6, 7, 8] 2 2 0 1 1 = - 14"
  by (simp_all add: int8_product_def numeral_2_eq_2)

theorem tpu_matmul_exact_witness:
  "\<exists>t' ms'. Tpu_execute_with_memory demo_tpu demo_operands = Some (t', ms') \<and>
     ram_bytes ms' 0x80000008 (word_bytes [19, 22, - 13, - 14]) \<and> tp_status t' = XPU_DONE"
proof -
  have f: "unat (tp_matrix_a_rows demo_tpu) = 2" "unat (tp_matrix_a_cols demo_tpu) = 2" "unat (tp_matrix_b_cols demo_tpu) = 2"
    "sint (tp_input_zero_point demo_tpu) = 0" "sint (tp_output_zero_point demo_tpu) = 0" "tp_status demo_tpu = 0" "tp_control demo_tpu = 0"
    by (simp_all add: demo_tpu_def Tpu_new_def Tpu_with_base_def XPU_IDLE_def)
  have two: "P 0 \<Longrightarrow> P 1 \<Longrightarrow> \<forall>i < 2. P i" for P :: "nat \<Rightarrow> bool" by (simp add: numeral_2_eq_2 less_Suc_eq)
  note p = demo_product demo_product [unfolded One_nat_def]
  have small: "\<forall>i < 2. \<forall>j < 2. (let v = int8_product [1, 2, 3, 0xFC] [5, 6, 7, 8] 2 2 0 i j in \<bar>v\<bar> \<le> 2 ^ 24 \<and> \<bar>v + 0\<bar> \<le> 2 ^ 24)"
    by (intro two) (simp_all add: Let_def p)
  have r: "rows 2 2 (\<lambda>i j. of_int (int8_product [1, 2, 3, 0xFC] [5, 6, 7, 8] 2 2 0 i j + 0)) = [19, 22, - 13, - 14 :: u32]"
    by (simp add: rows_def upt_conv_Cons p)
  have st: "accel_done 0 0 st \<Longrightarrow> st = XPU_DONE" for st by (simp add: accel_done_def)
  have z: "\<bar>0 :: int\<bar> \<le> 2 ^ 24" by simp
  obtain t' ms' where "Tpu_execute_with_memory demo_tpu demo_operands = Some (t', ms')"
    "stored demo_operands 0x80000008 (word_bytes [19, 22, - 13, - 14]) ms'" "accel_done 0 0 (tp_status t')"
    using tpu_matmul_exact [OF demo_ready, unfolded f r, OF small z] by (elim exE conjE) (rule that, assumption+)
  then show ?thesis unfolding stored_def using st by blast
qed

subsection \<open>Past the limit\<close>

lemma just_past_decoded:
  "f32_decode 0x4B801000 = F_Fin False 8392704 1" "f32_decode f32_1 = F_Fin False 8388608 (- 23)"
  "f32_decode 0 = F_Fin False 0 (- 149)"
  by (simp_all add: f32_decode_def f32_1_def Let_def)

lemma just_past_lengths: "bit_len 16785409 = 25" "bit_len 70403103916032 = 47" "bit_len 8392704 = 24"
  by (simp_all add: bit_len.simps)

lemma just_past_rounded: "f32_of_i32 16785409 = 0x4B801000"
  by (simp add: f32_of_i32_def f32_of_int_def f32_round_def last_place_def just_past_lengths round_shift_def Let_def f32_signed_def)

lemma just_past_scaled: "f32_mul 0x4B801000 f32_1 = 0x4B801000"
  by (simp add: f32_mul_def just_past_decoded f32_round_def last_place_def just_past_lengths round_shift_def Let_def f32_signed_def)

lemma just_past_shifted: "f32_add 0x4B801000 0 = 0x4B801000"
proof -
  have "f32_add 0x4B801000 0 = f32_round False (8392704 * 2 ^ 150) (- 149)"
    by (simp add: f32_add_def just_past_decoded signed_mant_def Let_def)
  also have "\<dots> = 0x4B801000"
  proof -
    have "last_place (8392704 * 2 ^ 150) (- 149) = 1"
      using bit_len_shift [of 8392704 150] by (simp add: last_place_def just_past_lengths del: power_numeral)
    then show ?thesis by (simp add: f32_round_def round_shift_def Let_def f32_signed_def)
  qed
  finally show ?thesis .
qed

text \<open>Past \<open>2 ^ 24\<close> the result is rounded: the integer product of one pair of bytes less a zero point comes out wrong by one.\<close>

theorem tpu_matmul_rounds:
  "int8_product [0] [0] 1 1 (- 4097) 0 0 = 16785409"
  "Tpu_kernel_matmul_int8 [0] [0] 1 1 1 f32_1 (- 4097) f32_1 0 = Some [16785408]"
proof -
  show "int8_product [0] [0] 1 1 (- 4097) 0 0 = 16785409" by (simp add: int8_product_def)
  have acc: "tpu_accumulate [0] [0] 1 1 (- 4097) 0 0 = 16785409" by (simp add: tpu_accumulate_def)
  have "f32_of_i32 0 = 0" by (simp add: f32_of_i32_def f32_of_int_def f32_signed_def)
  moreover have "f32_round_int 0x4B801000 = 0x4B801000" by (simp add: f32_round_int_def just_past_decoded)
  moreover have "f32_to_i32 0x4B801000 = 16785408" by (simp add: f32_to_i32_def f32_trunc_def just_past_decoded signed_mant_def)
  ultimately have "tpu_dequantized f32_1 f32_1 0 16785409 = 16785408"
    by (simp add: tpu_dequantized_def just_past_rounded just_past_scaled just_past_shifted)
  then show "Tpu_kernel_matmul_int8 [0] [0] 1 1 1 f32_1 (- 4097) f32_1 0 = Some [16785408]"
    using acc unit_inverse by (simp add: Tpu_kernel_matmul_int8_def vec_fits_def)
qed

subsection \<open>Conversions\<close>

text \<open>C18: Quantisation with a unit scale and a zero point of at most \<open>2 ^ 23\<close> in size undoes dequantisation: every list of signed
  bytes comes back, the two extreme values included.
\<close>
theorem tpu_quantize_round_trip:
  assumes "\<bar>sint zp\<bar> \<le> 2 ^ 23"
  shows "Tpu_kernel_quantize (Tpu_kernel_dequantize data f32_1 zp) f32_1 zp = data"
proof -
  have one: "fval f32_1 = Some (of_int 1)" using fval_constants(1) by simp
  have z: "fval (f32_of_i32 zp) = Some (of_int (sint zp))"
    using f32_of_int_exact [of "sint zp"] assms by (simp add: f32_of_i32_def)
  have lim: "fval f32_m128 = Some (of_int (- 128))" "fval f32_127 = Some (of_int 127)"
    by (simp_all add: fval_def f32_decode_def f32_m128_def f32_127_def Let_def signed_mant_def pow2_def power_int_minus)
  have "f32_to_i8 (f32_clamp (f32_add (f32_round_int (f32_div (f32_mul (f32_sub (f32_of_i8 v) (f32_of_i32 zp)) f32_1) f32_1))
          (f32_of_i32 zp)) f32_m128 f32_127) = v" for v
  proof -
    have s: "- 128 \<le> sint v" "sint v \<le> 127" using sint_ge [of v] sint_lt [of v] by simp_all
    have b: "\<bar>sint v - sint zp\<bar> \<le> 2 ^ 24" "\<bar>sint v - sint zp + sint zp\<bar> \<le> 2 ^ 24" using s assms by simp_all
    have v: "fval (f32_of_i8 v) = Some (of_int (sint v))" using f32_of_int_exact [of "sint v"] s by (simp add: f32_of_i8_def)
    note d = f32_sub_exact [OF v z b(1)]
    have m: "fval (f32_mul (f32_sub (f32_of_i8 v) (f32_of_i32 zp)) f32_1) = Some (of_int (sint v - sint zp))"
      using f32_mul_exact [OF d one] b(1) by simp
    have e: "sint v - sint zp + sint zp = sint v" by simp
    note q = f32_add_exact [OF f32_round_int_exact [OF f32_div_one_exact [OF m b(1)] b(1)] z b(2), unfolded e]
    from f32_to_i8_exact [OF f32_clamp_within [OF q lim s] s] show ?thesis by simp
  qed
  then show ?thesis by (simp add: Tpu_kernel_quantize_def Tpu_kernel_dequantize_def comp_def)
qed

theorem tpu_quantize_round_trip_witness:
  "Tpu_kernel_quantize (Tpu_kernel_dequantize [0, 0x7F, 0x80] f32_1 0x10) f32_1 0x10 = [0, 0x7F, 0x80]"
  by (rule tpu_quantize_round_trip) simp

subsection \<open>Errors of the command queue\<close>

text \<open>C40: A fault on reading the first command of the queue: the error is returned, and the device is left busy and not done, with
  the notification gone, no error counted and no error code set, so the program waits for an operation that never ends.
\<close>
theorem tpu_queue_fault_stays_busy:
  assumes "tp_pending_notify t" "tp_cmd_queue_len t \<noteq> 0" "dma_read_u32 ms (tp_cmd_queue_addr t) = Inl e"
  shows "\<exists>t'. Tpu_process_pending_descriptor_notify t ms = Some (Inl e, t', ms) \<and> Tpu_is_busy t' \<and>
    tp_status t' AND XPU_DONE = 0 \<and> \<not> tp_pending_notify t' \<and> tp_tasks_error t' = tp_tasks_error t \<and>
    tp_error_code t' = tp_error_code t"
proof -
  let ?t = "t\<lparr>tp_pending_notify := False, tp_status := (tp_status t OR XPU_BUSY) AND NOT XPU_DONE\<rparr>"
  have "0 < unat (tp_cmd_queue_len t)" using assms(2) by (simp add: unat_gt_0)
  then have l: "[0..<unat (tp_cmd_queue_len t)] = 0 # [1..<unat (tp_cmd_queue_len t)]" by (simp add: upt_conv_Cons)
  have "tpu_command ?t 0 ms = Inl e" using assms(3) by (simp add: tpu_command_def)
  then have "Tpu_process_pending_descriptor_notify t ms = Some (Inl e, ?t, ms)"
    using assms(1) l by (simp add: Tpu_process_pending_descriptor_notify_def)
  then show ?thesis by (simp add: Tpu_is_busy_def xpu_bit_defs and_bitm bit_simps)
qed

theorem tpu_queue_fault_stays_busy_witness:
  "\<exists>t'. Tpu_process_pending_descriptor_notify (Tpu_new\<lparr>tp_pending_notify := True, tp_cmd_queue_len := 1\<rparr>) [] =
     Some (Inl (MemoryOutOfBounds 0 1), t', []) \<and> Tpu_is_busy t'"
proof -
  let ?t = "Tpu_new\<lparr>tp_pending_notify := True, tp_cmd_queue_len := 1\<rparr>"
  have "dma_read_u32 [] (tp_cmd_queue_addr ?t) = Inl (MemoryOutOfBounds 0 1)"
    by (simp add: dma_read_u32_def dma_read_u8_def dma_guest_addr_def Tpu_new_def Tpu_with_base_def)
  from tpu_queue_fault_stays_busy [OF _ _ this] show ?thesis by auto
qed

end
