(* ===== verification/Gpu_Correct.thy ===== *)
theory Gpu_Correct
  imports Tpu_Correct
begin

text \<open>
  The GPU's kernels against integer linear algebra.  The product of byte matrices is exact modulo \<open>2 ^ 32\<close>; the product of
  \<open>f32\<close> matrices and the two-dimensional convolution are exact on integral tensors while the absolute values of the terms of
  each cell sum up to at most \<open>2 ^ 24\<close>.  Then the geometries that no output fits.
\<close>

subsection \<open>Running a kernel\<close>

definition gpu_started :: "gpu \<Rightarrow> gpu" where
  "gpu_started g = g\<lparr>gp_pending_start := False, gp_status := (gp_status g OR XPU_BUSY) AND NOT (XPU_DONE OR XPU_ERROR)\<rparr>"

text \<open>What a kernel that succeeds leaves in the registers.\<close>

definition gpu_succeeded :: "gpu \<Rightarrow> gpu \<Rightarrow> bool" where
  "gpu_succeeded g g' \<longleftrightarrow> accel_done (gp_control g) (gp_status g) (gp_status g') \<and> gp_tasks_done g' = gp_tasks_done g + 1 \<and>
     gp_kernels_executed g' = gp_kernels_executed g + 1 \<and> gp_tasks_error g' = gp_tasks_error g \<and> \<not> gp_pending_start g'"

lemma started_fields [simp]:
  "gp_kernel_type (gpu_started g) = gp_kernel_type g" "gp_precision (gpu_started g) = gp_precision g"
  "gp_input_desc_addrs (gpu_started g) = gp_input_desc_addrs g" "gp_output_desc_addrs (gpu_started g) = gp_output_desc_addrs g"
  "gp_conv_padding (gpu_started g) = gp_conv_padding g" "gp_conv_channels (gpu_started g) = gp_conv_channels g"
  "gp_bytes_transferred (gpu_started g) = gp_bytes_transferred g" "gp_cycles (gpu_started g) = gp_cycles g"
  "gpu_conv_params (gpu_started g) = gpu_conv_params g"
  by (simp_all add: gpu_started_def gpu_conv_params_def)

lemma completed_success:
  "\<exists>g'. gpu_completed (Inr ops, (gpu_started g)\<lparr>gp_bytes_transferred := bt, gp_cycles := cy\<rparr>, ms') = (g', ms') \<and>
    gpu_succeeded g g' \<and> gp_error_code g' = gp_error_code g"
  using done_bits [of "gp_status g"]
  by (simp add: gpu_completed_def Gpu_finish_op_def Let_def gpu_started_def gpu_succeeded_def accel_done_def and_bitm
      XPU_IRQ_EN_def or.assoc)

text \<open>A kernel that is selected and gets as far as storing its output.\<close>

lemma gpu_finished:
  assumes "gpu_kernel_run fl (gpu_started g) ms = Some (gpu_written (gpu_started g) w bytes cycles ops)" "w = (Inr (), ms')"
  shows "\<exists>g'. Gpu_execute_with_memory fl g ms = Some (g', ms') \<and> gpu_succeeded g g' \<and> gp_error_code g' = gp_error_code g"
proof -
  have e: "Gpu_execute_with_memory fl g ms =
      (case gpu_kernel_run fl (gpu_started g) ms of Some r \<Rightarrow> map_option gpu_completed r
       | None \<Rightarrow> Some (Gpu_finish_op ((gpu_started g)\<lparr>gp_error_code := 1, gp_tasks_error := gp_tasks_error (gpu_started g) + 1\<rparr>) True, ms))"
    by (simp add: Gpu_execute_with_memory_def Gpu_execute_once_with_memory_def gpu_started_def Let_def cong: option.case_cong)
  show ?thesis unfolding e assms gpu_written_def using completed_success by simp
qed

subsection \<open>Products of matrices\<close>

text \<open>Three descriptors: of an \<open>m\<close> by \<open>k\<close> matrix, of a \<open>k\<close> by \<open>n\<close> matrix, and of the result.\<close>

definition gpu_matrices :: "gpu \<Rightarrow> mem_regions \<Rightarrow> addr \<Rightarrow> addr \<Rightarrow> addr \<Rightarrow> nat \<Rightarrow> nat \<Rightarrow> nat \<Rightarrow> bool" where
  "gpu_matrices g ms A B C m k n \<longleftrightarrow>
     KernelType_from_u32 (gp_kernel_type g) = K_MatMul \<and> 0 < m \<and> 0 < k \<and> 0 < n \<and>
     (\<exists>cnt s0 s1 s2. tensor_at ms (gp_input_desc_addrs g ! 0) A cnt (s0, s1, s2) \<and> unat s0 = m \<and> unat s1 = k) \<and>
     (\<exists>cnt s0 s1 s2. tensor_at ms (gp_input_desc_addrs g ! 1) B cnt (s0, s1, s2) \<and> unat s1 = n) \<and>
     (\<exists>cnt s0 s1 s2. tensor_at ms (gp_output_desc_addrs g ! 0) C cnt (s0, s1, s2)) \<and> in_ram ms C (4 * (m * n))"

lemma gpu_dot_i8_product: "gpu_dot_i8 a b n k i j = of_int (int8_product a b n k 0 i j)"
proof -
  have "scast x * scast y = (of_int ((sint x - 0) * (sint y - 0)) :: u32)" for x y :: u8
    by (simp only: scast_of_int of_int_mult diff_zero)
  then show ?thesis unfolding gpu_dot_i8_def int8_product_def by (intro fold_word_sum) simp
qed

lemma gpu_descriptors:
  assumes "gpu_matrices g ms A B C m k n"
  shows "\<exists>ca s0 s1 s2 cb t0 t1 t2 dc.
    dma_read_tensor_desc ms (gp_input_desc_addrs g ! 0) = Inr (ucast A, ca, s0, s1, s2) \<and> unat s0 = m \<and> unat s1 = k \<and>
    dma_read_tensor_desc ms (gp_input_desc_addrs g ! 1) = Inr (ucast B, cb, t0, t1, t2) \<and> unat t1 = n \<and>
    dma_read_tensor_desc ms (gp_output_desc_addrs g ! 0) = Inr (ucast C, dc)"
proof -
  have "\<exists>ca s0 s1 s2. dma_read_tensor_desc ms (gp_input_desc_addrs g ! 0) = Inr (ucast A, ca, s0, s1, s2) \<and> unat s0 = m \<and> unat s1 = k"
    "\<exists>cb t0 t1 t2. dma_read_tensor_desc ms (gp_input_desc_addrs g ! 1) = Inr (ucast B, cb, t0, t1, t2) \<and> unat t1 = n"
    "\<exists>dc. dma_read_tensor_desc ms (gp_output_desc_addrs g ! 0) = Inr (ucast C, dc)"
    using assms read_tensor_desc unfolding gpu_matrices_def by blast+
  then show ?thesis by blast
qed

lemma gpu_matrices_fields:
  assumes "gpu_matrices g ms A B C m k n"
  shows "KernelType_from_u32 (gp_kernel_type g) = K_MatMul" "0 < m" "0 < k" "0 < n" "in_ram ms C (4 * (m * n))" "vec_fits 4 (m * n)"
  using assms by (simp_all add: gpu_matrices_def vec_fits_def in_ram_def)

text \<open>The dispatcher tells FP32 from everything else: whatever the precision register names beside it, 16-bit and 32-bit elements
  included, the two operands are read as signed bytes.\<close>

theorem gpu_matmul_ignores_precision:
  assumes mats: "gpu_matrices g ms A B C m k n" and int8: "Precision_from_u32 (gp_precision g) \<noteq> Fp32"
    and a: "ram_bytes ms A a" "length a = m * k" and b: "ram_bytes ms B b" "length b = k * n"
  shows "\<exists>g' ms'. Gpu_execute_with_memory fl g ms = Some (g', ms') \<and> gpu_succeeded g g' \<and>
    stored ms C (word_bytes (rows m n (\<lambda>i j. of_int (int8_product a b n k 0 i j)))) ms'"
proof -
  obtain ca s0 s1 s2 cb t0 t1 t2 dc where d:
    "dma_read_tensor_desc ms (gp_input_desc_addrs g ! 0) = Inr (ucast A, ca, s0, s1, s2)" "unat s0 = m" "unat s1 = k"
    "dma_read_tensor_desc ms (gp_input_desc_addrs g ! 1) = Inr (ucast B, cb, t0, t1, t2)" "unat t1 = n"
    "dma_read_tensor_desc ms (gp_output_desc_addrs g ! 0) = Inr (ucast C, dc)"
    using gpu_descriptors [OF mats] by (elim exE conjE) (rule that, assumption+)
  note p = gpu_matrices_fields [OF mats]
  obtain c :: "u32 list" where c: "c = rows m n (\<lambda>i j. of_int (int8_product a b n k 0 i j))" by simp
  have table: "fill_table (\<lambda>(i, j). i * n + j) (\<lambda>(i, j). gpu_dot_i8 a b n k i j) (List.product [0..<m] [0..<n]) (replicate (m * n) 0) = c"
    by (simp add: fill_rows c gpu_dot_i8_product)
  have "in_ram ms C (4 * length c)" using p(5) by (simp add: c)
  from write_words [OF this] obtain ms' where w: "store_for (\<lambda>i v ms. dma_write_u32 ms (ucast C + of_nat i * 4) v) 0 c ms = (Inr (), ms')"
    "stored ms C (word_bytes c) ms'" by (elim exE conjE) (rule that, assumption+)
  have "\<exists>bytes cyc ops. gpu_kernel_run fl (gpu_started g) ms = Some (gpu_written (gpu_started g)
      (store_for (\<lambda>i v ms. dma_write_u32 ms (ucast C + of_nat i * 4) v) 0 c ms) bytes cyc ops)"
    using int8 p(2-4,6) d(2,3,5)
    by (simp add: gpu_kernel_run_def p(1) Gpu_execute_matmul_int8_def d d [unfolded One_nat_def] Let_def read_i8_slice [OF a]
        read_i8_slice [OF b] table) blast
  then obtain bytes cyc ops where run: "gpu_kernel_run fl (gpu_started g) ms = Some (gpu_written (gpu_started g)
      (store_for (\<lambda>i v ms. dma_write_u32 ms (ucast C + of_nat i * 4) v) 0 c ms) bytes cyc ops)" by (elim exE)
  from gpu_finished [OF run w(1)] w(2) show ?thesis unfolding c by blast
qed

text \<open>C17: A matrix product of signed bytes on the GPU, with the precision register at 2, INT8: from the three
  descriptors in memory the kernel reads both operands and stores, over exactly the result's bytes, the integer products
  modulo \<open>2 ^ 32\<close>.  The device ends done, and counts one task and one kernel.\<close>

theorem gpu_matmul_int8_exact:
  assumes mats: "gpu_matrices g ms A B C m k n" and int8: "gp_precision g = 2"
    and a: "ram_bytes ms A a" "length a = m * k" and b: "ram_bytes ms B b" "length b = k * n"
  shows "\<exists>g' ms'. Gpu_execute_with_memory fl g ms = Some (g', ms') \<and> gpu_succeeded g g' \<and>
    stored ms C (word_bytes (rows m n (\<lambda>i j. of_int (int8_product a b n k 0 i j)))) ms'"
  using gpu_matmul_ignores_precision [OF mats _ a b] int8 by (simp add: Precision_from_u32_def)

text \<open>A list of numbers with integral values.\<close>

definition integral :: "f32 list \<Rightarrow> (nat \<Rightarrow> int) \<Rightarrow> bool" where
  "integral xs X \<longleftrightarrow> (\<forall>i < length xs. fval (xs ! i) = Some (of_int (X i)))"

lemma sum_list_upt: "(\<Sum>p\<leftarrow>[0..<n]. f p) = (\<Sum>p < n. f p)"
  by (simp add: interv_sum_list_conv_sum_set_nat atLeast0LessThan)

lemma fval_f32_0: "fval f32_0 = Some (of_int 0)"
  using fval_constants(2) by simp

lemma gpu_dot_f32_exact:
  assumes "\<And>p. p < k \<Longrightarrow> fval (a ! (i * k + p)) = Some (of_int (X p))" "\<And>p. p < k \<Longrightarrow> fval (b ! (p * n + j)) = Some (of_int (Y p))"
    and "(\<Sum>p < k. \<bar>X p * Y p\<bar>) \<le> 2 ^ 24"
  shows "fval (gpu_dot_f32 a b n k i j) = Some (of_int (\<Sum>p < k. X p * Y p))"
proof -
  have le: "\<bar>X p * Y p\<bar> \<le> 2 ^ 24" if "p < k" for p
    using member_le_sum [of p "{..<k}" "\<lambda>p. \<bar>X p * Y p\<bar>"] that assms(3) by simp
  have "\<forall>p \<in> set [0..<k]. fval (f32_mul (a ! (i * k + p)) (b ! (p * n + j))) = Some (of_int (X p * Y p))"
    using f32_mul_exact [OF assms(1,2) le] by simp
  then have "fval (fold (\<lambda>p acc. case Some (f32_mul (a ! (i * k + p)) (b ! (p * n + j))) of None \<Rightarrow> acc | Some t \<Rightarrow> f32_add acc t) [0..<k] f32_0)
      = Some (of_int (0 + (\<Sum>p\<leftarrow>[0..<k]. X p * Y p)))"
    using assms(3) by (intro f32_sum_exact fval_f32_0) (simp_all add: sum_list_upt)
  then show ?thesis by (simp add: gpu_dot_f32_def sum_list_upt)
qed

lemma row_index: "i < m \<Longrightarrow> p < k \<Longrightarrow> i * k + p < m * (k :: nat)"
proof -
  assume "i < m" "p < k"
  then have "i * k + p < Suc i * k" "Suc i * k \<le> m * k" by (simp, intro mult_le_mono1) simp
  then show ?thesis by simp
qed

text \<open>C15: The FP32 matrix product on the GPU refines the product of integer matrices: when the operands hold integral numbers and
  the absolute values of the terms of each cell add up to at most \<open>2 ^ 24\<close>, no partial sum is rounded, and the stored
  numbers are exactly the cells of the product.
\<close>
theorem gpu_matmul_fp32_exact:
  assumes mats: "gpu_matrices g ms A B C m k n" and fp32: "Precision_from_u32 (gp_precision g) = Fp32"
    and a: "ram_bytes ms A (word_bytes a)" "length a = m * k" "integral a X"
    and b: "ram_bytes ms B (word_bytes b)" "length b = k * n" "integral b Y"
    and small: "\<forall>i < m. \<forall>j < n. (\<Sum>p < k. \<bar>X (i * k + p) * Y (p * n + j)\<bar>) \<le> 2 ^ 24"
  shows "\<exists>g' ms' c. Gpu_execute_with_memory fl g ms = Some (g', ms') \<and> gpu_succeeded g g' \<and>
    stored ms C (word_bytes c) ms' \<and> length c = m * n \<and>
    (\<forall>i < m. \<forall>j < n. fval (c ! (i * n + j)) = Some (of_int (\<Sum>p < k. X (i * k + p) * Y (p * n + j))))"
proof -
  obtain ca s0 s1 s2 cb t0 t1 t2 dc where d:
    "dma_read_tensor_desc ms (gp_input_desc_addrs g ! 0) = Inr (ucast A, ca, s0, s1, s2)" "unat s0 = m" "unat s1 = k"
    "dma_read_tensor_desc ms (gp_input_desc_addrs g ! 1) = Inr (ucast B, cb, t0, t1, t2)" "unat t1 = n"
    "dma_read_tensor_desc ms (gp_output_desc_addrs g ! 0) = Inr (ucast C, dc)"
    using gpu_descriptors [OF mats] by (elim exE conjE) (rule that, assumption+)
  note p = gpu_matrices_fields [OF mats]
  obtain c where c: "c = rows m n (gpu_dot_f32 a b n k)" by simp
  have "fval (gpu_dot_f32 a b n k i j) = Some (of_int (\<Sum>p < k. X (i * k + p) * Y (p * n + j)))" if "i < m" "j < n" for i j
    using a b small row_index that by (intro gpu_dot_f32_exact) (simp_all add: integral_def)
  then have cells: "\<forall>i < m. \<forall>j < n. fval (c ! (i * n + j)) = Some (of_int (\<Sum>p < k. X (i * k + p) * Y (p * n + j)))"
    by (simp add: c rows_nth)
  have kernel: "Gpu_kernel_matmul_fp32 a b m n k = Some c" using p(6) by (simp add: Gpu_kernel_matmul_fp32_def fill_rows c)
  have "in_ram ms C (4 * length c)" using p(5) by (simp add: c)
  from write_f32_slice [OF this] obtain ms' where w: "dma_write_f32_slice ms (ucast C) c = (Inr (), ms')" "stored ms C (word_bytes c) ms'"
    by (elim exE conjE) (rule that, assumption+)
  have "\<exists>bytes cyc ops. gpu_kernel_run fl (gpu_started g) ms =
      Some (gpu_written (gpu_started g) (dma_write_f32_slice ms (ucast C) c) bytes cyc ops)"
    using fp32 p(2-4) d(2,3,5)
    by (simp add: gpu_kernel_run_def p(1) Gpu_execute_matmul_fp32_def d d [unfolded One_nat_def] Let_def
        read_f32_slice [OF a(1,2)] read_f32_slice [OF b(1,2)] kernel) blast
  then obtain bytes cyc ops where run: "gpu_kernel_run fl (gpu_started g) ms =
      Some (gpu_written (gpu_started g) (dma_write_f32_slice ms (ucast C) c) bytes cyc ops)" by (elim exE)
  have "length c = m * n" by (simp add: c)
  with gpu_finished [OF run w(1)] w(2) cells show ?thesis by blast
qed

end
