(* ===== verification/Gpu_Conv.thy ===== *)
theory Gpu_Conv
  imports Gpu_Correct
begin

text \<open>
  Convolution and pooling.  The reference is the cross-correlation with a zero-padded image, over the integers; the kernel
  computes it exactly where the terms of each cell are small enough.  Kernels that do not fit the padded image have no
  output in the specification, and a panic or a silent success in the code.
\<close>

subsection \<open>The geometry of the output\<close>

lemma half_bounds: "hi_half w < 2 ^ 16" "lo_half w < 2 ^ 16"
proof -
  have m: "(0xFFFF :: u32) = mask 16" by (simp add: mask_eq_exp_minus_1)
  show "hi_half w < 2 ^ 16" "lo_half w < 2 ^ 16"
    unfolding hi_half_def lo_half_def m take_bit_eq_mask [symmetric]
    by (simp_all only: unsigned_take_bit_eq take_bit_nat_less_exp)
qed

definition conv_small :: "conv_params \<Rightarrow> bool" where
  "conv_small v \<longleftrightarrow> cv_kh v < 2 ^ 16 \<and> cv_kw v < 2 ^ 16 \<and> cv_stride_h v < 2 ^ 16 \<and> cv_stride_w v < 2 ^ 16 \<and>
     cv_pad_h v < 2 ^ 16 \<and> cv_pad_w v < 2 ^ 16 \<and> cv_in_h v < 2 ^ 16 \<and> cv_in_w v < 2 ^ 16"

lemma gpu_conv_small: "conv_small (gpu_conv_params g)"
  by (simp add: conv_small_def gpu_conv_params_def half_bounds [simplified])

text \<open>A kernel no larger than the padded image, and a stride.\<close>

definition conv_fits :: "conv_params \<Rightarrow> bool" where
  "conv_fits v \<longleftrightarrow> conv_small v \<and> 0 < cv_stride_h v \<and> 0 < cv_stride_w v \<and> 0 < cv_kh v \<and> 0 < cv_kw v \<and> 0 < cv_in_h v \<and> 0 < cv_in_w v \<and>
     cv_kh v \<le> cv_in_h v + 2 * cv_pad_h v \<and> cv_kw v \<le> cv_in_w v + 2 * cv_pad_w v"

lemma conv_extent_fits:
  assumes "k \<le> len + 2 * pad" "len < 2 ^ 16" "pad < 2 ^ 16"
  shows "conv_extent len pad k stride = (len + 2 * pad - k) div stride + 1"
proof -
  have "len + 2 * pad + (2 ^ 64 - k) = (len + 2 * pad - k) + 2 ^ 64" using assms by simp
  then have "(len + 2 * pad + (2 ^ 64 - k)) mod 2 ^ 64 = (len + 2 * pad - k) mod 2 ^ 64" by (simp only: mod_add_self2)
  also have "\<dots> = len + 2 * pad - k" using assms by simp
  finally have e: "(len + 2 * pad + (2 ^ 64 - k)) mod 2 ^ 64 = len + 2 * pad - k" .
  have "(len + 2 * pad - k) div stride \<le> len + 2 * pad - k" by (rule div_le_dividend)
  also have "\<dots> < 2 ^ 64 - 1" using assms by simp
  finally have "(len + 2 * pad - k) div stride + 1 < 2 ^ 64" by simp
  then show ?thesis unfolding conv_extent_def e by (rule mod_less)
qed

lemma conv_position:
  assumes "o' < (len + 2 * pad - k) div stride + 1" "f < k" "k \<le> len + 2 * pad" "len < 2 ^ 16" "pad < (2 ^ 16 :: nat)"
  shows "(o' * stride + f) mod 2 ^ 64 = o' * stride + f"
proof -
  have "o' * stride \<le> (len + 2 * pad - k) div stride * stride" using assms(1) by (intro mult_le_mono1) simp
  also have "\<dots> \<le> len + 2 * pad - k" by (rule div_times_less_eq_dividend)
  finally show ?thesis using assms by simp
qed

subsection \<open>Tensors\<close>

definition tensor3 :: "f32 list \<Rightarrow> nat \<Rightarrow> nat \<Rightarrow> nat \<Rightarrow> (nat \<Rightarrow> nat \<Rightarrow> nat \<Rightarrow> int) \<Rightarrow> bool" where
  "tensor3 xs C H W X \<longleftrightarrow> length xs = C * H * W \<and>
     (\<forall>c < C. \<forall>y < H. \<forall>x < W. fval (xs ! (c * H * W + y * W + x)) = Some (of_int (X c y x)))"

definition tensor4 :: "f32 list \<Rightarrow> nat \<Rightarrow> nat \<Rightarrow> nat \<Rightarrow> nat \<Rightarrow> (nat \<Rightarrow> nat \<Rightarrow> nat \<Rightarrow> nat \<Rightarrow> int) \<Rightarrow> bool" where
  "tensor4 ws O' C H W F \<longleftrightarrow> length ws = O' * C * H * W \<and>
     (\<forall>co < O'. \<forall>c < C. \<forall>y < H. \<forall>x < W. fval (ws ! (co * C * H * W + c * H * W + y * W + x)) = Some (of_int (F co c y x)))"

text \<open>The image padded with zeros, at a position counted from the corner of the padding, and one cell of the convolution.\<close>

definition padded :: "conv_params \<Rightarrow> (nat \<Rightarrow> nat \<Rightarrow> nat \<Rightarrow> int) \<Rightarrow> nat \<Rightarrow> nat \<Rightarrow> nat \<Rightarrow> int" where
  "padded v X c y x =
     (if cv_pad_h v \<le> y \<and> y < cv_in_h v + cv_pad_h v \<and> cv_pad_w v \<le> x \<and> x < cv_in_w v + cv_pad_w v
      then X c (y - cv_pad_h v) (x - cv_pad_w v) else 0)"

definition conv_term :: "conv_params \<Rightarrow> (nat \<Rightarrow> nat \<Rightarrow> nat \<Rightarrow> int) \<Rightarrow> (nat \<Rightarrow> nat \<Rightarrow> nat \<Rightarrow> nat \<Rightarrow> int) \<Rightarrow>
    nat \<Rightarrow> nat \<Rightarrow> nat \<Rightarrow> nat \<Rightarrow> nat \<Rightarrow> nat \<Rightarrow> int" where
  "conv_term v X F co oh ow ci fh fw = padded v X ci (oh * cv_stride_h v + fh) (ow * cv_stride_w v + fw) * F co ci fh fw"

definition conv_spec :: "conv_params \<Rightarrow> nat \<Rightarrow> (nat \<Rightarrow> nat \<Rightarrow> nat \<Rightarrow> int) \<Rightarrow> (nat \<Rightarrow> nat \<Rightarrow> nat \<Rightarrow> nat \<Rightarrow> int) \<Rightarrow> nat \<Rightarrow> nat \<Rightarrow> nat \<Rightarrow> int" where
  "conv_spec v c_in X F co oh ow = (\<Sum>ci < c_in. \<Sum>fh < cv_kh v. \<Sum>fw < cv_kw v. conv_term v X F co oh ow ci fh fw)"

definition conv_weight :: "conv_params \<Rightarrow> nat \<Rightarrow> (nat \<Rightarrow> nat \<Rightarrow> nat \<Rightarrow> int) \<Rightarrow> (nat \<Rightarrow> nat \<Rightarrow> nat \<Rightarrow> nat \<Rightarrow> int) \<Rightarrow> nat \<Rightarrow> nat \<Rightarrow> nat \<Rightarrow> int" where
  "conv_weight v c_in X F co oh ow = (\<Sum>ci < c_in. \<Sum>fh < cv_kh v. \<Sum>fw < cv_kw v. \<bar>conv_term v X F co oh ow ci fh fw\<bar>)"

lemma sum_list_product: "(\<Sum>z\<leftarrow>List.product xs ys. f z) = (\<Sum>x\<leftarrow>xs. \<Sum>y\<leftarrow>ys. f (x, y))"
  by (induction xs) (simp_all add: comp_def)

lemma sum_product3:
  "(\<Sum>z\<leftarrow>List.product [0..<a] (List.product [0..<b] [0..<c]). f z) = (\<Sum>i < a. \<Sum>j < b. \<Sum>k < c. f (i, j, k))"
  by (simp only: sum_list_product sum_list_upt)

lemma conv_tap_exact:
  assumes "tensor3 input C (cv_in_h v) (cv_in_w v) X" "ci < C" "conv_fits v" "oh < cv_out_h v" "ow < cv_out_w v" "fh < cv_kh v" "fw < cv_kw v"
  shows "case conv_tap v input ci oh ow fh fw of
      None \<Rightarrow> padded v X ci (oh * cv_stride_h v + fh) (ow * cv_stride_w v + fw) = 0
    | Some t \<Rightarrow> fval t = Some (of_int (padded v X ci (oh * cv_stride_h v + fh) (ow * cv_stride_w v + fw)))"
proof -
  have s: "cv_in_h v < 2 ^ 16" "cv_pad_h v < 2 ^ 16" "cv_in_w v < 2 ^ 16" "cv_pad_w v < 2 ^ 16"
    "cv_kh v \<le> cv_in_h v + 2 * cv_pad_h v" "cv_kw v \<le> cv_in_w v + 2 * cv_pad_w v"
    using assms(3) by (simp_all add: conv_fits_def conv_small_def)
  have o': "oh < (cv_in_h v + 2 * cv_pad_h v - cv_kh v) div cv_stride_h v + 1" "ow < (cv_in_w v + 2 * cv_pad_w v - cv_kw v) div cv_stride_w v + 1"
    using assms(4,5) s by (simp_all add: cv_out_h_def cv_out_w_def conv_extent_fits)
  have h: "(oh * cv_stride_h v + fh) mod 2 ^ 64 = oh * cv_stride_h v + fh" by (rule conv_position [OF o'(1) assms(6) s(5,1,2)])
  have w: "(ow * cv_stride_w v + fw) mod 2 ^ 64 = ow * cv_stride_w v + fw" by (rule conv_position [OF o'(2) assms(7) s(6,3,4)])
  let ?y = "oh * cv_stride_h v + fh" and ?x = "ow * cv_stride_w v + fw"
  show ?thesis
  proof (cases "?y \<ge> cv_pad_h v \<and> ?x \<ge> cv_pad_w v \<and> ?y < cv_in_h v + cv_pad_h v \<and> ?x < cv_in_w v + cv_pad_w v")
    case True
    then have p: "cv_pad_h v \<le> ?y \<and> ?y < cv_in_h v + cv_pad_h v \<and> cv_pad_w v \<le> ?x \<and> ?x < cv_in_w v + cv_pad_w v" by simp
    then have "?y - cv_pad_h v < cv_in_h v" "?x - cv_pad_w v < cv_in_w v" by auto
    then have "fval (input ! (ci * cv_in_h v * cv_in_w v + (?y - cv_pad_h v) * cv_in_w v + (?x - cv_pad_w v)))
        = Some (of_int (X ci (?y - cv_pad_h v) (?x - cv_pad_w v)))" using assms(1,2) unfolding tensor3_def by blast
    then show ?thesis unfolding conv_tap_def h w Let_def padded_def if_P [OF True] if_P [OF p] by (simp only: option.case)
  next
    case False
    then have p: "\<not> (cv_pad_h v \<le> ?y \<and> ?y < cv_in_h v + cv_pad_h v \<and> cv_pad_w v \<le> ?x \<and> ?x < cv_in_w v + cv_pad_w v)" by auto
    show ?thesis unfolding conv_tap_def h w Let_def padded_def if_not_P [OF False] if_not_P [OF p] by simp
  qed
qed

lemma conv_term_bound:
  assumes "conv_weight v c_in X F co oh ow \<le> 2 ^ 24" "ci < c_in" "fh < cv_kh v" "fw < cv_kw v"
  shows "\<bar>conv_term v X F co oh ow ci fh fw\<bar> \<le> 2 ^ 24"
proof -
  let ?t = "\<lambda>ci fh fw. \<bar>conv_term v X F co oh ow ci fh fw\<bar>"
  have "?t ci fh fw \<le> (\<Sum>fw < cv_kw v. ?t ci fh fw)" using assms(4) by (intro member_le_sum) auto
  also have "\<dots> \<le> (\<Sum>fh < cv_kh v. \<Sum>fw < cv_kw v. ?t ci fh fw)"
    using assms(3) by (intro member_le_sum [of fh _ "\<lambda>fh. \<Sum>fw < cv_kw v. ?t ci fh fw"]) (auto intro: sum_nonneg)
  also have "\<dots> \<le> conv_weight v c_in X F co oh ow"
    unfolding conv_weight_def using assms(2)
    by (intro member_le_sum [of ci _ "\<lambda>ci. \<Sum>fh < cv_kh v. \<Sum>fw < cv_kw v. ?t ci fh fw"]) (auto intro!: sum_nonneg)
  finally show ?thesis using assms(1) by simp
qed

lemma conv_cell_exact:
  assumes x: "tensor3 input c_in (cv_in_h v) (cv_in_w v) X" and f: "tensor4 weights c_out c_in (cv_kh v) (cv_kw v) F"
    and fits: "conv_fits v" and o': "co < c_out" "oh < cv_out_h v" "ow < cv_out_w v"
    and small: "conv_weight v c_in X F co oh ow \<le> 2 ^ 24"
  shows "fval (conv_cell v input weights c_in co oh ow) = Some (of_int (conv_spec v c_in X F co oh ow))"
proof -
  let ?w = "\<lambda>ci fh fw. weights ! (co * c_in * cv_kh v * cv_kw v + ci * cv_kh v * cv_kw v + fh * cv_kw v + fw)"
  let ?g = "\<lambda>(ci, fh, fw). map_option (\<lambda>t. f32_mul t (?w ci fh fw)) (conv_tap v input ci oh ow fh fw)"
  let ?v = "\<lambda>(ci, fh, fw). conv_term v X F co oh ow ci fh fw"
  let ?xs = "List.product [0..<c_in] (List.product [0..<cv_kh v] [0..<cv_kw v])"
  have "case ?g z of None \<Rightarrow> ?v z = 0 | Some t \<Rightarrow> fval t = Some (of_int (?v z))" if z: "z \<in> set ?xs" for z
  proof -
    obtain ci fh fw where e: "z = (ci, fh, fw)" "ci < c_in" "fh < cv_kh v" "fw < cv_kw v" using z by auto
    have tap: "case conv_tap v input ci oh ow fh fw of
        None \<Rightarrow> padded v X ci (oh * cv_stride_h v + fh) (ow * cv_stride_w v + fw) = 0
      | Some t \<Rightarrow> fval t = Some (of_int (padded v X ci (oh * cv_stride_h v + fh) (ow * cv_stride_w v + fw)))"
      by (rule conv_tap_exact [OF x e(2) fits o'(2,3) e(3,4)])
    have wt: "fval (?w ci fh fw) = Some (of_int (F co ci fh fw))" using f o'(1) e by (simp add: tensor4_def)
    have b: "\<bar>padded v X ci (oh * cv_stride_h v + fh) (ow * cv_stride_w v + fw) * F co ci fh fw\<bar> \<le> 2 ^ 24"
      using conv_term_bound [OF small e(2-4)] by (simp only: conv_term_def)
    show ?thesis
    proof (cases "conv_tap v input ci oh ow fh fw")
      case None
      then show ?thesis using tap by (simp add: e(1) conv_term_def)
    next
      case (Some t)
      then have "fval t = Some (of_int (padded v X ci (oh * cv_stride_h v + fh) (ow * cv_stride_w v + fw)))" using tap by simp
      from f32_mul_exact [OF this wt b] show ?thesis using Some by (simp add: e(1) conv_term_def)
    qed
  qed
  then have g: "\<forall>z \<in> set ?xs. case ?g z of None \<Rightarrow> ?v z = 0 | Some t \<Rightarrow> fval t = Some (of_int (?v z))" by blast
  have w: "\<bar>0 :: int\<bar> + (\<Sum>z\<leftarrow>?xs. \<bar>?v z\<bar>) \<le> 2 ^ 24"
    using small by (simp add: sum_product3 conv_weight_def)
  have "conv_cell v input weights c_in co oh ow = fold (\<lambda>z acc. case ?g z of None \<Rightarrow> acc | Some t \<Rightarrow> f32_add acc t) ?xs f32_0"
    unfolding conv_cell_def Let_def by (intro fold_cong) (auto split: option.splits)
  then show ?thesis using f32_sum_exact [OF g fval_f32_0 w] by (simp add: sum_product3 conv_spec_def)
qed

subsection \<open>The table of the output\<close>

lemma digits_unique:
  fixes W :: nat
  assumes "a * W + x = b * W + y" "x < W" "y < W"
  shows "a = b \<and> x = y"
proof -
  have "(a * W + x) div W = (b * W + y) div W" "(a * W + x) mod W = (b * W + y) mod W" using assms(1) by simp_all
  then show ?thesis using assms(2,3) by simp
qed

lemma fill_output_cells:
  assumes "vec_fits 4 (n * cv_out_h v * cv_out_w v)"
  shows "\<exists>out. fill_output v n z f = Some out \<and> length out = n * cv_out_h v * cv_out_w v \<and>
    (\<forall>c < n. \<forall>oh < cv_out_h v. \<forall>ow < cv_out_w v. out ! (c * cv_out_h v * cv_out_w v + oh * cv_out_w v + ow) = f c oh ow)"
proof -
  let ?H = "cv_out_h v" and ?W = "cv_out_w v"
  let ?ix = "\<lambda>(c, oh, ow). c * ?H * ?W + oh * ?W + ow"
  let ?xs = "List.product [0..<n] (List.product [0..<?H] [0..<?W])"
  have split: "c * ?H * ?W + h * ?W + w = (c * ?H + h) * ?W + w" for c h w by (simp add: algebra_simps)
  have inj: "inj_on ?ix (set ?xs)"
  proof (rule inj_onI)
    fix p q assume "p \<in> set ?xs" "q \<in> set ?xs" and eq: "?ix p = ?ix q"
    then obtain c h w c' h' w' where e: "p = (c, h, w)" "q = (c', h', w')" "h < ?H" "w < ?W" "h' < ?H" "w' < ?W" by auto
    have "(c * ?H + h) * ?W + w = (c' * ?H + h') * ?W + w'" using eq unfolding e(1,2) prod.case split .
    then have "c * ?H + h = c' * ?H + h' \<and> w = w'" using e(4,6) by (rule digits_unique)
    then show "p = q" using digits_unique [of c ?H h c' h'] e by simp
  qed
  have "(fill_table ?ix (\<lambda>(c, oh, ow). f c oh ow) ?xs (replicate (n * ?H * ?W) z)) ! ?ix (c, oh, ow) = f c oh ow"
    if "c < n" "oh < ?H" "ow < ?W" for c oh ow
  proof -
    have "c * ?H + oh < n * ?H" using that by (intro row_index)
    then have "(c * ?H + oh) * ?W + ow < n * ?H * ?W" using that by (intro row_index)
    then have "?ix (c, oh, ow) < length (replicate (n * ?H * ?W) z)" by (simp only: split prod.case length_replicate)
    from fill_table_nth [OF inj _ _ this, of "\<lambda>(c, oh, ow). f c oh ow"] show ?thesis using that by (simp add: distinct_product)
  qed
  then show ?thesis using assms by (simp add: fill_output_def)
qed

subsection \<open>The convolution in memory\<close>

text \<open>Descriptors of the image at \<open>I\<close>, of the weights at \<open>F\<close> and of the output at \<open>O'\<close>, with room for it.\<close>

definition gpu_images :: "gpu \<Rightarrow> mem_regions \<Rightarrow> addr \<Rightarrow> addr \<Rightarrow> addr \<Rightarrow> bool" where
  "gpu_images g ms I F O' \<longleftrightarrow>
     (\<exists>cnt sh. tensor_at ms (gp_input_desc_addrs g ! 0) I cnt sh) \<and> (\<exists>cnt sh. tensor_at ms (gp_input_desc_addrs g ! 1) F cnt sh) \<and>
     (\<exists>cnt sh. tensor_at ms (gp_output_desc_addrs g ! 0) O' cnt sh) \<and>
     in_ram ms O' (4 * (lo_half (gp_conv_channels g) * cv_out_h (gpu_conv_params g) * cv_out_w (gpu_conv_params g)))"

lemma gpu_images_read:
  assumes "gpu_images g ms I F O'"
  shows "\<exists>x y z. dma_read_tensor_desc ms (gp_input_desc_addrs g ! 0) = Inr (ucast I, x) \<and>
    dma_read_tensor_desc ms (gp_input_desc_addrs g ! 1) = Inr (ucast F, y) \<and>
    dma_read_tensor_desc ms (gp_output_desc_addrs g ! 0) = Inr (ucast O', z)"
proof -
  have r: "\<exists>z. dma_read_tensor_desc ms d = Inr (ucast a, z)" if "\<exists>cnt sh. tensor_at ms d a cnt sh" for d a
  proof -
    obtain cnt sh where t: "tensor_at ms d a cnt sh" using \<open>\<exists>cnt sh. tensor_at ms d a cnt sh\<close> by (elim exE)
    obtain s0 s1 s2 where "sh = (s0, s1, s2)" by (cases sh)
    then show ?thesis using read_tensor_desc t by blast
  qed
  have "\<exists>x. dma_read_tensor_desc ms (gp_input_desc_addrs g ! 0) = Inr (ucast I, x)"
    "\<exists>y. dma_read_tensor_desc ms (gp_input_desc_addrs g ! 1) = Inr (ucast F, y)"
    "\<exists>z. dma_read_tensor_desc ms (gp_output_desc_addrs g ! 0) = Inr (ucast O', z)"
    using assms by (intro r; simp add: gpu_images_def)+
  then show ?thesis by blast
qed

text \<open>C14: The convolution on the GPU refines its mathematical definition: for a kernel that fits the padded image, integral image
  and weights, and terms of a cell that add up to at most \<open>2 ^ 24\<close> in size, the kernel stores at the output descriptor the
  tensor whose cell \<open>(co, oh, ow)\<close> is the sum, over input channels and kernel positions, of the zero-padded image at
  the strided position times the weight.
\<close>
theorem gpu_conv2d_exact:
  assumes kernel: "KernelType_from_u32 (gp_kernel_type g) = K_Conv2d" and v: "v = gpu_conv_params g" "conv_fits v"
    and ch: "c_in = hi_half (gp_conv_channels g)" "c_out = lo_half (gp_conv_channels g)" "0 < c_in" "0 < c_out"
    and imgs: "gpu_images g ms I W O'"
    and x: "ram_bytes ms I (word_bytes input)" "tensor3 input c_in (cv_in_h v) (cv_in_w v) X"
    and f: "ram_bytes ms W (word_bytes weights)" "tensor4 weights c_out c_in (cv_kh v) (cv_kw v) F"
    and small: "\<forall>co < c_out. \<forall>oh < cv_out_h v. \<forall>ow < cv_out_w v. conv_weight v c_in X F co oh ow \<le> 2 ^ 24"
  shows "\<exists>g' ms' out. Gpu_execute_with_memory fl g ms = Some (g', ms') \<and> gpu_succeeded g g' \<and> stored ms O' (word_bytes out) ms' \<and>
    tensor3 out c_out (cv_out_h v) (cv_out_w v) (conv_spec v c_in X F)"
proof -
  obtain dx dy dz where d: "dma_read_tensor_desc ms (gp_input_desc_addrs g ! 0) = Inr (ucast I, dx)"
    "dma_read_tensor_desc ms (gp_input_desc_addrs g ! 1) = Inr (ucast W, dy)"
    "dma_read_tensor_desc ms (gp_output_desc_addrs g ! 0) = Inr (ucast O', dz)"
    using gpu_images_read [OF imgs] by (elim exE conjE) (rule that, assumption+)
  have room: "in_ram ms O' (4 * (c_out * cv_out_h v * cv_out_w v))" using imgs by (simp add: gpu_images_def v(1) ch(2))
  then have "vec_fits 4 (c_out * cv_out_h v * cv_out_w v)" by (simp add: vec_fits_def in_ram_def)
  from fill_output_cells [OF this, of f32_0 "conv_cell v input weights c_in", folded Gpu_kernel_conv2d_fp32_def] obtain out where
    o': "Gpu_kernel_conv2d_fp32 input weights c_in c_out v = Some out" "length out = c_out * cv_out_h v * cv_out_w v"
      "\<forall>c < c_out. \<forall>oh < cv_out_h v. \<forall>ow < cv_out_w v.
        out ! (c * cv_out_h v * cv_out_w v + oh * cv_out_w v + ow) = conv_cell v input weights c_in c oh ow"
    by (elim exE conjE) (rule that, assumption+)
  have t: "tensor3 out c_out (cv_out_h v) (cv_out_w v) (conv_spec v c_in X F)"
    using o'(2,3) conv_cell_exact [OF x(2) f(2) v(2)] small by (simp add: tensor3_def)
  have "in_ram ms O' (4 * length out)" using room by (simp only: o'(2))
  from write_f32_slice [OF this] obtain ms' where w: "dma_write_f32_slice ms (ucast O') out = (Inr (), ms')" "stored ms O' (word_bytes out) ms'"
    by (elim exE conjE) (rule that, assumption+)
  have nd: "\<not> conv_degenerate v" using v(2) by (simp add: conv_fits_def conv_degenerate_def)
  have len: "length input = c_in * cv_in_h v * cv_in_w v" "length weights = c_out * c_in * cv_kh v * cv_kw v"
    using x(2) f(2) by (simp_all add: tensor3_def tensor4_def)
  have "\<exists>bytes cyc ops. gpu_kernel_run fl (gpu_started g) ms =
      Some (gpu_written (gpu_started g) (dma_write_f32_slice ms (ucast O') out) bytes cyc ops)"
    using nd ch(3,4)
    by (simp add: gpu_kernel_run_def kernel Gpu_execute_conv2d_fp32_def d d [unfolded One_nat_def] Let_def v(1) [symmetric] ch(1,2) [symmetric]
        read_f32_slice [OF x(1) len(1)] read_f32_slice [OF f(1) len(2)] o'(1)) blast
  then obtain bytes cyc ops where run: "gpu_kernel_run fl (gpu_started g) ms =
      Some (gpu_written (gpu_started g) (dma_write_f32_slice ms (ucast O') out) bytes cyc ops)" by (elim exE)
  from gpu_finished [OF run w(1)] w(2) t show ?thesis by blast
qed

subsection \<open>Kernels that do not fit\<close>

lemma product_empty: "List.product xs [] = []"
  by (induction xs) simp_all

lemma conv_extent_oversized:
  assumes "0 < d" "d < 2 ^ 64" "len + 2 * pad + d \<le> 2 ^ 64"
  shows "conv_extent len pad (len + 2 * pad + d) 1 = (if d = 1 then 0 else 2 ^ 64 - d + 1)"
proof -
  have "len + 2 * pad + (2 ^ 64 - (len + 2 * pad + d)) = 2 ^ 64 - d" using assms by simp
  moreover have "(2 ^ 64 - d) mod 2 ^ 64 = 2 ^ 64 - d" using assms by (intro mod_less) simp
  ultimately show ?thesis using assms unfolding conv_extent_def by (simp add: Suc_diff_Suc)
qed

text \<open>C38: With unit stride, for the convolution and both poolings: a kernel one row taller than the padded image gives an empty
  output, which is a success, and one taller by two rows or more asks for a table of nearly \<open>2 ^ 64\<close> rows, which is a panic.
\<close>

theorem gpu_oversized_kernel:
  assumes "conv_small v" "cv_stride_h v = 1" "cv_kh v = cv_in_h v + 2 * cv_pad_h v + d" "0 < d"
    and "0 < n" "cv_kw v \<le> cv_in_w v + 2 * cv_pad_w v"
  shows "Gpu_kernel_conv2d_fp32 input weights c_in n v = (if d = 1 then Some [] else None) \<and>
    Gpu_kernel_pool2d_max_fp32 input n v = (if d = 1 then Some [] else None) \<and>
    Gpu_kernel_pool2d_avg_fp32 input n v = (if d = 1 then Some [] else None)"
proof -
  have s: "cv_kh v < 2 ^ 16" "cv_in_w v < 2 ^ 16" "cv_pad_w v < 2 ^ 16" using assms(1) by (simp_all add: conv_small_def)
  have "cv_out_w v = (cv_in_w v + 2 * cv_pad_w v - cv_kw v) div cv_stride_w v + 1"
    unfolding cv_out_w_def by (rule conv_extent_fits [OF assms(6) s(2,3)])
  then have w: "1 \<le> cv_out_w v" by simp
  have "conv_extent (cv_in_h v) (cv_pad_h v) (cv_in_h v + 2 * cv_pad_h v + d) 1 = (if d = 1 then 0 else 2 ^ 64 - d + 1)"
    using assms(3,4) s(1) by (intro conv_extent_oversized) simp_all
  then have h: "cv_out_h v = (if d = 1 then 0 else 2 ^ 64 - d + 1)" by (simp only: cv_out_h_def assms(2,3))
  have "fill_output v n z f = (if d = 1 then Some [] else None)" for z f
  proof (cases "d = 1")
    case True
    then show ?thesis using h by (simp add: fill_output_def vec_fits_def product_empty)
  next
    case False
    have "2 ^ 63 \<le> cv_out_h v" using h False assms(3) s(1) by simp
    also have "\<dots> \<le> n * cv_out_h v * cv_out_w v" using assms(5) w by simp
    finally show ?thesis using False by (simp add: fill_output_def vec_fits_def)
  qed
  then show ?thesis
    by (simp add: Gpu_kernel_conv2d_fp32_def Gpu_kernel_pool2d_max_fp32_def Gpu_kernel_pool2d_avg_fp32_def)
qed

text \<open>A degenerate geometry sets the error code, and yet the operation counts as done, without the error bit.\<close>

theorem gpu_bad_geometry_counts_done:
  assumes "KernelType_from_u32 (gp_kernel_type g) \<in> {K_Conv2d, K_Pool2dMax, K_Pool2dAvg}" "conv_degenerate (gpu_conv_params g)"
  shows "\<exists>g'. Gpu_execute_with_memory fl g ms = Some (g', ms) \<and> gpu_succeeded g g' \<and> gp_error_code g' = 3"
proof -
  have "gpu_kernel_run fl (gpu_started g) ms = Some (Some (Inr 0, (gpu_started g)\<lparr>gp_error_code := 3\<rparr>, ms))"
    using assms by (auto simp: gpu_kernel_run_def Gpu_execute_conv2d_fp32_def Gpu_execute_pool2d_fp32_def Let_def)
  then show ?thesis
    using done_bits [of "gp_status g"]
    by (simp add: Gpu_execute_with_memory_def Gpu_execute_once_with_memory_def gpu_completed_def Gpu_finish_op_def Let_def
        gpu_started_def gpu_succeeded_def accel_done_def and_bitm XPU_IRQ_EN_def or.assoc)
qed

end
