(* ===== verification/Gpu_Demo.thy ===== *)
theory Gpu_Demo
  imports Gpu_Conv
begin

text \<open>Concrete runs of the GPU's kernels: three descriptors at the start of RAM, then the operands and room for the result.\<close>

definition demo_gpu_mem :: "u32 list \<Rightarrow> u32 list \<Rightarrow> u32 list \<Rightarrow> u8 list \<Rightarrow> u8 list \<Rightarrow> nat \<Rightarrow> mem_regions" where
  "demo_gpu_mem da db dc a b n = mem_of (word_bytes da @ word_bytes db @ word_bytes dc @ a @ b @ replicate n 0)"

lemma demo_layout:
  assumes "length da = 5" "length db = 5" "length dc = 5" "length a + length b + n < 1000"
  shows "ram_bytes (demo_gpu_mem da db dc a b n) 0x80000000 (word_bytes da)"
    "ram_bytes (demo_gpu_mem da db dc a b n) 0x80000014 (word_bytes db)"
    "ram_bytes (demo_gpu_mem da db dc a b n) 0x80000028 (word_bytes dc)"
    "ram_bytes (demo_gpu_mem da db dc a b n) 0x8000003C a"
    "ram_bytes (demo_gpu_mem da db dc a b n) (0x8000003C + of_nat (length a)) b"
    "in_ram (demo_gpu_mem da db dc a b n) (0x8000003C + of_nat (length a + length b)) n"
proof -
  note mb = mem_of_bytes [where bytes = "word_bytes da @ word_bytes db @ word_bytes dc @ a @ b @ replicate n 0", folded demo_gpu_mem_def]
  show "ram_bytes (demo_gpu_mem da db dc a b n) 0x80000000 (word_bytes da)" by (rule mb [where k = 0]) (use assms in simp_all)
  show "ram_bytes (demo_gpu_mem da db dc a b n) 0x80000014 (word_bytes db)" by (rule mb [where k = 20]) (use assms in simp_all)
  show "ram_bytes (demo_gpu_mem da db dc a b n) 0x80000028 (word_bytes dc)" by (rule mb [where k = 40]) (use assms in simp_all)
  show "ram_bytes (demo_gpu_mem da db dc a b n) 0x8000003C a" by (rule mb [where k = 60]) (use assms in simp_all)
  show "ram_bytes (demo_gpu_mem da db dc a b n) (0x8000003C + of_nat (length a)) b"
    by (rule mb [where k = "60 + length a"]) (use assms in simp_all)
  have "ram_bytes (demo_gpu_mem da db dc a b n) (0x8000003C + of_nat (length a + length b)) (replicate n 0)"
    by (rule mb [where k = "60 + length a + length b"]) (use assms in simp_all)
  from ram_bytes_in_ram [OF this] show "in_ram (demo_gpu_mem da db dc a b n) (0x8000003C + of_nat (length a + length b)) n" by simp
qed

text \<open>A library for these runs, whose kernels call neither function: the tangents of \<open>exp\<close> and \<open>tanh\<close> at zero.\<close>

definition demo_lib :: f32_lib where
  "demo_lib = \<lparr>fl_exp = f32_add f32_1, fl_tanh = id, fl_first_zero = False, fl_sum_start = f32_0\<rparr>"

definition demo_gpu :: gpu where
  "demo_gpu = Gpu_new\<lparr>gp_input_desc_addrs := [0x80000000, 0x80000014, 0], gp_output_desc_addrs := [0x80000028, 0]\<rparr>"

lemma demo_tensors:
  assumes "length db = 5" "length dc = 5" "length a + length b + n < 1000"
  shows "tensor_at (demo_gpu_mem [x, cnt, s0, s1, s2] db dc a b n) 0x80000000 x cnt (s0, s1, s2)"
  using demo_layout(1) [of "[x, cnt, s0, s1, s2]", OF _ assms] unfolding tensor_at_def by (intro exI [of _ "0x80000000"]) simp

lemma demo_tensors':
  assumes "length da = 5" "length dc = 5" "length a + length b + n < 1000"
  shows "tensor_at (demo_gpu_mem da [x, cnt, s0, s1, s2] dc a b n) 0x80000014 x cnt (s0, s1, s2)"
  using demo_layout(2) [of da "[x, cnt, s0, s1, s2]" dc a b n] assms unfolding tensor_at_def
  by (intro exI [of _ "0x80000014"]) simp

lemma demo_tensors'':
  assumes "length da = 5" "length db = 5" "length a + length b + n < 1000"
  shows "tensor_at (demo_gpu_mem da db [x, cnt, s0, s1, s2] a b n) 0x80000028 x cnt (s0, s1, s2)"
  using demo_layout(3) [of da db "[x, cnt, s0, s1, s2]" a b n] assms unfolding tensor_at_def
  by (intro exI [of _ "0x80000028"]) simp

lemma demo_gpu_fields:
  "gp_kernel_type demo_gpu = 0" "gp_input_desc_addrs demo_gpu ! 0 = 0x80000000" "gp_input_desc_addrs demo_gpu ! 1 = 0x80000014"
  "gp_output_desc_addrs demo_gpu ! 0 = 0x80000028" "gp_precision demo_gpu = 1" "gp_status demo_gpu = 0" "gp_control demo_gpu = 0"
  by (simp_all add: demo_gpu_def Gpu_new_def Gpu_with_base_def XPU_IDLE_def)

lemma demo_done: "gp_status g = 0 \<Longrightarrow> gp_control g = 0 \<Longrightarrow> gpu_succeeded g g' \<Longrightarrow> gp_status g' = XPU_DONE"
  by (simp add: gpu_succeeded_def accel_done_def)

subsection \<open>Bytes\<close>

theorem gpu_matmul_int8_exact_witness:
  "\<exists>g' ms'. Gpu_execute_with_memory demo_lib (demo_gpu\<lparr>gp_precision := 2\<rparr>)
      (demo_gpu_mem [0x8000003C, 4, 2, 2, 0] [0x80000040, 4, 2, 2, 0] [0x80000044, 4, 2, 2, 0] [1, 2, 3, 0xFC] [5, 6, 7, 8] 16) =
      Some (g', ms') \<and> ram_bytes ms' 0x80000044 (word_bytes [19, 22, - 13, - 14]) \<and> gp_status g' = XPU_DONE"
proof -
  let ?da = "[0x8000003C, 4, 2, 2, 0] :: u32 list" and ?db = "[0x80000040, 4, 2, 2, 0] :: u32 list"
  let ?dc = "[0x80000044, 4, 2, 2, 0] :: u32 list" and ?a = "[1, 2, 3, 0xFC] :: u8 list" and ?b = "[5, 6, 7, 8] :: u8 list"
  let ?ms = "demo_gpu_mem ?da ?db ?dc ?a ?b 16" and ?g = "demo_gpu\<lparr>gp_precision := 2\<rparr>"
  note l = demo_layout [of ?da ?db ?dc ?a ?b 16]
  have t: "tensor_at ?ms 0x80000000 0x8000003C 4 (2, 2, 0)" "tensor_at ?ms 0x80000014 0x80000040 4 (2, 2, 0)"
    "tensor_at ?ms 0x80000028 0x80000044 4 (2, 2, 0)" by (rule demo_tensors demo_tensors' demo_tensors''; simp)+
  have "gpu_matrices ?g ?ms 0x8000003C 0x80000040 0x80000044 2 2 2"
    unfolding gpu_matrices_def
  proof (intro conjI)
    show "\<exists>cnt s0 s1 s2. tensor_at ?ms (gp_input_desc_addrs ?g ! 0) 0x8000003C cnt (s0, s1, s2) \<and> unat s0 = 2 \<and> unat s1 = 2"
      using t(1) by (intro exI [of _ 4] exI [of _ 2] exI [of _ 2] exI [of _ 0]) (simp add: demo_gpu_fields)
    show "\<exists>cnt s0 s1 s2. tensor_at ?ms (gp_input_desc_addrs ?g ! 1) 0x80000040 cnt (s0, s1, s2) \<and> unat s1 = 2"
      using t(2) demo_gpu_fields(3) by (intro exI [of _ 4] exI [of _ 2] exI [of _ 2] exI [of _ 0]) simp
    show "\<exists>cnt s0 s1 s2. tensor_at ?ms (gp_output_desc_addrs ?g ! 0) 0x80000044 cnt (s0, s1, s2)"
      using t(3) by (intro exI [of _ 4] exI [of _ 2] exI [of _ 2] exI [of _ 0]) (simp add: demo_gpu_fields)
    show "in_ram ?ms 0x80000044 (4 * (2 * 2))" using l(6) by simp
  qed (simp_all add: demo_gpu_fields KernelType_from_u32_def)
  moreover have "gp_precision ?g = 2" by simp
  moreover have "ram_bytes ?ms 0x8000003C ?a" "length ?a = 2 * 2" using l(4) by simp_all
  moreover have "ram_bytes ?ms 0x80000040 ?b" "length ?b = 2 * 2" using l(5) by simp_all
  moreover have r: "rows 2 2 (\<lambda>i j. of_int (int8_product ?a ?b 2 2 0 i j)) = [19, 22, - 13, - 14 :: u32]"
    by (simp add: rows_def upt_conv_Cons demo_product demo_product [unfolded One_nat_def])
  moreover have "gp_status ?g = 0" "gp_control ?g = 0" by (simp_all add: demo_gpu_fields)
  ultimately show ?thesis
    using gpu_matmul_int8_exact [of ?g ?ms "0x8000003C" "0x80000040" "0x80000044" 2 2 2 ?a ?b demo_lib] demo_done [of ?g]
    unfolding r stored_def by blast
qed

subsection \<open>Integral numbers\<close>

lemma demo_numbers:
  "fval 0x40000000 = Some 2" "fval 0xC0400000 = Some (- 3)" "fval 0x40A00000 = Some 5" "fval 0x40E00000 = Some 7"
  "fval 0x40400000 = Some 3" "fval 0xBF800000 = Some (- 1)"
  by (simp_all add: fval_def f32_decode_def Let_def signed_mant_def pow2_def power_int_minus)

theorem gpu_matmul_fp32_exact_witness:
  "\<exists>g' ms' w. Gpu_execute_with_memory demo_lib demo_gpu
      (demo_gpu_mem [0x8000003C, 2, 1, 2, 0] [0x80000044, 2, 2, 1, 0] [0x8000004C, 1, 1, 1, 0]
        (word_bytes [0x40000000, 0xC0400000]) (word_bytes [0x40A00000, 0x40E00000]) 4) = Some (g', ms') \<and>
      ram_bytes ms' 0x8000004C (le_list 4 w) \<and> fval w = Some (- 11) \<and> gp_status g' = XPU_DONE"
proof -
  let ?da = "[0x8000003C, 2, 1, 2, 0] :: u32 list" and ?db = "[0x80000044, 2, 2, 1, 0] :: u32 list"
  let ?dc = "[0x8000004C, 1, 1, 1, 0] :: u32 list" and ?a = "[0x40000000, 0xC0400000] :: u32 list" and ?b = "[0x40A00000, 0x40E00000] :: u32 list"
  let ?X = "\<lambda>i :: nat. if i = 0 then 2 else - 3 :: int" and ?Y = "\<lambda>i :: nat. if i = 0 then 5 else 7 :: int"
  let ?ms = "demo_gpu_mem ?da ?db ?dc (word_bytes ?a) (word_bytes ?b) 4"
  note l = demo_layout [of ?da ?db ?dc "word_bytes ?a" "word_bytes ?b" 4]
  have t: "tensor_at ?ms 0x80000000 0x8000003C 2 (1, 2, 0)" "tensor_at ?ms 0x80000014 0x80000044 2 (2, 1, 0)"
    "tensor_at ?ms 0x80000028 0x8000004C 1 (1, 1, 0)" by (rule demo_tensors demo_tensors' demo_tensors''; simp)+
  have "gpu_matrices demo_gpu ?ms 0x8000003C 0x80000044 0x8000004C 1 2 1"
    unfolding gpu_matrices_def
  proof (intro conjI)
    show "\<exists>cnt s0 s1 s2. tensor_at ?ms (gp_input_desc_addrs demo_gpu ! 0) 0x8000003C cnt (s0, s1, s2) \<and> unat s0 = 1 \<and> unat s1 = 2"
      using t(1) by (intro exI [of _ 2] exI [of _ 1] exI [of _ 2] exI [of _ 0]) (simp add: demo_gpu_fields)
    show "\<exists>cnt s0 s1 s2. tensor_at ?ms (gp_input_desc_addrs demo_gpu ! 1) 0x80000044 cnt (s0, s1, s2) \<and> unat s1 = 1"
      using t(2) demo_gpu_fields(3) by (intro exI [of _ 2] exI [of _ 2] exI [of _ 1] exI [of _ 0]) simp
    show "\<exists>cnt s0 s1 s2. tensor_at ?ms (gp_output_desc_addrs demo_gpu ! 0) 0x8000004C cnt (s0, s1, s2)"
      using t(3) by (intro exI [of _ 1] exI [of _ 1] exI [of _ 1] exI [of _ 0]) (simp add: demo_gpu_fields)
    show "in_ram ?ms 0x8000004C (4 * (1 * 1))" using l(6) by simp
  qed (simp_all add: demo_gpu_fields KernelType_from_u32_def)
  moreover have "Precision_from_u32 (gp_precision demo_gpu) = Fp32" by (simp add: Precision_from_u32_def demo_gpu_fields)
  moreover have "ram_bytes ?ms 0x8000003C (word_bytes ?a)" "length ?a = 1 * 2" "integral ?a ?X"
    using l(4) by (simp_all add: integral_def less_Suc_eq demo_numbers)
  moreover have "ram_bytes ?ms 0x80000044 (word_bytes ?b)" "length ?b = 2 * 1" "integral ?b ?Y"
    using l(5) by (simp_all add: integral_def less_Suc_eq demo_numbers)
  moreover have "\<forall>i < 1. \<forall>j < 1. (\<Sum>p < 2. \<bar>?X (i * 2 + p) * ?Y (p * 1 + j)\<bar>) \<le> 2 ^ 24" by (simp add: numeral_2_eq_2)
  ultimately have "\<exists>g' ms' c. Gpu_execute_with_memory demo_lib demo_gpu ?ms = Some (g', ms') \<and> gpu_succeeded demo_gpu g' \<and>
      stored ?ms 0x8000004C (word_bytes c) ms' \<and> length c = 1 * 1 \<and>
      (\<forall>i < 1. \<forall>j < 1. fval (c ! (i * 1 + j)) = Some (of_int (\<Sum>p < 2. ?X (i * 2 + p) * ?Y (p * 1 + j))))"
    by (rule gpu_matmul_fp32_exact)
  then obtain g' ms' c where r: "Gpu_execute_with_memory demo_lib demo_gpu ?ms = Some (g', ms')" "gpu_succeeded demo_gpu g'"
    "stored ?ms 0x8000004C (word_bytes c) ms'" "length c = 1 * 1"
    "\<forall>i < 1. \<forall>j < 1. fval (c ! (i * 1 + j)) = Some (of_int (\<Sum>p < 2. ?X (i * 2 + p) * ?Y (p * 1 + j)))"
    by (elim exE conjE) (rule that, assumption+)
  obtain w where w: "c = [w]" using r(4) by (cases c) simp_all
  have "fval w = Some (- 11)" using r(5) by (simp add: w numeral_2_eq_2)
  moreover have "ram_bytes ms' 0x8000004C (le_list 4 w)" using r(3) by (simp add: w stored_def word_bytes_def)
  ultimately show ?thesis using r(1) demo_done [OF demo_gpu_fields(6,7) r(2)] by blast
qed

subsection \<open>A convolution with padding\<close>

text \<open>The image \<open>[3, 5]\<close>, padded with one zero on either side, under the kernel \<open>[2, -1]\<close>.\<close>

definition demo_conv_gpu :: gpu where
  "demo_conv_gpu = demo_gpu\<lparr>gp_kernel_type := 10, gp_conv_kernel_size := 0x00010002, gp_conv_stride := 0x00010001,
     gp_conv_padding := 1, gp_conv_input_dims := 0x00010002, gp_conv_channels := 0x00010001\<rparr>"

definition demo_conv :: conv_params where
  "demo_conv = \<lparr>cv_kh = 1, cv_kw = 2, cv_stride_h = 1, cv_stride_w = 1, cv_pad_h = 0, cv_pad_w = 1, cv_in_h = 1, cv_in_w = 2\<rparr>"

lemma demo_conv_params: "gpu_conv_params demo_conv_gpu = demo_conv"
  by (simp add: gpu_conv_params_def demo_conv_gpu_def demo_conv_def hi_half_def lo_half_def)

lemma demo_conv_geometry: "conv_fits demo_conv" "cv_out_h demo_conv = 1" "cv_out_w demo_conv = 3"
  by (simp_all add: conv_fits_def conv_small_def demo_conv_def cv_out_h_def cv_out_w_def conv_extent_def)

lemma below_three: "(\<forall>i < 3. P i) \<longleftrightarrow> P 0 \<and> P 1 \<and> P (2 :: nat)"
  by (auto simp: numeral_3_eq_3 less_Suc_eq numeral_2_eq_2)

definition demo_image :: "nat \<Rightarrow> nat \<Rightarrow> nat \<Rightarrow> int" where
  "demo_image c y x = (if x = 0 then 3 else 5)"

definition demo_weights :: "nat \<Rightarrow> nat \<Rightarrow> nat \<Rightarrow> nat \<Rightarrow> int" where
  "demo_weights co ci fh fw = (if fw = 0 then 2 else - 1)"

lemma demo_conv_spec:
  "conv_spec demo_conv 1 demo_image demo_weights 0 0 0 = - 3" "conv_spec demo_conv 1 demo_image demo_weights 0 0 1 = 1"
  "conv_spec demo_conv 1 demo_image demo_weights 0 0 2 = 10"
  by (simp_all add: conv_spec_def conv_term_def padded_def demo_conv_def demo_image_def demo_weights_def numeral_2_eq_2)

lemma demo_conv_weight: "\<forall>co < 1. \<forall>oh < 1. \<forall>ow < 3. conv_weight demo_conv 1 demo_image demo_weights co oh ow \<le> 2 ^ 24"
  by (simp add: below_three conv_weight_def conv_term_def padded_def demo_conv_def demo_image_def demo_weights_def numeral_2_eq_2)

theorem gpu_conv2d_exact_witness:
  "\<exists>g' ms' w0 w1 w2. Gpu_execute_with_memory demo_lib demo_conv_gpu
      (demo_gpu_mem [0x8000003C, 2, 1, 1, 2] [0x80000044, 2, 1, 1, 2] [0x8000004C, 3, 1, 1, 3]
        (word_bytes [0x40400000, 0x40A00000]) (word_bytes [0x40000000, 0xBF800000]) 12) = Some (g', ms') \<and>
      ram_bytes ms' 0x8000004C (word_bytes [w0, w1, w2]) \<and> fval w0 = Some (- 3) \<and> fval w1 = Some 1 \<and> fval w2 = Some 10"
proof -
  let ?da = "[0x8000003C, 2, 1, 1, 2] :: u32 list" and ?db = "[0x80000044, 2, 1, 1, 2] :: u32 list"
  let ?dc = "[0x8000004C, 3, 1, 1, 3] :: u32 list" and ?a = "[0x40400000, 0x40A00000] :: u32 list" and ?b = "[0x40000000, 0xBF800000] :: u32 list"
  let ?ms = "demo_gpu_mem ?da ?db ?dc (word_bytes ?a) (word_bytes ?b) 12"
  note l = demo_layout [of ?da ?db ?dc "word_bytes ?a" "word_bytes ?b" 12]
  have t: "tensor_at ?ms 0x80000000 0x8000003C 2 (1, 1, 2)" "tensor_at ?ms 0x80000014 0x80000044 2 (1, 1, 2)"
    "tensor_at ?ms 0x80000028 0x8000004C 3 (1, 1, 3)" by (rule demo_tensors demo_tensors' demo_tensors''; simp)+
  have f: "gp_input_desc_addrs demo_conv_gpu ! 0 = 0x80000000" "gp_input_desc_addrs demo_conv_gpu ! 1 = 0x80000014"
    "gp_output_desc_addrs demo_conv_gpu ! 0 = 0x80000028"
    using demo_gpu_fields(2,3,4) by (simp_all add: demo_conv_gpu_def)
  have ch: "hi_half (gp_conv_channels demo_conv_gpu) = 1" "lo_half (gp_conv_channels demo_conv_gpu) = 1"
    by (simp_all add: demo_conv_gpu_def hi_half_def lo_half_def)
  have k: "KernelType_from_u32 (gp_kernel_type demo_conv_gpu) = K_Conv2d" by (simp add: demo_conv_gpu_def KernelType_from_u32_def)
  have room: "in_ram ?ms 0x8000004C (4 * (lo_half (gp_conv_channels demo_conv_gpu) * cv_out_h (gpu_conv_params demo_conv_gpu)
      * cv_out_w (gpu_conv_params demo_conv_gpu)))"
    using l(6) by (simp add: ch demo_conv_params demo_conv_geometry)
  have imgs: "gpu_images demo_conv_gpu ?ms 0x8000003C 0x80000044 0x8000004C"
    unfolding gpu_images_def f using t room by blast
  have x: "ram_bytes ?ms 0x8000003C (word_bytes ?a)" "tensor3 ?a 1 (cv_in_h demo_conv) (cv_in_w demo_conv) demo_image"
    using l(4) by (simp_all add: tensor3_def demo_conv_def demo_image_def numeral_2_eq_2 less_Suc_eq demo_numbers)
  have w: "ram_bytes ?ms 0x80000044 (word_bytes ?b)" "tensor4 ?b 1 1 (cv_kh demo_conv) (cv_kw demo_conv) demo_weights"
    using l(5) by (simp_all add: tensor4_def demo_conv_def demo_weights_def numeral_2_eq_2 less_Suc_eq demo_numbers)
  have small: "\<forall>co < 1. \<forall>oh < cv_out_h demo_conv. \<forall>ow < cv_out_w demo_conv. conv_weight demo_conv 1 demo_image demo_weights co oh ow \<le> 2 ^ 24"
    unfolding demo_conv_geometry(2,3) by (rule demo_conv_weight)
  obtain g' ms' out where r: "Gpu_execute_with_memory demo_lib demo_conv_gpu ?ms = Some (g', ms')"
    "stored ?ms 0x8000004C (word_bytes out) ms'"
    "tensor3 out 1 (cv_out_h demo_conv) (cv_out_w demo_conv) (conv_spec demo_conv 1 demo_image demo_weights)"
    using gpu_conv2d_exact [OF k demo_conv_params [symmetric] demo_conv_geometry(1) ch(1) [symmetric] ch(2) [symmetric] zero_less_one
        zero_less_one imgs x w small, of demo_lib] by (elim exE conjE) (rule that, assumption+)
  have c: "length out = 3" "\<forall>i < 3. fval (out ! i) = Some (of_int (conv_spec demo_conv 1 demo_image demo_weights 0 0 i))"
    using r(3) by (simp_all add: tensor3_def demo_conv_geometry)
  obtain w0 w1 w2 where o': "out = [w0, w1, w2]" using c(1) by (auto simp: length_Suc_conv numeral_3_eq_3)
  have "fval w0 = Some (- 3)" "fval w1 = Some 1" "fval w2 = Some 10"
    using c(2) unfolding below_three demo_conv_spec o' by simp_all
  then show ?thesis using r(1,2) unfolding stored_def o' by blast
qed

subsection \<open>Bad geometries\<close>

theorem gpu_oversized_kernel_witness:
  "Gpu_kernel_conv2d_fp32 [f32_1] [f32_1, f32_1] 1 1 (demo_conv\<lparr>cv_kh := 2\<rparr>) = Some [] \<and>
   Gpu_kernel_conv2d_fp32 [f32_1] [f32_1, f32_1, f32_1] 1 1 (demo_conv\<lparr>cv_kh := 3\<rparr>) = None"
  using gpu_oversized_kernel [of "demo_conv\<lparr>cv_kh := 2\<rparr>" 1 1 "[f32_1]" "[f32_1, f32_1]" 1]
    gpu_oversized_kernel [of "demo_conv\<lparr>cv_kh := 3\<rparr>" 2 1 "[f32_1]" "[f32_1, f32_1, f32_1]" 1]
  by (simp add: demo_conv_def conv_small_def)

theorem gpu_bad_geometry_counts_done_witness:
  "\<exists>g'. Gpu_execute_with_memory demo_lib (Gpu_new\<lparr>gp_kernel_type := 10\<rparr>) [] = Some (g', []) \<and> gp_status g' = XPU_DONE \<and> gp_error_code g' = 3"
proof -
  let ?g = "Gpu_new\<lparr>gp_kernel_type := 10\<rparr>"
  have "KernelType_from_u32 (gp_kernel_type ?g) \<in> {K_Conv2d, K_Pool2dMax, K_Pool2dAvg}" by (simp add: KernelType_from_u32_def)
  moreover have "conv_degenerate (gpu_conv_params ?g)"
    by (simp add: Gpu_new_def Gpu_with_base_def gpu_conv_params_def conv_degenerate_def hi_half_def lo_half_def)
  moreover have "gp_status ?g = 0" "gp_control ?g = 0" by (simp_all add: Gpu_new_def Gpu_with_base_def XPU_IDLE_def)
  ultimately show ?thesis using gpu_bad_geometry_counts_done [of ?g demo_lib "[]"] demo_done by blast
qed

end
