(* ===== verification/Spec2Isabelle.thy ===== *)
theory Spec2Isabelle
  imports Decode_Instr Reg_File Csr_File Trap_Handling Clint_Timer Bus_Model Tlb_Model Perf_Collector Mmu_Walk Cache_Model Branch_Predictor Pipeline_Cpu Pipe_Correct Pipe_Front Pipe_Program Pipe_Faults Exec_Correct Exec_Types Pipe_Run Elf_Loader Npu_Correct Npu_Instruction Lpu_Correct Lpu_Instruction Virtio_Bus Gpu_Demo
begin

text \<open>
  \<^bold>\<open>myCPU\<close>, a simulator of a RISC-V RV32I computer written in Rust: a five-stage pipelined processor and a single-cycle
  executor, machine, supervisor and user mode, Sv32 paging with a TLB, caches, interrupt controllers, a serial port, a block
  device, and four accelerators that a program drives through memory-mapped registers or coprocessor instructions.  This
  development translates the logic of that program, file by file under \<open>src/src/\<close>, and proves what its parts promise.

  \<^bold>\<open>How the parts interact.\<close>  \<open>ElfLoader\<close> (\<open>loader/mod.rs\<close>) lays a program over the memory behind the \<open>Bus\<close>
  (\<open>memory/bus.rs\<close>).  The bus routes every byte to an accelerator control window, to the device whose window covers it, or
  to a region of RAM or ROM; after a byte stored to a device the device takes its turn on memory (\<open>try_execute_pending\<close>).
  \<open>PipelineCpu\<close> (\<open>cpu/pipeline/mod.rs\<close>) performs a cycle: interrupts, write-back, memory, execute, decode and fetch, in
  that order, each over latches written in the cycle before; it translates addresses through the TLB and the page-table walk
  and reads and writes memory through its two caches.  The trait method \<open>run\<close> (\<open>cpu/execution_model.rs\<close>) repeats cycles.
  \<open>instruction/execute.rs\<close> executes decoded instructions one at a time over the methods of \<open>Cpu\<close>.  The CLINT and the PLIC
  raise interrupts that the CSR file and the trap code deliver.

  \<^bold>\<open>Theories and the code they translate.\<close>
  \<^item> \<open>Prelude\<close>: words as Rust's unsigned integers, bits, masks, little-endian bytes, the lemma collections.
    \<open>Saturating\<close>: saturating arithmetic.  \<open>Core_Types\<close>: \<open>types.rs\<close> and \<open>error.rs\<close>, results and their bindings.
  \<^item> \<open>Decode_Instr\<close>: \<open>instruction/decoder.rs\<close>, \<open>format.rs\<close>, \<open>opcode.rs\<close>.  \<open>Reg_File\<close>: \<open>cpu/registers.rs\<close>, \<open>pc.rs\<close>,
    \<open>state.rs\<close>.  \<open>Csr_Regs\<close>, \<open>Perf_Counters\<close>, \<open>Csr_File\<close>, \<open>Trap_Handling\<close>: \<open>cpu/csr/\<close>.
  \<^item> \<open>Memory_Model\<close>: \<open>traits/memory.rs\<close>, \<open>memory/ram.rs\<close>, \<open>rom.rs\<close>.  \<open>Bus_Model\<close>: \<open>memory/bus.rs\<close>,
    \<open>traits/peripheral.rs\<close>, \<open>peripheral/input.rs\<close> and the bytes and words of \<open>peripheral/dma.rs\<close>.  \<open>Clint_Timer\<close>, \<open>Plic_Model\<close>:
    \<open>interrupt/\<close>.  \<open>Uart_Model\<close>: \<open>peripheral/uart.rs\<close>.
  \<^item> \<open>Tlb_Model\<close>, \<open>Mmu_Walk\<close>, \<open>Cache_Model\<close>, \<open>Perf_Collector\<close>: the files of those names under \<open>cpu/\<close>, and the translation path
    of \<open>cpu/pipeline/mod.rs\<close>.  \<open>Branch_Predictor\<close>: \<open>cpu/pipeline/predictor/\<close>.
  \<^item> \<open>Pipe_Regs\<close>, \<open>Pipe_Units\<close>, \<open>Pipe_Stages\<close>, \<open>Pipeline_Cpu\<close>: \<open>cpu/pipeline/\<close>, the record \<open>pipeline_cpu\<close> with the fields of
    \<open>PipelineCpu\<close> and \<open>PipelineCpu_clock\<close> as the composition of the numbered steps of \<open>clock\<close>.  \<open>Pipe_Correct\<close> (one
    cycle), \<open>Pipe_Front\<close> (the front end over any program, reachable states), \<open>Pipe_Program\<close> (runs of a program) and
    \<open>Pipe_Faults\<close> hold its theorems.  \<open>Pipe_Run\<close>: the run loop.
  \<^item> \<open>Executor\<close>: \<open>instruction/execute.rs\<close>.  \<open>Exec_Core\<close>: the contract of the core it runs on.  \<open>Exec_Correct\<close>, \<open>Exec_Types\<close>: its
    theorems.  \<open>Elf_Loader\<close>: \<open>loader/mod.rs\<close>.
  \<^item> \<open>Npu_Model\<close>, \<open>Lpu_Model\<close>, \<open>Virtio_Model\<close>, \<open>Tpu_Model\<close>, \<open>Gpu_Model\<close>: \<open>peripheral/npu.rs\<close>, \<open>lpu.rs\<close>, \<open>virtio_block.rs\<close>,
    \<open>tpu.rs\<close>, \<open>gpu.rs\<close>, each a record of the registers and queues with one definition per method.  \<open>Accel_Common\<close>:
    \<open>traits/accelerator.rs\<close> and the slices and tensor descriptors of \<open>peripheral/dma.rs\<close>.  \<open>Float32\<close>: the \<open>f32\<close> of the
    standard library.
  \<^item> \<open>Dma_Memory\<close>, \<open>Guest_Bytes\<close>, \<open>Accel_Slices\<close>: what device accesses do to the bytes behind the bus.  \<open>Npu_Correct\<close>,
    \<open>Npu_Instruction\<close>, \<open>Lpu_Correct\<close>, \<open>Lpu_Instruction\<close>, \<open>Virtio_Correct\<close>, \<open>Virtio_State\<close>, \<open>Virtio_Bus\<close>, \<open>Tpu_Correct\<close>,
    \<open>Gpu_Correct\<close>, \<open>Gpu_Conv\<close>, \<open>Gpu_Demo\<close>: the theorems of the devices.

  \<^bold>\<open>Interfaces.\<close>  \<open>byte_store\<close> (words over a store of bytes) is interpreted for RAM, the CLINT and the bus; \<open>register_file\<close> for the
  registers; \<open>direction_predictor\<close> for the four adaptive predictors; \<open>cpu_core\<close>, the contract of the executor's core, and \<open>trapping_core\<close>,
  which extends it by trap entry, for a core assembled from the modelled parts; \<open>coprocessor\<close>, the contract of the coprocessor instructions, for the NPU and the LPU;
  \<open>accel_port\<close>, the control and status registers of an accelerator, for the TPU and the GPU.

  \<^bold>\<open>What the lemmas show.\<close>
  \<^item> The processor: on a program of the instructions it handles, the pipeline refines a reference interpreter of the instruction
    set and keeps going, whatever its predictor says, since the branch target buffer knows targets of the program's branches and
    jumps only; the executor implements the same reference for RV32IM, and so the two engines agree.  Runs with a limit end.
    No instruction raises the privilege, and execution keeps the typing of the processor.  Traps into machine mode save what
    they must, and \<open>mret\<close> undoes them.  Decoding loses nothing and extends immediates correctly.  \<open>Pipe_Faults\<close> states where the pipeline departs from the
    instruction set.
  \<^item> Memory: words behind the bus, the page-table walk against Sv32, the caches against the flat memory they stand for, the
    image a loaded program leaves.
  \<^item> CSRs and interrupts: the CSR file is a family of masked registers behind an access check; a PLIC claim returns the best
    source in every reachable state.
  \<^item> Devices: a block request moves its data and completes its ring entries, and nothing else changes; the vector unit
    computes element by element, at once or by ticks alike; greedy, top-k and nucleus decoding choose the tokens they should;
    the matrix products and the convolution of the GPU and the TPU refine their definitions over the integers.
  A few theorems state behaviours that lose information or break a contract of the code: a dropped load, an interrupt that
  forgets the instructions in flight, a prediction that nothing checks, a precision register that is ignored, status bits that any store clears, a queue fault that leaves a device busy.

  \<^bold>\<open>Conventions.\<close>  Integers are words of their width and wrap, as in a release build; \<open>usize\<close> is a natural number where the
  inputs bound it, and taken modulo \<open>2 ^ 64\<close> where it can wrap.  \<open>result\<close> is \<open>sim_error + 'a\<close>; operations on a state return
  the result and the state, which keeps the changes made before an error.  \<open>None\<close> is a panic (a failed assertion, an index or
  a size out of range, \<open>unreachable!()\<close>), except in \<open>run_from\<close>, where it is a run that does not end; \<open>run_ends\<close> proves that a run
  with a limit returns.  Loops over ranges are structural on the list of indices; the two that are not (\<open>scan_bits\<close>, where each
  turn clears a bit of a word, and \<open>npu_tick_loop\<close>, where each turn spends budget or retires work) carry measures, so no
  definition uses fuel.

  \<^bold>\<open>Parameters.\<close>  The crate \<open>goblin\<close> is a record of its parsing functions (\<open>goblin\<close> in \<open>Elf_Loader\<close>).  The methods of \<open>Cpu\<close> are
  a record \<open>cpu_ops\<close>: \<open>cpu/mod.rs\<close> declares \<open>cpu/core.rs\<close>, which is not in the repository; the theorems hold for every core
  that keeps \<open>cpu_core\<close> or \<open>trapping_core\<close>, and \<open>plain_core\<close> is one: a stand-in that the witnesses use, and the two theorems about an
  accelerator instruction, for its registers, its program counter and its bus.  Devices other than the modelled ones on a bus are a record \<open>other_ops\<close>.
  \<open>f32\<close> arithmetic is IEEE binary32 with round to nearest even on bit patterns; every NaN an operation makes is the canonical
  quiet NaN, since Rust leaves its payload open; \<open>exp\<close>, \<open>tanh\<close>, the sign of zero that \<open>max\<close> and \<open>min\<close> choose and the start of an empty sum
  differ between platforms and are the parameter \<open>f32_lib\<close>.

  \<^bold>\<open>Not modelled.\<close>
  \<^item> \<open>debug/mod.rs\<close>, a GDB remote-protocol server, and \<open>difftest/\<close>, a client of QEMU's: asynchronous sockets around the missing
    core.
  \<^item> \<open>visualize/\<close> (an HTTP server and its JSON snapshots), \<open>perf/report.rs\<close> (ratios formatted as text), \<open>main.rs\<close> and \<open>lib.rs\<close>
    (arguments, threads, printing), and the methods that only feed them: the snapshots of the processor and the bus, display
    and debug formatting, floating-point rates.
  \<^item> Reading the ELF file from disk, running out of host memory, and the output callback of the serial port, which is a list
    of the bytes written.
  \<^item> The GPU and the TPU as devices on a modelled bus: their kernels can panic, for which a device's turn on the bus has no value;
    their theorems start at the device's own registers and memory.
\<close>

end
